(* ===== verification/IBC_Prelude.thy ===== *)
theory IBC_Prelude
  imports Main "HOL-Library.Word" "HOL-Library.Sublist" "HOL-Library.Char_ord"
begin

text \<open>
  Shared vocabulary of the development.

  A Go \<^verbatim>\<open>string\<close> and a Go \<^verbatim>\<open>[]byte\<close> are both sequences of bytes, so both are
  \<^typ>\<open>char list\<close> here (an Isabelle \<^typ>\<open>char\<close> is a byte) and the conversions
  between them are the identity. A \<^verbatim>\<open>uint64\<close> is a 64-bit word, which wraps
  around. A \<^verbatim>\<open>time.Time\<close> is the integer number of nanoseconds since the Unix
  epoch, a \<^verbatim>\<open>time.Duration\<close> an integer number of nanoseconds.

  The theory also models what the sources use of Go's standard library:
  \<^verbatim>\<open>strings\<close> (Split, Join, TrimSpace, HasPrefix, Contains), \<^verbatim>\<open>strconv\<close> (ParseUint,
  Itoa and the \<^verbatim>\<open>%d\<close> verb), and \<^verbatim>\<open>encoding/binary\<close>'s big-endian layout. The lemmas
  are the round trips and the injectivity facts that the identifier, path and
  height components need.
\<close>

type_synonym u64 = "64 word"
type_synonym bytes = "char list"

text \<open>
  The collections of the development: \<open>frame\<close> holds the equations saying which part of
  the state an operation leaves alone, \<open>go_std\<close> the simplification rules of the
  standard-library functions.
\<close>

named_theorems frame \<open>what an operation leaves unchanged\<close>
named_theorems go_std \<open>simplification rules for Go standard library functions\<close>

lemma unat_u64_less: "unat (w :: u64) < 2 ^ 64"
  using unsigned_less [of w, where 'a = nat] by simp

lemma unat_u64_minus_1: "unat (- 1 :: u64) = 2 ^ 64 - 1"
  by (simp add: unsigned_minus_1_eq_mask mask_eq_exp_minus_1)

text \<open>A 64-bit counter counts except at its top value.\<close>

lemma unat_u64_succ: "w \<noteq> - 1 \<Longrightarrow> unat (w + 1 :: u64) = unat w + 1"
proof -
  assume "w \<noteq> - 1"
  then have "unat w \<noteq> 2 ^ 64 - 1" using unat_u64_minus_1 by (metis word_unat_eq_iff)
  then have "unat w + 1 < 2 ^ 64" using unat_u64_less [of w] by simp
  then show ?thesis by (simp add: unat_word_ariths)
qed

subsection \<open>Results\<close>

text \<open>
  A fallible Go function returns an error or a value: the left summand is the error.
  \<open>is_ok\<close> is the test \<^verbatim>\<open>err == nil\<close>. Case distinctions on results are eliminated with
  \<open>sum.splits\<close>; these two rules turn a successful chain into its premises.
\<close>

definition is_ok :: "'e + 'a \<Rightarrow> bool" where
  "is_ok r = (case r of Inl _ \<Rightarrow> False | Inr _ \<Rightarrow> True)"

lemma is_ok_simps [simp]: "is_ok (Inl e) = False" "is_ok (Inr x) = True"
  by (simp_all add: is_ok_def)

lemma is_ok_iff: "is_ok r \<longleftrightarrow> (\<exists>x. r = Inr x)"
  by (cases r) auto

lemma case_result_Inr:
  "(case r of Inl e \<Rightarrow> Inl (g e) | Inr x \<Rightarrow> f x) = Inr y \<longleftrightarrow> (\<exists>x. r = Inr x \<and> f x = Inr y)"
  by (cases r) auto

lemma guard_Inr: "(if b then Inl e else r) = Inr x \<longleftrightarrow> \<not> b \<and> r = Inr x"
  by simp

lemma guard_Inr': "(if b then r else Inl e) = Inr x \<longleftrightarrow> b \<and> r = Inr x"
  by simp

lemma case_option_Inr:
  "(case m of None \<Rightarrow> Inl e | Some x \<Rightarrow> f x) = Inr y \<longleftrightarrow> (\<exists>x. m = Some x \<and> f x = Inr y)"
  by (cases m) auto

lemmas result_elims = case_result_Inr guard_Inr guard_Inr' case_option_Inr

subsection \<open>Decimal numbers: the \<open>%d\<close> verb, strconv.Itoa and strconv.ParseUint\<close>

definition digit :: "nat \<Rightarrow> char" where
  "digit n = char_of (48 + n mod 10)"

definition is_digit :: "char \<Rightarrow> bool" where
  "is_digit c = (48 \<le> (of_char c :: nat) \<and> (of_char c :: nat) \<le> 57)"

definition digit_val :: "char \<Rightarrow> nat" where
  "digit_val c = of_char c - 48"

fun show_nat :: "nat \<Rightarrow> string" where
  "show_nat n = (if n < 10 then [digit n] else show_nat (n div 10) @ [digit n])"

declare show_nat.simps [simp del]

definition show_u64 :: "u64 \<Rightarrow> string" where
  "show_u64 w = show_nat (unat w)"

definition show_int :: "int \<Rightarrow> string" where
  "show_int i = (if i < 0 then CHR ''-'' # show_nat (nat (- i)) else show_nat (nat i))"

text \<open>\<^verbatim>\<open>strconv.Itoa(int(w))\<close>: a value of \<open>2 ^ 63\<close> or more turns negative.\<close>

definition itoa_u64 :: "u64 \<Rightarrow> string" where
  "itoa_u64 w = show_int (sint w)"

definition read_nat :: "string \<Rightarrow> nat" where
  "read_nat s = foldl (\<lambda>n c. 10 * n + digit_val c) 0 s"

text \<open>\<^verbatim>\<open>strconv.ParseUint(s, 10, 64)\<close>: \<open>None\<close> is its syntax or range error.\<close>

definition parse_uint64 :: "string \<Rightarrow> u64 option" where
  "parse_uint64 s =
     (if s \<noteq> [] \<and> list_all is_digit s \<and> read_nat s < 2 ^ 64 then Some (of_nat (read_nat s)) else None)"

text \<open>Evaluation reads the digits into a binary integer.\<close>

definition read_int :: "string \<Rightarrow> int" where
  "read_int s = foldl (\<lambda>n c. 10 * n + int (digit_val c)) 0 s"

lemma read_int_nat: "read_int s = int (read_nat s)"
  by (induction s rule: rev_induct) (simp_all add: read_int_def read_nat_def)

lemma parse_uint64_code [code]:
  "parse_uint64 s =
     (if s \<noteq> [] \<and> list_all is_digit s \<and> read_int s < 18446744073709551616 then Some (word_of_int (read_int s)) else None)"
  by (simp add: parse_uint64_def read_int_nat)

lemma of_char_digit: "(of_char (digit n) :: nat) = 48 + n mod 10"
proof -
  have "48 + n mod 10 < (256 :: nat)" by arith
  then show ?thesis by (simp add: digit_def)
qed

lemma digit_val_digit [simp]: "digit_val (digit n) = n mod 10"
  by (simp add: digit_val_def of_char_digit)

lemma is_digit_digit [simp]: "is_digit (digit n)"
proof -
  have "n mod 10 \<le> 9" by arith
  then show ?thesis by (simp add: is_digit_def of_char_digit)
qed

lemma show_nat_ne [simp]: "show_nat n \<noteq> []"
  by (subst show_nat.simps) simp

lemma list_all_digit_show_nat [simp]: "list_all is_digit (show_nat n)"
proof (induction n rule: show_nat.induct)
  case (1 n)
  then show ?case by (subst show_nat.simps) simp
qed

lemma read_nat_snoc: "read_nat (s @ [c]) = 10 * read_nat s + digit_val c"
  by (simp add: read_nat_def)

lemma read_show_nat [simp]: "read_nat (show_nat n) = n"
proof (induction n rule: show_nat.induct)
  case (1 n)
  show ?case
  proof (cases "n < 10")
    case True
    then show ?thesis by (subst show_nat.simps) (simp add: read_nat_def)
  next
    case False
    then have "read_nat (show_nat (n div 10)) = n div 10" by (rule "1.IH")
    with False show ?thesis by (subst show_nat.simps) (simp add: read_nat_snoc)
  qed
qed

lemma show_nat_inj [simp]: "show_nat m = show_nat n \<longleftrightarrow> m = n"
  using read_show_nat by metis

lemma show_u64_inj [simp]: "show_u64 v = show_u64 w \<longleftrightarrow> v = w"
  by (simp add: show_u64_def word_unat_eq_iff)

lemma show_u64_ne [simp]: "show_u64 w \<noteq> []"
  by (simp add: show_u64_def)

lemma list_all_digit_show_u64 [simp]: "list_all is_digit (show_u64 w)"
  by (simp add: show_u64_def)

lemma parse_show_u64 [go_std]: "parse_uint64 (show_u64 w) = Some w"
proof -
  have "unat w < 2 ^ 64" by (rule unat_u64_less)
  then show ?thesis by (simp add: parse_uint64_def show_u64_def)
qed

lemma hd_show_nat: "0 < n \<Longrightarrow> hd (show_nat n) \<noteq> CHR ''0''"
proof (induction n rule: show_nat.induct)
  case (1 n)
  show ?case
  proof (cases "n < 10")
    case True
    have "(of_char (digit n) :: nat) \<noteq> of_char (CHR ''0'')"
      using True "1.prems" by (simp add: of_char_digit)
    with True show ?thesis by (subst show_nat.simps) auto
  next
    case False
    with "1.IH" show ?thesis by (subst show_nat.simps) (simp add: hd_append)
  qed
qed

text \<open>Below \<open>2 ^ 63\<close> the conversion through a signed integer is harmless.\<close>

lemma itoa_u64_small: "unat w < 2 ^ 63 \<Longrightarrow> itoa_u64 w = show_u64 w"
proof -
  assume "unat w < 2 ^ 63"
  moreover have "uint w = int (unat w)" by simp
  ultimately have "uint w < 2 ^ 63" by (metis of_nat_less_numeral_power_cancel_iff)
  moreover have "- (2 ^ 63) \<le> uint w" by (rule order_trans [of _ 0]) simp_all
  ultimately have "sint w = uint w" by (simp add: sint_uint signed_take_bit_int_eq_self_iff)
  then have "sint w = int (unat w)" by simp
  then show ?thesis by (simp add: itoa_u64_def show_int_def show_u64_def)
qed

lemma not_digit_sep: "\<not> is_digit (CHR ''-'')" "\<not> is_digit (CHR ''/'')"
  by (simp_all add: is_digit_def)

lemma digits_no_dash: "list_all is_digit s \<Longrightarrow> CHR ''-'' \<notin> set s"
  using not_digit_sep by (auto simp: list_all_iff)

lemma digits_no_slash: "list_all is_digit s \<Longrightarrow> CHR ''/'' \<notin> set s"
  using not_digit_sep by (auto simp: list_all_iff)

lemma show_u64_no_sep [simp]: "CHR ''-'' \<notin> set (show_u64 w)" "CHR ''/'' \<notin> set (show_u64 w)"
  using digits_no_dash digits_no_slash list_all_digit_show_u64 by blast+

text \<open>A decimal of at most \<open>k\<close> digits is below \<open>10 ^ k\<close>, and a \<^typ>\<open>u64\<close> has at most 20.\<close>

lemma length_show_nat_le: "n < 10 ^ k \<Longrightarrow> 0 < k \<Longrightarrow> length (show_nat n) \<le> k"
proof (induction n arbitrary: k rule: show_nat.induct)
  case (1 n)
  show ?case
  proof (cases "n < 10")
    case True
    with "1.prems" show ?thesis by (subst show_nat.simps) simp
  next
    case False
    have "k \<noteq> 1" using False "1.prems" by auto
    then obtain j where j: "k = Suc j" "0 < j"
      using "1.prems" by (cases k) auto
    then have "n div 10 < 10 ^ j" using "1.prems" by (simp add: less_mult_imp_div_less mult.commute)
    then have "length (show_nat (n div 10)) \<le> j" using "1.IH" [OF False] j by blast
    with False j show ?thesis by (subst show_nat.simps) simp
  qed
qed

lemma length_show_u64: "length (show_u64 w) \<le> 20"
proof -
  have "unat w < 2 ^ 64" by (rule unat_u64_less)
  then have "unat w < 10 ^ 20" by simp
  then show ?thesis unfolding show_u64_def by (rule length_show_nat_le) simp
qed

subsection \<open>The strings package\<close>

text \<open>\<^verbatim>\<open>strings.Split(s, sep)\<close> for a separator of one byte.\<close>

fun split_on :: "char \<Rightarrow> string \<Rightarrow> string list" where
  "split_on c [] = [[]]"
| "split_on c (x # xs) =
     (if x = c then [] # split_on c xs
      else case split_on c xs of [] \<Rightarrow> [[x]] | y # ys \<Rightarrow> (x # y) # ys)"

text \<open>\<^verbatim>\<open>strings.Split(s, sep)\<close> for any non-empty separator: \<open>cur\<close> collects the current piece.\<close>

function split_str_from :: "string \<Rightarrow> string \<Rightarrow> string \<Rightarrow> string list" where
  "split_str_from sep cur [] = [cur]"
| "split_str_from sep cur (x # xs) =
     (if sep \<noteq> [] \<and> prefix sep (x # xs) then cur # split_str_from sep [] (drop (length sep) (x # xs))
      else split_str_from sep (cur @ [x]) xs)"
  by pat_completeness auto
termination
  by (relation "measure (\<lambda>(sep, cur, s). length s)") (auto simp: prefix_def neq_Nil_conv)

definition split_str :: "string \<Rightarrow> string \<Rightarrow> string list" where
  "split_str sep s = split_str_from sep [] s"

text \<open>\<^verbatim>\<open>strings.Join(xs, "c")\<close> for a separator of one byte.\<close>

fun join_with :: "char \<Rightarrow> string list \<Rightarrow> string" where
  "join_with c [] = []"
| "join_with c [x] = x"
| "join_with c (x # y # xs) = x @ c # join_with c (y # xs)"

text \<open>
  \<open>all_space s\<close> is the test \<^verbatim>\<open>strings.TrimSpace(s) == ""\<close>: every rune of \<open>s\<close> has
  Unicode's White\_Space property. The multi-byte cases are the UTF-8 encodings of
  U+0085, U+00A0, U+1680, U+2000--U+200A, U+2028, U+2029, U+202F, U+205F and U+3000.
\<close>

definition ascii_space :: "char \<Rightarrow> bool" where
  "ascii_space c = ((of_char c :: nat) \<in> {9, 10, 11, 12, 13, 32})"

definition space2 :: "char \<Rightarrow> char \<Rightarrow> bool" where
  "space2 a b = ((of_char a :: nat) = 194 \<and> (of_char b :: nat) \<in> {133, 160})"

definition space3 :: "char \<Rightarrow> char \<Rightarrow> char \<Rightarrow> bool" where
  "space3 a b c =
     (let x = (of_char a :: nat); y = (of_char b :: nat); z = (of_char c :: nat) in
      (x = 225 \<and> y = 154 \<and> z = 128) \<or>
      (x = 226 \<and> y = 128 \<and> (128 \<le> z \<and> z \<le> 138 \<or> z \<in> {168, 169, 175})) \<or>
      (x = 226 \<and> y = 129 \<and> z = 159) \<or>
      (x = 227 \<and> y = 128 \<and> z = 128))"

fun all_space :: "string \<Rightarrow> bool" where
  "all_space [] = True"
| "all_space [a] = ascii_space a"
| "all_space [a, b] =
     (if ascii_space a then ascii_space b else space2 a b)"
| "all_space (a # b # c # s) =
     (if ascii_space a then all_space (b # c # s)
      else if space2 a b then all_space (c # s)
      else space3 a b c \<and> all_space s)"

lemma split_on_ne [simp]: "split_on c s \<noteq> []"
  by (induction s) (auto split: list.splits)

lemma split_on_no_sep: "c \<notin> set s \<Longrightarrow> split_on c s = [s]"
  by (induction s) auto

lemma split_on_append: "c \<notin> set s \<Longrightarrow> split_on c (s @ c # t) = s # split_on c t"
  by (induction s) auto

lemma split_on_length: "length (split_on c s) = Suc (count_list s c)"
  by (induction s) (auto split: list.splits)

lemma split_on_pieces: "p \<in> set (split_on c s) \<Longrightarrow> c \<notin> set p"
  by (induction s arbitrary: p) (auto split: list.splits if_splits)

lemma join_split [go_std]: "join_with c (split_on c s) = s"
proof (induction s)
  case Nil
  then show ?case by simp
next
  case (Cons x s)
  obtain y ys where y: "split_on c s = y # ys" by (cases "split_on c s") auto
  show ?case using Cons.IH y by (cases ys) auto
qed

lemma split_join:
  "xs \<noteq> [] \<Longrightarrow> (\<And>x. x \<in> set xs \<Longrightarrow> c \<notin> set x) \<Longrightarrow> split_on c (join_with c xs) = xs"
proof (induction c xs rule: join_with.induct)
  case (1 c)
  then show ?case by simp
next
  case (2 c x)
  then show ?case by (simp add: split_on_no_sep)
next
  case (3 c x y xs)
  then show ?case by (simp add: split_on_append)
qed

text \<open>Two joined pairs agree only when their parts do: what makes a path with separators injective.\<close>

lemma append_sep_inject:
  fixes a b :: string
  assumes "c \<notin> set a" and "c \<notin> set b"
  shows "a @ c # x = b @ c # y \<longleftrightarrow> a = b \<and> x = y"
proof
  assume eq: "a @ c # x = b @ c # y"
  have "split_on c (a @ c # x) = a # split_on c x" "split_on c (b @ c # y) = b # split_on c y"
    using assms by (simp_all add: split_on_append)
  with eq have "a = b" by simp
  with eq show "a = b \<and> x = y" by simp
qed simp

text \<open>The last separator of a string: what precedes it and what follows it.\<close>

definition rsplit_on :: "char \<Rightarrow> string \<Rightarrow> (string \<times> string) option" where
  "rsplit_on c s =
     (if c \<in> set s then Some (join_with c (butlast (split_on c s)), last (split_on c s)) else None)"

lemma join_with_snoc: "xs \<noteq> [] \<Longrightarrow> join_with c (xs @ [y]) = join_with c xs @ c # y"
  by (induction c xs rule: join_with.induct) auto

lemma split_on_snoc: "c \<notin> set t \<Longrightarrow> split_on c (s @ c # t) = split_on c s @ [t]"
proof (induction s)
  case Nil
  then show ?case by (simp add: split_on_no_sep)
next
  case (Cons x s)
  obtain y ys where "split_on c s = y # ys" by (cases "split_on c s") auto
  with Cons show ?case by auto
qed

lemma rsplit_on_snoc: "c \<notin> set t \<Longrightarrow> rsplit_on c (s @ c # t) = Some (s, t)"
  by (simp add: rsplit_on_def split_on_snoc join_split)

lemma rsplit_on_SomeD: "rsplit_on c s = Some (a, b) \<Longrightarrow> s = a @ c # b \<and> c \<notin> set b"
proof -
  assume r: "rsplit_on c s = Some (a, b)"
  then have c: "c \<in> set s" by (auto simp: rsplit_on_def split: if_splits)
  let ?xs = "split_on c s"
  from c have "1 < length ?xs" by (simp add: split_on_length count_list_0_iff neq0_conv [symmetric])
  then have ne: "butlast ?xs \<noteq> []" by (metis Suc_less_eq length_butlast length_greater_0_conv
        less_diff_conv plus_1_eq_Suc add.commute length_0_conv not_less0 One_nat_def)
  have "s = join_with c (butlast ?xs @ [last ?xs])" by (simp add: join_split)
  also have "\<dots> = a @ c # b" using r c ne by (simp add: rsplit_on_def join_with_snoc)
  finally have "s = a @ c # b" .
  moreover have "c \<notin> set b"
    using r c split_on_pieces [of "last ?xs" c s] by (auto simp: rsplit_on_def)
  ultimately show ?thesis by simp
qed

subsection \<open>Splitting at a longer separator\<close>

lemma split_str_from_no_sep:
  "sep \<noteq> [] \<Longrightarrow> (\<And>i. i < length s \<Longrightarrow> \<not> prefix sep (drop i s)) \<Longrightarrow> split_str_from sep cur s = [cur @ s]"
proof (induction s arbitrary: cur)
  case Nil
  then show ?case by simp
next
  case (Cons x xs)
  have "\<not> prefix sep (x # xs)" using Cons.prems(2) [of 0] by simp
  moreover have "\<not> prefix sep (drop i xs)" if "i < length xs" for i
    using Cons.prems(2) [of "Suc i"] that by simp
  ultimately show ?case using Cons.IH [of "cur @ [x]"] Cons.prems(1) by simp
qed

text \<open>A separator followed by text in which its last byte does not occur is found exactly once.\<close>

lemma split_str_prefix:
  assumes "sep \<noteq> []" and "last sep \<notin> set s"
  shows "split_str sep (sep @ s) = [[], s]"
proof -
  have no: "\<not> prefix sep (drop i s)" for i
  proof
    assume "prefix sep (drop i s)"
    then have "set sep \<subseteq> set (drop i s)" by (rule set_mono_prefix)
    with assms show False by (meson in_set_dropD last_in_set subsetD)
  qed
  have "split_str_from sep [] s = [[] @ s]"
    by (rule split_str_from_no_sep) (use assms no in auto)
  moreover have "split_str_from sep [] (sep @ s) = [] # split_str_from sep [] s"
    using assms by (cases sep) (auto simp: prefix_def)
  ultimately show ?thesis by (simp add: split_str_def)
qed

subsection \<open>Big-endian encoding of a 64-bit word\<close>

definition byte_of :: "u64 \<Rightarrow> nat \<Rightarrow> char" where
  "byte_of w i = char_of (unat w div 256 ^ i mod 256)"

text \<open>\<^verbatim>\<open>sdk.Uint64ToBigEndian\<close> and \<^verbatim>\<open>binary.BigEndian.PutUint64\<close>.\<close>

definition u64_be :: "u64 \<Rightarrow> bytes" where
  "u64_be w = map (byte_of w) [7, 6, 5, 4, 3, 2, 1, 0]"

primrec be_nat :: "bytes \<Rightarrow> nat" where
  "be_nat [] = 0"
| "be_nat (c # bs) = of_char c * 256 ^ length bs + be_nat bs"

text \<open>\<^verbatim>\<open>binary.BigEndian.Uint64\<close> on eight bytes.\<close>

definition be_u64 :: "bytes \<Rightarrow> u64" where
  "be_u64 bs = of_nat (be_nat bs)"

text \<open>The byte taken on the word itself, which is how it is evaluated.\<close>

lemma byte_of_code [code]: "byte_of w i = char_of (unat (take_bit 8 (drop_bit (8 * i) w)))"
proof -
  have "take_bit 64 (unat w) = unat w"
    using unat_u64_less [of w] by (simp add: take_bit_nat_eq_self)
  then have "unat (take_bit 8 (drop_bit (8 * i) w)) = take_bit 8 (drop_bit (8 * i) (unat w))"
    by (simp only: unsigned_take_bit_eq unsigned_drop_bit_eq) simp
  also have "\<dots> = unat w div 256 ^ i mod 256"
    by (simp add: take_bit_eq_mod drop_bit_eq_div power_mult)
  finally show ?thesis by (simp only: byte_of_def)
qed

lemma length_u64_be [simp]: "length (u64_be w) = 8"
  by (simp add: u64_be_def)

lemma of_char_byte_of: "(of_char (byte_of w i) :: nat) = unat w div 256 ^ i mod 256"
  by (simp add: byte_of_def)

lemma be_nat_digits: "be_nat (map (\<lambda>i. char_of (n div 256 ^ i mod 256)) (rev [0..<k])) = n mod 256 ^ k"
proof (induction k)
  case 0
  then show ?case by simp
next
  case (Suc k)
  have "n mod 256 ^ Suc k = 256 ^ k * (n div 256 ^ k mod 256) + n mod 256 ^ k"
    by (simp add: mod_mult2_eq mult.commute [of 256])
  with Suc show ?case by (simp add: algebra_simps)
qed

lemma be_nat_u64_be: "be_nat (u64_be w) = unat w"
proof -
  have "rev [0..<8] = [7, 6, 5, 4, 3, 2, 1, 0 :: nat]" by (simp add: upt_rec)
  then have "u64_be w = map (\<lambda>i. char_of (unat w div 256 ^ i mod 256)) (rev [0..<8])"
    by (simp add: u64_be_def byte_of_def)
  moreover have "unat w < 256 ^ 8" using unat_u64_less [of w] by simp
  ultimately show ?thesis by (simp only: be_nat_digits mod_less)
qed

lemma be_u64_u64_be [go_std]: "be_u64 (u64_be w) = w"
  by (simp add: be_u64_def be_nat_u64_be)

lemma u64_be_inj [simp]: "u64_be v = u64_be w \<longleftrightarrow> v = w"
  using be_u64_u64_be by metis

text \<open>The order in which a store iterates over its keys (\<^verbatim>\<open>bytes.Compare\<close>).\<close>

fun bytes_less :: "bytes \<Rightarrow> bytes \<Rightarrow> bool" where
  "bytes_less _ [] = False"
| "bytes_less [] (_ # _) = True"
| "bytes_less (a # as) (b # bs) = ((of_char a :: nat) < of_char b \<or> a = b \<and> bytes_less as bs)"

lemma be_nat_less: "be_nat bs < 256 ^ length bs"
proof (induction bs)
  case Nil
  then show ?case by simp
next
  case (Cons c bs)
  have c: "of_char c + 1 \<le> (256 :: nat)" using nat_of_char_less_256 [of c] by linarith
  have "be_nat (c # bs) < (of_char c + 1) * 256 ^ length bs" using Cons.IH by (simp add: algebra_simps)
  also have "\<dots> \<le> 256 * 256 ^ length bs" using c by (rule mult_right_mono) simp
  finally show ?case by simp
qed

lemma digit_less:
  fixes a b x y B :: nat
  assumes "x < B" and "y < B"
  shows "a * B + x < b * B + y \<longleftrightarrow> a < b \<or> a = b \<and> x < y"
proof (cases a b rule: linorder_cases)
  case less
  then have "(a + 1) * B \<le> b * B" by (intro mult_right_mono) simp_all
  with assms less show ?thesis by (simp add: algebra_simps)
next
  case greater
  then have "(b + 1) * B \<le> a * B" by (intro mult_right_mono) simp_all
  with assms greater show ?thesis by (simp add: algebra_simps)
qed simp

text \<open>On encodings of the same length it is the numerical order.\<close>

lemma bytes_less_be_nat: "length as = length bs \<Longrightarrow> bytes_less as bs \<longleftrightarrow> be_nat as < be_nat bs"
proof (induction as bs rule: bytes_less.induct)
  case (3 a as b bs)
  then have "bytes_less as bs \<longleftrightarrow> be_nat as < be_nat bs" by simp
  moreover have "be_nat as < 256 ^ length bs" "be_nat bs < 256 ^ length bs"
    using "3.prems" be_nat_less [of as] be_nat_less [of bs] by simp_all
  ultimately show ?case using "3.prems" by (simp add: digit_less)
qed simp_all

lemma bytes_less_prefix: "bytes_less (p @ a) (p @ b) \<longleftrightarrow> bytes_less a b"
  by (induction p) simp_all

lemma bytes_less_append:
  "length a = length b \<Longrightarrow> bytes_less (a @ x) (b @ y) \<longleftrightarrow> bytes_less a b \<or> a = b \<and> bytes_less x y"
  by (induction a b rule: list_induct2) auto

subsection \<open>Maps\<close>

lemma map_upd_delete [simp]: "(m(k \<mapsto> v))(k := None) = m(k := None)"
  by simp

end
