(* ===== verification/IBC_Errors.thy ===== *)
theory IBC_Errors
  imports IBC_Prelude
begin

text \<open>
  The sentinel errors of every module, one datatype per \<^verbatim>\<open>errors.go\<close>, and the sum of
  them that a modelled operation returns. Wrapping an error with a message
  (\<^verbatim>\<open>sdkerrors.Wrap\<close>) keeps its identity, so messages are left out. \<open>External\<close> is an
  error value produced by code outside the repository (a keeper of the SDK, the codec,
  a Tendermint verifier), and \<open>Panic\<close> is a Go panic, which aborts the transaction.
  A constructor carries its module's prefix where two modules use the same name.
\<close>

datatype host_error =
  ErrInvalidID | ErrInvalidPath | host_ErrInvalidPacket

datatype client_error =
    ErrClientExists | ErrInvalidClient | ErrClientNotFound | ErrClientFrozen
  | ErrInvalidClientMetadata | ErrConsensusStateNotFound | ErrInvalidConsensus
  | ErrClientTypeNotFound | ErrInvalidClientType | ErrRootNotFound | ErrInvalidHeader
  | ErrInvalidMisbehaviour | ErrFailedClientStateVerification
  | ErrFailedClientConsensusStateVerification | ErrFailedConnectionStateVerification
  | ErrFailedChannelStateVerification | ErrFailedPacketCommitmentVerification
  | ErrFailedPacketAckVerification | ErrFailedPacketReceiptVerification
  | ErrFailedNextSeqRecvVerification | ErrSelfConsensusStateNotFound | ErrUpdateClientFailed
  | ErrInvalidUpdateClientProposal | ErrInvalidUpgradeClient | ErrInvalidHeight
  | ErrInvalidSubstitute | ErrInvalidUpgradeProposal | ErrClientNotActive

datatype connection_error =
    ErrConnectionExists | ErrConnectionNotFound | ErrClientConnectionPathsNotFound
  | ErrConnectionPath | ErrInvalidConnectionState | conn_ErrInvalidCounterparty
  | ErrInvalidConnection | conn_ErrInvalidVersion | ErrVersionNegotiationFailed
  | ErrInvalidConnectionIdentifier

datatype channel_error =
    ErrChannelExists | ErrChannelNotFound | ErrInvalidChannel | ErrInvalidChannelState
  | ErrInvalidChannelOrdering | chan_ErrInvalidCounterparty | ErrInvalidChannelCapability
  | ErrChannelCapabilityNotFound | ErrSequenceSendNotFound | ErrSequenceReceiveNotFound
  | ErrSequenceAckNotFound | ErrInvalidPacket | ErrPacketTimeout | ErrTooManyConnectionHops
  | ErrInvalidAcknowledgement | ErrAcknowledgementExists | ErrInvalidChannelIdentifier
  | ErrPacketReceived | ErrPacketCommitmentNotFound | ErrPacketSequenceOutOfOrder
  | ErrRedundantTx | ErrNoOpMsg | ErrInvalidChannelVersion

datatype port_error =
  ErrPortExists | ErrPortNotFound | ErrInvalidPort | port_ErrInvalidRoute

datatype commitment_error =
  ErrInvalidProof | ErrInvalidPrefix | ErrInvalidMerkleProof

datatype solomachine_error =
    solo_ErrInvalidHeader | solo_ErrInvalidSequence | ErrInvalidSignatureAndData
  | ErrSignatureVerificationFailed | solo_ErrInvalidProof | ErrInvalidDataType

datatype tendermint_error =
    tm_ErrInvalidChainID | ErrInvalidTrustingPeriod | ErrInvalidUnbondingPeriod
  | ErrInvalidHeaderHeight | tm_ErrInvalidHeader | ErrInvalidMaxClockDrift
  | ErrProcessedTimeNotFound | ErrProcessedHeightNotFound | ErrDelayPeriodNotPassed
  | ErrTrustingPeriodExpired | ErrUnbondingPeriodExpired | ErrInvalidProofSpecs
  | ErrInvalidValidatorSet

datatype transfer_error =
    ErrInvalidPacketTimeout | ErrInvalidDenomForTransfer | transfer_ErrInvalidVersion
  | ErrInvalidAmount | ErrTraceNotFound | ErrSendDisabled | ErrReceiveDisabled
  | ErrMaxTransferChannels

datatype ica_error =
    ErrUnknownDataType | ErrAccountAlreadyExist | ErrPortAlreadyBound | ErrInvalidChannelFlow
  | ErrInvalidOutgoingData | ica_ErrInvalidRoute | ErrInterchainAccountNotFound
  | ErrInterchainAccountAlreadySet | ErrActiveChannelNotFound | ica_ErrInvalidVersion
  | ErrInvalidAccountAddress | ErrUnsupported
  | ErrControllerSubModuleDisabled | ErrHostSubModuleDisabled

datatype sdk_error =
    ErrInsufficientFunds | ErrInvalidAddress | sdk_ErrInvalidChainID | ErrInvalidCoins
  | sdk_ErrInvalidHeight | ErrInvalidRequest | sdk_ErrInvalidSequence | ErrInvalidType
  | sdk_ErrInvalidVersion | ErrNotFound | ErrPackAny | ErrUnauthorized | ErrUnknownRequest
  | ErrUnpackAny

datatype error =
    HostE host_error | ClientE client_error | ConnectionE connection_error
  | ChannelE channel_error | PortE port_error | CommitmentE commitment_error
  | SolomachineE solomachine_error | TendermintE tendermint_error
  | TransferE transfer_error | IcaE ica_error | SdkE sdk_error
  | External string
  | Panic

type_synonym 'a result = "error + 'a"

end
