(* ===== verification/Host.thy ===== *)
theory Host
  imports IBC_Errors
begin

text \<open>
  ICS-24 host requirements (\<^verbatim>\<open>modules/core/24-host\<close>): identifier validation
  (\<^verbatim>\<open>validate.go\<close>), the store paths (\<^verbatim>\<open>keys.go\<close>) and the path and identifier parsers
  (\<^verbatim>\<open>parse.go\<close>). A key (\<^verbatim>\<open>[]byte\<close>) and its path (\<^verbatim>\<open>string\<close>) are the same bytes, so each
  \<^verbatim>\<open>...Key\<close> function is its \<^verbatim>\<open>...Path\<close> function.

  The lemmas show that identifiers which pass validation hold no separator, that the
  paths of the different kinds of entry never coincide, that each path determines its
  identifiers, and that the parsers invert the path builders.
\<close>

subsection \<open>Identifier validation (validate.go)\<close>

definition DefaultMaxCharacterLength :: nat where
  "DefaultMaxCharacterLength = 64"

definition DefaultMaxPortCharacterLength :: nat where
  "DefaultMaxPortCharacterLength = 128"

definition is_alphanumeric :: "char \<Rightarrow> bool" where
  "is_alphanumeric c =
     (let n = (of_char c :: nat) in 48 \<le> n \<and> n \<le> 57 \<or> 65 \<le> n \<and> n \<le> 90 \<or> 97 \<le> n \<and> n \<le> 122)"

definition is_id_char :: "char \<Rightarrow> bool" where
  "is_id_char c = (is_alphanumeric c \<or> c \<in> set ''._+-#[]<>'')"

definition IsValidID :: "string \<Rightarrow> bool" where
  "IsValidID s = (s \<noteq> [] \<and> list_all is_id_char s)"

definition defaultIdentifierValidator :: "string \<Rightarrow> nat \<Rightarrow> nat \<Rightarrow> unit result" where
  "defaultIdentifierValidator ident mn mx =
     (if all_space ident then Inl (HostE ErrInvalidID)
      else if CHR ''/'' \<in> set ident then Inl (HostE ErrInvalidID)
      else if length ident < mn \<or> length ident > mx then Inl (HostE ErrInvalidID)
      else if \<not> IsValidID ident then Inl (HostE ErrInvalidID)
      else Inr ())"

definition ClientIdentifierValidator :: "string \<Rightarrow> unit result" where
  "ClientIdentifierValidator ident = defaultIdentifierValidator ident 9 DefaultMaxCharacterLength"

definition ConnectionIdentifierValidator :: "string \<Rightarrow> unit result" where
  "ConnectionIdentifierValidator ident = defaultIdentifierValidator ident 10 DefaultMaxCharacterLength"

definition ChannelIdentifierValidator :: "string \<Rightarrow> unit result" where
  "ChannelIdentifierValidator ident = defaultIdentifierValidator ident 8 DefaultMaxCharacterLength"

definition PortIdentifierValidator :: "string \<Rightarrow> unit result" where
  "PortIdentifierValidator ident = defaultIdentifierValidator ident 2 DefaultMaxPortCharacterLength"

lemmas identifier_validators =
  ClientIdentifierValidator_def ConnectionIdentifierValidator_def
  ChannelIdentifierValidator_def PortIdentifierValidator_def

fun validate_path_elements :: "(string \<Rightarrow> unit result) \<Rightarrow> string list \<Rightarrow> unit result" where
  "validate_path_elements idValidator [] = Inr ()"
| "validate_path_elements idValidator (p # ps) =
     (if p = [] then Inl (HostE ErrInvalidPath)
      else case idValidator p of Inl e \<Rightarrow> Inl e | Inr _ \<Rightarrow>
           (case defaultIdentifierValidator p 1 DefaultMaxCharacterLength of Inl e \<Rightarrow> Inl e | Inr _ \<Rightarrow>
            validate_path_elements idValidator ps))"

definition NewPathValidator :: "(string \<Rightarrow> unit result) \<Rightarrow> string \<Rightarrow> unit result" where
  "NewPathValidator idValidator path =
     (let pathArr = split_on (CHR ''/'') path in
      if pathArr \<noteq> [] \<and> hd pathArr = path then Inl (HostE ErrInvalidPath)
      else validate_path_elements idValidator pathArr)"

subsection \<open>Store paths (keys.go)\<close>

definition KeyClientStorePrefix :: string where "KeyClientStorePrefix = ''clients''"
definition KeyClientState :: string where "KeyClientState = ''clientState''"
definition KeyConsensusStatePrefix :: string where "KeyConsensusStatePrefix = ''consensusStates''"
definition KeyConnectionPrefix :: string where "KeyConnectionPrefix = ''connections''"
definition KeyChannelEndPrefix :: string where "KeyChannelEndPrefix = ''channelEnds''"
definition KeyChannelPrefix :: string where "KeyChannelPrefix = ''channels''"
definition KeyPortPrefix :: string where "KeyPortPrefix = ''ports''"
definition KeySequencePrefix :: string where "KeySequencePrefix = ''sequences''"
definition KeyChannelCapabilityPrefix :: string where "KeyChannelCapabilityPrefix = ''capabilities''"
definition KeyNextSeqSendPrefix :: string where "KeyNextSeqSendPrefix = ''nextSequenceSend''"
definition KeyNextSeqRecvPrefix :: string where "KeyNextSeqRecvPrefix = ''nextSequenceRecv''"
definition KeyNextSeqAckPrefix :: string where "KeyNextSeqAckPrefix = ''nextSequenceAck''"
definition KeyPacketCommitmentPrefix :: string where "KeyPacketCommitmentPrefix = ''commitments''"
definition KeyPacketAckPrefix :: string where "KeyPacketAckPrefix = ''acks''"
definition KeyPacketReceiptPrefix :: string where "KeyPacketReceiptPrefix = ''receipts''"

lemmas key_prefixes =
  KeyClientStorePrefix_def KeyClientState_def KeyConsensusStatePrefix_def KeyConnectionPrefix_def
  KeyChannelEndPrefix_def KeyChannelPrefix_def KeyPortPrefix_def KeySequencePrefix_def
  KeyChannelCapabilityPrefix_def KeyNextSeqSendPrefix_def KeyNextSeqRecvPrefix_def
  KeyNextSeqAckPrefix_def KeyPacketCommitmentPrefix_def KeyPacketAckPrefix_def
  KeyPacketReceiptPrefix_def

definition FullClientPath :: "string \<Rightarrow> string \<Rightarrow> string" where
  "FullClientPath clientID path = KeyClientStorePrefix @ ''/'' @ clientID @ ''/'' @ path"

definition FullClientStatePath :: "string \<Rightarrow> string" where
  "FullClientStatePath clientID = FullClientPath clientID KeyClientState"

definition ClientConnectionsPath :: "string \<Rightarrow> string" where
  "ClientConnectionsPath clientID = FullClientPath clientID KeyConnectionPrefix"

definition ConnectionPath :: "string \<Rightarrow> string" where
  "ConnectionPath connectionID = KeyConnectionPrefix @ ''/'' @ connectionID"

definition channelPath :: "string \<Rightarrow> string \<Rightarrow> string" where
  "channelPath portID channelID =
     KeyPortPrefix @ ''/'' @ portID @ ''/'' @ KeyChannelPrefix @ ''/'' @ channelID"

definition sequencePath :: "u64 \<Rightarrow> string" where
  "sequencePath sequence = KeySequencePrefix @ ''/'' @ show_u64 sequence"

definition ChannelPath :: "string \<Rightarrow> string \<Rightarrow> string" where
  "ChannelPath portID channelID = KeyChannelEndPrefix @ ''/'' @ channelPath portID channelID"

definition ChannelCapabilityPath :: "string \<Rightarrow> string \<Rightarrow> string" where
  "ChannelCapabilityPath portID channelID =
     KeyChannelCapabilityPrefix @ ''/'' @ channelPath portID channelID"

definition NextSequenceSendPath :: "string \<Rightarrow> string \<Rightarrow> string" where
  "NextSequenceSendPath portID channelID = KeyNextSeqSendPrefix @ ''/'' @ channelPath portID channelID"

definition NextSequenceRecvPath :: "string \<Rightarrow> string \<Rightarrow> string" where
  "NextSequenceRecvPath portID channelID = KeyNextSeqRecvPrefix @ ''/'' @ channelPath portID channelID"

definition NextSequenceAckPath :: "string \<Rightarrow> string \<Rightarrow> string" where
  "NextSequenceAckPath portID channelID = KeyNextSeqAckPrefix @ ''/'' @ channelPath portID channelID"

definition PacketCommitmentPrefixPath :: "string \<Rightarrow> string \<Rightarrow> string" where
  "PacketCommitmentPrefixPath portID channelID =
     KeyPacketCommitmentPrefix @ ''/'' @ channelPath portID channelID @ ''/'' @ KeySequencePrefix"

definition PacketCommitmentPath :: "string \<Rightarrow> string \<Rightarrow> u64 \<Rightarrow> string" where
  "PacketCommitmentPath portID channelID sequence =
     PacketCommitmentPrefixPath portID channelID @ ''/'' @ show_u64 sequence"

definition PacketAcknowledgementPrefixPath :: "string \<Rightarrow> string \<Rightarrow> string" where
  "PacketAcknowledgementPrefixPath portID channelID =
     KeyPacketAckPrefix @ ''/'' @ channelPath portID channelID @ ''/'' @ KeySequencePrefix"

definition PacketAcknowledgementPath :: "string \<Rightarrow> string \<Rightarrow> u64 \<Rightarrow> string" where
  "PacketAcknowledgementPath portID channelID sequence =
     PacketAcknowledgementPrefixPath portID channelID @ ''/'' @ show_u64 sequence"

definition PacketReceiptPath :: "string \<Rightarrow> string \<Rightarrow> u64 \<Rightarrow> string" where
  "PacketReceiptPath portID channelID sequence =
     KeyPacketReceiptPrefix @ ''/'' @ channelPath portID channelID @ ''/'' @ sequencePath sequence"

definition PortPath :: "string \<Rightarrow> string" where
  "PortPath portID = KeyPortPrefix @ ''/'' @ portID"

lemmas channel_paths =
  ChannelPath_def ChannelCapabilityPath_def NextSequenceSendPath_def NextSequenceRecvPath_def
  NextSequenceAckPath_def
lemmas packet_paths =
  PacketCommitmentPath_def PacketCommitmentPrefixPath_def PacketAcknowledgementPath_def
  PacketAcknowledgementPrefixPath_def PacketReceiptPath_def sequencePath_def

subsection \<open>Parsers (parse.go)\<close>

definition ParseIdentifier :: "string \<Rightarrow> string \<Rightarrow> u64 result" where
  "ParseIdentifier identifier pre =
     (if \<not> prefix pre identifier then Inl (HostE ErrInvalidID)
      else let splitStr = split_str pre identifier in
      if length splitStr \<noteq> 2 then Inl (HostE ErrInvalidID)
      else if splitStr ! 0 \<noteq> [] then Inl (HostE ErrInvalidID)
      else case parse_uint64 (splitStr ! 1) of
             None \<Rightarrow> Inl (External ''strconv'')
           | Some sequence \<Rightarrow> Inr sequence)"

definition ParseConnectionPath :: "string \<Rightarrow> string result" where
  "ParseConnectionPath path =
     (let split = split_on (CHR ''/'') path in
      if length split \<noteq> 2 then Inl (HostE ErrInvalidPath) else Inr (split ! 1))"

definition ParseChannelPath :: "string \<Rightarrow> (string \<times> string) result" where
  "ParseChannelPath path =
     (let split = split_on (CHR ''/'') path in
      if length split < 5 then Inl (HostE ErrInvalidPath)
      else if split ! 1 \<noteq> KeyPortPrefix \<or> split ! 3 \<noteq> KeyChannelPrefix then Inl (HostE ErrInvalidPath)
      else Inr (split ! 2, split ! 4))"

definition MustParseConnectionPath :: "string \<Rightarrow> string result" where
  "MustParseConnectionPath path =
     (case ParseConnectionPath path of Inl _ \<Rightarrow> Inl Panic | Inr c \<Rightarrow> Inr c)"

definition MustParseChannelPath :: "string \<Rightarrow> (string \<times> string) result" where
  "MustParseChannelPath path =
     (case ParseChannelPath path of Inl _ \<Rightarrow> Inl Panic | Inr c \<Rightarrow> Inr c)"

subsection \<open>What validation guarantees\<close>

lemma id_char_codes:
  "is_id_char c \<Longrightarrow> (of_char c :: nat) \<noteq> 47 \<and> 33 \<le> (of_char c :: nat) \<and> (of_char c :: nat) < 128"
  by (auto simp: is_id_char_def is_alphanumeric_def Let_def)

lemma id_char_no_slash: "is_id_char c \<Longrightarrow> c \<noteq> CHR ''/''"
  using id_char_codes [of c] by auto

lemma id_char_not_space: "is_id_char c \<Longrightarrow> \<not> ascii_space c \<and> \<not> space2 c b \<and> \<not> space3 c b d"
  using id_char_codes [of c] by (auto simp: ascii_space_def space2_def space3_def Let_def)

lemma valid_id_not_space: "IsValidID s \<Longrightarrow> \<not> all_space s"
  by (cases s rule: all_space.cases) (auto simp: IsValidID_def dest: id_char_not_space)

lemma valid_id_no_slash: "IsValidID s \<Longrightarrow> CHR ''/'' \<notin> set s"
  by (auto simp: IsValidID_def list_all_iff dest: id_char_no_slash)

lemma defaultIdentifierValidator_iff:
  "defaultIdentifierValidator s mn mx = Inr () \<longleftrightarrow> IsValidID s \<and> mn \<le> length s \<and> length s \<le> mx"
  using valid_id_not_space [of s] valid_id_no_slash [of s]
  by (auto simp: defaultIdentifierValidator_def)

lemma identifier_no_slash:
  "ClientIdentifierValidator s = Inr () \<Longrightarrow> CHR ''/'' \<notin> set s"
  "ConnectionIdentifierValidator s = Inr () \<Longrightarrow> CHR ''/'' \<notin> set s"
  "ChannelIdentifierValidator s = Inr () \<Longrightarrow> CHR ''/'' \<notin> set s"
  "PortIdentifierValidator s = Inr () \<Longrightarrow> CHR ''/'' \<notin> set s"
  by (auto simp: identifier_validators defaultIdentifierValidator_iff valid_id_no_slash)

lemma validate_path_elements_iff:
  "validate_path_elements v ps = Inr () \<longleftrightarrow>
     (\<forall>p \<in> set ps. v p = Inr () \<and> IsValidID p \<and> length p \<le> DefaultMaxCharacterLength)"
proof (induction ps)
  case Nil
  then show ?case by simp
next
  case (Cons p ps)
  have ne: "IsValidID p \<Longrightarrow> p \<noteq> [] \<and> 1 \<le> length p"
    by (cases p) (auto simp: IsValidID_def)
  show ?case
    using Cons.IH ne
    by (auto simp: result_elims defaultIdentifierValidator_iff split: sum.splits)
qed

text \<open>
  A path passes the path validator exactly when it holds at least one separator and
  every element between separators is a non-empty identifier of at most 64 allowed
  characters that the custom validator accepts too.
\<close>

theorem NewPathValidator_accepts:
  "NewPathValidator v path = Inr () \<longleftrightarrow>
     CHR ''/'' \<in> set path \<and>
     (\<forall>p \<in> set (split_on (CHR ''/'') path).
        v p = Inr () \<and> IsValidID p \<and> length p \<le> DefaultMaxCharacterLength)"
proof -
  let ?ps = "split_on (CHR ''/'') path"
  have "hd ?ps = path \<longleftrightarrow> CHR ''/'' \<notin> set path"
  proof
    assume hd: "hd ?ps = path"
    have "hd ?ps \<in> set ?ps" by simp
    then have "CHR ''/'' \<notin> set (hd ?ps)" by (rule split_on_pieces)
    with hd show "CHR ''/'' \<notin> set path" by simp
  qed (simp add: split_on_no_sep)
  then show ?thesis
    by (simp add: NewPathValidator_def Let_def guard_Inr validate_path_elements_iff)
qed

theorem NewPathValidator_accepts_witness:
  "NewPathValidator ChannelIdentifierValidator ''channel-0/channel-1'' = Inr ()"
  unfolding NewPathValidator_accepts
  by (simp add: identifier_validators defaultIdentifierValidator_iff IsValidID_def is_id_char_def
      is_alphanumeric_def Let_def DefaultMaxCharacterLength_def)

text \<open>
  The four identifier validators accept exactly the non-empty strings over
  letters, digits and the nine extra characters whose length lies in the range the
  validator is for (9--64 for clients, 10--64 for connections, 8--64 for channels,
  2--128 for ports); in particular the separator and blank checks reject nothing more.
\<close>

theorem identifier_validators_accept:
  "(ClientIdentifierValidator s = Inr () \<longleftrightarrow> IsValidID s \<and> 9 \<le> length s \<and> length s \<le> 64) \<and>
   (ConnectionIdentifierValidator s = Inr () \<longleftrightarrow> IsValidID s \<and> 10 \<le> length s \<and> length s \<le> 64) \<and>
   (ChannelIdentifierValidator s = Inr () \<longleftrightarrow> IsValidID s \<and> 8 \<le> length s \<and> length s \<le> 64) \<and>
   (PortIdentifierValidator s = Inr () \<longleftrightarrow> IsValidID s \<and> 2 \<le> length s \<and> length s \<le> 128)"
  by (simp add: identifier_validators defaultIdentifierValidator_iff
      DefaultMaxCharacterLength_def DefaultMaxPortCharacterLength_def)

subsection \<open>Paths determine their identifiers\<close>

abbreviation no_slash :: "string \<Rightarrow> bool" where
  "no_slash s \<equiv> CHR ''/'' \<notin> set s"

lemma key_no_slash [simp]:
  "no_slash KeyChannelEndPrefix" "no_slash KeyNextSeqSendPrefix" "no_slash KeyNextSeqRecvPrefix"
  "no_slash KeyNextSeqAckPrefix" "no_slash KeyPacketCommitmentPrefix" "no_slash KeyPacketAckPrefix"
  "no_slash KeyPacketReceiptPrefix" "no_slash KeyChannelCapabilityPrefix" "no_slash KeySequencePrefix"
  "no_slash KeyConnectionPrefix" "no_slash KeyClientStorePrefix" "no_slash KeyClientState"
  "no_slash KeyConsensusStatePrefix" "no_slash KeyPortPrefix" "no_slash KeyChannelPrefix"
  by (simp_all add: key_prefixes)

lemma channelPath_inject:
  assumes "no_slash p" and "no_slash q"
  shows "channelPath p c = channelPath q d \<longleftrightarrow> p = q \<and> c = d"
  using assms by (simp add: channelPath_def append_sep_inject)

lemma split_channelPath:
  "no_slash p \<Longrightarrow> no_slash c \<Longrightarrow>
   split_on (CHR ''/'') (channelPath p c) = [KeyPortPrefix, p, KeyChannelPrefix, c]"
  by (simp add: channelPath_def key_prefixes split_on_append split_on_no_sep)

lemma split_channelPath_seq:
  "no_slash p \<Longrightarrow> no_slash c \<Longrightarrow> 
   split_on (CHR ''/'') (channelPath p c @ CHR ''/'' # t) =
     [KeyPortPrefix, p, KeyChannelPrefix, c] @ split_on (CHR ''/'') t"
  by (simp add: channelPath_def key_prefixes split_on_append)

lemma ParseChannelPath_prefixed:
  assumes "no_slash pre" "no_slash p" "no_slash c"
  shows "ParseChannelPath (pre @ ''/'' @ channelPath p c) = Inr (p, c)"
    and "ParseChannelPath (pre @ ''/'' @ channelPath p c @ ''/'' @ t) = Inr (p, c)"
  using assms
  by (simp_all add: ParseChannelPath_def split_on_append split_channelPath split_channelPath_seq
      Let_def key_prefixes)

text \<open>
  The channel path parser inverts every channel and packet path builder on port and
  channel identifiers without a separator, so iterating the store recovers the
  identifiers that were stored.
\<close>

theorem ParseChannelPath_roundtrip:
  assumes "no_slash p" and "no_slash c"
  shows "ParseChannelPath (ChannelPath p c) = Inr (p, c) \<and>
         ParseChannelPath (NextSequenceSendPath p c) = Inr (p, c) \<and>
         ParseChannelPath (NextSequenceRecvPath p c) = Inr (p, c) \<and>
         ParseChannelPath (NextSequenceAckPath p c) = Inr (p, c) \<and>
         ParseChannelPath (PacketCommitmentPath p c n) = Inr (p, c) \<and>
         ParseChannelPath (PacketAcknowledgementPath p c n) = Inr (p, c) \<and>
         ParseChannelPath (PacketReceiptPath p c n) = Inr (p, c)"
  using assms
  by (simp add: channel_paths packet_paths ParseChannelPath_prefixed [simplified])

theorem ParseChannelPath_roundtrip_witness:
  "no_slash ''transfer'' \<and> no_slash ''channel-7'' \<and>
   ParseChannelPath (PacketCommitmentPath ''transfer'' ''channel-7'' 3) = Inr (''transfer'', ''channel-7'')"
proof -
  have h: "no_slash ''transfer''" "no_slash ''channel-7''" by simp_all
  show ?thesis using h ParseChannelPath_roundtrip [OF h, of 3] by blast
qed

lemma ParseConnectionPath_ConnectionPath:
  "no_slash c \<Longrightarrow> ParseConnectionPath (ConnectionPath c) = Inr c"
  by (simp add: ParseConnectionPath_def ConnectionPath_def key_prefixes split_on_append
      split_on_no_sep Let_def)

text \<open>Reading back a generated identifier: the prefix ends in a dash, which no decimal holds.\<close>

lemma ParseIdentifier_format:
  assumes "pre \<noteq> []" and "last pre = CHR ''-''"
  shows "ParseIdentifier (pre @ show_u64 n) pre = Inr n"
  using assms by (simp add: ParseIdentifier_def split_str_prefix Let_def parse_show_u64)

subsection \<open>The contract of generated identifiers\<close>

text \<open>
  Clients, connections and channels are named by a prefix and a 64-bit sequence. A client
  of such a naming scheme relies on the parser inverting the formatter and on the
  validator accepting every generated name. \<open>ids_below D n\<close> says that every name in \<open>D\<close>
  was generated from a sequence below the next one; it makes the next name fresh.
\<close>

locale identifier_format =
  fixes format_id :: "u64 \<Rightarrow> string"
    and parse_id :: "string \<Rightarrow> u64 result"
    and validate_id :: "string \<Rightarrow> unit result"
  assumes parse_format: "parse_id (format_id n) = Inr n"
    and validate_format: "validate_id (format_id n) = Inr ()"
    and validate_no_slash: "validate_id s = Inr () \<Longrightarrow> no_slash s"
begin

lemma format_inj: "format_id m = format_id n \<longleftrightarrow> m = n"
  using parse_format by (metis sum.inject(2))

lemma format_no_slash: "no_slash (format_id n)"
  using validate_format by (rule validate_no_slash)

definition ids_below :: "string set \<Rightarrow> u64 \<Rightarrow> bool" where
  "ids_below D n = (\<forall>s \<in> D. \<exists>m. s = format_id m \<and> m < n)"

lemma ids_below_empty: "ids_below {} n"
  by (simp add: ids_below_def)

lemma ids_below_fresh: "ids_below D n \<Longrightarrow> format_id n \<notin> D"
  by (auto simp: ids_below_def format_inj)

lemma ids_below_insert: "ids_below D n \<Longrightarrow> n \<noteq> - 1 \<Longrightarrow> ids_below (insert (format_id n) D) (n + 1)"
proof -
  assume D: "ids_below D n" and n: "n \<noteq> - 1"
  from unat_u64_succ [OF n] have lt: "n < n + 1" by (simp add: word_less_nat_alt)
  have "m < n + 1" if "m < n" for m using that lt by (rule less_trans)
  with D lt show ?thesis by (auto simp: ids_below_def)
qed

lemma ids_below_mono: "ids_below D n \<Longrightarrow> D' \<subseteq> D \<Longrightarrow> ids_below D' n"
  by (auto simp: ids_below_def)

end

text \<open>Decimal digits are identifier characters, so a valid prefix gives a valid name.\<close>

lemma digit_is_id_char: "is_digit c \<Longrightarrow> is_id_char c"
  by (simp add: is_digit_def is_id_char_def is_alphanumeric_def Let_def)

lemma valid_id_append_u64: "IsValidID pre \<Longrightarrow> IsValidID (pre @ show_u64 n)"
  using list_all_digit_show_u64 [of n] digit_is_id_char
  by (auto simp: IsValidID_def list_all_iff)

lemma validator_append_u64:
  "IsValidID pre \<Longrightarrow> mn \<le> length pre \<Longrightarrow> length pre \<le> 44 \<Longrightarrow>
   defaultIdentifierValidator (pre @ show_u64 n) mn DefaultMaxCharacterLength = Inr ()"
  using length_show_u64 [of n] valid_id_append_u64 [of pre n]
  by (simp add: defaultIdentifierValidator_iff DefaultMaxCharacterLength_def)

end
