(* ===== verification/Height.thy ===== *)
theory Height
  imports Host
begin

text \<open>
  Client heights (\<^verbatim>\<open>02-client/types/height.go\<close>), the part of \<^verbatim>\<open>sdk.Context\<close> that the modules
  read, and client identifiers (\<^verbatim>\<open>02-client/types/keys.go\<close>).

  \<open>Compare\<close> orders heights lexicographically, which makes them a linear order of the
  library; printing and parsing round trip; the revision of a chain identifier is read
  back after it is set; incrementing wraps around at the top of the word; and a client
  identifier determines its type and sequence.
\<close>

subsection \<open>Heights\<close>

datatype Height = Height (RevisionNumber: u64) (RevisionHeight: u64)

definition ZeroHeight :: Height where
  "ZeroHeight = Height 0 0"

definition NewHeight :: "u64 \<Rightarrow> u64 \<Rightarrow> Height" where
  "NewHeight revisionNumber revisionHeight = Height revisionNumber revisionHeight"

text \<open>\<^verbatim>\<open>big.Int.Cmp\<close>\<close>

definition cmp_nat :: "nat \<Rightarrow> nat \<Rightarrow> int" where
  "cmp_nat a b = (if a < b then -1 else if a = b then 0 else 1)"

definition Compare :: "Height \<Rightarrow> Height \<Rightarrow> int" where
  "Compare h height =
     (if RevisionNumber h \<noteq> RevisionNumber height
      then cmp_nat (unat (RevisionNumber h)) (unat (RevisionNumber height))
      else cmp_nat (unat (RevisionHeight h)) (unat (RevisionHeight height)))"

definition LT :: "Height \<Rightarrow> Height \<Rightarrow> bool" where "LT h k = (Compare h k = -1)"
definition LTE :: "Height \<Rightarrow> Height \<Rightarrow> bool" where "LTE h k = (Compare h k \<le> 0)"
definition GT :: "Height \<Rightarrow> Height \<Rightarrow> bool" where "GT h k = (Compare h k = 1)"
definition GTE :: "Height \<Rightarrow> Height \<Rightarrow> bool" where "GTE h k = (Compare h k \<ge> 0)"
definition EQ :: "Height \<Rightarrow> Height \<Rightarrow> bool" where "EQ h k = (Compare h k = 0)"

definition Height_String :: "Height \<Rightarrow> string" where
  "Height_String h = show_u64 (RevisionNumber h) @ ''-'' @ show_u64 (RevisionHeight h)"

definition Decrement :: "Height \<Rightarrow> Height \<times> bool" where
  "Decrement h =
     (if RevisionHeight h = 0 then (ZeroHeight, False)
      else (NewHeight (RevisionNumber h) (RevisionHeight h - 1), True))"

definition Increment :: "Height \<Rightarrow> Height" where
  "Increment h = NewHeight (RevisionNumber h) (RevisionHeight h + 1)"

definition IsZero :: "Height \<Rightarrow> bool" where
  "IsZero h = (RevisionNumber h = 0 \<and> RevisionHeight h = 0)"

definition ParseHeight :: "string \<Rightarrow> Height result" where
  "ParseHeight heightStr =
     (let splitStr = split_on (CHR ''-'') heightStr in
      if length splitStr \<noteq> 2 then Inl (SdkE sdk_ErrInvalidHeight)
      else case parse_uint64 (splitStr ! 0) of
        None \<Rightarrow> Inl (SdkE sdk_ErrInvalidHeight)
      | Some revisionNumber \<Rightarrow> (case parse_uint64 (splitStr ! 1) of
          None \<Rightarrow> Inl (SdkE sdk_ErrInvalidHeight)
        | Some revisionHeight \<Rightarrow> Inr (NewHeight revisionNumber revisionHeight)))"

definition MustParseHeight :: "string \<Rightarrow> Height result" where
  "MustParseHeight heightStr = (case ParseHeight heightStr of Inl _ \<Rightarrow> Inl Panic | Inr h \<Rightarrow> Inr h)"

text \<open>
  The regular expression \<^verbatim>\<open>^.*[^-]-{1}[1-9][0-9]*$\<close>. The digits hold no dash, so the dash
  it asks for is the last one; \<^verbatim>\<open>.\<close> matches anything but a line feed, \<^verbatim>\<open>[^-]\<close> a line feed too.
\<close>

definition IsRevisionFormat :: "string \<Rightarrow> bool" where
  "IsRevisionFormat s =
     (case rsplit_on (CHR ''-'') s of
        None \<Rightarrow> False
      | Some (a, d) \<Rightarrow>
          a \<noteq> [] \<and> last a \<noteq> CHR ''-'' \<and> CHR 0x0A \<notin> set (butlast a) \<and>
          d \<noteq> [] \<and> list_all is_digit d \<and> hd d \<noteq> CHR ''0'')"

definition SetRevisionNumber :: "string \<Rightarrow> u64 \<Rightarrow> string result" where
  "SetRevisionNumber chainID revision =
     (if \<not> IsRevisionFormat chainID then Inl (SdkE sdk_ErrInvalidChainID)
      else let splitStr = split_on (CHR ''-'') chainID in
           Inr (join_with (CHR ''-'') (splitStr[length splitStr - 1 := itoa_u64 revision])))"

definition ParseChainID :: "string \<Rightarrow> u64 result" where
  "ParseChainID chainID =
     (if \<not> IsRevisionFormat chainID then Inr 0
      else let splitStr = split_on (CHR ''-'') chainID in
           case parse_uint64 (splitStr ! (length splitStr - 1)) of
             None \<Rightarrow> Inl Panic
           | Some revision \<Rightarrow> Inr revision)"

text \<open>
  What the modules read of \<^verbatim>\<open>sdk.Context\<close>: the chain identifier, the height and time of the
  block being executed and the hash of the next validator set in its header.
\<close>

record ctx =
  ChainID :: string
  BlockHeight :: int
  BlockTime :: int
  NextValidatorsHash :: bytes

text \<open>\<^verbatim>\<open>uint64(ctx.BlockTime().UnixNano())\<close>\<close>

definition block_time_u64 :: "ctx \<Rightarrow> u64" where
  "block_time_u64 ctx = of_int (BlockTime ctx)"

definition GetSelfHeight :: "ctx \<Rightarrow> Height result" where
  "GetSelfHeight ctx =
     (case ParseChainID (ChainID ctx) of
        Inl e \<Rightarrow> Inl e
      | Inr revision \<Rightarrow> Inr (NewHeight revision (of_int (BlockHeight ctx))))"

subsection \<open>Client identifiers\<close>

definition FormatClientIdentifier :: "string \<Rightarrow> u64 \<Rightarrow> string" where
  "FormatClientIdentifier clientType sequence = clientType @ ''-'' @ show_u64 sequence"

text \<open>The regular expression \<^verbatim>\<open>^.*[^-]-[0-9]{1,20}$\<close>\<close>

definition IsClientIDFormat :: "string \<Rightarrow> bool" where
  "IsClientIDFormat s =
     (case rsplit_on (CHR ''-'') s of
        None \<Rightarrow> False
      | Some (a, d) \<Rightarrow>
          a \<noteq> [] \<and> last a \<noteq> CHR ''-'' \<and> CHR 0x0A \<notin> set (butlast a) \<and>
          list_all is_digit d \<and> 1 \<le> length d \<and> length d \<le> 20)"

definition ParseClientIdentifier :: "string \<Rightarrow> (string \<times> u64) result" where
  "ParseClientIdentifier clientID =
     (if \<not> IsClientIDFormat clientID then Inl (HostE ErrInvalidID)
      else let splitStr = split_on (CHR ''-'') clientID;
               lastIndex = length splitStr - 1;
               clientType = join_with (CHR ''-'') (take lastIndex splitStr) in
      if all_space clientType then Inl (HostE ErrInvalidID)
      else case parse_uint64 (splitStr ! lastIndex) of
             None \<Rightarrow> Inl (External ''strconv'')
           | Some sequence \<Rightarrow> Inr (clientType, sequence))"

definition IsValidClientID :: "string \<Rightarrow> bool" where
  "IsValidClientID clientID = is_ok (ParseClientIdentifier clientID)"

subsection \<open>Heights form a linear order\<close>

lemma LTE_iff:
  "LTE h k \<longleftrightarrow> unat (RevisionNumber h) < unat (RevisionNumber k) \<or>
     RevisionNumber h = RevisionNumber k \<and> unat (RevisionHeight h) \<le> unat (RevisionHeight k)"
  by (auto simp: LTE_def Compare_def cmp_nat_def dest: word_unat_eq_iff [THEN iffD2])

lemma Compare_values: "Compare h k \<in> {-1, 0, 1}"
  by (simp add: Compare_def cmp_nat_def)

lemma Compare_flip: "Compare k h = - Compare h k"
  by (auto simp: Compare_def cmp_nat_def word_unat_eq_iff)

lemma Compare_eq_0: "Compare h k = 0 \<longleftrightarrow> h = k"
  by (cases h; cases k) (auto simp: Compare_def cmp_nat_def word_unat_eq_iff)

instantiation Height :: linorder
begin

definition less_eq_Height :: "Height \<Rightarrow> Height \<Rightarrow> bool" where
  "less_eq_Height h k = LTE h k"

definition less_Height :: "Height \<Rightarrow> Height \<Rightarrow> bool" where
  "less_Height h k = (LTE h k \<and> \<not> LTE k h)"

instance
proof
  fix x y z :: Height
  show "x < y \<longleftrightarrow> x \<le> y \<and> \<not> y \<le> x" by (simp add: less_Height_def less_eq_Height_def)
  show "x \<le> x" by (simp add: less_eq_Height_def LTE_iff)
  show "x \<le> y \<Longrightarrow> y \<le> z \<Longrightarrow> x \<le> z" by (auto simp: less_eq_Height_def LTE_iff)
  show "x \<le> y \<Longrightarrow> y \<le> x \<Longrightarrow> x = y"
    by (cases x; cases y) (auto simp: less_eq_Height_def LTE_iff word_unat_eq_iff)
  show "x \<le> y \<or> y \<le> x" by (auto simp: less_eq_Height_def LTE_iff word_unat_eq_iff)
qed

end

lemma height_comparisons:
  "LTE h k \<longleftrightarrow> h \<le> k" "LT h k \<longleftrightarrow> h < k" "GTE h k \<longleftrightarrow> k \<le> h" "GT h k \<longleftrightarrow> k < h" "EQ h k \<longleftrightarrow> h = k"
proof -
  have le: "x \<le> y \<longleftrightarrow> Compare x y \<le> 0" for x y by (simp add: less_eq_Height_def LTE_def)
  have lt: "x < y \<longleftrightarrow> Compare x y = -1" for x y
    using Compare_values [of x y] Compare_flip [of x y] by (auto simp: less_Height_def LTE_def)
  show "LTE h k \<longleftrightarrow> h \<le> k" "LT h k \<longleftrightarrow> h < k" "GTE h k \<longleftrightarrow> k \<le> h" "GT h k \<longleftrightarrow> k < h" "EQ h k \<longleftrightarrow> h = k"
    using Compare_flip [of h k]
    by (auto simp: LTE_def LT_def GTE_def GT_def EQ_def le lt Compare_eq_0)
qed

lemma less_Height_iff:
  "h < k \<longleftrightarrow> unat (RevisionNumber h) < unat (RevisionNumber k) \<or>
     RevisionNumber h = RevisionNumber k \<and> unat (RevisionHeight h) < unat (RevisionHeight k)"
  by (auto simp: less_Height_def LTE_iff)

lemma ZeroHeight_le [simp]: "ZeroHeight \<le> h"
  by (auto simp: ZeroHeight_def less_eq_Height_def LTE_iff word_unat_eq_iff)

lemma IsZero_iff: "IsZero h \<longleftrightarrow> h = ZeroHeight"
  by (cases h) (simp add: IsZero_def ZeroHeight_def)

text \<open>
  \<open>Compare\<close> is the lexicographic order on (revision number, revision height) read as
  unbounded numbers, and the five comparison helpers are that one linear order and its
  derived relations.
\<close>

theorem Compare_lexicographic:
  "(Compare h k = -1 \<longleftrightarrow>
      (unat (RevisionNumber h), unat (RevisionHeight h)) \<in>
      {(a, b). a < unat (RevisionNumber k) \<or>
               a = unat (RevisionNumber k) \<and> b < unat (RevisionHeight k)}) \<and>
   (Compare h k = 0 \<longleftrightarrow> h = k) \<and> Compare k h = - Compare h k \<and>
   LT h k = (h < k) \<and> LTE h k = (h \<le> k) \<and> GT h k = (k < h) \<and> GTE h k = (k \<le> h) \<and> EQ h k = (h = k)"
proof -
  have "Compare h k = -1 \<longleftrightarrow> h < k" using height_comparisons(2) [of h k] by (simp add: LT_def)
  then show ?thesis
    using Compare_flip [of k h]
    by (simp add: height_comparisons Compare_eq_0 less_Height_iff word_unat_eq_iff)
qed

subsection \<open>Printing, parsing, stepping\<close>

text \<open>
  Every height survives printing and parsing, so a consensus state key determines
  the height it was stored under.
\<close>

theorem ParseHeight_String: "ParseHeight (Height_String h) = Inr h"
  by (cases h)
    (simp add: ParseHeight_def Height_String_def split_on_append split_on_no_sep Let_def
      parse_show_u64 NewHeight_def)

text \<open>
  Incrementing a height gives the next greater height and decrementing takes it back,
  except at the top of the 64-bit revision height, where the increment wraps around to
  revision height zero and is smaller.
\<close>

theorem Increment_step:
  "(if RevisionHeight h = - 1
    then Increment h = Height (RevisionNumber h) 0 \<and> Increment h < h
    else h < Increment h \<and> Decrement (Increment h) = (h, True))"
proof (cases "RevisionHeight h = - 1")
  case True
  then show ?thesis
    using unat_u64_minus_1 by (cases h) (simp add: Increment_def NewHeight_def less_Height_iff)
next
  case False
  then show ?thesis
    using unat_u64_succ [of "RevisionHeight h"]
    by (cases h) (simp add: Increment_def Decrement_def NewHeight_def less_Height_iff
        eq_neg_iff_add_eq_0)
qed

lemma IsRevisionFormat_append:
  "list_all is_digit d \<Longrightarrow> IsRevisionFormat (a @ CHR ''-'' # d) \<longleftrightarrow>
     a \<noteq> [] \<and> last a \<noteq> CHR ''-'' \<and> CHR 0x0A \<notin> set (butlast a) \<and> d \<noteq> [] \<and> hd d \<noteq> CHR ''0''"
  by (simp add: IsRevisionFormat_def rsplit_on_snoc digits_no_dash)

lemma IsRevisionFormatD:
  assumes "IsRevisionFormat s"
  obtains a d where "s = a @ CHR ''-'' # d" "list_all is_digit d" "d \<noteq> []" "hd d \<noteq> CHR ''0''"
    "a \<noteq> []" "last a \<noteq> CHR ''-''" "CHR 0x0A \<notin> set (butlast a)"
proof -
  from assms obtain a d where r: "rsplit_on (CHR ''-'') s = Some (a, d)"
    by (auto simp: IsRevisionFormat_def split: option.splits)
  with assms rsplit_on_SomeD [OF r] that show thesis by (auto simp: IsRevisionFormat_def)
qed

lemma ParseChainID_append:
  "IsRevisionFormat (a @ CHR ''-'' # d) \<Longrightarrow> list_all is_digit d \<Longrightarrow>
   ParseChainID (a @ CHR ''-'' # d) = (case parse_uint64 d of None \<Rightarrow> Inl Panic | Some r \<Rightarrow> Inr r)"
  by (simp add: ParseChainID_def split_on_snoc digits_no_dash nth_append Let_def)

lemma SetRevisionNumber_append:
  "IsRevisionFormat (a @ CHR ''-'' # d) \<Longrightarrow> list_all is_digit d \<Longrightarrow>
   SetRevisionNumber (a @ CHR ''-'' # d) r = Inr (a @ CHR ''-'' # itoa_u64 r)"
  by (simp add: SetRevisionNumber_def split_on_snoc digits_no_dash list_update_append
      join_with_snoc join_split Let_def)

text \<open>
  Setting the revision number of a chain identifier and parsing it back gives the
  revision that was set, for every revision from 1 to \<open>2 ^ 63 - 1\<close>.
\<close>

theorem SetRevisionNumber_ParseChainID:
  assumes "IsRevisionFormat c" and "0 < unat r" and "unat r < 2 ^ 63"
  shows "\<exists>c'. SetRevisionNumber c r = Inr c' \<and> ParseChainID c' = Inr r"
proof -
  from assms(1) obtain a d where c: "c = a @ CHR ''-'' # d" "list_all is_digit d"
      and a: "a \<noteq> []" "last a \<noteq> CHR ''-''" "CHR 0x0A \<notin> set (butlast a)"
    by (rule IsRevisionFormatD)
  have r: "itoa_u64 r = show_u64 r" using assms(3) by (rule itoa_u64_small)
  have "IsRevisionFormat (a @ CHR ''-'' # show_u64 r)"
    using a assms(2) hd_show_nat [of "unat r"] by (simp add: IsRevisionFormat_append show_u64_def)
  then have "ParseChainID (a @ CHR ''-'' # show_u64 r) = Inr r"
    by (simp add: ParseChainID_append parse_show_u64)
  with c assms(1) r show ?thesis by (simp add: SetRevisionNumber_append)
qed

theorem SetRevisionNumber_ParseChainID_witness:
  "\<exists>c'. SetRevisionNumber ''cosmoshub-4'' 5 = Inr c' \<and> ParseChainID c' = Inr 5"
proof (rule SetRevisionNumber_ParseChainID)
  show "IsRevisionFormat ''cosmoshub-4''" by code_simp
qed simp_all

text \<open>
  Reading the revision of a chain identifier panics exactly when the identifier is in
  revision format and the decimal after its last dash does not fit in 64 bits; the sanity
  check in the code is therefore reachable.
\<close>

theorem ParseChainID_panics:
  "ParseChainID c = Inl Panic \<longleftrightarrow>
     (\<exists>a d. c = a @ CHR ''-'' # d \<and> list_all is_digit d \<and> IsRevisionFormat c \<and> 2 ^ 64 \<le> read_nat d)"
proof
  assume p: "ParseChainID c = Inl Panic"
  then have f: "IsRevisionFormat c" by (auto simp: ParseChainID_def split: if_splits)
  then obtain a d where "c = a @ CHR ''-'' # d" "list_all is_digit d" "d \<noteq> []" by (rule IsRevisionFormatD)
  with p f show "\<exists>a d. c = a @ CHR ''-'' # d \<and> list_all is_digit d \<and> IsRevisionFormat c \<and> 2 ^ 64 \<le> read_nat d"
    by (intro exI [of _ a] exI [of _ d])
      (auto simp: ParseChainID_append parse_uint64_def split: if_splits)
qed (auto simp: ParseChainID_append parse_uint64_def)

lemma ParseClientIdentifier_Format_lemma:
  assumes "IsValidID t" and "last t \<noteq> CHR ''-''"
  shows "ParseClientIdentifier (FormatClientIdentifier t n) = Inr (t, n)"
proof -
  have t: "t \<noteq> []" "\<not> all_space t" using assms valid_id_not_space by (auto simp: IsValidID_def)
  have "\<not> is_id_char (CHR 0x0A)" by code_simp
  then have "CHR 0x0A \<notin> set t" using assms by (auto simp: IsValidID_def list_all_iff)
  then have "CHR 0x0A \<notin> set (butlast t)" by (meson in_set_butlastD)
  moreover have "1 \<le> length (show_u64 n)" by (cases "show_u64 n") auto
  ultimately have "IsClientIDFormat (t @ CHR ''-'' # show_u64 n)"
    using assms t length_show_u64 by (simp add: IsClientIDFormat_def rsplit_on_snoc)
  with t show ?thesis
    by (simp add: ParseClientIdentifier_def FormatClientIdentifier_def split_on_snoc nth_append
        join_split parse_show_u64 Let_def)
qed

text \<open>
  A client identifier that was formatted from a client type and a sequence parses
  back to both, for every client type of valid identifier characters that does not end in
  a dash.
\<close>

theorem ParseClientIdentifier_Format:
  assumes "IsValidID t" and "last t \<noteq> CHR ''-''"
  shows "ParseClientIdentifier (FormatClientIdentifier t n) = Inr (t, n)"
  using assms by (rule ParseClientIdentifier_Format_lemma)

theorem ParseClientIdentifier_Format_witness:
  "ParseClientIdentifier (FormatClientIdentifier ''07-tendermint'' 12) = Inr (''07-tendermint'', 12)"
  by (rule ParseClientIdentifier_Format; code_simp)

lemma FormatClientIdentifier_inj:
  "FormatClientIdentifier t m = FormatClientIdentifier t' n \<longleftrightarrow> t = t' \<and> m = n"
proof
  assume "FormatClientIdentifier t m = FormatClientIdentifier t' n"
  then have "rsplit_on (CHR ''-'') (t @ CHR ''-'' # show_u64 m) = rsplit_on (CHR ''-'') (t' @ CHR ''-'' # show_u64 n)"
    by (simp add: FormatClientIdentifier_def)
  then show "t = t' \<and> m = n" by (simp add: rsplit_on_snoc)
qed simp

text \<open>The three client types, whose identifiers satisfy the naming contract.\<close>

definition Solomachine :: string where "Solomachine = ''06-solomachine''"
definition Tendermint :: string where "Tendermint = ''07-tendermint''"
definition Localhost :: string where "Localhost = ''09-localhost''"

lemma client_id_format:
  assumes "IsValidID t" and "last t \<noteq> CHR ''-''" and "8 \<le> length t" and "length t \<le> 43"
  shows "identifier_format (FormatClientIdentifier t)
     (\<lambda>s. case ParseClientIdentifier s of Inl e \<Rightarrow> Inl e | Inr (_, n) \<Rightarrow> Inr n) ClientIdentifierValidator"
proof
  fix n s
  have "IsValidID (t @ ''-'')" using assms(1) by (simp add: IsValidID_def is_id_char_def)
  with assms show "ClientIdentifierValidator (FormatClientIdentifier t n) = Inr ()"
    using validator_append_u64 [of "t @ ''-''" 9 n]
    by (simp add: ClientIdentifierValidator_def FormatClientIdentifier_def)
  show "ClientIdentifierValidator s = Inr () \<Longrightarrow> no_slash s" by (rule identifier_no_slash)
qed (simp add: ParseClientIdentifier_Format_lemma assms(1,2))

lemma client_type_valid:
  "IsValidID Solomachine" "IsValidID Tendermint" "IsValidID Localhost"
  "last Solomachine \<noteq> CHR ''-''" "last Tendermint \<noteq> CHR ''-''" "last Localhost \<noteq> CHR ''-''"
  by (simp_all add: Solomachine_def Tendermint_def Localhost_def IsValidID_def is_id_char_def
      is_alphanumeric_def Let_def)

interpretation solomachine_ids: identifier_format "FormatClientIdentifier Solomachine"
  "\<lambda>s. case ParseClientIdentifier s of Inl e \<Rightarrow> Inl e | Inr (_, n) \<Rightarrow> Inr n" ClientIdentifierValidator
  by (rule client_id_format) (simp_all add: client_type_valid, simp_all add: Solomachine_def)

interpretation tendermint_ids: identifier_format "FormatClientIdentifier Tendermint"
  "\<lambda>s. case ParseClientIdentifier s of Inl e \<Rightarrow> Inl e | Inr (_, n) \<Rightarrow> Inr n" ClientIdentifierValidator
  by (rule client_id_format) (simp_all add: client_type_valid, simp_all add: Tendermint_def)

end
