(* ===== verification/Commitment.thy ===== *)
theory Commitment
  imports Host
begin

text \<open>
  ICS-23 vector commitments (\<^verbatim>\<open>modules/core/23-commitment/types/merkle.go\<close>): roots, prefixes,
  key paths and chained Merkle proofs. The single-tree verifier is the third-party
  package \<^verbatim>\<open>confio/ics23\<close>; its three functions are the fields of the record \<open>ics23\<close>, an
  argument of the definitions that call them. A proof specification and the body of a
  single-tree proof are opaque bytes to this package.

  \<^verbatim>\<open>GetKey\<close> and \<^verbatim>\<open>String\<close> use \<^verbatim>\<open>net/url\<close>'s path-segment escaping, modelled first. A nil and
  an empty byte slice are not distinguished.
\<close>

subsection \<open>Path-segment escaping (net/url)\<close>

definition is_hex :: "char \<Rightarrow> bool" where
  "is_hex c = (let n = (of_char c :: nat) in
     48 \<le> n \<and> n \<le> 57 \<or> 97 \<le> n \<and> n \<le> 102 \<or> 65 \<le> n \<and> n \<le> 70)"

definition unhex :: "char \<Rightarrow> nat" where
  "unhex c = (let n = (of_char c :: nat) in
     if n \<le> 57 then n - 48 else if 97 \<le> n then n - 97 + 10 else n - 65 + 10)"

definition hex_digit :: "nat \<Rightarrow> char" where
  "hex_digit n = (if n < 10 then char_of (48 + n) else char_of (55 + n))"

fun PathUnescape :: "string \<Rightarrow> string option" where
  "PathUnescape [] = Some []"
| "PathUnescape (c # s) =
     (if c = CHR ''%'' then
        (case s of
           a # b # t \<Rightarrow>
             if is_hex a \<and> is_hex b
             then map_option ((#) (char_of (16 * unhex a + unhex b))) (PathUnescape t) else None
         | _ \<Rightarrow> None)
      else map_option ((#) c) (PathUnescape s))"

definition segment_safe :: "char \<Rightarrow> bool" where
  "segment_safe c = (is_alphanumeric c \<or> c \<in> set ''-_.~$&+:=@'')"

definition PathEscape :: "string \<Rightarrow> string" where
  "PathEscape s = concat (map (\<lambda>c. if segment_safe c then [c]
     else [CHR ''%'', hex_digit (of_char c div 16), hex_digit (of_char c mod 16)]) s)"

subsection \<open>Roots, prefixes and paths\<close>

type_synonym MerkleRoot = bytes
type_synonym MerklePrefix = bytes

text \<open>\<^verbatim>\<open>exported.Root\<close> and \<^verbatim>\<open>exported.Prefix\<close> values: \<open>None\<close> is the nil interface.\<close>

type_synonym Root = "MerkleRoot option"
type_synonym Prefix = "MerklePrefix option"

datatype MerklePath = MerklePath (KeyPath: "string list")

definition NewMerklePath :: "string list \<Rightarrow> MerklePath" where
  "NewMerklePath keyPath = MerklePath keyPath"

definition MerkleRoot_Empty :: "MerkleRoot \<Rightarrow> bool" where
  "MerkleRoot_Empty mr = (length mr = 0)"

definition MerklePrefix_Empty :: "MerklePrefix \<Rightarrow> bool" where
  "MerklePrefix_Empty mp = (length mp = 0)"

definition MerklePath_String :: "MerklePath \<Rightarrow> string" where
  "MerklePath_String mp = foldl (\<lambda>pathStr k. pathStr @ ''/'' @ PathEscape k) [] (KeyPath mp)"

definition Pretty :: "MerklePath \<Rightarrow> string result" where
  "Pretty mp = (case PathUnescape (MerklePath_String mp) of None \<Rightarrow> Inl Panic | Some path \<Rightarrow> Inr path)"

definition GetKey :: "MerklePath \<Rightarrow> u64 \<Rightarrow> bytes result" where
  "GetKey mp i =
     (if unat i \<ge> length (KeyPath mp) then Inl (External ''index out of range'')
      else case PathUnescape (KeyPath mp ! unat i) of
             None \<Rightarrow> Inl (External ''url'')
           | Some key \<Rightarrow> Inr key)"

definition MerklePath_Empty :: "MerklePath \<Rightarrow> bool" where
  "MerklePath_Empty mp = (length (KeyPath mp) = 0)"

definition ApplyPrefix :: "Prefix \<Rightarrow> MerklePath \<Rightarrow> MerklePath result" where
  "ApplyPrefix pre path =
     (case pre of
        None \<Rightarrow> Inl (CommitmentE ErrInvalidPrefix)
      | Some p \<Rightarrow> if MerklePrefix_Empty p then Inl (CommitmentE ErrInvalidPrefix)
                  else Inr (NewMerklePath (p # KeyPath path)))"

subsection \<open>Merkle proofs\<close>

text \<open>A single-tree proof by its oneof case; \<open>CP_Other\<close> is any other or no case.\<close>

datatype CommitmentProof = CP_Exist bytes | CP_Nonexist bytes | CP_Other bytes

type_synonym ProofSpec = "bytes option"

record ics23 =
  ics23_Calculate :: "CommitmentProof \<Rightarrow> bytes option"
  ics23_VerifyMembership :: "bytes \<Rightarrow> bytes \<Rightarrow> CommitmentProof \<Rightarrow> bytes \<Rightarrow> bytes \<Rightarrow> bool"
  ics23_VerifyNonMembership :: "bytes \<Rightarrow> bytes \<Rightarrow> CommitmentProof \<Rightarrow> bytes \<Rightarrow> bool"

datatype MerkleProof = MerkleProof (Proofs: "CommitmentProof list")

definition MerkleProof_Empty :: "MerkleProof \<Rightarrow> bool" where
  "MerkleProof_Empty proof = (Proofs proof = [])"

definition MerkleProof_ValidateBasic :: "MerkleProof \<Rightarrow> unit result" where
  "MerkleProof_ValidateBasic proof =
     (if MerkleProof_Empty proof then Inl (CommitmentE ErrInvalidProof) else Inr ())"

definition validateVerificationArgs :: "MerkleProof \<Rightarrow> ProofSpec list \<Rightarrow> Root \<Rightarrow> unit result" where
  "validateVerificationArgs proof specs root =
     (if MerkleProof_Empty proof then Inl (CommitmentE ErrInvalidMerkleProof)
      else if (case root of None \<Rightarrow> True | Some r \<Rightarrow> MerkleRoot_Empty r) then Inl (CommitmentE ErrInvalidMerkleProof)
      else if length specs \<noteq> length (Proofs proof) then Inl (CommitmentE ErrInvalidMerkleProof)
      else if None \<in> set specs then Inl (CommitmentE ErrInvalidProof)
      else Inr ())"

text \<open>
  One run of the loop of \<^verbatim>\<open>verifyChainedMembershipProof\<close> over the proofs from index \<open>i\<close> on;
  \<open>subroot\<close> is what the last proof committed to. Indexing the specs or the key path out of
  range panics.
\<close>

fun chain_loop :: "'x ics23_scheme \<Rightarrow> bytes \<Rightarrow> ProofSpec list \<Rightarrow> MerklePath \<Rightarrow> bytes \<Rightarrow> bytes \<Rightarrow> nat \<Rightarrow>
    CommitmentProof list \<Rightarrow> unit result" where
  "chain_loop E root specs keys value subroot i [] =
     (if root \<noteq> subroot then Inl (CommitmentE ErrInvalidProof) else Inr ())"
| "chain_loop E root specs keys value subroot i (p # ps) =
     (case p of
        CP_Exist _ \<Rightarrow>
          (case ics23_Calculate E p of
             None \<Rightarrow> Inl (CommitmentE ErrInvalidProof)
           | Some subroot' \<Rightarrow>
             (case GetKey keys (of_int (int (length (KeyPath keys)) - 1 - int i)) of
                Inl _ \<Rightarrow> (if length (KeyPath keys) < 1 + i then Inl Panic else Inl (CommitmentE ErrInvalidProof))
              | Inr key \<Rightarrow>
                if i \<ge> length specs then Inl Panic
                else case specs ! i of
                  None \<Rightarrow> Inl Panic
                | Some spec \<Rightarrow>
                  if \<not> ics23_VerifyMembership E spec subroot' p key value then Inl (CommitmentE ErrInvalidProof)
                  else chain_loop E root specs keys subroot' subroot' (Suc i) ps))
      | CP_Nonexist _ \<Rightarrow> Inl (CommitmentE ErrInvalidProof)
      | CP_Other _ \<Rightarrow> Inl (CommitmentE ErrInvalidProof))"

definition verifyChainedMembershipProof :: "'x ics23_scheme \<Rightarrow> bytes \<Rightarrow> ProofSpec list \<Rightarrow> CommitmentProof list \<Rightarrow>
    MerklePath \<Rightarrow> bytes \<Rightarrow> nat \<Rightarrow> unit result" where
  "verifyChainedMembershipProof E root specs proofs keys value index =
     chain_loop E root specs keys value value index (drop index proofs)"

definition VerifyMembership :: "'x ics23_scheme \<Rightarrow> MerkleProof \<Rightarrow> ProofSpec list \<Rightarrow> Root \<Rightarrow> MerklePath \<Rightarrow>
    bytes \<Rightarrow> unit result" where
  "VerifyMembership E proof specs root mpath value =
     (case validateVerificationArgs proof specs root of Inl e \<Rightarrow> Inl e | Inr _ \<Rightarrow>
      if length (KeyPath mpath) \<noteq> length specs then Inl (CommitmentE ErrInvalidProof)
      else if length value = 0 then Inl (CommitmentE ErrInvalidProof)
      else verifyChainedMembershipProof E (the root) specs (Proofs proof) mpath value 0)"

lemma VerifyMembership_code [code]:
  "VerifyMembership E pf specs root mpath v =
     (case validateVerificationArgs pf specs root of Inl e \<Rightarrow> Inl e | Inr _ \<Rightarrow>
      if length (KeyPath mpath) \<noteq> length specs then Inl (CommitmentE ErrInvalidProof)
      else case v of [] \<Rightarrow> Inl (CommitmentE ErrInvalidProof)
      | _ # _ \<Rightarrow> verifyChainedMembershipProof E (the root) specs (Proofs pf) mpath v 0)"
  by (auto simp: VerifyMembership_def split: sum.splits list.splits)

definition VerifyNonMembership :: "'x ics23_scheme \<Rightarrow> MerkleProof \<Rightarrow> ProofSpec list \<Rightarrow> Root \<Rightarrow> MerklePath \<Rightarrow>
    unit result" where
  "VerifyNonMembership E proof specs root mpath =
     (case validateVerificationArgs proof specs root of Inl e \<Rightarrow> Inl e | Inr _ \<Rightarrow>
      if length (KeyPath mpath) \<noteq> length specs then Inl (CommitmentE ErrInvalidProof)
      else case Proofs proof ! 0 of
        CP_Nonexist _ \<Rightarrow>
          (case ics23_Calculate E (Proofs proof ! 0) of
             None \<Rightarrow> Inl (CommitmentE ErrInvalidProof)
           | Some subroot \<Rightarrow>
             (case GetKey mpath (of_nat (length (KeyPath mpath) - 1)) of
                Inl _ \<Rightarrow> Inl (CommitmentE ErrInvalidProof)
              | Inr key \<Rightarrow>
                if \<not> ics23_VerifyNonMembership E (the (specs ! 0)) subroot (Proofs proof ! 0) key
                then Inl (CommitmentE ErrInvalidProof)
                else verifyChainedMembershipProof E (the root) specs (Proofs proof) mpath subroot 1))
      | CP_Exist _ \<Rightarrow> Inl (CommitmentE ErrInvalidProof)
      | CP_Other _ \<Rightarrow> Inl (CommitmentE ErrInvalidProof))"

definition BatchVerifyMembership :: "MerkleProof \<Rightarrow> unit result" where
  "BatchVerifyMembership proof = Inl (CommitmentE ErrInvalidProof)"

definition BatchVerifyNonMembership :: "MerkleProof \<Rightarrow> unit result" where
  "BatchVerifyNonMembership proof = Inl (CommitmentE ErrInvalidProof)"

subsection \<open>Escaping round trips\<close>

lemma hex_digit_unhex: "n < 16 \<Longrightarrow> is_hex (hex_digit n) \<and> unhex (hex_digit n) = n"
  by (auto simp: hex_digit_def is_hex_def unhex_def Let_def)

lemma PathUnescape_escaped:
  "PathUnescape (CHR ''%'' # hex_digit (of_char c div 16) # hex_digit (of_char c mod 16) # t) =
     map_option ((#) c) (PathUnescape t)"
proof -
  have "(of_char c :: nat) < 256" by (rule nat_of_char_less_256)
  then have "of_char c div 16 < (16 :: nat)" "of_char c mod 16 < (16 :: nat)"
    by (simp_all add: less_mult_imp_div_less)
  moreover have "16 * (of_char c div 16) + of_char c mod 16 = (of_char c :: nat)" by simp
  ultimately show ?thesis using hex_digit_unhex by simp
qed

lemma PathUnescape_PathEscape_append:
  "PathUnescape (PathEscape s @ t) = map_option ((@) s) (PathUnescape t)"
proof (induction s)
  case Nil
  then show ?case by (simp add: PathEscape_def option.map_id0 [unfolded id_def])
next
  case (Cons c s)
  have "segment_safe c \<Longrightarrow> c \<noteq> CHR ''%''" by (auto simp: segment_safe_def is_alphanumeric_def Let_def)
  with Cons show ?case
    by (cases "segment_safe c")
      (simp_all add: PathEscape_def PathUnescape_escaped option.map_comp comp_def del: PathUnescape.simps(2),
       simp_all add: option.map_comp comp_def)
qed

lemma PathUnescape_plain: "CHR ''%'' \<notin> set s \<Longrightarrow> PathUnescape s = Some s"
  by (induction s) auto

lemma MerklePath_String_concat:
  "MerklePath_String mp = concat (map (\<lambda>k. CHR ''/'' # PathEscape k) (KeyPath mp))"
proof -
  have "foldl (\<lambda>a k. a @ ''/'' @ PathEscape k) acc ks = acc @ concat (map (\<lambda>k. CHR ''/'' # PathEscape k) ks)"
    for acc ks
    by (induction ks arbitrary: acc) simp_all
  then show ?thesis by (simp add: MerklePath_String_def)
qed

text \<open>
  Pretty-printing a key path never panics: escaping every key and unescaping the whole
  gives back the keys, each after a slash.
\<close>

theorem Pretty_total: "Pretty mp = Inr (concat (map (\<lambda>k. CHR ''/'' # k) (KeyPath mp)))"
proof -
  have "PathUnescape (concat (map (\<lambda>k. CHR ''/'' # PathEscape k) ks)) = Some (concat (map (\<lambda>k. CHR ''/'' # k) ks))"
    for ks
    by (induction ks) (simp_all add: PathUnescape_PathEscape_append)
  then show ?thesis by (simp add: Pretty_def MerklePath_String_concat)
qed

text \<open>A path of identifiers holds no percent sign, so unescaping leaves it alone.\<close>

lemma id_char_no_percent: "is_id_char c \<Longrightarrow> c \<noteq> CHR ''%''"
  by (auto simp: is_id_char_def is_alphanumeric_def Let_def)

lemma valid_id_no_percent: "IsValidID s \<Longrightarrow> CHR ''%'' \<notin> set s"
  by (auto simp: IsValidID_def list_all_iff dest: id_char_no_percent)

lemma GetKey_plain:
  "unat i < length ks \<Longrightarrow> CHR ''%'' \<notin> set (ks ! unat i) \<Longrightarrow> GetKey (MerklePath ks) i = Inr (ks ! unat i)"
  by (simp add: GetKey_def PathUnescape_plain)

subsection \<open>What a chained proof establishes\<close>

text \<open>
  The specification of a chain of membership proofs: \<open>rs\<close> are the roots of the successive
  trees, lowest first. The proof at position \<open>j\<close> is an existence proof whose root is
  \<open>rs ! j\<close>, and it shows that, under the key the path has for that level, its tree holds
  the value committed to by the level below (\<open>v\<close> at the bottom).
\<close>

definition chain_link :: "'x ics23_scheme \<Rightarrow> ProofSpec list \<Rightarrow> MerklePath \<Rightarrow> nat \<Rightarrow> CommitmentProof \<Rightarrow> bytes \<Rightarrow> bytes \<Rightarrow> bool" where
  "chain_link E specs keys i p v r =
     ((case p of CP_Exist _ \<Rightarrow> True | _ \<Rightarrow> False) \<and> ics23_Calculate E p = Some r \<and> i < length specs \<and>
      (\<exists>key spec. GetKey keys (of_int (int (length (KeyPath keys)) - 1 - int i)) = Inr key \<and>
         specs ! i = Some spec \<and> ics23_VerifyMembership E spec r p key v))"

fun chain_links :: "'x ics23_scheme \<Rightarrow> ProofSpec list \<Rightarrow> MerklePath \<Rightarrow> nat \<Rightarrow> CommitmentProof list \<Rightarrow> bytes \<Rightarrow> bytes list \<Rightarrow> bool" where
  "chain_links E specs keys i [] v rs = (rs = [])"
| "chain_links E specs keys i (p # ps) v rs =
     (case rs of [] \<Rightarrow> False
      | r # rs' \<Rightarrow> chain_link E specs keys i p v r \<and> chain_links E specs keys (Suc i) ps r rs')"

lemma chain_loop_iff:
  "chain_loop E root specs keys v v i ps = Inr () \<longleftrightarrow>
     (\<exists>rs. chain_links E specs keys i ps v rs \<and> last (v # rs) = root)"
proof (induction ps arbitrary: v i)
  case Nil
  then show ?case by auto
next
  case (Cons p ps)
  have "chain_loop E root specs keys v v i (p # ps) = Inr () \<longleftrightarrow>
        (\<exists>r. chain_link E specs keys i p v r \<and> chain_loop E root specs keys r r (Suc i) ps = Inr ())"
    by (auto simp: chain_link_def not_le split: CommitmentProof.splits option.splits sum.splits)
  also have "\<dots> \<longleftrightarrow> (\<exists>rs. chain_links E specs keys i (p # ps) v rs \<and> last (v # rs) = root)"
    unfolding Cons.IH by (fastforce split: list.splits)
  finally show ?case .
qed

lemma chain_links_length: "chain_links E specs keys i ps v rs \<Longrightarrow> length rs = length ps"
  by (induction ps arbitrary: i v rs) (auto split: list.splits)

lemma chain_links_nth:
  "chain_links E specs keys i ps v rs \<longleftrightarrow> length rs = length ps \<and>
     (\<forall>j < length ps. chain_link E specs keys (i + j) (ps ! j) ((v # rs) ! j) (rs ! j))"
proof (induction ps arbitrary: i v rs)
  case Nil
  then show ?case by simp
next
  case (Cons p ps)
  show ?case
    by (cases rs) (auto simp: Cons.IH All_less_Suc2)
qed

text \<open>
  C20: a chained membership proof is accepted exactly when its arguments are well formed
  and there is a chain of roots from the value to the trusted root: every proof is an
  existence proof which shows, under the key the path has at its level, the value that
  the level below commits to. Nothing else is accepted, so a proof cannot skip a level,
  reuse a key of another level, or end in another root.
\<close>

theorem VerifyMembership_chain:
  "VerifyMembership E proof specs root mpath v = Inr () \<longleftrightarrow>
     Proofs proof \<noteq> [] \<and> length specs = length (Proofs proof) \<and> length (KeyPath mpath) = length specs \<and>
     None \<notin> set specs \<and> v \<noteq> [] \<and>
     (\<exists>r rs. root = Some r \<and> r \<noteq> [] \<and> length rs = length (Proofs proof) \<and> last rs = r \<and>
        (\<forall>j < length (Proofs proof).
           chain_link E specs mpath j (Proofs proof ! j) ((v # rs) ! j) (rs ! j)))"
proof (cases "Proofs proof \<noteq> [] \<and> length specs = length (Proofs proof) \<and> length (KeyPath mpath) = length specs \<and>
     None \<notin> set specs \<and> v \<noteq> [] \<and> (\<exists>r. root = Some r \<and> r \<noteq> [])")
  case True
  then obtain r where r: "root = Some r" "r \<noteq> []" by blast
  have l: "last (v # rs) = last rs" if "length rs = length (Proofs proof)" for rs :: "bytes list"
    using that True by (cases rs) auto
  have "verifyChainedMembershipProof E r specs (Proofs proof) mpath v 0 = Inr () \<longleftrightarrow>
      (\<exists>rs. length rs = length (Proofs proof) \<and> last rs = r \<and>
        (\<forall>j < length (Proofs proof). chain_link E specs mpath j (Proofs proof ! j) ((v # rs) ! j) (rs ! j)))"
    using l by (auto simp: verifyChainedMembershipProof_def chain_loop_iff chain_links_nth simp del: last.simps)
  then show ?thesis
    using True r
    by (auto simp: VerifyMembership_def validateVerificationArgs_def MerkleProof_Empty_def MerkleRoot_Empty_def)
qed (auto simp: VerifyMembership_def validateVerificationArgs_def MerkleProof_Empty_def MerkleRoot_Empty_def
    split: if_splits option.splits)

text \<open>
  The third-party verifier at one instance: a tree with the single entry \<open>k = v\<close> has the
  root \<open>k @ v\<close>, and its proof carries the root.
\<close>

definition toy_ics23 :: ics23 where
  "toy_ics23 = \<lparr> ics23_Calculate = (\<lambda>p. case p of CP_Exist b \<Rightarrow> Some b | CP_Nonexist b \<Rightarrow> Some b | _ \<Rightarrow> None),
     ics23_VerifyMembership = (\<lambda>spec r p k v. r = k @ v),
     ics23_VerifyNonMembership = (\<lambda>spec r p k. take (length k) r \<noteq> k) \<rparr>"

theorem VerifyMembership_chain_witness:
  "VerifyMembership toy_ics23 (MerkleProof [CP_Exist ''av'', CP_Exist ''bav'']) [Some [], Some []] (Some ''bav'')
     (MerklePath [''b'', ''a'']) ''v'' = Inr ()"
  unfolding VerifyMembership_chain
  by (auto simp: chain_link_def toy_ics23_def GetKey_def All_less_Suc2 numeral_2_eq_2 intro!: exI [of _ "[''av'', ''bav'']"])

text \<open>
  A chained non-membership proof is accepted exactly when the lowest proof is a
  non-existence proof of the last key of the path in a tree with root \<open>r0\<close>, and the
  remaining proofs chain that root to the trusted root; an existence proof at the lowest
  level is never accepted.
\<close>

theorem VerifyNonMembership_chain:
  "VerifyNonMembership E proof specs root mpath = Inr () \<longleftrightarrow>
     Proofs proof \<noteq> [] \<and> length specs = length (Proofs proof) \<and> length (KeyPath mpath) = length specs \<and>
     None \<notin> set specs \<and>
     (\<exists>r b r0 key rs. root = Some r \<and> r \<noteq> [] \<and> hd (Proofs proof) = CP_Nonexist b \<and>
        ics23_Calculate E (hd (Proofs proof)) = Some r0 \<and>
        GetKey mpath (of_nat (length (KeyPath mpath) - 1)) = Inr key \<and>
        ics23_VerifyNonMembership E (the (hd specs)) r0 (hd (Proofs proof)) key \<and>
        chain_links E specs mpath 1 (tl (Proofs proof)) r0 rs \<and> last (r0 # rs) = r)"
proof (cases "Proofs proof \<noteq> [] \<and> length specs = length (Proofs proof) \<and> length (KeyPath mpath) = length specs \<and>
     None \<notin> set specs \<and> (\<exists>r. root = Some r \<and> r \<noteq> [])")
  case True
  then obtain r where r: "root = Some r" "r \<noteq> []" by blast
  have "specs \<noteq> []" using True by auto
  then have h: "specs ! 0 = hd specs" "Proofs proof ! 0 = hd (Proofs proof)" "drop 1 (Proofs proof) = tl (Proofs proof)"
    using True by (auto simp: hd_conv_nth drop_Suc)
  show ?thesis
    using True r
    by (auto simp: VerifyNonMembership_def validateVerificationArgs_def MerkleProof_Empty_def MerkleRoot_Empty_def
        verifyChainedMembershipProof_def chain_loop_iff h drop_Suc split: CommitmentProof.splits option.splits sum.splits)
qed (auto simp: VerifyNonMembership_def validateVerificationArgs_def MerkleProof_Empty_def MerkleRoot_Empty_def
    split: if_splits option.splits)

subsection \<open>Binding\<close>

text \<open>A break of one tree: two different values proved under one key and one root.\<close>

definition tree_conflict :: "'x ics23_scheme \<Rightarrow> bool" where
  "tree_conflict E = (\<exists>spec r key p q a b. a \<noteq> b \<and>
     ics23_VerifyMembership E spec r p key a \<and> ics23_VerifyMembership E spec r q key b)"

lemma chain_links_binding:
  "chain_links E specs keys i ps v rs \<Longrightarrow> chain_links E specs keys i qs w ss \<Longrightarrow> length ps = length qs \<Longrightarrow>
   last (v # rs) = last (w # ss) \<Longrightarrow> v \<noteq> w \<Longrightarrow> tree_conflict E"
proof (induction ps arbitrary: i v rs qs w ss)
  case Nil
  then show ?case by simp
next
  case (Cons p ps)
  then obtain q qs' where qs: "qs = q # qs'" by (cases qs) auto
  obtain r rs' where rs: "rs = r # rs'" "chain_link E specs keys i p v r" "chain_links E specs keys (Suc i) ps r rs'"
    using Cons.prems(1) by (auto split: list.splits)
  obtain s ss' where ss: "ss = s # ss'" "chain_link E specs keys i q w s" "chain_links E specs keys (Suc i) qs' s ss'"
    using Cons.prems(2) qs by (auto split: list.splits)
  show ?case
  proof (cases "r = s")
    case True
    with rs(2) ss(2) Cons.prems(5) show ?thesis
      unfolding chain_link_def tree_conflict_def by (metis option.inject sum.inject(2))
  next
    case False
    with Cons.IH [OF rs(3) ss(3)] Cons.prems(3,4) qs rs(1) ss(1) show ?thesis by simp
  qed
qed

text \<open>
  Chained membership is binding: if two proofs are accepted for different values under
  the same root, specifications and path, then some single tree has accepted proofs of two
  different values under one key and root. No assumption on the hash or on the
  single-tree verifier is made; the theorem is a reduction to it.
\<close>

theorem VerifyMembership_binding:
  assumes "VerifyMembership E proof specs root mpath v = Inr ()"
    and "VerifyMembership E proof' specs root mpath v' = Inr ()"
    and "v \<noteq> v'"
  shows "tree_conflict E"
proof -
  have "\<exists>rs. chain_links E specs mpath 0 (Proofs p) u rs \<and> last (u # rs) = the root \<and> length (Proofs p) = length specs"
    if "VerifyMembership E p specs root mpath u = Inr ()" for p u
    using that
    by (auto simp: VerifyMembership_def result_elims validateVerificationArgs_def verifyChainedMembershipProof_def
        chain_loop_iff simp del: last.simps)
  from this [OF assms(1)] this [OF assms(2)] assms(3) chain_links_binding show ?thesis by metis
qed

theorem VerifyMembership_binding_witness:
  "\<exists>E :: ics23. tree_conflict E \<and>
     VerifyMembership E (MerkleProof [CP_Exist ''r'']) [Some []] (Some ''r'') (MerklePath [''a'']) ''v'' = Inr () \<and>
     VerifyMembership E (MerkleProof [CP_Exist ''r'']) [Some []] (Some ''r'') (MerklePath [''a'']) ''w'' = Inr ()"
proof -
  let ?E = "\<lparr> ics23_Calculate = (\<lambda>p. Some ''r''), ics23_VerifyMembership = (\<lambda>spec r p k v. True),
     ics23_VerifyNonMembership = (\<lambda>spec r p k. True) \<rparr>"
  have 1: "VerifyMembership ?E (MerkleProof [CP_Exist ''r'']) [Some []] (Some ''r'') (MerklePath [''a'']) ''v'' = Inr ()"
    and 2: "VerifyMembership ?E (MerkleProof [CP_Exist ''r'']) [Some []] (Some ''r'') (MerklePath [''a'']) ''w'' = Inr ()"
    by code_simp+
  from VerifyMembership_binding [OF 1 2] have "tree_conflict ?E" by simp
  with 1 2 show ?thesis by blast
qed

end
