(* ===== verification/ConnectionTypes.thy ===== *)
theory ConnectionTypes
  imports Height Commitment
begin

text \<open>
  The data of ICS-3 connections (\<^verbatim>\<open>modules/core/03-connection/types\<close>): versions and their
  negotiation (\<^verbatim>\<open>version.go\<close>), connection ends (\<^verbatim>\<open>connection.go\<close>), connection identifiers
  (\<^verbatim>\<open>keys.go\<close>) and parameters (\<^verbatim>\<open>params.go\<close>).

  The lemmas give the contract of version negotiation on both sides of a handshake and the
  round trip of connection identifiers.
\<close>

subsection \<open>Versions (version.go)\<close>

record Version =
  ver_Identifier :: string
  ver_Features :: "string list"

definition NewVersion :: "string \<Rightarrow> string list \<Rightarrow> Version" where
  "NewVersion identifier features = \<lparr> ver_Identifier = identifier, ver_Features = features \<rparr>"

definition DefaultIBCVersionIdentifier :: string where
  "DefaultIBCVersionIdentifier = ''1''"

definition DefaultIBCVersion :: Version where
  "DefaultIBCVersion = NewVersion DefaultIBCVersionIdentifier [''ORDER_ORDERED'', ''ORDER_UNORDERED'']"

definition allowNilFeatureSet :: "string \<Rightarrow> bool" where
  "allowNilFeatureSet identifier =
     (case map_of [(DefaultIBCVersionIdentifier, False)] identifier of None \<Rightarrow> False | Some b \<Rightarrow> b)"

fun contains :: "string \<Rightarrow> string list \<Rightarrow> bool" where
  "contains elem [] = False"
| "contains elem (element # rest) = (if elem = element then True else contains elem rest)"

fun validate_features :: "string list \<Rightarrow> unit result" where
  "validate_features [] = Inr ()"
| "validate_features (feature # fs) =
     (if all_space feature then Inl (ConnectionE conn_ErrInvalidVersion) else validate_features fs)"

text \<open>\<open>None\<close> is the nil pointer.\<close>

definition ValidateVersion :: "Version option \<Rightarrow> unit result" where
  "ValidateVersion version =
     (case version of
        None \<Rightarrow> Inl (ConnectionE conn_ErrInvalidVersion)
      | Some v \<Rightarrow>
          if all_space (ver_Identifier v) then Inl (ConnectionE conn_ErrInvalidVersion)
          else validate_features (ver_Features v))"

fun all_supported :: "string list \<Rightarrow> string list \<Rightarrow> unit result" where
  "all_supported [] features = Inr ()"
| "all_supported (f # fs) features =
     (if \<not> contains f features then Inl (ConnectionE ErrVersionNegotiationFailed)
      else all_supported fs features)"

definition VerifyProposedVersion :: "Version \<Rightarrow> Version \<Rightarrow> unit result" where
  "VerifyProposedVersion version proposedVersion =
     (if ver_Identifier proposedVersion \<noteq> ver_Identifier version
      then Inl (ConnectionE ErrVersionNegotiationFailed)
      else if length (ver_Features proposedVersion) = 0 \<and> \<not> allowNilFeatureSet (ver_Identifier proposedVersion)
      then Inl (ConnectionE ErrVersionNegotiationFailed)
      else all_supported (ver_Features proposedVersion) (ver_Features version))"

definition VerifySupportedFeature :: "Version \<Rightarrow> string \<Rightarrow> bool" where
  "VerifySupportedFeature version feature = list_ex (\<lambda>f. f = feature) (ver_Features version)"

definition GetCompatibleVersions :: "Version list" where
  "GetCompatibleVersions = [DefaultIBCVersion]"

fun FindSupportedVersion :: "Version \<Rightarrow> Version list \<Rightarrow> Version option" where
  "FindSupportedVersion version [] = None"
| "FindSupportedVersion version (supportedVersion # rest) =
     (if ver_Identifier version = ver_Identifier supportedVersion then Some supportedVersion
      else FindSupportedVersion version rest)"

definition IsSupportedVersion :: "Version \<Rightarrow> bool" where
  "IsSupportedVersion proposedVersion =
     (case FindSupportedVersion proposedVersion GetCompatibleVersions of
        None \<Rightarrow> False
      | Some supportedVersion \<Rightarrow> is_ok (VerifyProposedVersion supportedVersion proposedVersion))"

definition GetFeatureSetIntersection :: "string list \<Rightarrow> string list \<Rightarrow> string list" where
  "GetFeatureSetIntersection sourceFeatureSet counterpartyFeatureSet =
     foldl (\<lambda>featureSet feature.
       if contains feature counterpartyFeatureSet then featureSet @ [feature] else featureSet)
     [] sourceFeatureSet"

fun PickVersion :: "Version list \<Rightarrow> Version list \<Rightarrow> Version result" where
  "PickVersion [] counterpartyVersions = Inl (ConnectionE ErrVersionNegotiationFailed)"
| "PickVersion (supportedVersion # rest) counterpartyVersions =
     (case FindSupportedVersion supportedVersion counterpartyVersions of
        None \<Rightarrow> PickVersion rest counterpartyVersions
      | Some counterpartyVersion \<Rightarrow>
          let featureSet = GetFeatureSetIntersection (ver_Features supportedVersion) (ver_Features counterpartyVersion) in
          if length featureSet = 0 \<and> \<not> allowNilFeatureSet (ver_Identifier supportedVersion)
          then PickVersion rest counterpartyVersions
          else Inr (NewVersion (ver_Identifier supportedVersion) featureSet))"

subsection \<open>Connection ends (connection.go)\<close>

datatype conn_state = C_UNINITIALIZED | C_INIT | C_TRYOPEN | C_OPEN

record conn_counterparty =
  cp_ClientId :: string
  cp_ConnectionId :: string
  cp_Prefix :: MerklePrefix

record ConnectionEnd =
  conn_ClientId :: string
  conn_Versions :: "Version list"
  conn_State :: conn_state
  conn_Counterparty :: conn_counterparty
  conn_DelayPeriod :: u64

definition NewConnectionEnd :: "conn_state \<Rightarrow> string \<Rightarrow> conn_counterparty \<Rightarrow> Version list \<Rightarrow> u64 \<Rightarrow> ConnectionEnd" where
  "NewConnectionEnd state clientID counterparty versions delayPeriod =
     \<lparr> conn_ClientId = clientID, conn_Versions = versions, conn_State = state,
       conn_Counterparty = counterparty, conn_DelayPeriod = delayPeriod \<rparr>"

definition NewCounterparty :: "string \<Rightarrow> string \<Rightarrow> MerklePrefix \<Rightarrow> conn_counterparty" where
  "NewCounterparty clientID connectionID pre =
     \<lparr> cp_ClientId = clientID, cp_ConnectionId = connectionID, cp_Prefix = pre \<rparr>"

definition conn_counterparty_ValidateBasic :: "conn_counterparty \<Rightarrow> unit result" where
  "conn_counterparty_ValidateBasic c =
     (case (if cp_ConnectionId c \<noteq> [] then ConnectionIdentifierValidator (cp_ConnectionId c) else Inr ()) of
        Inl e \<Rightarrow> Inl e
      | Inr _ \<Rightarrow> (case ClientIdentifierValidator (cp_ClientId c) of
          Inl e \<Rightarrow> Inl e
        | Inr _ \<Rightarrow> if MerklePrefix_Empty (cp_Prefix c) then Inl (ConnectionE conn_ErrInvalidCounterparty)
                   else Inr ()))"

fun validate_versions :: "Version list \<Rightarrow> unit result" where
  "validate_versions [] = Inr ()"
| "validate_versions (v # vs) =
     (case ValidateVersion (Some v) of Inl e \<Rightarrow> Inl e | Inr _ \<Rightarrow> validate_versions vs)"

definition ConnectionEnd_ValidateBasic :: "ConnectionEnd \<Rightarrow> unit result" where
  "ConnectionEnd_ValidateBasic c =
     (case ClientIdentifierValidator (conn_ClientId c) of
        Inl e \<Rightarrow> Inl e
      | Inr _ \<Rightarrow>
          if length (conn_Versions c) = 0 then Inl (SdkE sdk_ErrInvalidVersion)
          else case validate_versions (conn_Versions c) of
                 Inl e \<Rightarrow> Inl e
               | Inr _ \<Rightarrow> conn_counterparty_ValidateBasic (conn_Counterparty c))"

record IdentifiedConnection =
  ic_Id :: string
  ic_ClientId :: string
  ic_Versions :: "Version list"
  ic_State :: conn_state
  ic_Counterparty :: conn_counterparty
  ic_DelayPeriod :: u64

definition NewIdentifiedConnection :: "string \<Rightarrow> ConnectionEnd \<Rightarrow> IdentifiedConnection" where
  "NewIdentifiedConnection connectionID conn =
     \<lparr> ic_Id = connectionID, ic_ClientId = conn_ClientId conn, ic_Versions = conn_Versions conn,
       ic_State = conn_State conn, ic_Counterparty = conn_Counterparty conn, ic_DelayPeriod = conn_DelayPeriod conn \<rparr>"

definition IdentifiedConnection_ValidateBasic :: "IdentifiedConnection \<Rightarrow> unit result" where
  "IdentifiedConnection_ValidateBasic ic =
     (case ConnectionIdentifierValidator (ic_Id ic) of
        Inl e \<Rightarrow> Inl e
      | Inr _ \<Rightarrow> ConnectionEnd_ValidateBasic
          (NewConnectionEnd (ic_State ic) (ic_ClientId ic) (ic_Counterparty ic) (ic_Versions ic) (ic_DelayPeriod ic)))"

subsection \<open>Connection identifiers (keys.go) and parameters (params.go)\<close>

definition ConnectionPrefix :: string where
  "ConnectionPrefix = ''connection-''"

definition FormatConnectionIdentifier :: "u64 \<Rightarrow> string" where
  "FormatConnectionIdentifier sequence = ConnectionPrefix @ show_u64 sequence"

text \<open>The regular expression \<^verbatim>\<open>^connection-[0-9]{1,20}$\<close>\<close>

definition IsConnectionIDFormat :: "string \<Rightarrow> bool" where
  "IsConnectionIDFormat s =
     (prefix ''connection-'' s \<and>
      (let d = drop 11 s in list_all is_digit d \<and> 1 \<le> length d \<and> length d \<le> 20))"

definition ParseConnectionSequence :: "string \<Rightarrow> u64 result" where
  "ParseConnectionSequence connectionID =
     (if \<not> IsConnectionIDFormat connectionID then Inl (HostE ErrInvalidID)
      else case ParseIdentifier connectionID ConnectionPrefix of
             Inl e \<Rightarrow> Inl e
           | Inr sequence \<Rightarrow> Inr sequence)"

definition IsValidConnectionID :: "string \<Rightarrow> bool" where
  "IsValidConnectionID connectionID = is_ok (ParseConnectionSequence connectionID)"

definition DefaultTimePerBlock :: int where
  "DefaultTimePerBlock = 30 * 1000000000"

record conn_Params =
  MaxExpectedTimePerBlock :: u64

definition conn_DefaultParams :: conn_Params where
  "conn_DefaultParams = \<lparr> MaxExpectedTimePerBlock = of_int DefaultTimePerBlock \<rparr>"

definition conn_Params_Validate :: "conn_Params \<Rightarrow> unit result" where
  "conn_Params_Validate p =
     (if MaxExpectedTimePerBlock p = 0 then Inl (External ''MaxExpectedTimePerBlock'') else Inr ())"

subsection \<open>Version negotiation\<close>

lemma contains_iff: "contains x xs \<longleftrightarrow> x \<in> set xs"
  by (induction xs) auto

lemma all_supported_iff: "all_supported fs features = Inr () \<longleftrightarrow> set fs \<subseteq> set features"
  by (induction fs) (auto simp: contains_iff)

lemma GetFeatureSetIntersection_filter:
  "GetFeatureSetIntersection xs ys = filter (\<lambda>x. x \<in> set ys) xs"
proof -
  have "foldl (\<lambda>a x. if contains x ys then a @ [x] else a) acc xs = acc @ filter (\<lambda>x. x \<in> set ys) xs" for acc
    by (induction xs arbitrary: acc) (simp_all add: contains_iff)
  then show ?thesis by (simp add: GetFeatureSetIntersection_def)
qed

lemma FindSupportedVersion_Some:
  "FindSupportedVersion v vs = Some w \<Longrightarrow> w \<in> set vs \<and> ver_Identifier w = ver_Identifier v"
  by (induction vs) (auto split: if_splits)

lemma VerifyProposedVersion_iff:
  "VerifyProposedVersion v p = Inr () \<longleftrightarrow>
     ver_Identifier p = ver_Identifier v \<and> (ver_Features p \<noteq> [] \<or> allowNilFeatureSet (ver_Identifier p)) \<and>
     set (ver_Features p) \<subseteq> set (ver_Features v)"
  by (auto simp: VerifyProposedVersion_def all_supported_iff)

lemma PickVersion_Inr:
  "PickVersion ss cs = Inr v \<Longrightarrow>
     \<exists>s \<in> set ss. \<exists>c \<in> set cs. FindSupportedVersion s cs = Some c \<and> ver_Identifier v = ver_Identifier s \<and>
       ver_Features v = filter (\<lambda>f. f \<in> set (ver_Features c)) (ver_Features s) \<and>
       (ver_Features v \<noteq> [] \<or> allowNilFeatureSet (ver_Identifier s))"
proof (induction ss)
  case Nil
  then show ?case by simp
next
  case (Cons s ss)
  show ?case
  proof (cases "FindSupportedVersion s cs")
    case None
    with Cons show ?thesis by auto
  next
    case (Some c)
    then have c: "c \<in> set cs" by (simp add: FindSupportedVersion_Some)
    show ?thesis
    proof (cases "length (GetFeatureSetIntersection (ver_Features s) (ver_Features c)) = 0 \<and> \<not> allowNilFeatureSet (ver_Identifier s)")
      case True
      with Cons Some show ?thesis by (auto simp: Let_def)
    next
      case False
      then have "v = NewVersion (ver_Identifier s) (GetFeatureSetIntersection (ver_Features s) (ver_Features c))"
        using Cons.prems Some by (simp only: PickVersion.simps option.case Let_def if_False) simp
      with Some c False show ?thesis
        by (intro bexI [of _ s] bexI [of _ c]) (auto simp: NewVersion_def GetFeatureSetIntersection_filter)
    qed
  qed
qed

text \<open>
  The contract of version negotiation: a picked version is acceptable to both chains
  (it passes the check of a proposed version against one of the supported and one of the
  counterparty's versions), and its feature set is exactly the intersection of the two.
\<close>

theorem PickVersion_contract:
  assumes "PickVersion supported counterparty = Inr v"
  shows "\<exists>s \<in> set supported. \<exists>c \<in> set counterparty.
     VerifyProposedVersion s v = Inr () \<and> VerifyProposedVersion c v = Inr () \<and>
     set (ver_Features v) = set (ver_Features s) \<inter> set (ver_Features c)"
proof -
  from PickVersion_Inr [OF assms] obtain s c where sc: "s \<in> set supported" "c \<in> set counterparty"
      "FindSupportedVersion s counterparty = Some c" "ver_Identifier v = ver_Identifier s"
      "ver_Features v = filter (\<lambda>f. f \<in> set (ver_Features c)) (ver_Features s)"
      "ver_Features v \<noteq> [] \<or> allowNilFeatureSet (ver_Identifier s)"
    by blast
  then have "ver_Identifier c = ver_Identifier s" by (simp add: FindSupportedVersion_Some)
  with sc have "VerifyProposedVersion s v = Inr ()" "VerifyProposedVersion c v = Inr ()"
    unfolding VerifyProposedVersion_iff by auto
  with sc(1,2,5) show ?thesis by auto
qed

theorem PickVersion_contract_witness:
  "\<exists>s \<in> set GetCompatibleVersions. \<exists>c \<in> set [NewVersion ''1'' [''ORDER_ORDERED'']].
     VerifyProposedVersion s (NewVersion ''1'' [''ORDER_ORDERED'']) = Inr () \<and>
     VerifyProposedVersion c (NewVersion ''1'' [''ORDER_ORDERED'']) = Inr () \<and>
     set (ver_Features (NewVersion ''1'' [''ORDER_ORDERED''])) = set (ver_Features s) \<inter> set (ver_Features c)"
proof (rule PickVersion_contract)
  show "PickVersion GetCompatibleVersions [NewVersion ''1'' [''ORDER_ORDERED'']] = Inr (NewVersion ''1'' [''ORDER_ORDERED''])"
    by code_simp
qed

text \<open>What one chain picks in \<^verbatim>\<open>ConnOpenTry\<close> the other accepts in \<^verbatim>\<open>ConnOpenAck\<close>.\<close>

lemma PickVersion_supported:
  "PickVersion GetCompatibleVersions cs = Inr v \<Longrightarrow> IsSupportedVersion v"
proof -
  assume "PickVersion GetCompatibleVersions cs = Inr v"
  from PickVersion_Inr [OF this] have "VerifyProposedVersion DefaultIBCVersion v = Inr ()"
    by (auto simp: GetCompatibleVersions_def VerifyProposedVersion_iff)
  then show ?thesis
    by (auto simp: IsSupportedVersion_def GetCompatibleVersions_def VerifyProposedVersion_iff is_ok_iff)
qed

subsection \<open>Connection identifiers\<close>

lemma IsConnectionIDFormat_Format: "IsConnectionIDFormat (FormatConnectionIdentifier n)"
proof -
  have "1 \<le> length (show_u64 n)" by (cases "show_u64 n") auto
  then show ?thesis
    using length_show_u64 [of n]
    by (simp add: IsConnectionIDFormat_def FormatConnectionIdentifier_def ConnectionPrefix_def)
qed

lemma ParseConnectionSequence_Format_lemma:
  "ParseConnectionSequence (FormatConnectionIdentifier n) = Inr n"
proof -
  have "ParseIdentifier (FormatConnectionIdentifier n) ConnectionPrefix = Inr n"
    unfolding FormatConnectionIdentifier_def
    by (rule ParseIdentifier_format) (simp_all add: ConnectionPrefix_def)
  then show ?thesis by (simp add: ParseConnectionSequence_def IsConnectionIDFormat_Format)
qed

interpretation connection_ids:
  identifier_format FormatConnectionIdentifier ParseConnectionSequence ConnectionIdentifierValidator
proof
  fix n s
  show "ParseConnectionSequence (FormatConnectionIdentifier n) = Inr n"
    by (rule ParseConnectionSequence_Format_lemma)
  have "IsValidID ConnectionPrefix"
    by (simp add: ConnectionPrefix_def IsValidID_def is_id_char_def is_alphanumeric_def Let_def)
  then show "ConnectionIdentifierValidator (FormatConnectionIdentifier n) = Inr ()"
    unfolding ConnectionIdentifierValidator_def FormatConnectionIdentifier_def
    by (rule validator_append_u64) (simp_all add: ConnectionPrefix_def)
  show "ConnectionIdentifierValidator s = Inr () \<Longrightarrow> no_slash s" by (rule identifier_no_slash)
qed

end
