(* ===== verification/Sha256.thy ===== *)
theory Sha256
  imports IBC_Prelude
begin

text \<open>
  SHA-256 (\<^verbatim>\<open>crypto/sha256\<close> of Go's standard library, FIPS 180-4), which the channel types
  use for packet and acknowledgement commitments and the transfer application for
  denomination hashes. The function is executable. The lemmas give the length of a digest
  and split a concatenated preimage at its fixed-width parts; no statement of the
  development assumes that the hash is injective.
\<close>

unbundle bit_operations_syntax

type_synonym w32 = "32 word"

definition rotr :: "nat \<Rightarrow> w32 \<Rightarrow> w32" where
  "rotr n x = word_rotr n x"

definition sha_K :: "w32 list" where
  "sha_K =
     [1116352408, 1899447441, 3049323471, 3921009573, 961987163, 1508970993,
      2453635748, 2870763221, 3624381080, 310598401, 607225278, 1426881987,
      1925078388, 2162078206, 2614888103, 3248222580, 3835390401, 4022224774,
      264347078, 604807628, 770255983, 1249150122, 1555081692, 1996064986,
      2554220882, 2821834349, 2952996808, 3210313671, 3336571891, 3584528711,
      113926993, 338241895, 666307205, 773529912, 1294757372, 1396182291,
      1695183700, 1986661051, 2177026350, 2456956037, 2730485921, 2820302411,
      3259730800, 3345764771, 3516065817, 3600352804, 4094571909, 275423344,
      430227734, 506948616, 659060556, 883997877, 958139571, 1322822218,
      1537002063, 1747873779, 1955562222, 2024104815, 2227730452, 2361852424,
      2428436474, 2756734187, 3204031479, 3329325298]"

definition sha_H0 :: "w32 list" where
  "sha_H0 =
     [1779033703, 3144134277, 1013904242, 2773480762, 1359893119, 2600822924,
      528734635, 1541459225]"

definition byte_word :: "char \<Rightarrow> w32" where
  "byte_word c = of_nat (of_char c)"

definition be_word :: "bytes \<Rightarrow> w32" where
  "be_word bs = foldl (\<lambda>w c. push_bit 8 w OR byte_word c) 0 bs"

definition word_bytes :: "w32 \<Rightarrow> bytes" where
  "word_bytes w = map (\<lambda>i. char_of (unat (drop_bit i w AND 0xff))) [24, 16, 8, 0]"

text \<open>Padding: a one bit, zeros, and the length in bits as 64 big-endian bits.\<close>

definition sha_pad :: "bytes \<Rightarrow> bytes" where
  "sha_pad m =
     m @ [CHR 0x80] @ replicate ((119 - length m mod 64) mod 64) (CHR 0x00) @ u64_be (of_nat (8 * length m))"

fun chunks :: "nat \<Rightarrow> nat \<Rightarrow> 'a list \<Rightarrow> 'a list list" where
  "chunks 0 k xs = []"
| "chunks (Suc n) k xs = take k xs # chunks n k (drop k xs)"

text \<open>The message schedule, kept with its newest word first.\<close>

definition sched_step :: "w32 list \<Rightarrow> w32 list" where
  "sched_step ws =
     (let a = ws ! 14; b = ws ! 1;
          s0 = rotr 7 a XOR rotr 18 a XOR drop_bit 3 a;
          s1 = rotr 17 b XOR rotr 19 b XOR drop_bit 10 b
      in (ws ! 15 + s0 + ws ! 6 + s1) # ws)"

definition schedule :: "bytes \<Rightarrow> w32 list" where
  "schedule blk = rev ((sched_step ^^ 48) (rev (map be_word (chunks 16 4 blk))))"

definition sha_round :: "w32 list \<Rightarrow> w32 \<times> w32 \<Rightarrow> w32 list" where
  "sha_round st kw =
     (case st of [a, b, c, d, e, f, g, h] \<Rightarrow>
        let S1 = rotr 6 e XOR rotr 11 e XOR rotr 25 e;
            ch = (e AND f) XOR (NOT e AND g);
            t1 = h + S1 + ch + fst kw + snd kw;
            S0 = rotr 2 a XOR rotr 13 a XOR rotr 22 a;
            maj = (a AND b) XOR (a AND c) XOR (b AND c);
            t2 = S0 + maj
        in [t1 + t2, a, b, c, d + t1, e, f, g]
      | _ \<Rightarrow> st)"

definition sha_block :: "w32 list \<Rightarrow> bytes \<Rightarrow> w32 list" where
  "sha_block H blk = map2 (+) H (foldl sha_round H (zip sha_K (schedule blk)))"

definition sha256 :: "bytes \<Rightarrow> bytes" where
  "sha256 m =
     (let p = sha_pad m in
      concat (map word_bytes (foldl sha_block sha_H0 (chunks (length p div 64) 64 p))))"

subsection \<open>Shape of the padding and of the digest\<close>

lemma length_sha_pad: "length (sha_pad m) mod 64 = 0"
proof -
  have "(l + (1 + ((119 - l mod 64) mod 64 + 8))) mod 64 = 0" for l :: nat
  proof -
    define q r where "q = l div 64" and "r = l mod 64"
    then have l: "l = 64 * q + r" and r: "r < 64" by simp_all
    show ?thesis
    proof (cases "r \<le> 55")
      case True
      then have "(119 - r) mod 64 = 55 - r" by (simp add: mod_if)
      with l r True show ?thesis by simp
    next
      case False
      with r have "(119 - r) mod 64 = 119 - r" by simp
      with l r False show ?thesis by simp
    qed
  qed
  then show ?thesis by (simp add: sha_pad_def)
qed

lemma length_sha_round: "length st = 8 \<Longrightarrow> length (sha_round st kw) = 8"
  by (auto simp: sha_round_def Let_def split: list.splits)

lemma length_foldl_sha_round: "length st = 8 \<Longrightarrow> length (foldl sha_round st kws) = 8"
  by (induction kws arbitrary: st) (simp_all add: length_sha_round)

lemma length_sha_block: "length H = 8 \<Longrightarrow> length (sha_block H blk) = 8"
  by (simp add: sha_block_def length_foldl_sha_round)

lemma length_foldl_sha_block: "length H = 8 \<Longrightarrow> length (foldl sha_block H bs) = 8"
  by (induction bs arbitrary: H) (simp_all add: length_sha_block)

lemma length_concat_word_bytes: "length (concat (map word_bytes ws)) = 4 * length ws"
  by (induction ws) (simp_all add: word_bytes_def)

lemma length_sha256 [simp]: "length (sha256 m) = 32"
proof -
  have "length sha_H0 = 8" by (simp add: sha_H0_def)
  then show ?thesis
    by (simp add: sha256_def Let_def length_concat_word_bytes length_foldl_sha_block)
qed

lemma sha256_ne [simp]: "sha256 m \<noteq> []"
  using length_sha256 [of m] by (metis list.size(3) zero_neq_numeral)

text \<open>Two concatenations of a fixed-width head and a tail agree only when both parts do.\<close>

lemma fixed_width_append: "length a = length b \<Longrightarrow> a @ x = b @ y \<longleftrightarrow> a = b \<and> x = y"
  by simp

end
