(* ===== verification/ChannelTypes.thy ===== *)
theory ChannelTypes
  imports Height Sha256
begin

text \<open>
  The data of ICS-4 channels and packets (\<^verbatim>\<open>modules/core/04-channel/types\<close>): channel ends
  (\<^verbatim>\<open>channel.go\<close>), packets and their commitments (\<^verbatim>\<open>packet.go\<close>), acknowledgements
  (\<^verbatim>\<open>acknowledgement.go\<close>), channel identifiers (\<^verbatim>\<open>keys.go\<close>) and channel versions
  (\<^verbatim>\<open>version.go\<close>).

  The lemmas show that a packet commitment has a fixed-width preimage and binds the data
  and the timeouts, and that channel identifiers and versions round trip.
\<close>

subsection \<open>Channel ends (channel.go)\<close>

datatype chan_state = UNINITIALIZED | INIT | TRYOPEN | OPEN | CLOSED

datatype Order = NONE | UNORDERED | ORDERED

text \<open>The names protobuf generates for the values of the enumeration.\<close>

fun Order_String :: "Order \<Rightarrow> string" where
  "Order_String NONE = ''ORDER_NONE_UNSPECIFIED''"
| "Order_String UNORDERED = ''ORDER_UNORDERED''"
| "Order_String ORDERED = ''ORDER_ORDERED''"

record chan_counterparty =
  ch_PortId :: string
  ch_ChannelId :: string

record Channel =
  chan_State :: chan_state
  chan_Ordering :: Order
  chan_Counterparty :: chan_counterparty
  chan_ConnectionHops :: "string list"
  chan_Version :: string

definition NewChannel :: "chan_state \<Rightarrow> Order \<Rightarrow> chan_counterparty \<Rightarrow> string list \<Rightarrow> string \<Rightarrow> Channel" where
  "NewChannel state order counterparty hops version =
     \<lparr> chan_State = state, chan_Ordering = order, chan_Counterparty = counterparty,
       chan_ConnectionHops = hops, chan_Version = version \<rparr>"

definition chan_NewCounterparty :: "string \<Rightarrow> string \<Rightarrow> chan_counterparty" where
  "chan_NewCounterparty portID channelID = \<lparr> ch_PortId = portID, ch_ChannelId = channelID \<rparr>"

definition chan_counterparty_ValidateBasic :: "chan_counterparty \<Rightarrow> unit result" where
  "chan_counterparty_ValidateBasic c =
     (case PortIdentifierValidator (ch_PortId c) of
        Inl e \<Rightarrow> Inl e
      | Inr _ \<Rightarrow> if ch_ChannelId c \<noteq> [] then ChannelIdentifierValidator (ch_ChannelId c) else Inr ())"

definition Channel_ValidateBasic :: "Channel \<Rightarrow> unit result" where
  "Channel_ValidateBasic ch =
     (if chan_State ch = UNINITIALIZED then Inl (ChannelE ErrInvalidChannelState)
      else if \<not> (chan_Ordering ch = ORDERED \<or> chan_Ordering ch = UNORDERED) then Inl (ChannelE ErrInvalidChannelOrdering)
      else if length (chan_ConnectionHops ch) \<noteq> 1 then Inl (ChannelE ErrTooManyConnectionHops)
      else case ConnectionIdentifierValidator (chan_ConnectionHops ch ! 0) of
             Inl e \<Rightarrow> Inl e
           | Inr _ \<Rightarrow> chan_counterparty_ValidateBasic (chan_Counterparty ch))"

record IdentifiedChannel =
  ich_State :: chan_state
  ich_Ordering :: Order
  ich_Counterparty :: chan_counterparty
  ich_ConnectionHops :: "string list"
  ich_Version :: string
  ich_PortId :: string
  ich_ChannelId :: string

definition NewIdentifiedChannel :: "string \<Rightarrow> string \<Rightarrow> Channel \<Rightarrow> IdentifiedChannel" where
  "NewIdentifiedChannel portID channelID ch =
     \<lparr> ich_State = chan_State ch, ich_Ordering = chan_Ordering ch, ich_Counterparty = chan_Counterparty ch,
       ich_ConnectionHops = chan_ConnectionHops ch, ich_Version = chan_Version ch,
       ich_PortId = portID, ich_ChannelId = channelID \<rparr>"

definition IdentifiedChannel_ValidateBasic :: "IdentifiedChannel \<Rightarrow> unit result" where
  "IdentifiedChannel_ValidateBasic ic =
     (case ChannelIdentifierValidator (ich_ChannelId ic) of
        Inl e \<Rightarrow> Inl e
      | Inr _ \<Rightarrow> (case PortIdentifierValidator (ich_PortId ic) of
          Inl e \<Rightarrow> Inl e
        | Inr _ \<Rightarrow> Channel_ValidateBasic
            (NewChannel (ich_State ic) (ich_Ordering ic) (ich_Counterparty ic) (ich_ConnectionHops ic) (ich_Version ic))))"

subsection \<open>Packets (packet.go)\<close>

record Packet =
  Sequence :: u64
  SourcePort :: string
  SourceChannel :: string
  DestinationPort :: string
  DestinationChannel :: string
  Data :: bytes
  TimeoutHeight :: Height
  TimeoutTimestamp :: u64

definition NewPacket :: "bytes \<Rightarrow> u64 \<Rightarrow> string \<Rightarrow> string \<Rightarrow> string \<Rightarrow> string \<Rightarrow> Height \<Rightarrow> u64 \<Rightarrow> Packet" where
  "NewPacket data sequence sourcePort sourceChannel destinationPort destinationChannel timeoutHeight timeoutTimestamp =
     \<lparr> Sequence = sequence, SourcePort = sourcePort, SourceChannel = sourceChannel,
       DestinationPort = destinationPort, DestinationChannel = destinationChannel, Data = data,
       TimeoutHeight = timeoutHeight, TimeoutTimestamp = timeoutTimestamp \<rparr>"

text \<open>The buffer that \<^verbatim>\<open>CommitPacket\<close> builds and hashes.\<close>

definition commit_buf :: "Packet \<Rightarrow> bytes" where
  "commit_buf packet =
     u64_be (TimeoutTimestamp packet) @ u64_be (RevisionNumber (TimeoutHeight packet)) @
     u64_be (RevisionHeight (TimeoutHeight packet)) @ sha256 (Data packet)"

definition CommitPacket :: "Packet \<Rightarrow> bytes" where
  "CommitPacket packet = sha256 (commit_buf packet)"

definition CommitAcknowledgement :: "bytes \<Rightarrow> bytes" where
  "CommitAcknowledgement data = sha256 data"

definition Packet_ValidateBasic :: "Packet \<Rightarrow> unit result" where
  "Packet_ValidateBasic p =
     (case PortIdentifierValidator (SourcePort p) of Inl e \<Rightarrow> Inl e | Inr _ \<Rightarrow>
     (case PortIdentifierValidator (DestinationPort p) of Inl e \<Rightarrow> Inl e | Inr _ \<Rightarrow>
     (case ChannelIdentifierValidator (SourceChannel p) of Inl e \<Rightarrow> Inl e | Inr _ \<Rightarrow>
     (case ChannelIdentifierValidator (DestinationChannel p) of Inl e \<Rightarrow> Inl e | Inr _ \<Rightarrow>
      if Sequence p = 0 then Inl (ChannelE ErrInvalidPacket)
      else if IsZero (TimeoutHeight p) \<and> TimeoutTimestamp p = 0 then Inl (ChannelE ErrInvalidPacket)
      else if length (Data p) = 0 then Inl (ChannelE ErrInvalidPacket)
      else Inr ()))))"

subsection \<open>Acknowledgements (acknowledgement.go)\<close>

text \<open>\<open>AckNone\<close> is a response field that is not set.\<close>

datatype Acknowledgement = AckResult bytes | AckError string | AckNone

definition NewResultAcknowledgement :: "bytes \<Rightarrow> Acknowledgement" where
  "NewResultAcknowledgement res = AckResult res"

definition NewErrorAcknowledgement :: "string \<Rightarrow> Acknowledgement" where
  "NewErrorAcknowledgement err = AckError err"

definition Acknowledgement_ValidateBasic :: "Acknowledgement \<Rightarrow> unit result" where
  "Acknowledgement_ValidateBasic ack =
     (case ack of
        AckResult res \<Rightarrow> if length res = 0 then Inl (ChannelE ErrInvalidAcknowledgement) else Inr ()
      | AckError err \<Rightarrow> if all_space err then Inl (ChannelE ErrInvalidAcknowledgement) else Inr ()
      | AckNone \<Rightarrow> Inl (ChannelE ErrInvalidAcknowledgement))"

definition Success :: "Acknowledgement \<Rightarrow> bool" where
  "Success ack = (case ack of AckResult _ \<Rightarrow> True | _ \<Rightarrow> False)"

subsection \<open>Channel identifiers (keys.go) and versions (version.go)\<close>

definition ChannelPrefix :: string where
  "ChannelPrefix = ''channel-''"

definition FormatChannelIdentifier :: "u64 \<Rightarrow> string" where
  "FormatChannelIdentifier sequence = ChannelPrefix @ show_u64 sequence"

text \<open>The regular expression \<^verbatim>\<open>^channel-[0-9]{1,20}$\<close>\<close>

definition IsChannelIDFormat :: "string \<Rightarrow> bool" where
  "IsChannelIDFormat s =
     (prefix ''channel-'' s \<and>
      (let d = drop 8 s in list_all is_digit d \<and> 1 \<le> length d \<and> length d \<le> 20))"

definition ParseChannelSequence :: "string \<Rightarrow> u64 result" where
  "ParseChannelSequence channelID =
     (if \<not> IsChannelIDFormat channelID then Inl (HostE ErrInvalidID)
      else case ParseIdentifier channelID ChannelPrefix of
             Inl e \<Rightarrow> Inl e
           | Inr sequence \<Rightarrow> Inr sequence)"

definition IsValidChannelID :: "string \<Rightarrow> bool" where
  "IsValidChannelID channelID = is_ok (ParseChannelSequence channelID)"

definition ChannelVersionDelimiter :: char where
  "ChannelVersionDelimiter = CHR '':''"

definition SplitChannelVersion :: "string \<Rightarrow> string \<times> string" where
  "SplitChannelVersion version =
     (let splitVersions = split_on ChannelVersionDelimiter version in
      if length splitVersions = 1 then ([], version)
      else (splitVersions ! 0, join_with ChannelVersionDelimiter (drop 1 splitVersions)))"

definition MergeChannelVersions :: "string list \<Rightarrow> string" where
  "MergeChannelVersions versions = join_with ChannelVersionDelimiter versions"

subsection \<open>Commitments bind packets\<close>

lemma commit_buf_length: "length (commit_buf p) = 56"
  by (simp add: commit_buf_def)

lemma commit_buf_inject:
  "commit_buf p = commit_buf q \<longleftrightarrow>
     TimeoutTimestamp p = TimeoutTimestamp q \<and> TimeoutHeight p = TimeoutHeight q \<and>
     sha256 (Data p) = sha256 (Data q)"
  by (cases "TimeoutHeight p"; cases "TimeoutHeight q") (auto simp: commit_buf_def)

text \<open>
  A packet commitment is 32 bytes, its preimage is always 56 bytes, and it binds the
  timeout timestamp, the timeout height and the data: two packets that differ in one of
  them and have equal commitments exhibit a SHA-256 collision, either between their
  preimages or between their data.
\<close>

theorem CommitPacket_binding:
  "length (CommitPacket p) = 32 \<and> length (commit_buf p) = 56 \<and>
   (CommitPacket p = CommitPacket q \<longleftrightarrow>
      (TimeoutTimestamp p = TimeoutTimestamp q \<and> TimeoutHeight p = TimeoutHeight q \<and> Data p = Data q) \<or>
      (commit_buf p \<noteq> commit_buf q \<and> sha256 (commit_buf p) = sha256 (commit_buf q)) \<or>
      (TimeoutTimestamp p = TimeoutTimestamp q \<and> TimeoutHeight p = TimeoutHeight q \<and>
       Data p \<noteq> Data q \<and> sha256 (Data p) = sha256 (Data q)))"
  unfolding CommitPacket_def
  using commit_buf_inject [of p q] by (auto simp: commit_buf_length)

lemma CommitPacket_ne [simp]: "CommitPacket p \<noteq> []"
  by (simp add: CommitPacket_def)

text \<open>
  Merging a middleware version with an application version and splitting the result
  gives both back when the middleware version holds no delimiter, and splitting then
  merging gives back every version that holds one.
\<close>

theorem SplitChannelVersion_Merge:
  "(ChannelVersionDelimiter \<notin> set m \<longrightarrow> SplitChannelVersion (MergeChannelVersions [m, a]) = (m, a)) \<and>
   (ChannelVersionDelimiter \<in> set v \<longrightarrow>
      (case SplitChannelVersion v of (mw, app) \<Rightarrow> MergeChannelVersions [mw, app]) = v) \<and>
   (ChannelVersionDelimiter \<notin> set v \<longrightarrow> SplitChannelVersion v = ([], v))"
proof (intro conjI impI)
  let ?c = ChannelVersionDelimiter
  assume m: "?c \<notin> set m"
  have "length (split_on ?c a) \<noteq> 0" by simp
  with m show "SplitChannelVersion (MergeChannelVersions [m, a]) = (m, a)"
    by (simp add: SplitChannelVersion_def MergeChannelVersions_def split_on_append join_split Let_def)
next
  let ?c = ChannelVersionDelimiter
  assume "?c \<in> set v"
  then have "1 < length (split_on ?c v)" by (simp add: split_on_length count_list_0_iff neq0_conv [symmetric])
  then obtain x y zs where x: "split_on ?c v = x # y # zs"
    by (cases "split_on ?c v"; cases "tl (split_on ?c v)") auto
  have "join_with ?c (split_on ?c v) = v" by (rule join_split)
  with x show "(case SplitChannelVersion v of (mw, app) \<Rightarrow> MergeChannelVersions [mw, app]) = v"
    by (simp add: SplitChannelVersion_def MergeChannelVersions_def Let_def)
next
  assume "ChannelVersionDelimiter \<notin> set v"
  then show "SplitChannelVersion v = ([], v)"
    by (simp add: SplitChannelVersion_def split_on_no_sep)
qed

theorem SplitChannelVersion_Merge_witness:
  "SplitChannelVersion (MergeChannelVersions [''fee29-1'', ''ics20-1'']) = (''fee29-1'', ''ics20-1'') \<and>
   (case SplitChannelVersion ''a:b:c'' of (mw, app) \<Rightarrow> MergeChannelVersions [mw, app]) = ''a:b:c'' \<and>
   SplitChannelVersion ''ics20-1'' = ([], ''ics20-1'')"
  using SplitChannelVersion_Merge [of "''fee29-1''" "''ics20-1''" "''a:b:c''"]
    SplitChannelVersion_Merge [of "''fee29-1''" "''ics20-1''" "''ics20-1''"]
  by (auto simp: ChannelVersionDelimiter_def)

subsection \<open>Channel identifiers\<close>

lemma IsChannelIDFormat_Format: "IsChannelIDFormat (FormatChannelIdentifier n)"
proof -
  have "1 \<le> length (show_u64 n)" by (cases "show_u64 n") auto
  then show ?thesis
    using length_show_u64 [of n]
    by (simp add: IsChannelIDFormat_def FormatChannelIdentifier_def ChannelPrefix_def)
qed

interpretation channel_ids:
  identifier_format FormatChannelIdentifier ParseChannelSequence ChannelIdentifierValidator
proof
  fix n s
  have "ParseIdentifier (FormatChannelIdentifier n) ChannelPrefix = Inr n"
    unfolding FormatChannelIdentifier_def
    by (rule ParseIdentifier_format) (simp_all add: ChannelPrefix_def)
  then show "ParseChannelSequence (FormatChannelIdentifier n) = Inr n"
    by (simp add: ParseChannelSequence_def IsChannelIDFormat_Format)
  have "IsValidID ChannelPrefix"
    by (simp add: ChannelPrefix_def IsValidID_def is_id_char_def is_alphanumeric_def Let_def)
  then show "ChannelIdentifierValidator (FormatChannelIdentifier n) = Inr ()"
    unfolding ChannelIdentifierValidator_def FormatChannelIdentifier_def
    by (rule validator_append_u64) (simp_all add: ChannelPrefix_def)
  show "ChannelIdentifierValidator s = Inr () \<Longrightarrow> no_slash s" by (rule identifier_no_slash)
qed

end
