(* ===== verification/LightClientTypes.thy ===== *)
theory LightClientTypes
  imports ConnectionTypes ChannelTypes
begin

text \<open>
  The data the light clients share: client states, consensus states, headers and
  misbehaviour of the three client types (06-solomachine, 07-tendermint, 09-localhost) with
  the sums that stand for the interfaces \<^verbatim>\<open>exported.ClientState\<close>, \<^verbatim>\<open>exported.ConsensusState\<close>,
  \<^verbatim>\<open>exported.Header\<close> and \<^verbatim>\<open>exported.Misbehaviour\<close>, the client-prefixed store, and the
  environment: what the modules call in code outside the repository.

  The client store is kept by kind of entry. The iteration keys of a Tendermint client are
  the sorted list of their heights: \<open>Tendermint\<close> proves that the byte order of the keys is
  the order of the heights. Entries under any other key are in \<open>st_raw\<close>.
\<close>

subsection \<open>06-solomachine\<close>

text \<open>
  A public key as packed in a protobuf Any: nil, a value that is not a public key, or a
  key. A key is a multisignature key or another kind of key, with its bytes.
\<close>

datatype PubKey = SingleKey bytes | MultiKey bytes
datatype PubKeyAny = PubKeyNil | PubKeyOther | PubKeyAny PubKey
datatype SignatureData = SingleSig bytes | MultiSig bytes

fun PubKey_Bytes :: "PubKey \<Rightarrow> bytes" where
  "PubKey_Bytes (SingleKey b) = b"
| "PubKey_Bytes (MultiKey b) = b"

record solo_ConsensusState =
  solo_PublicKey :: PubKeyAny
  solo_Diversifier :: string
  solo_Timestamp :: u64

record solo_ClientState =
  solo_Sequence :: u64
  solo_IsFrozen :: bool
  solo_ConsensusState :: "solo_ConsensusState option"
  solo_AllowUpdateAfterProposal :: bool

record solo_Header =
  sh_Sequence :: u64
  sh_Timestamp :: u64
  sh_Signature :: bytes
  sh_NewPublicKey :: PubKeyAny
  sh_NewDiversifier :: string

datatype DataType =
    UNSPECIFIED | CLIENT | CONSENSUS | CONNECTION | CHANNEL | PACKETCOMMITMENT
  | PACKETACKNOWLEDGEMENT | PACKETRECEIPTABSENCE | NEXTSEQUENCERECV | HEADER

record SignatureAndData =
  sd_Signature :: bytes
  sd_DataType :: DataType
  sd_Data :: bytes
  sd_Timestamp :: u64

record solo_Misbehaviour =
  sm_ClientId :: string
  sm_Sequence :: u64
  sm_SignatureOne :: "SignatureAndData option"
  sm_SignatureTwo :: "SignatureAndData option"

record SignBytes =
  sb_Sequence :: u64
  sb_Timestamp :: u64
  sb_Diversifier :: string
  sb_DataType :: DataType
  sb_Data :: bytes

subsection \<open>07-tendermint\<close>

text \<open>
  A trust level is a pair of numerator and denominator. Validator sets and commits are
  Tendermint protobuf messages, opaque here (\<open>None\<close> is a nil pointer).
\<close>

type_synonym Fraction = "u64 \<times> u64"

record tm_ClientState =
  tm_ChainId :: string
  tm_TrustLevel :: Fraction
  tm_TrustingPeriod :: int
  tm_UnbondingPeriod :: int
  tm_MaxClockDrift :: int
  tm_FrozenHeight :: Height
  tm_LatestHeight :: Height
  tm_ProofSpecs :: "ProofSpec list"
  tm_UpgradePath :: "string list"
  tm_AllowUpdateAfterExpiry :: bool
  tm_AllowUpdateAfterMisbehaviour :: bool

record tm_ConsensusState =
  tm_Timestamp :: int
  tm_Root :: MerkleRoot
  tm_NextValidatorsHash :: bytes

record tm_BlockHeader =
  hdr_ChainID :: string
  hdr_Height :: int
  hdr_Time :: int
  hdr_ValidatorsHash :: bytes
  hdr_NextValidatorsHash :: bytes
  hdr_AppHash :: bytes
  hdr_Other :: bytes

record tm_SignedHeader =
  tsh_Header :: "tm_BlockHeader option"
  tsh_Commit :: "bytes option"

record tm_Header =
  th_SignedHeader :: "tm_SignedHeader option"
  th_ValidatorSet :: "bytes option"
  th_TrustedHeight :: Height
  th_TrustedValidators :: "bytes option"

record tm_Misbehaviour =
  tmm_ClientId :: string
  tmm_Header1 :: "tm_Header option"
  tmm_Header2 :: "tm_Header option"

subsection \<open>09-localhost and the interfaces\<close>

record lh_ClientState =
  lh_ChainId :: string
  lh_Height :: Height

datatype ClientState = TMClient tm_ClientState | SoloClient solo_ClientState | LHClient lh_ClientState
datatype ConsensusState = TMCons tm_ConsensusState | SoloCons solo_ConsensusState
datatype Header = TMHeader tm_Header | SoloHeader solo_Header
datatype Misbehaviour = TMMisbehaviour tm_Misbehaviour | SoloMisbehaviour solo_Misbehaviour

datatype Status = Active | Frozen | Expired | Unknown

text \<open>The messages a solo machine signs over, by their data type.\<close>

datatype solo_data =
    HeaderData PubKeyAny string
  | ClientStateData bytes "ClientState option"
  | ConsensusStateData bytes "ConsensusState option"
  | ConnectionStateData bytes ConnectionEnd
  | ChannelStateData bytes Channel
  | PacketCommitmentData bytes bytes
  | PacketAcknowledgementData bytes bytes
  | PacketReceiptAbsenceData bytes
  | NextSequenceRecvData bytes u64

text \<open>The methods \<^verbatim>\<open>ClientType\<close> and \<^verbatim>\<open>GetLatestHeight\<close> of the interfaces.\<close>

fun GetLatestHeight :: "ClientState \<Rightarrow> Height" where
  "GetLatestHeight (TMClient cs) = tm_LatestHeight cs"
| "GetLatestHeight (SoloClient cs) = NewHeight 0 (solo_Sequence cs)"
| "GetLatestHeight (LHClient cs) = lh_Height cs"

fun ClientType :: "ClientState \<Rightarrow> string" where
  "ClientType (TMClient _) = Tendermint"
| "ClientType (SoloClient _) = Solomachine"
| "ClientType (LHClient _) = Localhost"

fun ConsensusState_ClientType :: "ConsensusState \<Rightarrow> string" where
  "ConsensusState_ClientType (TMCons _) = Tendermint"
| "ConsensusState_ClientType (SoloCons _) = Solomachine"

subsection \<open>The client store\<close>

record client_store =
  st_clientState :: "ClientState option"
  st_consensus :: "Height \<rightharpoonup> ConsensusState"
  st_processedTime :: "Height \<rightharpoonup> u64"
  st_processedHeight :: "Height \<rightharpoonup> Height"
  st_iteration :: "Height list"
  st_raw :: "bytes \<rightharpoonup> bytes"

definition empty_client_store :: client_store where
  "empty_client_store = \<lparr> st_clientState = None, st_consensus = (\<lambda>_. None), st_processedTime = (\<lambda>_. None),
     st_processedHeight = (\<lambda>_. None), st_iteration = [], st_raw = (\<lambda>_. None) \<rparr>"

subsection \<open>Consensus state paths (24-host/keys.go)\<close>

definition ConsensusStatePath :: "Height \<Rightarrow> string" where
  "ConsensusStatePath height = KeyConsensusStatePrefix @ ''/'' @ Height_String height"

definition FullConsensusStatePath :: "string \<Rightarrow> Height \<Rightarrow> string" where
  "FullConsensusStatePath clientID height = FullClientPath clientID (ConsensusStatePath height)"

subsection \<open>The environment\<close>

text \<open>
  Functions of code outside the repository that the modules call, all total functions of
  their arguments. The codec's marshalling and unmarshalling (\<open>None\<close> is its error), the
  signature schemes, Tendermint's validator sets and its light client verification, and
  Bech32 address parsing, and the two keys of the upgrade module. The Tendermint fields are: the hash of a validator set
  (\<open>None\<close> when the protobuf message is not a validator set), the conversion and the basic
  validation of a signed header, the block hash a commit is for, the verification of a
  commit by a validator set and by a trusted validator set, \<^verbatim>\<open>light.Verify\<close>,
  \<^verbatim>\<open>light.ValidateTrustLevel\<close>, \<^verbatim>\<open>ValidateHash\<close> and the maximal length of a chain identifier.
\<close>

record env = ics23 +
  cdc_MarshalClientState :: "ClientState \<Rightarrow> bytes option"
  cdc_MarshalConsensusState :: "ConsensusState \<Rightarrow> bytes option"
  cdc_MarshalConnection :: "ConnectionEnd \<Rightarrow> bytes option"
  cdc_MarshalChannel :: "Channel \<Rightarrow> bytes option"
  cdc_UnmarshalConnection :: "bytes \<Rightarrow> ConnectionEnd option"
  cdc_UnmarshalChannel :: "bytes \<Rightarrow> Channel option"
  cdc_UnmarshalMerkleProof :: "bytes \<Rightarrow> MerkleProof option"
  cdc_UnmarshalTimestampedSignatureData :: "bytes \<Rightarrow> (bytes \<times> u64) option"
  cdc_UnmarshalSignatureDescriptor :: "bytes \<Rightarrow> SignatureData option"
  cdc_UnmarshalData :: "DataType \<Rightarrow> bytes \<Rightarrow> solo_data option"
  cdc_MarshalData :: "solo_data \<Rightarrow> bytes option"
  cdc_MarshalSignBytes :: "SignBytes \<Rightarrow> bytes option"
  key_VerifySignature :: "bytes \<Rightarrow> bytes \<Rightarrow> bytes \<Rightarrow> bool"
  key_VerifyMultisignature :: "bytes \<Rightarrow> bytes \<Rightarrow> bytes \<Rightarrow> bool"
  tm_ValidatorSetHash :: "bytes option \<Rightarrow> bytes option"
  tm_SignedHeaderOk :: "tm_SignedHeader \<Rightarrow> bool"
  tm_SignedHeaderValidateBasic :: "tm_SignedHeader \<Rightarrow> string \<Rightarrow> bool"
  tm_CommitOk :: "bytes option \<Rightarrow> bool"
  tm_CommitBlockHash :: "bytes option \<Rightarrow> bytes option"
  tm_VerifyCommitLight :: "bytes option \<Rightarrow> string \<Rightarrow> bytes option \<Rightarrow> bool"
  tm_VerifyCommitLightTrusting :: "bytes option \<Rightarrow> string \<Rightarrow> bytes option \<Rightarrow> Fraction \<Rightarrow> bool"
  tm_lightVerify :: "tm_BlockHeader \<Rightarrow> bytes option \<Rightarrow> tm_SignedHeader \<Rightarrow> bytes option \<Rightarrow>
     int \<Rightarrow> int \<Rightarrow> int \<Rightarrow> Fraction \<Rightarrow> bool"
  tm_ValidateTrustLevel :: "Fraction \<Rightarrow> bool"
  tm_ValidateHash :: "bytes \<Rightarrow> bool"
  tm_MaxChainIDLen :: nat
  sdk_AccAddressOk :: "string \<Rightarrow> bool"
  sdk_KeyUpgradedClient :: string
  sdk_KeyUpgradedConsState :: string

text \<open>An error of a marshalling or verification call outside the repository.\<close>

definition from_ext :: "string \<Rightarrow> 'a option \<Rightarrow> 'a result" where
  "from_ext what r = (case r of None \<Rightarrow> Inl (External what) | Some x \<Rightarrow> Inr x)"

lemma from_ext_Inr [simp]: "from_ext what r = Inr x \<longleftrightarrow> r = Some x"
  by (cases r) (simp_all add: from_ext_def)

text \<open>An environment that accepts every commit and every single signature, to run the clients
  on concrete inputs.\<close>

definition demo_env :: env where
  "demo_env = ics23.extend toy_ics23
    \<lparr> cdc_MarshalClientState = (\<lambda>_. Some ''c''), cdc_MarshalConsensusState = (\<lambda>_. Some ''s''),
      cdc_MarshalConnection = (\<lambda>_. Some ''n''), cdc_MarshalChannel = (\<lambda>_. Some ''h''),
      cdc_UnmarshalConnection = (\<lambda>_. None), cdc_UnmarshalChannel = (\<lambda>_. None),
      cdc_UnmarshalMerkleProof = (\<lambda>b. Some (MerkleProof [CP_Exist b])),
      cdc_UnmarshalTimestampedSignatureData = (\<lambda>b. Some (b, 7)),
      cdc_UnmarshalSignatureDescriptor = (\<lambda>b. Some (SingleSig b)),
      cdc_UnmarshalData = (\<lambda>_ b. Some (PacketReceiptAbsenceData b)),
      cdc_MarshalData = (\<lambda>_. Some ''d''), cdc_MarshalSignBytes = (\<lambda>sb. Some (sb_Data sb)),
      key_VerifySignature = (\<lambda>k m s. True), key_VerifyMultisignature = (\<lambda>k m s. False),
      tm_ValidatorSetHash = (\<lambda>v. v), tm_SignedHeaderOk = (\<lambda>_. True),
      tm_SignedHeaderValidateBasic = (\<lambda>_ _. True), tm_CommitOk = (\<lambda>_. True), tm_CommitBlockHash = (\<lambda>c. c),
      tm_VerifyCommitLight = (\<lambda>_ _ _. True), tm_VerifyCommitLightTrusting = (\<lambda>_ _ _ _. True),
      tm_lightVerify = (\<lambda>_ _ _ _ _ _ _ _. True), tm_ValidateTrustLevel = (\<lambda>_. True),
      tm_ValidateHash = (\<lambda>_. True), tm_MaxChainIDLen = 50, sdk_AccAddressOk = (\<lambda>_. True),
      sdk_KeyUpgradedClient = ''upgradedClient'', sdk_KeyUpgradedConsState = ''upgradedConsState'' \<rparr>"

end
