(* ===== verification/Solomachine.thy ===== *)
theory Solomachine
  imports LightClientTypes
begin

text \<open>
  The solo machine light client (\<^verbatim>\<open>modules/light-clients/06-solomachine/types\<close>). Every
  successful verification signs over the client's current sequence and increments it, so a
  \<^verbatim>\<open>Verify...\<close> function returns the client store with the new client state in it.

  The lemmas show that a verification or an update succeeds only at the current sequence
  with a timestamp that does not go backwards and a signature of the current key over the
  exact data, that it advances the sequence by one, and hence that no signature can be
  used twice; misbehaviour freezes the client.
\<close>

subsection \<open>Client and consensus state\<close>

definition solo_NewClientState :: "u64 \<Rightarrow> solo_ConsensusState option \<Rightarrow> bool \<Rightarrow> solo_ClientState" where
  "solo_NewClientState latestSequence consensusState allowUpdateAfterProposal =
     \<lparr> solo_Sequence = latestSequence, solo_IsFrozen = False, solo_ConsensusState = consensusState,
       solo_AllowUpdateAfterProposal = allowUpdateAfterProposal \<rparr>"

definition solo_GetLatestHeight :: "solo_ClientState \<Rightarrow> Height" where
  "solo_GetLatestHeight cs = NewHeight 0 (solo_Sequence cs)"

definition solo_Status :: "solo_ClientState \<Rightarrow> Status" where
  "solo_Status cs = (if solo_IsFrozen cs then Frozen else Active)"

definition solo_GetPubKey :: "solo_ConsensusState \<Rightarrow> PubKey result" where
  "solo_GetPubKey cs =
     (case solo_PublicKey cs of
        PubKeyNil \<Rightarrow> Inl (ClientE ErrInvalidConsensus)
      | PubKeyOther \<Rightarrow> Inl (ClientE ErrInvalidConsensus)
      | PubKeyAny k \<Rightarrow> Inr k)"

definition solo_ConsensusState_ValidateBasic :: "solo_ConsensusState \<Rightarrow> unit result" where
  "solo_ConsensusState_ValidateBasic cs =
     (if solo_Timestamp cs = 0 then Inl (ClientE ErrInvalidConsensus)
      else if solo_Diversifier cs \<noteq> [] \<and> all_space (solo_Diversifier cs) then Inl (ClientE ErrInvalidConsensus)
      else case solo_GetPubKey cs of
             Inl _ \<Rightarrow> Inl (ClientE ErrInvalidConsensus)
           | Inr k \<Rightarrow> if length (PubKey_Bytes k) = 0 then Inl (ClientE ErrInvalidConsensus) else Inr ())"

definition solo_Validate :: "solo_ClientState \<Rightarrow> unit result" where
  "solo_Validate cs =
     (if solo_Sequence cs = 0 then Inl (ClientE ErrInvalidClient)
      else case solo_ConsensusState cs of
             None \<Rightarrow> Inl (ClientE ErrInvalidConsensus)
           | Some c \<Rightarrow> solo_ConsensusState_ValidateBasic c)"

definition solo_ZeroCustomFields :: "solo_ClientState \<Rightarrow> solo_ClientState" where
  "solo_ZeroCustomFields cs = solo_NewClientState (solo_Sequence cs) (solo_ConsensusState cs) False"

text \<open>
  \<^verbatim>\<open>reflect.DeepEqual\<close> of a pointer to a solo machine consensus state and an interface value:
  the dynamic types must agree. A nil pointer is a typed nil, not the nil interface.
\<close>

definition solo_Initialize :: "solo_ClientState \<Rightarrow> ConsensusState option \<Rightarrow> unit result" where
  "solo_Initialize cs consState =
     (case (solo_ConsensusState cs, consState) of
        (Some c, Some (SoloCons c')) \<Rightarrow> if c = c' then Inr () else Inl (ClientE ErrInvalidConsensus)
      | _ \<Rightarrow> Inl (ClientE ErrInvalidConsensus))"

definition solo_VerifyUpgradeAndUpdateState :: "solo_ClientState \<Rightarrow> (ClientState \<times> ConsensusState) result" where
  "solo_VerifyUpgradeAndUpdateState cs = Inl (ClientE ErrInvalidUpgradeClient)"

subsection \<open>Headers and misbehaviour\<close>

definition solo_Header_GetHeight :: "solo_Header \<Rightarrow> Height" where
  "solo_Header_GetHeight h = NewHeight 0 (sh_Sequence h)"

definition solo_Header_GetPubKey :: "solo_Header \<Rightarrow> PubKey result" where
  "solo_Header_GetPubKey h =
     (case sh_NewPublicKey h of
        PubKeyNil \<Rightarrow> Inl (SolomachineE solo_ErrInvalidHeader)
      | PubKeyOther \<Rightarrow> Inl (SolomachineE solo_ErrInvalidHeader)
      | PubKeyAny k \<Rightarrow> Inr k)"

definition solo_Header_ValidateBasic :: "solo_Header \<Rightarrow> unit result" where
  "solo_Header_ValidateBasic h =
     (if sh_Sequence h = 0 then Inl (ClientE ErrInvalidHeader)
      else if sh_Timestamp h = 0 then Inl (ClientE ErrInvalidHeader)
      else if sh_NewDiversifier h \<noteq> [] \<and> all_space (sh_NewDiversifier h) then Inl (ClientE ErrInvalidHeader)
      else if length (sh_Signature h) = 0 then Inl (ClientE ErrInvalidHeader)
      else case solo_Header_GetPubKey h of
             Inl _ \<Rightarrow> Inl (ClientE ErrInvalidHeader)
           | Inr k \<Rightarrow> if length (PubKey_Bytes k) = 0 then Inl (ClientE ErrInvalidHeader) else Inr ())"

text \<open>A nil pointer is dereferenced by the method call.\<close>

definition SignatureAndData_ValidateBasic :: "SignatureAndData option \<Rightarrow> unit result" where
  "SignatureAndData_ValidateBasic sdo =
     (case sdo of
        None \<Rightarrow> Inl Panic
      | Some sd \<Rightarrow>
          if length (sd_Signature sd) = 0 then Inl (SolomachineE ErrInvalidSignatureAndData)
          else if length (sd_Data sd) = 0 then Inl (SolomachineE ErrInvalidSignatureAndData)
          else if sd_DataType sd = UNSPECIFIED then Inl (SolomachineE ErrInvalidSignatureAndData)
          else if sd_Timestamp sd = 0 then Inl (SolomachineE ErrInvalidSignatureAndData)
          else Inr ())"

definition solo_Misbehaviour_ValidateBasic :: "solo_Misbehaviour \<Rightarrow> unit result" where
  "solo_Misbehaviour_ValidateBasic m =
     (case ClientIdentifierValidator (sm_ClientId m) of Inl e \<Rightarrow> Inl e | Inr _ \<Rightarrow>
      if sm_Sequence m = 0 then Inl (ClientE ErrInvalidMisbehaviour)
      else case SignatureAndData_ValidateBasic (sm_SignatureOne m) of Inl e \<Rightarrow> Inl e | Inr _ \<Rightarrow>
      (case SignatureAndData_ValidateBasic (sm_SignatureTwo m) of Inl e \<Rightarrow> Inl e | Inr _ \<Rightarrow>
       if sd_Signature (the (sm_SignatureOne m)) = sd_Signature (the (sm_SignatureTwo m))
       then Inl (ClientE ErrInvalidMisbehaviour)
       else if sd_Data (the (sm_SignatureOne m)) = sd_Data (the (sm_SignatureTwo m))
       then Inl (ClientE ErrInvalidMisbehaviour)
       else Inr ()))"

subsection \<open>Sign bytes and signatures (proof.go, codec.go)\<close>

definition VerifySignature :: "'x env_scheme \<Rightarrow> PubKey \<Rightarrow> bytes \<Rightarrow> SignatureData \<Rightarrow> unit result" where
  "VerifySignature E pubKey signBytes sigData =
     (case pubKey of
        MultiKey k \<Rightarrow>
          (case sigData of
             MultiSig data \<Rightarrow> if key_VerifyMultisignature E k signBytes data then Inr ()
                             else Inl (External ''multisig'')
           | SingleSig _ \<Rightarrow> Inl (SolomachineE ErrSignatureVerificationFailed))
      | SingleKey k \<Rightarrow>
          (case sigData of
             SingleSig sig \<Rightarrow> if \<not> key_VerifySignature E k signBytes sig
                             then Inl (SolomachineE ErrSignatureVerificationFailed) else Inr ()
           | MultiSig _ \<Rightarrow> Inl (SolomachineE ErrSignatureVerificationFailed)))"

definition UnmarshalSignatureData :: "'x env_scheme \<Rightarrow> bytes \<Rightarrow> SignatureData result" where
  "UnmarshalSignatureData E data = from_ext ''codec'' (cdc_UnmarshalSignatureDescriptor E data)"

definition UnmarshalDataByType :: "'x env_scheme \<Rightarrow> DataType \<Rightarrow> bytes \<Rightarrow> solo_data result" where
  "UnmarshalDataByType E dataType data =
     (if length data = 0 then Inl (SolomachineE ErrInvalidSignatureAndData)
      else if dataType = UNSPECIFIED then Inl (SolomachineE ErrInvalidDataType)
      else if dataType = HEADER then Inl (SolomachineE ErrInvalidDataType)
      else case cdc_UnmarshalData E dataType data of
        None \<Rightarrow> Inl (External ''codec'')
      | Some (ClientStateData p None) \<Rightarrow> Inl (SdkE ErrUnpackAny)
      | Some (ConsensusStateData p None) \<Rightarrow> Inl (SdkE ErrUnpackAny)
      | Some d \<Rightarrow> Inr d)"

definition MisbehaviourSignBytes :: "'x env_scheme \<Rightarrow> u64 \<Rightarrow> u64 \<Rightarrow> string \<Rightarrow> DataType \<Rightarrow> bytes \<Rightarrow> bytes result" where
  "MisbehaviourSignBytes E sequence timestamp diversifier dataType data =
     from_ext ''codec'' (cdc_MarshalSignBytes E
       \<lparr> sb_Sequence = sequence, sb_Timestamp = timestamp, sb_Diversifier = diversifier,
         sb_DataType = dataType, sb_Data = data \<rparr>)"

text \<open>The common tail of the sign-bytes functions: marshal the sign bytes around the data bytes.\<close>

definition sign_data :: "'x env_scheme \<Rightarrow> u64 \<Rightarrow> u64 \<Rightarrow> string \<Rightarrow> DataType \<Rightarrow> bytes result \<Rightarrow> bytes result" where
  "sign_data E sequence timestamp diversifier dataType d =
     (case d of
        Inl e \<Rightarrow> Inl e
      | Inr dataBz \<Rightarrow> from_ext ''codec'' (cdc_MarshalSignBytes E
          \<lparr> sb_Sequence = sequence, sb_Timestamp = timestamp, sb_Diversifier = diversifier,
            sb_DataType = dataType, sb_Data = dataBz \<rparr>))"

definition HeaderSignBytes :: "'x env_scheme \<Rightarrow> solo_Header \<Rightarrow> bytes result" where
  "HeaderSignBytes E header =
     sign_data E (sh_Sequence header) (sh_Timestamp header) (sh_NewDiversifier header) HEADER
       (from_ext ''codec'' (cdc_MarshalData E (HeaderData (sh_NewPublicKey header) (sh_NewDiversifier header))))"

definition ClientStateDataBytes :: "'x env_scheme \<Rightarrow> MerklePath \<Rightarrow> ClientState option \<Rightarrow> bytes result" where
  "ClientStateDataBytes E path clientState =
     (case clientState of
        None \<Rightarrow> Inl (SdkE ErrPackAny)
      | Some _ \<Rightarrow> from_ext ''codec'' (cdc_MarshalData E (ClientStateData (MerklePath_String path) clientState)))"

definition ClientStateSignBytes :: "'x env_scheme \<Rightarrow> u64 \<Rightarrow> u64 \<Rightarrow> string \<Rightarrow> MerklePath \<Rightarrow> ClientState option \<Rightarrow> bytes result" where
  "ClientStateSignBytes E sequence timestamp diversifier path clientState =
     sign_data E sequence timestamp diversifier CLIENT (ClientStateDataBytes E path clientState)"

definition ConsensusStateDataBytes :: "'x env_scheme \<Rightarrow> MerklePath \<Rightarrow> ConsensusState option \<Rightarrow> bytes result" where
  "ConsensusStateDataBytes E path consensusState =
     (case consensusState of
        None \<Rightarrow> Inl (SdkE ErrPackAny)
      | Some _ \<Rightarrow> from_ext ''codec'' (cdc_MarshalData E (ConsensusStateData (MerklePath_String path) consensusState)))"

definition ConsensusStateSignBytes :: "'x env_scheme \<Rightarrow> u64 \<Rightarrow> u64 \<Rightarrow> string \<Rightarrow> MerklePath \<Rightarrow> ConsensusState option \<Rightarrow> bytes result" where
  "ConsensusStateSignBytes E sequence timestamp diversifier path consensusState =
     sign_data E sequence timestamp diversifier CONSENSUS (ConsensusStateDataBytes E path consensusState)"

definition ConnectionStateDataBytes :: "'x env_scheme \<Rightarrow> MerklePath \<Rightarrow> ConnectionEnd \<Rightarrow> bytes result" where
  "ConnectionStateDataBytes E path connectionEnd =
     from_ext ''codec'' (cdc_MarshalData E (ConnectionStateData (MerklePath_String path) connectionEnd))"

definition ConnectionStateSignBytes :: "'x env_scheme \<Rightarrow> u64 \<Rightarrow> u64 \<Rightarrow> string \<Rightarrow> MerklePath \<Rightarrow> ConnectionEnd \<Rightarrow> bytes result" where
  "ConnectionStateSignBytes E sequence timestamp diversifier path connectionEnd =
     sign_data E sequence timestamp diversifier CONNECTION (ConnectionStateDataBytes E path connectionEnd)"

definition ChannelStateDataBytes :: "'x env_scheme \<Rightarrow> MerklePath \<Rightarrow> Channel \<Rightarrow> bytes result" where
  "ChannelStateDataBytes E path channelEnd =
     from_ext ''codec'' (cdc_MarshalData E (ChannelStateData (MerklePath_String path) channelEnd))"

definition ChannelStateSignBytes :: "'x env_scheme \<Rightarrow> u64 \<Rightarrow> u64 \<Rightarrow> string \<Rightarrow> MerklePath \<Rightarrow> Channel \<Rightarrow> bytes result" where
  "ChannelStateSignBytes E sequence timestamp diversifier path channelEnd =
     sign_data E sequence timestamp diversifier CHANNEL (ChannelStateDataBytes E path channelEnd)"

definition PacketCommitmentDataBytes :: "'x env_scheme \<Rightarrow> MerklePath \<Rightarrow> bytes \<Rightarrow> bytes result" where
  "PacketCommitmentDataBytes E path commitmentBytes =
     from_ext ''codec'' (cdc_MarshalData E (PacketCommitmentData (MerklePath_String path) commitmentBytes))"

definition PacketCommitmentSignBytes :: "'x env_scheme \<Rightarrow> u64 \<Rightarrow> u64 \<Rightarrow> string \<Rightarrow> MerklePath \<Rightarrow> bytes \<Rightarrow> bytes result" where
  "PacketCommitmentSignBytes E sequence timestamp diversifier path commitmentBytes =
     sign_data E sequence timestamp diversifier PACKETCOMMITMENT (PacketCommitmentDataBytes E path commitmentBytes)"

definition PacketAcknowledgementDataBytes :: "'x env_scheme \<Rightarrow> MerklePath \<Rightarrow> bytes \<Rightarrow> bytes result" where
  "PacketAcknowledgementDataBytes E path acknowledgement =
     from_ext ''codec'' (cdc_MarshalData E (PacketAcknowledgementData (MerklePath_String path) acknowledgement))"

definition PacketAcknowledgementSignBytes :: "'x env_scheme \<Rightarrow> u64 \<Rightarrow> u64 \<Rightarrow> string \<Rightarrow> MerklePath \<Rightarrow> bytes \<Rightarrow> bytes result" where
  "PacketAcknowledgementSignBytes E sequence timestamp diversifier path acknowledgement =
     sign_data E sequence timestamp diversifier PACKETACKNOWLEDGEMENT (PacketAcknowledgementDataBytes E path acknowledgement)"

definition PacketReceiptAbsenceDataBytes :: "'x env_scheme \<Rightarrow> MerklePath \<Rightarrow> bytes result" where
  "PacketReceiptAbsenceDataBytes E path =
     from_ext ''codec'' (cdc_MarshalData E (PacketReceiptAbsenceData (MerklePath_String path)))"

definition PacketReceiptAbsenceSignBytes :: "'x env_scheme \<Rightarrow> u64 \<Rightarrow> u64 \<Rightarrow> string \<Rightarrow> MerklePath \<Rightarrow> bytes result" where
  "PacketReceiptAbsenceSignBytes E sequence timestamp diversifier path =
     sign_data E sequence timestamp diversifier PACKETRECEIPTABSENCE (PacketReceiptAbsenceDataBytes E path)"

definition NextSequenceRecvDataBytes :: "'x env_scheme \<Rightarrow> MerklePath \<Rightarrow> u64 \<Rightarrow> bytes result" where
  "NextSequenceRecvDataBytes E path nextSequenceRecv =
     from_ext ''codec'' (cdc_MarshalData E (NextSequenceRecvData (MerklePath_String path) nextSequenceRecv))"

definition NextSequenceRecvSignBytes :: "'x env_scheme \<Rightarrow> u64 \<Rightarrow> u64 \<Rightarrow> string \<Rightarrow> MerklePath \<Rightarrow> u64 \<Rightarrow> bytes result" where
  "NextSequenceRecvSignBytes E sequence timestamp diversifier path nextSequenceRecv =
     sign_data E sequence timestamp diversifier NEXTSEQUENCERECV (NextSequenceRecvDataBytes E path nextSequenceRecv)"

subsection \<open>State verification (client_state.go)\<close>

definition solo_produceVerificationArgs :: "'x env_scheme \<Rightarrow> solo_ClientState \<Rightarrow> Height \<Rightarrow> Prefix \<Rightarrow> bytes \<Rightarrow>
    (PubKey \<times> SignatureData \<times> u64 \<times> u64) result" where
  "solo_produceVerificationArgs E cs height pre proof =
     (if RevisionNumber height \<noteq> 0 then Inl (SdkE sdk_ErrInvalidHeight)
      else let sequence = RevisionHeight height in
      if pre = None then Inl (CommitmentE ErrInvalidPrefix)
      else if proof = [] then Inl (SolomachineE solo_ErrInvalidProof)
      else case from_ext ''codec'' (cdc_UnmarshalTimestampedSignatureData E proof) of
        Inl e \<Rightarrow> Inl e
      | Inr (signatureData, timestamp) \<Rightarrow>
        if length signatureData = 0 then Inl (SolomachineE solo_ErrInvalidProof)
        else case UnmarshalSignatureData E signatureData of
          Inl e \<Rightarrow> Inl e
        | Inr sigData \<Rightarrow>
          (case solo_ConsensusState cs of
             None \<Rightarrow> Inl (ClientE ErrInvalidConsensus)
           | Some consensusState \<Rightarrow>
             if RevisionHeight (solo_GetLatestHeight cs) \<noteq> sequence then Inl (SdkE sdk_ErrInvalidHeight)
             else if solo_Timestamp consensusState > timestamp then Inl (SolomachineE solo_ErrInvalidProof)
             else case solo_GetPubKey consensusState of
               Inl e \<Rightarrow> Inl e
             | Inr publicKey \<Rightarrow> Inr (publicKey, sigData, timestamp, sequence)))"

definition solo_setClientState :: "client_store \<Rightarrow> solo_ClientState \<Rightarrow> client_store" where
  "solo_setClientState store cs = store \<lparr> st_clientState := Some (SoloClient cs) \<rparr>"

text \<open>\<^verbatim>\<open>cs.Sequence++; cs.ConsensusState.Timestamp = timestamp\<close>\<close>

definition solo_advance :: "solo_ClientState \<Rightarrow> u64 \<Rightarrow> solo_ClientState" where
  "solo_advance cs timestamp = cs \<lparr> solo_Sequence := solo_Sequence cs + 1,
     solo_ConsensusState := map_option (\<lambda>c. c \<lparr> solo_Timestamp := timestamp \<rparr>) (solo_ConsensusState cs) \<rparr>"

text \<open>
  The body the eight verification functions share: the arguments are produced, the path is
  prefixed, \<open>signBytes\<close> builds the bytes signed over, the signature is verified, and the
  client state is advanced and stored.
\<close>

definition solo_verify :: "'x env_scheme \<Rightarrow> client_store \<Rightarrow> solo_ClientState \<Rightarrow> Height \<Rightarrow> Prefix \<Rightarrow> bytes \<Rightarrow> string \<Rightarrow>
    (u64 \<Rightarrow> u64 \<Rightarrow> string \<Rightarrow> MerklePath \<Rightarrow> bytes result) \<Rightarrow> client_store result" where
  "solo_verify E store cs height pre proof hostPath signBytes =
     (case solo_produceVerificationArgs E cs height pre proof of
        Inl e \<Rightarrow> Inl e
      | Inr (publicKey, sigData, timestamp, sequence) \<Rightarrow>
        (case ApplyPrefix pre (NewMerklePath [hostPath]) of
           Inl e \<Rightarrow> Inl e
         | Inr path \<Rightarrow>
           (case signBytes sequence timestamp (solo_Diversifier (the (solo_ConsensusState cs))) path of
              Inl e \<Rightarrow> Inl e
            | Inr signBz \<Rightarrow>
              (case VerifySignature E publicKey signBz sigData of
                 Inl e \<Rightarrow> Inl e
               | Inr _ \<Rightarrow> Inr (solo_setClientState store (solo_advance cs timestamp))))))"

definition solo_VerifyClientState :: "'x env_scheme \<Rightarrow> client_store \<Rightarrow> solo_ClientState \<Rightarrow> Height \<Rightarrow> Prefix \<Rightarrow> string \<Rightarrow> bytes \<Rightarrow>
    ClientState option \<Rightarrow> client_store result" where
  "solo_VerifyClientState E store cs height pre counterpartyClientIdentifier proof clientState =
     (let height = NewHeight (RevisionNumber height) (RevisionHeight height + 1) in
      solo_verify E store cs height pre proof (FullClientStatePath counterpartyClientIdentifier)
        (\<lambda>sequence timestamp diversifier path. ClientStateSignBytes E sequence timestamp diversifier path clientState))"

definition solo_VerifyClientConsensusState :: "'x env_scheme \<Rightarrow> client_store \<Rightarrow> solo_ClientState \<Rightarrow> Height \<Rightarrow> string \<Rightarrow> Height \<Rightarrow>
    Prefix \<Rightarrow> bytes \<Rightarrow> ConsensusState option \<Rightarrow> client_store result" where
  "solo_VerifyClientConsensusState E store cs height counterpartyClientIdentifier consensusHeight pre proof consensusState =
     (let height = NewHeight (RevisionNumber height) (RevisionHeight height + 2) in
      solo_verify E store cs height pre proof (FullConsensusStatePath counterpartyClientIdentifier consensusHeight)
        (\<lambda>sequence timestamp diversifier path. ConsensusStateSignBytes E sequence timestamp diversifier path consensusState))"

definition solo_VerifyConnectionState :: "'x env_scheme \<Rightarrow> client_store \<Rightarrow> solo_ClientState \<Rightarrow> Height \<Rightarrow> Prefix \<Rightarrow> bytes \<Rightarrow> string \<Rightarrow>
    ConnectionEnd \<Rightarrow> client_store result" where
  "solo_VerifyConnectionState E store cs height pre proof connectionID connectionEnd =
     solo_verify E store cs height pre proof (ConnectionPath connectionID)
       (\<lambda>sequence timestamp diversifier path. ConnectionStateSignBytes E sequence timestamp diversifier path connectionEnd)"

definition solo_VerifyChannelState :: "'x env_scheme \<Rightarrow> client_store \<Rightarrow> solo_ClientState \<Rightarrow> Height \<Rightarrow> Prefix \<Rightarrow> bytes \<Rightarrow> string \<Rightarrow> string \<Rightarrow>
    Channel \<Rightarrow> client_store result" where
  "solo_VerifyChannelState E store cs height pre proof portID channelID channel =
     solo_verify E store cs height pre proof (ChannelPath portID channelID)
       (\<lambda>sequence timestamp diversifier path. ChannelStateSignBytes E sequence timestamp diversifier path channel)"

definition solo_VerifyPacketCommitment :: "'x env_scheme \<Rightarrow> client_store \<Rightarrow> solo_ClientState \<Rightarrow> Height \<Rightarrow> Prefix \<Rightarrow> bytes \<Rightarrow> string \<Rightarrow> string \<Rightarrow>
    u64 \<Rightarrow> bytes \<Rightarrow> client_store result" where
  "solo_VerifyPacketCommitment E store cs height pre proof portID channelID packetSequence commitmentBytes =
     solo_verify E store cs height pre proof (PacketCommitmentPath portID channelID packetSequence)
       (\<lambda>sequence timestamp diversifier path. PacketCommitmentSignBytes E sequence timestamp diversifier path commitmentBytes)"

definition solo_VerifyPacketAcknowledgement :: "'x env_scheme \<Rightarrow> client_store \<Rightarrow> solo_ClientState \<Rightarrow> Height \<Rightarrow> Prefix \<Rightarrow> bytes \<Rightarrow> string \<Rightarrow> string \<Rightarrow>
    u64 \<Rightarrow> bytes \<Rightarrow> client_store result" where
  "solo_VerifyPacketAcknowledgement E store cs height pre proof portID channelID packetSequence acknowledgement =
     solo_verify E store cs height pre proof (PacketAcknowledgementPath portID channelID packetSequence)
       (\<lambda>sequence timestamp diversifier path. PacketAcknowledgementSignBytes E sequence timestamp diversifier path acknowledgement)"

definition solo_VerifyPacketReceiptAbsence :: "'x env_scheme \<Rightarrow> client_store \<Rightarrow> solo_ClientState \<Rightarrow> Height \<Rightarrow> Prefix \<Rightarrow> bytes \<Rightarrow> string \<Rightarrow> string \<Rightarrow>
    u64 \<Rightarrow> client_store result" where
  "solo_VerifyPacketReceiptAbsence E store cs height pre proof portID channelID packetSequence =
     solo_verify E store cs height pre proof (PacketReceiptPath portID channelID packetSequence)
       (\<lambda>sequence timestamp diversifier path. PacketReceiptAbsenceSignBytes E sequence timestamp diversifier path)"

definition solo_VerifyNextSequenceRecv :: "'x env_scheme \<Rightarrow> client_store \<Rightarrow> solo_ClientState \<Rightarrow> Height \<Rightarrow> Prefix \<Rightarrow> bytes \<Rightarrow> string \<Rightarrow> string \<Rightarrow>
    u64 \<Rightarrow> client_store result" where
  "solo_VerifyNextSequenceRecv E store cs height pre proof portID channelID nextSequenceRecv =
     solo_verify E store cs height pre proof (NextSequenceRecvPath portID channelID)
       (\<lambda>sequence timestamp diversifier path. NextSequenceRecvSignBytes E sequence timestamp diversifier path nextSequenceRecv)"

subsection \<open>Updates (update.go), misbehaviour and substitution\<close>

definition solo_checkHeader :: "'x env_scheme \<Rightarrow> solo_ClientState \<Rightarrow> solo_Header \<Rightarrow> unit result" where
  "solo_checkHeader E clientState header =
     (if sh_Sequence header \<noteq> solo_Sequence clientState then Inl (ClientE ErrInvalidHeader)
      else case solo_ConsensusState clientState of
        None \<Rightarrow> Inl Panic
      | Some consensusState \<Rightarrow>
        if sh_Timestamp header < solo_Timestamp consensusState then Inl (ClientE ErrInvalidHeader)
        else case HeaderSignBytes E header of Inl e \<Rightarrow> Inl e | Inr data \<Rightarrow>
        (case UnmarshalSignatureData E (sh_Signature header) of Inl e \<Rightarrow> Inl e | Inr sigData \<Rightarrow>
        (case solo_GetPubKey consensusState of Inl e \<Rightarrow> Inl e | Inr publicKey \<Rightarrow>
        (case VerifySignature E publicKey data sigData of
           Inl _ \<Rightarrow> Inl (SolomachineE solo_ErrInvalidHeader)
         | Inr _ \<Rightarrow> Inr ()))))"

definition solo_update :: "solo_ClientState \<Rightarrow> solo_Header \<Rightarrow> solo_ClientState \<times> solo_ConsensusState" where
  "solo_update clientState header =
     (let consensusState = \<lparr> solo_PublicKey = sh_NewPublicKey header, solo_Diversifier = sh_NewDiversifier header,
            solo_Timestamp = sh_Timestamp header \<rparr> in
      (clientState \<lparr> solo_Sequence := solo_Sequence clientState + 1, solo_ConsensusState := Some consensusState \<rparr>,
       consensusState))"

definition solo_CheckHeaderAndUpdateState :: "'x env_scheme \<Rightarrow> solo_ClientState \<Rightarrow> Header \<Rightarrow>
    (solo_ClientState \<times> solo_ConsensusState) result" where
  "solo_CheckHeaderAndUpdateState E cs header =
     (case header of
        SoloHeader smHeader \<Rightarrow>
          (case solo_checkHeader E cs smHeader of
             Inl e \<Rightarrow> Inl e
           | Inr _ \<Rightarrow> Inr (solo_update cs smHeader))
      | _ \<Rightarrow> Inl (ClientE ErrInvalidHeader))"

definition verifySignatureAndData :: "'x env_scheme \<Rightarrow> solo_ClientState \<Rightarrow> solo_Misbehaviour \<Rightarrow> SignatureAndData option \<Rightarrow> unit result" where
  "verifySignatureAndData E clientState misbehaviour sigAndData =
     (case sigAndData of
        None \<Rightarrow> Inl Panic
      | Some sd \<Rightarrow>
        (case UnmarshalDataByType E (sd_DataType sd) (sd_Data sd) of Inl e \<Rightarrow> Inl e | Inr _ \<Rightarrow>
        (case solo_ConsensusState clientState of
           None \<Rightarrow> Inl Panic
         | Some consensusState \<Rightarrow>
        (case MisbehaviourSignBytes E (sm_Sequence misbehaviour) (sd_Timestamp sd) (solo_Diversifier consensusState)
               (sd_DataType sd) (sd_Data sd) of Inl e \<Rightarrow> Inl e | Inr data \<Rightarrow>
        (case UnmarshalSignatureData E (sd_Signature sd) of Inl e \<Rightarrow> Inl e | Inr sigData \<Rightarrow>
        (case solo_GetPubKey consensusState of Inl e \<Rightarrow> Inl e | Inr publicKey \<Rightarrow>
         VerifySignature E publicKey data sigData))))))"

definition solo_CheckMisbehaviourAndUpdateState :: "'x env_scheme \<Rightarrow> solo_ClientState \<Rightarrow> Misbehaviour \<Rightarrow> solo_ClientState result" where
  "solo_CheckMisbehaviourAndUpdateState E cs misbehaviour =
     (case misbehaviour of
        SoloMisbehaviour m \<Rightarrow>
          (case verifySignatureAndData E cs m (sm_SignatureOne m) of Inl e \<Rightarrow> Inl e | Inr _ \<Rightarrow>
          (case verifySignatureAndData E cs m (sm_SignatureTwo m) of Inl e \<Rightarrow> Inl e | Inr _ \<Rightarrow>
           Inr (cs \<lparr> solo_IsFrozen := True \<rparr>)))
      | _ \<Rightarrow> Inl (ClientE ErrInvalidClientType))"

definition solo_CheckSubstituteAndUpdateState :: "solo_ClientState \<Rightarrow> ClientState \<Rightarrow> solo_ClientState result" where
  "solo_CheckSubstituteAndUpdateState cs substituteClient =
     (if \<not> solo_AllowUpdateAfterProposal cs then Inl (ClientE ErrUpdateClientFailed)
      else case substituteClient of
        SoloClient sub \<Rightarrow>
          (case solo_ConsensusState cs of None \<Rightarrow> Inl Panic | Some c \<Rightarrow>
          (case solo_GetPubKey c of Inl e \<Rightarrow> Inl e | Inr subjectPublicKey \<Rightarrow>
          (case solo_ConsensusState sub of None \<Rightarrow> Inl Panic | Some sc \<Rightarrow>
          (case solo_GetPubKey sc of Inl e \<Rightarrow> Inl e | Inr substitutePublicKey \<Rightarrow>
           if subjectPublicKey = substitutePublicKey then Inl (ClientE ErrInvalidHeader)
           else Inr (cs \<lparr> solo_Sequence := solo_Sequence sub, solo_ConsensusState := solo_ConsensusState sub,
                          solo_IsFrozen := False \<rparr>)))))
      | _ \<Rightarrow> Inl (ClientE ErrInvalidClientType))"

subsection \<open>What a successful verification means\<close>

lemma solo_GetPubKey_Inr [simp]: "solo_GetPubKey c = Inr k \<longleftrightarrow> solo_PublicKey c = PubKeyAny k"
  by (simp add: solo_GetPubKey_def split: PubKeyAny.splits)

lemma solo_produceVerificationArgs_Inr:
  "solo_produceVerificationArgs E cs height pre proof = Inr (key, sig, ts, seq) \<Longrightarrow>
     height = Height 0 (solo_Sequence cs) \<and> seq = solo_Sequence cs \<and>
     (\<exists>c. solo_ConsensusState cs = Some c \<and> solo_Timestamp c \<le> ts \<and> solo_PublicKey c = PubKeyAny key)"
  by (cases height)
    (auto simp: solo_produceVerificationArgs_def Let_def result_elims solo_GetLatestHeight_def NewHeight_def
      not_less split: prod.splits if_splits)

lemma solo_verify_Inr:
  assumes "solo_verify E store cs height pre proof p signBytes = Inr store'"
  shows "\<exists>c key sig ts signBz path. height = Height 0 (solo_Sequence cs) \<and> solo_ConsensusState cs = Some c \<and>
     solo_Timestamp c \<le> ts \<and> solo_PublicKey c = PubKeyAny key \<and> ApplyPrefix pre (NewMerklePath [p]) = Inr path \<and>
     signBytes (solo_Sequence cs) ts (solo_Diversifier c) path = Inr signBz \<and>
     VerifySignature E key signBz sig = Inr () \<and>
     store' = store \<lparr> st_clientState := Some (SoloClient (solo_advance cs ts)) \<rparr>"
proof -
  from assms obtain key sig ts seq path signBz where
      a: "solo_produceVerificationArgs E cs height pre proof = Inr (key, sig, ts, seq)" and
      b: "ApplyPrefix pre (NewMerklePath [p]) = Inr path"
         "signBytes seq ts (solo_Diversifier (the (solo_ConsensusState cs))) path = Inr signBz"
         "VerifySignature E key signBz sig = Inr ()" "store' = solo_setClientState store (solo_advance cs ts)"
    by (auto simp: solo_verify_def result_elims split: prod.splits)
  from solo_produceVerificationArgs_Inr [OF a] obtain c where
      "height = Height 0 (solo_Sequence cs)" "seq = solo_Sequence cs" "solo_ConsensusState cs = Some c"
      "solo_Timestamp c \<le> ts" "solo_PublicKey c = PubKeyAny key"
    by blast
  with b show ?thesis
    by (intro exI [of _ c] exI [of _ key] exI [of _ sig] exI [of _ ts] exI [of _ signBz] exI [of _ path])
      (simp add: solo_setClientState_def)
qed

lemma solo_advance_simps [simp]:
  "solo_Sequence (solo_advance cs ts) = solo_Sequence cs + 1"
  "solo_IsFrozen (solo_advance cs ts) = solo_IsFrozen cs"
  "solo_ConsensusState (solo_advance cs ts) = map_option (\<lambda>c. c \<lparr> solo_Timestamp := ts \<rparr>) (solo_ConsensusState cs)"
  by (simp_all add: solo_advance_def)

lemma word_succ_neq: "(w :: u64) + 1 \<noteq> w"
  by simp

lemmas solo_verify_functions =
  solo_VerifyConnectionState_def solo_VerifyChannelState_def solo_VerifyPacketCommitment_def
  solo_VerifyPacketAcknowledgement_def solo_VerifyPacketReceiptAbsence_def solo_VerifyNextSequenceRecv_def

lemma solo_update_Inr:
  assumes "solo_CheckHeaderAndUpdateState E cs (SoloHeader h) = Inr (cs', c')"
  shows "\<exists>c key sig data. solo_ConsensusState cs = Some c \<and> sh_Sequence h = solo_Sequence cs \<and>
     solo_Timestamp c \<le> sh_Timestamp h \<and> solo_PublicKey c = PubKeyAny key \<and>
     HeaderSignBytes E h = Inr data \<and> VerifySignature E key data sig = Inr () \<and> (cs', c') = solo_update cs h"
  using assms
  by (auto simp: solo_CheckHeaderAndUpdateState_def solo_checkHeader_def result_elims not_less
      split: if_splits option.splits sum.splits)

subsection \<open>The solo machine as a state machine\<close>

text \<open>
  The steps a client state takes between governance substitutions: a verification, an
  update by a header, or a freeze by misbehaviour.
\<close>

inductive solo_step :: "'x env_scheme \<Rightarrow> solo_ClientState \<Rightarrow> solo_ClientState \<Rightarrow> bool" for E where
  verify: "solo_verify E store cs h pre proof p sb = Inr store' \<Longrightarrow>
           st_clientState store' = Some (SoloClient cs') \<Longrightarrow> solo_step E cs cs'"
| by_header: "solo_CheckHeaderAndUpdateState E cs hdr = Inr (cs', c') \<Longrightarrow> solo_step E cs cs'"
| misbehave: "solo_CheckMisbehaviourAndUpdateState E cs m = Inr cs' \<Longrightarrow> solo_step E cs cs'"

lemma solo_step_effect:
  assumes "solo_step E cs cs'"
  shows "\<exists>c c'. solo_ConsensusState cs = Some c \<and> solo_ConsensusState cs' = Some c' \<and>
     solo_Timestamp c \<le> solo_Timestamp c' \<and> (solo_IsFrozen cs \<longrightarrow> solo_IsFrozen cs') \<and>
     solo_Sequence cs' \<in> {solo_Sequence cs, solo_Sequence cs + 1} \<and>
     solo_AllowUpdateAfterProposal cs' = solo_AllowUpdateAfterProposal cs \<and>
     (solo_Sequence cs' = solo_Sequence cs \<longrightarrow> solo_IsFrozen cs')"
  using assms
proof cases
  case (verify store h pre pf p sb store')
  from solo_verify_Inr [OF verify(1)] verify(2) show ?thesis by (auto simp: solo_advance_def)
next
  case (by_header hdr c')
  then obtain h where h: "hdr = SoloHeader h"
    by (cases hdr) (auto simp: solo_CheckHeaderAndUpdateState_def)
  from solo_update_Inr [OF by_header [unfolded h]] show ?thesis by (auto simp: solo_update_def Let_def)
next
  case (misbehave m)
  then show ?thesis
    by (auto simp: solo_CheckMisbehaviourAndUpdateState_def verifySignatureAndData_def result_elims
        split: Misbehaviour.splits option.splits)
qed

text \<open>
  Over any run of verifications, header updates and misbehaviour reports, the timestamp
  a solo machine client trusts never decreases and a frozen client stays frozen; only
  governance substitution can unfreeze it.
\<close>

theorem solo_run_monotone:
  assumes "(solo_step E)\<^sup>*\<^sup>* cs cs'" and "solo_ConsensusState cs = Some c"
  shows "\<exists>c'. solo_ConsensusState cs' = Some c' \<and> solo_Timestamp c \<le> solo_Timestamp c' \<and>
     (solo_IsFrozen cs \<longrightarrow> solo_IsFrozen cs')"
  using assms
proof (induction rule: rtranclp_induct)
  case base
  then show ?case by simp
next
  case (step y z)
  then obtain d where d: "solo_ConsensusState y = Some d" "solo_Timestamp c \<le> solo_Timestamp d"
    "solo_IsFrozen cs \<longrightarrow> solo_IsFrozen y" by blast
  from solo_step_effect [OF step.hyps(2)] d show ?case using order_trans by fastforce
qed

text \<open>Only misbehaviour keeps the sequence; every other step advances it by one.\<close>

lemma solo_run_sequence:
  "(solo_step E ^^ n) cs cs' \<Longrightarrow> \<exists>k \<le> n. solo_Sequence cs' = solo_Sequence cs + of_nat k"
proof (induction n arbitrary: cs')
  case (Suc n)
  then obtain y where y: "(solo_step E ^^ n) cs y" "solo_step E y cs'" by (auto elim: relpowp_Suc_E)
  from Suc.IH [OF y(1)] obtain k where k: "k \<le> n" "solo_Sequence y = solo_Sequence cs + of_nat k" by blast
  from solo_step_effect [OF y(2)] have "solo_Sequence cs' = solo_Sequence y \<or> solo_Sequence cs' = solo_Sequence y + 1" by auto
  then show ?case
  proof
    assume "solo_Sequence cs' = solo_Sequence y + 1"
    with k show ?thesis by (intro exI [of _ "Suc k"]) simp
  qed (use k in \<open>intro exI [of _ k], simp\<close>)
qed simp

lemma of_nat_u64_neq_0: "0 < m \<Longrightarrow> m < 2 ^ 64 \<Longrightarrow> (of_nat m :: u64) \<noteq> 0"
  using nat_dvd_not_less by (auto simp: word_of_nat_eq_0_iff)

lemma solo_verify_height: "h \<noteq> Height 0 (solo_Sequence cs) \<Longrightarrow> \<not> is_ok (solo_verify E store cs h pre proof p sb)"
  using solo_verify_Inr by (fastforce simp: is_ok_iff)

lemma solo_header_sequence: "sh_Sequence hdr \<noteq> solo_Sequence cs \<Longrightarrow> \<not> is_ok (solo_CheckHeaderAndUpdateState E cs (SoloHeader hdr))"
  by (simp add: solo_CheckHeaderAndUpdateState_def solo_checkHeader_def is_ok_def)

lemma solo_substitute_key:
  "solo_CheckSubstituteAndUpdateState cs sub = Inr cs' \<Longrightarrow>
     map_option solo_PublicKey (solo_ConsensusState cs') \<noteq> map_option solo_PublicKey (solo_ConsensusState cs)"
  by (auto simp: solo_CheckSubstituteAndUpdateState_def result_elims split: ClientState.splits)

text \<open>
  C25: a solo machine signature cannot be replayed. After a verification at some proof height, and after any run of up to
  \<open>2 ^ 64 - 2\<close> further verifications, header updates and misbehaviour reports (one more could bring the 64-bit sequence back
  to its old value), the client refuses every verification at that height, whatever the proof, the path and the value, and every
  header with that sequence. The run ends at a governance substitution, which sets the sequence anew and always replaces the
  public key.
\<close>

theorem solo_no_replay:
  assumes v: "solo_verify E store cs h pre proof p sb = Inr store'" and st: "st_clientState store' = Some (SoloClient cs1)"
    and run: "(solo_step E ^^ n) cs1 cs2" and n: "n < 2 ^ 64 - 1"
  shows "\<not> is_ok (solo_verify E' st cs2 h pre' proof' p' sb') \<and>
     \<not> is_ok (solo_VerifyPacketCommitment E' st cs2 h pre' proof' port chan sq val) \<and>
     \<not> is_ok (solo_VerifyPacketAcknowledgement E' st cs2 h pre' proof' port chan sq val) \<and>
     \<not> is_ok (solo_VerifyPacketReceiptAbsence E' st cs2 h pre' proof' port chan sq) \<and>
     \<not> is_ok (solo_VerifyNextSequenceRecv E' st cs2 h pre' proof' port chan sq) \<and>
     \<not> is_ok (solo_VerifyConnectionState E' st cs2 h pre' proof' cid conn) \<and>
     \<not> is_ok (solo_VerifyChannelState E' st cs2 h pre' proof' port chan ch) \<and>
     (sh_Sequence hdr = RevisionHeight h \<longrightarrow> \<not> is_ok (solo_CheckHeaderAndUpdateState E' cs2 (SoloHeader hdr))) \<and>
     (\<forall>sub cs3. solo_CheckSubstituteAndUpdateState cs2 sub = Inr cs3 \<longrightarrow>
        map_option solo_PublicKey (solo_ConsensusState cs3) \<noteq> map_option solo_PublicKey (solo_ConsensusState cs2))"
proof -
  from solo_verify_Inr [OF v] st obtain ts where h: "h = Height 0 (solo_Sequence cs)" and cs1: "cs1 = solo_advance cs ts" by auto
  from solo_run_sequence [OF run] obtain k where "k \<le> n" and k: "solo_Sequence cs2 = solo_Sequence cs + of_nat (Suc k)"
    by (auto simp: cs1 add_ac)
  with n have "(of_nat (Suc k) :: u64) \<noteq> 0" by (intro of_nat_u64_neq_0) simp_all
  with k have ne: "solo_Sequence cs2 \<noteq> solo_Sequence cs" by simp
  then have "\<not> is_ok (solo_verify E' st cs2 h pre' proof' q sb')" for q sb' by (intro solo_verify_height) (simp add: h)
  with ne h show ?thesis by (auto simp: solo_verify_functions solo_header_sequence dest: solo_substitute_key)
qed

definition demo_solo :: solo_ClientState where
  "demo_solo = solo_NewClientState 5 (Some \<lparr> solo_PublicKey = PubKeyAny (SingleKey ''k''),
     solo_Diversifier = ''d'', solo_Timestamp = 3 \<rparr>) False"

lemma demo_solo_verifies:
  "solo_VerifyPacketCommitment demo_env empty_client_store demo_solo (Height 0 5) (Some ''ibc'') ''sig''
     ''transfer'' ''channel-0'' 1 ''v'' =
   Inr (empty_client_store \<lparr> st_clientState := Some (SoloClient (solo_advance demo_solo 7)) \<rparr>)"
  by (simp add: solo_VerifyPacketCommitment_def solo_verify_def solo_produceVerificationArgs_def demo_solo_def
      solo_NewClientState_def demo_env_def ics23.defs from_ext_def UnmarshalSignatureData_def solo_GetLatestHeight_def
      NewHeight_def solo_GetPubKey_def ApplyPrefix_def MerklePrefix_Empty_def PacketCommitmentSignBytes_def
      PacketCommitmentDataBytes_def sign_data_def VerifySignature_def solo_setClientState_def Let_def)

text \<open>The signature of sequence 5 is refused after one more verification, with sequence 6.\<close>

lemma demo_solo_steps: "(solo_step demo_env ^^ 1) (solo_advance demo_solo 7) (solo_advance (solo_advance demo_solo 7) 7)"
proof -
  have "solo_VerifyPacketCommitment demo_env empty_client_store (solo_advance demo_solo 7) (Height 0 6) (Some ''ibc'') ''sig''
      ''transfer'' ''channel-0'' 1 ''v'' =
    Inr (empty_client_store \<lparr> st_clientState := Some (SoloClient (solo_advance (solo_advance demo_solo 7) 7)) \<rparr>)"
    by (simp add: solo_VerifyPacketCommitment_def solo_verify_def solo_produceVerificationArgs_def demo_solo_def
      solo_NewClientState_def demo_env_def ics23.defs from_ext_def UnmarshalSignatureData_def solo_GetLatestHeight_def
      NewHeight_def solo_GetPubKey_def ApplyPrefix_def MerklePrefix_Empty_def PacketCommitmentSignBytes_def
      PacketCommitmentDataBytes_def sign_data_def VerifySignature_def solo_setClientState_def Let_def solo_advance_def)
  from solo_step.verify [OF this [unfolded solo_VerifyPacketCommitment_def]]
  have "solo_step demo_env (solo_advance demo_solo 7) (solo_advance (solo_advance demo_solo 7) 7)" by simp
  then show ?thesis by (subst relpowp_1)
qed

theorem solo_no_replay_witness:
  "is_ok (solo_VerifyPacketCommitment demo_env empty_client_store demo_solo (Height 0 5) (Some ''ibc'') ''sig'' ''transfer'' ''channel-0'' 1 ''v'') \<and>
   \<not> is_ok (solo_VerifyPacketCommitment demo_env empty_client_store (solo_advance (solo_advance demo_solo 7) 7) (Height 0 5)
       (Some ''ibc'') ''sig'' ''transfer'' ''channel-0'' 1 ''v'')"
proof
  show "is_ok (solo_VerifyPacketCommitment demo_env empty_client_store demo_solo (Height 0 5) (Some ''ibc'') ''sig'' ''transfer'' ''channel-0'' 1 ''v'')"
    by (simp add: demo_solo_verifies is_ok_iff)
  show "\<not> is_ok (solo_VerifyPacketCommitment demo_env empty_client_store (solo_advance (solo_advance demo_solo 7) 7) (Height 0 5)
       (Some ''ibc'') ''sig'' ''transfer'' ''channel-0'' 1 ''v'')"
    by (rule solo_no_replay [OF demo_solo_verifies [unfolded solo_VerifyPacketCommitment_def] _ demo_solo_steps, THEN conjunct2, THEN conjunct1]) simp_all
qed

theorem solo_run_monotone_witness:
  "\<exists>c'. solo_ConsensusState (solo_advance demo_solo 7) = Some c' \<and> 3 \<le> solo_Timestamp c'"
proof -
  have "solo_step demo_env demo_solo (solo_advance demo_solo 7)"
    by (rule solo_step.verify [OF demo_solo_verifies [unfolded solo_VerifyPacketCommitment_def]]) simp
  then have "(solo_step demo_env)\<^sup>*\<^sup>* demo_solo (solo_advance demo_solo 7)" by blast
  from solo_run_monotone [OF this, of "\<lparr> solo_PublicKey = PubKeyAny (SingleKey ''k''),
     solo_Diversifier = ''d'', solo_Timestamp = 3 \<rparr>"]
  show ?thesis by (simp add: demo_solo_def solo_NewClientState_def)
qed

end
