(* ===== verification/Tendermint.thy ===== *)
theory Tendermint
  imports LightClientTypes
begin

text \<open>
  The Tendermint light client (\<^verbatim>\<open>modules/light-clients/07-tendermint/types\<close>): client and
  consensus states, the store of consensus states with its metadata and iteration keys
  (\<^verbatim>\<open>store.go\<close>), header verification and update (\<^verbatim>\<open>update.go\<close>), misbehaviour, governance
  substitution, upgrades and the verification of counterparty state
  (\<^verbatim>\<open>client_state.go\<close>). The verification of a commit against validator sets is
  Tendermint's \<^verbatim>\<open>light.Verify\<close>, a parameter.

  A method that dereferences a nil pointer panics.
\<close>

subsection \<open>Fractions, client and consensus states\<close>

definition tm_NewClientState :: "string \<Rightarrow> Fraction \<Rightarrow> int \<Rightarrow> int \<Rightarrow> int \<Rightarrow> Height \<Rightarrow> ProofSpec list \<Rightarrow> string list \<Rightarrow>
    bool \<Rightarrow> bool \<Rightarrow> tm_ClientState" where
  "tm_NewClientState chainID trustLevel trustingPeriod ubdPeriod maxClockDrift latestHeight specs upgradePath
     allowUpdateAfterExpiry allowUpdateAfterMisbehaviour =
     \<lparr> tm_ChainId = chainID, tm_TrustLevel = trustLevel, tm_TrustingPeriod = trustingPeriod,
       tm_UnbondingPeriod = ubdPeriod, tm_MaxClockDrift = maxClockDrift, tm_FrozenHeight = ZeroHeight,
       tm_LatestHeight = latestHeight, tm_ProofSpecs = specs, tm_UpgradePath = upgradePath,
       tm_AllowUpdateAfterExpiry = allowUpdateAfterExpiry,
       tm_AllowUpdateAfterMisbehaviour = allowUpdateAfterMisbehaviour \<rparr>"

definition tm_NewConsensusState :: "int \<Rightarrow> MerkleRoot \<Rightarrow> bytes \<Rightarrow> tm_ConsensusState" where
  "tm_NewConsensusState timestamp root nextValsHash =
     \<lparr> tm_Timestamp = timestamp, tm_Root = root, tm_NextValidatorsHash = nextValsHash \<rparr>"

definition SentinelRoot :: string where
  "SentinelRoot = ''sentinel_root''"

definition tm_GetTimestamp :: "tm_ConsensusState \<Rightarrow> u64" where
  "tm_GetTimestamp cs = of_int (tm_Timestamp cs)"

definition tm_ConsensusState_ValidateBasic :: "'x env_scheme \<Rightarrow> tm_ConsensusState \<Rightarrow> unit result" where
  "tm_ConsensusState_ValidateBasic E cs =
     (if MerkleRoot_Empty (tm_Root cs) then Inl (ClientE ErrInvalidConsensus)
      else if \<not> tm_ValidateHash E (tm_NextValidatorsHash cs) then Inl (External ''tendermint'')
      else if tm_Timestamp cs div 1000000000 \<le> 0 then Inl (ClientE ErrInvalidConsensus)
      else Inr ())"

definition IsExpired :: "tm_ClientState \<Rightarrow> int \<Rightarrow> int \<Rightarrow> bool" where
  "IsExpired cs latestTimestamp now =
     (let expirationTime = latestTimestamp + tm_TrustingPeriod cs in \<not> expirationTime > now)"

definition tm_Validate :: "'x env_scheme \<Rightarrow> tm_ClientState \<Rightarrow> unit result" where
  "tm_Validate E cs =
     (if all_space (tm_ChainId cs) then Inl (TendermintE tm_ErrInvalidChainID)
      else if length (tm_ChainId cs) > tm_MaxChainIDLen E then Inl (TendermintE tm_ErrInvalidChainID)
      else if \<not> tm_ValidateTrustLevel E (tm_TrustLevel cs) then Inl (External ''light'')
      else if tm_TrustingPeriod cs = 0 then Inl (TendermintE ErrInvalidTrustingPeriod)
      else if tm_UnbondingPeriod cs = 0 then Inl (TendermintE ErrInvalidUnbondingPeriod)
      else if tm_MaxClockDrift cs = 0 then Inl (TendermintE ErrInvalidMaxClockDrift)
      else case ParseChainID (tm_ChainId cs) of Inl e \<Rightarrow> Inl e | Inr revision \<Rightarrow>
      if RevisionNumber (tm_LatestHeight cs) \<noteq> revision then Inl (TendermintE ErrInvalidHeaderHeight)
      else if RevisionHeight (tm_LatestHeight cs) = 0 then Inl (TendermintE ErrInvalidHeaderHeight)
      else if tm_TrustingPeriod cs \<ge> tm_UnbondingPeriod cs then Inl (TendermintE ErrInvalidTrustingPeriod)
      else if tm_ProofSpecs cs = [] then Inl (TendermintE ErrInvalidProofSpecs)
      else if None \<in> set (tm_ProofSpecs cs) then Inl (TendermintE ErrInvalidProofSpecs)
      else if list_ex all_space (tm_UpgradePath cs) then Inl (ClientE ErrInvalidClient)
      else Inr ())"

definition tm_ZeroCustomFields :: "tm_ClientState \<Rightarrow> tm_ClientState" where
  "tm_ZeroCustomFields cs =
     \<lparr> tm_ChainId = tm_ChainId cs, tm_TrustLevel = (0, 0), tm_TrustingPeriod = 0,
       tm_UnbondingPeriod = tm_UnbondingPeriod cs, tm_MaxClockDrift = 0, tm_FrozenHeight = ZeroHeight,
       tm_LatestHeight = tm_LatestHeight cs, tm_ProofSpecs = tm_ProofSpecs cs, tm_UpgradePath = tm_UpgradePath cs,
       tm_AllowUpdateAfterExpiry = False, tm_AllowUpdateAfterMisbehaviour = False \<rparr>"

subsection \<open>The consensus state store (store.go)\<close>

definition KeyIterateConsensusStatePrefix :: string where
  "KeyIterateConsensusStatePrefix = ''iterateConsensusStates''"

definition bigEndianHeightBytes :: "Height \<Rightarrow> bytes" where
  "bigEndianHeightBytes height = u64_be (RevisionNumber height) @ u64_be (RevisionHeight height)"

definition IterationKey :: "Height \<Rightarrow> bytes" where
  "IterationKey height = KeyIterateConsensusStatePrefix @ bigEndianHeightBytes height"

definition GetHeightFromIterationKey :: "bytes \<Rightarrow> Height" where
  "GetHeightFromIterationKey iterKey =
     (let bigEndianBytes = drop (length KeyIterateConsensusStatePrefix) iterKey;
          revisionBytes = take 8 bigEndianBytes;
          heightBytes = drop 8 bigEndianBytes
      in NewHeight (be_u64 revisionBytes) (be_u64 heightBytes))"

definition ProcessedTimeKey :: "Height \<Rightarrow> bytes" where
  "ProcessedTimeKey height = ConsensusStatePath height @ ''/processedTime''"

definition ProcessedHeightKey :: "Height \<Rightarrow> bytes" where
  "ProcessedHeightKey height = ConsensusStatePath height @ ''/processedHeight''"

definition SetConsensusState :: "client_store \<Rightarrow> tm_ConsensusState \<Rightarrow> Height \<Rightarrow> client_store" where
  "SetConsensusState store consensusState height =
     store \<lparr> st_consensus := (st_consensus store)(height \<mapsto> TMCons consensusState) \<rparr>"

definition GetConsensusState :: "client_store \<Rightarrow> Height \<Rightarrow> tm_ConsensusState result" where
  "GetConsensusState store height =
     (case st_consensus store height of
        None \<Rightarrow> Inl (ClientE ErrConsensusStateNotFound)
      | Some (TMCons consensusState) \<Rightarrow> Inr consensusState
      | Some _ \<Rightarrow> Inl (ClientE ErrInvalidConsensus))"

definition deleteConsensusState :: "client_store \<Rightarrow> Height \<Rightarrow> client_store" where
  "deleteConsensusState store height = store \<lparr> st_consensus := (st_consensus store)(height := None) \<rparr>"

definition SetProcessedTime :: "client_store \<Rightarrow> Height \<Rightarrow> u64 \<Rightarrow> client_store" where
  "SetProcessedTime store height timeNs =
     store \<lparr> st_processedTime := (st_processedTime store)(height \<mapsto> timeNs) \<rparr>"

definition GetProcessedTime :: "client_store \<Rightarrow> Height \<Rightarrow> u64 option" where
  "GetProcessedTime store height = st_processedTime store height"

definition deleteProcessedTime :: "client_store \<Rightarrow> Height \<Rightarrow> client_store" where
  "deleteProcessedTime store height = store \<lparr> st_processedTime := (st_processedTime store)(height := None) \<rparr>"

definition SetProcessedHeight :: "client_store \<Rightarrow> Height \<Rightarrow> Height \<Rightarrow> client_store" where
  "SetProcessedHeight store consHeight processedHeight =
     store \<lparr> st_processedHeight := (st_processedHeight store)(consHeight \<mapsto> processedHeight) \<rparr>"

definition GetProcessedHeight :: "client_store \<Rightarrow> Height \<Rightarrow> Height option" where
  "GetProcessedHeight store height = st_processedHeight store height"

definition deleteProcessedHeight :: "client_store \<Rightarrow> Height \<Rightarrow> client_store" where
  "deleteProcessedHeight store height = store \<lparr> st_processedHeight := (st_processedHeight store)(height := None) \<rparr>"

definition SetIterationKey :: "client_store \<Rightarrow> Height \<Rightarrow> client_store" where
  "SetIterationKey store height = store \<lparr> st_iteration := insort_insert height (st_iteration store) \<rparr>"

definition GetIterationKey :: "client_store \<Rightarrow> Height \<Rightarrow> bytes option" where
  "GetIterationKey store height =
     (if height \<in> set (st_iteration store) then Some (ConsensusStatePath height) else None)"

definition deleteIterationKey :: "client_store \<Rightarrow> Height \<Rightarrow> client_store" where
  "deleteIterationKey store height = store \<lparr> st_iteration := filter (\<lambda>h. h \<noteq> height) (st_iteration store) \<rparr>"

text \<open>The callback stops the iteration by returning true.\<close>

fun iterate_heights :: "Height list \<Rightarrow> ('s \<Rightarrow> Height \<Rightarrow> 's \<times> bool) \<Rightarrow> 's \<Rightarrow> 's" where
  "iterate_heights [] cb s = s"
| "iterate_heights (height # hs) cb s =
     (case cb s height of (s', stop) \<Rightarrow> if stop then s' else iterate_heights hs cb s')"

definition IterateConsensusStateAscending :: "client_store \<Rightarrow> ('s \<Rightarrow> Height \<Rightarrow> 's \<times> bool) \<Rightarrow> 's \<Rightarrow> 's" where
  "IterateConsensusStateAscending store cb s = iterate_heights (st_iteration store) cb s"

definition getTmConsensusState :: "client_store \<Rightarrow> Height \<Rightarrow> tm_ConsensusState option" where
  "getTmConsensusState store height =
     (case st_consensus store height of Some (TMCons c) \<Rightarrow> Some c | _ \<Rightarrow> None)"

text \<open>The iterator from \<open>height\<close> (inclusive) upwards; the entry at \<open>height\<close> itself is skipped.\<close>

definition GetNextConsensusState :: "client_store \<Rightarrow> Height \<Rightarrow> tm_ConsensusState option" where
  "GetNextConsensusState store height =
     (case filter (\<lambda>h. height \<le> h) (st_iteration store) of
        [] \<Rightarrow> None
      | h # hs \<Rightarrow>
          if h = height then (case hs of [] \<Rightarrow> None | h' # _ \<Rightarrow> getTmConsensusState store h')
          else getTmConsensusState store h)"

text \<open>The reverse iterator from \<open>height\<close> (exclusive) downwards.\<close>

definition GetPreviousConsensusState :: "client_store \<Rightarrow> Height \<Rightarrow> tm_ConsensusState option" where
  "GetPreviousConsensusState store height =
     (case rev (filter (\<lambda>h. h < height) (st_iteration store)) of
        [] \<Rightarrow> None
      | h # _ \<Rightarrow> getTmConsensusState store h)"

definition setConsensusMetadataWithValues :: "client_store \<Rightarrow> Height \<Rightarrow> Height \<Rightarrow> u64 \<Rightarrow> client_store" where
  "setConsensusMetadataWithValues store height processedHeight processedTime =
     SetIterationKey (SetProcessedHeight (SetProcessedTime store height processedTime) height processedHeight) height"

definition setConsensusMetadata :: "ctx \<Rightarrow> client_store \<Rightarrow> Height \<Rightarrow> client_store result" where
  "setConsensusMetadata ctx store height =
     (case GetSelfHeight ctx of
        Inl e \<Rightarrow> Inl e
      | Inr self \<Rightarrow> Inr (setConsensusMetadataWithValues store height self (block_time_u64 ctx)))"

definition deleteConsensusMetadata :: "client_store \<Rightarrow> Height \<Rightarrow> client_store" where
  "deleteConsensusMetadata store height =
     deleteIterationKey (deleteProcessedHeight (deleteProcessedTime store height) height) height"

definition PruneAllExpiredConsensusStates :: "ctx \<Rightarrow> client_store \<Rightarrow> tm_ClientState \<Rightarrow> client_store" where
  "PruneAllExpiredConsensusStates ctx store clientState =
     (let heights = IterateConsensusStateAscending store (\<lambda>heights height.
            case GetConsensusState store height of
              Inl _ \<Rightarrow> (heights, True)
            | Inr consState \<Rightarrow>
                (if IsExpired clientState (tm_Timestamp consState) (BlockTime ctx) then heights @ [height] else heights,
                 False)) []
      in foldl (\<lambda>st height. deleteConsensusMetadata (deleteConsensusState st height) height) store heights)"

definition tm_Status :: "ctx \<Rightarrow> client_store \<Rightarrow> tm_ClientState \<Rightarrow> Status" where
  "tm_Status ctx store cs =
     (if \<not> IsZero (tm_FrozenHeight cs) then Frozen
      else case GetConsensusState store (tm_LatestHeight cs) of
             Inl _ \<Rightarrow> Unknown
           | Inr consState \<Rightarrow>
               if IsExpired cs (tm_Timestamp consState) (BlockTime ctx) then Expired else Active)"

definition tm_Initialize :: "ctx \<Rightarrow> client_store \<Rightarrow> tm_ClientState \<Rightarrow> ConsensusState option \<Rightarrow> client_store result" where
  "tm_Initialize ctx store cs consState =
     (case consState of
        Some (TMCons _) \<Rightarrow> setConsensusMetadata ctx store (tm_LatestHeight cs)
      | _ \<Rightarrow> Inl (ClientE ErrInvalidConsensus))"

subsection \<open>Headers (header.go)\<close>

definition th_Header :: "tm_Header \<Rightarrow> tm_BlockHeader result" where
  "th_Header h = (case th_SignedHeader h of
     None \<Rightarrow> Inl Panic
   | Some sh \<Rightarrow> (case tsh_Header sh of None \<Rightarrow> Inl Panic | Some bh \<Rightarrow> Inr bh))"

definition tm_Header_GetHeight :: "tm_Header \<Rightarrow> Height result" where
  "tm_Header_GetHeight h =
     (case th_Header h of Inl e \<Rightarrow> Inl e | Inr bh \<Rightarrow>
     (case ParseChainID (hdr_ChainID bh) of Inl e \<Rightarrow> Inl e | Inr revision \<Rightarrow>
      Inr (NewHeight revision (of_int (hdr_Height bh)))))"

definition tm_Header_GetTime :: "tm_Header \<Rightarrow> int result" where
  "tm_Header_GetTime h = (case th_Header h of Inl e \<Rightarrow> Inl e | Inr bh \<Rightarrow> Inr (hdr_Time bh))"

definition tm_Header_ConsensusState :: "tm_Header \<Rightarrow> tm_ConsensusState result" where
  "tm_Header_ConsensusState h =
     (case th_Header h of Inl e \<Rightarrow> Inl e | Inr bh \<Rightarrow>
      Inr \<lparr> tm_Timestamp = hdr_Time bh, tm_Root = hdr_AppHash bh, tm_NextValidatorsHash = hdr_NextValidatorsHash bh \<rparr>)"

definition tm_Header_ValidateBasic :: "'x env_scheme \<Rightarrow> tm_Header \<Rightarrow> unit result" where
  "tm_Header_ValidateBasic E h =
     (case th_SignedHeader h of None \<Rightarrow> Inl (ClientE ErrInvalidHeader) | Some sh \<Rightarrow>
     (case tsh_Header sh of None \<Rightarrow> Inl (ClientE ErrInvalidHeader) | Some bh \<Rightarrow>
      if \<not> tm_SignedHeaderOk E sh then Inl (External ''tendermint'')
      else if \<not> tm_SignedHeaderValidateBasic E sh (hdr_ChainID bh) then Inl (External ''tendermint'')
      else case tm_Header_GetHeight h of Inl e \<Rightarrow> Inl e | Inr height \<Rightarrow>
      if GTE (th_TrustedHeight h) height then Inl (TendermintE ErrInvalidHeaderHeight)
      else if th_ValidatorSet h = None then Inl (ClientE ErrInvalidHeader)
      else case tm_ValidatorSetHash E (th_ValidatorSet h) of
        None \<Rightarrow> Inl (External ''tendermint'')
      | Some valsHash \<Rightarrow>
        if hdr_ValidatorsHash bh \<noteq> valsHash then Inl (ClientE ErrInvalidHeader) else Inr ()))"

subsection \<open>Updating (update.go)\<close>

definition tm_FrozenHeightValue :: Height where
  "tm_FrozenHeightValue = NewHeight 0 1"

definition checkTrustedHeader :: "'x env_scheme \<Rightarrow> tm_Header \<Rightarrow> tm_ConsensusState \<Rightarrow> unit result" where
  "checkTrustedHeader E header consState =
     (case tm_ValidatorSetHash E (th_TrustedValidators header) of
        None \<Rightarrow> Inl (External ''tendermint'')
      | Some tvalHash \<Rightarrow>
          if tm_NextValidatorsHash consState \<noteq> tvalHash then Inl (TendermintE ErrInvalidValidatorSet) else Inr ())"

text \<open>
  The chain identifier headers of revision \<open>revision\<close> are signed for: \<^verbatim>\<open>SetRevisionNumber\<close>
  cannot fail under the guard.
\<close>

definition revision_chain_id :: "string \<Rightarrow> u64 \<Rightarrow> string" where
  "revision_chain_id chainID revision =
     (if IsRevisionFormat chainID then (case SetRevisionNumber chainID revision of Inl _ \<Rightarrow> [] | Inr c \<Rightarrow> c)
      else chainID)"

definition checkValidity :: "'x env_scheme \<Rightarrow> tm_ClientState \<Rightarrow> tm_ConsensusState \<Rightarrow> tm_Header \<Rightarrow> int \<Rightarrow> unit result" where
  "checkValidity E clientState consState header currentTimestamp =
     (case checkTrustedHeader E header consState of Inl e \<Rightarrow> Inl e | Inr _ \<Rightarrow>
     (case tm_Header_GetHeight header of Inl e \<Rightarrow> Inl e | Inr height \<Rightarrow>
      if RevisionNumber height \<noteq> RevisionNumber (th_TrustedHeight header) then Inl (TendermintE ErrInvalidHeaderHeight)
      else if tm_ValidatorSetHash E (th_TrustedValidators header) = None then Inl (External ''tendermint'')
      else case th_SignedHeader header of None \<Rightarrow> Inl Panic | Some sh \<Rightarrow>
      if \<not> tm_SignedHeaderOk E sh then Inl (External ''tendermint'')
      else if tm_ValidatorSetHash E (th_ValidatorSet header) = None then Inl (External ''tendermint'')
      else if LTE height (th_TrustedHeight header) then Inl (ClientE ErrInvalidHeader)
      else let trustedHeader =
             \<lparr> hdr_ChainID = revision_chain_id (tm_ChainId clientState) (RevisionNumber height),
               hdr_Height = sint (RevisionHeight (th_TrustedHeight header)), hdr_Time = tm_Timestamp consState,
               hdr_ValidatorsHash = [], hdr_NextValidatorsHash = tm_NextValidatorsHash consState,
               hdr_AppHash = [], hdr_Other = [] \<rparr> in
      if \<not> tm_lightVerify E trustedHeader (th_TrustedValidators header) sh (th_ValidatorSet header)
             (tm_TrustingPeriod clientState) currentTimestamp (tm_MaxClockDrift clientState) (tm_TrustLevel clientState)
      then Inl (External ''light'') else Inr ()))"

definition tm_update :: "ctx \<Rightarrow> client_store \<Rightarrow> tm_ClientState \<Rightarrow> tm_Header \<Rightarrow>
    (tm_ClientState \<times> tm_ConsensusState \<times> client_store) result" where
  "tm_update ctx store clientState header =
     (case tm_Header_GetHeight header of Inl e \<Rightarrow> Inl e | Inr height \<Rightarrow>
     (case tm_Header_ConsensusState header of Inl e \<Rightarrow> Inl e | Inr consensusState \<Rightarrow>
     (case setConsensusMetadata ctx store height of Inl e \<Rightarrow> Inl e | Inr store' \<Rightarrow>
      Inr (if GT height (tm_LatestHeight clientState) then clientState \<lparr> tm_LatestHeight := height \<rparr> else clientState,
           consensusState, store'))))"

text \<open>The earliest consensus state, if it has expired, is pruned.\<close>

definition prune_oldest :: "ctx \<Rightarrow> client_store \<Rightarrow> tm_ClientState \<Rightarrow> client_store result" where
  "prune_oldest ctx store cs =
     (let (pruneHeight, pruneError) = IterateConsensusStateAscending store (\<lambda>_ height.
        case GetConsensusState store height of
          Inl e \<Rightarrow> ((None, Some e), True)
        | Inr consState \<Rightarrow>
            ((if IsExpired cs (tm_Timestamp consState) (BlockTime ctx) then Some height else None, None), True))
        (None, None)
      in case pruneError of
           Some e \<Rightarrow> Inl e
         | None \<Rightarrow> (case pruneHeight of
             None \<Rightarrow> Inr store
           | Some height \<Rightarrow> Inr (deleteConsensusMetadata (deleteConsensusState store height) height)))"

definition tm_CheckHeaderAndUpdateState :: "'x env_scheme \<Rightarrow> ctx \<Rightarrow> client_store \<Rightarrow> tm_ClientState \<Rightarrow> Header \<Rightarrow>
    (tm_ClientState \<times> tm_ConsensusState \<times> client_store) result" where
  "tm_CheckHeaderAndUpdateState E ctx store cs header =
     (case header of
        TMHeader tmHeader \<Rightarrow>
       (case tm_Header_GetHeight tmHeader of Inl e \<Rightarrow> Inl e | Inr height \<Rightarrow>
       (case tm_Header_ConsensusState tmHeader of Inl e \<Rightarrow> Inl e | Inr consState \<Rightarrow>
        let prevConsState = (case GetConsensusState store height of Inl _ \<Rightarrow> None | Inr c \<Rightarrow> Some c) in
        if prevConsState = Some consState then Inr (cs, consState, store)
        else let conflictingHeader = (prevConsState \<noteq> None) in
        case GetConsensusState store (th_TrustedHeight tmHeader) of Inl e \<Rightarrow> Inl e | Inr trustedConsState \<Rightarrow>
       (case checkValidity E cs trustedConsState tmHeader (BlockTime ctx) of Inl e \<Rightarrow> Inl e | Inr _ \<Rightarrow>
        if conflictingHeader then Inr (cs \<lparr> tm_FrozenHeight := tm_FrozenHeightValue \<rparr>, consState, store)
        else if (case GetPreviousConsensusState store height of None \<Rightarrow> False
                 | Some prevCons \<Rightarrow> \<not> tm_Timestamp prevCons < tm_Timestamp consState)
        then Inr (cs \<lparr> tm_FrozenHeight := tm_FrozenHeightValue \<rparr>, consState, store)
        else if (case GetNextConsensusState store height of None \<Rightarrow> False
                 | Some nextCons \<Rightarrow> \<not> tm_Timestamp nextCons > tm_Timestamp consState)
        then Inr (cs \<lparr> tm_FrozenHeight := tm_FrozenHeightValue \<rparr>, consState, store)
        else case prune_oldest ctx store cs of Inl e \<Rightarrow> Inl e | Inr store' \<Rightarrow>
             tm_update ctx store' cs tmHeader)))
      | _ \<Rightarrow> Inl (ClientE ErrInvalidHeader))"

subsection \<open>Misbehaviour (misbehaviour.go, misbehaviour\_handle.go)\<close>

definition commit_block_hash :: "'x env_scheme \<Rightarrow> tm_Header \<Rightarrow> bytes result" where
  "commit_block_hash E h =
     (case th_SignedHeader h of None \<Rightarrow> Inl Panic | Some sh \<Rightarrow>
     (case tsh_Commit sh of None \<Rightarrow> Inl Panic | Some c \<Rightarrow>
      from_ext ''tendermint'' (tm_CommitBlockHash E (Some c))))"

definition validCommit :: "'x env_scheme \<Rightarrow> string \<Rightarrow> bytes option \<Rightarrow> bytes option \<Rightarrow> unit result" where
  "validCommit E chainID commit valSet =
     (if \<not> tm_CommitOk E commit then Inl (External ''tendermint'')
      else if tm_ValidatorSetHash E valSet = None then Inl (External ''tendermint'')
      else if \<not> tm_VerifyCommitLight E valSet chainID commit then Inl (ClientE ErrInvalidMisbehaviour)
      else Inr ())"

definition tm_Misbehaviour_ValidateBasic :: "'x env_scheme \<Rightarrow> tm_Misbehaviour \<Rightarrow> unit result" where
  "tm_Misbehaviour_ValidateBasic E m =
     (case tmm_Header1 m of None \<Rightarrow> Inl (TendermintE tm_ErrInvalidHeader) | Some h1 \<Rightarrow>
     (case tmm_Header2 m of None \<Rightarrow> Inl (TendermintE tm_ErrInvalidHeader) | Some h2 \<Rightarrow>
      if RevisionHeight (th_TrustedHeight h1) = 0 then Inl (TendermintE ErrInvalidHeaderHeight)
      else if RevisionHeight (th_TrustedHeight h2) = 0 then Inl (TendermintE ErrInvalidHeaderHeight)
      else if th_TrustedValidators h1 = None then Inl (TendermintE ErrInvalidValidatorSet)
      else if th_TrustedValidators h2 = None then Inl (TendermintE ErrInvalidValidatorSet)
      else case th_Header h1 of Inl e \<Rightarrow> Inl e | Inr bh1 \<Rightarrow>
     (case th_Header h2 of Inl e \<Rightarrow> Inl e | Inr bh2 \<Rightarrow>
      if hdr_ChainID bh1 \<noteq> hdr_ChainID bh2 then Inl (ClientE ErrInvalidMisbehaviour)
      else case ClientIdentifierValidator (tmm_ClientId m) of Inl e \<Rightarrow> Inl e | Inr _ \<Rightarrow>
     (case tm_Header_ValidateBasic E h1 of Inl _ \<Rightarrow> Inl (ClientE ErrInvalidMisbehaviour) | Inr _ \<Rightarrow>
     (case tm_Header_ValidateBasic E h2 of Inl _ \<Rightarrow> Inl (ClientE ErrInvalidMisbehaviour) | Inr _ \<Rightarrow>
     (case tm_Header_GetHeight h1 of Inl e \<Rightarrow> Inl e | Inr height1 \<Rightarrow>
     (case tm_Header_GetHeight h2 of Inl e \<Rightarrow> Inl e | Inr height2 \<Rightarrow>
      if LT height1 height2 then Inl (ClientE ErrInvalidMisbehaviour)
      else case commit_block_hash E h1 of Inl e \<Rightarrow> Inl e | Inr _ \<Rightarrow>
     (case commit_block_hash E h2 of Inl e \<Rightarrow> Inl e | Inr _ \<Rightarrow>
     (case validCommit E (hdr_ChainID bh1) (Option.bind (th_SignedHeader h1) tsh_Commit) (th_ValidatorSet h1) of
        Inl e \<Rightarrow> Inl e
      | Inr _ \<Rightarrow> validCommit E (hdr_ChainID bh2) (Option.bind (th_SignedHeader h2) tsh_Commit) (th_ValidatorSet h2))))))))))"

text \<open>\<^verbatim>\<open>time.Time.Sub\<close> saturates at the range of a 64-bit duration.\<close>

definition time_sub :: "int \<Rightarrow> int \<Rightarrow> int" where
  "time_sub t u = max (- (2 ^ 63)) (min (2 ^ 63 - 1) (t - u))"

definition checkMisbehaviourHeader :: "'x env_scheme \<Rightarrow> tm_ClientState \<Rightarrow> tm_ConsensusState \<Rightarrow> tm_Header \<Rightarrow> int \<Rightarrow> unit result" where
  "checkMisbehaviourHeader E clientState consState header currentTimestamp =
     (if tm_ValidatorSetHash E (th_TrustedValidators header) = None then Inl (External ''tendermint'')
      else case th_SignedHeader header of None \<Rightarrow> Inl Panic | Some sh \<Rightarrow>
      if \<not> tm_CommitOk E (tsh_Commit sh) then Inl (External ''tendermint'')
      else case checkTrustedHeader E header consState of Inl e \<Rightarrow> Inl e | Inr _ \<Rightarrow>
      if time_sub currentTimestamp (tm_Timestamp consState) \<ge> tm_TrustingPeriod clientState
      then Inl (TendermintE ErrTrustingPeriodExpired)
      else case tm_Header_GetHeight header of Inl e \<Rightarrow> Inl e | Inr height \<Rightarrow>
      if \<not> tm_VerifyCommitLightTrusting E (th_TrustedValidators header)
             (revision_chain_id (tm_ChainId clientState) (RevisionNumber height)) (tsh_Commit sh) (tm_TrustLevel clientState)
      then Inl (ClientE ErrInvalidMisbehaviour) else Inr ())"

definition tm_CheckMisbehaviourAndUpdateState :: "'x env_scheme \<Rightarrow> ctx \<Rightarrow> client_store \<Rightarrow> tm_ClientState \<Rightarrow> Misbehaviour \<Rightarrow>
    tm_ClientState result" where
  "tm_CheckMisbehaviourAndUpdateState E ctx store cs misbehaviour =
     (case misbehaviour of
        TMMisbehaviour m \<Rightarrow>
       (case tmm_Header1 m of None \<Rightarrow> Inl Panic | Some h1 \<Rightarrow>
       (case tmm_Header2 m of None \<Rightarrow> Inl Panic | Some h2 \<Rightarrow>
       (case tm_Header_GetHeight h1 of Inl e \<Rightarrow> Inl e | Inr height1 \<Rightarrow>
       (case tm_Header_GetHeight h2 of Inl e \<Rightarrow> Inl e | Inr height2 \<Rightarrow>
       (case (if EQ height1 height2 then
               (case commit_block_hash E h1 of Inl e \<Rightarrow> Inl e | Inr blockID1 \<Rightarrow>
               (case commit_block_hash E h2 of Inl e \<Rightarrow> Inl e | Inr blockID2 \<Rightarrow>
                if blockID1 = blockID2 then Inl (ClientE ErrInvalidMisbehaviour) else Inr ()))
              else
               (case tm_Header_GetTime h1 of Inl e \<Rightarrow> Inl e | Inr t1 \<Rightarrow>
               (case tm_Header_GetTime h2 of Inl e \<Rightarrow> Inl e | Inr t2 \<Rightarrow>
                if t1 > t2 then Inl (ClientE ErrInvalidMisbehaviour) else Inr ()))) of Inl e \<Rightarrow> Inl e | Inr _ \<Rightarrow>
       (case GetConsensusState store (th_TrustedHeight h1) of Inl e \<Rightarrow> Inl e | Inr tmConsensusState1 \<Rightarrow>
       (case GetConsensusState store (th_TrustedHeight h2) of Inl e \<Rightarrow> Inl e | Inr tmConsensusState2 \<Rightarrow>
       (case checkMisbehaviourHeader E cs tmConsensusState1 h1 (BlockTime ctx) of Inl e \<Rightarrow> Inl e | Inr _ \<Rightarrow>
       (case checkMisbehaviourHeader E cs tmConsensusState2 h2 (BlockTime ctx) of Inl e \<Rightarrow> Inl e | Inr _ \<Rightarrow>
        Inr (cs \<lparr> tm_FrozenHeight := tm_FrozenHeightValue \<rparr>))))))))))
      | _ \<Rightarrow> Inl (ClientE ErrInvalidClientType))"

subsection \<open>Governance substitution (proposal\_handle.go)\<close>

definition IsMatchingClientState :: "tm_ClientState \<Rightarrow> tm_ClientState \<Rightarrow> bool" where
  "IsMatchingClientState subject substitute =
     (subject \<lparr> tm_LatestHeight := ZeroHeight, tm_FrozenHeight := ZeroHeight, tm_ChainId := [] \<rparr> =
      substitute \<lparr> tm_LatestHeight := ZeroHeight, tm_FrozenHeight := ZeroHeight, tm_ChainId := [] \<rparr>)"

definition tm_CheckSubstituteAndUpdateState :: "ctx \<Rightarrow> client_store \<Rightarrow> client_store \<Rightarrow> tm_ClientState \<Rightarrow> ClientState \<Rightarrow>
    (tm_ClientState \<times> client_store) result" where
  "tm_CheckSubstituteAndUpdateState ctx subjectClientStore substituteClientStore cs substituteClient =
     (case substituteClient of
        TMClient sub \<Rightarrow>
        if \<not> IsMatchingClientState cs sub then Inl (ClientE ErrInvalidSubstitute)
        else case (case tm_Status ctx subjectClientStore cs of
                Frozen \<Rightarrow> if \<not> tm_AllowUpdateAfterMisbehaviour cs then Inl (ClientE ErrUpdateClientFailed)
                          else Inr (cs \<lparr> tm_FrozenHeight := ZeroHeight \<rparr>)
              | Expired \<Rightarrow> if \<not> tm_AllowUpdateAfterExpiry cs then Inl (ClientE ErrUpdateClientFailed) else Inr cs
              | _ \<Rightarrow> Inl (ClientE ErrUpdateClientFailed)) of Inl e \<Rightarrow> Inl e | Inr cs' \<Rightarrow>
        let height = tm_LatestHeight sub in
       (case GetConsensusState substituteClientStore height of Inl e \<Rightarrow> Inl e | Inr consensusState \<Rightarrow>
        let store = SetConsensusState subjectClientStore consensusState height in
       (case GetProcessedHeight substituteClientStore height of
          None \<Rightarrow> Inl (ClientE ErrUpdateClientFailed)
        | Some processedHeight \<Rightarrow>
         (case GetProcessedTime substituteClientStore height of
            None \<Rightarrow> Inl (ClientE ErrUpdateClientFailed)
          | Some processedTime \<Rightarrow>
            Inr (cs' \<lparr> tm_LatestHeight := tm_LatestHeight sub, tm_ChainId := tm_ChainId sub \<rparr>,
                 setConsensusMetadataWithValues store height processedHeight processedTime))))
      | _ \<Rightarrow> Inl (ClientE ErrInvalidClient))"

subsection \<open>Upgrades (upgrade.go)\<close>

definition upgrade_path_key :: "string list \<Rightarrow> Height \<Rightarrow> string \<Rightarrow> MerklePath" where
  "upgrade_path_key upgradePath lastHeight key =
     NewMerklePath (butlast upgradePath @
       [last upgradePath @ ''/'' @ show_u64 (RevisionHeight lastHeight) @ ''/'' @ key])"

definition constructUpgradeClientMerklePath :: "'x env_scheme \<Rightarrow> string list \<Rightarrow> Height \<Rightarrow> MerklePath" where
  "constructUpgradeClientMerklePath E upgradePath lastHeight =
     upgrade_path_key upgradePath lastHeight (sdk_KeyUpgradedClient E)"

definition constructUpgradeConsStateMerklePath :: "'x env_scheme \<Rightarrow> string list \<Rightarrow> Height \<Rightarrow> MerklePath" where
  "constructUpgradeConsStateMerklePath E upgradePath lastHeight =
     upgrade_path_key upgradePath lastHeight (sdk_KeyUpgradedConsState E)"

definition tm_VerifyUpgradeAndUpdateState :: "'x env_scheme \<Rightarrow> ctx \<Rightarrow> client_store \<Rightarrow> tm_ClientState \<Rightarrow> ClientState \<Rightarrow>
    ConsensusState \<Rightarrow> bytes \<Rightarrow> bytes \<Rightarrow> (tm_ClientState \<times> tm_ConsensusState \<times> client_store) result" where
  "tm_VerifyUpgradeAndUpdateState E ctx store cs upgradedClient upgradedConsState proofUpgradeClient proofUpgradeConsState =
     (if length (tm_UpgradePath cs) = 0 then Inl (ClientE ErrInvalidUpgradeClient)
      else let lastHeight = tm_LatestHeight cs in
      if \<not> GT (GetLatestHeight upgradedClient) lastHeight then Inl (SdkE sdk_ErrInvalidHeight)
      else case upgradedClient of
        TMClient tmUpgradeClient \<Rightarrow>
       (case upgradedConsState of
          TMCons tmUpgradeConsState \<Rightarrow>
         (case cdc_UnmarshalMerkleProof E proofUpgradeClient of None \<Rightarrow> Inl (CommitmentE ErrInvalidProof) | Some merkleProofClient \<Rightarrow>
         (case cdc_UnmarshalMerkleProof E proofUpgradeConsState of None \<Rightarrow> Inl (CommitmentE ErrInvalidProof) | Some merkleProofConsState \<Rightarrow>
         (case GetConsensusState store lastHeight of Inl e \<Rightarrow> Inl e | Inr consState \<Rightarrow>
         (case cdc_MarshalClientState E upgradedClient of None \<Rightarrow> Inl (ClientE ErrInvalidClient) | Some bz \<Rightarrow>
         (case VerifyMembership E merkleProofClient (tm_ProofSpecs cs) (Some (tm_Root consState))
                 (constructUpgradeClientMerklePath E (tm_UpgradePath cs) lastHeight) bz of Inl e \<Rightarrow> Inl e | Inr _ \<Rightarrow>
         (case cdc_MarshalConsensusState E upgradedConsState of None \<Rightarrow> Inl (ClientE ErrInvalidConsensus) | Some bz' \<Rightarrow>
         (case VerifyMembership E merkleProofConsState (tm_ProofSpecs cs) (Some (tm_Root consState))
                 (constructUpgradeConsStateMerklePath E (tm_UpgradePath cs) lastHeight) bz' of Inl e \<Rightarrow> Inl e | Inr _ \<Rightarrow>
          let newClientState = tm_NewClientState (tm_ChainId tmUpgradeClient) (tm_TrustLevel cs) (tm_TrustingPeriod cs)
                (tm_UnbondingPeriod tmUpgradeClient) (tm_MaxClockDrift cs) (tm_LatestHeight tmUpgradeClient)
                (tm_ProofSpecs tmUpgradeClient) (tm_UpgradePath tmUpgradeClient)
                (tm_AllowUpdateAfterExpiry cs) (tm_AllowUpdateAfterMisbehaviour cs) in
         (case tm_Validate E newClientState of Inl e \<Rightarrow> Inl e | Inr _ \<Rightarrow>
         (case setConsensusMetadata ctx store (tm_LatestHeight tmUpgradeClient) of Inl e \<Rightarrow> Inl e | Inr store' \<Rightarrow>
          Inr (newClientState,
               tm_NewConsensusState (tm_Timestamp tmUpgradeConsState) SentinelRoot (tm_NextValidatorsHash tmUpgradeConsState),
               store'))))))))))
        | _ \<Rightarrow> Inl (ClientE ErrInvalidConsensus))
      | _ \<Rightarrow> Inl (ClientE ErrInvalidClientType))"

subsection \<open>State verification (client\_state.go)\<close>

definition verifyDelayPeriodPassed :: "ctx \<Rightarrow> client_store \<Rightarrow> Height \<Rightarrow> u64 \<Rightarrow> u64 \<Rightarrow> unit result" where
  "verifyDelayPeriodPassed ctx store proofHeight delayTimePeriod delayBlockPeriod =
     (case GetProcessedTime store proofHeight of
        None \<Rightarrow> Inl (TendermintE ErrProcessedTimeNotFound)
      | Some processedTime \<Rightarrow>
        let currentTimestamp = block_time_u64 ctx; validTime = processedTime + delayTimePeriod in
        if currentTimestamp < validTime then Inl (TendermintE ErrDelayPeriodNotPassed)
        else case GetProcessedHeight store proofHeight of
          None \<Rightarrow> Inl (TendermintE ErrProcessedHeightNotFound)
        | Some processedHeight \<Rightarrow>
          (case GetSelfHeight ctx of
             Inl e \<Rightarrow> Inl e
           | Inr currentHeight \<Rightarrow>
             let validHeight = NewHeight (RevisionNumber processedHeight) (RevisionHeight processedHeight + delayBlockPeriod) in
             if LT currentHeight validHeight then Inl (TendermintE ErrDelayPeriodNotPassed) else Inr ()))"

definition tm_produceVerificationArgs :: "'x env_scheme \<Rightarrow> client_store \<Rightarrow> tm_ClientState \<Rightarrow> Height \<Rightarrow> Prefix \<Rightarrow> bytes \<Rightarrow>
    (MerkleProof \<times> tm_ConsensusState) result" where
  "tm_produceVerificationArgs E store cs height pre proof =
     (if LT (tm_LatestHeight cs) height then Inl (SdkE sdk_ErrInvalidHeight)
      else if pre = None then Inl (CommitmentE ErrInvalidPrefix)
      else if proof = [] then Inl (CommitmentE ErrInvalidProof)
      else case cdc_UnmarshalMerkleProof E proof of
        None \<Rightarrow> Inl (CommitmentE ErrInvalidProof)
      | Some merkleProof \<Rightarrow>
        (case GetConsensusState store height of
           Inl e \<Rightarrow> Inl e
         | Inr consensusState \<Rightarrow> Inr (merkleProof, consensusState)))"

definition tm_VerifyClientState :: "'x env_scheme \<Rightarrow> client_store \<Rightarrow> tm_ClientState \<Rightarrow> Height \<Rightarrow> Prefix \<Rightarrow> string \<Rightarrow> bytes \<Rightarrow>
    ClientState option \<Rightarrow> unit result" where
  "tm_VerifyClientState E store cs height pre counterpartyClientIdentifier proof clientState =
     (case tm_produceVerificationArgs E store cs height pre proof of Inl e \<Rightarrow> Inl e | Inr (merkleProof, provingConsensusState) \<Rightarrow>
     (case ApplyPrefix pre (NewMerklePath [FullClientStatePath counterpartyClientIdentifier]) of Inl e \<Rightarrow> Inl e | Inr path \<Rightarrow>
     (case clientState of
        Some (TMClient c) \<Rightarrow>
          (case from_ext ''codec'' (cdc_MarshalClientState E (TMClient c)) of Inl e \<Rightarrow> Inl e | Inr bz \<Rightarrow>
           VerifyMembership E merkleProof (tm_ProofSpecs cs) (Some (tm_Root provingConsensusState)) path bz)
      | _ \<Rightarrow> Inl (ClientE ErrInvalidClient))))"

definition tm_VerifyClientConsensusState :: "'x env_scheme \<Rightarrow> client_store \<Rightarrow> tm_ClientState \<Rightarrow> Height \<Rightarrow> string \<Rightarrow> Height \<Rightarrow> Prefix \<Rightarrow>
    bytes \<Rightarrow> ConsensusState option \<Rightarrow> unit result" where
  "tm_VerifyClientConsensusState E store cs height counterpartyClientIdentifier consensusHeight pre proof consensusState =
     (case tm_produceVerificationArgs E store cs height pre proof of Inl e \<Rightarrow> Inl e | Inr (merkleProof, provingConsensusState) \<Rightarrow>
     (case ApplyPrefix pre (NewMerklePath [FullConsensusStatePath counterpartyClientIdentifier consensusHeight]) of Inl e \<Rightarrow> Inl e | Inr path \<Rightarrow>
     (case consensusState of
        Some (TMCons c) \<Rightarrow>
          (case from_ext ''codec'' (cdc_MarshalConsensusState E (TMCons c)) of Inl e \<Rightarrow> Inl e | Inr bz \<Rightarrow>
           VerifyMembership E merkleProof (tm_ProofSpecs cs) (Some (tm_Root provingConsensusState)) path bz)
      | _ \<Rightarrow> Inl (ClientE ErrInvalidConsensus))))"

definition tm_VerifyConnectionState :: "'x env_scheme \<Rightarrow> client_store \<Rightarrow> tm_ClientState \<Rightarrow> Height \<Rightarrow> Prefix \<Rightarrow> bytes \<Rightarrow> string \<Rightarrow>
    ConnectionEnd \<Rightarrow> unit result" where
  "tm_VerifyConnectionState E store cs height pre proof connectionID connection =
     (case tm_produceVerificationArgs E store cs height pre proof of Inl e \<Rightarrow> Inl e | Inr (merkleProof, consensusState) \<Rightarrow>
     (case ApplyPrefix pre (NewMerklePath [ConnectionPath connectionID]) of Inl e \<Rightarrow> Inl e | Inr path \<Rightarrow>
     (case from_ext ''codec'' (cdc_MarshalConnection E connection) of Inl e \<Rightarrow> Inl e | Inr bz \<Rightarrow>
      VerifyMembership E merkleProof (tm_ProofSpecs cs) (Some (tm_Root consensusState)) path bz)))"

definition tm_VerifyChannelState :: "'x env_scheme \<Rightarrow> client_store \<Rightarrow> tm_ClientState \<Rightarrow> Height \<Rightarrow> Prefix \<Rightarrow> bytes \<Rightarrow> string \<Rightarrow> string \<Rightarrow>
    Channel \<Rightarrow> unit result" where
  "tm_VerifyChannelState E store cs height pre proof portID channelID channel =
     (case tm_produceVerificationArgs E store cs height pre proof of Inl e \<Rightarrow> Inl e | Inr (merkleProof, consensusState) \<Rightarrow>
     (case ApplyPrefix pre (NewMerklePath [ChannelPath portID channelID]) of Inl e \<Rightarrow> Inl e | Inr path \<Rightarrow>
     (case from_ext ''codec'' (cdc_MarshalChannel E channel) of Inl e \<Rightarrow> Inl e | Inr bz \<Rightarrow>
      VerifyMembership E merkleProof (tm_ProofSpecs cs) (Some (tm_Root consensusState)) path bz)))"

definition tm_VerifyPacketCommitment :: "'x env_scheme \<Rightarrow> ctx \<Rightarrow> client_store \<Rightarrow> tm_ClientState \<Rightarrow> Height \<Rightarrow> u64 \<Rightarrow> u64 \<Rightarrow> Prefix \<Rightarrow> bytes \<Rightarrow>
    string \<Rightarrow> string \<Rightarrow> u64 \<Rightarrow> bytes \<Rightarrow> unit result" where
  "tm_VerifyPacketCommitment E ctx store cs height delayTimePeriod delayBlockPeriod pre proof portID channelID sequence commitmentBytes =
     (case tm_produceVerificationArgs E store cs height pre proof of Inl e \<Rightarrow> Inl e | Inr (merkleProof, consensusState) \<Rightarrow>
     (case verifyDelayPeriodPassed ctx store height delayTimePeriod delayBlockPeriod of Inl e \<Rightarrow> Inl e | Inr _ \<Rightarrow>
     (case ApplyPrefix pre (NewMerklePath [PacketCommitmentPath portID channelID sequence]) of Inl e \<Rightarrow> Inl e | Inr path \<Rightarrow>
      VerifyMembership E merkleProof (tm_ProofSpecs cs) (Some (tm_Root consensusState)) path commitmentBytes)))"

definition tm_VerifyPacketAcknowledgement :: "'x env_scheme \<Rightarrow> ctx \<Rightarrow> client_store \<Rightarrow> tm_ClientState \<Rightarrow> Height \<Rightarrow> u64 \<Rightarrow> u64 \<Rightarrow> Prefix \<Rightarrow> bytes \<Rightarrow>
    string \<Rightarrow> string \<Rightarrow> u64 \<Rightarrow> bytes \<Rightarrow> unit result" where
  "tm_VerifyPacketAcknowledgement E ctx store cs height delayTimePeriod delayBlockPeriod pre proof portID channelID sequence acknowledgement =
     (case tm_produceVerificationArgs E store cs height pre proof of Inl e \<Rightarrow> Inl e | Inr (merkleProof, consensusState) \<Rightarrow>
     (case verifyDelayPeriodPassed ctx store height delayTimePeriod delayBlockPeriod of Inl e \<Rightarrow> Inl e | Inr _ \<Rightarrow>
     (case ApplyPrefix pre (NewMerklePath [PacketAcknowledgementPath portID channelID sequence]) of Inl e \<Rightarrow> Inl e | Inr path \<Rightarrow>
      VerifyMembership E merkleProof (tm_ProofSpecs cs) (Some (tm_Root consensusState)) path (CommitAcknowledgement acknowledgement))))"

definition tm_VerifyPacketReceiptAbsence :: "'x env_scheme \<Rightarrow> ctx \<Rightarrow> client_store \<Rightarrow> tm_ClientState \<Rightarrow> Height \<Rightarrow> u64 \<Rightarrow> u64 \<Rightarrow> Prefix \<Rightarrow> bytes \<Rightarrow>
    string \<Rightarrow> string \<Rightarrow> u64 \<Rightarrow> unit result" where
  "tm_VerifyPacketReceiptAbsence E ctx store cs height delayTimePeriod delayBlockPeriod pre proof portID channelID sequence =
     (case tm_produceVerificationArgs E store cs height pre proof of Inl e \<Rightarrow> Inl e | Inr (merkleProof, consensusState) \<Rightarrow>
     (case verifyDelayPeriodPassed ctx store height delayTimePeriod delayBlockPeriod of Inl e \<Rightarrow> Inl e | Inr _ \<Rightarrow>
     (case ApplyPrefix pre (NewMerklePath [PacketReceiptPath portID channelID sequence]) of Inl e \<Rightarrow> Inl e | Inr path \<Rightarrow>
      VerifyNonMembership E merkleProof (tm_ProofSpecs cs) (Some (tm_Root consensusState)) path)))"

definition tm_VerifyNextSequenceRecv :: "'x env_scheme \<Rightarrow> ctx \<Rightarrow> client_store \<Rightarrow> tm_ClientState \<Rightarrow> Height \<Rightarrow> u64 \<Rightarrow> u64 \<Rightarrow> Prefix \<Rightarrow> bytes \<Rightarrow>
    string \<Rightarrow> string \<Rightarrow> u64 \<Rightarrow> unit result" where
  "tm_VerifyNextSequenceRecv E ctx store cs height delayTimePeriod delayBlockPeriod pre proof portID channelID nextSequenceRecv =
     (case tm_produceVerificationArgs E store cs height pre proof of Inl e \<Rightarrow> Inl e | Inr (merkleProof, consensusState) \<Rightarrow>
     (case verifyDelayPeriodPassed ctx store height delayTimePeriod delayBlockPeriod of Inl e \<Rightarrow> Inl e | Inr _ \<Rightarrow>
     (case ApplyPrefix pre (NewMerklePath [NextSequenceRecvPath portID channelID]) of Inl e \<Rightarrow> Inl e | Inr path \<Rightarrow>
      VerifyMembership E merkleProof (tm_ProofSpecs cs) (Some (tm_Root consensusState)) path (u64_be nextSequenceRecv))))"

subsection \<open>Iteration keys\<close>

lemma bigEndianHeightBytes_less:
  "bytes_less (bigEndianHeightBytes h) (bigEndianHeightBytes k) \<longleftrightarrow> h < k"
proof -
  have u: "bytes_less (u64_be v) (u64_be w) \<longleftrightarrow> unat v < unat w" for v w
    by (simp add: bytes_less_be_nat be_nat_u64_be)
  show ?thesis
    by (subst bigEndianHeightBytes_def, subst bigEndianHeightBytes_def, subst bytes_less_append)
      (simp_all add: u less_Height_iff)
qed

text \<open>
  The byte order of iteration keys is the order of the heights, and the height is read
  back from the key, so iterating over the keys visits the consensus states by height.
\<close>

theorem IterationKey_order:
  "(bytes_less (IterationKey h) (IterationKey k) \<longleftrightarrow> h < k) \<and> GetHeightFromIterationKey (IterationKey h) = h"
proof -
  have "length (u64_be (RevisionNumber h)) = 8" by simp
  then have "GetHeightFromIterationKey (IterationKey h) = h"
    by (cases h) (simp add: GetHeightFromIterationKey_def IterationKey_def bigEndianHeightBytes_def
        be_u64_u64_be NewHeight_def Let_def)
  then show ?thesis by (simp add: IterationKey_def bytes_less_prefix bigEndianHeightBytes_less)
qed

subsection \<open>The invariant of the consensus state store\<close>

text \<open>
  The iteration keys are exactly the heights that have a consensus state and its metadata,
  in order and without repetition, all consensus states are Tendermint's, and time is
  strictly increasing with height.
\<close>

definition consensus_inv :: "client_store \<Rightarrow> bool" where
  "consensus_inv s \<longleftrightarrow>
     sorted (st_iteration s) \<and> distinct (st_iteration s) \<and> set (st_iteration s) = dom (st_consensus s) \<and>
     dom (st_processedTime s) = dom (st_consensus s) \<and> dom (st_processedHeight s) = dom (st_consensus s) \<and>
     (\<forall>h c. st_consensus s h = Some c \<longrightarrow> (\<exists>t. c = TMCons t)) \<and>
     (\<forall>h k c d. st_consensus s h = Some (TMCons c) \<longrightarrow> st_consensus s k = Some (TMCons d) \<longrightarrow> h < k \<longrightarrow>
        tm_Timestamp c < tm_Timestamp d)"

lemmas store_ops =
  SetConsensusState_def deleteConsensusState_def SetProcessedTime_def deleteProcessedTime_def
  SetProcessedHeight_def deleteProcessedHeight_def SetIterationKey_def deleteIterationKey_def
  setConsensusMetadataWithValues_def deleteConsensusMetadata_def

lemma consensus_inv_empty: "consensus_inv (empty_client_store \<lparr> st_clientState := c \<rparr>)"
  by (simp add: consensus_inv_def empty_client_store_def)

lemma consensus_inv_delete:
  "consensus_inv s \<Longrightarrow> consensus_inv (deleteConsensusMetadata (deleteConsensusState s h) h)"
  unfolding consensus_inv_def store_ops
  by (auto simp: sorted_wrt_filter dom_def split: if_splits)

lemma consensus_inv_insert:
  assumes inv: "consensus_inv s"
    and below: "\<And>k d. st_consensus s k = Some (TMCons d) \<Longrightarrow> k < h \<Longrightarrow> tm_Timestamp d < tm_Timestamp c"
    and above: "\<And>k d. st_consensus s k = Some (TMCons d) \<Longrightarrow> h < k \<Longrightarrow> tm_Timestamp c < tm_Timestamp d"
  shows "consensus_inv (SetConsensusState (setConsensusMetadataWithValues s h ph pt) c h)"
proof -
  let ?s = "SetConsensusState (setConsensusMetadataWithValues s h ph pt) c h"
  have "sorted (st_iteration ?s)" "distinct (st_iteration ?s)" "set (st_iteration ?s) = dom (st_consensus ?s)"
    "dom (st_processedTime ?s) = dom (st_consensus ?s)" "dom (st_processedHeight ?s) = dom (st_consensus ?s)"
    using inv
    by (simp_all add: consensus_inv_def store_ops sorted_insort_insert distinct_insort_insert set_insort_insert)
  moreover have "\<forall>k x. st_consensus ?s k = Some x \<longrightarrow> (\<exists>t. x = TMCons t)"
    using inv by (simp add: consensus_inv_def store_ops)
  moreover have "tm_Timestamp x < tm_Timestamp y"
    if "st_consensus ?s j = Some (TMCons x)" "st_consensus ?s k = Some (TMCons y)" "j < k" for j k x y
    using that inv below above unfolding consensus_inv_def store_ops
    by (auto split: if_splits)
  ultimately show ?thesis unfolding consensus_inv_def by blast
qed

subsection \<open>Neighbouring consensus states\<close>

lemma next_filter:
  fixes it :: "Height list"
  assumes "sorted it" and "distinct it"
  shows "(case filter (\<lambda>k. h \<le> k) it of [] \<Rightarrow> None
     | k # ks \<Rightarrow> if k = h then (case ks of [] \<Rightarrow> None | k' # _ \<Rightarrow> g k') else g k) =
     (case filter (\<lambda>k. h < k) it of [] \<Rightarrow> None | k # _ \<Rightarrow> g k)"
  using assms
proof (induction it)
  case Nil
  then show ?case by simp
next
  case (Cons a it)
  show ?case
  proof (cases "a = h")
    case True
    have "k \<in> set it \<Longrightarrow> h \<le> k \<longleftrightarrow> h < k" for k using Cons.prems True by (auto simp: order_less_le)
    then have "filter (\<lambda>k. h \<le> k) it = filter (\<lambda>k. h < k) it" by (intro filter_cong) auto
    with True show ?thesis by simp
  next
    case False
    with Cons show ?thesis by (cases "h < a") auto
  qed
qed

lemma GetNextConsensusState_least:
  assumes "consensus_inv s"
  shows "case GetNextConsensusState s h of
     None \<Rightarrow> \<forall>k. st_consensus s k \<noteq> None \<longrightarrow> k \<le> h
   | Some c \<Rightarrow> \<exists>n. h < n \<and> st_consensus s n = Some (TMCons c) \<and> (\<forall>k. st_consensus s k \<noteq> None \<longrightarrow> h < k \<longrightarrow> n \<le> k)"
proof -
  let ?it = "st_iteration s"
  from assms have it: "sorted ?it" "distinct ?it" "set ?it = dom (st_consensus s)"
    and tm: "\<And>k. k \<in> set ?it \<Longrightarrow> \<exists>c. st_consensus s k = Some (TMCons c)"
    unfolding consensus_inv_def by (auto simp: dom_def)
  have eq: "GetNextConsensusState s h = (case filter (\<lambda>k. h < k) ?it of [] \<Rightarrow> None | k # _ \<Rightarrow> getTmConsensusState s k)"
    unfolding GetNextConsensusState_def by (rule next_filter [OF it(1,2)])
  show ?thesis
  proof (cases "filter (\<lambda>k. h < k) ?it")
    case Nil
    then have "\<forall>k \<in> set ?it. \<not> h < k" by (simp add: filter_empty_conv)
    then show ?thesis using eq Nil it(3) by (auto simp: not_less dom_def)
  next
    case (Cons n ns)
    have "sorted (filter (\<lambda>k. h < k) ?it)" using it(1) by (rule sorted_wrt_filter)
    then have "\<forall>k \<in> set (filter (\<lambda>k. h < k) ?it). n \<le> k" unfolding Cons by auto
    then have least: "\<And>k. k \<in> set ?it \<Longrightarrow> h < k \<Longrightarrow> n \<le> k" by simp
    have "n \<in> set (filter (\<lambda>k. h < k) ?it)" unfolding Cons by simp
    then have n: "n \<in> set ?it" "h < n" by simp_all
    obtain c where "st_consensus s n = Some (TMCons c)" using tm [OF n(1)] by blast
    then have "GetNextConsensusState s h = Some c" by (simp add: eq Cons getTmConsensusState_def)
    with \<open>st_consensus s n = Some (TMCons c)\<close> n least it(3) show ?thesis by auto
  qed
qed

lemma GetPreviousConsensusState_greatest:
  assumes "consensus_inv s"
  shows "case GetPreviousConsensusState s h of
     None \<Rightarrow> \<forall>k. st_consensus s k \<noteq> None \<longrightarrow> h \<le> k
   | Some c \<Rightarrow> \<exists>n. n < h \<and> st_consensus s n = Some (TMCons c) \<and> (\<forall>k. st_consensus s k \<noteq> None \<longrightarrow> k < h \<longrightarrow> k \<le> n)"
proof -
  let ?it = "st_iteration s" and ?f = "filter (\<lambda>k. k < h) (st_iteration s)"
  from assms have it: "sorted ?it" "set ?it = dom (st_consensus s)"
    and tm: "\<And>k. k \<in> set ?it \<Longrightarrow> \<exists>c. st_consensus s k = Some (TMCons c)"
    unfolding consensus_inv_def by (auto simp: dom_def)
  show ?thesis
  proof (cases "?f = []")
    case True
    then have "\<forall>k \<in> set ?it. \<not> k < h" by (simp add: filter_empty_conv)
    then show ?thesis using True it(2) by (auto simp: GetPreviousConsensusState_def not_less dom_def)
  next
    case False
    then obtain ns n where f: "?f = ns @ [n]" by (metis rev_exhaust)
    have "sorted ?f" using it(1) by (rule sorted_wrt_filter)
    then have "\<forall>k \<in> set ?f. k \<le> n" unfolding f by (auto simp: sorted_append)
    then have greatest: "\<And>k. k \<in> set ?it \<Longrightarrow> k < h \<Longrightarrow> k \<le> n" by simp
    have "n \<in> set ?f" unfolding f by simp
    then have n: "n \<in> set ?it" "n < h" by simp_all
    obtain c where "st_consensus s n = Some (TMCons c)" using tm [OF n(1)] by blast
    then have "GetPreviousConsensusState s h = Some c"
      by (simp add: GetPreviousConsensusState_def getTmConsensusState_def f)
    with \<open>st_consensus s n = Some (TMCons c)\<close> n greatest it(2) show ?thesis by auto
  qed
qed

subsection \<open>Updates keep the invariant\<close>

lemma prune_oldest_Inr:
  "prune_oldest ctx s cs = Inr s' \<Longrightarrow>
     s' = s \<or> (\<exists>h c. st_consensus s h = Some (TMCons c) \<and> IsExpired cs (tm_Timestamp c) (BlockTime ctx) \<and>
       h = hd (st_iteration s) \<and> s' = deleteConsensusMetadata (deleteConsensusState s h) h)"
  by (cases "st_iteration s")
    (auto simp: prune_oldest_def IterateConsensusStateAscending_def GetConsensusState_def
      split: sum.splits option.splits ConsensusState.splits if_splits)

lemma prune_oldest_inv: "prune_oldest ctx s cs = Inr s' \<Longrightarrow> consensus_inv s \<Longrightarrow> consensus_inv s'"
  using prune_oldest_Inr consensus_inv_delete by blast

lemma prune_oldest_subset:
  "prune_oldest ctx s cs = Inr s' \<Longrightarrow> st_consensus s' k = Some c \<Longrightarrow> st_consensus s k = Some c"
  by (drule prune_oldest_Inr) (auto simp: store_ops split: if_splits)

lemma tm_update_Inr:
  assumes "tm_update ctx s cs h = Inr (cs', c', s')"
  shows "\<exists>height self. tm_Header_GetHeight h = Inr height \<and> tm_Header_ConsensusState h = Inr c' \<and>
     GetSelfHeight ctx = Inr self \<and> s' = setConsensusMetadataWithValues s height self (block_time_u64 ctx) \<and>
     cs' = cs \<lparr> tm_LatestHeight := max (tm_LatestHeight cs) height \<rparr>"
proof -
  from assms obtain height self where g: "tm_Header_GetHeight h = Inr height" "tm_Header_ConsensusState h = Inr c'"
      "GetSelfHeight ctx = Inr self"
    by (auto simp: tm_update_def setConsensusMetadata_def result_elims)
  have "(if GT height (tm_LatestHeight cs) then cs \<lparr> tm_LatestHeight := height \<rparr> else cs) =
      cs \<lparr> tm_LatestHeight := max (tm_LatestHeight cs) height \<rparr>"
    by (cases cs) (auto simp: height_comparisons max_def dest: order.antisym)
  with g assms show ?thesis by (simp add: tm_update_def setConsensusMetadata_def)
qed

lemma tm_Frozen_nonzero [simp]: "\<not> IsZero tm_FrozenHeightValue"
  by (simp add: tm_FrozenHeightValue_def NewHeight_def IsZero_def)

text \<open>
  The outcomes of a successful update: the header is already known, it is evidence that
  freezes the client, or it extends the client.
\<close>

lemma tm_CheckHeader_cases:
  assumes "tm_CheckHeaderAndUpdateState E ctx s cs (TMHeader h) = Inr (cs', c', s')"
    and "tm_Header_GetHeight h = Inr height"
  obtains (known) "GetConsensusState s height = Inr c'" "cs' = cs" "s' = s"
  | (frozen) "tm_Header_ConsensusState h = Inr c'" "cs' = cs \<lparr> tm_FrozenHeight := tm_FrozenHeightValue \<rparr>" "s' = s"
      "GetConsensusState s height \<noteq> Inr c'"
  | (extended) trusted s1 where "tm_Header_ConsensusState h = Inr c'"
      "\<not> is_ok (GetConsensusState s height)"
      "GetConsensusState s (th_TrustedHeight h) = Inr trusted"
      "checkValidity E cs trusted h (BlockTime ctx) = Inr ()"
      "\<And>p. GetPreviousConsensusState s height = Some p \<Longrightarrow> tm_Timestamp p < tm_Timestamp c'"
      "\<And>n. GetNextConsensusState s height = Some n \<Longrightarrow> tm_Timestamp c' < tm_Timestamp n"
      "prune_oldest ctx s cs = Inr s1" "tm_update ctx s1 cs h = Inr (cs', c', s')"
proof -
  from assms obtain c where c: "tm_Header_ConsensusState h = Inr c"
    by (auto simp: tm_CheckHeaderAndUpdateState_def result_elims)
  show thesis
  proof (cases "GetConsensusState s height = Inr c")
    case True
    with assms c have "c' = c" "cs' = cs" "s' = s" by (simp_all add: tm_CheckHeaderAndUpdateState_def Let_def)
    with True show thesis by (intro known) simp_all
  next
    case False
    then have ne: "(case GetConsensusState s height of Inl _ \<Rightarrow> None | Inr c \<Rightarrow> Some c) \<noteq> Some c"
      by (auto split: sum.splits)
    from assms c ne obtain trusted where t: "GetConsensusState s (th_TrustedHeight h) = Inr trusted"
        "checkValidity E cs trusted h (BlockTime ctx) = Inr ()"
      by (auto simp: tm_CheckHeaderAndUpdateState_def Let_def result_elims)
    let ?P = "case GetPreviousConsensusState s height of None \<Rightarrow> False | Some p \<Rightarrow> \<not> tm_Timestamp p < tm_Timestamp c"
    let ?N = "case GetNextConsensusState s height of None \<Rightarrow> False | Some n \<Rightarrow> \<not> tm_Timestamp n > tm_Timestamp c"
    show thesis
    proof (cases "is_ok (GetConsensusState s height) \<or> ?P \<or> ?N")
      case True
      have "\<exists>y. (case GetConsensusState s height of Inl _ \<Rightarrow> None | Inr c \<Rightarrow> Some c) = Some y"
        if "is_ok (GetConsensusState s height)" using that by (auto simp: is_ok_iff)
      with True assms c ne t have "Inr (cs \<lparr> tm_FrozenHeight := tm_FrozenHeightValue \<rparr>, c, s) = (Inr (cs', c', s') :: _ result)"
        by (cases "is_ok (GetConsensusState s height)")
          (auto simp: tm_CheckHeaderAndUpdateState_def Let_def split: if_splits)
      then have "c' = c" "cs' = cs \<lparr> tm_FrozenHeight := tm_FrozenHeightValue \<rparr>" "s' = s" by simp_all
      with c False show thesis by (intro frozen) simp_all
    next
      case no: False
      then have none: "(case GetConsensusState s height of Inl _ \<Rightarrow> None | Inr c \<Rightarrow> Some c) = None"
        by (auto split: sum.splits)
      with assms c ne t no have "(case prune_oldest ctx s cs of Inl e \<Rightarrow> Inl e | Inr store' \<Rightarrow> tm_update ctx store' cs h) =
          Inr (cs', c', s')"
        by (simp add: tm_CheckHeaderAndUpdateState_def Let_def)
      then obtain s1 where s1: "prune_oldest ctx s cs = Inr s1" "tm_update ctx s1 cs h = Inr (cs', c', s')"
        by (auto simp: result_elims)
      with tm_update_Inr c have "c' = c" by fastforce
      have p: "tm_Timestamp p < tm_Timestamp c'" if "GetPreviousConsensusState s height = Some p" for p
        using no that \<open>c' = c\<close> by simp
      have n: "tm_Timestamp c' < tm_Timestamp n" if "GetNextConsensusState s height = Some n" for n
        using no that \<open>c' = c\<close> by simp
      from no have "\<not> is_ok (GetConsensusState s height)" by simp
      from extended [OF _ this t p n s1] c \<open>c' = c\<close> show thesis by simp
    qed
  qed
qed

lemma consensus_inv_refresh:
  "consensus_inv s \<Longrightarrow> GetConsensusState s h = Inr c \<Longrightarrow> consensus_inv (SetConsensusState s c h)"
proof -
  assume inv: "consensus_inv s" and g: "GetConsensusState s h = Inr c"
  then have "st_consensus s h = Some (TMCons c)"
    by (auto simp: GetConsensusState_def split: option.splits ConsensusState.splits)
  then have "SetConsensusState s c h = s" by (simp add: SetConsensusState_def map_upd_triv)
  with inv show ?thesis by simp
qed

text \<open>A new consensus state between its neighbours in time is between all others in time.\<close>

lemma between_neighbours:
  assumes inv: "consensus_inv s" and k: "st_consensus s k = Some (TMCons d)"
    and p: "\<And>p. GetPreviousConsensusState s h = Some p \<Longrightarrow> tm_Timestamp p < t"
    and n: "\<And>n. GetNextConsensusState s h = Some n \<Longrightarrow> t < tm_Timestamp n"
  shows "(k < h \<longrightarrow> tm_Timestamp d < t) \<and> (h < k \<longrightarrow> t < tm_Timestamp d)"
proof (intro conjI impI)
  assume lt: "k < h"
  then obtain c m where c: "GetPreviousConsensusState s h = Some c" "st_consensus s m = Some (TMCons c)" "k \<le> m"
    using GetPreviousConsensusState_greatest [OF inv, of h] k by (auto split: option.splits)
  have "tm_Timestamp d \<le> tm_Timestamp c"
    using inv k c(2,3) unfolding consensus_inv_def by (cases "k = m") (fastforce simp: order_less_le)+
  with p [OF c(1)] show "tm_Timestamp d < t" by simp
next
  assume gt: "h < k"
  then obtain c m where c: "GetNextConsensusState s h = Some c" "st_consensus s m = Some (TMCons c)" "m \<le> k"
    using GetNextConsensusState_least [OF inv, of h] k by (auto split: option.splits)
  have "tm_Timestamp c \<le> tm_Timestamp d"
    using inv k c(2,3) unfolding consensus_inv_def by (cases "k = m") (fastforce simp: order_less_le)+
  with n [OF c(1)] show "t < tm_Timestamp d" by simp
qed

text \<open>
  An update that leaves the client unfrozen keeps the invariant once the keeper has stored
  the new consensus state.
\<close>

lemma tm_update_keeps_inv:
  assumes "consensus_inv s"
    and "tm_CheckHeaderAndUpdateState E ctx s cs (TMHeader h) = Inr (cs', c', s')"
    and "tm_Header_GetHeight h = Inr height"
    and "IsZero (tm_FrozenHeight cs')"
  shows "consensus_inv (SetConsensusState s' c' height)"
  using assms(2,3)
proof (cases rule: tm_CheckHeader_cases)
  case known
  with assms(1) show ?thesis by (simp add: consensus_inv_refresh)
next
  case frozen
  with assms(4) show ?thesis by simp
next
  case (extended trusted s1)
  from tm_update_Inr [OF extended(8)] assms(3) obtain self where
    s': "s' = setConsensusMetadataWithValues s1 height self (block_time_u64 ctx)" by auto
  have "(k < height \<longrightarrow> tm_Timestamp d < tm_Timestamp c') \<and> (height < k \<longrightarrow> tm_Timestamp c' < tm_Timestamp d)"
    if "st_consensus s1 k = Some (TMCons d)" for k d
    using assms(1) prune_oldest_subset [OF extended(7) that] extended(5,6) by (rule between_neighbours)
  then show ?thesis
    unfolding s' using prune_oldest_inv [OF extended(7) assms(1)] by (intro consensus_inv_insert) auto
qed

text \<open>
  The part of the invariant that does not speak of time also survives substitution and
  upgrade, whose consensus states are not compared with their neighbours.
\<close>

definition metadata_inv :: "client_store \<Rightarrow> bool" where
  "metadata_inv s \<longleftrightarrow>
     sorted (st_iteration s) \<and> distinct (st_iteration s) \<and> set (st_iteration s) = dom (st_consensus s) \<and>
     dom (st_processedTime s) = dom (st_consensus s) \<and> dom (st_processedHeight s) = dom (st_consensus s) \<and>
     (\<forall>h c. st_consensus s h = Some c \<longrightarrow> (\<exists>t. c = TMCons t))"

lemma consensus_metadata_inv: "consensus_inv s \<Longrightarrow> metadata_inv s"
  by (simp add: consensus_inv_def metadata_inv_def)

lemma inv_client_state [simp]:
  "consensus_inv (s \<lparr> st_clientState := c \<rparr>) = consensus_inv s"
  "metadata_inv (s \<lparr> st_clientState := c \<rparr>) = metadata_inv s"
  by (simp_all add: consensus_inv_def metadata_inv_def)

lemma metadata_inv_empty: "metadata_inv (empty_client_store \<lparr> st_clientState := c \<rparr>)"
  using consensus_metadata_inv consensus_inv_empty by blast

lemma metadata_inv_delete:
  "metadata_inv s \<Longrightarrow> metadata_inv (deleteConsensusMetadata (deleteConsensusState s h) h)"
  unfolding metadata_inv_def store_ops
  by (auto simp: sorted_wrt_filter dom_def split: if_splits)

lemma metadata_inv_insert:
  "metadata_inv s \<Longrightarrow> metadata_inv (SetConsensusState (setConsensusMetadataWithValues s h ph pt) c h)"
  by (auto simp: metadata_inv_def store_ops sorted_insort_insert distinct_insort_insert set_insort_insert split: if_splits)

lemma set_consensus_commute:
  "setConsensusMetadataWithValues (SetConsensusState s c h) h ph pt = SetConsensusState (setConsensusMetadataWithValues s h ph pt) c h"
  by (simp add: store_ops)

lemma metadata_inv_refresh:
  "metadata_inv s \<Longrightarrow> GetConsensusState s h = Inr c \<Longrightarrow> metadata_inv (SetConsensusState s c h)"
  by (auto simp: metadata_inv_def store_ops GetConsensusState_def dom_def
      split: if_splits option.splits ConsensusState.splits)

lemma tm_update_metadata:
  assumes "metadata_inv s"
    and "tm_CheckHeaderAndUpdateState E ctx s cs (TMHeader h) = Inr (cs', c', s')"
    and "tm_Header_GetHeight h = Inr height"
    and "IsZero (tm_FrozenHeight cs)"
  shows "if IsZero (tm_FrozenHeight cs') then metadata_inv (SetConsensusState s' c' height) else s' = s"
  using assms(2,3)
proof (cases rule: tm_CheckHeader_cases)
  case known
  with assms(1) show ?thesis by (simp add: metadata_inv_refresh)
next
  case frozen
  then show ?thesis by simp
next
  case (extended trusted s1)
  from tm_update_Inr [OF extended(8)] assms(3) obtain self where
    s': "s' = setConsensusMetadataWithValues s1 height self (block_time_u64 ctx)"
    and cs': "tm_FrozenHeight cs' = tm_FrozenHeight cs" by auto
  from prune_oldest_Inr [OF extended(7)] assms(1) have "metadata_inv s1" by (auto simp: metadata_inv_delete)
  then have "metadata_inv (SetConsensusState s' c' height)" unfolding s' by (rule metadata_inv_insert)
  with cs' assms(4) show ?thesis by simp
qed

text \<open>
  C21: evidence of a fork freezes the client: when an update succeeds with a header whose
  consensus state differs from the stored one at that height, or whose time is not strictly
  between the times of its neighbours, the resulting client state is frozen, its status is
  Frozen in every context and store, and the stored consensus states are left alone.
\<close>

theorem tm_conflict_freezes:
  assumes "tm_CheckHeaderAndUpdateState E ctx s cs (TMHeader h) = Inr (cs', c', s')"
    and "tm_Header_GetHeight h = Inr height" and "tm_Header_ConsensusState h = Inr c"
    and "(\<exists>c0. GetConsensusState s height = Inr c0 \<and> c0 \<noteq> c) \<or>
         (\<not> is_ok (GetConsensusState s height) \<and>
          ((\<exists>p. GetPreviousConsensusState s height = Some p \<and> tm_Timestamp c \<le> tm_Timestamp p) \<or>
           (\<exists>n. GetNextConsensusState s height = Some n \<and> tm_Timestamp n \<le> tm_Timestamp c)))"
  shows "cs' = cs \<lparr> tm_FrozenHeight := tm_FrozenHeightValue \<rparr> \<and> s' = s \<and> (\<forall>ctx' st. tm_Status ctx' st cs' = Frozen)"
  using assms(1,2)
proof (cases rule: tm_CheckHeader_cases)
  case known
  from assms(1-3) known have "c' = c"
    by (auto simp: tm_CheckHeaderAndUpdateState_def Let_def result_elims split: if_splits dest!: tm_update_Inr)
  with known assms(4) show ?thesis by auto
next
  case frozen
  then show ?thesis by (simp add: tm_Status_def)
next
  case (extended trusted s1)
  with assms(3,4) show ?thesis by force
qed

subsection \<open>A concrete run\<close>

definition demo_ctx :: ctx where
  "demo_ctx = \<lparr> ChainID = ''self-1'', BlockHeight = 10, BlockTime = 100, NextValidatorsHash = ''v'' \<rparr>"

definition demo_tm :: tm_ClientState where
  "demo_tm = tm_NewClientState ''chain-1'' (1, 3) 1000 2000 10 (Height 1 5) [Some []] [''upgrade''] False False"

definition demo_cons :: "int \<Rightarrow> tm_ConsensusState" where
  "demo_cons t = tm_NewConsensusState t ''root'' ''v''"

definition demo_tm_store :: client_store where
  "demo_tm_store = SetConsensusState (setConsensusMetadataWithValues
     (empty_client_store \<lparr> st_clientState := Some (TMClient demo_tm) \<rparr>) (Height 1 5) (Height 1 9) 90) (demo_cons 50) (Height 1 5)"

definition demo_header :: "int \<Rightarrow> int \<Rightarrow> tm_Header" where
  "demo_header h t =
     \<lparr> th_SignedHeader = Some \<lparr> tsh_Header = Some \<lparr> hdr_ChainID = ''chain-1'', hdr_Height = h, hdr_Time = t,
          hdr_ValidatorsHash = ''v'', hdr_NextValidatorsHash = ''v'', hdr_AppHash = ''root'', hdr_Other = [] \<rparr>,
          tsh_Commit = Some ''commit'' \<rparr>,
       th_ValidatorSet = Some ''v'', th_TrustedHeight = Height 1 5, th_TrustedValidators = Some ''v'' \<rparr>"

lemma demo_tm_store_inv: "consensus_inv demo_tm_store"
  unfolding demo_tm_store_def by (rule consensus_inv_insert [OF consensus_inv_empty]) (simp_all add: empty_client_store_def)

theorem tm_conflict_freezes_witness:
  "\<exists>c' s'. tm_CheckHeaderAndUpdateState demo_env demo_ctx demo_tm_store demo_tm (TMHeader (demo_header 7 40)) =
       Inr (demo_tm \<lparr> tm_FrozenHeight := tm_FrozenHeightValue \<rparr>, c', s')"
proof -
  let ?r = "tm_CheckHeaderAndUpdateState demo_env demo_ctx demo_tm_store demo_tm (TMHeader (demo_header 7 40))"
  have "is_ok ?r" by code_simp
  then obtain cs' c' s' where r: "?r = Inr (cs', c', s')" by (auto simp: is_ok_iff)
  have h: "tm_Header_GetHeight (demo_header 7 40) = Inr (Height 1 7)" by code_simp
  have c: "tm_Header_ConsensusState (demo_header 7 40) = Inr (demo_cons 40)" by code_simp
  have n: "\<not> is_ok (GetConsensusState demo_tm_store (Height 1 7))" by code_simp
  have p: "GetPreviousConsensusState demo_tm_store (Height 1 7) = Some (demo_cons 50)" by code_simp
  have t: "tm_Timestamp (demo_cons 40) \<le> tm_Timestamp (demo_cons 50)" by code_simp
  from tm_conflict_freezes [OF r h c] n p t r show ?thesis by blast
qed

subsection \<open>Delay periods\<close>

text \<open>
  When the sums do not wrap around, a packet proof passes the delay check exactly when
  the consensus state has been on this chain for the required time and for the required
  number of blocks (its processed height and the current height being of one revision, or
  the current one of a later revision).
\<close>

theorem verifyDelayPeriodPassed_exact:
  assumes "GetProcessedTime s h = Some pt" and "GetProcessedHeight s h = Some ph" and "GetSelfHeight ctx = Inr self"
    and "unat pt + unat delayTime < 2 ^ 64" and "unat (RevisionHeight ph) + unat delayBlocks < 2 ^ 64"
  shows "verifyDelayPeriodPassed ctx s h delayTime delayBlocks = Inr () \<longleftrightarrow>
     unat pt + unat delayTime \<le> unat (block_time_u64 ctx) \<and>
     (unat (RevisionNumber ph) < unat (RevisionNumber self) \<or>
      RevisionNumber ph = RevisionNumber self \<and>
      unat (RevisionHeight ph) + unat delayBlocks \<le> unat (RevisionHeight self))"
proof -
  have t: "unat (pt + delayTime) = unat pt + unat delayTime"
    and b: "unat (RevisionHeight ph + delayBlocks) = unat (RevisionHeight ph) + unat delayBlocks"
    using assms(4,5) by (simp_all add: unat_word_ariths)
  show ?thesis
    using assms(1-3)
    by (auto simp: verifyDelayPeriodPassed_def Let_def height_comparisons less_Height_iff NewHeight_def
        word_less_nat_alt word_unat_eq_iff t b not_less)
qed

theorem verifyDelayPeriodPassed_exact_witness:
  "verifyDelayPeriodPassed demo_ctx demo_tm_store (Height 1 5) 10 1 = Inr ()"
proof -
  have "GetProcessedTime demo_tm_store (Height 1 5) = Some 90" "GetProcessedHeight demo_tm_store (Height 1 5) = Some (Height 1 9)"
    "GetSelfHeight demo_ctx = Inr (Height 1 10)" by code_simp+
  from verifyDelayPeriodPassed_exact [OF this, of 10 1] show ?thesis
    by (simp add: demo_ctx_def block_time_u64_def)
qed

text \<open>
  The sum of the processed time and the delay is taken in 64 bits: a delay period of
  \<open>2 ^ 64 - 1\<close> nanoseconds, the largest that can be configured, is satisfied at once by any
  block whose time is the processed time or later.
\<close>

theorem verifyDelayPeriodPassed_wraps:
  assumes "GetProcessedTime s h = Some pt" and "pt \<noteq> 0" and "pt \<le> block_time_u64 ctx"
    and "GetProcessedHeight s h = Some ph" and "GetSelfHeight ctx = Inr self" and "ph \<le> self"
  shows "verifyDelayPeriodPassed ctx s h (- 1) 0 = Inr ()"
proof -
  have "0 < unat pt" using assms(2) by (simp add: unat_gt_0)
  then have "pt + - 1 < pt" using assms(2) by (simp add: word_less_nat_alt unat_minus_one)
  then have "\<not> block_time_u64 ctx < pt + - 1" using assms(3) by (meson leD less_le_trans order_less_imp_le)
  with assms show ?thesis
    by (cases ph) (simp add: verifyDelayPeriodPassed_def Let_def height_comparisons NewHeight_def)
qed

theorem verifyDelayPeriodPassed_wraps_witness:
  "verifyDelayPeriodPassed demo_ctx demo_tm_store (Height 1 5) (- 1) 0 = Inr ()"
proof (rule verifyDelayPeriodPassed_wraps)
  show "GetProcessedTime demo_tm_store (Height 1 5) = Some 90" "GetProcessedHeight demo_tm_store (Height 1 5) = Some (Height 1 9)"
    "GetSelfHeight demo_ctx = Inr (Height 1 10)" "Height 1 9 \<le> Height 1 10" by code_simp+
qed (simp_all add: demo_ctx_def block_time_u64_def)

subsection \<open>Substitution and upgrade\<close>

text \<open>
  Governance can replace the state of a Tendermint client only when the client is
  frozen or expired and was created with the flag allowing it; the substitute must agree in
  every parameter except chain identifier and heights; afterwards the client is not frozen,
  is at the substitute's latest height and chain, keeps its other parameters, and holds
  the substitute's consensus state and processing metadata at that height.
\<close>

theorem tm_substitute_effect:
  assumes "tm_CheckSubstituteAndUpdateState ctx subj subst cs client = Inr (cs', s')"
  shows "(tm_Status ctx subj cs = Frozen \<and> tm_AllowUpdateAfterMisbehaviour cs \<or>
          tm_Status ctx subj cs = Expired \<and> tm_AllowUpdateAfterExpiry cs) \<and>
     (\<exists>sub. client = TMClient sub \<and> IsMatchingClientState cs sub \<and>
        cs' = cs \<lparr> tm_LatestHeight := tm_LatestHeight sub, tm_FrozenHeight := ZeroHeight, tm_ChainId := tm_ChainId sub \<rparr> \<and>
        is_ok (GetConsensusState s' (tm_LatestHeight sub)) \<and>
        GetConsensusState s' (tm_LatestHeight sub) = GetConsensusState subst (tm_LatestHeight sub) \<and>
        GetProcessedTime s' (tm_LatestHeight sub) = GetProcessedTime subst (tm_LatestHeight sub) \<and>
        GetProcessedHeight s' (tm_LatestHeight sub) = GetProcessedHeight subst (tm_LatestHeight sub))"
proof -
  from assms obtain sub where sub: "client = TMClient sub"
    by (auto simp: tm_CheckSubstituteAndUpdateState_def split: ClientState.splits)
  have thaw: "tm_Status ctx subj cs = Expired \<Longrightarrow> cs \<lparr> tm_FrozenHeight := ZeroHeight \<rparr> = cs"
    by (cases cs) (auto simp: tm_Status_def IsZero_iff split: if_splits)
  let ?h = "tm_LatestHeight sub"
  from assms sub obtain cs1 c ph pt where
      m: "IsMatchingClientState cs sub" and
      st: "tm_Status ctx subj cs = Frozen \<and> tm_AllowUpdateAfterMisbehaviour cs \<and> cs1 = cs \<lparr> tm_FrozenHeight := ZeroHeight \<rparr> \<or>
           tm_Status ctx subj cs = Expired \<and> tm_AllowUpdateAfterExpiry cs \<and> cs1 = cs" and
      g: "GetConsensusState subst ?h = Inr c" "GetProcessedHeight subst ?h = Some ph" "GetProcessedTime subst ?h = Some pt" and
      r: "cs' = cs1 \<lparr> tm_LatestHeight := ?h, tm_ChainId := tm_ChainId sub \<rparr>"
         "s' = setConsensusMetadataWithValues (SetConsensusState subj c ?h) ?h ph pt"
    by (auto simp: tm_CheckSubstituteAndUpdateState_def Let_def result_elims split: Status.splits if_splits)
  have "cs1 = cs \<lparr> tm_FrozenHeight := ZeroHeight \<rparr>" using st thaw by auto
  with r have "cs' = cs \<lparr> tm_LatestHeight := ?h, tm_FrozenHeight := ZeroHeight, tm_ChainId := tm_ChainId sub \<rparr>" by simp
  with m st g r(2) sub show ?thesis
    by (auto simp: store_ops GetConsensusState_def GetProcessedTime_def GetProcessedHeight_def)
qed

theorem tm_substitute_effect_witness:
  "\<exists>cs' s'. tm_CheckSubstituteAndUpdateState demo_ctx demo_tm_store demo_tm_store
      (demo_tm \<lparr> tm_FrozenHeight := tm_FrozenHeightValue, tm_AllowUpdateAfterMisbehaviour := True \<rparr>)
      (TMClient (demo_tm \<lparr> tm_AllowUpdateAfterMisbehaviour := True \<rparr>)) = Inr (cs', s') \<and> tm_FrozenHeight cs' = ZeroHeight"
proof -
  let ?cs = "demo_tm \<lparr> tm_FrozenHeight := tm_FrozenHeightValue, tm_AllowUpdateAfterMisbehaviour := True \<rparr>"
  let ?r = "tm_CheckSubstituteAndUpdateState demo_ctx demo_tm_store demo_tm_store ?cs
      (TMClient (demo_tm \<lparr> tm_AllowUpdateAfterMisbehaviour := True \<rparr>))"
  have "is_ok ?r" by code_simp
  then obtain cs' s' where r: "?r = Inr (cs', s')" by (auto simp: is_ok_iff)
  from tm_substitute_effect [OF r] r show ?thesis by auto
qed

text \<open>What substitution and upgrade leave in the store.\<close>

lemma tm_substitute_store:
  assumes "tm_CheckSubstituteAndUpdateState ctx subj subst cs client = Inr (cs', s')"
  shows "\<exists>c ph pt. s' = SetConsensusState (setConsensusMetadataWithValues subj (tm_LatestHeight cs') ph pt) c (tm_LatestHeight cs')"
  using assms
  by (auto simp: tm_CheckSubstituteAndUpdateState_def Let_def result_elims set_consensus_commute
      split: ClientState.splits Status.splits if_splits) blast+

lemma tm_upgrade_store:
  assumes "tm_VerifyUpgradeAndUpdateState E ctx s cs upClient upCons pc ps = Inr (cs', c', s')"
  shows "\<exists>ph pt. s' = setConsensusMetadataWithValues s (tm_LatestHeight cs') ph pt"
  using assms
  by (auto simp: tm_VerifyUpgradeAndUpdateState_def setConsensusMetadata_def tm_NewClientState_def Let_def result_elims
      split: ClientState.splits ConsensusState.splits if_splits) blast

text \<open>
  An upgrade succeeds only with proofs, under the root the client trusts at its latest
  height, of exactly the upgraded client and consensus state at the upgrade paths of that
  height; the new client has a greater latest height, is valid and not frozen, takes the
  chain-specified fields from the upgraded client and keeps the relayer-chosen ones, and
  its first consensus state carries the sentinel root.
\<close>

theorem tm_upgrade_effect:
  assumes "tm_VerifyUpgradeAndUpdateState E ctx s cs upClient upCons pc ps = Inr (cs', c', s')"
  shows "\<exists>uc ucs mc ms c bz bz'. upClient = TMClient uc \<and> upCons = TMCons ucs \<and>
     cdc_UnmarshalMerkleProof E pc = Some mc \<and> cdc_UnmarshalMerkleProof E ps = Some ms \<and>
     GetConsensusState s (tm_LatestHeight cs) = Inr c \<and>
     cdc_MarshalClientState E upClient = Some bz \<and> cdc_MarshalConsensusState E upCons = Some bz' \<and>
     VerifyMembership E mc (tm_ProofSpecs cs) (Some (tm_Root c))
       (constructUpgradeClientMerklePath E (tm_UpgradePath cs) (tm_LatestHeight cs)) bz = Inr () \<and>
     VerifyMembership E ms (tm_ProofSpecs cs) (Some (tm_Root c))
       (constructUpgradeConsStateMerklePath E (tm_UpgradePath cs) (tm_LatestHeight cs)) bz' = Inr () \<and>
     tm_LatestHeight cs < tm_LatestHeight cs' \<and> tm_Validate E cs' = Inr () \<and>
     cs' = uc \<lparr> tm_TrustLevel := tm_TrustLevel cs, tm_TrustingPeriod := tm_TrustingPeriod cs,
       tm_MaxClockDrift := tm_MaxClockDrift cs, tm_FrozenHeight := ZeroHeight,
       tm_AllowUpdateAfterExpiry := tm_AllowUpdateAfterExpiry cs,
       tm_AllowUpdateAfterMisbehaviour := tm_AllowUpdateAfterMisbehaviour cs \<rparr> \<and>
     tm_Root c' = SentinelRoot"
proof -
  from assms obtain uc ucs where u: "upClient = TMClient uc" "upCons = TMCons ucs"
    by (auto simp: tm_VerifyUpgradeAndUpdateState_def Let_def split: ClientState.splits ConsensusState.splits if_splits)
  from assms show ?thesis
    by (auto simp: u tm_VerifyUpgradeAndUpdateState_def Let_def result_elims height_comparisons
        tm_NewClientState_def tm_NewConsensusState_def)
qed

definition lax_env :: env where
  "lax_env = demo_env \<lparr> ics23_Calculate := (\<lambda>p. Some ''root''), ics23_VerifyMembership := (\<lambda>_ _ _ _ _. True) \<rparr>"

theorem tm_upgrade_effect_witness:
  "\<exists>cs' c' s'. tm_VerifyUpgradeAndUpdateState lax_env demo_ctx demo_tm_store demo_tm
      (TMClient (tm_NewClientState ''chain-2'' (0, 0) 0 3000 0 (Height 2 1) [Some []] [''upgrade''] False False))
      (TMCons (demo_cons 70)) ''p'' ''q'' = Inr (cs', c', s') \<and> tm_Root c' = SentinelRoot"
proof -
  let ?r = "tm_VerifyUpgradeAndUpdateState lax_env demo_ctx demo_tm_store demo_tm
      (TMClient (tm_NewClientState ''chain-2'' (0, 0) 0 3000 0 (Height 2 1) [Some []] [''upgrade''] False False))
      (TMCons (demo_cons 70)) ''p'' ''q''"
  have "is_ok ?r" by code_simp
  then obtain cs' c' s' where r: "?r = Inr (cs', c', s')" by (auto simp: is_ok_iff)
  from tm_upgrade_effect [OF r] r show ?thesis by blast
qed

end
