(* ===== verification/LocalhostClient.thy ===== *)
theory LocalhostClient
  imports LightClientTypes
begin

text \<open>
  The localhost client (\<^verbatim>\<open>modules/light-clients/09-localhost/types/client_state.go\<close>), which
  checks counterparty state against entries of its own client store. Its keys
  (\<^verbatim>\<open>connections/...\<close>, \<^verbatim>\<open>channelEnds/...\<close> and so on) are none of the typed entries of the
  client store, so they are looked up in \<open>st_raw\<close>.

  \<^verbatim>\<open>reflect.DeepEqual\<close> compares dynamic types first, so a connection or channel end passed as
  an interface value is told apart by how it is held: by value or by pointer.
\<close>

datatype 'a iface = ByValue 'a | ByPointer 'a

definition lh_NewClientState :: "string \<Rightarrow> Height \<Rightarrow> lh_ClientState" where
  "lh_NewClientState chainID height = \<lparr> lh_ChainId = chainID, lh_Height = height \<rparr>"

definition lh_Status :: "lh_ClientState \<Rightarrow> Status" where
  "lh_Status cs = Active"

definition lh_Validate :: "lh_ClientState \<Rightarrow> unit result" where
  "lh_Validate cs =
     (if all_space (lh_ChainId cs) then Inl (SdkE sdk_ErrInvalidChainID)
      else if RevisionHeight (lh_Height cs) = 0 then Inl (SdkE sdk_ErrInvalidHeight)
      else Inr ())"

definition lh_ZeroCustomFields :: "lh_ClientState \<Rightarrow> lh_ClientState" where
  "lh_ZeroCustomFields cs = cs"

definition lh_Initialize :: "lh_ClientState \<Rightarrow> ConsensusState option \<Rightarrow> unit result" where
  "lh_Initialize cs consState =
     (if consState \<noteq> None then Inl (ClientE ErrInvalidConsensus) else Inr ())"

definition lh_CheckHeaderAndUpdateState :: "ctx \<Rightarrow> lh_ClientState \<Rightarrow> lh_ClientState result" where
  "lh_CheckHeaderAndUpdateState ctx cs =
     (case ParseChainID (ChainID ctx) of
        Inl e \<Rightarrow> Inl e
      | Inr revision \<Rightarrow> Inr \<lparr> lh_ChainId = ChainID ctx, lh_Height = NewHeight revision (of_int (BlockHeight ctx)) \<rparr>)"

definition lh_CheckMisbehaviourAndUpdateState :: "lh_ClientState \<Rightarrow> lh_ClientState result" where
  "lh_CheckMisbehaviourAndUpdateState cs = Inl (ClientE ErrInvalidMisbehaviour)"

definition lh_CheckSubstituteAndUpdateState :: "lh_ClientState \<Rightarrow> lh_ClientState result" where
  "lh_CheckSubstituteAndUpdateState cs = Inl (ClientE ErrUpdateClientFailed)"

definition lh_VerifyUpgradeAndUpdateState :: "lh_ClientState \<Rightarrow> (ClientState \<times> ConsensusState) result" where
  "lh_VerifyUpgradeAndUpdateState cs = Inl (ClientE ErrInvalidUpgradeClient)"

definition lh_VerifyClientState :: "client_store \<Rightarrow> ClientState option \<Rightarrow> unit result" where
  "lh_VerifyClientState store clientState =
     (case st_clientState store of
        None \<Rightarrow> Inl (ClientE ErrFailedClientStateVerification)
      | Some selfClient \<Rightarrow>
          if Some selfClient \<noteq> clientState then Inl (ClientE ErrFailedClientStateVerification) else Inr ())"

definition lh_VerifyClientConsensusState :: "client_store \<Rightarrow> unit result" where
  "lh_VerifyClientConsensusState store = Inr ()"

definition lh_VerifyConnectionState :: "'x env_scheme \<Rightarrow> client_store \<Rightarrow> string \<Rightarrow> ConnectionEnd iface \<Rightarrow> unit result" where
  "lh_VerifyConnectionState E store connectionID connectionEnd =
     (case st_raw store (ConnectionPath connectionID) of
        None \<Rightarrow> Inl (ClientE ErrFailedConnectionStateVerification)
      | Some bz \<Rightarrow>
        (case from_ext ''codec'' (cdc_UnmarshalConnection E bz) of
           Inl e \<Rightarrow> Inl e
         | Inr prevConnection \<Rightarrow>
             if ByPointer prevConnection \<noteq> connectionEnd then Inl (ClientE ErrFailedConnectionStateVerification)
             else Inr ()))"

definition lh_VerifyChannelState :: "'x env_scheme \<Rightarrow> client_store \<Rightarrow> string \<Rightarrow> string \<Rightarrow> Channel iface \<Rightarrow> unit result" where
  "lh_VerifyChannelState E store portID channelID channel =
     (case st_raw store (ChannelPath portID channelID) of
        None \<Rightarrow> Inl (ClientE ErrFailedChannelStateVerification)
      | Some bz \<Rightarrow>
        (case from_ext ''codec'' (cdc_UnmarshalChannel E bz) of
           Inl e \<Rightarrow> Inl e
         | Inr prevChannel \<Rightarrow>
             if ByPointer prevChannel \<noteq> channel then Inl (ClientE ErrFailedChannelStateVerification)
             else Inr ()))"

text \<open>A missing entry reads as the empty slice.\<close>

definition lh_get :: "client_store \<Rightarrow> bytes \<Rightarrow> bytes" where
  "lh_get store path = (case st_raw store path of None \<Rightarrow> [] | Some d \<Rightarrow> d)"

definition lh_VerifyPacketCommitment :: "client_store \<Rightarrow> string \<Rightarrow> string \<Rightarrow> u64 \<Rightarrow> bytes \<Rightarrow> unit result" where
  "lh_VerifyPacketCommitment store portID channelID sequence commitmentBytes =
     (let data = lh_get store (PacketCommitmentPath portID channelID sequence) in
      if length data = 0 then Inl (ClientE ErrFailedPacketCommitmentVerification)
      else if data \<noteq> commitmentBytes then Inl (ClientE ErrFailedPacketCommitmentVerification)
      else Inr ())"

definition lh_VerifyPacketAcknowledgement :: "client_store \<Rightarrow> string \<Rightarrow> string \<Rightarrow> u64 \<Rightarrow> bytes \<Rightarrow> unit result" where
  "lh_VerifyPacketAcknowledgement store portID channelID sequence acknowledgement =
     (let data = lh_get store (PacketAcknowledgementPath portID channelID sequence) in
      if length data = 0 then Inl (ClientE ErrFailedPacketAckVerification)
      else if data \<noteq> acknowledgement then Inl (ClientE ErrFailedPacketAckVerification)
      else Inr ())"

definition lh_VerifyPacketReceiptAbsence :: "client_store \<Rightarrow> string \<Rightarrow> string \<Rightarrow> u64 \<Rightarrow> unit result" where
  "lh_VerifyPacketReceiptAbsence store portID channelID sequence =
     (if st_raw store (PacketReceiptPath portID channelID sequence) \<noteq> None
      then Inl (ClientE ErrFailedPacketReceiptVerification) else Inr ())"

text \<open>\<^verbatim>\<open>binary.BigEndian.Uint64\<close> panics on fewer than eight bytes.\<close>

definition lh_VerifyNextSequenceRecv :: "client_store \<Rightarrow> string \<Rightarrow> string \<Rightarrow> u64 \<Rightarrow> unit result" where
  "lh_VerifyNextSequenceRecv store portID channelID nextSequenceRecv =
     (let data = lh_get store (NextSequenceRecvPath portID channelID) in
      if length data = 0 then Inl (ClientE ErrFailedNextSeqRecvVerification)
      else if length data < 8 then Inl Panic
      else if be_u64 (take 8 data) \<noteq> nextSequenceRecv then Inl (ClientE ErrFailedNextSeqRecvVerification)
      else Inr ())"

text \<open>
  The localhost client never verifies a connection or channel end that is passed by
  value, which is how the keepers pass it: the stored end is compared by its pointer, and a
  pointer is not deeply equal to a value.
\<close>

theorem lh_never_verifies_values:
  "\<not> is_ok (lh_VerifyConnectionState E store connectionID (ByValue c)) \<and>
   \<not> is_ok (lh_VerifyChannelState E store portID channelID (ByValue ch))"
  by (simp add: lh_VerifyConnectionState_def lh_VerifyChannelState_def split: option.splits sum.splits)

end
