(* ===== verification/IbcState.thy ===== *)
theory IbcState
  imports Solomachine Tendermint LocalhostClient
begin

text \<open>
  The state of the IBC module, by kind of store entry: what the keepers of
  \<^verbatim>\<open>02-client\<close>, \<^verbatim>\<open>03-connection\<close> and \<^verbatim>\<open>04-channel\<close> read and write under the paths of
  \<^verbatim>\<open>24-host\<close>, the two parameter sets and the state of the capability module. The path of an
  entry is its field and key; \<open>StoreLayout\<close> proves that different entries have different
  paths. A missing entry is \<open>None\<close>; a client store is never missing, only empty, because it
  is a prefix of the module's store.

  The environment is extended by the parts of the SDK that the keepers call: staking
  (historical headers and the unbonding time), the upgrade module's path, the proof
  specifications of the SDK and the name of the store, the result of converting to
  \<^verbatim>\<open>uint64\<close> a float that does not fit (which Go leaves to the implementation), and the
  capability module.
\<close>

type_synonym Capability = nat
type_synonym chan_key = "string \<times> string"
type_synonym packet_key = "string \<times> string \<times> u64"

record 'k ibc_state =
  nextClientSequence :: "u64 option"
  clientStores :: "string \<Rightarrow> client_store"
  allowedClients :: "string list"
  clientConnections :: "string \<rightharpoonup> string list"
  connections :: "string \<rightharpoonup> ConnectionEnd"
  nextConnectionSequence :: "u64 option"
  maxExpectedTimePerBlock :: u64
  channels :: "chan_key \<rightharpoonup> Channel"
  nextSequenceSend :: "chan_key \<rightharpoonup> u64"
  nextSequenceRecv :: "chan_key \<rightharpoonup> u64"
  nextSequenceAck :: "chan_key \<rightharpoonup> u64"
  packetCommitments :: "packet_key \<rightharpoonup> bytes"
  packetReceipts :: "packet_key \<rightharpoonup> bytes"
  packetAcks :: "packet_key \<rightharpoonup> bytes"
  nextChannelSequence :: "u64 option"
  capState :: 'k

text \<open>
  The scoped capability keeper: authenticating a capability under a name, creating a
  capability (an error when the name is taken), getting the capability of a name, and
  looking up the modules that own it.
\<close>

record 'k keeper_env = env +
  stk_GetHistoricalInfo :: "int \<Rightarrow> tm_BlockHeader option"
  stk_UnbondingTime :: int
  upg_UpgradePath :: "string list"
  sdk_Specs :: "ProofSpec list"
  sdk_StoreKeyName :: string
  go_uint64_of_large_float :: u64
  cap_Authenticate :: "'k \<Rightarrow> Capability option \<Rightarrow> string \<Rightarrow> bool"
  cap_New :: "'k \<Rightarrow> string \<Rightarrow> (Capability \<times> 'k) option"
  cap_Get :: "'k \<Rightarrow> string \<Rightarrow> Capability option"
  cap_Lookup :: "'k \<Rightarrow> string \<Rightarrow> (string list \<times> Capability) option"

subsection \<open>Dispatch of the client interface\<close>

fun client_Status :: "ctx \<Rightarrow> client_store \<Rightarrow> ClientState \<Rightarrow> Status" where
  "client_Status ctx store (TMClient cs) = tm_Status ctx store cs"
| "client_Status ctx store (SoloClient cs) = solo_Status cs"
| "client_Status ctx store (LHClient cs) = lh_Status cs"

fun client_Validate :: "'x env_scheme \<Rightarrow> ClientState \<Rightarrow> unit result" where
  "client_Validate E (TMClient cs) = tm_Validate E cs"
| "client_Validate E (SoloClient cs) = solo_Validate cs"
| "client_Validate E (LHClient cs) = lh_Validate cs"

fun ZeroCustomFields :: "ClientState \<Rightarrow> ClientState" where
  "ZeroCustomFields (TMClient cs) = TMClient (tm_ZeroCustomFields cs)"
| "ZeroCustomFields (SoloClient cs) = SoloClient (solo_ZeroCustomFields cs)"
| "ZeroCustomFields (LHClient cs) = LHClient (lh_ZeroCustomFields cs)"

fun consensus_ValidateBasic :: "'x env_scheme \<Rightarrow> ConsensusState \<Rightarrow> unit result" where
  "consensus_ValidateBasic E (TMCons c) = tm_ConsensusState_ValidateBasic E c"
| "consensus_ValidateBasic E (SoloCons c) = solo_ConsensusState_ValidateBasic c"

fun consensus_GetTimestamp :: "ConsensusState \<Rightarrow> u64" where
  "consensus_GetTimestamp (TMCons c) = tm_GetTimestamp c"
| "consensus_GetTimestamp (SoloCons c) = solo_Timestamp c"

fun header_GetHeight :: "Header \<Rightarrow> Height result" where
  "header_GetHeight (TMHeader h) = tm_Header_GetHeight h"
| "header_GetHeight (SoloHeader h) = Inr (solo_Header_GetHeight h)"

fun header_ValidateBasic :: "'x env_scheme \<Rightarrow> Header \<Rightarrow> unit result" where
  "header_ValidateBasic E (TMHeader h) = tm_Header_ValidateBasic E h"
| "header_ValidateBasic E (SoloHeader h) = solo_Header_ValidateBasic h"

fun misbehaviour_GetClientID :: "Misbehaviour \<Rightarrow> string" where
  "misbehaviour_GetClientID (TMMisbehaviour m) = tmm_ClientId m"
| "misbehaviour_GetClientID (SoloMisbehaviour m) = sm_ClientId m"

fun misbehaviour_ValidateBasic :: "'x env_scheme \<Rightarrow> Misbehaviour \<Rightarrow> unit result" where
  "misbehaviour_ValidateBasic E (TMMisbehaviour m) = tm_Misbehaviour_ValidateBasic E m"
| "misbehaviour_ValidateBasic E (SoloMisbehaviour m) = solo_Misbehaviour_ValidateBasic m"

fun client_Initialize :: "ctx \<Rightarrow> client_store \<Rightarrow> ClientState \<Rightarrow> ConsensusState option \<Rightarrow> client_store result" where
  "client_Initialize ctx store (TMClient cs) consState = tm_Initialize ctx store cs consState"
| "client_Initialize ctx store (SoloClient cs) consState =
     (case solo_Initialize cs consState of Inl e \<Rightarrow> Inl e | Inr _ \<Rightarrow> Inr store)"
| "client_Initialize ctx store (LHClient cs) consState =
     (case lh_Initialize cs consState of Inl e \<Rightarrow> Inl e | Inr _ \<Rightarrow> Inr store)"

text \<open>A nil header (\<open>None\<close>) has no Tendermint or solo machine type.\<close>

fun client_CheckHeaderAndUpdateState :: "'x env_scheme \<Rightarrow> ctx \<Rightarrow> client_store \<Rightarrow> ClientState \<Rightarrow> Header option \<Rightarrow>
    (ClientState \<times> ConsensusState option \<times> client_store) result" where
  "client_CheckHeaderAndUpdateState E ctx store (TMClient cs) header =
     (case header of None \<Rightarrow> Inl (ClientE ErrInvalidHeader) | Some h \<Rightarrow>
     (case tm_CheckHeaderAndUpdateState E ctx store cs h of Inl e \<Rightarrow> Inl e | Inr (cs', c, store') \<Rightarrow>
      Inr (TMClient cs', Some (TMCons c), store')))"
| "client_CheckHeaderAndUpdateState E ctx store (SoloClient cs) header =
     (case header of None \<Rightarrow> Inl (ClientE ErrInvalidHeader) | Some h \<Rightarrow>
     (case solo_CheckHeaderAndUpdateState E cs h of Inl e \<Rightarrow> Inl e | Inr (cs', c) \<Rightarrow>
      Inr (SoloClient cs', Some (SoloCons c), store)))"
| "client_CheckHeaderAndUpdateState E ctx store (LHClient cs) header =
     (case lh_CheckHeaderAndUpdateState ctx cs of Inl e \<Rightarrow> Inl e | Inr cs' \<Rightarrow> Inr (LHClient cs', None, store))"

fun client_CheckMisbehaviour :: "'x env_scheme \<Rightarrow> ctx \<Rightarrow> client_store \<Rightarrow> ClientState \<Rightarrow> Misbehaviour \<Rightarrow> ClientState result" where
  "client_CheckMisbehaviour E ctx store (TMClient cs) m =
     (case tm_CheckMisbehaviourAndUpdateState E ctx store cs m of Inl e \<Rightarrow> Inl e | Inr cs' \<Rightarrow> Inr (TMClient cs'))"
| "client_CheckMisbehaviour E ctx store (SoloClient cs) m =
     (case solo_CheckMisbehaviourAndUpdateState E cs m of Inl e \<Rightarrow> Inl e | Inr cs' \<Rightarrow> Inr (SoloClient cs'))"
| "client_CheckMisbehaviour E ctx store (LHClient cs) m =
     (case lh_CheckMisbehaviourAndUpdateState cs of Inl e \<Rightarrow> Inl e | Inr cs' \<Rightarrow> Inr (LHClient cs'))"

fun client_CheckSubstitute :: "ctx \<Rightarrow> client_store \<Rightarrow> client_store \<Rightarrow> ClientState \<Rightarrow> ClientState \<Rightarrow> (ClientState \<times> client_store) result" where
  "client_CheckSubstitute ctx subjectStore substituteStore (TMClient cs) sub =
     (case tm_CheckSubstituteAndUpdateState ctx subjectStore substituteStore cs sub of Inl e \<Rightarrow> Inl e
      | Inr (cs', store') \<Rightarrow> Inr (TMClient cs', store'))"
| "client_CheckSubstitute ctx subjectStore substituteStore (SoloClient cs) sub =
     (case solo_CheckSubstituteAndUpdateState cs sub of Inl e \<Rightarrow> Inl e | Inr cs' \<Rightarrow> Inr (SoloClient cs', subjectStore))"
| "client_CheckSubstitute ctx subjectStore substituteStore (LHClient cs) sub =
     (case lh_CheckSubstituteAndUpdateState cs of Inl e \<Rightarrow> Inl e | Inr cs' \<Rightarrow> Inr (LHClient cs', subjectStore))"

fun client_VerifyUpgrade :: "'x env_scheme \<Rightarrow> ctx \<Rightarrow> client_store \<Rightarrow> ClientState \<Rightarrow> ClientState \<Rightarrow> ConsensusState \<Rightarrow> bytes \<Rightarrow> bytes \<Rightarrow>
    (ClientState \<times> ConsensusState \<times> client_store) result" where
  "client_VerifyUpgrade E ctx store (TMClient cs) upClient upCons proofClient proofCons =
     (case tm_VerifyUpgradeAndUpdateState E ctx store cs upClient upCons proofClient proofCons of Inl e \<Rightarrow> Inl e
      | Inr (cs', c, store') \<Rightarrow> Inr (TMClient cs', TMCons c, store'))"
| "client_VerifyUpgrade E ctx store (SoloClient cs) upClient upCons proofClient proofCons =
     (case solo_VerifyUpgradeAndUpdateState cs of Inl e \<Rightarrow> Inl e | Inr (c, d) \<Rightarrow> Inr (c, d, store))"
| "client_VerifyUpgrade E ctx store (LHClient cs) upClient upCons proofClient proofCons =
     (case lh_VerifyUpgradeAndUpdateState cs of Inl e \<Rightarrow> Inl e | Inr (c, d) \<Rightarrow> Inr (c, d, store))"

text \<open>
  The verification methods return the client store they leave behind, which only the solo
  machine changes. The keepers pass connection and channel ends by value.
\<close>

definition keep :: "'s \<Rightarrow> unit result \<Rightarrow> 's result" where
  "keep store r = (case r of Inl e \<Rightarrow> Inl e | Inr _ \<Rightarrow> Inr store)"

fun client_VerifyClientState :: "'x env_scheme \<Rightarrow> client_store \<Rightarrow> ClientState \<Rightarrow> Height \<Rightarrow> Prefix \<Rightarrow> string \<Rightarrow> bytes \<Rightarrow>
    ClientState option \<Rightarrow> client_store result" where
  "client_VerifyClientState E store (TMClient cs) height pre cid proof c = keep store (tm_VerifyClientState E store cs height pre cid proof c)"
| "client_VerifyClientState E store (SoloClient cs) height pre cid proof c = solo_VerifyClientState E store cs height pre cid proof c"
| "client_VerifyClientState E store (LHClient cs) height pre cid proof c = keep store (lh_VerifyClientState store c)"

fun client_VerifyClientConsensusState :: "'x env_scheme \<Rightarrow> client_store \<Rightarrow> ClientState \<Rightarrow> Height \<Rightarrow> string \<Rightarrow> Height \<Rightarrow> Prefix \<Rightarrow> bytes \<Rightarrow>
    ConsensusState option \<Rightarrow> client_store result" where
  "client_VerifyClientConsensusState E store (TMClient cs) height cid ch pre proof c =
     keep store (tm_VerifyClientConsensusState E store cs height cid ch pre proof c)"
| "client_VerifyClientConsensusState E store (SoloClient cs) height cid ch pre proof c =
     solo_VerifyClientConsensusState E store cs height cid ch pre proof c"
| "client_VerifyClientConsensusState E store (LHClient cs) height cid ch pre proof c =
     keep store (lh_VerifyClientConsensusState store)"

fun client_VerifyConnectionState :: "'x env_scheme \<Rightarrow> client_store \<Rightarrow> ClientState \<Rightarrow> Height \<Rightarrow> Prefix \<Rightarrow> bytes \<Rightarrow> string \<Rightarrow>
    ConnectionEnd \<Rightarrow> client_store result" where
  "client_VerifyConnectionState E store (TMClient cs) height pre proof cid c = keep store (tm_VerifyConnectionState E store cs height pre proof cid c)"
| "client_VerifyConnectionState E store (SoloClient cs) height pre proof cid c = solo_VerifyConnectionState E store cs height pre proof cid c"
| "client_VerifyConnectionState E store (LHClient cs) height pre proof cid c = keep store (lh_VerifyConnectionState E store cid (ByValue c))"

fun client_VerifyChannelState :: "'x env_scheme \<Rightarrow> client_store \<Rightarrow> ClientState \<Rightarrow> Height \<Rightarrow> Prefix \<Rightarrow> bytes \<Rightarrow> string \<Rightarrow> string \<Rightarrow>
    Channel \<Rightarrow> client_store result" where
  "client_VerifyChannelState E store (TMClient cs) height pre proof port chan c = keep store (tm_VerifyChannelState E store cs height pre proof port chan c)"
| "client_VerifyChannelState E store (SoloClient cs) height pre proof port chan c = solo_VerifyChannelState E store cs height pre proof port chan c"
| "client_VerifyChannelState E store (LHClient cs) height pre proof port chan c = keep store (lh_VerifyChannelState E store port chan (ByValue c))"

fun client_VerifyPacketCommitment :: "'x env_scheme \<Rightarrow> ctx \<Rightarrow> client_store \<Rightarrow> ClientState \<Rightarrow> Height \<Rightarrow> u64 \<Rightarrow> u64 \<Rightarrow> Prefix \<Rightarrow> bytes \<Rightarrow>
    string \<Rightarrow> string \<Rightarrow> u64 \<Rightarrow> bytes \<Rightarrow> client_store result" where
  "client_VerifyPacketCommitment E ctx store (TMClient cs) height dt db pre proof port chan n v =
     keep store (tm_VerifyPacketCommitment E ctx store cs height dt db pre proof port chan n v)"
| "client_VerifyPacketCommitment E ctx store (SoloClient cs) height dt db pre proof port chan n v =
     solo_VerifyPacketCommitment E store cs height pre proof port chan n v"
| "client_VerifyPacketCommitment E ctx store (LHClient cs) height dt db pre proof port chan n v =
     keep store (lh_VerifyPacketCommitment store port chan n v)"

fun client_VerifyPacketAcknowledgement :: "'x env_scheme \<Rightarrow> ctx \<Rightarrow> client_store \<Rightarrow> ClientState \<Rightarrow> Height \<Rightarrow> u64 \<Rightarrow> u64 \<Rightarrow> Prefix \<Rightarrow> bytes \<Rightarrow>
    string \<Rightarrow> string \<Rightarrow> u64 \<Rightarrow> bytes \<Rightarrow> client_store result" where
  "client_VerifyPacketAcknowledgement E ctx store (TMClient cs) height dt db pre proof port chan n v =
     keep store (tm_VerifyPacketAcknowledgement E ctx store cs height dt db pre proof port chan n v)"
| "client_VerifyPacketAcknowledgement E ctx store (SoloClient cs) height dt db pre proof port chan n v =
     solo_VerifyPacketAcknowledgement E store cs height pre proof port chan n v"
| "client_VerifyPacketAcknowledgement E ctx store (LHClient cs) height dt db pre proof port chan n v =
     keep store (lh_VerifyPacketAcknowledgement store port chan n v)"

fun client_VerifyPacketReceiptAbsence :: "'x env_scheme \<Rightarrow> ctx \<Rightarrow> client_store \<Rightarrow> ClientState \<Rightarrow> Height \<Rightarrow> u64 \<Rightarrow> u64 \<Rightarrow> Prefix \<Rightarrow> bytes \<Rightarrow>
    string \<Rightarrow> string \<Rightarrow> u64 \<Rightarrow> client_store result" where
  "client_VerifyPacketReceiptAbsence E ctx store (TMClient cs) height dt db pre proof port chan n =
     keep store (tm_VerifyPacketReceiptAbsence E ctx store cs height dt db pre proof port chan n)"
| "client_VerifyPacketReceiptAbsence E ctx store (SoloClient cs) height dt db pre proof port chan n =
     solo_VerifyPacketReceiptAbsence E store cs height pre proof port chan n"
| "client_VerifyPacketReceiptAbsence E ctx store (LHClient cs) height dt db pre proof port chan n =
     keep store (lh_VerifyPacketReceiptAbsence store port chan n)"

fun client_VerifyNextSequenceRecv :: "'x env_scheme \<Rightarrow> ctx \<Rightarrow> client_store \<Rightarrow> ClientState \<Rightarrow> Height \<Rightarrow> u64 \<Rightarrow> u64 \<Rightarrow> Prefix \<Rightarrow> bytes \<Rightarrow>
    string \<Rightarrow> string \<Rightarrow> u64 \<Rightarrow> client_store result" where
  "client_VerifyNextSequenceRecv E ctx store (TMClient cs) height dt db pre proof port chan n =
     keep store (tm_VerifyNextSequenceRecv E ctx store cs height dt db pre proof port chan n)"
| "client_VerifyNextSequenceRecv E ctx store (SoloClient cs) height dt db pre proof port chan n =
     solo_VerifyNextSequenceRecv E store cs height pre proof port chan n"
| "client_VerifyNextSequenceRecv E ctx store (LHClient cs) height dt db pre proof port chan n =
     keep store (lh_VerifyNextSequenceRecv store port chan n)"

lemma keep_Inr [simp]: "keep s r = Inr t \<longleftrightarrow> r = Inr () \<and> t = s"
  by (cases r) (auto simp: keep_def)

subsection \<open>The contract of state verification\<close>

text \<open>
  What a keeper relies on when it calls a verification method of a light client: the call
  changes nothing in the client store but the client state, the client keeps its type and,
  if it was active, it is active afterwards.
\<close>

definition same_but_client :: "client_store \<Rightarrow> client_store \<Rightarrow> bool" where
  "same_but_client store store' \<longleftrightarrow> store' \<lparr> st_clientState := st_clientState store \<rparr> = store"

lemma same_but_client_refl [simp]: "same_but_client s s"
  by (simp add: same_but_client_def)

lemma same_but_client_fields:
  "same_but_client s s' \<Longrightarrow> st_consensus s' = st_consensus s \<and> st_processedTime s' = st_processedTime s \<and>
     st_processedHeight s' = st_processedHeight s \<and> st_iteration s' = st_iteration s \<and> st_raw s' = st_raw s"
  by (cases s; cases s') (simp add: same_but_client_def)

locale client_verifier =
  fixes verify :: "client_store \<Rightarrow> ClientState \<Rightarrow> client_store result"
  assumes verify_frame: "st_clientState store = Some cs \<Longrightarrow> verify store cs = Inr store' \<Longrightarrow> same_but_client store store'"
    and verify_active: "st_clientState store = Some cs \<Longrightarrow> verify store cs = Inr store' \<Longrightarrow> client_Status ctx store cs = Active \<Longrightarrow>
      \<exists>cs'. st_clientState store' = Some cs' \<and> client_Status ctx store' cs' = Active \<and> ClientType cs' = ClientType cs"

lemma solo_verify_frame:
  assumes "solo_verify E store cs height pre pf p sb = Inr store'"
  shows "same_but_client store store' \<and>
     (\<exists>cs'. st_clientState store' = Some (SoloClient cs') \<and> solo_Status cs' = solo_Status cs)"
proof -
  from solo_verify_Inr [OF assms] obtain ts where
    "store' = store \<lparr> st_clientState := Some (SoloClient (solo_advance cs ts)) \<rparr>" by auto
  then show ?thesis by (cases store) (auto simp: same_but_client_def solo_Status_def)
qed

lemmas solo_all_verify = solo_verify_functions solo_VerifyClientState_def solo_VerifyClientConsensusState_def Let_def

text \<open>The common argument: a Tendermint or localhost verification returns the store it was given.\<close>

lemma client_verifierI:
  assumes tm: "\<And>store cs store'. vf store (TMClient cs) = Inr store' \<Longrightarrow> store' = store"
    and lh: "\<And>store cs store'. vf store (LHClient cs) = Inr store' \<Longrightarrow> store' = store"
    and solo: "\<And>store cs. vf store (SoloClient cs) = solo_verify E store cs height pre pf p sb"
  shows "client_verifier vf"
proof
  fix store cs store' ctx
  assume st: "st_clientState store = Some cs" and v: "vf store cs = Inr store'"
  have "same_but_client store store' \<and>
      (\<exists>cs'. st_clientState store' = Some cs' \<and> client_Status ctx store' cs' = client_Status ctx store cs \<and> ClientType cs' = ClientType cs)"
  proof (cases cs)
    case (TMClient c)
    with v tm [of store c store'] st show ?thesis by auto
  next
    case (LHClient c)
    with v lh [of store c store'] st show ?thesis by auto
  next
    case (SoloClient c)
    with v solo have "solo_verify E store c height pre pf p sb = Inr store'" by simp
    from solo_verify_frame [OF this] SoloClient show ?thesis by auto
  qed
  then show "same_but_client store store'"
    and "client_Status ctx store cs = Active \<Longrightarrow>
      \<exists>cs'. st_clientState store' = Some cs' \<and> client_Status ctx store' cs' = Active \<and> ClientType cs' = ClientType cs"
    by auto
qed

interpretation verify_client_state: client_verifier
  "\<lambda>store cs. client_VerifyClientState E store cs height pre cid pf c"
  by (rule client_verifierI, simp, simp, unfold client_VerifyClientState.simps solo_all_verify, rule refl)

interpretation verify_consensus_state: client_verifier
  "\<lambda>store cs. client_VerifyClientConsensusState E store cs height cid ch pre pf c"
  by (rule client_verifierI, simp, simp, unfold client_VerifyClientConsensusState.simps solo_all_verify, rule refl)

interpretation verify_connection_state: client_verifier
  "\<lambda>store cs. client_VerifyConnectionState E store cs height pre pf connID c"
  by (rule client_verifierI, simp, simp, unfold client_VerifyConnectionState.simps solo_all_verify, rule refl)

interpretation verify_channel_state: client_verifier
  "\<lambda>store cs. client_VerifyChannelState E store cs height pre pf port chan c"
  by (rule client_verifierI, simp, simp, unfold client_VerifyChannelState.simps solo_all_verify, rule refl)

interpretation verify_packet_commitment: client_verifier
  "\<lambda>store cs. client_VerifyPacketCommitment E ctx store cs height dt db pre pf port chan n v"
  by (rule client_verifierI, simp, simp, unfold client_VerifyPacketCommitment.simps solo_all_verify, rule refl)

interpretation verify_packet_acknowledgement: client_verifier
  "\<lambda>store cs. client_VerifyPacketAcknowledgement E ctx store cs height dt db pre pf port chan n v"
  by (rule client_verifierI, simp, simp, unfold client_VerifyPacketAcknowledgement.simps solo_all_verify, rule refl)

interpretation verify_receipt_absence: client_verifier
  "\<lambda>store cs. client_VerifyPacketReceiptAbsence E ctx store cs height dt db pre pf port chan n"
  by (rule client_verifierI, simp, simp, unfold client_VerifyPacketReceiptAbsence.simps solo_all_verify, rule refl)

interpretation verify_next_sequence: client_verifier
  "\<lambda>store cs. client_VerifyNextSequenceRecv E ctx store cs height dt db pre pf port chan n"
  by (rule client_verifierI, simp, simp, unfold client_VerifyNextSequenceRecv.simps solo_all_verify, rule refl)

end
