(* ===== verification/ClientKeeper.thy ===== *)
theory ClientKeeper
  imports IbcState
begin

text \<open>
  The 02-client keeper (\<^verbatim>\<open>modules/core/02-client/keeper\<close>): creating, updating and upgrading
  clients, misbehaviour, governance proposals, the checks a chain makes on a client of
  itself, and the begin blocker. Logging, telemetry and events are left out.
\<close>

subsection \<open>Parameters and client types (types/params.go, types/client.go)\<close>

definition DefaultAllowedClients :: "string list" where
  "DefaultAllowedClients = [Solomachine, Tendermint]"

definition IsAllowedClient :: "string list \<Rightarrow> string \<Rightarrow> bool" where
  "IsAllowedClient allowed clientType = list_ex (\<lambda>allowedClient. allowedClient = clientType) allowed"

definition validateClients :: "string list \<Rightarrow> unit result" where
  "validateClients clients = (if list_ex all_space clients then Inl (External ''client type'') else Inr ())"

definition ValidateClientType :: "string \<Rightarrow> unit result" where
  "ValidateClientType clientType =
     (if all_space clientType then Inl (ClientE ErrInvalidClientType)
      else let smallestPossibleClientID = FormatClientIdentifier clientType 0;
               largestPossibleClientID = FormatClientIdentifier clientType (- 1) in
      if \<not> IsValidClientID smallestPossibleClientID then Inl (ClientE ErrInvalidClientType)
      else case ClientIdentifierValidator smallestPossibleClientID of Inl e \<Rightarrow> Inl e | Inr _ \<Rightarrow>
           ClientIdentifierValidator largestPossibleClientID)"

subsection \<open>Store access (keeper.go)\<close>

definition GetClientState :: "'k ibc_state \<Rightarrow> string \<Rightarrow> ClientState option" where
  "GetClientState s clientID = st_clientState (clientStores s clientID)"

definition set_client_store :: "'k ibc_state \<Rightarrow> string \<Rightarrow> client_store \<Rightarrow> 'k ibc_state" where
  "set_client_store s clientID store = s \<lparr> clientStores := (clientStores s)(clientID := store) \<rparr>"

definition SetClientState :: "'k ibc_state \<Rightarrow> string \<Rightarrow> ClientState \<Rightarrow> 'k ibc_state" where
  "SetClientState s clientID clientState =
     set_client_store s clientID (clientStores s clientID \<lparr> st_clientState := Some clientState \<rparr>)"

definition GetClientConsensusState :: "'k ibc_state \<Rightarrow> string \<Rightarrow> Height \<Rightarrow> ConsensusState option" where
  "GetClientConsensusState s clientID height = st_consensus (clientStores s clientID) height"

definition SetClientConsensusState :: "'k ibc_state \<Rightarrow> string \<Rightarrow> Height \<Rightarrow> ConsensusState \<Rightarrow> 'k ibc_state" where
  "SetClientConsensusState s clientID height consensusState =
     (let store = clientStores s clientID in
      set_client_store s clientID (store \<lparr> st_consensus := (st_consensus store)(height \<mapsto> consensusState) \<rparr>))"

definition HasClientConsensusState :: "'k ibc_state \<Rightarrow> string \<Rightarrow> Height \<Rightarrow> bool" where
  "HasClientConsensusState s clientID height = (st_consensus (clientStores s clientID) height \<noteq> None)"

definition GetLatestClientConsensusState :: "'k ibc_state \<Rightarrow> string \<Rightarrow> ConsensusState option" where
  "GetLatestClientConsensusState s clientID =
     (case GetClientState s clientID of
        None \<Rightarrow> None
      | Some clientState \<Rightarrow> GetClientConsensusState s clientID (GetLatestHeight clientState))"

definition GetNextClientSequence :: "'k ibc_state \<Rightarrow> u64 result" where
  "GetNextClientSequence s = (case nextClientSequence s of None \<Rightarrow> Inl Panic | Some n \<Rightarrow> Inr n)"

definition SetNextClientSequence :: "'k ibc_state \<Rightarrow> u64 \<Rightarrow> 'k ibc_state" where
  "SetNextClientSequence s sequence = s \<lparr> nextClientSequence := Some sequence \<rparr>"

definition GenerateClientIdentifier :: "'k ibc_state \<Rightarrow> string \<Rightarrow> (string \<times> 'k ibc_state) result" where
  "GenerateClientIdentifier s clientType =
     (case GetNextClientSequence s of
        Inl e \<Rightarrow> Inl e
      | Inr nextClientSeq \<Rightarrow>
          Inr (FormatClientIdentifier clientType nextClientSeq, SetNextClientSequence s (nextClientSeq + 1)))"

subsection \<open>Creating, updating and upgrading clients (client.go)\<close>

definition CreateClient :: "ctx \<Rightarrow> 'k ibc_state \<Rightarrow> ClientState \<Rightarrow> ConsensusState option \<Rightarrow> (string \<times> 'k ibc_state) result" where
  "CreateClient ctx s clientState consensusState =
     (if \<not> IsAllowedClient (allowedClients s) (ClientType clientState) then Inl (ClientE ErrInvalidClientType)
      else case GenerateClientIdentifier s (ClientType clientState) of Inl e \<Rightarrow> Inl e | Inr (clientID, s) \<Rightarrow>
      let s = SetClientState s clientID clientState in
     (case client_Initialize ctx (clientStores s clientID) clientState consensusState of Inl e \<Rightarrow> Inl e | Inr store \<Rightarrow>
      let s = set_client_store s clientID store in
      Inr (clientID,
        case consensusState of
          None \<Rightarrow> s
        | Some c \<Rightarrow> SetClientConsensusState s clientID (GetLatestHeight clientState) c)))"

text \<open>
  \<^verbatim>\<open>header.GetHeight()\<close> is evaluated as soon as the light client has accepted a header; setting a nil
  consensus state panics in the codec.
\<close>

definition UpdateClient :: "'x env_scheme \<Rightarrow> ctx \<Rightarrow> 'k ibc_state \<Rightarrow> string \<Rightarrow> Header option \<Rightarrow> 'k ibc_state result" where
  "UpdateClient E ctx s clientID header =
     (case GetClientState s clientID of
        None \<Rightarrow> Inl (ClientE ErrClientNotFound)
      | Some clientState \<Rightarrow>
        let clientStore = clientStores s clientID in
        if client_Status ctx clientStore clientState \<noteq> Active then Inl (ClientE ErrClientNotActive)
        else case client_CheckHeaderAndUpdateState E ctx clientStore clientState header of
          Inl e \<Rightarrow> Inl e
        | Inr (newClientState, newConsensusState, store) \<Rightarrow>
       (case (case header of None \<Rightarrow> Inr ZeroHeight | Some h \<Rightarrow> header_GetHeight h) of Inl e \<Rightarrow> Inl e | Inr consensusHeight \<Rightarrow>
          let s = SetClientState (set_client_store s clientID store) clientID newClientState in
          if client_Status ctx (clientStores s clientID) newClientState \<noteq> Frozen then
            (if header \<noteq> None \<and> clientID \<noteq> Localhost then
               (case newConsensusState of
                  None \<Rightarrow> Inl Panic
                | Some c \<Rightarrow> Inr (SetClientConsensusState s clientID consensusHeight c))
             else (case GetSelfHeight ctx of Inl e \<Rightarrow> Inl e | Inr _ \<Rightarrow> Inr s))
          else Inr s))"

definition UpgradeClient :: "'x env_scheme \<Rightarrow> ctx \<Rightarrow> 'k ibc_state \<Rightarrow> string \<Rightarrow> ClientState \<Rightarrow> ConsensusState \<Rightarrow> bytes \<Rightarrow> bytes \<Rightarrow>
    'k ibc_state result" where
  "UpgradeClient E ctx s clientID upgradedClient upgradedConsState proofUpgradeClient proofUpgradeConsState =
     (case GetClientState s clientID of
        None \<Rightarrow> Inl (ClientE ErrClientNotFound)
      | Some clientState \<Rightarrow>
        let clientStore = clientStores s clientID in
        if client_Status ctx clientStore clientState \<noteq> Active then Inl (ClientE ErrClientNotActive)
        else case client_VerifyUpgrade E ctx clientStore clientState upgradedClient upgradedConsState
               proofUpgradeClient proofUpgradeConsState of
          Inl e \<Rightarrow> Inl e
        | Inr (updatedClientState, updatedConsState, store) \<Rightarrow>
          let s = SetClientState (set_client_store s clientID store) clientID updatedClientState in
          Inr (SetClientConsensusState s clientID (GetLatestHeight updatedClientState) updatedConsState))"

definition CheckMisbehaviourAndUpdateState :: "'x env_scheme \<Rightarrow> ctx \<Rightarrow> 'k ibc_state \<Rightarrow> Misbehaviour \<Rightarrow> 'k ibc_state result" where
  "CheckMisbehaviourAndUpdateState E ctx s misbehaviour =
     (let clientID = misbehaviour_GetClientID misbehaviour in
      case GetClientState s clientID of
        None \<Rightarrow> Inl (ClientE ErrClientNotFound)
      | Some clientState \<Rightarrow>
        let clientStore = clientStores s clientID in
        if client_Status ctx clientStore clientState \<noteq> Active then Inl (ClientE ErrClientNotActive)
        else case misbehaviour_ValidateBasic E misbehaviour of Inl e \<Rightarrow> Inl e | Inr _ \<Rightarrow>
        (case client_CheckMisbehaviour E ctx clientStore clientState misbehaviour of
           Inl e \<Rightarrow> Inl e
         | Inr clientState' \<Rightarrow> Inr (SetClientState s clientID clientState')))"

subsection \<open>Governance (proposal.go)\<close>

definition ClientUpdateProposal :: "ctx \<Rightarrow> 'k ibc_state \<Rightarrow> string \<Rightarrow> string \<Rightarrow> 'k ibc_state result" where
  "ClientUpdateProposal ctx s subjectClientId substituteClientId =
     (if subjectClientId = Localhost \<or> substituteClientId = Localhost then Inl (ClientE ErrInvalidUpdateClientProposal)
      else case GetClientState s subjectClientId of
        None \<Rightarrow> Inl (ClientE ErrClientNotFound)
      | Some subjectClientState \<Rightarrow>
        let subjectClientStore = clientStores s subjectClientId in
        if client_Status ctx subjectClientStore subjectClientState = Active then Inl (ClientE ErrInvalidUpdateClientProposal)
        else case GetClientState s substituteClientId of
          None \<Rightarrow> Inl (ClientE ErrClientNotFound)
        | Some substituteClientState \<Rightarrow>
          if GTE (GetLatestHeight subjectClientState) (GetLatestHeight substituteClientState) then Inl (ClientE ErrInvalidHeight)
          else let substituteClientStore = clientStores s substituteClientId in
          if client_Status ctx substituteClientStore substituteClientState \<noteq> Active then Inl (ClientE ErrClientNotActive)
          else case client_CheckSubstitute ctx subjectClientStore substituteClientStore subjectClientState substituteClientState of
            Inl e \<Rightarrow> Inl e
          | Inr (clientState, store) \<Rightarrow>
              Inr (SetClientState (set_client_store s subjectClientId store) subjectClientId clientState))"

text \<open>
  The upgrade keeper of the SDK over its own state \<open>'u\<close>: the scheduled plan's height, the
  upgraded client of a height, setters, and scheduling.
\<close>

record 'u upgrade_keeper =
  upg_GetUpgradePlan :: "'u \<Rightarrow> int option"
  upg_GetUpgradedClient :: "'u \<Rightarrow> int \<Rightarrow> bytes option"
  upg_SetUpgradedClient :: "'u \<Rightarrow> int \<Rightarrow> bytes \<Rightarrow> 'u result"
  upg_SetUpgradedConsensusState :: "'u \<Rightarrow> int \<Rightarrow> bytes \<Rightarrow> 'u result"
  upg_ScheduleUpgrade :: "'u \<Rightarrow> int \<Rightarrow> 'u result"

definition HandleUpgradeProposal :: "'x env_scheme \<Rightarrow> 'u upgrade_keeper \<Rightarrow> 'u \<Rightarrow> ClientState option \<Rightarrow> int \<Rightarrow> 'u result" where
  "HandleUpgradeProposal E U u upgradedClientState planHeight =
     (case upgradedClientState of
        None \<Rightarrow> Inl (SdkE ErrUnpackAny)
      | Some clientState \<Rightarrow>
        let cs = ZeroCustomFields clientState in
       (case from_ext ''codec'' (cdc_MarshalClientState E cs) of Inl e \<Rightarrow> Inl e | Inr bz \<Rightarrow>
       (case upg_ScheduleUpgrade U u planHeight of Inl e \<Rightarrow> Inl e | Inr u' \<Rightarrow>
        upg_SetUpgradedClient U u' planHeight bz)))"

subsection \<open>A chain's view of itself (keeper.go)\<close>

definition GetSelfConsensusState :: "('k, 'x) keeper_env_scheme \<Rightarrow> ctx \<Rightarrow> Height \<Rightarrow> ConsensusState result" where
  "GetSelfConsensusState E ctx height =
     (case ParseChainID (ChainID ctx) of Inl e \<Rightarrow> Inl e | Inr revision \<Rightarrow>
      if revision \<noteq> RevisionNumber height then Inl (ClientE ErrInvalidHeight)
      else case stk_GetHistoricalInfo E (sint (RevisionHeight height)) of
        None \<Rightarrow> Inl (SdkE ErrNotFound)
      | Some h \<Rightarrow> Inr (TMCons \<lparr> tm_Timestamp = hdr_Time h, tm_Root = hdr_AppHash h, tm_NextValidatorsHash = hdr_NextValidatorsHash h \<rparr>))"

definition ValidateSelfClient :: "('k, 'x) keeper_env_scheme \<Rightarrow> ctx \<Rightarrow> ClientState \<Rightarrow> unit result" where
  "ValidateSelfClient E ctx clientState =
     (case clientState of
        TMClient tmClient \<Rightarrow>
        if \<not> IsZero (tm_FrozenHeight tmClient) then Inl (ClientE ErrClientFrozen)
        else if ChainID ctx \<noteq> tm_ChainId tmClient then Inl (ClientE ErrInvalidClient)
        else case ParseChainID (ChainID ctx) of Inl e \<Rightarrow> Inl e | Inr revision \<Rightarrow>
        if RevisionNumber (tm_LatestHeight tmClient) \<noteq> revision then Inl (ClientE ErrInvalidClient)
        else let selfHeight = NewHeight revision (of_int (BlockHeight ctx)) in
        if GTE (tm_LatestHeight tmClient) selfHeight then Inl (ClientE ErrInvalidClient)
        else if sdk_Specs E \<noteq> tm_ProofSpecs tmClient then Inl (ClientE ErrInvalidClient)
        else if \<not> tm_ValidateTrustLevel E (tm_TrustLevel tmClient) then Inl (ClientE ErrInvalidClient)
        else if stk_UnbondingTime E \<noteq> tm_UnbondingPeriod tmClient then Inl (ClientE ErrInvalidClient)
        else if tm_UnbondingPeriod tmClient < tm_TrustingPeriod tmClient then Inl (ClientE ErrInvalidClient)
        else if length (tm_UpgradePath tmClient) \<noteq> 0 \<and> upg_UpgradePath E \<noteq> tm_UpgradePath tmClient then Inl (ClientE ErrInvalidClient)
        else Inr ()
      | _ \<Rightarrow> Inl (ClientE ErrInvalidClient))"

subsection \<open>Begin blocker (abci.go)\<close>

definition client_BeginBlocker :: "'x env_scheme \<Rightarrow> 'u upgrade_keeper \<Rightarrow> ctx \<Rightarrow> 'u \<Rightarrow> 'k ibc_state \<Rightarrow> ('u \<times> 'k ibc_state) result" where
  "client_BeginBlocker E U ctx u s =
     (case (case upg_GetUpgradePlan U u of
              None \<Rightarrow> Inr u
            | Some planHeight \<Rightarrow>
              if upg_GetUpgradedClient U u planHeight \<noteq> None \<and> BlockHeight ctx = planHeight - 1 then
                (case cdc_MarshalConsensusState E (TMCons \<lparr> tm_Timestamp = BlockTime ctx, tm_Root = [],
                        tm_NextValidatorsHash = NextValidatorsHash ctx \<rparr>) of
                   None \<Rightarrow> Inl Panic
                 | Some bz \<Rightarrow>
                   (case upg_SetUpgradedConsensusState U u planHeight bz of Inl _ \<Rightarrow> Inr u | Inr u' \<Rightarrow> Inr u'))
              else Inr u) of
        Inl e \<Rightarrow> Inl e
      | Inr u' \<Rightarrow>
        if GetClientState s Localhost = None then Inr (u', s)
        else case UpdateClient E ctx s Localhost None of
               Inl _ \<Rightarrow> Inl Panic
             | Inr s' \<Rightarrow> Inr (u', s'))"

subsection \<open>Operations on one client\<close>

text \<open>
  The contract of the operations that change an existing client: only the store of that
  client changes, the client keeps its type, and the store of a Tendermint client keeps its
  metadata invariant.
\<close>

lemma set_client_store_same [simp]:
  "set_client_store (set_client_store s cid store) cid store' = set_client_store s cid store'"
  "clientStores (set_client_store s cid store) cid' = (if cid' = cid then store else clientStores s cid')"
  by (simp_all add: set_client_store_def)

lemmas client_setters = SetClientState_def SetClientConsensusState_def Let_def

lemma ClientType_TM: "ClientType cs = ClientType (TMClient c) \<longleftrightarrow> (\<exists>c'. cs = TMClient c')"
  by (cases cs) (auto simp: Tendermint_def Solomachine_def Localhost_def)

lemma SetConsensusState_TM: "SetConsensusState store c h = store \<lparr> st_consensus := (st_consensus store)(h \<mapsto> TMCons c) \<rparr>"
  by (simp add: SetConsensusState_def)

definition same_beyond_clients :: "'k ibc_state \<Rightarrow> 'k ibc_state \<Rightarrow> bool" where
  "same_beyond_clients s s' \<longleftrightarrow>
     s' = s \<lparr> nextClientSequence := nextClientSequence s', clientStores := clientStores s' \<rparr>"

lemma same_beyond_clients_trans: "same_beyond_clients a b \<Longrightarrow> same_beyond_clients b c \<Longrightarrow> same_beyond_clients a c"
  by (cases a; cases b; cases c) (simp add: same_beyond_clients_def)

lemma set_client_store_beyond [simp]:
  "same_beyond_clients s (set_client_store s cid store)" "same_beyond_clients s (s \<lparr> nextClientSequence := n \<rparr>)"
  "same_beyond_clients s (s \<lparr> clientStores := f \<rparr>)" "same_beyond_clients s s"
  by (simp_all add: same_beyond_clients_def set_client_store_def)

definition ids_in_use :: "'k ibc_state \<Rightarrow> string set" where
  "ids_in_use s = {cid. clientStores s cid \<noteq> empty_client_store \<and> cid \<noteq> Localhost}"

definition clients_inv :: "'k ibc_state \<Rightarrow> bool" where
  "clients_inv s \<longleftrightarrow>
     (\<exists>n. nextClientSequence s = Some n \<and> (\<forall>cid \<in> ids_in_use s. \<exists>t m. cid = FormatClientIdentifier t m \<and> m < n)) \<and>
     (\<forall>cid cs. GetClientState s cid = Some (TMClient cs) \<longrightarrow> cid \<noteq> Localhost \<and> metadata_inv (clientStores s cid))"

locale client_operation =
  fixes cid :: string and oper :: "'k ibc_state \<Rightarrow> 'k ibc_state result"
  assumes oper_shape: "oper s = Inr s' \<Longrightarrow>
    \<exists>cs cs' store'. GetClientState s cid = Some cs \<and> s' = set_client_store s cid store' \<and>
      st_clientState store' = Some cs' \<and> ClientType cs' = ClientType cs \<and>
      (\<forall>tc. cs = TMClient tc \<longrightarrow> cid \<noteq> Localhost \<longrightarrow> metadata_inv (clientStores s cid) \<longrightarrow> metadata_inv store')"
begin

lemma other_clients: "oper s = Inr s' \<Longrightarrow> x \<noteq> cid \<Longrightarrow> clientStores s' x = clientStores s x"
  by (drule oper_shape) auto

lemma frame: "oper s = Inr s' \<Longrightarrow> same_beyond_clients s s'"
  by (drule oper_shape) auto

lemma keeps_type: "oper s = Inr s' \<Longrightarrow> map_option ClientType (GetClientState s' x) = map_option ClientType (GetClientState s x)"
  by (drule oper_shape, cases "x = cid") (auto simp: GetClientState_def)

lemma keeps_inv:
  assumes inv: "clients_inv s" and ok: "oper s = Inr s'"
  shows "clients_inv s'"
proof -
  from oper_shape [OF ok] obtain cs cs' store' where
    st: "GetClientState s cid = Some cs" "s' = set_client_store s cid store'" "st_clientState store' = Some cs'"
      "ClientType cs' = ClientType cs"
      "\<And>tc. cs = TMClient tc \<Longrightarrow> cid \<noteq> Localhost \<Longrightarrow> metadata_inv (clientStores s cid) \<Longrightarrow> metadata_inv store'"
    by blast
  from st(1) have "clientStores s cid \<noteq> empty_client_store"
    by (auto simp: GetClientState_def empty_client_store_def)
  with st(2) have ids: "ids_in_use s' \<subseteq> ids_in_use s" by (auto simp: ids_in_use_def split: if_splits)
  have "x \<noteq> Localhost \<and> metadata_inv (clientStores s' x)" if x: "GetClientState s' x = Some (TMClient c)" for x c
  proof (cases "x = cid")
    case True
    with x st(2,3) have "cs' = TMClient c" by (simp add: GetClientState_def)
    with st(4) obtain c0 where c0: "cs = TMClient c0" using ClientType_TM [of cs c] by auto
    with inv st(1) have "cid \<noteq> Localhost \<and> metadata_inv (clientStores s cid)" by (auto simp: clients_inv_def)
    with st(2) st(5) [OF c0] True show ?thesis by simp
  next
    case False
    with x st(2) have "GetClientState s x = Some (TMClient c)" by (simp add: GetClientState_def)
    with inv False st(2) show ?thesis by (auto simp: clients_inv_def)
  qed
  moreover have "nextClientSequence s' = nextClientSequence s" using st(2) by (simp add: set_client_store_def)
  ultimately show ?thesis using inv ids unfolding clients_inv_def by (metis subsetD)
qed

end

lemma tm_active_unfrozen: "tm_Status ctx store cs = Active \<Longrightarrow> IsZero (tm_FrozenHeight cs)"
  by (auto simp: tm_Status_def split: if_splits)

lemma tm_Status_frozen_iff: "tm_Status ctx store cs = Frozen \<longleftrightarrow> \<not> IsZero (tm_FrozenHeight cs)"
  by (auto simp: tm_Status_def split: if_splits sum.splits)

text \<open>The successful updates of a Tendermint client by the keeper.\<close>

lemma UpdateClient_TM:
  assumes ok: "UpdateClient E ctx s cid header = Inr s'" and tm: "GetClientState s cid = Some (TMClient cs)"
    and cid: "cid \<noteq> Localhost"
  obtains h height cs' c' store where "header = Some (TMHeader h)" "tm_Header_GetHeight h = Inr height"
    "IsZero (tm_FrozenHeight cs)"
    "tm_CheckHeaderAndUpdateState E ctx (clientStores s cid) cs (TMHeader h) = Inr (cs', c', store)"
    "s' = set_client_store s cid (let store' = store \<lparr> st_clientState := Some (TMClient cs') \<rparr> in
            if IsZero (tm_FrozenHeight cs') then SetConsensusState store' c' height else store')"
proof -
  from ok tm obtain hdr cs' c' store where
    h: "header = Some hdr" "tm_Status ctx (clientStores s cid) cs = Active"
    and r: "tm_CheckHeaderAndUpdateState E ctx (clientStores s cid) cs hdr = Inr (cs', c', store)"
    by (auto simp: UpdateClient_def result_elims Let_def split: option.splits if_splits)
  from r obtain th where th: "hdr = TMHeader th"
    by (auto simp: tm_CheckHeaderAndUpdateState_def split: Header.splits)
  from ok tm h r th obtain height where g: "tm_Header_GetHeight th = Inr height"
    by (auto simp: UpdateClient_def result_elims Let_def split: option.splits if_splits)
  have "s' = set_client_store s cid (let store' = store \<lparr> st_clientState := Some (TMClient cs') \<rparr> in
            if IsZero (tm_FrozenHeight cs') then SetConsensusState store' c' height else store')"
    using ok tm h r th g cid
    by (auto simp: UpdateClient_def client_setters SetConsensusState_TM tm_Status_frozen_iff split: if_splits)
  with that h(1) th g tm_active_unfrozen [OF h(2)] r show thesis by blast
qed

lemma UpdateClient_shape:
  assumes "UpdateClient E ctx s cid header = Inr s'"
  shows "\<exists>cs cs' nc store. GetClientState s cid = Some cs \<and> client_Status ctx (clientStores s cid) cs = Active \<and>
     client_CheckHeaderAndUpdateState E ctx (clientStores s cid) cs header = Inr (cs', nc, store) \<and>
     s' = set_client_store s cid (clientStores s' cid) \<and> GetClientState s' cid = Some cs'"
  using assms
  by (auto simp: UpdateClient_def client_setters result_elims GetClientState_def split: option.splits if_splits)

lemma CheckHeader_type:
  "client_CheckHeaderAndUpdateState E ctx store cs header = Inr (cs', nc, store') \<Longrightarrow> ClientType cs' = ClientType cs"
  by (cases cs) (auto simp: result_elims split: option.splits)

text \<open>To meet the contract it is enough to give the new client state and, for Tendermint, the invariant.\<close>

lemma client_operationI:
  assumes shape: "\<And>s s'. oper s = Inr s' \<Longrightarrow> \<exists>cs cs'. GetClientState s cid = Some cs \<and>
      s' = set_client_store s cid (clientStores s' cid) \<and> GetClientState s' cid = Some cs' \<and> ClientType cs' = ClientType cs"
    and tm: "\<And>s s' c. oper s = Inr s' \<Longrightarrow> GetClientState s cid = Some (TMClient c) \<Longrightarrow> cid \<noteq> Localhost \<Longrightarrow>
      metadata_inv (clientStores s cid) \<Longrightarrow> metadata_inv (clientStores s' cid)"
  shows "client_operation cid oper"
proof
  fix s s' assume ok: "oper s = Inr s'"
  from shape [OF ok] obtain cs cs' where sh: "GetClientState s cid = Some cs"
    "s' = set_client_store s cid (clientStores s' cid)" "GetClientState s' cid = Some cs'" "ClientType cs' = ClientType cs"
    by blast
  with tm [OF ok] show "\<exists>cs cs' store'. GetClientState s cid = Some cs \<and> s' = set_client_store s cid store' \<and>
      st_clientState store' = Some cs' \<and> ClientType cs' = ClientType cs \<and>
      (\<forall>tc. cs = TMClient tc \<longrightarrow> cid \<noteq> Localhost \<longrightarrow> metadata_inv (clientStores s cid) \<longrightarrow> metadata_inv store')"
    unfolding GetClientState_def by blast
qed

interpretation update_client: client_operation cid "\<lambda>s. UpdateClient E ctx s cid header"
proof (rule client_operationI)
  fix s s' :: "'a ibc_state" assume ok: "UpdateClient E ctx s cid header = Inr s'"
  from UpdateClient_shape [OF ok] CheckHeader_type
  show "\<exists>cs cs'. GetClientState s cid = Some cs \<and> s' = set_client_store s cid (clientStores s' cid) \<and>
      GetClientState s' cid = Some cs' \<and> ClientType cs' = ClientType cs" by blast
  fix c assume tm: "GetClientState s cid = Some (TMClient c)" "cid \<noteq> Localhost" and inv: "metadata_inv (clientStores s cid)"
  from ok tm show "metadata_inv (clientStores s' cid)"
  proof (rule UpdateClient_TM)
    fix h height cs' c' store
    assume r: "tm_Header_GetHeight h = Inr height" "IsZero (tm_FrozenHeight c)"
      "tm_CheckHeaderAndUpdateState E ctx (clientStores s cid) c (TMHeader h) = Inr (cs', c', store)"
      and s': "s' = set_client_store s cid (let store' = store \<lparr> st_clientState := Some (TMClient cs') \<rparr> in
            if IsZero (tm_FrozenHeight cs') then SetConsensusState store' c' height else store')"
    have comm: "SetConsensusState (store \<lparr> st_clientState := Some (TMClient cs') \<rparr>) c' height =
        SetConsensusState store c' height \<lparr> st_clientState := Some (TMClient cs') \<rparr>" by (simp add: SetConsensusState_def)
    from tm_update_metadata [OF inv r(3,1,2)] inv show ?thesis
      by (simp add: s' Let_def comm split: if_splits)
  qed
qed

interpretation upgrade_client: client_operation cid
  "\<lambda>s. UpgradeClient E ctx s cid upgradedClient upgradedConsState proofClient proofCons"
proof (rule client_operationI)
  fix s s' :: "'a ibc_state" assume ok: "UpgradeClient E ctx s cid upgradedClient upgradedConsState proofClient proofCons = Inr s'"
  from ok obtain cs cs' c' store' where r: "GetClientState s cid = Some cs"
      "client_VerifyUpgrade E ctx (clientStores s cid) cs upgradedClient upgradedConsState proofClient proofCons = Inr (cs', c', store')"
      "s' = set_client_store s cid (clientStores s' cid)" "GetClientState s' cid = Some cs'"
      "clientStores s' cid = store' \<lparr> st_clientState := Some cs', st_consensus := (st_consensus store')(GetLatestHeight cs' \<mapsto> c') \<rparr>"
    by (auto simp: UpgradeClient_def client_setters result_elims GetClientState_def split: option.splits if_splits)
  then have "ClientType cs' = ClientType cs"
    by (cases cs) (auto simp: result_elims solo_VerifyUpgradeAndUpdateState_def lh_VerifyUpgradeAndUpdateState_def)
  with r show "\<exists>cs cs'. GetClientState s cid = Some cs \<and> s' = set_client_store s cid (clientStores s' cid) \<and>
      GetClientState s' cid = Some cs' \<and> ClientType cs' = ClientType cs" by blast
  fix c assume "GetClientState s cid = Some (TMClient c)" "cid \<noteq> Localhost" and inv: "metadata_inv (clientStores s cid)"
  with r obtain tcs tc where t: "cs' = TMClient tcs" "c' = TMCons tc"
      "tm_VerifyUpgradeAndUpdateState E ctx (clientStores s cid) c upgradedClient upgradedConsState proofClient proofCons = Inr (tcs, tc, store')"
    by (auto simp: result_elims)
  from tm_upgrade_store [OF t(3)] obtain ph pt where
    "store' = setConsensusMetadataWithValues (clientStores s cid) (tm_LatestHeight tcs) ph pt" by blast
  with r(5) t(1,2) have "clientStores s' cid = SetConsensusState (setConsensusMetadataWithValues (clientStores s cid)
      (tm_LatestHeight tcs) ph pt) tc (tm_LatestHeight tcs) \<lparr> st_clientState := Some cs' \<rparr>" by (simp add: SetConsensusState_def)
  with inv show "metadata_inv (clientStores s' cid)" by (simp add: metadata_inv_insert)
qed

interpretation submit_misbehaviour: client_operation "misbehaviour_GetClientID m" "\<lambda>s. CheckMisbehaviourAndUpdateState E ctx s m"
proof (rule client_operationI)
  fix s s' :: "'a ibc_state" assume ok: "CheckMisbehaviourAndUpdateState E ctx s m = Inr s'"
  let ?cid = "misbehaviour_GetClientID m"
  from ok obtain cs cs' where r: "GetClientState s ?cid = Some cs" "client_CheckMisbehaviour E ctx (clientStores s ?cid) cs m = Inr cs'"
      "s' = SetClientState s ?cid cs'"
    by (auto simp: CheckMisbehaviourAndUpdateState_def Let_def result_elims split: option.splits if_splits)
  then have "ClientType cs' = ClientType cs" by (cases cs) (auto simp: result_elims)
  with r show "\<exists>cs cs'. GetClientState s ?cid = Some cs \<and> s' = set_client_store s ?cid (clientStores s' ?cid) \<and>
      GetClientState s' ?cid = Some cs' \<and> ClientType cs' = ClientType cs"
    by (auto simp: client_setters GetClientState_def)
  show "metadata_inv (clientStores s' ?cid)" if "metadata_inv (clientStores s ?cid)"
    using that r(3) by (simp add: client_setters)
qed

interpretation client_update_proposal: client_operation subject "\<lambda>s. ClientUpdateProposal ctx s subject substitute"
proof (rule client_operationI)
  fix s s' :: "'a ibc_state" assume ok: "ClientUpdateProposal ctx s subject substitute = Inr s'"
  from ok obtain cs sub cs' store' where r: "GetClientState s subject = Some cs"
      "client_CheckSubstitute ctx (clientStores s subject) (clientStores s substitute) cs sub = Inr (cs', store')"
      "s' = set_client_store s subject (store' \<lparr> st_clientState := Some cs' \<rparr>)"
    by (auto simp: ClientUpdateProposal_def client_setters result_elims split: option.splits if_splits)
  then have "ClientType cs' = ClientType cs" by (cases cs) (auto simp: result_elims)
  with r show "\<exists>cs cs'. GetClientState s subject = Some cs \<and> s' = set_client_store s subject (clientStores s' subject) \<and>
      GetClientState s' subject = Some cs' \<and> ClientType cs' = ClientType cs" by (auto simp: GetClientState_def)
  fix c assume "GetClientState s subject = Some (TMClient c)" and inv: "metadata_inv (clientStores s subject)"
  with r obtain tcs where "tm_CheckSubstituteAndUpdateState ctx (clientStores s subject) (clientStores s substitute) c sub = Inr (tcs, store')"
    by (auto simp: result_elims)
  from tm_substitute_store [OF this] inv r(3) show "metadata_inv (clientStores s' subject)"
    by (auto simp: metadata_inv_insert)
qed

subsection \<open>Creation\<close>

lemma FormatClientIdentifier_not_Localhost: "FormatClientIdentifier t n \<noteq> Localhost"
proof
  assume eq: "FormatClientIdentifier t n = Localhost"
  have "last (FormatClientIdentifier t n) = last (show_u64 n)" "is_digit (last (show_u64 n))"
    using list_all_digit_show_u64 [of n] show_u64_ne [of n] by (auto simp: FormatClientIdentifier_def list_all_iff)
  with eq have "is_digit (last Localhost)" by simp
  then show False by (simp add: Localhost_def is_digit_def)
qed

lemma clients_inv_fresh:
  assumes "clients_inv s" "nextClientSequence s = Some n"
  shows "clientStores s (FormatClientIdentifier t n) = empty_client_store"
  using assms FormatClientIdentifier_not_Localhost [of t n]
  by (auto simp: clients_inv_def ids_in_use_def FormatClientIdentifier_inj)

lemma client_Initialize_TM:
  "client_Initialize ctx store (TMClient cs) c = Inr store' \<Longrightarrow>
     \<exists>t ph pt. c = Some (TMCons t) \<and> store' = setConsensusMetadataWithValues store (tm_LatestHeight cs) ph pt"
  by (cases c; cases "the c") (auto simp: tm_Initialize_def setConsensusMetadata_def result_elims split: option.splits ConsensusState.splits)

lemma client_Initialize_client_state:
  "client_Initialize ctx store cs c = Inr store' \<Longrightarrow> st_clientState store' = st_clientState store"
  by (cases cs) (auto dest!: client_Initialize_TM simp: result_elims store_ops simp del: client_Initialize.simps(1))

lemma CreateClient_Inr:
  assumes "CreateClient ctx s cs c = Inr (cid, s')"
  obtains n store where "nextClientSequence s = Some n" "cid = FormatClientIdentifier (ClientType cs) n"
    "IsAllowedClient (allowedClients s) (ClientType cs)"
    "client_Initialize ctx (clientStores s cid \<lparr> st_clientState := Some cs \<rparr>) cs c = Inr store"
    "s' = set_client_store (s \<lparr> nextClientSequence := Some (n + 1) \<rparr>) cid
       (case c of None \<Rightarrow> store | Some x \<Rightarrow> store \<lparr> st_consensus := (st_consensus store)(GetLatestHeight cs \<mapsto> x) \<rparr>)"
proof -
  from assms obtain n where "nextClientSequence s = Some n" "cid = FormatClientIdentifier (ClientType cs) n"
      "IsAllowedClient (allowedClients s) (ClientType cs)"
    by (auto simp: CreateClient_def GenerateClientIdentifier_def GetNextClientSequence_def result_elims Let_def
        split: option.splits if_splits)
  with assms that show thesis
    by (auto simp: CreateClient_def GenerateClientIdentifier_def GetNextClientSequence_def SetNextClientSequence_def
        client_setters result_elims set_client_store_def split: option.splits)
qed

lemma CreateClient_store:
  assumes inv: "clients_inv s" and ok: "CreateClient ctx s cs c = Inr (cid, s')"
  shows "GetClientState s' cid = Some cs \<and> (\<forall>t. cs = TMClient t \<longrightarrow> consensus_inv (clientStores s' cid)) \<and>
     (\<forall>x. c = Some x \<longrightarrow> GetClientConsensusState s' cid (GetLatestHeight cs) = Some x)"
  using ok
proof (rule CreateClient_Inr)
  fix n store
  assume n: "nextClientSequence s = Some n" and cid: "cid = FormatClientIdentifier (ClientType cs) n"
    and init: "client_Initialize ctx (clientStores s cid \<lparr> st_clientState := Some cs \<rparr>) cs c = Inr store"
    and s': "s' = set_client_store (s \<lparr> nextClientSequence := Some (n + 1) \<rparr>) cid
       (case c of None \<Rightarrow> store | Some x \<Rightarrow> store \<lparr> st_consensus := (st_consensus store)(GetLatestHeight cs \<mapsto> x) \<rparr>)"
  from clients_inv_fresh [OF inv n] cid have e: "clientStores s cid = empty_client_store" by simp
  have "consensus_inv (clientStores s' cid)" if "cs = TMClient t" for t
  proof -
    from client_Initialize_TM [OF init [unfolded that]] e obtain d ph pt where
      d: "c = Some (TMCons d)"
        "store = setConsensusMetadataWithValues (empty_client_store \<lparr> st_clientState := Some (TMClient t) \<rparr>) (tm_LatestHeight t) ph pt"
      by auto
    with that have "clientStores s' cid = SetConsensusState store d (tm_LatestHeight t)"
      by (simp add: s' SetConsensusState_def)
    with d show ?thesis
      by (simp only:) (rule consensus_inv_insert [OF consensus_inv_empty], simp_all add: empty_client_store_def)
  qed
  with client_Initialize_client_state [OF init] s' show ?thesis
    by (auto simp: GetClientState_def GetClientConsensusState_def split: option.splits)
qed

lemma CreateClient_keeps_inv:
  assumes inv: "clients_inv s" and ok: "CreateClient ctx s cs c = Inr (cid, s')" and top: "nextClientSequence s \<noteq> Some (- 1)"
  shows "clients_inv s'"
  using ok
proof (rule CreateClient_Inr)
  fix n store
  assume n: "nextClientSequence s = Some n" and cid: "cid = FormatClientIdentifier (ClientType cs) n"
    and s': "s' = set_client_store (s \<lparr> nextClientSequence := Some (n + 1) \<rparr>) cid
       (case c of None \<Rightarrow> store | Some x \<Rightarrow> store \<lparr> st_consensus := (st_consensus store)(GetLatestHeight cs \<mapsto> x) \<rparr>)"
  from top n have "n < n + 1" using unat_u64_succ [of n] by (simp add: word_less_nat_alt)
  then have lt: "m < n + 1" if "m < n \<or> m = n" for m using that by (auto intro: less_trans)
  have "\<exists>t m. x = FormatClientIdentifier t m \<and> m < n + 1" if "x \<in> ids_in_use s'" for x
    using that inv n lt s' cid by (cases "x = cid") (fastforce simp: clients_inv_def ids_in_use_def)+
  moreover have "x \<noteq> Localhost \<and> metadata_inv (clientStores s' x)" if "GetClientState s' x = Some (TMClient t)" for x t
  proof (cases "x = cid")
    case True
    with that CreateClient_store [OF inv ok] cid FormatClientIdentifier_not_Localhost show ?thesis
      by (auto intro: consensus_metadata_inv)
  next
    case False
    with that inv s' show ?thesis by (auto simp: clients_inv_def GetClientState_def)
  qed
  ultimately show ?thesis using s' by (auto simp: clients_inv_def set_client_store_def)
qed

subsection \<open>Runs of the client keeper\<close>

inductive client_step :: "'x env_scheme \<Rightarrow> 'k ibc_state \<Rightarrow> 'k ibc_state \<Rightarrow> bool" for E where
  create: "CreateClient ctx s cs c = Inr (cid, s') \<Longrightarrow> nextClientSequence s \<noteq> Some (- 1) \<Longrightarrow> client_step E s s'"
| update: "UpdateClient E ctx s cid header = Inr s' \<Longrightarrow> client_step E s s'"
| upgrade: "UpgradeClient E ctx s cid cs c pf pf' = Inr s' \<Longrightarrow> client_step E s s'"
| misbehave: "CheckMisbehaviourAndUpdateState E ctx s m = Inr s' \<Longrightarrow> client_step E s s'"
| propose: "ClientUpdateProposal ctx s subject substitute = Inr s' \<Longrightarrow> client_step E s s'"

lemma client_step_facts:
  assumes "client_step E s s'" "clients_inv s"
  shows "clients_inv s' \<and> same_beyond_clients s s' \<and>
     (\<forall>cid cs. GetClientState s cid = Some cs \<longrightarrow> map_option ClientType (GetClientState s' cid) = Some (ClientType cs))"
  using assms
proof cases
  case (create ctx cs c cid)
  from create(1) show ?thesis
  proof (rule CreateClient_Inr)
    fix n store
    assume n: "nextClientSequence s = Some n" and cid: "cid = FormatClientIdentifier (ClientType cs) n"
      and s': "s' = set_client_store (s \<lparr> nextClientSequence := Some (n + 1) \<rparr>) cid
       (case c of None \<Rightarrow> store | Some x \<Rightarrow> store \<lparr> st_consensus := (st_consensus store)(GetLatestHeight cs \<mapsto> x) \<rparr>)"
    from clients_inv_fresh [OF assms(2) n] cid have "GetClientState s cid = None"
      by (simp add: GetClientState_def empty_client_store_def)
    then have "map_option ClientType (GetClientState s' x) = Some (ClientType d)" if "GetClientState s x = Some d" for x d
      using that s' by (cases "x = cid") (simp_all add: GetClientState_def)
    moreover have "same_beyond_clients s s'"
      unfolding s' by (rule same_beyond_clients_trans [OF _ set_client_store_beyond(1)]) simp
    ultimately show ?thesis using CreateClient_keeps_inv [OF assms(2) create] by blast
  qed
next
  case update
  from update_client.frame [OF this] update_client.keeps_inv [OF assms(2) this] update_client.keeps_type [OF this]
  show ?thesis by simp
next
  case upgrade
  from upgrade_client.frame [OF this] upgrade_client.keeps_inv [OF assms(2) this] upgrade_client.keeps_type [OF this]
  show ?thesis by simp
next
  case misbehave
  from submit_misbehaviour.frame [OF this] submit_misbehaviour.keeps_inv [OF assms(2) this] submit_misbehaviour.keeps_type [OF this]
  show ?thesis by simp
next
  case propose
  from client_update_proposal.frame [OF this] client_update_proposal.keeps_inv [OF assms(2) this]
    client_update_proposal.keeps_type [OF this]
  show ?thesis by simp
qed

text \<open>
  Every run of the client keeper (creations, updates, upgrades, misbehaviour and
  governance proposals in any order and at any block times, with fewer than \<open>2^64\<close>
  creations) keeps the invariant of the clients: identifiers in use have sequence numbers
  below the counter and every Tendermint client's iteration keys and metadata match its
  consensus states. A client is never removed and never changes its type, and the run
  touches nothing but the client stores and the counter.
\<close>

theorem client_run_invariant:
  assumes "(client_step E)\<^sup>*\<^sup>* s s'" and "clients_inv s"
  shows "clients_inv s' \<and> same_beyond_clients s s' \<and>
     (\<forall>cid cs. GetClientState s cid = Some cs \<longrightarrow> map_option ClientType (GetClientState s' cid) = Some (ClientType cs))"
  using assms
proof (induction rule: rtranclp_induct)
  case base
  then show ?case by simp
next
  case (step b c)
  from step.IH [OF step.prems] client_step_facts [OF step.hyps(2)] show ?case
    by (auto intro: same_beyond_clients_trans) metis
qed

text \<open>
  A created client gets an identifier, of its type and the current counter, under which
  nothing was stored before; its client state and initial consensus state are what was
  submitted, a Tendermint client starts with a well-formed consensus store, and the counter
  is advanced.
\<close>

theorem CreateClient_fresh:
  assumes "clients_inv s" and "CreateClient ctx s cs c = Inr (cid, s')"
  shows "(\<exists>n. nextClientSequence s = Some n \<and> cid = FormatClientIdentifier (ClientType cs) n \<and>
            nextClientSequence s' = Some (n + 1)) \<and>
     IsAllowedClient (allowedClients s) (ClientType cs) \<and> clientStores s cid = empty_client_store \<and>
     GetClientState s' cid = Some cs \<and> GetLatestClientConsensusState s' cid = c \<and>
     (\<forall>t. cs = TMClient t \<longrightarrow> consensus_inv (clientStores s' cid)) \<and>
     (\<forall>other. other \<noteq> cid \<longrightarrow> clientStores s' other = clientStores s other)"
  using assms(2)
proof (rule CreateClient_Inr)
  fix n store
  assume n: "nextClientSequence s = Some n" and cid: "cid = FormatClientIdentifier (ClientType cs) n"
    and al: "IsAllowedClient (allowedClients s) (ClientType cs)"
    and init: "client_Initialize ctx (clientStores s cid \<lparr> st_clientState := Some cs \<rparr>) cs c = Inr store"
    and s': "s' = set_client_store (s \<lparr> nextClientSequence := Some (n + 1) \<rparr>) cid
       (case c of None \<Rightarrow> store | Some x \<Rightarrow> store \<lparr> st_consensus := (st_consensus store)(GetLatestHeight cs \<mapsto> x) \<rparr>)"
  from clients_inv_fresh [OF assms(1) n] cid have e: "clientStores s cid = empty_client_store" by simp
  with init have "st_consensus store h = None" if "c = None" for h
    using that by (cases cs) (auto simp: tm_Initialize_def result_elims empty_client_store_def)
  with e n cid al CreateClient_store [OF assms] s' show ?thesis
    by (auto simp: GetLatestClientConsensusState_def GetClientConsensusState_def set_client_store_def split: option.splits)
qed

text \<open>
  C17: an accepted update of a Tendermint client keeps the full invariant of its consensus
  store, time strictly increasing with height included, whether the header extends the
  client, was already known or is evidence that freezes it. So no sequence of accepted
  headers makes a trusted consensus state with a greater height have an earlier time.
\<close>

theorem UpdateClient_time_monotone:
  assumes "UpdateClient E ctx s cid header = Inr s'"
    and "GetClientState s cid = Some (TMClient cs)" and "cid \<noteq> Localhost"
    and "consensus_inv (clientStores s cid)"
  shows "consensus_inv (clientStores s' cid)"
  using assms(1-3)
proof (rule UpdateClient_TM)
  fix h height cs' c' store
  assume r: "tm_Header_GetHeight h = Inr height" "IsZero (tm_FrozenHeight cs)"
    "tm_CheckHeaderAndUpdateState E ctx (clientStores s cid) cs (TMHeader h) = Inr (cs', c', store)"
    and s': "s' = set_client_store s cid (let store' = store \<lparr> st_clientState := Some (TMClient cs') \<rparr> in
          if IsZero (tm_FrozenHeight cs') then SetConsensusState store' c' height else store')"
  have comm: "SetConsensusState (store \<lparr> st_clientState := Some (TMClient cs') \<rparr>) c' height =
      SetConsensusState store c' height \<lparr> st_clientState := Some (TMClient cs') \<rparr>" by (simp add: SetConsensusState_def)
  show ?thesis
  proof (cases "IsZero (tm_FrozenHeight cs')")
    case True
    from tm_update_keeps_inv [OF assms(4) r(3,1) True] True show ?thesis by (simp add: s' comm)
  next
    case False
    with tm_update_metadata [OF consensus_metadata_inv [OF assms(4)] r(3,1,2)] assms(4) show ?thesis by (simp add: s')
  qed
qed

text \<open>
  A client that is not active takes no update, upgrade or misbehaviour, whatever is
  submitted; only a governance proposal can change it, and a proposal goes through exactly
  for a subject that is not active and a substitute that is active and at a greater height.
\<close>

theorem inactive_client_rejects:
  assumes "GetClientState s cid = Some cs" and "client_Status ctx (clientStores s cid) cs \<noteq> Active"
  shows "UpdateClient E ctx s cid header = Inl (ClientE ErrClientNotActive) \<and>
     UpgradeClient E ctx s cid upClient upCons pf pf' = Inl (ClientE ErrClientNotActive) \<and>
     (misbehaviour_GetClientID m = cid \<longrightarrow> CheckMisbehaviourAndUpdateState E ctx s m = Inl (ClientE ErrClientNotActive)) \<and>
     \<not> is_ok (ClientUpdateProposal ctx s other cid) \<and>
     (is_ok (ClientUpdateProposal ctx s cid other) \<longrightarrow>
        (\<exists>sub. GetClientState s other = Some sub \<and> client_Status ctx (clientStores s other) sub = Active \<and>
           GetLatestHeight cs < GetLatestHeight sub))"
  using assms
  by (auto simp: UpdateClient_def UpgradeClient_def CheckMisbehaviourAndUpdateState_def ClientUpdateProposal_def Let_def
      height_comparisons not_le is_ok_iff result_elims split: option.splits if_splits)

subsection \<open>Concrete runs\<close>

definition empty_ibc_state :: "'k \<Rightarrow> 'k ibc_state" where
  "empty_ibc_state k = \<lparr> nextClientSequence = Some 0, clientStores = (\<lambda>_. empty_client_store),
     allowedClients = DefaultAllowedClients, clientConnections = Map.empty, connections = Map.empty,
     nextConnectionSequence = Some 0, maxExpectedTimePerBlock = 30000000000, channels = Map.empty,
     nextSequenceSend = Map.empty, nextSequenceRecv = Map.empty, nextSequenceAck = Map.empty,
     packetCommitments = Map.empty, packetReceipts = Map.empty, packetAcks = Map.empty,
     nextChannelSequence = Some 0, capState = k \<rparr>"

lemma clients_inv_empty: "clients_inv (empty_ibc_state k)"
  by (auto simp: clients_inv_def empty_ibc_state_def ids_in_use_def GetClientState_def empty_client_store_def)

definition demo_create :: "(string \<times> unit ibc_state) result" where
  "demo_create = CreateClient demo_ctx (empty_ibc_state ()) (TMClient demo_tm) (Some (TMCons (demo_cons 50)))"

definition demo_update :: "unit ibc_state result" where
  "demo_update = (case demo_create of Inl e \<Rightarrow> Inl e | Inr (cid, s) \<Rightarrow>
     UpdateClient demo_env demo_ctx s cid (Some (TMHeader (demo_header 7 60))))"

lemma demo_create_ok: "\<exists>s. demo_create = Inr (''07-tendermint-0'', s)"
proof -
  have "case demo_create of Inl _ \<Rightarrow> False | Inr (cid, _) \<Rightarrow> cid = ''07-tendermint-0''" by code_simp
  then show ?thesis by (auto split: sum.splits)
qed

lemma demo_update_ok: "is_ok demo_update"
  by code_simp

theorem client_run_invariant_witness:
  "\<exists>s. demo_update = Inr s \<and> clients_inv s \<and> same_beyond_clients (empty_ibc_state ()) s"
proof -
  from demo_create_ok obtain s1 where c: "demo_create = Inr (''07-tendermint-0'', s1)" by blast
  from demo_update_ok obtain s2 where u: "demo_update = Inr s2" by (auto simp: is_ok_iff)
  have "client_step demo_env (empty_ibc_state ()) s1"
    using c unfolding demo_create_def by (rule client_step.create) (simp add: empty_ibc_state_def)
  moreover have "client_step demo_env s1 s2"
    using u unfolding demo_update_def c sum.case prod.case by (rule client_step.update)
  ultimately have "(client_step demo_env)\<^sup>*\<^sup>* (empty_ibc_state ()) s2" by auto
  from client_run_invariant [OF this clients_inv_empty] u show ?thesis by blast
qed

theorem CreateClient_fresh_witness:
  "\<exists>s. demo_create = Inr (''07-tendermint-0'', s) \<and> consensus_inv (clientStores s ''07-tendermint-0'')"
proof -
  from demo_create_ok obtain s1 where c: "demo_create = Inr (''07-tendermint-0'', s1)" by blast
  from CreateClient_fresh [OF clients_inv_empty c [unfolded demo_create_def]] c show ?thesis by blast
qed

definition demo_state :: "unit ibc_state" where
  "demo_state = set_client_store (empty_ibc_state ()) ''07-tendermint-0'' demo_tm_store"

theorem UpdateClient_time_monotone_witness:
  "\<exists>s. UpdateClient demo_env demo_ctx demo_state ''07-tendermint-0'' (Some (TMHeader (demo_header 7 60))) = Inr s \<and>
     consensus_inv (clientStores s ''07-tendermint-0'')"
proof -
  let ?r = "UpdateClient demo_env demo_ctx demo_state ''07-tendermint-0'' (Some (TMHeader (demo_header 7 60)))"
  have "is_ok ?r" by code_simp
  then obtain s where r: "?r = Inr s" by (auto simp: is_ok_iff)
  have g: "GetClientState demo_state ''07-tendermint-0'' = Some (TMClient demo_tm)" by code_simp
  have "consensus_inv (clientStores demo_state ''07-tendermint-0'')" by (simp add: demo_state_def demo_tm_store_inv)
  from UpdateClient_time_monotone [OF r g _ this] r show ?thesis by (simp add: Localhost_def)
qed

theorem inactive_client_rejects_witness:
  "UpdateClient demo_env (demo_ctx \<lparr> BlockTime := 5000 \<rparr>) demo_state ''07-tendermint-0'' None = Inl (ClientE ErrClientNotActive)"
proof -
  have "GetClientState demo_state ''07-tendermint-0'' = Some (TMClient demo_tm)" by code_simp
  moreover have "client_Status (demo_ctx \<lparr> BlockTime := 5000 \<rparr>) (clientStores demo_state ''07-tendermint-0'') (TMClient demo_tm) \<noteq> Active"
    by code_simp
  ultimately show ?thesis by (rule inactive_client_rejects [THEN conjunct1])
qed

end
