(* ===== verification/Float64.thy ===== *)
theory Float64
  imports IBC_Prelude
begin

text \<open>
  IEEE 754 double precision, as far as \<^verbatim>\<open>getBlockDelay\<close> of the connection keeper uses it: the
  conversion of a \<^verbatim>\<open>uint64\<close> to \<^verbatim>\<open>float64\<close>, the division of two such values and
  \<^verbatim>\<open>math.Ceil\<close>. All values are non-negative and far from the subnormal range, so a value is
  determined by rounding to 53 significant bits, to nearest with ties to even. Quotients
  are kept at the fixed scale \<open>2^128\<close>: the quotient of two values below \<open>2^65\<close> that is not
  zero is above \<open>2^-65\<close>, so its 53 significant bits are above \<open>2^-128\<close>.
\<close>

function bits :: "int \<Rightarrow> nat" where
  "bits n = (if n \<le> 0 then 0 else Suc (bits (n div 2)))"
  by auto
termination by (relation "measure nat") auto

declare bits.simps [simp del]

definition round_half_even :: "int \<Rightarrow> int \<Rightarrow> int" where
  "round_half_even n d =
     (let q = n div d; r = n mod d in
      if 2 * r < d \<or> 2 * r = d \<and> even q then q else q + 1)"

text \<open>The fraction \<open>n / d\<close> (of at least 53 bits, or an integer) rounded to 53 significant bits.\<close>

definition round53 :: "int \<Rightarrow> int \<Rightarrow> int" where
  "round53 n d = (let k = bits (n div d) - 53 in round_half_even n (d * 2 ^ k) * 2 ^ k)"

definition float_of_u64 :: "u64 \<Rightarrow> int" where
  "float_of_u64 w = round53 (uint w) 1"

definition float_scale :: int where
  "float_scale = 2 ^ 128"

definition float_div :: "int \<Rightarrow> int \<Rightarrow> int" where
  "float_div a b = round53 (a * float_scale) b"

definition float_ceil :: "int \<Rightarrow> int" where
  "float_ceil v = (v + float_scale - 1) div float_scale"

subsection \<open>Rounding\<close>

lemma bits_bounds: "0 < n \<Longrightarrow> 2 ^ (bits n - 1) \<le> n \<and> n < 2 ^ bits n \<and> 0 < bits n"
proof (induction n rule: bits.induct)
  case (1 n)
  show ?case
  proof (cases "n = 1")
    case True
    then show ?thesis by (simp add: bits.simps [of 1] bits.simps [of 0])
  next
    case False
    with 1 have "0 < n div 2" by simp
    with 1 have IH: "2 ^ (bits (n div 2) - 1) \<le> n div 2" "n div 2 < 2 ^ bits (n div 2)" "0 < bits (n div 2)" by simp_all
    from 1(2) have b: "bits n = Suc (bits (n div 2))" by (simp add: bits.simps [of n])
    from IH(3) have "(2::int) ^ bits (n div 2) = 2 * 2 ^ (bits (n div 2) - 1)" by (cases "bits (n div 2)") simp_all
    moreover have "2 * x \<le> n \<and> n < 4 * x" if "x \<le> n div 2" "n div 2 < 2 * x" for x using that by presburger
    ultimately show ?thesis using IH by (simp add: b)
  qed
qed

lemma bits_le: "n < 2 ^ k \<Longrightarrow> bits n \<le> k"
proof (cases "0 < n")
  case True
  assume "n < 2 ^ k"
  with bits_bounds [OF True] have "(2::int) ^ (bits n - 1) < 2 ^ k" by linarith
  then have "bits n - 1 < k" by simp
  then show ?thesis by simp
qed (simp add: bits.simps [of n])

lemma round_half_even_le: "0 < d \<Longrightarrow> n \<le> d * i \<Longrightarrow> round_half_even n d \<le> i"
proof -
  assume d: "0 < d" and n: "n \<le> d * i"
  have eq: "n = d * (n div d) + n mod d" by simp
  have r: "0 \<le> n mod d" using d by simp
  show ?thesis
  proof (cases "n div d = i")
    case True
    with n eq r have "n mod d = 0" by simp
    with True d show ?thesis by (simp add: round_half_even_def)
  next
    case False
    from n d have "n div d \<le> i" by (metis div_mult_self1_is_m zdiv_mono1 mult.commute nonzero_mult_div_cancel_left less_irrefl)
    with False show ?thesis by (auto simp: round_half_even_def Let_def)
  qed
qed

lemma round_half_even_gt: "0 < d \<Longrightarrow> d * (2 * i + 1) < 2 * n \<Longrightarrow> i < round_half_even n d"
proof -
  assume d: "0 < d" and n: "d * (2 * i + 1) < 2 * n"
  have eq: "n = d * (n div d) + n mod d" by simp
  have r: "n mod d < d" using d by simp
  show ?thesis
  proof (cases "i < n div d")
    case True
    then show ?thesis by (auto simp: round_half_even_def Let_def)
  next
    case False
    have "d * i < n" using n d by (simp add: algebra_simps)
    then have "i \<le> n div d" using d by (metis nonzero_mult_div_cancel_left order_less_imp_le zdiv_mono1 less_irrefl)
    with False have q: "n div d = i" by simp
    with n eq have "d < 2 * (n mod d)" by (simp add: algebra_simps)
    with q show ?thesis by (simp add: round_half_even_def)
  qed
qed

lemma round53_small: "0 \<le> n \<Longrightarrow> n < 2 ^ 53 \<Longrightarrow> round53 n 1 = n"
  using bits_le [of n 53] by (simp add: round53_def round_half_even_def)

lemma float_ceil_eq: "(c - 1) * float_scale < v \<Longrightarrow> v \<le> c * float_scale \<Longrightarrow> float_ceil v = c"
proof -
  assume "(c - 1) * float_scale < v" "v \<le> c * float_scale"
  then have "v + float_scale - 1 = c * float_scale + (v + float_scale - 1 - c * float_scale)"
    "0 \<le> v + float_scale - 1 - c * float_scale" "v + float_scale - 1 - c * float_scale < float_scale"
    by (simp_all add: algebra_simps)
  then show ?thesis unfolding float_ceil_def by (metis div_mult_self3 div_pos_pos_trivial less_irrefl le_less_trans add.right_neutral)
qed

text \<open>
  For operands below \<open>2^53\<close> the rounded-up floating-point quotient is the exact one: an
  inexact quotient is at least \<open>1 / b\<close> away from the integer below it, which is more than
  half a unit in the last place.
\<close>

lemma float_ceil_div_exact:
  assumes a: "0 \<le> a" "a < 2 ^ 53" and b: "0 < b" "b < 2 ^ 53"
  shows "float_ceil (float_div a b) = (a + b - 1) div b"
proof (cases "a = 0")
  case True
  with b show ?thesis
    by (simp add: float_ceil_def float_div_def round53_def round_half_even_def float_scale_def div_pos_pos_trivial)
next
  case False
  let ?N = "a * float_scale" and ?c = "(a + b - 1) div b"
  let ?q = "?N div b"
  let ?k = "bits ?q - 53"
  let ?m = "round_half_even ?N (b * 2 ^ ?k)"
  have S: "float_scale = 2 ^ ?k * 2 ^ (128 - ?k)" if "?k \<le> 128"
    using that by (simp add: float_scale_def flip: power_add)
  have c: "b * (?c - 1) < a" "a \<le> b * ?c"
  proof -
    have "a + b - 1 = b * ?c + (a + b - 1) mod b" by simp
    moreover have "0 \<le> (a + b - 1) mod b" "(a + b - 1) mod b < b" using b by simp_all
    ultimately show "b * (?c - 1) < a" "a \<le> b * ?c" unfolding right_diff_distrib by linarith+
  qed
  have Nb: "?N < 2 ^ 53 * float_scale" using a by (simp add: float_scale_def)
  have "b \<le> ?N" using a b False by (simp add: float_scale_def)
  then have q: "0 < ?q" using b by (simp add: pos_imp_zdiv_pos_iff)
  have "?q * b + ?N mod b = ?N" by simp
  moreover have "0 \<le> ?N mod b" using b by simp
  ultimately have qN: "?q * b \<le> ?N" by linarith
  have "?q * 1 \<le> ?q * b" using b q by (intro mult_left_mono) simp_all
  with qN have "?q \<le> ?N" by linarith
  with Nb have "?q < 2 ^ 181" by (simp add: float_scale_def)
  then have k: "?k \<le> 128" using bits_le [of ?q 181] by simp
  have half: "b * 2 ^ ?k < 2 * float_scale"
  proof (cases "bits ?q \<le> 53")
    case True
    with b show ?thesis by (simp add: float_scale_def)
  next
    case False
    then have "bits ?q - 1 = ?k + 52" by simp
    then have "(2::int) ^ (bits ?q - 1) = 2 ^ ?k * 2 ^ 52" by (simp only: power_add)
    with bits_bounds [OF q] have "2 ^ ?k * 2 ^ 52 \<le> ?q" by simp
    then have "2 ^ ?k * 2 ^ 52 * b \<le> ?q * b" using b by (intro mult_right_mono) simp_all
    with qN Nb have "(b * 2 ^ ?k) * 2 ^ 52 < (2 * float_scale) * 2 ^ 52" by (simp add: algebra_simps)
    then show ?thesis by simp
  qed
  have D: "0 < b * 2 ^ ?k" using b by simp
  let ?w = "(2::int) ^ (128 - ?k)"
  have "?m \<le> ?c * ?w"
  proof (rule round_half_even_le [OF D])
    have "a * float_scale \<le> b * ?c * float_scale" using c by (intro mult_right_mono) (simp_all add: float_scale_def)
    with S [OF k] show "?N \<le> b * 2 ^ ?k * (?c * ?w)" by (simp add: algebra_simps)
  qed
  then have "?m * 2 ^ ?k \<le> ?c * ?w * 2 ^ ?k" by (intro mult_right_mono) simp_all
  with S [OF k] have up: "?m * 2 ^ ?k \<le> ?c * float_scale" by (simp add: algebra_simps)
  have "(?c - 1) * ?w < ?m"
  proof (rule round_half_even_gt [OF D])
    have "(b * (?c - 1) + 1) * float_scale \<le> a * float_scale" using c by (intro mult_right_mono) (simp_all add: float_scale_def)
    with half have "2 * (b * (?c - 1) * float_scale) + b * 2 ^ ?k < 2 * ?N" by (simp add: algebra_simps)
    moreover have "b * 2 ^ ?k * (2 * ((?c - 1) * ?w) + 1) = 2 * (b * (?c - 1) * (2 ^ ?k * ?w)) + b * 2 ^ ?k"
      by (simp add: algebra_simps)
    ultimately show "b * 2 ^ ?k * (2 * ((?c - 1) * ?w) + 1) < 2 * ?N" using S [OF k] by simp
  qed
  then have "(?c - 1) * ?w * 2 ^ ?k < ?m * 2 ^ ?k" by simp
  with S [OF k] have lo: "(?c - 1) * float_scale < ?m * 2 ^ ?k" by (simp add: algebra_simps)
  have "float_ceil (?m * 2 ^ ?k) = ?c"
    by (rule float_ceil_eq [OF lo up])
  then show ?thesis by (simp add: float_div_def round53_def Let_def)
qed

end
