(* ===== verification/ConnectionKeeper.thy ===== *)
theory ConnectionKeeper
  imports ClientKeeper Float64
begin

text \<open>
  The 03-connection keeper (\<^verbatim>\<open>modules/core/03-connection/keeper\<close>): store access (\<^verbatim>\<open>keeper.go\<close>),
  the four steps of the connection handshake (\<^verbatim>\<open>handshake.go\<close>) and the verification of the
  counterparty's state through the client of a connection (\<^verbatim>\<open>verify.go\<close>).

  Verification returns the state with the client store the light client leaves behind. The
  lemmas follow a connection end through the handshake.
\<close>

subsection \<open>Store access (keeper.go)\<close>

definition GetCommitmentPrefix :: "('k, 'x) keeper_env_scheme \<Rightarrow> MerklePrefix" where
  "GetCommitmentPrefix E = sdk_StoreKeyName E"

definition GetNextConnectionSequence :: "'k ibc_state \<Rightarrow> u64 result" where
  "GetNextConnectionSequence s = (case nextConnectionSequence s of None \<Rightarrow> Inl Panic | Some n \<Rightarrow> Inr n)"

definition SetNextConnectionSequence :: "'k ibc_state \<Rightarrow> u64 \<Rightarrow> 'k ibc_state" where
  "SetNextConnectionSequence s sequence = s \<lparr> nextConnectionSequence := Some sequence \<rparr>"

definition GenerateConnectionIdentifier :: "'k ibc_state \<Rightarrow> (string \<times> 'k ibc_state) result" where
  "GenerateConnectionIdentifier s =
     (case GetNextConnectionSequence s of
        Inl e \<Rightarrow> Inl e
      | Inr nextConnSeq \<Rightarrow>
          Inr (FormatConnectionIdentifier nextConnSeq, SetNextConnectionSequence s (nextConnSeq + 1)))"

definition GetConnection :: "'k ibc_state \<Rightarrow> string \<Rightarrow> ConnectionEnd option" where
  "GetConnection s connectionID = connections s connectionID"

definition SetConnection :: "'k ibc_state \<Rightarrow> string \<Rightarrow> ConnectionEnd \<Rightarrow> 'k ibc_state" where
  "SetConnection s connectionID connection = s \<lparr> connections := (connections s)(connectionID \<mapsto> connection) \<rparr>"

definition GetTimestampAtHeight :: "'k ibc_state \<Rightarrow> ConnectionEnd \<Rightarrow> Height \<Rightarrow> u64 result" where
  "GetTimestampAtHeight s connection height =
     (case GetClientConsensusState s (conn_ClientId connection) height of
        None \<Rightarrow> Inl (ClientE ErrConsensusStateNotFound)
      | Some consensusState \<Rightarrow> Inr (consensus_GetTimestamp consensusState))"

definition GetClientConnectionPaths :: "'k ibc_state \<Rightarrow> string \<Rightarrow> string list option" where
  "GetClientConnectionPaths s clientID = clientConnections s clientID"

definition SetClientConnectionPaths :: "'k ibc_state \<Rightarrow> string \<Rightarrow> string list \<Rightarrow> 'k ibc_state" where
  "SetClientConnectionPaths s clientID paths = s \<lparr> clientConnections := (clientConnections s)(clientID \<mapsto> paths) \<rparr>"

definition addConnectionToClient :: "'k ibc_state \<Rightarrow> string \<Rightarrow> string \<Rightarrow> 'k ibc_state result" where
  "addConnectionToClient s clientID connectionID =
     (if GetClientState s clientID = None then Inl (ClientE ErrClientNotFound)
      else let conns = (case GetClientConnectionPaths s clientID of None \<Rightarrow> [] | Some paths \<Rightarrow> paths) in
           Inr (SetClientConnectionPaths s clientID (conns @ [connectionID])))"

subsection \<open>Verification through a client (verify.go)\<close>

text \<open>The frame shared by the methods of \<^verbatim>\<open>verify.go\<close>: find the client, require it to be active, call it.\<close>

definition with_active_client :: "ctx \<Rightarrow> 'k ibc_state \<Rightarrow> ConnectionEnd \<Rightarrow>
    (client_store \<Rightarrow> ClientState \<Rightarrow> client_store result) \<Rightarrow> 'k ibc_state result" where
  "with_active_client ctx s connection verify =
     (let clientID = conn_ClientId connection; clientStore = clientStores s clientID in
      case GetClientState s clientID of
        None \<Rightarrow> Inl (ClientE ErrClientNotFound)
      | Some clientState \<Rightarrow>
          if client_Status ctx clientStore clientState \<noteq> Active then Inl (ClientE ErrClientNotActive)
          else case verify clientStore clientState of
                 Inl e \<Rightarrow> Inl e
               | Inr clientStore' \<Rightarrow> Inr (set_client_store s clientID clientStore'))"

definition conn_VerifyClientState :: "'x env_scheme \<Rightarrow> ctx \<Rightarrow> 'k ibc_state \<Rightarrow> ConnectionEnd \<Rightarrow> Height \<Rightarrow> bytes \<Rightarrow> ClientState \<Rightarrow>
    'k ibc_state result" where
  "conn_VerifyClientState E ctx s connection height pf clientState =
     with_active_client ctx s connection (\<lambda>clientStore targetClient.
       client_VerifyClientState E clientStore targetClient height (Some (cp_Prefix (conn_Counterparty connection)))
         (cp_ClientId (conn_Counterparty connection)) pf (Some clientState))"

definition conn_VerifyClientConsensusState :: "'x env_scheme \<Rightarrow> ctx \<Rightarrow> 'k ibc_state \<Rightarrow> ConnectionEnd \<Rightarrow> Height \<Rightarrow> Height \<Rightarrow> bytes \<Rightarrow>
    ConsensusState \<Rightarrow> 'k ibc_state result" where
  "conn_VerifyClientConsensusState E ctx s connection height consensusHeight pf consensusState =
     with_active_client ctx s connection (\<lambda>clientStore clientState.
       client_VerifyClientConsensusState E clientStore clientState height (cp_ClientId (conn_Counterparty connection))
         consensusHeight (Some (cp_Prefix (conn_Counterparty connection))) pf (Some consensusState))"

definition conn_VerifyConnectionState :: "'x env_scheme \<Rightarrow> ctx \<Rightarrow> 'k ibc_state \<Rightarrow> ConnectionEnd \<Rightarrow> Height \<Rightarrow> bytes \<Rightarrow> string \<Rightarrow>
    ConnectionEnd \<Rightarrow> 'k ibc_state result" where
  "conn_VerifyConnectionState E ctx s connection height pf connectionID connectionEnd =
     with_active_client ctx s connection (\<lambda>clientStore clientState.
       client_VerifyConnectionState E clientStore clientState height (Some (cp_Prefix (conn_Counterparty connection))) pf
         connectionID connectionEnd)"

definition conn_VerifyChannelState :: "'x env_scheme \<Rightarrow> ctx \<Rightarrow> 'k ibc_state \<Rightarrow> ConnectionEnd \<Rightarrow> Height \<Rightarrow> bytes \<Rightarrow> string \<Rightarrow> string \<Rightarrow>
    Channel \<Rightarrow> 'k ibc_state result" where
  "conn_VerifyChannelState E ctx s connection height pf portID channelID channel =
     with_active_client ctx s connection (\<lambda>clientStore clientState.
       client_VerifyChannelState E clientStore clientState height (Some (cp_Prefix (conn_Counterparty connection))) pf
         portID channelID channel)"

definition getBlockDelay :: "('k, 'x) keeper_env_scheme \<Rightarrow> 's ibc_state \<Rightarrow> ConnectionEnd \<Rightarrow> u64" where
  "getBlockDelay E s connection =
     (let expectedTimePerBlock = maxExpectedTimePerBlock s in
      if expectedTimePerBlock = 0 then 0
      else let timeDelay = conn_DelayPeriod connection;
               c = float_ceil (float_div (float_of_u64 timeDelay) (float_of_u64 expectedTimePerBlock)) in
           if c < 2 ^ 64 then of_int c else go_uint64_of_large_float E)"

definition conn_VerifyPacketCommitment :: "('k, 'x) keeper_env_scheme \<Rightarrow> ctx \<Rightarrow> 'k ibc_state \<Rightarrow> ConnectionEnd \<Rightarrow> Height \<Rightarrow> bytes \<Rightarrow>
    string \<Rightarrow> string \<Rightarrow> u64 \<Rightarrow> bytes \<Rightarrow> 'k ibc_state result" where
  "conn_VerifyPacketCommitment E ctx s connection height pf portID channelID sequence commitmentBytes =
     with_active_client ctx s connection (\<lambda>clientStore clientState.
       client_VerifyPacketCommitment E ctx clientStore clientState height (conn_DelayPeriod connection)
         (getBlockDelay E s connection) (Some (cp_Prefix (conn_Counterparty connection))) pf portID channelID
         sequence commitmentBytes)"

definition conn_VerifyPacketAcknowledgement :: "('k, 'x) keeper_env_scheme \<Rightarrow> ctx \<Rightarrow> 'k ibc_state \<Rightarrow> ConnectionEnd \<Rightarrow> Height \<Rightarrow> bytes \<Rightarrow>
    string \<Rightarrow> string \<Rightarrow> u64 \<Rightarrow> bytes \<Rightarrow> 'k ibc_state result" where
  "conn_VerifyPacketAcknowledgement E ctx s connection height pf portID channelID sequence acknowledgement =
     with_active_client ctx s connection (\<lambda>clientStore clientState.
       client_VerifyPacketAcknowledgement E ctx clientStore clientState height (conn_DelayPeriod connection)
         (getBlockDelay E s connection) (Some (cp_Prefix (conn_Counterparty connection))) pf portID channelID
         sequence acknowledgement)"

definition conn_VerifyPacketReceiptAbsence :: "('k, 'x) keeper_env_scheme \<Rightarrow> ctx \<Rightarrow> 'k ibc_state \<Rightarrow> ConnectionEnd \<Rightarrow> Height \<Rightarrow> bytes \<Rightarrow>
    string \<Rightarrow> string \<Rightarrow> u64 \<Rightarrow> 'k ibc_state result" where
  "conn_VerifyPacketReceiptAbsence E ctx s connection height pf portID channelID sequence =
     with_active_client ctx s connection (\<lambda>clientStore clientState.
       client_VerifyPacketReceiptAbsence E ctx clientStore clientState height (conn_DelayPeriod connection)
         (getBlockDelay E s connection) (Some (cp_Prefix (conn_Counterparty connection))) pf portID channelID sequence)"

definition conn_VerifyNextSequenceRecv :: "('k, 'x) keeper_env_scheme \<Rightarrow> ctx \<Rightarrow> 'k ibc_state \<Rightarrow> ConnectionEnd \<Rightarrow> Height \<Rightarrow> bytes \<Rightarrow>
    string \<Rightarrow> string \<Rightarrow> u64 \<Rightarrow> 'k ibc_state result" where
  "conn_VerifyNextSequenceRecv E ctx s connection height pf portID channelID sequence =
     with_active_client ctx s connection (\<lambda>clientStore clientState.
       client_VerifyNextSequenceRecv E ctx clientStore clientState height (conn_DelayPeriod connection)
         (getBlockDelay E s connection) (Some (cp_Prefix (conn_Counterparty connection))) pf portID channelID sequence)"

subsection \<open>The handshake (handshake.go)\<close>

definition ConnOpenInit :: "'k ibc_state \<Rightarrow> string \<Rightarrow> conn_counterparty \<Rightarrow> Version option \<Rightarrow> u64 \<Rightarrow> (string \<times> 'k ibc_state) result" where
  "ConnOpenInit s clientID counterparty version delayPeriod =
     (case (case version of
              None \<Rightarrow> Inr GetCompatibleVersions
            | Some v \<Rightarrow> if \<not> IsSupportedVersion v then Inl (ConnectionE conn_ErrInvalidVersion) else Inr [v]) of
        Inl e \<Rightarrow> Inl e
      | Inr versions \<Rightarrow>
       (case GenerateConnectionIdentifier s of Inl e \<Rightarrow> Inl e | Inr (connectionID, s) \<Rightarrow>
        let connection = NewConnectionEnd C_INIT clientID counterparty versions delayPeriod;
            s = SetConnection s connectionID connection in
       (case addConnectionToClient s clientID connectionID of Inl e \<Rightarrow> Inl e | Inr s \<Rightarrow> Inr (connectionID, s))))"

text \<open>The connection \<^verbatim>\<open>ConnOpenTry\<close> continues: the zero value when there is no previous one.\<close>

definition previous_connection :: "'k ibc_state \<Rightarrow> string \<Rightarrow> conn_counterparty \<Rightarrow> u64 \<Rightarrow> string \<Rightarrow>
    (string \<times> Version list \<times> 'k ibc_state) result" where
  "previous_connection s previousConnectionID counterparty delayPeriod clientID =
     (if previousConnectionID \<noteq> [] then
       (case GetConnection s previousConnectionID of
          None \<Rightarrow> Inl (ConnectionE ErrConnectionNotFound)
        | Some previousConnection \<Rightarrow>
            if \<not> (cp_ConnectionId (conn_Counterparty previousConnection) = [] \<and>
                  cp_Prefix (conn_Counterparty previousConnection) = cp_Prefix counterparty \<and>
                  conn_ClientId previousConnection = clientID \<and>
                  cp_ClientId (conn_Counterparty previousConnection) = cp_ClientId counterparty \<and>
                  conn_DelayPeriod previousConnection = delayPeriod)
            then Inl (ConnectionE ErrInvalidConnection)
            else if conn_State previousConnection \<noteq> C_INIT then Inl (ConnectionE ErrInvalidConnectionState)
            else Inr (previousConnectionID, conn_Versions previousConnection, s))
      else (case GenerateConnectionIdentifier s of Inl e \<Rightarrow> Inl e | Inr (connectionID, s) \<Rightarrow> Inr (connectionID, [], s)))"

definition ConnOpenTry :: "('k, 'x) keeper_env_scheme \<Rightarrow> ctx \<Rightarrow> 'k ibc_state \<Rightarrow> string \<Rightarrow> conn_counterparty \<Rightarrow> u64 \<Rightarrow> string \<Rightarrow>
    ClientState \<Rightarrow> Version list \<Rightarrow> bytes \<Rightarrow> bytes \<Rightarrow> bytes \<Rightarrow> Height \<Rightarrow> Height \<Rightarrow> (string \<times> 'k ibc_state) result" where
  "ConnOpenTry E ctx s previousConnectionID counterparty delayPeriod clientID clientState counterpartyVersions
      proofInit proofClient proofConsensus proofHeight consensusHeight =
     (case previous_connection s previousConnectionID counterparty delayPeriod clientID of
        Inl e \<Rightarrow> Inl e
      | Inr (connectionID, previousVersions, s) \<Rightarrow>
       (case GetSelfHeight ctx of Inl e \<Rightarrow> Inl e | Inr selfHeight \<Rightarrow>
        if GTE consensusHeight selfHeight then Inl (SdkE sdk_ErrInvalidHeight)
        else case ValidateSelfClient E ctx clientState of Inl e \<Rightarrow> Inl e | Inr _ \<Rightarrow>
       (case GetSelfConsensusState E ctx consensusHeight of Inl e \<Rightarrow> Inl e | Inr expectedConsensusState \<Rightarrow>
        let expectedCounterparty = NewCounterparty clientID [] (GetCommitmentPrefix E);
            expectedConnection = NewConnectionEnd C_INIT (cp_ClientId counterparty) expectedCounterparty counterpartyVersions delayPeriod;
            supportedVersions = (if length previousVersions \<noteq> 0 then previousVersions else GetCompatibleVersions) in
       (case PickVersion supportedVersions counterpartyVersions of Inl e \<Rightarrow> Inl e | Inr version \<Rightarrow>
        let connection = NewConnectionEnd C_TRYOPEN clientID counterparty [version] delayPeriod in
       (case conn_VerifyConnectionState E ctx s connection proofHeight proofInit (cp_ConnectionId counterparty) expectedConnection of
          Inl e \<Rightarrow> Inl e | Inr s \<Rightarrow>
       (case conn_VerifyClientState E ctx s connection proofHeight proofClient clientState of Inl e \<Rightarrow> Inl e | Inr s \<Rightarrow>
       (case conn_VerifyClientConsensusState E ctx s connection proofHeight consensusHeight proofConsensus expectedConsensusState of
          Inl e \<Rightarrow> Inl e | Inr s \<Rightarrow>
       (case addConnectionToClient s clientID connectionID of Inl e \<Rightarrow> Inl e | Inr s \<Rightarrow>
        Inr (connectionID, SetConnection s connectionID connection)))))))))"

definition ConnOpenAck :: "('k, 'x) keeper_env_scheme \<Rightarrow> ctx \<Rightarrow> 'k ibc_state \<Rightarrow> string \<Rightarrow> ClientState \<Rightarrow> Version \<Rightarrow> string \<Rightarrow>
    bytes \<Rightarrow> bytes \<Rightarrow> bytes \<Rightarrow> Height \<Rightarrow> Height \<Rightarrow> 'k ibc_state result" where
  "ConnOpenAck E ctx s connectionID clientState version counterpartyConnectionID proofTry proofClient proofConsensus
      proofHeight consensusHeight =
     (case GetSelfHeight ctx of Inl e \<Rightarrow> Inl e | Inr selfHeight \<Rightarrow>
      if GTE consensusHeight selfHeight then Inl (SdkE sdk_ErrInvalidHeight)
      else case GetConnection s connectionID of
        None \<Rightarrow> Inl (ConnectionE ErrConnectionNotFound)
      | Some connection \<Rightarrow>
        if conn_State connection \<noteq> C_INIT \<and> conn_State connection \<noteq> C_TRYOPEN then Inl (ConnectionE ErrInvalidConnectionState)
        else if conn_State connection = C_INIT \<and> \<not> IsSupportedVersion version then Inl (ConnectionE ErrInvalidConnectionState)
        else if conn_State connection = C_TRYOPEN \<and>
            (length (conn_Versions connection) \<noteq> 1 \<or> conn_Versions connection ! 0 \<noteq> version)
          then Inl (ConnectionE ErrInvalidConnectionState)
        else case ValidateSelfClient E ctx clientState of Inl e \<Rightarrow> Inl e | Inr _ \<Rightarrow>
       (case GetSelfConsensusState E ctx consensusHeight of Inl e \<Rightarrow> Inl e | Inr expectedConsensusState \<Rightarrow>
        let expectedCounterparty = NewCounterparty (conn_ClientId connection) connectionID (GetCommitmentPrefix E);
            expectedConnection = NewConnectionEnd C_TRYOPEN (cp_ClientId (conn_Counterparty connection)) expectedCounterparty
              [version] (conn_DelayPeriod connection) in
       (case conn_VerifyConnectionState E ctx s connection proofHeight proofTry counterpartyConnectionID expectedConnection of
          Inl e \<Rightarrow> Inl e | Inr s \<Rightarrow>
       (case conn_VerifyClientState E ctx s connection proofHeight proofClient clientState of Inl e \<Rightarrow> Inl e | Inr s \<Rightarrow>
       (case conn_VerifyClientConsensusState E ctx s connection proofHeight consensusHeight proofConsensus expectedConsensusState of
          Inl e \<Rightarrow> Inl e | Inr s \<Rightarrow>
        Inr (SetConnection s connectionID
          (connection \<lparr> conn_State := C_OPEN, conn_Versions := [version],
             conn_Counterparty := (conn_Counterparty connection) \<lparr> cp_ConnectionId := counterpartyConnectionID \<rparr> \<rparr>)))))))"

definition ConnOpenConfirm :: "('k, 'x) keeper_env_scheme \<Rightarrow> ctx \<Rightarrow> 'k ibc_state \<Rightarrow> string \<Rightarrow> bytes \<Rightarrow> Height \<Rightarrow> 'k ibc_state result" where
  "ConnOpenConfirm E ctx s connectionID proofAck proofHeight =
     (case GetConnection s connectionID of
        None \<Rightarrow> Inl (ConnectionE ErrConnectionNotFound)
      | Some connection \<Rightarrow>
        if conn_State connection \<noteq> C_TRYOPEN then Inl (ConnectionE ErrInvalidConnectionState)
        else
        let expectedCounterparty = NewCounterparty (conn_ClientId connection) connectionID (GetCommitmentPrefix E);
            expectedConnection = NewConnectionEnd C_OPEN (cp_ClientId (conn_Counterparty connection)) expectedCounterparty
              (conn_Versions connection) (conn_DelayPeriod connection) in
       (case conn_VerifyConnectionState E ctx s connection proofHeight proofAck
               (cp_ConnectionId (conn_Counterparty connection)) expectedConnection of
          Inl e \<Rightarrow> Inl e | Inr s \<Rightarrow>
        Inr (SetConnection s connectionID (connection \<lparr> conn_State := C_OPEN \<rparr>))))"

subsection \<open>What verification leaves alone\<close>

text \<open>
  A successful verification changes nothing but client states, and those not in existence or type.
\<close>

definition verified_frame :: "'k ibc_state \<Rightarrow> 'k ibc_state \<Rightarrow> bool" where
  "verified_frame s s' \<longleftrightarrow> s' = s \<lparr> clientStores := clientStores s' \<rparr> \<and>
     (\<forall>cid. same_but_client (clientStores s cid) (clientStores s' cid) \<and>
        map_option ClientType (GetClientState s' cid) = map_option ClientType (GetClientState s cid))"

lemma same_but_client_trans: "same_but_client a b \<Longrightarrow> same_but_client b c \<Longrightarrow> same_but_client a c"
  by (cases a; cases b; cases c) (simp add: same_but_client_def)

lemma verified_frame_refl [simp]: "verified_frame s s"
  by (simp add: verified_frame_def)

lemma verified_frame_trans: "verified_frame a b \<Longrightarrow> verified_frame b c \<Longrightarrow> verified_frame a c"
  unfolding verified_frame_def by (cases a; cases b; cases c) (auto intro: same_but_client_trans)

lemma verified_frame_fields:
  assumes "verified_frame s s'"
  shows "nextClientSequence s' = nextClientSequence s" "allowedClients s' = allowedClients s"
    "clientConnections s' = clientConnections s" "connections s' = connections s"
    "nextConnectionSequence s' = nextConnectionSequence s" "maxExpectedTimePerBlock s' = maxExpectedTimePerBlock s"
    "channels s' = channels s" "nextSequenceSend s' = nextSequenceSend s" "nextSequenceRecv s' = nextSequenceRecv s"
    "nextSequenceAck s' = nextSequenceAck s" "packetCommitments s' = packetCommitments s"
    "packetReceipts s' = packetReceipts s" "packetAcks s' = packetAcks s" "nextChannelSequence s' = nextChannelSequence s"
    "capState s' = capState s"
    "GetClientState s' cid = None \<longleftrightarrow> GetClientState s cid = None"
    "GetClientConsensusState s' cid h = GetClientConsensusState s cid h"
proof -
  from assms have eq: "s' = s \<lparr> clientStores := clientStores s' \<rparr>" by (simp add: verified_frame_def)
  show "nextClientSequence s' = nextClientSequence s" "allowedClients s' = allowedClients s"
    "clientConnections s' = clientConnections s" "connections s' = connections s"
    "nextConnectionSequence s' = nextConnectionSequence s" "maxExpectedTimePerBlock s' = maxExpectedTimePerBlock s"
    "channels s' = channels s" "nextSequenceSend s' = nextSequenceSend s" "nextSequenceRecv s' = nextSequenceRecv s"
    "nextSequenceAck s' = nextSequenceAck s" "packetCommitments s' = packetCommitments s"
    "packetReceipts s' = packetReceipts s" "packetAcks s' = packetAcks s" "nextChannelSequence s' = nextChannelSequence s"
    "capState s' = capState s"
    by (subst eq, simp)+
  from assms have "map_option ClientType (GetClientState s' cid) = map_option ClientType (GetClientState s cid)"
    by (simp add: verified_frame_def)
  then show "GetClientState s' cid = None \<longleftrightarrow> GetClientState s cid = None"
    by (cases "GetClientState s' cid"; cases "GetClientState s cid") simp_all
  from assms have "same_but_client (clientStores s cid) (clientStores s' cid)" by (simp add: verified_frame_def)
  from same_but_client_fields [OF this] show "GetClientConsensusState s' cid h = GetClientConsensusState s cid h"
    by (simp add: GetClientConsensusState_def)
qed

lemma with_active_client_Inr:
  "with_active_client ctx s connection verify = Inr s' \<longleftrightarrow>
     (\<exists>cs store'. GetClientState s (conn_ClientId connection) = Some cs \<and>
        client_Status ctx (clientStores s (conn_ClientId connection)) cs = Active \<and>
        verify (clientStores s (conn_ClientId connection)) cs = Inr store' \<and>
        s' = set_client_store s (conn_ClientId connection) store')"
  by (auto simp: with_active_client_def Let_def result_elims split: option.splits)

context client_verifier
begin

lemma active_client_frame:
  assumes "with_active_client ctx s connection verify = Inr s'"
  shows "verified_frame s s'"
proof -
  let ?cid = "conn_ClientId connection"
  from assms obtain cs store' where cs: "GetClientState s ?cid = Some cs" "client_Status ctx (clientStores s ?cid) cs = Active"
      "verify (clientStores s ?cid) cs = Inr store'" and s': "s' = set_client_store s ?cid store'"
    by (auto simp: with_active_client_Inr)
  then have st: "st_clientState (clientStores s ?cid) = Some cs" by (simp add: GetClientState_def)
  from verify_active [OF st cs(3,2)] obtain cs' where "st_clientState store' = Some cs'" "ClientType cs' = ClientType cs" by blast
  with verify_frame [OF st cs(3)] st s' show ?thesis
    by (auto simp: verified_frame_def GetClientState_def set_client_store_def)
qed

end

lemma conn_verify_frames:
  "conn_VerifyClientState E ctx s c h pf cs = Inr s' \<Longrightarrow> verified_frame s s'"
  "conn_VerifyClientConsensusState E ctx s c h ch pf d = Inr s' \<Longrightarrow> verified_frame s s'"
  "conn_VerifyConnectionState E ctx s c h pf cid d' = Inr s' \<Longrightarrow> verified_frame s s'"
  "conn_VerifyChannelState E ctx s c h pf port chan ch' = Inr s' \<Longrightarrow> verified_frame s s'"
  "conn_VerifyPacketCommitment KE ctx s c h pf port chan n b = Inr s' \<Longrightarrow> verified_frame s s'"
  "conn_VerifyPacketAcknowledgement KE ctx s c h pf port chan n b = Inr s' \<Longrightarrow> verified_frame s s'"
  "conn_VerifyPacketReceiptAbsence KE ctx s c h pf port chan n = Inr s' \<Longrightarrow> verified_frame s s'"
  "conn_VerifyNextSequenceRecv KE ctx s c h pf port chan n = Inr s' \<Longrightarrow> verified_frame s s'"
  unfolding conn_VerifyClientState_def conn_VerifyClientConsensusState_def conn_VerifyConnectionState_def
    conn_VerifyChannelState_def conn_VerifyPacketCommitment_def conn_VerifyPacketAcknowledgement_def
    conn_VerifyPacketReceiptAbsence_def conn_VerifyNextSequenceRecv_def
  by (erule verify_client_state.active_client_frame verify_consensus_state.active_client_frame
      verify_connection_state.active_client_frame verify_channel_state.active_client_frame
      verify_packet_commitment.active_client_frame verify_packet_acknowledgement.active_client_frame
      verify_receipt_absence.active_client_frame verify_next_sequence.active_client_frame)+

subsection \<open>The life of a connection end\<close>

text \<open>
  The abstract state machine of one connection end: what may replace the stored end (or
  none). It fixes the fields that never change and the versions that can be agreed.
\<close>

inductive conn_trans :: "ConnectionEnd option \<Rightarrow> ConnectionEnd \<Rightarrow> bool" where
  init: "conn_State c = C_INIT \<Longrightarrow> conn_Versions c \<noteq> [] \<Longrightarrow> list_all IsSupportedVersion (conn_Versions c) \<Longrightarrow> conn_trans None c"
| try_new: "conn_State c = C_TRYOPEN \<Longrightarrow> conn_Versions c = [v] \<Longrightarrow> IsSupportedVersion v \<Longrightarrow> conn_trans None c"
| try_previous: "conn_State p = C_INIT \<Longrightarrow> cp_ConnectionId (conn_Counterparty p) = [] \<Longrightarrow>
    PickVersion (conn_Versions p) vs = Inr v \<Longrightarrow>
    conn_trans (Some p) (p \<lparr> conn_State := C_TRYOPEN, conn_Versions := [v],
      conn_Counterparty := (conn_Counterparty p) \<lparr> cp_ConnectionId := x \<rparr> \<rparr>)"
| ack: "conn_State p = C_INIT \<and> IsSupportedVersion v \<or> conn_State p = C_TRYOPEN \<and> conn_Versions p = [v] \<Longrightarrow>
    conn_trans (Some p) (p \<lparr> conn_State := C_OPEN, conn_Versions := [v],
      conn_Counterparty := (conn_Counterparty p) \<lparr> cp_ConnectionId := x \<rparr> \<rparr>)"
| confirm: "conn_State p = C_TRYOPEN \<Longrightarrow> conn_trans (Some p) (p \<lparr> conn_State := C_OPEN \<rparr>)"

inductive conn_step :: "('k, 'x) keeper_env_scheme \<Rightarrow> 'k ibc_state \<Rightarrow> 'k ibc_state \<Rightarrow> bool" for E where
  step_init: "ConnOpenInit s clientID cp version delay = Inr (cid, s') \<Longrightarrow> nextConnectionSequence s \<noteq> Some (- 1) \<Longrightarrow>
    conn_step E s s'"
| step_try: "ConnOpenTry E ctx s previous cp delay clientID cs vs pf pfc pfs h ch = Inr (cid, s') \<Longrightarrow>
    nextConnectionSequence s \<noteq> Some (- 1) \<Longrightarrow> conn_step E s s'"
| step_ack: "ConnOpenAck E ctx s cid cs v cpid pf pfc pfs h ch = Inr s' \<Longrightarrow> conn_step E s s'"
| step_confirm: "ConnOpenConfirm E ctx s cid pf h = Inr s' \<Longrightarrow> conn_step E s s'"

text \<open>What a step writes besides one connection end: the client's paths and the counter.\<close>

definition conn_written :: "'k ibc_state \<Rightarrow> 'k ibc_state \<Rightarrow> string \<Rightarrow> ConnectionEnd \<Rightarrow> bool" where
  "conn_written s s' cid c \<longleftrightarrow> connections s' = (connections s)(cid \<mapsto> c) \<and>
     verified_frame s (s' \<lparr> connections := connections s, clientConnections := clientConnections s,
       nextConnectionSequence := nextConnectionSequence s \<rparr>)"

definition paths_of :: "'k ibc_state \<Rightarrow> string \<Rightarrow> string list" where
  "paths_of s clientID = (case clientConnections s clientID of None \<Rightarrow> [] | Some ps \<Rightarrow> ps)"

definition registers :: "'k ibc_state \<Rightarrow> 'k ibc_state \<Rightarrow> string \<Rightarrow> string \<Rightarrow> bool" where
  "registers s s' clientID cid \<longleftrightarrow> GetClientState s clientID \<noteq> None \<and>
     clientConnections s' = (clientConnections s)(clientID \<mapsto> paths_of s clientID @ [cid])"

definition allocates :: "'k ibc_state \<Rightarrow> 'k ibc_state \<Rightarrow> string \<Rightarrow> bool" where
  "allocates s s' cid \<longleftrightarrow>
     (\<exists>n. nextConnectionSequence s = Some n \<and> cid = FormatConnectionIdentifier n \<and> nextConnectionSequence s' = Some (n + 1))"

lemma GenerateConnectionIdentifier_Inr:
  "GenerateConnectionIdentifier s = Inr (cid, s') \<longleftrightarrow>
     (\<exists>n. nextConnectionSequence s = Some n \<and> cid = FormatConnectionIdentifier n \<and> s' = s \<lparr> nextConnectionSequence := Some (n + 1) \<rparr>)"
  by (auto simp: GenerateConnectionIdentifier_def GetNextConnectionSequence_def SetNextConnectionSequence_def
      split: option.splits)

lemma addConnectionToClient_Inr:
  "addConnectionToClient s clientID cid = Inr s' \<longleftrightarrow> GetClientState s clientID \<noteq> None \<and>
     s' = s \<lparr> clientConnections := (clientConnections s)(clientID \<mapsto> paths_of s clientID @ [cid]) \<rparr>"
  by (auto simp: addConnectionToClient_def GetClientConnectionPaths_def SetClientConnectionPaths_def paths_of_def Let_def)

lemma compatible_versions: "GetCompatibleVersions \<noteq> []" "list_all IsSupportedVersion GetCompatibleVersions"
  by code_simp+

lemma ConnOpenInit_Inr:
  assumes "ConnOpenInit s clientID cp version delay = Inr (cid, s')"
  shows "\<exists>c. conn_State c = C_INIT \<and> conn_Versions c \<noteq> [] \<and> list_all IsSupportedVersion (conn_Versions c) \<and>
     conn_ClientId c = clientID \<and> conn_Counterparty c = cp \<and> conn_DelayPeriod c = delay \<and>
     conn_written s s' cid c \<and> registers s s' clientID cid \<and> allocates s s' cid"
proof -
  define versions where "versions = (case version of None \<Rightarrow> GetCompatibleVersions | Some v \<Rightarrow> [v])"
  let ?c = "NewConnectionEnd C_INIT clientID cp versions delay"
  from assms compatible_versions have v: "versions \<noteq> []" "list_all IsSupportedVersion versions"
    by (cases version; auto simp: ConnOpenInit_def versions_def split: if_splits)+
  from assms v obtain n where n: "nextConnectionSequence s = Some n" "GetClientState s clientID \<noteq> None"
      "cid = FormatConnectionIdentifier n"
      "s' = s \<lparr> nextConnectionSequence := Some (n + 1), connections := (connections s)(cid \<mapsto> ?c),
         clientConnections := (clientConnections s)(clientID \<mapsto> paths_of s clientID @ [cid]) \<rparr>"
    by (cases version) (auto simp: ConnOpenInit_def versions_def Let_def result_elims GenerateConnectionIdentifier_Inr
        addConnectionToClient_Inr SetConnection_def GetClientState_def paths_of_def split: if_splits)
  then have "conn_written s s' cid ?c" by (cases s) (simp add: conn_written_def)
  with v n show ?thesis
    by (intro exI [of _ ?c]) (simp add: NewConnectionEnd_def registers_def allocates_def)
qed

text \<open>The three verifications of \<^verbatim>\<open>ConnOpenTry\<close> and \<^verbatim>\<open>ConnOpenAck\<close> in a row.\<close>

lemma ConnOpenTry_iff:
  "ConnOpenTry E ctx s previous cp delay clientID cs vs pf pfc pfs h ch = Inr (cid, s') \<longleftrightarrow>
   (\<exists>pvs s0 self expected v s1 s2 s3.
      previous_connection s previous cp delay clientID = Inr (cid, pvs, s0) \<and>
      GetSelfHeight ctx = Inr self \<and> \<not> GTE ch self \<and> ValidateSelfClient E ctx cs = Inr () \<and>
      GetSelfConsensusState E ctx ch = Inr expected \<and>
      PickVersion (if length pvs \<noteq> 0 then pvs else GetCompatibleVersions) vs = Inr v \<and>
      conn_VerifyConnectionState E ctx s0 (NewConnectionEnd C_TRYOPEN clientID cp [v] delay) h pf (cp_ConnectionId cp)
        (NewConnectionEnd C_INIT (cp_ClientId cp) (NewCounterparty clientID [] (GetCommitmentPrefix E)) vs delay) = Inr s1 \<and>
      conn_VerifyClientState E ctx s1 (NewConnectionEnd C_TRYOPEN clientID cp [v] delay) h pfc cs = Inr s2 \<and>
      conn_VerifyClientConsensusState E ctx s2 (NewConnectionEnd C_TRYOPEN clientID cp [v] delay) h ch pfs expected = Inr s3 \<and>
      GetClientState s3 clientID \<noteq> None \<and>
      s' = s3 \<lparr> clientConnections := (clientConnections s3)(clientID \<mapsto> paths_of s3 clientID @ [cid]),
        connections := (connections s3)(cid \<mapsto> NewConnectionEnd C_TRYOPEN clientID cp [v] delay) \<rparr>)"
  by (auto simp add: ConnOpenTry_def Let_def result_elims addConnectionToClient_Inr SetConnection_def split del: if_split)

lemma ack_guard:
  "(\<not> (st \<noteq> C_INIT \<and> st \<noteq> C_TRYOPEN) \<and> \<not> (st = C_INIT \<and> \<not> P) \<and>
    \<not> (st = C_TRYOPEN \<and> (length vs \<noteq> 1 \<or> vs ! 0 \<noteq> v)) \<and> R) \<longleftrightarrow>
   (st = C_INIT \<and> P \<or> st = C_TRYOPEN \<and> vs = [v]) \<and> R"
proof -
  have "\<not> (length vs \<noteq> 1 \<or> vs ! 0 \<noteq> v) \<longleftrightarrow> vs = [v]" by (cases vs) auto
  then show ?thesis by (cases st) auto
qed

lemma ConnOpenAck_iff:
  "ConnOpenAck E ctx s cid cs v cpid pf pfc pfs h ch = Inr s' \<longleftrightarrow>
   (\<exists>self c expected s1 s2 s3.
      GetSelfHeight ctx = Inr self \<and> \<not> GTE ch self \<and> connections s cid = Some c \<and>
      (conn_State c = C_INIT \<and> IsSupportedVersion v \<or> conn_State c = C_TRYOPEN \<and> conn_Versions c = [v]) \<and>
      ValidateSelfClient E ctx cs = Inr () \<and> GetSelfConsensusState E ctx ch = Inr expected \<and>
      conn_VerifyConnectionState E ctx s c h pf cpid (NewConnectionEnd C_TRYOPEN (cp_ClientId (conn_Counterparty c))
        (NewCounterparty (conn_ClientId c) cid (GetCommitmentPrefix E)) [v] (conn_DelayPeriod c)) = Inr s1 \<and>
      conn_VerifyClientState E ctx s1 c h pfc cs = Inr s2 \<and>
      conn_VerifyClientConsensusState E ctx s2 c h ch pfs expected = Inr s3 \<and>
      s' = s3 \<lparr> connections := (connections s3)(cid \<mapsto> c \<lparr> conn_State := C_OPEN, conn_Versions := [v],
        conn_Counterparty := (conn_Counterparty c) \<lparr> cp_ConnectionId := cpid \<rparr> \<rparr>) \<rparr>)"
  unfolding ConnOpenAck_def Let_def result_elims GetConnection_def SetConnection_def ack_guard
  by auto

lemma ConnOpenConfirm_iff:
  "ConnOpenConfirm E ctx s cid pf h = Inr s' \<longleftrightarrow>
   (\<exists>c s1. connections s cid = Some c \<and> conn_State c = C_TRYOPEN \<and>
      conn_VerifyConnectionState E ctx s c h pf (cp_ConnectionId (conn_Counterparty c))
        (NewConnectionEnd C_OPEN (cp_ClientId (conn_Counterparty c))
           (NewCounterparty (conn_ClientId c) cid (GetCommitmentPrefix E)) (conn_Versions c) (conn_DelayPeriod c)) = Inr s1 \<and>
      s' = s1 \<lparr> connections := (connections s1)(cid \<mapsto> c \<lparr> conn_State := C_OPEN \<rparr>) \<rparr>)"
  by (auto simp: ConnOpenConfirm_def Let_def result_elims GetConnection_def SetConnection_def)

lemma verified_frame_3: "verified_frame a b \<Longrightarrow> verified_frame b c \<Longrightarrow> verified_frame c d \<Longrightarrow> verified_frame a d"
  by (blast intro: verified_frame_trans)

lemma conn_writtenI:
  assumes "verified_frame (s \<lparr> nextConnectionSequence := n \<rparr>) s1"
  shows "conn_written s (s1 \<lparr> clientConnections := p, connections := (connections s1)(cid \<mapsto> c) \<rparr>) cid c"
  using assms verified_frame_fields(4) [OF assms]
  by (cases s; cases s1) (simp add: conn_written_def verified_frame_def GetClientState_def)

lemma conn_writtenI':
  assumes "verified_frame s s1"
  shows "conn_written s (s1 \<lparr> connections := (connections s1)(cid \<mapsto> c) \<rparr>) cid c"
  using assms verified_frame_fields(4) [OF assms]
  by (cases s; cases s1) (simp add: conn_written_def verified_frame_def GetClientState_def)

lemma ConnOpenTry_Inr:
  assumes "ConnOpenTry E ctx s previous cp delay clientID cs vs pf pfc pfs h ch = Inr (cid, s')"
  obtains c v where "c = NewConnectionEnd C_TRYOPEN clientID cp [v] delay"
    "conn_written s s' cid c" "registers s s' clientID cid"
    "if previous = [] then allocates s s' cid \<and> PickVersion GetCompatibleVersions vs = Inr v
     else cid = previous \<and> nextConnectionSequence s' = nextConnectionSequence s \<and>
       (\<exists>p. connections s previous = Some p \<and> conn_State p = C_INIT \<and> conn_ClientId p = clientID \<and>
          conn_DelayPeriod p = delay \<and> cp_ConnectionId (conn_Counterparty p) = [] \<and>
          cp_ClientId (conn_Counterparty p) = cp_ClientId cp \<and> cp_Prefix (conn_Counterparty p) = cp_Prefix cp \<and>
          PickVersion (if conn_Versions p = [] then GetCompatibleVersions else conn_Versions p) vs = Inr v)"
proof -
  from assms obtain pvs s0 self expected v s1 s2 s3 where
    prev: "previous_connection s previous cp delay clientID = Inr (cid, pvs, s0)" and
    v: "PickVersion (if length pvs \<noteq> 0 then pvs else GetCompatibleVersions) vs = Inr v" and
    ver: "conn_VerifyConnectionState E ctx s0 (NewConnectionEnd C_TRYOPEN clientID cp [v] delay) h pf (cp_ConnectionId cp)
        (NewConnectionEnd C_INIT (cp_ClientId cp) (NewCounterparty clientID [] (GetCommitmentPrefix E)) vs delay) = Inr s1"
      "conn_VerifyClientState E ctx s1 (NewConnectionEnd C_TRYOPEN clientID cp [v] delay) h pfc cs = Inr s2"
      "conn_VerifyClientConsensusState E ctx s2 (NewConnectionEnd C_TRYOPEN clientID cp [v] delay) h ch pfs expected = Inr s3" and
    cl: "GetClientState s3 clientID \<noteq> None" and
    s': "s' = s3 \<lparr> clientConnections := (clientConnections s3)(clientID \<mapsto> paths_of s3 clientID @ [cid]),
        connections := (connections s3)(cid \<mapsto> NewConnectionEnd C_TRYOPEN clientID cp [v] delay) \<rparr>"
    unfolding ConnOpenTry_iff by blast
  let ?c = "NewConnectionEnd C_TRYOPEN clientID cp [v] delay"
  from ver have f: "verified_frame s0 s3" by (blast intro: verified_frame_3 conn_verify_frames)
  let ?n = "nextConnectionSequence s0"
  from prev have s0: "s0 = s \<lparr> nextConnectionSequence := ?n \<rparr>"
    by (auto simp: previous_connection_def result_elims GenerateConnectionIdentifier_Inr split: if_splits)
  from f s0 have "verified_frame (s \<lparr> nextConnectionSequence := ?n \<rparr>) s3" by simp
  then have w: "conn_written s s' cid ?c" unfolding s' by (rule conn_writtenI)
  have "clientConnections s0 = clientConnections s" "GetClientState s0 clientID = GetClientState s clientID"
    by (subst s0, simp add: GetClientState_def)+
  with verified_frame_fields(3,5,16) [OF f] s' cl have reg: "registers s s' clientID cid"
    and n: "nextConnectionSequence s' = ?n" by (simp_all add: registers_def paths_of_def)
  from prev v n have "if previous = [] then allocates s s' cid \<and> PickVersion GetCompatibleVersions vs = Inr v
     else cid = previous \<and> nextConnectionSequence s' = nextConnectionSequence s \<and>
       (\<exists>p. connections s previous = Some p \<and> conn_State p = C_INIT \<and> conn_ClientId p = clientID \<and>
          conn_DelayPeriod p = delay \<and> cp_ConnectionId (conn_Counterparty p) = [] \<and>
          cp_ClientId (conn_Counterparty p) = cp_ClientId cp \<and> cp_Prefix (conn_Counterparty p) = cp_Prefix cp \<and>
          PickVersion (if conn_Versions p = [] then GetCompatibleVersions else conn_Versions p) vs = Inr v)"
    by (auto simp: previous_connection_def result_elims GenerateConnectionIdentifier_Inr GetConnection_def allocates_def
        split: if_splits)
  with that [OF refl w reg] show thesis by blast
qed

subsection \<open>The invariant of the connections\<close>

definition versions_ok :: "ConnectionEnd \<Rightarrow> bool" where
  "versions_ok c \<longleftrightarrow> conn_State c \<noteq> C_UNINITIALIZED \<and> conn_Versions c \<noteq> [] \<and> list_all IsSupportedVersion (conn_Versions c) \<and>
     (conn_State c \<noteq> C_INIT \<longrightarrow> length (conn_Versions c) = 1)"

definition conns_inv :: "'k ibc_state \<Rightarrow> bool" where
  "conns_inv s \<longleftrightarrow>
     (\<exists>n. nextConnectionSequence s = Some n \<and> connection_ids.ids_below (dom (connections s)) n) \<and>
     (\<forall>cid c. connections s cid = Some c \<longrightarrow>
        versions_ok c \<and> GetClientState s (conn_ClientId c) \<noteq> None \<and> cid \<in> set (paths_of s (conn_ClientId c)))"

lemma IsSupportedVersion_iff: "IsSupportedVersion v \<longleftrightarrow> VerifyProposedVersion DefaultIBCVersion v = Inr ()"
  by (auto simp: IsSupportedVersion_def GetCompatibleVersions_def is_ok_iff VerifyProposedVersion_iff)

lemma PickVersion_keeps_supported:
  assumes "list_all IsSupportedVersion ss" "PickVersion ss cs = Inr v"
  shows "IsSupportedVersion v"
  using PickVersion_Inr [OF assms(2)] assms(1)
  unfolding IsSupportedVersion_iff VerifyProposedVersion_iff list_all_iff by fastforce

lemma conn_trans_versions_ok:
  "conn_trans p c \<Longrightarrow> (\<And>q. p = Some q \<Longrightarrow> versions_ok q) \<Longrightarrow> versions_ok c"
  by (induction rule: conn_trans.induct) (auto simp: versions_ok_def intro: PickVersion_keeps_supported)

lemma conn_step_trans:
  assumes "conn_step E s s'" "conns_inv s"
  obtains cid c where "conn_trans (connections s cid) c" "conn_written s s' cid c"
    "GetClientState s (conn_ClientId c) \<noteq> None" "cid \<in> set (paths_of s' (conn_ClientId c))"
    "\<And>x. set (paths_of s x) \<subseteq> set (paths_of s' x)"
    "allocates s s' cid \<and> nextConnectionSequence s \<noteq> Some (- 1) \<or>
      nextConnectionSequence s' = nextConnectionSequence s \<and> connections s cid \<noteq> None"
proof -
  have fresh: "connections s cid = None" if "allocates s s' cid" for cid s'
    using that assms(2) by (auto simp: allocates_def conns_inv_def dom_def dest!: connection_ids.ids_below_fresh)
  have reg: "cid \<in> set (paths_of s' cl)" "set (paths_of s x) \<subseteq> set (paths_of s' x)" if "registers s s' cl cid" for s' cl cid x
    using that by (auto simp: registers_def paths_of_def)
  from assms(1) show thesis
  proof cases
    case (step_init clientID cp version delay cid)
    from ConnOpenInit_Inr [OF this(1)] obtain c where c: "conn_State c = C_INIT" "conn_Versions c \<noteq> []"
        "list_all IsSupportedVersion (conn_Versions c)" "conn_ClientId c = clientID"
        "conn_written s s' cid c" "registers s s' clientID cid" "allocates s s' cid" by blast
    with fresh have "conn_trans (connections s cid) c" by (simp add: conn_trans.init)
    with c reg [OF c(6)] that step_init(2) show thesis by (auto simp: registers_def)
  next
    case (step_try ctx previous cp delay clientID cs vs pf pfc pfs h ch cid)
    from step_try(1) show thesis
    proof (rule ConnOpenTry_Inr)
      fix c v
      assume c: "c = NewConnectionEnd C_TRYOPEN clientID cp [v] delay" and w: "conn_written s s' cid c"
        and r: "registers s s' clientID cid"
        and d: "if previous = [] then allocates s s' cid \<and> PickVersion GetCompatibleVersions vs = Inr v
         else cid = previous \<and> nextConnectionSequence s' = nextConnectionSequence s \<and>
         (\<exists>p. connections s previous = Some p \<and> conn_State p = C_INIT \<and> conn_ClientId p = clientID \<and>
            conn_DelayPeriod p = delay \<and> cp_ConnectionId (conn_Counterparty p) = [] \<and>
            cp_ClientId (conn_Counterparty p) = cp_ClientId cp \<and> cp_Prefix (conn_Counterparty p) = cp_Prefix cp \<and>
            PickVersion (if conn_Versions p = [] then GetCompatibleVersions else conn_Versions p) vs = Inr v)"
      have t: "conn_trans (connections s cid) c"
      proof (cases "previous = []")
        case True
        with d fresh have "connections s cid = None" "IsSupportedVersion v" by (auto intro: PickVersion_supported)
        with c show ?thesis by (simp add: NewConnectionEnd_def conn_trans.try_new)
      next
        case False
        with d assms(2) obtain p where p: "connections s cid = Some p" "conn_State p = C_INIT" "conn_ClientId p = clientID"
            "conn_DelayPeriod p = delay" "cp_ConnectionId (conn_Counterparty p) = []"
            "cp_ClientId (conn_Counterparty p) = cp_ClientId cp" "cp_Prefix (conn_Counterparty p) = cp_Prefix cp"
            "PickVersion (conn_Versions p) vs = Inr v"
          by (force simp: conns_inv_def versions_ok_def)
        then have "c = p \<lparr> conn_State := C_TRYOPEN, conn_Versions := [v],
            conn_Counterparty := (conn_Counterparty p) \<lparr> cp_ConnectionId := cp_ConnectionId cp \<rparr> \<rparr>"
          unfolding c by (cases p; cases cp) (auto simp: NewConnectionEnd_def)
        with p conn_trans.try_previous show ?thesis by simp
      qed
      have "conn_ClientId c = clientID" by (simp add: c NewConnectionEnd_def)
      with t w r d that reg [OF r] step_try(2) show thesis by (auto simp: registers_def split: if_splits)
    qed
  next
    case (step_ack ctx cid cs v cpid pf pfc pfs h ch)
    from step_ack obtain c expected s1 s2 s3 where c: "connections s cid = Some c"
        "conn_State c = C_INIT \<and> IsSupportedVersion v \<or> conn_State c = C_TRYOPEN \<and> conn_Versions c = [v]" and
      ver: "conn_VerifyConnectionState E ctx s c h pf cpid (NewConnectionEnd C_TRYOPEN (cp_ClientId (conn_Counterparty c))
          (NewCounterparty (conn_ClientId c) cid (GetCommitmentPrefix E)) [v] (conn_DelayPeriod c)) = Inr s1"
        "conn_VerifyClientState E ctx s1 c h pfc cs = Inr s2"
        "conn_VerifyClientConsensusState E ctx s2 c h ch pfs expected = Inr s3" and
      s': "s' = s3 \<lparr> connections := (connections s3)(cid \<mapsto> c \<lparr> conn_State := C_OPEN, conn_Versions := [v],
          conn_Counterparty := (conn_Counterparty c) \<lparr> cp_ConnectionId := cpid \<rparr> \<rparr>) \<rparr>"
      unfolding ConnOpenAck_iff by blast
    from ver have f: "verified_frame s s3" by (blast intro: verified_frame_3 conn_verify_frames)
    have w: "conn_written s s' cid (c \<lparr> conn_State := C_OPEN, conn_Versions := [v],
          conn_Counterparty := (conn_Counterparty c) \<lparr> cp_ConnectionId := cpid \<rparr> \<rparr>)" unfolding s' by (rule conn_writtenI' [OF f])
    show thesis
      using that [OF _ w] conn_trans.ack [OF c(2)] c(1) assms(2) verified_frame_fields(3,5) [OF f] s'
      by (auto simp: conns_inv_def paths_of_def)
  next
    case (step_confirm ctx cid pf h)
    then obtain c s1 where c: "connections s cid = Some c" "conn_State c = C_TRYOPEN" and f: "verified_frame s s1"
        and s': "s' = s1 \<lparr> connections := (connections s1)(cid \<mapsto> c \<lparr> conn_State := C_OPEN \<rparr>) \<rparr>"
      unfolding ConnOpenConfirm_iff by (blast intro: conn_verify_frames)
    have w: "conn_written s s' cid (c \<lparr> conn_State := C_OPEN \<rparr>)" unfolding s' by (rule conn_writtenI' [OF f])
    show thesis
      using that [OF _ w] conn_trans.confirm [OF c(2)] c(1) assms(2) verified_frame_fields(3,5) [OF f] s'
      by (auto simp: conns_inv_def paths_of_def)
  qed
qed

fun conn_rank :: "conn_state \<Rightarrow> nat" where
  "conn_rank C_UNINITIALIZED = 0"
| "conn_rank C_INIT = 1"
| "conn_rank C_TRYOPEN = 2"
| "conn_rank C_OPEN = 3"

definition conn_advanced :: "ConnectionEnd \<Rightarrow> ConnectionEnd \<Rightarrow> bool" where
  "conn_advanced c c' \<longleftrightarrow> conn_ClientId c' = conn_ClientId c \<and> conn_DelayPeriod c' = conn_DelayPeriod c \<and>
     cp_ClientId (conn_Counterparty c') = cp_ClientId (conn_Counterparty c) \<and>
     cp_Prefix (conn_Counterparty c') = cp_Prefix (conn_Counterparty c) \<and>
     (c' = c \<or> conn_rank (conn_State c) < conn_rank (conn_State c'))"

lemma conn_advanced_refl [simp]: "conn_advanced c c"
  by (simp add: conn_advanced_def)

lemma conn_advanced_trans: "conn_advanced a b \<Longrightarrow> conn_advanced b c \<Longrightarrow> conn_advanced a c"
  by (auto simp: conn_advanced_def)

lemma conn_trans_advanced: "conn_trans p c \<Longrightarrow> p = Some q \<Longrightarrow> conn_advanced q c"
  by (induction rule: conn_trans.induct) (auto simp: conn_advanced_def)

lemma conn_rank_open: "conn_rank C_OPEN < conn_rank st \<longleftrightarrow> False"
  by (cases st) simp_all

lemma conn_written_frame:
  assumes "conn_written s s' cid c"
  shows "connections s' = (connections s)(cid \<mapsto> c)" "GetClientState s' x = None \<longleftrightarrow> GetClientState s x = None"
    "channels s' = channels s" "packetCommitments s' = packetCommitments s" "packetReceipts s' = packetReceipts s"
    "packetAcks s' = packetAcks s" "capState s' = capState s"
proof -
  from assms have f: "verified_frame s (s' \<lparr> connections := connections s, clientConnections := clientConnections s,
       nextConnectionSequence := nextConnectionSequence s \<rparr>)" by (simp add: conn_written_def)
  show "connections s' = (connections s)(cid \<mapsto> c)" using assms by (simp add: conn_written_def)
  show "GetClientState s' x = None \<longleftrightarrow> GetClientState s x = None"
    using verified_frame_fields(16) [OF f] by (simp add: GetClientState_def)
  show "channels s' = channels s" "packetCommitments s' = packetCommitments s" "packetReceipts s' = packetReceipts s"
    "packetAcks s' = packetAcks s" "capState s' = capState s"
    using verified_frame_fields(7,11-13,15) [OF f] by simp_all
qed

lemma conn_step_inv:
  assumes "conn_step E s s'" "conns_inv s"
  shows "conns_inv s' \<and> (\<forall>cid c. connections s cid = Some c \<longrightarrow> (\<exists>c'. connections s' cid = Some c' \<and> conn_advanced c c'))"
  using assms
proof (rule conn_step_trans)
  fix cid c
  assume t: "conn_trans (connections s cid) c" and w: "conn_written s s' cid c"
    and cl: "GetClientState s (conn_ClientId c) \<noteq> None" and p: "cid \<in> set (paths_of s' (conn_ClientId c))"
      "\<And>x. set (paths_of s x) \<subseteq> set (paths_of s' x)"
    and n: "allocates s s' cid \<and> nextConnectionSequence s \<noteq> Some (- 1) \<or>
      nextConnectionSequence s' = nextConnectionSequence s \<and> connections s cid \<noteq> None"
  note fr = conn_written_frame [OF w]
  have "versions_ok c" using t assms(2) by (elim conn_trans_versions_ok) (auto simp: conns_inv_def)
  with assms(2) cl p fr(1,2) have "\<forall>x d. connections s' x = Some d \<longrightarrow>
      versions_ok d \<and> GetClientState s' (conn_ClientId d) \<noteq> None \<and> x \<in> set (paths_of s' (conn_ClientId d))"
    unfolding conns_inv_def by (auto split: if_splits simp del: not_None_eq intro: subsetD [OF p(2)])
  moreover have "\<exists>n. nextConnectionSequence s' = Some n \<and> connection_ids.ids_below (dom (connections s')) n"
    using n
  proof
    assume a: "allocates s s' cid \<and> nextConnectionSequence s \<noteq> Some (- 1)"
    then obtain n where "nextConnectionSequence s = Some n" "cid = FormatConnectionIdentifier n"
      "nextConnectionSequence s' = Some (n + 1)" "n \<noteq> - 1" by (auto simp: allocates_def)
    with assms(2) fr(1) connection_ids.ids_below_insert show ?thesis by (auto simp: conns_inv_def)
  next
    assume "nextConnectionSequence s' = nextConnectionSequence s \<and> connections s cid \<noteq> None"
    with assms(2) fr(1) show ?thesis by (auto simp: conns_inv_def insert_absorb domI)
  qed
  moreover have "\<exists>d'. connections s' x = Some d' \<and> conn_advanced d d'" if "connections s x = Some d" for x d
    using that t fr(1) conn_trans_advanced by (cases "x = cid") auto
  ultimately show ?thesis by (simp add: conns_inv_def)
qed

text \<open>
  C23: every successful step of the connection handshake moves exactly one connection end,
  along the transitions of the abstract state machine \<open>conn_trans\<close>; besides that end only the
  client's connection list, the connection counter and the states of solo machine clients
  that verified proofs may differ, and channels, packets and capabilities are untouched.
\<close>

theorem handshake_refines_state_machine:
  assumes "conn_step E s s'" and "conns_inv s"
  shows "\<exists>cid c. conn_trans (connections s cid) c \<and> connections s' = (connections s)(cid \<mapsto> c) \<and>
     verified_frame s (s' \<lparr> connections := connections s, clientConnections := clientConnections s,
       nextConnectionSequence := nextConnectionSequence s \<rparr>)"
  using assms by (rule conn_step_trans) (auto simp: conn_written_def)

text \<open>
  Every run of handshake steps (with fewer than \<open>2^64\<close> connections) keeps the invariant of
  the connections: fresh identifiers, an existing client that lists the connection, and
  supported versions, a single one once the handshake has passed INIT. No connection
  disappears, its client, delay period and counterparty's client and prefix never change,
  its state only advances, and an open connection never changes again.
\<close>

theorem conn_run_invariant:
  assumes "(conn_step E)\<^sup>*\<^sup>* s s'" and "conns_inv s"
  shows "conns_inv s' \<and> (\<forall>cid c. connections s cid = Some c \<longrightarrow>
     (\<exists>c'. connections s' cid = Some c' \<and> conn_advanced c c' \<and> (conn_State c = C_OPEN \<longrightarrow> c' = c)))"
proof -
  from assms have "conns_inv s' \<and> (\<forall>cid c. connections s cid = Some c \<longrightarrow> (\<exists>c'. connections s' cid = Some c' \<and> conn_advanced c c'))"
  proof (induction rule: rtranclp_induct)
    case base
    then show ?case by simp
  next
    case (step b d)
    from step.IH [OF step.prems] conn_step_inv [OF step.hyps(2)] show ?case
      by (meson conn_advanced_trans)
  qed
  moreover have "c' = c" if "conn_advanced c c'" "conn_State c = C_OPEN" for c c'
    using that by (auto simp: conn_advanced_def conn_rank_open simp del: conn_rank.simps)
  ultimately show ?thesis by blast
qed

subsection \<open>Proofs behind a handshake\<close>

text \<open>
  A Tendermint client accepts that the counterparty stores a value under a key: a Merkle
  proof checks against the root it trusts at that height.
\<close>

definition tm_member :: "'x env_scheme \<Rightarrow> client_store \<Rightarrow> tm_ClientState \<Rightarrow> Height \<Rightarrow> MerklePrefix \<Rightarrow> string \<Rightarrow> bytes \<Rightarrow> bytes \<Rightarrow> bool" where
  "tm_member E store cs height pre key v pf \<longleftrightarrow>
     (\<exists>mp cons path. cdc_UnmarshalMerkleProof E pf = Some mp \<and> GetConsensusState store height = Inr cons \<and>
        ApplyPrefix (Some pre) (NewMerklePath [key]) = Inr path \<and>
        VerifyMembership E mp (tm_ProofSpecs cs) (Some (tm_Root cons)) path v = Inr ())"

lemma tm_produceVerificationArgs_Inr:
  "tm_produceVerificationArgs E store cs height pre pf = Inr (mp, cons) \<Longrightarrow>
     cdc_UnmarshalMerkleProof E pf = Some mp \<and> GetConsensusState store height = Inr cons"
  by (auto simp: tm_produceVerificationArgs_def result_elims split: if_splits option.splits)

lemma tm_VerifyConnectionState_member:
  "tm_VerifyConnectionState E store cs height (Some pre) pf cid c = Inr () \<Longrightarrow>
     \<exists>bz. cdc_MarshalConnection E c = Some bz \<and> tm_member E store cs height pre (ConnectionPath cid) bz pf"
  by (auto simp: tm_VerifyConnectionState_def tm_member_def result_elims from_ext_def split: option.splits
      dest!: tm_produceVerificationArgs_Inr)

lemma conn_VerifyConnectionState_member:
  assumes "conn_VerifyConnectionState E ctx s c h pf cid d = Inr s'"
    and "GetClientState s (conn_ClientId c) = Some (TMClient tc)"
  shows "tm_Status ctx (clientStores s (conn_ClientId c)) tc = Active \<and>
     (\<exists>bz. cdc_MarshalConnection E d = Some bz \<and>
        tm_member E (clientStores s (conn_ClientId c)) tc h (cp_Prefix (conn_Counterparty c)) (ConnectionPath cid) bz pf)"
  using assms tm_VerifyConnectionState_member
  by (auto simp: conn_VerifyConnectionState_def with_active_client_Inr)

text \<open>
  C18: a connection over a Tendermint client becomes open only if a Merkle proof, checked
  against a root that the active client trusts, shows that the counterparty stores under
  the counterparty's connection identifier an end that names this very connection and
  client, agrees on the single version and the delay period, and is itself in TRYOPEN or
  OPEN.
\<close>

theorem open_connection_is_proved:
  assumes "conn_step E s s'" and "connections s' cid = Some c'" and "conn_State c' = C_OPEN"
    and "connections s cid \<noteq> Some c'"
    and "GetClientState s (conn_ClientId c') = Some (TMClient tc)"
  shows "\<exists>ctx pf height cend bz. tm_Status ctx (clientStores s (conn_ClientId c')) tc = Active \<and>
     cdc_MarshalConnection E cend = Some bz \<and>
     tm_member E (clientStores s (conn_ClientId c')) tc height (cp_Prefix (conn_Counterparty c'))
       (ConnectionPath (cp_ConnectionId (conn_Counterparty c'))) bz pf \<and>
     conn_State cend \<in> {C_TRYOPEN, C_OPEN} \<and> conn_ClientId cend = cp_ClientId (conn_Counterparty c') \<and>
     conn_Counterparty cend = NewCounterparty (conn_ClientId c') cid (GetCommitmentPrefix E) \<and>
     conn_Versions cend = conn_Versions c' \<and> conn_DelayPeriod cend = conn_DelayPeriod c'"
  using assms(1)
proof cases
  case (step_init clientID cp version delay x)
  from ConnOpenInit_Inr [OF this(1)] assms(2-4) show ?thesis
    by (auto simp: conn_written_def split: if_splits)
next
  case (step_try ctx previous cp delay clientID cs vs pf pfc pfs h ch x)
  from this(1) show ?thesis
    by (rule ConnOpenTry_Inr) (use assms(2-4) in \<open>auto simp: conn_written_def NewConnectionEnd_def split: if_splits\<close>)
next
  case (step_ack ctx x cs v cpid pf pfc pfs h ch)
  then obtain c s1 s3 where ver: "conn_VerifyConnectionState E ctx s c h pf cpid
       (NewConnectionEnd C_TRYOPEN (cp_ClientId (conn_Counterparty c))
          (NewCounterparty (conn_ClientId c) x (GetCommitmentPrefix E)) [v] (conn_DelayPeriod c)) = Inr s1"
    and f: "verified_frame s s3"
    and s': "s' = s3 \<lparr> connections := (connections s3)(x \<mapsto> c \<lparr> conn_State := C_OPEN, conn_Versions := [v],
        conn_Counterparty := (conn_Counterparty c) \<lparr> cp_ConnectionId := cpid \<rparr> \<rparr>) \<rparr>"
    unfolding ConnOpenAck_iff by (blast intro: verified_frame_3 conn_verify_frames)
  from verified_frame_fields(4) [OF f] s' assms(2,4) have "x = cid" by (auto split: if_splits)
  with s' assms(2) have c': "c' = c \<lparr> conn_State := C_OPEN, conn_Versions := [v],
        conn_Counterparty := (conn_Counterparty c) \<lparr> cp_ConnectionId := cpid \<rparr> \<rparr>" by simp
  with assms(5) have "GetClientState s (conn_ClientId c) = Some (TMClient tc)" by simp
  from conn_VerifyConnectionState_member [OF ver this] c' \<open>x = cid\<close> show ?thesis
    by (auto simp: NewConnectionEnd_def intro!: exI)
next
  case (step_confirm ctx x pf h)
  then obtain c s1 where ver: "conn_VerifyConnectionState E ctx s c h pf (cp_ConnectionId (conn_Counterparty c))
        (NewConnectionEnd C_OPEN (cp_ClientId (conn_Counterparty c))
           (NewCounterparty (conn_ClientId c) x (GetCommitmentPrefix E)) (conn_Versions c) (conn_DelayPeriod c)) = Inr s1"
    and s': "s' = s1 \<lparr> connections := (connections s1)(x \<mapsto> c \<lparr> conn_State := C_OPEN \<rparr>) \<rparr>"
    unfolding ConnOpenConfirm_iff by blast
  from verified_frame_fields(4) [OF conn_verify_frames(3) [OF ver]] s' assms(2,4) have "x = cid" by (auto split: if_splits)
  with s' assms(2) have c': "c' = c \<lparr> conn_State := C_OPEN \<rparr>" by simp
  with assms(5) have "GetClientState s (conn_ClientId c) = Some (TMClient tc)" by simp
  from conn_VerifyConnectionState_member [OF ver this] c' \<open>x = cid\<close> show ?thesis
    by (auto simp: NewConnectionEnd_def intro!: exI)
qed

subsection \<open>The block delay\<close>

lemma ceil_div_least:
  fixes d t k :: int
  assumes "0 < t"
  shows "(d + t - 1) div t \<le> k \<longleftrightarrow> d \<le> k * t"
proof -
  let ?q = "(d + t - 1) div t"
  have x: "d + t - 1 = ?q * t + (d + t - 1) mod t" "0 \<le> (d + t - 1) mod t" "(d + t - 1) mod t < t"
    using assms by simp_all
  show ?thesis
  proof
    assume "?q \<le> k"
    then have "?q * t \<le> k * t" using assms by (intro mult_right_mono) simp_all
    with x show "d \<le> k * t" by linarith
  next
    assume "d \<le> k * t"
    with x have "?q * t < k * t + t" by linarith
    then have "?q * t < (k + 1) * t" by (simp add: algebra_simps)
    with assms show "?q \<le> k" by simp
  qed
qed

text \<open>
  C26: although it is computed in floating point, the block delay of a connection is the
  least number of blocks that lasts the delay period when every block takes the maximal
  expected time, for all delays and block times below \<open>2^53\<close> nanoseconds (104 days).
\<close>

theorem getBlockDelay_least:
  assumes "conn_DelayPeriod c < 2 ^ 53" and "maxExpectedTimePerBlock s < 2 ^ 53" and "maxExpectedTimePerBlock s \<noteq> 0"
  shows "uint (getBlockDelay E s c) \<le> k \<longleftrightarrow> uint (conn_DelayPeriod c) \<le> k * uint (maxExpectedTimePerBlock s)"
proof -
  let ?d = "uint (conn_DelayPeriod c)" and ?t = "uint (maxExpectedTimePerBlock s)"
  from assms have d: "0 \<le> ?d" "?d < 2 ^ 53" and t: "?t < 2 ^ 53" by (simp_all add: word_less_def)
  from assms(3) have t0: "0 < ?t" by (simp add: word_neq_0_conv word_less_def)
  let ?c = "(?d + ?t - 1) div ?t"
  have f: "float_ceil (float_div (float_of_u64 (conn_DelayPeriod c)) (float_of_u64 (maxExpectedTimePerBlock s))) = ?c"
    using float_ceil_div_exact [OF d t0 t] d t t0 by (simp add: float_of_u64_def round53_small)
  have "?c \<le> ?d" using t0 d by (simp add: ceil_div_least mult_le_cancel_left1)
  moreover have "0 \<le> ?c" using t0 d by (intro pos_imp_zdiv_nonneg_iff [THEN iffD2]) linarith+
  ultimately have "uint (of_int ?c :: u64) = ?c" "?c < 2 ^ 64" using d by (simp_all add: uint_word_of_int)
  then have "uint (getBlockDelay E s c) = ?c" using f assms(3) by (simp add: getBlockDelay_def Let_def)
  then show ?thesis using ceil_div_least [OF t0] by simp
qed

subsection \<open>Concrete handshakes\<close>

definition demo_kenv :: "unit keeper_env" where
  "demo_kenv = env.extend (lax_env \<lparr> cdc_UnmarshalMerkleProof := (\<lambda>b.
       Some (MerkleProof [if b = ''absent'' then CP_Nonexist b else CP_Exist b, CP_Exist b])) \<rparr>)
     \<lparr> stk_GetHistoricalInfo = (\<lambda>_. Some \<lparr> hdr_ChainID = ''self-1'', hdr_Height = 9, hdr_Time = 70, hdr_ValidatorsHash = ''v'',
         hdr_NextValidatorsHash = ''v'', hdr_AppHash = ''a'', hdr_Other = [] \<rparr>),
       stk_UnbondingTime = 2000, upg_UpgradePath = [''upgrade''], sdk_Specs = [Some [], Some []], sdk_StoreKeyName = ''ibc'',
       go_uint64_of_large_float = 0, cap_Authenticate = (\<lambda>_ _ _. True), cap_New = (\<lambda>_ _. Some (0, ())),
       cap_Get = (\<lambda>_ _. Some 0), cap_Lookup = (\<lambda>_ _. Some ([''ibc'', ''transfer''], 0)) \<rparr>"

definition demo_tm2 :: tm_ClientState where
  "demo_tm2 = demo_tm \<lparr> tm_ProofSpecs := [Some [], Some []] \<rparr>"

definition demo_conn_state :: "unit ibc_state" where
  "demo_conn_state = set_client_store (empty_ibc_state ()) ''07-tendermint-0''
     (demo_tm_store \<lparr> st_clientState := Some (TMClient demo_tm2) \<rparr>)"

definition demo_cp :: conn_counterparty where
  "demo_cp = NewCounterparty ''07-tendermint-9'' [] ''ibc''"

definition demo_self :: ClientState where
  "demo_self = TMClient (demo_tm2 \<lparr> tm_ChainId := ''self-1'' \<rparr>)"

definition demo_init :: "(string \<times> unit ibc_state) result" where
  "demo_init = ConnOpenInit demo_conn_state ''07-tendermint-0'' demo_cp None 5"

definition demo_ack :: "unit ibc_state result" where
  "demo_ack = (case demo_init of Inl e \<Rightarrow> Inl e | Inr (cid, s) \<Rightarrow>
     ConnOpenAck demo_kenv demo_ctx s cid demo_self DefaultIBCVersion ''connection-4'' ''p'' ''q'' ''r'' (Height 1 5) (Height 1 9))"

lemma demo_init_ok:
  "\<exists>s. demo_init = Inr (''connection-0'', s) \<and> connections s ''connection-0'' \<noteq> None \<and>
     (\<forall>c. connections s ''connection-0'' = Some c \<longrightarrow> conn_State c = C_INIT) \<and>
     GetClientState s ''07-tendermint-0'' = Some (TMClient demo_tm2)"
proof -
  have "case demo_init of Inl _ \<Rightarrow> False | Inr (cid, s) \<Rightarrow> cid = ''connection-0'' \<and>
      (case connections s ''connection-0'' of None \<Rightarrow> False | Some c \<Rightarrow> conn_State c = C_INIT) \<and>
      GetClientState s ''07-tendermint-0'' = Some (TMClient demo_tm2)" by code_simp
  then show ?thesis by (auto split: sum.splits option.splits)
qed

lemma demo_ack_ok:
  "\<exists>s c. demo_ack = Inr s \<and> connections s ''connection-0'' = Some c \<and> conn_State c = C_OPEN \<and> conn_ClientId c = ''07-tendermint-0''"
proof -
  have "case demo_ack of Inl _ \<Rightarrow> False | Inr s \<Rightarrow> (case connections s ''connection-0'' of None \<Rightarrow> False
      | Some c \<Rightarrow> conn_State c = C_OPEN \<and> conn_ClientId c = ''07-tendermint-0'')" by code_simp
  then show ?thesis by (auto split: sum.splits option.splits)
qed

lemma demo_conn_state_inv: "conns_inv demo_conn_state"
  by (simp add: conns_inv_def demo_conn_state_def set_client_store_def empty_ibc_state_def connection_ids.ids_below_empty)

lemma demo_steps:
  assumes "demo_init = Inr (cid, s1)" "demo_ack = Inr s2"
  shows "conn_step demo_kenv demo_conn_state s1" "conn_step demo_kenv s1 s2"
proof -
  show "conn_step demo_kenv demo_conn_state s1"
    using assms(1) unfolding demo_init_def
    by (rule conn_step.step_init) (simp add: demo_conn_state_def set_client_store_def empty_ibc_state_def)
  show "conn_step demo_kenv s1 s2"
    using assms(2) unfolding demo_ack_def assms(1) sum.case prod.case by (rule conn_step.step_ack)
qed

theorem handshake_refines_state_machine_witness:
  "\<exists>s x c. demo_init = Inr (''connection-0'', s) \<and> conn_trans (connections demo_conn_state x) c \<and>
     connections s = (connections demo_conn_state)(x \<mapsto> c)"
proof -
  from demo_init_ok demo_ack_ok obtain s1 s2 where s: "demo_init = Inr (''connection-0'', s1)" "demo_ack = Inr s2" by blast
  from handshake_refines_state_machine [OF demo_steps(1) [OF s] demo_conn_state_inv] s(1) show ?thesis by blast
qed

theorem conn_run_invariant_witness:
  "\<exists>s. demo_ack = Inr s \<and> conns_inv s"
proof -
  from demo_init_ok demo_ack_ok obtain s1 s2 where s: "demo_init = Inr (''connection-0'', s1)" "demo_ack = Inr s2" by blast
  from demo_steps [OF s] have "(conn_step demo_kenv)\<^sup>*\<^sup>* demo_conn_state s2" by auto
  from conn_run_invariant [OF this demo_conn_state_inv] s(2) show ?thesis by blast
qed

theorem open_connection_is_proved_witness:
  "\<exists>s1 height bz pf. demo_init = Inr (''connection-0'', s1) \<and>
     tm_member demo_kenv (clientStores s1 ''07-tendermint-0'') demo_tm2 height ''ibc'' (ConnectionPath ''connection-4'') bz pf"
proof -
  from demo_init_ok obtain s1 where i: "demo_init = Inr (''connection-0'', s1)"
      "\<forall>c. connections s1 ''connection-0'' = Some c \<longrightarrow> conn_State c = C_INIT"
      "GetClientState s1 ''07-tendermint-0'' = Some (TMClient demo_tm2)" by blast
  from demo_ack_ok obtain s2 c where a: "demo_ack = Inr s2" "connections s2 ''connection-0'' = Some c"
      "conn_State c = C_OPEN" "conn_ClientId c = ''07-tendermint-0''" by blast
  have "case demo_ack of Inl _ \<Rightarrow> False | Inr s \<Rightarrow> (case connections s ''connection-0'' of None \<Rightarrow> False
      | Some c \<Rightarrow> conn_Counterparty c = demo_cp \<lparr> cp_ConnectionId := ''connection-4'' \<rparr>)" by code_simp
  then have cp: "conn_Counterparty c = demo_cp \<lparr> cp_ConnectionId := ''connection-4'' \<rparr>"
    unfolding a(1) sum.case a(2) option.case .
  from i(2) a(3) have new: "connections s1 ''connection-0'' \<noteq> Some c" by auto
  from open_connection_is_proved [OF demo_steps(2) [OF i(1) a(1)] a(2,3) new] i a(4) cp
  show ?thesis by (auto simp: demo_cp_def NewCounterparty_def)
qed

theorem getBlockDelay_least_witness:
  "uint (getBlockDelay demo_kenv demo_conn_state (NewConnectionEnd C_OPEN ''c'' demo_cp [] 60000000001)) \<le> 3 \<and>
   \<not> uint (getBlockDelay demo_kenv demo_conn_state (NewConnectionEnd C_OPEN ''c'' demo_cp [] 60000000001)) \<le> 2"
proof -
  have t: "maxExpectedTimePerBlock demo_conn_state = 30000000000"
    by (simp add: demo_conn_state_def set_client_store_def empty_ibc_state_def)
  then show ?thesis
    using getBlockDelay_least [of "NewConnectionEnd C_OPEN ''c'' demo_cp [] 60000000001" demo_conn_state demo_kenv]
    by (simp add: NewConnectionEnd_def)
qed

end
