(* ===== verification/ChannelKeeper.thy ===== *)
theory ChannelKeeper
  imports ConnectionKeeper
begin

text \<open>
  The port keeper (\<^verbatim>\<open>modules/core/05-port/keeper\<close>) and the store access and handshake of the
  channel keeper (\<^verbatim>\<open>modules/core/04-channel/keeper\<close>, \<^verbatim>\<open>keeper.go\<close> and \<^verbatim>\<open>handshake.go\<close>). A
  handshake step comes in two parts, a check that runs before the application's callback
  and a write that runs after it, as the message server calls them.

  The lemmas follow a channel end through the opening and closing handshakes.
\<close>

subsection \<open>Ports (05-port)\<close>

definition IsBound :: "('k, 'x) keeper_env_scheme \<Rightarrow> 'k ibc_state \<Rightarrow> string \<Rightarrow> bool" where
  "IsBound E s portID = (cap_Get E (capState s) (PortPath portID) \<noteq> None)"

definition BindPort :: "('k, 'x) keeper_env_scheme \<Rightarrow> 'k ibc_state \<Rightarrow> string \<Rightarrow> (Capability \<times> 'k ibc_state) result" where
  "BindPort E s portID =
     (if \<not> is_ok (PortIdentifierValidator portID) then Inl Panic
      else if IsBound E s portID then Inl Panic
      else case cap_New E (capState s) (PortPath portID) of
             None \<Rightarrow> Inl Panic
           | Some (key, k) \<Rightarrow> Inr (key, s \<lparr> capState := k \<rparr>))"

definition port_Authenticate :: "('k, 'x) keeper_env_scheme \<Rightarrow> 'k ibc_state \<Rightarrow> Capability option \<Rightarrow> string \<Rightarrow> bool result" where
  "port_Authenticate E s key portID =
     (if \<not> is_ok (PortIdentifierValidator portID) then Inl Panic
      else Inr (cap_Authenticate E (capState s) key (PortPath portID)))"

definition GetModuleOwner :: "string list \<Rightarrow> string result" where
  "GetModuleOwner modules =
     (if length modules \<noteq> 2 then Inl Panic
      else if modules ! 0 = ''ibc'' then Inr (modules ! 1)
      else Inr (modules ! 0))"

definition LookupModuleByPort :: "('k, 'x) keeper_env_scheme \<Rightarrow> 'k ibc_state \<Rightarrow> string \<Rightarrow> (string \<times> Capability) result" where
  "LookupModuleByPort E s portID =
     (case cap_Lookup E (capState s) (PortPath portID) of
        None \<Rightarrow> Inl (External ''capability'')
      | Some (modules, cap) \<Rightarrow> (case GetModuleOwner modules of Inl e \<Rightarrow> Inl e | Inr owner \<Rightarrow> Inr (owner, cap)))"

subsection \<open>Store access (keeper.go)\<close>

definition GetNextChannelSequence :: "'k ibc_state \<Rightarrow> u64 result" where
  "GetNextChannelSequence s = (case nextChannelSequence s of None \<Rightarrow> Inl Panic | Some n \<Rightarrow> Inr n)"

definition SetNextChannelSequence :: "'k ibc_state \<Rightarrow> u64 \<Rightarrow> 'k ibc_state" where
  "SetNextChannelSequence s sequence = s \<lparr> nextChannelSequence := Some sequence \<rparr>"

definition GenerateChannelIdentifier :: "'k ibc_state \<Rightarrow> (string \<times> 'k ibc_state) result" where
  "GenerateChannelIdentifier s =
     (case GetNextChannelSequence s of
        Inl e \<Rightarrow> Inl e
      | Inr nextChannelSeq \<Rightarrow>
          Inr (FormatChannelIdentifier nextChannelSeq, SetNextChannelSequence s (nextChannelSeq + 1)))"

definition GetChannel :: "'k ibc_state \<Rightarrow> string \<Rightarrow> string \<Rightarrow> Channel option" where
  "GetChannel s portID channelID = channels s (portID, channelID)"

definition SetChannel :: "'k ibc_state \<Rightarrow> string \<Rightarrow> string \<Rightarrow> Channel \<Rightarrow> 'k ibc_state" where
  "SetChannel s portID channelID channel = s \<lparr> channels := (channels s)((portID, channelID) \<mapsto> channel) \<rparr>"

definition GetNextSequenceSend :: "'k ibc_state \<Rightarrow> string \<Rightarrow> string \<Rightarrow> u64 option" where
  "GetNextSequenceSend s portID channelID = nextSequenceSend s (portID, channelID)"

definition SetNextSequenceSend :: "'k ibc_state \<Rightarrow> string \<Rightarrow> string \<Rightarrow> u64 \<Rightarrow> 'k ibc_state" where
  "SetNextSequenceSend s portID channelID sequence =
     s \<lparr> nextSequenceSend := (nextSequenceSend s)((portID, channelID) \<mapsto> sequence) \<rparr>"

definition GetNextSequenceRecv :: "'k ibc_state \<Rightarrow> string \<Rightarrow> string \<Rightarrow> u64 option" where
  "GetNextSequenceRecv s portID channelID = nextSequenceRecv s (portID, channelID)"

definition SetNextSequenceRecv :: "'k ibc_state \<Rightarrow> string \<Rightarrow> string \<Rightarrow> u64 \<Rightarrow> 'k ibc_state" where
  "SetNextSequenceRecv s portID channelID sequence =
     s \<lparr> nextSequenceRecv := (nextSequenceRecv s)((portID, channelID) \<mapsto> sequence) \<rparr>"

definition GetNextSequenceAck :: "'k ibc_state \<Rightarrow> string \<Rightarrow> string \<Rightarrow> u64 option" where
  "GetNextSequenceAck s portID channelID = nextSequenceAck s (portID, channelID)"

definition SetNextSequenceAck :: "'k ibc_state \<Rightarrow> string \<Rightarrow> string \<Rightarrow> u64 \<Rightarrow> 'k ibc_state" where
  "SetNextSequenceAck s portID channelID sequence =
     s \<lparr> nextSequenceAck := (nextSequenceAck s)((portID, channelID) \<mapsto> sequence) \<rparr>"

definition GetPacketReceipt :: "'k ibc_state \<Rightarrow> string \<Rightarrow> string \<Rightarrow> u64 \<Rightarrow> bytes option" where
  "GetPacketReceipt s portID channelID sequence = packetReceipts s (portID, channelID, sequence)"

definition SetPacketReceipt :: "'k ibc_state \<Rightarrow> string \<Rightarrow> string \<Rightarrow> u64 \<Rightarrow> 'k ibc_state" where
  "SetPacketReceipt s portID channelID sequence =
     s \<lparr> packetReceipts := (packetReceipts s)((portID, channelID, sequence) \<mapsto> [char_of (1 :: nat)]) \<rparr>"

text \<open>A missing commitment is read as nil, an empty byte string.\<close>

definition GetPacketCommitment :: "'k ibc_state \<Rightarrow> string \<Rightarrow> string \<Rightarrow> u64 \<Rightarrow> bytes" where
  "GetPacketCommitment s portID channelID sequence =
     (case packetCommitments s (portID, channelID, sequence) of None \<Rightarrow> [] | Some bz \<Rightarrow> bz)"

definition HasPacketCommitment :: "'k ibc_state \<Rightarrow> string \<Rightarrow> string \<Rightarrow> u64 \<Rightarrow> bool" where
  "HasPacketCommitment s portID channelID sequence = (packetCommitments s (portID, channelID, sequence) \<noteq> None)"

definition SetPacketCommitment :: "'k ibc_state \<Rightarrow> string \<Rightarrow> string \<Rightarrow> u64 \<Rightarrow> bytes \<Rightarrow> 'k ibc_state" where
  "SetPacketCommitment s portID channelID sequence commitmentHash =
     s \<lparr> packetCommitments := (packetCommitments s)((portID, channelID, sequence) \<mapsto> commitmentHash) \<rparr>"

definition deletePacketCommitment :: "'k ibc_state \<Rightarrow> string \<Rightarrow> string \<Rightarrow> u64 \<Rightarrow> 'k ibc_state" where
  "deletePacketCommitment s portID channelID sequence =
     s \<lparr> packetCommitments := (packetCommitments s)((portID, channelID, sequence) := None) \<rparr>"

definition SetPacketAcknowledgement :: "'k ibc_state \<Rightarrow> string \<Rightarrow> string \<Rightarrow> u64 \<Rightarrow> bytes \<Rightarrow> 'k ibc_state" where
  "SetPacketAcknowledgement s portID channelID sequence ackHash =
     s \<lparr> packetAcks := (packetAcks s)((portID, channelID, sequence) \<mapsto> ackHash) \<rparr>"

definition GetPacketAcknowledgement :: "'k ibc_state \<Rightarrow> string \<Rightarrow> string \<Rightarrow> u64 \<Rightarrow> bytes option" where
  "GetPacketAcknowledgement s portID channelID sequence = packetAcks s (portID, channelID, sequence)"

definition HasPacketAcknowledgement :: "'k ibc_state \<Rightarrow> string \<Rightarrow> string \<Rightarrow> u64 \<Rightarrow> bool" where
  "HasPacketAcknowledgement s portID channelID sequence = (packetAcks s (portID, channelID, sequence) \<noteq> None)"

text \<open>\<^verbatim>\<open>channel.ConnectionHops[0]\<close> and the connection under it; no hop is an index out of range.\<close>

definition first_hop :: "string list \<Rightarrow> string result" where
  "first_hop hops = (case hops of [] \<Rightarrow> Inl Panic | h # _ \<Rightarrow> Inr h)"

definition hop_connection :: "'k ibc_state \<Rightarrow> string list \<Rightarrow> ConnectionEnd result" where
  "hop_connection s hops =
     (case first_hop hops of Inl e \<Rightarrow> Inl e | Inr h \<Rightarrow>
     (case GetConnection s h of None \<Rightarrow> Inl (ConnectionE ErrConnectionNotFound) | Some c \<Rightarrow> Inr c))"

definition open_connection :: "'k ibc_state \<Rightarrow> string list \<Rightarrow> ConnectionEnd result" where
  "open_connection s hops =
     (case hop_connection s hops of Inl e \<Rightarrow> Inl e | Inr c \<Rightarrow>
      if conn_State c \<noteq> C_OPEN then Inl (ConnectionE ErrInvalidConnectionState) else Inr c)"

definition GetChannelClientState :: "'k ibc_state \<Rightarrow> string \<Rightarrow> string \<Rightarrow> (string \<times> ClientState) result" where
  "GetChannelClientState s portID channelID =
     (case GetChannel s portID channelID of None \<Rightarrow> Inl (ChannelE ErrChannelNotFound) | Some channel \<Rightarrow>
     (case hop_connection s (chan_ConnectionHops channel) of Inl e \<Rightarrow> Inl e | Inr connection \<Rightarrow>
     (case GetClientState s (conn_ClientId connection) of
        None \<Rightarrow> Inl (ClientE ErrClientNotFound)
      | Some clientState \<Rightarrow> Inr (conn_ClientId connection, clientState))))"

definition GetChannelConnection :: "'k ibc_state \<Rightarrow> string \<Rightarrow> string \<Rightarrow> (string \<times> ConnectionEnd) result" where
  "GetChannelConnection s portID channelID =
     (case GetChannel s portID channelID of None \<Rightarrow> Inl (ChannelE ErrChannelNotFound) | Some channel \<Rightarrow>
     (case first_hop (chan_ConnectionHops channel) of Inl e \<Rightarrow> Inl e | Inr connectionID \<Rightarrow>
     (case GetConnection s connectionID of
        None \<Rightarrow> Inl (ConnectionE ErrConnectionNotFound)
      | Some connection \<Rightarrow> Inr (connectionID, connection))))"

definition LookupModuleByChannel :: "('k, 'x) keeper_env_scheme \<Rightarrow> 'k ibc_state \<Rightarrow> string \<Rightarrow> string \<Rightarrow> (string \<times> Capability) result" where
  "LookupModuleByChannel E s portID channelID =
     (case cap_Lookup E (capState s) (ChannelCapabilityPath portID channelID) of
        None \<Rightarrow> Inl (External ''capability'')
      | Some (modules, cap) \<Rightarrow> (case GetModuleOwner modules of Inl e \<Rightarrow> Inl e | Inr owner \<Rightarrow> Inr (owner, cap)))"

definition chan_Authenticate :: "('k, 'x) keeper_env_scheme \<Rightarrow> 'k ibc_state \<Rightarrow> Capability option \<Rightarrow> string \<Rightarrow> string \<Rightarrow> bool" where
  "chan_Authenticate E s cap portID channelID = cap_Authenticate E (capState s) cap (ChannelCapabilityPath portID channelID)"

definition new_channel_capability :: "('k, 'x) keeper_env_scheme \<Rightarrow> 'k ibc_state \<Rightarrow> string \<Rightarrow> string \<Rightarrow> (Capability \<times> 'k ibc_state) result" where
  "new_channel_capability E s portID channelID =
     (case cap_New E (capState s) (ChannelCapabilityPath portID channelID) of
        None \<Rightarrow> Inl (External ''capability'')
      | Some (cap, k) \<Rightarrow> Inr (cap, s \<lparr> capState := k \<rparr>))"

subsection \<open>Opening handshake (handshake.go)\<close>

text \<open>The single version a connection must have negotiated, and whether it supports an ordering.\<close>

definition check_ordering_version :: "ConnectionEnd \<Rightarrow> Order \<Rightarrow> unit result" where
  "check_ordering_version connectionEnd order =
     (let getVersions = conn_Versions connectionEnd in
      if length getVersions \<noteq> 1 then Inl (ConnectionE conn_ErrInvalidVersion)
      else if \<not> VerifySupportedFeature (getVersions ! 0) (Order_String order) then Inl (ConnectionE conn_ErrInvalidVersion)
      else Inr ())"

definition ChanOpenInit :: "('k, 'x) keeper_env_scheme \<Rightarrow> 'k ibc_state \<Rightarrow> Order \<Rightarrow> string list \<Rightarrow> string \<Rightarrow> Capability option \<Rightarrow>
    chan_counterparty \<Rightarrow> string \<Rightarrow> (string \<times> Capability \<times> 'k ibc_state) result" where
  "ChanOpenInit E s order connectionHops portID portCap counterparty version =
     (case hop_connection s connectionHops of Inl e \<Rightarrow> Inl e | Inr connectionEnd \<Rightarrow>
     (case check_ordering_version connectionEnd order of Inl e \<Rightarrow> Inl e | Inr _ \<Rightarrow>
     (case port_Authenticate E s portCap portID of Inl e \<Rightarrow> Inl e | Inr ok \<Rightarrow>
      if \<not> ok then Inl (PortE ErrInvalidPort)
      else case GenerateChannelIdentifier s of Inl e \<Rightarrow> Inl e | Inr (channelID, s) \<Rightarrow>
     (case new_channel_capability E s portID channelID of Inl e \<Rightarrow> Inl e | Inr (capKey, s) \<Rightarrow>
      Inr (channelID, capKey, s)))))"

definition init_sequences :: "'k ibc_state \<Rightarrow> string \<Rightarrow> string \<Rightarrow> 'k ibc_state" where
  "init_sequences s portID channelID =
     SetNextSequenceAck (SetNextSequenceRecv (SetNextSequenceSend s portID channelID 1) portID channelID 1) portID channelID 1"

definition WriteOpenInitChannel :: "'k ibc_state \<Rightarrow> string \<Rightarrow> string \<Rightarrow> Order \<Rightarrow> string list \<Rightarrow> chan_counterparty \<Rightarrow> string \<Rightarrow>
    'k ibc_state" where
  "WriteOpenInitChannel s portID channelID order connectionHops counterparty version =
     init_sequences (SetChannel s portID channelID (NewChannel INIT order counterparty connectionHops version)) portID channelID"

definition previous_channel :: "'k ibc_state \<Rightarrow> Order \<Rightarrow> string list \<Rightarrow> string \<Rightarrow> string \<Rightarrow> chan_counterparty \<Rightarrow> string \<Rightarrow>
    (string \<times> bool \<times> 'k ibc_state) result" where
  "previous_channel s order connectionHops portID previousChannelID counterparty counterpartyVersion =
     (if previousChannelID \<noteq> [] then
       (case GetChannel s portID previousChannelID of
          None \<Rightarrow> Inl (ChannelE ErrInvalidChannel)
        | Some previousChannel \<Rightarrow>
          if \<not> (chan_Ordering previousChannel = order \<and>
                ch_PortId (chan_Counterparty previousChannel) = ch_PortId counterparty \<and>
                ch_ChannelId (chan_Counterparty previousChannel) = []) then Inl (ChannelE ErrInvalidChannel)
          else case first_hop (chan_ConnectionHops previousChannel) of Inl e \<Rightarrow> Inl e | Inr previousHop \<Rightarrow>
          if \<not> (previousHop = connectionHops ! 0 \<and> chan_Version previousChannel = counterpartyVersion)
          then Inl (ChannelE ErrInvalidChannel)
          else if chan_State previousChannel \<noteq> INIT then Inl (ChannelE ErrInvalidChannelState)
          else Inr (previousChannelID, True, s))
      else (case GenerateChannelIdentifier s of Inl e \<Rightarrow> Inl e | Inr (channelID, s) \<Rightarrow> Inr (channelID, False, s)))"

definition ChanOpenTry :: "('k, 'x) keeper_env_scheme \<Rightarrow> ctx \<Rightarrow> 'k ibc_state \<Rightarrow> Order \<Rightarrow> string list \<Rightarrow> string \<Rightarrow> string \<Rightarrow>
    Capability option \<Rightarrow> chan_counterparty \<Rightarrow> string \<Rightarrow> bytes \<Rightarrow> Height \<Rightarrow> (string \<times> Capability \<times> 'k ibc_state) result" where
  "ChanOpenTry E ctx s order connectionHops portID previousChannelID portCap counterparty counterpartyVersion proofInit proofHeight =
     (if length connectionHops \<noteq> 1 then Inl (ChannelE ErrTooManyConnectionHops)
      else case previous_channel s order connectionHops portID previousChannelID counterparty counterpartyVersion of
        Inl e \<Rightarrow> Inl e
      | Inr (channelID, previousChannelFound, s) \<Rightarrow>
     (case port_Authenticate E s portCap portID of Inl e \<Rightarrow> Inl e | Inr ok \<Rightarrow>
      if \<not> ok then Inl (PortE ErrInvalidPort)
      else case open_connection s connectionHops of Inl e \<Rightarrow> Inl e | Inr connectionEnd \<Rightarrow>
     (case check_ordering_version connectionEnd order of Inl e \<Rightarrow> Inl e | Inr _ \<Rightarrow>
      let counterpartyHops = [cp_ConnectionId (conn_Counterparty connectionEnd)];
          expectedChannel = NewChannel INIT order (chan_NewCounterparty portID []) counterpartyHops counterpartyVersion in
     (case conn_VerifyChannelState E ctx s connectionEnd proofHeight proofInit (ch_PortId counterparty) (ch_ChannelId counterparty)
             expectedChannel of Inl e \<Rightarrow> Inl e | Inr s \<Rightarrow>
      if \<not> previousChannelFound then
        (case new_channel_capability E s portID channelID of Inl e \<Rightarrow> Inl e | Inr (capKey, s) \<Rightarrow> Inr (channelID, capKey, s))
      else (case cap_Get E (capState s) (ChannelCapabilityPath portID channelID) of
              None \<Rightarrow> Inl (ChannelE ErrChannelCapabilityNotFound)
            | Some capKey \<Rightarrow> Inr (channelID, capKey, s))))))"

definition WriteOpenTryChannel :: "'k ibc_state \<Rightarrow> string \<Rightarrow> string \<Rightarrow> Order \<Rightarrow> string list \<Rightarrow> chan_counterparty \<Rightarrow> string \<Rightarrow>
    'k ibc_state" where
  "WriteOpenTryChannel s portID channelID order connectionHops counterparty version =
     (let s = (if GetChannel s portID channelID = None then init_sequences s portID channelID else s) in
      SetChannel s portID channelID (NewChannel TRYOPEN order counterparty connectionHops version))"

definition ChanOpenAck :: "('k, 'x) keeper_env_scheme \<Rightarrow> ctx \<Rightarrow> 'k ibc_state \<Rightarrow> string \<Rightarrow> string \<Rightarrow> Capability option \<Rightarrow> string \<Rightarrow> string \<Rightarrow>
    bytes \<Rightarrow> Height \<Rightarrow> 'k ibc_state result" where
  "ChanOpenAck E ctx s portID channelID chanCap counterpartyVersion counterpartyChannelID proofTry proofHeight =
     (case GetChannel s portID channelID of None \<Rightarrow> Inl (ChannelE ErrChannelNotFound) | Some channel \<Rightarrow>
      if \<not> (chan_State channel = INIT \<or> chan_State channel = TRYOPEN) then Inl (ChannelE ErrInvalidChannelState)
      else if \<not> chan_Authenticate E s chanCap portID channelID then Inl (ChannelE ErrChannelCapabilityNotFound)
      else case open_connection s (chan_ConnectionHops channel) of Inl e \<Rightarrow> Inl e | Inr connectionEnd \<Rightarrow>
      let counterpartyHops = [cp_ConnectionId (conn_Counterparty connectionEnd)];
          expectedChannel = NewChannel TRYOPEN (chan_Ordering channel) (chan_NewCounterparty portID channelID) counterpartyHops
            counterpartyVersion in
      conn_VerifyChannelState E ctx s connectionEnd proofHeight proofTry (ch_PortId (chan_Counterparty channel))
        counterpartyChannelID expectedChannel)"

definition WriteOpenAckChannel :: "'k ibc_state \<Rightarrow> string \<Rightarrow> string \<Rightarrow> string \<Rightarrow> string \<Rightarrow> 'k ibc_state result" where
  "WriteOpenAckChannel s portID channelID counterpartyVersion counterpartyChannelID =
     (case GetChannel s portID channelID of None \<Rightarrow> Inl Panic | Some channel \<Rightarrow>
      Inr (SetChannel s portID channelID (channel \<lparr> chan_State := OPEN, chan_Version := counterpartyVersion,
        chan_Counterparty := (chan_Counterparty channel) \<lparr> ch_ChannelId := counterpartyChannelID \<rparr> \<rparr>)))"

definition ChanOpenConfirm :: "('k, 'x) keeper_env_scheme \<Rightarrow> ctx \<Rightarrow> 'k ibc_state \<Rightarrow> string \<Rightarrow> string \<Rightarrow> Capability option \<Rightarrow> bytes \<Rightarrow> Height \<Rightarrow>
    'k ibc_state result" where
  "ChanOpenConfirm E ctx s portID channelID chanCap proofAck proofHeight =
     (case GetChannel s portID channelID of None \<Rightarrow> Inl (ChannelE ErrChannelNotFound) | Some channel \<Rightarrow>
      if chan_State channel \<noteq> TRYOPEN then Inl (ChannelE ErrInvalidChannelState)
      else if \<not> chan_Authenticate E s chanCap portID channelID then Inl (ChannelE ErrChannelCapabilityNotFound)
      else case open_connection s (chan_ConnectionHops channel) of Inl e \<Rightarrow> Inl e | Inr connectionEnd \<Rightarrow>
      let counterpartyHops = [cp_ConnectionId (conn_Counterparty connectionEnd)];
          expectedChannel = NewChannel OPEN (chan_Ordering channel) (chan_NewCounterparty portID channelID) counterpartyHops
            (chan_Version channel) in
      conn_VerifyChannelState E ctx s connectionEnd proofHeight proofAck (ch_PortId (chan_Counterparty channel))
        (ch_ChannelId (chan_Counterparty channel)) expectedChannel)"

definition WriteOpenConfirmChannel :: "'k ibc_state \<Rightarrow> string \<Rightarrow> string \<Rightarrow> 'k ibc_state result" where
  "WriteOpenConfirmChannel s portID channelID =
     (case GetChannel s portID channelID of None \<Rightarrow> Inl Panic | Some channel \<Rightarrow>
      Inr (SetChannel s portID channelID (channel \<lparr> chan_State := OPEN \<rparr>)))"

subsection \<open>Closing handshake (handshake.go)\<close>

definition ChanCloseInit :: "('k, 'x) keeper_env_scheme \<Rightarrow> 'k ibc_state \<Rightarrow> string \<Rightarrow> string \<Rightarrow> Capability option \<Rightarrow> 'k ibc_state result" where
  "ChanCloseInit E s portID channelID chanCap =
     (if \<not> chan_Authenticate E s chanCap portID channelID then Inl (ChannelE ErrChannelCapabilityNotFound)
      else case GetChannel s portID channelID of None \<Rightarrow> Inl (ChannelE ErrChannelNotFound) | Some channel \<Rightarrow>
      if chan_State channel = CLOSED then Inl (ChannelE ErrInvalidChannelState)
      else case open_connection s (chan_ConnectionHops channel) of Inl e \<Rightarrow> Inl e | Inr connectionEnd \<Rightarrow>
      Inr (SetChannel s portID channelID (channel \<lparr> chan_State := CLOSED \<rparr>)))"

definition ChanCloseConfirm :: "('k, 'x) keeper_env_scheme \<Rightarrow> ctx \<Rightarrow> 'k ibc_state \<Rightarrow> string \<Rightarrow> string \<Rightarrow> Capability option \<Rightarrow> bytes \<Rightarrow> Height \<Rightarrow>
    'k ibc_state result" where
  "ChanCloseConfirm E ctx s portID channelID chanCap proofInit proofHeight =
     (if \<not> chan_Authenticate E s chanCap portID channelID then Inl (ChannelE ErrChannelCapabilityNotFound)
      else case GetChannel s portID channelID of None \<Rightarrow> Inl (ChannelE ErrChannelNotFound) | Some channel \<Rightarrow>
      if chan_State channel = CLOSED then Inl (ChannelE ErrInvalidChannelState)
      else case open_connection s (chan_ConnectionHops channel) of Inl e \<Rightarrow> Inl e | Inr connectionEnd \<Rightarrow>
      let counterpartyHops = [cp_ConnectionId (conn_Counterparty connectionEnd)];
          expectedChannel = NewChannel CLOSED (chan_Ordering channel) (chan_NewCounterparty portID channelID) counterpartyHops
            (chan_Version channel) in
     (case conn_VerifyChannelState E ctx s connectionEnd proofHeight proofInit (ch_PortId (chan_Counterparty channel))
             (ch_ChannelId (chan_Counterparty channel)) expectedChannel of Inl e \<Rightarrow> Inl e | Inr s \<Rightarrow>
      Inr (SetChannel s portID channelID (channel \<lparr> chan_State := CLOSED \<rparr>))))"

subsection \<open>The life of a channel end\<close>

text \<open>The abstract state machine of one channel end.\<close>

inductive chan_trans :: "Channel option \<Rightarrow> Channel \<Rightarrow> bool" where
  chan_init: "chan_State c = INIT \<Longrightarrow> chan_trans None c"
| chan_try_new: "chan_State c = TRYOPEN \<Longrightarrow> chan_trans None c"
| chan_try_previous: "chan_State p = INIT \<Longrightarrow> ch_ChannelId (chan_Counterparty p) = [] \<Longrightarrow>
    chan_trans (Some p) (p \<lparr> chan_State := TRYOPEN, chan_Version := v, chan_ConnectionHops := take 1 (chan_ConnectionHops p),
      chan_Counterparty := (chan_Counterparty p) \<lparr> ch_ChannelId := x \<rparr> \<rparr>)"
| chan_ack: "chan_State p \<in> {INIT, TRYOPEN} \<Longrightarrow>
    chan_trans (Some p) (p \<lparr> chan_State := OPEN, chan_Version := v,
      chan_Counterparty := (chan_Counterparty p) \<lparr> ch_ChannelId := x \<rparr> \<rparr>)"
| chan_confirm: "chan_State p = TRYOPEN \<Longrightarrow> chan_trans (Some p) (p \<lparr> chan_State := OPEN \<rparr>)"
| chan_close: "chan_State p \<noteq> CLOSED \<Longrightarrow> chan_trans (Some p) (p \<lparr> chan_State := CLOSED \<rparr>)"

text \<open>
  What a step of the handshake may rely on of the application callback that runs between its
  check and its write: the callback may claim capabilities and send packets, but leaves the
  channel ends and the channel counter alone and removes no sequence counter.
\<close>

definition callback_ok :: "'k ibc_state \<Rightarrow> 'k ibc_state \<Rightarrow> bool" where
  "callback_ok s s' \<longleftrightarrow> channels s' = channels s \<and> nextChannelSequence s' = nextChannelSequence s \<and>
     dom (nextSequenceSend s) \<subseteq> dom (nextSequenceSend s') \<and> dom (nextSequenceRecv s) \<subseteq> dom (nextSequenceRecv s') \<and>
     dom (nextSequenceAck s) \<subseteq> dom (nextSequenceAck s')"

inductive chan_step :: "('k, 'x) keeper_env_scheme \<Rightarrow> 'k ibc_state \<Rightarrow> 'k ibc_state \<Rightarrow> bool" for E where
  open_init: "ChanOpenInit E s order hops port pcap cp v = Inr (chan, cap, s1) \<Longrightarrow> nextChannelSequence s \<noteq> Some (- 1) \<Longrightarrow>
    callback_ok s1 s2 \<Longrightarrow> chan_step E s (WriteOpenInitChannel s2 port chan order hops cp v)"
| open_try: "ChanOpenTry E ctx s order hops port previous pcap cp v pf h = Inr (chan, cap, s1) \<Longrightarrow> nextChannelSequence s \<noteq> Some (- 1) \<Longrightarrow>
    callback_ok s1 s2 \<Longrightarrow> chan_step E s (WriteOpenTryChannel s2 port chan order hops cp v')"
| open_ack: "ChanOpenAck E ctx s port chan cap v cpid pf h = Inr s1 \<Longrightarrow> callback_ok s1 s2 \<Longrightarrow>
    WriteOpenAckChannel s2 port chan v cpid = Inr s' \<Longrightarrow> chan_step E s s'"
| open_confirm: "ChanOpenConfirm E ctx s port chan cap pf h = Inr s1 \<Longrightarrow> callback_ok s1 s2 \<Longrightarrow>
    WriteOpenConfirmChannel s2 port chan = Inr s' \<Longrightarrow> chan_step E s s'"
| close_init: "callback_ok s s1 \<Longrightarrow> ChanCloseInit E s1 port chan cap = Inr s' \<Longrightarrow> chan_step E s s'"
| close_confirm: "callback_ok s s1 \<Longrightarrow> ChanCloseConfirm E ctx s1 port chan cap pf h = Inr s' \<Longrightarrow> chan_step E s s'"

definition chans_inv :: "'k ibc_state \<Rightarrow> bool" where
  "chans_inv s \<longleftrightarrow>
     (\<exists>n. nextChannelSequence s = Some n \<and> channel_ids.ids_below (snd ` dom (channels s)) n) \<and>
     (\<forall>ch c. channels s ch = Some c \<longrightarrow> chan_State c \<noteq> UNINITIALIZED \<and> chan_ConnectionHops c \<noteq> [] \<and>
        ch \<in> dom (nextSequenceSend s) \<inter> dom (nextSequenceRecv s) \<inter> dom (nextSequenceAck s))"

lemma GenerateChannelIdentifier_Inr:
  "GenerateChannelIdentifier s = Inr (cid, s') \<longleftrightarrow>
     (\<exists>n. nextChannelSequence s = Some n \<and> cid = FormatChannelIdentifier n \<and> s' = s \<lparr> nextChannelSequence := Some (n + 1) \<rparr>)"
  by (auto simp: GenerateChannelIdentifier_def GetNextChannelSequence_def SetNextChannelSequence_def split: option.splits)

lemma new_channel_capability_Inr:
  "new_channel_capability E s port chan = Inr (cap, s') \<Longrightarrow> \<exists>k. s' = s \<lparr> capState := k \<rparr>"
  by (auto simp: new_channel_capability_def split: option.splits)

lemma first_hop_Inr: "first_hop hops = Inr h \<longleftrightarrow> (\<exists>hs. hops = h # hs)"
  by (cases hops) (auto simp: first_hop_def)

lemma hop_connection_Inr:
  "hop_connection s hops = Inr c \<longleftrightarrow> (\<exists>h hs. hops = h # hs \<and> connections s h = Some c)"
  by (cases hops) (auto simp: hop_connection_def first_hop_def GetConnection_def split: option.splits)

lemma open_connection_Inr:
  "open_connection s hops = Inr c \<longleftrightarrow> hop_connection s hops = Inr c \<and> conn_State c = C_OPEN"
  by (auto simp: open_connection_def result_elims)

text \<open>The checks change no channel.\<close>

definition check_frame :: "'k ibc_state \<Rightarrow> 'k ibc_state \<Rightarrow> bool" where
  "check_frame s s' \<longleftrightarrow> channels s' = channels s \<and> nextSequenceSend s' = nextSequenceSend s \<and>
     nextSequenceRecv s' = nextSequenceRecv s \<and> nextSequenceAck s' = nextSequenceAck s"

lemma check_frame_verified: "verified_frame s s' \<Longrightarrow> check_frame s s' \<and> nextChannelSequence s' = nextChannelSequence s"
  by (simp add: check_frame_def verified_frame_fields)

lemma ChanOpenInit_Inr:
  assumes "ChanOpenInit E s order hops port pcap cp v = Inr (chan, cap, s1)"
  shows "check_frame s s1 \<and> hops \<noteq> [] \<and>
     (\<exists>n. nextChannelSequence s = Some n \<and> chan = FormatChannelIdentifier n \<and> nextChannelSequence s1 = Some (n + 1))"
  using assms
  by (auto simp: ChanOpenInit_def result_elims GenerateChannelIdentifier_Inr hop_connection_Inr check_frame_def
      dest!: new_channel_capability_Inr)

lemma ChanOpenTry_Inr:
  assumes "ChanOpenTry E ctx s order hops port previous pcap cp v pf h = Inr (chan, cap, s1)"
  shows "check_frame s s1 \<and> (\<exists>h0. hops = [h0] \<and>
     (if previous = [] then
        \<exists>n. nextChannelSequence s = Some n \<and> chan = FormatChannelIdentifier n \<and> nextChannelSequence s1 = Some (n + 1)
      else chan = previous \<and> nextChannelSequence s1 = nextChannelSequence s \<and>
        (\<exists>p hs. channels s (port, previous) = Some p \<and> chan_State p = INIT \<and> chan_Ordering p = order \<and>
           ch_PortId (chan_Counterparty p) = ch_PortId cp \<and> ch_ChannelId (chan_Counterparty p) = [] \<and>
           chan_ConnectionHops p = h0 # hs)))"
proof -
  from assms obtain found s0 conn s2 where l: "length hops = 1"
    and prev: "previous_channel s order hops port previous cp v = Inr (chan, found, s0)"
    and ver: "conn_VerifyChannelState E ctx s0 conn h pf (ch_PortId cp) (ch_ChannelId cp)
        (NewChannel INIT order (chan_NewCounterparty port []) [cp_ConnectionId (conn_Counterparty conn)] v) = Inr s2"
    and fin: "(if \<not> found then
        (case new_channel_capability E s2 port chan of Inl e \<Rightarrow> Inl e | Inr (capKey, s) \<Rightarrow> Inr (chan, capKey, s))
      else (case cap_Get E (capState s2) (ChannelCapabilityPath port chan) of
              None \<Rightarrow> Inl (ChannelE ErrChannelCapabilityNotFound)
            | Some capKey \<Rightarrow> Inr (chan, capKey, s2))) = Inr (chan, cap, s1)"
    by (auto simp: ChanOpenTry_def result_elims Let_def simp del: length_Suc_conv split: if_splits)
  from l obtain h0 where h0: "hops = [h0]" by (auto simp: length_Suc_conv)
  from fin obtain k where "s1 = s2 \<lparr> capState := k \<rparr> \<or> s1 = s2"
    by (auto simp: result_elims split: if_splits dest!: new_channel_capability_Inr)
  then have f2: "check_frame s2 s1" "nextChannelSequence s1 = nextChannelSequence s2" by (auto simp: check_frame_def)
  from check_frame_verified [OF conn_verify_frames(4) [OF ver]] have f1: "check_frame s0 s2" "nextChannelSequence s2 = nextChannelSequence s0"
    by blast+
  have "check_frame s s0 \<and> (if previous = [] then
        \<exists>n. nextChannelSequence s = Some n \<and> chan = FormatChannelIdentifier n \<and> nextChannelSequence s0 = Some (n + 1)
      else chan = previous \<and> nextChannelSequence s0 = nextChannelSequence s \<and>
        (\<exists>p hs. channels s (port, previous) = Some p \<and> chan_State p = INIT \<and> chan_Ordering p = order \<and>
           ch_PortId (chan_Counterparty p) = ch_PortId cp \<and> ch_ChannelId (chan_Counterparty p) = [] \<and>
           chan_ConnectionHops p = h0 # hs))"
    using prev h0
    by (auto simp: previous_channel_def result_elims GenerateChannelIdentifier_Inr GetChannel_def first_hop_Inr check_frame_def
        split: if_splits)
  with h0 f1 f2 show ?thesis by (auto simp: check_frame_def split: if_splits)
qed

lemma chan_check_Inr:
  "ChanOpenAck E ctx s port chan cap v cpid pf h = Inr s1 \<Longrightarrow>
     \<exists>c. channels s (port, chan) = Some c \<and> chan_State c \<in> {INIT, TRYOPEN} \<and> verified_frame s s1"
  "ChanOpenConfirm E ctx s port chan cap pf h = Inr s1 \<Longrightarrow>
     \<exists>c. channels s (port, chan) = Some c \<and> chan_State c = TRYOPEN \<and> verified_frame s s1"
  "ChanCloseInit E s port chan cap = Inr s1 \<Longrightarrow>
     \<exists>c. channels s (port, chan) = Some c \<and> chan_State c \<noteq> CLOSED \<and>
       s1 = s \<lparr> channels := (channels s)((port, chan) \<mapsto> c \<lparr> chan_State := CLOSED \<rparr>) \<rparr>"
  "ChanCloseConfirm E ctx s port chan cap pf h = Inr s1 \<Longrightarrow>
     \<exists>c s0. channels s (port, chan) = Some c \<and> chan_State c \<noteq> CLOSED \<and> verified_frame s s0 \<and>
       s1 = s0 \<lparr> channels := (channels s0)((port, chan) \<mapsto> c \<lparr> chan_State := CLOSED \<rparr>) \<rparr>"
  by (auto simp: ChanOpenAck_def ChanOpenConfirm_def ChanCloseInit_def ChanCloseConfirm_def result_elims Let_def GetChannel_def
      SetChannel_def intro: conn_verify_frames)

text \<open>A step writes one channel end, fresh ones with their three counters.\<close>

definition counted :: "'k ibc_state \<Rightarrow> chan_key set" where
  "counted s = dom (nextSequenceSend s) \<inter> dom (nextSequenceRecv s) \<inter> dom (nextSequenceAck s)"

lemma chans_inv_alt:
  "chans_inv s \<longleftrightarrow>
     (\<exists>n. nextChannelSequence s = Some n \<and> channel_ids.ids_below (snd ` dom (channels s)) n) \<and>
     (\<forall>ch c. channels s ch = Some c \<longrightarrow> chan_State c \<noteq> UNINITIALIZED \<and> chan_ConnectionHops c \<noteq> [] \<and> ch \<in> counted s)"
  by (simp only: chans_inv_def counted_def)

lemma counted_mono: "callback_ok s s' \<Longrightarrow> counted s \<subseteq> counted s'" "check_frame s s' \<Longrightarrow> counted s' = counted s"
  by (auto simp: callback_ok_def counted_def check_frame_def)

lemma write_init:
  "channels (WriteOpenInitChannel s port chan order hops cp v) = (channels s)((port, chan) \<mapsto> NewChannel INIT order cp hops v)"
  "nextChannelSequence (WriteOpenInitChannel s port chan order hops cp v) = nextChannelSequence s"
  "counted (WriteOpenInitChannel s port chan order hops cp v) = insert (port, chan) (counted s)"
  by (auto simp: WriteOpenInitChannel_def init_sequences_def SetChannel_def SetNextSequenceAck_def SetNextSequenceRecv_def
      SetNextSequenceSend_def counted_def)

lemma write_try:
  "channels (WriteOpenTryChannel s port chan order hops cp v) = (channels s)((port, chan) \<mapsto> NewChannel TRYOPEN order cp hops v)"
  "nextChannelSequence (WriteOpenTryChannel s port chan order hops cp v) = nextChannelSequence s"
  "counted s \<subseteq> counted (WriteOpenTryChannel s port chan order hops cp v)"
  "channels s (port, chan) = None \<Longrightarrow> (port, chan) \<in> counted (WriteOpenTryChannel s port chan order hops cp v)"
  by (auto simp: WriteOpenTryChannel_def init_sequences_def SetChannel_def SetNextSequenceAck_def SetNextSequenceRecv_def
      SetNextSequenceSend_def counted_def GetChannel_def Let_def)

lemma counted_channels [simp]: "counted (s \<lparr> channels := m \<rparr>) = counted s"
  by (simp add: counted_def)

lemma write_open:
  "WriteOpenAckChannel s port chan v cpid = Inr s' \<Longrightarrow> channels s (port, chan) = Some c \<Longrightarrow>
     s' = s \<lparr> channels := (channels s)((port, chan) \<mapsto> c \<lparr> chan_State := OPEN, chan_Version := v,
       chan_Counterparty := (chan_Counterparty c) \<lparr> ch_ChannelId := cpid \<rparr> \<rparr>) \<rparr>"
  "WriteOpenConfirmChannel s port chan = Inr s' \<Longrightarrow> channels s (port, chan) = Some c \<Longrightarrow>
     s' = s \<lparr> channels := (channels s)((port, chan) \<mapsto> c \<lparr> chan_State := OPEN \<rparr>) \<rparr>"
  by (auto simp: WriteOpenAckChannel_def WriteOpenConfirmChannel_def GetChannel_def SetChannel_def)

text \<open>How a step relates the counters and the written end.\<close>

definition chan_written :: "'k ibc_state \<Rightarrow> 'k ibc_state \<Rightarrow> chan_key \<Rightarrow> Channel \<Rightarrow> bool" where
  "chan_written s s' ch c \<longleftrightarrow> chan_trans (channels s ch) c \<and> channels s' = (channels s)(ch \<mapsto> c) \<and>
     counted s \<subseteq> counted s' \<and> chan_ConnectionHops c \<noteq> [] \<and>
     (channels s ch = None \<and> ch \<in> counted s' \<and>
        (\<exists>n. nextChannelSequence s = Some n \<and> n \<noteq> - 1 \<and> snd ch = FormatChannelIdentifier n \<and> nextChannelSequence s' = Some (n + 1)) \<or>
      channels s ch \<noteq> None \<and> nextChannelSequence s' = nextChannelSequence s)"

lemma chan_written_inv:
  assumes "chan_written s s' ch c" "chans_inv s"
  shows "chans_inv s'"
proof -
  from assms(1) have w: "chan_trans (channels s ch) c" "channels s' = (channels s)(ch \<mapsto> c)" "counted s \<subseteq> counted s'"
      "chan_ConnectionHops c \<noteq> []"
    and alt: "channels s ch = None \<and> ch \<in> counted s' \<and>
        (\<exists>n. nextChannelSequence s = Some n \<and> n \<noteq> - 1 \<and> snd ch = FormatChannelIdentifier n \<and> nextChannelSequence s' = Some (n + 1)) \<or>
      channels s ch \<noteq> None \<and> nextChannelSequence s' = nextChannelSequence s"
    by (auto simp: chan_written_def)
  from w(1) have "chan_State c \<noteq> UNINITIALIZED" by (cases rule: chan_trans.cases) auto
  moreover from alt assms(2) w(3) have "ch \<in> counted s'" unfolding chans_inv_alt by blast
  moreover have "\<exists>n. nextChannelSequence s' = Some n \<and> channel_ids.ids_below (snd ` dom (channels s')) n"
    using alt
  proof
    assume "channels s ch = None \<and> ch \<in> counted s' \<and>
        (\<exists>n. nextChannelSequence s = Some n \<and> n \<noteq> - 1 \<and> snd ch = FormatChannelIdentifier n \<and> nextChannelSequence s' = Some (n + 1))"
    with assms(2) w(2) channel_ids.ids_below_insert show ?thesis by (auto simp: chans_inv_alt image_insert)
  next
    assume "channels s ch \<noteq> None \<and> nextChannelSequence s' = nextChannelSequence s"
    with assms(2) w(2) show ?thesis by (auto simp: chans_inv_alt insert_absorb domI)
  qed
  ultimately show ?thesis using assms(2) w unfolding chans_inv_alt by auto
qed

lemma fresh_channel:
  assumes "chans_inv s" "nextChannelSequence s = Some n"
  shows "channels s (port, FormatChannelIdentifier n) = None"
proof -
  from assms have "channel_ids.ids_below (snd ` dom (channels s)) n" unfolding chans_inv_alt by auto
  then have "FormatChannelIdentifier n \<notin> snd ` dom (channels s)" by (rule channel_ids.ids_below_fresh)
  then show ?thesis by (metis domIff image_eqI snd_conv)
qed

lemma written_init:
  assumes "chans_inv s" "ChanOpenInit E s order hops port pcap cp v = Inr (chan, cap, s1)" "nextChannelSequence s \<noteq> Some (- 1)"
    "callback_ok s1 s2"
  shows "chan_written s (WriteOpenInitChannel s2 port chan order hops cp v) (port, chan) (NewChannel INIT order cp hops v)"
proof -
  from ChanOpenInit_Inr [OF assms(2)] obtain n where f: "check_frame s s1" "hops \<noteq> []"
    and n: "nextChannelSequence s = Some n" "chan = FormatChannelIdentifier n" "nextChannelSequence s1 = Some (n + 1)" by blast
  have "counted s \<subseteq> counted s2" using counted_mono(2) [OF f(1)] counted_mono(1) [OF assms(4)] by simp
  moreover have "channels s2 = channels s" "nextChannelSequence s2 = nextChannelSequence s1"
    using assms(4) f(1) by (simp_all add: callback_ok_def check_frame_def)
  ultimately show ?thesis using fresh_channel [OF assms(1) n(1), of port] n f(2) assms(3)
    by (simp add: chan_written_def write_init NewChannel_def chan_trans.chan_init subset_insertI2)
qed

lemma written_try:
  assumes "chans_inv s" "ChanOpenTry E ctx s order hops port previous pcap cp v pf h = Inr (chan, cap, s1)"
    "nextChannelSequence s \<noteq> Some (- 1)" "callback_ok s1 s2"
  shows "chan_written s (WriteOpenTryChannel s2 port chan order hops cp v') (port, chan) (NewChannel TRYOPEN order cp hops v')"
proof -
  define s' where s': "s' = WriteOpenTryChannel s2 port chan order hops cp v'"
  from ChanOpenTry_Inr [OF assms(2)] obtain h0 where f: "check_frame s s1" "hops = [h0]"
    and alt: "if previous = [] then
        \<exists>n. nextChannelSequence s = Some n \<and> chan = FormatChannelIdentifier n \<and> nextChannelSequence s1 = Some (n + 1)
      else chan = previous \<and> nextChannelSequence s1 = nextChannelSequence s \<and>
      (\<exists>p hs. channels s (port, previous) = Some p \<and> chan_State p = INIT \<and> chan_Ordering p = order \<and>
         ch_PortId (chan_Counterparty p) = ch_PortId cp \<and> ch_ChannelId (chan_Counterparty p) = [] \<and>
         chan_ConnectionHops p = h0 # hs)" by blast
  have sub: "counted s \<subseteq> counted s'"
    using counted_mono(2) [OF f(1)] counted_mono(1) [OF assms(4)] write_try(3) unfolding s' by blast
  have upd: "channels s' = (channels s)((port, chan) \<mapsto> NewChannel TRYOPEN order cp hops v')"
      "nextChannelSequence s' = nextChannelSequence s1" "channels s2 = channels s"
    using f assms(4) unfolding s' write_try by (simp_all add: callback_ok_def check_frame_def)
  have "chan_written s s' (port, chan) (NewChannel TRYOPEN order cp hops v')"
  proof (cases "previous = []")
    case True
    with alt obtain n where n: "nextChannelSequence s = Some n" "chan = FormatChannelIdentifier n" "nextChannelSequence s1 = Some (n + 1)"
      by auto
    from fresh_channel [OF assms(1) n(1), of port] n(2) upd(3) have "channels s (port, chan) = None" "(port, chan) \<in> counted s'"
      unfolding s' by (simp_all add: write_try(4))
    with n upd sub f(2) assms(3) have "chan_written s s' (port, chan) (NewChannel TRYOPEN order cp hops v')"
      by (auto simp: chan_written_def NewChannel_def chan_trans.chan_try_new)
    then show ?thesis .
  next
    case False
    with alt obtain p hs where p: "chan = previous" "nextChannelSequence s1 = nextChannelSequence s"
        "channels s (port, chan) = Some p" "chan_State p = INIT" "chan_Ordering p = order"
        "ch_PortId (chan_Counterparty p) = ch_PortId cp" "ch_ChannelId (chan_Counterparty p) = []" "chan_ConnectionHops p = h0 # hs"
      by auto
    then have eq: "NewChannel TRYOPEN order cp hops v' =
        p \<lparr> chan_State := TRYOPEN, chan_Version := v', chan_ConnectionHops := take 1 (chan_ConnectionHops p),
          chan_Counterparty := (chan_Counterparty p) \<lparr> ch_ChannelId := ch_ChannelId cp \<rparr> \<rparr>"
      using f(2) by (cases p; cases cp) (auto simp: NewChannel_def)
    have "chan_trans (Some p) (NewChannel TRYOPEN order cp hops v')" unfolding eq by (rule chan_trans.chan_try_previous [OF p(4,7)])
    then show ?thesis using p(1-3) upd sub f(2) by (simp add: chan_written_def NewChannel_def)
  qed
  then show ?thesis by (simp only: s')
qed

lemma written_existing:
  assumes "chans_inv s" "channels s ch = Some p" "chan_trans (Some p) c" "channels s' = (channels s)(ch \<mapsto> c)"
    "counted s \<subseteq> counted s'" "nextChannelSequence s' = nextChannelSequence s" "chan_ConnectionHops c = chan_ConnectionHops p"
  shows "chan_written s s' ch c"
proof -
  from assms(1,2) have "chan_ConnectionHops p \<noteq> []" unfolding chans_inv_alt by blast
  with assms show ?thesis by (simp add: chan_written_def)
qed

lemma verified_callback:
  assumes "verified_frame s s1" "callback_ok s1 s2"
  shows "channels s2 = channels s" "counted s \<subseteq> counted s2" "nextChannelSequence s2 = nextChannelSequence s"
proof -
  from check_frame_verified [OF assms(1)] have f: "check_frame s s1" "nextChannelSequence s1 = nextChannelSequence s" by blast+
  from f assms(2) show "channels s2 = channels s" "nextChannelSequence s2 = nextChannelSequence s"
    by (simp_all add: callback_ok_def check_frame_def)
  from counted_mono(2) [OF f(1)] counted_mono(1) [OF assms(2)] show "counted s \<subseteq> counted s2" by simp
qed

lemma written_ack:
  assumes "chans_inv s" "ChanOpenAck E ctx s port chan cap v cpid pf h = Inr s1" "callback_ok s1 s2"
    "WriteOpenAckChannel s2 port chan v cpid = Inr s'"
  shows "\<exists>c. chan_written s s' (port, chan) c"
proof -
  from chan_check_Inr(1) [OF assms(2)] obtain c where c: "channels s (port, chan) = Some c" "chan_State c \<in> {INIT, TRYOPEN}"
    and f: "verified_frame s s1" by blast
  note vc = verified_callback [OF f assms(3)]
  note s' = write_open(1) [OF assms(4), unfolded vc(1), OF c(1)]
  show ?thesis
    by (rule exI, rule written_existing [OF assms(1) c(1) chan_trans.chan_ack [OF c(2)]]) (simp_all add: s' vc)
qed

lemma written_confirm:
  assumes "chans_inv s" "ChanOpenConfirm E ctx s port chan cap pf h = Inr s1" "callback_ok s1 s2"
    "WriteOpenConfirmChannel s2 port chan = Inr s'"
  shows "\<exists>c. chan_written s s' (port, chan) c"
proof -
  from chan_check_Inr(2) [OF assms(2)] obtain c where c: "channels s (port, chan) = Some c" "chan_State c = TRYOPEN"
    and f: "verified_frame s s1" by blast
  note vc = verified_callback [OF f assms(3)]
  note s' = write_open(2) [OF assms(4), unfolded vc(1), OF c(1)]
  show ?thesis
    by (rule exI, rule written_existing [OF assms(1) c(1) chan_trans.chan_confirm [OF c(2)]]) (simp_all add: s' vc)
qed

lemma written_close:
  assumes "chans_inv s" "callback_ok s s1" "channels s1 ch = Some c" "chan_State c \<noteq> CLOSED" "verified_frame s1 s0"
  shows "chan_written s (s0 \<lparr> channels := (channels s0)(ch \<mapsto> c \<lparr> chan_State := CLOSED \<rparr>) \<rparr>) ch (c \<lparr> chan_State := CLOSED \<rparr>)"
proof -
  from check_frame_verified [OF assms(5)] have f: "check_frame s1 s0" "nextChannelSequence s0 = nextChannelSequence s1" by blast+
  have "counted s \<subseteq> counted s0" using counted_mono(1) [OF assms(2)] counted_mono(2) [OF f(1)] by simp
  moreover have "channels s0 = channels s" "channels s1 = channels s" "nextChannelSequence s0 = nextChannelSequence s"
    using f assms(2) by (simp_all add: callback_ok_def check_frame_def)
  ultimately show ?thesis using assms(3)
    by (intro written_existing [OF assms(1) _ chan_trans.chan_close [OF assms(4)]]) simp_all
qed

lemma chan_step_written:
  assumes "chan_step E s s'" "chans_inv s"
  shows "\<exists>ch c. chan_written s s' ch c"
  using assms(1)
proof cases
  case (open_init order hops port pcap cp v chan cap s1 s2)
  from written_init [OF assms(2) open_init(2-4)] show ?thesis unfolding open_init(1) by blast
next
  case (open_try ctx order hops port previous pcap cp v pf h chan cap s1 s2 v')
  from written_try [OF assms(2) open_try(2-4)] show ?thesis unfolding open_try(1) by blast
next
  case (open_ack ctx port chan cap v cpid pf h s1 s2)
  from written_ack [OF assms(2) this] show ?thesis by blast
next
  case (open_confirm ctx port chan cap pf h s1 s2)
  from written_confirm [OF assms(2) this] show ?thesis by blast
next
  case (close_init s1 port chan cap)
  from chan_check_Inr(3) [OF close_init(2)] obtain c where c: "channels s1 (port, chan) = Some c" "chan_State c \<noteq> CLOSED"
    and s': "s' = s1 \<lparr> channels := (channels s1)((port, chan) \<mapsto> c \<lparr> chan_State := CLOSED \<rparr>) \<rparr>" by blast
  from written_close [OF assms(2) close_init(1) c verified_frame_refl] show ?thesis unfolding s' by blast
next
  case (close_confirm s1 ctx port chan cap pf h)
  from chan_check_Inr(4) [OF close_confirm(2)] obtain c s0 where c: "channels s1 (port, chan) = Some c" "chan_State c \<noteq> CLOSED"
    and f: "verified_frame s1 s0"
    and s': "s' = s0 \<lparr> channels := (channels s0)((port, chan) \<mapsto> c \<lparr> chan_State := CLOSED \<rparr>) \<rparr>" by blast
  from written_close [OF assms(2) close_confirm(1) c f] show ?thesis unfolding s' by blast
qed

text \<open>
  What stays fixed of a channel: its ordering and its counterparty's port. Its state only
  advances, an open channel can only be closed, and a closed one never changes again.
\<close>

fun chan_rank :: "chan_state \<Rightarrow> nat" where
  "chan_rank UNINITIALIZED = 0"
| "chan_rank INIT = 1"
| "chan_rank TRYOPEN = 2"
| "chan_rank OPEN = 3"
| "chan_rank CLOSED = 4"

definition chan_advanced :: "Channel \<Rightarrow> Channel \<Rightarrow> bool" where
  "chan_advanced c c' \<longleftrightarrow> chan_Ordering c' = chan_Ordering c \<and>
     ch_PortId (chan_Counterparty c') = ch_PortId (chan_Counterparty c) \<and>
     hd (chan_ConnectionHops c') = hd (chan_ConnectionHops c) \<and>
     (c' = c \<or> chan_rank (chan_State c) < chan_rank (chan_State c')) \<and>
     (chan_State c = OPEN \<longrightarrow> c' = c \<or> c' = c \<lparr> chan_State := CLOSED \<rparr>)"

lemma chan_rank_closed: "chan_rank CLOSED < chan_rank st \<longleftrightarrow> False"
  by (cases st) simp_all

lemma chan_advanced_refl [simp]: "chan_advanced c c"
  by (simp add: chan_advanced_def)

lemma chan_advanced_closed: "chan_advanced c c' \<Longrightarrow> chan_State c = CLOSED \<Longrightarrow> c' = c"
  by (auto simp: chan_advanced_def chan_rank_closed simp del: chan_rank.simps)

lemma chan_advanced_trans:
  assumes "chan_advanced a b" "chan_advanced b c"
  shows "chan_advanced a c"
proof -
  have "c = a \<or> c = a \<lparr> chan_State := CLOSED \<rparr>" if "chan_State a = OPEN"
    using assms chan_advanced_closed [OF assms(2)] that by (auto simp: chan_advanced_def)
  with assms show ?thesis by (auto simp: chan_advanced_def)
qed

lemma chan_trans_advanced: "chan_trans p c \<Longrightarrow> p = Some q \<Longrightarrow> chan_advanced q c"
proof (induction rule: chan_trans.induct)
  case (chan_try_previous p v x)
  then show ?case by (cases "chan_ConnectionHops p") (auto simp: chan_advanced_def)
next
  case (chan_close p)
  then show ?case by (cases "chan_State p") (auto simp: chan_advanced_def)
qed (auto simp: chan_advanced_def)

lemma chan_written_advanced:
  assumes "chan_written s s' ch c" "channels s x = Some d"
  shows "\<exists>d'. channels s' x = Some d' \<and> chan_advanced d d'"
  using assms chan_trans_advanced by (cases "x = ch") (auto simp: chan_written_def)

text \<open>
  C22: every successful step of the channel handshake (its check, any application callback
  that leaves channels alone, and its write) moves exactly one channel end, along the
  transitions of the abstract state machine \<open>chan_trans\<close>, and a channel end that did not
  exist before gets the next free identifier.
\<close>

theorem channel_handshake_refines:
  assumes "chan_step E s s'" and "chans_inv s"
  shows "\<exists>ch c. chan_trans (channels s ch) c \<and> channels s' = (channels s)(ch \<mapsto> c) \<and>
     (channels s ch = None \<longrightarrow> (\<exists>n. nextChannelSequence s = Some n \<and> snd ch = FormatChannelIdentifier n))"
proof -
  from chan_step_written [OF assms] obtain ch c where "chan_written s s' ch c" by blast
  then show ?thesis unfolding chan_written_def by (intro exI [of _ ch] exI [of _ c]) auto
qed

text \<open>
  Every run of channel handshake steps (with fewer than \<open>2^64\<close> channels) keeps the
  invariant of the channels: identifiers are below the counter, every channel has a
  connection and all three sequence counters. No channel disappears, its ordering,
  counterparty port and connection never change, its state only advances, an open channel
  can only be closed and a closed channel is final.
\<close>

theorem chan_run_invariant:
  assumes "(chan_step E)\<^sup>*\<^sup>* s s'" and "chans_inv s"
  shows "chans_inv s' \<and> (\<forall>ch c. channels s ch = Some c \<longrightarrow>
     (\<exists>c'. channels s' ch = Some c' \<and> chan_advanced c c' \<and> (chan_State c = CLOSED \<longrightarrow> c' = c)))"
proof -
  from assms have "chans_inv s' \<and> (\<forall>ch c. channels s ch = Some c \<longrightarrow> (\<exists>c'. channels s' ch = Some c' \<and> chan_advanced c c'))"
  proof (induction rule: rtranclp_induct)
    case base
    then show ?case by simp
  next
    case (step b d)
    then have inv: "chans_inv b" by blast
    from chan_step_written [OF step.hyps(2) inv] obtain ch c where w: "chan_written b d ch c" by blast
    from step.IH [OF step.prems] chan_written_inv [OF w inv] chan_written_advanced [OF w] show ?case
      by (meson chan_advanced_trans)
  qed
  then show ?thesis using chan_advanced_closed by blast
qed

subsection \<open>Proofs behind an open channel\<close>

lemma tm_VerifyChannelState_member:
  "tm_VerifyChannelState E store cs height (Some pre) pf port chan c = Inr () \<Longrightarrow>
     \<exists>bz. cdc_MarshalChannel E c = Some bz \<and> tm_member E store cs height pre (ChannelPath port chan) bz pf"
  by (auto simp: tm_VerifyChannelState_def tm_member_def result_elims from_ext_def split: option.splits
      dest!: tm_produceVerificationArgs_Inr)

lemma conn_VerifyChannelState_member:
  assumes "conn_VerifyChannelState E ctx s c h pf port chan d = Inr s'"
    and "GetClientState s (conn_ClientId c) = Some (TMClient tc)"
  shows "tm_Status ctx (clientStores s (conn_ClientId c)) tc = Active \<and>
     (\<exists>bz. cdc_MarshalChannel E d = Some bz \<and>
        tm_member E (clientStores s (conn_ClientId c)) tc h (cp_Prefix (conn_Counterparty c)) (ChannelPath port chan) bz pf)"
  using assms tm_VerifyChannelState_member
  by (auto simp: conn_VerifyChannelState_def with_active_client_Inr)

lemma chan_open_check:
  "ChanOpenAck E ctx s port chan cap v cpid pf h = Inr s1 \<Longrightarrow>
     \<exists>c conn. channels s (port, chan) = Some c \<and> open_connection s (chan_ConnectionHops c) = Inr conn \<and> verified_frame s s1 \<and>
       conn_VerifyChannelState E ctx s conn h pf (ch_PortId (chan_Counterparty c)) cpid
         (NewChannel TRYOPEN (chan_Ordering c) (chan_NewCounterparty port chan) [cp_ConnectionId (conn_Counterparty conn)] v) = Inr s1"
  "ChanOpenConfirm E ctx s port chan cap pf h = Inr s1 \<Longrightarrow>
     \<exists>c conn. channels s (port, chan) = Some c \<and> open_connection s (chan_ConnectionHops c) = Inr conn \<and> verified_frame s s1 \<and>
       conn_VerifyChannelState E ctx s conn h pf (ch_PortId (chan_Counterparty c)) (ch_ChannelId (chan_Counterparty c))
         (NewChannel OPEN (chan_Ordering c) (chan_NewCounterparty port chan) [cp_ConnectionId (conn_Counterparty conn)] (chan_Version c)) = Inr s1"
  by (auto simp: ChanOpenAck_def ChanOpenConfirm_def result_elims Let_def GetChannel_def intro: conn_verify_frames)

text \<open>
  What a proof of the counterparty's end says of a channel: the counterparty stores, under
  the counterparty's port and channel, an end in \<open>st\<close> that names this very channel back over
  the counterparty's connection, with the same ordering and version.
\<close>

definition counterparty_end_proved :: "('k, 'x) keeper_env_scheme \<Rightarrow> 'k ibc_state \<Rightarrow> ConnectionEnd \<Rightarrow> tm_ClientState \<Rightarrow> chan_key \<Rightarrow>
    Channel \<Rightarrow> chan_state \<Rightarrow> bool" where
  "counterparty_end_proved E s conn tc ch c st \<longleftrightarrow>
     (\<exists>ctx height pf bz.
        tm_Status ctx (clientStores s (conn_ClientId conn)) tc = Active \<and>
        cdc_MarshalChannel E (NewChannel st (chan_Ordering c) (chan_NewCounterparty (fst ch) (snd ch))
          [cp_ConnectionId (conn_Counterparty conn)] (chan_Version c)) = Some bz \<and>
        tm_member E (clientStores s (conn_ClientId conn)) tc height (cp_Prefix (conn_Counterparty conn))
          (ChannelPath (ch_PortId (chan_Counterparty c)) (ch_ChannelId (chan_Counterparty c))) bz pf)"

lemma proved_intro:
  assumes "conn_VerifyChannelState E ctx s conn h pf port' chan' (NewChannel st (chan_Ordering c) (chan_NewCounterparty port chan)
      [cp_ConnectionId (conn_Counterparty conn)] (chan_Version c)) = Inr s1"
    and "GetClientState s (conn_ClientId conn) = Some (TMClient tc)"
    and "port' = ch_PortId (chan_Counterparty c)" and "chan' = ch_ChannelId (chan_Counterparty c)"
  shows "counterparty_end_proved E s conn tc (port, chan) c st"
  using conn_VerifyChannelState_member [OF assms(1,2)] unfolding counterparty_end_proved_def assms(3,4) fst_conv snd_conv by blast

text \<open>
  C19: a channel becomes open only over an open connection, and, when that connection's client
  is a Tendermint client, only if a Merkle proof checked against a root that the active
  client trusts shows that the counterparty stores the matching end (same ordering and
  version, naming this channel and the counterparty's connection) in TRYOPEN or OPEN.
\<close>

theorem open_channel_is_proved:
  assumes "chan_step E s s'" and "channels s' ch = Some c'" and "chan_State c' = OPEN" and "channels s ch \<noteq> Some c'"
    and "chans_inv s"
  shows "\<exists>conn. open_connection s (chan_ConnectionHops c') = Inr conn \<and>
     (\<forall>tc. GetClientState s (conn_ClientId conn) = Some (TMClient tc) \<longrightarrow>
        counterparty_end_proved E s conn tc ch c' TRYOPEN \<or> counterparty_end_proved E s conn tc ch c' OPEN)"
  using assms(1)
proof cases
  case (open_init order hops port pcap cp v chan cap s1 s2)
  from written_init [OF assms(5) open_init(2-4)] assms(2-4) show ?thesis
    unfolding open_init(1) by (auto simp: chan_written_def NewChannel_def split: if_splits)
next
  case (open_try ctx order hops port previous pcap cp v pf h chan cap s1 s2 v')
  from written_try [OF assms(5) open_try(2-4)] assms(2-4) show ?thesis
    unfolding open_try(1) by (auto simp: chan_written_def NewChannel_def split: if_splits)
next
  case (open_ack ctx port chan cap v cpid pf h s1 s2)
  from chan_open_check(1) [OF open_ack(1)] obtain c conn where c: "channels s (port, chan) = Some c"
    and conn: "open_connection s (chan_ConnectionHops c) = Inr conn" and f: "verified_frame s s1"
    and ver: "conn_VerifyChannelState E ctx s conn h pf (ch_PortId (chan_Counterparty c)) cpid
         (NewChannel TRYOPEN (chan_Ordering c) (chan_NewCounterparty port chan) [cp_ConnectionId (conn_Counterparty conn)] v) = Inr s1"
    by blast
  note vc = verified_callback(1) [OF f open_ack(2)]
  have s': "channels s' = (channels s)((port, chan) \<mapsto> c \<lparr> chan_State := OPEN, chan_Version := v,
       chan_Counterparty := (chan_Counterparty c) \<lparr> ch_ChannelId := cpid \<rparr> \<rparr>)"
    using write_open(1) [OF open_ack(3), unfolded vc, OF c] vc by simp
  with assms(2,4) have ch: "ch = (port, chan)" by (auto split: if_splits)
  with s' assms(2) have c': "c' = c \<lparr> chan_State := OPEN, chan_Version := v,
       chan_Counterparty := (chan_Counterparty c) \<lparr> ch_ChannelId := cpid \<rparr> \<rparr>" by simp
  have "counterparty_end_proved E s conn tc ch c' TRYOPEN" if "GetClientState s (conn_ClientId conn) = Some (TMClient tc)" for tc
    unfolding ch by (rule proved_intro [OF _ that, of _ _ h pf "ch_PortId (chan_Counterparty c)" cpid]) (use ver c' in simp_all)
  with conn c' show ?thesis by auto
next
  case (open_confirm ctx port chan cap pf h s1 s2)
  from chan_open_check(2) [OF open_confirm(1)] obtain c conn where c: "channels s (port, chan) = Some c"
    and conn: "open_connection s (chan_ConnectionHops c) = Inr conn" and f: "verified_frame s s1"
    and ver: "conn_VerifyChannelState E ctx s conn h pf (ch_PortId (chan_Counterparty c)) (ch_ChannelId (chan_Counterparty c))
         (NewChannel OPEN (chan_Ordering c) (chan_NewCounterparty port chan) [cp_ConnectionId (conn_Counterparty conn)] (chan_Version c)) = Inr s1"
    by blast
  note vc = verified_callback(1) [OF f open_confirm(2)]
  have s': "channels s' = (channels s)((port, chan) \<mapsto> c \<lparr> chan_State := OPEN \<rparr>)"
    using write_open(2) [OF open_confirm(3), unfolded vc, OF c] vc by simp
  with assms(2,4) have ch: "ch = (port, chan)" by (auto split: if_splits)
  with s' assms(2) have c': "c' = c \<lparr> chan_State := OPEN \<rparr>" by simp
  have "counterparty_end_proved E s conn tc ch c' OPEN" if "GetClientState s (conn_ClientId conn) = Some (TMClient tc)" for tc
    unfolding ch by (rule proved_intro [OF _ that, of _ _ h pf "ch_PortId (chan_Counterparty c)"]) (use ver c' in simp_all)
  with conn c' show ?thesis by auto
next
  case (close_init s1 port chan cap)
  from chan_check_Inr(3) [OF close_init(2)] close_init(1) assms(2-4) show ?thesis
    by (auto simp: callback_ok_def split: if_splits)
next
  case (close_confirm s1 ctx port chan cap pf h)
  from chan_check_Inr(4) [OF close_confirm(2)] close_confirm(1) assms(2-4) show ?thesis
    by (auto simp: callback_ok_def verified_frame_fields split: if_splits)
qed

subsection \<open>A concrete handshake\<close>

definition demo_open_conn :: ConnectionEnd where
  "demo_open_conn = NewConnectionEnd C_OPEN ''07-tendermint-0'' (NewCounterparty ''07-tendermint-9'' ''connection-4'' ''ibc'')
     [DefaultIBCVersion] 0"

definition demo_chan_state :: "unit ibc_state" where
  "demo_chan_state = demo_conn_state \<lparr> connections := [''connection-0'' \<mapsto> demo_open_conn] \<rparr>"

definition demo_chan_init :: "unit ibc_state result" where
  "demo_chan_init = (case ChanOpenInit demo_kenv demo_chan_state UNORDERED [''connection-0''] ''transfer'' (Some 0)
       (chan_NewCounterparty ''transfer'' []) ''ics20-1'' of
     Inl e \<Rightarrow> Inl e
   | Inr (chan, cap, s) \<Rightarrow> Inr (WriteOpenInitChannel s ''transfer'' chan UNORDERED [''connection-0'']
       (chan_NewCounterparty ''transfer'' []) ''ics20-1''))"

definition demo_chan_ack :: "unit ibc_state result" where
  "demo_chan_ack = (case demo_chan_init of Inl e \<Rightarrow> Inl e | Inr s \<Rightarrow>
     (case ChanOpenAck demo_kenv demo_ctx s ''transfer'' ''channel-0'' (Some 0) ''ics20-1'' ''channel-7'' ''p'' (Height 1 5) of
        Inl e \<Rightarrow> Inl e
      | Inr s \<Rightarrow> WriteOpenAckChannel s ''transfer'' ''channel-0'' ''ics20-1'' ''channel-7''))"

lemma demo_chan_ok:
  "\<exists>s1 s2 c. demo_chan_init = Inr s1 \<and> demo_chan_ack = Inr s2 \<and> channels s2 (''transfer'', ''channel-0'') = Some c \<and>
     chan_State c = OPEN \<and> ch_ChannelId (chan_Counterparty c) = ''channel-7'' \<and> ch_PortId (chan_Counterparty c) = ''transfer'' \<and>
     chan_ConnectionHops c = [''connection-0''] \<and>
     channels s1 (''transfer'', ''channel-0'') \<noteq> Some c \<and> open_connection s1 [''connection-0''] = Inr demo_open_conn \<and>
     GetClientState s1 (conn_ClientId demo_open_conn) = Some (TMClient demo_tm2)"
proof -
  have "case demo_chan_init of Inl _ \<Rightarrow> False | Inr s1 \<Rightarrow> (case demo_chan_ack of Inl _ \<Rightarrow> False | Inr s2 \<Rightarrow>
      (case channels s2 (''transfer'', ''channel-0'') of None \<Rightarrow> False | Some c \<Rightarrow>
     chan_State c = OPEN \<and> ch_ChannelId (chan_Counterparty c) = ''channel-7'' \<and> ch_PortId (chan_Counterparty c) = ''transfer'' \<and>
     chan_ConnectionHops c = [''connection-0''] \<and>
     channels s1 (''transfer'', ''channel-0'') \<noteq> Some c \<and> open_connection s1 [''connection-0''] = Inr demo_open_conn \<and>
     GetClientState s1 (conn_ClientId demo_open_conn) = Some (TMClient demo_tm2)))" by code_simp
  then show ?thesis by (auto split: sum.splits option.splits)
qed

lemma demo_chan_state_inv: "chans_inv demo_chan_state"
  by (simp add: chans_inv_def demo_chan_state_def demo_conn_state_def set_client_store_def empty_ibc_state_def channel_ids.ids_below_empty)

lemma callback_ok_refl: "callback_ok s s"
  by (simp add: callback_ok_def)

lemma demo_chan_steps:
  assumes "demo_chan_init = Inr s1" "demo_chan_ack = Inr s2"
  shows "chan_step demo_kenv demo_chan_state s1" "chan_step demo_kenv s1 s2"
proof -
  have "nextChannelSequence demo_chan_state \<noteq> Some (- 1)"
    by (simp add: demo_chan_state_def demo_conn_state_def set_client_store_def empty_ibc_state_def)
  with assms(1) show "chan_step demo_kenv demo_chan_state s1"
    unfolding demo_chan_init_def by (auto simp: result_elims intro: chan_step.open_init callback_ok_refl)
  from assms(2) show "chan_step demo_kenv s1 s2"
    unfolding demo_chan_ack_def assms(1) sum.case by (auto simp: result_elims intro: chan_step.open_ack callback_ok_refl)
qed

theorem channel_handshake_refines_witness:
  "\<exists>s ch c. demo_chan_init = Inr s \<and> chan_trans (channels demo_chan_state ch) c \<and> channels s = (channels demo_chan_state)(ch \<mapsto> c)"
proof -
  from demo_chan_ok obtain s1 s2 where s: "demo_chan_init = Inr s1" "demo_chan_ack = Inr s2" by blast
  from channel_handshake_refines [OF demo_chan_steps(1) [OF s] demo_chan_state_inv] s(1) show ?thesis by blast
qed

theorem chan_run_invariant_witness:
  "\<exists>s. demo_chan_ack = Inr s \<and> chans_inv s"
proof -
  from demo_chan_ok obtain s1 s2 where s: "demo_chan_init = Inr s1" "demo_chan_ack = Inr s2" by blast
  from demo_chan_steps [OF s] have "(chan_step demo_kenv)\<^sup>*\<^sup>* demo_chan_state s2" by auto
  from chan_run_invariant [OF this demo_chan_state_inv] s(2) show ?thesis by blast
qed

theorem open_channel_is_proved_witness:
  "\<exists>s1 c. demo_chan_init = Inr s1 \<and> ch_ChannelId (chan_Counterparty c) = ''channel-7'' \<and>
     (counterparty_end_proved demo_kenv s1 demo_open_conn demo_tm2 (''transfer'', ''channel-0'') c TRYOPEN \<or>
      counterparty_end_proved demo_kenv s1 demo_open_conn demo_tm2 (''transfer'', ''channel-0'') c OPEN)"
proof -
  from demo_chan_ok obtain s1 s2 c where s: "demo_chan_init = Inr s1" "demo_chan_ack = Inr s2"
    and c: "channels s2 (''transfer'', ''channel-0'') = Some c" "chan_State c = OPEN" "channels s1 (''transfer'', ''channel-0'') \<noteq> Some c"
      "chan_ConnectionHops c = [''connection-0'']" "ch_ChannelId (chan_Counterparty c) = ''channel-7''"
    and conn: "open_connection s1 [''connection-0''] = Inr demo_open_conn"
      "GetClientState s1 (conn_ClientId demo_open_conn) = Some (TMClient demo_tm2)" by blast
  have "chans_inv s1" using chan_step_written [OF demo_chan_steps(1) [OF s] demo_chan_state_inv] chan_written_inv [OF _ demo_chan_state_inv]
    by blast
  from open_channel_is_proved [OF demo_chan_steps(2) [OF s] c(1-3) this] conn c(4,5) s(1) show ?thesis by auto
qed

end
