(* ===== verification/PacketFlow.thy ===== *)
theory PacketFlow
  imports ChannelKeeper
begin

text \<open>
  Sending, receiving, acknowledging and timing out packets (\<^verbatim>\<open>packet.go\<close> and \<^verbatim>\<open>timeout.go\<close> of
  \<^verbatim>\<open>modules/core/04-channel/keeper\<close>). Events and logging are left out.
\<close>

subsection \<open>Sending and receiving (packet.go)\<close>

definition SendPacket :: "('k, 'x) keeper_env_scheme \<Rightarrow> ctx \<Rightarrow> 'k ibc_state \<Rightarrow> Capability option \<Rightarrow> Packet \<Rightarrow> 'k ibc_state result" where
  "SendPacket E ctx s channelCap packet =
     (case Packet_ValidateBasic packet of Inl e \<Rightarrow> Inl e | Inr _ \<Rightarrow>
     (case GetChannel s (SourcePort packet) (SourceChannel packet) of
        None \<Rightarrow> Inl (ChannelE ErrChannelNotFound)
      | Some channel \<Rightarrow>
      if chan_State channel = CLOSED then Inl (ChannelE ErrInvalidChannelState)
      else if \<not> chan_Authenticate E s channelCap (SourcePort packet) (SourceChannel packet)
        then Inl (ChannelE ErrChannelCapabilityNotFound)
      else if DestinationPort packet \<noteq> ch_PortId (chan_Counterparty channel) then Inl (ChannelE ErrInvalidPacket)
      else if DestinationChannel packet \<noteq> ch_ChannelId (chan_Counterparty channel) then Inl (ChannelE ErrInvalidPacket)
      else case hop_connection s (chan_ConnectionHops channel) of Inl e \<Rightarrow> Inl e | Inr connectionEnd \<Rightarrow>
     (case GetClientState s (conn_ClientId connectionEnd) of
        None \<Rightarrow> Inl (ClientE ErrConsensusStateNotFound)
      | Some clientState \<Rightarrow>
      if client_Status ctx (clientStores s (conn_ClientId connectionEnd)) clientState \<noteq> Active
        then Inl (ClientE ErrClientNotActive)
      else let latestHeight = GetLatestHeight clientState; timeoutHeight = TimeoutHeight packet in
      if \<not> IsZero timeoutHeight \<and> GTE latestHeight timeoutHeight then Inl (ChannelE ErrPacketTimeout)
      else case ParseClientIdentifier (conn_ClientId connectionEnd) of Inl e \<Rightarrow> Inl e | Inr (clientType, _) \<Rightarrow>
     (case (if clientType \<noteq> Solomachine then
             (case GetTimestampAtHeight s connectionEnd latestHeight of Inl e \<Rightarrow> Inl e | Inr latestTimestamp \<Rightarrow>
              if TimeoutTimestamp packet \<noteq> 0 \<and> latestTimestamp \<ge> TimeoutTimestamp packet then Inl (ChannelE ErrPacketTimeout)
              else Inr ())
            else Inr ()) of Inl e \<Rightarrow> Inl e | Inr _ \<Rightarrow>
     (case GetNextSequenceSend s (SourcePort packet) (SourceChannel packet) of
        None \<Rightarrow> Inl (ChannelE ErrSequenceSendNotFound)
      | Some nextSeqSend \<Rightarrow>
      if Sequence packet \<noteq> nextSeqSend then Inl (ChannelE ErrInvalidPacket)
      else let commitment = CommitPacket packet;
               s = SetNextSequenceSend s (SourcePort packet) (SourceChannel packet) (nextSeqSend + 1) in
      Inr (SetPacketCommitment s (SourcePort packet) (SourceChannel packet) (Sequence packet) commitment))))))"

text \<open>The switch has no case for an unspecified ordering, which falls through it.\<close>

definition RecvPacket :: "('k, 'x) keeper_env_scheme \<Rightarrow> ctx \<Rightarrow> 'k ibc_state \<Rightarrow> Capability option \<Rightarrow> Packet \<Rightarrow> bytes \<Rightarrow> Height \<Rightarrow>
    'k ibc_state result" where
  "RecvPacket E ctx s chanCap packet pf proofHeight =
     (let destPort = DestinationPort packet; destChannel = DestinationChannel packet in
      case GetChannel s destPort destChannel of
        None \<Rightarrow> Inl (ChannelE ErrChannelNotFound)
      | Some channel \<Rightarrow>
      if chan_State channel \<noteq> OPEN then Inl (ChannelE ErrInvalidChannelState)
      else if \<not> chan_Authenticate E s chanCap destPort destChannel then Inl (ChannelE ErrInvalidChannelCapability)
      else if SourcePort packet \<noteq> ch_PortId (chan_Counterparty channel) then Inl (ChannelE ErrInvalidPacket)
      else if SourceChannel packet \<noteq> ch_ChannelId (chan_Counterparty channel) then Inl (ChannelE ErrInvalidPacket)
      else case open_connection s (chan_ConnectionHops channel) of Inl e \<Rightarrow> Inl e | Inr connectionEnd \<Rightarrow>
     (case GetSelfHeight ctx of Inl e \<Rightarrow> Inl e | Inr selfHeight \<Rightarrow>
      if \<not> IsZero (TimeoutHeight packet) \<and> GTE selfHeight (TimeoutHeight packet) then Inl (ChannelE ErrPacketTimeout)
      else if TimeoutTimestamp packet \<noteq> 0 \<and> block_time_u64 ctx \<ge> TimeoutTimestamp packet then Inl (ChannelE ErrPacketTimeout)
      else case conn_VerifyPacketCommitment E ctx s connectionEnd proofHeight pf (SourcePort packet) (SourceChannel packet)
             (Sequence packet) (CommitPacket packet) of Inl e \<Rightarrow> Inl e | Inr s \<Rightarrow>
     (case chan_Ordering channel of
        UNORDERED \<Rightarrow>
          if GetPacketReceipt s destPort destChannel (Sequence packet) \<noteq> None then Inl (ChannelE ErrNoOpMsg)
          else Inr (SetPacketReceipt s destPort destChannel (Sequence packet))
      | ORDERED \<Rightarrow>
         (case GetNextSequenceRecv s destPort destChannel of
            None \<Rightarrow> Inl (ChannelE ErrSequenceReceiveNotFound)
          | Some nextSeqRecv \<Rightarrow>
            if Sequence packet < nextSeqRecv then Inl (ChannelE ErrNoOpMsg)
            else if Sequence packet \<noteq> nextSeqRecv then Inl (ChannelE ErrPacketSequenceOutOfOrder)
            else Inr (SetNextSequenceRecv s destPort destChannel (nextSeqRecv + 1)))
      | NONE \<Rightarrow> Inr s)))"

definition WriteAcknowledgement :: "('k, 'x) keeper_env_scheme \<Rightarrow> 'k ibc_state \<Rightarrow> Capability option \<Rightarrow> Packet \<Rightarrow> bytes \<Rightarrow>
    'k ibc_state result" where
  "WriteAcknowledgement E s chanCap packet acknowledgement =
     (let destPort = DestinationPort packet; destChannel = DestinationChannel packet in
      case GetChannel s destPort destChannel of
        None \<Rightarrow> Inl (ChannelE ErrChannelNotFound)
      | Some channel \<Rightarrow>
      if chan_State channel \<noteq> OPEN then Inl (ChannelE ErrInvalidChannelState)
      else if \<not> chan_Authenticate E s chanCap destPort destChannel then Inl (ChannelE ErrInvalidChannelCapability)
      else if HasPacketAcknowledgement s destPort destChannel (Sequence packet) then Inl (ChannelE ErrAcknowledgementExists)
      else if length acknowledgement = 0 then Inl (ChannelE ErrInvalidAcknowledgement)
      else Inr (SetPacketAcknowledgement s destPort destChannel (Sequence packet) (CommitAcknowledgement acknowledgement)))"

definition AcknowledgePacket :: "('k, 'x) keeper_env_scheme \<Rightarrow> ctx \<Rightarrow> 'k ibc_state \<Rightarrow> Capability option \<Rightarrow> Packet \<Rightarrow> bytes \<Rightarrow> bytes \<Rightarrow>
    Height \<Rightarrow> 'k ibc_state result" where
  "AcknowledgePacket E ctx s chanCap packet acknowledgement pf proofHeight =
     (let srcPort = SourcePort packet; srcChannel = SourceChannel packet in
      case GetChannel s srcPort srcChannel of
        None \<Rightarrow> Inl (ChannelE ErrChannelNotFound)
      | Some channel \<Rightarrow>
      if chan_State channel \<noteq> OPEN then Inl (ChannelE ErrInvalidChannelState)
      else if \<not> chan_Authenticate E s chanCap srcPort srcChannel then Inl (ChannelE ErrInvalidChannelCapability)
      else if DestinationPort packet \<noteq> ch_PortId (chan_Counterparty channel) then Inl (ChannelE ErrInvalidPacket)
      else if DestinationChannel packet \<noteq> ch_ChannelId (chan_Counterparty channel) then Inl (ChannelE ErrInvalidPacket)
      else case open_connection s (chan_ConnectionHops channel) of Inl e \<Rightarrow> Inl e | Inr connectionEnd \<Rightarrow>
      let commitment = GetPacketCommitment s srcPort srcChannel (Sequence packet) in
      if length commitment = 0 then Inl (ChannelE ErrNoOpMsg)
      else if commitment \<noteq> CommitPacket packet then Inl (ChannelE ErrInvalidPacket)
      else case conn_VerifyPacketAcknowledgement E ctx s connectionEnd proofHeight pf (DestinationPort packet)
             (DestinationChannel packet) (Sequence packet) acknowledgement of Inl e \<Rightarrow> Inl e | Inr s \<Rightarrow>
     (case (if chan_Ordering channel = ORDERED then
             (case GetNextSequenceAck s srcPort srcChannel of
                None \<Rightarrow> Inl (ChannelE ErrSequenceAckNotFound)
              | Some nextSeqAck \<Rightarrow>
                if Sequence packet \<noteq> nextSeqAck then Inl (ChannelE ErrPacketSequenceOutOfOrder)
                else Inr (SetNextSequenceAck s srcPort srcChannel (nextSeqAck + 1)))
            else Inr s) of Inl e \<Rightarrow> Inl e | Inr s \<Rightarrow>
      Inr (deletePacketCommitment s srcPort srcChannel (Sequence packet))))"

subsection \<open>Timeouts (timeout.go)\<close>

text \<open>
  The proof that a packet was not received: for an ordered channel that the counterparty's
  next sequence is not beyond it, for an unordered one that there is no receipt. The error
  for a sequence beyond the packet differs between the two callers.
\<close>

definition verify_not_received :: "('k, 'x) keeper_env_scheme \<Rightarrow> ctx \<Rightarrow> 'k ibc_state \<Rightarrow> ConnectionEnd \<Rightarrow> Order \<Rightarrow> Packet \<Rightarrow> bytes \<Rightarrow> Height \<Rightarrow>
    u64 \<Rightarrow> channel_error \<Rightarrow> 'k ibc_state result" where
  "verify_not_received E ctx s connectionEnd channelOrdering packet pf proofHeight nextSeqRecv received =
     (case channelOrdering of
        ORDERED \<Rightarrow>
          if nextSeqRecv > Sequence packet then Inl (ChannelE received)
          else conn_VerifyNextSequenceRecv E ctx s connectionEnd proofHeight pf (DestinationPort packet)
                 (DestinationChannel packet) nextSeqRecv
      | UNORDERED \<Rightarrow>
          conn_VerifyPacketReceiptAbsence E ctx s connectionEnd proofHeight pf (DestinationPort packet)
            (DestinationChannel packet) (Sequence packet)
      | NONE \<Rightarrow> Inl Panic)"

definition TimeoutPacket :: "('k, 'x) keeper_env_scheme \<Rightarrow> ctx \<Rightarrow> 'k ibc_state \<Rightarrow> Packet \<Rightarrow> bytes \<Rightarrow> Height \<Rightarrow> u64 \<Rightarrow> 'k ibc_state result" where
  "TimeoutPacket E ctx s packet pf proofHeight nextSeqRecv =
     (let srcPort = SourcePort packet; srcChannel = SourceChannel packet in
      case GetChannel s srcPort srcChannel of
        None \<Rightarrow> Inl (ChannelE ErrChannelNotFound)
      | Some channel \<Rightarrow>
      if DestinationPort packet \<noteq> ch_PortId (chan_Counterparty channel) then Inl (ChannelE ErrInvalidPacket)
      else if DestinationChannel packet \<noteq> ch_ChannelId (chan_Counterparty channel) then Inl (ChannelE ErrInvalidPacket)
      else case hop_connection s (chan_ConnectionHops channel) of Inl e \<Rightarrow> Inl e | Inr connectionEnd \<Rightarrow>
     (case GetTimestampAtHeight s connectionEnd proofHeight of Inl e \<Rightarrow> Inl e | Inr proofTimestamp \<Rightarrow>
      if (IsZero (TimeoutHeight packet) \<or> LT proofHeight (TimeoutHeight packet)) \<and>
         (TimeoutTimestamp packet = 0 \<or> proofTimestamp < TimeoutTimestamp packet) then Inl (ChannelE ErrPacketTimeout)
      else let commitment = GetPacketCommitment s srcPort srcChannel (Sequence packet) in
      if length commitment = 0 then Inl (ChannelE ErrNoOpMsg)
      else if chan_State channel \<noteq> OPEN then Inl (ChannelE ErrInvalidChannelState)
      else if commitment \<noteq> CommitPacket packet then Inl (ChannelE ErrInvalidPacket)
      else verify_not_received E ctx s connectionEnd (chan_Ordering channel) packet pf proofHeight nextSeqRecv ErrPacketReceived))"

definition TimeoutExecuted :: "('k, 'x) keeper_env_scheme \<Rightarrow> 'k ibc_state \<Rightarrow> Capability option \<Rightarrow> Packet \<Rightarrow> 'k ibc_state result" where
  "TimeoutExecuted E s chanCap packet =
     (let srcPort = SourcePort packet; srcChannel = SourceChannel packet in
      case GetChannel s srcPort srcChannel of
        None \<Rightarrow> Inl (ChannelE ErrChannelNotFound)
      | Some channel \<Rightarrow>
      if \<not> chan_Authenticate E s chanCap srcPort srcChannel then Inl (ChannelE ErrChannelCapabilityNotFound)
      else let s = deletePacketCommitment s srcPort srcChannel (Sequence packet) in
      Inr (if chan_Ordering channel = ORDERED then SetChannel s srcPort srcChannel (channel \<lparr> chan_State := CLOSED \<rparr>) else s))"

definition TimeoutOnClose :: "('k, 'x) keeper_env_scheme \<Rightarrow> ctx \<Rightarrow> 'k ibc_state \<Rightarrow> Capability option \<Rightarrow> Packet \<Rightarrow> bytes \<Rightarrow> bytes \<Rightarrow> Height \<Rightarrow>
    u64 \<Rightarrow> 'k ibc_state result" where
  "TimeoutOnClose E ctx s chanCap packet pf proofClosed proofHeight nextSeqRecv =
     (let srcPort = SourcePort packet; srcChannel = SourceChannel packet in
      case GetChannel s srcPort srcChannel of
        None \<Rightarrow> Inl (ChannelE ErrChannelNotFound)
      | Some channel \<Rightarrow>
      if \<not> chan_Authenticate E s chanCap srcPort srcChannel then Inl (ChannelE ErrInvalidChannelCapability)
      else if DestinationPort packet \<noteq> ch_PortId (chan_Counterparty channel) then Inl (ChannelE ErrInvalidPacket)
      else if DestinationChannel packet \<noteq> ch_ChannelId (chan_Counterparty channel) then Inl (ChannelE ErrInvalidPacket)
      else case hop_connection s (chan_ConnectionHops channel) of Inl e \<Rightarrow> Inl e | Inr connectionEnd \<Rightarrow>
      let commitment = GetPacketCommitment s srcPort srcChannel (Sequence packet) in
      if length commitment = 0 then Inl (ChannelE ErrNoOpMsg)
      else if commitment \<noteq> CommitPacket packet then Inl (ChannelE ErrInvalidPacket)
      else let counterpartyHops = [cp_ConnectionId (conn_Counterparty connectionEnd)];
               expectedChannel = NewChannel CLOSED (chan_Ordering channel) (chan_NewCounterparty srcPort srcChannel)
                 counterpartyHops (chan_Version channel) in
     (case conn_VerifyChannelState E ctx s connectionEnd proofHeight proofClosed (ch_PortId (chan_Counterparty channel))
             (ch_ChannelId (chan_Counterparty channel)) expectedChannel of Inl e \<Rightarrow> Inl e | Inr s \<Rightarrow>
      verify_not_received E ctx s connectionEnd (chan_Ordering channel) packet pf proofHeight nextSeqRecv ErrInvalidPacket))"

subsection \<open>What a successful operation does\<close>

abbreviation src_key :: "Packet \<Rightarrow> packet_key" where
  "src_key p \<equiv> (SourcePort p, SourceChannel p, Sequence p)"

abbreviation src_chan :: "Packet \<Rightarrow> chan_key" where
  "src_chan p \<equiv> (SourcePort p, SourceChannel p)"

abbreviation dst_key :: "Packet \<Rightarrow> packet_key" where
  "dst_key p \<equiv> (DestinationPort p, DestinationChannel p, Sequence p)"

abbreviation dst_chan :: "Packet \<Rightarrow> chan_key" where
  "dst_chan p \<equiv> (DestinationPort p, DestinationChannel p)"

lemmas chan_getters = GetChannel_def GetNextSequenceSend_def GetNextSequenceRecv_def GetNextSequenceAck_def
  GetPacketReceipt_def GetPacketCommitment_def HasPacketCommitment_def GetPacketAcknowledgement_def HasPacketAcknowledgement_def

lemmas chan_setters = SetChannel_def SetNextSequenceSend_def SetNextSequenceRecv_def SetNextSequenceAck_def
  SetPacketReceipt_def SetPacketCommitment_def deletePacketCommitment_def SetPacketAcknowledgement_def

definition timed_out :: "ctx \<Rightarrow> Packet \<Rightarrow> bool" where
  "timed_out ctx p \<longleftrightarrow>
     (\<exists>self. GetSelfHeight ctx = Inr self \<and> \<not> IsZero (TimeoutHeight p) \<and> GTE self (TimeoutHeight p)) \<or>
     TimeoutTimestamp p \<noteq> 0 \<and> TimeoutTimestamp p \<le> block_time_u64 ctx"

lemma SendPacket_Inr:
  assumes "SendPacket E ctx s cap p = Inr s'"
  shows "Packet_ValidateBasic p = Inr () \<and>
     (\<exists>channel. channels s (src_chan p) = Some channel \<and> chan_State channel \<noteq> CLOSED \<and>
        DestinationPort p = ch_PortId (chan_Counterparty channel) \<and> DestinationChannel p = ch_ChannelId (chan_Counterparty channel) \<and>
        chan_Authenticate E s cap (SourcePort p) (SourceChannel p)) \<and>
     nextSequenceSend s (src_chan p) = Some (Sequence p) \<and>
     s' = s \<lparr> nextSequenceSend := (nextSequenceSend s)(src_chan p \<mapsto> Sequence p + 1),
            packetCommitments := (packetCommitments s)(src_key p \<mapsto> CommitPacket p) \<rparr>"
  using assms by (auto simp: SendPacket_def Let_def result_elims chan_getters chan_setters)

lemma RecvPacket_Inr:
  assumes "RecvPacket E ctx s cap p pf h = Inr s'"
  obtains channel connection s1 where "channels s (dst_chan p) = Some channel" "chan_State channel = OPEN"
    "SourcePort p = ch_PortId (chan_Counterparty channel)" "SourceChannel p = ch_ChannelId (chan_Counterparty channel)"
    "open_connection s (chan_ConnectionHops channel) = Inr connection" "\<not> timed_out ctx p"
    "conn_VerifyPacketCommitment E ctx s connection h pf (SourcePort p) (SourceChannel p) (Sequence p) (CommitPacket p) = Inr s1"
    "case chan_Ordering channel of
       UNORDERED \<Rightarrow> packetReceipts s (dst_key p) = None \<and>
         s' = s1 \<lparr> packetReceipts := (packetReceipts s1)(dst_key p \<mapsto> [char_of (1 :: nat)]) \<rparr>
     | ORDERED \<Rightarrow> nextSequenceRecv s (dst_chan p) = Some (Sequence p) \<and>
         s' = s1 \<lparr> nextSequenceRecv := (nextSequenceRecv s1)(dst_chan p \<mapsto> Sequence p + 1) \<rparr>
     | NONE \<Rightarrow> s' = s1"
proof -
  from assms obtain channel connection self s1 where
    c: "channels s (dst_chan p) = Some channel" "chan_State channel = OPEN"
      "SourcePort p = ch_PortId (chan_Counterparty channel)" "SourceChannel p = ch_ChannelId (chan_Counterparty channel)"
      "open_connection s (chan_ConnectionHops channel) = Inr connection" "GetSelfHeight ctx = Inr self"
      "\<not> (\<not> IsZero (TimeoutHeight p) \<and> GTE self (TimeoutHeight p))"
      "\<not> (TimeoutTimestamp p \<noteq> 0 \<and> block_time_u64 ctx \<ge> TimeoutTimestamp p)" and
    v: "conn_VerifyPacketCommitment E ctx s connection h pf (SourcePort p) (SourceChannel p) (Sequence p) (CommitPacket p) = Inr s1" and
    r: "(case chan_Ordering channel of
        UNORDERED \<Rightarrow> if GetPacketReceipt s1 (DestinationPort p) (DestinationChannel p) (Sequence p) \<noteq> None then Inl (ChannelE ErrNoOpMsg)
          else Inr (SetPacketReceipt s1 (DestinationPort p) (DestinationChannel p) (Sequence p))
      | ORDERED \<Rightarrow>
         (case GetNextSequenceRecv s1 (DestinationPort p) (DestinationChannel p) of
            None \<Rightarrow> Inl (ChannelE ErrSequenceReceiveNotFound)
          | Some nextSeqRecv \<Rightarrow>
            if Sequence p < nextSeqRecv then Inl (ChannelE ErrNoOpMsg)
            else if Sequence p \<noteq> nextSeqRecv then Inl (ChannelE ErrPacketSequenceOutOfOrder)
            else Inr (SetNextSequenceRecv s1 (DestinationPort p) (DestinationChannel p) (nextSeqRecv + 1)))
      | NONE \<Rightarrow> Inr s1) = Inr s'"
    unfolding RecvPacket_def Let_def result_elims GetChannel_def by blast
  note fr = verified_frame_fields [OF conn_verify_frames(5) [OF v]]
  from c have "\<not> timed_out ctx p" by (auto simp: timed_out_def)
  moreover have "case chan_Ordering channel of
       UNORDERED \<Rightarrow> packetReceipts s (dst_key p) = None \<and>
         s' = s1 \<lparr> packetReceipts := (packetReceipts s1)(dst_key p \<mapsto> [char_of (1 :: nat)]) \<rparr>
     | ORDERED \<Rightarrow> nextSequenceRecv s (dst_chan p) = Some (Sequence p) \<and>
         s' = s1 \<lparr> nextSequenceRecv := (nextSequenceRecv s1)(dst_chan p \<mapsto> Sequence p + 1) \<rparr>
     | NONE \<Rightarrow> s' = s1"
    using r fr(9,12) by (cases "chan_Ordering channel") (auto simp: result_elims chan_getters chan_setters split: if_splits)
  ultimately show thesis using that c v by blast
qed

lemma commitment_found:
  assumes "length (GetPacketCommitment s port chan n) \<noteq> 0" "\<not> GetPacketCommitment s port chan n \<noteq> c"
  shows "packetCommitments s (port, chan, n) = Some c"
  using assms by (cases "packetCommitments s (port, chan, n)") (simp_all add: GetPacketCommitment_def)

lemma WriteAcknowledgement_Inr:
  assumes "WriteAcknowledgement E s cap p ack = Inr s'"
  shows "packetAcks s (dst_key p) = None \<and> ack \<noteq> [] \<and>
     s' = s \<lparr> packetAcks := (packetAcks s)(dst_key p \<mapsto> CommitAcknowledgement ack) \<rparr>"
  using assms by (auto simp: WriteAcknowledgement_def Let_def result_elims chan_getters chan_setters)

lemma AcknowledgePacket_Inr:
  assumes "AcknowledgePacket E ctx s cap p ack pf h = Inr s'"
  obtains channel connection s1 where "channels s (src_chan p) = Some channel" "chan_State channel = OPEN"
    "open_connection s (chan_ConnectionHops channel) = Inr connection"
    "packetCommitments s (src_key p) = Some (CommitPacket p)"
    "conn_VerifyPacketAcknowledgement E ctx s connection h pf (DestinationPort p) (DestinationChannel p) (Sequence p) ack = Inr s1"
    "chan_Ordering channel = ORDERED \<longrightarrow> nextSequenceAck s (src_chan p) = Some (Sequence p)"
    "s' = s1 \<lparr> nextSequenceAck := (if chan_Ordering channel = ORDERED then (nextSequenceAck s)(src_chan p \<mapsto> Sequence p + 1)
        else nextSequenceAck s), packetCommitments := (packetCommitments s1)(src_key p := None) \<rparr>"
proof -
  let ?com = "GetPacketCommitment s (SourcePort p) (SourceChannel p) (Sequence p)"
  from assms obtain channel connection s1 s2 where
    c: "channels s (src_chan p) = Some channel" "\<not> chan_State channel \<noteq> OPEN"
      "open_connection s (chan_ConnectionHops channel) = Inr connection"
      "length ?com \<noteq> 0" "\<not> ?com \<noteq> CommitPacket p" and
    v: "conn_VerifyPacketAcknowledgement E ctx s connection h pf (DestinationPort p) (DestinationChannel p) (Sequence p) ack = Inr s1" and
    o: "(if chan_Ordering channel = ORDERED then
             (case GetNextSequenceAck s1 (SourcePort p) (SourceChannel p) of
                None \<Rightarrow> Inl (ChannelE ErrSequenceAckNotFound)
              | Some nextSeqAck \<Rightarrow>
                if Sequence p \<noteq> nextSeqAck then Inl (ChannelE ErrPacketSequenceOutOfOrder)
                else Inr (SetNextSequenceAck s1 (SourcePort p) (SourceChannel p) (nextSeqAck + 1)))
            else Inr s1) = Inr s2" and
    s': "Inr (deletePacketCommitment s2 (SourcePort p) (SourceChannel p) (Sequence p)) = (Inr s' :: _ result)"
    unfolding AcknowledgePacket_def Let_def case_result_Inr guard_Inr case_option_Inr GetChannel_def by blast
  note fr = verified_frame_fields(10) [OF conn_verify_frames(6) [OF v]]
  from c(4,5) have "packetCommitments s (src_key p) = Some (CommitPacket p)"
    by (rule commitment_found)
  moreover have "chan_Ordering channel = ORDERED \<longrightarrow> nextSequenceAck s (src_chan p) = Some (Sequence p)"
    "s' = s1 \<lparr> nextSequenceAck := (if chan_Ordering channel = ORDERED then (nextSequenceAck s)(src_chan p \<mapsto> Sequence p + 1)
        else nextSequenceAck s), packetCommitments := (packetCommitments s1)(src_key p := None) \<rparr>"
    using o s' fr by (auto simp: result_elims chan_getters chan_setters split: if_splits)
  ultimately show thesis using that [OF c(1) _ c(3) _ v] c(2) by simp
qed

lemma verify_not_received_frame:
  "verify_not_received E ctx s c ord p pf h n e = Inr s' \<Longrightarrow> verified_frame s s'"
  by (cases ord) (auto simp: verify_not_received_def split: if_splits intro: conn_verify_frames)

lemma TimeoutPacket_Inr:
  assumes "TimeoutPacket E ctx s p pf h n = Inr s'"
  obtains channel connection ts where "channels s (src_chan p) = Some channel" "chan_State channel = OPEN"
    "hop_connection s (chan_ConnectionHops channel) = Inr connection"
    "GetTimestampAtHeight s connection h = Inr ts"
    "\<not> IsZero (TimeoutHeight p) \<and> TimeoutHeight p \<le> h \<or> TimeoutTimestamp p \<noteq> 0 \<and> TimeoutTimestamp p \<le> ts"
    "packetCommitments s (src_key p) = Some (CommitPacket p)"
    "verify_not_received E ctx s connection (chan_Ordering channel) p pf h n ErrPacketReceived = Inr s'"
proof -
  let ?com = "GetPacketCommitment s (SourcePort p) (SourceChannel p) (Sequence p)"
  from assms obtain channel connection ts where
    c: "channels s (src_chan p) = Some channel" "\<not> chan_State channel \<noteq> OPEN"
      "hop_connection s (chan_ConnectionHops channel) = Inr connection" "GetTimestampAtHeight s connection h = Inr ts"
      "\<not> ((IsZero (TimeoutHeight p) \<or> LT h (TimeoutHeight p)) \<and> (TimeoutTimestamp p = 0 \<or> ts < TimeoutTimestamp p))"
      "length ?com \<noteq> 0" "\<not> ?com \<noteq> CommitPacket p"
      "verify_not_received E ctx s connection (chan_Ordering channel) p pf h n ErrPacketReceived = Inr s'"
    unfolding TimeoutPacket_def Let_def case_result_Inr guard_Inr case_option_Inr GetChannel_def by blast
  moreover from c(6,7) have "packetCommitments s (src_key p) = Some (CommitPacket p)"
    by (rule commitment_found)
  moreover from c(5) have "\<not> IsZero (TimeoutHeight p) \<and> TimeoutHeight p \<le> h \<or> TimeoutTimestamp p \<noteq> 0 \<and> TimeoutTimestamp p \<le> ts"
    by (auto simp: height_comparisons not_less)
  ultimately show thesis using that by blast
qed

lemma TimeoutOnClose_Inr:
  assumes "TimeoutOnClose E ctx s cap p pf pfc h n = Inr s'"
  obtains channel connection s1 where "channels s (src_chan p) = Some channel"
    "hop_connection s (chan_ConnectionHops channel) = Inr connection"
    "packetCommitments s (src_key p) = Some (CommitPacket p)"
    "conn_VerifyChannelState E ctx s connection h pfc (ch_PortId (chan_Counterparty channel)) (ch_ChannelId (chan_Counterparty channel))
       (NewChannel CLOSED (chan_Ordering channel) (chan_NewCounterparty (SourcePort p) (SourceChannel p))
         [cp_ConnectionId (conn_Counterparty connection)] (chan_Version channel)) = Inr s1"
    "verify_not_received E ctx s1 connection (chan_Ordering channel) p pf h n ErrInvalidPacket = Inr s'"
proof -
  let ?com = "GetPacketCommitment s (SourcePort p) (SourceChannel p) (Sequence p)"
  from assms obtain channel connection s1 where
    c: "channels s (src_chan p) = Some channel" "hop_connection s (chan_ConnectionHops channel) = Inr connection"
      "length ?com \<noteq> 0" "\<not> ?com \<noteq> CommitPacket p"
      "conn_VerifyChannelState E ctx s connection h pfc (ch_PortId (chan_Counterparty channel)) (ch_ChannelId (chan_Counterparty channel))
       (NewChannel CLOSED (chan_Ordering channel) (chan_NewCounterparty (SourcePort p) (SourceChannel p))
         [cp_ConnectionId (conn_Counterparty connection)] (chan_Version channel)) = Inr s1"
      "verify_not_received E ctx s1 connection (chan_Ordering channel) p pf h n ErrInvalidPacket = Inr s'"
    unfolding TimeoutOnClose_def Let_def case_result_Inr guard_Inr case_option_Inr GetChannel_def by blast
  moreover from c(3,4) have "packetCommitments s (src_key p) = Some (CommitPacket p)"
    by (rule commitment_found)
  ultimately show thesis using that by blast
qed

lemma TimeoutExecuted_Inr:
  assumes "TimeoutExecuted E s cap p = Inr s'"
  shows "\<exists>channel. channels s (src_chan p) = Some channel \<and>
     s' = s \<lparr> packetCommitments := (packetCommitments s)(src_key p := None),
       channels := (if chan_Ordering channel = ORDERED then (channels s)(src_chan p \<mapsto> channel \<lparr> chan_State := CLOSED \<rparr>) else channels s) \<rparr>"
  using assms by (auto simp: TimeoutExecuted_def Let_def result_elims chan_getters chan_setters)

subsection \<open>Runs of packet operations\<close>

text \<open>
  A step is one of the packet operations or a closing handshake, in a block context. The
  sequence numbers are assumed not to reach \<open>2^64 - 1\<close>.
\<close>

inductive packet_step :: "('k, 'x) keeper_env_scheme \<Rightarrow> 'k ibc_state \<Rightarrow> 'k ibc_state \<Rightarrow> bool" for E where
  send: "SendPacket E ctx s cap p = Inr s' \<Longrightarrow> Sequence p \<noteq> - 1 \<Longrightarrow> packet_step E s s'"
| recv: "RecvPacket E ctx s cap p pf h = Inr s' \<Longrightarrow> Sequence p \<noteq> - 1 \<Longrightarrow> packet_step E s s'"
| write_ack: "WriteAcknowledgement E s cap p a = Inr s' \<Longrightarrow> packet_step E s s'"
| acknowledge: "AcknowledgePacket E ctx s cap p a pf h = Inr s' \<Longrightarrow> Sequence p \<noteq> - 1 \<Longrightarrow> packet_step E s s'"
| timeout: "TimeoutPacket E ctx s p pf h n = Inr s1 \<Longrightarrow> TimeoutExecuted E s1 cap p = Inr s' \<Longrightarrow> packet_step E s s'"
| timeout_closed: "TimeoutOnClose E ctx s cap p pf pfc h n = Inr s1 \<Longrightarrow> TimeoutExecuted E s1 cap' p = Inr s' \<Longrightarrow> packet_step E s s'"
| close_init: "ChanCloseInit E s port chan cap = Inr s' \<Longrightarrow> packet_step E s s'"
| close_confirm: "ChanCloseConfirm E ctx s port chan cap pf h = Inr s' \<Longrightarrow> packet_step E s s'"

text \<open>
  What every step respects: counters never decrease, receipts and acknowledgements are
  never changed or removed, no commitment is created under a sequence number that the
  counter has passed, and channels keep their ordering, counterparty and connection and, once
  closed, stay closed.
\<close>

definition counter_le :: "(chan_key \<rightharpoonup> u64) \<Rightarrow> (chan_key \<rightharpoonup> u64) \<Rightarrow> bool" where
  "counter_le m m' \<longleftrightarrow> (\<forall>ch n. m ch = Some n \<longrightarrow> (\<exists>n'. m' ch = Some n' \<and> n \<le> n'))"

definition chans_kept :: "(chan_key \<rightharpoonup> Channel) \<Rightarrow> (chan_key \<rightharpoonup> Channel) \<Rightarrow> bool" where
  "chans_kept m m' \<longleftrightarrow>
     (\<forall>ch c. m ch = Some c \<longrightarrow> m' ch = Some c \<or> m' ch = Some (c \<lparr> chan_State := CLOSED \<rparr>))"

definition flow_le :: "'k ibc_state \<Rightarrow> 'k ibc_state \<Rightarrow> bool" where
  "flow_le s s' \<longleftrightarrow>
     counter_le (nextSequenceSend s) (nextSequenceSend s') \<and> counter_le (nextSequenceRecv s) (nextSequenceRecv s') \<and>
     counter_le (nextSequenceAck s) (nextSequenceAck s') \<and>
     packetReceipts s \<subseteq>\<^sub>m packetReceipts s' \<and> packetAcks s \<subseteq>\<^sub>m packetAcks s' \<and> chans_kept (channels s) (channels s') \<and>
     (\<forall>port chan n m. nextSequenceSend s (port, chan) = Some m \<longrightarrow> n < m \<longrightarrow> packetCommitments s (port, chan, n) = None \<longrightarrow>
        packetCommitments s' (port, chan, n) = None)"

definition packets_inv :: "'k ibc_state \<Rightarrow> bool" where
  "packets_inv s \<longleftrightarrow>
     (\<forall>port chan n. packetCommitments s (port, chan, n) \<noteq> None \<longrightarrow> (\<exists>m. nextSequenceSend s (port, chan) = Some m \<and> n < m))"

lemma counter_le_refl [simp]: "counter_le m m"
  by (auto simp: counter_le_def)

lemma counter_le_trans: "counter_le a b \<Longrightarrow> counter_le b c \<Longrightarrow> counter_le a c"
  unfolding counter_le_def by (meson order_trans)

lemma u64_less_succ: "n \<noteq> - 1 \<Longrightarrow> n < n + (1 :: u64)"
  using unat_u64_succ [of n] by (simp add: word_less_nat_alt)

lemma counter_le_upd: "m ch = Some n \<Longrightarrow> n \<noteq> - 1 \<Longrightarrow> counter_le m (m(ch \<mapsto> n + 1))"
  using u64_less_succ [of n] by (auto simp: counter_le_def less_imp_le)

lemma chans_kept_refl [simp]: "chans_kept m m"
  by (simp add: chans_kept_def)

lemma chans_kept_close: "m ch = Some c \<Longrightarrow> chans_kept m (m(ch \<mapsto> c \<lparr> chan_State := CLOSED \<rparr>))"
  by (auto simp: chans_kept_def)

lemma chans_kept_trans:
  assumes "chans_kept a b" "chans_kept b c"
  shows "chans_kept a c"
  unfolding chans_kept_def
proof (intro allI impI)
  fix ch x assume "a ch = Some x"
  with assms(1) have "b ch = Some x \<or> b ch = Some (x \<lparr> chan_State := CLOSED \<rparr>)" unfolding chans_kept_def by blast
  moreover have "c ch = Some y \<or> c ch = Some (y \<lparr> chan_State := CLOSED \<rparr>)" if "b ch = Some y" for y
    using that assms(2) unfolding chans_kept_def by blast
  moreover have "x \<lparr> chan_State := CLOSED \<rparr> \<lparr> chan_State := CLOSED \<rparr> = x \<lparr> chan_State := CLOSED \<rparr>" by simp
  ultimately show "c ch = Some x \<or> c ch = Some (x \<lparr> chan_State := CLOSED \<rparr>)" by metis
qed

lemma flow_le_refl [simp]: "flow_le s s"
  by (simp add: flow_le_def)

lemma flow_le_trans:
  assumes "flow_le a b" "flow_le b c"
  shows "flow_le a c"
proof -
  have "packetCommitments c (port, chan, n) = None"
    if "nextSequenceSend a (port, chan) = Some m" "n < m" "packetCommitments a (port, chan, n) = None" for port chan n m
  proof -
    from that assms(1) have "packetCommitments b (port, chan, n) = None" by (auto simp: flow_le_def)
    moreover from that assms(1) obtain m' where "nextSequenceSend b (port, chan) = Some m'" "m \<le> m'"
      unfolding flow_le_def counter_le_def by blast
    ultimately show ?thesis using that(2) assms(2) unfolding flow_le_def by (meson less_le_trans)
  qed
  with assms show ?thesis
    unfolding flow_le_def by (blast intro: counter_le_trans chans_kept_trans map_le_trans)
qed

lemma flow_le_frame:
  assumes "verified_frame s s1" "flow_le s1 s'"
  shows "flow_le s s'"
proof -
  from verified_frame_fields [OF assms(1)] have "flow_le s s1" by (simp add: flow_le_def)
  with assms(2) show ?thesis by (rule flow_le_trans [rotated -1])
qed

lemma packets_inv_frame: "verified_frame s s1 \<Longrightarrow> packets_inv s1 = packets_inv s"
  by (simp add: packets_inv_def verified_frame_fields)

lemma receipt_map_le: "m k = None \<Longrightarrow> m \<subseteq>\<^sub>m m(k \<mapsto> v)"
  by (auto simp: map_le_def dom_def)

lemma TimeoutExecuted_flow:
  assumes "TimeoutExecuted E s cap p = Inr s'"
  shows "flow_le s s' \<and> (packets_inv s \<longrightarrow> packets_inv s')"
proof -
  from TimeoutExecuted_Inr [OF assms] obtain channel where "channels s (src_chan p) = Some channel"
     "s' = s \<lparr> packetCommitments := (packetCommitments s)(src_key p := None),
       channels := (if chan_Ordering channel = ORDERED then (channels s)(src_chan p \<mapsto> channel \<lparr> chan_State := CLOSED \<rparr>) else channels s) \<rparr>"
    by blast
  then show ?thesis by (auto simp: flow_le_def packets_inv_def intro: chans_kept_close)
qed

lemma ChanClose_flow:
  "ChanCloseInit E s port chan cap = Inr s' \<Longrightarrow> flow_le s s' \<and> (packets_inv s \<longrightarrow> packets_inv s')"
  "ChanCloseConfirm E ctx s port chan cap pf h = Inr s' \<Longrightarrow> flow_le s s' \<and> (packets_inv s \<longrightarrow> packets_inv s')"
proof -
  show "ChanCloseInit E s port chan cap = Inr s' \<Longrightarrow> flow_le s s' \<and> (packets_inv s \<longrightarrow> packets_inv s')"
    by (auto simp: ChanCloseInit_def result_elims chan_getters chan_setters flow_le_def packets_inv_def intro: chans_kept_close)
  assume "ChanCloseConfirm E ctx s port chan cap pf h = Inr s'"
  then obtain channel s1 where c: "channels s (port, chan) = Some channel" and f: "verified_frame s s1"
    and s': "s' = s1 \<lparr> channels := (channels s1)((port, chan) \<mapsto> channel \<lparr> chan_State := CLOSED \<rparr>) \<rparr>"
    by (auto simp: ChanCloseConfirm_def result_elims Let_def chan_getters chan_setters intro: conn_verify_frames)
  from c verified_frame_fields(7) [OF f] have "flow_le s1 s'" "packets_inv s1 = packets_inv s'"
    unfolding s' by (auto simp: flow_le_def packets_inv_def intro: chans_kept_close)
  with flow_le_frame [OF f] packets_inv_frame [OF f] show "flow_le s s' \<and> (packets_inv s \<longrightarrow> packets_inv s')" by simp
qed

lemma SendPacket_flow:
  assumes "SendPacket E ctx s cap p = Inr s'" "Sequence p \<noteq> - 1"
  shows "flow_le s s' \<and> (packets_inv s \<longrightarrow> packets_inv s')"
proof -
  from SendPacket_Inr [OF assms(1)] have n: "nextSequenceSend s (src_chan p) = Some (Sequence p)"
    and s': "s' = s \<lparr> nextSequenceSend := (nextSequenceSend s)(src_chan p \<mapsto> Sequence p + 1),
            packetCommitments := (packetCommitments s)(src_key p \<mapsto> CommitPacket p) \<rparr>" by blast+
  note lt = u64_less_succ [OF assms(2)]
  have "flow_le s s'" unfolding s' using n counter_le_upd [of "nextSequenceSend s" "src_chan p" "Sequence p"] assms(2) by (auto simp: flow_le_def)
  moreover have "packets_inv s'" if "packets_inv s"
    unfolding packets_inv_def
  proof (intro allI impI)
    fix port chan k
    assume c: "packetCommitments s' (port, chan, k) \<noteq> None"
    show "\<exists>m. nextSequenceSend s' (port, chan) = Some m \<and> k < m"
    proof (cases "(port, chan, k) = src_key p")
      case True
      then show ?thesis using lt by (simp add: s')
    next
      case False
      with c have "packetCommitments s (port, chan, k) \<noteq> None" by (auto simp: s' split: if_splits)
      with that obtain m where "nextSequenceSend s (port, chan) = Some m" "k < m" unfolding packets_inv_def by blast
      with n lt show ?thesis by (auto simp: s' intro: less_trans)
    qed
  qed
  ultimately show ?thesis by blast
qed

lemma RecvPacket_flow:
  assumes "RecvPacket E ctx s cap p pf h = Inr s'" "Sequence p \<noteq> - 1"
  shows "flow_le s s' \<and> (packets_inv s \<longrightarrow> packets_inv s')"
  using assms(1)
proof (rule RecvPacket_Inr)
  fix channel connection s1
  assume v: "conn_VerifyPacketCommitment E ctx s connection h pf (SourcePort p) (SourceChannel p) (Sequence p) (CommitPacket p) = Inr s1"
    and r: "case chan_Ordering channel of
       UNORDERED \<Rightarrow> packetReceipts s (dst_key p) = None \<and>
         s' = s1 \<lparr> packetReceipts := (packetReceipts s1)(dst_key p \<mapsto> [char_of (1 :: nat)]) \<rparr>
     | ORDERED \<Rightarrow> nextSequenceRecv s (dst_chan p) = Some (Sequence p) \<and>
         s' = s1 \<lparr> nextSequenceRecv := (nextSequenceRecv s1)(dst_chan p \<mapsto> Sequence p + 1) \<rparr>
     | NONE \<Rightarrow> s' = s1"
  note f = conn_verify_frames(5) [OF v]
  note fr = verified_frame_fields [OF f]
  have "flow_le s1 s' \<and> packets_inv s' = packets_inv s1"
    using r fr(9,12) counter_le_upd [OF _ assms(2), of "nextSequenceRecv s1" "dst_chan p"] receipt_map_le
    by (cases "chan_Ordering channel") (auto simp: flow_le_def packets_inv_def)
  with flow_le_frame [OF f] packets_inv_frame [OF f] show ?thesis by simp
qed

lemma AcknowledgePacket_flow:
  assumes "AcknowledgePacket E ctx s cap p a pf h = Inr s'" "Sequence p \<noteq> - 1"
  shows "flow_le s s' \<and> (packets_inv s \<longrightarrow> packets_inv s')"
  using assms(1)
proof (rule AcknowledgePacket_Inr)
  fix channel connection s1
  assume v: "conn_VerifyPacketAcknowledgement E ctx s connection h pf (DestinationPort p) (DestinationChannel p) (Sequence p) a = Inr s1"
    and o: "chan_Ordering channel = ORDERED \<longrightarrow> nextSequenceAck s (src_chan p) = Some (Sequence p)"
    and s': "s' = s1 \<lparr> nextSequenceAck := (if chan_Ordering channel = ORDERED then (nextSequenceAck s)(src_chan p \<mapsto> Sequence p + 1)
        else nextSequenceAck s), packetCommitments := (packetCommitments s1)(src_key p := None) \<rparr>"
  note f = conn_verify_frames(6) [OF v]
  note fr = verified_frame_fields [OF f]
  have "counter_le (nextSequenceAck s1) (nextSequenceAck s')"
    using o fr(10) counter_le_upd [OF _ assms(2)] by (simp add: s')
  then have "flow_le s1 s'" by (simp add: s' flow_le_def)
  moreover have "packets_inv s'" if "packets_inv s1" using that by (auto simp: packets_inv_def s')
  ultimately show ?thesis using flow_le_frame [OF f] packets_inv_frame [OF f] by simp
qed

lemma packet_step_flow:
  assumes "packet_step E s s'"
  shows "flow_le s s' \<and> (packets_inv s \<longrightarrow> packets_inv s')"
  using assms
proof cases
  case send then show ?thesis by (rule SendPacket_flow)
next
  case recv then show ?thesis by (rule RecvPacket_flow)
next
  case (write_ack cap p a)
  from WriteAcknowledgement_Inr [OF this] receipt_map_le show ?thesis by (auto simp: flow_le_def packets_inv_def)
next
  case acknowledge then show ?thesis by (rule AcknowledgePacket_flow)
next
  case (timeout ctx p pf h n s1 cap)
  from timeout(1) have f: "verified_frame s s1"
    by (rule TimeoutPacket_Inr) (blast intro: verify_not_received_frame)
  from TimeoutExecuted_flow [OF timeout(2)] flow_le_frame [OF f] packets_inv_frame [OF f] show ?thesis by simp
next
  case (timeout_closed ctx cap p pf pfc h n s1 cap')
  from timeout_closed(1) have f: "verified_frame s s1"
    by (rule TimeoutOnClose_Inr) (blast intro: verify_not_received_frame conn_verify_frames verified_frame_trans)
  from TimeoutExecuted_flow [OF timeout_closed(2)] flow_le_frame [OF f] packets_inv_frame [OF f] show ?thesis by simp
next
  case close_init then show ?thesis by (rule ChanClose_flow)
next
  case close_confirm then show ?thesis by (rule ChanClose_flow)
qed

lemma packet_run_flow:
  assumes "(packet_step E)\<^sup>*\<^sup>* s s'"
  shows "flow_le s s' \<and> (packets_inv s \<longrightarrow> packets_inv s')"
  using assms
proof (induction rule: rtranclp_induct)
  case (step b c)
  with packet_step_flow [OF step.hyps(2)] show ?case by (blast intro: flow_le_trans)
qed simp

text \<open>
  In every run of packet operations and channel closings the send, receive and
  acknowledgement counters of a channel never decrease, receipts and written
  acknowledgements are never changed or removed, no commitment appears under a sequence
  number already passed, channels keep their ordering, counterparty and connection and only
  change their state to closed, and every commitment stays below its channel's send counter.
\<close>

theorem packet_run_invariant:
  assumes "(packet_step E)\<^sup>*\<^sup>* s s'" and "packets_inv s"
  shows "packets_inv s' \<and> flow_le s s'"
  using packet_run_flow [OF assms(1)] assms(2) by blast

text \<open>
  A packet is received at most once: after a successful \<open>RecvPacket\<close> on an ordered or
  unordered channel, no run of packet operations leads to a state in which a packet with
  the same destination and sequence number is received again, whatever proof, capability
  or context is presented.
\<close>

theorem no_double_receive:
  assumes "RecvPacket E ctx s cap p pf h = Inr s1" and "Sequence p \<noteq> - 1"
    and "channels s (dst_chan p) = Some channel" and "chan_Ordering channel \<noteq> NONE"
    and "(packet_step E)\<^sup>*\<^sup>* s1 s2" and "dst_key q = dst_key p"
  shows "\<not> is_ok (RecvPacket E' ctx' s2 cap' q pf' h')"
proof
  assume "is_ok (RecvPacket E' ctx' s2 cap' q pf' h')"
  then obtain s3 where again: "RecvPacket E' ctx' s2 cap' q pf' h' = Inr s3" by (auto simp: is_ok_iff)
  from RecvPacket_flow [OF assms(1,2)] have f1: "flow_le s s1" by blast
  from packet_run_flow [OF assms(5)] have f2: "flow_le s1 s2" by blast
  from flow_le_trans [OF f1 f2] have "chans_kept (channels s) (channels s2)" by (simp add: flow_le_def)
  with assms(3) obtain channel2 where c2: "channels s2 (dst_chan p) = Some channel2" "chan_Ordering channel2 = chan_Ordering channel"
    unfolding chans_kept_def by fastforce
  show False
    using assms(1)
  proof (rule RecvPacket_Inr)
    fix ch co t
    assume "channels s (dst_chan p) = Some ch"
      and r: "case chan_Ordering ch of
       UNORDERED \<Rightarrow> packetReceipts s (dst_key p) = None \<and> s1 = t \<lparr> packetReceipts := (packetReceipts t)(dst_key p \<mapsto> [char_of (1 :: nat)]) \<rparr>
     | ORDERED \<Rightarrow> nextSequenceRecv s (dst_chan p) = Some (Sequence p) \<and>
         s1 = t \<lparr> nextSequenceRecv := (nextSequenceRecv t)(dst_chan p \<mapsto> Sequence p + 1) \<rparr>
     | NONE \<Rightarrow> s1 = t"
    with assms(3) have ch: "ch = channel" by simp
    from again show False
    proof (rule RecvPacket_Inr)
      fix ch' co' t'
      assume "channels s2 (dst_chan q) = Some ch'"
        and r': "case chan_Ordering ch' of
         UNORDERED \<Rightarrow> packetReceipts s2 (dst_key q) = None \<and> s3 = t' \<lparr> packetReceipts := (packetReceipts t')(dst_key q \<mapsto> [char_of (1 :: nat)]) \<rparr>
       | ORDERED \<Rightarrow> nextSequenceRecv s2 (dst_chan q) = Some (Sequence q) \<and>
           s3 = t' \<lparr> nextSequenceRecv := (nextSequenceRecv t')(dst_chan q \<mapsto> Sequence q + 1) \<rparr>
       | NONE \<Rightarrow> s3 = t'"
      with c2 assms(6) have ch': "chan_Ordering ch' = chan_Ordering channel" by simp
      show False
      proof (cases "chan_Ordering channel")
        case UNORDERED
        with r ch have "packetReceipts s1 (dst_key p) \<noteq> None" by simp
        with f2 have "packetReceipts s2 (dst_key p) \<noteq> None" by (auto simp: flow_le_def map_le_def dom_def)
        with UNORDERED r' ch' assms(6) show False by simp
      next
        case ORDERED
        with r ch have "nextSequenceRecv s1 (dst_chan p) = Some (Sequence p + 1)" by simp
        with f2 obtain n where "nextSequenceRecv s2 (dst_chan p) = Some n" "Sequence p + 1 \<le> n"
          unfolding flow_le_def counter_le_def by blast
        with ORDERED r' ch' assms(6) u64_less_succ [OF assms(2)] show False by simp
      qed (use assms(4) in simp)
    qed
  qed
qed

subsection \<open>A packet is completed once\<close>

text \<open>The ways in which the sender learns the fate of a packet.\<close>

inductive completes :: "('k, 'x) keeper_env_scheme \<Rightarrow> Packet \<Rightarrow> 'k ibc_state \<Rightarrow> 'k ibc_state \<Rightarrow> bool" for E p where
  by_ack: "AcknowledgePacket E ctx s cap p a pf h = Inr s' \<Longrightarrow> completes E p s s'"
| by_timeout: "TimeoutPacket E ctx s p pf h n = Inr s1 \<Longrightarrow> TimeoutExecuted E s1 cap p = Inr s' \<Longrightarrow> completes E p s s'"
| by_close: "TimeoutOnClose E ctx s cap p pf pfc h n = Inr s1 \<Longrightarrow> TimeoutExecuted E s1 cap' p = Inr s' \<Longrightarrow> completes E p s s'"

inductive_cases completes_cases: "completes E p s s'"

lemma TimeoutExecuted_deletes:
  "TimeoutExecuted E s cap p = Inr s' \<Longrightarrow> packetCommitments s' (src_key p) = None \<and> nextSequenceSend s' = nextSequenceSend s"
  by (drule TimeoutExecuted_Inr) auto

lemma completes_commitment:
  assumes "completes E p s s'"
  shows "packetCommitments s (src_key p) = Some (CommitPacket p) \<and> packetCommitments s' (src_key p) = None \<and>
     nextSequenceSend s' = nextSequenceSend s"
  using assms
proof (rule completes_cases)
  fix ctx cap a pf h assume "AcknowledgePacket E ctx s cap p a pf h = Inr s'"
  then show ?thesis
    by (rule AcknowledgePacket_Inr) (auto dest: verified_frame_fields(8) [OF conn_verify_frames(6)])
next
  fix ctx pf h n s1 cap assume a: "TimeoutPacket E ctx s p pf h n = Inr s1" "TimeoutExecuted E s1 cap p = Inr s'"
  from a(1) have "packetCommitments s (src_key p) = Some (CommitPacket p) \<and> verified_frame s s1"
    by (rule TimeoutPacket_Inr) (auto intro: verify_not_received_frame)
  with TimeoutExecuted_deletes [OF a(2)] verified_frame_fields(8) show ?thesis by metis
next
  fix ctx cap pf pfc h n s1 cap' assume a: "TimeoutOnClose E ctx s cap p pf pfc h n = Inr s1" "TimeoutExecuted E s1 cap' p = Inr s'"
  from a(1) have "packetCommitments s (src_key p) = Some (CommitPacket p) \<and> verified_frame s s1"
    by (rule TimeoutOnClose_Inr) (auto intro: verify_not_received_frame conn_verify_frames verified_frame_trans)
  with TimeoutExecuted_deletes [OF a(2)] verified_frame_fields(8) show ?thesis by metis
qed

text \<open>
  A sent packet is completed at most once: once it has been acknowledged or timed out
  (by either kind of timeout), no run of packet operations leads to a state in which a
  packet of the same channel and sequence number is acknowledged or timed out again. In
  particular a packet is never both acknowledged and timed out.
\<close>

theorem packet_completed_once:
  assumes "packets_inv s" and "completes E p s s1" and "(packet_step E)\<^sup>*\<^sup>* s1 s2" and "src_key q = src_key p"
  shows "\<not> completes E' q s2 s3"
proof
  assume "completes E' q s2 s3"
  from completes_commitment [OF this] assms(4) have open2: "packetCommitments s2 (src_key p) \<noteq> None" by simp
  from completes_commitment [OF assms(2)] have c: "packetCommitments s (src_key p) \<noteq> None"
      "packetCommitments s1 (src_key p) = None" "nextSequenceSend s1 = nextSequenceSend s" by auto
  from assms(1) c(1) obtain m where m: "nextSequenceSend s (src_chan p) = Some m" "Sequence p < m"
    unfolding packets_inv_def by blast
  from packet_run_flow [OF assms(3)] c(2,3) m have "packetCommitments s2 (src_key p) = None"
    unfolding flow_le_def by auto
  with open2 show False by simp
qed

text \<open>
  C14: timeout and receipt exclude each other: when the sender's \<open>TimeoutPacket\<close> succeeds with
  a proof at a height of the receiving chain, then the receiving chain, in every block of
  at least that height and at least the time of the consensus state at that height, refuses
  the packet, whatever its state and whatever is presented. So the absence proved at that
  height is final.
\<close>

theorem timeout_excludes_receive:
  assumes "TimeoutPacket E ctx s p pf h n = Inr s'"
    and "channels s (src_chan p) = Some channel" and "hop_connection s (chan_ConnectionHops channel) = Inr connection"
    and "GetClientConsensusState s (conn_ClientId connection) h = Some cons"
    and "GetSelfHeight ctxB = Inr hB" and "h \<le> hB" and "consensus_GetTimestamp cons \<le> block_time_u64 ctxB"
  shows "\<not> is_ok (RecvPacket EB ctxB sB cap p pfB hB')"
proof
  assume "is_ok (RecvPacket EB ctxB sB cap p pfB hB')"
  then obtain sB' where "RecvPacket EB ctxB sB cap p pfB hB' = Inr sB'" by (auto simp: is_ok_iff)
  then have "\<not> timed_out ctxB p" by (rule RecvPacket_Inr)
  moreover have "timed_out ctxB p"
    using assms(1)
  proof (rule TimeoutPacket_Inr)
    fix ch co ts
    assume c: "channels s (src_chan p) = Some ch" "hop_connection s (chan_ConnectionHops ch) = Inr co"
      and ts: "GetTimestampAtHeight s co h = Inr ts"
      and t: "\<not> IsZero (TimeoutHeight p) \<and> TimeoutHeight p \<le> h \<or> TimeoutTimestamp p \<noteq> 0 \<and> TimeoutTimestamp p \<le> ts"
    from c assms(2,3) have "co = connection" by simp
    with ts assms(4) have "ts = consensus_GetTimestamp cons" by (simp add: GetTimestampAtHeight_def)
    with t assms(5-7) show ?thesis unfolding timed_out_def by (auto simp: height_comparisons intro: order_trans)
  qed
  ultimately show False by simp
qed

subsection \<open>Concrete packets\<close>

text \<open>
  One end of an unordered channel over the connection of the earlier examples, with a
  commitment \<open>b\<close> under sequence number 1.
\<close>

definition demo_channel :: Channel where
  "demo_channel = NewChannel OPEN UNORDERED (chan_NewCounterparty ''transfer'' ''channel-7'') [''connection-0''] ''ics20-1''"

definition demo_flow :: "bytes \<Rightarrow> unit ibc_state" where
  "demo_flow b = demo_conn_state \<lparr> connections := [''connection-0'' \<mapsto> demo_open_conn],
     channels := [(''transfer'', ''channel-0'') \<mapsto> demo_channel],
     nextSequenceSend := [(''transfer'', ''channel-0'') \<mapsto> 2],
     nextSequenceRecv := [(''transfer'', ''channel-0'') \<mapsto> 1],
     nextSequenceAck := [(''transfer'', ''channel-0'') \<mapsto> 1],
     packetCommitments := [(''transfer'', ''channel-0'', 1) \<mapsto> b] \<rparr>"

definition demo_in :: Packet where
  "demo_in = NewPacket ''data'' 1 ''transfer'' ''channel-7'' ''transfer'' ''channel-0'' (Height 1 1000) 0"

definition demo_out :: Packet where
  "demo_out = NewPacket ''data'' 1 ''transfer'' ''channel-0'' ''transfer'' ''channel-7'' (Height 1 3) 0"

lemma demo_flow_inv: "packets_inv (demo_flow b)"
  by (auto simp: packets_inv_def demo_flow_def demo_conn_state_def set_client_store_def empty_ibc_state_def)

lemma demo_flow_fields:
  "GetChannel (demo_flow b) ''transfer'' ''channel-0'' = Some demo_channel"
  "chan_State demo_channel = OPEN" "chan_Ordering demo_channel = UNORDERED"
  "chan_Counterparty demo_channel = chan_NewCounterparty ''transfer'' ''channel-7''"
  "chan_Authenticate demo_kenv (demo_flow b) c x y"
  "hop_connection (demo_flow b) (chan_ConnectionHops demo_channel) = Inr demo_open_conn"
  "open_connection (demo_flow b) (chan_ConnectionHops demo_channel) = Inr demo_open_conn"
  "GetPacketCommitment (demo_flow b) ''transfer'' ''channel-0'' 1 = b"
  "GetPacketReceipt (demo_flow b) ''transfer'' ''channel-0'' 1 = None"
  "GetTimestampAtHeight (demo_flow b) demo_open_conn (Height 1 5) = Inr 50"
  "GetSelfHeight demo_ctx = Inr (Height 1 10)"
  by (simp add: demo_flow_def GetChannel_def, code_simp, code_simp, code_simp,
      simp add: chan_Authenticate_def demo_kenv_def env.extend_def,
      simp add: hop_connection_def demo_channel_def NewChannel_def first_hop_def GetConnection_def demo_flow_def,
      simp add: open_connection_def hop_connection_def demo_channel_def NewChannel_def first_hop_def GetConnection_def demo_flow_def
        demo_open_conn_def NewConnectionEnd_def,
      simp add: demo_flow_def GetPacketCommitment_def,
      simp add: demo_flow_def GetPacketReceipt_def demo_conn_state_def set_client_store_def empty_ibc_state_def,
      code_simp, code_simp)

lemma demo_recv_verify:
  assumes "v \<noteq> []"
  shows "is_ok (conn_VerifyPacketCommitment demo_kenv demo_ctx (demo_flow b) demo_open_conn (Height 1 5) ''p''
     ''transfer'' ''channel-7'' 1 v)"
proof -
  obtain x y where "v = x # y" using assms by (cases v) auto
  moreover have "is_ok (conn_VerifyPacketCommitment demo_kenv demo_ctx (demo_flow b) demo_open_conn (Height 1 5) ''p''
     ''transfer'' ''channel-7'' 1 (x # y))" by code_simp
  ultimately show ?thesis by simp
qed

lemma demo_in_fields:
  "SourcePort demo_in = ''transfer''" "SourceChannel demo_in = ''channel-7''" "DestinationPort demo_in = ''transfer''"
  "DestinationChannel demo_in = ''channel-0''" "Sequence demo_in = 1" "TimeoutHeight demo_in = Height 1 1000" "TimeoutTimestamp demo_in = 0"
  by code_simp+

lemma demo_out_fields:
  "SourcePort demo_out = ''transfer''" "SourceChannel demo_out = ''channel-0''" "DestinationPort demo_out = ''transfer''"
  "DestinationChannel demo_out = ''channel-7''" "Sequence demo_out = 1" "TimeoutHeight demo_out = Height 1 3" "TimeoutTimestamp demo_out = 0"
  by code_simp+

lemma demo_recv: "\<exists>s'. RecvPacket demo_kenv demo_ctx (demo_flow b) None demo_in ''p'' (Height 1 5) = Inr s'"
proof -
  from demo_recv_verify [OF CommitPacket_ne, of b demo_in] obtain s1 where
    v: "conn_VerifyPacketCommitment demo_kenv demo_ctx (demo_flow b) demo_open_conn (Height 1 5) ''p''
      ''transfer'' ''channel-7'' 1 (CommitPacket demo_in) = Inr s1" by (auto simp: is_ok_iff)
  have t: "\<not> GTE (Height 1 10) (Height 1 1000)" by code_simp
  from verified_frame_fields(12) [OF conn_verify_frames(5) [OF v]] have "GetPacketReceipt s1 ''transfer'' ''channel-0'' 1 = None"
    using demo_flow_fields(9) [of b] by (simp add: GetPacketReceipt_def)
  with v t show ?thesis
    by (simp add: RecvPacket_def Let_def demo_in_fields demo_flow_fields chan_NewCounterparty_def)
qed

lemma demo_timeout_verify:
  "is_ok (verify_not_received demo_kenv demo_ctx (demo_flow b) demo_open_conn UNORDERED demo_out ''absent'' (Height 1 5) 0 e)"
  by code_simp

lemma demo_timeout:
  "\<exists>s'. TimeoutPacket demo_kenv demo_ctx (demo_flow (CommitPacket demo_out)) demo_out ''absent'' (Height 1 5) 0 = Inr s'"
proof -
  from demo_timeout_verify obtain s1 where
    v: "verify_not_received demo_kenv demo_ctx (demo_flow (CommitPacket demo_out)) demo_open_conn UNORDERED demo_out ''absent'' (Height 1 5) 0
      ErrPacketReceived = Inr s1" unfolding is_ok_iff by blast
  have t: "\<not> LT (Height 1 5) (Height 1 3)" "\<not> IsZero (Height 1 3)" by code_simp+
  from v t show ?thesis
    by (simp add: TimeoutPacket_def Let_def demo_out_fields demo_flow_fields chan_NewCounterparty_def CommitPacket_ne)
qed

theorem no_double_receive_witness:
  "\<exists>s1. RecvPacket demo_kenv demo_ctx (demo_flow []) None demo_in ''p'' (Height 1 5) = Inr s1 \<and>
     \<not> is_ok (RecvPacket demo_kenv demo_ctx s1 None demo_in ''p'' (Height 1 5))"
proof -
  from demo_recv obtain s1 where r: "RecvPacket demo_kenv demo_ctx (demo_flow []) None demo_in ''p'' (Height 1 5) = Inr s1" by blast
  have "\<not> is_ok (RecvPacket demo_kenv demo_ctx s1 None demo_in ''p'' (Height 1 5))"
    by (rule no_double_receive [OF r, where channel = demo_channel])
      (use demo_flow_fields(1) [of "[]"] demo_flow_fields(3) in \<open>simp_all add: demo_in_fields GetChannel_def\<close>)
  with r show ?thesis by blast
qed

definition demo_closed :: "unit ibc_state result" where
  "demo_closed = ChanCloseInit demo_kenv (demo_flow ''b'') ''transfer'' ''channel-0'' None"

theorem packet_run_invariant_witness:
  "\<exists>s. demo_closed = Inr s \<and> packets_inv s \<and> flow_le (demo_flow ''b'') s"
proof -
  have "is_ok demo_closed" by code_simp
  then obtain s where s: "demo_closed = Inr s" by (auto simp: is_ok_iff)
  then have "packet_step demo_kenv (demo_flow ''b'') s" unfolding demo_closed_def by (rule packet_step.close_init)
  then have "(packet_step demo_kenv)\<^sup>*\<^sup>* (demo_flow ''b'') s" by blast
  from packet_run_invariant [OF this demo_flow_inv] s show ?thesis by blast
qed

lemma demo_completes: "\<exists>s1 s2. TimeoutPacket demo_kenv demo_ctx (demo_flow (CommitPacket demo_out)) demo_out ''absent'' (Height 1 5) 0 = Inr s1 \<and>
    TimeoutExecuted demo_kenv s1 None demo_out = Inr s2"
proof -
  from demo_timeout obtain s1 where s1: "TimeoutPacket demo_kenv demo_ctx (demo_flow (CommitPacket demo_out)) demo_out ''absent'' (Height 1 5) 0 = Inr s1"
    by blast
  then have f: "verified_frame (demo_flow (CommitPacket demo_out)) s1"
    by (rule TimeoutPacket_Inr) (blast intro: verify_not_received_frame)
  have "channels s1 (''transfer'', ''channel-0'') = Some demo_channel"
    using verified_frame_fields(7) [OF f] demo_flow_fields(1) by (simp add: GetChannel_def)
  then have "\<exists>s2. TimeoutExecuted demo_kenv s1 None demo_out = Inr s2"
    by (simp add: TimeoutExecuted_def Let_def GetChannel_def demo_out_fields chan_Authenticate_def demo_kenv_def env.extend_def)
  with s1 show ?thesis by blast
qed

theorem packet_completed_once_witness:
  "\<exists>s. completes demo_kenv demo_out (demo_flow (CommitPacket demo_out)) s \<and> \<not> completes demo_kenv demo_out s s"
proof -
  from demo_completes obtain s1 s2 where
    "TimeoutPacket demo_kenv demo_ctx (demo_flow (CommitPacket demo_out)) demo_out ''absent'' (Height 1 5) 0 = Inr s1"
    "TimeoutExecuted demo_kenv s1 None demo_out = Inr s2" by blast
  then have c: "completes demo_kenv demo_out (demo_flow (CommitPacket demo_out)) s2" by (rule completes.by_timeout)
  from packet_completed_once [OF demo_flow_inv c rtranclp.rtrancl_refl refl] c show ?thesis by blast
qed

theorem timeout_excludes_receive_witness:
  "\<not> is_ok (RecvPacket demo_kenv (demo_ctx \<lparr> ChainID := ''chain-1'' \<rparr>) (demo_flow []) None demo_out ''p'' (Height 1 1))"
proof -
  from demo_timeout obtain s1 where
    t: "TimeoutPacket demo_kenv demo_ctx (demo_flow (CommitPacket demo_out)) demo_out ''absent'' (Height 1 5) 0 = Inr s1" by blast
  have c: "GetClientConsensusState (demo_flow b) (conn_ClientId demo_open_conn) (Height 1 5) = Some (TMCons (demo_cons 50))" for b
    by code_simp
  have h: "GetSelfHeight (demo_ctx \<lparr> ChainID := ''chain-1'' \<rparr>) = Inr (Height 1 10)" by code_simp
  have "Height 1 5 \<le> Height 1 10" "consensus_GetTimestamp (TMCons (demo_cons 50)) \<le> block_time_u64 (demo_ctx \<lparr> ChainID := ''chain-1'' \<rparr>)"
    by code_simp+
  then show ?thesis
    using timeout_excludes_receive [OF t _ demo_flow_fields(6) c h] demo_flow_fields(1)
    by (simp add: demo_out_fields GetChannel_def)
qed

end
