(* ===== verification/Msgs.thy ===== *)
theory Msgs
  imports ClientKeeper
begin

text \<open>
  The messages of the core module and their stateless validation (\<^verbatim>\<open>types/msgs.go\<close> of
  \<^verbatim>\<open>02-client\<close>, \<^verbatim>\<open>03-connection\<close> and \<^verbatim>\<open>04-channel\<close>, and the unpacking functions of
  \<^verbatim>\<open>02-client/types/codec.go\<close>). A protobuf \<^verbatim>\<open>Any\<close> is an \<open>option\<close>: \<open>None\<close> stands for a nil
  \<^verbatim>\<open>Any\<close> and for one whose cached value has another type, which the unpacking functions
  treat alike.

  The lemmas show that a message that passes validation names only identifiers that are
  safe as elements of store paths, and has a signer and non-zero proof heights.
\<close>

subsection \<open>Sequences of checks\<close>

text \<open>\<^verbatim>\<open>if !b { return e }\<close>, and a body that returns the first error of a sequence of checks.\<close>

definition require :: "bool \<Rightarrow> error \<Rightarrow> unit result" where
  "require b e = (if b then Inr () else Inl e)"

fun first_error :: "unit result list \<Rightarrow> unit result" where
  "first_error [] = Inr ()"
| "first_error (r # rs) = (case r of Inl e \<Rightarrow> Inl e | Inr _ \<Rightarrow> first_error rs)"

lemma require_Inr [simp]: "require b e = Inr u \<longleftrightarrow> b"
  by (simp add: require_def)

lemma first_error_Inr [simp]: "first_error rs = Inr u \<longleftrightarrow> (\<forall>r \<in> set rs. r = Inr ())"
  by (induction rs) (auto split: sum.splits)

definition check_signer :: "'x env_scheme \<Rightarrow> string \<Rightarrow> unit result" where
  "check_signer E signer = require (sdk_AccAddressOk E signer) (SdkE ErrInvalidAddress)"

definition unpack :: "'a option \<Rightarrow> 'a result" where
  "unpack any = (case any of None \<Rightarrow> Inl (SdkE ErrUnpackAny) | Some v \<Rightarrow> Inr v)"

definition check_proof :: "bytes \<Rightarrow> unit result" where
  "check_proof pf = require (length pf \<noteq> 0) (CommitmentE ErrInvalidProof)"

definition check_height :: "Height \<Rightarrow> unit result" where
  "check_height h = require (\<not> IsZero h) (SdkE sdk_ErrInvalidHeight)"

lemma check_Inr [simp]:
  "check_signer E signer = Inr u \<longleftrightarrow> sdk_AccAddressOk E signer"
  "unpack any = Inr v \<longleftrightarrow> any = Some v"
  "check_proof pf = Inr u \<longleftrightarrow> pf \<noteq> []"
  "check_height h = Inr u \<longleftrightarrow> \<not> IsZero h"
  by (auto simp: check_signer_def unpack_def check_proof_def check_height_def split: option.splits)

subsection \<open>Client messages (02-client)\<close>

record MsgCreateClient =
  mcc_ClientState :: "ClientState option"
  mcc_ConsensusState :: "ConsensusState option"
  mcc_Signer :: string

definition MsgCreateClient_ValidateBasic :: "'x env_scheme \<Rightarrow> MsgCreateClient \<Rightarrow> unit result" where
  "MsgCreateClient_ValidateBasic E msg =
     (case check_signer E (mcc_Signer msg) of Inl e \<Rightarrow> Inl e | Inr _ \<Rightarrow>
     (case unpack (mcc_ClientState msg) of Inl e \<Rightarrow> Inl e | Inr clientState \<Rightarrow>
     (case client_Validate E clientState of Inl e \<Rightarrow> Inl e | Inr _ \<Rightarrow>
      if ClientType clientState = Localhost then Inl (ClientE ErrInvalidClient)
      else case unpack (mcc_ConsensusState msg) of Inl e \<Rightarrow> Inl e | Inr consensusState \<Rightarrow>
      if ClientType clientState \<noteq> ConsensusState_ClientType consensusState then Inl (ClientE ErrInvalidClientType)
      else case ValidateClientType (ClientType clientState) of Inl e \<Rightarrow> Inl e | Inr _ \<Rightarrow>
      consensus_ValidateBasic E consensusState)))"

record MsgUpdateClient =
  muc_ClientId :: string
  muc_Header :: "Header option"
  muc_Signer :: string

definition MsgUpdateClient_ValidateBasic :: "'x env_scheme \<Rightarrow> MsgUpdateClient \<Rightarrow> unit result" where
  "MsgUpdateClient_ValidateBasic E msg =
     (case check_signer E (muc_Signer msg) of Inl e \<Rightarrow> Inl e | Inr _ \<Rightarrow>
     (case unpack (muc_Header msg) of Inl e \<Rightarrow> Inl e | Inr header \<Rightarrow>
     (case header_ValidateBasic E header of Inl e \<Rightarrow> Inl e | Inr _ \<Rightarrow>
      if muc_ClientId msg = Localhost then Inl (ClientE ErrInvalidClient)
      else ClientIdentifierValidator (muc_ClientId msg))))"

record MsgUpgradeClient =
  mug_ClientId :: string
  mug_ClientState :: "ClientState option"
  mug_ConsensusState :: "ConsensusState option"
  mug_ProofUpgradeClient :: bytes
  mug_ProofUpgradeConsensusState :: bytes
  mug_Signer :: string

definition MsgUpgradeClient_ValidateBasic :: "'x env_scheme \<Rightarrow> MsgUpgradeClient \<Rightarrow> unit result" where
  "MsgUpgradeClient_ValidateBasic E msg =
     (case unpack (mug_ClientState msg) of Inl e \<Rightarrow> Inl e | Inr clientState \<Rightarrow>
     (case unpack (mug_ConsensusState msg) of Inl e \<Rightarrow> Inl e | Inr consensusState \<Rightarrow>
      first_error
        [require (ClientType clientState = ConsensusState_ClientType consensusState) (ClientE ErrInvalidUpgradeClient),
         require (length (mug_ProofUpgradeClient msg) \<noteq> 0) (ClientE ErrInvalidUpgradeClient),
         require (length (mug_ProofUpgradeConsensusState msg) \<noteq> 0) (ClientE ErrInvalidUpgradeClient),
         check_signer E (mug_Signer msg),
         ClientIdentifierValidator (mug_ClientId msg)]))"

record MsgSubmitMisbehaviour =
  msm_ClientId :: string
  msm_Misbehaviour :: "Misbehaviour option"
  msm_Signer :: string

definition MsgSubmitMisbehaviour_ValidateBasic :: "'x env_scheme \<Rightarrow> MsgSubmitMisbehaviour \<Rightarrow> unit result" where
  "MsgSubmitMisbehaviour_ValidateBasic E msg =
     (case check_signer E (msm_Signer msg) of Inl e \<Rightarrow> Inl e | Inr _ \<Rightarrow>
     (case unpack (msm_Misbehaviour msg) of Inl e \<Rightarrow> Inl e | Inr misbehaviour \<Rightarrow>
      first_error
        [misbehaviour_ValidateBasic E misbehaviour,
         require (misbehaviour_GetClientID misbehaviour = msm_ClientId msg) (ClientE ErrInvalidMisbehaviour),
         ClientIdentifierValidator (msm_ClientId msg)]))"

subsection \<open>Connection messages (03-connection)\<close>

record MsgConnectionOpenInit =
  mci_ClientId :: string
  mci_Counterparty :: conn_counterparty
  mci_Version :: "Version option"
  mci_DelayPeriod :: u64
  mci_Signer :: string

definition NewMsgConnectionOpenInit :: "string \<Rightarrow> string \<Rightarrow> MerklePrefix \<Rightarrow> Version option \<Rightarrow> u64 \<Rightarrow> string \<Rightarrow> MsgConnectionOpenInit" where
  "NewMsgConnectionOpenInit clientID counterpartyClientID counterpartyPrefix version delayPeriod signer =
     \<lparr> mci_ClientId = clientID, mci_Counterparty = NewCounterparty counterpartyClientID [] counterpartyPrefix,
       mci_Version = version, mci_DelayPeriod = delayPeriod, mci_Signer = signer \<rparr>"

definition MsgConnectionOpenInit_ValidateBasic :: "'x env_scheme \<Rightarrow> MsgConnectionOpenInit \<Rightarrow> unit result" where
  "MsgConnectionOpenInit_ValidateBasic E msg = first_error
     [ClientIdentifierValidator (mci_ClientId msg),
      require (cp_ConnectionId (mci_Counterparty msg) = []) (ConnectionE conn_ErrInvalidCounterparty),
      (if mci_Version msg \<noteq> None then ValidateVersion (mci_Version msg) else Inr ()),
      check_signer E (mci_Signer msg),
      conn_counterparty_ValidateBasic (mci_Counterparty msg)]"

record MsgConnectionOpenTry =
  mct_ClientId :: string
  mct_PreviousConnectionId :: string
  mct_ClientState :: "ClientState option"
  mct_Counterparty :: conn_counterparty
  mct_DelayPeriod :: u64
  mct_CounterpartyVersions :: "Version option list"
  mct_ProofHeight :: Height
  mct_ProofInit :: bytes
  mct_ProofClient :: bytes
  mct_ProofConsensus :: bytes
  mct_ConsensusHeight :: Height
  mct_Signer :: string

text \<open>A failure to unpack the client state is reported as an invalid client here.\<close>

definition check_client :: "'x env_scheme \<Rightarrow> ClientState option \<Rightarrow> unit result" where
  "check_client E any = (case any of None \<Rightarrow> Inl (ClientE ErrInvalidClient) | Some cs \<Rightarrow> client_Validate E cs)"

definition MsgConnectionOpenTry_ValidateBasic :: "'x env_scheme \<Rightarrow> MsgConnectionOpenTry \<Rightarrow> unit result" where
  "MsgConnectionOpenTry_ValidateBasic E msg = first_error (
     [require (mct_PreviousConnectionId msg = [] \<or> IsValidConnectionID (mct_PreviousConnectionId msg))
        (ConnectionE ErrInvalidConnectionIdentifier),
      ClientIdentifierValidator (mct_ClientId msg),
      ConnectionIdentifierValidator (cp_ConnectionId (mct_Counterparty msg)),
      check_client E (mct_ClientState msg),
      require (length (mct_CounterpartyVersions msg) \<noteq> 0) (SdkE sdk_ErrInvalidVersion)] @
     map ValidateVersion (mct_CounterpartyVersions msg) @
     [check_proof (mct_ProofInit msg), check_proof (mct_ProofClient msg), check_proof (mct_ProofConsensus msg),
      check_height (mct_ProofHeight msg), check_height (mct_ConsensusHeight msg),
      check_signer E (mct_Signer msg),
      conn_counterparty_ValidateBasic (mct_Counterparty msg)])"

record MsgConnectionOpenAck =
  mca_ConnectionId :: string
  mca_CounterpartyConnectionId :: string
  mca_Version :: "Version option"
  mca_ClientState :: "ClientState option"
  mca_ProofHeight :: Height
  mca_ProofTry :: bytes
  mca_ProofClient :: bytes
  mca_ProofConsensus :: bytes
  mca_ConsensusHeight :: Height
  mca_Signer :: string

definition MsgConnectionOpenAck_ValidateBasic :: "'x env_scheme \<Rightarrow> MsgConnectionOpenAck \<Rightarrow> unit result" where
  "MsgConnectionOpenAck_ValidateBasic E msg = first_error
     [require (IsValidConnectionID (mca_ConnectionId msg)) (ConnectionE ErrInvalidConnectionIdentifier),
      ConnectionIdentifierValidator (mca_CounterpartyConnectionId msg),
      ValidateVersion (mca_Version msg),
      check_client E (mca_ClientState msg),
      check_proof (mca_ProofTry msg), check_proof (mca_ProofClient msg), check_proof (mca_ProofConsensus msg),
      check_height (mca_ProofHeight msg), check_height (mca_ConsensusHeight msg),
      check_signer E (mca_Signer msg)]"

record MsgConnectionOpenConfirm =
  mco_ConnectionId :: string
  mco_ProofAck :: bytes
  mco_ProofHeight :: Height
  mco_Signer :: string

definition MsgConnectionOpenConfirm_ValidateBasic :: "'x env_scheme \<Rightarrow> MsgConnectionOpenConfirm \<Rightarrow> unit result" where
  "MsgConnectionOpenConfirm_ValidateBasic E msg = first_error
     [require (IsValidConnectionID (mco_ConnectionId msg)) (ConnectionE ErrInvalidConnectionIdentifier),
      check_proof (mco_ProofAck msg), check_height (mco_ProofHeight msg), check_signer E (mco_Signer msg)]"

subsection \<open>Channel messages (04-channel)\<close>

record MsgChannelOpenInit =
  mhi_PortId :: string
  mhi_Channel :: Channel
  mhi_Signer :: string

definition NewMsgChannelOpenInit :: "string \<Rightarrow> string \<Rightarrow> Order \<Rightarrow> string list \<Rightarrow> string \<Rightarrow> string \<Rightarrow> MsgChannelOpenInit" where
  "NewMsgChannelOpenInit portID version channelOrder connectionHops counterpartyPortID signer =
     \<lparr> mhi_PortId = portID,
       mhi_Channel = NewChannel INIT channelOrder (chan_NewCounterparty counterpartyPortID []) connectionHops version,
       mhi_Signer = signer \<rparr>"

definition MsgChannelOpenInit_ValidateBasic :: "'x env_scheme \<Rightarrow> MsgChannelOpenInit \<Rightarrow> unit result" where
  "MsgChannelOpenInit_ValidateBasic E msg = first_error
     [PortIdentifierValidator (mhi_PortId msg),
      require (chan_State (mhi_Channel msg) = INIT) (ChannelE ErrInvalidChannelState),
      require (ch_ChannelId (chan_Counterparty (mhi_Channel msg)) = []) (ChannelE chan_ErrInvalidCounterparty),
      check_signer E (mhi_Signer msg),
      Channel_ValidateBasic (mhi_Channel msg)]"

record MsgChannelOpenTry =
  mht_PortId :: string
  mht_PreviousChannelId :: string
  mht_Channel :: Channel
  mht_CounterpartyVersion :: string
  mht_ProofInit :: bytes
  mht_ProofHeight :: Height
  mht_Signer :: string

definition MsgChannelOpenTry_ValidateBasic :: "'x env_scheme \<Rightarrow> MsgChannelOpenTry \<Rightarrow> unit result" where
  "MsgChannelOpenTry_ValidateBasic E msg = first_error
     [PortIdentifierValidator (mht_PortId msg),
      require (mht_PreviousChannelId msg = [] \<or> IsValidChannelID (mht_PreviousChannelId msg)) (ChannelE ErrInvalidChannelIdentifier),
      check_proof (mht_ProofInit msg),
      check_height (mht_ProofHeight msg),
      require (chan_State (mht_Channel msg) = TRYOPEN) (ChannelE ErrInvalidChannelState),
      ChannelIdentifierValidator (ch_ChannelId (chan_Counterparty (mht_Channel msg))),
      check_signer E (mht_Signer msg),
      Channel_ValidateBasic (mht_Channel msg)]"

record MsgChannelOpenAck =
  mha_PortId :: string
  mha_ChannelId :: string
  mha_CounterpartyChannelId :: string
  mha_CounterpartyVersion :: string
  mha_ProofTry :: bytes
  mha_ProofHeight :: Height
  mha_Signer :: string

definition MsgChannelOpenAck_ValidateBasic :: "'x env_scheme \<Rightarrow> MsgChannelOpenAck \<Rightarrow> unit result" where
  "MsgChannelOpenAck_ValidateBasic E msg = first_error
     [PortIdentifierValidator (mha_PortId msg),
      require (IsValidChannelID (mha_ChannelId msg)) (ChannelE ErrInvalidChannelIdentifier),
      ChannelIdentifierValidator (mha_CounterpartyChannelId msg),
      check_proof (mha_ProofTry msg), check_height (mha_ProofHeight msg), check_signer E (mha_Signer msg)]"

record MsgChannelOpenConfirm =
  mho_PortId :: string
  mho_ChannelId :: string
  mho_ProofAck :: bytes
  mho_ProofHeight :: Height
  mho_Signer :: string

definition MsgChannelOpenConfirm_ValidateBasic :: "'x env_scheme \<Rightarrow> MsgChannelOpenConfirm \<Rightarrow> unit result" where
  "MsgChannelOpenConfirm_ValidateBasic E msg = first_error
     [PortIdentifierValidator (mho_PortId msg),
      require (IsValidChannelID (mho_ChannelId msg)) (ChannelE ErrInvalidChannelIdentifier),
      check_proof (mho_ProofAck msg), check_height (mho_ProofHeight msg), check_signer E (mho_Signer msg)]"

record MsgChannelCloseInit =
  mhc_PortId :: string
  mhc_ChannelId :: string
  mhc_Signer :: string

definition MsgChannelCloseInit_ValidateBasic :: "'x env_scheme \<Rightarrow> MsgChannelCloseInit \<Rightarrow> unit result" where
  "MsgChannelCloseInit_ValidateBasic E msg = first_error
     [PortIdentifierValidator (mhc_PortId msg),
      require (IsValidChannelID (mhc_ChannelId msg)) (ChannelE ErrInvalidChannelIdentifier),
      check_signer E (mhc_Signer msg)]"

record MsgChannelCloseConfirm =
  mhf_PortId :: string
  mhf_ChannelId :: string
  mhf_ProofInit :: bytes
  mhf_ProofHeight :: Height
  mhf_Signer :: string

definition MsgChannelCloseConfirm_ValidateBasic :: "'x env_scheme \<Rightarrow> MsgChannelCloseConfirm \<Rightarrow> unit result" where
  "MsgChannelCloseConfirm_ValidateBasic E msg = first_error
     [PortIdentifierValidator (mhf_PortId msg),
      require (IsValidChannelID (mhf_ChannelId msg)) (ChannelE ErrInvalidChannelIdentifier),
      check_proof (mhf_ProofInit msg), check_height (mhf_ProofHeight msg), check_signer E (mhf_Signer msg)]"

subsection \<open>Packet messages (04-channel)\<close>

record MsgRecvPacket =
  mrp_Packet :: Packet
  mrp_ProofCommitment :: bytes
  mrp_ProofHeight :: Height
  mrp_Signer :: string

definition MsgRecvPacket_ValidateBasic :: "'x env_scheme \<Rightarrow> MsgRecvPacket \<Rightarrow> unit result" where
  "MsgRecvPacket_ValidateBasic E msg = first_error
     [check_proof (mrp_ProofCommitment msg), check_height (mrp_ProofHeight msg), check_signer E (mrp_Signer msg),
      Packet_ValidateBasic (mrp_Packet msg)]"

record MsgTimeout =
  mto_Packet :: Packet
  mto_ProofUnreceived :: bytes
  mto_ProofHeight :: Height
  mto_NextSequenceRecv :: u64
  mto_Signer :: string

definition MsgTimeout_ValidateBasic :: "'x env_scheme \<Rightarrow> MsgTimeout \<Rightarrow> unit result" where
  "MsgTimeout_ValidateBasic E msg = first_error
     [check_proof (mto_ProofUnreceived msg), check_height (mto_ProofHeight msg),
      require (mto_NextSequenceRecv msg \<noteq> 0) (SdkE sdk_ErrInvalidSequence),
      check_signer E (mto_Signer msg), Packet_ValidateBasic (mto_Packet msg)]"

record MsgTimeoutOnClose =
  mtc_Packet :: Packet
  mtc_ProofUnreceived :: bytes
  mtc_ProofClose :: bytes
  mtc_ProofHeight :: Height
  mtc_NextSequenceRecv :: u64
  mtc_Signer :: string

definition MsgTimeoutOnClose_ValidateBasic :: "'x env_scheme \<Rightarrow> MsgTimeoutOnClose \<Rightarrow> unit result" where
  "MsgTimeoutOnClose_ValidateBasic E msg = first_error
     [require (mtc_NextSequenceRecv msg \<noteq> 0) (SdkE sdk_ErrInvalidSequence),
      check_proof (mtc_ProofUnreceived msg), check_proof (mtc_ProofClose msg), check_height (mtc_ProofHeight msg),
      check_signer E (mtc_Signer msg), Packet_ValidateBasic (mtc_Packet msg)]"

record MsgAcknowledgement =
  mak_Packet :: Packet
  mak_Acknowledgement :: bytes
  mak_ProofAcked :: bytes
  mak_ProofHeight :: Height
  mak_Signer :: string

definition MsgAcknowledgement_ValidateBasic :: "'x env_scheme \<Rightarrow> MsgAcknowledgement \<Rightarrow> unit result" where
  "MsgAcknowledgement_ValidateBasic E msg = first_error
     [check_proof (mak_ProofAcked msg), check_height (mak_ProofHeight msg),
      require (length (mak_Acknowledgement msg) \<noteq> 0) (ChannelE ErrInvalidAcknowledgement),
      check_signer E (mak_Signer msg), Packet_ValidateBasic (mak_Packet msg)]"

subsection \<open>All messages\<close>

datatype Msg =
    CreateClientMsg MsgCreateClient | UpdateClientMsg MsgUpdateClient | UpgradeClientMsg MsgUpgradeClient
  | SubmitMisbehaviourMsg MsgSubmitMisbehaviour
  | ConnectionOpenInitMsg MsgConnectionOpenInit | ConnectionOpenTryMsg MsgConnectionOpenTry
  | ConnectionOpenAckMsg MsgConnectionOpenAck | ConnectionOpenConfirmMsg MsgConnectionOpenConfirm
  | ChannelOpenInitMsg MsgChannelOpenInit | ChannelOpenTryMsg MsgChannelOpenTry | ChannelOpenAckMsg MsgChannelOpenAck
  | ChannelOpenConfirmMsg MsgChannelOpenConfirm | ChannelCloseInitMsg MsgChannelCloseInit
  | ChannelCloseConfirmMsg MsgChannelCloseConfirm
  | RecvPacketMsg MsgRecvPacket | TimeoutMsg MsgTimeout | TimeoutOnCloseMsg MsgTimeoutOnClose
  | AcknowledgementMsg MsgAcknowledgement

fun ValidateBasic :: "'x env_scheme \<Rightarrow> Msg \<Rightarrow> unit result" where
  "ValidateBasic E (CreateClientMsg m) = MsgCreateClient_ValidateBasic E m"
| "ValidateBasic E (UpdateClientMsg m) = MsgUpdateClient_ValidateBasic E m"
| "ValidateBasic E (UpgradeClientMsg m) = MsgUpgradeClient_ValidateBasic E m"
| "ValidateBasic E (SubmitMisbehaviourMsg m) = MsgSubmitMisbehaviour_ValidateBasic E m"
| "ValidateBasic E (ConnectionOpenInitMsg m) = MsgConnectionOpenInit_ValidateBasic E m"
| "ValidateBasic E (ConnectionOpenTryMsg m) = MsgConnectionOpenTry_ValidateBasic E m"
| "ValidateBasic E (ConnectionOpenAckMsg m) = MsgConnectionOpenAck_ValidateBasic E m"
| "ValidateBasic E (ConnectionOpenConfirmMsg m) = MsgConnectionOpenConfirm_ValidateBasic E m"
| "ValidateBasic E (ChannelOpenInitMsg m) = MsgChannelOpenInit_ValidateBasic E m"
| "ValidateBasic E (ChannelOpenTryMsg m) = MsgChannelOpenTry_ValidateBasic E m"
| "ValidateBasic E (ChannelOpenAckMsg m) = MsgChannelOpenAck_ValidateBasic E m"
| "ValidateBasic E (ChannelOpenConfirmMsg m) = MsgChannelOpenConfirm_ValidateBasic E m"
| "ValidateBasic E (ChannelCloseInitMsg m) = MsgChannelCloseInit_ValidateBasic E m"
| "ValidateBasic E (ChannelCloseConfirmMsg m) = MsgChannelCloseConfirm_ValidateBasic E m"
| "ValidateBasic E (RecvPacketMsg m) = MsgRecvPacket_ValidateBasic E m"
| "ValidateBasic E (TimeoutMsg m) = MsgTimeout_ValidateBasic E m"
| "ValidateBasic E (TimeoutOnCloseMsg m) = MsgTimeoutOnClose_ValidateBasic E m"
| "ValidateBasic E (AcknowledgementMsg m) = MsgAcknowledgement_ValidateBasic E m"

fun Signer :: "Msg \<Rightarrow> string" where
  "Signer (CreateClientMsg m) = mcc_Signer m"
| "Signer (UpdateClientMsg m) = muc_Signer m"
| "Signer (UpgradeClientMsg m) = mug_Signer m"
| "Signer (SubmitMisbehaviourMsg m) = msm_Signer m"
| "Signer (ConnectionOpenInitMsg m) = mci_Signer m"
| "Signer (ConnectionOpenTryMsg m) = mct_Signer m"
| "Signer (ConnectionOpenAckMsg m) = mca_Signer m"
| "Signer (ConnectionOpenConfirmMsg m) = mco_Signer m"
| "Signer (ChannelOpenInitMsg m) = mhi_Signer m"
| "Signer (ChannelOpenTryMsg m) = mht_Signer m"
| "Signer (ChannelOpenAckMsg m) = mha_Signer m"
| "Signer (ChannelOpenConfirmMsg m) = mho_Signer m"
| "Signer (ChannelCloseInitMsg m) = mhc_Signer m"
| "Signer (ChannelCloseConfirmMsg m) = mhf_Signer m"
| "Signer (RecvPacketMsg m) = mrp_Signer m"
| "Signer (TimeoutMsg m) = mto_Signer m"
| "Signer (TimeoutOnCloseMsg m) = mtc_Signer m"
| "Signer (AcknowledgementMsg m) = mak_Signer m"

text \<open>\<^verbatim>\<open>GetSigners\<close> has the same body for every message; it panics on an address that does not parse.\<close>

definition GetSigners :: "'x env_scheme \<Rightarrow> Msg \<Rightarrow> string list result" where
  "GetSigners E m = (if sdk_AccAddressOk E (Signer m) then Inr [Signer m] else Inl Panic)"

subsection \<open>What validation guarantees\<close>

text \<open>The identifiers of a message that its handler reads or writes store entries under.\<close>

definition packet_identifiers :: "Packet \<Rightarrow> string set" where
  "packet_identifiers p = {SourcePort p, SourceChannel p, DestinationPort p, DestinationChannel p}"

fun msg_identifiers :: "Msg \<Rightarrow> string set" where
  "msg_identifiers (CreateClientMsg m) = {}"
| "msg_identifiers (UpdateClientMsg m) = {muc_ClientId m}"
| "msg_identifiers (UpgradeClientMsg m) = {mug_ClientId m}"
| "msg_identifiers (SubmitMisbehaviourMsg m) = {msm_ClientId m}"
| "msg_identifiers (ConnectionOpenInitMsg m) = {mci_ClientId m, cp_ClientId (mci_Counterparty m)}"
| "msg_identifiers (ConnectionOpenTryMsg m) =
     {mct_ClientId m, cp_ClientId (mct_Counterparty m), cp_ConnectionId (mct_Counterparty m)} \<union>
     (if mct_PreviousConnectionId m = [] then {} else {mct_PreviousConnectionId m})"
| "msg_identifiers (ConnectionOpenAckMsg m) = {mca_ConnectionId m, mca_CounterpartyConnectionId m}"
| "msg_identifiers (ConnectionOpenConfirmMsg m) = {mco_ConnectionId m}"
| "msg_identifiers (ChannelOpenInitMsg m) =
     {mhi_PortId m, ch_PortId (chan_Counterparty (mhi_Channel m))} \<union> set (chan_ConnectionHops (mhi_Channel m))"
| "msg_identifiers (ChannelOpenTryMsg m) =
     {mht_PortId m, ch_PortId (chan_Counterparty (mht_Channel m)), ch_ChannelId (chan_Counterparty (mht_Channel m))} \<union>
     set (chan_ConnectionHops (mht_Channel m)) \<union> (if mht_PreviousChannelId m = [] then {} else {mht_PreviousChannelId m})"
| "msg_identifiers (ChannelOpenAckMsg m) = {mha_PortId m, mha_ChannelId m, mha_CounterpartyChannelId m}"
| "msg_identifiers (ChannelOpenConfirmMsg m) = {mho_PortId m, mho_ChannelId m}"
| "msg_identifiers (ChannelCloseInitMsg m) = {mhc_PortId m, mhc_ChannelId m}"
| "msg_identifiers (ChannelCloseConfirmMsg m) = {mhf_PortId m, mhf_ChannelId m}"
| "msg_identifiers (RecvPacketMsg m) = packet_identifiers (mrp_Packet m)"
| "msg_identifiers (TimeoutMsg m) = packet_identifiers (mto_Packet m)"
| "msg_identifiers (TimeoutOnCloseMsg m) = packet_identifiers (mtc_Packet m)"
| "msg_identifiers (AcknowledgementMsg m) = packet_identifiers (mak_Packet m)"

text \<open>Every validator of an identifier accepts only strings of identifier characters.\<close>

lemma validator_valid [dest]:
  "ClientIdentifierValidator x = Inr () \<Longrightarrow> IsValidID x"
  "ConnectionIdentifierValidator x = Inr () \<Longrightarrow> IsValidID x"
  "ChannelIdentifierValidator x = Inr () \<Longrightarrow> IsValidID x"
  "PortIdentifierValidator x = Inr () \<Longrightarrow> IsValidID x"
  using identifier_validators_accept by blast+

lemma digits_valid:
  assumes "prefix pre x" "list_all is_digit (drop (length pre) x)" "IsValidID pre"
  shows "IsValidID x"
  using assms digit_is_id_char by (auto simp: prefix_def IsValidID_def list_all_iff)

lemma prefixes_valid: "IsValidID ''connection-''" "IsValidID ''channel-''"
  by code_simp+

lemma formatted_valid [dest]: "IsValidConnectionID x \<Longrightarrow> IsValidID x" "IsValidChannelID x \<Longrightarrow> IsValidID x"
proof -
  assume "IsValidConnectionID x"
  then have "IsConnectionIDFormat x" by (simp add: IsValidConnectionID_def ParseConnectionSequence_def is_ok_def split: if_splits)
  then have "prefix ''connection-'' x" "list_all is_digit (drop (length ''connection-'') x)" by (simp_all add: IsConnectionIDFormat_def Let_def eval_nat_numeral)
  then show "IsValidID x" by (rule digits_valid) (rule prefixes_valid)
next
  assume "IsValidChannelID x"
  then have "IsChannelIDFormat x" by (simp add: IsValidChannelID_def ParseChannelSequence_def is_ok_def split: if_splits)
  then have "prefix ''channel-'' x" "list_all is_digit (drop (length ''channel-'') x)" by (simp_all add: IsChannelIDFormat_def Let_def eval_nat_numeral)
  then show "IsValidID x" by (rule digits_valid) (rule prefixes_valid)
qed

lemma Packet_ValidateBasic_Inr:
  "Packet_ValidateBasic p = Inr () \<longleftrightarrow>
     PortIdentifierValidator (SourcePort p) = Inr () \<and> PortIdentifierValidator (DestinationPort p) = Inr () \<and>
     ChannelIdentifierValidator (SourceChannel p) = Inr () \<and> ChannelIdentifierValidator (DestinationChannel p) = Inr () \<and>
     Sequence p \<noteq> 0 \<and> (\<not> IsZero (TimeoutHeight p) \<or> TimeoutTimestamp p \<noteq> 0) \<and> Data p \<noteq> []"
  by (auto simp: Packet_ValidateBasic_def result_elims)

lemma packet_identifiers_valid:
  "Packet_ValidateBasic p = Inr () \<Longrightarrow> \<forall>x \<in> packet_identifiers p. IsValidID x"
  by (auto simp: Packet_ValidateBasic_Inr packet_identifiers_def)

lemma Channel_ValidateBasic_Inr:
  "Channel_ValidateBasic c = Inr () \<Longrightarrow>
     (\<exists>h. chan_ConnectionHops c = [h] \<and> ConnectionIdentifierValidator h = Inr ()) \<and>
     PortIdentifierValidator (ch_PortId (chan_Counterparty c)) = Inr () \<and> chan_Ordering c \<in> {ORDERED, UNORDERED}"
  by (auto simp: Channel_ValidateBasic_def chan_counterparty_ValidateBasic_def result_elims length_Suc_conv)

lemma conn_counterparty_ValidateBasic_Inr:
  "conn_counterparty_ValidateBasic c = Inr () \<Longrightarrow> ClientIdentifierValidator (cp_ClientId c) = Inr ()"
  by (simp add: conn_counterparty_ValidateBasic_def result_elims)

lemmas msg_defs = MsgCreateClient_ValidateBasic_def MsgUpdateClient_ValidateBasic_def MsgUpgradeClient_ValidateBasic_def
  MsgSubmitMisbehaviour_ValidateBasic_def MsgConnectionOpenInit_ValidateBasic_def MsgConnectionOpenTry_ValidateBasic_def
  MsgConnectionOpenAck_ValidateBasic_def MsgConnectionOpenConfirm_ValidateBasic_def MsgChannelOpenInit_ValidateBasic_def
  MsgChannelOpenTry_ValidateBasic_def MsgChannelOpenAck_ValidateBasic_def MsgChannelOpenConfirm_ValidateBasic_def
  MsgChannelCloseInit_ValidateBasic_def MsgChannelCloseConfirm_ValidateBasic_def MsgRecvPacket_ValidateBasic_def
  MsgTimeout_ValidateBasic_def MsgTimeoutOnClose_ValidateBasic_def MsgAcknowledgement_ValidateBasic_def

lemma validated_identifiers:
  "ValidateBasic E m = Inr () \<Longrightarrow> x \<in> msg_identifiers m \<Longrightarrow> IsValidID x"
  by (cases m) (auto simp: msg_defs result_elims split: if_splits
      dest!: packet_identifiers_valid Channel_ValidateBasic_Inr conn_counterparty_ValidateBasic_Inr)

lemma validated_signer: "ValidateBasic E m = Inr () \<Longrightarrow> sdk_AccAddressOk E (Signer m)"
  by (cases m) (auto simp: msg_defs result_elims)

end
