(* ===== verification/MsgServer.thy ===== *)
theory MsgServer
  imports PacketFlow Msgs
begin

text \<open>
  The message server of the core module (\<^verbatim>\<open>modules/core/keeper/msg_server.go\<close>), the router it
  finds applications with (\<^verbatim>\<open>05-port/types/router.go\<close>, the callback interface of
  \<^verbatim>\<open>05-port/types/module.go\<close>) and the ante decorator that drops redundant packet messages
  (\<^verbatim>\<open>modules/core/ante/ante.go\<close>).

  Handlers work on a world, the state of the core module together with the state of the
  applications. An error aborts the transaction, so a handler returns a world or an error.
  A cached context is a world that is kept or thrown away. Events and telemetry are left out.
\<close>

subsection \<open>Applications and the router (05-port)\<close>

record ('k, 'a) world =
  w_ibc :: "'k ibc_state"
  w_app :: 'a

text \<open>
  The callbacks of an application. The acknowledgement of \<^verbatim>\<open>OnRecvPacket\<close> is \<open>None\<close> for an
  asynchronous one, else whether it is successful and its bytes; \<^verbatim>\<open>OnRecvPacket\<close> has no error
  to return, so \<open>Inl\<close> is a panic there.
\<close>

record ('k, 'a) IBCModule =
  OnChanOpenInit :: "ctx \<Rightarrow> ('k, 'a) world \<Rightarrow> Order \<Rightarrow> string list \<Rightarrow> string \<Rightarrow> string \<Rightarrow> Capability \<Rightarrow> chan_counterparty \<Rightarrow> string \<Rightarrow>
    ('k, 'a) world result"
  OnChanOpenTry :: "ctx \<Rightarrow> ('k, 'a) world \<Rightarrow> Order \<Rightarrow> string list \<Rightarrow> string \<Rightarrow> string \<Rightarrow> Capability \<Rightarrow> chan_counterparty \<Rightarrow> string \<Rightarrow>
    (string \<times> ('k, 'a) world) result"
  OnChanOpenAck :: "ctx \<Rightarrow> ('k, 'a) world \<Rightarrow> string \<Rightarrow> string \<Rightarrow> string \<Rightarrow> ('k, 'a) world result"
  OnChanOpenConfirm :: "ctx \<Rightarrow> ('k, 'a) world \<Rightarrow> string \<Rightarrow> string \<Rightarrow> ('k, 'a) world result"
  OnChanCloseInit :: "ctx \<Rightarrow> ('k, 'a) world \<Rightarrow> string \<Rightarrow> string \<Rightarrow> ('k, 'a) world result"
  OnChanCloseConfirm :: "ctx \<Rightarrow> ('k, 'a) world \<Rightarrow> string \<Rightarrow> string \<Rightarrow> ('k, 'a) world result"
  OnRecvPacket :: "ctx \<Rightarrow> ('k, 'a) world \<Rightarrow> Packet \<Rightarrow> string \<Rightarrow> ((bool \<times> bytes) option \<times> ('k, 'a) world) result"
  OnAcknowledgementPacket :: "ctx \<Rightarrow> ('k, 'a) world \<Rightarrow> Packet \<Rightarrow> bytes \<Rightarrow> string \<Rightarrow> ('k, 'a) world result"
  OnTimeoutPacket :: "ctx \<Rightarrow> ('k, 'a) world \<Rightarrow> Packet \<Rightarrow> string \<Rightarrow> ('k, 'a) world result"

record ('k, 'a) Router =
  routes :: "string \<rightharpoonup> ('k, 'a) IBCModule"
  sealed :: bool

definition NewRouter :: "('k, 'a) Router" where
  "NewRouter = \<lparr> routes = Map.empty, sealed = False \<rparr>"

definition Seal :: "('k, 'a) Router \<Rightarrow> ('k, 'a) Router result" where
  "Seal rtr = (if sealed rtr then Inl Panic else Inr (rtr \<lparr> sealed := True \<rparr>))"

definition HasRoute :: "('k, 'a) Router \<Rightarrow> string \<Rightarrow> bool" where
  "HasRoute rtr module = (routes rtr module \<noteq> None)"

text \<open>\<^verbatim>\<open>sdk.IsAlphaNumeric\<close> is a parameter.\<close>

definition AddRoute :: "(string \<Rightarrow> bool) \<Rightarrow> ('k, 'a) Router \<Rightarrow> string \<Rightarrow> ('k, 'a) IBCModule \<Rightarrow> ('k, 'a) Router result" where
  "AddRoute isAlphaNumeric rtr module cbs =
     (if sealed rtr then Inl Panic
      else if \<not> isAlphaNumeric module then Inl Panic
      else if HasRoute rtr module then Inl Panic
      else Inr (rtr \<lparr> routes := (routes rtr)(module \<mapsto> cbs) \<rparr>))"

definition GetRoute :: "('k, 'a) Router \<Rightarrow> string \<Rightarrow> ('k, 'a) IBCModule option" where
  "GetRoute rtr module = (if \<not> HasRoute rtr module then None else routes rtr module)"

subsection \<open>Parts that the handlers share\<close>

text \<open>Running an operation of the core module in a world.\<close>

definition on_ibc :: "('k, 'a) world \<Rightarrow> 'k ibc_state result \<Rightarrow> ('k, 'a) world result" where
  "on_ibc w r = (case r of Inl e \<Rightarrow> Inl e | Inr s \<Rightarrow> Inr (w \<lparr> w_ibc := s \<rparr>))"

text \<open>Looking up the module by port or channel capability, and its callbacks.\<close>

definition route_to :: "('k, 'a) Router \<Rightarrow> (string \<times> Capability) result \<Rightarrow> (('k, 'a) IBCModule \<times> Capability) result" where
  "route_to R lookup =
     (case lookup of Inl e \<Rightarrow> Inl e | Inr (module, cap) \<Rightarrow>
     (case GetRoute R module of None \<Rightarrow> Inl (PortE port_ErrInvalidRoute) | Some cbs \<Rightarrow> Inr (cbs, cap)))"

definition parse_relayer :: "'x env_scheme \<Rightarrow> string \<Rightarrow> string result" where
  "parse_relayer E signer = (if sdk_AccAddressOk E signer then Inr signer else Inl (External ''address''))"

text \<open>
  Packet verification in a cached context: its writes are kept on success, dropped on
  \<^verbatim>\<open>ErrNoOpMsg\<close>, for which the handler returns at once without an error.
\<close>

definition verify_cached :: "('k, 'a) world \<Rightarrow> 'k ibc_state result \<Rightarrow> (('k, 'a) world \<Rightarrow> ('k, 'a) world result) \<Rightarrow> ('k, 'a) world result" where
  "verify_cached w r continue =
     (case r of
        Inr s \<Rightarrow> continue (w \<lparr> w_ibc := s \<rparr>)
      | Inl e \<Rightarrow> if e = ChannelE ErrNoOpMsg then Inr w else Inl e)"

subsection \<open>Client messages\<close>

definition msg_CreateClient :: "ctx \<Rightarrow> ('k, 'a) world \<Rightarrow> MsgCreateClient \<Rightarrow> ('k, 'a) world result" where
  "msg_CreateClient ctx w msg =
     (case unpack (mcc_ClientState msg) of Inl e \<Rightarrow> Inl e | Inr clientState \<Rightarrow>
     (case unpack (mcc_ConsensusState msg) of Inl e \<Rightarrow> Inl e | Inr consensusState \<Rightarrow>
     (case CreateClient ctx (w_ibc w) clientState (Some consensusState) of Inl e \<Rightarrow> Inl e | Inr (clientID, s) \<Rightarrow>
      Inr (w \<lparr> w_ibc := s \<rparr>))))"

definition msg_UpdateClient :: "'x env_scheme \<Rightarrow> ctx \<Rightarrow> ('k, 'a) world \<Rightarrow> MsgUpdateClient \<Rightarrow> ('k, 'a) world result" where
  "msg_UpdateClient E ctx w msg =
     (case unpack (muc_Header msg) of Inl e \<Rightarrow> Inl e | Inr header \<Rightarrow>
      on_ibc w (UpdateClient E ctx (w_ibc w) (muc_ClientId msg) (Some header)))"

definition msg_UpgradeClient :: "'x env_scheme \<Rightarrow> ctx \<Rightarrow> ('k, 'a) world \<Rightarrow> MsgUpgradeClient \<Rightarrow> ('k, 'a) world result" where
  "msg_UpgradeClient E ctx w msg =
     (case unpack (mug_ClientState msg) of Inl e \<Rightarrow> Inl e | Inr upgradedClient \<Rightarrow>
     (case unpack (mug_ConsensusState msg) of Inl e \<Rightarrow> Inl e | Inr upgradedConsState \<Rightarrow>
      on_ibc w (UpgradeClient E ctx (w_ibc w) (mug_ClientId msg) upgradedClient upgradedConsState
        (mug_ProofUpgradeClient msg) (mug_ProofUpgradeConsensusState msg))))"

definition msg_SubmitMisbehaviour :: "'x env_scheme \<Rightarrow> ctx \<Rightarrow> ('k, 'a) world \<Rightarrow> MsgSubmitMisbehaviour \<Rightarrow> ('k, 'a) world result" where
  "msg_SubmitMisbehaviour E ctx w msg =
     (case unpack (msm_Misbehaviour msg) of Inl e \<Rightarrow> Inl e | Inr misbehaviour \<Rightarrow>
      on_ibc w (CheckMisbehaviourAndUpdateState E ctx (w_ibc w) misbehaviour))"

subsection \<open>Connection messages\<close>

definition msg_ConnectionOpenInit :: "('k, 'a) world \<Rightarrow> MsgConnectionOpenInit \<Rightarrow> ('k, 'a) world result" where
  "msg_ConnectionOpenInit w msg =
     (case ConnOpenInit (w_ibc w) (mci_ClientId msg) (mci_Counterparty msg) (mci_Version msg) (mci_DelayPeriod msg) of
        Inl e \<Rightarrow> Inl e
      | Inr (connectionID, s) \<Rightarrow> Inr (w \<lparr> w_ibc := s \<rparr>))"

text \<open>A nil version, which validation refuses, would be dereferenced.\<close>

definition msg_ConnectionOpenTry :: "('k, 'x) keeper_env_scheme \<Rightarrow> ctx \<Rightarrow> ('k, 'a) world \<Rightarrow> MsgConnectionOpenTry \<Rightarrow> ('k, 'a) world result" where
  "msg_ConnectionOpenTry E ctx w msg =
     (case unpack (mct_ClientState msg) of Inl e \<Rightarrow> Inl e | Inr targetClient \<Rightarrow>
      if None \<in> set (mct_CounterpartyVersions msg) then Inl Panic
      else case ConnOpenTry E ctx (w_ibc w) (mct_PreviousConnectionId msg) (mct_Counterparty msg) (mct_DelayPeriod msg)
             (mct_ClientId msg) targetClient (map the (mct_CounterpartyVersions msg)) (mct_ProofInit msg) (mct_ProofClient msg)
             (mct_ProofConsensus msg) (mct_ProofHeight msg) (mct_ConsensusHeight msg) of
        Inl e \<Rightarrow> Inl e
      | Inr (connectionID, s) \<Rightarrow> Inr (w \<lparr> w_ibc := s \<rparr>))"

definition msg_ConnectionOpenAck :: "('k, 'x) keeper_env_scheme \<Rightarrow> ctx \<Rightarrow> ('k, 'a) world \<Rightarrow> MsgConnectionOpenAck \<Rightarrow> ('k, 'a) world result" where
  "msg_ConnectionOpenAck E ctx w msg =
     (case unpack (mca_ClientState msg) of Inl e \<Rightarrow> Inl e | Inr targetClient \<Rightarrow>
     (case mca_Version msg of None \<Rightarrow> Inl Panic | Some version \<Rightarrow>
      on_ibc w (ConnOpenAck E ctx (w_ibc w) (mca_ConnectionId msg) targetClient version (mca_CounterpartyConnectionId msg)
        (mca_ProofTry msg) (mca_ProofClient msg) (mca_ProofConsensus msg) (mca_ProofHeight msg) (mca_ConsensusHeight msg))))"

definition msg_ConnectionOpenConfirm :: "('k, 'x) keeper_env_scheme \<Rightarrow> ctx \<Rightarrow> ('k, 'a) world \<Rightarrow> MsgConnectionOpenConfirm \<Rightarrow>
    ('k, 'a) world result" where
  "msg_ConnectionOpenConfirm E ctx w msg =
     on_ibc w (ConnOpenConfirm E ctx (w_ibc w) (mco_ConnectionId msg) (mco_ProofAck msg) (mco_ProofHeight msg))"

subsection \<open>Channel messages\<close>

definition msg_ChannelOpenInit :: "('k, 'x) keeper_env_scheme \<Rightarrow> ('k, 'a) Router \<Rightarrow> ctx \<Rightarrow> ('k, 'a) world \<Rightarrow> MsgChannelOpenInit \<Rightarrow>
    ('k, 'a) world result" where
  "msg_ChannelOpenInit E R ctx w msg =
     (let ch = mhi_Channel msg; port = mhi_PortId msg in
      case route_to R (LookupModuleByPort E (w_ibc w) port) of Inl e \<Rightarrow> Inl e | Inr (cbs, portCap) \<Rightarrow>
     (case ChanOpenInit E (w_ibc w) (chan_Ordering ch) (chan_ConnectionHops ch) port (Some portCap) (chan_Counterparty ch)
             (chan_Version ch) of Inl e \<Rightarrow> Inl e | Inr (channelID, cap, s) \<Rightarrow>
     (case OnChanOpenInit cbs ctx (w \<lparr> w_ibc := s \<rparr>) (chan_Ordering ch) (chan_ConnectionHops ch) port channelID cap
             (chan_Counterparty ch) (chan_Version ch) of Inl e \<Rightarrow> Inl e | Inr w \<Rightarrow>
      Inr (w \<lparr> w_ibc := WriteOpenInitChannel (w_ibc w) port channelID (chan_Ordering ch) (chan_ConnectionHops ch)
        (chan_Counterparty ch) (chan_Version ch) \<rparr>))))"

definition msg_ChannelOpenTry :: "('k, 'x) keeper_env_scheme \<Rightarrow> ('k, 'a) Router \<Rightarrow> ctx \<Rightarrow> ('k, 'a) world \<Rightarrow> MsgChannelOpenTry \<Rightarrow>
    ('k, 'a) world result" where
  "msg_ChannelOpenTry E R ctx w msg =
     (let ch = mht_Channel msg; port = mht_PortId msg in
      case route_to R (LookupModuleByPort E (w_ibc w) port) of Inl e \<Rightarrow> Inl e | Inr (cbs, portCap) \<Rightarrow>
     (case ChanOpenTry E ctx (w_ibc w) (chan_Ordering ch) (chan_ConnectionHops ch) port (mht_PreviousChannelId msg) (Some portCap)
             (chan_Counterparty ch) (mht_CounterpartyVersion msg) (mht_ProofInit msg) (mht_ProofHeight msg) of
        Inl e \<Rightarrow> Inl e | Inr (channelID, cap, s) \<Rightarrow>
     (case OnChanOpenTry cbs ctx (w \<lparr> w_ibc := s \<rparr>) (chan_Ordering ch) (chan_ConnectionHops ch) port channelID cap
             (chan_Counterparty ch) (mht_CounterpartyVersion msg) of Inl e \<Rightarrow> Inl e | Inr (version, w) \<Rightarrow>
      Inr (w \<lparr> w_ibc := WriteOpenTryChannel (w_ibc w) port channelID (chan_Ordering ch) (chan_ConnectionHops ch)
        (chan_Counterparty ch) version \<rparr>))))"

definition msg_ChannelOpenAck :: "('k, 'x) keeper_env_scheme \<Rightarrow> ('k, 'a) Router \<Rightarrow> ctx \<Rightarrow> ('k, 'a) world \<Rightarrow> MsgChannelOpenAck \<Rightarrow>
    ('k, 'a) world result" where
  "msg_ChannelOpenAck E R ctx w msg =
     (let port = mha_PortId msg; chan = mha_ChannelId msg in
      case route_to R (LookupModuleByChannel E (w_ibc w) port chan) of Inl e \<Rightarrow> Inl e | Inr (cbs, cap) \<Rightarrow>
     (case ChanOpenAck E ctx (w_ibc w) port chan (Some cap) (mha_CounterpartyVersion msg) (mha_CounterpartyChannelId msg)
             (mha_ProofTry msg) (mha_ProofHeight msg) of Inl e \<Rightarrow> Inl e | Inr s \<Rightarrow>
     (case OnChanOpenAck cbs ctx (w \<lparr> w_ibc := s \<rparr>) port chan (mha_CounterpartyVersion msg) of Inl e \<Rightarrow> Inl e | Inr w \<Rightarrow>
      on_ibc w (WriteOpenAckChannel (w_ibc w) port chan (mha_CounterpartyVersion msg) (mha_CounterpartyChannelId msg)))))"

definition msg_ChannelOpenConfirm :: "('k, 'x) keeper_env_scheme \<Rightarrow> ('k, 'a) Router \<Rightarrow> ctx \<Rightarrow> ('k, 'a) world \<Rightarrow> MsgChannelOpenConfirm \<Rightarrow>
    ('k, 'a) world result" where
  "msg_ChannelOpenConfirm E R ctx w msg =
     (let port = mho_PortId msg; chan = mho_ChannelId msg in
      case route_to R (LookupModuleByChannel E (w_ibc w) port chan) of Inl e \<Rightarrow> Inl e | Inr (cbs, cap) \<Rightarrow>
     (case ChanOpenConfirm E ctx (w_ibc w) port chan (Some cap) (mho_ProofAck msg) (mho_ProofHeight msg) of Inl e \<Rightarrow> Inl e | Inr s \<Rightarrow>
     (case OnChanOpenConfirm cbs ctx (w \<lparr> w_ibc := s \<rparr>) port chan of Inl e \<Rightarrow> Inl e | Inr w \<Rightarrow>
      on_ibc w (WriteOpenConfirmChannel (w_ibc w) port chan))))"

definition msg_ChannelCloseInit :: "('k, 'x) keeper_env_scheme \<Rightarrow> ('k, 'a) Router \<Rightarrow> ctx \<Rightarrow> ('k, 'a) world \<Rightarrow> MsgChannelCloseInit \<Rightarrow>
    ('k, 'a) world result" where
  "msg_ChannelCloseInit E R ctx w msg =
     (let port = mhc_PortId msg; chan = mhc_ChannelId msg in
      case route_to R (LookupModuleByChannel E (w_ibc w) port chan) of Inl e \<Rightarrow> Inl e | Inr (cbs, cap) \<Rightarrow>
     (case OnChanCloseInit cbs ctx w port chan of Inl e \<Rightarrow> Inl e | Inr w \<Rightarrow>
      on_ibc w (ChanCloseInit E (w_ibc w) port chan (Some cap))))"

definition msg_ChannelCloseConfirm :: "('k, 'x) keeper_env_scheme \<Rightarrow> ('k, 'a) Router \<Rightarrow> ctx \<Rightarrow> ('k, 'a) world \<Rightarrow> MsgChannelCloseConfirm \<Rightarrow>
    ('k, 'a) world result" where
  "msg_ChannelCloseConfirm E R ctx w msg =
     (let port = mhf_PortId msg; chan = mhf_ChannelId msg in
      case route_to R (LookupModuleByChannel E (w_ibc w) port chan) of Inl e \<Rightarrow> Inl e | Inr (cbs, cap) \<Rightarrow>
     (case OnChanCloseConfirm cbs ctx w port chan of Inl e \<Rightarrow> Inl e | Inr w \<Rightarrow>
      on_ibc w (ChanCloseConfirm E ctx (w_ibc w) port chan (Some cap) (mhf_ProofInit msg) (mhf_ProofHeight msg))))"

subsection \<open>Packet messages\<close>

text \<open>
  The part of \<^verbatim>\<open>RecvPacket\<close> after verification: the callback runs in a cached context that is
  dropped when the acknowledgement is unsuccessful; an acknowledgement is written at once
  unless it is asynchronous.
\<close>

definition recv_callback :: "('k, 'x) keeper_env_scheme \<Rightarrow> ('k, 'a) IBCModule \<Rightarrow> Capability \<Rightarrow> ctx \<Rightarrow> Packet \<Rightarrow> string \<Rightarrow>
    ('k, 'a) world \<Rightarrow> ('k, 'a) world result" where
  "recv_callback E cbs cap ctx packet relayer w =
     (case OnRecvPacket cbs ctx w packet relayer of Inl e \<Rightarrow> Inl e | Inr (ack, cached) \<Rightarrow>
     (case ack of
        None \<Rightarrow> Inr cached
      | Some (success, ackBytes) \<Rightarrow>
          let w = (if success then cached else w) in
          on_ibc w (WriteAcknowledgement E (w_ibc w) (Some cap) packet ackBytes)))"

definition msg_RecvPacket :: "('k, 'x) keeper_env_scheme \<Rightarrow> ('k, 'a) Router \<Rightarrow> ctx \<Rightarrow> ('k, 'a) world \<Rightarrow> MsgRecvPacket \<Rightarrow>
    ('k, 'a) world result" where
  "msg_RecvPacket E R ctx w msg =
     (let packet = mrp_Packet msg in
      case parse_relayer E (mrp_Signer msg) of Inl e \<Rightarrow> Inl e | Inr relayer \<Rightarrow>
     (case route_to R (LookupModuleByChannel E (w_ibc w) (DestinationPort packet) (DestinationChannel packet)) of
        Inl e \<Rightarrow> Inl e | Inr (cbs, cap) \<Rightarrow>
      verify_cached w (RecvPacket E ctx (w_ibc w) (Some cap) packet (mrp_ProofCommitment msg) (mrp_ProofHeight msg))
        (recv_callback E cbs cap ctx packet relayer)))"

text \<open>The part of both timeouts after verification.\<close>

definition timeout_callback :: "('k, 'x) keeper_env_scheme \<Rightarrow> ('k, 'a) IBCModule \<Rightarrow> Capability \<Rightarrow> ctx \<Rightarrow> Packet \<Rightarrow> string \<Rightarrow>
    ('k, 'a) world \<Rightarrow> ('k, 'a) world result" where
  "timeout_callback E cbs cap ctx packet relayer w =
     (case OnTimeoutPacket cbs ctx w packet relayer of Inl e \<Rightarrow> Inl e | Inr w \<Rightarrow>
      on_ibc w (TimeoutExecuted E (w_ibc w) (Some cap) packet))"

definition msg_Timeout :: "('k, 'x) keeper_env_scheme \<Rightarrow> ('k, 'a) Router \<Rightarrow> ctx \<Rightarrow> ('k, 'a) world \<Rightarrow> MsgTimeout \<Rightarrow> ('k, 'a) world result" where
  "msg_Timeout E R ctx w msg =
     (let packet = mto_Packet msg in
      case parse_relayer E (mto_Signer msg) of Inl e \<Rightarrow> Inl e | Inr relayer \<Rightarrow>
     (case route_to R (LookupModuleByChannel E (w_ibc w) (SourcePort packet) (SourceChannel packet)) of
        Inl e \<Rightarrow> Inl e | Inr (cbs, cap) \<Rightarrow>
      verify_cached w (TimeoutPacket E ctx (w_ibc w) packet (mto_ProofUnreceived msg) (mto_ProofHeight msg) (mto_NextSequenceRecv msg))
        (timeout_callback E cbs cap ctx packet relayer)))"

definition msg_TimeoutOnClose :: "('k, 'x) keeper_env_scheme \<Rightarrow> ('k, 'a) Router \<Rightarrow> ctx \<Rightarrow> ('k, 'a) world \<Rightarrow> MsgTimeoutOnClose \<Rightarrow>
    ('k, 'a) world result" where
  "msg_TimeoutOnClose E R ctx w msg =
     (let packet = mtc_Packet msg in
      case parse_relayer E (mtc_Signer msg) of Inl e \<Rightarrow> Inl e | Inr relayer \<Rightarrow>
     (case route_to R (LookupModuleByChannel E (w_ibc w) (SourcePort packet) (SourceChannel packet)) of
        Inl e \<Rightarrow> Inl e | Inr (cbs, cap) \<Rightarrow>
      verify_cached w (TimeoutOnClose E ctx (w_ibc w) (Some cap) packet (mtc_ProofUnreceived msg) (mtc_ProofClose msg)
          (mtc_ProofHeight msg) (mtc_NextSequenceRecv msg))
        (timeout_callback E cbs cap ctx packet relayer)))"

definition msg_Acknowledgement :: "('k, 'x) keeper_env_scheme \<Rightarrow> ('k, 'a) Router \<Rightarrow> ctx \<Rightarrow> ('k, 'a) world \<Rightarrow> MsgAcknowledgement \<Rightarrow>
    ('k, 'a) world result" where
  "msg_Acknowledgement E R ctx w msg =
     (let packet = mak_Packet msg in
      case parse_relayer E (mak_Signer msg) of Inl e \<Rightarrow> Inl e | Inr relayer \<Rightarrow>
     (case route_to R (LookupModuleByChannel E (w_ibc w) (SourcePort packet) (SourceChannel packet)) of
        Inl e \<Rightarrow> Inl e | Inr (cbs, cap) \<Rightarrow>
      verify_cached w (AcknowledgePacket E ctx (w_ibc w) (Some cap) packet (mak_Acknowledgement msg) (mak_ProofAcked msg)
          (mak_ProofHeight msg))
        (\<lambda>w. OnAcknowledgementPacket cbs ctx w packet (mak_Acknowledgement msg) relayer)))"

text \<open>The message service.\<close>

fun handle_msg :: "('k, 'x) keeper_env_scheme \<Rightarrow> ('k, 'a) Router \<Rightarrow> ctx \<Rightarrow> ('k, 'a) world \<Rightarrow> Msg \<Rightarrow> ('k, 'a) world result" where
  "handle_msg E R ctx w (CreateClientMsg m) = msg_CreateClient ctx w m"
| "handle_msg E R ctx w (UpdateClientMsg m) = msg_UpdateClient E ctx w m"
| "handle_msg E R ctx w (UpgradeClientMsg m) = msg_UpgradeClient E ctx w m"
| "handle_msg E R ctx w (SubmitMisbehaviourMsg m) = msg_SubmitMisbehaviour E ctx w m"
| "handle_msg E R ctx w (ConnectionOpenInitMsg m) = msg_ConnectionOpenInit w m"
| "handle_msg E R ctx w (ConnectionOpenTryMsg m) = msg_ConnectionOpenTry E ctx w m"
| "handle_msg E R ctx w (ConnectionOpenAckMsg m) = msg_ConnectionOpenAck E ctx w m"
| "handle_msg E R ctx w (ConnectionOpenConfirmMsg m) = msg_ConnectionOpenConfirm E ctx w m"
| "handle_msg E R ctx w (ChannelOpenInitMsg m) = msg_ChannelOpenInit E R ctx w m"
| "handle_msg E R ctx w (ChannelOpenTryMsg m) = msg_ChannelOpenTry E R ctx w m"
| "handle_msg E R ctx w (ChannelOpenAckMsg m) = msg_ChannelOpenAck E R ctx w m"
| "handle_msg E R ctx w (ChannelOpenConfirmMsg m) = msg_ChannelOpenConfirm E R ctx w m"
| "handle_msg E R ctx w (ChannelCloseInitMsg m) = msg_ChannelCloseInit E R ctx w m"
| "handle_msg E R ctx w (ChannelCloseConfirmMsg m) = msg_ChannelCloseConfirm E R ctx w m"
| "handle_msg E R ctx w (RecvPacketMsg m) = msg_RecvPacket E R ctx w m"
| "handle_msg E R ctx w (TimeoutMsg m) = msg_Timeout E R ctx w m"
| "handle_msg E R ctx w (TimeoutOnCloseMsg m) = msg_TimeoutOnClose E R ctx w m"
| "handle_msg E R ctx w (AcknowledgementMsg m) = msg_Acknowledgement E R ctx w m"

subsection \<open>The ante decorator (ante.go)\<close>

text \<open>
  The messages of a transaction, those of other modules as \<open>None\<close>. The loop counts packet
  messages and redundant ones, and gives up (\<open>None\<close>) at the first message of another kind.
\<close>

fun redundant :: "'k ibc_state \<Rightarrow> Msg \<Rightarrow> bool option" where
  "redundant s (RecvPacketMsg m) = Some (GetPacketReceipt s (DestinationPort (mrp_Packet m)) (DestinationChannel (mrp_Packet m))
     (Sequence (mrp_Packet m)) \<noteq> None)"
| "redundant s (AcknowledgementMsg m) = Some (length (GetPacketCommitment s (SourcePort (mak_Packet m)) (SourceChannel (mak_Packet m))
     (Sequence (mak_Packet m))) = 0)"
| "redundant s (TimeoutMsg m) = Some (length (GetPacketCommitment s (SourcePort (mto_Packet m)) (SourceChannel (mto_Packet m))
     (Sequence (mto_Packet m))) = 0)"
| "redundant s (TimeoutOnCloseMsg m) = Some (length (GetPacketCommitment s (SourcePort (mtc_Packet m)) (SourceChannel (mtc_Packet m))
     (Sequence (mtc_Packet m))) = 0)"
| "redundant s _ = None"

fun count_redundant :: "'k ibc_state \<Rightarrow> Msg option list \<Rightarrow> nat \<Rightarrow> nat \<Rightarrow> (nat \<times> nat) option" where
  "count_redundant s [] redundancies packetMsgs = Some (redundancies, packetMsgs)"
| "count_redundant s (None # ms) redundancies packetMsgs = None"
| "count_redundant s (Some m # ms) redundancies packetMsgs =
     (case redundant s m of
        Some r \<Rightarrow> count_redundant s ms (if r then redundancies + 1 else redundancies) (packetMsgs + 1)
      | None \<Rightarrow> (case m of UpdateClientMsg _ \<Rightarrow> count_redundant s ms redundancies packetMsgs | _ \<Rightarrow> None))"

definition AnteHandle :: "bool \<Rightarrow> bool \<Rightarrow> bool \<Rightarrow> 'k ibc_state \<Rightarrow> Msg option list \<Rightarrow> 'r result \<Rightarrow> 'r result" where
  "AnteHandle isCheckTx isReCheckTx simulate s msgs next_handler =
     (if (isCheckTx \<or> isReCheckTx) \<and> \<not> simulate then
        (case count_redundant s msgs 0 0 of
           None \<Rightarrow> next_handler
         | Some (redundancies, packetMsgs) \<Rightarrow>
             if redundancies = packetMsgs \<and> packetMsgs > 0 then Inl (ChannelE ErrRedundantTx) else next_handler)
      else next_handler)"

end
