(* ===== verification/TransferTypes.thy ===== *)
theory TransferTypes
  imports Msgs ChannelTypes
begin

text \<open>
  Types of the fungible token transfer application (\<^verbatim>\<open>modules/apps/transfer/types\<close>):
  denomination traces (\<^verbatim>\<open>trace.go\<close>), source zones (\<^verbatim>\<open>coin.go\<close>), escrow addresses
  (\<^verbatim>\<open>keys.go\<close>), packet data (\<^verbatim>\<open>packet.go\<close>), the transfer message (\<^verbatim>\<open>msgs.go\<close>), parameters and
  genesis (\<^verbatim>\<open>params.go\<close>, \<^verbatim>\<open>genesis.go\<close>).

  The SDK's coin and address functions and the JSON codec are fields of an environment. An
  \<^verbatim>\<open>sdk.Int\<close> is an unbounded integer. The lemmas show how traces survive printing, parsing and
  prefixing, and that escrow addresses of different channels differ up to hash collisions.
\<close>

subsection \<open>The environment of the application\<close>

record Coin =
  coin_Denom :: string
  coin_Amount :: int

record FungibleTokenPacketData =
  ftpd_Denom :: string
  ftpd_Amount :: string
  ftpd_Sender :: string
  ftpd_Receiver :: string

text \<open>
  The scoped capability keeper of the application, the JSON codec, the SDK's coins, numbers and
  addresses, and the bank keeper over a bank state. A bank operation returns its error, if any,
  together with the state it leaves.
\<close>

record ('k, 'b) transfer_env = "'k keeper_env" +
  tsk_Get :: "'k \<Rightarrow> string \<Rightarrow> Capability option"
  tsk_Authenticate :: "'k \<Rightarrow> Capability option \<Rightarrow> string \<Rightarrow> bool"
  tsk_Claim :: "'k \<Rightarrow> Capability \<Rightarrow> string \<Rightarrow> 'k option"
  json_MarshalPacketData :: "FungibleTokenPacketData \<Rightarrow> bytes option"
  json_UnmarshalPacketData :: "bytes \<Rightarrow> FungibleTokenPacketData option"
  json_MarshalAck :: "Acknowledgement \<Rightarrow> bytes option"
  json_UnmarshalAck :: "bytes \<Rightarrow> Acknowledgement option"
  go_ErrorText :: "error \<Rightarrow> string"
  sdk_NewIntFromString :: "string \<Rightarrow> int option"
  sdk_IntString :: "int \<Rightarrow> string"
  sdk_AccAddressFromBech32 :: "string \<Rightarrow> bytes option"
  sdk_AccAddressString :: "bytes \<Rightarrow> string"
  sdk_ValidateDenom :: "string \<Rightarrow> bool"
  sdk_CoinIsValid :: "Coin \<Rightarrow> bool"
  sdk_NewCoin :: "string \<Rightarrow> int \<Rightarrow> Coin option"
  sdk_NewCoins :: "Coin \<Rightarrow> Coin list option"
  auth_ModuleAccountSet :: bool
  bank_SendCoins :: "'b \<Rightarrow> bytes \<Rightarrow> bytes \<Rightarrow> Coin list \<Rightarrow> error option \<times> 'b"
  bank_MintCoins :: "'b \<Rightarrow> string \<Rightarrow> Coin list \<Rightarrow> error option \<times> 'b"
  bank_BurnCoins :: "'b \<Rightarrow> string \<Rightarrow> Coin list \<Rightarrow> error option \<times> 'b"
  bank_SendCoinsFromModuleToAccount :: "'b \<Rightarrow> string \<Rightarrow> bytes \<Rightarrow> Coin list \<Rightarrow> error option \<times> 'b"
  bank_SendCoinsFromAccountToModule :: "'b \<Rightarrow> bytes \<Rightarrow> string \<Rightarrow> Coin list \<Rightarrow> error option \<times> 'b"

subsection \<open>Keys (keys.go)\<close>

definition ModuleName :: string where "ModuleName = ''transfer''"
definition transfer_Version :: string where "transfer_Version = ''ics20-1''"
definition PortID :: string where "PortID = ''transfer''"
definition DenomPrefix :: string where "DenomPrefix = ''ibc''"

definition escrow_preimage :: "string \<Rightarrow> string \<Rightarrow> bytes" where
  "escrow_preimage portID channelID = transfer_Version @ [char_of (0 :: nat)] @ (portID @ ''/'' @ channelID)"

definition GetEscrowAddress :: "string \<Rightarrow> string \<Rightarrow> bytes" where
  "GetEscrowAddress portID channelID = take 20 (sha256 (escrow_preimage portID channelID))"

subsection \<open>Denomination traces (trace.go)\<close>

record DenomTrace =
  dt_Path :: string
  dt_BaseDenom :: string

definition ParseDenomTrace :: "string \<Rightarrow> DenomTrace" where
  "ParseDenomTrace rawDenom =
     (let denomSplit = split_on (CHR ''/'') rawDenom in
      if hd denomSplit = rawDenom then \<lparr> dt_Path = '''', dt_BaseDenom = rawDenom \<rparr>
      else \<lparr> dt_Path = join_with (CHR ''/'') (butlast denomSplit), dt_BaseDenom = last denomSplit \<rparr>)"

definition GetPrefix :: "DenomTrace \<Rightarrow> string" where
  "GetPrefix dt = dt_Path dt @ ''/''"

definition GetFullDenomPath :: "DenomTrace \<Rightarrow> string" where
  "GetFullDenomPath dt = (if dt_Path dt = '''' then dt_BaseDenom dt else GetPrefix dt @ dt_BaseDenom dt)"

definition Hash :: "DenomTrace \<Rightarrow> bytes" where
  "Hash dt = sha256 (GetFullDenomPath dt)"

text \<open>\<^verbatim>\<open>HexBytes\<close> print in upper-case hexadecimal; \<^verbatim>\<open>hex.DecodeString\<close> reads both cases.\<close>

definition hex_string :: "bytes \<Rightarrow> string" where
  "hex_string bs = concat (map (\<lambda>c. [hex_digit (of_char c div 16), hex_digit (of_char c mod 16)]) bs)"

fun hex_decode :: "string \<Rightarrow> bytes option" where
  "hex_decode [] = Some []"
| "hex_decode [c] = None"
| "hex_decode (a # b # s) =
     (if is_hex a \<and> is_hex b then map_option ((#) (char_of (16 * unhex a + unhex b))) (hex_decode s) else None)"

definition IBCDenom :: "DenomTrace \<Rightarrow> string" where
  "IBCDenom dt = (if dt_Path dt \<noteq> '''' then DenomPrefix @ ''/'' @ hex_string (Hash dt) else dt_BaseDenom dt)"

fun validate_pairs :: "string list \<Rightarrow> unit result" where
  "validate_pairs [] = Inr ()"
| "validate_pairs [p] = Inl (External ''trace'')"
| "validate_pairs (p # c # ids) =
     (case PortIdentifierValidator p of Inl e \<Rightarrow> Inl e | Inr _ \<Rightarrow>
     (case ChannelIdentifierValidator c of Inl e \<Rightarrow> Inl e | Inr _ \<Rightarrow> validate_pairs ids))"

definition validateTraceIdentifiers :: "string list \<Rightarrow> unit result" where
  "validateTraceIdentifiers identifiers =
     (if length identifiers = 0 \<or> length identifiers mod 2 \<noteq> 0 then Inl (External ''trace'')
      else validate_pairs identifiers)"

definition DenomTrace_Validate :: "DenomTrace \<Rightarrow> unit result" where
  "DenomTrace_Validate dt =
     (if dt_Path dt = '''' \<and> dt_BaseDenom dt \<noteq> '''' then Inr ()
      else if all_space (dt_BaseDenom dt) then Inl (External ''trace'')
      else validateTraceIdentifiers (split_on (CHR ''/'') (dt_Path dt)))"

fun validate_traces :: "string list \<Rightarrow> DenomTrace list \<Rightarrow> unit result" where
  "validate_traces seen [] = Inr ()"
| "validate_traces seen (t # ts) =
     (let hash = hex_string (Hash t) in
      if hash \<in> set seen then Inl (External ''trace'')
      else case DenomTrace_Validate t of Inl e \<Rightarrow> Inl e | Inr _ \<Rightarrow> validate_traces (hash # seen) ts)"

definition Traces_Validate :: "DenomTrace list \<Rightarrow> unit result" where
  "Traces_Validate t = validate_traces [] t"

definition ValidatePrefixedDenom :: "string \<Rightarrow> unit result" where
  "ValidatePrefixedDenom denom =
     (let denomSplit = split_on (CHR ''/'') denom in
      if hd denomSplit = denom \<and> \<not> all_space denom then Inr ()
      else if all_space (last denomSplit) then Inl (TransferE ErrInvalidDenomForTransfer)
      else validateTraceIdentifiers (butlast denomSplit))"

definition ParseHexHash :: "'x env_scheme \<Rightarrow> string \<Rightarrow> bytes result" where
  "ParseHexHash E hexHash =
     (case hex_decode hexHash of None \<Rightarrow> Inl (External ''hex'') | Some hash \<Rightarrow>
      if \<not> tm_ValidateHash E hash then Inl (External ''hash'') else Inr hash)"

text \<open>\<^verbatim>\<open>strings.SplitN(denom, "/", 2)\<close>\<close>

definition split_two :: "string \<Rightarrow> string list" where
  "split_two s = (let a = takeWhile (\<lambda>c. c \<noteq> CHR ''/'') s in if a = s then [s] else [a, drop (length a + 1) s])"

definition ValidateIBCDenom :: "('k, 'b, 'x) transfer_env_scheme \<Rightarrow> string \<Rightarrow> unit result" where
  "ValidateIBCDenom E denom =
     (if \<not> sdk_ValidateDenom E denom then Inl (External ''denom'')
      else let denomSplit = split_two denom in
      if all_space denom \<or>
         length denomSplit = 1 \<and> hd denomSplit = DenomPrefix \<or>
         length denomSplit = 2 \<and> (hd denomSplit \<noteq> DenomPrefix \<or> all_space (denomSplit ! 1))
      then Inl (TransferE ErrInvalidDenomForTransfer)
      else if hd denomSplit = denom \<and> \<not> all_space denom then Inr ()
      else case ParseHexHash E (denomSplit ! 1) of Inl e \<Rightarrow> Inl e | Inr _ \<Rightarrow> Inr ())"

subsection \<open>Source zones (coin.go)\<close>

definition GetDenomPrefix :: "string \<Rightarrow> string \<Rightarrow> string" where
  "GetDenomPrefix portID channelID = portID @ ''/'' @ channelID @ ''/''"

definition GetPrefixedDenom :: "string \<Rightarrow> string \<Rightarrow> string \<Rightarrow> string" where
  "GetPrefixedDenom portID channelID baseDenom = portID @ ''/'' @ channelID @ ''/'' @ baseDenom"

definition ReceiverChainIsSource :: "string \<Rightarrow> string \<Rightarrow> string \<Rightarrow> bool" where
  "ReceiverChainIsSource sourcePort sourceChannel denom = prefix (GetDenomPrefix sourcePort sourceChannel) denom"

definition SenderChainIsSource :: "string \<Rightarrow> string \<Rightarrow> string \<Rightarrow> bool" where
  "SenderChainIsSource sourcePort sourceChannel denom = (\<not> ReceiverChainIsSource sourcePort sourceChannel denom)"

definition GetTransferCoin :: "('k, 'b, 'x) transfer_env_scheme \<Rightarrow> string \<Rightarrow> string \<Rightarrow> string \<Rightarrow> int \<Rightarrow> Coin option" where
  "GetTransferCoin E portID channelID baseDenom amount =
     (let denomTrace = ParseDenomTrace (GetPrefixedDenom portID channelID baseDenom) in sdk_NewCoin E (IBCDenom denomTrace) amount)"

subsection \<open>Packet data (packet.go) and the transfer message (msgs.go)\<close>

definition NewFungibleTokenPacketData :: "string \<Rightarrow> string \<Rightarrow> string \<Rightarrow> string \<Rightarrow> FungibleTokenPacketData" where
  "NewFungibleTokenPacketData denom amount sender receiver =
     \<lparr> ftpd_Denom = denom, ftpd_Amount = amount, ftpd_Sender = sender, ftpd_Receiver = receiver \<rparr>"

definition ftpd_ValidateBasic :: "('k, 'b, 'x) transfer_env_scheme \<Rightarrow> FungibleTokenPacketData \<Rightarrow> unit result" where
  "ftpd_ValidateBasic E ftpd =
     (case sdk_NewIntFromString E (ftpd_Amount ftpd) of None \<Rightarrow> Inl (TransferE ErrInvalidAmount) | Some amount \<Rightarrow>
      if \<not> amount > 0 then Inl (TransferE ErrInvalidAmount)
      else if all_space (ftpd_Sender ftpd) then Inl (SdkE ErrInvalidAddress)
      else if all_space (ftpd_Receiver ftpd) then Inl (SdkE ErrInvalidAddress)
      else ValidatePrefixedDenom (ftpd_Denom ftpd))"

definition ftpd_GetBytes :: "('k, 'b, 'x) transfer_env_scheme \<Rightarrow> FungibleTokenPacketData \<Rightarrow> bytes result" where
  "ftpd_GetBytes E ftpd = (case json_MarshalPacketData E ftpd of None \<Rightarrow> Inl Panic | Some bz \<Rightarrow> Inr bz)"

record MsgTransfer =
  mtr_SourcePort :: string
  mtr_SourceChannel :: string
  mtr_Token :: Coin
  mtr_Sender :: string
  mtr_Receiver :: string
  mtr_TimeoutHeight :: Height
  mtr_TimeoutTimestamp :: u64

definition MsgTransfer_ValidateBasic :: "('k, 'b, 'x) transfer_env_scheme \<Rightarrow> MsgTransfer \<Rightarrow> unit result" where
  "MsgTransfer_ValidateBasic E msg = first_error
     [PortIdentifierValidator (mtr_SourcePort msg),
      ChannelIdentifierValidator (mtr_SourceChannel msg),
      require (sdk_CoinIsValid E (mtr_Token msg)) (SdkE ErrInvalidCoins),
      require (coin_Amount (mtr_Token msg) > 0) (SdkE ErrInsufficientFunds),
      require (sdk_AccAddressFromBech32 E (mtr_Sender msg) \<noteq> None) (SdkE ErrInvalidAddress),
      require (\<not> all_space (mtr_Receiver msg)) (SdkE ErrInvalidAddress),
      ValidateIBCDenom E (coin_Denom (mtr_Token msg))]"

definition MsgTransfer_GetSigners :: "('k, 'b, 'x) transfer_env_scheme \<Rightarrow> MsgTransfer \<Rightarrow> bytes list result" where
  "MsgTransfer_GetSigners E msg = (case sdk_AccAddressFromBech32 E (mtr_Sender msg) of None \<Rightarrow> Inl Panic | Some signer \<Rightarrow> Inr [signer])"

subsection \<open>Parameters and genesis (params.go, genesis.go)\<close>

record transfer_Params =
  SendEnabled :: bool
  ReceiveEnabled :: bool

definition transfer_DefaultParams :: transfer_Params where
  "transfer_DefaultParams = \<lparr> SendEnabled = True, ReceiveEnabled = True \<rparr>"

record transfer_GenesisState =
  tg_PortId :: string
  tg_DenomTraces :: "DenomTrace list"
  tg_Params :: transfer_Params

definition transfer_DefaultGenesisState :: transfer_GenesisState where
  "transfer_DefaultGenesisState = \<lparr> tg_PortId = PortID, tg_DenomTraces = [], tg_Params = transfer_DefaultParams \<rparr>"

definition transfer_GenesisState_Validate :: "transfer_GenesisState \<Rightarrow> unit result" where
  "transfer_GenesisState_Validate gs = first_error [PortIdentifierValidator (tg_PortId gs), Traces_Validate (tg_DenomTraces gs)]"

subsection \<open>Traces as text\<close>

lemma hd_split_on: "hd (split_on c s) = s \<longleftrightarrow> c \<notin> set s"
proof
  assume "hd (split_on c s) = s"
  moreover have "hd (split_on c s) \<in> set (split_on c s)" by simp
  ultimately show "c \<notin> set s" using split_on_pieces by metis
qed (simp add: split_on_no_sep)

lemma ParseDenomTrace_base: "CHR ''/'' \<notin> set s \<Longrightarrow> ParseDenomTrace s = \<lparr> dt_Path = [], dt_BaseDenom = s \<rparr>"
  by (simp add: ParseDenomTrace_def split_on_no_sep)

lemma ParseDenomTrace_path:
  assumes "CHR ''/'' \<notin> set b"
  shows "ParseDenomTrace (a @ ''/'' @ b) = \<lparr> dt_Path = a, dt_BaseDenom = b \<rparr>"
proof -
  have "split_on (CHR ''/'') (a @ CHR ''/'' # b) = split_on (CHR ''/'') a @ [b]" by (rule split_on_snoc [OF assms])
  moreover have "hd (split_on (CHR ''/'') (a @ CHR ''/'' # b)) \<noteq> a @ CHR ''/'' # b" unfolding hd_split_on by simp
  ultimately show ?thesis by (simp add: ParseDenomTrace_def go_std)
qed

lemma last_slash:
  assumes "CHR ''/'' \<in> set s"
  obtains a b where "s = a @ ''/'' @ b" "CHR ''/'' \<notin> set b"
  using split_list_last [OF assms] that by auto

text \<open>
  Parsing is undone by printing, except for a denomination whose only slash is its first
  character, which validation refuses.
\<close>

lemma GetFullDenomPath_Parse:
  assumes "CHR ''/'' \<notin> set (tl s) \<longrightarrow> CHR ''/'' \<notin> set s"
  shows "GetFullDenomPath (ParseDenomTrace s) = s"
proof (cases "CHR ''/'' \<in> set s")
  case True
  then obtain a b where s: "s = a @ ''/'' @ b" "CHR ''/'' \<notin> set b" by (rule last_slash)
  with assms True have "a \<noteq> []" by auto
  then show ?thesis unfolding s(1) ParseDenomTrace_path [OF s(2)] by (simp add: GetFullDenomPath_def GetPrefix_def)
qed (simp add: ParseDenomTrace_base GetFullDenomPath_def)

lemma Parse_GetFullDenomPath:
  assumes "CHR ''/'' \<notin> set (dt_BaseDenom t)"
  shows "ParseDenomTrace (GetFullDenomPath t) = t"
proof (cases "dt_Path t = []")
  case True
  then show ?thesis using assms by (simp add: GetFullDenomPath_def ParseDenomTrace_base)
next
  case False
  then show ?thesis using ParseDenomTrace_path [OF assms, of "dt_Path t"] by (simp add: GetFullDenomPath_def GetPrefix_def)
qed

text \<open>A prefixed denomination always has a path, and prints back.\<close>

lemma Parse_prefixed:
  "dt_Path (ParseDenomTrace (GetDenomPrefix port chan @ d)) \<noteq> []"
  "GetFullDenomPath (ParseDenomTrace (GetDenomPrefix port chan @ d)) = GetDenomPrefix port chan @ d"
proof -
  let ?s = "GetDenomPrefix port chan @ d"
  have two: "CHR ''/'' \<in> set (tl ?s)" by (cases port) (simp_all add: GetDenomPrefix_def)
  have "CHR ''/'' \<in> set ?s" by (simp add: GetDenomPrefix_def)
  then obtain a b where s: "?s = a @ ''/'' @ b" "CHR ''/'' \<notin> set b" by (rule last_slash)
  have "a \<noteq> []"
  proof
    assume "a = []"
    with s(1) have "tl ?s = b" by simp
    with two s(2) show False by simp
  qed
  then show "dt_Path (ParseDenomTrace ?s) \<noteq> []" unfolding s(1) ParseDenomTrace_path [OF s(2)] by simp
  show "GetFullDenomPath (ParseDenomTrace ?s) = ?s" by (rule GetFullDenomPath_Parse) (use two in blast)
qed

lemma IBCDenom_prefixed:
  "IBCDenom (ParseDenomTrace (GetDenomPrefix port chan @ d)) = ''ibc/'' @ hex_string (sha256 (GetDenomPrefix port chan @ d))"
  using Parse_prefixed [of port chan d] by (simp add: IBCDenom_def DenomPrefix_def Hash_def)

lemma hex_decode_string: "hex_decode (hex_string bs) = Some bs"
proof (induction bs)
  case (Cons c bs)
  have "(of_char c :: nat) < 256" by (rule nat_of_char_less_256)
  then have "of_char c div 16 < (16 :: nat)" "of_char c mod 16 < (16 :: nat)"
    by (auto simp: less_mult_imp_div_less)
  from this [THEN hex_digit_unhex] Cons show ?case by (simp add: hex_string_def)
qed (simp add: hex_string_def)

text \<open>
  Equal escrow addresses of different channels are a collision of the truncated hash.
\<close>

lemma escrow_preimage_inj:
  assumes "CHR ''/'' \<notin> set port" "CHR ''/'' \<notin> set port'" "escrow_preimage port chan = escrow_preimage port' chan'"
  shows "port = port' \<and> chan = chan'"
  using assms append_sep_inject [of "CHR ''/''" port port' chan chan'] by (simp add: escrow_preimage_def)

text \<open>
  The denomination under which a chain holds a token with a given full path.
\<close>

definition local_denom :: "string \<Rightarrow> string" where
  "local_denom path = (let t = ParseDenomTrace path in if dt_Path t \<noteq> '''' then IBCDenom t else path)"

lemma local_denom_IBCDenom:
  assumes "dt_Path t \<noteq> []"
  shows "IBCDenom (ParseDenomTrace (GetFullDenomPath t)) = IBCDenom t" "local_denom (GetFullDenomPath t) = IBCDenom t"
proof -
  let ?s = "GetFullDenomPath t"
  have s: "?s = dt_Path t @ ''/'' @ dt_BaseDenom t" using assms by (simp add: GetFullDenomPath_def GetPrefix_def)
  have two: "CHR ''/'' \<in> set (tl ?s)" using assms unfolding s by (cases "dt_Path t") simp_all
  then have f: "GetFullDenomPath (ParseDenomTrace ?s) = ?s" by (intro GetFullDenomPath_Parse) blast
  have "dt_Path (ParseDenomTrace ?s) \<noteq> []"
  proof
    assume "dt_Path (ParseDenomTrace ?s) = []"
    with f have "dt_BaseDenom (ParseDenomTrace ?s) = ?s" by (simp add: GetFullDenomPath_def)
    moreover have "CHR ''/'' \<in> set ?s" using two by (cases ?s) simp_all
    then obtain a b where "?s = a @ ''/'' @ b" "CHR ''/'' \<notin> set b" by (rule last_slash)
    ultimately show False using ParseDenomTrace_path [of b a] by simp
  qed
  with f assms show "IBCDenom (ParseDenomTrace ?s) = IBCDenom t" "local_denom ?s = IBCDenom t"
    by (simp_all add: IBCDenom_def Hash_def local_denom_def Let_def)
qed

end
