(* ===== verification/TransferKeeper.thy ===== *)
theory TransferKeeper
  imports MsgServer TransferTypes
begin

text \<open>
  The fungible token transfer application: its keeper (\<^verbatim>\<open>modules/apps/transfer/keeper\<close>,
  \<^verbatim>\<open>keeper.go\<close>, \<^verbatim>\<open>relay.go\<close>, \<^verbatim>\<open>msg_server.go\<close>, \<^verbatim>\<open>params.go\<close>, \<^verbatim>\<open>genesis.go\<close>) and the callbacks it gives to
  the core module (\<^verbatim>\<open>ibc_module.go\<close>).

  The state of the application is the port it is bound to, the denomination traces by hash,
  its parameters and the state of the bank. \<^verbatim>\<open>OnRecvPacket\<close> reports an error in its
  acknowledgement and keeps what it has written until then; every other error aborts the
  transaction.
\<close>

subsection \<open>State\<close>

record 'b transfer_state =
  tr_port :: string
  tr_traces :: "bytes \<rightharpoonup> DenomTrace"
  tr_params :: transfer_Params
  tr_bank :: 'b

type_synonym ('k, 'b) transfer_world = "('k, 'b transfer_state) world"

definition GetDenomTrace :: "'b transfer_state \<Rightarrow> bytes \<Rightarrow> DenomTrace option" where
  "GetDenomTrace st denomTraceHash = tr_traces st denomTraceHash"

definition HasDenomTrace :: "'b transfer_state \<Rightarrow> bytes \<Rightarrow> bool" where
  "HasDenomTrace st denomTraceHash = (tr_traces st denomTraceHash \<noteq> None)"

definition SetDenomTrace :: "'b transfer_state \<Rightarrow> DenomTrace \<Rightarrow> 'b transfer_state" where
  "SetDenomTrace st denomTrace = st \<lparr> tr_traces := (tr_traces st)(Hash denomTrace \<mapsto> denomTrace) \<rparr>"

definition GetPort :: "'b transfer_state \<Rightarrow> string" where "GetPort st = tr_port st"
definition SetPort :: "'b transfer_state \<Rightarrow> string \<Rightarrow> 'b transfer_state" where "SetPort st portID = st \<lparr> tr_port := portID \<rparr>"
definition GetSendEnabled :: "'b transfer_state \<Rightarrow> bool" where "GetSendEnabled st = SendEnabled (tr_params st)"
definition GetReceiveEnabled :: "'b transfer_state \<Rightarrow> bool" where "GetReceiveEnabled st = ReceiveEnabled (tr_params st)"

definition transfer_IsBound :: "('k, 'b, 'x) transfer_env_scheme \<Rightarrow> ('k, 'b) transfer_world \<Rightarrow> string \<Rightarrow> bool" where
  "transfer_IsBound E w portID = (tsk_Get E (capState (w_ibc w)) (PortPath portID) \<noteq> None)"

definition transfer_ClaimCapability :: "('k, 'b, 'x) transfer_env_scheme \<Rightarrow> ('k, 'b) transfer_world \<Rightarrow> Capability \<Rightarrow> string \<Rightarrow>
    ('k, 'b) transfer_world result" where
  "transfer_ClaimCapability E w cap name =
     (case tsk_Claim E (capState (w_ibc w)) cap name of
        None \<Rightarrow> Inl (External ''capability'')
      | Some k \<Rightarrow> Inr (w \<lparr> w_ibc := w_ibc w \<lparr> capState := k \<rparr> \<rparr>))"

definition transfer_BindPort :: "('k, 'b, 'x) transfer_env_scheme \<Rightarrow> ('k, 'b) transfer_world \<Rightarrow> string \<Rightarrow> ('k, 'b) transfer_world result" where
  "transfer_BindPort E w portID =
     (case BindPort E (w_ibc w) portID of Inl e \<Rightarrow> Inl e | Inr (cap, s) \<Rightarrow>
      transfer_ClaimCapability E (w \<lparr> w_ibc := s \<rparr>) cap (PortPath portID))"

subsection \<open>Sending (relay.go)\<close>

text \<open>\<^verbatim>\<open>sdk.NewCoin\<close> and \<^verbatim>\<open>sdk.NewCoins\<close> panic on invalid coins.\<close>

definition or_panic :: "'a option \<Rightarrow> 'a result" where
  "or_panic v = (case v of None \<Rightarrow> Inl Panic | Some x \<Rightarrow> Inr x)"

text \<open>The error of a bank operation, returned to abort the transaction.\<close>

definition bank_result :: "error option \<times> 'b \<Rightarrow> 'b result" where
  "bank_result r = (case r of (Some e, _) \<Rightarrow> Inl e | (None, b) \<Rightarrow> Inr b)"

definition DenomPathFromHash :: "'x env_scheme \<Rightarrow> 'b transfer_state \<Rightarrow> string \<Rightarrow> string result" where
  "DenomPathFromHash E st denom =
     (let hexHash = drop (length (DenomPrefix @ ''/'')) denom in
      case ParseHexHash E hexHash of Inl _ \<Rightarrow> Inl (TransferE ErrInvalidDenomForTransfer) | Inr hash \<Rightarrow>
     (case GetDenomTrace st hash of None \<Rightarrow> Inl (TransferE ErrTraceNotFound) | Some denomTrace \<Rightarrow>
      Inr (GetFullDenomPath denomTrace)))"

text \<open>The full path of the token on this chain: the trace of a voucher, else the denomination itself.\<close>

definition full_denom_path :: "'x env_scheme \<Rightarrow> 'b transfer_state \<Rightarrow> string \<Rightarrow> string result" where
  "full_denom_path E st denom = (if prefix ''ibc/'' denom then DenomPathFromHash E st denom else Inr denom)"

text \<open>Escrowing the token, or burning it when it goes back to where it came from.\<close>

definition escrow_or_burn :: "('k, 'b, 'x) transfer_env_scheme \<Rightarrow> 'b \<Rightarrow> string \<Rightarrow> string \<Rightarrow> string \<Rightarrow> Coin \<Rightarrow> bytes \<Rightarrow> 'b result" where
  "escrow_or_burn E b sourcePort sourceChannel fullDenomPath token sender =
     (case or_panic (sdk_NewCoins E token) of Inl e \<Rightarrow> Inl e | Inr coins \<Rightarrow>
      if SenderChainIsSource sourcePort sourceChannel fullDenomPath then
        bank_result (bank_SendCoins E b sender (GetEscrowAddress sourcePort sourceChannel) coins)
      else
       (case bank_result (bank_SendCoinsFromAccountToModule E b sender ModuleName coins) of Inl e \<Rightarrow> Inl e | Inr b \<Rightarrow>
       (case bank_result (bank_BurnCoins E b ModuleName coins) of Inl _ \<Rightarrow> Inl Panic | Inr b \<Rightarrow> Inr b)))"

definition SendTransfer :: "('k, 'b, 'x) transfer_env_scheme \<Rightarrow> ctx \<Rightarrow> ('k, 'b) transfer_world \<Rightarrow> string \<Rightarrow> string \<Rightarrow> Coin \<Rightarrow> bytes \<Rightarrow> string \<Rightarrow>
    Height \<Rightarrow> u64 \<Rightarrow> ('k, 'b) transfer_world result" where
  "SendTransfer E ctx w sourcePort sourceChannel token sender receiver timeoutHeight timeoutTimestamp =
     (let st = w_app w; s = w_ibc w in
      if \<not> GetSendEnabled st then Inl (TransferE ErrSendDisabled)
      else case GetChannel s sourcePort sourceChannel of None \<Rightarrow> Inl (ChannelE ErrChannelNotFound) | Some sourceChannelEnd \<Rightarrow>
      let destinationPort = ch_PortId (chan_Counterparty sourceChannelEnd);
          destinationChannel = ch_ChannelId (chan_Counterparty sourceChannelEnd) in
     (case GetNextSequenceSend s sourcePort sourceChannel of None \<Rightarrow> Inl (ChannelE ErrSequenceSendNotFound) | Some sequence \<Rightarrow>
     (case tsk_Get E (capState s) (ChannelCapabilityPath sourcePort sourceChannel) of
        None \<Rightarrow> Inl (ChannelE ErrChannelCapabilityNotFound) | Some channelCap \<Rightarrow>
     (case full_denom_path E st (coin_Denom token) of Inl e \<Rightarrow> Inl e | Inr fullDenomPath \<Rightarrow>
     (case escrow_or_burn E (tr_bank st) sourcePort sourceChannel fullDenomPath token sender of Inl e \<Rightarrow> Inl e | Inr b \<Rightarrow>
     (case ftpd_GetBytes E (NewFungibleTokenPacketData fullDenomPath (sdk_IntString E (coin_Amount token)) (sdk_AccAddressString E sender) receiver) of
        Inl e \<Rightarrow> Inl e | Inr data \<Rightarrow>
     (case SendPacket E ctx s (Some channelCap)
            (NewPacket data sequence sourcePort sourceChannel destinationPort destinationChannel timeoutHeight timeoutTimestamp) of
        Inl e \<Rightarrow> Inl e
      | Inr s \<Rightarrow> Inr (w \<lparr> w_ibc := s, w_app := st \<lparr> tr_bank := b \<rparr> \<rparr>))))))))"

subsection \<open>Receiving (relay.go)\<close>

text \<open>Sending coins back out of escrow.\<close>

definition unescrow :: "('k, 'b, 'x) transfer_env_scheme \<Rightarrow> 'b transfer_state \<Rightarrow> string \<Rightarrow> string \<Rightarrow> bytes \<Rightarrow> string \<Rightarrow> int \<Rightarrow>
    error option \<times> 'b transfer_state" where
  "unescrow E st port chan receiver denom amount =
     (case sdk_NewCoin E denom amount of None \<Rightarrow> (Some Panic, st) | Some token \<Rightarrow>
     (case sdk_NewCoins E token of None \<Rightarrow> (Some Panic, st) | Some coins \<Rightarrow>
     (case bank_SendCoins E (tr_bank st) (GetEscrowAddress port chan) receiver coins of (err, b) \<Rightarrow> (err, st \<lparr> tr_bank := b \<rparr>))))"

text \<open>Minting vouchers and sending them to an account.\<close>

definition mint_to :: "('k, 'b, 'x) transfer_env_scheme \<Rightarrow> 'b transfer_state \<Rightarrow> bytes \<Rightarrow> string \<Rightarrow> int \<Rightarrow> error option \<times> 'b transfer_state" where
  "mint_to E st receiver denom amount =
     (case sdk_NewCoin E denom amount of None \<Rightarrow> (Some Panic, st) | Some voucher \<Rightarrow>
     (case sdk_NewCoins E voucher of None \<Rightarrow> (Some Panic, st) | Some coins \<Rightarrow>
     (case bank_MintCoins E (tr_bank st) ModuleName coins of
        (Some e, b) \<Rightarrow> (Some e, st \<lparr> tr_bank := b \<rparr>)
      | (None, b) \<Rightarrow>
          (case bank_SendCoinsFromModuleToAccount E b ModuleName receiver coins of (err, b) \<Rightarrow> (err, st \<lparr> tr_bank := b \<rparr>)))))"

definition transfer_OnRecvPacket :: "('k, 'b, 'x) transfer_env_scheme \<Rightarrow> 'b transfer_state \<Rightarrow> Packet \<Rightarrow> FungibleTokenPacketData \<Rightarrow>
    error option \<times> 'b transfer_state" where
  "transfer_OnRecvPacket E st packet data =
     (case ftpd_ValidateBasic E data of Inl e \<Rightarrow> (Some e, st) | Inr _ \<Rightarrow>
      if \<not> GetReceiveEnabled st then (Some (TransferE ErrReceiveDisabled), st)
      else case sdk_AccAddressFromBech32 E (ftpd_Receiver data) of None \<Rightarrow> (Some (External ''address''), st) | Some receiver \<Rightarrow>
     (case sdk_NewIntFromString E (ftpd_Amount data) of None \<Rightarrow> (Some (TransferE ErrInvalidAmount), st) | Some transferAmount \<Rightarrow>
      if ReceiverChainIsSource (SourcePort packet) (SourceChannel packet) (ftpd_Denom data) then
        let voucherPrefix = GetDenomPrefix (SourcePort packet) (SourceChannel packet);
            unprefixedDenom = drop (length voucherPrefix) (ftpd_Denom data);
            denomTrace = ParseDenomTrace unprefixedDenom;
            denom = (if dt_Path denomTrace \<noteq> '''' then IBCDenom denomTrace else unprefixedDenom) in
        unescrow E st (DestinationPort packet) (DestinationChannel packet) receiver denom transferAmount
      else
        let sourcePrefix = GetDenomPrefix (DestinationPort packet) (DestinationChannel packet);
            prefixedDenom = sourcePrefix @ ftpd_Denom data;
            denomTrace = ParseDenomTrace prefixedDenom;
            traceHash = Hash denomTrace;
            st = (if \<not> HasDenomTrace st traceHash then SetDenomTrace st denomTrace else st);
            voucherDenom = IBCDenom denomTrace in
        mint_to E st receiver voucherDenom transferAmount))"

subsection \<open>Acknowledgements, timeouts and refunds (relay.go)\<close>

definition refundPacketToken :: "('k, 'b, 'x) transfer_env_scheme \<Rightarrow> 'b \<Rightarrow> Packet \<Rightarrow> FungibleTokenPacketData \<Rightarrow> 'b result" where
  "refundPacketToken E b packet data =
     (let trace = ParseDenomTrace (ftpd_Denom data) in
      case sdk_NewIntFromString E (ftpd_Amount data) of None \<Rightarrow> Inl (TransferE ErrInvalidAmount) | Some transferAmount \<Rightarrow>
     (case or_panic (sdk_NewCoin E (IBCDenom trace) transferAmount) of Inl e \<Rightarrow> Inl e | Inr token \<Rightarrow>
     (case sdk_AccAddressFromBech32 E (ftpd_Sender data) of None \<Rightarrow> Inl (External ''address'') | Some sender \<Rightarrow>
     (case or_panic (sdk_NewCoins E token) of Inl e \<Rightarrow> Inl e | Inr coins \<Rightarrow>
      if SenderChainIsSource (SourcePort packet) (SourceChannel packet) (ftpd_Denom data) then
        bank_result (bank_SendCoins E b (GetEscrowAddress (SourcePort packet) (SourceChannel packet)) sender coins)
      else
       (case bank_result (bank_MintCoins E b ModuleName coins) of Inl e \<Rightarrow> Inl e | Inr b \<Rightarrow>
       (case bank_result (bank_SendCoinsFromModuleToAccount E b ModuleName sender coins) of Inl _ \<Rightarrow> Inl Panic | Inr b \<Rightarrow> Inr b))))))"

definition transfer_OnAcknowledgementPacket :: "('k, 'b, 'x) transfer_env_scheme \<Rightarrow> 'b transfer_state \<Rightarrow> Packet \<Rightarrow> FungibleTokenPacketData \<Rightarrow>
    Acknowledgement \<Rightarrow> 'b transfer_state result" where
  "transfer_OnAcknowledgementPacket E st packet data ack =
     (case ack of
        AckError _ \<Rightarrow> (case refundPacketToken E (tr_bank st) packet data of Inl e \<Rightarrow> Inl e | Inr b \<Rightarrow> Inr (st \<lparr> tr_bank := b \<rparr>))
      | _ \<Rightarrow> Inr st)"

definition transfer_OnTimeoutPacket :: "('k, 'b, 'x) transfer_env_scheme \<Rightarrow> 'b transfer_state \<Rightarrow> Packet \<Rightarrow> FungibleTokenPacketData \<Rightarrow>
    'b transfer_state result" where
  "transfer_OnTimeoutPacket E st packet data =
     (case refundPacketToken E (tr_bank st) packet data of Inl e \<Rightarrow> Inl e | Inr b \<Rightarrow> Inr (st \<lparr> tr_bank := b \<rparr>))"

subsection \<open>The message (msg_server.go) and genesis (genesis.go)\<close>

definition Transfer :: "('k, 'b, 'x) transfer_env_scheme \<Rightarrow> ctx \<Rightarrow> ('k, 'b) transfer_world \<Rightarrow> MsgTransfer \<Rightarrow> ('k, 'b) transfer_world result" where
  "Transfer E ctx w msg =
     (case sdk_AccAddressFromBech32 E (mtr_Sender msg) of None \<Rightarrow> Inl (External ''address'') | Some sender \<Rightarrow>
      SendTransfer E ctx w (mtr_SourcePort msg) (mtr_SourceChannel msg) (mtr_Token msg) sender (mtr_Receiver msg)
        (mtr_TimeoutHeight msg) (mtr_TimeoutTimestamp msg))"

definition transfer_InitGenesis :: "('k, 'b, 'x) transfer_env_scheme \<Rightarrow> ('k, 'b) transfer_world \<Rightarrow> transfer_GenesisState \<Rightarrow>
    ('k, 'b) transfer_world result" where
  "transfer_InitGenesis E w state =
     (let w = w \<lparr> w_app := foldl SetDenomTrace (SetPort (w_app w) (tg_PortId state)) (tg_DenomTraces state) \<rparr> in
      case (if \<not> transfer_IsBound E w (tg_PortId state) then transfer_BindPort E w (tg_PortId state) else Inr w) of
        Inl _ \<Rightarrow> Inl Panic
      | Inr w \<Rightarrow>
        let w = w \<lparr> w_app := w_app w \<lparr> tr_params := tg_Params state \<rparr> \<rparr> in
        if \<not> auth_ModuleAccountSet E then Inl Panic else Inr w)"

subsection \<open>Callbacks (ibc_module.go)\<close>

definition ValidateTransferChannelParams :: "'b transfer_state \<Rightarrow> Order \<Rightarrow> string \<Rightarrow> string \<Rightarrow> unit result" where
  "ValidateTransferChannelParams st order portID channelID =
     (case ParseChannelSequence channelID of Inl e \<Rightarrow> Inl e | Inr channelSequence \<Rightarrow>
      if channelSequence > 4294967295 then Inl (TransferE ErrMaxTransferChannels)
      else if order \<noteq> UNORDERED then Inl (ChannelE ErrInvalidChannelOrdering)
      else if GetPort st \<noteq> portID then Inl (PortE ErrInvalidPort)
      else Inr ())"

definition transfer_OnChanOpenInit :: "('k, 'b, 'x) transfer_env_scheme \<Rightarrow> ('k, 'b) transfer_world \<Rightarrow> Order \<Rightarrow> string \<Rightarrow> string \<Rightarrow> Capability \<Rightarrow>
    string \<Rightarrow> ('k, 'b) transfer_world result" where
  "transfer_OnChanOpenInit E w order portID channelID chanCap version =
     (case ValidateTransferChannelParams (w_app w) order portID channelID of Inl e \<Rightarrow> Inl e | Inr _ \<Rightarrow>
      if version \<noteq> transfer_Version then Inl (TransferE transfer_ErrInvalidVersion)
      else transfer_ClaimCapability E w chanCap (ChannelCapabilityPath portID channelID))"

definition transfer_OnChanOpenTry :: "('k, 'b, 'x) transfer_env_scheme \<Rightarrow> ('k, 'b) transfer_world \<Rightarrow> Order \<Rightarrow> string \<Rightarrow> string \<Rightarrow> Capability \<Rightarrow>
    string \<Rightarrow> (string \<times> ('k, 'b) transfer_world) result" where
  "transfer_OnChanOpenTry E w order portID channelID chanCap counterpartyVersion =
     (case ValidateTransferChannelParams (w_app w) order portID channelID of Inl e \<Rightarrow> Inl e | Inr _ \<Rightarrow>
      if counterpartyVersion \<noteq> transfer_Version then Inl (TransferE transfer_ErrInvalidVersion)
      else case (if \<not> tsk_Authenticate E (capState (w_ibc w)) (Some chanCap) (ChannelCapabilityPath portID channelID)
                 then transfer_ClaimCapability E w chanCap (ChannelCapabilityPath portID channelID) else Inr w) of
             Inl e \<Rightarrow> Inl e
           | Inr w \<Rightarrow> Inr (transfer_Version, w))"

definition transfer_OnChanOpenAck :: "('k, 'b) transfer_world \<Rightarrow> string \<Rightarrow> ('k, 'b) transfer_world result" where
  "transfer_OnChanOpenAck w counterpartyVersion =
     (if counterpartyVersion \<noteq> transfer_Version then Inl (TransferE transfer_ErrInvalidVersion) else Inr w)"

text \<open>
  The acknowledgement is an error when the data cannot be decoded or the keeper refuses the
  packet, and its text is that of the error; a panic is none of this.
\<close>

definition im_OnRecvPacket :: "('k, 'b, 'x) transfer_env_scheme \<Rightarrow> ('k, 'b) transfer_world \<Rightarrow> Packet \<Rightarrow>
    ((bool \<times> bytes) option \<times> ('k, 'b) transfer_world) result" where
  "im_OnRecvPacket E w packet =
     (let answer = (\<lambda>ack st. case json_MarshalAck E ack of None \<Rightarrow> Inl Panic | Some bz \<Rightarrow>
        Inr (Some (Success ack, bz), w \<lparr> w_app := st \<rparr>)) in
      case json_UnmarshalPacketData E (Data packet) of
        None \<Rightarrow> answer (NewErrorAcknowledgement ''cannot unmarshal ICS-20 transfer packet data'') (w_app w)
      | Some data \<Rightarrow>
        (case transfer_OnRecvPacket E (w_app w) packet data of
           (None, st) \<Rightarrow> answer (NewResultAcknowledgement [char_of (1 :: nat)]) st
         | (Some e, st) \<Rightarrow> if e = Panic then Inl Panic else answer (NewErrorAcknowledgement (go_ErrorText E e)) st))"

definition im_OnAcknowledgementPacket :: "('k, 'b, 'x) transfer_env_scheme \<Rightarrow> ('k, 'b) transfer_world \<Rightarrow> Packet \<Rightarrow> bytes \<Rightarrow>
    ('k, 'b) transfer_world result" where
  "im_OnAcknowledgementPacket E w packet acknowledgement =
     (case json_UnmarshalAck E acknowledgement of None \<Rightarrow> Inl (SdkE ErrUnknownRequest) | Some ack \<Rightarrow>
     (case json_UnmarshalPacketData E (Data packet) of None \<Rightarrow> Inl (SdkE ErrUnknownRequest) | Some data \<Rightarrow>
     (case transfer_OnAcknowledgementPacket E (w_app w) packet data ack of Inl e \<Rightarrow> Inl e | Inr st \<Rightarrow> Inr (w \<lparr> w_app := st \<rparr>))))"

definition im_OnTimeoutPacket :: "('k, 'b, 'x) transfer_env_scheme \<Rightarrow> ('k, 'b) transfer_world \<Rightarrow> Packet \<Rightarrow> ('k, 'b) transfer_world result" where
  "im_OnTimeoutPacket E w packet =
     (case json_UnmarshalPacketData E (Data packet) of None \<Rightarrow> Inl (SdkE ErrUnknownRequest) | Some data \<Rightarrow>
     (case transfer_OnTimeoutPacket E (w_app w) packet data of Inl e \<Rightarrow> Inl e | Inr st \<Rightarrow> Inr (w \<lparr> w_app := st \<rparr>)))"

definition transfer_module :: "('k, 'b, 'x) transfer_env_scheme \<Rightarrow> ('k, 'b transfer_state) IBCModule" where
  "transfer_module E =
     \<lparr> OnChanOpenInit = (\<lambda>ctx w order hops port chan cap cp v. transfer_OnChanOpenInit E w order port chan cap v),
       OnChanOpenTry = (\<lambda>ctx w order hops port chan cap cp v. transfer_OnChanOpenTry E w order port chan cap v),
       OnChanOpenAck = (\<lambda>ctx w port chan v. transfer_OnChanOpenAck w v),
       OnChanOpenConfirm = (\<lambda>ctx w port chan. Inr w),
       OnChanCloseInit = (\<lambda>ctx w port chan. Inl (SdkE ErrInvalidRequest)),
       OnChanCloseConfirm = (\<lambda>ctx w port chan. Inr w),
       OnRecvPacket = (\<lambda>ctx w p relayer. im_OnRecvPacket E w p),
       OnAcknowledgementPacket = (\<lambda>ctx w p a relayer. im_OnAcknowledgementPacket E w p a),
       OnTimeoutPacket = (\<lambda>ctx w p relayer. im_OnTimeoutPacket E w p) \<rparr>"

end
