(* ===== verification/CoreInvariant.thy ===== *)
theory CoreInvariant
  imports MsgServer
begin

text \<open>
  The invariant of the whole core module and its preservation by every message. The
  invariants of the client, connection, channel and packet components are put together;
  each component's steps are shown to leave the others' parts alone, or to change them
  only in the way verification does. Applications enter through an interface: what their
  callbacks may do to the core module's state.
\<close>

subsection \<open>What an application may do\<close>

text \<open>
  During a callback an application may send packets, write acknowledgements of packets it
  received earlier, and claim or release capabilities.
\<close>

inductive app_step :: "('k, 'x) keeper_env_scheme \<Rightarrow> 'k ibc_state \<Rightarrow> 'k ibc_state \<Rightarrow> bool" for E where
  app_send: "SendPacket E ctx s cap p = Inr s' \<Longrightarrow> Sequence p \<noteq> - 1 \<Longrightarrow> app_step E s s'"
| app_ack: "WriteAcknowledgement E s cap p a = Inr s' \<Longrightarrow> app_step E s s'"
| app_capability: "app_step E s (s \<lparr> capState := k \<rparr>)"

abbreviation app_run :: "('k, 'x) keeper_env_scheme \<Rightarrow> 'k ibc_state \<Rightarrow> 'k ibc_state \<Rightarrow> bool" where
  "app_run E \<equiv> (app_step E)\<^sup>*\<^sup>*"

locale ibc_application =
  fixes E :: "('k, 'x) keeper_env_scheme" and cbs :: "('k, 'a) IBCModule"
  assumes init_runs: "OnChanOpenInit cbs ctx w ord hops port chan cap cp v = Inr w' \<Longrightarrow> app_run E (w_ibc w) (w_ibc w')"
    and try_runs: "OnChanOpenTry cbs ctx w ord hops port chan cap cp v = Inr (v', w') \<Longrightarrow> app_run E (w_ibc w) (w_ibc w')"
    and ack_runs: "OnChanOpenAck cbs ctx w port chan v = Inr w' \<Longrightarrow> app_run E (w_ibc w) (w_ibc w')"
    and confirm_runs: "OnChanOpenConfirm cbs ctx w port chan = Inr w' \<Longrightarrow> app_run E (w_ibc w) (w_ibc w')"
    and close_init_runs: "OnChanCloseInit cbs ctx w port chan = Inr w' \<Longrightarrow> app_run E (w_ibc w) (w_ibc w')"
    and close_confirm_runs: "OnChanCloseConfirm cbs ctx w port chan = Inr w' \<Longrightarrow> app_run E (w_ibc w) (w_ibc w')"
    and recv_runs: "OnRecvPacket cbs ctx w p relayer = Inr (ack, w') \<Longrightarrow> app_run E (w_ibc w) (w_ibc w')"
    and acknowledgement_runs: "OnAcknowledgementPacket cbs ctx w p a relayer = Inr w' \<Longrightarrow> app_run E (w_ibc w) (w_ibc w')"
    and timeout_runs: "OnTimeoutPacket cbs ctx w p relayer = Inr w' \<Longrightarrow> app_run E (w_ibc w) (w_ibc w')"

definition router_ok :: "('k, 'x) keeper_env_scheme \<Rightarrow> ('k, 'a) Router \<Rightarrow> bool" where
  "router_ok E R \<longleftrightarrow> (\<forall>module cbs. routes R module = Some cbs \<longrightarrow> ibc_application E cbs)"

lemma route_to_Inr: "route_to R lookup = Inr (cbs, cap) \<Longrightarrow> router_ok E R \<Longrightarrow> ibc_application E cbs"
  by (auto simp: route_to_def result_elims GetRoute_def router_ok_def split: if_splits)

subsection \<open>The lower layers as verification leaves them\<close>

definition low_frame :: "'k ibc_state \<Rightarrow> 'k ibc_state \<Rightarrow> bool" where
  "low_frame s s' \<longleftrightarrow> nextClientSequence s' = nextClientSequence s \<and> nextConnectionSequence s' = nextConnectionSequence s \<and>
     connections s' = connections s \<and> clientConnections s' = clientConnections s \<and>
     (\<forall>cid. same_but_client (clientStores s cid) (clientStores s' cid) \<and>
        map_option ClientType (GetClientState s' cid) = map_option ClientType (GetClientState s cid))"

lemma low_frame_refl [simp]: "low_frame s s"
  by (simp add: low_frame_def)

lemma low_frame_trans: "low_frame a b \<Longrightarrow> low_frame b c \<Longrightarrow> low_frame a c"
  by (auto simp: low_frame_def intro: same_but_client_trans)

lemma low_frame_verified:
  assumes "verified_frame s s'"
  shows "low_frame s s'"
proof -
  from assms have "\<forall>cid. same_but_client (clientStores s cid) (clientStores s' cid) \<and>
      map_option ClientType (GetClientState s' cid) = map_option ClientType (GetClientState s cid)"
    unfolding verified_frame_def by blast
  then show ?thesis unfolding low_frame_def using verified_frame_fields(1,3-5) [OF assms] by blast
qed

lemma low_frame_fields [simp]:
  "low_frame s (s' \<lparr> channels := a \<rparr>) = low_frame s s'" "low_frame s (s' \<lparr> nextSequenceSend := b \<rparr>) = low_frame s s'"
  "low_frame s (s' \<lparr> nextSequenceRecv := b \<rparr>) = low_frame s s'" "low_frame s (s' \<lparr> nextSequenceAck := b \<rparr>) = low_frame s s'"
  "low_frame s (s' \<lparr> packetCommitments := d \<rparr>) = low_frame s s'" "low_frame s (s' \<lparr> packetReceipts := d \<rparr>) = low_frame s s'"
  "low_frame s (s' \<lparr> packetAcks := d \<rparr>) = low_frame s s'" "low_frame s (s' \<lparr> nextChannelSequence := e \<rparr>) = low_frame s s'"
  "low_frame s (s' \<lparr> capState := k \<rparr>) = low_frame s s'"
  by (simp_all add: low_frame_def GetClientState_def)

lemma low_frame_empty_store:
  assumes "low_frame s s'"
  shows "clientStores s' cid = empty_client_store \<longleftrightarrow> clientStores s cid = empty_client_store"
proof -
  from assms have s: "same_but_client (clientStores s cid) (clientStores s' cid)"
    and t: "map_option ClientType (st_clientState (clientStores s' cid)) = map_option ClientType (st_clientState (clientStores s cid))"
    by (auto simp: low_frame_def GetClientState_def)
  then show ?thesis
    by (cases "clientStores s cid"; cases "clientStores s' cid") (auto simp: same_but_client_def empty_client_store_def)
qed

lemma low_frame_metadata:
  assumes "low_frame s s'"
  shows "metadata_inv (clientStores s' cid) = metadata_inv (clientStores s cid)"
proof -
  from assms have "clientStores s' cid \<lparr> st_clientState := st_clientState (clientStores s cid) \<rparr> = clientStores s cid"
    by (auto simp: low_frame_def same_but_client_def)
  then show ?thesis by (metis inv_client_state(2))
qed

lemma low_frame_TM:
  assumes "low_frame s s'" "GetClientState s' cid = Some (TMClient cs)"
  shows "\<exists>cs0. GetClientState s cid = Some (TMClient cs0)"
proof -
  from assms(1) have "map_option ClientType (GetClientState s cid) = map_option ClientType (GetClientState s' cid)"
    unfolding low_frame_def by metis
  with assms(2) obtain c where "GetClientState s cid = Some c" "ClientType c = ClientType (TMClient cs)"
    by (cases "GetClientState s cid") simp_all
  then show ?thesis unfolding ClientType_TM by blast
qed

lemma low_frame_clients:
  assumes "low_frame s s'" "clients_inv s"
  shows "clients_inv s'"
proof -
  have "ids_in_use s' = ids_in_use s" by (simp add: ids_in_use_def low_frame_empty_store [OF assms(1)])
  moreover have "nextClientSequence s' = nextClientSequence s" using assms(1) by (simp add: low_frame_def)
  moreover have "cid \<noteq> Localhost \<and> metadata_inv (clientStores s' cid)" if "GetClientState s' cid = Some (TMClient cs)" for cid cs
    using low_frame_TM [OF assms(1) that] low_frame_metadata [OF assms(1)] assms(2) unfolding clients_inv_def by blast
  ultimately show ?thesis using assms(2) unfolding clients_inv_def by metis
qed

lemma low_frame_conns:
  assumes "low_frame s s'" "conns_inv s"
  shows "conns_inv s'"
proof -
  from assms(1) have "GetClientState s' x = None \<longleftrightarrow> GetClientState s x = None" for x
    unfolding low_frame_def by (metis map_option_is_None)
  with assms show ?thesis by (simp add: conns_inv_def low_frame_def paths_of_def)
qed

subsection \<open>The upper layers\<close>

text \<open>Traffic only moves forward: the part of \<open>flow_le\<close> that does not speak of channel ends.\<close>

definition traffic_le :: "'k ibc_state \<Rightarrow> 'k ibc_state \<Rightarrow> bool" where
  "traffic_le s s' \<longleftrightarrow>
     counter_le (nextSequenceSend s) (nextSequenceSend s') \<and> counter_le (nextSequenceRecv s) (nextSequenceRecv s') \<and>
     counter_le (nextSequenceAck s) (nextSequenceAck s') \<and>
     packetReceipts s \<subseteq>\<^sub>m packetReceipts s' \<and> packetAcks s \<subseteq>\<^sub>m packetAcks s' \<and>
     (\<forall>port chan n m. nextSequenceSend s (port, chan) = Some m \<longrightarrow> n < m \<longrightarrow> packetCommitments s (port, chan, n) = None \<longrightarrow>
        packetCommitments s' (port, chan, n) = None)"

lemma traffic_le_flow: "flow_le s s' \<longleftrightarrow> traffic_le s s' \<and> chans_kept (channels s) (channels s')"
  unfolding flow_le_def traffic_le_def by blast

lemma traffic_le_refl [simp]: "traffic_le s s"
  by (simp add: traffic_le_def)

lemma traffic_le_channels [simp]:
  "traffic_le (s \<lparr> channels := a \<rparr>) s' = traffic_le s s'" "traffic_le s (s' \<lparr> channels := a \<rparr>) = traffic_le s s'"
  "traffic_le s (s' \<lparr> capState := k \<rparr>) = traffic_le s s'" "traffic_le s (s' \<lparr> nextChannelSequence := e \<rparr>) = traffic_le s s'"
  by (simp_all add: traffic_le_def)

lemma traffic_le_trans:
  assumes "traffic_le a b" "traffic_le b c"
  shows "traffic_le a c"
proof -
  have "flow_le (a \<lparr> channels := Map.empty \<rparr>) (b \<lparr> channels := Map.empty \<rparr>)" "flow_le (b \<lparr> channels := Map.empty \<rparr>) (c \<lparr> channels := Map.empty \<rparr>)"
    using assms by (simp_all add: traffic_le_flow)
  from flow_le_trans [OF this] show ?thesis by (simp add: traffic_le_flow)
qed

definition counters_inv :: "'k ibc_state \<Rightarrow> bool" where
  "counters_inv s \<longleftrightarrow> dom (nextSequenceSend s) \<union> dom (nextSequenceRecv s) \<union> dom (nextSequenceAck s) \<subseteq> dom (channels s)"

text \<open>
  Operations on packets and closings: channel ends only close, no channel or counter appears
  or disappears, and the lower layers are at most verified against.
\<close>

definition packet_frame :: "'k ibc_state \<Rightarrow> 'k ibc_state \<Rightarrow> bool" where
  "packet_frame s s' \<longleftrightarrow> low_frame s s' \<and> nextChannelSequence s' = nextChannelSequence s \<and>
     dom (channels s') = dom (channels s) \<and> dom (nextSequenceSend s') = dom (nextSequenceSend s) \<and>
     dom (nextSequenceRecv s') = dom (nextSequenceRecv s) \<and> dom (nextSequenceAck s') = dom (nextSequenceAck s) \<and>
     flow_le s s' \<and> (packets_inv s \<longrightarrow> packets_inv s')"

lemma packet_frame_refl [simp]: "packet_frame s s"
  by (simp add: packet_frame_def)

lemma packet_frame_trans: "packet_frame a b \<Longrightarrow> packet_frame b c \<Longrightarrow> packet_frame a c"
  unfolding packet_frame_def using low_frame_trans flow_le_trans by metis

lemma packet_frame_verified:
  assumes "verified_frame s s'"
  shows "packet_frame s s'"
  using low_frame_verified [OF assms] verified_frame_fields [OF assms] by (simp add: packet_frame_def flow_le_def packets_inv_def)

lemma SendPacket_frame: "SendPacket E ctx s cap p = Inr s' \<Longrightarrow> Sequence p \<noteq> - 1 \<Longrightarrow> packet_frame s s'"
  using SendPacket_flow [of E ctx s cap p s'] SendPacket_Inr [of E ctx s cap p s']
  by (simp add: packet_frame_def insert_absorb domI)

lemma WriteAcknowledgement_frame: "WriteAcknowledgement E s cap p a = Inr s' \<Longrightarrow> packet_frame s s'"
  using packet_step_flow [OF packet_step.write_ack] WriteAcknowledgement_Inr [of E s cap p a s']
  by (simp add: packet_frame_def)

lemma RecvPacket_frame:
  assumes "RecvPacket E ctx s cap p pf h = Inr s'" "Sequence p \<noteq> - 1"
  shows "packet_frame s s'"
  using assms(1)
proof (rule RecvPacket_Inr)
  fix channel connection s1
  assume v: "conn_VerifyPacketCommitment E ctx s connection h pf (SourcePort p) (SourceChannel p) (Sequence p) (CommitPacket p) = Inr s1"
    and r: "case chan_Ordering channel of
       UNORDERED \<Rightarrow> packetReceipts s (dst_key p) = None \<and>
         s' = s1 \<lparr> packetReceipts := (packetReceipts s1)(dst_key p \<mapsto> [char_of (1 :: nat)]) \<rparr>
     | ORDERED \<Rightarrow> nextSequenceRecv s (dst_chan p) = Some (Sequence p) \<and>
         s' = s1 \<lparr> nextSequenceRecv := (nextSequenceRecv s1)(dst_chan p \<mapsto> Sequence p + 1) \<rparr>
     | NONE \<Rightarrow> s' = s1"
  from conn_verify_frames(5) [OF v] have f: "verified_frame s s1" .
  from r low_frame_verified [OF f] verified_frame_fields [OF f] RecvPacket_flow [OF assms] show ?thesis
    by (cases "chan_Ordering channel") (auto simp: packet_frame_def)
qed

lemma AcknowledgePacket_frame:
  assumes "AcknowledgePacket E ctx s cap p a pf h = Inr s'" "Sequence p \<noteq> - 1"
  shows "packet_frame s s'"
  using assms(1)
proof (rule AcknowledgePacket_Inr)
  fix channel connection s1
  assume v: "conn_VerifyPacketAcknowledgement E ctx s connection h pf (DestinationPort p) (DestinationChannel p) (Sequence p) a = Inr s1"
    and o: "chan_Ordering channel = ORDERED \<longrightarrow> nextSequenceAck s (src_chan p) = Some (Sequence p)"
    and s': "s' = s1 \<lparr> nextSequenceAck := (if chan_Ordering channel = ORDERED then (nextSequenceAck s)(src_chan p \<mapsto> Sequence p + 1)
        else nextSequenceAck s), packetCommitments := (packetCommitments s1)(src_key p := None) \<rparr>"
  from conn_verify_frames(6) [OF v] have f: "verified_frame s s1" .
  from o s' low_frame_verified [OF f] verified_frame_fields [OF f] AcknowledgePacket_flow [OF assms] show ?thesis
    by (auto simp: packet_frame_def)
qed

lemma dom_upd_same: "m k = Some x \<Longrightarrow> insert k (dom m) = dom m"
  by (simp add: insert_absorb domI)

lemma TimeoutExecuted_frame:
  assumes "TimeoutExecuted E s cap p = Inr s'"
  shows "packet_frame s s'"
proof -
  from TimeoutExecuted_Inr [OF assms] obtain channel where c: "channels s (src_chan p) = Some channel"
    and s': "s' = s \<lparr> packetCommitments := (packetCommitments s)(src_key p := None),
       channels := (if chan_Ordering channel = ORDERED then (channels s)(src_chan p \<mapsto> channel \<lparr> chan_State := CLOSED \<rparr>) else channels s) \<rparr>"
    by blast
  have "dom (channels s') = dom (channels s)" using c by (simp add: dom_upd_same s')
  then show ?thesis using TimeoutExecuted_flow [OF assms] by (simp add: packet_frame_def s')
qed

lemma timeout_check_frame:
  "TimeoutPacket E ctx s p pf h n = Inr s' \<Longrightarrow> verified_frame s s'"
  "TimeoutOnClose E ctx s cap p pf pfc h n = Inr s' \<Longrightarrow> verified_frame s s'"
  by (erule TimeoutPacket_Inr, erule verify_not_received_frame)
    (erule TimeoutOnClose_Inr, blast intro: verified_frame_trans verify_not_received_frame conn_verify_frames)

lemma ChanClose_frame:
  "ChanCloseInit E s port chan cap = Inr s' \<Longrightarrow> packet_frame s s'"
  "ChanCloseConfirm E ctx s port chan cap pf h = Inr s' \<Longrightarrow> packet_frame s s'"
proof -
  assume a: "ChanCloseInit E s port chan cap = Inr s'"
  from chan_check_Inr(3) [OF a] obtain c where c: "channels s (port, chan) = Some c"
    and s': "s' = s \<lparr> channels := (channels s)((port, chan) \<mapsto> c \<lparr> chan_State := CLOSED \<rparr>) \<rparr>" by blast
  have "dom (channels s') = dom (channels s)" using c by (simp add: dom_upd_same s')
  then show "packet_frame s s'" using ChanClose_flow(1) [OF a] by (simp add: packet_frame_def s')
next
  assume a: "ChanCloseConfirm E ctx s port chan cap pf h = Inr s'"
  from chan_check_Inr(4) [OF a] obtain c s0 where c: "channels s (port, chan) = Some c" and f: "verified_frame s s0"
    and s': "s' = s0 \<lparr> channels := (channels s0)((port, chan) \<mapsto> c \<lparr> chan_State := CLOSED \<rparr>) \<rparr>" by blast
  have "dom (channels s') = dom (channels s)" using c by (simp add: dom_upd_same s' verified_frame_fields [OF f])
  then show "packet_frame s s'" using low_frame_verified [OF f] ChanClose_flow(2) [OF a]
    by (simp add: packet_frame_def s' verified_frame_fields [OF f])
qed

lemma app_step_frame: "app_step E s s' \<Longrightarrow> packet_frame s s' \<and> channels s' = channels s"
proof (induction rule: app_step.induct)
  case (app_send ctx s cap p s')
  then show ?case using SendPacket_frame SendPacket_Inr by fastforce
next
  case (app_ack s cap p a s')
  then show ?case using WriteAcknowledgement_frame WriteAcknowledgement_Inr by fastforce
next
  case (app_capability s k)
  show ?case by (simp add: packet_frame_def flow_le_def packets_inv_def)
qed

lemma app_run_frame: "app_run E s s' \<Longrightarrow> packet_frame s s' \<and> channels s' = channels s"
proof (induction rule: rtranclp_induct)
  case (step b c)
  then show ?case using app_step_frame [OF step.hyps(2)] packet_frame_trans by metis
qed simp

lemma app_run_callback: "app_run E s s' \<Longrightarrow> callback_ok s s'"
  using app_run_frame [of E s s'] by (simp add: packet_frame_def callback_ok_def)

subsection \<open>The invariant and the order of the whole module\<close>

definition ibc_inv :: "'k ibc_state \<Rightarrow> bool" where
  "ibc_inv s \<longleftrightarrow> clients_inv s \<and> conns_inv s \<and> chans_inv s \<and> packets_inv s \<and> counters_inv s"

definition ibc_le :: "'k ibc_state \<Rightarrow> 'k ibc_state \<Rightarrow> bool" where
  "ibc_le s s' \<longleftrightarrow> traffic_le s s' \<and>
     (\<forall>ch c. channels s ch = Some c \<longrightarrow> (\<exists>c'. channels s' ch = Some c' \<and> chan_advanced c c')) \<and>
     (\<forall>cid c. connections s cid = Some c \<longrightarrow> (\<exists>c'. connections s' cid = Some c' \<and> conn_advanced c c')) \<and>
     (\<forall>cid cs. GetClientState s cid = Some cs \<longrightarrow> map_option ClientType (GetClientState s' cid) = Some (ClientType cs))"

lemma ibc_leD:
  assumes "ibc_le s s'"
  shows "traffic_le s s'" "channels s ch = Some c \<Longrightarrow> \<exists>c'. channels s' ch = Some c' \<and> chan_advanced c c'"
    "connections s cid = Some d \<Longrightarrow> \<exists>d'. connections s' cid = Some d' \<and> conn_advanced d d'"
    "GetClientState s cid = Some cs \<Longrightarrow> map_option ClientType (GetClientState s' cid) = Some (ClientType cs)"
  using assms unfolding ibc_le_def by blast+

lemma ibc_le_refl [simp]: "ibc_le s s"
  by (simp add: ibc_le_def)

lemma ibc_le_trans:
  assumes "ibc_le a b" "ibc_le b c"
  shows "ibc_le a c"
  unfolding ibc_le_def
proof (intro conjI allI impI)
  show "traffic_le a c" using ibc_leD(1) assms traffic_le_trans by blast
next
  fix ch x assume "channels a ch = Some x"
  with ibc_leD(2) [OF assms(1)] obtain y where "channels b ch = Some y" "chan_advanced x y" by blast
  with ibc_leD(2) [OF assms(2)] chan_advanced_trans show "\<exists>c'. channels c ch = Some c' \<and> chan_advanced x c'" by blast
next
  fix cid x assume "connections a cid = Some x"
  with ibc_leD(3) [OF assms(1)] obtain y where "connections b cid = Some y" "conn_advanced x y" by blast
  with ibc_leD(3) [OF assms(2)] conn_advanced_trans show "\<exists>c'. connections c cid = Some c' \<and> conn_advanced x c'" by blast
next
  fix cid x assume "GetClientState a cid = Some x"
  from ibc_leD(4) [OF assms(1) this] obtain y where y: "GetClientState b cid = Some y" "ClientType y = ClientType x" by auto
  from ibc_leD(4) [OF assms(2) y(1)] y(2) show "map_option ClientType (GetClientState c cid) = Some (ClientType x)" by simp
qed

lemma low_frame_le:
  assumes "low_frame s s'" "traffic_le s s'"
    "\<And>ch c. channels s ch = Some c \<Longrightarrow> \<exists>c'. channels s' ch = Some c' \<and> chan_advanced c c'"
  shows "ibc_le s s'"
  using assms by (simp add: ibc_le_def low_frame_def)

lemma chan_advanced_close: "chan_advanced c (c \<lparr> chan_State := CLOSED \<rparr>)"
  by (cases "chan_State c") (simp_all add: chan_advanced_def)

lemma packet_frame_good:
  assumes "packet_frame s s'" "ibc_inv s"
  shows "ibc_inv s' \<and> ibc_le s s'"
proof -
  from assms(1) have low: "low_frame s s'" and kept: "chans_kept (channels s) (channels s')" and t: "traffic_le s s'"
    and n: "nextChannelSequence s' = nextChannelSequence s"
    and d: "dom (channels s') = dom (channels s)" "dom (nextSequenceSend s') = dom (nextSequenceSend s)"
      "dom (nextSequenceRecv s') = dom (nextSequenceRecv s)" "dom (nextSequenceAck s') = dom (nextSequenceAck s)"
    and p: "packets_inv s \<longrightarrow> packets_inv s'"
    by (auto simp: packet_frame_def traffic_le_flow)
  have old: "\<exists>c'. channels s' ch = Some c' \<and> (c' = c \<or> c' = c \<lparr> chan_State := CLOSED \<rparr>)" if "channels s ch = Some c" for ch c
    using kept that unfolding chans_kept_def by blast
  have "ibc_le s s'"
  proof (rule low_frame_le [OF low t])
    fix ch c assume "channels s ch = Some c"
    from old [OF this] chan_advanced_close [of c] show "\<exists>c'. channels s' ch = Some c' \<and> chan_advanced c c'" by auto
  qed
  moreover have "chans_inv s'"
  proof -
    have "chan_State c' \<noteq> UNINITIALIZED \<and> chan_ConnectionHops c' \<noteq> [] \<and> ch \<in> counted s'" if "channels s' ch = Some c'" for ch c'
    proof -
      from that d(1) obtain c where c: "channels s ch = Some c" by blast
      with assms(2) have "chan_State c \<noteq> UNINITIALIZED \<and> chan_ConnectionHops c \<noteq> [] \<and> ch \<in> counted s"
        unfolding ibc_inv_def chans_inv_alt by blast
      moreover from old [OF c] that have "c' = c \<or> c' = c \<lparr> chan_State := CLOSED \<rparr>" by auto
      moreover have "counted s' = counted s" by (simp add: counted_def d)
      ultimately show ?thesis by auto
    qed
    with assms(2) n d(1) show ?thesis unfolding ibc_inv_def chans_inv_alt by simp
  qed
  moreover have "counters_inv s'" using assms(2) d by (simp add: ibc_inv_def counters_inv_def)
  ultimately show ?thesis
    using assms(2) p low_frame_clients [OF low] low_frame_conns [OF low] by (simp add: ibc_inv_def)
qed

subsection \<open>Clients and connections\<close>

definition same_high :: "'k ibc_state \<Rightarrow> 'k ibc_state \<Rightarrow> bool" where
  "same_high s s' \<longleftrightarrow> channels s' = channels s \<and> nextSequenceSend s' = nextSequenceSend s \<and>
     nextSequenceRecv s' = nextSequenceRecv s \<and> nextSequenceAck s' = nextSequenceAck s \<and>
     packetCommitments s' = packetCommitments s \<and> packetReceipts s' = packetReceipts s \<and> packetAcks s' = packetAcks s \<and>
     nextChannelSequence s' = nextChannelSequence s"

lemma same_high_inv:
  assumes "same_high s s'" "ibc_inv s"
  shows "chans_inv s' \<and> packets_inv s' \<and> counters_inv s'"
  using assms by (simp add: same_high_def ibc_inv_def chans_inv_def packets_inv_def counters_inv_def)

lemma same_high_traffic: "same_high s s' \<Longrightarrow> traffic_le s s'"
  by (simp add: same_high_def traffic_le_def)

lemma client_step_good:
  assumes "client_step E s s'" "ibc_inv s"
  shows "ibc_inv s' \<and> ibc_le s s'"
proof -
  from assms(2) have "clients_inv s" by (simp add: ibc_inv_def)
  from client_step_facts [OF assms(1) this] have c: "clients_inv s'" and eq: "same_beyond_clients s s'"
    and t: "\<And>cid cs. GetClientState s cid = Some cs \<Longrightarrow> map_option ClientType (GetClientState s' cid) = Some (ClientType cs)"
    by blast+
  from eq have s': "s' = s \<lparr> nextClientSequence := nextClientSequence s', clientStores := clientStores s' \<rparr>"
    by (simp only: same_beyond_clients_def)
  have f: "same_high s s'" "connections s' = connections s" "clientConnections s' = clientConnections s"
      "nextConnectionSequence s' = nextConnectionSequence s"
    unfolding same_high_def by (subst s', simp)+
  have "GetClientState s' x \<noteq> None" if "GetClientState s x \<noteq> None" for x
    using t [of x] that by (cases "GetClientState s x"; cases "GetClientState s' x") auto
  with assms(2) f have "conns_inv s'" unfolding ibc_inv_def conns_inv_def paths_of_def by metis
  with c same_high_inv [OF f(1) assms(2)] have "ibc_inv s'" by (simp add: ibc_inv_def)
  moreover have "ibc_le s s'" using same_high_traffic [OF f(1)] f(1,2) t by (simp add: ibc_le_def same_high_def)
  ultimately show ?thesis by blast
qed

lemma clients_inv_conn_fields:
  "clients_inv (s \<lparr> connections := a, clientConnections := b, nextConnectionSequence := c \<rparr>) = clients_inv s"
  by (simp add: clients_inv_def ids_in_use_def GetClientState_def)

lemma conn_step_good:
  assumes "conn_step E s s'" "ibc_inv s"
  shows "ibc_inv s' \<and> ibc_le s s'"
proof -
  from assms(2) have ci: "conns_inv s" by (simp add: ibc_inv_def)
  obtain cid c where w: "conn_written s s' cid c" by (rule conn_step_trans [OF assms(1) ci])
  let ?t = "s' \<lparr> connections := connections s, clientConnections := clientConnections s, nextConnectionSequence := nextConnectionSequence s \<rparr>"
  from w have f: "verified_frame s ?t" by (simp add: conn_written_def)
  from low_frame_clients [OF low_frame_verified [OF f]] assms(2) have c: "clients_inv s'"
    unfolding clients_inv_conn_fields ibc_inv_def by blast
  have h: "same_high s s'" using verified_frame_fields [OF f] by (simp add: same_high_def)
  from conn_step_inv [OF assms(1) ci] have n: "conns_inv s'"
    "\<forall>cid c. connections s cid = Some c \<longrightarrow> (\<exists>c'. connections s' cid = Some c' \<and> conn_advanced c c')" by blast+
  have "map_option ClientType (GetClientState s' cid) = map_option ClientType (GetClientState s cid)" for cid
    using low_frame_verified [OF f] by (simp add: low_frame_def GetClientState_def)
  then have "ibc_le s s'" using same_high_traffic [OF h] h n(2) by (simp add: ibc_le_def same_high_def)
  with c n(1) same_high_inv [OF h assms(2)] show ?thesis by (simp add: ibc_inv_def)
qed

subsection \<open>The channel handshake with its callback\<close>

text \<open>The check before the callback touches no channel, counter or packet.\<close>

definition check_only :: "'k ibc_state \<Rightarrow> 'k ibc_state \<Rightarrow> bool" where
  "check_only s s' \<longleftrightarrow> low_frame s s' \<and> check_frame s s' \<and> packetCommitments s' = packetCommitments s \<and>
     packetReceipts s' = packetReceipts s \<and> packetAcks s' = packetAcks s"

lemma check_only_verified: "verified_frame s s' \<Longrightarrow> check_only s s'"
  using verified_frame_fields(11-13) by (auto simp: check_only_def low_frame_verified check_frame_verified)

lemma check_only_trans: "check_only a b \<Longrightarrow> check_only b c \<Longrightarrow> check_only a c"
  using low_frame_trans by (auto simp: check_only_def check_frame_def)

lemma check_only_upd [simp]:
  "check_only s (s' \<lparr> nextChannelSequence := e \<rparr>) = check_only s s'" "check_only s (s' \<lparr> capState := k \<rparr>) = check_only s s'"
  by (simp_all add: check_only_def check_frame_def)

lemma check_only_refl [simp]: "check_only s s"
  by (simp add: check_only_def check_frame_def)

lemma ChanOpenInit_check: "ChanOpenInit E s ord hops port pcap cp v = Inr (chan, cap, s1) \<Longrightarrow> check_only s s1"
  by (auto simp: ChanOpenInit_def result_elims GenerateChannelIdentifier_Inr dest!: new_channel_capability_Inr)

lemma previous_channel_check: "previous_channel s ord hops port previous cp v = Inr (chan, found, s0) \<Longrightarrow> check_only s s0"
  by (auto simp: previous_channel_def result_elims GenerateChannelIdentifier_Inr split: if_splits)

lemma ChanOpenTry_check:
  assumes "ChanOpenTry E ctx s ord hops port previous pcap cp v pf h = Inr (chan, cap, s1)"
  shows "check_only s s1"
proof -
  from assms obtain found s0 conn d s2 where prev: "previous_channel s ord hops port previous cp v = Inr (chan, found, s0)"
    and ver: "conn_VerifyChannelState E ctx s0 conn h pf (ch_PortId cp) (ch_ChannelId cp) d = Inr s2"
    and fin: "s1 = s2 \<or> new_channel_capability E s2 port chan = Inr (cap, s1)"
    unfolding ChanOpenTry_def Let_def case_result_Inr guard_Inr guard_Inr'
    by (auto simp: result_elims split: if_splits)
  from fin have "check_only s2 s1" by (auto dest!: new_channel_capability_Inr)
  with previous_channel_check [OF prev] check_only_verified [OF conn_verify_frames(4) [OF ver]] show ?thesis
    by (blast intro: check_only_trans)
qed

text \<open>The write after the callback: one channel end, with fresh counters for a new one.\<close>

definition writes_end :: "'k ibc_state \<Rightarrow> 'k ibc_state \<Rightarrow> chan_key \<Rightarrow> Channel \<Rightarrow> bool" where
  "writes_end s s' ch c \<longleftrightarrow> s' = s \<lparr> channels := (channels s)(ch \<mapsto> c) \<rparr> \<or>
     channels s ch = None \<and> s' = s \<lparr> channels := (channels s)(ch \<mapsto> c), nextSequenceSend := (nextSequenceSend s)(ch \<mapsto> 1),
       nextSequenceRecv := (nextSequenceRecv s)(ch \<mapsto> 1), nextSequenceAck := (nextSequenceAck s)(ch \<mapsto> 1) \<rparr>"

lemma writes_end_init:
  "channels s (port, chan) = None \<Longrightarrow>
     writes_end s (WriteOpenInitChannel s port chan ord hops cp v) (port, chan) (NewChannel INIT ord cp hops v)"
  by (simp add: writes_end_def WriteOpenInitChannel_def init_sequences_def chan_setters)

lemma writes_end_try:
  "writes_end s (WriteOpenTryChannel s port chan ord hops cp v) (port, chan) (NewChannel TRYOPEN ord cp hops v)"
  by (auto simp: writes_end_def WriteOpenTryChannel_def init_sequences_def chan_setters chan_getters Let_def)

lemma writes_end_open:
  "WriteOpenAckChannel s port chan v cpid = Inr s' \<Longrightarrow> \<exists>c. writes_end s s' (port, chan) c"
  "WriteOpenConfirmChannel s port chan = Inr s' \<Longrightarrow> \<exists>c. writes_end s s' (port, chan) c"
  by (auto simp: writes_end_def WriteOpenAckChannel_def WriteOpenConfirmChannel_def chan_getters chan_setters result_elims)

lemma counter_le_fresh: "m ch = None \<Longrightarrow> counter_le m (m(ch \<mapsto> n))"
  by (auto simp: counter_le_def)

lemma writes_end_good:
  assumes "writes_end s s' ch c" "packets_inv s" "counters_inv s"
  shows "low_frame s s' \<and> traffic_le s s' \<and> packets_inv s' \<and> counters_inv s'"
  using assms(1) unfolding writes_end_def
proof
  assume s': "s' = s \<lparr> channels := (channels s)(ch \<mapsto> c) \<rparr>"
  have "packets_inv s'" using assms(2) by (simp add: s' packets_inv_def)
  moreover have "counters_inv s'" using assms(3) by (auto simp: s' counters_inv_def)
  ultimately show ?thesis by (simp add: s')
next
  assume a: "channels s ch = None \<and> s' = s \<lparr> channels := (channels s)(ch \<mapsto> c), nextSequenceSend := (nextSequenceSend s)(ch \<mapsto> 1),
       nextSequenceRecv := (nextSequenceRecv s)(ch \<mapsto> 1), nextSequenceAck := (nextSequenceAck s)(ch \<mapsto> 1) \<rparr>"
  then have s': "s' = s \<lparr> channels := (channels s)(ch \<mapsto> c), nextSequenceSend := (nextSequenceSend s)(ch \<mapsto> 1),
       nextSequenceRecv := (nextSequenceRecv s)(ch \<mapsto> 1), nextSequenceAck := (nextSequenceAck s)(ch \<mapsto> 1) \<rparr>" by blast
  from a assms(3) have n: "nextSequenceSend s ch = None" "nextSequenceRecv s ch = None" "nextSequenceAck s ch = None"
    unfolding counters_inv_def by blast+
  obtain port chan where ch: "ch = (port, chan)" by (cases ch)
  have "traffic_le s s'" using n counter_le_fresh by (auto simp: s' traffic_le_def)
  moreover have "packets_inv s'"
    unfolding packets_inv_def
  proof (intro allI impI)
    fix p d k assume "packetCommitments s' (p, d, k) \<noteq> None"
    then have "packetCommitments s (p, d, k) \<noteq> None" by (simp add: s')
    with assms(2) obtain m where m: "nextSequenceSend s (p, d) = Some m" "k < m" unfolding packets_inv_def by blast
    with n have "(p, d) \<noteq> ch" by auto
    with m show "\<exists>m. nextSequenceSend s' (p, d) = Some m \<and> k < m" by (simp add: s')
  qed
  moreover have "counters_inv s'" using assms(3) by (auto simp: s' counters_inv_def)
  ultimately show ?thesis by (simp add: s')
qed

lemma check_only_traffic: "check_only s s' \<Longrightarrow> traffic_le s s'"
  by (simp add: check_only_def check_frame_def traffic_le_def)

lemma handshake_good:
  assumes "ibc_inv s" "check_only s s1" "app_run E s1 s2" "writes_end s2 s' ch c" "chan_written s s' ch' c'"
  shows "ibc_inv s' \<and> ibc_le s s'"
proof -
  from app_run_frame [OF assms(3)] have f: "packet_frame s1 s2" "channels s2 = channels s1" by blast+
  from assms(1,2) have "packets_inv s1" "counters_inv s1"
    by (simp_all add: ibc_inv_def check_only_def check_frame_def packets_inv_def counters_inv_def)
  with f have i2: "packets_inv s2" "counters_inv s2" by (simp_all add: packet_frame_def counters_inv_def)
  from writes_end_good [OF assms(4) i2] have w: "low_frame s2 s'" "traffic_le s2 s'" "packets_inv s'" "counters_inv s'" by blast+
  have l: "low_frame s s1" "low_frame s1 s2" using assms(2) f(1) by (simp_all add: check_only_def packet_frame_def)
  have low: "low_frame s s'" by (rule low_frame_trans [OF low_frame_trans [OF l] w(1)])
  have t12: "traffic_le s1 s2" using f(1) by (simp add: packet_frame_def traffic_le_flow)
  have t: "traffic_le s s'" by (rule traffic_le_trans [OF traffic_le_trans [OF check_only_traffic [OF assms(2)] t12] w(2)])
  from assms(1) have "chans_inv s" by (simp add: ibc_inv_def)
  from chan_written_inv [OF assms(5) this] low_frame_clients [OF low] low_frame_conns [OF low] w(3,4) assms(1)
  have "ibc_inv s'" by (simp add: ibc_inv_def)
  with low_frame_le [OF low t] chan_written_advanced [OF assms(5)] show ?thesis by blast
qed

subsection \<open>Every message\<close>

lemma on_ibc_Inr: "on_ibc w r = Inr w' \<longleftrightarrow> (\<exists>s. r = Inr s \<and> w' = w \<lparr> w_ibc := s \<rparr>)"
  by (auto simp: on_ibc_def split: sum.splits)

lemma verify_cached_Inr:
  assumes "verify_cached w r continue = Inr w'"
  obtains "r = Inl (ChannelE ErrNoOpMsg)" "w' = w"
  | s where "r = Inr s" "continue (w \<lparr> w_ibc := s \<rparr>) = Inr w'"
  using assms by (auto simp: verify_cached_def split: sum.splits if_splits)

lemma recv_callback_frame:
  assumes "ibc_application E cbs" "recv_callback E cbs cap ctx p relayer w = Inr w'"
  shows "packet_frame (w_ibc w) (w_ibc w')"
proof -
  from assms(2) obtain ack cached where c: "OnRecvPacket cbs ctx w p relayer = Inr (ack, cached)"
    and a: "ack = None \<and> w' = cached \<or> (\<exists>success bs w1 s. ack = Some (success, bs) \<and> w1 = (if success then cached else w) \<and>
      WriteAcknowledgement E (w_ibc w1) (Some cap) p bs = Inr s \<and> w' = w1 \<lparr> w_ibc := s \<rparr>)"
    by (auto simp: recv_callback_def Let_def on_ibc_Inr split: sum.splits option.splits)
  from app_run_frame [OF ibc_application.recv_runs [OF assms(1) c]] have f: "packet_frame (w_ibc w) (w_ibc cached)" by blast
  from a show ?thesis
  proof (elim disjE exE conjE)
    fix success bs w1 s
    assume "w1 = (if success then cached else w)" "WriteAcknowledgement E (w_ibc w1) (Some cap) p bs = Inr s" "w' = w1 \<lparr> w_ibc := s \<rparr>"
    then show ?thesis
      using packet_frame_trans [OF f WriteAcknowledgement_frame] WriteAcknowledgement_frame by (cases success) auto
  qed (use f in simp)
qed

lemma timeout_callback_frame:
  assumes "ibc_application E cbs" "timeout_callback E cbs cap ctx p relayer w = Inr w'"
  shows "packet_frame (w_ibc w) (w_ibc w')"
proof -
  from assms(2) obtain w1 s where c: "OnTimeoutPacket cbs ctx w p relayer = Inr w1"
    and t: "TimeoutExecuted E (w_ibc w1) (Some cap) p = Inr s" "w' = w1 \<lparr> w_ibc := s \<rparr>"
    by (auto simp: timeout_callback_def on_ibc_Inr split: sum.splits)
  from app_run_frame [OF ibc_application.timeout_runs [OF assms(1) c]] TimeoutExecuted_frame [OF t(1)] t(2) show ?thesis
    by (auto intro: packet_frame_trans)
qed

text \<open>The packet carried by a message, and the bounds within which no 64-bit counter wraps around.\<close>

fun msg_packet :: "Msg \<Rightarrow> Packet option" where
  "msg_packet (RecvPacketMsg m) = Some (mrp_Packet m)"
| "msg_packet (TimeoutMsg m) = Some (mto_Packet m)"
| "msg_packet (TimeoutOnCloseMsg m) = Some (mtc_Packet m)"
| "msg_packet (AcknowledgementMsg m) = Some (mak_Packet m)"
| "msg_packet _ = None"

definition msg_bounded :: "'k ibc_state \<Rightarrow> Msg \<Rightarrow> bool" where
  "msg_bounded s m \<longleftrightarrow> nextClientSequence s \<noteq> Some (- 1) \<and> nextConnectionSequence s \<noteq> Some (- 1) \<and>
     nextChannelSequence s \<noteq> Some (- 1) \<and> (case msg_packet m of None \<Rightarrow> True | Some p \<Rightarrow> Sequence p \<noteq> - 1)"

lemma recv_msg_frame:
  assumes "router_ok E R" "msg_RecvPacket E R ctx w m = Inr w'" "Sequence (mrp_Packet m) \<noteq> - 1"
  shows "packet_frame (w_ibc w) (w_ibc w')"
proof -
  from assms(2) obtain relayer lookup cbs cap where r: "route_to R lookup = Inr (cbs, cap)"
    and v: "verify_cached w (RecvPacket E ctx (w_ibc w) (Some cap) (mrp_Packet m) (mrp_ProofCommitment m) (mrp_ProofHeight m))
        (recv_callback E cbs cap ctx (mrp_Packet m) relayer) = Inr w'"
    by (auto simp: msg_RecvPacket_def Let_def split: sum.splits)
  from v show ?thesis
  proof (rule verify_cached_Inr)
    fix s assume s: "RecvPacket E ctx (w_ibc w) (Some cap) (mrp_Packet m) (mrp_ProofCommitment m) (mrp_ProofHeight m) = Inr s"
      "recv_callback E cbs cap ctx (mrp_Packet m) relayer (w \<lparr> w_ibc := s \<rparr>) = Inr w'"
    from RecvPacket_frame [OF s(1) assms(3)] recv_callback_frame [OF route_to_Inr [OF r assms(1)] s(2)] show ?thesis
      by (auto intro: packet_frame_trans)
  qed simp
qed

lemma timeout_verified_frame:
  assumes "ibc_application E cbs" "verify_cached w r (timeout_callback E cbs cap ctx p relayer) = Inr w'"
    "\<And>s. r = Inr s \<Longrightarrow> verified_frame (w_ibc w) s"
  shows "packet_frame (w_ibc w) (w_ibc w')"
  using assms(2)
proof (rule verify_cached_Inr)
  fix s assume s: "r = Inr s" "timeout_callback E cbs cap ctx p relayer (w \<lparr> w_ibc := s \<rparr>) = Inr w'"
  from packet_frame_verified [OF assms(3) [OF s(1)]] timeout_callback_frame [OF assms(1) s(2)] show ?thesis
    by (auto intro: packet_frame_trans)
qed simp

lemma timeout_msg_frame:
  assumes "router_ok E R" "msg_Timeout E R ctx w m = Inr w'"
  shows "packet_frame (w_ibc w) (w_ibc w')"
proof -
  from assms(2) obtain relayer lookup cbs cap where r: "route_to R lookup = Inr (cbs, cap)"
    and v: "verify_cached w (TimeoutPacket E ctx (w_ibc w) (mto_Packet m) (mto_ProofUnreceived m) (mto_ProofHeight m) (mto_NextSequenceRecv m))
        (timeout_callback E cbs cap ctx (mto_Packet m) relayer) = Inr w'"
    by (auto simp: msg_Timeout_def Let_def split: sum.splits)
  show ?thesis by (rule timeout_verified_frame [OF route_to_Inr [OF r assms(1)] v timeout_check_frame(1)])
qed

lemma timeout_close_msg_frame:
  assumes "router_ok E R" "msg_TimeoutOnClose E R ctx w m = Inr w'"
  shows "packet_frame (w_ibc w) (w_ibc w')"
proof -
  from assms(2) obtain relayer lookup cbs cap where r: "route_to R lookup = Inr (cbs, cap)"
    and v: "verify_cached w (TimeoutOnClose E ctx (w_ibc w) (Some cap) (mtc_Packet m) (mtc_ProofUnreceived m) (mtc_ProofClose m)
          (mtc_ProofHeight m) (mtc_NextSequenceRecv m)) (timeout_callback E cbs cap ctx (mtc_Packet m) relayer) = Inr w'"
    by (auto simp: msg_TimeoutOnClose_def Let_def split: sum.splits)
  show ?thesis by (rule timeout_verified_frame [OF route_to_Inr [OF r assms(1)] v timeout_check_frame(2)])
qed

lemma ack_msg_frame:
  assumes "router_ok E R" "msg_Acknowledgement E R ctx w m = Inr w'" "Sequence (mak_Packet m) \<noteq> - 1"
  shows "packet_frame (w_ibc w) (w_ibc w')"
proof -
  from assms(2) obtain relayer lookup cbs cap where r: "route_to R lookup = Inr (cbs, cap)"
    and v: "verify_cached w (AcknowledgePacket E ctx (w_ibc w) (Some cap) (mak_Packet m) (mak_Acknowledgement m) (mak_ProofAcked m)
          (mak_ProofHeight m)) (\<lambda>w. OnAcknowledgementPacket cbs ctx w (mak_Packet m) (mak_Acknowledgement m) relayer) = Inr w'"
    by (auto simp: msg_Acknowledgement_def Let_def split: sum.splits)
  note app = route_to_Inr [OF r assms(1)]
  from v show ?thesis
  proof (rule verify_cached_Inr)
    fix s assume s: "AcknowledgePacket E ctx (w_ibc w) (Some cap) (mak_Packet m) (mak_Acknowledgement m) (mak_ProofAcked m)
          (mak_ProofHeight m) = Inr s"
      "OnAcknowledgementPacket cbs ctx (w \<lparr> w_ibc := s \<rparr>) (mak_Packet m) (mak_Acknowledgement m) relayer = Inr w'"
    from AcknowledgePacket_frame [OF s(1) assms(3)] app_run_frame [OF ibc_application.acknowledgement_runs [OF app s(2)]] show ?thesis
      by (auto intro: packet_frame_trans)
  qed simp
qed

lemma close_init_msg_frame:
  assumes "router_ok E R" "msg_ChannelCloseInit E R ctx w m = Inr w'"
  shows "packet_frame (w_ibc w) (w_ibc w')"
proof -
  from assms(2) obtain lookup cbs cap w1 s where r: "route_to R lookup = Inr (cbs, cap)"
    and c: "OnChanCloseInit cbs ctx w (mhc_PortId m) (mhc_ChannelId m) = Inr w1"
    and s: "ChanCloseInit E (w_ibc w1) (mhc_PortId m) (mhc_ChannelId m) (Some cap) = Inr s" "w' = w1 \<lparr> w_ibc := s \<rparr>"
    by (auto simp: msg_ChannelCloseInit_def Let_def on_ibc_Inr split: sum.splits)
  from app_run_frame [OF ibc_application.close_init_runs [OF route_to_Inr [OF r assms(1)] c]] ChanClose_frame(1) [OF s(1)] s(2)
  show ?thesis by (auto intro: packet_frame_trans)
qed

lemma close_confirm_msg_frame:
  assumes "router_ok E R" "msg_ChannelCloseConfirm E R ctx w m = Inr w'"
  shows "packet_frame (w_ibc w) (w_ibc w')"
proof -
  from assms(2) obtain lookup cbs cap w1 s where r: "route_to R lookup = Inr (cbs, cap)"
    and c: "OnChanCloseConfirm cbs ctx w (mhf_PortId m) (mhf_ChannelId m) = Inr w1"
    and s: "ChanCloseConfirm E ctx (w_ibc w1) (mhf_PortId m) (mhf_ChannelId m) (Some cap) (mhf_ProofInit m) (mhf_ProofHeight m) = Inr s"
      "w' = w1 \<lparr> w_ibc := s \<rparr>"
    by (auto simp: msg_ChannelCloseConfirm_def Let_def on_ibc_Inr split: sum.splits)
  from app_run_frame [OF ibc_application.close_confirm_runs [OF route_to_Inr [OF r assms(1)] c]] ChanClose_frame(2) [OF s(1)] s(2)
  show ?thesis by (auto intro: packet_frame_trans)
qed

lemma open_init_msg_good:
  assumes "router_ok E R" "msg_ChannelOpenInit E R ctx w m = Inr w'" "nextChannelSequence (w_ibc w) \<noteq> Some (- 1)" "ibc_inv (w_ibc w)"
  shows "ibc_inv (w_ibc w') \<and> ibc_le (w_ibc w) (w_ibc w')"
proof -
  let ?c = "mhi_Channel m"
  from assms(2) obtain lookup cbs pcap chan cap s1 w2 where r: "route_to R lookup = Inr (cbs, pcap)"
    and c: "ChanOpenInit E (w_ibc w) (chan_Ordering ?c) (chan_ConnectionHops ?c) (mhi_PortId m) (Some pcap) (chan_Counterparty ?c)
        (chan_Version ?c) = Inr (chan, cap, s1)"
    and b: "OnChanOpenInit cbs ctx (w \<lparr> w_ibc := s1 \<rparr>) (chan_Ordering ?c) (chan_ConnectionHops ?c) (mhi_PortId m) chan cap
        (chan_Counterparty ?c) (chan_Version ?c) = Inr w2"
    and w': "w_ibc w' = WriteOpenInitChannel (w_ibc w2) (mhi_PortId m) chan (chan_Ordering ?c) (chan_ConnectionHops ?c)
        (chan_Counterparty ?c) (chan_Version ?c)"
    by (auto simp: msg_ChannelOpenInit_def Let_def split: sum.splits)
  from assms(4) have inv: "chans_inv (w_ibc w)" by (simp add: ibc_inv_def)
  from ibc_application.init_runs [OF route_to_Inr [OF r assms(1)] b] have run: "app_run E s1 (w_ibc w2)" by simp
  note wr = written_init [OF inv c assms(3) app_run_callback [OF run]]
  from ChanOpenInit_Inr [OF c] obtain n where "check_frame (w_ibc w) s1" and n: "nextChannelSequence (w_ibc w) = Some n"
    "chan = FormatChannelIdentifier n" by blast
  then have "channels (w_ibc w2) (mhi_PortId m, chan) = None"
    using fresh_channel [OF inv n(1)] app_run_frame [OF run] by (simp add: check_frame_def)
  from handshake_good [OF assms(4) ChanOpenInit_check [OF c] run writes_end_init [OF this] wr] show ?thesis by (simp add: w')
qed

lemma open_try_msg_good:
  assumes "router_ok E R" "msg_ChannelOpenTry E R ctx w m = Inr w'" "nextChannelSequence (w_ibc w) \<noteq> Some (- 1)" "ibc_inv (w_ibc w)"
  shows "ibc_inv (w_ibc w') \<and> ibc_le (w_ibc w) (w_ibc w')"
proof -
  let ?c = "mht_Channel m"
  from assms(2) obtain lookup cbs pcap chan cap s1 v w2 where r: "route_to R lookup = Inr (cbs, pcap)"
    and c: "ChanOpenTry E ctx (w_ibc w) (chan_Ordering ?c) (chan_ConnectionHops ?c) (mht_PortId m) (mht_PreviousChannelId m) (Some pcap)
        (chan_Counterparty ?c) (mht_CounterpartyVersion m) (mht_ProofInit m) (mht_ProofHeight m) = Inr (chan, cap, s1)"
    and b: "OnChanOpenTry cbs ctx (w \<lparr> w_ibc := s1 \<rparr>) (chan_Ordering ?c) (chan_ConnectionHops ?c) (mht_PortId m) chan cap
        (chan_Counterparty ?c) (mht_CounterpartyVersion m) = Inr (v, w2)"
    and w': "w_ibc w' = WriteOpenTryChannel (w_ibc w2) (mht_PortId m) chan (chan_Ordering ?c) (chan_ConnectionHops ?c)
        (chan_Counterparty ?c) v"
    by (auto simp: msg_ChannelOpenTry_def Let_def split: sum.splits)
  from assms(4) have inv: "chans_inv (w_ibc w)" by (simp add: ibc_inv_def)
  from ibc_application.try_runs [OF route_to_Inr [OF r assms(1)] b] have run: "app_run E s1 (w_ibc w2)" by simp
  from handshake_good [OF assms(4) ChanOpenTry_check [OF c] run writes_end_try written_try [OF inv c assms(3) app_run_callback [OF run]]]
  show ?thesis by (simp add: w')
qed

lemma open_ack_msg_good:
  assumes "router_ok E R" "msg_ChannelOpenAck E R ctx w m = Inr w'" "ibc_inv (w_ibc w)"
  shows "ibc_inv (w_ibc w') \<and> ibc_le (w_ibc w) (w_ibc w')"
proof -
  from assms(2) obtain lookup cbs cap s1 w2 s where r: "route_to R lookup = Inr (cbs, cap)"
    and c: "ChanOpenAck E ctx (w_ibc w) (mha_PortId m) (mha_ChannelId m) (Some cap) (mha_CounterpartyVersion m)
        (mha_CounterpartyChannelId m) (mha_ProofTry m) (mha_ProofHeight m) = Inr s1"
    and b: "OnChanOpenAck cbs ctx (w \<lparr> w_ibc := s1 \<rparr>) (mha_PortId m) (mha_ChannelId m) (mha_CounterpartyVersion m) = Inr w2"
    and w': "WriteOpenAckChannel (w_ibc w2) (mha_PortId m) (mha_ChannelId m) (mha_CounterpartyVersion m) (mha_CounterpartyChannelId m) = Inr s"
      "w' = w2 \<lparr> w_ibc := s \<rparr>"
    by (auto simp: msg_ChannelOpenAck_def Let_def on_ibc_Inr split: sum.splits)
  from assms(3) have inv: "chans_inv (w_ibc w)" by (simp add: ibc_inv_def)
  from ibc_application.ack_runs [OF route_to_Inr [OF r assms(1)] b] have run: "app_run E s1 (w_ibc w2)" by simp
  from written_ack [OF inv c app_run_callback [OF run] w'(1)] writes_end_open(1) [OF w'(1)]
  obtain d d' where d: "chan_written (w_ibc w) s (mha_PortId m, mha_ChannelId m) d" "writes_end (w_ibc w2) s (mha_PortId m, mha_ChannelId m) d'"
    by blast
  from chan_check_Inr(1) [OF c] have "check_only (w_ibc w) s1" using check_only_verified by blast
  from handshake_good [OF assms(3) this run d(2,1)] show ?thesis by (simp add: w')
qed

lemma open_confirm_msg_good:
  assumes "router_ok E R" "msg_ChannelOpenConfirm E R ctx w m = Inr w'" "ibc_inv (w_ibc w)"
  shows "ibc_inv (w_ibc w') \<and> ibc_le (w_ibc w) (w_ibc w')"
proof -
  from assms(2) obtain lookup cbs cap s1 w2 s where r: "route_to R lookup = Inr (cbs, cap)"
    and c: "ChanOpenConfirm E ctx (w_ibc w) (mho_PortId m) (mho_ChannelId m) (Some cap) (mho_ProofAck m) (mho_ProofHeight m) = Inr s1"
    and b: "OnChanOpenConfirm cbs ctx (w \<lparr> w_ibc := s1 \<rparr>) (mho_PortId m) (mho_ChannelId m) = Inr w2"
    and w': "WriteOpenConfirmChannel (w_ibc w2) (mho_PortId m) (mho_ChannelId m) = Inr s" "w' = w2 \<lparr> w_ibc := s \<rparr>"
    by (auto simp: msg_ChannelOpenConfirm_def Let_def on_ibc_Inr split: sum.splits)
  from assms(3) have inv: "chans_inv (w_ibc w)" by (simp add: ibc_inv_def)
  from ibc_application.confirm_runs [OF route_to_Inr [OF r assms(1)] b] have run: "app_run E s1 (w_ibc w2)" by simp
  from written_confirm [OF inv c app_run_callback [OF run] w'(1)] writes_end_open(2) [OF w'(1)]
  obtain d d' where d: "chan_written (w_ibc w) s (mho_PortId m, mho_ChannelId m) d" "writes_end (w_ibc w2) s (mho_PortId m, mho_ChannelId m) d'"
    by blast
  from chan_check_Inr(2) [OF c] have "check_only (w_ibc w) s1" using check_only_verified by blast
  from handshake_good [OF assms(3) this run d(2,1)] show ?thesis by (simp add: w')
qed

lemma client_msg_step:
  "msg_CreateClient ctx w c = Inr w' \<Longrightarrow> nextClientSequence (w_ibc w) \<noteq> Some (- 1) \<Longrightarrow> client_step E (w_ibc w) (w_ibc w')"
  "msg_UpdateClient E ctx w u = Inr w' \<Longrightarrow> client_step E (w_ibc w) (w_ibc w')"
  "msg_UpgradeClient E ctx w g = Inr w' \<Longrightarrow> client_step E (w_ibc w) (w_ibc w')"
  "msg_SubmitMisbehaviour E ctx w b = Inr w' \<Longrightarrow> client_step E (w_ibc w) (w_ibc w')"
  by (auto simp: msg_CreateClient_def msg_UpdateClient_def msg_UpgradeClient_def msg_SubmitMisbehaviour_def on_ibc_Inr
      split: sum.splits intro: client_step.intros)

lemma conn_msg_step:
  "msg_ConnectionOpenInit w i = Inr w' \<Longrightarrow> nextConnectionSequence (w_ibc w) \<noteq> Some (- 1) \<Longrightarrow> conn_step E (w_ibc w) (w_ibc w')"
  "msg_ConnectionOpenTry E ctx w t = Inr w' \<Longrightarrow> nextConnectionSequence (w_ibc w) \<noteq> Some (- 1) \<Longrightarrow> conn_step E (w_ibc w) (w_ibc w')"
  "msg_ConnectionOpenAck E ctx w a = Inr w' \<Longrightarrow> conn_step E (w_ibc w) (w_ibc w')"
  "msg_ConnectionOpenConfirm E ctx w c = Inr w' \<Longrightarrow> conn_step E (w_ibc w) (w_ibc w')"
  by (auto simp: msg_ConnectionOpenInit_def msg_ConnectionOpenTry_def msg_ConnectionOpenAck_def msg_ConnectionOpenConfirm_def on_ibc_Inr
      split: sum.splits option.splits if_splits intro: conn_step.intros)

lemma handle_msg_good:
  assumes "router_ok E R" "handle_msg E R ctx w m = Inr w'" "msg_bounded (w_ibc w) m" "ibc_inv (w_ibc w)"
  shows "ibc_inv (w_ibc w') \<and> ibc_le (w_ibc w) (w_ibc w')"
proof -
  from assms(3) have b: "nextClientSequence (w_ibc w) \<noteq> Some (- 1)" "nextConnectionSequence (w_ibc w) \<noteq> Some (- 1)"
      "nextChannelSequence (w_ibc w) \<noteq> Some (- 1)" by (simp_all add: msg_bounded_def)
  have pf: "packet_frame (w_ibc w) (w_ibc w') \<Longrightarrow> ?thesis" using packet_frame_good assms(4) by blast
  have cl: "client_step E (w_ibc w) (w_ibc w') \<Longrightarrow> ?thesis" using client_step_good assms(4) by blast
  have co: "conn_step E (w_ibc w) (w_ibc w') \<Longrightarrow> ?thesis" using conn_step_good assms(4) by blast
  note app = assms(1,2)
  show ?thesis
  proof (cases m)
    case CreateClientMsg then show ?thesis using app(2) cl client_msg_step(1) b(1) by fastforce
  next
    case UpdateClientMsg then show ?thesis using app(2) cl client_msg_step(2) by fastforce
  next
    case UpgradeClientMsg then show ?thesis using app(2) cl client_msg_step(3) by fastforce
  next
    case SubmitMisbehaviourMsg then show ?thesis using app(2) cl client_msg_step(4) by fastforce
  next
    case ConnectionOpenInitMsg then show ?thesis using app(2) co conn_msg_step(1) b(2) by fastforce
  next
    case ConnectionOpenTryMsg then show ?thesis using app(2) co conn_msg_step(2) b(2) by fastforce
  next
    case ConnectionOpenAckMsg then show ?thesis using app(2) co conn_msg_step(3) by fastforce
  next
    case ConnectionOpenConfirmMsg then show ?thesis using app(2) co conn_msg_step(4) by fastforce
  next
    case ChannelOpenInitMsg then show ?thesis using app open_init_msg_good [OF _ _ b(3) assms(4)] by simp
  next
    case ChannelOpenTryMsg then show ?thesis using app open_try_msg_good [OF _ _ b(3) assms(4)] by simp
  next
    case ChannelOpenAckMsg then show ?thesis using app open_ack_msg_good [OF _ _ assms(4)] by simp
  next
    case ChannelOpenConfirmMsg then show ?thesis using app open_confirm_msg_good [OF _ _ assms(4)] by simp
  next
    case ChannelCloseInitMsg then show ?thesis using app(2) by (intro pf, intro close_init_msg_frame [OF app(1)]) simp
  next
    case ChannelCloseConfirmMsg then show ?thesis using app(2) by (intro pf, intro close_confirm_msg_frame [OF app(1)]) simp
  next
    case RecvPacketMsg then show ?thesis using app(2) assms(3) by (intro pf, intro recv_msg_frame [OF app(1)]) (auto simp: msg_bounded_def)
  next
    case TimeoutMsg then show ?thesis using app(2) by (intro pf, intro timeout_msg_frame [OF app(1)]) simp
  next
    case TimeoutOnCloseMsg then show ?thesis using app(2) by (intro pf, intro timeout_close_msg_frame [OF app(1)]) simp
  next
    case AcknowledgementMsg then show ?thesis using app(2) assms(3) by (intro pf, intro ack_msg_frame [OF app(1)]) (auto simp: msg_bounded_def)
  qed
qed

end
