(* ===== verification/MsgRuns.thy ===== *)
theory MsgRuns
  imports CoreInvariant
begin

text \<open>
  Runs of the whole core module: messages in any order and block context, governance
  proposals and the actions of applications between them. Each run keeps the module's
  invariant and order. A packet message that took effect once never takes effect again,
  and the ante decorator drops a transaction only when it would have no effect.
\<close>

subsection \<open>Runs\<close>

inductive core_step :: "('k, 'x) keeper_env_scheme \<Rightarrow> ('k, 'a) Router \<Rightarrow> ('k, 'a) world \<Rightarrow> ('k, 'a) world \<Rightarrow> bool" for E R where
  by_message: "handle_msg E R ctx w m = Inr w' \<Longrightarrow> msg_bounded (w_ibc w) m \<Longrightarrow> core_step E R w w'"
| by_proposal: "ClientUpdateProposal ctx (w_ibc w) subject substitute = Inr s \<Longrightarrow> core_step E R w (w \<lparr> w_ibc := s \<rparr>)"
| by_block: "UpdateClient E ctx (w_ibc w) Localhost None = Inr s \<Longrightarrow> core_step E R w (w \<lparr> w_ibc := s \<rparr>)"
| by_application: "app_run E (w_ibc w) (w_ibc w') \<Longrightarrow> core_step E R w w'"

text \<open>The begin blocker updates the localhost client, or leaves the core module alone.\<close>

lemma BeginBlocker_step:
  "client_BeginBlocker E U ctx u (w_ibc w) = Inr (u', s) \<Longrightarrow> s = w_ibc w \<or> core_step E R w (w \<lparr> w_ibc := s \<rparr>)"
  by (auto simp: client_BeginBlocker_def split: sum.splits if_splits intro: core_step.by_block)

lemma core_step_good:
  assumes "core_step E R w w'" "router_ok E R" "ibc_inv (w_ibc w)"
  shows "ibc_inv (w_ibc w') \<and> ibc_le (w_ibc w) (w_ibc w')"
  using assms(1)
proof cases
  case (by_message ctx m)
  then show ?thesis using handle_msg_good [OF assms(2)] assms(3) by blast
next
  case (by_proposal ctx subject substitute s)
  have "client_step E (w_ibc w) s" using by_proposal(2) by (rule client_step.propose)
  from client_step_good [OF this assms(3)] by_proposal(1) show ?thesis by simp
next
  case (by_block ctx s)
  have "client_step E (w_ibc w) s" using by_block(2) by (rule client_step.update)
  from client_step_good [OF this assms(3)] by_block(1) show ?thesis by simp
next
  case by_application
  then show ?thesis using app_run_frame packet_frame_good assms(3) by blast
qed

lemma core_run_good:
  assumes "(core_step E R)\<^sup>*\<^sup>* w w'" "router_ok E R" "ibc_inv (w_ibc w)"
  shows "ibc_inv (w_ibc w') \<and> ibc_le (w_ibc w) (w_ibc w')"
  using assms(1)
proof (induction rule: rtranclp_induct)
  case (step b c)
  with core_step_good [OF step.hyps(2) assms(2)] ibc_le_trans show ?case by blast
qed (use assms(3) in simp)

text \<open>
  C3: the invariant of the core module survives every run. From a state in which client
  identifiers lie below the counter and Tendermint clients have processed times and heights
  for their consensus states, connections are registered with their clients, channels have
  hops and counters, and commitments lie below the send counter, any sequence of the 18
  messages, client update proposals, begin blockers and application actions leads to such a state again;
  meanwhile connection and channel ends only advance, clients keep their type, counters
  never decrease, receipts and acknowledgements stay, and no spent commitment reappears.
\<close>

theorem core_run_invariant:
  assumes "(core_step E R)\<^sup>*\<^sup>* w w'" and "router_ok E R" and "ibc_inv (w_ibc w)"
  shows "ibc_inv (w_ibc w') \<and> ibc_le (w_ibc w) (w_ibc w')"
  by (rule core_run_good [OF assms])

subsection \<open>A packet takes effect at most once\<close>

definition received :: "'k ibc_state \<Rightarrow> Packet \<Rightarrow> bool" where
  "received s p \<longleftrightarrow> (case channels s (dst_chan p) of None \<Rightarrow> False | Some c \<Rightarrow>
     (case chan_Ordering c of
        UNORDERED \<Rightarrow> packetReceipts s (dst_key p) \<noteq> None
      | ORDERED \<Rightarrow> (case nextSequenceRecv s (dst_chan p) of None \<Rightarrow> False | Some n \<Rightarrow> Sequence p < n)
      | NONE \<Rightarrow> False))"

lemma received_key: "dst_key q = dst_key p \<Longrightarrow> received s q = received s p"
  unfolding received_def prod.inject by (elim conjE) (simp only:)

lemma received_le:
  assumes "received s p" "ibc_le s s'"
  shows "received s' p"
proof -
  from assms(1) obtain c where c: "channels s (dst_chan p) = Some c" by (auto simp: received_def split: option.splits)
  with ibc_leD(2) [OF assms(2)] obtain c' where c': "channels s' (dst_chan p) = Some c'" "chan_Ordering c' = chan_Ordering c"
    unfolding chan_advanced_def by blast
  from ibc_leD(1) [OF assms(2)] have t: "packetReceipts s \<subseteq>\<^sub>m packetReceipts s'" "counter_le (nextSequenceRecv s) (nextSequenceRecv s')"
    by (simp_all add: traffic_le_def)
  show ?thesis
  proof (cases "chan_Ordering c")
    case UNORDERED
    with assms(1) c have "dst_key p \<in> dom (packetReceipts s)" by (auto simp: received_def)
    with t(1) have "packetReceipts s' (dst_key p) \<noteq> None" unfolding map_le_def by (metis domIff)
    with UNORDERED c' show ?thesis by (simp add: received_def)
  next
    case ORDERED
    with assms(1) c obtain n where n: "nextSequenceRecv s (dst_chan p) = Some n" "Sequence p < n"
      by (auto simp: received_def split: option.splits)
    with t(2) obtain n' where "nextSequenceRecv s' (dst_chan p) = Some n'" "n \<le> n'" unfolding counter_le_def by blast
    with ORDERED c' n(2) show ?thesis by (simp add: received_def)
  next
    case NONE
    with assms(1) c show ?thesis by (simp add: received_def)
  qed
qed

lemma RecvPacket_received:
  assumes "RecvPacket E ctx s cap p pf h = Inr s'" "Sequence p \<noteq> - 1" "channels s (dst_chan p) = Some c" "chan_Ordering c \<noteq> NONE"
  shows "received s' p"
  using assms(1)
proof (rule RecvPacket_Inr)
  fix channel connection s1
  assume "channels s (dst_chan p) = Some channel"
    and v: "conn_VerifyPacketCommitment E ctx s connection h pf (SourcePort p) (SourceChannel p) (Sequence p) (CommitPacket p) = Inr s1"
    and r: "case chan_Ordering channel of
       UNORDERED \<Rightarrow> packetReceipts s (dst_key p) = None \<and>
         s' = s1 \<lparr> packetReceipts := (packetReceipts s1)(dst_key p \<mapsto> [char_of (1 :: nat)]) \<rparr>
     | ORDERED \<Rightarrow> nextSequenceRecv s (dst_chan p) = Some (Sequence p) \<and>
         s' = s1 \<lparr> nextSequenceRecv := (nextSequenceRecv s1)(dst_chan p \<mapsto> Sequence p + 1) \<rparr>
     | NONE \<Rightarrow> s' = s1"
  then have "channel = c" and c1: "channels s1 (dst_chan p) = Some c"
    using assms(3) verified_frame_fields(7) [OF conn_verify_frames(5) [OF v]] by auto
  with r assms(4) u64_less_succ [OF assms(2)] show ?thesis by (cases "chan_Ordering c") (auto simp: received_def)
qed

lemma received_blocks: "received s p \<Longrightarrow> RecvPacket E ctx s cap p pf h \<noteq> Inr s'"
proof
  assume rec: "received s p" and "RecvPacket E ctx s cap p pf h = Inr s'"
  from this(2) show False
    by (rule RecvPacket_Inr) (use rec in \<open>auto simp: received_def split: Order.splits option.splits\<close>)
qed

lemma recv_msg_Inr:
  assumes "msg_RecvPacket E R ctx w m = Inr w'"
  obtains "w' = w"
  | cbs cap s relayer lookup where "route_to R lookup = Inr (cbs, cap)"
      "RecvPacket E ctx (w_ibc w) (Some cap) (mrp_Packet m) (mrp_ProofCommitment m) (mrp_ProofHeight m) = Inr s"
      "recv_callback E cbs cap ctx (mrp_Packet m) relayer (w \<lparr> w_ibc := s \<rparr>) = Inr w'"
proof -
  from assms obtain relayer lookup cbs cap where r: "route_to R lookup = Inr (cbs, cap)"
    and v: "verify_cached w (RecvPacket E ctx (w_ibc w) (Some cap) (mrp_Packet m) (mrp_ProofCommitment m) (mrp_ProofHeight m))
        (recv_callback E cbs cap ctx (mrp_Packet m) relayer) = Inr w'"
    by (auto simp: msg_RecvPacket_def Let_def split: sum.splits)
  from v show thesis by (rule verify_cached_Inr) (use that(1) that(2) [OF r] in blast)+
qed

text \<open>Client and connection messages do not reach the applications.\<close>

lemma client_msg_app:
  "msg_CreateClient ctx w c = Inr w' \<Longrightarrow> w_app w' = w_app w" "msg_UpdateClient E ctx w u = Inr w' \<Longrightarrow> w_app w' = w_app w"
  "msg_UpgradeClient E ctx w g = Inr w' \<Longrightarrow> w_app w' = w_app w" "msg_SubmitMisbehaviour E ctx w b = Inr w' \<Longrightarrow> w_app w' = w_app w"
  by (auto simp: msg_CreateClient_def msg_UpdateClient_def msg_UpgradeClient_def msg_SubmitMisbehaviour_def on_ibc_Inr result_elims)

lemma conn_msg_app:
  "msg_ConnectionOpenInit w i = Inr w' \<Longrightarrow> w_app w' = w_app w" "msg_ConnectionOpenTry E ctx w t = Inr w' \<Longrightarrow> w_app w' = w_app w"
  "msg_ConnectionOpenAck E ctx w a = Inr w' \<Longrightarrow> w_app w' = w_app w" "msg_ConnectionOpenConfirm E ctx w c = Inr w' \<Longrightarrow> w_app w' = w_app w"
  by (auto simp: msg_ConnectionOpenInit_def msg_ConnectionOpenTry_def msg_ConnectionOpenAck_def msg_ConnectionOpenConfirm_def on_ibc_Inr
      result_elims split: if_splits)

lemma recv_msg_noop:
  assumes "received (w_ibc w) (mrp_Packet m)" "msg_RecvPacket E R ctx w m = Inr w'"
  shows "w' = w"
  using assms(2) by (rule recv_msg_Inr) (use received_blocks [OF assms(1)] in blast)+

lemma recv_msg_received:
  assumes "router_ok E R" "ibc_inv (w_ibc w)" "msg_RecvPacket E R ctx w m = Inr w'" "w' \<noteq> w" "Sequence (mrp_Packet m) \<noteq> - 1"
    "channels (w_ibc w) (dst_chan (mrp_Packet m)) = Some c" "chan_Ordering c \<noteq> NONE"
  shows "received (w_ibc w') (mrp_Packet m)"
  using assms(3)
proof (rule recv_msg_Inr)
  fix cbs cap s relayer lookup
  assume r: "route_to R lookup = Inr (cbs, cap)"
    and s: "RecvPacket E ctx (w_ibc w) (Some cap) (mrp_Packet m) (mrp_ProofCommitment m) (mrp_ProofHeight m) = Inr s"
    and c: "recv_callback E cbs cap ctx (mrp_Packet m) relayer (w \<lparr> w_ibc := s \<rparr>) = Inr w'"
  from packet_frame_good [OF RecvPacket_frame [OF s assms(5)] assms(2)] have "ibc_inv s" by blast
  from packet_frame_good [OF recv_callback_frame [OF route_to_Inr [OF r assms(1)] c]] this have "ibc_le s (w_ibc w')" by simp
  with RecvPacket_received [OF s assms(5-7)] received_le show ?thesis by blast
qed (use assms(4) in blast)

text \<open>
  C1: relaying a packet twice does nothing the second time. Once a \<open>MsgRecvPacket\<close> has taken
  effect (it changed the world) on an ordered or unordered channel, then after any run of the
  chain, with messages of every kind and actions of every application, handling another
  \<open>MsgRecvPacket\<close> for the same destination and sequence number, with whatever data, proof or
  signer, either fails or leaves the world, applications included, exactly as it is.
\<close>

theorem message_received_once:
  assumes "router_ok E R" and "ibc_inv (w_ibc w)"
    and "handle_msg E R ctx w (RecvPacketMsg m) = Inr w1" and "w1 \<noteq> w" and "Sequence (mrp_Packet m) \<noteq> - 1"
    and "channels (w_ibc w) (dst_chan (mrp_Packet m)) = Some c" and "chan_Ordering c \<noteq> NONE"
    and "(core_step E R)\<^sup>*\<^sup>* w1 w2" and "dst_key (mrp_Packet m') = dst_key (mrp_Packet m)"
  shows "handle_msg E R ctx' w2 (RecvPacketMsg m') \<in> range Inl \<union> {Inr w2}"
proof -
  have r1: "received (w_ibc w1) (mrp_Packet m)"
    using recv_msg_received [OF assms(1,2) _ assms(4-7)] assms(3) by simp
  from assms(3) have "msg_RecvPacket E R ctx w m = Inr w1" by simp
  from packet_frame_good [OF recv_msg_frame [OF assms(1) this assms(5)] assms(2)] have "ibc_inv (w_ibc w1)" by blast
  with core_run_good [OF assms(8,1)] have "ibc_le (w_ibc w1) (w_ibc w2)" by blast
  from received_le [OF r1 this] received_key [OF assms(9)] have "received (w_ibc w2) (mrp_Packet m')" by blast
  from recv_msg_noop [OF this] show ?thesis by (cases "handle_msg E R ctx' w2 (RecvPacketMsg m')") auto
qed

subsection \<open>A packet is completed at most once\<close>

text \<open>The messages that complete a packet at its source, and when that has happened.\<close>

fun completion_packet :: "Msg \<Rightarrow> Packet option" where
  "completion_packet (RecvPacketMsg m) = None"
| "completion_packet m = msg_packet m"

definition below_send :: "'k ibc_state \<Rightarrow> Packet \<Rightarrow> bool" where
  "below_send s p \<longleftrightarrow> (case nextSequenceSend s (src_chan p) of None \<Rightarrow> False | Some n \<Rightarrow> Sequence p < n)"

definition completed :: "'k ibc_state \<Rightarrow> Packet \<Rightarrow> bool" where
  "completed s p \<longleftrightarrow> packetCommitments s (src_key p) = None \<and> below_send s p"

lemma below_send_le:
  assumes "below_send s p" "traffic_le s s'"
  shows "below_send s' p"
proof -
  from assms(1) obtain n where n: "nextSequenceSend s (src_chan p) = Some n" "Sequence p < n"
    by (auto simp: below_send_def split: option.splits)
  with assms(2) obtain n' where "nextSequenceSend s' (src_chan p) = Some n'" "n \<le> n'"
    unfolding traffic_le_def counter_le_def by blast
  with n(2) show ?thesis by (simp add: below_send_def)
qed

lemma completed_le:
  assumes "completed s p" "traffic_le s s'"
  shows "completed s' p"
proof -
  from assms(1) have b: "below_send s p" "packetCommitments s (src_key p) = None" by (simp_all add: completed_def)
  then obtain n where "nextSequenceSend s (src_chan p) = Some n" "Sequence p < n"
    by (auto simp: below_send_def split: option.splits)
  with b(2) assms(2) have "packetCommitments s' (src_key p) = None" unfolding traffic_le_def by blast
  with below_send_le [OF b(1) assms(2)] show ?thesis by (simp add: completed_def)
qed

lemma committed_below_send:
  assumes "packets_inv s" "packetCommitments s (src_key p) = Some b"
  shows "below_send s p"
  using assms unfolding packets_inv_def below_send_def by (fastforce split: option.splits)

lemma timeout_callback_completes:
  assumes "ibc_application E cbs" "timeout_callback E cbs cap ctx p relayer w = Inr w'" "below_send (w_ibc w) p"
  shows "completed (w_ibc w') p"
proof -
  from assms(2) obtain w1 s where c: "OnTimeoutPacket cbs ctx w p relayer = Inr w1"
    and t: "TimeoutExecuted E (w_ibc w1) (Some cap) p = Inr s" "w' = w1 \<lparr> w_ibc := s \<rparr>"
    by (auto simp: timeout_callback_def on_ibc_Inr split: sum.splits)
  from app_run_frame [OF ibc_application.timeout_runs [OF assms(1) c]] have "traffic_le (w_ibc w) (w_ibc w1)"
    by (simp add: packet_frame_def traffic_le_flow)
  from below_send_le [OF assms(3) this] TimeoutExecuted_deletes [OF t(1)] t(2) show ?thesis
    by (simp add: completed_def below_send_def)
qed

text \<open>
  Every completing message has the same shape: a verification \<open>r\<close> that finds the packet's
  commitment, in a cached context, and a continuation.
\<close>

lemma completion_msg_Inr:
  assumes "handle_msg E R ctx w m = Inr w'" "completion_packet m = Some p" "router_ok E R"
  obtains r continue where "verify_cached w r continue = Inr w'"
    "\<And>s. r = Inr s \<Longrightarrow> packetCommitments (w_ibc w) (src_key p) = Some (CommitPacket p)"
    "\<And>s. r = Inr s \<Longrightarrow> below_send (w_ibc w) p \<Longrightarrow> continue (w \<lparr> w_ibc := s \<rparr>) = Inr w' \<Longrightarrow> completed (w_ibc w') p"
proof (cases m)
  case (TimeoutMsg x)
  with assms(2) have p: "p = mto_Packet x" by simp
  let ?r = "TimeoutPacket E ctx (w_ibc w) p (mto_ProofUnreceived x) (mto_ProofHeight x) (mto_NextSequenceRecv x)"
  from assms(1) TimeoutMsg p obtain relayer lookup cbs cap where r: "route_to R lookup = Inr (cbs, cap)"
    and v: "verify_cached w ?r (timeout_callback E cbs cap ctx p relayer) = Inr w'"
    by (auto simp: msg_Timeout_def Let_def split: sum.splits)
  have d: "completed (w_ibc w') p" if "?r = Inr s" "below_send (w_ibc w) p" "timeout_callback E cbs cap ctx p relayer (w \<lparr> w_ibc := s \<rparr>) = Inr w'" for s
    using timeout_callback_completes [OF route_to_Inr [OF r assms(3)] that(3)] that(2) verified_frame_fields(8) [OF timeout_check_frame(1) [OF that(1)]]
    by (simp add: below_send_def)
  have c: "packetCommitments (w_ibc w) (src_key p) = Some (CommitPacket p)" if "?r = Inr s" for s
    using that by (rule TimeoutPacket_Inr)
  show thesis by (rule that [OF v], erule c, rule d)
next
  case (TimeoutOnCloseMsg x)
  with assms(2) have p: "p = mtc_Packet x" by simp
  obtain relayer lookup cbs cap r where rt: "route_to R lookup = Inr (cbs, cap)"
    and v: "verify_cached w r (timeout_callback E cbs cap ctx p relayer) = Inr w'"
    and r: "r = TimeoutOnClose E ctx (w_ibc w) (Some cap) p (mtc_ProofUnreceived x) (mtc_ProofClose x) (mtc_ProofHeight x) (mtc_NextSequenceRecv x)"
    using assms(1) TimeoutOnCloseMsg p by (auto simp: msg_TimeoutOnClose_def Let_def split: sum.splits)
  have d: "completed (w_ibc w') p" if "r = Inr s" "below_send (w_ibc w) p" "timeout_callback E cbs cap ctx p relayer (w \<lparr> w_ibc := s \<rparr>) = Inr w'" for s
    using timeout_callback_completes [OF route_to_Inr [OF rt assms(3)] that(3)] that(2)
      verified_frame_fields(8) [OF timeout_check_frame(2) [OF that(1) [unfolded r]]]
    by (simp add: below_send_def)
  have c: "packetCommitments (w_ibc w) (src_key p) = Some (CommitPacket p)" if "r = Inr s" for s
    using that unfolding r by (rule TimeoutOnClose_Inr)
  show thesis by (rule that [OF v], erule c, rule d)
next
  case (AcknowledgementMsg x)
  with assms(2) have p: "p = mak_Packet x" by simp
  let ?a = "mak_Acknowledgement x"
  obtain relayer lookup cbs cap r where rt: "route_to R lookup = Inr (cbs, cap)"
    and v: "verify_cached w r (\<lambda>w. OnAcknowledgementPacket cbs ctx w p ?a relayer) = Inr w'"
    and r: "r = AcknowledgePacket E ctx (w_ibc w) (Some cap) p ?a (mak_ProofAcked x) (mak_ProofHeight x)"
    using assms(1) AcknowledgementMsg p by (auto simp: msg_Acknowledgement_def Let_def split: sum.splits)
  have d: "completed (w_ibc w') p" if s: "r = Inr s" "below_send (w_ibc w) p" "OnAcknowledgementPacket cbs ctx (w \<lparr> w_ibc := s \<rparr>) p ?a relayer = Inr w'" for s
  proof -
    from completes_commitment [OF completes.by_ack [OF s(1) [unfolded r]]] s(2) have "completed s p"
      by (simp add: completed_def below_send_def)
    moreover from app_run_frame [OF ibc_application.acknowledgement_runs [OF route_to_Inr [OF rt assms(3)] s(3)]]
    have "traffic_le s (w_ibc w')" by (simp add: packet_frame_def traffic_le_flow)
    ultimately show ?thesis by (rule completed_le)
  qed
  have c: "packetCommitments (w_ibc w) (src_key p) = Some (CommitPacket p)" if "r = Inr s" for s
    using that unfolding r by (rule AcknowledgePacket_Inr)
  show thesis by (rule that [OF v], erule c, rule d)
qed (use assms(2) in simp_all)

lemma completion_msg_noop:
  assumes "handle_msg E R ctx w m = Inr w'" "completion_packet m = Some p" "router_ok E R"
    "packetCommitments (w_ibc w) (src_key p) \<noteq> Some (CommitPacket p)"
  shows "w' = w"
proof -
  from completion_msg_Inr [OF assms(1-3)] obtain r continue where v: "verify_cached w r continue = Inr w'"
    and c: "\<And>s. r = Inr s \<Longrightarrow> packetCommitments (w_ibc w) (src_key p) = Some (CommitPacket p)" by metis
  from v show ?thesis by (rule verify_cached_Inr) (use c assms(4) in blast)+
qed

lemma completion_msg_completes:
  assumes "handle_msg E R ctx w m = Inr w'" "completion_packet m = Some p" "router_ok E R" "packets_inv (w_ibc w)" "w' \<noteq> w"
  shows "completed (w_ibc w') p"
  using assms(1-3)
proof (rule completion_msg_Inr)
  fix r continue
  assume v: "verify_cached w r continue = Inr w'"
    and c: "\<And>s. r = Inr s \<Longrightarrow> packetCommitments (w_ibc w) (src_key p) = Some (CommitPacket p)"
    and d: "\<And>s. r = Inr s \<Longrightarrow> below_send (w_ibc w) p \<Longrightarrow> continue (w \<lparr> w_ibc := s \<rparr>) = Inr w' \<Longrightarrow> completed (w_ibc w') p"
  from v show ?thesis
  proof (rule verify_cached_Inr)
    fix s assume s: "r = Inr s" "continue (w \<lparr> w_ibc := s \<rparr>) = Inr w'"
    from d [OF s(1) committed_below_send [OF assms(4) c [OF s(1)]] s(2)] show ?thesis .
  qed (use assms(5) in blast)
qed

text \<open>
  C2: a sent packet is completed at most once, whichever messages are used. Once an
  acknowledgement, timeout or timeout-on-close message for a packet has taken effect, then
  after any run of the chain every further acknowledgement or timeout message for the same
  source and sequence number either fails or leaves the world, applications included,
  exactly as it is: no application is told twice, or both of a success and of a timeout.
\<close>

theorem message_completed_once:
  assumes "router_ok E R" and "ibc_inv (w_ibc w)" and "msg_bounded (w_ibc w) m"
    and "completion_packet m = Some p" and "handle_msg E R ctx w m = Inr w1" and "w1 \<noteq> w"
    and "(core_step E R)\<^sup>*\<^sup>* w1 w2"
    and "completion_packet m' = Some q" and "src_key q = src_key p"
  shows "handle_msg E R ctx' w2 m' \<in> range Inl \<union> {Inr w2}"
proof -
  from assms(2) have "packets_inv (w_ibc w)" by (simp add: ibc_inv_def)
  from completion_msg_completes [OF assms(5,4,1) this assms(6)] have c: "completed (w_ibc w1) p" .
  from handle_msg_good [OF assms(1,5,3,2)] have "ibc_inv (w_ibc w1)" by blast
  from core_run_good [OF assms(7,1) this] ibc_leD(1) have "traffic_le (w_ibc w1) (w_ibc w2)" by blast
  from completed_le [OF c this] assms(9) have "packetCommitments (w_ibc w2) (src_key q) = None" by (simp add: completed_def)
  then show ?thesis using completion_msg_noop [OF _ assms(8,1)] by (cases "handle_msg E R ctx' w2 m'") auto
qed

subsection \<open>The ante decorator\<close>

lemma count_redundant_Some:
  "count_redundant s ms r p = Some (r', p') \<Longrightarrow> r \<le> p \<Longrightarrow>
     r' \<le> p' \<and> (r' = p' \<longrightarrow> r = p \<and> (\<forall>m. Some m \<in> set ms \<longrightarrow> (\<exists>u. m = UpdateClientMsg u) \<or> redundant s m = Some True))"
proof (induction s ms r p rule: count_redundant.induct)
  case (3 s m ms r p)
  show ?case
  proof (cases "redundant s m")
    case None
    with "3.prems"(1) obtain u where u: "m = UpdateClientMsg u" by (cases m) auto
    with "3.prems"(1) have "count_redundant s ms r p = Some (r', p')" by simp
    from "3.IH"(1) [OF None u this "3.prems"(2)] u show ?thesis by auto
  next
    case (Some b)
    with "3.prems"(1) have "count_redundant s ms (if b then r + 1 else r) (p + 1) = Some (r', p')" by simp
    from "3.IH"(2) [OF Some this] "3.prems"(2) Some show ?thesis by (cases b) auto
  qed
qed auto

lemma redundant_noop:
  assumes "redundant (w_ibc w) m = Some True" "handle_msg E R ctx w m = Inr w'" "router_ok E R"
    "\<And>x. m = RecvPacketMsg x \<Longrightarrow> \<exists>c. channels (w_ibc w) (dst_chan (mrp_Packet x)) = Some c \<and> chan_Ordering c = UNORDERED"
  shows "w' = w"
proof (cases m)
  case (RecvPacketMsg x)
  from assms(1,4) RecvPacketMsg have "received (w_ibc w) (mrp_Packet x)" by (auto simp: received_def GetPacketReceipt_def)
  from recv_msg_noop [OF this] assms(2) RecvPacketMsg show ?thesis by simp
next
  case (TimeoutMsg x)
  show ?thesis by (rule completion_msg_noop [OF assms(2) _ assms(3)])
    (use assms(1) TimeoutMsg CommitPacket_ne in \<open>auto simp: GetPacketCommitment_def\<close>)
next
  case (TimeoutOnCloseMsg x)
  show ?thesis by (rule completion_msg_noop [OF assms(2) _ assms(3)])
    (use assms(1) TimeoutOnCloseMsg CommitPacket_ne in \<open>auto simp: GetPacketCommitment_def\<close>)
next
  case (AcknowledgementMsg x)
  show ?thesis by (rule completion_msg_noop [OF assms(2) _ assms(3)])
    (use assms(1) AcknowledgementMsg CommitPacket_ne in \<open>auto simp: GetPacketCommitment_def\<close>)
qed (use assms(1) in simp_all)

text \<open>
  C28: the ante decorator drops no useful transaction. When \<open>AnteHandle\<close> stops a transaction
  that the rest of the ante chain would have accepted, it is in a check (not a simulation),
  the error is \<open>ErrRedundantTx\<close>, and each message is a client update or a packet message that,
  executed on this state, would fail or leave the world unchanged (for a receive: on an
  unordered channel, the only ones that have receipts).
\<close>

theorem ante_drops_only_noops:
  assumes "router_ok E R" and "AnteHandle isCheckTx isReCheckTx simulate (w_ibc w) msgs (Inr r) = Inl e"
    and "\<And>x. Some (RecvPacketMsg x) \<in> set msgs \<Longrightarrow> packetReceipts (w_ibc w) (dst_key (mrp_Packet x)) \<noteq> None \<Longrightarrow>
      \<exists>c. channels (w_ibc w) (dst_chan (mrp_Packet x)) = Some c \<and> chan_Ordering c = UNORDERED"
  shows "e = ChannelE ErrRedundantTx \<and> (isCheckTx \<or> isReCheckTx) \<and> \<not> simulate \<and>
     (\<forall>m ctx w'. Some m \<in> set msgs \<longrightarrow> (\<exists>u. m = UpdateClientMsg u) \<or> (handle_msg E R ctx w m = Inr w' \<longrightarrow> w' = w))"
proof -
  from assms(2) obtain n where n: "count_redundant (w_ibc w) msgs 0 0 = Some (n, n)"
    and e: "e = ChannelE ErrRedundantTx" "isCheckTx \<or> isReCheckTx" "\<not> simulate"
    by (auto simp: AnteHandle_def split: if_splits option.splits)
  have "(\<exists>u. m = UpdateClientMsg u) \<or> w' = w" if m: "Some m \<in> set msgs" "handle_msg E R ctx w m = Inr w'" for m ctx w'
  proof -
    from count_redundant_Some [OF n] m(1) consider u where "m = UpdateClientMsg u" | "redundant (w_ibc w) m = Some True" by blast
    then show ?thesis
    proof cases
      case 2
      then have "w' = w"
        by (rule redundant_noop [OF _ m(2) assms(1)]) (use 2 m(1) assms(3) in \<open>auto simp: GetPacketReceipt_def\<close>)
      then show ?thesis by blast
    qed blast
  qed
  with e show ?thesis by blast
qed

end
