(* ===== verification/TransferSafety.thy ===== *)
theory TransferSafety
  imports TransferKeeper MsgRuns
begin

text \<open>
  What the transfer application promises. It is an application in the sense of the core
  module, so every run of a chain that routes to it keeps the core invariant. Over a bank
  that does what its documentation says, the balances and the supply change exactly by the
  tokens that move: a refund undoes its transfer, a token that goes to another chain and
  comes back ends up unescrowed under its old denomination, and no denomination of the
  chain's own is ever minted.
\<close>

subsection \<open>The application interface\<close>

lemma claim_runs: "transfer_ClaimCapability E w cap name = Inr w' \<Longrightarrow> app_run E (w_ibc w) (w_ibc w')"
  by (auto simp: transfer_ClaimCapability_def split: option.splits intro!: r_into_rtranclp [of "app_step E"] app_step.app_capability)

interpretation transfer_app: ibc_application E "transfer_module E" for E :: "('k, 'b, 'x) transfer_env_scheme"
proof
  show "OnChanOpenTry (transfer_module E) ctx w ord hops port chan cap cp v = Inr (v', w') \<Longrightarrow> app_run E (w_ibc w) (w_ibc w')"
    for ctx w ord hops port chan cap cp v v' w'
    by (auto simp: transfer_module_def transfer_OnChanOpenTry_def result_elims split: if_splits dest: claim_runs)
qed (auto simp: transfer_module_def transfer_OnChanOpenInit_def transfer_OnChanOpenAck_def im_OnRecvPacket_def Let_def
    im_OnAcknowledgementPacket_def im_OnTimeoutPacket_def result_elims claim_runs
    split: option.splits prod.splits if_splits)

text \<open>A router with the transfer application as its only route.\<close>

definition transfer_router :: "('k, 'b, 'x) transfer_env_scheme \<Rightarrow> ('k, 'b transfer_state) Router" where
  "transfer_router E = \<lparr> routes = [ModuleName \<mapsto> transfer_module E], sealed = True \<rparr>"

lemma transfer_router_ok: "router_ok E (transfer_router E)"
  using transfer_app.ibc_application_axioms by (simp add: router_ok_def transfer_router_def)

text \<open>Sending a transfer is an action of the application.\<close>

lemma SendTransfer_runs:
  assumes "SendTransfer E ctx w port chan token sender receiver th tt = Inr w'" "nextSequenceSend (w_ibc w) (port, chan) \<noteq> Some (- 1)"
  shows "app_run E (w_ibc w) (w_ibc w')"
proof -
  from assms(1) obtain seq cap p where "nextSequenceSend (w_ibc w) (port, chan) = Some seq"
    "SendPacket E ctx (w_ibc w) cap p = Inr (w_ibc w')" "Sequence p = seq"
    by (auto simp: SendTransfer_def Let_def result_elims chan_getters NewPacket_def split: option.splits)
  with assms(2) have "app_step E (w_ibc w) (w_ibc w')" by (intro app_step.app_send) auto
  then show ?thesis by blast
qed

subsection \<open>The bank\<close>

text \<open>
  The documented behaviour of the SDK's coins and bank: a ledger of balances by account and
  denomination, and the supply of each denomination. Only successful operations are spoken of.
\<close>

definition coins_amount :: "Coin list \<Rightarrow> string \<Rightarrow> int" where
  "coins_amount cs d = sum_list (map coin_Amount (filter (\<lambda>c. coin_Denom c = d) cs))"

record 'b ledger =
  balance :: "'b \<Rightarrow> bytes \<Rightarrow> string \<Rightarrow> int"
  total_supply :: "'b \<Rightarrow> string \<Rightarrow> int"
  module_address :: "string \<Rightarrow> bytes"

definition ledger_change :: "'b ledger \<Rightarrow> 'b \<Rightarrow> 'b \<Rightarrow> (bytes \<Rightarrow> string \<Rightarrow> int) \<Rightarrow> (string \<Rightarrow> int) \<Rightarrow> bool" where
  "ledger_change L b b' f g \<longleftrightarrow> (\<forall>a d. balance L b' a d = balance L b a d + f a d) \<and> (\<forall>d. total_supply L b' d = total_supply L b d + g d)"

text \<open>The change by an amount of one denomination, of one account or in the supply.\<close>

definition on_account :: "bytes \<Rightarrow> string \<Rightarrow> int \<Rightarrow> bytes \<Rightarrow> string \<Rightarrow> int" where
  "on_account a d n a' d' = (if a' = a \<and> d' = d then n else 0)"

definition on_supply :: "string \<Rightarrow> int \<Rightarrow> string \<Rightarrow> int" where
  "on_supply d n d' = (if d' = d then n else 0)"

definition moves :: "'b ledger \<Rightarrow> 'b \<Rightarrow> 'b \<Rightarrow> bytes \<Rightarrow> bytes \<Rightarrow> Coin list \<Rightarrow> bool" where
  "moves L b b' x y cs \<longleftrightarrow>
     ledger_change L b b' (\<lambda>a d. (if a = y then coins_amount cs d else 0) - (if a = x then coins_amount cs d else 0)) (\<lambda>d. 0)"

definition bank_ok :: "('k, 'b, 'x) transfer_env_scheme \<Rightarrow> 'b ledger \<Rightarrow> bool" where
  "bank_ok E L \<longleftrightarrow>
     (\<forall>d n c. sdk_NewCoin E d n = Some c \<longrightarrow> c = \<lparr> coin_Denom = d, coin_Amount = n \<rparr>) \<and>
     (\<forall>c cs. sdk_NewCoins E c = Some cs \<longrightarrow> 0 \<le> coin_Amount c \<and> coins_amount cs = on_supply (coin_Denom c) (coin_Amount c)) \<and>
     (\<forall>b b' x y cs. bank_SendCoins E b x y cs = (None, b') \<longrightarrow> moves L b b' x y cs) \<and>
     (\<forall>b b' m cs. bank_MintCoins E b m cs = (None, b') \<longrightarrow>
        ledger_change L b b' (\<lambda>a d. if a = module_address L m then coins_amount cs d else 0) (coins_amount cs)) \<and>
     (\<forall>b b' m cs. bank_BurnCoins E b m cs = (None, b') \<longrightarrow>
        ledger_change L b b' (\<lambda>a d. if a = module_address L m then - coins_amount cs d else 0) (\<lambda>d. - coins_amount cs d)) \<and>
     (\<forall>b b' m y cs. bank_SendCoinsFromModuleToAccount E b m y cs = (None, b') \<longrightarrow> moves L b b' (module_address L m) y cs) \<and>
     (\<forall>b b' x m cs. bank_SendCoinsFromAccountToModule E b x m cs = (None, b') \<longrightarrow> moves L b b' x (module_address L m) cs)"

lemma ledger_change_trans:
  "ledger_change L a b f g \<Longrightarrow> ledger_change L b c f' g' \<Longrightarrow> ledger_change L a c (\<lambda>x d. f x d + f' x d) (\<lambda>d. g d + g' d)"
  by (simp add: ledger_change_def)

lemma ledger_change_cong:
  "ledger_change L a b f g \<Longrightarrow> (\<And>x d. f x d = f' x d) \<Longrightarrow> (\<And>d. g d = g' d) \<Longrightarrow> ledger_change L a b f' g'"
  by (simp add: ledger_change_def)

lemma bank_result_Inr: "bank_result r = Inr b \<longleftrightarrow> r = (None, b)"
  by (auto simp: bank_result_def split: prod.splits option.splits)

lemma or_panic_Inr: "or_panic v = Inr x \<longleftrightarrow> v = Some x"
  by (auto simp: or_panic_def split: option.splits)

lemma bank_okD:
  assumes "bank_ok E L"
  shows "sdk_NewCoin E d n = Some c \<Longrightarrow> c = \<lparr> coin_Denom = d, coin_Amount = n \<rparr>"
    "sdk_NewCoins E c = Some cs \<Longrightarrow> coins_amount cs = on_supply (coin_Denom c) (coin_Amount c)"
    "sdk_NewCoins E c = Some cs \<Longrightarrow> 0 \<le> coin_Amount c"
    "bank_SendCoins E b x y cs = (None, b') \<Longrightarrow> moves L b b' x y cs"
    "bank_MintCoins E b m cs = (None, b') \<Longrightarrow>
      ledger_change L b b' (\<lambda>a d. if a = module_address L m then coins_amount cs d else 0) (coins_amount cs)"
    "bank_BurnCoins E b m cs = (None, b') \<Longrightarrow>
      ledger_change L b b' (\<lambda>a d. if a = module_address L m then - coins_amount cs d else 0) (\<lambda>d. - coins_amount cs d)"
    "bank_SendCoinsFromModuleToAccount E b m y cs = (None, b') \<Longrightarrow> moves L b b' (module_address L m) y cs"
    "bank_SendCoinsFromAccountToModule E b x m cs = (None, b') \<Longrightarrow> moves L b b' x (module_address L m) cs"
  using assms by (simp_all add: bank_ok_def)

text \<open>Coins sent from one account to another, coins burnt from an account, coins minted to an account.\<close>

lemma moves_coin:
  assumes "moves L b b' x y cs" "coins_amount cs = on_supply d n"
  shows "ledger_change L b b' (\<lambda>a e. on_account y d n a e - on_account x d n a e) (\<lambda>e. 0)"
  using assms(1) unfolding moves_def by (rule ledger_change_cong) (simp_all add: assms(2) on_account_def on_supply_def)

lemma burn_coin:
  assumes "bank_ok E L" "moves L b b1 x (module_address L m) cs" "bank_BurnCoins E b1 m cs = (None, b')"
    "coins_amount cs = on_supply d n"
  shows "ledger_change L b b' (\<lambda>a e. - on_account x d n a e) (\<lambda>e. - on_supply d n e)"
  using ledger_change_trans [OF moves_coin [OF assms(2,4)] bank_okD(6) [OF assms(1,3)]]
  by (rule ledger_change_cong) (simp_all add: assms(4) on_account_def on_supply_def)

lemma mint_coin:
  assumes "bank_ok E L" "bank_MintCoins E b m cs = (None, b1)" "moves L b1 b' (module_address L m) y cs"
    "coins_amount cs = on_supply d n"
  shows "ledger_change L b b' (on_account y d n) (on_supply d n)"
  using ledger_change_trans [OF bank_okD(5) [OF assms(1,2)] moves_coin [OF assms(3,4)]]
  by (rule ledger_change_cong) (simp_all add: assms(4) on_account_def on_supply_def)

subsection \<open>What the operations do to the ledger\<close>

text \<open>
  What a transfer takes from the sender and what a refund gives back: the tokens go to and
  come from escrow where this chain is the source, and are burnt and minted where it is not.
\<close>

definition taken :: "'b ledger \<Rightarrow> 'b \<Rightarrow> 'b \<Rightarrow> bool \<Rightarrow> bytes \<Rightarrow> bytes \<Rightarrow> string \<Rightarrow> int \<Rightarrow> bool" where
  "taken L b b' source escrow sender d n \<longleftrightarrow>
     (if source then ledger_change L b b' (\<lambda>a e. on_account escrow d n a e - on_account sender d n a e) (\<lambda>e. 0)
      else ledger_change L b b' (\<lambda>a e. - on_account sender d n a e) (\<lambda>e. - on_supply d n e))"

definition given :: "'b ledger \<Rightarrow> 'b \<Rightarrow> 'b \<Rightarrow> bool \<Rightarrow> bytes \<Rightarrow> bytes \<Rightarrow> string \<Rightarrow> int \<Rightarrow> bool" where
  "given L b b' source escrow receiver d n \<longleftrightarrow>
     (if source then ledger_change L b b' (\<lambda>a e. on_account receiver d n a e - on_account escrow d n a e) (\<lambda>e. 0)
      else ledger_change L b b' (on_account receiver d n) (on_supply d n))"

lemma escrow_or_burn_taken:
  assumes "bank_ok E L" "escrow_or_burn E b port chan path token sender = Inr b'"
  shows "taken L b b' (SenderChainIsSource port chan path) (GetEscrowAddress port chan) sender (coin_Denom token) (coin_Amount token) \<and>
    0 \<le> coin_Amount token"
proof -
  from assms(2) obtain cs where cs: "sdk_NewCoins E token = Some cs"
    and r: "if SenderChainIsSource port chan path then bank_SendCoins E b sender (GetEscrowAddress port chan) cs = (None, b')
      else \<exists>b1. bank_SendCoinsFromAccountToModule E b sender ModuleName cs = (None, b1) \<and> bank_BurnCoins E b1 ModuleName cs = (None, b')"
    by (auto simp: escrow_or_burn_def or_panic_Inr bank_result_Inr result_elims split: if_splits)
  note am = bank_okD(2) [OF assms(1) cs]
  from r show ?thesis
    using moves_coin [OF bank_okD(4) [OF assms(1)] am] burn_coin [OF assms(1) bank_okD(8) [OF assms(1)] _ am] bank_okD(3) [OF assms(1) cs]
    by (auto simp: taken_def split: if_splits)
qed

lemma refund_given:
  assumes "bank_ok E L" "refundPacketToken E b p data = Inr b'" "sdk_NewIntFromString E (ftpd_Amount data) = Some n"
    "sdk_AccAddressFromBech32 E (ftpd_Sender data) = Some sender"
  shows "given L b b' (SenderChainIsSource (SourcePort p) (SourceChannel p) (ftpd_Denom data)) (GetEscrowAddress (SourcePort p) (SourceChannel p))
    sender (IBCDenom (ParseDenomTrace (ftpd_Denom data))) n"
proof -
  let ?d = "IBCDenom (ParseDenomTrace (ftpd_Denom data))" and ?esc = "GetEscrowAddress (SourcePort p) (SourceChannel p)"
    and ?src = "SenderChainIsSource (SourcePort p) (SourceChannel p) (ftpd_Denom data)"
  from assms(2-4) obtain c cs where c: "sdk_NewCoin E ?d n = Some c" and cs: "sdk_NewCoins E c = Some cs"
    and r: "if ?src then bank_SendCoins E b ?esc sender cs = (None, b')
      else \<exists>b1. bank_MintCoins E b ModuleName cs = (None, b1) \<and> bank_SendCoinsFromModuleToAccount E b1 ModuleName sender cs = (None, b')"
    by (auto simp: refundPacketToken_def Let_def or_panic_Inr bank_result_Inr result_elims split: if_splits)
  have am: "coins_amount cs = on_supply ?d n" using bank_okD(2) [OF assms(1) cs] bank_okD(1) [OF assms(1) c] by simp
  from r show ?thesis
    using moves_coin [OF bank_okD(4) [OF assms(1)] am] mint_coin [OF assms(1) _ bank_okD(7) [OF assms(1)] am]
    by (auto simp: given_def split: if_splits)
qed

lemma unescrow_given:
  assumes "bank_ok E L" "unescrow E st port chan receiver d n = (None, st')"
  shows "given L (tr_bank st) (tr_bank st') True (GetEscrowAddress port chan) receiver d n \<and> tr_traces st' = tr_traces st"
proof -
  from assms(2) obtain c cs b where c: "sdk_NewCoin E d n = Some c" and cs: "sdk_NewCoins E c = Some cs"
    and r: "bank_SendCoins E (tr_bank st) (GetEscrowAddress port chan) receiver cs = (None, b)" "st' = st \<lparr> tr_bank := b \<rparr>"
    by (auto simp: unescrow_def split: option.splits prod.splits)
  have am: "coins_amount cs = on_supply d n" using bank_okD(2) [OF assms(1) cs] bank_okD(1) [OF assms(1) c] by simp
  from moves_coin [OF bank_okD(4) [OF assms(1) r(1)] am] r(2) show ?thesis by (simp add: given_def)
qed

lemma mint_given:
  assumes "bank_ok E L" "mint_to E st receiver d n = (None, st')"
  shows "given L (tr_bank st) (tr_bank st') False escrow receiver d n \<and> tr_traces st' = tr_traces st"
proof -
  from assms(2) obtain c cs b1 b where c: "sdk_NewCoin E d n = Some c" and cs: "sdk_NewCoins E c = Some cs"
    and r: "bank_MintCoins E (tr_bank st) ModuleName cs = (None, b1)"
      "bank_SendCoinsFromModuleToAccount E b1 ModuleName receiver cs = (None, b)" "st' = st \<lparr> tr_bank := b \<rparr>"
    by (auto simp: mint_to_def split: option.splits prod.splits)
  have am: "coins_amount cs = on_supply d n" using bank_okD(2) [OF assms(1) cs] bank_okD(1) [OF assms(1) c] by simp
  from mint_coin [OF assms(1) r(1) bank_okD(7) [OF assms(1) r(2)] am] r(3) show ?thesis by (simp add: given_def)
qed

text \<open>A successful transfer, and the packet it sends.\<close>

definition sent_packet :: "('k, 'b, 'x) transfer_env_scheme \<Rightarrow> ('k, 'b) transfer_world \<Rightarrow> string \<Rightarrow> string \<Rightarrow> Coin \<Rightarrow> bytes \<Rightarrow> string \<Rightarrow>
    Height \<Rightarrow> u64 \<Rightarrow> Packet option" where
  "sent_packet E w port chan token sender receiver th tt =
     (case (GetChannel (w_ibc w) port chan, GetNextSequenceSend (w_ibc w) port chan, full_denom_path E (w_app w) (coin_Denom token)) of
        (Some chanEnd, Some sequence, Inr path) \<Rightarrow>
          map_option (\<lambda>data. NewPacket data sequence port chan (ch_PortId (chan_Counterparty chanEnd)) (ch_ChannelId (chan_Counterparty chanEnd)) th tt)
            (json_MarshalPacketData E (NewFungibleTokenPacketData path (sdk_IntString E (coin_Amount token)) (sdk_AccAddressString E sender) receiver))
      | _ \<Rightarrow> None)"

lemma SendTransfer_Inr:
  assumes "SendTransfer E ctx w port chan token sender receiver th tt = Inr w'"
  obtains path p cap where "full_denom_path E (w_app w) (coin_Denom token) = Inr path"
    "escrow_or_burn E (tr_bank (w_app w)) port chan path token sender = Inr (tr_bank (w_app w'))"
    "sent_packet E w port chan token sender receiver th tt = Some p"
    "SendPacket E ctx (w_ibc w) cap p = Inr (w_ibc w')"
    "w_app w' = w_app w \<lparr> tr_bank := tr_bank (w_app w') \<rparr>"
    "SourcePort p = port" "SourceChannel p = chan"
    "\<exists>chanEnd. channels (w_ibc w) (port, chan) = Some chanEnd \<and> DestinationPort p = ch_PortId (chan_Counterparty chanEnd) \<and>
       DestinationChannel p = ch_ChannelId (chan_Counterparty chanEnd)"
  using assms by (auto simp: SendTransfer_def sent_packet_def ftpd_GetBytes_def Let_def result_elims chan_getters NewPacket_def split: option.splits)

text \<open>What one chain writes into this packet, another one (or the same) reads back.\<close>

definition json_agree :: "('k, 'b, 'x) transfer_env_scheme \<Rightarrow> ('l, 'c, 'y) transfer_env_scheme \<Rightarrow> bytes \<Rightarrow> bool" where
  "json_agree E E' bz \<longleftrightarrow> (\<forall>d. json_MarshalPacketData E d = Some bz \<longrightarrow> json_UnmarshalPacketData E' bz = Some d)"

lemma sent_packet_data:
  assumes "sent_packet E w port chan token sender receiver th tt = Some p" "full_denom_path E (w_app w) (coin_Denom token) = Inr path"
    "json_agree E E' (Data p)"
  shows "SourcePort p = port" "SourceChannel p = chan"
    "json_UnmarshalPacketData E' (Data p) =
       Some (NewFungibleTokenPacketData path (sdk_IntString E (coin_Amount token)) (sdk_AccAddressString E sender) receiver)"
  using assms by (auto simp: sent_packet_def NewPacket_def json_agree_def split: option.splits)

subsection \<open>Denominations of a chain\<close>

text \<open>A denomination a chain holds: one of its own, without a slash, or a voucher with a recorded trace.\<close>

definition own_denom :: "'b transfer_state \<Rightarrow> string \<Rightarrow> bool" where
  "own_denom st d \<longleftrightarrow> CHR ''/'' \<notin> set d \<or> (\<exists>t. dt_Path t \<noteq> '''' \<and> d = IBCDenom t \<and> tr_traces st (Hash t) = Some t)"

lemma DenomPathFromHash_IBCDenom:
  assumes "dt_Path t \<noteq> []" "DenomPathFromHash E st (IBCDenom t) = Inr path"
  shows "\<exists>t'. tr_traces st (Hash t) = Some t' \<and> path = GetFullDenomPath t'"
proof -
  have "drop (length (DenomPrefix @ ''/'')) (IBCDenom t) = hex_string (Hash t)"
    using assms(1) by (simp add: IBCDenom_def DenomPrefix_def)
  with assms(2) show ?thesis
    by (auto simp: DenomPathFromHash_def Let_def ParseHexHash_def hex_decode_string GetDenomTrace_def split: if_splits option.splits)
qed

lemma full_denom_path_IBCDenom:
  "dt_Path t \<noteq> [] \<Longrightarrow> full_denom_path E st (IBCDenom t) = DenomPathFromHash E st (IBCDenom t)"
  by (simp add: full_denom_path_def IBCDenom_def DenomPrefix_def)

lemma voucher_path:
  assumes "dt_Path t \<noteq> []" "tr_traces st (Hash t) = Some t'" "tm_ValidateHash E (Hash t)"
  shows "full_denom_path E st (IBCDenom t) = Inr (GetFullDenomPath t')"
proof -
  have "drop (length (DenomPrefix @ ''/'')) (IBCDenom t) = hex_string (Hash t)" using assms(1) by (simp add: IBCDenom_def DenomPrefix_def)
  with assms(2,3) show ?thesis unfolding full_denom_path_IBCDenom [OF assms(1)]
    by (simp add: DenomPathFromHash_def Let_def ParseHexHash_def hex_decode_string GetDenomTrace_def)
qed

lemma own_denom_path:
  assumes "own_denom st d" "full_denom_path E st d = Inr path"
  shows "IBCDenom (ParseDenomTrace path) = d \<and> local_denom path = d"
proof (cases "CHR ''/'' \<in> set d")
  case False
  then have "\<not> prefix ''ibc/'' d" by (auto simp: prefix_def)
  with assms(2) have "path = d" by (simp add: full_denom_path_def)
  with False show ?thesis by (simp add: ParseDenomTrace_base IBCDenom_def local_denom_def)
next
  case True
  with assms(1) obtain t where t: "dt_Path t \<noteq> []" "d = IBCDenom t" "tr_traces st (Hash t) = Some t"
    by (auto simp: own_denom_def)
  from assms(2) have "DenomPathFromHash E st (IBCDenom t) = Inr path" unfolding t(2) full_denom_path_IBCDenom [OF t(1)] .
  from DenomPathFromHash_IBCDenom [OF t(1) this] t(3) have "path = GetFullDenomPath t" by simp
  with local_denom_IBCDenom [OF t(1)] t(2) show ?thesis by simp
qed

subsection \<open>Refunds\<close>

text \<open>
  C8: a refund undoes its transfer. Let a transfer of a denomination the chain holds have
  succeeded, whether it escrowed native tokens or burnt vouchers, and let the packet it sent
  come back, at any later state of the chain, as a timeout or with an error acknowledgement.
  If the callback succeeds, then it changes every balance and every supply by exactly the
  opposite of what the transfer had changed.
\<close>

theorem refund_undoes_transfer:
  assumes "bank_ok E L" and "SendTransfer E ctx w port chan token sender receiver th tt = Inr w1"
    and "own_denom (w_app w) (coin_Denom token)"
    and "sent_packet E w port chan token sender receiver th tt = Some p"
    and "json_agree E E (Data p)"
    and "sdk_NewIntFromString E (sdk_IntString E (coin_Amount token)) = Some (coin_Amount token)"
    and "sdk_AccAddressFromBech32 E (sdk_AccAddressString E sender) = Some sender"
    and "im_OnTimeoutPacket E w2 p = Inr w3 \<or>
      (\<exists>a text. json_UnmarshalAck E a = Some (AckError text) \<and> im_OnAcknowledgementPacket E w2 p a = Inr w3)"
  shows "balance L (tr_bank (w_app w3)) a d - balance L (tr_bank (w_app w2)) a d =
           balance L (tr_bank (w_app w)) a d - balance L (tr_bank (w_app w1)) a d \<and>
         total_supply L (tr_bank (w_app w3)) d - total_supply L (tr_bank (w_app w2)) d =
           total_supply L (tr_bank (w_app w)) d - total_supply L (tr_bank (w_app w1)) d"
  using assms(2)
proof (rule SendTransfer_Inr)
  fix path q
  let ?data = "NewFungibleTokenPacketData path (sdk_IntString E (coin_Amount token)) (sdk_AccAddressString E sender) receiver"
  assume path: "full_denom_path E (w_app w) (coin_Denom token) = Inr path"
    and esc: "escrow_or_burn E (tr_bank (w_app w)) port chan path token sender = Inr (tr_bank (w_app w1))"
    and q: "sent_packet E w port chan token sender receiver th tt = Some q" "SourcePort q = port" "SourceChannel q = chan"
  from assms(4) q have p: "q = p" "SourcePort p = port" "SourceChannel p = chan" by auto
  from sent_packet_data(3) [OF assms(4) path assms(5)] assms(8)
  have ref: "refundPacketToken E (tr_bank (w_app w2)) p ?data = Inr (tr_bank (w_app w3))"
    by (auto simp: im_OnTimeoutPacket_def im_OnAcknowledgementPacket_def transfer_OnTimeoutPacket_def
        transfer_OnAcknowledgementPacket_def result_elims)
  have g: "given L (tr_bank (w_app w2)) (tr_bank (w_app w3)) (SenderChainIsSource port chan path) (GetEscrowAddress port chan)
      sender (coin_Denom token) (coin_Amount token)"
    using refund_given [OF assms(1) ref] own_denom_path [OF assms(3) path] assms(6,7) p
    by (simp add: NewFungibleTokenPacketData_def)
  from escrow_or_burn_taken [OF assms(1) esc] g show ?thesis
    by (simp add: taken_def given_def ledger_change_def split: if_splits)
qed

subsection \<open>A token that travels and returns\<close>

lemma receive_back:
  assumes "bank_ok E L" "transfer_OnRecvPacket E st p data = (None, st')" "ftpd_Denom data = GetDenomPrefix (SourcePort p) (SourceChannel p) @ path"
    "sdk_NewIntFromString E (ftpd_Amount data) = Some n" "sdk_AccAddressFromBech32 E (ftpd_Receiver data) = Some receiver"
  shows "given L (tr_bank st) (tr_bank st') True (GetEscrowAddress (DestinationPort p) (DestinationChannel p)) receiver (local_denom path) n"
proof -
  have "unescrow E st (DestinationPort p) (DestinationChannel p) receiver (local_denom path) n = (None, st')"
    using assms(2-5) by (auto simp: transfer_OnRecvPacket_def ReceiverChainIsSource_def local_denom_def Let_def split: sum.splits if_splits)
  from unescrow_given [OF assms(1) this] show ?thesis by blast
qed

lemma receive_new:
  assumes "bank_ok E L" "transfer_OnRecvPacket E st p data = (None, st')"
    "\<not> ReceiverChainIsSource (SourcePort p) (SourceChannel p) (ftpd_Denom data)"
    "sdk_NewIntFromString E (ftpd_Amount data) = Some n" "sdk_AccAddressFromBech32 E (ftpd_Receiver data) = Some receiver"
  defines "t \<equiv> ParseDenomTrace (GetDenomPrefix (DestinationPort p) (DestinationChannel p) @ ftpd_Denom data)"
  shows "given L (tr_bank st) (tr_bank st') False escrow receiver (IBCDenom t) n \<and>
    tr_traces st' = (if tr_traces st (Hash t) = None then (tr_traces st)(Hash t \<mapsto> t) else tr_traces st)"
proof -
  have "mint_to E (if \<not> HasDenomTrace st (Hash t) then SetDenomTrace st t else st) receiver (IBCDenom t) n = (None, st')"
    using assms(2-5) by (auto simp: transfer_OnRecvPacket_def t_def Let_def split: sum.splits if_splits)
  from mint_given [OF assms(1) this] show ?thesis
    by (auto simp: HasDenomTrace_def SetDenomTrace_def split: if_splits)
qed

text \<open>
  C7: a token that goes out and comes back. Chain A sends a token that it holds and is the
  source of over its end \<open>(pA, cA)\<close> of a channel, and chain B receives the packet that A sent at
  the other end \<open>(pB, cB)\<close>; later B sends an amount of the resulting voucher back over that end,
  and A receives the packet that B sent. Then A has moved the amount into the escrow account of
  the channel and later the returned amount of the very same denomination out of that account,
  with its supply untouched, and B has minted and later burnt the voucher accordingly. The
  chains must agree on how packet data and numbers are written, and B must not hold a trace of
  another path under the same hash.
\<close>

theorem transfer_there_and_back:
  assumes "bank_ok EA LA" and "bank_ok EB LB" and "json_agree EA EB (Data p)" and "json_agree EB EA (Data q)"
    and "sdk_NewIntFromString EB (sdk_IntString EA (coin_Amount token)) = Some (coin_Amount token)"
    and "sdk_NewIntFromString EA (sdk_IntString EB (coin_Amount voucher)) = Some (coin_Amount voucher)"
    and "SendTransfer EA ctx wA pA cA token sender receiver th tt = Inr wA1" and "own_denom (w_app wA) (coin_Denom token)"
    and "full_denom_path EA (w_app wA) (coin_Denom token) = Inr path" and "SenderChainIsSource pA cA path"
    and "sent_packet EA wA pA cA token sender receiver th tt = Some p" and "DestinationPort p = pB" and "DestinationChannel p = cB"
    and "json_UnmarshalPacketData EB (Data p) = Some data" and "transfer_OnRecvPacket EB stB p data = (None, stB1)"
    and "sdk_AccAddressFromBech32 EB receiver = Some rcvB"
    and "\<And>t. tr_traces stB (sha256 (GetDenomPrefix pB cB @ path)) = Some t \<Longrightarrow> GetFullDenomPath t = GetDenomPrefix pB cB @ path"
    and "tr_traces stB1 \<subseteq>\<^sub>m tr_traces (w_app wB)"
    and "coin_Denom voucher = IBCDenom (ParseDenomTrace (GetDenomPrefix pB cB @ path))"
    and "SendTransfer EB ctx' wB pB cB voucher owner receiver' th' tt' = Inr wB1"
    and "sent_packet EB wB pB cB voucher owner receiver' th' tt' = Some q" and "DestinationPort q = pA" and "DestinationChannel q = cA"
    and "json_UnmarshalPacketData EA (Data q) = Some data'" and "transfer_OnRecvPacket EA stA q data' = (None, stA1)"
    and "sdk_AccAddressFromBech32 EA receiver' = Some rcvA"
  shows "taken LA (tr_bank (w_app wA)) (tr_bank (w_app wA1)) True (GetEscrowAddress pA cA) sender (coin_Denom token) (coin_Amount token) \<and>
    given LB (tr_bank stB) (tr_bank stB1) False [] rcvB (coin_Denom voucher) (coin_Amount token) \<and>
    taken LB (tr_bank (w_app wB)) (tr_bank (w_app wB1)) False [] owner (coin_Denom voucher) (coin_Amount voucher) \<and>
    given LA (tr_bank stA) (tr_bank stA1) True (GetEscrowAddress pA cA) rcvA (coin_Denom token) (coin_Amount voucher)"
proof -
  define full where "full = GetDenomPrefix pB cB @ path"
  define t where "t = ParseDenomTrace full"
  have t: "dt_Path t \<noteq> []" "GetFullDenomPath t = full" "Hash t = sha256 full"
    using Parse_prefixed [of pB cB path] by (simp_all add: t_def full_def Hash_def)
  have p: "SourcePort p = pA" "SourceChannel p = cA"
    and d: "data = NewFungibleTokenPacketData path (sdk_IntString EA (coin_Amount token)) (sdk_AccAddressString EA sender) receiver"
    using sent_packet_data [OF assms(11,9,3)] assms(14) by auto
  from assms(7) have out: "taken LA (tr_bank (w_app wA)) (tr_bank (w_app wA1)) True (GetEscrowAddress pA cA) sender (coin_Denom token) (coin_Amount token)"
    by (rule SendTransfer_Inr) (use escrow_or_burn_taken [OF assms(1)] assms(9,10) in fastforce)
  have "\<not> ReceiverChainIsSource (SourcePort p) (SourceChannel p) (ftpd_Denom data)"
    using assms(10) by (simp add: p d SenderChainIsSource_def NewFungibleTokenPacketData_def)
  from receive_new [OF assms(2,15) this, of "coin_Amount token" rcvB "[]"] assms(5,16)
  have mint: "given LB (tr_bank stB) (tr_bank stB1) False [] rcvB (IBCDenom t) (coin_Amount token)"
    and tr: "tr_traces stB1 = (if tr_traces stB (Hash t) = None then (tr_traces stB)(Hash t \<mapsto> t) else tr_traces stB)"
    by (simp_all add: assms(12,13) d NewFungibleTokenPacketData_def t_def full_def)
  obtain t1 where t1: "tr_traces stB1 (Hash t) = Some t1" "GetFullDenomPath t1 = full"
    using tr assms(17) t(2) unfolding t(3) full_def [symmetric] by (cases "tr_traces stB (sha256 full)") auto
  from t1(1) have t1B: "tr_traces (w_app wB) (Hash t) = Some t1" using assms(18) unfolding map_le_def by (metis domI)
  have vd: "coin_Denom voucher = IBCDenom t" using assms(19) by (simp add: t_def full_def)
  from assms(20) obtain path' where path: "full_denom_path EB (w_app wB) (coin_Denom voucher) = Inr path'"
    and esc: "escrow_or_burn EB (tr_bank (w_app wB)) pB cB path' voucher owner = Inr (tr_bank (w_app wB1))"
    by (rule SendTransfer_Inr)
  from path have "DenomPathFromHash EB (w_app wB) (IBCDenom t) = Inr path'" unfolding vd full_denom_path_IBCDenom [OF t(1)] .
  from DenomPathFromHash_IBCDenom [OF t(1) this] t1B t1(2) have path': "path' = full" by simp
  have "\<not> SenderChainIsSource pB cB path'" by (simp add: path' full_def SenderChainIsSource_def ReceiverChainIsSource_def)
  with escrow_or_burn_taken [OF assms(2) esc]
  have burnt: "taken LB (tr_bank (w_app wB)) (tr_bank (w_app wB1)) False [] owner (coin_Denom voucher) (coin_Amount voucher)"
    by (simp add: taken_def)
  have q: "SourcePort q = pB" "SourceChannel q = cB"
    and d': "data' = NewFungibleTokenPacketData full (sdk_IntString EB (coin_Amount voucher)) (sdk_AccAddressString EB owner) receiver'"
    using sent_packet_data [OF assms(21) path [unfolded path'] assms(4)] assms(24) by auto
  have "ftpd_Denom data' = GetDenomPrefix (SourcePort q) (SourceChannel q) @ path" by (simp add: d' q full_def NewFungibleTokenPacketData_def)
  from receive_back [OF assms(1,25) this, of "coin_Amount voucher" rcvA] own_denom_path [OF assms(8,9)] assms(6,22,23,26)
  have "given LA (tr_bank stA) (tr_bank stA1) True (GetEscrowAddress pA cA) rcvA (coin_Denom token) (coin_Amount voucher)"
    by (simp add: d' NewFungibleTokenPacketData_def)
  with out mint burnt vd show ?thesis by simp
qed

subsection \<open>Received vouchers\<close>

text \<open>
  Vouchers can be traced. When a packet from a source chain has been received, the
  receiver has the parsed amount of the voucher denomination of the prefixed path, its supply
  has grown by as much, and looking the voucher up by its hash gives the prefixed path again
  (unless the table already had another path with the same SHA-256 hash).
\<close>

theorem received_voucher_is_traceable:
  assumes "bank_ok E L" and "transfer_OnRecvPacket E st p data = (None, st')"
    and "\<not> ReceiverChainIsSource (SourcePort p) (SourceChannel p) (ftpd_Denom data)"
    and "\<And>h t. tr_traces st h = Some t \<Longrightarrow> h = Hash t" and "tm_ValidateHash E (sha256 path)"
    and "path = GetDenomPrefix (DestinationPort p) (DestinationChannel p) @ ftpd_Denom data"
  shows "(\<exists>receiver n. sdk_AccAddressFromBech32 E (ftpd_Receiver data) = Some receiver \<and>
      sdk_NewIntFromString E (ftpd_Amount data) = Some n \<and> 0 < n \<and>
      ledger_change L (tr_bank st) (tr_bank st') (on_account receiver (local_denom path) n) (on_supply (local_denom path) n)) \<and>
    (full_denom_path E st' (local_denom path) = Inr path \<or> (\<exists>other. other \<noteq> path \<and> sha256 other = sha256 path))"
proof -
  let ?t = "ParseDenomTrace path"
  have t: "dt_Path ?t \<noteq> []" "GetFullDenomPath ?t = path" using Parse_prefixed unfolding assms(6) by blast+
  then have ld: "local_denom path = IBCDenom ?t" and h: "Hash ?t = sha256 path" by (simp_all add: local_denom_def Hash_def)
  from assms(2) obtain receiver n where r: "sdk_AccAddressFromBech32 E (ftpd_Receiver data) = Some receiver"
      "sdk_NewIntFromString E (ftpd_Amount data) = Some n" "0 < n"
    by (auto simp: transfer_OnRecvPacket_def ftpd_ValidateBasic_def split: sum.splits if_splits option.splits)
  from receive_new [OF assms(1-3) r(2,1), of "[]"]
  have g: "given L (tr_bank st) (tr_bank st') False [] receiver (IBCDenom ?t) n"
    and tr: "tr_traces st' = (if tr_traces st (Hash ?t) = None then (tr_traces st)(Hash ?t \<mapsto> ?t) else tr_traces st)"
    by (simp_all add: assms(6))
  have look: "full_denom_path E st' (IBCDenom ?t) = Inr (GetFullDenomPath t')" if "tr_traces st' (Hash ?t) = Some t'" for t'
    by (rule voucher_path [OF t(1) that]) (simp add: assms(5) h)
  have "full_denom_path E st' (local_denom path) = Inr path \<or> (\<exists>other. other \<noteq> path \<and> sha256 other = sha256 path)"
  proof (cases "tr_traces st (Hash ?t)")
    case None
    with look tr t(2) ld show ?thesis by simp
  next
    case (Some t')
    with look tr have "full_denom_path E st' (IBCDenom ?t) = Inr (GetFullDenomPath t')" by simp
    moreover from assms(4) [OF Some] h have "sha256 (GetFullDenomPath t') = sha256 path" by (simp add: Hash_def)
    ultimately show ?thesis using ld by auto
  qed
  with r g ld show ?thesis by (auto simp: given_def)
qed

end
