(* ===== verification/TransferChain.thy ===== *)
theory TransferChain
  imports TransferSafety
begin

text \<open>
  The transfer application and the core module together: a chain whose router leads to the
  transfer application. A received packet is all or nothing, with its acknowledgement telling
  which, and no run of the chain mints a denomination of its own.
\<close>

subsection \<open>Messages and the state of the application\<close>

lemma transfer_route: "route_to (transfer_router E) lookup = Inr (cbs, cap) \<Longrightarrow> cbs = transfer_module E"
  by (auto simp: route_to_def transfer_router_def GetRoute_def HasRoute_def result_elims split: if_splits)

lemma transfer_module_app:
  "OnChanOpenInit (transfer_module E) ctx w ord hops port chan c cp v = Inr w' \<Longrightarrow> w_app w' = w_app w"
  "OnChanOpenTry (transfer_module E) ctx w ord hops port chan c cp v = Inr (v', w') \<Longrightarrow> w_app w' = w_app w"
  "OnChanOpenAck (transfer_module E) ctx w port chan v = Inr w' \<Longrightarrow> w_app w' = w_app w"
  "OnChanOpenConfirm (transfer_module E) ctx w port chan = Inr w' \<Longrightarrow> w_app w' = w_app w"
  "OnChanCloseInit (transfer_module E) ctx w port chan = Inr w' \<Longrightarrow> w_app w' = w_app w"
  "OnChanCloseConfirm (transfer_module E) ctx w port chan = Inr w' \<Longrightarrow> w_app w' = w_app w"
  by (auto simp: transfer_module_def transfer_OnChanOpenInit_def transfer_OnChanOpenTry_def transfer_OnChanOpenAck_def
      transfer_ClaimCapability_def result_elims split: if_splits)

text \<open>What a message may do to the application's state.\<close>

inductive refund_effect :: "('k, 'b, 'x) transfer_env_scheme \<Rightarrow> 'b transfer_state \<Rightarrow> 'b transfer_state \<Rightarrow> bool" for E where
  no_refund: "refund_effect E st st"
| refund: "refundPacketToken E (tr_bank st) p data = Inr b \<Longrightarrow> refund_effect E st (st \<lparr> tr_bank := b \<rparr>)"

inductive app_effect :: "('k, 'b, 'x) transfer_env_scheme \<Rightarrow> 'b transfer_state \<Rightarrow> 'b transfer_state \<Rightarrow> bool" for E where
  no_effect: "app_effect E st st"
| received: "transfer_OnRecvPacket E st p data = (None, st') \<Longrightarrow> app_effect E st st'"
| refunded: "refundPacketToken E (tr_bank st) p data = Inr b \<Longrightarrow> app_effect E st (st \<lparr> tr_bank := b \<rparr>)"

lemma refund_app_effect: "refund_effect E st st' \<Longrightarrow> app_effect E st st'"
  by (erule refund_effect.cases) (auto intro: app_effect.intros)

lemma refund_keeps_traces: "refund_effect E st st' \<Longrightarrow> tr_traces st' = tr_traces st \<and> tr_port st' = tr_port st \<and> tr_params st' = tr_params st"
  by (erule refund_effect.cases) auto

lemma im_OnRecvPacket_Inr:
  assumes "im_OnRecvPacket E w p = Inr (a, w')"
  obtains ack bz where "a = Some (Success ack, bz)" "json_MarshalAck E ack = Some bz" "w_ibc w' = w_ibc w"
    "Success ack \<Longrightarrow> \<exists>data. json_UnmarshalPacketData E (Data p) = Some data \<and> transfer_OnRecvPacket E (w_app w) p data = (None, w_app w')"
proof (cases "json_UnmarshalPacketData E (Data p)")
  case None
  with assms that [of "NewErrorAcknowledgement ''cannot unmarshal ICS-20 transfer packet data''"] show thesis
    by (auto simp: im_OnRecvPacket_def NewErrorAcknowledgement_def Success_def split: option.splits)
next
  case (Some data)
  obtain err st where r: "transfer_OnRecvPacket E (w_app w) p data = (err, st)" by fastforce
  show thesis
  proof (cases err)
    case None
    with assms Some r that [of "NewResultAcknowledgement [char_of (1 :: nat)]"] show thesis
      by (auto simp: im_OnRecvPacket_def Let_def split: option.splits)
  next
    case (Some e)
    with assms \<open>json_UnmarshalPacketData E (Data p) = Some data\<close> r that [of "NewErrorAcknowledgement (go_ErrorText E e)"] show thesis
      by (auto simp: im_OnRecvPacket_def Let_def NewErrorAcknowledgement_def Success_def split: option.splits if_splits)
  qed
qed

lemma recv_callback_transfer:
  assumes "recv_callback E (transfer_module E) cap ctx p relayer w = Inr w'"
  obtains ack bz where "json_MarshalAck E ack = Some bz" "packetAcks (w_ibc w') (dst_key p) = Some (CommitAcknowledgement bz)"
    "if Success ack then \<exists>data. json_UnmarshalPacketData E (Data p) = Some data \<and> transfer_OnRecvPacket E (w_app w) p data = (None, w_app w')
     else w_app w' = w_app w"
proof -
  from assms obtain a cached where r: "im_OnRecvPacket E w p = Inr (a, cached)"
    and c: "(case a of None \<Rightarrow> Inr cached
      | Some (success, ackBytes) \<Rightarrow> let w = if success then cached else w in
          on_ibc w (WriteAcknowledgement E (w_ibc w) (Some cap) p ackBytes)) = Inr w'"
    by (auto simp: recv_callback_def transfer_module_def result_elims)
  from r show thesis
  proof (rule im_OnRecvPacket_Inr)
    fix ack bz
    assume a: "a = Some (Success ack, bz)" "json_MarshalAck E ack = Some bz"
      "Success ack \<Longrightarrow> \<exists>data. json_UnmarshalPacketData E (Data p) = Some data \<and> transfer_OnRecvPacket E (w_app w) p data = (None, w_app cached)"
    from c a(1) obtain s where s: "WriteAcknowledgement E (w_ibc (if Success ack then cached else w)) (Some cap) p bz = Inr s"
      "w' = (if Success ack then cached else w) \<lparr> w_ibc := s \<rparr>" by (auto simp: Let_def on_ibc_Inr)
    from WriteAcknowledgement_Inr [OF s(1)] s(2) have "packetAcks (w_ibc w') (dst_key p) = Some (CommitAcknowledgement bz)" by simp
    then show thesis by (rule that [OF a(2)]) (use a(3) s(2) in \<open>auto split: if_splits\<close>)
  qed
qed

text \<open>
  C9: receiving a transfer is all or nothing. When a \<open>MsgRecvPacket\<close> on a chain with the
  transfer application takes effect, an acknowledgement is stored under the packet's
  destination and sequence number; if it is a success, then the application's state is that
  after the complete receive operation, and if it is an error, then the application's state,
  bank and traces included, is what it was, whatever the operation had written before it failed.
\<close>

theorem receive_all_or_nothing:
  assumes "handle_msg E (transfer_router E) ctx w (RecvPacketMsg m) = Inr w'" and "w' \<noteq> w"
  shows "\<exists>ack bz. json_MarshalAck E ack = Some bz \<and>
     packetAcks (w_ibc w') (dst_key (mrp_Packet m)) = Some (CommitAcknowledgement bz) \<and>
     (if Success ack then \<exists>data. json_UnmarshalPacketData E (Data (mrp_Packet m)) = Some data \<and>
        transfer_OnRecvPacket E (w_app w) (mrp_Packet m) data = (None, w_app w')
      else w_app w' = w_app w)"
proof -
  from assms(1) have "msg_RecvPacket E (transfer_router E) ctx w m = Inr w'" by simp
  then show ?thesis
  proof (rule recv_msg_Inr)
    fix cbs cap s relayer lookup
    assume "route_to (transfer_router E) lookup = Inr (cbs, cap)"
      and c: "recv_callback E cbs cap ctx (mrp_Packet m) relayer (w \<lparr> w_ibc := s \<rparr>) = Inr w'"
    from transfer_route [OF this(1)] c have "recv_callback E (transfer_module E) cap ctx (mrp_Packet m) relayer (w \<lparr> w_ibc := s \<rparr>) = Inr w'" by simp
    then show ?thesis by (rule recv_callback_transfer) (rule exI, rule exI, (intro conjI; (assumption | auto split: if_splits)))
  qed (use assms(2) in blast)
qed

lemma recv_msg_transfer:
  "msg_RecvPacket E (transfer_router E) ctx w m = Inr w' \<Longrightarrow>
     w_app w' = w_app w \<or> (\<exists>data. transfer_OnRecvPacket E (w_app w) (mrp_Packet m) data = (None, w_app w'))"
proof (erule recv_msg_Inr)
  fix cbs cap s relayer lookup
  assume r: "route_to (transfer_router E) lookup = Inr (cbs, cap)"
    and c: "recv_callback E cbs cap ctx (mrp_Packet m) relayer (w \<lparr> w_ibc := s \<rparr>) = Inr w'"
  from c [unfolded transfer_route [OF r]] show ?thesis
    by (rule recv_callback_transfer) (auto split: if_splits)
qed simp

lemma recv_msg_app: "msg_RecvPacket E (transfer_router E) ctx w m = Inr w' \<Longrightarrow> app_effect E (w_app w) (w_app w')"
  by (drule recv_msg_transfer) (auto intro: app_effect.intros)

lemma timeout_app:
  assumes "im_OnTimeoutPacket E w p = Inr w'"
  shows "refund_effect E (w_app w) (w_app w')"
  using assms by (auto simp: im_OnTimeoutPacket_def transfer_OnTimeoutPacket_def result_elims intro: refund_effect.refund)

lemma ack_app:
  assumes "im_OnAcknowledgementPacket E w p a = Inr w'"
  shows "refund_effect E (w_app w) (w_app w')"
proof -
  from assms obtain ack data st where a: "transfer_OnAcknowledgementPacket E (w_app w) p data ack = Inr st" and st: "st = w_app w'"
    by (auto simp: im_OnAcknowledgementPacket_def result_elims)
  from a have "refund_effect E (w_app w) st"
    by (cases ack) (auto simp: transfer_OnAcknowledgementPacket_def result_elims intro: refund_effect.intros)
  then show ?thesis by (simp add: st)
qed

lemma timeout_verified_app:
  assumes "verify_cached w r (timeout_callback E (transfer_module E) cap ctx p relayer) = Inr w'"
  shows "refund_effect E (w_app w) (w_app w')"
  using assms
proof (rule verify_cached_Inr)
  fix s assume "timeout_callback E (transfer_module E) cap ctx p relayer (w \<lparr> w_ibc := s \<rparr>) = Inr w'"
  then obtain w1 where "im_OnTimeoutPacket E (w \<lparr> w_ibc := s \<rparr>) p = Inr w1" "w_app w' = w_app w1"
    by (auto simp: timeout_callback_def transfer_module_def result_elims on_ibc_Inr)
  with timeout_app [OF this(1)] show ?thesis by simp
qed (simp add: refund_effect.no_refund)

lemma ack_verified_app:
  assumes "verify_cached w r (\<lambda>w. OnAcknowledgementPacket (transfer_module E) ctx w p a relayer) = Inr w'"
  shows "refund_effect E (w_app w) (w_app w')"
  using assms
proof (rule verify_cached_Inr)
  fix s assume "OnAcknowledgementPacket (transfer_module E) ctx (w \<lparr> w_ibc := s \<rparr>) p a relayer = Inr w'"
  then have "im_OnAcknowledgementPacket E (w \<lparr> w_ibc := s \<rparr>) p a = Inr w'" by (simp add: transfer_module_def)
  from ack_app [OF this] show ?thesis by simp
qed (simp add: refund_effect.no_refund)

lemma chan_msg_app:
  "msg_ChannelOpenInit E (transfer_router E) ctx w m1 = Inr w' \<Longrightarrow> w_app w' = w_app w"
  "msg_ChannelOpenTry E (transfer_router E) ctx w m2 = Inr w' \<Longrightarrow> w_app w' = w_app w"
  "msg_ChannelOpenAck E (transfer_router E) ctx w m3 = Inr w' \<Longrightarrow> w_app w' = w_app w"
  "msg_ChannelOpenConfirm E (transfer_router E) ctx w m4 = Inr w' \<Longrightarrow> w_app w' = w_app w"
  "msg_ChannelCloseInit E (transfer_router E) ctx w m5 = Inr w' \<Longrightarrow> w_app w' = w_app w"
  "msg_ChannelCloseConfirm E (transfer_router E) ctx w m6 = Inr w' \<Longrightarrow> w_app w' = w_app w"
  by (auto simp: msg_ChannelOpenInit_def msg_ChannelOpenTry_def msg_ChannelOpenAck_def msg_ChannelOpenConfirm_def
      msg_ChannelCloseInit_def msg_ChannelCloseConfirm_def Let_def on_ibc_Inr result_elims dest!: transfer_route transfer_module_app)

lemma packet_msg_app:
  "msg_Timeout E (transfer_router E) ctx w m1 = Inr w' \<Longrightarrow> refund_effect E (w_app w) (w_app w')"
  "msg_TimeoutOnClose E (transfer_router E) ctx w m2 = Inr w' \<Longrightarrow> refund_effect E (w_app w) (w_app w')"
  "msg_Acknowledgement E (transfer_router E) ctx w m3 = Inr w' \<Longrightarrow> refund_effect E (w_app w) (w_app w')"
  by (auto simp: msg_Timeout_def msg_TimeoutOnClose_def msg_Acknowledgement_def Let_def result_elims
      dest!: transfer_route dest: timeout_verified_app ack_verified_app)

lemma handle_msg_app:
  assumes "handle_msg E (transfer_router E) ctx w m = Inr w'"
  shows "app_effect E (w_app w) (w_app w')"
proof -
  have same: "w_app w' = w_app w \<Longrightarrow> ?thesis" by (simp add: app_effect.no_effect)
  show ?thesis
    using assms by (cases m) (auto intro: same client_msg_app conn_msg_app chan_msg_app packet_msg_app [THEN refund_app_effect] recv_msg_app)
qed

subsection \<open>The supply of native denominations\<close>

lemma IBCDenom_prefix: "dt_Path t \<noteq> [] \<Longrightarrow> prefix ''ibc/'' (IBCDenom t)"
  by (simp add: IBCDenom_def DenomPrefix_def)

lemma given_supply:
  assumes "given L b b' source escrow receiver d n" "\<not> source \<Longrightarrow> prefix ''ibc/'' d" "\<not> prefix ''ibc/'' x"
  shows "total_supply L b' x = total_supply L b x"
  using assms by (auto simp: given_def ledger_change_def on_supply_def split: if_splits)

lemma app_effect_supply:
  assumes "app_effect E st st'" "bank_ok E L" "\<not> prefix ''ibc/'' x"
  shows "total_supply L (tr_bank st') x = total_supply L (tr_bank st) x"
  using assms(1)
proof cases
  case (received p data)
  then obtain receiver n where r: "sdk_AccAddressFromBech32 E (ftpd_Receiver data) = Some receiver"
      "sdk_NewIntFromString E (ftpd_Amount data) = Some n"
    by (auto simp: transfer_OnRecvPacket_def ftpd_ValidateBasic_def split: sum.splits if_splits option.splits)
  show ?thesis
  proof (cases "ReceiverChainIsSource (SourcePort p) (SourceChannel p) (ftpd_Denom data)")
    case True
    then obtain path where "ftpd_Denom data = GetDenomPrefix (SourcePort p) (SourceChannel p) @ path"
      by (auto simp: ReceiverChainIsSource_def prefix_def)
    from given_supply [OF receive_back [OF assms(2) received this r(2,1)] _ assms(3)] show ?thesis by simp
  next
    case False
    from receive_new [OF assms(2) received False r(2,1), of "[]"]
    have g: "given L (tr_bank st) (tr_bank st') False [] receiver
      (IBCDenom (ParseDenomTrace (GetDenomPrefix (DestinationPort p) (DestinationChannel p) @ ftpd_Denom data))) n" by blast
    show ?thesis by (rule given_supply [OF g _ assms(3)]) (rule IBCDenom_prefix [OF Parse_prefixed(1)])
  qed
next
  case (refunded p data b)
  then obtain sender n where r: "sdk_NewIntFromString E (ftpd_Amount data) = Some n"
      "sdk_AccAddressFromBech32 E (ftpd_Sender data) = Some sender"
    by (auto simp: refundPacketToken_def Let_def result_elims)
  have v: "prefix ''ibc/'' (IBCDenom (ParseDenomTrace (ftpd_Denom data)))"
    if "\<not> SenderChainIsSource (SourcePort p) (SourceChannel p) (ftpd_Denom data)"
  proof -
    from that obtain path where "ftpd_Denom data = GetDenomPrefix (SourcePort p) (SourceChannel p) @ path"
      by (auto simp: SenderChainIsSource_def ReceiverChainIsSource_def prefix_def)
    then show ?thesis using IBCDenom_prefix [OF Parse_prefixed(1)] by simp
  qed
  from given_supply [OF refund_given [OF assms(2) refunded(2) r] v assms(3)] refunded(1) show ?thesis by simp
qed simp

inductive transfer_step :: "('k, 'b, 'x) transfer_env_scheme \<Rightarrow> ('k, 'b) transfer_world \<Rightarrow> ('k, 'b) transfer_world \<Rightarrow> bool" for E where
  core_message: "handle_msg E (transfer_router E) ctx w m = Inr w' \<Longrightarrow> transfer_step E w w'"
| transfer_message: "Transfer E ctx w msg = Inr w' \<Longrightarrow> transfer_step E w w'"

lemma transfer_step_supply:
  assumes "transfer_step E w w'" "bank_ok E L" "\<not> prefix ''ibc/'' x"
  shows "total_supply L (tr_bank (w_app w')) x \<le> total_supply L (tr_bank (w_app w)) x"
  using assms(1)
proof cases
  case (core_message ctx m)
  from app_effect_supply [OF handle_msg_app [OF this] assms(2,3)] show ?thesis by simp
next
  case (transfer_message ctx msg)
  then obtain sender where "SendTransfer E ctx w (mtr_SourcePort msg) (mtr_SourceChannel msg) (mtr_Token msg) sender (mtr_Receiver msg)
        (mtr_TimeoutHeight msg) (mtr_TimeoutTimestamp msg) = Inr w'"
    by (auto simp: Transfer_def result_elims)
  then show ?thesis
  proof (rule SendTransfer_Inr)
    fix path
    assume "escrow_or_burn E (tr_bank (w_app w)) (mtr_SourcePort msg) (mtr_SourceChannel msg) path (mtr_Token msg) sender =
      Inr (tr_bank (w_app w'))"
    from escrow_or_burn_taken [OF assms(2) this] show ?thesis
      by (auto simp: taken_def ledger_change_def on_supply_def split: if_splits)
  qed
qed

text \<open>
  C10: the transfer application never mints a denomination of its own chain. Over every run of
  core messages and transfer messages on a chain with the transfer application, the supply of
  each denomination that is not a voucher (does not begin with \<^verbatim>\<open>ibc/\<close>) never grows, whatever
  counterparties send.
\<close>

theorem native_supply_never_grows:
  assumes "(transfer_step E)\<^sup>*\<^sup>* w w'" and "bank_ok E L" and "\<not> prefix ''ibc/'' d"
  shows "total_supply L (tr_bank (w_app w')) d \<le> total_supply L (tr_bank (w_app w)) d"
  using assms(1)
proof (induction rule: rtranclp_induct)
  case (step y z)
  from transfer_step_supply [OF step.hyps(2) assms(2,3)] step.IH show ?case by simp
qed simp

end
