(* ===== verification/TransferExamples.thy ===== *)
theory TransferExamples
  imports TransferChain
begin

text \<open>
  Concrete chains on which the properties of the message server and of the transfer application
  are applied: a toy bank with a ledger of balances, and a chain with one open channel.
\<close>

subsection \<open>A toy bank\<close>

type_synonym toy_bank = "(bytes \<Rightarrow> string \<Rightarrow> int) \<times> (string \<Rightarrow> int)"

definition toy_send :: "toy_bank \<Rightarrow> bytes \<Rightarrow> bytes \<Rightarrow> Coin list \<Rightarrow> error option \<times> toy_bank" where
  "toy_send b x y cs =
     (if \<not> list_all (\<lambda>c. coin_Amount c \<le> fst b x (coin_Denom c)) cs then (Some (SdkE ErrInsufficientFunds), b)
      else (None, (\<lambda>a d. fst b a d + ((if a = y then coins_amount cs d else 0) - (if a = x then coins_amount cs d else 0)), snd b)))"

definition toy_mint :: "toy_bank \<Rightarrow> string \<Rightarrow> Coin list \<Rightarrow> error option \<times> toy_bank" where
  "toy_mint b m cs = (None, (\<lambda>a d. fst b a d + (if a = m then coins_amount cs d else 0), \<lambda>d. snd b d + coins_amount cs d))"

definition toy_burn :: "toy_bank \<Rightarrow> string \<Rightarrow> Coin list \<Rightarrow> error option \<times> toy_bank" where
  "toy_burn b m cs =
     (if \<not> list_all (\<lambda>c. coin_Amount c \<le> fst b m (coin_Denom c)) cs then (Some (SdkE ErrInsufficientFunds), b)
      else (None, (\<lambda>a d. fst b a d + (if a = m then - coins_amount cs d else 0), \<lambda>d. snd b d + - coins_amount cs d)))"

definition toy_ledger :: "toy_bank ledger" where
  "toy_ledger = \<lparr> balance = fst, total_supply = snd, module_address = (\<lambda>m. m) \<rparr>"

text \<open>Two pieces of packet data, and a codec for them.\<close>

definition data_out :: FungibleTokenPacketData where
  "data_out = NewFungibleTokenPacketData ''atom'' ''5'' ''alice'' ''bob''"

definition data_back :: FungibleTokenPacketData where
  "data_back = NewFungibleTokenPacketData ''transfer/channel-7/atom'' ''5'' ''bob'' ''alice''"

definition demo_tenv :: "(unit, toy_bank) transfer_env" where
  "demo_tenv = keeper_env.extend demo_kenv
     \<lparr> tsk_Get = (\<lambda>_ _. Some 0), tsk_Authenticate = (\<lambda>_ _ _. True), tsk_Claim = (\<lambda>k _ _. Some k),
       json_MarshalPacketData = (\<lambda>d. if d = data_out then Some ''data'' else if d = data_back then Some ''back'' else None),
       json_UnmarshalPacketData = (\<lambda>b. if b = ''data'' then Some data_out else if b = ''back'' then Some data_back else None),
       json_MarshalAck = (\<lambda>a. Some ''ack''), json_UnmarshalAck = (\<lambda>_. Some (AckError ''e'')), go_ErrorText = (\<lambda>_. ''e''),
       sdk_NewIntFromString = (\<lambda>s. if s = ''5'' then Some 5 else None), sdk_IntString = (\<lambda>n. if n = 5 then ''5'' else ''''),
       sdk_AccAddressFromBech32 = (\<lambda>s. if s = '''' then None else Some s), sdk_AccAddressString = (\<lambda>a. a),
       sdk_ValidateDenom = (\<lambda>_. True), sdk_CoinIsValid = (\<lambda>c. 0 \<le> coin_Amount c),
       sdk_NewCoin = (\<lambda>d n. if 0 \<le> n then Some \<lparr> coin_Denom = d, coin_Amount = n \<rparr> else None),
       sdk_NewCoins = (\<lambda>c. if 0 \<le> coin_Amount c then Some [c] else None), auth_ModuleAccountSet = True,
       bank_SendCoins = toy_send, bank_MintCoins = toy_mint, bank_BurnCoins = toy_burn,
       bank_SendCoinsFromModuleToAccount = toy_send, bank_SendCoinsFromAccountToModule = toy_send \<rparr>"

lemma toy_bank_ok: "bank_ok demo_tenv toy_ledger"
  by (auto simp: bank_ok_def demo_tenv_def keeper_env.extend_def toy_send_def toy_mint_def toy_burn_def toy_ledger_def moves_def
      ledger_change_def coins_amount_def on_supply_def fun_eq_iff split: if_splits)

subsection \<open>A chain with one channel\<close>

definition demo_end :: "string \<Rightarrow> Channel" where
  "demo_end other = NewChannel OPEN UNORDERED (chan_NewCounterparty ''transfer'' other) [''connection-0''] ''ics20-1''"

definition demo_core :: "string \<Rightarrow> string \<Rightarrow> bytes \<Rightarrow> unit ibc_state" where
  "demo_core own other b = demo_conn_state \<lparr> nextClientSequence := Some 1, connections := [''connection-0'' \<mapsto> demo_open_conn],
     clientConnections := [''07-tendermint-0'' \<mapsto> [''connection-0'']], nextConnectionSequence := Some 1, nextChannelSequence := Some 8,
     channels := [(''transfer'', own) \<mapsto> demo_end other],
     nextSequenceSend := [(''transfer'', own) \<mapsto> 2],
     nextSequenceRecv := [(''transfer'', own) \<mapsto> 1],
     nextSequenceAck := [(''transfer'', own) \<mapsto> 1],
     packetCommitments := [(''transfer'', own, 1) \<mapsto> b] \<rparr>"

definition demo_world :: "string \<Rightarrow> string \<Rightarrow> bytes \<Rightarrow> (unit, toy_bank) transfer_world" where
  "demo_world own other b = \<lparr> w_ibc = demo_core own other b,
     w_app = \<lparr> tr_port = ''transfer'', tr_traces = Map.empty, tr_params = transfer_DefaultParams, tr_bank = (\<lambda>_ _. 100, \<lambda>_. 1000) \<rparr> \<rparr>"

lemma demo_core_inv: "ibc_inv (demo_core ''channel-0'' ''channel-7'' b)"
proof -
  let ?s = "demo_core ''channel-0'' ''channel-7'' b"
  have ids: "''07-tendermint-0'' = FormatClientIdentifier Tendermint 0" "''connection-0'' = FormatConnectionIdentifier 0"
    "''channel-0'' = FormatChannelIdentifier 0" by code_simp+
  have m: "metadata_inv (demo_tm_store \<lparr> st_clientState := Some (TMClient demo_tm2) \<rparr>)"
    unfolding inv_client_state demo_tm_store_def by (rule metadata_inv_insert [OF metadata_inv_empty])
  have st: "clientStores ?s cid = (if cid = ''07-tendermint-0'' then demo_tm_store \<lparr> st_clientState := Some (TMClient demo_tm2) \<rparr>
      else empty_client_store)" for cid
    by (simp add: demo_core_def demo_conn_state_def set_client_store_def empty_ibc_state_def)
  have "''07-tendermint-0'' \<noteq> Localhost" by code_simp
  then have "clients_inv ?s" unfolding clients_inv_def ids_in_use_def GetClientState_def st
    using m ids(1) by (auto simp: demo_core_def empty_client_store_def split: if_splits)
  moreover have "versions_ok demo_open_conn" "conn_ClientId demo_open_conn = ''07-tendermint-0''" by code_simp+
  then have "conns_inv ?s" unfolding conns_inv_def GetClientState_def st
    using ids(2) by (auto simp: demo_core_def connection_ids.ids_below_def paths_of_def)
  moreover have "chans_inv ?s" unfolding chans_inv_def
    using ids(3) by (auto simp: demo_core_def channel_ids.ids_below_def demo_end_def NewChannel_def)
  moreover have "packets_inv ?s" "counters_inv ?s"
    by (auto simp: packets_inv_def counters_inv_def demo_core_def demo_conn_state_def set_client_store_def empty_ibc_state_def)
  ultimately show ?thesis by (simp add: ibc_inv_def)
qed

lemma demo_tenv_fields:
  "tsk_Get demo_tenv = (\<lambda>_ _. Some 0)"
  "json_MarshalPacketData demo_tenv = (\<lambda>d. if d = data_out then Some ''data'' else if d = data_back then Some ''back'' else None)"
  "json_UnmarshalPacketData demo_tenv = (\<lambda>b. if b = ''data'' then Some data_out else if b = ''back'' then Some data_back else None)"
  "json_MarshalAck demo_tenv = (\<lambda>a. Some ''ack'')"
  "sdk_NewIntFromString demo_tenv = (\<lambda>s. if s = ''5'' then Some 5 else None)"
  "sdk_IntString demo_tenv = (\<lambda>n. if n = 5 then ''5'' else '''')"
  "sdk_AccAddressFromBech32 demo_tenv = (\<lambda>s. if s = '''' then None else Some s)" "sdk_AccAddressString demo_tenv = (\<lambda>a. a)"
  "sdk_NewCoin demo_tenv = (\<lambda>d n. if 0 \<le> n then Some \<lparr> coin_Denom = d, coin_Amount = n \<rparr> else None)"
  "sdk_NewCoins demo_tenv = (\<lambda>c. if 0 \<le> coin_Amount c then Some [c] else None)"
  "bank_SendCoins demo_tenv = toy_send" "bank_MintCoins demo_tenv = toy_mint" "bank_BurnCoins demo_tenv = toy_burn"
  "bank_SendCoinsFromModuleToAccount demo_tenv = toy_send" "bank_SendCoinsFromAccountToModule demo_tenv = toy_send"
  "cap_Lookup demo_tenv = (\<lambda>_ _. Some ([''ibc'', ''transfer''], 0))" "cap_Authenticate demo_tenv = (\<lambda>_ _ _. True)"
  "sdk_AccAddressOk demo_tenv = (\<lambda>_. True)" "tm_ValidateHash demo_tenv = (\<lambda>_. True)"
  by (simp_all add: demo_tenv_def keeper_env.extend_def demo_kenv_def env.extend_def lax_env_def demo_env_def ics23.extend_def)

lemma demo_core_fields:
  "GetChannel (demo_core own other b) ''transfer'' own = Some (demo_end other)"
  "chan_State (demo_end other) = OPEN" "chan_Ordering (demo_end other) = UNORDERED"
  "chan_Counterparty (demo_end other) = chan_NewCounterparty ''transfer'' other"
  "chan_Authenticate demo_tenv s c x y"
  "hop_connection (demo_core own other b) (chan_ConnectionHops (demo_end other)) = Inr demo_open_conn"
  "open_connection (demo_core own other b) (chan_ConnectionHops (demo_end other)) = Inr demo_open_conn"
  "GetPacketCommitment (demo_core own other b) ''transfer'' own 1 = b"
  "GetPacketReceipt (demo_core own other b) ''transfer'' own 1 = None"
  "GetNextSequenceSend (demo_core own other b) ''transfer'' own = Some 2"
  "packetAcks (demo_core own other b) = Map.empty" "packetCommitments (demo_core own other b) = [(''transfer'', own, 1) \<mapsto> b]"
  "channels (demo_core own other b) = [(''transfer'', own) \<mapsto> demo_end other]"
  by (simp_all add: demo_core_def demo_end_def NewChannel_def GetChannel_def chan_Authenticate_def demo_tenv_fields
      hop_connection_def open_connection_def first_hop_def GetConnection_def demo_open_conn_def NewConnectionEnd_def
      GetPacketCommitment_def GetPacketReceipt_def GetNextSequenceSend_def demo_conn_state_def set_client_store_def empty_ibc_state_def)

lemma demo_core_time: "GetTimestampAtHeight (demo_core own other b) demo_open_conn (Height 1 5) = Inr 50"
  by code_simp

lemma demo_core_recv_verify:
  assumes "v \<noteq> []"
  shows "is_ok (conn_VerifyPacketCommitment demo_tenv demo_ctx (demo_core own other b) demo_open_conn (Height 1 5) ''p''
     ''transfer'' ''channel-7'' 1 v)"
proof -
  obtain x y where "v = x # y" using assms by (cases v) auto
  moreover have "is_ok (conn_VerifyPacketCommitment demo_tenv demo_ctx (demo_core own other b) demo_open_conn (Height 1 5) ''p''
     ''transfer'' ''channel-7'' 1 (x # y))" by code_simp
  ultimately show ?thesis by simp
qed

lemma demo_core_timeout_verify:
  "is_ok (verify_not_received demo_tenv demo_ctx (demo_core own other b) demo_open_conn UNORDERED demo_out ''absent'' (Height 1 5) 0 e)"
  by code_simp

lemma demo_core_recv: "\<exists>s'. RecvPacket demo_tenv demo_ctx (demo_core ''channel-0'' ''channel-7'' b) c demo_in ''p'' (Height 1 5) = Inr s'"
proof -
  from demo_core_recv_verify [OF CommitPacket_ne, of "''channel-0''" "''channel-7''" b demo_in] obtain s1 where
    v: "conn_VerifyPacketCommitment demo_tenv demo_ctx (demo_core ''channel-0'' ''channel-7'' b) demo_open_conn (Height 1 5) ''p''
      ''transfer'' ''channel-7'' 1 (CommitPacket demo_in) = Inr s1" by (auto simp: is_ok_iff)
  have t: "\<not> GTE (Height 1 10) (Height 1 1000)" by code_simp
  from verified_frame_fields(12) [OF conn_verify_frames(5) [OF v]] have "GetPacketReceipt s1 ''transfer'' ''channel-0'' 1 = None"
    using demo_core_fields(9) [of "''channel-0''" "''channel-7''" b] by (simp add: GetPacketReceipt_def)
  with v t show ?thesis
    by (simp add: RecvPacket_def Let_def demo_in_fields demo_core_fields demo_flow_fields chan_NewCounterparty_def)
qed

lemma demo_core_timeout:
  "\<exists>s'. TimeoutPacket demo_tenv demo_ctx (demo_core ''channel-0'' ''channel-7'' (CommitPacket demo_out)) demo_out ''absent'' (Height 1 5) 0 = Inr s'"
proof -
  from demo_core_timeout_verify obtain s1 where
    v: "verify_not_received demo_tenv demo_ctx (demo_core ''channel-0'' ''channel-7'' (CommitPacket demo_out)) demo_open_conn UNORDERED demo_out
      ''absent'' (Height 1 5) 0 ErrPacketReceived = Inr s1" unfolding is_ok_iff by blast
  have t: "\<not> LT (Height 1 5) (Height 1 3)" "\<not> IsZero (Height 1 3)" by code_simp+
  from v t show ?thesis
    by (simp add: TimeoutPacket_def Let_def demo_out_fields demo_core_fields demo_core_time chan_NewCounterparty_def CommitPacket_ne)
qed

text \<open>Receiving and refunding on the toy bank.\<close>

lemma data_fields:
  "ftpd_Denom data_out = ''atom''" "ftpd_Amount data_out = ''5''" "ftpd_Sender data_out = ''alice''" "ftpd_Receiver data_out = ''bob''"
  "ftpd_Denom data_back = ''transfer/channel-7/atom''" "ftpd_Amount data_back = ''5''" "ftpd_Sender data_back = ''bob''"
  "ftpd_Receiver data_back = ''alice''" "data_back \<noteq> data_out"
  by (simp_all add: data_out_def data_back_def NewFungibleTokenPacketData_def)

lemma data_valid: "ftpd_ValidateBasic demo_tenv data_out = Inr ()" "ftpd_ValidateBasic demo_tenv data_back = Inr ()"
proof -
  have "ValidatePrefixedDenom ''atom'' = Inr ()" "ValidatePrefixedDenom ''transfer/channel-7/atom'' = Inr ()"
    "\<not> all_space ''alice''" "\<not> all_space ''bob''" by code_simp+
  then show "ftpd_ValidateBasic demo_tenv data_out = Inr ()" "ftpd_ValidateBasic demo_tenv data_back = Inr ()"
    by (simp_all add: ftpd_ValidateBasic_def data_fields demo_tenv_fields)
qed

definition rich :: "toy_bank \<Rightarrow> bool" where
  "rich b \<longleftrightarrow> (\<forall>a d. 10 \<le> fst b a d)"

lemma demo_receive_new:
  assumes "SourcePort p = ''transfer''" "SourceChannel p = ''channel-7'' \<or> SourceChannel p = ''channel-0''" "ReceiveEnabled (tr_params st)" "rich (tr_bank st)"
  shows "\<exists>st'. transfer_OnRecvPacket demo_tenv st p data_out = (None, st')"
proof -
  have "\<not> ReceiverChainIsSource ''transfer'' ''channel-7'' ''atom''" "\<not> ReceiverChainIsSource ''transfer'' ''channel-0'' ''atom''" by code_simp+
  moreover have "0 \<le> fst (tr_bank st) a d" for a d using assms(4) unfolding rich_def by (meson order_trans zero_le_numeral)
  ultimately show ?thesis using assms
    by (auto simp: transfer_OnRecvPacket_def data_valid data_fields demo_tenv_fields GetReceiveEnabled_def Let_def mint_to_def
        toy_mint_def toy_send_def coins_amount_def SetDenomTrace_def)
qed

lemma demo_receive_back:
  assumes "SourcePort p = ''transfer''" "SourceChannel p = ''channel-7''" "ReceiveEnabled (tr_params st)" "rich (tr_bank st)"
  shows "\<exists>st'. transfer_OnRecvPacket demo_tenv st p data_back = (None, st')"
proof -
  have "ReceiverChainIsSource ''transfer'' ''channel-7'' ''transfer/channel-7/atom''" by code_simp
  moreover have "5 \<le> fst (tr_bank st) a d" for a d using assms(4) unfolding rich_def by (meson order_trans numeral_le_iff semiring_norm)
  ultimately show ?thesis using assms
    by (auto simp: transfer_OnRecvPacket_def data_valid data_fields demo_tenv_fields GetReceiveEnabled_def Let_def unescrow_def
        toy_send_def coins_amount_def)
qed

lemma demo_refund:
  assumes "SourcePort p = ''transfer''" "SourceChannel p = ''channel-0''" "rich b"
  shows "\<exists>b'. refundPacketToken demo_tenv b p data_out = Inr b'"
proof -
  have "SenderChainIsSource ''transfer'' ''channel-0'' ''atom''" by code_simp
  moreover have "5 \<le> fst b a d" for a d using assms(3) unfolding rich_def by (meson order_trans numeral_le_iff semiring_norm)
  ultimately show ?thesis using assms
    by (auto simp: refundPacketToken_def data_fields demo_tenv_fields Let_def or_panic_def bank_result_def toy_send_def coins_amount_def)
qed

subsection \<open>Messages on the concrete chain\<close>

abbreviation chain_a :: "(unit, toy_bank) transfer_world" where
  "chain_a \<equiv> demo_world ''channel-0'' ''channel-7'' (CommitPacket demo_out)"

abbreviation demo_routes :: "(unit, toy_bank transfer_state) Router" where
  "demo_routes \<equiv> transfer_router demo_tenv"

definition recv_msg :: MsgRecvPacket where
  "recv_msg = \<lparr> mrp_Packet = demo_in, mrp_ProofCommitment = ''p'', mrp_ProofHeight = Height 1 5, mrp_Signer = ''relayer'' \<rparr>"

definition timeout_msg :: MsgTimeout where
  "timeout_msg = \<lparr> mto_Packet = demo_out, mto_ProofUnreceived = ''absent'', mto_ProofHeight = Height 1 5, mto_NextSequenceRecv = 0,
     mto_Signer = ''relayer'' \<rparr>"

lemma demo_route: "route_to demo_routes (LookupModuleByChannel demo_tenv s port chan) = Inr (transfer_module demo_tenv, 0)"
  by (simp add: route_to_def LookupModuleByChannel_def demo_tenv_fields GetModuleOwner_def GetRoute_def HasRoute_def transfer_router_def
      ModuleName_def)

lemma chain_a_fields:
  "w_ibc chain_a = demo_core ''channel-0'' ''channel-7'' (CommitPacket demo_out)" "ReceiveEnabled (tr_params (w_app chain_a))"
  "SendEnabled (tr_params (w_app chain_a))" "rich (tr_bank (w_app chain_a))" "tr_traces (w_app chain_a) = Map.empty"
  by (simp_all add: demo_world_def transfer_DefaultParams_def rich_def)

lemma demo_msg_recv:
  "\<exists>w1. handle_msg demo_tenv demo_routes demo_ctx chain_a (RecvPacketMsg recv_msg) = Inr w1 \<and> w1 \<noteq> chain_a \<and>
     transfer_OnRecvPacket demo_tenv (w_app chain_a) demo_in data_out = (None, w_app w1)"
proof -
  let ?s = "w_ibc chain_a"
  from demo_core_recv obtain s where s: "RecvPacket demo_tenv demo_ctx ?s (Some 0) demo_in ''p'' (Height 1 5) = Inr s"
    unfolding chain_a_fields(1) by blast
  obtain st where st: "transfer_OnRecvPacket demo_tenv (w_app chain_a) demo_in data_out = (None, st)"
    using demo_receive_new [OF _ _ chain_a_fields(2,4)] by (metis demo_in_fields(1,2))
  have fr: "channels s = channels ?s" "packetAcks s = packetAcks ?s"
    using s by (rule RecvPacket_Inr, (use verified_frame_fields(7,13) conn_verify_frames(5) in \<open>fastforce split: Order.splits\<close>))+
  have "GetChannel s ''transfer'' ''channel-0'' = Some (demo_end ''channel-7'')" "packetAcks s = Map.empty"
    using fr by (simp_all add: chain_a_fields(1) demo_core_fields GetChannel_def)
  then obtain s' where w: "WriteAcknowledgement demo_tenv s (Some 0) demo_in ''ack'' = Inr s'"
    by (simp add: WriteAcknowledgement_def Let_def demo_in_fields demo_core_fields chan_getters)
  have "Data demo_in = ''data''" by (simp add: demo_in_def NewPacket_def)
  then have "im_OnRecvPacket demo_tenv (chain_a \<lparr> w_ibc := s \<rparr>) demo_in = Inr (Some (True, ''ack''), chain_a \<lparr> w_ibc := s, w_app := st \<rparr>)"
    using st by (simp add: im_OnRecvPacket_def demo_tenv_fields Success_def NewResultAcknowledgement_def)
  then have "handle_msg demo_tenv demo_routes demo_ctx chain_a (RecvPacketMsg recv_msg) = Inr (chain_a \<lparr> w_ibc := s', w_app := st \<rparr>)"
    using s w by (simp add: msg_RecvPacket_def recv_msg_def parse_relayer_def demo_tenv_fields demo_route verify_cached_def recv_callback_def
        transfer_module_def on_ibc_def)
  moreover have "s' \<noteq> ?s"
  proof
    assume eq: "s' = ?s"
    from WriteAcknowledgement_Inr [OF w] have "packetAcks s' (dst_key demo_in) \<noteq> None" by simp
    then show False by (simp add: eq chain_a_fields(1) demo_core_fields)
  qed
  then have "chain_a \<lparr> w_ibc := s', w_app := st \<rparr> \<noteq> chain_a" by (auto dest: arg_cong [where f = w_ibc])
  moreover have "transfer_OnRecvPacket demo_tenv (w_app chain_a) demo_in data_out = (None, w_app (chain_a \<lparr> w_ibc := s', w_app := st \<rparr>))" using st by simp
  ultimately show ?thesis by blast
qed

lemma demo_msg_timeout:
  "\<exists>w1. handle_msg demo_tenv demo_routes demo_ctx chain_a (TimeoutMsg timeout_msg) = Inr w1 \<and> w1 \<noteq> chain_a"
proof -
  let ?s = "w_ibc chain_a"
  from demo_core_timeout obtain s where s: "TimeoutPacket demo_tenv demo_ctx ?s demo_out ''absent'' (Height 1 5) 0 = Inr s"
    unfolding chain_a_fields(1) by blast
  obtain b where b: "refundPacketToken demo_tenv (tr_bank (w_app chain_a)) demo_out data_out = Inr b"
    using demo_refund [OF _ _ chain_a_fields(4)] by (metis demo_out_fields(1,2))
  from verified_frame_fields(7) [OF timeout_check_frame(1) [OF s]]
  have "GetChannel s ''transfer'' ''channel-0'' = Some (demo_end ''channel-7'')" by (simp add: chain_a_fields(1) demo_core_fields GetChannel_def)
  then obtain s' where x: "TimeoutExecuted demo_tenv s (Some 0) demo_out = Inr s'"
    by (simp add: TimeoutExecuted_def Let_def demo_out_fields demo_core_fields)
  have "Data demo_out = ''data''" by (simp add: demo_out_def NewPacket_def)
  then have "im_OnTimeoutPacket demo_tenv (chain_a \<lparr> w_ibc := s \<rparr>) demo_out =
      Inr (chain_a \<lparr> w_ibc := s, w_app := w_app chain_a \<lparr> tr_bank := b \<rparr> \<rparr>)"
    using b by (simp add: im_OnTimeoutPacket_def transfer_OnTimeoutPacket_def demo_tenv_fields)
  then have "handle_msg demo_tenv demo_routes demo_ctx chain_a (TimeoutMsg timeout_msg) =
      Inr (chain_a \<lparr> w_ibc := s', w_app := w_app chain_a \<lparr> tr_bank := b \<rparr> \<rparr>)"
    using s x by (simp add: msg_Timeout_def timeout_msg_def parse_relayer_def demo_tenv_fields demo_route verify_cached_def timeout_callback_def
        transfer_module_def on_ibc_def)
  moreover have "s' \<noteq> ?s"
  proof
    assume eq: "s' = ?s"
    from TimeoutExecuted_deletes [OF x] have "packetCommitments s' (src_key demo_out) = None" by simp
    then show False by (simp add: eq chain_a_fields(1) demo_core_fields demo_out_fields)
  qed
  then have "chain_a \<lparr> w_ibc := s', w_app := w_app chain_a \<lparr> tr_bank := b \<rparr> \<rparr> \<noteq> chain_a" by (auto dest: arg_cong [where f = w_ibc])
  ultimately show ?thesis by blast
qed

lemma chain_a_bounded: "msg_bounded (w_ibc chain_a) (RecvPacketMsg recv_msg)" "msg_bounded (w_ibc chain_a) (TimeoutMsg timeout_msg)"
  by (simp_all add: msg_bounded_def chain_a_fields(1) demo_core_def demo_conn_state_def set_client_store_def recv_msg_def timeout_msg_def
      demo_in_fields demo_out_fields)

lemma chain_a_inv: "ibc_inv (w_ibc chain_a)"
  unfolding chain_a_fields(1) by (rule demo_core_inv)

subsection \<open>The properties on the concrete chain\<close>

theorem core_run_invariant_witness:
  "\<exists>w1. handle_msg demo_tenv demo_routes demo_ctx chain_a (RecvPacketMsg recv_msg) = Inr w1 \<and>
     ibc_inv (w_ibc w1) \<and> ibc_le (w_ibc chain_a) (w_ibc w1)"
proof -
  from demo_msg_recv obtain w1 where w1: "handle_msg demo_tenv demo_routes demo_ctx chain_a (RecvPacketMsg recv_msg) = Inr w1" by blast
  then have "core_step demo_tenv demo_routes chain_a w1" by (rule core_step.by_message) (rule chain_a_bounded)
  then have "(core_step demo_tenv demo_routes)\<^sup>*\<^sup>* chain_a w1" by (rule r_into_rtranclp)
  from core_run_invariant [OF this transfer_router_ok chain_a_inv] w1 show ?thesis by blast
qed

theorem message_received_once_witness:
  "\<exists>w1. handle_msg demo_tenv demo_routes demo_ctx chain_a (RecvPacketMsg recv_msg) = Inr w1 \<and> w1 \<noteq> chain_a \<and>
     handle_msg demo_tenv demo_routes demo_ctx w1 (RecvPacketMsg recv_msg) \<in> range Inl \<union> {Inr w1}"
proof -
  from demo_msg_recv obtain w1 where w1: "handle_msg demo_tenv demo_routes demo_ctx chain_a (RecvPacketMsg recv_msg) = Inr w1" "w1 \<noteq> chain_a"
    by blast
  have f: "Sequence (mrp_Packet recv_msg) \<noteq> - 1" "channels (w_ibc chain_a) (dst_chan (mrp_Packet recv_msg)) = Some (demo_end ''channel-7'')"
    "chan_Ordering (demo_end ''channel-7'') \<noteq> NONE"
    by (simp_all add: recv_msg_def demo_in_fields chain_a_fields(1) demo_core_fields)
  from message_received_once [OF transfer_router_ok chain_a_inv w1 f rtranclp.rtrancl_refl refl] w1 show ?thesis by blast
qed

theorem message_completed_once_witness:
  "\<exists>w1. handle_msg demo_tenv demo_routes demo_ctx chain_a (TimeoutMsg timeout_msg) = Inr w1 \<and> w1 \<noteq> chain_a \<and>
     handle_msg demo_tenv demo_routes demo_ctx w1 (TimeoutMsg timeout_msg) \<in> range Inl \<union> {Inr w1}"
proof -
  from demo_msg_timeout obtain w1 where w1: "handle_msg demo_tenv demo_routes demo_ctx chain_a (TimeoutMsg timeout_msg) = Inr w1" "w1 \<noteq> chain_a"
    by blast
  have p: "completion_packet (TimeoutMsg timeout_msg) = Some demo_out" by (simp add: timeout_msg_def)
  from message_completed_once [OF transfer_router_ok chain_a_inv chain_a_bounded(2) p w1 rtranclp.rtrancl_refl p refl] w1 show ?thesis by blast
qed

definition late_ack :: MsgAcknowledgement where
  "late_ack = \<lparr> mak_Packet = demo_out \<lparr> Sequence := 9 \<rparr>, mak_Acknowledgement = ''ack'', mak_ProofAcked = ''p'', mak_ProofHeight = Height 1 5,
     mak_Signer = ''relayer'' \<rparr>"

theorem ante_drops_only_noops_witness:
  "AnteHandle True False False (w_ibc chain_a) [Some (AcknowledgementMsg late_ack)] (Inr ()) = Inl (ChannelE ErrRedundantTx) \<and>
     handle_msg demo_tenv demo_routes demo_ctx chain_a (AcknowledgementMsg late_ack) \<in> range Inl \<union> {Inr chain_a}"
proof -
  have a: "AnteHandle True False False (w_ibc chain_a) [Some (AcknowledgementMsg late_ack)] (Inr ()) = Inl (ChannelE ErrRedundantTx)"
    by (simp add: AnteHandle_def late_ack_def GetPacketCommitment_def chain_a_fields(1) demo_core_fields demo_out_fields)
  from ante_drops_only_noops [OF transfer_router_ok [of demo_tenv] a]
  have "handle_msg demo_tenv demo_routes demo_ctx chain_a (AcknowledgementMsg late_ack) = Inr w' \<Longrightarrow> w' = chain_a" for w' by auto
  then show ?thesis using a by (cases "handle_msg demo_tenv demo_routes demo_ctx chain_a (AcknowledgementMsg late_ack)") auto
qed

theorem receive_all_or_nothing_witness:
  "\<exists>w1 ack bz. handle_msg demo_tenv demo_routes demo_ctx chain_a (RecvPacketMsg recv_msg) = Inr w1 \<and> json_MarshalAck demo_tenv ack = Some bz \<and>
     packetAcks (w_ibc w1) (dst_key (mrp_Packet recv_msg)) = Some (CommitAcknowledgement bz)"
proof -
  from demo_msg_recv obtain w1 where w1: "handle_msg demo_tenv demo_routes demo_ctx chain_a (RecvPacketMsg recv_msg) = Inr w1" "w1 \<noteq> chain_a"
    by blast
  from receive_all_or_nothing [OF w1] w1(1) show ?thesis by blast
qed

theorem native_supply_never_grows_witness:
  "\<exists>w1. handle_msg demo_tenv demo_routes demo_ctx chain_a (RecvPacketMsg recv_msg) = Inr w1 \<and>
     total_supply toy_ledger (tr_bank (w_app w1)) ''atom'' \<le> total_supply toy_ledger (tr_bank (w_app chain_a)) ''atom''"
proof -
  from demo_msg_recv obtain w1 where w1: "handle_msg demo_tenv demo_routes demo_ctx chain_a (RecvPacketMsg recv_msg) = Inr w1" by blast
  then have "transfer_step demo_tenv chain_a w1" by (rule transfer_step.core_message)
  then have "(transfer_step demo_tenv)\<^sup>*\<^sup>* chain_a w1" by (rule r_into_rtranclp)
  from native_supply_never_grows [OF this toy_bank_ok, of "''atom''"] w1 show ?thesis by (simp add: exI [of _ w1])
qed

subsection \<open>A transfer, its refund, and a round trip\<close>

definition five_atom :: Coin where
  "five_atom = \<lparr> coin_Denom = ''atom'', coin_Amount = 5 \<rparr>"

abbreviation chain_b :: "(unit, toy_bank) transfer_world" where
  "chain_b \<equiv> demo_world ''channel-7'' ''channel-0'' ''b''"

definition demo_trace :: DenomTrace where
  "demo_trace = ParseDenomTrace (GetDenomPrefix ''transfer'' ''channel-7'' @ ''atom'')"

definition five_voucher :: Coin where
  "five_voucher = \<lparr> coin_Denom = IBCDenom demo_trace, coin_Amount = 5 \<rparr>"

lemma demo_send_packet:
  assumes "p = NewPacket data 2 ''transfer'' own ''transfer'' other (Height 1 1000) 0" "data \<noteq> []"
    "is_ok (ChannelIdentifierValidator own)" "is_ok (ChannelIdentifierValidator other)"
  shows "\<exists>s. SendPacket demo_tenv demo_ctx (demo_core own other b) (Some 0) p = Inr s"
proof -
  have c: "tm_Status demo_ctx (clientStores (demo_core own other b) (conn_ClientId demo_open_conn)) demo_tm2 = Active"
    "tm_LatestHeight demo_tm2 = Height 1 5" "ParseClientIdentifier (conn_ClientId demo_open_conn) = Inr (Tendermint, 0)"
    "\<not> GTE (Height 1 5) (Height 1 1000)" "\<not> IsZero (Height 1 1000)" "PortIdentifierValidator ''transfer'' = Inr ()" by code_simp+
  have "GetClientState (demo_core own other b) (conn_ClientId demo_open_conn) = Some (TMClient demo_tm2)"
    by (simp add: GetClientState_def demo_core_def demo_conn_state_def set_client_store_def demo_open_conn_def NewConnectionEnd_def)
  moreover have "Packet_ValidateBasic p = Inr ()"
    using assms c(5,6) by (auto simp: Packet_ValidateBasic_def NewPacket_def is_ok_iff)
  ultimately show ?thesis
    by (simp add: SendPacket_def assms(1) NewPacket_def demo_core_fields chan_NewCounterparty_def c Let_def demo_core_time)
qed

lemma demo_channels_valid: "is_ok (ChannelIdentifierValidator ''channel-0'')" "is_ok (ChannelIdentifierValidator ''channel-7'')"
  by code_simp+

lemma demo_SendTransfer:
  assumes "w_ibc w = demo_core own other b" "SendEnabled (tr_params (w_app w))" "rich (tr_bank (w_app w))" "coin_Amount token = 5"
    "full_denom_path demo_tenv (w_app w) (coin_Denom token) = Inr path"
    "is_ok (ChannelIdentifierValidator own)" "is_ok (ChannelIdentifierValidator other)"
    "json_MarshalPacketData demo_tenv (NewFungibleTokenPacketData path ''5'' sender receiver) = Some data" "data \<noteq> []"
  shows "(\<exists>w'. SendTransfer demo_tenv demo_ctx w ''transfer'' own token sender receiver (Height 1 1000) 0 = Inr w') \<and>
    sent_packet demo_tenv w ''transfer'' own token sender receiver (Height 1 1000) 0 =
      Some (NewPacket data 2 ''transfer'' own ''transfer'' other (Height 1 1000) 0)"
proof -
  obtain s where s: "SendPacket demo_tenv demo_ctx (demo_core own other b) (Some 0)
      (NewPacket data 2 ''transfer'' own ''transfer'' other (Height 1 1000) 0) = Inr s"
    using demo_send_packet [OF refl assms(9,6,7)] by blast
  have "5 \<le> fst (tr_bank (w_app w)) a d" "0 \<le> fst (tr_bank (w_app w)) a d" for a d
    using assms(3) unfolding rich_def by (meson order_trans numeral_le_iff semiring_norm zero_le_numeral)+
  then have "\<exists>b'. escrow_or_burn demo_tenv (tr_bank (w_app w)) ''transfer'' own path token sender = Inr b'"
    using assms(4) by (cases "SenderChainIsSource ''transfer'' own path")
      (auto simp: escrow_or_burn_def or_panic_def bank_result_def demo_tenv_fields toy_send_def toy_burn_def coins_amount_def)
  then obtain b' where b': "escrow_or_burn demo_tenv (tr_bank (w_app w)) ''transfer'' own path token sender = Inr b'" by blast
  from s b' assms(1,2,4,5,8) show ?thesis
    by (simp add: SendTransfer_def sent_packet_def GetSendEnabled_def demo_core_fields chan_NewCounterparty_def demo_tenv_fields Let_def
        ftpd_GetBytes_def)
qed

lemma five_atom_path:
  "full_denom_path E st (coin_Denom five_atom) = Inr ''atom''" "own_denom st (coin_Denom five_atom)" "coin_Amount five_atom = 5"
  by (simp_all add: full_denom_path_def five_atom_def own_denom_def)

lemma demo_json: "json_agree demo_tenv demo_tenv bz"
  by (auto simp: json_agree_def demo_tenv_fields data_fields split: if_splits)

lemma demo_send_out:
  "\<exists>w1. SendTransfer demo_tenv demo_ctx chain_a ''transfer'' ''channel-0'' five_atom ''alice'' ''bob'' (Height 1 1000) 0 = Inr w1"
  "sent_packet demo_tenv chain_a ''transfer'' ''channel-0'' five_atom ''alice'' ''bob'' (Height 1 1000) 0 =
     Some (NewPacket ''data'' 2 ''transfer'' ''channel-0'' ''transfer'' ''channel-7'' (Height 1 1000) 0)"
  using demo_SendTransfer [OF chain_a_fields(1,3,4) five_atom_path(3,1) demo_channels_valid, of "''alice''" "''bob''" "''data''"]
  by (simp_all add: demo_tenv_fields data_out_def)

lemma rich_sent:
  assumes "SendTransfer demo_tenv ctx chain_a port chan five_atom sender receiver th tt = Inr w1"
  shows "rich (tr_bank (w_app w1))"
  using assms
proof (rule SendTransfer_Inr)
  fix path assume "escrow_or_burn demo_tenv (tr_bank (w_app chain_a)) port chan path five_atom sender = Inr (tr_bank (w_app w1))"
  from escrow_or_burn_taken [OF toy_bank_ok this] show ?thesis
    by (auto simp: taken_def ledger_change_def toy_ledger_def rich_def on_account_def five_atom_def demo_world_def split: if_splits)
qed

theorem refund_undoes_transfer_witness:
  "\<exists>w1 w3. SendTransfer demo_tenv demo_ctx chain_a ''transfer'' ''channel-0'' five_atom ''alice'' ''bob'' (Height 1 1000) 0 = Inr w1 \<and>
     im_OnTimeoutPacket demo_tenv w1 (NewPacket ''data'' 2 ''transfer'' ''channel-0'' ''transfer'' ''channel-7'' (Height 1 1000) 0) = Inr w3 \<and>
     balance toy_ledger (tr_bank (w_app w3)) ''alice'' ''atom'' = balance toy_ledger (tr_bank (w_app chain_a)) ''alice'' ''atom''"
proof -
  let ?p = "NewPacket ''data'' 2 ''transfer'' ''channel-0'' ''transfer'' ''channel-7'' (Height 1 1000) 0"
  from demo_send_out(1) obtain w1 where
    w1: "SendTransfer demo_tenv demo_ctx chain_a ''transfer'' ''channel-0'' five_atom ''alice'' ''bob'' (Height 1 1000) 0 = Inr w1" by blast
  obtain b where "refundPacketToken demo_tenv (tr_bank (w_app w1)) ?p data_out = Inr b"
    using demo_refund [OF _ _ rich_sent [OF w1], of ?p] by (auto simp: NewPacket_def)
  then obtain w3 where w3: "im_OnTimeoutPacket demo_tenv w1 ?p = Inr w3"
    by (simp add: im_OnTimeoutPacket_def transfer_OnTimeoutPacket_def demo_tenv_fields NewPacket_def)
  have "balance toy_ledger (tr_bank (w_app w3)) ''alice'' ''atom'' - balance toy_ledger (tr_bank (w_app w1)) ''alice'' ''atom'' =
      balance toy_ledger (tr_bank (w_app chain_a)) ''alice'' ''atom'' - balance toy_ledger (tr_bank (w_app w1)) ''alice'' ''atom''"
    by (rule refund_undoes_transfer [OF toy_bank_ok w1 five_atom_path(2) demo_send_out(2) demo_json _ _ disjI1 [OF w3], THEN conjunct1])
      (simp_all add: demo_tenv_fields five_atom_path)
  with w1 w3 show ?thesis by (metis add_diff_cancel_right' diff_add_cancel)
qed

lemma demo_path: "GetDenomPrefix ''transfer'' ''channel-7'' @ ''atom'' = ''transfer/channel-7/atom''"
  by code_simp

lemma demo_trace_facts: "dt_Path demo_trace \<noteq> []" "GetFullDenomPath demo_trace = ''transfer/channel-7/atom''"
  using Parse_prefixed [of "''transfer''" "''channel-7''" "''atom''"] by (simp_all add: demo_trace_def demo_path [simplified])

abbreviation packet_out :: Packet where
  "packet_out \<equiv> NewPacket ''data'' 2 ''transfer'' ''channel-0'' ''transfer'' ''channel-7'' (Height 1 1000) 0"

lemma demo_b_receives:
  "\<exists>st. transfer_OnRecvPacket demo_tenv (w_app chain_b) packet_out data_out = (None, st) \<and> tr_traces st = [Hash demo_trace \<mapsto> demo_trace]"
proof -
  obtain st where st: "transfer_OnRecvPacket demo_tenv (w_app chain_b) packet_out data_out = (None, st)"
    using demo_receive_new [of packet_out "w_app chain_b"] by (auto simp: NewPacket_def demo_world_def transfer_DefaultParams_def rich_def)
  have s: "\<not> ReceiverChainIsSource (SourcePort packet_out) (SourceChannel packet_out) (ftpd_Denom data_out)"
    unfolding NewPacket_def data_fields Packet.simps by code_simp
  have n: "sdk_NewIntFromString demo_tenv (ftpd_Amount data_out) = Some 5" "sdk_AccAddressFromBech32 demo_tenv (ftpd_Receiver data_out) = Some ''bob''"
    by (simp_all add: data_fields demo_tenv_fields)
  from receive_new [OF toy_bank_ok st s n, of "[]"] have "tr_traces st = [Hash demo_trace \<mapsto> demo_trace]"
    by (simp add: NewPacket_def data_fields demo_trace_def demo_world_def)
  with st show ?thesis by blast
qed

theorem transfer_there_and_back_witness:
  "\<exists>stB1 stA1. transfer_OnRecvPacket demo_tenv (w_app chain_b) packet_out data_out = (None, stB1) \<and>
     transfer_OnRecvPacket demo_tenv (w_app chain_a)
       (NewPacket ''back'' 2 ''transfer'' ''channel-7'' ''transfer'' ''channel-0'' (Height 1 1000) 0) data_back = (None, stA1) \<and>
     given toy_ledger (tr_bank (w_app chain_b)) (tr_bank stB1) False [] ''bob'' (coin_Denom five_voucher) 5 \<and>
     given toy_ledger (tr_bank (w_app chain_a)) (tr_bank stA1) True (GetEscrowAddress ''transfer'' ''channel-0'') ''alice'' ''atom'' 5"
proof -
  from demo_send_out(1) obtain w1 where
    w1: "SendTransfer demo_tenv demo_ctx chain_a ''transfer'' ''channel-0'' five_atom ''alice'' ''bob'' (Height 1 1000) 0 = Inr w1" by blast
  from demo_b_receives obtain st where st: "transfer_OnRecvPacket demo_tenv (w_app chain_b) packet_out data_out = (None, st)"
    and tr: "tr_traces st = [Hash demo_trace \<mapsto> demo_trace]" by blast
  define wB where "wB = chain_b \<lparr> w_app := w_app chain_b \<lparr> tr_traces := tr_traces st \<rparr> \<rparr>"
  let ?q = "NewPacket ''back'' 2 ''transfer'' ''channel-7'' ''transfer'' ''channel-0'' (Height 1 1000) 0"
  have wB: "w_ibc wB = demo_core ''channel-7'' ''channel-0'' ''b''" "SendEnabled (tr_params (w_app wB))" "rich (tr_bank (w_app wB))"
    "tr_traces (w_app wB) = [Hash demo_trace \<mapsto> demo_trace]"
    by (simp_all add: wB_def demo_world_def transfer_DefaultParams_def rich_def tr)
  have path: "full_denom_path demo_tenv (w_app wB) (coin_Denom five_voucher) = Inr ''transfer/channel-7/atom''"
    using voucher_path [OF demo_trace_facts(1), of "w_app wB" demo_trace demo_tenv] by (simp add: wB(4) demo_tenv_fields five_voucher_def demo_trace_facts(2))
  have amount: "coin_Amount five_voucher = 5" by (simp add: five_voucher_def)
  have ret: "(\<exists>w'. SendTransfer demo_tenv demo_ctx wB ''transfer'' ''channel-7'' five_voucher ''bob'' ''alice'' (Height 1 1000) 0 = Inr w') \<and>
      sent_packet demo_tenv wB ''transfer'' ''channel-7'' five_voucher ''bob'' ''alice'' (Height 1 1000) 0 = Some ?q"
    by (rule demo_SendTransfer [OF wB(1-3) amount path demo_channels_valid(2,1)])
      (simp_all add: demo_tenv_fields data_fields(9) data_back_def [symmetric])
  then obtain wB1 where wB1: "SendTransfer demo_tenv demo_ctx wB ''transfer'' ''channel-7'' five_voucher ''bob'' ''alice'' (Height 1 1000) 0 = Inr wB1"
    by blast
  obtain stA1 where stA1: "transfer_OnRecvPacket demo_tenv (w_app chain_a) ?q data_back = (None, stA1)"
    using demo_receive_back [OF _ _ chain_a_fields(2,4), of ?q] by (auto simp: NewPacket_def)
  have "SenderChainIsSource ''transfer'' ''channel-0'' ''atom''" by code_simp
  from transfer_there_and_back [OF toy_bank_ok toy_bank_ok demo_json demo_json _ _ w1 five_atom_path(2,1) this demo_send_out(2),
      where pB = "''transfer''" and cB = "''channel-7''" and voucher = five_voucher and data = data_out and stB = "w_app chain_b" and ?stB1.0 = st
        and rcvB = "''bob''" and wB = wB and owner = "''bob''" and receiver' = "''alice''" and th' = "Height 1 1000" and tt' = 0 and ctx' = demo_ctx
        and ?wB1.0 = wB1 and q = ?q and data' = data_back and stA = "w_app chain_a" and ?stA1.0 = stA1 and rcvA = "''alice''"]
    st wB1 ret stA1
  have "given toy_ledger (tr_bank (w_app chain_b)) (tr_bank st) False [] ''bob'' (coin_Denom five_voucher) 5 \<and>
     given toy_ledger (tr_bank (w_app chain_a)) (tr_bank stA1) True (GetEscrowAddress ''transfer'' ''channel-0'') ''alice'' ''atom'' 5"
    by (simp add: demo_tenv_fields five_atom_def five_voucher_def NewPacket_def wB(4) tr demo_trace_def demo_world_def)
  with st stA1 show ?thesis by blast
qed

theorem received_voucher_is_traceable_witness:
  "\<exists>st. transfer_OnRecvPacket demo_tenv (w_app chain_b) packet_out data_out = (None, st) \<and>
     (full_denom_path demo_tenv st (local_denom ''transfer/channel-7/atom'') = Inr ''transfer/channel-7/atom'' \<or>
      (\<exists>other. other \<noteq> ''transfer/channel-7/atom'' \<and> sha256 other = sha256 ''transfer/channel-7/atom''))"
proof -
  from demo_b_receives obtain st where st: "transfer_OnRecvPacket demo_tenv (w_app chain_b) packet_out data_out = (None, st)" by blast
  have s: "\<not> ReceiverChainIsSource (SourcePort packet_out) (SourceChannel packet_out) (ftpd_Denom data_out)"
    unfolding NewPacket_def data_fields Packet.simps by code_simp
  have "full_denom_path demo_tenv st (local_denom ''transfer/channel-7/atom'') = Inr ''transfer/channel-7/atom'' \<or>
      (\<exists>other. other \<noteq> ''transfer/channel-7/atom'' \<and> sha256 other = sha256 ''transfer/channel-7/atom'')"
    by (rule received_voucher_is_traceable [OF toy_bank_ok st s, THEN conjunct2])
      (simp_all add: demo_world_def demo_tenv_fields NewPacket_def data_fields demo_path [simplified])
  with st show ?thesis by blast
qed

end
