(* ===== verification/IcaTypes.thy ===== *)
theory IcaTypes
  imports MsgServer
begin

text \<open>
  Interchain accounts (\<^verbatim>\<open>modules/apps/27-interchain-accounts\<close>): what the host and the controller
  submodules share. From \<^verbatim>\<open>types\<close>: store keys (\<^verbatim>\<open>keys.go\<close>), versions (\<^verbatim>\<open>version.go\<close>), controller ports
  (\<^verbatim>\<open>port.go\<close>), accounts (\<^verbatim>\<open>account.go\<close>), packet data and transactions (\<^verbatim>\<open>packet.go\<close>, \<^verbatim>\<open>codec.go\<close>),
  genesis (\<^verbatim>\<open>genesis.go\<close>); from the submodules their parameters, and the keeper functions over the
  key-value store that the two keepers have in common.

  An \<^verbatim>\<open>sdk.Msg\<close> is a value of a type variable \<open>'m\<close>, the state of the other modules of the chain
  (the accounts among them) one of \<open>'c\<close>. The codec, the addresses, the account keeper and the
  iterator of the store are fields of an environment. The lemmas are the round trips of versions,
  ports, keys and accounts.
\<close>

subsection \<open>Keys (keys.go)\<close>

definition ica_ModuleName :: string where "ica_ModuleName = ''interchainaccounts''"
definition VersionPrefix :: string where "VersionPrefix = ''ics27-1''"
definition ica_PortID :: string where "ica_PortID = ''interchain-account''"
definition host_SubModuleName :: string where "host_SubModuleName = ''icahost''"
definition controller_SubModuleName :: string where "controller_SubModuleName = ''icacontroller''"
definition ActiveChannelKeyPrefix :: string where "ActiveChannelKeyPrefix = ''activeChannel''"
definition OwnerKeyPrefix :: string where "OwnerKeyPrefix = ''owner''"
definition PortKeyPrefix :: string where "PortKeyPrefix = ''port''"

definition KeyActiveChannel :: "string \<Rightarrow> bytes" where
  "KeyActiveChannel portID = ActiveChannelKeyPrefix @ ''/'' @ portID"

definition KeyOwnerAccount :: "string \<Rightarrow> bytes" where
  "KeyOwnerAccount portID = OwnerKeyPrefix @ ''/'' @ portID"

definition ica_KeyPort :: "string \<Rightarrow> bytes" where
  "ica_KeyPort portID = PortKeyPrefix @ ''/'' @ portID"

lemmas ica_prefix_defs = ActiveChannelKeyPrefix_def OwnerKeyPrefix_def PortKeyPrefix_def
lemmas ica_key_defs = KeyActiveChannel_def KeyOwnerAccount_def ica_KeyPort_def

subsection \<open>Versions (version.go)\<close>

text \<open>The delimiter is a full stop, for versions and for ports.\<close>

definition Delimiter :: char where "Delimiter = CHR ''.''"
definition DefaultMaxAddrLength :: nat where "DefaultMaxAddrLength = 128"

definition IsValidAddr :: "string \<Rightarrow> bool" where
  "IsValidAddr s = list_all is_alphanumeric s"

definition NewAppVersion :: "string \<Rightarrow> string \<Rightarrow> string" where
  "NewAppVersion versionPrefix accAddr = versionPrefix @ [Delimiter] @ accAddr"

definition ParseAddressFromVersion :: "string \<Rightarrow> string result" where
  "ParseAddressFromVersion version =
     (let s = split_on Delimiter version in
      if length s \<noteq> 2 then Inl (IcaE ica_ErrInvalidVersion) else Inr (s ! 1))"

definition ValidateAccountAddress :: "string \<Rightarrow> unit result" where
  "ValidateAccountAddress addr =
     (if \<not> IsValidAddr addr \<or> length addr = 0 \<or> length addr > DefaultMaxAddrLength
      then Inl (IcaE ErrInvalidAccountAddress) else Inr ())"

definition ica_ValidateVersion :: "string \<Rightarrow> unit result" where
  "ica_ValidateVersion version =
     (let s = split_on Delimiter version in
      if length s \<noteq> 2 then Inl (IcaE ica_ErrInvalidVersion)
      else if s ! 0 \<noteq> VersionPrefix then Inl (IcaE ica_ErrInvalidVersion)
      else ValidateAccountAddress (s ! 1))"

subsection \<open>Controller ports (port.go)\<close>

definition GeneratePortID :: "string \<Rightarrow> string \<Rightarrow> string \<Rightarrow> string result" where
  "GeneratePortID owner connectionID counterpartyConnectionID =
     (if all_space owner then Inl (IcaE ErrInvalidAccountAddress)
      else case ParseConnectionSequence connectionID of Inl e \<Rightarrow> Inl e | Inr connectionSeq \<Rightarrow>
     (case ParseConnectionSequence counterpartyConnectionID of Inl e \<Rightarrow> Inl e | Inr counterpartyConnectionSeq \<Rightarrow>
      Inr (VersionPrefix @ [Delimiter] @ show_u64 connectionSeq @ [Delimiter] @ show_u64 counterpartyConnectionSeq @ [Delimiter] @ owner)))"

definition ParseControllerConnSequence :: "string \<Rightarrow> u64 result" where
  "ParseControllerConnSequence portID =
     (let s = split_on Delimiter portID in
      if length s \<noteq> 4 then Inl (PortE ErrInvalidPort)
      else case parse_uint64 (s ! 1) of None \<Rightarrow> Inl (External ''strconv'') | Some seq \<Rightarrow> Inr seq)"

definition ParseHostConnSequence :: "string \<Rightarrow> u64 result" where
  "ParseHostConnSequence portID =
     (let s = split_on Delimiter portID in
      if length s \<noteq> 4 then Inl (PortE ErrInvalidPort)
      else case parse_uint64 (s ! 2) of None \<Rightarrow> Inl (External ''strconv'') | Some seq \<Rightarrow> Inr seq)"

subsection \<open>Packet data (packet.go)\<close>

text \<open>The type of a packet is an open enumeration; its data may be nil.\<close>

datatype ica_Type = UNSPECIFIED | EXECUTE_TX | OtherType int

record InterchainAccountPacketData =
  ipd_Type :: ica_Type
  ipd_Data :: "bytes option"
  ipd_Memo :: string

definition MaxMemoCharLength :: nat where "MaxMemoCharLength = 256"

definition ipd_ValidateBasic :: "InterchainAccountPacketData \<Rightarrow> unit result" where
  "ipd_ValidateBasic iapd =
     (if ipd_Type iapd = UNSPECIFIED then Inl (IcaE ErrInvalidOutgoingData)
      else if ipd_Data iapd = None then Inl (IcaE ErrInvalidOutgoingData)
      else if length (ipd_Memo iapd) > MaxMemoCharLength then Inl (IcaE ErrInvalidOutgoingData)
      else Inr ())"

record Any =
  any_TypeUrl :: string
  any_Value :: bytes

record CosmosTx =
  tx_Messages :: "Any list"

subsection \<open>Accounts (account.go)\<close>

record BaseAccount =
  ba_Address :: string
  ba_PubKey :: "bytes option"
  ba_AccountNumber :: u64
  ba_Sequence :: u64

record InterchainAccount =
  ia_BaseAccount :: BaseAccount
  ia_AccountOwner :: string

record interchainAccountPretty =
  iap_Address :: bytes
  iap_PubKey :: string
  iap_AccountNumber :: u64
  iap_Sequence :: u64
  iap_AccountOwner :: string

definition NewInterchainAccount :: "BaseAccount \<Rightarrow> string \<Rightarrow> InterchainAccount" where
  "NewInterchainAccount ba accountOwner = \<lparr> ia_BaseAccount = ba, ia_AccountOwner = accountOwner \<rparr>"

definition SetPubKey :: "InterchainAccount \<Rightarrow> bytes \<Rightarrow> InterchainAccount result" where
  "SetPubKey ia pubKey = Inl (IcaE ErrUnsupported)"

definition SetSequence :: "InterchainAccount \<Rightarrow> u64 \<Rightarrow> InterchainAccount result" where
  "SetSequence ia seq = Inl (IcaE ErrUnsupported)"

subsection \<open>The environment\<close>

text \<open>
  The scoped capability keeper, the JSON and binary codecs, the addresses and accounts of the
  SDK, what the modules use of a message, and the iterator over the keys of a store with a given
  prefix. \<^verbatim>\<open>GetSigners\<close> panics (\<open>None\<close>) when an address in the message is malformed;
  \<^verbatim>\<open>NewAccount\<close> sets the number of the account it is given.
\<close>

record ('k, 'm, 'c) ica_env = "'k keeper_env" +
  isk_Get :: "'k \<Rightarrow> string \<Rightarrow> Capability option"
  isk_Claim :: "'k \<Rightarrow> Capability \<Rightarrow> string \<Rightarrow> 'k option"
  ica_MarshalPacketData :: "InterchainAccountPacketData \<Rightarrow> bytes option"
  ica_UnmarshalPacketData :: "bytes \<Rightarrow> InterchainAccountPacketData option"
  ica_MarshalCosmosTx :: "CosmosTx \<Rightarrow> bytes option"
  ica_UnmarshalCosmosTx :: "bytes \<Rightarrow> CosmosTx option"
  any_New :: "'m \<Rightarrow> Any option"
  any_Unpack :: "Any \<Rightarrow> 'm option"
  ica_MarshalAck :: "Acknowledgement \<Rightarrow> bytes option"
  ica_ErrorText :: "error \<Rightarrow> string"
  msg_TypeURL :: "'m \<Rightarrow> string"
  msg_GetSigners :: "'m \<Rightarrow> bytes list option"
  msg_ValidateBasic :: "'m \<Rightarrow> unit result"
  addr_Derive :: "bytes \<Rightarrow> bytes \<Rightarrow> bytes"
  addr_String :: "bytes \<Rightarrow> string"
  addr_FromBech32 :: "string \<Rightarrow> bytes option"
  json_MarshalAccount :: "interchainAccountPretty \<Rightarrow> bytes option"
  json_UnmarshalAccount :: "bytes \<Rightarrow> interchainAccountPretty option"
  auth_NewBaseAccount :: "bytes \<Rightarrow> bytes option \<Rightarrow> u64 \<Rightarrow> u64 \<Rightarrow> BaseAccount"
  auth_NewBaseAccountWithAddress :: "bytes \<Rightarrow> BaseAccount"
  auth_ValidateBase :: "BaseAccount \<Rightarrow> unit result"
  auth_ModuleAddress :: "string \<Rightarrow> bytes option"
  auth_GetAccount :: "'c \<Rightarrow> bytes \<Rightarrow> BaseAccount option"
  auth_NewAccount :: "'c \<Rightarrow> InterchainAccount \<Rightarrow> InterchainAccount \<times> 'c"
  auth_SetAccount :: "'c \<Rightarrow> InterchainAccount \<Rightarrow> 'c"
  kv_Iterate :: "(bytes \<rightharpoonup> bytes) \<Rightarrow> bytes \<Rightarrow> (bytes \<times> bytes) list"

text \<open>\<^verbatim>\<open>GetModuleAddress\<close> may be nil, which derives like the empty address.\<close>

definition GenerateAddress :: "('k, 'm, 'c, 'x) ica_env_scheme \<Rightarrow> bytes \<Rightarrow> string \<Rightarrow> bytes" where
  "GenerateAddress E moduleAccAddr portID = addr_Derive E moduleAccAddr portID"

definition InterchainAccount_Validate :: "('k, 'm, 'c, 'x) ica_env_scheme \<Rightarrow> InterchainAccount \<Rightarrow> unit result" where
  "InterchainAccount_Validate E ia =
     (if all_space (ia_AccountOwner ia) then Inl (IcaE ErrInvalidAccountAddress)
      else auth_ValidateBase E (ia_BaseAccount ia))"

definition ia_MarshalJSON :: "('k, 'm, 'c, 'x) ica_env_scheme \<Rightarrow> InterchainAccount \<Rightarrow> bytes result" where
  "ia_MarshalJSON E ia =
     (case addr_FromBech32 E (ba_Address (ia_BaseAccount ia)) of None \<Rightarrow> Inl (External ''address'') | Some accAddr \<Rightarrow>
     (case json_MarshalAccount E \<lparr> iap_Address = accAddr, iap_PubKey = '''', iap_AccountNumber = ba_AccountNumber (ia_BaseAccount ia),
             iap_Sequence = ba_Sequence (ia_BaseAccount ia), iap_AccountOwner = ia_AccountOwner ia \<rparr> of
        None \<Rightarrow> Inl (External ''json'') | Some bz \<Rightarrow> Inr bz))"

definition ia_UnmarshalJSON :: "('k, 'm, 'c, 'x) ica_env_scheme \<Rightarrow> bytes \<Rightarrow> InterchainAccount result" where
  "ia_UnmarshalJSON E bz =
     (case json_UnmarshalAccount E bz of None \<Rightarrow> Inl (External ''json'') | Some alias \<Rightarrow>
      Inr \<lparr> ia_BaseAccount = auth_NewBaseAccount E (iap_Address alias) None (iap_AccountNumber alias) (iap_Sequence alias),
            ia_AccountOwner = iap_AccountOwner alias \<rparr>)"

text \<open>\<^verbatim>\<open>MustMarshalJSON\<close> panics on an error.\<close>

definition ipd_GetBytes :: "('k, 'm, 'c, 'x) ica_env_scheme \<Rightarrow> InterchainAccountPacketData \<Rightarrow> bytes result" where
  "ipd_GetBytes E iapd = (case ica_MarshalPacketData E iapd of None \<Rightarrow> Inl Panic | Some bz \<Rightarrow> Inr bz)"

subsection \<open>Transactions (codec.go)\<close>

text \<open>A loop that fails at the first element that fails.\<close>

fun pack_all :: "('a \<Rightarrow> 'b option) \<Rightarrow> 'a list \<Rightarrow> 'b list option" where
  "pack_all f [] = Some []"
| "pack_all f (x # xs) =
     (case f x of None \<Rightarrow> None | Some y \<Rightarrow> (case pack_all f xs of None \<Rightarrow> None | Some ys \<Rightarrow> Some (y # ys)))"

definition SerializeCosmosTx :: "('k, 'm, 'c, 'x) ica_env_scheme \<Rightarrow> 'm list \<Rightarrow> bytes result" where
  "SerializeCosmosTx E msgs =
     (case pack_all (any_New E) msgs of None \<Rightarrow> Inl (SdkE ErrPackAny) | Some msgAnys \<Rightarrow>
     (case ica_MarshalCosmosTx E \<lparr> tx_Messages = msgAnys \<rparr> of None \<Rightarrow> Inl (External ''codec'') | Some bz \<Rightarrow> Inr bz))"

definition DeserializeCosmosTx :: "('k, 'm, 'c, 'x) ica_env_scheme \<Rightarrow> bytes \<Rightarrow> 'm list result" where
  "DeserializeCosmosTx E data =
     (case ica_UnmarshalCosmosTx E data of None \<Rightarrow> Inl (External ''codec'') | Some cosmosTx \<Rightarrow>
     (case pack_all (any_Unpack E) (tx_Messages cosmosTx) of None \<Rightarrow> Inl (SdkE ErrUnpackAny) | Some msgs \<Rightarrow> Inr msgs))"

definition CosmosTx_UnpackInterfaces :: "('k, 'm, 'c, 'x) ica_env_scheme \<Rightarrow> CosmosTx \<Rightarrow> unit result" where
  "CosmosTx_UnpackInterfaces E ct =
     (case pack_all (any_Unpack E) (tx_Messages ct) of None \<Rightarrow> Inl (SdkE ErrUnpackAny) | Some _ \<Rightarrow> Inr ())"

subsection \<open>Parameters (host/types/params.go, controller/types/params.go)\<close>

text \<open>A parameter reaches its validation as a value of any type.\<close>

datatype param_value = ParamBool bool | ParamStrings "string list" | ParamOther

record host_Params =
  HostEnabled :: bool
  AllowMessages :: "string list"

record controller_Params =
  ControllerEnabled :: bool

definition host_NewParams :: "bool \<Rightarrow> string list \<Rightarrow> host_Params" where
  "host_NewParams enableHost allowMsgs = \<lparr> HostEnabled = enableHost, AllowMessages = allowMsgs \<rparr>"

definition host_DefaultParams :: host_Params where
  "host_DefaultParams = host_NewParams True []"

definition controller_NewParams :: "bool \<Rightarrow> controller_Params" where
  "controller_NewParams enableController = \<lparr> ControllerEnabled = enableController \<rparr>"

definition controller_DefaultParams :: controller_Params where
  "controller_DefaultParams = controller_NewParams True"

definition ica_validateEnabled :: "param_value \<Rightarrow> unit result" where
  "ica_validateEnabled i = (case i of ParamBool _ \<Rightarrow> Inr () | _ \<Rightarrow> Inl (External ''param''))"

definition validateAllowlist :: "param_value \<Rightarrow> unit result" where
  "validateAllowlist i =
     (case i of ParamStrings allowMsgs \<Rightarrow> if list_ex all_space allowMsgs then Inl (External ''param'') else Inr ()
      | _ \<Rightarrow> Inl (External ''param''))"

definition host_Params_Validate :: "host_Params \<Rightarrow> unit result" where
  "host_Params_Validate p = first_error [ica_validateEnabled (ParamBool (HostEnabled p)), validateAllowlist (ParamStrings (AllowMessages p))]"

definition controller_Params_Validate :: "controller_Params \<Rightarrow> unit result" where
  "controller_Params_Validate p = ica_validateEnabled (ParamBool (ControllerEnabled p))"

definition ContainsMsgType :: "('k, 'm, 'c, 'x) ica_env_scheme \<Rightarrow> string list \<Rightarrow> 'm \<Rightarrow> bool" where
  "ContainsMsgType E allowMsgs msg = list_ex (\<lambda>v. v = msg_TypeURL E msg) allowMsgs"

subsection \<open>Genesis (genesis.go)\<close>

record ActiveChannel =
  ac_PortId :: string
  ac_ChannelId :: string

record RegisteredInterchainAccount =
  ria_PortId :: string
  ria_AccountAddress :: string

record ControllerGenesisState =
  cgs_ActiveChannels :: "ActiveChannel list"
  cgs_InterchainAccounts :: "RegisteredInterchainAccount list"
  cgs_Ports :: "string list"
  cgs_Params :: controller_Params

record HostGenesisState =
  hgs_ActiveChannels :: "ActiveChannel list"
  hgs_InterchainAccounts :: "RegisteredInterchainAccount list"
  hgs_Port :: string
  hgs_Params :: host_Params

record ica_GenesisState =
  igs_Controller :: ControllerGenesisState
  igs_Host :: HostGenesisState

definition DefaultControllerGenesis :: ControllerGenesisState where
  "DefaultControllerGenesis =
     \<lparr> cgs_ActiveChannels = [], cgs_InterchainAccounts = [], cgs_Ports = [], cgs_Params = controller_DefaultParams \<rparr>"

definition DefaultHostGenesis :: HostGenesisState where
  "DefaultHostGenesis =
     \<lparr> hgs_ActiveChannels = [], hgs_InterchainAccounts = [], hgs_Port = ica_PortID, hgs_Params = host_DefaultParams \<rparr>"

definition ica_DefaultGenesis :: ica_GenesisState where
  "ica_DefaultGenesis = \<lparr> igs_Controller = DefaultControllerGenesis, igs_Host = DefaultHostGenesis \<rparr>"

definition validate_channel :: "ActiveChannel \<Rightarrow> unit result" where
  "validate_channel ch = first_error [ChannelIdentifierValidator (ac_ChannelId ch), PortIdentifierValidator (ac_PortId ch)]"

definition validate_account :: "RegisteredInterchainAccount \<Rightarrow> unit result" where
  "validate_account acc = first_error [PortIdentifierValidator (ria_PortId acc), ValidateAccountAddress (ria_AccountAddress acc)]"

definition ControllerGenesisState_Validate :: "ControllerGenesisState \<Rightarrow> unit result" where
  "ControllerGenesisState_Validate gs = first_error
     (map validate_channel (cgs_ActiveChannels gs) @ map validate_account (cgs_InterchainAccounts gs) @
      map PortIdentifierValidator (cgs_Ports gs) @ [controller_Params_Validate (cgs_Params gs)])"

definition HostGenesisState_Validate :: "HostGenesisState \<Rightarrow> unit result" where
  "HostGenesisState_Validate gs = first_error
     (map validate_channel (hgs_ActiveChannels gs) @ map validate_account (hgs_InterchainAccounts gs) @
      [PortIdentifierValidator (hgs_Port gs), host_Params_Validate (hgs_Params gs)])"

definition ica_GenesisState_Validate :: "ica_GenesisState \<Rightarrow> unit result" where
  "ica_GenesisState_Validate gs = first_error [ControllerGenesisState_Validate (igs_Controller gs), HostGenesisState_Validate (igs_Host gs)]"

subsection \<open>The keepers' state and store (keeper.go of both submodules)\<close>

text \<open>
  Each submodule has a store, parameters, and runs beside the rest of the chain. The functions
  over the store are the same in both keepers.
\<close>

record ('p, 'c) ica_state =
  ica_store :: "bytes \<rightharpoonup> bytes"
  ica_params :: 'p
  ica_rest :: 'c

type_synonym ('k, 'p, 'c) ica_world = "('k, ('p, 'c) ica_state) world"

definition GetActiveChannelID :: "('p, 'c) ica_state \<Rightarrow> string \<Rightarrow> string option" where
  "GetActiveChannelID st portID = ica_store st (KeyActiveChannel portID)"

definition SetActiveChannelID :: "('p, 'c) ica_state \<Rightarrow> string \<Rightarrow> string \<Rightarrow> ('p, 'c) ica_state" where
  "SetActiveChannelID st portID channelID = st \<lparr> ica_store := (ica_store st)(KeyActiveChannel portID \<mapsto> channelID) \<rparr>"

definition DeleteActiveChannelID :: "('p, 'c) ica_state \<Rightarrow> string \<Rightarrow> ('p, 'c) ica_state" where
  "DeleteActiveChannelID st portID = st \<lparr> ica_store := (ica_store st)(KeyActiveChannel portID := None) \<rparr>"

definition IsActiveChannel :: "('p, 'c) ica_state \<Rightarrow> string \<Rightarrow> bool" where
  "IsActiveChannel st portID = (GetActiveChannelID st portID \<noteq> None)"

definition GetInterchainAccountAddress :: "('p, 'c) ica_state \<Rightarrow> string \<Rightarrow> string option" where
  "GetInterchainAccountAddress st portID = ica_store st (KeyOwnerAccount portID)"

definition SetInterchainAccountAddress :: "('p, 'c) ica_state \<Rightarrow> string \<Rightarrow> string \<Rightarrow> ('p, 'c) ica_state" where
  "SetInterchainAccountAddress st portID address = st \<lparr> ica_store := (ica_store st)(KeyOwnerAccount portID \<mapsto> address) \<rparr>"

text \<open>A key without a separator would be an index out of range in the loops below.\<close>

definition key_part :: "bytes \<Rightarrow> string result" where
  "key_part key = (let keySplit = split_on (CHR ''/'') key in if length keySplit < 2 then Inl Panic else Inr (keySplit ! 1))"

fun for_keys :: "(string \<Rightarrow> bytes \<Rightarrow> 'a) \<Rightarrow> (bytes \<times> bytes) list \<Rightarrow> 'a list result" where
  "for_keys f [] = Inr []"
| "for_keys f ((key, val) # it) =
     (case key_part key of Inl e \<Rightarrow> Inl e | Inr portID \<Rightarrow>
     (case for_keys f it of Inl e \<Rightarrow> Inl e | Inr xs \<Rightarrow> Inr (f portID val # xs)))"

definition GetAllActiveChannels :: "('k, 'm, 'c, 'x) ica_env_scheme \<Rightarrow> ('p, 'c) ica_state \<Rightarrow> ActiveChannel list result" where
  "GetAllActiveChannels E st =
     for_keys (\<lambda>p c. \<lparr> ac_PortId = p, ac_ChannelId = c \<rparr>) (kv_Iterate E (ica_store st) ActiveChannelKeyPrefix)"

definition GetAllInterchainAccounts :: "('k, 'm, 'c, 'x) ica_env_scheme \<Rightarrow> ('p, 'c) ica_state \<Rightarrow> RegisteredInterchainAccount list result" where
  "GetAllInterchainAccounts E st =
     for_keys (\<lambda>p a. \<lparr> ria_PortId = p, ria_AccountAddress = a \<rparr>) (kv_Iterate E (ica_store st) OwnerKeyPrefix)"

definition GetAllPorts :: "('k, 'm, 'c, 'x) ica_env_scheme \<Rightarrow> ('p, 'c) ica_state \<Rightarrow> string list result" where
  "GetAllPorts E st = for_keys (\<lambda>p _. p) (kv_Iterate E (ica_store st) PortKeyPrefix)"

definition ica_IsBound :: "('k, 'm, 'c, 'x) ica_env_scheme \<Rightarrow> ('k, 'p, 'c) ica_world \<Rightarrow> string \<Rightarrow> bool" where
  "ica_IsBound E w portID = (isk_Get E (capState (w_ibc w)) (PortPath portID) \<noteq> None)"

definition ica_ClaimCapability :: "('k, 'm, 'c, 'x) ica_env_scheme \<Rightarrow> ('k, 'p, 'c) ica_world \<Rightarrow> Capability \<Rightarrow> string \<Rightarrow>
    ('k, 'p, 'c) ica_world result" where
  "ica_ClaimCapability E w cap name =
     (case isk_Claim E (capState (w_ibc w)) cap name of
        None \<Rightarrow> Inl (External ''capability'')
      | Some k \<Rightarrow> Inr (w \<lparr> w_ibc := w_ibc w \<lparr> capState := k \<rparr> \<rparr>))"

definition ica_BindPort :: "('k, 'm, 'c, 'x) ica_env_scheme \<Rightarrow> ('k, 'p, 'c) ica_world \<Rightarrow> string \<Rightarrow> (Capability \<times> ('k, 'p, 'c) ica_world) result" where
  "ica_BindPort E w portID =
     (let w = w \<lparr> w_app := w_app w \<lparr> ica_store := (ica_store (w_app w))(ica_KeyPort portID \<mapsto> [char_of (1 :: nat)]) \<rparr> \<rparr> in
      case BindPort E (w_ibc w) portID of Inl e \<Rightarrow> Inl e | Inr (cap, s) \<Rightarrow> Inr (cap, w \<lparr> w_ibc := s \<rparr>))"

text \<open>The connection of a channel and the sequences in a controller port (handshake.go of both submodules).\<close>

definition validateControllerPortParams :: "'k ibc_state \<Rightarrow> string list \<Rightarrow> u64 \<Rightarrow> u64 \<Rightarrow> unit result" where
  "validateControllerPortParams s connectionHops connectionSeq counterpartyConnectionSeq =
     (case first_hop connectionHops of Inl e \<Rightarrow> Inl e | Inr connectionID \<Rightarrow>
     (case GetConnection s connectionID of None \<Rightarrow> Inl (ConnectionE ErrConnectionNotFound) | Some connection \<Rightarrow>
     (case ParseConnectionSequence connectionID of Inl e \<Rightarrow> Inl e | Inr connSeq \<Rightarrow>
     (case ParseConnectionSequence (cp_ConnectionId (conn_Counterparty connection)) of Inl e \<Rightarrow> Inl e | Inr counterpartyConnSeq \<Rightarrow>
      if connSeq \<noteq> connectionSeq then Inl (ConnectionE ErrInvalidConnection)
      else if counterpartyConnSeq \<noteq> counterpartyConnectionSeq then Inl (ConnectionE ErrInvalidConnection)
      else Inr ()))))"

subsection \<open>Versions and ports are read as they are written\<close>

lemma delimiter_fresh [simp]: "Delimiter \<notin> set VersionPrefix" "Delimiter \<notin> set (show_u64 n)"
proof -
  show "Delimiter \<notin> set VersionPrefix" by (simp add: Delimiter_def VersionPrefix_def)
  have "\<not> is_digit Delimiter" by (simp add: Delimiter_def is_digit_def)
  then show "Delimiter \<notin> set (show_u64 n)" using list_all_digit_show_u64 [of n] by (auto simp: list_all_iff)
qed

lemma address_no_delimiter: "IsValidAddr a \<Longrightarrow> Delimiter \<notin> set a"
  by (auto simp: IsValidAddr_def list_all_iff Delimiter_def is_alphanumeric_def)

lemma split_version: "Delimiter \<notin> set p \<Longrightarrow> Delimiter \<notin> set a \<Longrightarrow> split_on Delimiter (NewAppVersion p a) = [p, a]"
  by (simp add: NewAppVersion_def split_on_append split_on_no_sep)

lemma ParseAddressFromVersion_New:
  "Delimiter \<notin> set p \<Longrightarrow> Delimiter \<notin> set a \<Longrightarrow> ParseAddressFromVersion (NewAppVersion p a) = Inr a"
  by (simp add: ParseAddressFromVersion_def split_version)

lemma ValidateAccountAddress_Inr:
  "ValidateAccountAddress a = Inr () \<longleftrightarrow> IsValidAddr a \<and> a \<noteq> [] \<and> length a \<le> DefaultMaxAddrLength"
  by (auto simp: ValidateAccountAddress_def)

lemma length_two: "length xs = 2 \<longleftrightarrow> (\<exists>a b. xs = [a, b])"
  by (auto simp: length_Suc_conv numeral_eq_Suc)

text \<open>The versions that validate are exactly the printed ones.\<close>

lemma ica_ValidateVersion_Inr:
  "ica_ValidateVersion v = Inr () \<longleftrightarrow> (\<exists>a. v = NewAppVersion VersionPrefix a \<and> ValidateAccountAddress a = Inr ())"
proof
  assume v: "ica_ValidateVersion v = Inr ()"
  then obtain a where s: "split_on Delimiter v = [VersionPrefix, a]" and a: "ValidateAccountAddress a = Inr ()"
    by (auto simp: ica_ValidateVersion_def Let_def length_two split: if_splits)
  have "v = join_with Delimiter (split_on Delimiter v)" by (simp add: join_split)
  then have "v = NewAppVersion VersionPrefix a" by (simp add: s NewAppVersion_def)
  with a show "\<exists>a. v = NewAppVersion VersionPrefix a \<and> ValidateAccountAddress a = Inr ()" by blast
next
  assume "\<exists>a. v = NewAppVersion VersionPrefix a \<and> ValidateAccountAddress a = Inr ()"
  then obtain a where a: "v = NewAppVersion VersionPrefix a" "ValidateAccountAddress a = Inr ()" by blast
  then have "Delimiter \<notin> set a" using address_no_delimiter by (simp add: ValidateAccountAddress_Inr)
  with a show "ica_ValidateVersion v = Inr ()" by (simp add: ica_ValidateVersion_def split_version)
qed

lemma GeneratePortID_Inr:
  "GeneratePortID owner c h = Inr p \<longleftrightarrow> \<not> all_space owner \<and>
     (\<exists>i j. ParseConnectionSequence c = Inr i \<and> ParseConnectionSequence h = Inr j \<and>
        p = VersionPrefix @ [Delimiter] @ show_u64 i @ [Delimiter] @ show_u64 j @ [Delimiter] @ owner)"
  by (auto simp: GeneratePortID_def result_elims)

lemma split_port:
  "Delimiter \<notin> set owner \<Longrightarrow>
   split_on Delimiter (VersionPrefix @ [Delimiter] @ show_u64 i @ [Delimiter] @ show_u64 j @ [Delimiter] @ owner) =
     [VersionPrefix, show_u64 i, show_u64 j, owner]"
  by (simp add: split_on_append split_on_no_sep)

lemma GeneratePortID_parse:
  assumes "GeneratePortID owner c h = Inr p" "Delimiter \<notin> set owner"
  shows "ParseControllerConnSequence p = ParseConnectionSequence c \<and> ParseHostConnSequence p = ParseConnectionSequence h"
proof -
  from assms(1) obtain i j where p: "ParseConnectionSequence c = Inr i" "ParseConnectionSequence h = Inr j"
    "p = VersionPrefix @ [Delimiter] @ show_u64 i @ [Delimiter] @ show_u64 j @ [Delimiter] @ owner"
    unfolding GeneratePortID_Inr by blast
  then have "split_on Delimiter p = [VersionPrefix, show_u64 i, show_u64 j, owner]"
    by (simp only: split_port [OF assms(2)])
  with p(1,2) show ?thesis by (simp add: ParseControllerConnSequence_def ParseHostConnSequence_def parse_show_u64)
qed

text \<open>Whatever the owner looks like, the port determines it and both connections.\<close>

lemma GeneratePortID_inject:
  assumes "GeneratePortID owner c h = Inr p" "GeneratePortID owner' c' h' = Inr p"
  shows "owner' = owner \<and> ParseConnectionSequence c' = ParseConnectionSequence c \<and> ParseConnectionSequence h' = ParseConnectionSequence h"
proof -
  from assms obtain i j i' j' where p: "ParseConnectionSequence c = Inr i" "ParseConnectionSequence h = Inr j"
    "ParseConnectionSequence c' = Inr i'" "ParseConnectionSequence h' = Inr j'"
    and eq: "VersionPrefix @ Delimiter # show_u64 i' @ Delimiter # show_u64 j' @ Delimiter # owner' =
             VersionPrefix @ Delimiter # show_u64 i @ Delimiter # show_u64 j @ Delimiter # owner"
    unfolding GeneratePortID_Inr by auto
  from eq have "i' = i \<and> j' = j \<and> owner' = owner" by (simp add: append_sep_inject)
  with p show ?thesis by simp
qed

text \<open>An owner with a delimiter gets a port that neither side of the handshake can read.\<close>

lemma GeneratePortID_unreadable:
  assumes "GeneratePortID owner c h = Inr p" "Delimiter \<in> set owner"
  shows "ParseControllerConnSequence p = Inl (PortE ErrInvalidPort) \<and> ParseHostConnSequence p = Inl (PortE ErrInvalidPort)"
proof -
  from assms(1) obtain i j where
    p: "p = VersionPrefix @ [Delimiter] @ show_u64 i @ [Delimiter] @ show_u64 j @ [Delimiter] @ owner"
    unfolding GeneratePortID_Inr by blast
  have "0 < count_list owner Delimiter" using assms(2) by (simp add: count_list_0_iff neq0_conv [symmetric] del: neq0_conv)
  then have "length (split_on Delimiter p) \<noteq> 4" by (simp add: p split_on_append split_on_length)
  then show ?thesis by (simp add: ParseControllerConnSequence_def ParseHostConnSequence_def)
qed

subsection \<open>Accounts and transactions survive their encodings\<close>

lemma pack_all_unpack:
  "pack_all f xs = Some ys \<Longrightarrow> (\<And>x y. f x = Some y \<Longrightarrow> g y = Some x) \<Longrightarrow> pack_all g ys = Some xs"
  by (induction f xs arbitrary: ys rule: pack_all.induct) (auto split: option.splits)

lemma Deserialize_Serialize:
  assumes "\<And>m a. any_New E m = Some a \<Longrightarrow> any_Unpack E a = Some m"
    and "\<And>tx bz. ica_MarshalCosmosTx E tx = Some bz \<Longrightarrow> ica_UnmarshalCosmosTx E bz = Some tx"
    and "SerializeCosmosTx E msgs = Inr bz"
  shows "DeserializeCosmosTx E bz = Inr msgs"
proof -
  from assms(3) obtain anys where a: "pack_all (any_New E) msgs = Some anys" "ica_MarshalCosmosTx E \<lparr> tx_Messages = anys \<rparr> = Some bz"
    by (auto simp: SerializeCosmosTx_def split: option.splits)
  from pack_all_unpack [OF a(1) assms(1)] have "pack_all (any_Unpack E) anys = Some msgs" .
  with assms(2) [OF a(2)] show ?thesis by (simp add: DeserializeCosmosTx_def)
qed

lemma account_json:
  assumes "\<And>v bz. json_MarshalAccount E v = Some bz \<Longrightarrow> json_UnmarshalAccount E bz = Some v"
    and "\<And>a n s. auth_NewBaseAccount E a None n s = \<lparr> ba_Address = addr_String E a, ba_PubKey = None, ba_AccountNumber = n, ba_Sequence = s \<rparr>"
    and "\<And>b a. addr_FromBech32 E b = Some a \<Longrightarrow> addr_String E a = b"
    and "ia_MarshalJSON E ia = Inr bz" "ba_PubKey (ia_BaseAccount ia) = None"
  shows "ia_UnmarshalJSON E bz = Inr ia"
proof -
  from assms(4) obtain a where a: "addr_FromBech32 E (ba_Address (ia_BaseAccount ia)) = Some a"
    "json_MarshalAccount E \<lparr> iap_Address = a, iap_PubKey = '''', iap_AccountNumber = ba_AccountNumber (ia_BaseAccount ia),
             iap_Sequence = ba_Sequence (ia_BaseAccount ia), iap_AccountOwner = ia_AccountOwner ia \<rparr> = Some bz"
    by (auto simp: ia_MarshalJSON_def split: option.splits)
  from assms(1) [OF a(2)] assms(3) [OF a(1)] assms(5) show ?thesis by (simp add: ia_UnmarshalJSON_def assms(2))
qed

subsection \<open>The store\<close>

lemma ica_key_inject [simp]:
  "KeyActiveChannel p = KeyActiveChannel q \<longleftrightarrow> p = q" "KeyOwnerAccount p = KeyOwnerAccount q \<longleftrightarrow> p = q"
  "ica_KeyPort p = ica_KeyPort q \<longleftrightarrow> p = q"
  by (simp_all add: ica_key_defs)

lemma ica_key_disjoint [simp]:
  "KeyActiveChannel p \<noteq> KeyOwnerAccount q" "KeyOwnerAccount q \<noteq> KeyActiveChannel p"
  "KeyActiveChannel p \<noteq> ica_KeyPort q" "ica_KeyPort q \<noteq> KeyActiveChannel p"
  "KeyOwnerAccount p \<noteq> ica_KeyPort q" "ica_KeyPort q \<noteq> KeyOwnerAccount p"
  by (simp_all add: ica_key_defs ica_prefix_defs)

lemma active_channel_simps [simp]:
  "GetActiveChannelID (SetActiveChannelID st p c) q = (if q = p then Some c else GetActiveChannelID st q)"
  "GetActiveChannelID (DeleteActiveChannelID st p) q = (if q = p then None else GetActiveChannelID st q)"
  "GetActiveChannelID (SetInterchainAccountAddress st p a) q = GetActiveChannelID st q"
  by (simp_all add: GetActiveChannelID_def SetActiveChannelID_def DeleteActiveChannelID_def SetInterchainAccountAddress_def)

lemma account_address_simps [simp]:
  "GetInterchainAccountAddress (SetInterchainAccountAddress st p a) q = (if q = p then Some a else GetInterchainAccountAddress st q)"
  "GetInterchainAccountAddress (SetActiveChannelID st p c) q = GetInterchainAccountAddress st q"
  "GetInterchainAccountAddress (DeleteActiveChannelID st p) q = GetInterchainAccountAddress st q"
  by (simp_all add: GetInterchainAccountAddress_def SetActiveChannelID_def DeleteActiveChannelID_def SetInterchainAccountAddress_def)

text \<open>
  What the documentation of the store says of its iterator: it visits each entry under the prefix
  once. A store is well-formed when its keys are those of the keepers, for ports without a slash,
  which valid port identifiers are.
\<close>

definition iterator_ok :: "('k, 'm, 'c, 'x) ica_env_scheme \<Rightarrow> (bytes \<rightharpoonup> bytes) \<Rightarrow> bool" where
  "iterator_ok E m \<longleftrightarrow>
     (\<forall>p. distinct (map fst (kv_Iterate E m p)) \<and> set (kv_Iterate E m p) = {(k, v). m k = Some v \<and> prefix p k})"

definition store_ok :: "(bytes \<rightharpoonup> bytes) \<Rightarrow> bool" where
  "store_ok m \<longleftrightarrow> (\<forall>k v. m k = Some v \<longrightarrow> (\<exists>p. no_slash p \<and>
     (k = KeyActiveChannel p \<or> k = KeyOwnerAccount p \<or> k = ica_KeyPort p \<and> v = [char_of (1 :: nat)])))"

lemma key_part_keys [simp]:
  assumes "no_slash p"
  shows "key_part (KeyActiveChannel p) = Inr p" "key_part (KeyOwnerAccount p) = Inr p" "key_part (ica_KeyPort p) = Inr p"
  using assms by (simp_all add: key_part_def ica_key_defs ica_prefix_defs split_on_no_sep)

lemma prefix_keys [simp]:
  "prefix ActiveChannelKeyPrefix (KeyActiveChannel p)" "\<not> prefix ActiveChannelKeyPrefix (KeyOwnerAccount p)"
  "\<not> prefix ActiveChannelKeyPrefix (ica_KeyPort p)"
  "\<not> prefix OwnerKeyPrefix (KeyActiveChannel p)" "prefix OwnerKeyPrefix (KeyOwnerAccount p)" "\<not> prefix OwnerKeyPrefix (ica_KeyPort p)"
  "\<not> prefix PortKeyPrefix (KeyActiveChannel p)" "\<not> prefix PortKeyPrefix (KeyOwnerAccount p)" "prefix PortKeyPrefix (ica_KeyPort p)"
  by (simp_all add: ica_key_defs ica_prefix_defs)

lemma for_keys_Inr:
  assumes "\<And>k v. (k, v) \<in> set it \<Longrightarrow> \<exists>p. no_slash p \<and> k = key p"
    and "\<And>p. no_slash p \<Longrightarrow> key_part (key p) = Inr p"
  shows "for_keys f it = Inr (map (\<lambda>(k, v). f (projr (key_part k)) v) it)"
  using assms(1)
proof (induction f it rule: for_keys.induct)
  case (2 f k v it)
  from "2.prems" obtain p where "no_slash p" "k = key p" by (metis list.set_intros(1))
  then have k: "key_part k = Inr p" using assms(2) by simp
  have "for_keys f it = Inr (map (\<lambda>(k, v). f (projr (key_part k)) v) it)" by (rule "2.IH" [OF k]) (auto intro: "2.prems")
  with k show ?case by simp
qed simp

text \<open>The three listings of a well-formed store.\<close>

lemma iterated_keys:
  assumes "iterator_ok E m" "store_ok m"
  shows "(k, v) \<in> set (kv_Iterate E m ActiveChannelKeyPrefix) \<longleftrightarrow> m k = Some v \<and> (\<exists>p. no_slash p \<and> k = KeyActiveChannel p)"
    "(k, v) \<in> set (kv_Iterate E m OwnerKeyPrefix) \<longleftrightarrow> m k = Some v \<and> (\<exists>p. no_slash p \<and> k = KeyOwnerAccount p)"
    "(k, v) \<in> set (kv_Iterate E m PortKeyPrefix) \<longleftrightarrow> m k = Some v \<and> (\<exists>p. no_slash p \<and> k = ica_KeyPort p)"
proof -
  have s: "set (kv_Iterate E m q) = {(k, v). m k = Some v \<and> prefix q k}" for q
    using assms(1) by (simp add: iterator_ok_def)
  have o: "\<exists>p. no_slash p \<and> (k = KeyActiveChannel p \<or> k = KeyOwnerAccount p \<or> k = ica_KeyPort p)" if "m k = Some v"
    using assms(2) that unfolding store_ok_def by blast
  show "(k, v) \<in> set (kv_Iterate E m ActiveChannelKeyPrefix) \<longleftrightarrow> m k = Some v \<and> (\<exists>p. no_slash p \<and> k = KeyActiveChannel p)"
    "(k, v) \<in> set (kv_Iterate E m OwnerKeyPrefix) \<longleftrightarrow> m k = Some v \<and> (\<exists>p. no_slash p \<and> k = KeyOwnerAccount p)"
    "(k, v) \<in> set (kv_Iterate E m PortKeyPrefix) \<longleftrightarrow> m k = Some v \<and> (\<exists>p. no_slash p \<and> k = ica_KeyPort p)"
    using o unfolding s by auto
qed

lemma for_keys_listing:
  assumes it: "\<And>k v. (k, v) \<in> set it \<longleftrightarrow> m k = Some v \<and> (\<exists>p. no_slash p \<and> k = key p)"
    and kp: "\<And>p. no_slash p \<Longrightarrow> key_part (key p) = Inr p"
  shows "\<exists>xs. for_keys f it = Inr xs \<and> set xs = {f p v |p v. no_slash p \<and> m (key p) = Some v}"
proof (intro exI conjI)
  show "for_keys f it = Inr (map (\<lambda>(k, v). f (projr (key_part k)) v) it)" by (rule for_keys_Inr [of it key, OF _ kp]) (simp_all add: it)
  show "set (map (\<lambda>(k, v). f (projr (key_part k)) v) it) = {f p v |p v. no_slash p \<and> m (key p) = Some v}" (is "?A = ?B")
  proof
    show "?A \<subseteq> ?B" using it kp by fastforce
    show "?B \<subseteq> ?A"
    proof
      fix x assume "x \<in> ?B"
      then obtain p v where x: "x = f p v" "no_slash p" "m (key p) = Some v" by blast
      then have "(key p, v) \<in> set it" using it by blast
      moreover have "x = (\<lambda>(k, v). f (projr (key_part k)) v) (key p, v)" using x kp by simp
      ultimately show "x \<in> ?A" unfolding set_map by (rule rev_image_eqI)
    qed
  qed
qed

lemma store_ok_no_slash:
  assumes "store_ok m"
  shows "m (KeyActiveChannel p) = Some v \<Longrightarrow> no_slash p" "m (KeyOwnerAccount p) = Some v \<Longrightarrow> no_slash p"
    "m (ica_KeyPort p) = Some v \<Longrightarrow> no_slash p \<and> v = [char_of (1 :: nat)]"
  using assms unfolding store_ok_def by fastforce+

lemma GetAll_spec:
  assumes "iterator_ok E (ica_store st)" "store_ok (ica_store st)"
  shows "\<exists>xs. GetAllActiveChannels E st = Inr xs \<and>
      set xs = {\<lparr> ac_PortId = p, ac_ChannelId = c \<rparr> |p c. GetActiveChannelID st p = Some c}"
    "\<exists>xs. GetAllInterchainAccounts E st = Inr xs \<and>
      set xs = {\<lparr> ria_PortId = p, ria_AccountAddress = a \<rparr> |p a. GetInterchainAccountAddress st p = Some a}"
    "\<exists>xs. GetAllPorts E st = Inr xs \<and> set xs = {p. ica_store st (ica_KeyPort p) \<noteq> None}"
proof -
  note ns = store_ok_no_slash [OF assms(2)]
  let ?m = "ica_store st"
  have c: "no_slash p \<and> ?m (KeyActiveChannel p) = Some v \<longleftrightarrow> GetActiveChannelID st p = Some v" for p v
    using ns(1) by (auto simp: GetActiveChannelID_def)
  have a: "no_slash p \<and> ?m (KeyOwnerAccount p) = Some v \<longleftrightarrow> GetInterchainAccountAddress st p = Some v" for p v
    using ns(2) by (auto simp: GetInterchainAccountAddress_def)
  from for_keys_listing [OF iterated_keys(1) [OF assms], of "\<lambda>p c. \<lparr> ac_PortId = p, ac_ChannelId = c \<rparr>"]
  show "\<exists>xs. GetAllActiveChannels E st = Inr xs \<and> set xs = {\<lparr> ac_PortId = p, ac_ChannelId = c \<rparr> |p c. GetActiveChannelID st p = Some c}"
    by (simp add: GetAllActiveChannels_def c)
  from for_keys_listing [OF iterated_keys(2) [OF assms], of "\<lambda>p a. \<lparr> ria_PortId = p, ria_AccountAddress = a \<rparr>"]
  show "\<exists>xs. GetAllInterchainAccounts E st = Inr xs \<and>
      set xs = {\<lparr> ria_PortId = p, ria_AccountAddress = a \<rparr> |p a. GetInterchainAccountAddress st p = Some a}"
    by (simp add: GetAllInterchainAccounts_def a)
  from for_keys_listing [OF iterated_keys(3) [OF assms], of "\<lambda>p _. p"]
  show "\<exists>xs. GetAllPorts E st = Inr xs \<and> set xs = {p. ica_store st (ica_KeyPort p) \<noteq> None}"
    using ns(3) by (auto simp: GetAllPorts_def)
qed

text \<open>Loading the listings of a store into another.\<close>

definition load_channels :: "('p, 'c) ica_state \<Rightarrow> ActiveChannel list \<Rightarrow> ('p, 'c) ica_state" where
  "load_channels st chs = foldl (\<lambda>st ch. SetActiveChannelID st (ac_PortId ch) (ac_ChannelId ch)) st chs"

definition load_accounts :: "('p, 'c) ica_state \<Rightarrow> RegisteredInterchainAccount list \<Rightarrow> ('p, 'c) ica_state" where
  "load_accounts st accs = foldl (\<lambda>st acc. SetInterchainAccountAddress st (ria_PortId acc) (ria_AccountAddress acc)) st accs"

lemma load_channels_get:
  assumes "\<And>ch. ch \<in> set chs \<Longrightarrow> g (ac_PortId ch) = Some (ac_ChannelId ch)"
  shows "GetActiveChannelID (load_channels st chs) p = (if \<exists>ch \<in> set chs. ac_PortId ch = p then g p else GetActiveChannelID st p)"
  using assms unfolding load_channels_def by (induction chs arbitrary: st) auto

lemma load_accounts_get:
  assumes "\<And>acc. acc \<in> set accs \<Longrightarrow> g (ria_PortId acc) = Some (ria_AccountAddress acc)"
  shows "GetInterchainAccountAddress (load_accounts st accs) p =
    (if \<exists>acc \<in> set accs. ria_PortId acc = p then g p else GetInterchainAccountAddress st p)"
  using assms unfolding load_accounts_def by (induction accs arbitrary: st) auto

lemma load_channels_frame [simp]: "GetInterchainAccountAddress (load_channels st chs) p = GetInterchainAccountAddress st p"
  unfolding load_channels_def by (induction chs arbitrary: st) simp_all

lemma load_accounts_frame [simp]: "GetActiveChannelID (load_accounts st accs) p = GetActiveChannelID st p"
  unfolding load_accounts_def by (induction accs arbitrary: st) simp_all

end
