(* ===== verification/IcaHost.thy ===== *)
theory IcaHost
  imports IcaTypes
begin

text \<open>
  The host submodule of interchain accounts (\<^verbatim>\<open>modules/apps/27-interchain-accounts/host\<close>): its keeper
  (\<^verbatim>\<open>account.go\<close>, \<^verbatim>\<open>handshake.go\<close>, \<^verbatim>\<open>relay.go\<close>, \<^verbatim>\<open>genesis.go\<close>, \<^verbatim>\<open>params.go\<close>) and the callbacks of
  \<^verbatim>\<open>ibc_module.go\<close>.

  The router of messages is a parameter: it gives for a message its handler, which runs in a
  world, reports an error or none, and leaves a world in both cases. \<^verbatim>\<open>executeTx\<close> runs the
  messages on a copy of the world and keeps the copy only when all of them succeed.
\<close>

type_synonym ('k, 'c) host_world = "('k, host_Params, 'c) ica_world"
type_synonym ('k, 'm, 'c) msg_router = "'m \<Rightarrow> (ctx \<Rightarrow> ('k, 'c) host_world \<Rightarrow> error option \<times> ('k, 'c) host_world) option"

subsection \<open>Parameters (params.go)\<close>

definition IsHostEnabled :: "(host_Params, 'c) ica_state \<Rightarrow> bool" where
  "IsHostEnabled st = HostEnabled (ica_params st)"

definition GetAllowMessages :: "(host_Params, 'c) ica_state \<Rightarrow> string list" where
  "GetAllowMessages st = AllowMessages (ica_params st)"

definition host_GetParams :: "(host_Params, 'c) ica_state \<Rightarrow> host_Params" where
  "host_GetParams st = host_NewParams (IsHostEnabled st) (GetAllowMessages st)"

definition query_host_Params :: "(host_Params, 'c) ica_state \<Rightarrow> host_Params result" where
  "query_host_Params st = Inr (host_GetParams st)"

definition host_SetParams :: "(host_Params, 'c) ica_state \<Rightarrow> host_Params \<Rightarrow> (host_Params, 'c) ica_state" where
  "host_SetParams st params = st \<lparr> ica_params := params \<rparr>"

subsection \<open>Accounts (account.go)\<close>

definition RegisterInterchainAccount :: "('k, 'm, 'c, 'x) ica_env_scheme \<Rightarrow> (host_Params, 'c) ica_state \<Rightarrow> bytes \<Rightarrow> string \<Rightarrow>
    (host_Params, 'c) ica_state" where
  "RegisterInterchainAccount E st accAddr controllerPortID =
     (if auth_GetAccount E (ica_rest st) accAddr \<noteq> None then st
      else
        let interchainAccount = NewInterchainAccount (auth_NewBaseAccountWithAddress E accAddr) controllerPortID in
        case auth_NewAccount E (ica_rest st) interchainAccount of (interchainAccount, c) \<Rightarrow>
        let c = auth_SetAccount E c interchainAccount in
        SetInterchainAccountAddress (st \<lparr> ica_rest := c \<rparr>) controllerPortID (ba_Address (ia_BaseAccount interchainAccount)))"

subsection \<open>The handshake (handshake.go)\<close>

text \<open>The address derived for a controller port.\<close>

definition account_address :: "('k, 'm, 'c, 'x) ica_env_scheme \<Rightarrow> string \<Rightarrow> bytes" where
  "account_address E portID =
     GenerateAddress E (case auth_ModuleAddress E ica_ModuleName of None \<Rightarrow> [] | Some a \<Rightarrow> a) portID"

definition host_OnChanOpenTry :: "('k, 'm, 'c, 'x) ica_env_scheme \<Rightarrow> ('k, 'c) host_world \<Rightarrow> Order \<Rightarrow> string list \<Rightarrow> string \<Rightarrow> string \<Rightarrow> Capability \<Rightarrow>
    chan_counterparty \<Rightarrow> string \<Rightarrow> (string \<times> ('k, 'c) host_world) result" where
  "host_OnChanOpenTry E w order connectionHops portID channelID chanCap counterparty counterpartyVersion =
     (if order \<noteq> ORDERED then Inl (ChannelE ErrInvalidChannelOrdering)
      else if portID \<noteq> ica_PortID then Inl (PortE ErrInvalidPort)
      else case ParseHostConnSequence (ch_PortId counterparty) of Inl e \<Rightarrow> Inl e | Inr connSequence \<Rightarrow>
     (case ParseControllerConnSequence (ch_PortId counterparty) of Inl e \<Rightarrow> Inl e | Inr counterpartyConnSequence \<Rightarrow>
     (case validateControllerPortParams (w_ibc w) connectionHops connSequence counterpartyConnSequence of Inl e \<Rightarrow> Inl e | Inr _ \<Rightarrow>
      if counterpartyVersion \<noteq> VersionPrefix then Inl (IcaE ica_ErrInvalidVersion)
      else case ica_ClaimCapability E w chanCap (ChannelCapabilityPath portID channelID) of Inl e \<Rightarrow> Inl e | Inr w \<Rightarrow>
      let accAddr = account_address E (ch_PortId counterparty);
          w = w \<lparr> w_app := RegisterInterchainAccount E (w_app w) accAddr (ch_PortId counterparty) \<rparr>;
          version = NewAppVersion VersionPrefix (addr_String E accAddr) in
      Inr (version, w))))"

definition host_OnChanOpenConfirm :: "('k, 'c) host_world \<Rightarrow> string \<Rightarrow> string \<Rightarrow> ('k, 'c) host_world result" where
  "host_OnChanOpenConfirm w portID channelID = Inr (w \<lparr> w_app := SetActiveChannelID (w_app w) portID channelID \<rparr>)"

definition host_OnChanCloseConfirm :: "('k, 'c) host_world \<Rightarrow> string \<Rightarrow> string \<Rightarrow> ('k, 'c) host_world result" where
  "host_OnChanCloseConfirm w portID channelID = Inr (w \<lparr> w_app := DeleteActiveChannelID (w_app w) portID \<rparr>)"

subsection \<open>Executing transactions (relay.go)\<close>

fun check_signers :: "('k, 'm, 'c, 'x) ica_env_scheme \<Rightarrow> string \<Rightarrow> bytes list \<Rightarrow> unit result" where
  "check_signers E interchainAccountAddr [] = Inr ()"
| "check_signers E interchainAccountAddr (signer # signers) =
     (if interchainAccountAddr \<noteq> addr_String E signer then Inl (SdkE ErrUnauthorized)
      else check_signers E interchainAccountAddr signers)"

fun check_msgs :: "('k, 'm, 'c, 'x) ica_env_scheme \<Rightarrow> string \<Rightarrow> string list \<Rightarrow> 'm list \<Rightarrow> unit result" where
  "check_msgs E interchainAccountAddr allowMsgs [] = Inr ()"
| "check_msgs E interchainAccountAddr allowMsgs (msg # msgs) =
     (if \<not> ContainsMsgType E allowMsgs msg then Inl (SdkE ErrUnauthorized)
      else case msg_GetSigners E msg of None \<Rightarrow> Inl Panic | Some signers \<Rightarrow>
     (case check_signers E interchainAccountAddr signers of Inl e \<Rightarrow> Inl e | Inr _ \<Rightarrow>
      check_msgs E interchainAccountAddr allowMsgs msgs))"

definition AuthenticateTx :: "('k, 'm, 'c, 'x) ica_env_scheme \<Rightarrow> (host_Params, 'c) ica_state \<Rightarrow> 'm list \<Rightarrow> string \<Rightarrow> unit result" where
  "AuthenticateTx E st msgs portID =
     (case GetInterchainAccountAddress st portID of None \<Rightarrow> Inl (IcaE ErrInterchainAccountNotFound) | Some interchainAccountAddr \<Rightarrow>
      check_msgs E interchainAccountAddr (GetAllowMessages st) msgs)"

definition executeMsg :: "('k, 'm, 'c) msg_router \<Rightarrow> ctx \<Rightarrow> ('k, 'c) host_world \<Rightarrow> 'm \<Rightarrow> error option \<times> ('k, 'c) host_world" where
  "executeMsg msgRouter ctx w msg =
     (case msgRouter msg of None \<Rightarrow> (Some (IcaE ica_ErrInvalidRoute), w) | Some handler \<Rightarrow> handler ctx w)"

fun execute_msgs :: "('k, 'm, 'c, 'x) ica_env_scheme \<Rightarrow> ('k, 'm, 'c) msg_router \<Rightarrow> ctx \<Rightarrow> ('k, 'c) host_world \<Rightarrow> 'm list \<Rightarrow>
    error option \<times> ('k, 'c) host_world" where
  "execute_msgs E msgRouter ctx cached [] = (None, cached)"
| "execute_msgs E msgRouter ctx cached (msg # msgs) =
     (case msg_ValidateBasic E msg of Inl e \<Rightarrow> (Some e, cached) | Inr _ \<Rightarrow>
     (case executeMsg msgRouter ctx cached msg of
        (Some e, cached) \<Rightarrow> (Some e, cached)
      | (None, cached) \<Rightarrow> execute_msgs E msgRouter ctx cached msgs))"

definition executeTx :: "('k, 'm, 'c, 'x) ica_env_scheme \<Rightarrow> ('k, 'm, 'c) msg_router \<Rightarrow> ctx \<Rightarrow> ('k, 'c) host_world \<Rightarrow> string \<Rightarrow> 'm list \<Rightarrow>
    error option \<times> ('k, 'c) host_world" where
  "executeTx E msgRouter ctx w sourcePort msgs =
     (case AuthenticateTx E (w_app w) msgs sourcePort of Inl e \<Rightarrow> (Some e, w) | Inr _ \<Rightarrow>
     (case execute_msgs E msgRouter ctx w msgs of
        (Some e, cached) \<Rightarrow> (Some e, w)
      | (None, cached) \<Rightarrow> (None, cached)))"

definition host_OnRecvPacket :: "('k, 'm, 'c, 'x) ica_env_scheme \<Rightarrow> ('k, 'm, 'c) msg_router \<Rightarrow> ctx \<Rightarrow> ('k, 'c) host_world \<Rightarrow> Packet \<Rightarrow>
    error option \<times> ('k, 'c) host_world" where
  "host_OnRecvPacket E msgRouter ctx w packet =
     (case ica_UnmarshalPacketData E (Data packet) of None \<Rightarrow> (Some (IcaE ErrUnknownDataType), w) | Some data \<Rightarrow>
     (case ipd_Type data of
        EXECUTE_TX \<Rightarrow>
          (case DeserializeCosmosTx E (case ipd_Data data of None \<Rightarrow> [] | Some bz \<Rightarrow> bz) of Inl e \<Rightarrow> (Some e, w) | Inr msgs \<Rightarrow>
           executeTx E msgRouter ctx w (SourcePort packet) msgs)
      | _ \<Rightarrow> (Some (IcaE ErrUnknownDataType), w)))"

subsection \<open>Genesis (genesis.go)\<close>

definition host_InitGenesis :: "('k, 'm, 'c, 'x) ica_env_scheme \<Rightarrow> ('k, 'c) host_world \<Rightarrow> HostGenesisState \<Rightarrow> ('k, 'c) host_world result" where
  "host_InitGenesis E w state =
     (case (if \<not> ica_IsBound E w (hgs_Port state) then
              (case ica_BindPort E w (hgs_Port state) of Inl e \<Rightarrow> Inl e | Inr (cap, w) \<Rightarrow>
               ica_ClaimCapability E w cap (PortPath (hgs_Port state)))
            else Inr w) of
        Inl _ \<Rightarrow> Inl Panic
      | Inr w \<Rightarrow>
        let st = load_accounts (load_channels (w_app w) (hgs_ActiveChannels state)) (hgs_InterchainAccounts state) in
        Inr (w \<lparr> w_app := host_SetParams st (hgs_Params state) \<rparr>))"

definition host_ExportGenesis :: "('k, 'm, 'c, 'x) ica_env_scheme \<Rightarrow> (host_Params, 'c) ica_state \<Rightarrow> HostGenesisState result" where
  "host_ExportGenesis E st =
     (case GetAllActiveChannels E st of Inl e \<Rightarrow> Inl e | Inr chs \<Rightarrow>
     (case GetAllInterchainAccounts E st of Inl e \<Rightarrow> Inl e | Inr accs \<Rightarrow>
      Inr \<lparr> hgs_ActiveChannels = chs, hgs_InterchainAccounts = accs, hgs_Port = ica_PortID, hgs_Params = host_GetParams st \<rparr>))"

subsection \<open>Callbacks (ibc_module.go)\<close>

text \<open>The error a module reports is the text of its acknowledgement; a panic is none.\<close>

definition host_im_OnRecvPacket :: "('k, 'm, 'c, 'x) ica_env_scheme \<Rightarrow> ('k, 'm, 'c) msg_router \<Rightarrow> ctx \<Rightarrow> ('k, 'c) host_world \<Rightarrow> Packet \<Rightarrow>
    ((bool \<times> bytes) option \<times> ('k, 'c) host_world) result" where
  "host_im_OnRecvPacket E msgRouter ctx w packet =
     (let answer = (\<lambda>ack w. case ica_MarshalAck E ack of None \<Rightarrow> Inl Panic | Some bz \<Rightarrow> Inr (Some (Success ack, bz), w)) in
      if \<not> IsHostEnabled (w_app w) then answer (NewErrorAcknowledgement (ica_ErrorText E (IcaE ErrHostSubModuleDisabled))) w
      else case host_OnRecvPacket E msgRouter ctx w packet of
             (None, w) \<Rightarrow> answer (NewResultAcknowledgement [char_of (1 :: nat)]) w
           | (Some e, w) \<Rightarrow> if e = Panic then Inl Panic else answer (NewErrorAcknowledgement (ica_ErrorText E e)) w)"

definition host_im_OnChanOpenTry :: "('k, 'm, 'c, 'x) ica_env_scheme \<Rightarrow> ('k, 'c) host_world \<Rightarrow> Order \<Rightarrow> string list \<Rightarrow> string \<Rightarrow> string \<Rightarrow> Capability \<Rightarrow>
    chan_counterparty \<Rightarrow> string \<Rightarrow> (string \<times> ('k, 'c) host_world) result" where
  "host_im_OnChanOpenTry E w order connectionHops portID channelID chanCap counterparty counterpartyVersion =
     (if \<not> IsHostEnabled (w_app w) then Inl (IcaE ErrHostSubModuleDisabled)
      else host_OnChanOpenTry E w order connectionHops portID channelID chanCap counterparty counterpartyVersion)"

definition host_im_OnChanOpenConfirm :: "('k, 'c) host_world \<Rightarrow> string \<Rightarrow> string \<Rightarrow> ('k, 'c) host_world result" where
  "host_im_OnChanOpenConfirm w portID channelID =
     (if \<not> IsHostEnabled (w_app w) then Inl (IcaE ErrHostSubModuleDisabled) else host_OnChanOpenConfirm w portID channelID)"

definition host_module :: "('k, 'm, 'c, 'x) ica_env_scheme \<Rightarrow> ('k, 'm, 'c) msg_router \<Rightarrow> ('k, (host_Params, 'c) ica_state) IBCModule" where
  "host_module E msgRouter =
     \<lparr> OnChanOpenInit = (\<lambda>ctx w order hops port chan cap cp v. Inl (IcaE ErrInvalidChannelFlow)),
       OnChanOpenTry = (\<lambda>ctx w order hops port chan cap cp v. host_im_OnChanOpenTry E w order hops port chan cap cp v),
       OnChanOpenAck = (\<lambda>ctx w port chan v. Inl (IcaE ErrInvalidChannelFlow)),
       OnChanOpenConfirm = (\<lambda>ctx w port chan. host_im_OnChanOpenConfirm w port chan),
       OnChanCloseInit = (\<lambda>ctx w port chan. Inl (SdkE ErrInvalidRequest)),
       OnChanCloseConfirm = (\<lambda>ctx w port chan. host_OnChanCloseConfirm w port chan),
       OnRecvPacket = (\<lambda>ctx w p relayer. host_im_OnRecvPacket E msgRouter ctx w p),
       OnAcknowledgementPacket = (\<lambda>ctx w p a relayer. Inl (IcaE ErrInvalidChannelFlow)),
       OnTimeoutPacket = (\<lambda>ctx w p relayer. Inl (IcaE ErrInvalidChannelFlow)) \<rparr>"

end
