(* ===== verification/IcaController.thy ===== *)
theory IcaController
  imports IcaTypes
begin

text \<open>
  The controller submodule of interchain accounts
  (\<^verbatim>\<open>modules/apps/27-interchain-accounts/controller\<close>): its keeper (\<^verbatim>\<open>account.go\<close>, \<^verbatim>\<open>handshake.go\<close>,
  \<^verbatim>\<open>relay.go\<close>, \<^verbatim>\<open>genesis.go\<close>, \<^verbatim>\<open>params.go\<close>) and its callbacks, which wrap those of an underlying
  authentication module (\<^verbatim>\<open>ibc_module.go\<close>).

  The underlying module is a parameter: an \<^verbatim>\<open>IBCModule\<close> over the same world. The handler that the
  message router has for \<^verbatim>\<open>MsgChannelOpenInit\<close> is one too; on a chain it is the core module's, and
  it is instantiated with that in the theorems.
\<close>

type_synonym ('k, 'c) ctl_world = "('k, controller_Params, 'c) ica_world"

subsection \<open>Parameters (params.go)\<close>

definition IsControllerEnabled :: "(controller_Params, 'c) ica_state \<Rightarrow> bool" where
  "IsControllerEnabled st = ControllerEnabled (ica_params st)"

definition controller_GetParams :: "(controller_Params, 'c) ica_state \<Rightarrow> controller_Params" where
  "controller_GetParams st = controller_NewParams (IsControllerEnabled st)"

definition query_controller_Params :: "(controller_Params, 'c) ica_state \<Rightarrow> controller_Params result" where
  "query_controller_Params st = Inr (controller_GetParams st)"

definition controller_SetParams :: "(controller_Params, 'c) ica_state \<Rightarrow> controller_Params \<Rightarrow> (controller_Params, 'c) ica_state" where
  "controller_SetParams st params = st \<lparr> ica_params := params \<rparr>"

subsection \<open>Registering an account (account.go)\<close>

definition InitInterchainAccount :: "('k, 'm, 'c, 'x) ica_env_scheme \<Rightarrow>
    (MsgChannelOpenInit \<Rightarrow> (ctx \<Rightarrow> ('k, 'c) ctl_world \<Rightarrow> ('k, 'c) ctl_world result) option) \<Rightarrow> ctx \<Rightarrow> ('k, 'c) ctl_world \<Rightarrow>
    string \<Rightarrow> string \<Rightarrow> string \<Rightarrow> ('k, 'c) ctl_world result" where
  "InitInterchainAccount E msgRouter ctx w connectionID counterpartyConnectionID owner =
     (case GeneratePortID owner connectionID counterpartyConnectionID of Inl e \<Rightarrow> Inl e | Inr portID \<Rightarrow>
      if IsBound E (w_ibc w) portID then Inl (IcaE ErrPortAlreadyBound)
      else case ica_BindPort E w portID of Inl e \<Rightarrow> Inl e | Inr (cap, w) \<Rightarrow>
     (case ica_ClaimCapability E w cap (PortPath portID) of Inl e \<Rightarrow> Inl e | Inr w \<Rightarrow>
      let msg = NewMsgChannelOpenInit portID VersionPrefix ORDERED [connectionID] ica_PortID ica_ModuleName in
      case msgRouter msg of None \<Rightarrow> Inl Panic | Some handler \<Rightarrow> handler ctx w))"

subsection \<open>The handshake (handshake.go)\<close>

definition controller_OnChanOpenInit :: "('k, 'c) ctl_world \<Rightarrow> Order \<Rightarrow> string list \<Rightarrow> string \<Rightarrow> chan_counterparty \<Rightarrow> string \<Rightarrow> unit result" where
  "controller_OnChanOpenInit w order connectionHops portID counterparty version =
     (if order \<noteq> ORDERED then Inl (ChannelE ErrInvalidChannelOrdering)
      else case ParseControllerConnSequence portID of Inl e \<Rightarrow> Inl e | Inr connSequence \<Rightarrow>
     (case ParseHostConnSequence portID of Inl e \<Rightarrow> Inl e | Inr counterpartyConnSequence \<Rightarrow>
     (case validateControllerPortParams (w_ibc w) connectionHops connSequence counterpartyConnSequence of Inl e \<Rightarrow> Inl e | Inr _ \<Rightarrow>
      if ch_PortId counterparty \<noteq> ica_PortID then Inl (PortE ErrInvalidPort)
      else if version \<noteq> VersionPrefix then Inl (IcaE ica_ErrInvalidVersion)
      else case GetActiveChannelID (w_app w) portID of Some activeChannelID \<Rightarrow> Inl (PortE ErrInvalidPort) | None \<Rightarrow> Inr ())))"

definition controller_OnChanOpenAck :: "('k, 'c) ctl_world \<Rightarrow> string \<Rightarrow> string \<Rightarrow> string \<Rightarrow> ('k, 'c) ctl_world result" where
  "controller_OnChanOpenAck w portID channelID counterpartyVersion =
     (if portID = ica_PortID then Inl (PortE ErrInvalidPort)
      else case ica_ValidateVersion counterpartyVersion of Inl e \<Rightarrow> Inl e | Inr _ \<Rightarrow>
      let w = w \<lparr> w_app := SetActiveChannelID (w_app w) portID channelID \<rparr> in
      case ParseAddressFromVersion counterpartyVersion of Inl e \<Rightarrow> Inl e | Inr accAddr \<Rightarrow>
      Inr (w \<lparr> w_app := SetInterchainAccountAddress (w_app w) portID accAddr \<rparr>))"

definition controller_OnChanCloseConfirm :: "('k, 'c) ctl_world \<Rightarrow> string \<Rightarrow> string \<Rightarrow> ('k, 'c) ctl_world result" where
  "controller_OnChanCloseConfirm w portID channelID = Inr (w \<lparr> w_app := DeleteActiveChannelID (w_app w) portID \<rparr>)"

subsection \<open>Sending transactions (relay.go)\<close>

text \<open>\<^verbatim>\<open>^uint64(0) >> 1\<close>, the time that never comes.\<close>

definition ica_timeoutTimestamp :: u64 where
  "ica_timeoutTimestamp = drop_bit 1 (- 1)"

definition createOutgoingPacket :: "('k, 'm, 'c, 'x) ica_env_scheme \<Rightarrow> ctx \<Rightarrow> ('k, 'c) ctl_world \<Rightarrow> string \<Rightarrow> string \<Rightarrow> string \<Rightarrow> string \<Rightarrow>
    Capability option \<Rightarrow> InterchainAccountPacketData \<Rightarrow> (u64 \<times> ('k, 'c) ctl_world) result" where
  "createOutgoingPacket E ctx w sourcePort sourceChannel destinationPort destinationChannel chanCap icaPacketData =
     (case ipd_ValidateBasic icaPacketData of Inl e \<Rightarrow> Inl e | Inr _ \<Rightarrow>
     (case GetNextSequenceSend (w_ibc w) sourcePort sourceChannel of None \<Rightarrow> Inl (ChannelE ErrSequenceSendNotFound) | Some sequence \<Rightarrow>
     (case ipd_GetBytes E icaPacketData of Inl e \<Rightarrow> Inl e | Inr data \<Rightarrow>
      let packet = NewPacket data sequence sourcePort sourceChannel destinationPort destinationChannel ZeroHeight ica_timeoutTimestamp in
      case SendPacket E ctx (w_ibc w) chanCap packet of Inl e \<Rightarrow> Inl e | Inr s \<Rightarrow> Inr (Sequence packet, w \<lparr> w_ibc := s \<rparr>))))"

definition TrySendTx :: "('k, 'm, 'c, 'x) ica_env_scheme \<Rightarrow> ctx \<Rightarrow> ('k, 'c) ctl_world \<Rightarrow> Capability option \<Rightarrow> string \<Rightarrow> InterchainAccountPacketData \<Rightarrow>
    (u64 \<times> ('k, 'c) ctl_world) result" where
  "TrySendTx E ctx w chanCap portID icaPacketData =
     (case GetActiveChannelID (w_app w) portID of None \<Rightarrow> Inl (IcaE ErrActiveChannelNotFound) | Some activeChannelID \<Rightarrow>
     (case GetChannel (w_ibc w) portID activeChannelID of None \<Rightarrow> Inl (ChannelE ErrChannelNotFound) | Some sourceChannelEnd \<Rightarrow>
      createOutgoingPacket E ctx w portID activeChannelID (ch_PortId (chan_Counterparty sourceChannelEnd))
        (ch_ChannelId (chan_Counterparty sourceChannelEnd)) chanCap icaPacketData))"

definition controller_OnTimeoutPacket :: "('k, 'c) ctl_world \<Rightarrow> Packet \<Rightarrow> ('k, 'c) ctl_world result" where
  "controller_OnTimeoutPacket w packet = Inr (w \<lparr> w_app := DeleteActiveChannelID (w_app w) (SourcePort packet) \<rparr>)"

subsection \<open>Genesis (genesis.go)\<close>

fun bind_ports :: "('k, 'm, 'c, 'x) ica_env_scheme \<Rightarrow> ('k, 'c) ctl_world \<Rightarrow> string list \<Rightarrow> ('k, 'c) ctl_world result" where
  "bind_ports E w [] = Inr w"
| "bind_ports E w (portID # ports) =
     (if \<not> ica_IsBound E w portID then
       (case ica_BindPort E w portID of Inl e \<Rightarrow> Inl Panic | Inr (cap, w) \<Rightarrow>
       (case ica_ClaimCapability E w cap (PortPath portID) of Inl e \<Rightarrow> Inl Panic | Inr w \<Rightarrow> bind_ports E w ports))
      else bind_ports E w ports)"

definition controller_InitGenesis :: "('k, 'm, 'c, 'x) ica_env_scheme \<Rightarrow> ('k, 'c) ctl_world \<Rightarrow> ControllerGenesisState \<Rightarrow> ('k, 'c) ctl_world result" where
  "controller_InitGenesis E w state =
     (case bind_ports E w (cgs_Ports state) of Inl e \<Rightarrow> Inl e | Inr w \<Rightarrow>
      let st = load_accounts (load_channels (w_app w) (cgs_ActiveChannels state)) (cgs_InterchainAccounts state) in
      Inr (w \<lparr> w_app := controller_SetParams st (cgs_Params state) \<rparr>))"

definition controller_ExportGenesis :: "('k, 'm, 'c, 'x) ica_env_scheme \<Rightarrow> (controller_Params, 'c) ica_state \<Rightarrow> ControllerGenesisState result" where
  "controller_ExportGenesis E st =
     (case GetAllActiveChannels E st of Inl e \<Rightarrow> Inl e | Inr chs \<Rightarrow>
     (case GetAllInterchainAccounts E st of Inl e \<Rightarrow> Inl e | Inr accs \<Rightarrow>
     (case GetAllPorts E st of Inl e \<Rightarrow> Inl e | Inr ports \<Rightarrow>
      Inr \<lparr> cgs_ActiveChannels = chs, cgs_InterchainAccounts = accs, cgs_Ports = ports, cgs_Params = controller_GetParams st \<rparr>)))"

subsection \<open>Callbacks (ibc_module.go)\<close>

definition controller_im_OnChanOpenInit :: "('k, (controller_Params, 'c) ica_state) IBCModule \<Rightarrow> ctx \<Rightarrow> ('k, 'c) ctl_world \<Rightarrow> Order \<Rightarrow> string list \<Rightarrow>
    string \<Rightarrow> string \<Rightarrow> Capability \<Rightarrow> chan_counterparty \<Rightarrow> string \<Rightarrow> ('k, 'c) ctl_world result" where
  "controller_im_OnChanOpenInit app ctx w order connectionHops portID channelID chanCap counterparty version =
     (if \<not> IsControllerEnabled (w_app w) then Inl (IcaE ErrControllerSubModuleDisabled)
      else case controller_OnChanOpenInit w order connectionHops portID counterparty version of Inl e \<Rightarrow> Inl e | Inr _ \<Rightarrow>
      OnChanOpenInit app ctx w order connectionHops portID channelID chanCap counterparty version)"

definition controller_im_OnChanOpenAck :: "('k, (controller_Params, 'c) ica_state) IBCModule \<Rightarrow> ctx \<Rightarrow> ('k, 'c) ctl_world \<Rightarrow> string \<Rightarrow> string \<Rightarrow> string \<Rightarrow>
    ('k, 'c) ctl_world result" where
  "controller_im_OnChanOpenAck app ctx w portID channelID counterpartyVersion =
     (if \<not> IsControllerEnabled (w_app w) then Inl (IcaE ErrControllerSubModuleDisabled)
      else case controller_OnChanOpenAck w portID channelID counterpartyVersion of Inl e \<Rightarrow> Inl e | Inr w \<Rightarrow>
      OnChanOpenAck app ctx w portID channelID counterpartyVersion)"

definition controller_im_OnRecvPacket :: "('k, 'm, 'c, 'x) ica_env_scheme \<Rightarrow> ('k, 'c) ctl_world \<Rightarrow>
    ((bool \<times> bytes) option \<times> ('k, 'c) ctl_world) result" where
  "controller_im_OnRecvPacket E w =
     (let ack = NewErrorAcknowledgement ''cannot receive packet on controller chain'' in
      case ica_MarshalAck E ack of None \<Rightarrow> Inl Panic | Some bz \<Rightarrow> Inr (Some (Success ack, bz), w))"

definition controller_im_OnAcknowledgementPacket :: "('k, (controller_Params, 'c) ica_state) IBCModule \<Rightarrow> ctx \<Rightarrow> ('k, 'c) ctl_world \<Rightarrow> Packet \<Rightarrow> bytes \<Rightarrow> string \<Rightarrow>
    ('k, 'c) ctl_world result" where
  "controller_im_OnAcknowledgementPacket app ctx w packet acknowledgement relayer =
     (if \<not> IsControllerEnabled (w_app w) then Inl (IcaE ErrControllerSubModuleDisabled)
      else OnAcknowledgementPacket app ctx w packet acknowledgement relayer)"

definition controller_im_OnTimeoutPacket :: "('k, (controller_Params, 'c) ica_state) IBCModule \<Rightarrow> ctx \<Rightarrow> ('k, 'c) ctl_world \<Rightarrow> Packet \<Rightarrow> string \<Rightarrow>
    ('k, 'c) ctl_world result" where
  "controller_im_OnTimeoutPacket app ctx w packet relayer =
     (if \<not> IsControllerEnabled (w_app w) then Inl (IcaE ErrControllerSubModuleDisabled)
      else case controller_OnTimeoutPacket w packet of Inl e \<Rightarrow> Inl e | Inr w \<Rightarrow> OnTimeoutPacket app ctx w packet relayer)"

definition controller_module :: "('k, 'm, 'c, 'x) ica_env_scheme \<Rightarrow> ('k, (controller_Params, 'c) ica_state) IBCModule \<Rightarrow>
    ('k, (controller_Params, 'c) ica_state) IBCModule" where
  "controller_module E app =
     \<lparr> OnChanOpenInit = (\<lambda>ctx w order hops port chan cap cp v. controller_im_OnChanOpenInit app ctx w order hops port chan cap cp v),
       OnChanOpenTry = (\<lambda>ctx w order hops port chan cap cp v. Inl (IcaE ErrInvalidChannelFlow)),
       OnChanOpenAck = (\<lambda>ctx w port chan v. controller_im_OnChanOpenAck app ctx w port chan v),
       OnChanOpenConfirm = (\<lambda>ctx w port chan. Inl (IcaE ErrInvalidChannelFlow)),
       OnChanCloseInit = (\<lambda>ctx w port chan. Inl (SdkE ErrInvalidRequest)),
       OnChanCloseConfirm = (\<lambda>ctx w port chan. controller_OnChanCloseConfirm w port chan),
       OnRecvPacket = (\<lambda>ctx w p relayer. controller_im_OnRecvPacket E w),
       OnAcknowledgementPacket = (\<lambda>ctx w p a relayer. controller_im_OnAcknowledgementPacket app ctx w p a relayer),
       OnTimeoutPacket = (\<lambda>ctx w p relayer. controller_im_OnTimeoutPacket app ctx w p relayer) \<rparr>"

end
