(* ===== verification/IcaSafety.thy ===== *)
theory IcaSafety
  imports IcaHost IcaController MsgRuns
begin

text \<open>
  What interchain accounts promise. Both submodules are applications in the sense of the core
  module. The host executes a transaction only when its packet is proved to come from the port
  that owns the account, every message is of an allowed type and is signed by that account alone,
  and then completely or not at all. The two chains agree on the address of the account, and a
  transaction that the controller sends is the one that the host executes.
\<close>

subsection \<open>The application interface\<close>

lemma ica_claim_Inr: "ica_ClaimCapability E w cap name = Inr w' \<longleftrightarrow>
    (\<exists>k. isk_Claim E (capState (w_ibc w)) cap name = Some k \<and> w' = w \<lparr> w_ibc := w_ibc w \<lparr> capState := k \<rparr> \<rparr>)"
  by (auto simp: ica_ClaimCapability_def split: option.splits)

lemma ica_claim_runs: "ica_ClaimCapability E w cap name = Inr w' \<Longrightarrow> app_run E (w_ibc w) (w_ibc w')"
  by (auto simp: ica_claim_Inr intro!: r_into_rtranclp [of "app_step E"] app_step.app_capability)

text \<open>
  A message handler that is an application: what it does to the core state is sending packets,
  writing acknowledgements and changing capabilities. A host whose allow list names messages of
  the core module itself is outside this hypothesis.
\<close>

definition msg_router_ok :: "('k, 'm, 'c, 'x) ica_env_scheme \<Rightarrow> ('k, 'm, 'c) msg_router \<Rightarrow> bool" where
  "msg_router_ok E msgRouter \<longleftrightarrow>
     (\<forall>msg handler ctx w w'. msgRouter msg = Some handler \<longrightarrow> handler ctx w = (None, w') \<longrightarrow> app_run E (w_ibc w) (w_ibc w'))"

lemma execute_msgs_Cons:
  "execute_msgs E msgRouter ctx w (msg # msgs) = (None, w') \<longleftrightarrow> msg_ValidateBasic E msg = Inr () \<and>
     (\<exists>handler w1. msgRouter msg = Some handler \<and> handler ctx w = (None, w1) \<and> execute_msgs E msgRouter ctx w1 msgs = (None, w'))"
  by (auto simp: executeMsg_def split: sum.splits option.splits prod.splits)

lemma execute_msgs_runs:
  assumes "msg_router_ok E msgRouter"
  shows "execute_msgs E msgRouter ctx w msgs = (None, w') \<Longrightarrow> app_run E (w_ibc w) (w_ibc w')"
proof (induction msgs arbitrary: w)
  case (Cons msg msgs)
  from Cons.prems obtain handler w1 where h: "msgRouter msg = Some handler" "handler ctx w = (None, w1)"
    "execute_msgs E msgRouter ctx w1 msgs = (None, w')" unfolding execute_msgs_Cons by blast
  then have "app_run E (w_ibc w) (w_ibc w1)" using assms unfolding msg_router_ok_def by blast
  from rtranclp_trans [OF this Cons.IH [OF h(3)]] show ?case .
qed simp

text \<open>A transaction is authorised when its messages are; it leaves the world alone unless all of it runs.\<close>

definition authorised :: "('k, 'm, 'c, 'x) ica_env_scheme \<Rightarrow> string \<Rightarrow> string list \<Rightarrow> 'm \<Rightarrow> bool" where
  "authorised E addr allowed msg \<longleftrightarrow> msg_TypeURL E msg \<in> set allowed \<and>
     (\<exists>signers. msg_GetSigners E msg = Some signers \<and> (\<forall>a \<in> set signers. addr_String E a = addr))"

lemma check_signers_Inr: "check_signers E addr signers = Inr () \<longleftrightarrow> (\<forall>a \<in> set signers. addr_String E a = addr)"
  by (induction signers) auto

lemma check_msgs_Inr: "check_msgs E addr allowed msgs = Inr () \<longleftrightarrow> (\<forall>msg \<in> set msgs. authorised E addr allowed msg)"
proof (induction msgs)
  case (Cons msg msgs)
  then show ?case
    by (auto simp: ContainsMsgType_def list_ex_iff authorised_def check_signers_Inr [symmetric] split: option.splits sum.splits)
qed simp

lemma AuthenticateTx_Inr:
  "AuthenticateTx E st msgs portID = Inr () \<longleftrightarrow>
     (\<exists>addr. GetInterchainAccountAddress st portID = Some addr \<and> (\<forall>msg \<in> set msgs. authorised E addr (GetAllowMessages st) msg))"
  by (simp add: AuthenticateTx_def check_msgs_Inr split: option.splits)

lemma executeTx_None:
  "executeTx E msgRouter ctx w port msgs = (None, w') \<longleftrightarrow>
     AuthenticateTx E (w_app w) msgs port = Inr () \<and> execute_msgs E msgRouter ctx w msgs = (None, w')"
  by (auto simp: executeTx_def split: sum.splits prod.splits option.splits)

lemma executeTx_Some: "executeTx E msgRouter ctx w port msgs = (Some e, w') \<Longrightarrow> w' = w"
  by (auto simp: executeTx_def split: sum.splits prod.splits option.splits)

lemma execute_msgs_valid:
  "execute_msgs E msgRouter ctx w msgs = (None, w') \<Longrightarrow> msg \<in> set msgs \<Longrightarrow> msg_ValidateBasic E msg = Inr ()"
  by (induction msgs arbitrary: w) (auto simp: execute_msgs_Cons simp del: execute_msgs.simps(2))

lemma host_OnRecvPacket_None:
  assumes "host_OnRecvPacket E msgRouter ctx w p = (None, w')"
  obtains data msgs where "ica_UnmarshalPacketData E (Data p) = Some data" "ipd_Type data = EXECUTE_TX"
    "DeserializeCosmosTx E (case ipd_Data data of None \<Rightarrow> [] | Some bz \<Rightarrow> bz) = Inr msgs"
    "executeTx E msgRouter ctx w (SourcePort p) msgs = (None, w')"
  using assms by (auto simp: host_OnRecvPacket_def split: option.splits ica_Type.splits sum.splits)

lemma host_OnRecvPacket_Some: "host_OnRecvPacket E msgRouter ctx w p = (Some e, w') \<Longrightarrow> w' = w"
  by (auto simp: host_OnRecvPacket_def split: option.splits ica_Type.splits sum.splits dest: executeTx_Some)

lemma host_im_OnRecvPacket_Inr:
  assumes "host_im_OnRecvPacket E msgRouter ctx w p = Inr (a, w')"
  obtains (executed) bz where "a = Some (True, bz)" "IsHostEnabled (w_app w)" "host_OnRecvPacket E msgRouter ctx w p = (None, w')"
    "ica_MarshalAck E (NewResultAcknowledgement [char_of (1 :: nat)]) = Some bz"
  | (refused) bz where "a = Some (False, bz)" "w' = w"
  using assms
  by (auto simp: host_im_OnRecvPacket_def Let_def Success_def NewErrorAcknowledgement_def NewResultAcknowledgement_def
      split: if_splits option.splits prod.splits dest: host_OnRecvPacket_Some)

lemma host_application:
  assumes "msg_router_ok E msgRouter"
  shows "ibc_application E (host_module E msgRouter)"
proof
  show "OnChanOpenTry (host_module E msgRouter) ctx w ord hops port chan cap cp v = Inr (v', w') \<Longrightarrow> app_run E (w_ibc w) (w_ibc w')"
    for ctx w ord hops port chan cap cp v v' w'
    by (auto simp: host_module_def host_im_OnChanOpenTry_def host_OnChanOpenTry_def Let_def result_elims dest!: ica_claim_runs)
  show "OnRecvPacket (host_module E msgRouter) ctx w p relayer = Inr (ack, w') \<Longrightarrow> app_run E (w_ibc w) (w_ibc w')"
    for ctx w p relayer ack w'
  proof -
    assume "OnRecvPacket (host_module E msgRouter) ctx w p relayer = Inr (ack, w')"
    then have "host_im_OnRecvPacket E msgRouter ctx w p = Inr (ack, w')" by (simp add: host_module_def)
    then show ?thesis
    proof (cases rule: host_im_OnRecvPacket_Inr)
      case executed
      from this(3) show ?thesis
        by (rule host_OnRecvPacket_None) (use execute_msgs_runs [OF assms] in \<open>auto simp: executeTx_None\<close>)
    qed simp
  qed
qed (auto simp: host_module_def host_im_OnChanOpenConfirm_def host_OnChanOpenConfirm_def host_OnChanCloseConfirm_def split: if_splits)

text \<open>The controller is middleware: it is an application when the module under it is one.\<close>

lemma controller_application:
  assumes "ibc_application E app"
  shows "ibc_application E (controller_module E app)"
proof
  show "OnChanOpenInit (controller_module E app) ctx w ord hops port chan cap cp v = Inr w' \<Longrightarrow> app_run E (w_ibc w) (w_ibc w')"
    for ctx w ord hops port chan cap cp v w'
    using ibc_application.init_runs [OF assms]
    by (auto simp: controller_module_def controller_im_OnChanOpenInit_def result_elims split: if_splits)
  show "OnChanOpenAck (controller_module E app) ctx w port chan v = Inr w' \<Longrightarrow> app_run E (w_ibc w) (w_ibc w')" for ctx w port chan v w'
    using ibc_application.ack_runs [OF assms]
    by (fastforce simp: controller_module_def controller_im_OnChanOpenAck_def controller_OnChanOpenAck_def Let_def result_elims split: if_splits)
  show "OnAcknowledgementPacket (controller_module E app) ctx w p a relayer = Inr w' \<Longrightarrow> app_run E (w_ibc w) (w_ibc w')"
    for ctx w p a relayer w'
    using ibc_application.acknowledgement_runs [OF assms]
    by (auto simp: controller_module_def controller_im_OnAcknowledgementPacket_def split: if_splits)
  show "OnTimeoutPacket (controller_module E app) ctx w p relayer = Inr w' \<Longrightarrow> app_run E (w_ibc w) (w_ibc w')" for ctx w p relayer w'
    using ibc_application.timeout_runs [OF assms]
    by (fastforce simp: controller_module_def controller_im_OnTimeoutPacket_def controller_OnTimeoutPacket_def split: if_splits)
qed (auto simp: controller_module_def controller_OnChanCloseConfirm_def controller_im_OnRecvPacket_def Let_def split: option.splits)

subsection \<open>The host\<close>

definition host_router :: "('k, 'm, 'c, 'x) ica_env_scheme \<Rightarrow> ('k, 'm, 'c) msg_router \<Rightarrow> ('k, (host_Params, 'c) ica_state) Router" where
  "host_router E msgRouter = \<lparr> routes = [host_SubModuleName \<mapsto> host_module E msgRouter], sealed = True \<rparr>"

lemma host_route: "route_to (host_router E msgRouter) lookup = Inr (cbs, cap) \<Longrightarrow> cbs = host_module E msgRouter"
  by (auto simp: route_to_def host_router_def GetRoute_def HasRoute_def result_elims split: if_splits)

lemma host_router_ok: "msg_router_ok E msgRouter \<Longrightarrow> router_ok E (host_router E msgRouter)"
  using host_application by (simp add: router_ok_def host_router_def)

lemma host_recv_callback:
  assumes "recv_callback E (host_module E msgRouter) cap ctx p relayer w = Inr w'"
  obtains (executed) cached where "IsHostEnabled (w_app w)" "host_OnRecvPacket E msgRouter ctx w p = (None, cached)" "w_app w' = w_app cached"
  | (refused) "w_app w' = w_app w"
proof -
  from assms obtain a cached where r: "host_im_OnRecvPacket E msgRouter ctx w p = Inr (a, cached)"
    and c: "(case a of None \<Rightarrow> Inr cached
      | Some (success, ackBytes) \<Rightarrow> let w = if success then cached else w in
          on_ibc w (WriteAcknowledgement E (w_ibc w) (Some cap) p ackBytes)) = Inr w'"
    by (auto simp: recv_callback_def host_module_def result_elims)
  from r show thesis
    by (cases rule: host_im_OnRecvPacket_Inr) (use c executed refused in \<open>auto simp: on_ibc_Inr\<close>)
qed

text \<open>
  C11: the host chain executes only what the owner of an interchain account asked for. If a
  \<open>MsgRecvPacket\<close> changes anything in the applications of a host chain, then the packet arrived on an
  open channel, from the port at the other end of that channel, with a verified proof that the
  controller chain committed to it; an interchain account is registered for that port; and what
  changed the state is the complete execution of the packet's messages, each of a type on the
  allow list, valid, and signed by nobody but the account.
\<close>

theorem host_executes_only_authorised:
  assumes "handle_msg E (host_router E msgRouter) ctx w (RecvPacketMsg m) = Inr w'" and "w_app w' \<noteq> w_app w"
  shows "\<exists>channel connection s1 s addr data msgs cached.
     channels (w_ibc w) (dst_chan (mrp_Packet m)) = Some channel \<and> chan_State channel = OPEN \<and>
     SourcePort (mrp_Packet m) = ch_PortId (chan_Counterparty channel) \<and>
     open_connection (w_ibc w) (chan_ConnectionHops channel) = Inr connection \<and>
     conn_VerifyPacketCommitment E ctx (w_ibc w) connection (mrp_ProofHeight m) (mrp_ProofCommitment m) (ch_PortId (chan_Counterparty channel))
       (SourceChannel (mrp_Packet m)) (Sequence (mrp_Packet m)) (CommitPacket (mrp_Packet m)) = Inr s1 \<and>
     IsHostEnabled (w_app w) \<and> GetInterchainAccountAddress (w_app w) (ch_PortId (chan_Counterparty channel)) = Some addr \<and>
     ica_UnmarshalPacketData E (Data (mrp_Packet m)) = Some data \<and> ipd_Type data = EXECUTE_TX \<and>
     DeserializeCosmosTx E (case ipd_Data data of None \<Rightarrow> [] | Some bz \<Rightarrow> bz) = Inr msgs \<and>
     (\<forall>msg \<in> set msgs. authorised E addr (GetAllowMessages (w_app w)) msg \<and> msg_ValidateBasic E msg = Inr ()) \<and>
     execute_msgs E msgRouter ctx (w \<lparr> w_ibc := s \<rparr>) msgs = (None, cached) \<and> w_app w' = w_app cached"
proof -
  let ?p = "mrp_Packet m"
  from assms(1) have "msg_RecvPacket E (host_router E msgRouter) ctx w m = Inr w'" by simp
  then show ?thesis
  proof (rule recv_msg_Inr)
    fix cbs cap s relayer lookup
    assume r: "route_to (host_router E msgRouter) lookup = Inr (cbs, cap)"
      and v: "RecvPacket E ctx (w_ibc w) (Some cap) ?p (mrp_ProofCommitment m) (mrp_ProofHeight m) = Inr s"
      and c: "recv_callback E cbs cap ctx ?p relayer (w \<lparr> w_ibc := s \<rparr>) = Inr w'"
    from v obtain channel connection s1 where ch: "channels (w_ibc w) (dst_chan ?p) = Some channel" "chan_State channel = OPEN"
      "SourcePort ?p = ch_PortId (chan_Counterparty channel)" "open_connection (w_ibc w) (chan_ConnectionHops channel) = Inr connection"
      "conn_VerifyPacketCommitment E ctx (w_ibc w) connection (mrp_ProofHeight m) (mrp_ProofCommitment m) (SourcePort ?p) (SourceChannel ?p)
         (Sequence ?p) (CommitPacket ?p) = Inr s1" by (rule RecvPacket_Inr)
    from c [unfolded host_route [OF r]] show ?thesis
    proof (cases rule: host_recv_callback)
      case (executed cached)
      from executed(2) obtain data msgs where d: "ica_UnmarshalPacketData E (Data ?p) = Some data" "ipd_Type data = EXECUTE_TX"
        "DeserializeCosmosTx E (case ipd_Data data of None \<Rightarrow> [] | Some bz \<Rightarrow> bz) = Inr msgs"
        "executeTx E msgRouter ctx (w \<lparr> w_ibc := s \<rparr>) (SourcePort ?p) msgs = (None, cached)" by (rule host_OnRecvPacket_None)
      from d(4) obtain addr where a: "GetInterchainAccountAddress (w_app w) (SourcePort ?p) = Some addr"
        "\<forall>msg \<in> set msgs. authorised E addr (GetAllowMessages (w_app w)) msg"
        "execute_msgs E msgRouter ctx (w \<lparr> w_ibc := s \<rparr>) msgs = (None, cached)"
        by (auto simp: executeTx_None AuthenticateTx_Inr)
      from execute_msgs_valid [OF a(3)] a(2)
      have "\<forall>msg \<in> set msgs. authorised E addr (GetAllowMessages (w_app w)) msg \<and> msg_ValidateBasic E msg = Inr ()" by blast
      with ch d(1-3) a(1,3) executed(1,3) show ?thesis by auto
    qed (use assms(2) in simp)
  qed (use assms(2) in blast)
qed

text \<open>
  A message whose signers cannot be read makes the host panic, because the signers are read before
  the message is validated.
\<close>

lemma check_msgs_panic:
  assumes "\<forall>msg \<in> set before. authorised E addr allowed msg" "msg_TypeURL E bad \<in> set allowed" "msg_GetSigners E bad = None"
  shows "check_msgs E addr allowed (before @ bad # msgs) = Inl Panic"
  using assms(1)
proof (induction before)
  case Nil
  then show ?case using assms(2,3) by (simp add: ContainsMsgType_def list_ex_iff)
next
  case (Cons msg before)
  then obtain signers where "msg_GetSigners E msg = Some signers" "check_signers E addr signers = Inr ()" "ContainsMsgType E allowed msg"
    by (auto simp: authorised_def check_signers_Inr ContainsMsgType_def list_ex_iff)
  with Cons show ?case by simp
qed

text \<open>
  C30: a transaction with a malformed signer can never be received. When the messages of a packet
  include one of an allowed type whose signers cannot be read, after messages that are authorised,
  then no relay of the packet changes the state of the host chain: it is neither executed nor
  acknowledged with an error, so that an ordered channel does not get past it.
\<close>

theorem malformed_signer_is_never_received:
  assumes "ica_UnmarshalPacketData E (Data (mrp_Packet m)) = Some data" "ipd_Type data = EXECUTE_TX"
    and "DeserializeCosmosTx E (case ipd_Data data of None \<Rightarrow> [] | Some bz \<Rightarrow> bz) = Inr (before @ bad # msgs)"
    and "IsHostEnabled (w_app w)" "GetInterchainAccountAddress (w_app w) (SourcePort (mrp_Packet m)) = Some addr"
    and "\<forall>msg \<in> set before. authorised E addr (GetAllowMessages (w_app w)) msg"
    and "msg_TypeURL E bad \<in> set (GetAllowMessages (w_app w))" "msg_GetSigners E bad = None"
  shows "handle_msg E (host_router E msgRouter) ctx w (RecvPacketMsg m) \<in> insert (Inr w) (range Inl)"
proof -
  let ?p = "mrp_Packet m"
  have "w' = w" if "msg_RecvPacket E (host_router E msgRouter) ctx w m = Inr w'" for w'
    using that
  proof (rule recv_msg_Inr)
    fix cbs cap s relayer lookup
    assume r: "route_to (host_router E msgRouter) lookup = Inr (cbs, cap)"
      and c: "recv_callback E cbs cap ctx ?p relayer (w \<lparr> w_ibc := s \<rparr>) = Inr w'"
    from check_msgs_panic [OF assms(6-8)] assms(5)
    have "executeTx E msgRouter ctx (w \<lparr> w_ibc := s \<rparr>) (SourcePort ?p) (before @ bad # msgs) = (Some Panic, w \<lparr> w_ibc := s \<rparr>)"
      by (simp add: executeTx_def AuthenticateTx_def)
    with assms(1-3) have "host_OnRecvPacket E msgRouter ctx (w \<lparr> w_ibc := s \<rparr>) ?p = (Some Panic, w \<lparr> w_ibc := s \<rparr>)"
      by (simp add: host_OnRecvPacket_def)
    with assms(4) have "OnRecvPacket (host_module E msgRouter) ctx (w \<lparr> w_ibc := s \<rparr>) ?p relayer = Inl Panic"
      by (simp add: host_module_def host_im_OnRecvPacket_def)
    with c [unfolded host_route [OF r]] show ?thesis by (simp add: recv_callback_def)
  qed
  then show ?thesis by (cases "msg_RecvPacket E (host_router E msgRouter) ctx w m") auto
qed

subsection \<open>The account of a port\<close>

text \<open>
  What the account keeper and the addresses of the SDK are documented to do: a new account is
  created under the address it is given, and printed addresses consist of letters and digits.
\<close>

definition accounts_ok :: "('k, 'm, 'c, 'x) ica_env_scheme \<Rightarrow> bool" where
  "accounts_ok E \<longleftrightarrow> (\<forall>a. ba_Address (auth_NewBaseAccountWithAddress E a) = addr_String E a) \<and>
     (\<forall>c acc. ba_Address (ia_BaseAccount (fst (auth_NewAccount E c acc))) = ba_Address (ia_BaseAccount acc)) \<and>
     (\<forall>portID. ValidateAccountAddress (addr_String E (account_address E portID)) = Inr ())"

lemma RegisterInterchainAccount_exists:
  "auth_GetAccount E (ica_rest st) a \<noteq> None \<Longrightarrow> RegisterInterchainAccount E st a port = st"
  by (simp add: RegisterInterchainAccount_def)

lemma RegisterInterchainAccount_new:
  "accounts_ok E \<Longrightarrow> auth_GetAccount E (ica_rest st) a = None \<Longrightarrow>
   GetInterchainAccountAddress (RegisterInterchainAccount E st a port) port = Some (addr_String E a)"
  by (simp add: RegisterInterchainAccount_def accounts_ok_def NewInterchainAccount_def Let_def split_beta)

lemma host_open_try_Inr:
  assumes "OnChanOpenTry (host_module E msgRouter) ctx w order hops port chan cap cp v = Inr (version, w')"
  shows "version = NewAppVersion VersionPrefix (addr_String E (account_address E (ch_PortId cp))) \<and>
     w_app w' = RegisterInterchainAccount E (w_app w) (account_address E (ch_PortId cp)) (ch_PortId cp) \<and> ch_PortId cp \<noteq> ica_PortID"
proof -
  from assms obtain n k where n: "ParseHostConnSequence (ch_PortId cp) = Inr n" and
    o: "version = NewAppVersion VersionPrefix (addr_String E (account_address E (ch_PortId cp)))"
     "w_app w' = RegisterInterchainAccount E (w_app w) (account_address E (ch_PortId cp)) (ch_PortId cp)"
    by (auto simp: host_module_def host_im_OnChanOpenTry_def host_OnChanOpenTry_def Let_def result_elims ica_claim_Inr)
  have "ParseHostConnSequence ica_PortID = Inl (PortE ErrInvalidPort)"
    by (simp add: ParseHostConnSequence_def ica_PortID_def Delimiter_def)
  with n o show ?thesis by auto
qed

text \<open>
  C13: the two chains agree on the interchain account. When a channel is opened for a port whose
  account does not exist yet on the host chain, then the acknowledgement step on the controller
  chain, given the version that the host has chosen, succeeds, makes the channel the active one of
  the port, and records the very address that the host has registered for the port.
\<close>

theorem chains_agree_on_account:
  assumes "accounts_ok E" "auth_GetAccount E (ica_rest (w_app w)) (account_address E (ch_PortId cp)) = None"
    and "OnChanOpenTry (host_module E msgRouter) ctx w order hops port chan cap cp v = Inr (version, w')"
  shows "\<exists>u' addr. controller_OnChanOpenAck u (ch_PortId cp) chan' version = Inr u' \<and>
     GetActiveChannelID (w_app u') (ch_PortId cp) = Some chan' \<and>
     GetInterchainAccountAddress (w_app u') (ch_PortId cp) = Some addr \<and>
     GetInterchainAccountAddress (w_app w') (ch_PortId cp) = Some addr"
proof -
  let ?a = "addr_String E (account_address E (ch_PortId cp))"
  from host_open_try_Inr [OF assms(3)] have o: "version = NewAppVersion VersionPrefix ?a"
    "w_app w' = RegisterInterchainAccount E (w_app w) (account_address E (ch_PortId cp)) (ch_PortId cp)" "ch_PortId cp \<noteq> ica_PortID"
    by blast+
  have a: "ValidateAccountAddress ?a = Inr ()" using assms(1) by (simp add: accounts_ok_def)
  then have "ica_ValidateVersion version = Inr ()" unfolding o(1) ica_ValidateVersion_Inr by blast
  moreover have "ParseAddressFromVersion version = Inr ?a"
    unfolding o(1) using a by (simp add: ParseAddressFromVersion_New address_no_delimiter ValidateAccountAddress_Inr)
  moreover have "GetInterchainAccountAddress (w_app w') (ch_PortId cp) = Some ?a"
    unfolding o(2) by (rule RegisterInterchainAccount_new [OF assms(1,2)])
  ultimately show ?thesis using o(3) by (simp add: controller_OnChanOpenAck_def)
qed

subsection \<open>An account that exists already\<close>

text \<open>
  What can happen on a host chain after a channel is opened: the messages of the core module whose callbacks are the host's, and any
  other action (of another module, a proposal, a begin blocker, a change of the parameters), which does not write to the
  host's store and removes no account. The account keeper and the handlers of the messages of a transaction are taken to do the
  same: no account is removed, and only the host writes to its store.
\<close>

definition keeps_accounts :: "('k, 'm, 'c, 'x) ica_env_scheme \<Rightarrow> 'c \<Rightarrow> 'c \<Rightarrow> bool" where
  "keeps_accounts E c c' \<longleftrightarrow> (\<forall>a. auth_GetAccount E c a \<noteq> None \<longrightarrow> auth_GetAccount E c' a \<noteq> None)"

definition leaves_host :: "('k, 'm, 'c, 'x) ica_env_scheme \<Rightarrow> (host_Params, 'c) ica_state \<Rightarrow> (host_Params, 'c) ica_state \<Rightarrow> bool" where
  "leaves_host E st st' \<longleftrightarrow> ica_store st' = ica_store st \<and> keeps_accounts E (ica_rest st) (ica_rest st')"

definition account_keeper_ok :: "('k, 'm, 'c, 'x) ica_env_scheme \<Rightarrow> bool" where
  "account_keeper_ok E \<longleftrightarrow>
     (\<forall>c acc. keeps_accounts E c (snd (auth_NewAccount E c acc)) \<and> keeps_accounts E c (auth_SetAccount E c acc))"

definition handlers_leave_host :: "('k, 'm, 'c, 'x) ica_env_scheme \<Rightarrow> ('k, 'm, 'c) msg_router \<Rightarrow> bool" where
  "handlers_leave_host E msgRouter \<longleftrightarrow>
     (\<forall>msg handler ctx w w'. msgRouter msg = Some handler \<longrightarrow> handler ctx w = (None, w') \<longrightarrow> leaves_host E (w_app w) (w_app w'))"

inductive host_step :: "('k, 'm, 'c, 'x) ica_env_scheme \<Rightarrow> ('k, 'm, 'c) msg_router \<Rightarrow> ('k, 'c) host_world \<Rightarrow> ('k, 'c) host_world \<Rightarrow> bool"
  for E msgRouter where
  core_message: "handle_msg E (host_router E msgRouter) ctx w m = Inr w' \<Longrightarrow> host_step E msgRouter w w'"
| other_action: "leaves_host E (w_app w) (w_app w') \<Longrightarrow> host_step E msgRouter w w'"

text \<open>The account of a port exists, but not as its interchain account.\<close>

definition account_taken :: "('k, 'm, 'c, 'x) ica_env_scheme \<Rightarrow> string \<Rightarrow> (host_Params, 'c) ica_state \<Rightarrow> bool" where
  "account_taken E portID st \<longleftrightarrow> auth_GetAccount E (ica_rest st) (account_address E portID) \<noteq> None \<and> GetInterchainAccountAddress st portID = None"

lemma keeps_accounts_trans: "keeps_accounts E a b \<Longrightarrow> keeps_accounts E b c \<Longrightarrow> keeps_accounts E a c"
  by (simp add: keeps_accounts_def)

lemma leaves_host_refl [simp]: "leaves_host E st st"
  by (simp add: leaves_host_def keeps_accounts_def)

lemma leaves_host_trans: "leaves_host E a b \<Longrightarrow> leaves_host E b c \<Longrightarrow> leaves_host E a c"
  by (simp add: leaves_host_def keeps_accounts_def)

lemma taken_leaves: "account_taken E q st \<Longrightarrow> leaves_host E st st' \<Longrightarrow> account_taken E q st'"
  by (simp add: account_taken_def leaves_host_def keeps_accounts_def GetInterchainAccountAddress_def)

lemma taken_register:
  assumes "account_keeper_ok E" "account_taken E q st"
  shows "account_taken E q (RegisterInterchainAccount E st (account_address E r) r)"
proof (cases "auth_GetAccount E (ica_rest st) (account_address E r)")
  case None
  let ?acc = "NewInterchainAccount (auth_NewBaseAccountWithAddress E (account_address E r)) r"
  obtain acc c where n: "auth_NewAccount E (ica_rest st) ?acc = (acc, c)" by fastforce
  have "q \<noteq> r" using None assms(2) by (auto simp: account_taken_def)
  moreover have "keeps_accounts E (ica_rest st) (auth_SetAccount E c acc)"
    using assms(1) keeps_accounts_trans n unfolding account_keeper_ok_def by (metis snd_conv)
  ultimately show ?thesis using None assms(2) n
    by (simp add: account_taken_def RegisterInterchainAccount_def keeps_accounts_def SetInterchainAccountAddress_def GetInterchainAccountAddress_def Let_def)
qed (use assms(2) in \<open>simp add: RegisterInterchainAccount_def\<close>)

lemma execute_msgs_leave:
  assumes "handlers_leave_host E msgRouter"
  shows "execute_msgs E msgRouter ctx w msgs = (None, w') \<Longrightarrow> leaves_host E (w_app w) (w_app w')"
proof (induction msgs arbitrary: w)
  case (Cons msg msgs)
  from Cons.prems obtain handler w1 where h: "msgRouter msg = Some handler" "handler ctx w = (None, w1)"
    "execute_msgs E msgRouter ctx w1 msgs = (None, w')" unfolding execute_msgs_Cons by blast
  then have "leaves_host E (w_app w) (w_app w1)" using assms unfolding handlers_leave_host_def by blast
  from leaves_host_trans [OF this Cons.IH [OF h(3)]] show ?case .
qed simp

lemma taken_recv_callback:
  assumes "handlers_leave_host E msgRouter" "account_taken E q (w_app w)" "recv_callback E (host_module E msgRouter) cap ctx p relayer w = Inr w'"
  shows "account_taken E q (w_app w')"
  using assms(3)
proof (cases rule: host_recv_callback)
  case (executed cached)
  from executed(2) obtain msgs where "executeTx E msgRouter ctx w (SourcePort p) msgs = (None, cached)" by (rule host_OnRecvPacket_None)
  then have "leaves_host E (w_app w) (w_app cached)" using execute_msgs_leave [OF assms(1)] by (auto simp: executeTx_None)
  from taken_leaves [OF assms(2) this] executed(3) show ?thesis by simp
qed (use assms(2) in simp)

lemma host_never:
  "OnChanOpenInit (host_module E msgRouter) ctx w order hops port chan cap cp v = Inl (IcaE ErrInvalidChannelFlow)"
  "OnChanOpenAck (host_module E msgRouter) ctx w port chan v = Inl (IcaE ErrInvalidChannelFlow)"
  "OnChanCloseInit (host_module E msgRouter) ctx w port chan = Inl (SdkE ErrInvalidRequest)"
  "OnAcknowledgementPacket (host_module E msgRouter) ctx w p a relayer = Inl (IcaE ErrInvalidChannelFlow)"
  "OnTimeoutPacket (host_module E msgRouter) ctx w p relayer = Inl (IcaE ErrInvalidChannelFlow)"
  by (simp_all add: host_module_def)

lemma taken_callbacks:
  assumes "account_taken E q (w_app w)"
  shows "OnChanOpenConfirm (host_module E msgRouter) ctx w port chan = Inr w' \<Longrightarrow> account_taken E q (w_app w')"
    "OnChanCloseConfirm (host_module E msgRouter) ctx w port chan = Inr w' \<Longrightarrow> account_taken E q (w_app w')"
  using assms by (auto simp: host_module_def host_im_OnChanOpenConfirm_def host_OnChanOpenConfirm_def host_OnChanCloseConfirm_def
      account_taken_def GetInterchainAccountAddress_def SetActiveChannelID_def DeleteActiveChannelID_def split: if_splits)

lemma taken_open_try:
  assumes "account_keeper_ok E" "account_taken E q (w_app w)"
    "OnChanOpenTry (host_module E msgRouter) ctx w order hops port chan cap cp v = Inr (v', w')"
  shows "account_taken E q (w_app w')"
  using taken_register [OF assms(1,2)] host_open_try_Inr [OF assms(3)] by simp

text \<open>Every message of the core module keeps an account that is taken.\<close>

lemma taken_chan_msg:
  assumes "account_keeper_ok E" "account_taken E q (w_app w)"
  shows "msg_ChannelOpenInit E (host_router E msgRouter) ctx w m1 = Inr w' \<Longrightarrow> account_taken E q (w_app w')"
    "msg_ChannelOpenTry E (host_router E msgRouter) ctx w m2 = Inr w' \<Longrightarrow> account_taken E q (w_app w')"
    "msg_ChannelOpenAck E (host_router E msgRouter) ctx w m3 = Inr w' \<Longrightarrow> account_taken E q (w_app w')"
    "msg_ChannelOpenConfirm E (host_router E msgRouter) ctx w m4 = Inr w' \<Longrightarrow> account_taken E q (w_app w')"
    "msg_ChannelCloseInit E (host_router E msgRouter) ctx w m5 = Inr w' \<Longrightarrow> account_taken E q (w_app w')"
    "msg_ChannelCloseConfirm E (host_router E msgRouter) ctx w m6 = Inr w' \<Longrightarrow> account_taken E q (w_app w')"
proof -
  have t: "account_taken E q (w_app (w \<lparr> w_ibc := s \<rparr>))" for s using assms(2) by simp
  note c = taken_callbacks [OF t] taken_callbacks [OF assms(2)] taken_open_try [OF assms(1) t]
  show "msg_ChannelOpenInit E (host_router E msgRouter) ctx w m1 = Inr w' \<Longrightarrow> account_taken E q (w_app w')"
    "msg_ChannelOpenTry E (host_router E msgRouter) ctx w m2 = Inr w' \<Longrightarrow> account_taken E q (w_app w')"
    "msg_ChannelOpenAck E (host_router E msgRouter) ctx w m3 = Inr w' \<Longrightarrow> account_taken E q (w_app w')"
    "msg_ChannelOpenConfirm E (host_router E msgRouter) ctx w m4 = Inr w' \<Longrightarrow> account_taken E q (w_app w')"
    "msg_ChannelCloseInit E (host_router E msgRouter) ctx w m5 = Inr w' \<Longrightarrow> account_taken E q (w_app w')"
    "msg_ChannelCloseConfirm E (host_router E msgRouter) ctx w m6 = Inr w' \<Longrightarrow> account_taken E q (w_app w')"
    by (auto simp: msg_ChannelOpenInit_def msg_ChannelOpenTry_def msg_ChannelOpenAck_def msg_ChannelOpenConfirm_def
        msg_ChannelCloseInit_def msg_ChannelCloseConfirm_def Let_def on_ibc_Inr result_elims host_never dest!: host_route dest: c)
qed

lemma taken_packet_msg:
  assumes "account_taken E q (w_app w)"
  shows "msg_Timeout E (host_router E msgRouter) ctx w m1 = Inr w' \<Longrightarrow> account_taken E q (w_app w')"
    "msg_TimeoutOnClose E (host_router E msgRouter) ctx w m2 = Inr w' \<Longrightarrow> account_taken E q (w_app w')"
    "msg_Acknowledgement E (host_router E msgRouter) ctx w m3 = Inr w' \<Longrightarrow> account_taken E q (w_app w')"
  using assms
  by (auto simp: msg_Timeout_def msg_TimeoutOnClose_def msg_Acknowledgement_def Let_def result_elims dest!: host_route elim!: verify_cached_Inr
      simp: timeout_callback_def host_never)

lemma taken_recv_msg:
  assumes "handlers_leave_host E msgRouter" "account_taken E q (w_app w)" "msg_RecvPacket E (host_router E msgRouter) ctx w m = Inr w'"
  shows "account_taken E q (w_app w')"
  using assms(3)
proof (rule recv_msg_Inr)
  fix cbs cap s relayer lookup
  assume r: "route_to (host_router E msgRouter) lookup = Inr (cbs, cap)"
    and c: "recv_callback E cbs cap ctx (mrp_Packet m) relayer (w \<lparr> w_ibc := s \<rparr>) = Inr w'"
  show ?thesis by (rule taken_recv_callback [OF assms(1) _ c [unfolded host_route [OF r]]]) (use assms(2) in simp)
qed (use assms(2) in simp)

lemma taken_handle_msg:
  assumes "account_keeper_ok E" "handlers_leave_host E msgRouter" "account_taken E q (w_app w)"
    and "handle_msg E (host_router E msgRouter) ctx w m = Inr w'"
  shows "account_taken E q (w_app w')"
proof -
  have same: "w_app w' = w_app w \<Longrightarrow> ?thesis" using assms(3) by simp
  show ?thesis
    using assms(4)
    by (cases m) (auto intro: same client_msg_app conn_msg_app taken_chan_msg [OF assms(1,3)] taken_packet_msg [OF assms(3)]
        taken_recv_msg [OF assms(2,3)])
qed

lemma taken_run:
  assumes "(host_step E msgRouter)\<^sup>*\<^sup>* w u" "account_keeper_ok E" "handlers_leave_host E msgRouter" "account_taken E q (w_app w)"
  shows "account_taken E q (w_app u)"
  using assms(1)
proof (induction rule: rtranclp_induct)
  case (step y z)
  from step.hyps(2) step.IH show ?case
    by cases (auto intro: taken_handle_msg [OF assms(2,3)] taken_leaves)
qed (rule assms(4))

text \<open>Without a registered account, every packet from the port is refused and the application keeps its state.\<close>

lemma taken_refuses:
  assumes "account_taken E (SourcePort p) (w_app w)"
  shows "\<exists>e. host_OnRecvPacket E msgRouter ctx w p = (Some e, w)"
proof -
  have n: "host_OnRecvPacket E msgRouter ctx w p \<noteq> (None, w1)" for w1
    using assms by (auto simp: account_taken_def executeTx_None AuthenticateTx_Inr elim!: host_OnRecvPacket_None)
  obtain err w1 where r: "host_OnRecvPacket E msgRouter ctx w p = (err, w1)" by fastforce
  with n have "err \<noteq> None" by auto
  with r host_OnRecvPacket_Some show ?thesis by fastforce
qed

lemma taken_refuses_msg:
  assumes t: "account_taken E (SourcePort (mrp_Packet m)) (w_app w)" and "msg_RecvPacket E (host_router E msgRouter) ctx w m = Inr w'"
  shows "w_app w' = w_app w"
  using assms(2)
proof (rule recv_msg_Inr)
  fix cbs cap s relayer lookup
  assume r: "route_to (host_router E msgRouter) lookup = Inr (cbs, cap)"
    and c: "recv_callback E cbs cap ctx (mrp_Packet m) relayer (w \<lparr> w_ibc := s \<rparr>) = Inr w'"
  from c [unfolded host_route [OF r]] show ?thesis
  proof (cases rule: host_recv_callback)
    case (executed cached)
    with taken_refuses [of E "mrp_Packet m" "w \<lparr> w_ibc := s \<rparr>" msgRouter ctx] t show ?thesis by auto
  qed simp
qed simp

text \<open>
  C29: an account that exists already is announced but never registered. The address of an interchain
  account can be computed by anyone, and an account under it exists as soon as someone has sent
  tokens there. When a channel is opened for a port after that, and no interchain account is registered for the port from an
  earlier channel, then the host's part of the handshake, given what it checks, succeeds and announces the address to the
  controller, but registers nothing. Whatever happens on the chain from then on (messages of the core module, other channels opened
  for this or other ports, actions of other modules), no account is ever registered for the port, and every packet from the port
  is refused without an effect on the applications.
\<close>

theorem existing_account_is_unusable:
  assumes "auth_GetAccount E (ica_rest (w_app w)) (account_address E (ch_PortId cp)) \<noteq> None"
    and "GetInterchainAccountAddress (w_app w) (ch_PortId cp) = None"
    and "IsHostEnabled (w_app w)" "ParseHostConnSequence (ch_PortId cp) = Inr i" "ParseControllerConnSequence (ch_PortId cp) = Inr j"
    and "validateControllerPortParams (w_ibc w) hops i j = Inr ()"
    and "isk_Claim E (capState (w_ibc w)) cap (ChannelCapabilityPath ica_PortID chan) = Some k"
    and "account_keeper_ok E" "handlers_leave_host E msgRouter"
  shows "\<exists>w'. OnChanOpenTry (host_module E msgRouter) ctx w ORDERED hops ica_PortID chan cap cp VersionPrefix =
       Inr (NewAppVersion VersionPrefix (addr_String E (account_address E (ch_PortId cp))), w') \<and> w_app w' = w_app w \<and>
     (\<forall>u. (host_step E msgRouter)\<^sup>*\<^sup>* w' u \<longrightarrow> GetInterchainAccountAddress (w_app u) (ch_PortId cp) = None \<and>
        (\<forall>ctx' p. SourcePort p = ch_PortId cp \<longrightarrow> (\<exists>e. host_OnRecvPacket E msgRouter ctx' u p = (Some e, u))) \<and>
        (\<forall>ctx' m u'. SourcePort (mrp_Packet m) = ch_PortId cp \<longrightarrow>
           handle_msg E (host_router E msgRouter) ctx' u (RecvPacketMsg m) = Inr u' \<longrightarrow> w_app u' = w_app u))"
proof -
  let ?w = "w \<lparr> w_ibc := w_ibc w \<lparr> capState := k \<rparr> \<rparr>"
  from assms(1-7) have "OnChanOpenTry (host_module E msgRouter) ctx w ORDERED hops ica_PortID chan cap cp VersionPrefix =
       Inr (NewAppVersion VersionPrefix (addr_String E (account_address E (ch_PortId cp))), ?w)"
    by (simp add: host_module_def host_im_OnChanOpenTry_def host_OnChanOpenTry_def ica_ClaimCapability_def Let_def RegisterInterchainAccount_exists)
  moreover have "GetInterchainAccountAddress (w_app u) (ch_PortId cp) = None \<and>
        (\<forall>ctx' p. SourcePort p = ch_PortId cp \<longrightarrow> (\<exists>e. host_OnRecvPacket E msgRouter ctx' u p = (Some e, u))) \<and>
        (\<forall>ctx' m u'. SourcePort (mrp_Packet m) = ch_PortId cp \<longrightarrow>
           handle_msg E (host_router E msgRouter) ctx' u (RecvPacketMsg m) = Inr u' \<longrightarrow> w_app u' = w_app u)"
    if "(host_step E msgRouter)\<^sup>*\<^sup>* ?w u" for u
  proof -
    have t: "account_taken E (ch_PortId cp) (w_app u)"
      by (rule taken_run [OF that assms(8,9)]) (use assms(1,2) in \<open>simp add: account_taken_def\<close>)
    then have "GetInterchainAccountAddress (w_app u) (ch_PortId cp) = None" by (simp add: account_taken_def)
    moreover have "\<exists>e. host_OnRecvPacket E msgRouter ctx' u p = (Some e, u)" if "SourcePort p = ch_PortId cp" for ctx' p
      by (rule taken_refuses) (simp add: that t)
    moreover have "w_app u' = w_app u" if "SourcePort (mrp_Packet m) = ch_PortId cp"
      "handle_msg E (host_router E msgRouter) ctx' u (RecvPacketMsg m) = Inr u'" for ctx' m u'
      using that(2) by (intro taken_refuses_msg [of E m]) (simp_all add: that(1) t)
    ultimately show ?thesis by blast
  qed
  ultimately show ?thesis by (intro exI [of _ ?w]) simp
qed

subsection \<open>The controller\<close>

lemma ica_timeout_value: "ica_timeoutTimestamp = 9223372036854775807"
  by (simp add: ica_timeoutTimestamp_def mask_eq_exp_minus_1)

lemma TrySendTx_Inr:
  assumes "TrySendTx E ctx w cap portID data = Inr (seq, w')"
  obtains chan sourceChannelEnd bz p s where "GetActiveChannelID (w_app w) portID = Some chan" "channels (w_ibc w) (portID, chan) = Some sourceChannelEnd"
    "ica_MarshalPacketData E data = Some bz" "SendPacket E ctx (w_ibc w) cap p = Inr s" "w' = w \<lparr> w_ibc := s \<rparr>"
    "p = NewPacket bz seq portID chan (ch_PortId (chan_Counterparty sourceChannelEnd)) (ch_ChannelId (chan_Counterparty sourceChannelEnd))
      ZeroHeight ica_timeoutTimestamp"
  using assms by (auto simp: TrySendTx_def createOutgoingPacket_def ipd_GetBytes_def Let_def NewPacket_def chan_getters result_elims split: option.splits)

text \<open>What one chain writes, the other reads back: packet data, transactions and their messages.\<close>

definition codecs_agree :: "('k, 'm, 'c, 'x) ica_env_scheme \<Rightarrow> ('l, 'm, 'd, 'y) ica_env_scheme \<Rightarrow> bool" where
  "codecs_agree E H \<longleftrightarrow>
     (\<forall>d bz. ica_MarshalPacketData E d = Some bz \<longrightarrow> ica_UnmarshalPacketData H bz = Some d) \<and>
     (\<forall>tx bz. ica_MarshalCosmosTx E tx = Some bz \<longrightarrow> ica_UnmarshalCosmosTx H bz = Some tx) \<and>
     (\<forall>msg a. any_New E msg = Some a \<longrightarrow> any_Unpack H a = Some msg)"

text \<open>
  C12: the host executes exactly the transaction that the controller sent. If the codecs of the two
  chains read what the other has written, a transaction sent for a port goes out once, on the active
  channel of the port, under the next sequence number, with a commitment to it in the store and a
  timeout that lies at the end of time; and receiving that packet on the host chain means executing
  the same messages, in the same order, for the account of that port.
\<close>

theorem sent_transaction_is_executed:
  assumes "codecs_agree E H" "SerializeCosmosTx E msgs = Inr bz"
    and "TrySendTx E ctx w cap portID \<lparr> ipd_Type = EXECUTE_TX, ipd_Data = Some bz, ipd_Memo = memo \<rparr> = Inr (seq, w')"
  shows "\<exists>p chan. GetActiveChannelID (w_app w) portID = Some chan \<and> src_key p = (portID, chan, seq) \<and>
     nextSequenceSend (w_ibc w) (portID, chan) = Some seq \<and> nextSequenceSend (w_ibc w') (portID, chan) = Some (seq + 1) \<and>
     packetCommitments (w_ibc w') = (packetCommitments (w_ibc w))((portID, chan, seq) \<mapsto> CommitPacket p) \<and> w_app w' = w_app w \<and>
     TimeoutHeight p = ZeroHeight \<and> TimeoutTimestamp p = 9223372036854775807 \<and>
     (\<forall>msgRouter ctx' u. host_OnRecvPacket H msgRouter ctx' u p = executeTx H msgRouter ctx' u portID msgs)"
proof -
  from assms(1) have codec: "ica_MarshalPacketData E d = Some bz \<Longrightarrow> ica_UnmarshalPacketData H bz = Some d"
    "ica_MarshalCosmosTx E tx = Some bz \<Longrightarrow> ica_UnmarshalCosmosTx H bz = Some tx"
    "any_New E msg = Some a \<Longrightarrow> any_Unpack H a = Some msg" for d tx msg a bz unfolding codecs_agree_def by blast+
  let ?d = "\<lparr> ipd_Type = EXECUTE_TX, ipd_Data = Some bz, ipd_Memo = memo \<rparr>"
  from assms(3) obtain chan ch data p s where t: "GetActiveChannelID (w_app w) portID = Some chan" and "channels (w_ibc w) (portID, chan) = Some ch"
    and u: "ica_MarshalPacketData E ?d = Some data" "SendPacket E ctx (w_ibc w) cap p = Inr s" "w' = w \<lparr> w_ibc := s \<rparr>" and
    p: "p = NewPacket data seq portID chan (ch_PortId (chan_Counterparty ch)) (ch_ChannelId (chan_Counterparty ch)) ZeroHeight ica_timeoutTimestamp"
    by (rule TrySendTx_Inr)
  from assms(2) obtain anys where y: "pack_all (any_New E) msgs = Some anys" "ica_MarshalCosmosTx E \<lparr> tx_Messages = anys \<rparr> = Some bz"
    by (auto simp: SerializeCosmosTx_def split: option.splits)
  from codec(2) [OF y(2)] pack_all_unpack [OF y(1) codec(3)] have "DeserializeCosmosTx H bz = Inr msgs" by (simp add: DeserializeCosmosTx_def)
  moreover have "ica_UnmarshalPacketData H (Data p) = Some ?d" "SourcePort p = portID" using codec(1) [OF u(1)] p by (simp_all add: NewPacket_def)
  ultimately have h: "host_OnRecvPacket H msgRouter ctx' u p = executeTx H msgRouter ctx' u portID msgs" for msgRouter ctx' u
    by (simp add: host_OnRecvPacket_def)
  have k: "src_key p = (portID, chan, seq)" "src_chan p = (portID, chan)" "Sequence p = seq" "TimeoutHeight p = ZeroHeight"
    "TimeoutTimestamp p = 9223372036854775807" using p by (simp_all add: NewPacket_def ica_timeout_value)
  from SendPacket_Inr [OF u(2)] h t u(3) k show ?thesis by (intro exI [of _ p] exI [of _ chan]) auto
qed

definition controller_router :: "('k, 'm, 'c, 'x) ica_env_scheme \<Rightarrow> ('k, (controller_Params, 'c) ica_state) IBCModule \<Rightarrow>
    ('k, (controller_Params, 'c) ica_state) Router" where
  "controller_router E app = \<lparr> routes = [controller_SubModuleName \<mapsto> controller_module E app], sealed = True \<rparr>"

lemma controller_route: "route_to (controller_router E app) lookup = Inr (cbs, cap) \<Longrightarrow> cbs = controller_module E app"
  by (auto simp: route_to_def controller_router_def GetRoute_def HasRoute_def result_elims split: if_splits)

lemma controller_OnChanOpenInit_Inr:
  assumes "controller_OnChanOpenInit w order hops portID cp v = Inr ()"
  shows "order = ORDERED \<and> ch_PortId cp = ica_PortID \<and> v = VersionPrefix \<and> GetActiveChannelID (w_app w) portID = None \<and>
    (\<exists>i j. ParseControllerConnSequence portID = Inr i \<and> ParseHostConnSequence portID = Inr j \<and> validateControllerPortParams (w_ibc w) hops i j = Inr ())"
  using assms by (auto simp: controller_OnChanOpenInit_def result_elims split: if_splits option.splits)

lemma validateControllerPortParams_Inr:
  "validateControllerPortParams s (c # hops) i j = Inr () \<longleftrightarrow> ParseConnectionSequence c = Inr i \<and>
     (\<exists>connection. connections s c = Some connection \<and> ParseConnectionSequence (cp_ConnectionId (conn_Counterparty connection)) = Inr j)"
  by (auto simp: validateControllerPortParams_def first_hop_def GetConnection_def split: option.splits sum.splits if_splits)

lemma controller_open_init:
  assumes "msg_ChannelOpenInit E (controller_router E app) ctx w m = Inr w'" "mhi_Channel m = NewChannel INIT order cp hops v"
  shows "(\<exists>s. controller_OnChanOpenInit (w \<lparr> w_ibc := s \<rparr>) order hops (mhi_PortId m) cp v = Inr () \<and> connections s = connections (w_ibc w)) \<and>
    (\<exists>chan. channels (w_ibc w') (mhi_PortId m, chan) = Some (NewChannel INIT order cp hops v))"
proof -
  from assms obtain lookup cbs pcap chan cap s1 w2 where r: "route_to (controller_router E app) lookup = Inr (cbs, pcap)"
    and c: "ChanOpenInit E (w_ibc w) order hops (mhi_PortId m) (Some pcap) cp v = Inr (chan, cap, s1)"
    and b: "OnChanOpenInit cbs ctx (w \<lparr> w_ibc := s1 \<rparr>) order hops (mhi_PortId m) chan cap cp v = Inr w2"
    and w': "w_ibc w' = WriteOpenInitChannel (w_ibc w2) (mhi_PortId m) chan order hops cp v"
    by (auto simp: msg_ChannelOpenInit_def Let_def NewChannel_def split: sum.splits)
  from b [unfolded controller_route [OF r]] have "controller_OnChanOpenInit (w \<lparr> w_ibc := s1 \<rparr>) order hops (mhi_PortId m) cp v = Inr ()"
    by (auto simp: controller_module_def controller_im_OnChanOpenInit_def result_elims split: if_splits)
  moreover have "connections s1 = connections (w_ibc w)" using ChanOpenInit_check [OF c] by (simp add: check_only_def low_frame_def)
  moreover have "channels (w_ibc w') (mhi_PortId m, chan) = Some (NewChannel INIT order cp hops v)" by (simp add: w' write_init(1))
  ultimately show ?thesis by blast
qed

lemma ica_BindPort_Inr:
  assumes "ica_BindPort E w portID = Inr (cap, w')"
  shows "GetActiveChannelID (w_app w') p = GetActiveChannelID (w_app w) p \<and> connections (w_ibc w') = connections (w_ibc w)"
  using assms by (auto simp: ica_BindPort_def BindPort_def GetActiveChannelID_def Let_def result_elims split: sum.splits if_splits)

text \<open>
  Registering an interchain account opens the right channel. When the controller's entry point
  succeeds, with the core module handling its message, then the port generated for the owner and
  the two connections was free and has no active channel, the connection exists and leads to the
  host's connection that the port names, the owner contains no delimiter, and an ordered channel
  from that port over that connection to the host's port is in its initial state, with the
  interchain accounts version.
\<close>

theorem init_account_opens_channel:
  assumes "InitInterchainAccount E (\<lambda>msg. Some (\<lambda>ctx w. msg_ChannelOpenInit E (controller_router E app) ctx w msg)) ctx w conn cpconn owner = Inr w'"
  shows "\<exists>portID chan connection. GeneratePortID owner conn cpconn = Inr portID \<and> \<not> IsBound E (w_ibc w) portID \<and>
     GetActiveChannelID (w_app w) portID = None \<and> connections (w_ibc w) conn = Some connection \<and>
     ParseConnectionSequence (cp_ConnectionId (conn_Counterparty connection)) = ParseConnectionSequence cpconn \<and> Delimiter \<notin> set owner \<and>
     channels (w_ibc w') (portID, chan) = Some (NewChannel INIT ORDERED (chan_NewCounterparty ica_PortID []) [conn] VersionPrefix)"
proof -
  let ?msg = "\<lambda>portID. NewMsgChannelOpenInit portID VersionPrefix ORDERED [conn] ica_PortID ica_ModuleName"
  let ?ch = "NewChannel INIT ORDERED (chan_NewCounterparty ica_PortID []) [conn] VersionPrefix"
  from assms obtain portID cap w1 w2 where p: "GeneratePortID owner conn cpconn = Inr portID" "\<not> IsBound E (w_ibc w) portID"
    and b: "ica_BindPort E w portID = Inr (cap, w1)" "ica_ClaimCapability E w1 cap (PortPath portID) = Inr w2"
    and m: "msg_ChannelOpenInit E (controller_router E app) ctx w2 (?msg portID) = Inr w'"
    by (auto simp: InitInterchainAccount_def Let_def result_elims)
  have f: "GetActiveChannelID (w_app w2) portID = GetActiveChannelID (w_app w) portID" "connections (w_ibc w2) = connections (w_ibc w)"
    using ica_BindPort_Inr [OF b(1)] b(2) by (auto simp: ica_claim_Inr)
  have "mhi_Channel (?msg portID) = ?ch" "mhi_PortId (?msg portID) = portID" by (simp_all add: NewMsgChannelOpenInit_def)
  from controller_open_init [OF m this(1), unfolded this(2)] obtain s chan where
    c: "controller_OnChanOpenInit (w2 \<lparr> w_ibc := s \<rparr>) ORDERED [conn] portID (chan_NewCounterparty ica_PortID []) VersionPrefix = Inr ()"
      "connections s = connections (w_ibc w2)" "channels (w_ibc w') (portID, chan) = Some ?ch" by blast
  from controller_OnChanOpenInit_Inr [OF c(1)] f(1) obtain i j where
    o: "GetActiveChannelID (w_app w) portID = None" "ParseControllerConnSequence portID = Inr i" "ParseHostConnSequence portID = Inr j"
      "validateControllerPortParams s [conn] i j = Inr ()" by auto
  from GeneratePortID_unreadable [OF p(1)] o(2) have d: "Delimiter \<notin> set owner" by auto
  from GeneratePortID_parse [OF p(1) d] o(3) have "ParseConnectionSequence cpconn = Inr j" by simp
  with o(4) c(2) f(2) obtain connection where "connections (w_ibc w) conn = Some connection"
    "ParseConnectionSequence (cp_ConnectionId (conn_Counterparty connection)) = ParseConnectionSequence cpconn"
    by (auto simp: validateControllerPortParams_Inr)
  with p o(1) c(3) d show ?thesis by blast
qed

subsection \<open>Genesis\<close>

lemma load_listed:
  assumes "set chs = {\<lparr> ac_PortId = p, ac_ChannelId = c \<rparr> |p c. GetActiveChannelID st p = Some c}"
    and "set accs = {\<lparr> ria_PortId = p, ria_AccountAddress = a \<rparr> |p a. GetInterchainAccountAddress st p = Some a}"
    and "GetActiveChannelID st0 p = None" "GetInterchainAccountAddress st0 p = None"
  shows "GetActiveChannelID (load_accounts (load_channels st0 chs) accs) p = GetActiveChannelID st p"
    "GetInterchainAccountAddress (load_accounts (load_channels st0 chs) accs) p = GetInterchainAccountAddress st p"
proof -
  have c: "GetActiveChannelID (load_channels st0 chs) p = (if \<exists>ch \<in> set chs. ac_PortId ch = p then GetActiveChannelID st p else None)"
    by (subst load_channels_get [of chs "GetActiveChannelID st"]) (use assms(1,3) in auto)
  have a: "GetInterchainAccountAddress (load_accounts st1 accs) p =
      (if \<exists>acc \<in> set accs. ria_PortId acc = p then GetInterchainAccountAddress st p else GetInterchainAccountAddress st1 p)" for st1
    by (rule load_accounts_get) (use assms(2) in auto)
  have "\<lparr> ac_PortId = p, ac_ChannelId = d \<rparr> \<in> set chs" if "GetActiveChannelID st p = Some d" for d using that assms(1) by blast
  then have "(\<exists>ch \<in> set chs. ac_PortId ch = p) \<or> GetActiveChannelID st p = None"
    by (cases "GetActiveChannelID st p") (simp, metis ActiveChannel.select_convs(1))
  then show "GetActiveChannelID (load_accounts (load_channels st0 chs) accs) p = GetActiveChannelID st p" by (auto simp: c)
  have "\<lparr> ria_PortId = p, ria_AccountAddress = d \<rparr> \<in> set accs" if "GetInterchainAccountAddress st p = Some d" for d using that assms(2) by blast
  then have "(\<exists>acc \<in> set accs. ria_PortId acc = p) \<or> GetInterchainAccountAddress st p = None"
    by (cases "GetInterchainAccountAddress st p") (simp, metis RegisteredInterchainAccount.select_convs(1))
  then show "GetInterchainAccountAddress (load_accounts (load_channels st0 chs) accs) p = GetInterchainAccountAddress st p"
    using assms(4) by (auto simp: a)
qed

text \<open>
  What the capability keepers of the SDK are documented to do: \<^verbatim>\<open>NewCapability\<close> of the core module succeeds for a name that it does not
  hold, and a capability that is new can be claimed by the controller under the same name when it does not hold that name; both leave
  all other names as they are, in either keeper.
\<close>

definition capability_keepers_ok :: "('k, 'm, 'c, 'x) ica_env_scheme \<Rightarrow> bool" where
  "capability_keepers_ok E \<longleftrightarrow>
     (\<forall>k name. name \<noteq> [] \<longrightarrow> cap_Get E k name = None \<longrightarrow> isk_Get E k name = None \<longrightarrow>
       (\<exists>cap k1 k2. cap_New E k name = Some (cap, k1) \<and> isk_Claim E k1 cap name = Some k2 \<and> isk_Get E k2 name = Some cap \<and>
         (\<forall>n. n \<noteq> name \<longrightarrow> cap_Get E k2 n = cap_Get E k n \<and> isk_Get E k2 n = isk_Get E k n)))"

text \<open>A port can be bound at import when the controller holds it already, or when it is a valid port that nobody holds.\<close>

definition bindable :: "('k, 'm, 'c, 'x) ica_env_scheme \<Rightarrow> ('k, 'c) ctl_world \<Rightarrow> string \<Rightarrow> bool" where
  "bindable E w p \<longleftrightarrow> ica_IsBound E w p \<or> PortIdentifierValidator p = Inr () \<and> \<not> IsBound E (w_ibc w) p"

lemma PortPath_inj [simp]: "PortPath p = PortPath q \<longleftrightarrow> p = q" "PortPath p \<noteq> []"
  by (simp_all add: PortPath_def)

lemma bind_one:
  assumes "capability_keepers_ok E" "bindable E w p" "\<not> ica_IsBound E w p"
  obtains cap w1 w2 where "ica_BindPort E w p = Inr (cap, w1)" "ica_ClaimCapability E w1 cap (PortPath p) = Inr w2" "ica_IsBound E w2 p"
    "\<And>q. q \<noteq> p \<Longrightarrow> ica_IsBound E w2 q = ica_IsBound E w q \<and> bindable E w2 q = bindable E w q"
    "w_app w2 = w_app w \<lparr> ica_store := (ica_store (w_app w))(ica_KeyPort p \<mapsto> [char_of (1 :: nat)]) \<rparr>"
proof -
  from assms(2,3) have p: "PortIdentifierValidator p = Inr ()" "cap_Get E (capState (w_ibc w)) (PortPath p) = None"
    "isk_Get E (capState (w_ibc w)) (PortPath p) = None"
    by (auto simp: bindable_def IsBound_def ica_IsBound_def)
  from assms(1) p(2,3) obtain cap k1 k2 where k: "cap_New E (capState (w_ibc w)) (PortPath p) = Some (cap, k1)"
    "isk_Claim E k1 cap (PortPath p) = Some k2" "isk_Get E k2 (PortPath p) = Some cap"
    "\<forall>n. n \<noteq> PortPath p \<longrightarrow> cap_Get E k2 n = cap_Get E (capState (w_ibc w)) n \<and> isk_Get E k2 n = isk_Get E (capState (w_ibc w)) n"
    unfolding capability_keepers_ok_def using PortPath_inj(2) by metis
  let ?a = "w_app w \<lparr> ica_store := (ica_store (w_app w))(ica_KeyPort p \<mapsto> [char_of (1 :: nat)]) \<rparr>"
  let ?w1 = "w \<lparr> w_ibc := w_ibc w \<lparr> capState := k1 \<rparr>, w_app := ?a \<rparr>" and ?w2 = "w \<lparr> w_ibc := w_ibc w \<lparr> capState := k2 \<rparr>, w_app := ?a \<rparr>"
  have "ica_BindPort E w p = Inr (cap, ?w1)" using p k(1) by (simp add: ica_BindPort_def BindPort_def IsBound_def is_ok_def Let_def)
  moreover have "ica_ClaimCapability E ?w1 cap (PortPath p) = Inr ?w2" using k(2) by (simp add: ica_ClaimCapability_def)
  moreover have "ica_IsBound E ?w2 p" using k(3) by (simp add: ica_IsBound_def)
  moreover have "ica_IsBound E ?w2 q = ica_IsBound E w q \<and> bindable E ?w2 q = bindable E w q" if "q \<noteq> p" for q
    using k(4) that by (simp add: ica_IsBound_def bindable_def IsBound_def)
  moreover have "w_app ?w2 = ?a" by simp
  ultimately show thesis by (rule that)
qed

text \<open>Binding ports succeeds, and writes the keys of those the controller did not hold yet.\<close>

lemma bind_ports_succeeds:
  assumes "capability_keepers_ok E"
  shows "\<forall>p \<in> set ports. bindable E w p \<Longrightarrow> \<exists>w'. bind_ports E w ports = Inr w' \<and> ica_params (w_app w') = ica_params (w_app w) \<and>
     (\<forall>p. ica_IsBound E w' p \<longleftrightarrow> ica_IsBound E w p \<or> p \<in> set ports) \<and>
     (\<forall>key. ica_store (w_app w') key =
        (if \<exists>p \<in> set ports. key = ica_KeyPort p \<and> \<not> ica_IsBound E w p then Some [char_of (1 :: nat)] else ica_store (w_app w) key))"
proof (induction ports arbitrary: w)
  case (Cons p ports)
  show ?case
  proof (cases "ica_IsBound E w p")
    case True
    from Cons.IH [of w] Cons.prems True show ?thesis by (auto intro: exI)
  next
    case False
    from Cons.prems have b: "bindable E w p" by simp
    obtain cap w1 w2 where o: "ica_BindPort E w p = Inr (cap, w1)" "ica_ClaimCapability E w1 cap (PortPath p) = Inr w2" "ica_IsBound E w2 p"
      "\<And>q. q \<noteq> p \<Longrightarrow> ica_IsBound E w2 q = ica_IsBound E w q \<and> bindable E w2 q = bindable E w q"
      "w_app w2 = w_app w \<lparr> ica_store := (ica_store (w_app w))(ica_KeyPort p \<mapsto> [char_of (1 :: nat)]) \<rparr>"
      using bind_one [OF assms b False] by metis
    have "bindable E w2 q" if "q \<in> set ports" for q
      using that Cons.prems o(3,4) by (cases "q = p") (auto simp: bindable_def)
    then obtain w' where w': "bind_ports E w2 ports = Inr w'" "ica_params (w_app w') = ica_params (w_app w2)"
      "\<forall>q. ica_IsBound E w' q \<longleftrightarrow> ica_IsBound E w2 q \<or> q \<in> set ports"
      "\<forall>key. ica_store (w_app w') key =
        (if \<exists>q \<in> set ports. key = ica_KeyPort q \<and> \<not> ica_IsBound E w2 q then Some [char_of (1 :: nat)] else ica_store (w_app w2) key)"
      using Cons.IH by blast
    have eq: "(\<exists>q \<in> set ports. key = ica_KeyPort q \<and> \<not> ica_IsBound E w2 q) \<or> key = ica_KeyPort p \<longleftrightarrow>
        (\<exists>q \<in> set (p # ports). key = ica_KeyPort q \<and> \<not> ica_IsBound E w q)" for key
      using False o(3,4) by (metis list.set_intros(1) list.set_intros(2) set_ConsD)
    have "bind_ports E w (p # ports) = Inr w'" using False o(1,2) w'(1) by simp
    moreover have "ica_IsBound E w' q \<longleftrightarrow> ica_IsBound E w q \<or> q \<in> set (p # ports)" for q
      using w'(3) o(3,4) by (cases "q = p") auto
    moreover have "ica_store (w_app w') key = (if \<exists>q \<in> set (p # ports). key = ica_KeyPort q \<and> \<not> ica_IsBound E w q then Some [char_of (1 :: nat)]
        else ica_store (w_app w) key)" for key
      unfolding eq [symmetric] using w'(4) o(5) by auto
    moreover have "ica_params (w_app w') = ica_params (w_app w)" using w'(2) o(5) by simp
    ultimately show ?thesis by blast
  qed
qed simp

lemma load_ports_frame [simp]:
  "ica_store (load_channels st chs) (ica_KeyPort p) = ica_store st (ica_KeyPort p)"
  "ica_store (load_accounts st accs) (ica_KeyPort p) = ica_store st (ica_KeyPort p)"
  unfolding load_channels_def load_accounts_def
  by (induction chs arbitrary: st, simp_all add: SetActiveChannelID_def)
    (induction accs arbitrary: st, simp_all add: SetInterchainAccountAddress_def)

text \<open>
  C31: the controller's state survives an export and an import. From a well-formed store the export
  succeeds, whatever the order in which the store lists its entries. Importing it into a chain whose
  controller has no entries succeeds when each exported port is a valid port that is free there, or is held by the controller
  already; then the controller holds every exported port, and every port has its active channel and its account
  address back, and the parameters are the same. The list of ports comes back too, except for those
  that the controller held already, which the import skips without an entry in its store.
\<close>

theorem controller_genesis_roundtrip:
  assumes "iterator_ok E (ica_store st)" "store_ok (ica_store st)" "capability_keepers_ok E"
    and "ica_store (w_app w) = Map.empty" "\<forall>p. ica_store st (ica_KeyPort p) \<noteq> None \<longrightarrow> bindable E w p"
  shows "\<exists>gs w'. controller_ExportGenesis E st = Inr gs \<and> controller_InitGenesis E w gs = Inr w' \<and> ica_params (w_app w') = ica_params st \<and>
    (\<forall>p. GetActiveChannelID (w_app w') p = GetActiveChannelID st p \<and>
       GetInterchainAccountAddress (w_app w') p = GetInterchainAccountAddress st p \<and>
       (ica_store st (ica_KeyPort p) \<noteq> None \<longrightarrow> ica_IsBound E w' p) \<and>
       ica_store (w_app w') (ica_KeyPort p) = (if ica_IsBound E w p then None else ica_store st (ica_KeyPort p)))"
proof -
  from GetAll_spec(1) [OF assms(1,2)] obtain chs where g1: "GetAllActiveChannels E st = Inr chs"
    and s1: "set chs = {\<lparr> ac_PortId = p, ac_ChannelId = c \<rparr> |p c. GetActiveChannelID st p = Some c}" by (elim exE conjE)
  from GetAll_spec(2) [OF assms(1,2)] obtain accs where g2: "GetAllInterchainAccounts E st = Inr accs"
    and s2: "set accs = {\<lparr> ria_PortId = p, ria_AccountAddress = a \<rparr> |p a. GetInterchainAccountAddress st p = Some a}" by (elim exE conjE)
  from GetAll_spec(3) [OF assms(1,2)] obtain ports where g3: "GetAllPorts E st = Inr ports"
    and s3: "set ports = {p. ica_store st (ica_KeyPort p) \<noteq> None}" by (elim exE conjE)
  let ?gs = "\<lparr> cgs_ActiveChannels = chs, cgs_InterchainAccounts = accs, cgs_Ports = ports, cgs_Params = controller_GetParams st \<rparr>"
  from bind_ports_succeeds [OF assms(3), of ports w] assms(5) s3 obtain w1 where b: "bind_ports E w ports = Inr w1"
    "\<forall>p. ica_IsBound E w1 p \<longleftrightarrow> ica_IsBound E w p \<or> p \<in> set ports"
    "\<forall>key. ica_store (w_app w1) key = (if \<exists>p \<in> set ports. key = ica_KeyPort p \<and> \<not> ica_IsBound E w p then Some [char_of (1 :: nat)] else None)"
    unfolding assms(4) by auto
  let ?st = "load_accounts (load_channels (w_app w1) chs) accs"
  let ?w = "w1 \<lparr> w_app := controller_SetParams ?st (controller_GetParams st) \<rparr>"
  have k: "ica_store st (ica_KeyPort p) = (if p \<in> set ports then Some [char_of (1 :: nat)] else None)" for p
    using s3 store_ok_no_slash(3) [OF assms(2)] by fastforce
  have "GetActiveChannelID (w_app w1) p = None" "GetInterchainAccountAddress (w_app w1) p = None" for p
    using b(3) by (auto simp: GetActiveChannelID_def GetInterchainAccountAddress_def)
  note l = load_listed [OF s1 s2 this]
  have "controller_ExportGenesis E st = Inr ?gs" by (simp add: controller_ExportGenesis_def g1 g2 g3)
  moreover have "controller_InitGenesis E w ?gs = Inr ?w" by (simp add: controller_InitGenesis_def b(1))
  moreover have "ica_params (w_app ?w) = ica_params st"
    by (simp add: controller_SetParams_def controller_GetParams_def controller_NewParams_def IsControllerEnabled_def)
  moreover have "GetActiveChannelID (w_app ?w) p = GetActiveChannelID st p \<and>
       GetInterchainAccountAddress (w_app ?w) p = GetInterchainAccountAddress st p" for p
    using l by (simp add: controller_SetParams_def GetActiveChannelID_def GetInterchainAccountAddress_def)
  moreover have "(ica_store st (ica_KeyPort p) \<noteq> None \<longrightarrow> ica_IsBound E ?w p) \<and>
       ica_store (w_app ?w) (ica_KeyPort p) = (if ica_IsBound E w p then None else ica_store st (ica_KeyPort p))" for p
    using b(2,3) by (auto simp: controller_SetParams_def k ica_IsBound_def)
  ultimately show ?thesis by blast
qed

end
