(* ===== verification/IcaExamples.thy ===== *)
theory IcaExamples
  imports IcaSafety
begin

text \<open>
  Concrete chains on which the properties of interchain accounts are applied: a host chain with one
  open channel and one registered account, a controller chain with one active channel, and a
  message that counts.
\<close>

subsection \<open>Messages, codecs and accounts\<close>

datatype toy_msg = Count | Garbled

type_synonym toy_rest = "bytes list \<times> nat"

definition toy_count :: "ctx \<Rightarrow> (unit, toy_rest) host_world \<Rightarrow> error option \<times> (unit, toy_rest) host_world" where
  "toy_count ctx w = (None, w \<lparr> w_app := w_app w \<lparr> ica_rest := (fst (ica_rest (w_app w)), Suc (snd (ica_rest (w_app w)))) \<rparr> \<rparr>)"

definition toy_router :: "(unit, toy_msg, toy_rest) msg_router" where
  "toy_router msg = (case msg of Count \<Rightarrow> Some toy_count | Garbled \<Rightarrow> None)"

definition toy_any :: "toy_msg \<Rightarrow> Any" where
  "toy_any msg = \<lparr> any_TypeUrl = ''/toy'', any_Value = (case msg of Count \<Rightarrow> ''c'' | Garbled \<Rightarrow> ''g'') \<rparr>"

definition toy_tx :: "toy_msg \<Rightarrow> CosmosTx" where
  "toy_tx msg = \<lparr> tx_Messages = [toy_any msg] \<rparr>"

definition toy_data :: "bytes \<Rightarrow> InterchainAccountPacketData" where
  "toy_data bz = \<lparr> ipd_Type = EXECUTE_TX, ipd_Data = Some bz, ipd_Memo = [] \<rparr>"

text \<open>The iterator lists the entries of a store with at most one account, active channel and port each.\<close>

definition demo_ienv :: "string \<Rightarrow> (unit, toy_msg, toy_rest) ica_env" where
  "demo_ienv owner = keeper_env.extend (demo_kenv \<lparr> cap_Lookup := (\<lambda>_ _. Some ([''ibc'', owner], 0)), cap_Get := (\<lambda>_ _. None) \<rparr>)
     \<lparr> isk_Get = (\<lambda>_ _. None), isk_Claim = (\<lambda>k _ _. Some k),
       ica_MarshalPacketData = (\<lambda>d. if d = toy_data ''tx'' then Some ''data'' else if d = toy_data ''bad'' then Some ''back'' else None),
       ica_UnmarshalPacketData = (\<lambda>b. if b = ''data'' then Some (toy_data ''tx'') else if b = ''back'' then Some (toy_data ''bad'') else None),
       ica_MarshalCosmosTx = (\<lambda>tx. if tx = toy_tx Count then Some ''tx'' else if tx = toy_tx Garbled then Some ''bad'' else None),
       ica_UnmarshalCosmosTx = (\<lambda>b. if b = ''tx'' then Some (toy_tx Count) else if b = ''bad'' then Some (toy_tx Garbled) else None),
       any_New = (\<lambda>msg. Some (toy_any msg)),
       any_Unpack = (\<lambda>a. if a = toy_any Count then Some Count else if a = toy_any Garbled then Some Garbled else None),
       ica_MarshalAck = (\<lambda>_. Some ''ack''), ica_ErrorText = (\<lambda>_. ''e''), msg_TypeURL = (\<lambda>_. ''/toy''),
       msg_GetSigners = (\<lambda>msg. case msg of Count \<Rightarrow> Some [''acc''] | Garbled \<Rightarrow> None), msg_ValidateBasic = (\<lambda>_. Inr ()),
       addr_Derive = (\<lambda>_ _. ''acc''), addr_String = (\<lambda>a. a), addr_FromBech32 = (\<lambda>s. Some s),
       json_MarshalAccount = (\<lambda>_. None), json_UnmarshalAccount = (\<lambda>_. None),
       auth_NewBaseAccount = (\<lambda>a pk n s. \<lparr> ba_Address = a, ba_PubKey = pk, ba_AccountNumber = n, ba_Sequence = s \<rparr>),
       auth_NewBaseAccountWithAddress = (\<lambda>a. \<lparr> ba_Address = a, ba_PubKey = None, ba_AccountNumber = 0, ba_Sequence = 0 \<rparr>),
       auth_ValidateBase = (\<lambda>_. Inr ()), auth_ModuleAddress = (\<lambda>_. Some ''module''),
       auth_GetAccount = (\<lambda>c a. if a \<in> set (fst c) then Some \<lparr> ba_Address = a, ba_PubKey = None, ba_AccountNumber = 0, ba_Sequence = 0 \<rparr> else None),
       auth_NewAccount = (\<lambda>c acc. (acc, c)), auth_SetAccount = (\<lambda>c acc. (ba_Address (ia_BaseAccount acc) # fst c, snd c)),
       kv_Iterate = (\<lambda>m p. map (\<lambda>k. (k, the (m k))) (filter (\<lambda>k. m k \<noteq> None \<and> prefix p k)
          [KeyActiveChannel ''ics27-1.0.4.me'', KeyOwnerAccount ''ics27-1.0.4.me'', ica_KeyPort ''ics27-1.0.4.me''])) \<rparr>"

lemma demo_ienv_fields:
  "isk_Get (demo_ienv owner) = (\<lambda>_ _. None)" "isk_Claim (demo_ienv owner) = (\<lambda>k _ _. Some k)"
  "ica_MarshalPacketData (demo_ienv owner) = (\<lambda>d. if d = toy_data ''tx'' then Some ''data'' else if d = toy_data ''bad'' then Some ''back'' else None)"
  "ica_UnmarshalPacketData (demo_ienv owner) =
     (\<lambda>b. if b = ''data'' then Some (toy_data ''tx'') else if b = ''back'' then Some (toy_data ''bad'') else None)"
  "ica_MarshalCosmosTx (demo_ienv owner) = (\<lambda>tx. if tx = toy_tx Count then Some ''tx'' else if tx = toy_tx Garbled then Some ''bad'' else None)"
  "ica_UnmarshalCosmosTx (demo_ienv owner) = (\<lambda>b. if b = ''tx'' then Some (toy_tx Count) else if b = ''bad'' then Some (toy_tx Garbled) else None)"
  "any_New (demo_ienv owner) = (\<lambda>msg. Some (toy_any msg))"
  "any_Unpack (demo_ienv owner) = (\<lambda>a. if a = toy_any Count then Some Count else if a = toy_any Garbled then Some Garbled else None)"
  "ica_MarshalAck (demo_ienv owner) = (\<lambda>_. Some ''ack'')" "msg_TypeURL (demo_ienv owner) = (\<lambda>_. ''/toy'')"
  "msg_GetSigners (demo_ienv owner) = (\<lambda>msg. case msg of Count \<Rightarrow> Some [''acc''] | Garbled \<Rightarrow> None)"
  "msg_ValidateBasic (demo_ienv owner) = (\<lambda>_. Inr ())" "addr_Derive (demo_ienv owner) = (\<lambda>_ _. ''acc'')" "addr_String (demo_ienv owner) = (\<lambda>a. a)"
  "auth_NewBaseAccountWithAddress (demo_ienv owner) = (\<lambda>a. \<lparr> ba_Address = a, ba_PubKey = None, ba_AccountNumber = 0, ba_Sequence = 0 \<rparr>)"
  "auth_GetAccount (demo_ienv owner) =
     (\<lambda>c a. if a \<in> set (fst c) then Some \<lparr> ba_Address = a, ba_PubKey = None, ba_AccountNumber = 0, ba_Sequence = 0 \<rparr> else None)"
  "auth_NewAccount (demo_ienv owner) = (\<lambda>c acc. (acc, c))"
  "kv_Iterate (demo_ienv owner) = (\<lambda>m p. map (\<lambda>k. (k, the (m k))) (filter (\<lambda>k. m k \<noteq> None \<and> prefix p k)
          [KeyActiveChannel ''ics27-1.0.4.me'', KeyOwnerAccount ''ics27-1.0.4.me'', ica_KeyPort ''ics27-1.0.4.me'']))"
  "cap_Lookup (demo_ienv owner) = (\<lambda>_ _. Some ([''ibc'', owner], 0))" "cap_Authenticate (demo_ienv owner) = (\<lambda>_ _ _. True)"
  "cap_Get (demo_ienv owner) = (\<lambda>_ _. None)" "cap_New (demo_ienv owner) = (\<lambda>_ _. Some (0, ()))"
  "sdk_AccAddressOk (demo_ienv owner) = (\<lambda>_. True)"
  by (simp_all add: demo_ienv_def keeper_env.extend_def demo_kenv_def env.extend_def lax_env_def demo_env_def ics23.extend_def)

lemma toy_distinct [simp]: "toy_any Garbled \<noteq> toy_any Count" "toy_tx Garbled \<noteq> toy_tx Count" "toy_data ''bad'' \<noteq> toy_data ''tx''"
  by (simp_all add: toy_any_def toy_tx_def toy_data_def)

lemma toy_codec:
  "ica_MarshalPacketData (demo_ienv o1) d = Some bz \<Longrightarrow> ica_UnmarshalPacketData (demo_ienv o2) bz = Some d"
  "ica_MarshalCosmosTx (demo_ienv o1) tx = Some bz \<Longrightarrow> ica_UnmarshalCosmosTx (demo_ienv o2) bz = Some tx"
  "any_New (demo_ienv o1) msg = Some a \<Longrightarrow> any_Unpack (demo_ienv o2) a = Some msg"
proof -
  show "ica_MarshalPacketData (demo_ienv o1) d = Some bz \<Longrightarrow> ica_UnmarshalPacketData (demo_ienv o2) bz = Some d"
    by (auto simp: demo_ienv_fields split: if_splits)
  show "ica_MarshalCosmosTx (demo_ienv o1) tx = Some bz \<Longrightarrow> ica_UnmarshalCosmosTx (demo_ienv o2) bz = Some tx"
    by (auto simp: demo_ienv_fields split: if_splits)
  show "any_New (demo_ienv o1) msg = Some a \<Longrightarrow> any_Unpack (demo_ienv o2) a = Some msg"
    by (cases msg) (auto simp: demo_ienv_fields)
qed

lemma toy_codecs_agree: "codecs_agree (demo_ienv o1) (demo_ienv o2)"
  unfolding codecs_agree_def using toy_codec by blast

lemma toy_deserialize: "DeserializeCosmosTx (demo_ienv owner) ''tx'' = Inr [Count]" "DeserializeCosmosTx (demo_ienv owner) ''bad'' = Inr [Garbled]"
  by (simp_all add: DeserializeCosmosTx_def demo_ienv_fields) (simp_all add: toy_tx_def)

lemma toy_accounts_ok: "accounts_ok (demo_ienv owner)"
proof -
  have "ValidateAccountAddress ''acc'' = Inr ()" by code_simp
  then show ?thesis by (simp add: accounts_ok_def demo_ienv_fields account_address_def GenerateAddress_def)
qed

subsection \<open>A host chain\<close>

abbreviation host_E :: "(unit, toy_msg, toy_rest) ica_env" where "host_E \<equiv> demo_ienv ''icahost''"
abbreviation demo_ctl_port :: string where "demo_ctl_port \<equiv> ''ics27-1.4.0.me''"

definition host_end :: Channel where
  "host_end = NewChannel OPEN ORDERED (chan_NewCounterparty demo_ctl_port ''channel-7'') [''connection-0''] ''ics27-1.acc''"

definition host_core :: "unit ibc_state" where
  "host_core = demo_conn_state \<lparr> connections := [''connection-0'' \<mapsto> demo_open_conn], nextChannelSequence := Some 8,
     channels := [(ica_PortID, ''channel-0'') \<mapsto> host_end], nextSequenceSend := [(ica_PortID, ''channel-0'') \<mapsto> 1],
     nextSequenceRecv := [(ica_PortID, ''channel-0'') \<mapsto> 1], nextSequenceAck := [(ica_PortID, ''channel-0'') \<mapsto> 1] \<rparr>"

definition host_world :: "(bytes \<rightharpoonup> bytes) \<Rightarrow> bytes list \<Rightarrow> (unit, toy_rest) host_world" where
  "host_world store accs = \<lparr> w_ibc = host_core,
     w_app = \<lparr> ica_store = store, ica_params = host_NewParams True [''/toy''], ica_rest = (accs, 0) \<rparr> \<rparr>"

definition host_ready :: "(unit, toy_rest) host_world" where
  "host_ready = host_world [KeyOwnerAccount demo_ctl_port \<mapsto> ''acc''] [''acc'']"

definition host_packet :: "bytes \<Rightarrow> Packet" where
  "host_packet bz = NewPacket bz 1 demo_ctl_port ''channel-7'' ica_PortID ''channel-0'' ZeroHeight ica_timeoutTimestamp"

definition host_msg :: "bytes \<Rightarrow> MsgRecvPacket" where
  "host_msg bz = \<lparr> mrp_Packet = host_packet bz, mrp_ProofCommitment = ''p'', mrp_ProofHeight = Height 1 5, mrp_Signer = ''relayer'' \<rparr>"

lemma host_packet_fields:
  "SourcePort (host_packet bz) = demo_ctl_port" "SourceChannel (host_packet bz) = ''channel-7''" "DestinationPort (host_packet bz) = ica_PortID"
  "DestinationChannel (host_packet bz) = ''channel-0''" "Sequence (host_packet bz) = 1" "TimeoutHeight (host_packet bz) = ZeroHeight"
  "TimeoutTimestamp (host_packet bz) = 9223372036854775807" "Data (host_packet bz) = bz"
  by (simp_all add: host_packet_def NewPacket_def ica_timeout_value)

lemma host_core_fields:
  "GetChannel host_core ica_PortID ''channel-0'' = Some host_end" "chan_State host_end = OPEN" "chan_Ordering host_end = ORDERED"
  "chan_Counterparty host_end = chan_NewCounterparty demo_ctl_port ''channel-7''" "chan_Authenticate (demo_ienv owner) s c x y"
  "open_connection host_core (chan_ConnectionHops host_end) = Inr demo_open_conn"
  "nextSequenceRecv host_core (ica_PortID, ''channel-0'') = Some 1" "packetAcks host_core = Map.empty"
  by (simp_all add: host_core_def host_end_def NewChannel_def GetChannel_def chan_Authenticate_def demo_ienv_fields
      hop_connection_def open_connection_def first_hop_def GetConnection_def demo_open_conn_def NewConnectionEnd_def
      demo_conn_state_def set_client_store_def empty_ibc_state_def)

lemma host_verify:
  assumes "v \<noteq> []"
  shows "is_ok (conn_VerifyPacketCommitment host_E demo_ctx host_core demo_open_conn (Height 1 5) ''p'' demo_ctl_port ''channel-7'' 1 v)"
proof -
  obtain x y where "v = x # y" using assms by (cases v) auto
  moreover have "is_ok (conn_VerifyPacketCommitment host_E demo_ctx host_core demo_open_conn (Height 1 5) ''p'' demo_ctl_port ''channel-7'' 1 (x # y))"
    by code_simp
  ultimately show ?thesis by simp
qed

lemma host_recv:
  "\<exists>s. RecvPacket host_E demo_ctx host_core c (host_packet bz) ''p'' (Height 1 5) = Inr s \<and>
     channels s = channels host_core \<and> packetAcks s = Map.empty"
proof -
  from host_verify [OF CommitPacket_ne, of "host_packet bz"] obtain s1 where
    v: "conn_VerifyPacketCommitment host_E demo_ctx host_core demo_open_conn (Height 1 5) ''p'' demo_ctl_port ''channel-7'' 1
      (CommitPacket (host_packet bz)) = Inr s1" by (auto simp: is_ok_iff)
  have t: "IsZero ZeroHeight" "\<not> (9223372036854775807 :: u64) \<le> block_time_u64 demo_ctx" by code_simp+
  note f = verified_frame_fields [OF conn_verify_frames(5) [OF v]]
  have "GetNextSequenceRecv s1 ica_PortID ''channel-0'' = Some 1" using f(9) by (simp add: GetNextSequenceRecv_def host_core_fields)
  with v t f(7,13) show ?thesis
    by (simp add: RecvPacket_def Let_def host_packet_fields host_core_fields demo_flow_fields(11) chan_NewCounterparty_def SetNextSequenceRecv_def)
qed

lemma host_world_fields:
  "w_ibc (host_world m accs) = host_core" "IsHostEnabled (w_app (host_world m accs))" "GetAllowMessages (w_app (host_world m accs)) = [''/toy'']"
  "ica_rest (w_app (host_world m accs)) = (accs, 0)" "GetInterchainAccountAddress (w_app (host_world m accs)) q = m (KeyOwnerAccount q)"
  "w_app (host_world m accs \<lparr> w_ibc := s \<rparr>) = w_app (host_world m accs)"
  by (simp_all add: host_world_def IsHostEnabled_def GetAllowMessages_def host_NewParams_def GetInterchainAccountAddress_def)

lemma host_executes:
  "\<exists>u. host_OnRecvPacket host_E toy_router ctx (host_ready \<lparr> w_ibc := s \<rparr>) (host_packet ''data'') = (None, u) \<and> w_ibc u = s \<and>
     w_app u \<noteq> w_app host_ready"
proof -
  have "authorised host_E ''acc'' [''/toy''] Count" by (simp add: authorised_def demo_ienv_fields)
  then have a: "AuthenticateTx host_E (w_app host_ready) [Count] demo_ctl_port = Inr ()"
    by (simp add: AuthenticateTx_Inr host_ready_def host_world_fields)
  have "execute_msgs host_E toy_router ctx (host_ready \<lparr> w_ibc := s \<rparr>) [Count] = toy_count ctx (host_ready \<lparr> w_ibc := s \<rparr>)"
    by (simp add: executeMsg_def toy_router_def demo_ienv_fields toy_count_def)
  with a have "host_OnRecvPacket host_E toy_router ctx (host_ready \<lparr> w_ibc := s \<rparr>) (host_packet ''data'') = toy_count ctx (host_ready \<lparr> w_ibc := s \<rparr>)"
    by (simp add: host_OnRecvPacket_def host_packet_fields demo_ienv_fields toy_data_def toy_deserialize executeTx_def toy_count_def)
  then show ?thesis by (simp add: toy_count_def host_ready_def host_world_def)
qed

lemma host_route_to: "route_to (host_router host_E toy_router) (LookupModuleByChannel host_E s p c) = Inr (host_module host_E toy_router, 0)"
  by (simp add: route_to_def host_router_def GetRoute_def HasRoute_def LookupModuleByChannel_def GetModuleOwner_def demo_ienv_fields
      host_SubModuleName_def)

lemma host_handles:
  "\<exists>w'. handle_msg host_E (host_router host_E toy_router) demo_ctx host_ready (RecvPacketMsg (host_msg ''data'')) = Inr w' \<and> w_app w' \<noteq> w_app host_ready"
proof -
  from host_recv obtain s where s: "RecvPacket host_E demo_ctx host_core (Some 0) (host_packet ''data'') ''p'' (Height 1 5) = Inr s"
    "channels s = channels host_core" "packetAcks s = Map.empty" by blast
  from host_executes obtain u where u: "host_OnRecvPacket host_E toy_router demo_ctx (host_ready \<lparr> w_ibc := s \<rparr>) (host_packet ''data'') = (None, u)"
    "w_ibc u = s" "w_app u \<noteq> w_app host_ready" by blast
  have g: "GetChannel s ica_PortID ''channel-0'' = Some host_end" using s(2) host_core_fields(1) by (simp add: GetChannel_def)
  have k: "\<exists>v. WriteAcknowledgement host_E s (Some 0) (host_packet ''data'') ''ack'' = Inr v"
    using s(3) by (auto simp: WriteAcknowledgement_def host_packet_fields g host_core_fields HasPacketAcknowledgement_def)
  then obtain v where "WriteAcknowledgement host_E s (Some 0) (host_packet ''data'') ''ack'' = Inr v" by blast
  with u have "recv_callback host_E (host_module host_E toy_router) 0 demo_ctx (host_packet ''data'') ''relayer'' (host_ready \<lparr> w_ibc := s \<rparr>) =
      Inr (u \<lparr> w_ibc := v \<rparr>)"
    by (simp add: recv_callback_def host_module_def host_im_OnRecvPacket_def host_ready_def host_world_fields demo_ienv_fields
        NewResultAcknowledgement_def Success_def on_ibc_def)
  then have "msg_RecvPacket host_E (host_router host_E toy_router) demo_ctx host_ready (host_msg ''data'') = Inr (u \<lparr> w_ibc := v \<rparr>)"
    by (simp add: msg_RecvPacket_def host_msg_def parse_relayer_def demo_ienv_fields host_route_to host_ready_def host_world_fields s(1) verify_cached_def)
  with u(3) show ?thesis by auto
qed

theorem host_executes_only_authorised_witness:
  "\<exists>w'. handle_msg host_E (host_router host_E toy_router) demo_ctx host_ready (RecvPacketMsg (host_msg ''data'')) = Inr w' \<and>
     GetInterchainAccountAddress (w_app host_ready) demo_ctl_port \<noteq> None \<and> w_app w' \<noteq> w_app host_ready"
proof -
  from host_handles obtain w' where h: "handle_msg host_E (host_router host_E toy_router) demo_ctx host_ready (RecvPacketMsg (host_msg ''data'')) = Inr w'"
    "w_app w' \<noteq> w_app host_ready" by blast
  have "mrp_Packet (host_msg ''data'') = host_packet ''data''" by (simp add: host_msg_def)
  with host_executes_only_authorised [OF h] have "GetInterchainAccountAddress (w_app host_ready) demo_ctl_port \<noteq> None"
    by (auto simp: host_packet_fields)
  with h show ?thesis by blast
qed

theorem malformed_signer_is_never_received_witness:
  "handle_msg host_E (host_router host_E toy_router) demo_ctx host_ready (RecvPacketMsg (host_msg ''back'')) \<in> insert (Inr host_ready) (range Inl)"
proof -
  have m: "mrp_Packet (host_msg ''back'') = host_packet ''back''" by (simp add: host_msg_def)
  show ?thesis
    by (rule malformed_signer_is_never_received [where data = "toy_data ''bad''" and before = "[]" and bad = Garbled and msgs = "[]" and addr = "''acc''"])
      (simp_all add: m host_packet_fields demo_ienv_fields toy_deserialize host_ready_def host_world_fields, simp_all add: toy_data_def toy_deserialize)
qed

text \<open>Opening a channel on the host, before and after someone has created the account.\<close>

definition ctl_side :: chan_counterparty where
  "ctl_side = chan_NewCounterparty demo_ctl_port ''channel-7''"

lemma ctl_side_port [simp]: "ch_PortId ctl_side = demo_ctl_port"
  by (simp add: ctl_side_def chan_NewCounterparty_def)

lemma host_open_try:
  "\<exists>version w'. OnChanOpenTry (host_module host_E toy_router) demo_ctx (host_world m accs) ORDERED [''connection-0''] ica_PortID ''channel-0'' 0
     ctl_side VersionPrefix = Inr (version, w')"
proof -
  have "ParseHostConnSequence demo_ctl_port = Inr 0" "ParseControllerConnSequence demo_ctl_port = Inr 4"
    "ParseConnectionSequence ''connection-0'' = Inr 0" "ParseConnectionSequence (cp_ConnectionId (conn_Counterparty demo_open_conn)) = Inr 4"
    by code_simp+
  moreover from this have "validateControllerPortParams host_core [''connection-0''] 0 4 = Inr ()"
    unfolding validateControllerPortParams_Inr by (simp add: host_core_def)
  ultimately show ?thesis
    by (simp add: host_module_def host_im_OnChanOpenTry_def host_OnChanOpenTry_def host_world_fields ica_ClaimCapability_def demo_ienv_fields Let_def)
qed

lemma demo_account: "account_address host_E q = ''acc''"
  by (simp add: account_address_def GenerateAddress_def demo_ienv_fields)

theorem chains_agree_on_account_witness:
  "\<exists>version w' u' addr. OnChanOpenTry (host_module host_E toy_router) demo_ctx (host_world Map.empty []) ORDERED [''connection-0''] ica_PortID
       ''channel-0'' 0 ctl_side VersionPrefix = Inr (version, w') \<and>
     controller_OnChanOpenAck \<lparr> w_ibc = host_core, w_app = \<lparr> ica_store = Map.empty, ica_params = controller_DefaultParams, ica_rest = () \<rparr> \<rparr>
       demo_ctl_port ''channel-7'' version = Inr u' \<and>
     GetInterchainAccountAddress (w_app u') demo_ctl_port = Some addr \<and> GetInterchainAccountAddress (w_app w') demo_ctl_port = Some addr"
proof -
  from host_open_try obtain version w' where o: "OnChanOpenTry (host_module host_E toy_router) demo_ctx (host_world Map.empty []) ORDERED
    [''connection-0''] ica_PortID ''channel-0'' 0 ctl_side VersionPrefix = Inr (version, w')" by blast
  have n: "auth_GetAccount host_E (ica_rest (w_app (host_world Map.empty []))) (account_address host_E (ch_PortId ctl_side)) = None"
    by (simp add: host_world_fields demo_ienv_fields)
  from chains_agree_on_account [OF toy_accounts_ok n o] o show ?thesis unfolding ctl_side_port by blast
qed

lemma toy_account_keeper: "account_keeper_ok (demo_ienv owner)"
  by (simp add: account_keeper_ok_def keeps_accounts_def demo_ienv_fields) (simp add: demo_ienv_def keeper_env.extend_def)

lemma toy_handlers: "handlers_leave_host (demo_ienv owner) toy_router"
  by (auto simp: handlers_leave_host_def leaves_host_def keeps_accounts_def toy_router_def toy_count_def demo_ienv_fields split: toy_msg.splits)

text \<open>The host of the opened channel receives a packet of the port and acknowledges it with an error, which is one more step of the chain.\<close>

lemma taken_host_handles:
  "\<exists>u. handle_msg host_E (host_router host_E toy_router) demo_ctx (host_world Map.empty accs) (RecvPacketMsg (host_msg ''data'')) = Inr u"
proof -
  let ?w = "host_world Map.empty accs"
  from host_recv obtain s where s: "RecvPacket host_E demo_ctx host_core (Some 0) (host_packet ''data'') ''p'' (Height 1 5) = Inr s"
    "channels s = channels host_core" "packetAcks s = Map.empty" by blast
  have h: "host_OnRecvPacket host_E toy_router demo_ctx (?w \<lparr> w_ibc := s \<rparr>) (host_packet ''data'') =
      (Some (IcaE ErrInterchainAccountNotFound), ?w \<lparr> w_ibc := s \<rparr>)"
    by (simp add: host_OnRecvPacket_def host_packet_fields demo_ienv_fields toy_data_def toy_deserialize executeTx_def AuthenticateTx_def host_world_fields)
  have g: "GetChannel s ica_PortID ''channel-0'' = Some host_end" using s(2) host_core_fields(1) by (simp add: GetChannel_def)
  have "\<exists>v. WriteAcknowledgement host_E s (Some 0) (host_packet ''data'') ''ack'' = Inr v"
    using s(3) by (auto simp: WriteAcknowledgement_def host_packet_fields g host_core_fields HasPacketAcknowledgement_def)
  then obtain v where "WriteAcknowledgement host_E s (Some 0) (host_packet ''data'') ''ack'' = Inr v" by blast
  with h have "is_ok (recv_callback host_E (host_module host_E toy_router) 0 demo_ctx (host_packet ''data'') ''relayer'' (?w \<lparr> w_ibc := s \<rparr>))"
    by (simp add: recv_callback_def host_module_def host_im_OnRecvPacket_def host_world_fields demo_ienv_fields
        NewErrorAcknowledgement_def Success_def on_ibc_def is_ok_iff)
  then show ?thesis
    by (simp add: msg_RecvPacket_def host_msg_def parse_relayer_def demo_ienv_fields host_route_to host_world_fields s(1) verify_cached_def is_ok_iff)
qed

theorem existing_account_is_unusable_witness:
  "\<exists>version w' u e. OnChanOpenTry (host_module host_E toy_router) demo_ctx (host_world Map.empty [''acc'']) ORDERED [''connection-0''] ica_PortID
       ''channel-0'' 0 ctl_side VersionPrefix = Inr (version, w') \<and>
     handle_msg host_E (host_router host_E toy_router) demo_ctx w' (RecvPacketMsg (host_msg ''data'')) = Inr u \<and>
     GetInterchainAccountAddress (w_app u) demo_ctl_port = None \<and>
     host_OnRecvPacket host_E toy_router demo_ctx u (host_packet ''data'') = (Some e, u)"
proof -
  let ?w = "host_world Map.empty [''acc'']"
  have p: "ParseHostConnSequence (ch_PortId ctl_side) = Inr 0" "ParseControllerConnSequence (ch_PortId ctl_side) = Inr 4"
    "ParseConnectionSequence ''connection-0'' = Inr 0" "ParseConnectionSequence (cp_ConnectionId (conn_Counterparty demo_open_conn)) = Inr 4"
    by code_simp+
  then have v: "validateControllerPortParams (w_ibc ?w) [''connection-0''] 0 4 = Inr ()"
    unfolding validateControllerPortParams_Inr by (simp add: host_world_fields host_core_def)
  have n: "auth_GetAccount host_E (ica_rest (w_app ?w)) (account_address host_E (ch_PortId ctl_side)) \<noteq> None"
    "GetInterchainAccountAddress (w_app ?w) (ch_PortId ctl_side) = None" "IsHostEnabled (w_app ?w)"
    by (simp_all add: host_world_fields demo_ienv_fields demo_account)
  have c: "isk_Claim host_E (capState (w_ibc ?w)) 0 (ChannelCapabilityPath ica_PortID ''channel-0'') = Some ()" by (simp add: demo_ienv_fields)
  from existing_account_is_unusable [OF n p(1,2) v c toy_account_keeper toy_handlers] obtain version w' where
    o: "OnChanOpenTry (host_module host_E toy_router) demo_ctx ?w ORDERED [''connection-0''] ica_PortID ''channel-0'' 0 ctl_side VersionPrefix =
       Inr (version, w')" and a: "w_app w' = w_app ?w" and
    r: "\<And>u. (host_step host_E toy_router)\<^sup>*\<^sup>* w' u \<Longrightarrow> GetInterchainAccountAddress (w_app u) demo_ctl_port = None \<and>
        (\<forall>ctx' p. SourcePort p = demo_ctl_port \<longrightarrow> (\<exists>e. host_OnRecvPacket host_E toy_router ctx' u p = (Some e, u)))"
    unfolding ctl_side_port by metis
  have "w_ibc w' = host_core" using o
    by (auto simp: host_module_def host_im_OnChanOpenTry_def host_OnChanOpenTry_def Let_def result_elims ica_claim_Inr host_world_fields split: if_splits)
  with a have w': "w' = ?w" by (simp add: host_world_def)
  from taken_host_handles obtain u where u: "handle_msg host_E (host_router host_E toy_router) demo_ctx ?w (RecvPacketMsg (host_msg ''data'')) = Inr u"
    by blast
  then have "(host_step host_E toy_router)\<^sup>*\<^sup>* w' u" unfolding w' by (intro r_into_rtranclp host_step.core_message)
  with r o u show ?thesis unfolding w' by (metis host_packet_fields(1))
qed

subsection \<open>A controller chain\<close>

abbreviation ctl_E :: "(unit, toy_msg, toy_rest) ica_env" where "ctl_E \<equiv> demo_ienv ''icacontroller''"
abbreviation own_port :: string where "own_port \<equiv> ''ics27-1.0.4.me''"

definition ctl_end :: Channel where
  "ctl_end = NewChannel OPEN ORDERED (chan_NewCounterparty ica_PortID ''channel-9'') [''connection-0''] ''ics27-1.acc''"

definition ctl_core :: "unit ibc_state" where
  "ctl_core = demo_conn_state \<lparr> connections := [''connection-0'' \<mapsto> demo_open_conn], nextChannelSequence := Some 8,
     channels := [(own_port, ''channel-0'') \<mapsto> ctl_end], nextSequenceSend := [(own_port, ''channel-0'') \<mapsto> 3] \<rparr>"

definition ctl_store :: "bytes \<rightharpoonup> bytes" where
  "ctl_store = [KeyActiveChannel own_port \<mapsto> ''channel-0'', KeyOwnerAccount own_port \<mapsto> ''acc'', ica_KeyPort own_port \<mapsto> [char_of (1 :: nat)]]"

definition ctl_world :: "(bytes \<rightharpoonup> bytes) \<Rightarrow> (unit, toy_rest) ctl_world" where
  "ctl_world store = \<lparr> w_ibc = ctl_core, w_app = \<lparr> ica_store = store, ica_params = controller_DefaultParams, ica_rest = ([], 0) \<rparr> \<rparr>"

lemma ctl_core_fields:
  "GetChannel ctl_core own_port ''channel-0'' = Some ctl_end" "chan_State ctl_end = OPEN"
  "chan_Counterparty ctl_end = chan_NewCounterparty ica_PortID ''channel-9''"
  "hop_connection ctl_core (chan_ConnectionHops ctl_end) = Inr demo_open_conn" "GetNextSequenceSend ctl_core own_port ''channel-0'' = Some 3"
  "GetClientState ctl_core (conn_ClientId demo_open_conn) = Some (TMClient demo_tm2)"
  by (simp_all add: ctl_core_def ctl_end_def NewChannel_def GetChannel_def hop_connection_def first_hop_def GetConnection_def demo_open_conn_def
      NewConnectionEnd_def GetNextSequenceSend_def demo_conn_state_def set_client_store_def GetClientState_def)

lemma ctl_send_packet:
  "\<exists>s. SendPacket ctl_E demo_ctx ctl_core (Some 0) (NewPacket ''data'' 3 own_port ''channel-0'' ica_PortID ''channel-9'' ZeroHeight ica_timeoutTimestamp) = Inr s"
  (is "\<exists>s. SendPacket _ _ _ _ ?p = Inr s")
proof -
  have c: "tm_Status demo_ctx (clientStores ctl_core (conn_ClientId demo_open_conn)) demo_tm2 = Active"
    "tm_LatestHeight demo_tm2 = Height 1 5" "ParseClientIdentifier (conn_ClientId demo_open_conn) = Inr (Tendermint, 0)"
    "IsZero ZeroHeight" "GetTimestampAtHeight ctl_core demo_open_conn (Height 1 5) = Inr 50" "ica_timeoutTimestamp \<noteq> 0" "\<not> ica_timeoutTimestamp \<le> 50"
    by code_simp+
  have "is_ok (Packet_ValidateBasic ?p)" by code_simp
  then have "Packet_ValidateBasic ?p = Inr ()" by (simp add: is_ok_iff)
  then show ?thesis
    by (simp add: SendPacket_def NewPacket_def ctl_core_fields host_core_fields(5) chan_NewCounterparty_def c Let_def)
qed

lemma ctl_send:
  "\<exists>w'. TrySendTx ctl_E demo_ctx (ctl_world ctl_store) (Some 0) own_port (toy_data ''tx'') = Inr (3, w')"
proof -
  from ctl_send_packet obtain s where s: "SendPacket ctl_E demo_ctx ctl_core (Some 0)
    (NewPacket ''data'' 3 own_port ''channel-0'' ica_PortID ''channel-9'' ZeroHeight ica_timeoutTimestamp) = Inr s" by blast
  have "GetActiveChannelID (w_app (ctl_world ctl_store)) own_port = Some ''channel-0''" "w_ibc (ctl_world ctl_store) = ctl_core"
    by (simp_all add: ctl_world_def ctl_store_def GetActiveChannelID_def)
  moreover have "ipd_ValidateBasic (toy_data ''tx'') = Inr ()" by code_simp
  moreover have "ipd_GetBytes ctl_E (toy_data ''tx'') = Inr ''data''" by (simp add: ipd_GetBytes_def demo_ienv_fields)
  ultimately show ?thesis using s
    by (simp add: TrySendTx_def createOutgoingPacket_def ctl_core_fields chan_NewCounterparty_def Let_def) (simp add: NewPacket_def)
qed

lemma toy_serialize: "SerializeCosmosTx ctl_E [Count] = Inr ''tx''"
  by (simp add: SerializeCosmosTx_def demo_ienv_fields toy_tx_def)

theorem sent_transaction_is_executed_witness:
  "\<exists>w' p. TrySendTx ctl_E demo_ctx (ctl_world ctl_store) (Some 0) own_port (toy_data ''tx'') = Inr (3, w') \<and>
     packetCommitments (w_ibc w') (own_port, ''channel-0'', 3) = Some (CommitPacket p) \<and>
     host_OnRecvPacket host_E toy_router demo_ctx host_ready p = executeTx host_E toy_router demo_ctx host_ready own_port [Count]"
proof -
  from ctl_send obtain w' where w': "TrySendTx ctl_E demo_ctx (ctl_world ctl_store) (Some 0) own_port (toy_data ''tx'') = Inr (3, w')" by blast
  have g: "GetActiveChannelID (w_app (ctl_world ctl_store)) own_port = Some ''channel-0''"
    by (simp add: ctl_world_def ctl_store_def GetActiveChannelID_def)
  from sent_transaction_is_executed [OF toy_codecs_agree [of _ "''icahost''"] toy_serialize w' [unfolded toy_data_def]] g obtain p where
    "packetCommitments (w_ibc w') = (packetCommitments (w_ibc (ctl_world ctl_store)))((own_port, ''channel-0'', 3) \<mapsto> CommitPacket p)"
    "\<forall>msgRouter ctx' u. host_OnRecvPacket host_E msgRouter ctx' u p = executeTx host_E msgRouter ctx' u own_port [Count]" by auto
  with w' show ?thesis by auto
qed

text \<open>An authentication module that accepts everything, under the controller.\<close>

definition toy_auth :: "(unit, (controller_Params, toy_rest) ica_state) IBCModule" where
  "toy_auth = \<lparr> OnChanOpenInit = (\<lambda>ctx w order hops port chan cap cp v. Inr w), OnChanOpenTry = (\<lambda>ctx w order hops port chan cap cp v. Inr (v, w)),
     OnChanOpenAck = (\<lambda>ctx w port chan v. Inr w), OnChanOpenConfirm = (\<lambda>ctx w port chan. Inr w), OnChanCloseInit = (\<lambda>ctx w port chan. Inr w),
     OnChanCloseConfirm = (\<lambda>ctx w port chan. Inr w), OnRecvPacket = (\<lambda>ctx w p relayer. Inr (None, w)),
     OnAcknowledgementPacket = (\<lambda>ctx w p a relayer. Inr w), OnTimeoutPacket = (\<lambda>ctx w p relayer. Inr w) \<rparr>"

interpretation toy_auth: ibc_application ctl_E toy_auth
  by unfold_locales (simp_all add: toy_auth_def)

abbreviation core_handler :: "MsgChannelOpenInit \<Rightarrow> (ctx \<Rightarrow> (unit, toy_rest) ctl_world \<Rightarrow> (unit, toy_rest) ctl_world result) option" where
  "core_handler \<equiv> \<lambda>msg. Some (\<lambda>ctx w. msg_ChannelOpenInit ctl_E (controller_router ctl_E toy_auth) ctx w msg)"

lemma ctl_init: "is_ok (InitInterchainAccount ctl_E core_handler demo_ctx (ctl_world Map.empty) ''connection-0'' ''connection-4'' ''me'')"
  by code_simp

theorem init_account_opens_channel_witness:
  "\<exists>w' portID chan. InitInterchainAccount ctl_E core_handler demo_ctx (ctl_world Map.empty) ''connection-0'' ''connection-4'' ''me'' = Inr w' \<and>
     GeneratePortID ''me'' ''connection-0'' ''connection-4'' = Inr portID \<and>
     channels (w_ibc w') (portID, chan) = Some (NewChannel INIT ORDERED (chan_NewCounterparty ica_PortID []) [''connection-0''] VersionPrefix)"
proof -
  from ctl_init obtain w' where w': "InitInterchainAccount ctl_E core_handler demo_ctx (ctl_world Map.empty) ''connection-0'' ''connection-4'' ''me'' = Inr w'"
    by (auto simp: is_ok_iff)
  from init_account_opens_channel [OF this] w' show ?thesis by blast
qed

lemma ctl_iterator: "iterator_ok ctl_E ctl_store"
proof -
  let ?ks = "[KeyActiveChannel own_port, KeyOwnerAccount own_port, ica_KeyPort own_port]"
  have k: "k \<in> set ?ks" if "ctl_store k = Some v" for k v using that by (auto simp: ctl_store_def split: if_splits)
  have it: "kv_Iterate ctl_E ctl_store p = map (\<lambda>k. (k, the (ctl_store k))) (filter (\<lambda>k. ctl_store k \<noteq> None \<and> prefix p k) ?ks)" for p
    by (simp only: demo_ienv_fields)
  have "distinct ?ks" by simp
  then have "distinct (map fst (kv_Iterate ctl_E ctl_store p))" for p unfolding it by (simp add: comp_def del: filter.simps)
  moreover have "set (kv_Iterate ctl_E ctl_store p) = {(k, v). ctl_store k = Some v \<and> prefix p k}" for p
  proof -
    have "(k, v) \<in> set (kv_Iterate ctl_E ctl_store p) \<longleftrightarrow> ctl_store k = Some v \<and> prefix p k" for k v
    proof -
      have "(k, v) \<in> set (kv_Iterate ctl_E ctl_store p) \<longleftrightarrow> k \<in> set ?ks \<and> ctl_store k \<noteq> None \<and> prefix p k \<and> v = the (ctl_store k)"
        unfolding it set_map set_filter image_iff by blast
      then show ?thesis using k by (cases "ctl_store k") fastforce+
    qed
    then show ?thesis by (simp add: set_eq_iff)
  qed
  ultimately show ?thesis by (simp add: iterator_ok_def)
qed

lemma ctl_store_ok: "store_ok ctl_store"
proof -
  have "no_slash own_port" by simp
  then show ?thesis unfolding store_ok_def by (auto simp: ctl_store_def split: if_splits)
qed

text \<open>A chain with a working capability keeper: the names the core module and the controller hold, and the next index.\<close>

type_synonym toy_caps = "(string \<rightharpoonup> Capability) \<times> (string \<rightharpoonup> Capability) \<times> Capability"

fun toy_New :: "toy_caps \<Rightarrow> string \<Rightarrow> (Capability \<times> toy_caps) option" where
  "toy_New (core, ctl, n) name = (if name = [] \<or> core name \<noteq> None then None else Some (n, core(name \<mapsto> n), ctl, n + 1))"

fun toy_Claim :: "toy_caps \<Rightarrow> Capability \<Rightarrow> string \<Rightarrow> toy_caps option" where
  "toy_Claim (core, ctl, n) cap name = (if name = [] \<or> ctl name = Some cap then None else Some (core, ctl(name \<mapsto> cap), n))"

definition caps_E :: "(toy_caps, toy_msg, toy_rest) ica_env" where
  "caps_E = keeper_env.extend (env.extend lax_env
       \<lparr> stk_GetHistoricalInfo = (\<lambda>_. None), stk_UnbondingTime = 2000, upg_UpgradePath = [], sdk_Specs = [], sdk_StoreKeyName = ''ibc'',
         go_uint64_of_large_float = 0, cap_Authenticate = (\<lambda>(core, ctl, n) cap name. cap \<noteq> None \<and> core name = cap), cap_New = toy_New,
         cap_Get = fst, cap_Lookup = (\<lambda>_ _. None) \<rparr>)
     \<lparr> isk_Get = (\<lambda>k. fst (snd k)), isk_Claim = toy_Claim,
       ica_MarshalPacketData = (\<lambda>_. None), ica_UnmarshalPacketData = (\<lambda>_. None), ica_MarshalCosmosTx = (\<lambda>_. None), ica_UnmarshalCosmosTx = (\<lambda>_. None),
       any_New = (\<lambda>_. None), any_Unpack = (\<lambda>_. None), ica_MarshalAck = (\<lambda>_. None), ica_ErrorText = (\<lambda>_. ''e''), msg_TypeURL = (\<lambda>_. ''/toy''),
       msg_GetSigners = (\<lambda>_. None), msg_ValidateBasic = (\<lambda>_. Inr ()), addr_Derive = (\<lambda>_ _. ''acc''), addr_String = (\<lambda>a. a),
       addr_FromBech32 = (\<lambda>s. Some s), json_MarshalAccount = (\<lambda>_. None), json_UnmarshalAccount = (\<lambda>_. None),
       auth_NewBaseAccount = auth_NewBaseAccount ctl_E, auth_NewBaseAccountWithAddress = auth_NewBaseAccountWithAddress ctl_E,
       auth_ValidateBase = (\<lambda>_. Inr ()), auth_ModuleAddress = (\<lambda>_. None), auth_GetAccount = (\<lambda>_ _. None), auth_NewAccount = (\<lambda>c acc. (acc, c)),
       auth_SetAccount = (\<lambda>c acc. c), kv_Iterate = kv_Iterate ctl_E \<rparr>"

lemma caps_fields: "isk_Get caps_E = (\<lambda>k. fst (snd k))" "isk_Claim caps_E = toy_Claim" "cap_New caps_E = toy_New" "cap_Get caps_E = fst"
  "kv_Iterate caps_E = kv_Iterate ctl_E"
  by (simp_all add: caps_E_def keeper_env.extend_def env.extend_def)

lemma caps_keepers: "capability_keepers_ok caps_E"
  unfolding capability_keepers_ok_def caps_fields by (auto split: prod.splits)

definition fresh_chain :: "(toy_caps, toy_rest) ctl_world" where
  "fresh_chain = \<lparr> w_ibc = empty_ibc_state (Map.empty, Map.empty, 1),
     w_app = \<lparr> ica_store = Map.empty, ica_params = controller_NewParams False, ica_rest = ([], 0) \<rparr> \<rparr>"

theorem controller_genesis_roundtrip_witness:
  "\<exists>gs w'. controller_ExportGenesis caps_E (w_app (ctl_world ctl_store)) = Inr gs \<and> controller_InitGenesis caps_E fresh_chain gs = Inr w' \<and>
    GetActiveChannelID (w_app w') own_port = Some ''channel-0'' \<and> GetInterchainAccountAddress (w_app w') own_port = Some ''acc'' \<and>
    ica_IsBound caps_E w' own_port \<and> ica_store (w_app w') (ica_KeyPort own_port) = Some [char_of (1 :: nat)] \<and>
    ica_params (w_app w') = controller_DefaultParams"
proof -
  let ?st = "w_app (ctl_world ctl_store)"
  have st: "ica_store ?st = ctl_store" "ica_params ?st = controller_DefaultParams" by (simp_all add: ctl_world_def)
  have it: "iterator_ok caps_E (ica_store ?st)" using ctl_iterator unfolding st iterator_ok_def caps_fields .
  have ok: "store_ok (ica_store ?st)" unfolding st by (rule ctl_store_ok)
  have f: "ica_store (w_app fresh_chain) = Map.empty" "\<not> ica_IsBound caps_E fresh_chain own_port" "\<not> IsBound caps_E (w_ibc fresh_chain) own_port"
    by (simp_all add: fresh_chain_def ica_IsBound_def IsBound_def caps_fields empty_ibc_state_def)
  have "PortIdentifierValidator own_port = Inr ()" by code_simp
  then have b: "\<forall>p. ica_store ?st (ica_KeyPort p) \<noteq> None \<longrightarrow> bindable caps_E fresh_chain p"
    using f unfolding st by (auto simp: ctl_store_def bindable_def split: if_splits)
  have g: "GetActiveChannelID ?st own_port = Some ''channel-0''" "GetInterchainAccountAddress ?st own_port = Some ''acc''"
    "ica_store ?st (ica_KeyPort own_port) = Some [char_of (1 :: nat)]"
    unfolding GetActiveChannelID_def GetInterchainAccountAddress_def st by (simp_all add: ctl_store_def)
  from controller_genesis_roundtrip [OF it ok caps_keepers f(1) b] st(2) g f(2) show ?thesis by (metis option.distinct(1))
qed

end
