(* ===== verification/StoreLayout.thy ===== *)
theory StoreLayout
  imports Msgs
begin

text \<open>
  The layout of the module's store. The state of \<open>IbcState\<close> has a field per kind of entry;
  the program keeps all entries in one key-value store under the paths of \<^verbatim>\<open>24-host\<close>, of the
  \<^verbatim>\<open>keys.go\<close> of each submodule and of the Tendermint client's \<^verbatim>\<open>store.go\<close>. The theorem of this
  theory is what makes the two agree: different entries have different paths, as long as
  identifiers are valid, which message validation guarantees.
\<close>

definition KeyNextClientSequence :: string where "KeyNextClientSequence = ''nextClientSequence''"
definition KeyNextConnectionSequence :: string where "KeyNextConnectionSequence = ''nextConnectionSequence''"
definition KeyNextChannelSequence :: string where "KeyNextChannelSequence = ''nextChannelSequence''"

datatype store_entry =
    NextClientSequenceEntry | NextConnectionSequenceEntry | NextChannelSequenceEntry
  | ClientStateEntry string | ConsensusStateEntry string Height | ClientConnectionsEntry string
  | ProcessedTimeEntry string Height | ProcessedHeightEntry string Height | IterationEntry string Height
  | ConnectionEntry string | ChannelEntry string string
  | NextSequenceSendEntry string string | NextSequenceRecvEntry string string | NextSequenceAckEntry string string
  | PacketCommitmentEntry string string u64 | PacketReceiptEntry string string u64 | PacketAckEntry string string u64

fun entry_path :: "store_entry \<Rightarrow> bytes" where
  "entry_path NextClientSequenceEntry = KeyNextClientSequence"
| "entry_path NextConnectionSequenceEntry = KeyNextConnectionSequence"
| "entry_path NextChannelSequenceEntry = KeyNextChannelSequence"
| "entry_path (ClientStateEntry c) = FullClientStatePath c"
| "entry_path (ConsensusStateEntry c h) = FullConsensusStatePath c h"
| "entry_path (ClientConnectionsEntry c) = ClientConnectionsPath c"
| "entry_path (ProcessedTimeEntry c h) = FullClientPath c (ProcessedTimeKey h)"
| "entry_path (ProcessedHeightEntry c h) = FullClientPath c (ProcessedHeightKey h)"
| "entry_path (IterationEntry c h) = FullClientPath c (IterationKey h)"
| "entry_path (ConnectionEntry c) = ConnectionPath c"
| "entry_path (ChannelEntry p c) = ChannelPath p c"
| "entry_path (NextSequenceSendEntry p c) = NextSequenceSendPath p c"
| "entry_path (NextSequenceRecvEntry p c) = NextSequenceRecvPath p c"
| "entry_path (NextSequenceAckEntry p c) = NextSequenceAckPath p c"
| "entry_path (PacketCommitmentEntry p c n) = PacketCommitmentPath p c n"
| "entry_path (PacketReceiptEntry p c n) = PacketReceiptPath p c n"
| "entry_path (PacketAckEntry p c n) = PacketAcknowledgementPath p c n"

text \<open>The identifiers an entry is stored under.\<close>

fun entry_identifiers :: "store_entry \<Rightarrow> string set" where
  "entry_identifiers (ClientStateEntry c) = {c}"
| "entry_identifiers (ConsensusStateEntry c h) = {c}"
| "entry_identifiers (ClientConnectionsEntry c) = {c}"
| "entry_identifiers (ProcessedTimeEntry c h) = {c}"
| "entry_identifiers (ProcessedHeightEntry c h) = {c}"
| "entry_identifiers (IterationEntry c h) = {c}"
| "entry_identifiers (ConnectionEntry c) = {c}"
| "entry_identifiers (ChannelEntry p c) = {p, c}"
| "entry_identifiers (NextSequenceSendEntry p c) = {p, c}"
| "entry_identifiers (NextSequenceRecvEntry p c) = {p, c}"
| "entry_identifiers (NextSequenceAckEntry p c) = {p, c}"
| "entry_identifiers (PacketCommitmentEntry p c n) = {p, c}"
| "entry_identifiers (PacketReceiptEntry p c n) = {p, c}"
| "entry_identifiers (PacketAckEntry p c n) = {p, c}"
| "entry_identifiers _ = {}"

subsection \<open>Paths determine their entries\<close>

lemma Height_String_no_slash [simp]: "no_slash (Height_String h)"
  by (simp add: Height_String_def)

lemma Height_String_inj [simp]: "Height_String h = Height_String h' \<longleftrightarrow> h = h'"
  by (cases h; cases h') (simp add: Height_String_def append_sep_inject show_u64_inj)

lemma IterationKey_inj [simp]: "IterationKey h = IterationKey h' \<longleftrightarrow> h = h'"
  by (cases h; cases h') (simp add: IterationKey_def bigEndianHeightBytes_def u64_be_inj)

text \<open>Elements between separators can be compared one by one.\<close>

lemma append_sep_no_sep: "c \<notin> set b \<Longrightarrow> a @ c # x = b \<longleftrightarrow> False" "c \<notin> set b \<Longrightarrow> b = a @ c # x \<longleftrightarrow> False"
  by auto

lemmas path_elements = append_sep_inject append_sep_no_sep

text \<open>The first element of a path, and the rest of a client's path, tell the kind of entry.\<close>

fun entry_head :: "store_entry \<Rightarrow> string" where
  "entry_head NextClientSequenceEntry = KeyNextClientSequence"
| "entry_head NextConnectionSequenceEntry = KeyNextConnectionSequence"
| "entry_head NextChannelSequenceEntry = KeyNextChannelSequence"
| "entry_head (ConnectionEntry c) = KeyConnectionPrefix"
| "entry_head (ChannelEntry p c) = KeyChannelEndPrefix"
| "entry_head (NextSequenceSendEntry p c) = KeyNextSeqSendPrefix"
| "entry_head (NextSequenceRecvEntry p c) = KeyNextSeqRecvPrefix"
| "entry_head (NextSequenceAckEntry p c) = KeyNextSeqAckPrefix"
| "entry_head (PacketCommitmentEntry p c n) = KeyPacketCommitmentPrefix"
| "entry_head (PacketReceiptEntry p c n) = KeyPacketReceiptPrefix"
| "entry_head (PacketAckEntry p c n) = KeyPacketAckPrefix"
| "entry_head _ = KeyClientStorePrefix"

lemma takeWhile_sep: "c \<notin> set a \<Longrightarrow> takeWhile (\<lambda>x. x \<noteq> c) (a @ c # r) = a"
  by (induction a) auto

lemma takeWhile_no_sep: "c \<notin> set a \<Longrightarrow> takeWhile (\<lambda>x. x \<noteq> c) a = a"
  by (induction a) auto

lemma head_no_slash [simp]: "no_slash (entry_head e)"
  by (cases e) (simp_all add: KeyNextClientSequence_def KeyNextConnectionSequence_def KeyNextChannelSequence_def)

lemma entry_path_head: "entry_path e = entry_head e \<or> (\<exists>r. entry_path e = entry_head e @ CHR ''/'' # r)"
  by (cases e) (simp_all add: channel_paths packet_paths FullClientStatePath_def FullConsensusStatePath_def
      ClientConnectionsPath_def FullClientPath_def ConnectionPath_def)

lemma entry_head_path: "takeWhile (\<lambda>x. x \<noteq> CHR ''/'') (entry_path e) = entry_head e"
  using entry_path_head [of e] by (auto simp: takeWhile_sep takeWhile_no_sep)

text \<open>Client paths: the identifier and the key within the client's store.\<close>

fun client_key :: "store_entry \<Rightarrow> (string \<times> bytes) option" where
  "client_key (ClientStateEntry c) = Some (c, KeyClientState)"
| "client_key (ConsensusStateEntry c h) = Some (c, ConsensusStatePath h)"
| "client_key (ClientConnectionsEntry c) = Some (c, KeyConnectionPrefix)"
| "client_key (ProcessedTimeEntry c h) = Some (c, ProcessedTimeKey h)"
| "client_key (ProcessedHeightEntry c h) = Some (c, ProcessedHeightKey h)"
| "client_key (IterationEntry c h) = Some (c, IterationKey h)"
| "client_key _ = None"

lemma client_key_path: "client_key e = Some (c, k) \<Longrightarrow> entry_path e = FullClientPath c k \<and> entry_identifiers e = {c}"
  by (cases e) (auto simp: FullClientStatePath_def FullConsensusStatePath_def ClientConnectionsPath_def)

lemma client_key_inj: "client_key e = Some (c, k) \<Longrightarrow> client_key e' = Some (c, k) \<Longrightarrow> e = e'"
proof (cases e; cases e')
qed (auto simp: ConsensusStatePath_def ProcessedTimeKey_def ProcessedHeightKey_def key_prefixes path_elements
    IterationKey_def KeyIterateConsensusStatePrefix_def bigEndianHeightBytes_def u64_be_inj intro: Height.expand)

lemma client_head: "entry_head e = KeyClientStorePrefix \<longleftrightarrow> client_key e \<noteq> None"
  by (cases e) (simp_all add: key_prefixes KeyNextClientSequence_def KeyNextConnectionSequence_def KeyNextChannelSequence_def)

lemma other_entry_inj:
  assumes "entry_head e = entry_head e'" "client_key e = None" "client_key e' = None"
    "\<forall>x \<in> entry_identifiers e \<union> entry_identifiers e'. no_slash x" "entry_path e = entry_path e'"
  shows "e = e'"
  using assms(1-3)
proof (cases e; cases e')
qed (use assms(4,5) in \<open>simp_all add: key_prefixes KeyNextClientSequence_def KeyNextConnectionSequence_def
    KeyNextChannelSequence_def ConnectionPath_def channel_paths packet_paths channelPath_def path_elements show_u64_inj\<close>)

lemma entry_path_eqD:
  assumes ns: "\<forall>x \<in> entry_identifiers e \<union> entry_identifiers e'. no_slash x" and eq: "entry_path e = entry_path e'"
  shows "e = e'"
proof -
  from eq entry_head_path have head: "entry_head e = entry_head e'" by metis
  show ?thesis
  proof (cases "client_key e")
    case None
    with head client_head [of e] client_head [of e'] have "client_key e' = None" by metis
    from other_entry_inj [OF head None this ns eq] show ?thesis .
  next
    case (Some ck)
    with head client_head [of e] client_head [of e'] obtain ck' where Some': "client_key e' = Some ck'" by auto
    obtain c k c' k' where ck: "ck = (c, k)" "ck' = (c', k')" by (cases ck; cases ck')
    from client_key_path Some Some' ck have p: "entry_path e = FullClientPath c k" "entry_path e' = FullClientPath c' k'"
      "c \<in> entry_identifiers e" "c' \<in> entry_identifiers e'" by auto
    with eq ns have "c = c' \<and> k = k'" by (simp add: FullClientPath_def append_sep_inject)
    with Some Some' ck client_key_inj show ?thesis by blast
  qed
qed

text \<open>
  C27: no two entries of the store share a path: for valid identifiers, the paths of two
  entries (client and consensus states, processing metadata, iteration keys, client
  connections, connections, channels, sequence counters, packet commitments, receipts and
  acknowledgements, and the three global counters) are equal only if the entries are.
  Neither an identifier nor a binary iteration key can make one entry overwrite another.
\<close>

theorem entry_path_injective:
  assumes "\<forall>x \<in> entry_identifiers e \<union> entry_identifiers e'. IsValidID x"
  shows "entry_path e = entry_path e' \<longleftrightarrow> e = e'"
proof
  assume "entry_path e = entry_path e'"
  with assms show "e = e'" by (intro entry_path_eqD) (auto dest: valid_id_no_slash)
qed simp

theorem entry_path_injective_witness:
  "entry_path (PacketReceiptEntry ''transfer'' ''channel-1'' 11) \<noteq> entry_path (PacketReceiptEntry ''transfer'' ''channel-11'' 1)"
proof -
  have "IsValidID ''transfer''" "IsValidID ''channel-1''" "IsValidID ''channel-11''" by code_simp+
  then show ?thesis
    using entry_path_injective [of "PacketReceiptEntry ''transfer'' ''channel-1'' 11" "PacketReceiptEntry ''transfer'' ''channel-11'' 1"]
    by simp
qed

text \<open>
  A message that passes stateless validation has a signer, so reading its signers does
  not panic, and every identifier its handler uses in a store path is valid and holds no
  separator.
\<close>

theorem validated_msg_is_path_safe:
  assumes "ValidateBasic E m = Inr ()"
  shows "GetSigners E m = Inr [Signer m] \<and> (\<forall>x \<in> msg_identifiers m. IsValidID x \<and> no_slash x)"
  using validated_signer [OF assms] validated_identifiers [OF assms] valid_id_no_slash by (auto simp: GetSigners_def)

theorem validated_msg_is_path_safe_witness:
  "GetSigners demo_env (ChannelCloseInitMsg \<lparr> mhc_PortId = ''transfer'', mhc_ChannelId = ''channel-3'', mhc_Signer = ''cosmos1a'' \<rparr>) =
     Inr [''cosmos1a''] \<and> no_slash ''channel-3''"
proof -
  let ?m = "ChannelCloseInitMsg \<lparr> mhc_PortId = ''transfer'', mhc_ChannelId = ''channel-3'', mhc_Signer = ''cosmos1a'' \<rparr>"
  have "ValidateBasic demo_env ?m = Inr ()" by code_simp
  from validated_msg_is_path_safe [OF this] show ?thesis by simp
qed

end
