(* ===== verification/StoreIteration.thy ===== *)
theory StoreIteration
  imports StoreLayout ChannelKeeper "HOL-Library.List_Lexorder"
begin

text \<open>
  Iteration over the module's store. The keepers list their entries with the prefix iterator
  of the SDK's store, decode the key of each entry back into identifiers, and call a function
  on it that may stop the loop. The iterator is a parameter; what it promises
  (\<open>prefix_iterator\<close>) is that it lists exactly the entries whose path begins with the prefix,
  in the order of their paths. The theorems show that every loop of the keepers sees each of
  its entries once and no others, although it iterates over raw prefixes of one store.
\<close>

subsection \<open>The store as entries\<close>

text \<open>Values that the codec turns into messages are kept as messages, all others as bytes.\<close>

datatype store_value =
    ClientStateV ClientState | ConsensusStateV ConsensusState | PathsV "string list"
  | ConnectionV ConnectionEnd | ChannelV Channel | BytesV bytes

fun store_lookup :: "'k ibc_state \<Rightarrow> store_entry \<Rightarrow> store_value option" where
  "store_lookup s NextClientSequenceEntry = map_option (\<lambda>n. BytesV (u64_be n)) (nextClientSequence s)"
| "store_lookup s NextConnectionSequenceEntry = map_option (\<lambda>n. BytesV (u64_be n)) (nextConnectionSequence s)"
| "store_lookup s NextChannelSequenceEntry = map_option (\<lambda>n. BytesV (u64_be n)) (nextChannelSequence s)"
| "store_lookup s (ClientStateEntry c) = map_option ClientStateV (st_clientState (clientStores s c))"
| "store_lookup s (ConsensusStateEntry c h) = map_option ConsensusStateV (st_consensus (clientStores s c) h)"
| "store_lookup s (ClientConnectionsEntry c) = map_option PathsV (clientConnections s c)"
| "store_lookup s (ProcessedTimeEntry c h) = map_option (\<lambda>t. BytesV (u64_be t)) (st_processedTime (clientStores s c) h)"
| "store_lookup s (ProcessedHeightEntry c h) = map_option (\<lambda>ph. BytesV (Height_String ph)) (st_processedHeight (clientStores s c) h)"
| "store_lookup s (IterationEntry c h) = map_option BytesV (GetIterationKey (clientStores s c) h)"
| "store_lookup s (ConnectionEntry c) = map_option ConnectionV (connections s c)"
| "store_lookup s (ChannelEntry p c) = map_option ChannelV (channels s (p, c))"
| "store_lookup s (NextSequenceSendEntry p c) = map_option (\<lambda>n. BytesV (u64_be n)) (nextSequenceSend s (p, c))"
| "store_lookup s (NextSequenceRecvEntry p c) = map_option (\<lambda>n. BytesV (u64_be n)) (nextSequenceRecv s (p, c))"
| "store_lookup s (NextSequenceAckEntry p c) = map_option (\<lambda>n. BytesV (u64_be n)) (nextSequenceAck s (p, c))"
| "store_lookup s (PacketCommitmentEntry p c n) = map_option BytesV (packetCommitments s (p, c, n))"
| "store_lookup s (PacketReceiptEntry p c n) = map_option BytesV (packetReceipts s (p, c, n))"
| "store_lookup s (PacketAckEntry p c n) = map_option BytesV (packetAcks s (p, c, n))"

text \<open>
  The environment of the loops: the prefix iterator, and the codec's unmarshalling of the
  values that a raw write may put under the keys of a client's store.
\<close>

record 'k store_env = "'k keeper_env" +
  kv_PrefixIterator :: "'k ibc_state \<Rightarrow> bytes \<Rightarrow> (bytes \<times> store_value) list"
  cdc_UnmarshalClientState :: "bytes \<Rightarrow> ClientState option"
  cdc_UnmarshalConsensusState :: "bytes \<Rightarrow> ConsensusState option"
  cdc_UnmarshalClientPaths :: "bytes \<Rightarrow> string list option"

definition prefix_iterator :: "('k, 'x) store_env_scheme \<Rightarrow> 'k ibc_state \<Rightarrow> bool" where
  "prefix_iterator E s \<longleftrightarrow> (\<forall>p. sorted_wrt bytes_less (map fst (kv_PrefixIterator E s p)) \<and>
     set (kv_PrefixIterator E s p) = {(entry_path e, v) |e v. store_lookup s e = Some v \<and> prefix p (entry_path e)})"

subsection \<open>Loops over an iterator\<close>

text \<open>What the body of a loop makes of an entry: an item for the callback, \<^verbatim>\<open>continue\<close>, \<^verbatim>\<open>return\<close>, or a panic.\<close>

datatype 'i decoded = Item 'i | Skip | Stop | Fail error

fun go_iterate :: "('e \<Rightarrow> 'i decoded) \<Rightarrow> ('i \<Rightarrow> 'a \<Rightarrow> 'a \<times> bool) \<Rightarrow> 'e list \<Rightarrow> 'a \<Rightarrow> 'a result" where
  "go_iterate dec cb [] a = Inr a"
| "go_iterate dec cb (e # es) a =
     (case dec e of
        Item i \<Rightarrow> (case cb i a of (a', stop) \<Rightarrow> if stop then Inr a' else go_iterate dec cb es a')
      | Skip \<Rightarrow> go_iterate dec cb es a
      | Stop \<Rightarrow> Inr a
      | Fail err \<Rightarrow> Inl err)"

text \<open>The callback of the functions that return all items: append and go on.\<close>

definition append_item :: "('i \<Rightarrow> 'b) \<Rightarrow> 'i \<Rightarrow> 'b list \<Rightarrow> 'b list \<times> bool" where
  "append_item f i acc = (acc @ [f i], False)"

definition with_connection :: "store_value \<Rightarrow> (ConnectionEnd \<Rightarrow> 'i decoded) \<Rightarrow> 'i decoded" where
  "with_connection v f = (case v of ConnectionV c \<Rightarrow> f c | _ \<Rightarrow> Fail Panic)"

definition with_channel :: "store_value \<Rightarrow> (Channel \<Rightarrow> 'i decoded) \<Rightarrow> 'i decoded" where
  "with_channel v f = (case v of ChannelV c \<Rightarrow> f c | _ \<Rightarrow> Fail Panic)"

definition with_client :: "store_value \<Rightarrow> (ClientState \<Rightarrow> 'i decoded) \<Rightarrow> 'i decoded" where
  "with_client v f = (case v of ClientStateV c \<Rightarrow> f c | _ \<Rightarrow> Fail Panic)"

definition with_consensus :: "store_value \<Rightarrow> (ConsensusState \<Rightarrow> 'i decoded) \<Rightarrow> 'i decoded" where
  "with_consensus v f = (case v of ConsensusStateV c \<Rightarrow> f c | _ \<Rightarrow> Fail Panic)"

definition with_bytes :: "store_value \<Rightarrow> (bytes \<Rightarrow> 'i decoded) \<Rightarrow> 'i decoded" where
  "with_bytes v f = (case v of BytesV bz \<Rightarrow> f bz | _ \<Rightarrow> Fail Panic)"

text \<open>\<^verbatim>\<open>sdk.BigEndianToUint64\<close>: zero for no bytes, an index out of range for fewer than eight.\<close>

definition with_uint64 :: "bytes \<Rightarrow> (u64 \<Rightarrow> 'i decoded) \<Rightarrow> 'i decoded" where
  "with_uint64 bz f = (if bz = [] then f 0 else if length bz < 8 then Fail Panic else f (be_u64 (take 8 bz)))"

subsection \<open>02-client (keeper.go)\<close>

definition decode_client :: "bytes \<times> store_value \<Rightarrow> (string \<times> ClientState) decoded" where
  "decode_client e =
     (let keySplit = split_on (CHR ''/'') (fst e) in
      if last keySplit \<noteq> KeyClientState then Skip
      else with_client (snd e) (\<lambda>clientState. if length keySplit < 2 then Fail Panic else Item (keySplit ! 1, clientState)))"

definition IterateClients :: "('k, 'x) store_env_scheme \<Rightarrow> 'k ibc_state \<Rightarrow>
    (string \<times> ClientState \<Rightarrow> 'a \<Rightarrow> 'a \<times> bool) \<Rightarrow> 'a \<Rightarrow> 'a result" where
  "IterateClients E s cb a = go_iterate decode_client cb (kv_PrefixIterator E s KeyClientStorePrefix) a"

definition GetAllClients :: "('k, 'x) store_env_scheme \<Rightarrow> 'k ibc_state \<Rightarrow> ClientState list result" where
  "GetAllClients E s = IterateClients E s (append_item snd) []"

definition decode_consensus :: "bytes \<times> store_value \<Rightarrow> (string \<times> Height \<times> ConsensusState) decoded" where
  "decode_consensus e =
     (let keySplit = split_on (CHR ''/'') (fst e) in
      if length keySplit \<noteq> 4 \<or> keySplit ! 2 \<noteq> KeyConsensusStatePrefix then Skip
      else case MustParseHeight (keySplit ! 3) of Inl err \<Rightarrow> Fail err | Inr height \<Rightarrow>
           with_consensus (snd e) (\<lambda>consensusState. Item (keySplit ! 1, height, consensusState)))"

definition IterateConsensusStates :: "('k, 'x) store_env_scheme \<Rightarrow> 'k ibc_state \<Rightarrow>
    (string \<times> Height \<times> ConsensusState \<Rightarrow> 'a \<Rightarrow> 'a \<times> bool) \<Rightarrow> 'a \<Rightarrow> 'a result" where
  "IterateConsensusStates E s cb a = go_iterate decode_consensus cb (kv_PrefixIterator E s KeyClientStorePrefix) a"

subsection \<open>03-connection (keeper.go)\<close>

record ConnectionPaths =
  cps_ClientId :: string
  cps_Paths :: "string list"

definition NewConnectionPaths :: "string \<Rightarrow> string list \<Rightarrow> ConnectionPaths" where
  "NewConnectionPaths clientID paths = \<lparr> cps_ClientId = clientID, cps_Paths = paths \<rparr>"

definition GetAllClientConnectionPaths :: "('k, 'x) store_env_scheme \<Rightarrow> 'k ibc_state \<Rightarrow> ConnectionPaths list result" where
  "GetAllClientConnectionPaths E s =
     IterateClients E s (\<lambda>(clientID, cs) allConnectionPaths.
       case GetClientConnectionPaths s clientID of
         None \<Rightarrow> (allConnectionPaths, False)
       | Some paths \<Rightarrow> (allConnectionPaths @ [NewConnectionPaths clientID paths], False)) []"

definition decode_connection :: "bytes \<times> store_value \<Rightarrow> IdentifiedConnection decoded" where
  "decode_connection e =
     with_connection (snd e) (\<lambda>connection.
       case MustParseConnectionPath (fst e) of Inl err \<Rightarrow> Fail err | Inr connectionID \<Rightarrow>
         Item (NewIdentifiedConnection connectionID connection))"

definition IterateConnections :: "('k, 'x) store_env_scheme \<Rightarrow> 'k ibc_state \<Rightarrow>
    (IdentifiedConnection \<Rightarrow> 'a \<Rightarrow> 'a \<times> bool) \<Rightarrow> 'a \<Rightarrow> 'a result" where
  "IterateConnections E s cb a = go_iterate decode_connection cb (kv_PrefixIterator E s KeyConnectionPrefix) a"

definition GetAllConnections :: "('k, 'x) store_env_scheme \<Rightarrow> 'k ibc_state \<Rightarrow> IdentifiedConnection list result" where
  "GetAllConnections E s = IterateConnections E s (append_item id) []"

subsection \<open>04-channel (keeper.go)\<close>

record PacketSequence =
  ps_PortId :: string
  ps_ChannelId :: string
  ps_Sequence :: u64

record PacketState =
  pst_PortId :: string
  pst_ChannelId :: string
  pst_Sequence :: u64
  pst_Data :: "bytes option"

definition NewPacketSequence :: "string \<Rightarrow> string \<Rightarrow> u64 \<Rightarrow> PacketSequence" where
  "NewPacketSequence portID channelID seq = \<lparr> ps_PortId = portID, ps_ChannelId = channelID, ps_Sequence = seq \<rparr>"

text \<open>The data of a packet state is \<open>None\<close> for a nil slice.\<close>

definition NewPacketState :: "string \<Rightarrow> string \<Rightarrow> u64 \<Rightarrow> bytes option \<Rightarrow> PacketState" where
  "NewPacketState portID channelID seq data =
     \<lparr> pst_PortId = portID, pst_ChannelId = channelID, pst_Sequence = seq, pst_Data = data \<rparr>"

definition decode_sequence :: "bytes \<times> store_value \<Rightarrow> (string \<times> string \<times> u64) decoded" where
  "decode_sequence e =
     (case ParseChannelPath (fst e) of Inl _ \<Rightarrow> Stop | Inr (portID, channelID) \<Rightarrow>
        with_bytes (snd e) (\<lambda>bz. with_uint64 bz (\<lambda>sequence. Item (portID, channelID, sequence))))"

definition IteratePacketSequence :: "(bytes \<times> store_value) list \<Rightarrow>
    (string \<times> string \<times> u64 \<Rightarrow> 'a \<Rightarrow> 'a \<times> bool) \<Rightarrow> 'a \<Rightarrow> 'a result" where
  "IteratePacketSequence iterator cb a = go_iterate decode_sequence cb iterator a"

definition append_sequence :: "string \<times> string \<times> u64 \<Rightarrow> PacketSequence list \<Rightarrow> PacketSequence list \<times> bool" where
  "append_sequence = append_item (\<lambda>(portID, channelID, seq). NewPacketSequence portID channelID seq)"

definition GetAllPacketSendSeqs :: "('k, 'x) store_env_scheme \<Rightarrow> 'k ibc_state \<Rightarrow> PacketSequence list result" where
  "GetAllPacketSendSeqs E s = IteratePacketSequence (kv_PrefixIterator E s KeyNextSeqSendPrefix) append_sequence []"

definition GetAllPacketRecvSeqs :: "('k, 'x) store_env_scheme \<Rightarrow> 'k ibc_state \<Rightarrow> PacketSequence list result" where
  "GetAllPacketRecvSeqs E s = IteratePacketSequence (kv_PrefixIterator E s KeyNextSeqRecvPrefix) append_sequence []"

definition GetAllPacketAckSeqs :: "('k, 'x) store_env_scheme \<Rightarrow> 'k ibc_state \<Rightarrow> PacketSequence list result" where
  "GetAllPacketAckSeqs E s = IteratePacketSequence (kv_PrefixIterator E s KeyNextSeqAckPrefix) append_sequence []"

definition decode_hash :: "bytes \<times> store_value \<Rightarrow> (string \<times> string \<times> u64 \<times> bytes) decoded" where
  "decode_hash e =
     (let keySplit = split_on (CHR ''/'') (fst e) in
      if length keySplit < 5 then Fail Panic
      else case parse_uint64 (last keySplit) of None \<Rightarrow> Fail Panic | Some sequence \<Rightarrow>
           with_bytes (snd e) (\<lambda>hash. Item (keySplit ! 2, keySplit ! 4, sequence, hash)))"

definition iterateHashes :: "(bytes \<times> store_value) list \<Rightarrow>
    (string \<times> string \<times> u64 \<times> bytes \<Rightarrow> 'a \<Rightarrow> 'a \<times> bool) \<Rightarrow> 'a \<Rightarrow> 'a result" where
  "iterateHashes iterator cb a = go_iterate decode_hash cb iterator a"

definition append_packet :: "string \<times> string \<times> u64 \<times> bytes \<Rightarrow> PacketState list \<Rightarrow> PacketState list \<times> bool" where
  "append_packet = append_item (\<lambda>(portID, channelID, sequence, hash). NewPacketState portID channelID sequence (Some hash))"

definition IteratePacketCommitment :: "('k, 'x) store_env_scheme \<Rightarrow> 'k ibc_state \<Rightarrow>
    (string \<times> string \<times> u64 \<times> bytes \<Rightarrow> 'a \<Rightarrow> 'a \<times> bool) \<Rightarrow> 'a \<Rightarrow> 'a result" where
  "IteratePacketCommitment E s cb a = iterateHashes (kv_PrefixIterator E s KeyPacketCommitmentPrefix) cb a"

definition GetAllPacketCommitments :: "('k, 'x) store_env_scheme \<Rightarrow> 'k ibc_state \<Rightarrow> PacketState list result" where
  "GetAllPacketCommitments E s = IteratePacketCommitment E s append_packet []"

definition IteratePacketCommitmentAtChannel :: "('k, 'x) store_env_scheme \<Rightarrow> 'k ibc_state \<Rightarrow> string \<Rightarrow> string \<Rightarrow>
    (string \<times> string \<times> u64 \<times> bytes \<Rightarrow> 'a \<Rightarrow> 'a \<times> bool) \<Rightarrow> 'a \<Rightarrow> 'a result" where
  "IteratePacketCommitmentAtChannel E s portID channelID cb a =
     iterateHashes (kv_PrefixIterator E s (PacketCommitmentPrefixPath portID channelID)) cb a"

definition GetAllPacketCommitmentsAtChannel :: "('k, 'x) store_env_scheme \<Rightarrow> 'k ibc_state \<Rightarrow> string \<Rightarrow> string \<Rightarrow> PacketState list result" where
  "GetAllPacketCommitmentsAtChannel E s portID channelID =
     IteratePacketCommitmentAtChannel E s portID channelID
       (append_item (\<lambda>(_, _, sequence, hash). NewPacketState portID channelID sequence (Some hash))) []"

definition IteratePacketReceipt :: "('k, 'x) store_env_scheme \<Rightarrow> 'k ibc_state \<Rightarrow>
    (string \<times> string \<times> u64 \<times> bytes \<Rightarrow> 'a \<Rightarrow> 'a \<times> bool) \<Rightarrow> 'a \<Rightarrow> 'a result" where
  "IteratePacketReceipt E s cb a = iterateHashes (kv_PrefixIterator E s KeyPacketReceiptPrefix) cb a"

definition GetAllPacketReceipts :: "('k, 'x) store_env_scheme \<Rightarrow> 'k ibc_state \<Rightarrow> PacketState list result" where
  "GetAllPacketReceipts E s = IteratePacketReceipt E s append_packet []"

definition IteratePacketAcknowledgement :: "('k, 'x) store_env_scheme \<Rightarrow> 'k ibc_state \<Rightarrow>
    (string \<times> string \<times> u64 \<times> bytes \<Rightarrow> 'a \<Rightarrow> 'a \<times> bool) \<Rightarrow> 'a \<Rightarrow> 'a result" where
  "IteratePacketAcknowledgement E s cb a = iterateHashes (kv_PrefixIterator E s KeyPacketAckPrefix) cb a"

definition GetAllPacketAcks :: "('k, 'x) store_env_scheme \<Rightarrow> 'k ibc_state \<Rightarrow> PacketState list result" where
  "GetAllPacketAcks E s = IteratePacketAcknowledgement E s append_packet []"

definition decode_channel :: "bytes \<times> store_value \<Rightarrow> IdentifiedChannel decoded" where
  "decode_channel e =
     with_channel (snd e) (\<lambda>channel.
       case MustParseChannelPath (fst e) of Inl err \<Rightarrow> Fail err | Inr (portID, channelID) \<Rightarrow>
         Item (NewIdentifiedChannel portID channelID channel))"

definition IterateChannels :: "('k, 'x) store_env_scheme \<Rightarrow> 'k ibc_state \<Rightarrow>
    (IdentifiedChannel \<Rightarrow> 'a \<Rightarrow> 'a \<times> bool) \<Rightarrow> 'a \<Rightarrow> 'a result" where
  "IterateChannels E s cb a = go_iterate decode_channel cb (kv_PrefixIterator E s KeyChannelEndPrefix) a"

definition GetAllChannels :: "('k, 'x) store_env_scheme \<Rightarrow> 'k ibc_state \<Rightarrow> IdentifiedChannel list result" where
  "GetAllChannels E s = IterateChannels E s (append_item id) []"

subsection \<open>What a loop sees\<close>

text \<open>The items among the entries.\<close>

fun items :: "('e \<Rightarrow> 'i decoded) \<Rightarrow> 'e list \<Rightarrow> 'i list" where
  "items dec [] = []"
| "items dec (e # es) = (case dec e of Item i \<Rightarrow> i # items dec es | _ \<Rightarrow> items dec es)"

lemma set_items: "set (items dec es) = {i. \<exists>e \<in> set es. dec e = Item i}"
  by (induction es) (auto split: decoded.splits)

lemma distinct_items:
  "distinct es \<Longrightarrow> \<forall>e \<in> set es. \<forall>e' \<in> set es. \<forall>i. dec e = Item i \<longrightarrow> dec e' = Item i \<longrightarrow> e = e' \<Longrightarrow>
     distinct (items dec es)"
  by (induction es) (auto simp: set_items split: decoded.splits)

text \<open>A callback that never stops the loop.\<close>

definition runs_on :: "('i \<Rightarrow> 'a \<Rightarrow> 'a \<times> bool) \<Rightarrow> bool" where
  "runs_on cb \<longleftrightarrow> (\<forall>i a. \<not> snd (cb i a))"

lemma go_iterate_fold:
  "\<forall>e \<in> set es. dec e = Skip \<or> (\<exists>i. dec e = Item i) \<Longrightarrow> runs_on cb \<Longrightarrow>
     go_iterate dec cb es a = Inr (fold (\<lambda>i a. fst (cb i a)) (items dec es) a)"
  by (induction es arbitrary: a) (auto simp: runs_on_def split: decoded.splits prod.splits, metis snd_conv)

lemma runs_on_append [simp]: "runs_on (append_item f)"
  by (simp add: runs_on_def append_item_def)

lemma fold_append_item: "fold (\<lambda>i a. fst (append_item f i a)) l a = a @ map f l"
  by (induction l arbitrary: a) (simp_all add: append_item_def)

lemma bytes_less_irrefl: "\<not> bytes_less a a"
  by (induction a) auto

lemma iterator_distinct: "prefix_iterator E s \<Longrightarrow> distinct (map fst (kv_PrefixIterator E s p))"
proof -
  have "sorted_wrt bytes_less ks \<Longrightarrow> distinct ks" for ks
    by (induction ks) (auto simp: bytes_less_irrefl)
  then show "prefix_iterator E s \<Longrightarrow> distinct (map fst (kv_PrefixIterator E s p))" by (simp add: prefix_iterator_def)
qed

lemma iterator_set: "prefix_iterator E s \<Longrightarrow>
    set (kv_PrefixIterator E s p) = {(entry_path e, v) |e v. store_lookup s e = Some v \<and> prefix p (entry_path e)}"
  by (simp add: prefix_iterator_def)

text \<open>
  A loop whose body skips or decodes every entry under its prefix, and decodes different paths
  to different items, calls a callback that never stops it exactly once on each decoded item.
\<close>

definition decodes :: "'k ibc_state \<Rightarrow> bytes \<Rightarrow> (bytes \<times> store_value \<Rightarrow> 'i decoded) \<Rightarrow> (store_entry \<Rightarrow> store_value \<Rightarrow> 'i option) \<Rightarrow> bool" where
  "decodes s p dec g \<longleftrightarrow>
     (\<forall>e v. store_lookup s e = Some v \<longrightarrow> prefix p (entry_path e) \<longrightarrow>
        dec (entry_path e, v) = (case g e v of None \<Rightarrow> Skip | Some i \<Rightarrow> Item i)) \<and>
     (\<forall>e v e' v' i. store_lookup s e = Some v \<longrightarrow> store_lookup s e' = Some v' \<longrightarrow>
        prefix p (entry_path e) \<longrightarrow> prefix p (entry_path e') \<longrightarrow>
        g e v = Some i \<longrightarrow> g e' v' = Some i \<longrightarrow> entry_path e = entry_path e')"

lemma loop_exact:
  assumes it: "prefix_iterator E s" and d: "decodes s p dec g"
  shows "\<exists>l. (\<forall>cb a. runs_on cb \<longrightarrow> go_iterate dec cb (kv_PrefixIterator E s p) a = Inr (fold (\<lambda>i a. fst (cb i a)) l (a :: 'a))) \<and>
    distinct l \<and> set l = {i. \<exists>e v. store_lookup s e = Some v \<and> prefix p (entry_path e) \<and> g e v = Some i}"
proof (intro exI conjI allI impI)
  let ?es = "kv_PrefixIterator E s p"
  note dec = d [unfolded decodes_def, THEN conjunct1, rule_format] and inj = d [unfolded decodes_def, THEN conjunct2, rule_format]
  show "runs_on cb \<Longrightarrow> go_iterate dec cb ?es a = Inr (fold (\<lambda>i a. fst (cb i a)) (items dec ?es) a)" for cb and a :: 'a
    by (rule go_iterate_fold) (auto simp: iterator_set [OF it] dec split: option.splits)
  show "set (items dec ?es) = {i. \<exists>e v. store_lookup s e = Some v \<and> prefix p (entry_path e) \<and> g e v = Some i}"
    by (force simp: set_items iterator_set [OF it] dec split: option.splits)
  have keys: "x = y" if "x \<in> set ?es" "y \<in> set ?es" "fst x = fst y" for x y
    using iterator_distinct [OF it, of p] that by (simp add: distinct_map inj_on_def)
  show "distinct (items dec ?es)"
  proof (rule distinct_items)
    show "distinct ?es" using iterator_distinct [OF it, of p] by (simp add: distinct_map)
    show "\<forall>x \<in> set ?es. \<forall>y \<in> set ?es. \<forall>i. dec x = Item i \<longrightarrow> dec y = Item i \<longrightarrow> x = y"
    proof (intro ballI allI impI)
      fix x y i assume x: "x \<in> set ?es" "y \<in> set ?es" and i: "dec x = Item i" "dec y = Item i"
      from x obtain e v e' v' where e: "x = (entry_path e, v)" "store_lookup s e = Some v" "prefix p (entry_path e)"
        "y = (entry_path e', v')" "store_lookup s e' = Some v'" "prefix p (entry_path e')"
        by (auto simp: iterator_set [OF it])
      with i dec have "g e v = Some i" "g e' v' = Some i" by (auto split: option.splits)
      from inj [OF e(2,5,3,6) this] e have "fst x = fst y" by simp
      with keys x show "x = y" by blast
    qed
  qed
qed

text \<open>A prefix without separator is a prefix of the first path element.\<close>

lemma prefix_head: "no_slash p \<Longrightarrow> prefix p (entry_path e) \<longleftrightarrow> prefix p (entry_head e)"
proof
  assume p: "no_slash p" and pre: "prefix p (entry_path e)"
  from pre obtain r where r: "entry_path e = p @ r" by (auto simp: prefix_def)
  have "takeWhile (\<lambda>x. x \<noteq> CHR ''/'') (p @ r) = p @ takeWhile (\<lambda>x. x \<noteq> CHR ''/'') r"
    using p by (subst takeWhile_append2) auto
  with r entry_head_path [of e] have "entry_head e = p @ takeWhile (\<lambda>x. x \<noteq> CHR ''/'') r" by simp
  then show "prefix p (entry_head e)" by (simp add: prefix_def)
next
  assume "prefix p (entry_head e)"
  with entry_path_head [of e] show "prefix p (entry_path e)" by (auto simp: prefix_def)
qed

text \<open>
  A state whose entries are stored under identifiers without separators, and whose heights
  are small enough not to look like text: the loop over the clients looks for paths that end
  in \<^verbatim>\<open>clientState\<close>, and the sixteen height bytes that end an iteration key could spell it
  for revision heights from \<open>2\<^sup>5\<^sup>6\<close> on.
\<close>

definition iterable :: "'k ibc_state \<Rightarrow> bool" where
  "iterable s \<longleftrightarrow> (\<forall>e v. store_lookup s e = Some v \<longrightarrow> (\<forall>x \<in> entry_identifiers e. no_slash x)) \<and>
     (\<forall>c. \<forall>h \<in> set (st_iteration (clientStores s c)). unat (RevisionHeight h) < 2 ^ 56)"

lemma iterable_ids: "iterable s \<Longrightarrow> store_lookup s e = Some v \<Longrightarrow> x \<in> entry_identifiers e \<Longrightarrow> no_slash x"
  by (auto simp: iterable_def)

lemma with_uint64_be [simp]: "with_uint64 (u64_be n) f = f n"
  by (simp add: with_uint64_def be_u64_u64_be flip: length_0_conv)

lemmas with_defs = with_connection_def with_channel_def with_client_def with_consensus_def with_bytes_def

subsection \<open>Connections and channels\<close>

text \<open>The prefix of a loop picks one kind of entry.\<close>

lemma head_kinds:
  "prefix KeyConnectionPrefix (entry_head e) \<longleftrightarrow> (\<exists>c. e = ConnectionEntry c)"
  "prefix KeyChannelEndPrefix (entry_head e) \<longleftrightarrow> (\<exists>p c. e = ChannelEntry p c)"
  "prefix KeyNextSeqSendPrefix (entry_head e) \<longleftrightarrow> (\<exists>p c. e = NextSequenceSendEntry p c)"
  "prefix KeyNextSeqRecvPrefix (entry_head e) \<longleftrightarrow> (\<exists>p c. e = NextSequenceRecvEntry p c)"
  "prefix KeyNextSeqAckPrefix (entry_head e) \<longleftrightarrow> (\<exists>p c. e = NextSequenceAckEntry p c)"
  "prefix KeyPacketCommitmentPrefix (entry_head e) \<longleftrightarrow> (\<exists>p c n. e = PacketCommitmentEntry p c n)"
  "prefix KeyPacketReceiptPrefix (entry_head e) \<longleftrightarrow> (\<exists>p c n. e = PacketReceiptEntry p c n)"
  "prefix KeyPacketAckPrefix (entry_head e) \<longleftrightarrow> (\<exists>p c n. e = PacketAckEntry p c n)"
  "prefix KeyClientStorePrefix (entry_head e) \<longleftrightarrow> client_key e \<noteq> None"
  by (cases e; simp add: key_prefixes KeyNextClientSequence_def KeyNextConnectionSequence_def KeyNextChannelSequence_def)+

text \<open>The items of the loops, by entry.\<close>

fun connection_item :: "store_entry \<Rightarrow> store_value \<Rightarrow> IdentifiedConnection option" where
  "connection_item (ConnectionEntry c) (ConnectionV x) = Some (NewIdentifiedConnection c x)"
| "connection_item _ _ = None"

fun channel_item :: "store_entry \<Rightarrow> store_value \<Rightarrow> IdentifiedChannel option" where
  "channel_item (ChannelEntry p c) (ChannelV x) = Some (NewIdentifiedChannel p c x)"
| "channel_item _ _ = None"

fun sequence_item :: "store_entry \<Rightarrow> store_value \<Rightarrow> (string \<times> string \<times> u64) option" where
  "sequence_item (NextSequenceSendEntry p c) (BytesV b) = Some (p, c, be_u64 b)"
| "sequence_item (NextSequenceRecvEntry p c) (BytesV b) = Some (p, c, be_u64 b)"
| "sequence_item (NextSequenceAckEntry p c) (BytesV b) = Some (p, c, be_u64 b)"
| "sequence_item _ _ = None"

fun packet_item :: "store_entry \<Rightarrow> store_value \<Rightarrow> (string \<times> string \<times> u64 \<times> bytes) option" where
  "packet_item (PacketCommitmentEntry p c n) (BytesV b) = Some (p, c, n, b)"
| "packet_item (PacketReceiptEntry p c n) (BytesV b) = Some (p, c, n, b)"
| "packet_item (PacketAckEntry p c n) (BytesV b) = Some (p, c, n, b)"
| "packet_item _ _ = None"

lemma item_iff:
  "connection_item (ConnectionEntry c) v = Some i \<longleftrightarrow> (\<exists>x. v = ConnectionV x \<and> i = NewIdentifiedConnection c x)"
  "channel_item (ChannelEntry p c) v = Some j \<longleftrightarrow> (\<exists>x. v = ChannelV x \<and> j = NewIdentifiedChannel p c x)"
  "sequence_item (NextSequenceSendEntry p c) v = Some k \<longleftrightarrow> (\<exists>b. v = BytesV b \<and> k = (p, c, be_u64 b))"
  "sequence_item (NextSequenceRecvEntry p c) v = Some k \<longleftrightarrow> (\<exists>b. v = BytesV b \<and> k = (p, c, be_u64 b))"
  "sequence_item (NextSequenceAckEntry p c) v = Some k \<longleftrightarrow> (\<exists>b. v = BytesV b \<and> k = (p, c, be_u64 b))"
  "packet_item (PacketCommitmentEntry p c n) v = Some l \<longleftrightarrow> (\<exists>b. v = BytesV b \<and> l = (p, c, n, b))"
  "packet_item (PacketReceiptEntry p c n) v = Some l \<longleftrightarrow> (\<exists>b. v = BytesV b \<and> l = (p, c, n, b))"
  "packet_item (PacketAckEntry p c n) v = Some l \<longleftrightarrow> (\<exists>b. v = BytesV b \<and> l = (p, c, n, b))"
  by (cases v; auto)+

lemma iterable_kinds:
  assumes "iterable s"
  shows "connections s c = Some x \<Longrightarrow> no_slash c"
    "channels s (p, c) = Some y \<Longrightarrow> no_slash p \<and> no_slash c"
    "nextSequenceSend s (p, c) = Some n \<Longrightarrow> no_slash p \<and> no_slash c"
    "nextSequenceRecv s (p, c) = Some n \<Longrightarrow> no_slash p \<and> no_slash c"
    "nextSequenceAck s (p, c) = Some n \<Longrightarrow> no_slash p \<and> no_slash c"
    "packetCommitments s (p, c, n) = Some b \<Longrightarrow> no_slash p \<and> no_slash c"
    "packetReceipts s (p, c, n) = Some b \<Longrightarrow> no_slash p \<and> no_slash c"
    "packetAcks s (p, c, n) = Some b \<Longrightarrow> no_slash p \<and> no_slash c"
  using iterable_ids [OF assms, of "ConnectionEntry c"] iterable_ids [OF assms, of "ChannelEntry p c"]
    iterable_ids [OF assms, of "NextSequenceSendEntry p c"] iterable_ids [OF assms, of "NextSequenceRecvEntry p c"]
    iterable_ids [OF assms, of "NextSequenceAckEntry p c"] iterable_ids [OF assms, of "PacketCommitmentEntry p c n"]
    iterable_ids [OF assms, of "PacketReceiptEntry p c n"] iterable_ids [OF assms, of "PacketAckEntry p c n"]
  by simp_all

lemma ex_kinds:
  "(\<exists>e v. L e = Some v \<and> (\<exists>c. e = K1 c) \<and> G e v = Some i) \<longleftrightarrow> (\<exists>c v. L (K1 c) = Some v \<and> G (K1 c) v = Some i)"
  "(\<exists>e v. L e = Some v \<and> (\<exists>p c. e = K2 p c) \<and> G e v = Some i) \<longleftrightarrow> (\<exists>p c v. L (K2 p c) = Some v \<and> G (K2 p c) v = Some i)"
  "(\<exists>e v. L e = Some v \<and> (\<exists>p c n. e = K3 p c n) \<and> G e v = Some i) \<longleftrightarrow>
     (\<exists>p c n v. L (K3 p c n) = Some v \<and> G (K3 p c n) v = Some i)"
  by blast+

lemma ex_value: "(\<exists>v. (\<exists>z. A z \<and> F z = v) \<and> P v) \<longleftrightarrow> (\<exists>z. A z \<and> P (F z))"
  by blast

lemma decodes_connection: "iterable s \<Longrightarrow> decodes s KeyConnectionPrefix decode_connection connection_item"
  by (auto simp: decodes_def prefix_head head_kinds decode_connection_def with_defs MustParseConnectionPath_def
      ParseConnectionPath_ConnectionPath NewIdentifiedConnection_def iterable_kinds item_iff)

lemma decodes_channel: "iterable s \<Longrightarrow> decodes s KeyChannelEndPrefix decode_channel channel_item"
  by (auto simp: decodes_def prefix_head head_kinds decode_channel_def with_defs MustParseChannelPath_def channel_paths
      ParseChannelPath_prefixed [simplified] NewIdentifiedChannel_def iterable_kinds item_iff)

lemma loop_all:
  assumes "prefix_iterator E s" "decodes s p dec g"
    and "{i. \<exists>e v. store_lookup s e = Some v \<and> prefix p (entry_path e) \<and> g e v = Some i} = S"
  shows "\<exists>l. go_iterate dec (append_item f) (kv_PrefixIterator E s p) [] = Inr (map f l) \<and> distinct l \<and> set l = S"
  using loop_exact [OF assms(1,2)] assms(3) by (metis append_Nil fold_append_item runs_on_append)

lemma GetAllConnections_exact:
  assumes "prefix_iterator E s" "iterable s"
  shows "\<exists>l. GetAllConnections E s = Inr l \<and> distinct l \<and>
    set l = {NewIdentifiedConnection c v |c v. connections s c = Some v}"
proof -
  have "{i. \<exists>e v. store_lookup s e = Some v \<and> prefix KeyConnectionPrefix (entry_path e) \<and> connection_item e v = Some i} =
      {NewIdentifiedConnection c v |c v. connections s c = Some v}"
    by (force simp: prefix_head head_kinds ex_kinds)
  from loop_all [OF assms(1) decodes_connection [OF assms(2)] this, of id] show ?thesis
    by (simp add: GetAllConnections_def IterateConnections_def)
qed

lemma GetAllChannels_exact:
  assumes "prefix_iterator E s" "iterable s"
  shows "\<exists>l. GetAllChannels E s = Inr l \<and> distinct l \<and>
    set l = {NewIdentifiedChannel p c v |p c v. channels s (p, c) = Some v}"
proof -
  have "{i. \<exists>e v. store_lookup s e = Some v \<and> prefix KeyChannelEndPrefix (entry_path e) \<and> channel_item e v = Some i} =
      {NewIdentifiedChannel p c v |p c v. channels s (p, c) = Some v}"
    by (force simp: prefix_head head_kinds ex_kinds)
  from loop_all [OF assms(1) decodes_channel [OF assms(2)] this, of id] show ?thesis
    by (simp add: GetAllChannels_def IterateChannels_def)
qed

subsection \<open>Sequences and packets\<close>

lemma decodes_sequences:
  assumes "iterable s" "p \<in> {KeyNextSeqSendPrefix, KeyNextSeqRecvPrefix, KeyNextSeqAckPrefix}"
  shows "decodes s p decode_sequence sequence_item"
  using assms
  by (auto simp: decodes_def prefix_head head_kinds decode_sequence_def with_defs channel_paths be_u64_u64_be
      ParseChannelPath_prefixed [simplified] iterable_kinds item_iff)

lemma split_packet_path:
  "no_slash pre \<Longrightarrow> no_slash p \<Longrightarrow> no_slash c \<Longrightarrow>
   split_on (CHR ''/'') (pre @ CHR ''/'' # channelPath p c @ CHR ''/'' # KeySequencePrefix @ CHR ''/'' # show_u64 n) =
     [pre, KeyPortPrefix, p, KeyChannelPrefix, c, KeySequencePrefix, show_u64 n]"
  by (simp add: split_on_append split_channelPath_seq split_on_no_sep)

lemma decodes_packets:
  assumes "iterable s" "p \<in> {KeyPacketCommitmentPrefix, KeyPacketReceiptPrefix, KeyPacketAckPrefix}"
  shows "decodes s p decode_hash packet_item"
  using assms
  by (auto simp: decodes_def prefix_head head_kinds decode_hash_def with_defs packet_paths split_packet_path
      iterable_kinds parse_show_u64 item_iff)

lemma GetAllSequences_exact:
  assumes "prefix_iterator E s" "iterable s"
  shows "\<exists>l. GetAllPacketSendSeqs E s = Inr l \<and> distinct l \<and> set l = {NewPacketSequence p c n |p c n. nextSequenceSend s (p, c) = Some n}"
    "\<exists>l. GetAllPacketRecvSeqs E s = Inr l \<and> distinct l \<and> set l = {NewPacketSequence p c n |p c n. nextSequenceRecv s (p, c) = Some n}"
    "\<exists>l. GetAllPacketAckSeqs E s = Inr l \<and> distinct l \<and> set l = {NewPacketSequence p c n |p c n. nextSequenceAck s (p, c) = Some n}"
proof -
  let ?f = "\<lambda>(p, c, n). NewPacketSequence p c n"
  have inj: "distinct l \<Longrightarrow> distinct (map ?f l)" for l
    by (rule distinct_map [THEN iffD2]) (auto simp: inj_on_def NewPacketSequence_def)
  have image: "?f ` {(p, c, n) |p c n. m (p, c) = Some n} = {NewPacketSequence p c n |p c n. m (p, c) = Some n}" for m
    by force
  have *: "\<exists>l. IteratePacketSequence (kv_PrefixIterator E s k) append_sequence [] = Inr l \<and> distinct l \<and>
      set l = {NewPacketSequence p c n |p c n. m (p, c) = Some n}"
    if k: "k \<in> {KeyNextSeqSendPrefix, KeyNextSeqRecvPrefix, KeyNextSeqAckPrefix}"
      and m: "{i. \<exists>e v. store_lookup s e = Some v \<and> prefix k (entry_path e) \<and> sequence_item e v = Some i} = {(p, c, n) |p c n. m (p, c) = Some n}"
    for k m
    using loop_all [OF assms(1) decodes_sequences [OF assms(2) k] m, of ?f]
    by (auto simp: IteratePacketSequence_def append_sequence_def simp flip: image intro: inj)
  show "\<exists>l. GetAllPacketSendSeqs E s = Inr l \<and> distinct l \<and> set l = {NewPacketSequence p c n |p c n. nextSequenceSend s (p, c) = Some n}"
    unfolding GetAllPacketSendSeqs_def by (rule *) (auto simp: prefix_head head_kinds ex_kinds ex_value be_u64_u64_be)
  show "\<exists>l. GetAllPacketRecvSeqs E s = Inr l \<and> distinct l \<and> set l = {NewPacketSequence p c n |p c n. nextSequenceRecv s (p, c) = Some n}"
    unfolding GetAllPacketRecvSeqs_def by (rule *) (auto simp: prefix_head head_kinds ex_kinds ex_value be_u64_u64_be)
  show "\<exists>l. GetAllPacketAckSeqs E s = Inr l \<and> distinct l \<and> set l = {NewPacketSequence p c n |p c n. nextSequenceAck s (p, c) = Some n}"
    unfolding GetAllPacketAckSeqs_def by (rule *) (auto simp: prefix_head head_kinds ex_kinds ex_value be_u64_u64_be)
qed

text \<open>The packet states of a map.\<close>

definition packet_states :: "(packet_key \<rightharpoonup> bytes) \<Rightarrow> PacketState set" where
  "packet_states m = {NewPacketState p c n (Some b) |p c n b. m (p, c, n) = Some b}"

lemma GetAllPackets_exact:
  assumes "prefix_iterator E s" "iterable s"
  shows "\<exists>l. GetAllPacketCommitments E s = Inr l \<and> distinct l \<and> set l = packet_states (packetCommitments s)"
    "\<exists>l. GetAllPacketReceipts E s = Inr l \<and> distinct l \<and> set l = packet_states (packetReceipts s)"
    "\<exists>l. GetAllPacketAcks E s = Inr l \<and> distinct l \<and> set l = packet_states (packetAcks s)"
proof -
  let ?f = "\<lambda>(p, c, n, b). NewPacketState p c n (Some b)"
  have inj: "distinct l \<Longrightarrow> distinct (map ?f l)" for l
    by (rule distinct_map [THEN iffD2]) (auto simp: inj_on_def NewPacketState_def)
  have image: "?f ` {(p, c, n, b) |p c n b. m (p, c, n) = Some b} = packet_states m" for m
    by (force simp: packet_states_def)
  have *: "\<exists>l. iterateHashes (kv_PrefixIterator E s k) append_packet [] = Inr l \<and> distinct l \<and> set l = packet_states m"
    if k: "k \<in> {KeyPacketCommitmentPrefix, KeyPacketReceiptPrefix, KeyPacketAckPrefix}"
      and m: "{i. \<exists>e v. store_lookup s e = Some v \<and> prefix k (entry_path e) \<and> packet_item e v = Some i} = {(p, c, n, b) |p c n b. m (p, c, n) = Some b}"
    for k m
    using loop_all [OF assms(1) decodes_packets [OF assms(2) k] m, of ?f]
    by (auto simp: iterateHashes_def append_packet_def simp flip: image intro: inj)
  show "\<exists>l. GetAllPacketCommitments E s = Inr l \<and> distinct l \<and> set l = packet_states (packetCommitments s)"
    unfolding GetAllPacketCommitments_def IteratePacketCommitment_def by (rule *) (auto simp: prefix_head head_kinds ex_kinds item_iff)
  show "\<exists>l. GetAllPacketReceipts E s = Inr l \<and> distinct l \<and> set l = packet_states (packetReceipts s)"
    unfolding GetAllPacketReceipts_def IteratePacketReceipt_def by (rule *) (auto simp: prefix_head head_kinds ex_kinds item_iff)
  show "\<exists>l. GetAllPacketAcks E s = Inr l \<and> distinct l \<and> set l = packet_states (packetAcks s)"
    unfolding GetAllPacketAcks_def IteratePacketAcknowledgement_def by (rule *) (auto simp: prefix_head head_kinds ex_kinds item_iff)
qed

text \<open>The prefix of one channel's commitments ends after \<^verbatim>\<open>sequences\<close>, so it does not pick those of \<^verbatim>\<open>channel-10\<close> for \<^verbatim>\<open>channel-1\<close>.\<close>

lemma commitment_prefix:
  assumes "no_slash p" "no_slash c" "iterable s" "store_lookup s e = Some v"
  shows "prefix (PacketCommitmentPrefixPath p c) (entry_path e) \<longleftrightarrow> (\<exists>n. e = PacketCommitmentEntry p c n)"
proof
  assume pre: "prefix (PacketCommitmentPrefixPath p c) (entry_path e)"
  then have "prefix KeyPacketCommitmentPrefix (entry_path e)" by (auto simp: packet_paths prefix_def)
  then obtain p' c' n where e: "e = PacketCommitmentEntry p' c' n" by (auto simp: prefix_head head_kinds)
  with assms(3,4) have ns: "no_slash p'" "no_slash c'" using iterable_ids by fastforce+
  from pre e obtain r where "channelPath p' c' @ CHR ''/'' # KeySequencePrefix @ CHR ''/'' # show_u64 n = channelPath p c @ CHR ''/'' # KeySequencePrefix @ r"
    by (auto simp: packet_paths prefix_def)
  with ns assms(1,2) have "p' = p \<and> c' = c" by (simp add: channelPath_def append_sep_inject)
  with e show "\<exists>n. e = PacketCommitmentEntry p c n" by blast
qed (auto simp: packet_paths)

lemma GetAllPacketCommitmentsAtChannel_exact:
  assumes it: "prefix_iterator E s" "iterable s" and ids: "no_slash p" "no_slash c"
  shows "\<exists>l. GetAllPacketCommitmentsAtChannel E s p c = Inr l \<and> distinct l \<and>
    set l = {NewPacketState p c n (Some b) |n b. packetCommitments s (p, c, n) = Some b}"
proof -
  let ?k = "PacketCommitmentPrefixPath p c" and ?f = "\<lambda>(_, _, n, b). NewPacketState p c n (Some b)"
  let ?S = "{(p, c, n, b) |n b. packetCommitments s (p, c, n) = Some b}"
  have "prefix ?k (entry_path e) \<Longrightarrow> prefix KeyPacketCommitmentPrefix (entry_path e)" for e by (auto simp: packet_paths prefix_def)
  then have d: "decodes s ?k decode_hash packet_item"
    using decodes_packets [OF it(2), of KeyPacketCommitmentPrefix] by (auto simp: decodes_def)
  have "{i. \<exists>e v. store_lookup s e = Some v \<and> prefix ?k (entry_path e) \<and> packet_item e v = Some i} =
      {i. \<exists>e v. store_lookup s e = Some v \<and> (\<exists>n. e = PacketCommitmentEntry p c n) \<and> packet_item e v = Some i}"
    using commitment_prefix [OF ids it(2)] by blast
  then have S: "{i. \<exists>e v. store_lookup s e = Some v \<and> prefix ?k (entry_path e) \<and> packet_item e v = Some i} = ?S"
    by (auto simp: ex_kinds item_iff)
  have "inj_on ?f ?S" by (auto simp: inj_on_def NewPacketState_def)
  moreover have "?f ` ?S = {NewPacketState p c n (Some b) |n b. packetCommitments s (p, c, n) = Some b}" by force
  ultimately show ?thesis
    using loop_all [OF it(1) d S, of ?f]
    by (auto simp: GetAllPacketCommitmentsAtChannel_def IteratePacketCommitmentAtChannel_def iterateHashes_def distinct_map)
qed

subsection \<open>Clients and consensus states\<close>

fun client_item :: "store_entry \<Rightarrow> store_value \<Rightarrow> (string \<times> ClientState) option" where
  "client_item (ClientStateEntry c) (ClientStateV x) = Some (c, x)"
| "client_item _ _ = None"

fun consensus_item :: "store_entry \<Rightarrow> store_value \<Rightarrow> (string \<times> Height \<times> ConsensusState) option" where
  "consensus_item (ConsensusStateEntry c h) (ConsensusStateV x) = Some (c, h, x)"
| "consensus_item _ _ = None"

lemma split_client_path: "no_slash c \<Longrightarrow> split_on (CHR ''/'') (FullClientPath c k) = KeyClientStorePrefix # c # split_on (CHR ''/'') k"
  by (simp add: FullClientPath_def split_on_append)

lemma split_on_last: "\<exists>y. k = y @ last (split_on c k)"
proof (cases "butlast (split_on c k)")
  case Nil
  then have "split_on c k = [last (split_on c k)]" by (metis append_Nil append_butlast_last_id split_on_ne)
  with join_split [of c k] show ?thesis by (metis append_Nil join_with.simps(2))
next
  case (Cons p ps)
  then have "split_on c k = (p # ps) @ [last (split_on c k)]" by (metis append_butlast_last_id split_on_ne)
  with join_split [of c k] join_with_snoc [of "p # ps" c "last (split_on c k)"]
  have "k = (join_with c (p # ps) @ [c]) @ last (split_on c k)" by simp
  then show ?thesis by blast
qed

lemma split_on_hd: "c \<notin> set a \<Longrightarrow> prefix a (hd (split_on c (a @ r)))"
proof (induction a)
  case (Cons x a)
  then show ?case by (cases "split_on c (a @ r)") auto
qed simp

lemma u64_be_not_text:
  assumes "unat h < 2 ^ 56"
  shows "u64_be h \<noteq> ''entState''"
proof -
  have "byte_of h 7 = char_of (0 :: nat)" using assms by (simp add: byte_of_def)
  also have "\<dots> \<noteq> CHR ''e''" by code_simp
  finally show ?thesis by (simp add: u64_be_def)
qed

lemma iteration_key_not_client_state:
  assumes "unat (RevisionHeight h) < 2 ^ 56"
  shows "last (split_on (CHR ''/'') (IterationKey h)) \<noteq> KeyClientState"
proof
  assume "last (split_on (CHR ''/'') (IterationKey h)) = KeyClientState"
  with split_on_last [of "IterationKey h" "CHR ''/''"] obtain y where y: "IterationKey h = y @ KeyClientState" by auto
  let ?r = "KeyIterateConsensusStatePrefix @ u64_be (RevisionNumber h)"
  from y have "?r @ u64_be (RevisionHeight h) = (y @ ''cli'') @ ''entState''"
    by (simp add: IterationKey_def bigEndianHeightBytes_def KeyClientState_def)
  then have "u64_be (RevisionHeight h) = ''entState''" by (rule append_eq_append_conv [THEN iffD1, THEN conjunct2, rotated]) simp
  with u64_be_not_text [OF assms] show False by blast
qed

lemma Height_String_not_key: "Height_String h \<noteq> KeyClientState"
proof -
  have "CHR ''-'' \<in> set (Height_String h)" by (simp add: Height_String_def)
  moreover have "CHR ''-'' \<notin> set KeyClientState" by (simp add: KeyClientState_def)
  ultimately show ?thesis by auto
qed

lemma split_lasts:
  "last (split_on (CHR ''/'') (ConsensusStatePath h)) = Height_String h"
  "last (split_on (CHR ''/'') (ProcessedTimeKey h)) = ''processedTime''"
  "last (split_on (CHR ''/'') (ProcessedHeightKey h)) = ''processedHeight''"
  "length (split_on (CHR ''/'') (ConsensusStatePath h)) = 2"
  "length (split_on (CHR ''/'') (ProcessedTimeKey h)) = 3"
  "length (split_on (CHR ''/'') (ProcessedHeightKey h)) = 3"
  "split_on (CHR ''/'') (ConsensusStatePath h) = [KeyConsensusStatePrefix, Height_String h]"
  by (simp_all add: ConsensusStatePath_def ProcessedTimeKey_def ProcessedHeightKey_def split_on_append split_on_no_sep)

lemma iteration_key_hd: "hd (split_on (CHR ''/'') (IterationKey h)) \<noteq> KeyConsensusStatePrefix"
  using split_on_hd [of "CHR ''/''" KeyIterateConsensusStatePrefix "bigEndianHeightBytes h"]
  by (auto simp: IterationKey_def KeyIterateConsensusStatePrefix_def KeyConsensusStatePrefix_def)

lemmas client_paths = FullClientStatePath_def FullConsensusStatePath_def ClientConnectionsPath_def

lemma decodes_client:
  assumes "iterable s"
  shows "decodes s KeyClientStorePrefix decode_client client_item"
  unfolding decodes_def
proof (intro conjI allI impI)
  fix e v assume l: "store_lookup s e = Some v" and p: "prefix KeyClientStorePrefix (entry_path e)"
  then obtain c k where ck: "client_key e = Some (c, k)" by (auto simp: prefix_head head_kinds)
  with client_key_path iterable_ids [OF assms l] have c: "no_slash c" by blast
  from assms l have "e = IterationEntry c h \<Longrightarrow> unat (RevisionHeight h) < 2 ^ 56" for h
    by (auto simp: iterable_def GetIterationKey_def split: if_splits)
  with ck l c show "decode_client (entry_path e, v) = (case client_item e v of None \<Rightarrow> Skip | Some i \<Rightarrow> Item i)"
    by (cases e) (auto simp: decode_client_def client_paths split_client_path split_lasts split_on_no_sep with_defs Let_def
        Height_String_not_key iteration_key_not_client_state, simp_all add: key_prefixes)
qed (auto elim!: client_item.elims)

lemma decodes_consensus:
  assumes "iterable s"
  shows "decodes s KeyClientStorePrefix decode_consensus consensus_item"
  unfolding decodes_def
proof (intro conjI allI impI)
  fix e v assume l: "store_lookup s e = Some v" and p: "prefix KeyClientStorePrefix (entry_path e)"
  then obtain c k where ck: "client_key e = Some (c, k)" by (auto simp: prefix_head head_kinds)
  with client_key_path iterable_ids [OF assms l] have c: "no_slash c" by blast
  have i: "split_on (CHR ''/'') (IterationKey h) ! 0 \<noteq> KeyConsensusStatePrefix" for h
    using iteration_key_hd [of h] by (simp add: hd_conv_nth)
  from ck l c i show "decode_consensus (entry_path e, v) = (case consensus_item e v of None \<Rightarrow> Skip | Some i \<Rightarrow> Item i)"
    by (cases e) (auto simp: decode_consensus_def client_paths split_client_path split_lasts split_on_no_sep with_defs Let_def
        MustParseHeight_def ParseHeight_String numeral_2_eq_2)
qed (auto elim!: consensus_item.elims)

lemma client_items:
  "{i. \<exists>e v. store_lookup s e = Some v \<and> prefix KeyClientStorePrefix (entry_path e) \<and> client_item e v = Some i} =
     {(c, x). GetClientState s c = Some x}"
  "{i. \<exists>e v. store_lookup s e = Some v \<and> prefix KeyClientStorePrefix (entry_path e) \<and> consensus_item e v = Some i} =
     {(c, h, x). GetClientConsensusState s c h = Some x}"
proof -
  have "\<exists>e v. store_lookup s e = Some v \<and> client_key e \<noteq> None \<and> client_item e v = Some (c, x)" if "GetClientState s c = Some x" for c x
    using that by (intro exI [of _ "ClientStateEntry c"] exI [of _ "ClientStateV x"]) (simp add: GetClientState_def)
  then show "{i. \<exists>e v. store_lookup s e = Some v \<and> prefix KeyClientStorePrefix (entry_path e) \<and> client_item e v = Some i} =
     {(c, x). GetClientState s c = Some x}"
    by (auto simp: prefix_head head_kinds GetClientState_def elim!: client_item.elims)
  have "\<exists>e v. store_lookup s e = Some v \<and> client_key e \<noteq> None \<and> consensus_item e v = Some (c, h, x)"
    if "GetClientConsensusState s c h = Some x" for c h x
    using that by (intro exI [of _ "ConsensusStateEntry c h"] exI [of _ "ConsensusStateV x"]) (simp add: GetClientConsensusState_def)
  then show "{i. \<exists>e v. store_lookup s e = Some v \<and> prefix KeyClientStorePrefix (entry_path e) \<and> consensus_item e v = Some i} =
     {(c, h, x). GetClientConsensusState s c h = Some x}"
    by (auto simp: prefix_head head_kinds GetClientConsensusState_def elim!: consensus_item.elims)
qed

lemma IterateClients_exact:
  assumes "prefix_iterator E s" "iterable s"
  shows "\<exists>l. (\<forall>cb a. runs_on cb \<longrightarrow> IterateClients E s cb (a :: 'a) = Inr (fold (\<lambda>i a. fst (cb i a)) l a)) \<and>
    distinct l \<and> set l = {(c, x). GetClientState s c = Some x}"
  using loop_exact [OF assms(1) decodes_client [OF assms(2)], where 'a = 'a]
  by (simp add: client_items IterateClients_def)

lemma IterateConsensusStates_exact:
  assumes "prefix_iterator E s" "iterable s"
  shows "\<exists>l. (\<forall>cb a. runs_on cb \<longrightarrow> IterateConsensusStates E s cb (a :: 'a) = Inr (fold (\<lambda>i a. fst (cb i a)) l a)) \<and>
    distinct l \<and> set l = {(c, h, x). GetClientConsensusState s c h = Some x}"
  using loop_exact [OF assms(1) decodes_consensus [OF assms(2)], where 'a = 'a]
  by (simp add: client_items IterateConsensusStates_def)

lemma GetAllClientConnectionPaths_exact:
  assumes "prefix_iterator E s" "iterable s"
  shows "\<exists>l. GetAllClientConnectionPaths E s = Inr l \<and> distinct l \<and>
    set l = {NewConnectionPaths c ps |c ps. GetClientState s c \<noteq> None \<and> clientConnections s c = Some ps}"
proof -
  let ?cb = "\<lambda>(clientID, cs) all. case GetClientConnectionPaths s clientID of
         None \<Rightarrow> (all, False) | Some paths \<Rightarrow> (all @ [NewConnectionPaths clientID paths], False)"
  have r: "runs_on ?cb" by (auto simp: runs_on_def split: option.splits)
  have f: "fold (\<lambda>i a. fst (?cb i a)) l a = a @ [NewConnectionPaths c (the (clientConnections s c)). (c, x) \<leftarrow> l, clientConnections s c \<noteq> None]"
    for l :: "(string \<times> ClientState) list" and a
    by (induction l arbitrary: a) (auto simp: GetClientConnectionPaths_def split: option.splits)
  from IterateClients_exact [OF assms, where 'a = "ConnectionPaths list"] r obtain l :: "(string \<times> ClientState) list"
    where l: "GetAllClientConnectionPaths E s = Inr (fold (\<lambda>i a. fst (?cb i a)) l [])" "distinct l"
      "set l = {(c, x). GetClientState s c = Some x}"
    unfolding GetAllClientConnectionPaths_def by blast
  have inj: "inj_on fst (set l)" using l(3) by (auto simp: inj_on_def)
  have "distinct [NewConnectionPaths c (the (clientConnections s c)). (c, x) \<leftarrow> l, clientConnections s c \<noteq> None]"
    using l(2) inj by (induction l) (auto simp: NewConnectionPaths_def inj_on_def split: if_splits)
  moreover have "set [NewConnectionPaths c (the (clientConnections s c)). (c, x) \<leftarrow> l, clientConnections s c \<noteq> None] =
      {NewConnectionPaths c ps |c ps. GetClientState s c \<noteq> None \<and> clientConnections s c = Some ps}"
    using l(3) by force
  ultimately show ?thesis using l(1) by (auto simp: f)
qed

end
