(* ===== verification/CoreGenesis.thy ===== *)
theory CoreGenesis
  imports StoreIteration
begin

text \<open>
  The genesis state of the core module: its data and validation
  (\<^verbatim>\<open>02-client/types/genesis.go\<close>, \<^verbatim>\<open>03-connection/types/genesis.go\<close>,
  \<^verbatim>\<open>04-channel/types/genesis.go\<close>, \<^verbatim>\<open>core/types/genesis.go\<close>), its import and export
  (\<^verbatim>\<open>genesis.go\<close> of the three submodules and of \<^verbatim>\<open>core\<close>), and the functions of the client
  keeper and of the Tendermint client that collect client states, consensus states and the
  metadata of clients. A panic of the import or export is the error \<open>Panic\<close>; the errors that
  validation builds with \<^verbatim>\<open>fmt.Errorf\<close> carry no code and are \<open>genesis_error\<close>.

  The theorems: an export followed by an import into an empty store gives the whole state back,
  a validated genesis state puts all identifiers below the counters except in one case, and in that
  case the next created client takes over an existing identifier.
\<close>

definition genesis_error :: error where "genesis_error = External ''genesis''"

subsection \<open>02-client: genesis types (types/genesis.go)\<close>

record IdentifiedClientState =
  ics_ClientId :: string
  ics_ClientState :: "ClientState option"

record ConsensusStateWithHeight =
  csh_Height :: Height
  csh_ConsensusState :: "ConsensusState option"

record ClientConsensusStates =
  ccs_ClientId :: string
  ccs_ConsensusStates :: "ConsensusStateWithHeight list"

record GenesisMetadata =
  gm_Key :: bytes
  gm_Value :: bytes

record IdentifiedGenesisMetadata =
  igm_ClientId :: string
  igm_ClientMetadata :: "GenesisMetadata list"

record client_GenesisState =
  Clients :: "IdentifiedClientState list"
  ClientsConsensus :: "ClientConsensusStates list"
  ClientsMetadata :: "IdentifiedGenesisMetadata list"
  client_Params :: "string list"
  CreateLocalhost :: bool
  NextClientSequence :: u64

text \<open>An \<^verbatim>\<open>Any\<close> that does not hold a state of the right interface is \<open>None\<close>.\<close>

definition NewIdentifiedClientState :: "string \<Rightarrow> ClientState \<Rightarrow> IdentifiedClientState" where
  "NewIdentifiedClientState clientID clientState = \<lparr> ics_ClientId = clientID, ics_ClientState = Some clientState \<rparr>"

definition NewConsensusStateWithHeight :: "Height \<Rightarrow> ConsensusState \<Rightarrow> ConsensusStateWithHeight" where
  "NewConsensusStateWithHeight height consensusState =
     \<lparr> csh_Height = height, csh_ConsensusState = Some consensusState \<rparr>"

definition NewGenesisMetadata :: "bytes \<Rightarrow> bytes \<Rightarrow> GenesisMetadata" where
  "NewGenesisMetadata key val = \<lparr> gm_Key = key, gm_Value = val \<rparr>"

definition NewIdentifiedGenesisMetadata :: "string \<Rightarrow> GenesisMetadata list \<Rightarrow> IdentifiedGenesisMetadata" where
  "NewIdentifiedGenesisMetadata clientID gms = \<lparr> igm_ClientId = clientID, igm_ClientMetadata = gms \<rparr>"

definition client_DefaultGenesisState :: client_GenesisState where
  "client_DefaultGenesisState =
     \<lparr> Clients = [], ClientsConsensus = [], ClientsMetadata = [], client_Params = DefaultAllowedClients,
       CreateLocalhost = False, NextClientSequence = 0 \<rparr>"

definition GenesisMetadata_Validate :: "GenesisMetadata \<Rightarrow> unit result" where
  "GenesisMetadata_Validate gm =
     (if length (gm_Key gm) = 0 then Inl genesis_error
      else if length (gm_Value gm) = 0 then Inl genesis_error
      else Inr ())"

text \<open>The loop over the clients: the largest sequence so far and the map of the valid clients' types.\<close>

fun validate_clients :: "'x env_scheme \<Rightarrow> string list \<Rightarrow> IdentifiedClientState list \<Rightarrow> u64 \<Rightarrow> (string \<rightharpoonup> string) \<Rightarrow>
    (u64 \<times> (string \<rightharpoonup> string)) result" where
  "validate_clients E allowed [] maxSequence validClients = Inr (maxSequence, validClients)"
| "validate_clients E allowed (client # cs) maxSequence validClients =
     (case ClientIdentifierValidator (ics_ClientId client) of Inl e \<Rightarrow> Inl e | Inr _ \<Rightarrow>
     (case ics_ClientState client of None \<Rightarrow> Inl genesis_error | Some clientState \<Rightarrow>
      if \<not> IsAllowedClient allowed (ClientType clientState) then Inl genesis_error
      else case client_Validate E clientState of Inl e \<Rightarrow> Inl e | Inr _ \<Rightarrow>
     (case ParseClientIdentifier (ics_ClientId client) of Inl e \<Rightarrow> Inl e | Inr (clientType, sequence) \<Rightarrow>
      if clientType \<noteq> ClientType clientState then Inl genesis_error
      else case ValidateClientType clientType of Inl e \<Rightarrow> Inl e | Inr _ \<Rightarrow>
        validate_clients E allowed cs (if sequence > maxSequence then sequence else maxSequence)
          (validClients(ics_ClientId client \<mapsto> ClientType clientState)))))"

definition validate_consensus :: "'x env_scheme \<Rightarrow> string \<Rightarrow> ConsensusStateWithHeight \<Rightarrow> unit result" where
  "validate_consensus E clientType csh =
     (if IsZero (csh_Height csh) then Inl genesis_error
      else case csh_ConsensusState csh of None \<Rightarrow> Inl genesis_error | Some cs \<Rightarrow>
     (case consensus_ValidateBasic E cs of Inl e \<Rightarrow> Inl e | Inr _ \<Rightarrow>
      if clientType \<noteq> ConsensusState_ClientType cs then Inl genesis_error else Inr ()))"

definition validate_clients_consensus :: "'x env_scheme \<Rightarrow> (string \<rightharpoonup> string) \<Rightarrow> ClientConsensusStates \<Rightarrow> unit result" where
  "validate_clients_consensus E validClients cc =
     (case validClients (ccs_ClientId cc) of None \<Rightarrow> Inl genesis_error | Some clientType \<Rightarrow>
      first_error (map (validate_consensus E clientType) (ccs_ConsensusStates cc)))"

definition validate_metadata :: "(string \<rightharpoonup> string) \<Rightarrow> IdentifiedGenesisMetadata \<Rightarrow> unit result" where
  "validate_metadata validClients clientMetadata =
     (case validClients (igm_ClientId clientMetadata) of None \<Rightarrow> Inl genesis_error | Some _ \<Rightarrow>
      first_error (map GenesisMetadata_Validate (igm_ClientMetadata clientMetadata)))"

definition client_GenesisState_Validate :: "'x env_scheme \<Rightarrow> client_GenesisState \<Rightarrow> unit result" where
  "client_GenesisState_Validate E gs =
     (case validateClients (client_Params gs) of Inl e \<Rightarrow> Inl e | Inr _ \<Rightarrow>
     (case validate_clients E (client_Params gs) (Clients gs) 0 Map.empty of Inl e \<Rightarrow> Inl e | Inr (maxSequence, validClients) \<Rightarrow>
      first_error (map (validate_clients_consensus E validClients) (ClientsConsensus gs) @
        map (validate_metadata validClients) (ClientsMetadata gs) @
        [require (\<not> (CreateLocalhost gs \<and> \<not> IsAllowedClient (client_Params gs) Localhost)) genesis_error,
         require (\<not> (maxSequence \<noteq> 0 \<and> maxSequence \<ge> NextClientSequence gs)) genesis_error])))"

subsection \<open>03-connection: genesis types (types/genesis.go)\<close>

record conn_GenesisState =
  Connections :: "IdentifiedConnection list"
  ClientConnectionPaths :: "ConnectionPaths list"
  NextConnectionSequence :: u64
  connection_Params :: conn_Params

definition conn_NewGenesisState :: "IdentifiedConnection list \<Rightarrow> ConnectionPaths list \<Rightarrow> u64 \<Rightarrow> conn_Params \<Rightarrow> conn_GenesisState" where
  "conn_NewGenesisState conns connPaths nextConnSeq params =
     \<lparr> Connections = conns, ClientConnectionPaths = connPaths, NextConnectionSequence = nextConnSeq,
       connection_Params = params \<rparr>"

definition conn_DefaultGenesisState :: conn_GenesisState where
  "conn_DefaultGenesisState =
     \<lparr> Connections = [], ClientConnectionPaths = [], NextConnectionSequence = 0, connection_Params = conn_DefaultParams \<rparr>"

fun validate_connections :: "IdentifiedConnection list \<Rightarrow> u64 \<Rightarrow> u64 result" where
  "validate_connections [] maxSequence = Inr maxSequence"
| "validate_connections (conn # conns) maxSequence =
     (case ParseConnectionSequence (ic_Id conn) of Inl e \<Rightarrow> Inl e | Inr sequence \<Rightarrow>
     (case IdentifiedConnection_ValidateBasic conn of Inl e \<Rightarrow> Inl e | Inr _ \<Rightarrow>
        validate_connections conns (if sequence > maxSequence then sequence else maxSequence)))"

definition validate_paths :: "ConnectionPaths \<Rightarrow> unit result" where
  "validate_paths conPaths =
     (case ClientIdentifierValidator (cps_ClientId conPaths) of Inl e \<Rightarrow> Inl e | Inr _ \<Rightarrow>
      first_error (map ConnectionIdentifierValidator (cps_Paths conPaths)))"

definition conn_GenesisState_Validate :: "conn_GenesisState \<Rightarrow> unit result" where
  "conn_GenesisState_Validate gs =
     (case validate_connections (Connections gs) 0 of Inl e \<Rightarrow> Inl e | Inr maxSequence \<Rightarrow>
      first_error (map validate_paths (ClientConnectionPaths gs) @
        [require (\<not> (maxSequence \<noteq> 0 \<and> maxSequence \<ge> NextConnectionSequence gs)) genesis_error,
         conn_Params_Validate (connection_Params gs)]))"

subsection \<open>04-channel: genesis types (types/genesis.go)\<close>

record chan_GenesisState =
  Channels :: "IdentifiedChannel list"
  Acknowledgements :: "PacketState list"
  Commitments :: "PacketState list"
  Receipts :: "PacketState list"
  SendSequences :: "PacketSequence list"
  RecvSequences :: "PacketSequence list"
  AckSequences :: "PacketSequence list"
  NextChannelSequence :: u64

text \<open>The constructor does not store its \<open>receipts\<close> argument.\<close>

definition chan_NewGenesisState :: "IdentifiedChannel list \<Rightarrow> PacketState list \<Rightarrow> PacketState list \<Rightarrow> PacketState list \<Rightarrow>
    PacketSequence list \<Rightarrow> PacketSequence list \<Rightarrow> PacketSequence list \<Rightarrow> u64 \<Rightarrow> chan_GenesisState" where
  "chan_NewGenesisState chans acks receipts commitments sendSeqs recvSeqs ackSeqs nextChanSeq =
     \<lparr> Channels = chans, Acknowledgements = acks, Commitments = commitments, Receipts = [],
       SendSequences = sendSeqs, RecvSequences = recvSeqs, AckSequences = ackSeqs,
       NextChannelSequence = nextChanSeq \<rparr>"

definition chan_DefaultGenesisState :: chan_GenesisState where
  "chan_DefaultGenesisState =
     \<lparr> Channels = [], Acknowledgements = [], Commitments = [], Receipts = [], SendSequences = [], RecvSequences = [],
       AckSequences = [], NextChannelSequence = 0 \<rparr>"

definition validateGenFields :: "string \<Rightarrow> string \<Rightarrow> u64 \<Rightarrow> unit result" where
  "validateGenFields portID channelID sequence =
     (case PortIdentifierValidator portID of Inl e \<Rightarrow> Inl e | Inr _ \<Rightarrow>
     (case ChannelIdentifierValidator channelID of Inl e \<Rightarrow> Inl e | Inr _ \<Rightarrow>
      if sequence = 0 then Inl genesis_error else Inr ()))"

definition PacketState_Validate :: "PacketState \<Rightarrow> unit result" where
  "PacketState_Validate pa =
     (if pst_Data pa = None then Inl genesis_error
      else validateGenFields (pst_PortId pa) (pst_ChannelId pa) (pst_Sequence pa))"

definition PacketSequence_Validate :: "PacketSequence \<Rightarrow> unit result" where
  "PacketSequence_Validate ps = validateGenFields (ps_PortId ps) (ps_ChannelId ps) (ps_Sequence ps)"

text \<open>The length of the data, zero for nil.\<close>

definition data_length :: "PacketState \<Rightarrow> nat" where
  "data_length pa = (case pst_Data pa of None \<Rightarrow> 0 | Some bz \<Rightarrow> length bz)"

definition validate_nonempty :: "PacketState \<Rightarrow> unit result" where
  "validate_nonempty pa =
     (case PacketState_Validate pa of Inl e \<Rightarrow> Inl e | Inr _ \<Rightarrow>
      if data_length pa = 0 then Inl genesis_error else Inr ())"

fun validate_channels :: "IdentifiedChannel list \<Rightarrow> u64 \<Rightarrow> u64 result" where
  "validate_channels [] maxSequence = Inr maxSequence"
| "validate_channels (chan # chans) maxSequence =
     (case ParseChannelSequence (ich_ChannelId chan) of Inl e \<Rightarrow> Inl e | Inr sequence \<Rightarrow>
     (case IdentifiedChannel_ValidateBasic chan of Inl e \<Rightarrow> Inl e | Inr _ \<Rightarrow>
        validate_channels chans (if sequence > maxSequence then sequence else maxSequence)))"

definition chan_GenesisState_Validate :: "chan_GenesisState \<Rightarrow> unit result" where
  "chan_GenesisState_Validate gs =
     (case validate_channels (Channels gs) 0 of Inl e \<Rightarrow> Inl e | Inr maxSequence \<Rightarrow>
      if maxSequence \<noteq> 0 \<and> maxSequence \<ge> NextChannelSequence gs then Inl genesis_error
      else first_error (map validate_nonempty (Acknowledgements gs) @ map PacketState_Validate (Receipts gs) @
             map validate_nonempty (Commitments gs) @ map PacketSequence_Validate (SendSequences gs) @
             map PacketSequence_Validate (RecvSequences gs) @ map PacketSequence_Validate (AckSequences gs)))"

subsection \<open>The genesis state of the core module (core/types/genesis.go)\<close>

record core_GenesisState =
  ClientGenesis :: client_GenesisState
  ConnectionGenesis :: conn_GenesisState
  ChannelGenesis :: chan_GenesisState

definition core_DefaultGenesisState :: core_GenesisState where
  "core_DefaultGenesisState =
     \<lparr> ClientGenesis = client_DefaultGenesisState, ConnectionGenesis = conn_DefaultGenesisState,
       ChannelGenesis = chan_DefaultGenesisState \<rparr>"

definition core_GenesisState_Validate :: "'x env_scheme \<Rightarrow> core_GenesisState \<Rightarrow> unit result" where
  "core_GenesisState_Validate E gs =
     (case client_GenesisState_Validate E (ClientGenesis gs) of Inl e \<Rightarrow> Inl e | Inr _ \<Rightarrow>
     (case conn_GenesisState_Validate (ConnectionGenesis gs) of Inl e \<Rightarrow> Inl e | Inr _ \<Rightarrow>
      chan_GenesisState_Validate (ChannelGenesis gs)))"

subsection \<open>Raw writes to a client's store\<close>

text \<open>
  The metadata of a genesis state is written as raw keys and values. A key of one of the
  known formats, with a height in the decimal notation that the key functions write, is the
  key of a field; the write sets that field when the value is one the field's readers
  decode. Any other write is kept as bytes.
\<close>

datatype client_field = ClientStateField | ConsensusField Height | TimeField Height | HeightField Height | IterationField Height | OtherField

definition key_height :: "string \<Rightarrow> Height option" where
  "key_height x = (case ParseHeight x of Inl _ \<Rightarrow> None | Inr h \<Rightarrow> if Height_String h = x then Some h else None)"

definition consensus_field :: "bytes \<Rightarrow> client_field" where
  "consensus_field key =
     (case split_on (CHR ''/'') key of
        [p, x] \<Rightarrow> (case key_height x of None \<Rightarrow> OtherField | Some h \<Rightarrow>
                    if p = KeyConsensusStatePrefix then ConsensusField h else OtherField)
      | [p, x, k] \<Rightarrow> (case key_height x of None \<Rightarrow> OtherField | Some h \<Rightarrow>
                    if p \<noteq> KeyConsensusStatePrefix then OtherField
                    else if k = ''processedTime'' then TimeField h
                    else if k = ''processedHeight'' then HeightField h else OtherField)
      | _ \<Rightarrow> OtherField)"

definition field_of :: "bytes \<Rightarrow> client_field" where
  "field_of key =
     (if key = KeyClientState then ClientStateField
      else if prefix KeyIterateConsensusStatePrefix key then
        (if length key = length KeyIterateConsensusStatePrefix + 16 then IterationField (GetHeightFromIterationKey key) else OtherField)
      else consensus_field key)"

definition store_Set :: "('k, 'x) store_env_scheme \<Rightarrow> client_store \<Rightarrow> bytes \<Rightarrow> bytes \<Rightarrow> client_store" where
  "store_Set E store key val =
     (let raw = store \<lparr> st_raw := (st_raw store)(key \<mapsto> val) \<rparr> in
      case field_of key of
        ClientStateField \<Rightarrow> (case cdc_UnmarshalClientState E val of None \<Rightarrow> raw | Some cs \<Rightarrow> store \<lparr> st_clientState := Some cs \<rparr>)
      | ConsensusField h \<Rightarrow> (case cdc_UnmarshalConsensusState E val of None \<Rightarrow> raw | Some cs \<Rightarrow>
          store \<lparr> st_consensus := (st_consensus store)(h \<mapsto> cs) \<rparr>)
      | TimeField h \<Rightarrow> if length val = 8 then SetProcessedTime store h (be_u64 val) else raw
      | HeightField h \<Rightarrow> (case key_height val of None \<Rightarrow> raw | Some ph \<Rightarrow> SetProcessedHeight store h ph)
      | IterationField h \<Rightarrow> if val = ConsensusStatePath h then SetIterationKey store h else raw
      | OtherField \<Rightarrow> raw)"

definition client_store_Set :: "('k, 'x) store_env_scheme \<Rightarrow> 'k ibc_state \<Rightarrow> string \<Rightarrow> bytes \<Rightarrow> bytes \<Rightarrow> 'k ibc_state" where
  "client_store_Set E s clientID key val =
     (case (if key = KeyConnectionPrefix then cdc_UnmarshalClientPaths E val else None) of
        Some paths \<Rightarrow> SetClientConnectionPaths s clientID paths
      | None \<Rightarrow> set_client_store s clientID (store_Set E (clientStores s clientID) key val))"

subsection \<open>02-client: keeper functions for genesis (keeper.go), Tendermint metadata (store.go, genesis.go)\<close>

text \<open>The prefix iterator of a client's store, whose keys lack the client's prefix.\<close>

definition client_PrefixIterator :: "('k, 'x) store_env_scheme \<Rightarrow> 'k ibc_state \<Rightarrow> string \<Rightarrow> bytes \<Rightarrow> (bytes \<times> store_value) list" where
  "client_PrefixIterator E s clientID p =
     map (\<lambda>(k, v). (drop (length (FullClientPath clientID [])) k, v)) (kv_PrefixIterator E s (FullClientPath clientID p))"

definition decode_metadata :: "bytes \<times> store_value \<Rightarrow> (bytes \<times> bytes) decoded" where
  "decode_metadata e =
     (let keySplit = split_on (CHR ''/'') (fst e) in
      if length keySplit \<noteq> 3 then Skip
      else if keySplit ! 2 \<noteq> ''processedTime'' \<and> keySplit ! 2 \<noteq> ''processedHeight'' then Skip
      else with_bytes (snd e) (\<lambda>bz. Item (fst e, bz)))"

definition decode_iteration :: "bytes \<times> store_value \<Rightarrow> (bytes \<times> bytes) decoded" where
  "decode_iteration e = with_bytes (snd e) (\<lambda>bz. Item (fst e, bz))"

definition IterateConsensusMetadata :: "('k, 'x) store_env_scheme \<Rightarrow> 'k ibc_state \<Rightarrow> string \<Rightarrow>
    (bytes \<times> bytes \<Rightarrow> 'a \<Rightarrow> 'a \<times> bool) \<Rightarrow> 'a \<Rightarrow> 'a result" where
  "IterateConsensusMetadata E s clientID cb a =
     (case go_iterate decode_metadata cb (client_PrefixIterator E s clientID KeyConsensusStatePrefix) a of Inl e \<Rightarrow> Inl e | Inr a \<Rightarrow>
      go_iterate decode_iteration cb (client_PrefixIterator E s clientID KeyIterateConsensusStatePrefix) a)"

definition tm_ExportMetadata :: "('k, 'x) store_env_scheme \<Rightarrow> 'k ibc_state \<Rightarrow> string \<Rightarrow> GenesisMetadata list result" where
  "tm_ExportMetadata E s clientID =
     IterateConsensusMetadata E s clientID (append_item (\<lambda>(key, val). NewGenesisMetadata key val)) []"

fun ExportMetadata :: "('k, 'x) store_env_scheme \<Rightarrow> 'k ibc_state \<Rightarrow> string \<Rightarrow> ClientState \<Rightarrow> GenesisMetadata list result" where
  "ExportMetadata E s clientID (TMClient cs) = tm_ExportMetadata E s clientID"
| "ExportMetadata E s clientID (SoloClient cs) = Inr []"
| "ExportMetadata E s clientID (LHClient cs) = Inr []"

definition GetAllGenesisClients :: "('k, 'x) store_env_scheme \<Rightarrow> 'k ibc_state \<Rightarrow> IdentifiedClientState list result" where
  "GetAllGenesisClients E s =
     (case IterateClients E s (append_item (\<lambda>(clientID, cs). NewIdentifiedClientState clientID cs)) [] of Inl e \<Rightarrow> Inl e | Inr genClients \<Rightarrow>
      Inr (sort_key ics_ClientId genClients))"

fun GetAllClientMetadata :: "('k, 'x) store_env_scheme \<Rightarrow> 'k ibc_state \<Rightarrow> IdentifiedClientState list \<Rightarrow> IdentifiedGenesisMetadata list result" where
  "GetAllClientMetadata E s [] = Inr []"
| "GetAllClientMetadata E s (ic # ics) =
     (case unpack (ics_ClientState ic) of Inl e \<Rightarrow> Inl e | Inr cs \<Rightarrow>
     (case ExportMetadata E s (ics_ClientId ic) cs of Inl e \<Rightarrow> Inl e | Inr gms \<Rightarrow>
     (case GetAllClientMetadata E s ics of Inl e \<Rightarrow> Inl e | Inr genMetadata \<Rightarrow>
      Inr (if length gms = 0 then genMetadata else NewIdentifiedGenesisMetadata (ics_ClientId ic) gms # genMetadata))))"

definition SetAllClientMetadata :: "('k, 'x) store_env_scheme \<Rightarrow> 'k ibc_state \<Rightarrow> IdentifiedGenesisMetadata list \<Rightarrow> 'k ibc_state" where
  "SetAllClientMetadata E s genMetadata =
     fold (\<lambda>igm s. fold (\<lambda>md s. client_store_Set E s (igm_ClientId igm) (gm_Key md) (gm_Value md)) (igm_ClientMetadata igm) s)
       genMetadata s"

text \<open>The consensus states by client: the list of clients so far and the index of each client in it.\<close>

definition add_consensus :: "string \<times> Height \<times> ConsensusState \<Rightarrow>
    ClientConsensusStates list \<times> (string \<rightharpoonup> nat) \<Rightarrow> (ClientConsensusStates list \<times> (string \<rightharpoonup> nat)) \<times> bool" where
  "add_consensus i a = (case i of (clientID, height, cs) \<Rightarrow> case a of (clientConsStates, idxs) \<Rightarrow>
     let csh = NewConsensusStateWithHeight height cs in
     case idxs clientID of
       Some idx \<Rightarrow> ((clientConsStates[idx := (clientConsStates ! idx)
           \<lparr> ccs_ConsensusStates := ccs_ConsensusStates (clientConsStates ! idx) @ [csh] \<rparr>], idxs), False)
     | None \<Rightarrow> ((clientConsStates @ [\<lparr> ccs_ClientId = clientID, ccs_ConsensusStates = [csh] \<rparr>],
           idxs(clientID \<mapsto> length clientConsStates)), False))"

definition GetAllConsensusStates :: "('k, 'x) store_env_scheme \<Rightarrow> 'k ibc_state \<Rightarrow> ClientConsensusStates list result" where
  "GetAllConsensusStates E s =
     (case IterateConsensusStates E s add_consensus ([], Map.empty) of Inl e \<Rightarrow> Inl e | Inr (clientConsStates, _) \<Rightarrow>
      Inr (sort_key ccs_ClientId clientConsStates))"

subsection \<open>Import and export (genesis.go)\<close>

fun init_clients :: "string list \<Rightarrow> IdentifiedClientState list \<Rightarrow> 'k ibc_state \<Rightarrow> 'k ibc_state result" where
  "init_clients allowed [] s = Inr s"
| "init_clients allowed (client # cs) s =
     (case ics_ClientState client of None \<Rightarrow> Inl Panic | Some clientState \<Rightarrow>
      if \<not> IsAllowedClient allowed (ClientType clientState) then Inl Panic
      else init_clients allowed cs (SetClientState s (ics_ClientId client) clientState))"

fun init_consensus :: "string \<Rightarrow> ConsensusStateWithHeight list \<Rightarrow> 'k ibc_state \<Rightarrow> 'k ibc_state result" where
  "init_consensus clientID [] s = Inr s"
| "init_consensus clientID (csh # cs) s =
     (case csh_ConsensusState csh of None \<Rightarrow> Inl Panic | Some consensusState \<Rightarrow>
      init_consensus clientID cs (SetClientConsensusState s clientID (csh_Height csh) consensusState))"

fun init_clients_consensus :: "ClientConsensusStates list \<Rightarrow> 'k ibc_state \<Rightarrow> 'k ibc_state result" where
  "init_clients_consensus [] s = Inr s"
| "init_clients_consensus (cc # ccs) s =
     (case init_consensus (ccs_ClientId cc) (ccs_ConsensusStates cc) s of Inl e \<Rightarrow> Inl e | Inr s \<Rightarrow> init_clients_consensus ccs s)"

definition client_InitGenesis :: "('k, 'x) store_env_scheme \<Rightarrow> 'k ibc_state \<Rightarrow> client_GenesisState \<Rightarrow> 'k ibc_state result" where
  "client_InitGenesis E s gs =
     (let s = s \<lparr> allowedClients := client_Params gs \<rparr>;
          s = (if length (ClientsMetadata gs) \<noteq> 0 then SetAllClientMetadata E s (ClientsMetadata gs) else s) in
      case init_clients (client_Params gs) (Clients gs) s of Inl e \<Rightarrow> Inl e | Inr s \<Rightarrow>
     (case init_clients_consensus (ClientsConsensus gs) s of Inl e \<Rightarrow> Inl e | Inr s \<Rightarrow>
      Inr (SetNextClientSequence s (NextClientSequence gs))))"

definition client_ExportGenesis :: "('k, 'x) store_env_scheme \<Rightarrow> 'k ibc_state \<Rightarrow> client_GenesisState result" where
  "client_ExportGenesis E s =
     (case GetAllGenesisClients E s of Inl e \<Rightarrow> Inl e | Inr genClients \<Rightarrow>
     (case GetAllClientMetadata E s genClients of Inl e \<Rightarrow> Inl Panic | Inr clientsMetadata \<Rightarrow>
     (case GetAllConsensusStates E s of Inl e \<Rightarrow> Inl e | Inr clientsConsensus \<Rightarrow>
     (case GetNextClientSequence s of Inl e \<Rightarrow> Inl e | Inr nextSeq \<Rightarrow>
      Inr \<lparr> Clients = genClients, ClientsConsensus = clientsConsensus, ClientsMetadata = clientsMetadata,
            client_Params = allowedClients s, CreateLocalhost = False, NextClientSequence = nextSeq \<rparr>))))"

definition conn_InitGenesis :: "'k ibc_state \<Rightarrow> conn_GenesisState \<Rightarrow> 'k ibc_state" where
  "conn_InitGenesis s gs =
     (let s = fold (\<lambda>ic s. SetConnection s (ic_Id ic)
            (NewConnectionEnd (ic_State ic) (ic_ClientId ic) (ic_Counterparty ic) (ic_Versions ic) (ic_DelayPeriod ic))) (Connections gs) s;
          s = fold (\<lambda>cps s. SetClientConnectionPaths s (cps_ClientId cps) (cps_Paths cps)) (ClientConnectionPaths gs) s;
          s = SetNextConnectionSequence s (NextConnectionSequence gs) in
      s \<lparr> maxExpectedTimePerBlock := MaxExpectedTimePerBlock (connection_Params gs) \<rparr>)"

definition conn_ExportGenesis :: "('k, 'x) store_env_scheme \<Rightarrow> 'k ibc_state \<Rightarrow> conn_GenesisState result" where
  "conn_ExportGenesis E s =
     (case GetAllConnections E s of Inl e \<Rightarrow> Inl e | Inr conns \<Rightarrow>
     (case GetAllClientConnectionPaths E s of Inl e \<Rightarrow> Inl e | Inr paths \<Rightarrow>
     (case GetNextConnectionSequence s of Inl e \<Rightarrow> Inl e | Inr nextSeq \<Rightarrow>
      Inr \<lparr> Connections = conns, ClientConnectionPaths = paths, NextConnectionSequence = nextSeq,
            connection_Params = \<lparr> MaxExpectedTimePerBlock = maxExpectedTimePerBlock s \<rparr> \<rparr>)))"

text \<open>A nil slice is stored as an empty value.\<close>

definition packet_data :: "PacketState \<Rightarrow> bytes" where
  "packet_data pa = (case pst_Data pa of None \<Rightarrow> [] | Some bz \<Rightarrow> bz)"

definition chan_InitGenesis :: "'k ibc_state \<Rightarrow> chan_GenesisState \<Rightarrow> 'k ibc_state" where
  "chan_InitGenesis s gs =
     (let s = fold (\<lambda>ch s. SetChannel s (ich_PortId ch) (ich_ChannelId ch)
            (NewChannel (ich_State ch) (ich_Ordering ch) (ich_Counterparty ch) (ich_ConnectionHops ch) (ich_Version ch))) (Channels gs) s;
          s = fold (\<lambda>a s. SetPacketAcknowledgement s (pst_PortId a) (pst_ChannelId a) (pst_Sequence a) (packet_data a)) (Acknowledgements gs) s;
          s = fold (\<lambda>c s. SetPacketCommitment s (pst_PortId c) (pst_ChannelId c) (pst_Sequence c) (packet_data c)) (Commitments gs) s;
          s = fold (\<lambda>r s. SetPacketReceipt s (pst_PortId r) (pst_ChannelId r) (pst_Sequence r)) (Receipts gs) s;
          s = fold (\<lambda>q s. SetNextSequenceSend s (ps_PortId q) (ps_ChannelId q) (ps_Sequence q)) (SendSequences gs) s;
          s = fold (\<lambda>q s. SetNextSequenceRecv s (ps_PortId q) (ps_ChannelId q) (ps_Sequence q)) (RecvSequences gs) s;
          s = fold (\<lambda>q s. SetNextSequenceAck s (ps_PortId q) (ps_ChannelId q) (ps_Sequence q)) (AckSequences gs) s in
      SetNextChannelSequence s (NextChannelSequence gs))"

definition chan_ExportGenesis :: "('k, 'x) store_env_scheme \<Rightarrow> 'k ibc_state \<Rightarrow> chan_GenesisState result" where
  "chan_ExportGenesis E s =
     (case GetAllChannels E s of Inl e \<Rightarrow> Inl e | Inr chans \<Rightarrow>
     (case GetAllPacketAcks E s of Inl e \<Rightarrow> Inl e | Inr acks \<Rightarrow>
     (case GetAllPacketCommitments E s of Inl e \<Rightarrow> Inl e | Inr commitments \<Rightarrow>
     (case GetAllPacketReceipts E s of Inl e \<Rightarrow> Inl e | Inr receipts \<Rightarrow>
     (case GetAllPacketSendSeqs E s of Inl e \<Rightarrow> Inl e | Inr sends \<Rightarrow>
     (case GetAllPacketRecvSeqs E s of Inl e \<Rightarrow> Inl e | Inr recvs \<Rightarrow>
     (case GetAllPacketAckSeqs E s of Inl e \<Rightarrow> Inl e | Inr ackSeqs \<Rightarrow>
     (case GetNextChannelSequence s of Inl e \<Rightarrow> Inl e | Inr nextSeq \<Rightarrow>
      Inr \<lparr> Channels = chans, Acknowledgements = acks, Commitments = commitments, Receipts = receipts,
            SendSequences = sends, RecvSequences = recvs, AckSequences = ackSeqs, NextChannelSequence = nextSeq \<rparr>))))))))"

definition core_InitGenesis :: "('k, 'x) store_env_scheme \<Rightarrow> 'k ibc_state \<Rightarrow> core_GenesisState \<Rightarrow> 'k ibc_state result" where
  "core_InitGenesis E s gs =
     (case client_InitGenesis E s (ClientGenesis gs) of Inl e \<Rightarrow> Inl e | Inr s \<Rightarrow>
      Inr (chan_InitGenesis (conn_InitGenesis s (ConnectionGenesis gs)) (ChannelGenesis gs)))"

definition core_ExportGenesis :: "('k, 'x) store_env_scheme \<Rightarrow> 'k ibc_state \<Rightarrow> core_GenesisState result" where
  "core_ExportGenesis E s =
     (case client_ExportGenesis E s of Inl e \<Rightarrow> Inl e | Inr cg \<Rightarrow>
     (case conn_ExportGenesis E s of Inl e \<Rightarrow> Inl e | Inr ng \<Rightarrow>
     (case chan_ExportGenesis E s of Inl e \<Rightarrow> Inl e | Inr hg \<Rightarrow>
      Inr \<lparr> ClientGenesis = cg, ConnectionGenesis = ng, ChannelGenesis = hg \<rparr>)))"

subsection \<open>The metadata of a Tendermint client\<close>

lemma go_iterate_map: "go_iterate dec cb (map f es) a = go_iterate (\<lambda>e. dec (f e)) cb es a"
  by (induction es arbitrary: a) (simp_all split: decoded.splits prod.splits)

lemma client_path_prefix:
  assumes "no_slash c" "iterable s" "store_lookup s e = Some v"
  shows "prefix (FullClientPath c p) (entry_path e) \<longleftrightarrow> (\<exists>k. client_key e = Some (c, k) \<and> prefix p k)"
proof
  assume pre: "prefix (FullClientPath c p) (entry_path e)"
  then have "prefix KeyClientStorePrefix (entry_path e)" by (auto simp: FullClientPath_def prefix_def)
  then obtain c' k where ck: "client_key e = Some (c', k)" by (auto simp: prefix_head head_kinds)
  with client_key_path have e: "entry_path e = FullClientPath c' k" "entry_identifiers e = {c'}" by blast+
  with iterable_ids [OF assms(2,3)] have "no_slash c'" by simp
  with pre e assms(1) have "c' = c \<and> prefix p k"
    by (auto simp: FullClientPath_def prefix_def append_sep_inject)
  with ck show "\<exists>k. client_key e = Some (c, k) \<and> prefix p k" by blast
next
  assume "\<exists>k. client_key e = Some (c, k) \<and> prefix p k"
  with client_key_path show "prefix (FullClientPath c p) (entry_path e)" by (fastforce simp: FullClientPath_def prefix_def)
qed

lemma drop_client_path: "drop (length (FullClientPath c [])) (FullClientPath c k) = k"
  by (simp add: FullClientPath_def)

fun metadata_item :: "store_entry \<Rightarrow> store_value \<Rightarrow> (bytes \<times> bytes) option" where
  "metadata_item (ProcessedTimeEntry c h) (BytesV b) = Some (ProcessedTimeKey h, b)"
| "metadata_item (ProcessedHeightEntry c h) (BytesV b) = Some (ProcessedHeightKey h, b)"
| "metadata_item (IterationEntry c h) (BytesV b) = Some (IterationKey h, b)"
| "metadata_item _ _ = None"

lemma key_prefix_kinds:
  assumes "client_key e = Some (c, k)"
  shows "prefix KeyConsensusStatePrefix k \<longleftrightarrow>
      (\<exists>h. e = ConsensusStateEntry c h \<or> e = ProcessedTimeEntry c h \<or> e = ProcessedHeightEntry c h)"
    "prefix KeyIterateConsensusStatePrefix k \<longleftrightarrow> (\<exists>h. e = IterationEntry c h)"
  using assms
  by (cases e; auto simp: ConsensusStatePath_def ProcessedTimeKey_def ProcessedHeightKey_def IterationKey_def
      KeyIterateConsensusStatePrefix_def key_prefixes)+

lemma metadata_split:
  "split_on (CHR ''/'') (ProcessedTimeKey h) = [KeyConsensusStatePrefix, Height_String h, ''processedTime'']"
  "split_on (CHR ''/'') (ProcessedHeightKey h) = [KeyConsensusStatePrefix, Height_String h, ''processedHeight'']"
  by (simp_all add: ConsensusStatePath_def ProcessedTimeKey_def ProcessedHeightKey_def split_on_append split_on_no_sep)

lemma metadata_item_SomeD:
  "metadata_item e v = Some (k, b) \<Longrightarrow> v = BytesV b \<and> (\<exists>c. client_key e = Some (c, k))"
  by (auto elim!: metadata_item.elims)

lemma decodes_metadata:
  assumes "iterable s" "no_slash c"
  shows "decodes s (FullClientPath c KeyConsensusStatePrefix)
      (\<lambda>x. decode_metadata (case x of (k, v) \<Rightarrow> (drop (length (FullClientPath c [])) k, v))) metadata_item"
    "decodes s (FullClientPath c KeyIterateConsensusStatePrefix)
      (\<lambda>x. decode_iteration (case x of (k, v) \<Rightarrow> (drop (length (FullClientPath c [])) k, v))) metadata_item"
proof -
  note pre = client_path_prefix [OF assms(2,1)]
  have inj: "entry_path e = entry_path e'"
    if l: "store_lookup s e = Some v" "store_lookup s e' = Some v'"
      and p: "prefix (FullClientPath c p) (entry_path e)" "prefix (FullClientPath c p) (entry_path e')"
      and i: "metadata_item e v = Some i" "metadata_item e' v' = Some i" for e v e' v' i p
  proof -
    obtain k b where kb: "i = (k, b)" by (cases i)
    from l p pre obtain k1 k2 where c: "client_key e = Some (c, k1)" "client_key e' = Some (c, k2)" by blast
    from i kb metadata_item_SomeD obtain d d' where "client_key e = Some (d, k)" "client_key e' = Some (d', k)" by metis
    with c have "client_key e = Some (c, k)" "client_key e' = Some (c, k)" by simp_all
    then show ?thesis using client_key_path by metis
  qed
  show "decodes s (FullClientPath c KeyConsensusStatePrefix)
      (\<lambda>x. decode_metadata (case x of (k, v) \<Rightarrow> (drop (length (FullClientPath c [])) k, v))) metadata_item"
    unfolding decodes_def
  proof (intro conjI allI impI)
    fix e v assume l: "store_lookup s e = Some v" and p: "prefix (FullClientPath c KeyConsensusStatePrefix) (entry_path e)"
    then obtain k where k: "client_key e = Some (c, k)" "prefix KeyConsensusStatePrefix k" using pre by blast
    from k(1) client_key_path have d: "drop (length (FullClientPath c [])) (entry_path e) = k" by (simp add: drop_client_path)
    from key_prefix_kinds(1) [OF k(1)] k l show "decode_metadata (case (entry_path e, v) of (k, v) \<Rightarrow> (drop (length (FullClientPath c [])) k, v)) =
        (case metadata_item e v of None \<Rightarrow> Skip | Some i \<Rightarrow> Item i)"
      unfolding prod.case d by (auto simp: decode_metadata_def metadata_split split_lasts(4) Let_def with_defs)
  qed (rule inj)
  show "decodes s (FullClientPath c KeyIterateConsensusStatePrefix)
      (\<lambda>x. decode_iteration (case x of (k, v) \<Rightarrow> (drop (length (FullClientPath c [])) k, v))) metadata_item"
    unfolding decodes_def
  proof (intro conjI allI impI)
    fix e v assume l: "store_lookup s e = Some v" and p: "prefix (FullClientPath c KeyIterateConsensusStatePrefix) (entry_path e)"
    then obtain k where k: "client_key e = Some (c, k)" "prefix KeyIterateConsensusStatePrefix k" using pre by blast
    from k(1) client_key_path have d: "drop (length (FullClientPath c [])) (entry_path e) = k" by (simp add: drop_client_path)
    from key_prefix_kinds(2) [OF k(1)] k l show "decode_iteration (case (entry_path e, v) of (k, v) \<Rightarrow> (drop (length (FullClientPath c [])) k, v)) =
        (case metadata_item e v of None \<Rightarrow> Skip | Some i \<Rightarrow> Item i)"
      unfolding prod.case d by (auto simp: decode_iteration_def with_defs)
  qed (rule inj)
qed

text \<open>The metadata of a client's store, as the pairs of keys and values it is kept under.\<close>

definition metadata :: "client_store \<Rightarrow> (bytes \<times> bytes) set" where
  "metadata store = {(ProcessedTimeKey h, u64_be t) |h t. st_processedTime store h = Some t} \<union>
     {(ProcessedHeightKey h, Height_String ph) |h ph. st_processedHeight store h = Some ph} \<union>
     {(IterationKey h, ConsensusStatePath h) |h. h \<in> set (st_iteration store)}"

lemma metadata_items:
  assumes "no_slash c" "iterable s"
  shows "{i. \<exists>e v. store_lookup s e = Some v \<and> prefix (FullClientPath c KeyConsensusStatePrefix) (entry_path e) \<and> metadata_item e v = Some i} =
      {(ProcessedTimeKey h, u64_be t) |h t. st_processedTime (clientStores s c) h = Some t} \<union>
      {(ProcessedHeightKey h, Height_String ph) |h ph. st_processedHeight (clientStores s c) h = Some ph}" (is "?A = ?B")
    "{i. \<exists>e v. store_lookup s e = Some v \<and> prefix (FullClientPath c KeyIterateConsensusStatePrefix) (entry_path e) \<and> metadata_item e v = Some i} =
      {(IterationKey h, ConsensusStatePath h) |h. h \<in> set (st_iteration (clientStores s c))}" (is "?C = ?D")
proof -
  note pre = client_path_prefix [OF assms]
  have "?A \<subseteq> ?B" using pre key_prefix_kinds(1) by (auto; fastforce)
  moreover have "?B \<subseteq> ?A"
  proof
    fix i assume "i \<in> ?B"
    then obtain e v where "store_lookup s e = Some v" "client_key e = Some (c, fst i)" "prefix KeyConsensusStatePrefix (fst i)"
      "metadata_item e v = Some i"
    proof (elim UnE CollectE exE conjE)
      fix h t assume "i = (ProcessedTimeKey h, u64_be t)" "st_processedTime (clientStores s c) h = Some t"
      then show ?thesis by (intro that [of "ProcessedTimeEntry c h" "BytesV (u64_be t)"]) (simp_all add: ProcessedTimeKey_def ConsensusStatePath_def)
    next
      fix h ph assume "i = (ProcessedHeightKey h, Height_String ph)" "st_processedHeight (clientStores s c) h = Some ph"
      then show ?thesis by (intro that [of "ProcessedHeightEntry c h" "BytesV (Height_String ph)"]) (simp_all add: ProcessedHeightKey_def ConsensusStatePath_def)
    qed
    with pre show "i \<in> ?A" by blast
  qed
  ultimately show "?A = ?B" by blast
  have "?C \<subseteq> ?D" using pre key_prefix_kinds(2) by (auto simp: GetIterationKey_def split: if_splits; fastforce)
  moreover have "?D \<subseteq> ?C"
  proof
    fix i assume "i \<in> ?D"
    then obtain h where h: "i = (IterationKey h, ConsensusStatePath h)" "h \<in> set (st_iteration (clientStores s c))" by blast
    then have "store_lookup s (IterationEntry c h) = Some (BytesV (ConsensusStatePath h))" "client_key (IterationEntry c h) = Some (c, IterationKey h)"
      "prefix KeyIterateConsensusStatePrefix (IterationKey h)" "metadata_item (IterationEntry c h) (BytesV (ConsensusStatePath h)) = Some i"
      by (simp_all add: GetIterationKey_def IterationKey_def)
    with pre show "i \<in> ?C" by blast
  qed
  ultimately show "?C = ?D" by blast
qed

lemma tm_ExportMetadata_exact:
  assumes "prefix_iterator E s" "iterable s" "no_slash c"
  shows "\<exists>l. tm_ExportMetadata E s c = Inr (map (\<lambda>(k, v). NewGenesisMetadata k v) l) \<and> set l = metadata (clientStores s c)"
proof -
  let ?f = "\<lambda>(key, val). NewGenesisMetadata key val"
  let ?cut = "\<lambda>x :: bytes \<times> store_value. case x of (k, v) \<Rightarrow> (drop (length (FullClientPath c [])) k, v)"
  from loop_exact [OF assms(1) decodes_metadata(1) [OF assms(2,3)], where 'a = "GenesisMetadata list"] obtain l1
    where l1: "\<And>cb a. runs_on cb \<Longrightarrow> go_iterate (\<lambda>x. decode_metadata (?cut x)) cb (kv_PrefixIterator E s (FullClientPath c KeyConsensusStatePrefix)) a =
          Inr (fold (\<lambda>i a. fst (cb i a)) l1 (a :: GenesisMetadata list))"
      and s1: "set l1 = {i. \<exists>e v. store_lookup s e = Some v \<and> prefix (FullClientPath c KeyConsensusStatePrefix) (entry_path e) \<and> metadata_item e v = Some i}"
    by blast
  from loop_exact [OF assms(1) decodes_metadata(2) [OF assms(2,3)], where 'a = "GenesisMetadata list"] obtain l2
    where l2: "\<And>cb a. runs_on cb \<Longrightarrow> go_iterate (\<lambda>x. decode_iteration (?cut x)) cb (kv_PrefixIterator E s (FullClientPath c KeyIterateConsensusStatePrefix)) a =
          Inr (fold (\<lambda>i a. fst (cb i a)) l2 (a :: GenesisMetadata list))"
      and s2: "set l2 = {i. \<exists>e v. store_lookup s e = Some v \<and> prefix (FullClientPath c KeyIterateConsensusStatePrefix) (entry_path e) \<and> metadata_item e v = Some i}"
    by blast
  have "tm_ExportMetadata E s c = Inr (map ?f (l1 @ l2))"
    by (simp add: tm_ExportMetadata_def IterateConsensusMetadata_def client_PrefixIterator_def go_iterate_map l1 l2 fold_append_item)
  moreover have "set (l1 @ l2) = metadata (clientStores s c)"
    using s1 s2 metadata_items [OF assms(3,2)] by (simp add: metadata_def)
  ultimately show ?thesis by blast
qed

subsection \<open>Importing metadata\<close>

lemma key_height_String [simp]: "key_height (Height_String h) = Some h"
  by (simp add: key_height_def ParseHeight_String)

lemma field_of_metadata:
  "field_of (ProcessedTimeKey h) = TimeField h"
  "field_of (ProcessedHeightKey h) = HeightField h"
  "field_of (IterationKey h) = IterationField h"
proof -
  have k: "ProcessedTimeKey h \<noteq> KeyClientState" "ProcessedHeightKey h \<noteq> KeyClientState" "IterationKey h \<noteq> KeyClientState"
    "\<not> prefix KeyIterateConsensusStatePrefix (ProcessedTimeKey h)" "\<not> prefix KeyIterateConsensusStatePrefix (ProcessedHeightKey h)"
    by (simp_all add: ProcessedTimeKey_def ProcessedHeightKey_def ConsensusStatePath_def IterationKey_def
        KeyIterateConsensusStatePrefix_def key_prefixes)
  show "field_of (ProcessedTimeKey h) = TimeField h" "field_of (ProcessedHeightKey h) = HeightField h"
    using k by (simp_all add: field_of_def consensus_field_def metadata_split)
  have "GetHeightFromIterationKey (IterationKey h) = h"
    by (simp add: GetHeightFromIterationKey_def IterationKey_def bigEndianHeightBytes_def NewHeight_def be_u64_u64_be Let_def)
  then show "field_of (IterationKey h) = IterationField h"
    using k by (simp add: field_of_def IterationKey_def bigEndianHeightBytes_def)
qed

lemma store_Set_metadata:
  "store_Set E st (ProcessedTimeKey h) (u64_be t) = SetProcessedTime st h t"
  "store_Set E st (ProcessedHeightKey h) (Height_String ph) = SetProcessedHeight st h ph"
  "store_Set E st (IterationKey h) (ConsensusStatePath h) = SetIterationKey st h"
  by (simp_all add: store_Set_def field_of_metadata be_u64_u64_be Let_def)

lemma metadata_not_connections: "(k, v) \<in> metadata st \<Longrightarrow> k \<noteq> KeyConnectionPrefix"
  by (auto simp: metadata_def ProcessedTimeKey_def ProcessedHeightKey_def ConsensusStatePath_def IterationKey_def
      KeyIterateConsensusStatePrefix_def key_prefixes)

lemma client_store_Set_metadata:
  "(k, v) \<in> metadata tgt \<Longrightarrow> client_store_Set E s c k v = set_client_store s c (store_Set E (clientStores s c) k v)"
  by (simp add: client_store_Set_def metadata_not_connections)

text \<open>Every write of a target's metadata copies one entry of the target.\<close>

definition copied :: "client_store \<Rightarrow> client_store \<Rightarrow> (bytes \<times> bytes) set \<Rightarrow> client_store \<Rightarrow> bool" where
  "copied tgt st W st' \<longleftrightarrow>
     st_clientState st' = st_clientState st \<and> st_consensus st' = st_consensus st \<and> st_raw st' = st_raw st \<and>
     (\<forall>h. st_processedTime st' h = (if ProcessedTimeKey h \<in> fst ` W then st_processedTime tgt h else st_processedTime st h)) \<and>
     (\<forall>h. st_processedHeight st' h = (if ProcessedHeightKey h \<in> fst ` W then st_processedHeight tgt h else st_processedHeight st h)) \<and>
     set (st_iteration st') = set (st_iteration st) \<union> {h. IterationKey h \<in> fst ` W} \<and>
     (sorted (st_iteration st) \<and> distinct (st_iteration st) \<longrightarrow> sorted (st_iteration st') \<and> distinct (st_iteration st'))"

lemma metadata_keys_eq [simp]:
  "ProcessedTimeKey h = ProcessedTimeKey h' \<longleftrightarrow> h = h'"
  "ProcessedHeightKey h = ProcessedHeightKey h' \<longleftrightarrow> h = h'"
  "ProcessedTimeKey h \<noteq> ProcessedHeightKey h'" "ProcessedHeightKey h \<noteq> ProcessedTimeKey h'"
  "ProcessedTimeKey h \<noteq> IterationKey h'" "IterationKey h \<noteq> ProcessedTimeKey h'"
  "ProcessedHeightKey h \<noteq> IterationKey h'" "IterationKey h \<noteq> ProcessedHeightKey h'"
proof -
  have f: "field_of a \<noteq> field_of b \<Longrightarrow> a \<noteq> b" for a b by auto
  show "ProcessedTimeKey h = ProcessedTimeKey h' \<longleftrightarrow> h = h'" "ProcessedHeightKey h = ProcessedHeightKey h' \<longleftrightarrow> h = h'"
    by (metis field_of_metadata(1) client_field.inject(2), metis field_of_metadata(2) client_field.inject(3))
  show "ProcessedTimeKey h \<noteq> ProcessedHeightKey h'" "ProcessedHeightKey h \<noteq> ProcessedTimeKey h'"
    "ProcessedTimeKey h \<noteq> IterationKey h'" "IterationKey h \<noteq> ProcessedTimeKey h'"
    "ProcessedHeightKey h \<noteq> IterationKey h'" "IterationKey h \<noteq> ProcessedHeightKey h'"
    by (rule f; simp add: field_of_metadata)+
qed

lemma copied_step:
  assumes "(k, v) \<in> metadata tgt"
  shows "copied tgt st {(k, v)} (store_Set E st k v)"
  using assms unfolding metadata_def
  by (elim UnE CollectE exE conjE)
    (auto simp: store_Set_metadata copied_def SetProcessedTime_def SetProcessedHeight_def SetIterationKey_def
      set_insort_insert sorted_insort_insert distinct_insort_insert)

lemma copied_trans: "copied tgt st W st' \<Longrightarrow> copied tgt st' W' st'' \<Longrightarrow> copied tgt st (W \<union> W') st''"
  unfolding copied_def by auto

lemma copied_fold:
  "set l \<subseteq> metadata tgt \<Longrightarrow> copied tgt st (set l) (fold (\<lambda>(k, v) st. store_Set E st k v) l st)"
proof (induction l arbitrary: st)
  case Nil
  then show ?case by (simp add: copied_def)
next
  case (Cons w l)
  obtain k v where w: "w = (k, v)" by (cases w)
  with Cons.prems have "(k, v) \<in> metadata tgt" by simp
  from copied_trans [OF copied_step [OF this, where E = E and st = st] Cons.IH] Cons.prems w show ?case by simp
qed

text \<open>What remains of a client's store without its states.\<close>

definition only_metadata :: "client_store \<Rightarrow> client_store" where
  "only_metadata st = st \<lparr> st_clientState := None, st_consensus := Map.empty, st_raw := Map.empty \<rparr>"

lemma copied_all:
  assumes "copied tgt empty_client_store (metadata tgt) st" "sorted (st_iteration tgt)" "distinct (st_iteration tgt)"
  shows "st = only_metadata tgt"
proof -
  have "ProcessedTimeKey h \<in> fst ` metadata tgt \<longleftrightarrow> st_processedTime tgt h \<noteq> None"
    "ProcessedHeightKey h \<in> fst ` metadata tgt \<longleftrightarrow> st_processedHeight tgt h \<noteq> None"
    "IterationKey h \<in> fst ` metadata tgt \<longleftrightarrow> h \<in> set (st_iteration tgt)" for h
    by (force simp: metadata_def)+
  with assms(1) have "st_processedTime st = st_processedTime tgt" "st_processedHeight st = st_processedHeight tgt"
    "set (st_iteration st) = set (st_iteration tgt)" "sorted (st_iteration st)" "distinct (st_iteration st)"
    "st_clientState st = None" "st_consensus st = Map.empty" "st_raw st = Map.empty"
    by (auto simp: copied_def empty_client_store_def)
  moreover from this(3-5) assms(2,3) have "st_iteration st = st_iteration tgt" by (intro sorted_distinct_set_unique) auto
  ultimately show ?thesis by (simp add: only_metadata_def client_store.equality)
qed

lemma fold_client_store_Set:
  "set l \<subseteq> metadata tgt \<Longrightarrow>
   fold (\<lambda>md s. client_store_Set E s c (gm_Key md) (gm_Value md)) (map (\<lambda>(k, v). NewGenesisMetadata k v) l) s =
     set_client_store s c (fold (\<lambda>(k, v) st. store_Set E st k v) l (clientStores s c))"
  by (induction l arbitrary: s) (auto simp: client_store_Set_metadata NewGenesisMetadata_def set_client_store_def)

text \<open>The exported metadata: one element for each of the clients that have any.\<close>

definition exports_metadata :: "'k ibc_state \<Rightarrow> string set \<Rightarrow> IdentifiedGenesisMetadata list \<Rightarrow> bool" where
  "exports_metadata tgt C gms \<longleftrightarrow> distinct (map igm_ClientId gms) \<and>
     set (map igm_ClientId gms) = {c \<in> C. metadata (clientStores tgt c) \<noteq> {}} \<and>
     (\<forall>g \<in> set gms. \<exists>l. igm_ClientMetadata g = map (\<lambda>(k, v). NewGenesisMetadata k v) l \<and> set l = metadata (clientStores tgt (igm_ClientId g)))"

definition iteration_ok :: "'k ibc_state \<Rightarrow> bool" where
  "iteration_ok s \<longleftrightarrow> (\<forall>c. sorted (st_iteration (clientStores s c)) \<and> distinct (st_iteration (clientStores s c)))"

lemma SetAllClientMetadata_list:
  assumes "distinct (map igm_ClientId gms)" "iteration_ok tgt"
    "\<forall>g \<in> set gms. \<exists>l. igm_ClientMetadata g = map (\<lambda>(k, v). NewGenesisMetadata k v) l \<and> set l = metadata (clientStores tgt (igm_ClientId g))"
    "\<forall>c \<in> set (map igm_ClientId gms). clientStores s c = empty_client_store"
  shows "SetAllClientMetadata E s gms = s \<lparr> clientStores :=
    (\<lambda>c. if c \<in> set (map igm_ClientId gms) then only_metadata (clientStores tgt c) else clientStores s c) \<rparr>"
  using assms
proof (induction gms arbitrary: s)
  case Nil
  then show ?case by (simp add: SetAllClientMetadata_def)
next
  case (Cons g gms)
  let ?c = "igm_ClientId g"
  from Cons.prems(3) obtain l where l: "igm_ClientMetadata g = map (\<lambda>(k, v). NewGenesisMetadata k v) l" "set l = metadata (clientStores tgt ?c)"
    by auto
  have "fold (\<lambda>(k, v) st. store_Set E st k v) l empty_client_store = only_metadata (clientStores tgt ?c)"
    using copied_fold [of l "clientStores tgt ?c" empty_client_store E] Cons.prems(2) l(2)
    by (intro copied_all) (auto simp: iteration_ok_def)
  then have first: "fold (\<lambda>md s. client_store_Set E s ?c (gm_Key md) (gm_Value md)) (igm_ClientMetadata g) s =
      set_client_store s ?c (only_metadata (clientStores tgt ?c))"
    using fold_client_store_Set [of l "clientStores tgt ?c" E ?c s] Cons.prems(4) l by simp
  let ?s = "set_client_store s ?c (only_metadata (clientStores tgt ?c))"
  have "SetAllClientMetadata E s (g # gms) = SetAllClientMetadata E ?s gms"
    by (simp add: SetAllClientMetadata_def first)
  also have "\<dots> = ?s \<lparr> clientStores := (\<lambda>c. if c \<in> set (map igm_ClientId gms) then only_metadata (clientStores tgt c) else clientStores ?s c) \<rparr>"
    using Cons.prems by (intro Cons.IH) (auto simp: set_client_store_def, metis image_eqI)
  also have "\<dots> = s \<lparr> clientStores := (\<lambda>c. if c \<in> set (map igm_ClientId (g # gms)) then only_metadata (clientStores tgt c) else clientStores s c) \<rparr>"
    using Cons.prems(1) by (auto simp: set_client_store_def fun_eq_iff)
  finally show ?case .
qed

lemma metadata_empty: "metadata st = {} \<Longrightarrow> only_metadata st = empty_client_store"
proof -
  assume m: "metadata st = {}"
  then have "st_processedTime st h = None" "st_processedHeight st h = None" "h \<notin> set (st_iteration st)" for h
    by (auto simp: metadata_def)
  then have "st_processedTime st = Map.empty" "st_processedHeight st = Map.empty" "st_iteration st = []"
    by (auto, cases "st_iteration st", auto)
  then show ?thesis by (simp add: only_metadata_def empty_client_store_def client_store.equality)
qed

subsection \<open>Importing states\<close>

lemma init_clients_list:
  assumes "\<forall>ic \<in> set ics. \<exists>cs. ics_ClientState ic = Some cs \<and> IsAllowedClient allowed (ClientType cs) \<and> GetClientState tgt (ics_ClientId ic) = Some cs"
  shows "init_clients allowed ics s = Inr (s \<lparr> clientStores := (\<lambda>c. clientStores s c \<lparr> st_clientState :=
    if c \<in> set (map ics_ClientId ics) then GetClientState tgt c else st_clientState (clientStores s c) \<rparr>) \<rparr>)"
  using assms
proof (induction ics arbitrary: s)
  case (Cons ic ics)
  then obtain cs where "ics_ClientState ic = Some cs" "IsAllowedClient allowed (ClientType cs)" "GetClientState tgt (ics_ClientId ic) = Some cs"
    by auto
  with Cons show ?case by (auto simp: SetClientState_def set_client_store_def fun_eq_iff)
qed simp

lemma init_consensus_list:
  assumes "\<forall>x \<in> set xs. csh_ConsensusState x \<noteq> None \<and> GetClientConsensusState tgt c (csh_Height x) = csh_ConsensusState x"
  shows "init_consensus c xs s = Inr (set_client_store s c (clientStores s c \<lparr> st_consensus :=
    (\<lambda>h. if h \<in> csh_Height ` set xs then GetClientConsensusState tgt c h else st_consensus (clientStores s c) h) \<rparr>))"
  using assms
proof (induction xs arbitrary: s)
  case (Cons x xs)
  then obtain cs where "csh_ConsensusState x = Some cs" "GetClientConsensusState tgt c (csh_Height x) = Some cs" by auto
  with Cons show ?case by (auto simp: SetClientConsensusState_def set_client_store_def Let_def fun_eq_iff)
qed (simp add: set_client_store_def)

definition consensus_keys :: "ClientConsensusStates list \<Rightarrow> (string \<times> Height) set" where
  "consensus_keys ccs = {(ccs_ClientId cc, csh_Height x) |cc x. cc \<in> set ccs \<and> x \<in> set (ccs_ConsensusStates cc)}"

lemma consensus_keys_Cons: "consensus_keys (cc # ccs) = (\<lambda>x. (ccs_ClientId cc, csh_Height x)) ` set (ccs_ConsensusStates cc) \<union> consensus_keys ccs"
  by (auto simp: consensus_keys_def)

lemma init_clients_consensus_list:
  assumes "\<forall>cc \<in> set ccs. \<forall>x \<in> set (ccs_ConsensusStates cc). csh_ConsensusState x \<noteq> None \<and>
    GetClientConsensusState tgt (ccs_ClientId cc) (csh_Height x) = csh_ConsensusState x"
  shows "init_clients_consensus ccs s = Inr (s \<lparr> clientStores := (\<lambda>c. clientStores s c \<lparr> st_consensus :=
    (\<lambda>h. if (c, h) \<in> consensus_keys ccs then GetClientConsensusState tgt c h else st_consensus (clientStores s c) h) \<rparr>) \<rparr>)"
  using assms
proof (induction ccs arbitrary: s)
  case Nil
  then show ?case by (simp add: consensus_keys_def)
next
  case (Cons cc ccs)
  from Cons.prems have "init_consensus (ccs_ClientId cc) (ccs_ConsensusStates cc) s = Inr (set_client_store s (ccs_ClientId cc)
      (clientStores s (ccs_ClientId cc) \<lparr> st_consensus := (\<lambda>h. if h \<in> csh_Height ` set (ccs_ConsensusStates cc)
        then GetClientConsensusState tgt (ccs_ClientId cc) h else st_consensus (clientStores s (ccs_ClientId cc)) h) \<rparr>))"
    by (intro init_consensus_list) simp
  with Cons show ?case
    by (simp add: set_client_store_def, intro arg_cong [where f = "\<lambda>f. s \<lparr> clientStores := f \<rparr>"] ext client_store.equality)
      (auto simp: consensus_keys_Cons fun_eq_iff)
qed

subsection \<open>Exporting states\<close>

lemma GetAllGenesisClients_exact:
  assumes "prefix_iterator E s" "iterable s"
  shows "\<exists>l. GetAllGenesisClients E s = Inr l \<and> distinct (map ics_ClientId l) \<and> sorted (map ics_ClientId l) \<and>
    set l = {NewIdentifiedClientState c cs |c cs. GetClientState s c = Some cs}"
proof -
  let ?f = "\<lambda>(c, cs). NewIdentifiedClientState c cs"
  from IterateClients_exact [OF assms, where 'a = "IdentifiedClientState list"] obtain l
    where l: "IterateClients E s (append_item ?f) [] = Inr (map ?f l)" "distinct l" "set l = {(c, x). GetClientState s c = Some x}"
    by (auto simp: fold_append_item)
  have "distinct (map fst l)" using l(2,3) by (auto simp: distinct_map inj_on_def)
  moreover have "map ics_ClientId (map ?f l) = map fst l" by (auto simp: NewIdentifiedClientState_def)
  ultimately have "distinct (map ics_ClientId (map ?f l))" by (simp only:)
  then have d: "distinct (map ics_ClientId (sort_key ics_ClientId (map ?f l)))"
    by (metis distinct_map distinct_sort set_sort)
  moreover have "set (sort_key ics_ClientId (map ?f l)) = {NewIdentifiedClientState c cs |c cs. GetClientState s c = Some cs}"
    using l(3) by (auto simp: image_iff)
  ultimately show ?thesis using l(1) by (auto simp: GetAllGenesisClients_def sorted_sort_key)
qed

lemma GetAllClientMetadata_list:
  assumes it: "prefix_iterator E s" "iterable s"
    and m: "\<forall>c. (\<exists>t. GetClientState s c = Some (TMClient t)) \<or> metadata (clientStores s c) = {}"
  shows "distinct (map ics_ClientId ics) \<Longrightarrow> \<forall>ic \<in> set ics. ics_ClientState ic \<noteq> None \<and> GetClientState s (ics_ClientId ic) = ics_ClientState ic \<Longrightarrow>
    \<exists>gms. GetAllClientMetadata E s ics = Inr gms \<and> exports_metadata s (set (map ics_ClientId ics)) gms"
proof (induction ics)
  case Nil
  then show ?case by (simp add: exports_metadata_def)
next
  case (Cons ic ics)
  let ?c = "ics_ClientId ic"
  from Cons obtain gms where gms: "GetAllClientMetadata E s ics = Inr gms" "exports_metadata s (set (map ics_ClientId ics)) gms" by auto
  from Cons.prems(2) obtain cs where cs: "ics_ClientState ic = Some cs" "GetClientState s ?c = Some cs" by auto
  have "no_slash ?c" using iterable_ids [OF it(2), of "ClientStateEntry ?c" _ ?c] cs(2) by (simp add: GetClientState_def)
  then have "\<exists>l. ExportMetadata E s ?c cs = Inr (map (\<lambda>(k, v). NewGenesisMetadata k v) l) \<and> set l = metadata (clientStores s ?c)"
  proof (cases "\<exists>t. cs = TMClient t")
    case True
    with tm_ExportMetadata_exact [OF it \<open>no_slash ?c\<close>] show ?thesis by auto
  next
    case False
    with m cs(2) have "metadata (clientStores s ?c) = {}" by (metis option.inject)
    with False show ?thesis by (intro exI [of _ "[]"], cases cs) auto
  qed
  then obtain l where l: "ExportMetadata E s ?c cs = Inr (map (\<lambda>(k, v). NewGenesisMetadata k v) l)" "set l = metadata (clientStores s ?c)"
    by blast
  have n: "l = [] \<longleftrightarrow> metadata (clientStores s ?c) = {}" using l(2) by auto
  have "?c \<notin> set (map igm_ClientId gms)" using gms(2) Cons.prems(1) by (auto simp: exports_metadata_def)
  then have x: "exports_metadata s (set (map ics_ClientId (ic # ics)))
      (if l = [] then gms else NewIdentifiedGenesisMetadata ?c (map (\<lambda>(k, v). NewGenesisMetadata k v) l) # gms)"
    using gms(2) l(2) n unfolding exports_metadata_def NewIdentifiedGenesisMetadata_def by (cases "l = []") auto
  have "GetAllClientMetadata E s (ic # ics) =
      Inr (if l = [] then gms else NewIdentifiedGenesisMetadata ?c (map (\<lambda>(k, v). NewGenesisMetadata k v) l) # gms)"
    using gms(1) l(1) cs(1) by (simp add: unpack_def)
  with x show ?case by blast
qed

definition consensus_triples :: "ClientConsensusStates list \<Rightarrow> (string \<times> Height \<times> ConsensusState option) set" where
  "consensus_triples ccs = {(ccs_ClientId cc, csh_Height x, csh_ConsensusState x) |cc x. cc \<in> set ccs \<and> x \<in> set (ccs_ConsensusStates cc)}"

lemma consensus_triples_simps:
  "consensus_triples [] = {}"
  "consensus_triples (xs @ ys) = consensus_triples xs \<union> consensus_triples ys"
  "consensus_triples (cc # ccs) = (\<lambda>x. (ccs_ClientId cc, csh_Height x, csh_ConsensusState x)) ` set (ccs_ConsensusStates cc) \<union> consensus_triples ccs"
  by (auto simp: consensus_triples_def)

text \<open>The index finds the group of its client, and the clients of the groups are distinct.\<close>

definition index_ok :: "ClientConsensusStates list \<times> (string \<rightharpoonup> nat) \<Rightarrow> bool" where
  "index_ok a \<longleftrightarrow> distinct (map ccs_ClientId (fst a)) \<and>
     (\<forall>c. c \<in> set (map ccs_ClientId (fst a)) \<longleftrightarrow> snd a c \<noteq> None) \<and>
     (\<forall>c i. snd a c = Some i \<longrightarrow> i < length (fst a) \<and> ccs_ClientId (fst a ! i) = c)"

lemma add_consensus_step:
  assumes "index_ok a"
  shows "index_ok (fst (add_consensus (c, h, cs) a)) \<and>
    consensus_triples (fst (fst (add_consensus (c, h, cs) a))) = insert (c, h, Some cs) (consensus_triples (fst a))"
proof (cases "snd a c")
  case None
  obtain ccs m where a: "a = (ccs, m)" by (cases a)
  let ?cc = "\<lparr> ccs_ClientId = c, ccs_ConsensusStates = [NewConsensusStateWithHeight h cs] \<rparr>"
  from assms None a have new: "c \<notin> set (map ccs_ClientId ccs)" by (auto simp: index_ok_def)
  have "index_ok (ccs @ [?cc], m(c \<mapsto> length ccs))"
    unfolding index_ok_def fst_conv snd_conv
  proof (intro conjI allI impI)
    show "distinct (map ccs_ClientId (ccs @ [?cc]))" using assms new a by (simp add: index_ok_def)
    show "(x \<in> set (map ccs_ClientId (ccs @ [?cc]))) = ((m(c \<mapsto> length ccs)) x \<noteq> None)" for x
      using assms a by (auto simp: index_ok_def)
    fix x i assume "(m(c \<mapsto> length ccs)) x = Some i"
    then show "i < length (ccs @ [?cc])" "ccs_ClientId ((ccs @ [?cc]) ! i) = x"
      using assms a by (auto simp: index_ok_def nth_append less_Suc_eq split: if_splits)
  qed
  then show ?thesis
    using None a by (simp add: add_consensus_def Let_def consensus_triples_simps NewConsensusStateWithHeight_def)
next
  case (Some i)
  obtain ccs m where a: "a = (ccs, m)" by (cases a)
  with assms Some have i: "i < length ccs" "ccs_ClientId (ccs ! i) = c" by (auto simp: index_ok_def)
  let ?cc = "(ccs ! i) \<lparr> ccs_ConsensusStates := ccs_ConsensusStates (ccs ! i) @ [NewConsensusStateWithHeight h cs] \<rparr>"
  have ids: "map ccs_ClientId (ccs[i := ?cc]) = map ccs_ClientId ccs" using i by (simp add: map_update list_update_same_conv)
  have old: "consensus_triples ccs = consensus_triples (take i ccs @ ccs ! i # drop (Suc i) ccs)"
    using id_take_nth_drop [OF i(1)] by (rule arg_cong)
  have "consensus_triples (ccs[i := ?cc]) = insert (c, h, Some cs) (consensus_triples ccs)"
    unfolding old upd_conv_take_nth_drop [OF i(1)]
    by (auto simp: consensus_triples_simps i(2) NewConsensusStateWithHeight_def)
  moreover have "index_ok (ccs[i := ?cc], m)"
    using assms i unfolding a index_ok_def fst_conv snd_conv ids by (auto simp: nth_list_update)
  ultimately show ?thesis using Some a by (simp add: add_consensus_def Let_def)
qed

lemma add_consensus_fold:
  "index_ok a \<Longrightarrow> index_ok (fold (\<lambda>i a. fst (add_consensus i a)) l a) \<and>
     consensus_triples (fst (fold (\<lambda>i a. fst (add_consensus i a)) l a)) = {(c, h, Some cs) |c h cs. (c, h, cs) \<in> set l} \<union> consensus_triples (fst a)"
proof (induction l arbitrary: a)
  case (Cons i l)
  obtain c h cs where i: "i = (c, h, cs)" by (cases i)
  from Cons.IH [of "fst (add_consensus i a)"] add_consensus_step [OF Cons.prems, of c h cs] show ?case by (auto simp: i)
qed simp

lemma GetAllConsensusStates_exact:
  assumes "prefix_iterator E s" "iterable s"
  shows "\<exists>ccs. GetAllConsensusStates E s = Inr ccs \<and> distinct (map ccs_ClientId ccs) \<and> sorted (map ccs_ClientId ccs) \<and>
    consensus_triples ccs = {(c, h, Some cs) |c h cs. GetClientConsensusState s c h = Some cs}"
proof -
  have r: "runs_on add_consensus"
    by (auto simp: runs_on_def add_consensus_def Let_def split: option.splits prod.splits)
  from IterateConsensusStates_exact [OF assms, where 'a = "ClientConsensusStates list \<times> (string \<rightharpoonup> nat)"] r obtain l
    where l: "IterateConsensusStates E s add_consensus ([], Map.empty) = Inr (fold (\<lambda>i a. fst (add_consensus i a)) l ([], Map.empty))"
      "set l = {(c, h, x). GetClientConsensusState s c h = Some x}" by blast
  obtain ccs m where f: "fold (\<lambda>i a. fst (add_consensus i a)) l ([], Map.empty) = (ccs, m)" by (cases "fold (\<lambda>i a. fst (add_consensus i a)) l ([], Map.empty)")
  have "index_ok ([], Map.empty)" by (simp add: index_ok_def)
  from add_consensus_fold [OF this, of l] f l(2) have ccs: "distinct (map ccs_ClientId ccs)"
    "consensus_triples ccs = {(c, h, Some cs) |c h cs. GetClientConsensusState s c h = Some cs}"
    by (auto simp: index_ok_def consensus_triples_simps)
  have "consensus_triples (sort_key ccs_ClientId ccs) = consensus_triples ccs" by (simp add: consensus_triples_def)
  moreover have "distinct (map ccs_ClientId (sort_key ccs_ClientId ccs))" using ccs(1) by (metis distinct_map distinct_sort set_sort)
  ultimately show ?thesis using l(1) f ccs(2) by (auto simp: GetAllConsensusStates_def sorted_sort_key)
qed

subsection \<open>Export and import\<close>

text \<open>Writing every entry of a map into an empty one.\<close>

lemma fold_map_upd:
  "\<forall>x \<in> set l. m (k x) = Some (v x) \<Longrightarrow>
     fold (\<lambda>x m. m(k x \<mapsto> v x)) l m0 = (\<lambda>y. if y \<in> k ` set l then m y else m0 y)"
  by (induction l arbitrary: m0) (auto simp: fun_eq_iff)

lemma fold_map_all:
  assumes "\<forall>x \<in> set l. m (k x) = Some (v x)" "\<forall>y. m y \<noteq> None \<longrightarrow> y \<in> k ` set l"
  shows "fold (\<lambda>x m. m(k x \<mapsto> v x)) l Map.empty = m"
  using assms(2) by (subst fold_map_upd [where m = m and k = k and v = v, OF assms(1)]) (auto simp: fun_eq_iff, metis not_None_eq)

text \<open>A loop of writes to one field folds over that field.\<close>

lemma fold_connections:
  "fold (\<lambda>x s. SetConnection s (k x) (v x)) l s = s \<lparr> connections := fold (\<lambda>x m. m(k x \<mapsto> v x)) l (connections s) \<rparr>"
  by (induction l arbitrary: s) (simp_all add: SetConnection_def)

lemma fold_paths:
  "fold (\<lambda>x s. SetClientConnectionPaths s (k x) (v x)) l s = s \<lparr> clientConnections := fold (\<lambda>x m. m(k x \<mapsto> v x)) l (clientConnections s) \<rparr>"
  by (induction l arbitrary: s) (simp_all add: SetClientConnectionPaths_def)

lemma fold_channels:
  "fold (\<lambda>x s. SetChannel s (p x) (c x) (v x)) l s = s \<lparr> channels := fold (\<lambda>x m. m((p x, c x) \<mapsto> v x)) l (channels s) \<rparr>"
  by (induction l arbitrary: s) (simp_all add: SetChannel_def)

lemma fold_packets:
  "fold (\<lambda>x s. SetPacketAcknowledgement s (p x) (c x) (n x) (v x)) l s = s \<lparr> packetAcks := fold (\<lambda>x m. m((p x, c x, n x) \<mapsto> v x)) l (packetAcks s) \<rparr>"
  "fold (\<lambda>x s. SetPacketCommitment s (p x) (c x) (n x) (v x)) l s = s \<lparr> packetCommitments := fold (\<lambda>x m. m((p x, c x, n x) \<mapsto> v x)) l (packetCommitments s) \<rparr>"
  "fold (\<lambda>x s. SetPacketReceipt s (p x) (c x) (n x)) l s = s \<lparr> packetReceipts := fold (\<lambda>x m. m((p x, c x, n x) \<mapsto> [char_of (1 :: nat)])) l (packetReceipts s) \<rparr>"
  by (induction l arbitrary: s; simp add: SetPacketAcknowledgement_def SetPacketCommitment_def SetPacketReceipt_def)+

lemma fold_sequences:
  "fold (\<lambda>x s. SetNextSequenceSend s (p x) (c x) (n x)) l s = s \<lparr> nextSequenceSend := fold (\<lambda>x m. m((p x, c x) \<mapsto> n x)) l (nextSequenceSend s) \<rparr>"
  "fold (\<lambda>x s. SetNextSequenceRecv s (p x) (c x) (n x)) l s = s \<lparr> nextSequenceRecv := fold (\<lambda>x m. m((p x, c x) \<mapsto> n x)) l (nextSequenceRecv s) \<rparr>"
  "fold (\<lambda>x s. SetNextSequenceAck s (p x) (c x) (n x)) l s = s \<lparr> nextSequenceAck := fold (\<lambda>x m. m((p x, c x) \<mapsto> n x)) l (nextSequenceAck s) \<rparr>"
  by (induction l arbitrary: s; simp add: SetNextSequenceSend_def SetNextSequenceRecv_def SetNextSequenceAck_def)+

text \<open>The states that an export describes completely.\<close>

definition exportable :: "'k ibc_state \<Rightarrow> bool" where
  "exportable s \<longleftrightarrow> nextClientSequence s \<noteq> None \<and> nextConnectionSequence s \<noteq> None \<and> nextChannelSequence s \<noteq> None \<and>
     iteration_ok s \<and> (\<forall>c. st_raw (clientStores s c) = Map.empty) \<and>
     (\<forall>c. (\<exists>t. GetClientState s c = Some (TMClient t)) \<or> metadata (clientStores s c) = {}) \<and>
     (\<forall>c cs. GetClientState s c = Some cs \<longrightarrow> IsAllowedClient (allowedClients s) (ClientType cs)) \<and>
     (\<forall>c. clientConnections s c \<noteq> None \<longrightarrow> GetClientState s c \<noteq> None) \<and>
     (\<forall>k b. packetReceipts s k = Some b \<longrightarrow> b = [char_of (1 :: nat)])"

text \<open>A store without entries, whatever its parameters and capabilities.\<close>

definition no_channels :: "'k ibc_state \<Rightarrow> bool" where
  "no_channels s \<longleftrightarrow> channels s = Map.empty \<and> nextSequenceSend s = Map.empty \<and> nextSequenceRecv s = Map.empty \<and>
     nextSequenceAck s = Map.empty \<and> packetCommitments s = Map.empty \<and> packetReceipts s = Map.empty \<and> packetAcks s = Map.empty"

definition empty_store :: "'k ibc_state \<Rightarrow> bool" where
  "empty_store s \<longleftrightarrow> clientStores s = (\<lambda>_. empty_client_store) \<and> clientConnections s = Map.empty \<and> connections s = Map.empty \<and>
     no_channels s"

lemma packet_states_keys:
  "\<forall>k. m k \<noteq> None \<longrightarrow> k \<in> (\<lambda>x. (pst_PortId x, pst_ChannelId x, pst_Sequence x)) ` packet_states m"
proof (intro allI impI)
  fix k assume "m k \<noteq> None"
  then obtain p c n b where "k = (p, c, n)" "m (p, c, n) = Some b" by (cases k) auto
  then show "k \<in> (\<lambda>x. (pst_PortId x, pst_ChannelId x, pst_Sequence x)) ` packet_states m"
    by (intro image_eqI [of _ _ "NewPacketState p c n (Some b)"]) (auto simp: packet_states_def NewPacketState_def)
qed

lemma chan_genesis_roundtrip:
  assumes "prefix_iterator E s" "iterable s" "exportable s"
  shows "\<exists>gs. chan_ExportGenesis E s = Inr gs \<and> (\<forall>s0. no_channels s0 \<longrightarrow>
    chan_InitGenesis s0 gs = s0 \<lparr> channels := channels s, nextSequenceSend := nextSequenceSend s, nextSequenceRecv := nextSequenceRecv s,
      nextSequenceAck := nextSequenceAck s, packetCommitments := packetCommitments s, packetReceipts := packetReceipts s,
      packetAcks := packetAcks s, nextChannelSequence := nextChannelSequence s \<rparr>)"
proof -
  note it = assms(1,2)
  from GetAllChannels_exact [OF it] obtain chs where chs: "GetAllChannels E s = Inr chs"
    "set chs = {NewIdentifiedChannel p c v |p c v. channels s (p, c) = Some v}" by blast
  from GetAllPackets_exact(1) [OF it] obtain cms where cms: "GetAllPacketCommitments E s = Inr cms" "set cms = packet_states (packetCommitments s)" by blast
  from GetAllPackets_exact(2) [OF it] obtain rcs where rcs: "GetAllPacketReceipts E s = Inr rcs" "set rcs = packet_states (packetReceipts s)" by blast
  from GetAllPackets_exact(3) [OF it] obtain acks where acks: "GetAllPacketAcks E s = Inr acks" "set acks = packet_states (packetAcks s)" by blast
  note ps = cms rcs acks
  from GetAllSequences_exact(1) [OF it] obtain sq where sq: "GetAllPacketSendSeqs E s = Inr sq"
    "set sq = {NewPacketSequence p c n |p c n. nextSequenceSend s (p, c) = Some n}" by blast
  from GetAllSequences_exact(2) [OF it] obtain rq where rq: "GetAllPacketRecvSeqs E s = Inr rq"
    "set rq = {NewPacketSequence p c n |p c n. nextSequenceRecv s (p, c) = Some n}" by blast
  from GetAllSequences_exact(3) [OF it] obtain aq where aq: "GetAllPacketAckSeqs E s = Inr aq"
    "set aq = {NewPacketSequence p c n |p c n. nextSequenceAck s (p, c) = Some n}" by blast
  note qs = sq rq aq
  from assms(3) obtain n where n: "nextChannelSequence s = Some n" by (auto simp: exportable_def)
  have f: "fold (\<lambda>ch m. m((ich_PortId ch, ich_ChannelId ch) \<mapsto>
      NewChannel (ich_State ch) (ich_Ordering ch) (ich_Counterparty ch) (ich_ConnectionHops ch) (ich_Version ch))) chs Map.empty = channels s"
  proof (rule fold_map_all)
    have "k \<in> (\<lambda>x. (ich_PortId x, ich_ChannelId x)) ` set chs" if "channels s k = Some v" for k v
      using that chs(2) by (intro image_eqI [of _ _ "NewIdentifiedChannel (fst k) (snd k) v"]) (auto simp: NewIdentifiedChannel_def)
    then show "\<forall>k. channels s k \<noteq> None \<longrightarrow> k \<in> (\<lambda>x. (ich_PortId x, ich_ChannelId x)) ` set chs" by blast
  qed (auto simp: chs(2) NewIdentifiedChannel_def NewChannel_def)
  have p: "fold (\<lambda>x m. m((pst_PortId x, pst_ChannelId x, pst_Sequence x) \<mapsto> packet_data x)) l Map.empty = m"
    if "set l = packet_states m" for l m
  proof (rule fold_map_all)
    show "\<forall>k. m k \<noteq> None \<longrightarrow> k \<in> (\<lambda>x. (pst_PortId x, pst_ChannelId x, pst_Sequence x)) ` set l"
      unfolding that by (rule packet_states_keys)
  qed (auto simp: that packet_states_def NewPacketState_def packet_data_def)
  have r: "fold (\<lambda>x m. m((pst_PortId x, pst_ChannelId x, pst_Sequence x) \<mapsto> [char_of (1 :: nat)])) rcs Map.empty = packetReceipts s"
  proof (rule fold_map_all)
    show "\<forall>k. packetReceipts s k \<noteq> None \<longrightarrow> k \<in> (\<lambda>x. (pst_PortId x, pst_ChannelId x, pst_Sequence x)) ` set rcs"
      unfolding rcs(2) by (rule packet_states_keys)
  qed (use assms(3) in \<open>auto simp: rcs(2) packet_states_def NewPacketState_def exportable_def\<close>)
  have q: "fold (\<lambda>x m. m((ps_PortId x, ps_ChannelId x) \<mapsto> ps_Sequence x)) l Map.empty = m"
    if "set l = {NewPacketSequence p c n |p c n. m (p, c) = Some n}" for l m
  proof (rule fold_map_all)
    have "k \<in> (\<lambda>x. (ps_PortId x, ps_ChannelId x)) ` set l" if "m k = Some n" for k n
      using that \<open>set l = _\<close> by (intro image_eqI [of _ _ "NewPacketSequence (fst k) (snd k) n"]) (auto simp: NewPacketSequence_def)
    then show "\<forall>k. m k \<noteq> None \<longrightarrow> k \<in> (\<lambda>x. (ps_PortId x, ps_ChannelId x)) ` set l" by blast
  qed (auto simp: that NewPacketSequence_def)
  show ?thesis
    by (rule exI, rule conjI, simp add: chan_ExportGenesis_def chs ps qs GetNextChannelSequence_def n)
      (simp add: chan_InitGenesis_def no_channels_def fold_channels fold_packets fold_sequences f p [OF ps(2)] r [simplified] p [OF ps(6)]
        q [OF qs(2)] q [OF qs(4)] q [OF qs(6)] SetNextChannelSequence_def n)
qed

lemma conn_genesis_roundtrip:
  assumes "prefix_iterator E s" "iterable s" "exportable s"
  shows "\<exists>gs. conn_ExportGenesis E s = Inr gs \<and> (\<forall>s0. connections s0 = Map.empty \<longrightarrow> clientConnections s0 = Map.empty \<longrightarrow>
    conn_InitGenesis s0 gs = s0 \<lparr> connections := connections s, clientConnections := clientConnections s,
      nextConnectionSequence := nextConnectionSequence s, maxExpectedTimePerBlock := maxExpectedTimePerBlock s \<rparr>)"
proof -
  note it = assms(1,2)
  from GetAllConnections_exact [OF it] obtain cs where cs: "GetAllConnections E s = Inr cs"
    "set cs = {NewIdentifiedConnection c v |c v. connections s c = Some v}" by blast
  from GetAllClientConnectionPaths_exact [OF it] obtain ps where ps: "GetAllClientConnectionPaths E s = Inr ps"
    "set ps = {NewConnectionPaths c l |c l. GetClientState s c \<noteq> None \<and> clientConnections s c = Some l}" by blast
  from assms(3) obtain n where n: "nextConnectionSequence s = Some n" by (auto simp: exportable_def)
  have f: "fold (\<lambda>ic m. m(ic_Id ic \<mapsto> NewConnectionEnd (ic_State ic) (ic_ClientId ic) (ic_Counterparty ic) (ic_Versions ic) (ic_DelayPeriod ic)))
      cs Map.empty = connections s"
  proof (rule fold_map_all)
    have "k \<in> ic_Id ` set cs" if "connections s k = Some v" for k v
      using that cs(2) by (intro image_eqI [of _ _ "NewIdentifiedConnection k v"]) (auto simp: NewIdentifiedConnection_def)
    then show "\<forall>k. connections s k \<noteq> None \<longrightarrow> k \<in> ic_Id ` set cs" by blast
  qed (auto simp: cs(2) NewIdentifiedConnection_def NewConnectionEnd_def)
  have g: "fold (\<lambda>x m. m(cps_ClientId x \<mapsto> cps_Paths x)) ps Map.empty = clientConnections s"
  proof (rule fold_map_all)
    have "k \<in> cps_ClientId ` set ps" if "clientConnections s k = Some l" for k l
      using that ps(2) assms(3) by (intro image_eqI [of _ _ "NewConnectionPaths k l"]) (auto simp: NewConnectionPaths_def exportable_def)
    then show "\<forall>k. clientConnections s k \<noteq> None \<longrightarrow> k \<in> cps_ClientId ` set ps" by blast
  qed (auto simp: ps(2) NewConnectionPaths_def)
  show ?thesis
    by (rule exI, rule conjI, simp add: conn_ExportGenesis_def cs ps GetNextConnectionSequence_def n)
      (simp add: conn_InitGenesis_def fold_connections fold_paths f g SetNextConnectionSequence_def n)
qed

lemma client_genesis_roundtrip:
  assumes "prefix_iterator E s" "iterable s" "exportable s"
  shows "\<exists>gs. client_ExportGenesis E s = Inr gs \<and> (\<forall>s0. clientStores s0 = (\<lambda>_. empty_client_store) \<longrightarrow>
    client_InitGenesis E s0 gs = Inr (s0 \<lparr> allowedClients := allowedClients s, clientStores := clientStores s,
      nextClientSequence := nextClientSequence s \<rparr>))"
proof -
  note it = assms(1,2)
  from GetAllGenesisClients_exact [OF it] obtain ics where ics: "GetAllGenesisClients E s = Inr ics" "distinct (map ics_ClientId ics)"
    "set ics = {NewIdentifiedClientState c cs |c cs. GetClientState s c = Some cs}" by blast
  have ids: "set (map ics_ClientId ics) = {c. GetClientState s c \<noteq> None}"
    using ics(3) by (force simp: NewIdentifiedClientState_def)
  have "\<forall>ic \<in> set ics. ics_ClientState ic \<noteq> None \<and> GetClientState s (ics_ClientId ic) = ics_ClientState ic"
    using ics(3) by (auto simp: NewIdentifiedClientState_def)
  with GetAllClientMetadata_list [OF it _ ics(2)] assms(3) obtain gms
    where gms: "GetAllClientMetadata E s ics = Inr gms" "exports_metadata s {c. GetClientState s c \<noteq> None} gms"
    unfolding ids exportable_def by blast
  from GetAllConsensusStates_exact [OF it] obtain ccs where ccs: "GetAllConsensusStates E s = Inr ccs"
    "consensus_triples ccs = {(c, h, Some cs) |c h cs. GetClientConsensusState s c h = Some cs}" by blast
  from assms(3) obtain n where n: "nextClientSequence s = Some n" by (auto simp: exportable_def)
  let ?gs = "\<lparr> Clients = ics, ClientsConsensus = ccs, ClientsMetadata = gms, client_Params = allowedClients s,
            CreateLocalhost = False, NextClientSequence = n \<rparr>"
  have "client_InitGenesis E s0 ?gs = Inr (s0 \<lparr> allowedClients := allowedClients s, clientStores := clientStores s, nextClientSequence := nextClientSequence s \<rparr>)"
    if s0: "clientStores s0 = (\<lambda>_. empty_client_store)" for s0 :: "'a ibc_state"
  proof -
    let ?s1 = "s0 \<lparr> allowedClients := allowedClients s \<rparr>"
    let ?s2 = "?s1 \<lparr> clientStores := (\<lambda>c. only_metadata (clientStores s c)) \<rparr>"
    have "only_metadata (clientStores s c) = empty_client_store" if "c \<notin> set (map igm_ClientId gms)" for c
    proof (rule metadata_empty, rule ccontr)
      assume e: "metadata (clientStores s c) \<noteq> {}"
      with assms(3) have "GetClientState s c \<noteq> None" unfolding exportable_def by (metis option.distinct(1))
      with that e gms(2) show False unfolding exports_metadata_def by blast
    qed
    then have m: "SetAllClientMetadata E ?s1 gms = ?s2"
      using gms(2) assms(3) s0
      by (subst SetAllClientMetadata_list [of _ s]) (auto simp: exports_metadata_def exportable_def fun_eq_iff)
    have m': "(if length gms \<noteq> 0 then SetAllClientMetadata E ?s1 gms else ?s1) = ?s2"
      using m by (cases gms) (simp_all add: SetAllClientMetadata_def)
    have "init_clients (allowedClients s) ics ?s2 = Inr (?s2 \<lparr> clientStores := (\<lambda>c. clientStores ?s2 c \<lparr> st_clientState :=
        if c \<in> set (map ics_ClientId ics) then GetClientState s c else st_clientState (clientStores ?s2 c) \<rparr>) \<rparr>)"
      by (rule init_clients_list) (use ics(3) assms(3) in \<open>auto simp: NewIdentifiedClientState_def exportable_def\<close>)
    also have "\<dots> = Inr (?s1 \<lparr> clientStores := (\<lambda>c. only_metadata (clientStores s c) \<lparr> st_clientState := GetClientState s c \<rparr>) \<rparr>)" (is "_ = Inr ?s3")
    proof -
      have "clientStores ?s2 c \<lparr> st_clientState := if c \<in> set (map ics_ClientId ics) then GetClientState s c
          else st_clientState (clientStores ?s2 c) \<rparr> = only_metadata (clientStores s c) \<lparr> st_clientState := GetClientState s c \<rparr>" for c
        unfolding ids by (simp add: only_metadata_def)
      then show ?thesis by simp
    qed
    finally have c: "init_clients (allowedClients s) ics ?s2 = Inr ?s3" .
    have t: "(c, h, x) \<in> consensus_triples ccs \<longleftrightarrow> x \<noteq> None \<and> GetClientConsensusState s c h = x" for c h x
      unfolding ccs(2) by auto
    have keys: "(c, h) \<in> consensus_keys ccs \<longleftrightarrow> GetClientConsensusState s c h \<noteq> None" for c h
    proof -
      have "(c, h) \<in> consensus_keys ccs \<longleftrightarrow> (\<exists>x. (c, h, x) \<in> consensus_triples ccs)" by (auto simp: consensus_keys_def consensus_triples_def)
      then show ?thesis by (simp add: t)
    qed
    have "\<forall>cc \<in> set ccs. \<forall>x \<in> set (ccs_ConsensusStates cc). csh_ConsensusState x \<noteq> None \<and>
        GetClientConsensusState s (ccs_ClientId cc) (csh_Height x) = csh_ConsensusState x"
    proof (intro ballI)
      fix cc x assume "cc \<in> set ccs" "x \<in> set (ccs_ConsensusStates cc)"
      then have "(ccs_ClientId cc, csh_Height x, csh_ConsensusState x) \<in> consensus_triples ccs" by (auto simp: consensus_triples_def)
      then show "csh_ConsensusState x \<noteq> None \<and> GetClientConsensusState s (ccs_ClientId cc) (csh_Height x) = csh_ConsensusState x" by (simp add: t)
    qed
    then have "init_clients_consensus ccs ?s3 = Inr (?s3 \<lparr> clientStores := (\<lambda>c. clientStores ?s3 c \<lparr> st_consensus :=
        (\<lambda>h. if (c, h) \<in> consensus_keys ccs then GetClientConsensusState s c h else st_consensus (clientStores ?s3 c) h) \<rparr>) \<rparr>)"
      by (rule init_clients_consensus_list)
    also have "\<dots> = Inr (?s1 \<lparr> clientStores := clientStores s \<rparr>)"
    proof -
      have "clientStores ?s3 c \<lparr> st_consensus := (\<lambda>h. if (c, h) \<in> consensus_keys ccs then GetClientConsensusState s c h
          else st_consensus (clientStores ?s3 c) h) \<rparr> = clientStores s c" for c
        using assms(3) by (intro client_store.equality)
          (auto simp: keys only_metadata_def GetClientState_def GetClientConsensusState_def exportable_def fun_eq_iff)
      then show ?thesis by simp
    qed
    finally have x: "init_clients_consensus ccs ?s3 = Inr (?s1 \<lparr> clientStores := clientStores s \<rparr>)" .
    have "client_InitGenesis E s0 ?gs =
        (case init_clients (allowedClients s) ics (if length gms \<noteq> 0 then SetAllClientMetadata E ?s1 gms else ?s1) of Inl e \<Rightarrow> Inl e | Inr s \<Rightarrow>
        (case init_clients_consensus ccs s of Inl e \<Rightarrow> Inl e | Inr s \<Rightarrow> Inr (SetNextClientSequence s n)))"
      by (simp only: client_InitGenesis_def Let_def client_GenesisState.select_convs)
    then show ?thesis unfolding m' c by (simp add: x SetNextClientSequence_def n)
  qed
  then show ?thesis
    by (intro exI [of _ ?gs]) (simp add: client_ExportGenesis_def ics gms ccs GetNextClientSequence_def n)
qed

text \<open>
  C4: the state of the core module survives an export and an import. From a state whose entries are
  complete the export succeeds, whatever entries of other kinds share its prefixes, and importing it
  into an empty store gives back every client with its consensus states and metadata, every
  connection, channel, sequence counter, packet commitment, receipt and acknowledgement, the
  identifier counters and the parameters: the imported state is the exported one, with the
  capabilities of the new chain.
\<close>

theorem core_genesis_roundtrip:
  assumes "prefix_iterator E s" "iterable s" "exportable s"
  shows "\<exists>gs. core_ExportGenesis E s = Inr gs \<and>
    (\<forall>s0. empty_store s0 \<longrightarrow> core_InitGenesis E s0 gs = Inr (s \<lparr> capState := capState s0 \<rparr>))"
proof -
  from client_genesis_roundtrip [OF assms] obtain cg where cg: "client_ExportGenesis E s = Inr cg"
    "\<And>s0. clientStores s0 = (\<lambda>_. empty_client_store) \<Longrightarrow> client_InitGenesis E s0 cg =
       Inr (s0 \<lparr> allowedClients := allowedClients s, clientStores := clientStores s, nextClientSequence := nextClientSequence s \<rparr>)" by blast
  from conn_genesis_roundtrip [OF assms] obtain ng where ng: "conn_ExportGenesis E s = Inr ng"
    "\<And>s0 :: 'a ibc_state. connections s0 = Map.empty \<Longrightarrow> clientConnections s0 = Map.empty \<Longrightarrow> conn_InitGenesis s0 ng =
       s0 \<lparr> connections := connections s, clientConnections := clientConnections s,
         nextConnectionSequence := nextConnectionSequence s, maxExpectedTimePerBlock := maxExpectedTimePerBlock s \<rparr>" by blast
  from chan_genesis_roundtrip [OF assms] obtain hg where hg: "chan_ExportGenesis E s = Inr hg"
    "\<And>s0 :: 'a ibc_state. no_channels s0 \<Longrightarrow> chan_InitGenesis s0 hg = s0 \<lparr> channels := channels s, nextSequenceSend := nextSequenceSend s,
      nextSequenceRecv := nextSequenceRecv s, nextSequenceAck := nextSequenceAck s, packetCommitments := packetCommitments s,
      packetReceipts := packetReceipts s, packetAcks := packetAcks s, nextChannelSequence := nextChannelSequence s \<rparr>" by blast
  have "core_InitGenesis E s0 \<lparr> ClientGenesis = cg, ConnectionGenesis = ng, ChannelGenesis = hg \<rparr> = Inr (s \<lparr> capState := capState s0 \<rparr>)"
    if "empty_store s0" for s0
    using that by (simp add: core_InitGenesis_def empty_store_def cg ng) (subst hg, simp_all add: no_channels_def ibc_state.equality)
  with cg(1) ng(1) hg(1) show ?thesis by (auto simp: core_ExportGenesis_def)
qed

subsection \<open>Identifiers of a validated genesis state\<close>

lemma max_le: "(a :: u64) \<le> (if b > a then b else a)" "b \<le> (if b > a then b else a)"
  by auto

lemma validate_connections_max:
  "validate_connections cs m = Inr m' \<Longrightarrow> m \<le> m' \<and> (\<forall>c \<in> set cs. \<exists>n. ParseConnectionSequence (ic_Id c) = Inr n \<and> n \<le> m')"
  by (induction cs arbitrary: m) (fastforce simp: result_elims split: if_splits)+

lemma validate_channels_max:
  "validate_channels cs m = Inr m' \<Longrightarrow> m \<le> m' \<and> (\<forall>c \<in> set cs. \<exists>n. ParseChannelSequence (ich_ChannelId c) = Inr n \<and> n \<le> m')"
  by (induction cs arbitrary: m) (fastforce simp: result_elims split: if_splits)+

lemma validate_clients_max:
  "validate_clients E allowed cs m V = Inr (m', V') \<Longrightarrow> m \<le> m' \<and> dom V' = dom V \<union> ics_ClientId ` set cs \<and>
     (\<forall>c \<in> set cs. \<exists>t n. ParseClientIdentifier (ics_ClientId c) = Inr (t, n) \<and> n \<le> m')"
proof (induction cs arbitrary: m V)
  case (Cons c cs)
  from Cons.prems obtain t n x where r: "ParseClientIdentifier (ics_ClientId c) = Inr (t, n)"
    "validate_clients E allowed cs (if n > m then n else m) (V(ics_ClientId c \<mapsto> x)) = Inr (m', V')"
    by (auto simp: result_elims split: prod.splits)
  from Cons.IH [OF r(2)] have "m \<le> m'" "n \<le> m'" "dom V' = insert (ics_ClientId c) (dom V) \<union> ics_ClientId ` set cs"
    "\<forall>c \<in> set cs. \<exists>t n. ParseClientIdentifier (ics_ClientId c) = Inr (t, n) \<and> n \<le> m'"
    by (auto split: if_splits)
  with r(1) show ?case by auto
qed simp

lemma below_counter: "m' \<noteq> 0 \<longrightarrow> m' < next \<Longrightarrow> next \<noteq> 0 \<Longrightarrow> n \<le> m' \<Longrightarrow> (n :: u64) < next"
  by (cases "m' = 0") (auto simp: word_neq_0_conv)

lemma dom_fold_upd: "dom (fold (\<lambda>x m. m(k x \<mapsto> v x)) l m0) = k ` set l \<union> dom m0"
  by (induction l arbitrary: m0) auto

lemma conn_InitGenesis_fields:
  "clientStores (conn_InitGenesis s gs) = clientStores s" "dom (connections (conn_InitGenesis s gs)) = ic_Id ` set (Connections gs) \<union> dom (connections s)"
  "nextClientSequence (conn_InitGenesis s gs) = nextClientSequence s" "nextConnectionSequence (conn_InitGenesis s gs) = Some (NextConnectionSequence gs)"
  "channels (conn_InitGenesis s gs) = channels s"
  by (simp_all add: conn_InitGenesis_def Let_def fold_connections fold_paths SetNextConnectionSequence_def dom_fold_upd)

lemma chan_InitGenesis_fields:
  "clientStores (chan_InitGenesis s gs) = clientStores s" "connections (chan_InitGenesis s gs) = connections s"
  "dom (channels (chan_InitGenesis s gs)) = (\<lambda>ch. (ich_PortId ch, ich_ChannelId ch)) ` set (Channels gs) \<union> dom (channels s)"
  "nextClientSequence (chan_InitGenesis s gs) = nextClientSequence s" "nextConnectionSequence (chan_InitGenesis s gs) = nextConnectionSequence s"
  "nextChannelSequence (chan_InitGenesis s gs) = Some (NextChannelSequence gs)"
  by (simp_all add: chan_InitGenesis_def Let_def fold_channels fold_packets fold_sequences SetNextChannelSequence_def dom_fold_upd)

text \<open>What importing the clients leaves alone: the states of other clients, connections and channels.\<close>

definition other_clients :: "string set \<Rightarrow> 'k ibc_state \<Rightarrow> 'k ibc_state \<Rightarrow> bool" where
  "other_clients C s s' \<longleftrightarrow> (\<forall>c. c \<notin> C \<longrightarrow> GetClientState s' c = GetClientState s c) \<and> connections s' = connections s \<and> channels s' = channels s"

lemma other_clients_refl [simp]: "other_clients C s s"
  by (simp add: other_clients_def)

lemma other_clients_trans: "other_clients C s s1 \<Longrightarrow> other_clients C s1 s' \<Longrightarrow> other_clients C s s'"
  by (auto simp: other_clients_def)

lemma other_clients_fold: "(\<And>x s. x \<in> set l \<Longrightarrow> other_clients C s (f x s)) \<Longrightarrow> other_clients C s (fold f l s)"
proof (induction l arbitrary: s)
  case (Cons x l)
  from other_clients_trans [OF Cons.prems [of x s] Cons.IH [of "f x s"]] Cons.prems show ?case by simp
qed simp

lemma other_clients_Set: "c \<in> C \<Longrightarrow> other_clients C s (client_store_Set E s c k v)"
  by (auto simp: other_clients_def client_store_Set_def SetClientConnectionPaths_def set_client_store_def GetClientState_def split: option.splits)

lemma other_clients_metadata: "igm_ClientId ` set gms \<subseteq> C \<Longrightarrow> other_clients C s (SetAllClientMetadata E s gms)"
  unfolding SetAllClientMetadata_def by (intro other_clients_fold other_clients_Set) auto

lemma other_clients_init: "init_clients allowed ics s = Inr s' \<Longrightarrow> ics_ClientId ` set ics \<subseteq> C \<Longrightarrow> other_clients C s s'"
proof (induction ics arbitrary: s)
  case (Cons ic ics)
  then obtain cs where "init_clients allowed ics (SetClientState s (ics_ClientId ic) cs) = Inr s'" by (auto simp: result_elims)
  moreover have "other_clients C s (SetClientState s (ics_ClientId ic) cs)"
    using Cons.prems(2) by (auto simp: other_clients_def SetClientState_def set_client_store_def GetClientState_def)
  ultimately show ?case using Cons other_clients_trans by fastforce
qed simp

lemma SetClientConsensusState_other: "other_clients C s (SetClientConsensusState s c h cs)"
  by (simp add: other_clients_def SetClientConsensusState_def set_client_store_def GetClientState_def Let_def)

lemma other_clients_consensus: "init_clients_consensus ccs s = Inr s' \<Longrightarrow> other_clients C s s'"
proof -
  have one: "init_consensus c xs s = Inr s' \<Longrightarrow> other_clients C s s'" for c xs s s'
    by (induction xs arbitrary: s) (auto simp: result_elims intro: other_clients_trans [OF SetClientConsensusState_other])
  show "init_clients_consensus ccs s = Inr s' \<Longrightarrow> other_clients C s s'"
    by (induction ccs arbitrary: s) (auto simp: result_elims intro: other_clients_trans [OF one])
qed

lemma client_InitGenesis_other:
  assumes "client_InitGenesis E s gs = Inr s'"
  shows "other_clients (ics_ClientId ` set (Clients gs) \<union> igm_ClientId ` set (ClientsMetadata gs)) s s' \<and>
    nextClientSequence s' = Some (NextClientSequence gs)"
proof -
  let ?C = "ics_ClientId ` set (Clients gs) \<union> igm_ClientId ` set (ClientsMetadata gs)"
  let ?s = "s \<lparr> allowedClients := client_Params gs \<rparr>"
  let ?meta = "if length (ClientsMetadata gs) \<noteq> 0 then SetAllClientMetadata E ?s (ClientsMetadata gs) else ?s"
  from assms obtain s1 s2 where s: "init_clients (client_Params gs) (Clients gs) ?meta = Inr s1"
    "init_clients_consensus (ClientsConsensus gs) s1 = Inr s2" "s' = SetNextClientSequence s2 (NextClientSequence gs)"
    unfolding client_InitGenesis_def Let_def result_elims by blast
  have "other_clients ?C s ?s" by (simp add: other_clients_def GetClientState_def)
  moreover have "other_clients ?C ?s ?meta" by (simp add: other_clients_metadata)
  moreover have "other_clients ?C ?meta s1" using s(1) by (rule other_clients_init) simp
  moreover have "other_clients ?C s1 s2" using s(2) by (rule other_clients_consensus)
  moreover have "other_clients ?C s2 s'" by (simp add: s(3) other_clients_def SetNextClientSequence_def GetClientState_def)
  ultimately have "other_clients ?C s s'" by (meson other_clients_trans)
  then show ?thesis by (simp add: s(3) SetNextClientSequence_def)
qed

lemma validated_ids:
  assumes "core_GenesisState_Validate E gs = Inr ()"
  shows "igm_ClientId ` set (ClientsMetadata (ClientGenesis gs)) \<subseteq> ics_ClientId ` set (Clients (ClientGenesis gs))"
    "NextClientSequence (ClientGenesis gs) \<noteq> 0 \<Longrightarrow> ic \<in> set (Clients (ClientGenesis gs)) \<Longrightarrow>
       \<exists>t n. ParseClientIdentifier (ics_ClientId ic) = Inr (t, n) \<and> n < NextClientSequence (ClientGenesis gs)"
    "NextConnectionSequence (ConnectionGenesis gs) \<noteq> 0 \<Longrightarrow> co \<in> set (Connections (ConnectionGenesis gs)) \<Longrightarrow>
       \<exists>n. ParseConnectionSequence (ic_Id co) = Inr n \<and> n < NextConnectionSequence (ConnectionGenesis gs)"
    "NextChannelSequence (ChannelGenesis gs) \<noteq> 0 \<Longrightarrow> ch \<in> set (Channels (ChannelGenesis gs)) \<Longrightarrow>
       \<exists>n. ParseChannelSequence (ich_ChannelId ch) = Inr n \<and> n < NextChannelSequence (ChannelGenesis gs)"
proof -
  from assms have v: "client_GenesisState_Validate E (ClientGenesis gs) = Inr ()" "conn_GenesisState_Validate (ConnectionGenesis gs) = Inr ()"
    "chan_GenesisState_Validate (ChannelGenesis gs) = Inr ()" by (auto simp: core_GenesisState_Validate_def result_elims)
  from v(1) obtain m V where m: "validate_clients E (client_Params (ClientGenesis gs)) (Clients (ClientGenesis gs)) 0 Map.empty = Inr (m, V)"
    "\<forall>g \<in> set (ClientsMetadata (ClientGenesis gs)). validate_metadata V g = Inr ()" "m \<noteq> 0 \<longrightarrow> m < NextClientSequence (ClientGenesis gs)"
    by (auto simp: client_GenesisState_Validate_def result_elims ball_Un not_le)
  from validate_clients_max [OF m(1)] m(2) show "igm_ClientId ` set (ClientsMetadata (ClientGenesis gs)) \<subseteq> ics_ClientId ` set (Clients (ClientGenesis gs))"
    by (force simp: validate_metadata_def result_elims)
  show "NextClientSequence (ClientGenesis gs) \<noteq> 0 \<Longrightarrow> ic \<in> set (Clients (ClientGenesis gs)) \<Longrightarrow>
       \<exists>t n. ParseClientIdentifier (ics_ClientId ic) = Inr (t, n) \<and> n < NextClientSequence (ClientGenesis gs)"
    using validate_clients_max [OF m(1)] below_counter [OF m(3)] by metis
  from v(2) obtain k where k: "validate_connections (Connections (ConnectionGenesis gs)) 0 = Inr k" "k \<noteq> 0 \<longrightarrow> k < NextConnectionSequence (ConnectionGenesis gs)"
    by (auto simp: conn_GenesisState_Validate_def result_elims ball_Un not_le)
  show "NextConnectionSequence (ConnectionGenesis gs) \<noteq> 0 \<Longrightarrow> co \<in> set (Connections (ConnectionGenesis gs)) \<Longrightarrow>
       \<exists>n. ParseConnectionSequence (ic_Id co) = Inr n \<and> n < NextConnectionSequence (ConnectionGenesis gs)"
    using validate_connections_max [OF k(1)] below_counter [OF k(2)] by metis
  from v(3) obtain l where l: "validate_channels (Channels (ChannelGenesis gs)) 0 = Inr l" "l \<noteq> 0 \<longrightarrow> l < NextChannelSequence (ChannelGenesis gs)"
    by (auto simp: chan_GenesisState_Validate_def result_elims not_le)
  show "NextChannelSequence (ChannelGenesis gs) \<noteq> 0 \<Longrightarrow> ch \<in> set (Channels (ChannelGenesis gs)) \<Longrightarrow>
       \<exists>n. ParseChannelSequence (ich_ChannelId ch) = Inr n \<and> n < NextChannelSequence (ChannelGenesis gs)"
    using validate_channels_max [OF l(1)] below_counter [OF l(2)] by metis
qed

lemma parse_format_sequence: "ParseClientIdentifier (FormatClientIdentifier t n) = Inr (t', k) \<Longrightarrow> k = n"
proof -
  have "split_on (CHR ''-'') (FormatClientIdentifier t n) = split_on (CHR ''-'') t @ [show_u64 n]"
    using split_on_snoc [of "CHR ''-''" "show_u64 n" t] by (simp add: FormatClientIdentifier_def)
  then show "ParseClientIdentifier (FormatClientIdentifier t n) = Inr (t', k) \<Longrightarrow> k = n"
    by (auto simp: ParseClientIdentifier_def Let_def parse_show_u64 result_elims)
qed

lemma imported_ids:
  assumes "core_GenesisState_Validate E gs = Inr ()" "core_InitGenesis E s0 gs = Inr s" "empty_store s0"
  shows "GetClientState s c \<noteq> None \<Longrightarrow> c \<in> ics_ClientId ` set (Clients (ClientGenesis gs))"
    "connections s c \<noteq> None \<Longrightarrow> c \<in> ic_Id ` set (Connections (ConnectionGenesis gs))"
    "channels s (p, c) \<noteq> None \<Longrightarrow> c \<in> ich_ChannelId ` set (Channels (ChannelGenesis gs))"
    "nextClientSequence s = Some (NextClientSequence (ClientGenesis gs))"
    "nextConnectionSequence s = Some (NextConnectionSequence (ConnectionGenesis gs))"
    "nextChannelSequence s = Some (NextChannelSequence (ChannelGenesis gs))"
proof -
  from assms(2) obtain s1 where s1: "client_InitGenesis E s0 (ClientGenesis gs) = Inr s1"
    "s = chan_InitGenesis (conn_InitGenesis s1 (ConnectionGenesis gs)) (ChannelGenesis gs)"
    by (auto simp: core_InitGenesis_def result_elims)
  note o = client_InitGenesis_other [OF s1(1)]
  show "GetClientState s c \<noteq> None \<Longrightarrow> c \<in> ics_ClientId ` set (Clients (ClientGenesis gs))"
  proof (rule ccontr)
    assume c: "GetClientState s c \<noteq> None" "c \<notin> ics_ClientId ` set (Clients (ClientGenesis gs))"
    with validated_ids(1) [OF assms(1)] have "c \<notin> ics_ClientId ` set (Clients (ClientGenesis gs)) \<union> igm_ClientId ` set (ClientsMetadata (ClientGenesis gs))"
      by blast
    with o have "GetClientState s1 c = GetClientState s0 c" unfolding other_clients_def by blast
    also have "\<dots> = None" using assms(3) by (simp add: empty_store_def GetClientState_def empty_client_store_def)
    finally show False using c(1) by (simp add: s1(2) GetClientState_def chan_InitGenesis_fields conn_InitGenesis_fields)
  qed
  show "connections s c \<noteq> None \<Longrightarrow> c \<in> ic_Id ` set (Connections (ConnectionGenesis gs))"
    using o assms(3) conn_InitGenesis_fields(2) [of s1 "ConnectionGenesis gs"]
    by (auto simp: s1(2) chan_InitGenesis_fields other_clients_def empty_store_def)
  have "channels s1 = Map.empty" using o assms(3) by (simp add: other_clients_def empty_store_def no_channels_def)
  then have d: "dom (channels s) = (\<lambda>ch. (ich_PortId ch, ich_ChannelId ch)) ` set (Channels (ChannelGenesis gs))"
    by (simp add: s1(2) chan_InitGenesis_fields(3) conn_InitGenesis_fields)
  show "channels s (p, c) \<noteq> None \<Longrightarrow> c \<in> ich_ChannelId ` set (Channels (ChannelGenesis gs))"
  proof -
    assume "channels s (p, c) \<noteq> None"
    then have "(p, c) \<in> dom (channels s)" by (simp add: domIff)
    then show "c \<in> ich_ChannelId ` set (Channels (ChannelGenesis gs))" unfolding d by blast
  qed
  show "nextClientSequence s = Some (NextClientSequence (ClientGenesis gs))"
    "nextConnectionSequence s = Some (NextConnectionSequence (ConnectionGenesis gs))"
    "nextChannelSequence s = Some (NextChannelSequence (ChannelGenesis gs))"
    using o by (simp_all add: s1(2) chan_InitGenesis_fields conn_InitGenesis_fields)
qed

text \<open>
  C5: a chain that starts from a validated genesis state with non-zero counters never generates an
  identifier that the genesis state uses: after the import the next client, connection and channel
  identifiers have no entry.
\<close>

theorem genesis_identifiers_fresh:
  assumes "core_GenesisState_Validate E gs = Inr ()" "core_InitGenesis E s0 gs = Inr s" "empty_store s0"
    and "NextClientSequence (ClientGenesis gs) \<noteq> 0" "NextConnectionSequence (ConnectionGenesis gs) \<noteq> 0"
      "NextChannelSequence (ChannelGenesis gs) \<noteq> 0"
  shows "\<exists>c1 c2 c3 s1 s2 s3. GenerateClientIdentifier s t = Inr (c1, s1) \<and> GetClientState s c1 = None \<and>
    GenerateConnectionIdentifier s = Inr (c2, s2) \<and> GetConnection s c2 = None \<and>
    GenerateChannelIdentifier s = Inr (c3, s3) \<and> (\<forall>p. GetChannel s p c3 = None)"
proof -
  note ids = imported_ids [OF assms(1-3)] and below = validated_ids [OF assms(1)]
  let ?n = "NextClientSequence (ClientGenesis gs)" and ?k = "NextConnectionSequence (ConnectionGenesis gs)"
    and ?l = "NextChannelSequence (ChannelGenesis gs)"
  have "GetClientState s (FormatClientIdentifier t ?n) = None"
  proof (rule ccontr)
    assume "GetClientState s (FormatClientIdentifier t ?n) \<noteq> None"
    with ids(1) below(2) [OF assms(4)] obtain t' n where "ParseClientIdentifier (FormatClientIdentifier t ?n) = Inr (t', n)" "n < ?n"
      by fastforce
    with parse_format_sequence show False by blast
  qed
  moreover have "GetConnection s (FormatConnectionIdentifier ?k) = None"
  proof (rule ccontr)
    assume "GetConnection s (FormatConnectionIdentifier ?k) \<noteq> None"
    with ids(2) below(3) [OF assms(5)] obtain n where "ParseConnectionSequence (FormatConnectionIdentifier ?k) = Inr n" "n < ?k"
      by (fastforce simp: GetConnection_def)
    then show False by (simp add: connection_ids.parse_format)
  qed
  moreover have "GetChannel s p (FormatChannelIdentifier ?l) = None" for p
  proof (rule ccontr)
    assume "GetChannel s p (FormatChannelIdentifier ?l) \<noteq> None"
    with ids(3) below(4) [OF assms(6)] obtain n where "ParseChannelSequence (FormatChannelIdentifier ?l) = Inr n" "n < ?l"
      by (fastforce simp: GetChannel_def)
    then show False by (simp add: channel_ids.parse_format)
  qed
  ultimately show ?thesis
    using ids(4-6) by (auto simp: GenerateClientIdentifier_def GetNextClientSequence_def GenerateConnectionIdentifier_def
        GetNextConnectionSequence_def GenerateChannelIdentifier_def GetNextChannelSequence_def)
qed

lemma init_clients_present:
  "init_clients allowed ics s = Inr s' \<Longrightarrow> GetClientState s c \<noteq> None \<or> c \<in> ics_ClientId ` set ics \<Longrightarrow> GetClientState s' c \<noteq> None"
proof (induction ics arbitrary: s)
  case (Cons ic ics)
  then obtain cs where "init_clients allowed ics (SetClientState s (ics_ClientId ic) cs) = Inr s'" by (auto simp: result_elims)
  from Cons.IH [OF this] Cons.prems(2) show ?case
    by (auto simp: SetClientState_def set_client_store_def GetClientState_def split: if_splits)
qed simp

lemma imported_client_present:
  assumes "core_InitGenesis E s0 gs = Inr s" "ic \<in> set (Clients (ClientGenesis gs))"
  shows "GetClientState s (ics_ClientId ic) \<noteq> None"
proof -
  from assms(1) obtain s1 where s1: "client_InitGenesis E s0 (ClientGenesis gs) = Inr s1"
    "s = chan_InitGenesis (conn_InitGenesis s1 (ConnectionGenesis gs)) (ChannelGenesis gs)"
    by (auto simp: core_InitGenesis_def result_elims)
  from s1(1) obtain m s2 s3 where s: "init_clients (client_Params (ClientGenesis gs)) (Clients (ClientGenesis gs)) m = Inr s2"
    "init_clients_consensus (ClientsConsensus (ClientGenesis gs)) s2 = Inr s3" "s1 = SetNextClientSequence s3 (NextClientSequence (ClientGenesis gs))"
    unfolding client_InitGenesis_def Let_def result_elims by blast
  from init_clients_present [OF s(1)] assms(2) have "GetClientState s2 (ics_ClientId ic) \<noteq> None" by blast
  moreover have "other_clients {} s2 s3" using s(2) by (rule other_clients_consensus)
  ultimately show ?thesis
    by (simp add: s1(2) s(3) other_clients_def GetClientState_def chan_InitGenesis_fields conn_InitGenesis_fields SetNextClientSequence_def)
qed

text \<open>
  C6: the case that the validation misses. It compares the counter with the largest sequence only
  when that sequence is not zero, so a genesis state with the client number zero and a counter of
  zero is accepted; the next client of that type then gets the identifier of the existing client.
\<close>

theorem genesis_zero_counter_reuses:
  assumes "core_GenesisState_Validate E gs = Inr ()" "core_InitGenesis E s0 gs = Inr s" "empty_store s0"
    and "NextClientSequence (ClientGenesis gs) = 0"
    and "ic \<in> set (Clients (ClientGenesis gs))" "ics_ClientId ic = FormatClientIdentifier t 0"
  shows "\<exists>s1. GenerateClientIdentifier s t = Inr (ics_ClientId ic, s1) \<and> GetClientState s (ics_ClientId ic) \<noteq> None"
  using imported_client_present [OF assms(2,5)] imported_ids(4) [OF assms(1-3)] assms(4,6)
  by (simp add: GenerateClientIdentifier_def GetNextClientSequence_def)

end
