(* ===== verification/GenesisExamples.thy ===== *)
theory GenesisExamples
  imports CoreGenesis
begin

text \<open>
  A concrete state with an entry of every kind, an iterator over it, and concrete genesis states: the
  hypotheses of the theorems of \<open>CoreGenesis\<close> hold for them.
\<close>

subsection \<open>An iterator for a given list of entries\<close>

definition list_iterator :: "store_entry list \<Rightarrow> 'k ibc_state \<Rightarrow> bytes \<Rightarrow> (bytes \<times> store_value) list" where
  "list_iterator es s p =
     [(entry_path e, v). e \<leftarrow> es, v \<leftarrow> (case store_lookup s e of None \<Rightarrow> [] | Some v \<Rightarrow> [v]), prefix p (entry_path e)]"

lemma set_list_iterator:
  "set (list_iterator es s p) = {(entry_path e, v) |e v. e \<in> set es \<and> store_lookup s e = Some v \<and> prefix p (entry_path e)}"
  by (induction es) (auto simp: list_iterator_def split: option.splits)

lemma sorted_list_iterator:
  "sorted_wrt bytes_less (map entry_path es) \<Longrightarrow> sorted_wrt bytes_less (map fst (list_iterator es s p))"
proof (induction es)
  case (Cons e es)
  have "\<forall>k \<in> set (map fst (list_iterator es s p)). bytes_less (entry_path e) k"
    using Cons.prems by (auto simp: set_list_iterator)
  with Cons show ?case by (auto simp: list_iterator_def split: option.splits)
qed (simp add: list_iterator_def)

lemma list_iterator_ok:
  assumes "kv_PrefixIterator E = list_iterator es" "sorted_wrt bytes_less (map entry_path es)"
    "\<forall>e v. store_lookup s e = Some v \<longrightarrow> e \<in> set es"
  shows "prefix_iterator E s"
  using assms(2,3) by (auto simp: prefix_iterator_def assms(1) set_list_iterator sorted_list_iterator)

subsection \<open>A state with an entry of every kind\<close>

definition gen_conn :: ConnectionEnd where
  "gen_conn = NewConnectionEnd C_OPEN ''07-tendermint-0'' (NewCounterparty ''07-tendermint-9'' ''connection-4'' ''ibc'') [DefaultIBCVersion] 5"

definition gen_chan :: Channel where
  "gen_chan = NewChannel OPEN UNORDERED (chan_NewCounterparty ''transfer'' ''channel-7'') [''connection-0''] ''ics20-1''"

definition gen_state :: "unit ibc_state" where
  "gen_state = (empty_ibc_state ()) \<lparr> nextClientSequence := Some 1, clientStores := (\<lambda>_. empty_client_store)(''07-tendermint-0'' := demo_tm_store),
     clientConnections := [''07-tendermint-0'' \<mapsto> [''connection-0'']], connections := [''connection-0'' \<mapsto> gen_conn],
     nextConnectionSequence := Some 1, channels := [(''transfer'', ''channel-0'') \<mapsto> gen_chan],
     nextSequenceSend := [(''transfer'', ''channel-0'') \<mapsto> 3], nextSequenceRecv := [(''transfer'', ''channel-0'') \<mapsto> 1],
     nextSequenceAck := [(''transfer'', ''channel-0'') \<mapsto> 1], packetCommitments := [(''transfer'', ''channel-0'', 2) \<mapsto> ''hash''],
     packetReceipts := [(''transfer'', ''channel-0'', 5) \<mapsto> [char_of (1 :: nat)]], packetAcks := [(''transfer'', ''channel-0'', 5) \<mapsto> ''ack''],
     nextChannelSequence := Some 1 \<rparr>"

definition gen_entries :: "store_entry list" where
  "gen_entries = [PacketAckEntry ''transfer'' ''channel-0'' 5, ChannelEntry ''transfer'' ''channel-0'',
     ClientStateEntry ''07-tendermint-0'', ClientConnectionsEntry ''07-tendermint-0'', ConsensusStateEntry ''07-tendermint-0'' (Height 1 5),
     ProcessedHeightEntry ''07-tendermint-0'' (Height 1 5), ProcessedTimeEntry ''07-tendermint-0'' (Height 1 5),
     IterationEntry ''07-tendermint-0'' (Height 1 5), PacketCommitmentEntry ''transfer'' ''channel-0'' 2, ConnectionEntry ''connection-0'',
     NextChannelSequenceEntry, NextClientSequenceEntry, NextConnectionSequenceEntry,
     NextSequenceAckEntry ''transfer'' ''channel-0'', NextSequenceRecvEntry ''transfer'' ''channel-0'',
     NextSequenceSendEntry ''transfer'' ''channel-0'', PacketReceiptEntry ''transfer'' ''channel-0'' 5]"

definition gen_env :: "unit store_env" where
  "gen_env = keeper_env.extend demo_kenv
     \<lparr> kv_PrefixIterator = list_iterator gen_entries, cdc_UnmarshalClientState = (\<lambda>_. None), cdc_UnmarshalConsensusState = (\<lambda>_. None),
       cdc_UnmarshalClientPaths = (\<lambda>_. None) \<rparr>"

lemma gen_entries_sorted: "sorted_wrt bytes_less (map entry_path gen_entries)"
  by code_simp

lemma demo_tm_store_fields:
  "st_clientState demo_tm_store = Some (TMClient demo_tm)" "st_consensus demo_tm_store = [Height 1 5 \<mapsto> TMCons (demo_cons 50)]"
  "st_processedTime demo_tm_store = [Height 1 5 \<mapsto> 90]" "st_processedHeight demo_tm_store = [Height 1 5 \<mapsto> Height 1 9]"
  "st_iteration demo_tm_store = [Height 1 5]" "st_raw demo_tm_store = Map.empty"
  by (simp_all add: demo_tm_store_def SetConsensusState_def setConsensusMetadataWithValues_def SetIterationKey_def SetProcessedHeight_def
      SetProcessedTime_def empty_client_store_def insort_insert_key_def)

lemma empty_client_store_fields:
  "st_clientState empty_client_store = None" "st_consensus empty_client_store = Map.empty" "st_processedTime empty_client_store = Map.empty"
  "st_processedHeight empty_client_store = Map.empty" "st_iteration empty_client_store = []" "st_raw empty_client_store = Map.empty"
  by (simp_all add: empty_client_store_def)

lemma gen_lookup: "store_lookup gen_state e = Some v \<Longrightarrow> e \<in> set gen_entries"
  by (cases e) (auto simp: gen_state_def gen_entries_def empty_ibc_state_def demo_tm_store_fields empty_client_store_fields
      GetIterationKey_def split: if_splits)

lemma gen_iterator: "prefix_iterator gen_env gen_state"
  by (rule list_iterator_ok [of _ gen_entries])
    (simp_all add: gen_env_def keeper_env.defs gen_entries_sorted gen_lookup)

lemma gen_iterable: "iterable gen_state"
proof -
  have "\<forall>x \<in> entry_identifiers e. no_slash x" if "e \<in> set gen_entries" for e
    using that by (auto simp: gen_entries_def)
  moreover have "\<forall>h \<in> set (st_iteration (clientStores gen_state c)). unat (RevisionHeight h) < 2 ^ 56" for c
    by (simp add: gen_state_def demo_tm_store_fields empty_client_store_fields)
  ultimately show ?thesis using gen_lookup unfolding iterable_def by blast
qed

lemma gen_exportable: "exportable gen_state"
  by (auto simp: exportable_def gen_state_def iteration_ok_def demo_tm_store_fields empty_client_store_fields empty_ibc_state_def
      GetClientState_def metadata_def IsAllowedClient_def DefaultAllowedClients_def split: if_splits)

theorem core_genesis_roundtrip_witness:
  "\<exists>gs. core_ExportGenesis gen_env gen_state = Inr gs \<and> core_InitGenesis gen_env (empty_ibc_state ()) gs = Inr gen_state"
proof -
  have "empty_store (empty_ibc_state ())" "gen_state \<lparr> capState := capState (empty_ibc_state ()) \<rparr> = gen_state"
    by (simp_all add: empty_store_def no_channels_def empty_ibc_state_def)
  with core_genesis_roundtrip [OF gen_iterator gen_iterable gen_exportable] show ?thesis by fastforce
qed

subsection \<open>Genesis states\<close>

definition gen_genesis :: "u64 \<Rightarrow> core_GenesisState" where
  "gen_genesis n = \<lparr> ClientGenesis = \<lparr> Clients = [NewIdentifiedClientState ''07-tendermint-0'' (TMClient demo_tm)], ClientsConsensus = [],
       ClientsMetadata = [], client_Params = DefaultAllowedClients, CreateLocalhost = False, NextClientSequence = n \<rparr>,
     ConnectionGenesis = conn_DefaultGenesisState \<lparr> Connections := [NewIdentifiedConnection ''connection-0'' gen_conn], NextConnectionSequence := 1 \<rparr>,
     ChannelGenesis = chan_DefaultGenesisState \<lparr> Channels := [NewIdentifiedChannel ''transfer'' ''channel-0'' gen_chan], NextChannelSequence := 1 \<rparr> \<rparr>"

lemma ValidateClientType_Tendermint: "ValidateClientType Tendermint = Inr ()"
proof -
  have "IsValidClientID (FormatClientIdentifier Tendermint 0)"
    using tendermint_ids.parse_format [of 0] by (auto simp: IsValidClientID_def split: sum.splits)
  moreover have "\<not> all_space Tendermint" by code_simp
  ultimately show ?thesis by (simp add: ValidateClientType_def tendermint_ids.validate_format)
qed

lemma gen_genesis_valid: "core_GenesisState_Validate gen_env (gen_genesis n) = Inr ()"
proof -
  have id: "ClientIdentifierValidator ''07-tendermint-0'' = Inr ()" "tm_Validate gen_env demo_tm = Inr ()"
    "ParseClientIdentifier ''07-tendermint-0'' = Inr (Tendermint, 0)" "IsAllowedClient DefaultAllowedClients Tendermint"
    by code_simp+
  have "validate_clients gen_env DefaultAllowedClients [NewIdentifiedClientState ''07-tendermint-0'' (TMClient demo_tm)] 0 Map.empty =
      Inr (0, [''07-tendermint-0'' \<mapsto> Tendermint])"
    by (simp add: NewIdentifiedClientState_def id ValidateClientType_Tendermint)
  moreover have "validateClients DefaultAllowedClients = Inr ()" by code_simp
  ultimately have "client_GenesisState_Validate gen_env (ClientGenesis (gen_genesis n)) = Inr ()"
    by (simp add: client_GenesisState_Validate_def gen_genesis_def require_def del: validate_clients.simps)
  moreover have "conn_GenesisState_Validate (ConnectionGenesis (gen_genesis 0)) = Inr ()" "chan_GenesisState_Validate (ChannelGenesis (gen_genesis 0)) = Inr ()"
    by code_simp+
  ultimately show ?thesis by (simp add: core_GenesisState_Validate_def gen_genesis_def)
qed

lemma empty_ibc_state_empty: "empty_store (empty_ibc_state k)"
  by (simp add: empty_store_def no_channels_def empty_ibc_state_def)

theorem genesis_identifiers_fresh_witness:
  "\<exists>s. core_InitGenesis gen_env (empty_ibc_state ()) (gen_genesis 1) = Inr s \<and>
     (\<exists>c s1. GenerateClientIdentifier s Tendermint = Inr (c, s1) \<and> GetClientState s c = None)"
proof -
  have "is_ok (core_InitGenesis gen_env (empty_ibc_state ()) (gen_genesis 1))" by code_simp
  then obtain s where s: "core_InitGenesis gen_env (empty_ibc_state ()) (gen_genesis 1) = Inr s" by (auto simp: is_ok_iff)
  have "NextClientSequence (ClientGenesis (gen_genesis 1)) \<noteq> 0" "NextConnectionSequence (ConnectionGenesis (gen_genesis 1)) \<noteq> 0"
    "NextChannelSequence (ChannelGenesis (gen_genesis 1)) \<noteq> 0" by (simp_all add: gen_genesis_def)
  from genesis_identifiers_fresh [OF gen_genesis_valid [of 1] s empty_ibc_state_empty this, of Tendermint] s show ?thesis by blast
qed

theorem genesis_zero_counter_reuses_witness:
  "\<exists>s. core_GenesisState_Validate gen_env (gen_genesis 0) = Inr () \<and> core_InitGenesis gen_env (empty_ibc_state ()) (gen_genesis 0) = Inr s \<and>
     (\<exists>s1. GenerateClientIdentifier s Tendermint = Inr (''07-tendermint-0'', s1)) \<and> GetClientState s ''07-tendermint-0'' \<noteq> None"
proof -
  have "is_ok (core_InitGenesis gen_env (empty_ibc_state ()) (gen_genesis 0))" by code_simp
  then obtain s where s: "core_InitGenesis gen_env (empty_ibc_state ()) (gen_genesis 0) = Inr s" by (auto simp: is_ok_iff)
  let ?ic = "NewIdentifiedClientState ''07-tendermint-0'' (TMClient demo_tm)"
  have id: "ics_ClientId ?ic = ''07-tendermint-0''" "?ic \<in> set (Clients (ClientGenesis (gen_genesis 0)))"
    "NextClientSequence (ClientGenesis (gen_genesis 0)) = 0" by (simp_all add: gen_genesis_def NewIdentifiedClientState_def)
  have "''07-tendermint-0'' = FormatClientIdentifier Tendermint 0" by code_simp
  with id(1) have f: "ics_ClientId ?ic = FormatClientIdentifier Tendermint 0" by simp
  from genesis_zero_counter_reuses [OF gen_genesis_valid [of 0] s empty_ibc_state_empty id(3,2) f] s gen_genesis_valid [of 0] id(1)
  show ?thesis by simp
qed

end
