(* ===== verification/PacketLiveness.thy ===== *)
theory PacketLiveness
  imports PacketFlow
begin

text \<open>
  Progress of packets between two chains. The safety theorems of \<open>PacketFlow\<close> say what can not happen to a
  packet; here it is shown that something can. A packet in flight between two open ends can always be
  completed: at every block of the receiving chain exactly one of receiving it there and timing it out at the sender goes
  through, so that no packet is stuck and the token or the transaction it carries is either delivered or
  released.
\<close>

text \<open>A packet in flight, seen by the sender: committed, on an open channel to its destination.\<close>

definition in_flight :: "'k ibc_state \<Rightarrow> Packet \<Rightarrow> Channel \<Rightarrow> ConnectionEnd \<Rightarrow> bool" where
  "in_flight s p channel connection \<longleftrightarrow>
     channels s (src_chan p) = Some channel \<and> chan_State channel = OPEN \<and>
     DestinationPort p = ch_PortId (chan_Counterparty channel) \<and> DestinationChannel p = ch_ChannelId (chan_Counterparty channel) \<and>
     hop_connection s (chan_ConnectionHops channel) = Inr connection \<and>
     packetCommitments s (src_key p) = Some (CommitPacket p)"

text \<open>The receiver is ready for a packet: its end is open over an open connection, and it has not received the packet.\<close>

definition awaits :: "('k, 'x) keeper_env_scheme \<Rightarrow> 'k ibc_state \<Rightarrow> Capability option \<Rightarrow> Packet \<Rightarrow> Channel \<Rightarrow> ConnectionEnd \<Rightarrow> bool" where
  "awaits E s cap p channel connection \<longleftrightarrow>
     channels s (dst_chan p) = Some channel \<and> chan_State channel = OPEN \<and>
     chan_Authenticate E s cap (DestinationPort p) (DestinationChannel p) \<and>
     SourcePort p = ch_PortId (chan_Counterparty channel) \<and> SourceChannel p = ch_ChannelId (chan_Counterparty channel) \<and>
     open_connection s (chan_ConnectionHops channel) = Inr connection \<and>
     (case chan_Ordering channel of
        UNORDERED \<Rightarrow> packetReceipts s (dst_key p) = None
      | ORDERED \<Rightarrow> nextSequenceRecv s (dst_chan p) = Some (Sequence p)
      | NONE \<Rightarrow> True)"

lemma RecvPacket_enabled:
  assumes a: "awaits E s cap p channel connection" and h: "GetSelfHeight ctx = Inr self"
    and v: "conn_VerifyPacketCommitment E ctx s connection h pf (SourcePort p) (SourceChannel p) (Sequence p) (CommitPacket p) = Inr s1"
  shows "is_ok (RecvPacket E ctx s cap p pf h) \<longleftrightarrow> \<not> timed_out ctx p"
proof
  assume "is_ok (RecvPacket E ctx s cap p pf h)"
  then obtain s' where "RecvPacket E ctx s cap p pf h = Inr s'" by (auto simp: is_ok_iff)
  then show "\<not> timed_out ctx p" by (rule RecvPacket_Inr)
next
  assume t: "\<not> timed_out ctx p"
  note fr = verified_frame_fields [OF conn_verify_frames(5) [OF v]]
  from t h have "\<not> (\<not> IsZero (TimeoutHeight p) \<and> GTE self (TimeoutHeight p))"
    "\<not> (TimeoutTimestamp p \<noteq> 0 \<and> block_time_u64 ctx \<ge> TimeoutTimestamp p)" by (auto simp: timed_out_def)
  with a h v fr show "is_ok (RecvPacket E ctx s cap p pf h)"
    by (cases "chan_Ordering channel") (auto simp: RecvPacket_def awaits_def Let_def chan_getters)
qed

lemma TimeoutPacket_enabled:
  assumes f: "in_flight s p channel connection" and c: "GetClientConsensusState s (conn_ClientId connection) h = Some cons"
    and v: "verify_not_received E ctx s connection (chan_Ordering channel) p pf h n ErrPacketReceived = Inr s1"
  shows "is_ok (TimeoutPacket E ctx s p pf h n) \<longleftrightarrow>
    \<not> IsZero (TimeoutHeight p) \<and> TimeoutHeight p \<le> h \<or> TimeoutTimestamp p \<noteq> 0 \<and> TimeoutTimestamp p \<le> consensus_GetTimestamp cons"
proof -
  have "length (GetPacketCommitment s (SourcePort p) (SourceChannel p) (Sequence p)) \<noteq> 0"
    "GetPacketCommitment s (SourcePort p) (SourceChannel p) (Sequence p) = CommitPacket p"
    using f by (simp_all add: in_flight_def GetPacketCommitment_def)
  with f c v show ?thesis
    by (auto simp: TimeoutPacket_def in_flight_def Let_def GetChannel_def GetTimestampAtHeight_def height_comparisons not_less)
qed

text \<open>
  C15: no packet is ever stuck. Let a packet be in flight and the receiver be ready for it, let the
  sender's client know the height and time of the receiver's current block, and let the proofs of the commitment and of
  the packet's absence be accepted. Then exactly one of receiving the packet and timing it out
  succeeds: before its timeout it is received, from its timeout on the sender can take it back.
\<close>

theorem received_or_timed_out:
  assumes f: "in_flight s p channel connection" and a: "awaits EB sB cap p channelB connectionB"
    and h: "GetSelfHeight ctxB = Inr hB"
    and c: "GetClientConsensusState s (conn_ClientId connection) hB = Some cons" "consensus_GetTimestamp cons = block_time_u64 ctxB"
    and vB: "is_ok (conn_VerifyPacketCommitment EB ctxB sB connectionB h pfB (SourcePort p) (SourceChannel p) (Sequence p) (CommitPacket p))"
    and v: "is_ok (verify_not_received E ctx s connection (chan_Ordering channel) p pf hB n ErrPacketReceived)"
  shows "is_ok (TimeoutPacket E ctx s p pf hB n) \<longleftrightarrow> \<not> is_ok (RecvPacket EB ctxB sB cap p pfB h)"
proof -
  from vB v obtain s1 s2 where
    "conn_VerifyPacketCommitment EB ctxB sB connectionB h pfB (SourcePort p) (SourceChannel p) (Sequence p) (CommitPacket p) = Inr s1"
    "verify_not_received E ctx s connection (chan_Ordering channel) p pf hB n ErrPacketReceived = Inr s2" by (auto simp: is_ok_iff)
  from RecvPacket_enabled [OF a h this(1)] TimeoutPacket_enabled [OF f c(1) this(2)] show ?thesis
    using h c(2) by (auto simp: timed_out_def height_comparisons)
qed

subsection \<open>A packet between two chains\<close>

definition far_channel :: Channel where
  "far_channel = NewChannel OPEN UNORDERED (chan_NewCounterparty ''transfer'' ''channel-0'') [''connection-0''] ''ics20-1''"

definition far_flow :: "unit ibc_state" where
  "far_flow = set_client_store (empty_ibc_state ()) ''07-tendermint-0'' (setConsensusMetadataWithValues
       (demo_tm_store \<lparr> st_clientState := Some (TMClient demo_tm2) \<rparr>) (Height 1 5) (Height 1 3) 30) \<lparr> connections := [''connection-0'' \<mapsto> demo_open_conn],
     channels := [(''transfer'', ''channel-7'') \<mapsto> far_channel] \<rparr>"

definition far_ctx :: ctx where
  "far_ctx = \<lparr> ChainID = ''chain-1'', BlockHeight = 5, BlockTime = 50, NextValidatorsHash = ''v'' \<rparr>"

lemma far_verify:
  assumes "v \<noteq> []"
  shows "is_ok (conn_VerifyPacketCommitment demo_kenv far_ctx far_flow demo_open_conn (Height 1 5) ''p'' ''transfer'' ''channel-0'' 1 v)"
proof -
  obtain x y where "v = x # y" using assms by (cases v) auto
  moreover have "is_ok (conn_VerifyPacketCommitment demo_kenv far_ctx far_flow demo_open_conn (Height 1 5) ''p'' ''transfer'' ''channel-0'' 1 (x # y))"
    by code_simp
  ultimately show ?thesis by simp
qed

lemma far_awaits: "awaits demo_kenv far_flow None demo_out far_channel demo_open_conn"
  by (simp add: awaits_def far_flow_def far_channel_def NewChannel_def chan_NewCounterparty_def demo_out_fields chan_Authenticate_def
      demo_kenv_def env.extend_def open_connection_def hop_connection_def first_hop_def GetConnection_def demo_open_conn_def
      NewConnectionEnd_def set_client_store_def empty_ibc_state_def)

lemma demo_in_flight: "in_flight (demo_flow (CommitPacket demo_out)) demo_out demo_channel demo_open_conn"
  using demo_flow_fields(1-4) demo_flow_fields(6)
  by (simp add: in_flight_def GetChannel_def demo_out_fields chan_NewCounterparty_def demo_flow_def)

theorem received_or_timed_out_witness:
  "\<not> is_ok (RecvPacket demo_kenv far_ctx far_flow None demo_out ''p'' (Height 1 5)) \<and>
   is_ok (TimeoutPacket demo_kenv demo_ctx (demo_flow (CommitPacket demo_out)) demo_out ''absent'' (Height 1 5) 0)"
proof -
  have h: "GetSelfHeight far_ctx = Inr (Height 1 5)" by code_simp
  have c: "GetClientConsensusState (demo_flow b) (conn_ClientId demo_open_conn) (Height 1 5) = Some (TMCons (demo_cons 50))" for b
    by code_simp
  have t: "consensus_GetTimestamp (TMCons (demo_cons 50)) = block_time_u64 far_ctx" by code_simp
  have v: "is_ok (verify_not_received demo_kenv demo_ctx (demo_flow b) demo_open_conn (chan_Ordering demo_channel) demo_out ''absent'' (Height 1 5) 0 e)" for b e
    unfolding demo_flow_fields by (rule demo_timeout_verify)
  have "is_ok (TimeoutPacket demo_kenv demo_ctx (demo_flow (CommitPacket demo_out)) demo_out ''absent'' (Height 1 5) 0)"
    using demo_timeout by (auto simp: is_ok_iff)
  with received_or_timed_out [OF demo_in_flight far_awaits h c t _ v, where h = "Height 1 5" and pfB = "''p''"] far_verify [OF CommitPacket_ne, of demo_out]
  show ?thesis by (simp add: demo_out_fields)
qed

end
