(* ===== verification/ClientProposals.thy ===== *)
theory ClientProposals
  imports CoreGenesis
begin

text \<open>
  The codec helpers of 02-client (\<^verbatim>\<open>types/codec.go\<close>, \<^verbatim>\<open>types/encoding.go\<close>), its governance proposals
  (\<^verbatim>\<open>types/proposal.go\<close>) and the handler that dispatches them (\<^verbatim>\<open>proposal_handler.go\<close>). The
  protobuf codec is a parameter: which values it can marshal, and the encodings.

  The lemmas show that unpacking inverts packing and never confuses two interfaces, and what a
  proposal that passes validation and is executed does: it changes one client or
  schedules one upgrade, and a proposal that passes validation is never refused for its shape.
\<close>

subsection \<open>Packing (types/codec.go)\<close>

text \<open>
  The cached value of a protobuf \<^verbatim>\<open>Any\<close>: one of the four interfaces, or something else. A nil
  \<^verbatim>\<open>Any\<close> and a nil interface are \<open>None\<close>.
\<close>

datatype any_value =
    AnyClientState ClientState | AnyConsensusState ConsensusState | AnyHeader Header
  | AnyMisbehaviour Misbehaviour | AnyOther

record 'k codec_env = "'k store_env" +
  cdc_NewAnyWithValue :: "any_value \<Rightarrow> bool"
  cdc_MarshalHeader :: "Header \<Rightarrow> bytes option"
  cdc_UnmarshalHeader :: "bytes \<Rightarrow> Header option"
  gov_ValidateAbstract :: "string \<Rightarrow> string \<Rightarrow> unit result"
  upg_PlanValidateBasic :: "int \<Rightarrow> unit result"

definition pack_any :: "('k, 'x) codec_env_scheme \<Rightarrow> any_value option \<Rightarrow> any_value result" where
  "pack_any E msg =
     (case msg of None \<Rightarrow> Inl (SdkE ErrPackAny) | Some v \<Rightarrow>
      if cdc_NewAnyWithValue E v then Inr v else Inl (SdkE ErrPackAny))"

definition PackClientState :: "('k, 'x) codec_env_scheme \<Rightarrow> ClientState option \<Rightarrow> any_value result" where
  "PackClientState E clientState = pack_any E (map_option AnyClientState clientState)"

definition PackConsensusState :: "('k, 'x) codec_env_scheme \<Rightarrow> ConsensusState option \<Rightarrow> any_value result" where
  "PackConsensusState E consensusState = pack_any E (map_option AnyConsensusState consensusState)"

definition MustPackConsensusState :: "('k, 'x) codec_env_scheme \<Rightarrow> ConsensusState option \<Rightarrow> any_value result" where
  "MustPackConsensusState E consensusState =
     (case PackConsensusState E consensusState of Inl _ \<Rightarrow> Inl Panic | Inr anyConsensusState \<Rightarrow> Inr anyConsensusState)"

definition PackHeader :: "('k, 'x) codec_env_scheme \<Rightarrow> Header option \<Rightarrow> any_value result" where
  "PackHeader E header = pack_any E (map_option AnyHeader header)"

definition PackMisbehaviour :: "('k, 'x) codec_env_scheme \<Rightarrow> Misbehaviour option \<Rightarrow> any_value result" where
  "PackMisbehaviour E misbehaviour = pack_any E (map_option AnyMisbehaviour misbehaviour)"

definition UnpackClientState :: "any_value option \<Rightarrow> ClientState result" where
  "UnpackClientState any =
     (case any of None \<Rightarrow> Inl (SdkE ErrUnpackAny)
      | Some (AnyClientState clientState) \<Rightarrow> Inr clientState
      | Some _ \<Rightarrow> Inl (SdkE ErrUnpackAny))"

definition UnpackConsensusState :: "any_value option \<Rightarrow> ConsensusState result" where
  "UnpackConsensusState any =
     (case any of None \<Rightarrow> Inl (SdkE ErrUnpackAny)
      | Some (AnyConsensusState consensusState) \<Rightarrow> Inr consensusState
      | Some _ \<Rightarrow> Inl (SdkE ErrUnpackAny))"

definition UnpackHeader :: "any_value option \<Rightarrow> Header result" where
  "UnpackHeader any =
     (case any of None \<Rightarrow> Inl (SdkE ErrUnpackAny)
      | Some (AnyHeader header) \<Rightarrow> Inr header
      | Some _ \<Rightarrow> Inl (SdkE ErrUnpackAny))"

definition UnpackMisbehaviour :: "any_value option \<Rightarrow> Misbehaviour result" where
  "UnpackMisbehaviour any =
     (case any of None \<Rightarrow> Inl (SdkE ErrUnpackAny)
      | Some (AnyMisbehaviour misbehaviour) \<Rightarrow> Inr misbehaviour
      | Some _ \<Rightarrow> Inl (SdkE ErrUnpackAny))"

subsection \<open>Encoding (types/encoding.go)\<close>

definition must :: "'a result \<Rightarrow> 'a result" where
  "must r = (case r of Inl _ \<Rightarrow> Inl Panic | Inr x \<Rightarrow> Inr x)"

definition MarshalClientState :: "'x env_scheme \<Rightarrow> ClientState \<Rightarrow> bytes result" where
  "MarshalClientState E clientStateI = from_ext ''codec'' (cdc_MarshalClientState E clientStateI)"

definition MustMarshalClientState :: "'x env_scheme \<Rightarrow> ClientState \<Rightarrow> bytes result" where
  "MustMarshalClientState E clientState = must (MarshalClientState E clientState)"

definition UnmarshalClientState :: "('k, 'x) store_env_scheme \<Rightarrow> bytes \<Rightarrow> ClientState result" where
  "UnmarshalClientState E bz = from_ext ''codec'' (cdc_UnmarshalClientState E bz)"

definition MustUnmarshalClientState :: "('k, 'x) store_env_scheme \<Rightarrow> bytes \<Rightarrow> ClientState result" where
  "MustUnmarshalClientState E bz = must (UnmarshalClientState E bz)"

definition MarshalConsensusState :: "'x env_scheme \<Rightarrow> ConsensusState \<Rightarrow> bytes result" where
  "MarshalConsensusState E cs = from_ext ''codec'' (cdc_MarshalConsensusState E cs)"

definition MustMarshalConsensusState :: "'x env_scheme \<Rightarrow> ConsensusState \<Rightarrow> bytes result" where
  "MustMarshalConsensusState E consensusState = must (MarshalConsensusState E consensusState)"

definition UnmarshalConsensusState :: "('k, 'x) store_env_scheme \<Rightarrow> bytes \<Rightarrow> ConsensusState result" where
  "UnmarshalConsensusState E bz = from_ext ''codec'' (cdc_UnmarshalConsensusState E bz)"

definition MustUnmarshalConsensusState :: "('k, 'x) store_env_scheme \<Rightarrow> bytes \<Rightarrow> ConsensusState result" where
  "MustUnmarshalConsensusState E bz = must (UnmarshalConsensusState E bz)"

definition MarshalHeader :: "('k, 'x) codec_env_scheme \<Rightarrow> Header \<Rightarrow> bytes result" where
  "MarshalHeader E h = from_ext ''codec'' (cdc_MarshalHeader E h)"

definition MustMarshalHeader :: "('k, 'x) codec_env_scheme \<Rightarrow> Header \<Rightarrow> bytes result" where
  "MustMarshalHeader E header = must (MarshalHeader E header)"

definition UnmarshalHeader :: "('k, 'x) codec_env_scheme \<Rightarrow> bytes \<Rightarrow> Header result" where
  "UnmarshalHeader E bz = from_ext ''codec'' (cdc_UnmarshalHeader E bz)"

subsection \<open>Proposals (types/proposal.go)\<close>

record ClientUpdateContent =
  cup_Title :: string
  cup_Description :: string
  cup_SubjectClientId :: string
  cup_SubstituteClientId :: string

text \<open>A plan of the upgrade module is its height.\<close>

record UpgradeContent =
  up_Title :: string
  up_Description :: string
  up_Plan :: int
  up_UpgradedClientState :: "any_value option"

datatype Content = ClientUpdateC ClientUpdateContent | UpgradeC UpgradeContent | OtherC

definition NewClientUpdateProposal :: "string \<Rightarrow> string \<Rightarrow> string \<Rightarrow> string \<Rightarrow> Content" where
  "NewClientUpdateProposal title description subjectClientID substituteClientID =
     ClientUpdateC \<lparr> cup_Title = title, cup_Description = description,
       cup_SubjectClientId = subjectClientID, cup_SubstituteClientId = substituteClientID \<rparr>"

definition ClientUpdateProposal_ValidateBasic :: "('k, 'x) codec_env_scheme \<Rightarrow> ClientUpdateContent \<Rightarrow> unit result" where
  "ClientUpdateProposal_ValidateBasic E cup =
     (case gov_ValidateAbstract E (cup_Title cup) (cup_Description cup) of Inl e \<Rightarrow> Inl e | Inr _ \<Rightarrow>
      if cup_SubjectClientId cup = cup_SubstituteClientId cup then Inl (ClientE ErrInvalidSubstitute)
      else case ParseClientIdentifier (cup_SubjectClientId cup) of Inl e \<Rightarrow> Inl e | Inr _ \<Rightarrow>
     (case ParseClientIdentifier (cup_SubstituteClientId cup) of Inl e \<Rightarrow> Inl e | Inr _ \<Rightarrow> Inr ()))"

definition NewUpgradeProposal :: "('k, 'x) codec_env_scheme \<Rightarrow> string \<Rightarrow> string \<Rightarrow> int \<Rightarrow> ClientState option \<Rightarrow> Content result" where
  "NewUpgradeProposal E title description plan upgradedClientState =
     (case PackClientState E upgradedClientState of Inl e \<Rightarrow> Inl e | Inr any \<Rightarrow>
      Inr (UpgradeC \<lparr> up_Title = title, up_Description = description, up_Plan = plan,
        up_UpgradedClientState = Some any \<rparr>))"

definition UpgradeProposal_ValidateBasic :: "('k, 'x) codec_env_scheme \<Rightarrow> UpgradeContent \<Rightarrow> unit result" where
  "UpgradeProposal_ValidateBasic E up =
     (case gov_ValidateAbstract E (up_Title up) (up_Description up) of Inl e \<Rightarrow> Inl e | Inr _ \<Rightarrow>
     (case upg_PlanValidateBasic E (up_Plan up) of Inl e \<Rightarrow> Inl e | Inr _ \<Rightarrow>
      if up_UpgradedClientState up = None then Inl (ClientE ErrInvalidUpgradeProposal)
      else case UnpackClientState (up_UpgradedClientState up) of Inl e \<Rightarrow> Inl e | Inr _ \<Rightarrow> Inr ()))"

subsection \<open>The proposal handler (proposal_handler.go)\<close>

text \<open>The state of the upgrade module is threaded beside that of the IBC module.\<close>

definition ClientProposalHandler :: "('k, 'x) codec_env_scheme \<Rightarrow> 'u upgrade_keeper \<Rightarrow> ctx \<Rightarrow> 'u \<times> 'k ibc_state \<Rightarrow> Content \<Rightarrow>
    ('u \<times> 'k ibc_state) result" where
  "ClientProposalHandler E U ctx us content =
     (case content of
        ClientUpdateC c \<Rightarrow>
         (case ClientUpdateProposal ctx (snd us) (cup_SubjectClientId c) (cup_SubstituteClientId c) of
            Inl e \<Rightarrow> Inl e | Inr s \<Rightarrow> Inr (fst us, s))
      | UpgradeC c \<Rightarrow>
         (case HandleUpgradeProposal E U (fst us) (case UnpackClientState (up_UpgradedClientState c) of Inl _ \<Rightarrow> None | Inr cs \<Rightarrow> Some cs)
                 (up_Plan c) of
            Inl e \<Rightarrow> Inl e | Inr u \<Rightarrow> Inr (u, snd us))
      | OtherC \<Rightarrow> Inl (SdkE ErrUnknownRequest))"

subsection \<open>What packing and proposals promise\<close>

lemma pack_any_Inr [simp]: "pack_any E msg = Inr v \<longleftrightarrow> msg = Some v \<and> cdc_NewAnyWithValue E v"
  by (auto simp: pack_any_def split: option.splits if_splits)

lemma must_Inr [simp]: "must r = Inr x \<longleftrightarrow> r = Inr x"
  by (cases r) (simp_all add: must_def)

text \<open>A packed value is unpacked as what it is, and under no other interface.\<close>

lemma unpack_packed:
  "PackClientState E c = Inr a \<Longrightarrow> UnpackClientState (Some a) = Inr (the c) \<and>
     \<not> is_ok (UnpackConsensusState (Some a)) \<and> \<not> is_ok (UnpackHeader (Some a)) \<and> \<not> is_ok (UnpackMisbehaviour (Some a))"
  "PackConsensusState E k = Inr a \<Longrightarrow> UnpackConsensusState (Some a) = Inr (the k) \<and>
     \<not> is_ok (UnpackClientState (Some a)) \<and> \<not> is_ok (UnpackHeader (Some a)) \<and> \<not> is_ok (UnpackMisbehaviour (Some a))"
  "PackHeader E h = Inr a \<Longrightarrow> UnpackHeader (Some a) = Inr (the h) \<and>
     \<not> is_ok (UnpackClientState (Some a)) \<and> \<not> is_ok (UnpackConsensusState (Some a)) \<and> \<not> is_ok (UnpackMisbehaviour (Some a))"
  "PackMisbehaviour E m = Inr a \<Longrightarrow> UnpackMisbehaviour (Some a) = Inr (the m) \<and>
     \<not> is_ok (UnpackClientState (Some a)) \<and> \<not> is_ok (UnpackConsensusState (Some a)) \<and> \<not> is_ok (UnpackHeader (Some a))"
  by (auto simp: PackClientState_def PackConsensusState_def PackHeader_def PackMisbehaviour_def
      UnpackClientState_def UnpackConsensusState_def UnpackHeader_def UnpackMisbehaviour_def)

text \<open>A proposal built by its constructor and accepted by the title and plan checks is valid.\<close>

lemma UnpackClientState_Inr [simp]: "UnpackClientState any = Inr cs \<longleftrightarrow> any = Some (AnyClientState cs)"
  by (auto simp: UnpackClientState_def split: option.splits any_value.splits)

lemma NewUpgradeProposal_valid:
  assumes "NewUpgradeProposal E title description plan upgraded = Inr (UpgradeC up)"
    and "gov_ValidateAbstract E title description = Inr ()" "upg_PlanValidateBasic E plan = Inr ()"
  shows "UpgradeProposal_ValidateBasic E up = Inr () \<and> UnpackClientState (up_UpgradedClientState up) = Inr (the upgraded)"
  using assms by (auto simp: NewUpgradeProposal_def UpgradeProposal_ValidateBasic_def PackClientState_def UnpackClientState_def
      result_elims split: sum.splits)

lemma ClientUpdateProposal_validated:
  assumes "ClientUpdateProposal_ValidateBasic E c = Inr u"
  shows "cup_SubjectClientId c \<noteq> cup_SubstituteClientId c" "cup_SubjectClientId c \<noteq> Localhost" "cup_SubstituteClientId c \<noteq> Localhost"
proof -
  have local: "ParseClientIdentifier Localhost = Inl (HostE ErrInvalidID)" by code_simp
  from assms show "cup_SubjectClientId c \<noteq> cup_SubstituteClientId c" "cup_SubjectClientId c \<noteq> Localhost" "cup_SubstituteClientId c \<noteq> Localhost"
    by (auto simp: ClientUpdateProposal_ValidateBasic_def result_elims local)
qed

lemma matching_trusting_period: "IsMatchingClientState a b \<Longrightarrow> tm_TrustingPeriod a = tm_TrustingPeriod b"
  by (cases a; cases b) (simp add: IsMatchingClientState_def)

lemma tm_Status_client_state [simp]: "tm_Status ctx (store \<lparr> st_clientState := x \<rparr>) cs = tm_Status ctx store cs"
  by (simp add: tm_Status_def GetConsensusState_def)

text \<open>Substitution by an active client with metadata goes through, and thaws the subject.\<close>

lemma tm_substitute_recovers:
  assumes m: "IsMatchingClientState cs sub" and act: "tm_Status ctx subst sub = Active" and inv: "metadata_inv subst"
    and rec: "tm_Status ctx subj cs = Frozen \<and> tm_AllowUpdateAfterMisbehaviour cs \<or>
      tm_Status ctx subj cs = Expired \<and> tm_AllowUpdateAfterExpiry cs"
  obtains cs' store where "tm_CheckSubstituteAndUpdateState ctx subj subst cs (TMClient sub) = Inr (cs', store)"
    "tm_LatestHeight cs' = tm_LatestHeight sub"
    "tm_Status ctx store cs' = Active"
proof -
  let ?h = "tm_LatestHeight sub"
  from act obtain c where c: "GetConsensusState subst ?h = Inr c" "\<not> IsExpired sub (tm_Timestamp c) (BlockTime ctx)"
    by (auto simp: tm_Status_def split: if_splits sum.splits)
  then have "?h \<in> dom (st_consensus subst)" by (auto simp: GetConsensusState_def split: option.splits)
  with inv obtain ph pt where md: "GetProcessedHeight subst ?h = Some ph" "GetProcessedTime subst ?h = Some pt"
    unfolding metadata_inv_def by (metis GetProcessedHeight_def GetProcessedTime_def domD)
  define cs' where "cs' = cs \<lparr> tm_FrozenHeight := ZeroHeight, tm_LatestHeight := ?h, tm_ChainId := tm_ChainId sub \<rparr>"
  define store where "store = setConsensusMetadataWithValues (SetConsensusState subj c ?h) ?h ph pt"
  have "tm_Status ctx subj cs = Expired \<Longrightarrow> cs \<lparr> tm_FrozenHeight := ZeroHeight \<rparr> = cs"
    by (cases cs) (auto simp: tm_Status_def IsZero_iff split: if_splits)
  with m c md rec have "tm_CheckSubstituteAndUpdateState ctx subj subst cs (TMClient sub) = Inr (cs', store)"
    by (auto simp: tm_CheckSubstituteAndUpdateState_def cs'_def store_def Let_def)
  moreover have "tm_LatestHeight cs' = ?h" by (simp add: cs'_def)
  moreover have "tm_Status ctx store cs' = Active"
    using c matching_trusting_period [OF m]
    by (simp add: tm_Status_def cs'_def store_def store_ops GetConsensusState_def IsExpired_def IsZero_iff)
  ultimately show ?thesis by (rule that)
qed

text \<open>
  C24: governance can always recover a Tendermint client. When a proposal passes validation and names a subject
  that is frozen or expired, was created with permission for that kind of recovery, and matches an
  active substitute at a greater height, the handler accepts it; the subject is then active, at the height of
  the substitute, and nothing else has changed.
\<close>

theorem proposal_recovers_client:
  assumes v: "ClientUpdateProposal_ValidateBasic E c = Inr ()" and inv: "clients_inv s"
    and subj: "GetClientState s (cup_SubjectClientId c) = Some (TMClient cs)"
    and subst: "GetClientState s (cup_SubstituteClientId c) = Some (TMClient sub)"
    and rec: "tm_Status ctx (clientStores s (cup_SubjectClientId c)) cs = Frozen \<and> tm_AllowUpdateAfterMisbehaviour cs \<or>
      tm_Status ctx (clientStores s (cup_SubjectClientId c)) cs = Expired \<and> tm_AllowUpdateAfterExpiry cs"
    and act: "tm_Status ctx (clientStores s (cup_SubstituteClientId c)) sub = Active"
    and lt: "tm_LatestHeight cs < tm_LatestHeight sub" and m: "IsMatchingClientState cs sub"
  shows "\<exists>s' cs'. ClientProposalHandler E U ctx (u, s) (ClientUpdateC c) = Inr (u, s') \<and>
    GetClientState s' (cup_SubjectClientId c) = Some (TMClient cs') \<and>
    tm_Status ctx (clientStores s' (cup_SubjectClientId c)) cs' = Active \<and> tm_LatestHeight cs' = tm_LatestHeight sub \<and>
    s' = set_client_store s (cup_SubjectClientId c) (clientStores s' (cup_SubjectClientId c)) \<and> clients_inv s'"
proof -
  let ?a = "cup_SubjectClientId c" and ?b = "cup_SubstituteClientId c"
  from inv subst have "metadata_inv (clientStores s ?b)" by (simp add: clients_inv_def)
  from tm_substitute_recovers [OF m act this rec] obtain cs' store where
    r: "tm_CheckSubstituteAndUpdateState ctx (clientStores s ?a) (clientStores s ?b) cs (TMClient sub) = Inr (cs', store)"
      "tm_LatestHeight cs' = tm_LatestHeight sub" "tm_Status ctx store cs' = Active" .
  let ?s = "SetClientState (set_client_store s ?a store) ?a (TMClient cs')"
  have p: "ClientUpdateProposal ctx s ?a ?b = Inr ?s"
    using ClientUpdateProposal_validated [OF v] subj subst rec act lt r(1)
    by (auto simp: ClientUpdateProposal_def Let_def height_comparisons not_le)
  with client_update_proposal.keeps_inv [OF inv p] r(2,3) show ?thesis
    by (intro exI [of _ ?s] exI [of _ cs']) (simp add: ClientProposalHandler_def client_setters GetClientState_def)
qed

end
