(* ===== verification/MsgConstructors.thy ===== *)
theory MsgConstructors
  imports ClientProposals PacketFlow Msgs
begin

text \<open>
  The constructors of the messages of the core module (\<^verbatim>\<open>types/msgs.go\<close> of 02-client, 03-connection and
  04-channel; two more are in \<open>Msgs\<close>), by which relayers and applications build them. An \<^verbatim>\<open>Any\<close> field of a
  message is an option of the value it unpacks to, so packing that fails and is
  ignored gives \<open>None\<close>.

  The theorems show that what is built passes validation exactly when its parts are well formed: the
  handshake messages have the state that their handler expects, and every packet that the chain has
  sent can be relayed.
\<close>

subsection \<open>02-client\<close>

definition packed :: "'a option \<Rightarrow> any_value result \<Rightarrow> 'a option result" where
  "packed v r = (case r of Inl e \<Rightarrow> Inl e | Inr _ \<Rightarrow> Inr v)"

definition NewMsgCreateClient :: "('k, 'x) codec_env_scheme \<Rightarrow> ClientState option \<Rightarrow> ConsensusState option \<Rightarrow> string \<Rightarrow> MsgCreateClient result" where
  "NewMsgCreateClient E clientState consensusState signer =
     (case packed clientState (PackClientState E clientState) of Inl e \<Rightarrow> Inl e | Inr anyClientState \<Rightarrow>
     (case packed consensusState (PackConsensusState E consensusState) of Inl e \<Rightarrow> Inl e | Inr anyConsensusState \<Rightarrow>
      Inr \<lparr> mcc_ClientState = anyClientState, mcc_ConsensusState = anyConsensusState, mcc_Signer = signer \<rparr>))"

definition NewMsgUpdateClient :: "('k, 'x) codec_env_scheme \<Rightarrow> string \<Rightarrow> Header option \<Rightarrow> string \<Rightarrow> MsgUpdateClient result" where
  "NewMsgUpdateClient E ident header signer =
     (case packed header (PackHeader E header) of Inl e \<Rightarrow> Inl e | Inr anyHeader \<Rightarrow>
      Inr \<lparr> muc_ClientId = ident, muc_Header = anyHeader, muc_Signer = signer \<rparr>)"

definition NewMsgUpgradeClient :: "('k, 'x) codec_env_scheme \<Rightarrow> string \<Rightarrow> ClientState option \<Rightarrow> ConsensusState option \<Rightarrow> bytes \<Rightarrow> bytes \<Rightarrow> string \<Rightarrow>
    MsgUpgradeClient result" where
  "NewMsgUpgradeClient E clientID clientState consState proofUpgradeClient proofUpgradeConsState signer =
     (case packed clientState (PackClientState E clientState) of Inl e \<Rightarrow> Inl e | Inr anyClient \<Rightarrow>
     (case packed consState (PackConsensusState E consState) of Inl e \<Rightarrow> Inl e | Inr anyConsState \<Rightarrow>
      Inr \<lparr> mug_ClientId = clientID, mug_ClientState = anyClient, mug_ConsensusState = anyConsState,
        mug_ProofUpgradeClient = proofUpgradeClient, mug_ProofUpgradeConsensusState = proofUpgradeConsState, mug_Signer = signer \<rparr>))"

definition NewMsgSubmitMisbehaviour :: "('k, 'x) codec_env_scheme \<Rightarrow> string \<Rightarrow> Misbehaviour option \<Rightarrow> string \<Rightarrow> MsgSubmitMisbehaviour result" where
  "NewMsgSubmitMisbehaviour E clientID misbehaviour signer =
     (case packed misbehaviour (PackMisbehaviour E misbehaviour) of Inl e \<Rightarrow> Inl e | Inr anyMisbehaviour \<Rightarrow>
      Inr \<lparr> msm_ClientId = clientID, msm_Misbehaviour = anyMisbehaviour, msm_Signer = signer \<rparr>)"

subsection \<open>03-connection\<close>

definition packed_or_nil :: "'a option \<Rightarrow> any_value result \<Rightarrow> 'a option" where
  "packed_or_nil v r = (case r of Inl _ \<Rightarrow> None | Inr _ \<Rightarrow> v)"

definition NewMsgConnectionOpenTry :: "('k, 'x) codec_env_scheme \<Rightarrow> string \<Rightarrow> string \<Rightarrow> string \<Rightarrow> string \<Rightarrow> ClientState option \<Rightarrow> MerklePrefix \<Rightarrow>
    Version option list \<Rightarrow> u64 \<Rightarrow> bytes \<Rightarrow> bytes \<Rightarrow> bytes \<Rightarrow> Height \<Rightarrow> Height \<Rightarrow> string \<Rightarrow> MsgConnectionOpenTry" where
  "NewMsgConnectionOpenTry E previousConnectionID clientID counterpartyConnectionID counterpartyClientID counterpartyClient counterpartyPrefix
       counterpartyVersions delayPeriod proofInit proofClient proofConsensus proofHeight consensusHeight signer =
     \<lparr> mct_ClientId = clientID, mct_PreviousConnectionId = previousConnectionID,
       mct_ClientState = packed_or_nil counterpartyClient (PackClientState E counterpartyClient),
       mct_Counterparty = NewCounterparty counterpartyClientID counterpartyConnectionID counterpartyPrefix,
       mct_DelayPeriod = delayPeriod, mct_CounterpartyVersions = counterpartyVersions, mct_ProofHeight = proofHeight,
       mct_ProofInit = proofInit, mct_ProofClient = proofClient, mct_ProofConsensus = proofConsensus,
       mct_ConsensusHeight = consensusHeight, mct_Signer = signer \<rparr>"

definition NewMsgConnectionOpenAck :: "('k, 'x) codec_env_scheme \<Rightarrow> string \<Rightarrow> string \<Rightarrow> ClientState option \<Rightarrow> bytes \<Rightarrow> bytes \<Rightarrow> bytes \<Rightarrow> Height \<Rightarrow>
    Height \<Rightarrow> Version option \<Rightarrow> string \<Rightarrow> MsgConnectionOpenAck" where
  "NewMsgConnectionOpenAck E connectionID counterpartyConnectionID counterpartyClient proofTry proofClient proofConsensus proofHeight
       consensusHeight version signer =
     \<lparr> mca_ConnectionId = connectionID, mca_CounterpartyConnectionId = counterpartyConnectionID, mca_Version = version,
       mca_ClientState = packed_or_nil counterpartyClient (PackClientState E counterpartyClient), mca_ProofHeight = proofHeight,
       mca_ProofTry = proofTry, mca_ProofClient = proofClient, mca_ProofConsensus = proofConsensus,
       mca_ConsensusHeight = consensusHeight, mca_Signer = signer \<rparr>"

definition NewMsgConnectionOpenConfirm :: "string \<Rightarrow> bytes \<Rightarrow> Height \<Rightarrow> string \<Rightarrow> MsgConnectionOpenConfirm" where
  "NewMsgConnectionOpenConfirm connectionID proofAck proofHeight signer =
     \<lparr> mco_ConnectionId = connectionID, mco_ProofAck = proofAck, mco_ProofHeight = proofHeight, mco_Signer = signer \<rparr>"

subsection \<open>04-channel\<close>

definition NewMsgChannelOpenTry :: "string \<Rightarrow> string \<Rightarrow> string \<Rightarrow> Order \<Rightarrow> string list \<Rightarrow> string \<Rightarrow> string \<Rightarrow> string \<Rightarrow> bytes \<Rightarrow> Height \<Rightarrow> string \<Rightarrow>
    MsgChannelOpenTry" where
  "NewMsgChannelOpenTry portID previousChannelID version channelOrder connectionHops counterpartyPortID counterpartyChannelID
       counterpartyVersion proofInit proofHeight signer =
     \<lparr> mht_PortId = portID, mht_PreviousChannelId = previousChannelID,
       mht_Channel = NewChannel TRYOPEN channelOrder (chan_NewCounterparty counterpartyPortID counterpartyChannelID) connectionHops version,
       mht_CounterpartyVersion = counterpartyVersion, mht_ProofInit = proofInit, mht_ProofHeight = proofHeight, mht_Signer = signer \<rparr>"

definition NewMsgChannelOpenAck :: "string \<Rightarrow> string \<Rightarrow> string \<Rightarrow> string \<Rightarrow> bytes \<Rightarrow> Height \<Rightarrow> string \<Rightarrow> MsgChannelOpenAck" where
  "NewMsgChannelOpenAck portID channelID counterpartyChannelID cpv proofTry proofHeight signer =
     \<lparr> mha_PortId = portID, mha_ChannelId = channelID, mha_CounterpartyChannelId = counterpartyChannelID, mha_CounterpartyVersion = cpv,
       mha_ProofTry = proofTry, mha_ProofHeight = proofHeight, mha_Signer = signer \<rparr>"

definition NewMsgChannelOpenConfirm :: "string \<Rightarrow> string \<Rightarrow> bytes \<Rightarrow> Height \<Rightarrow> string \<Rightarrow> MsgChannelOpenConfirm" where
  "NewMsgChannelOpenConfirm portID channelID proofAck proofHeight signer =
     \<lparr> mho_PortId = portID, mho_ChannelId = channelID, mho_ProofAck = proofAck, mho_ProofHeight = proofHeight, mho_Signer = signer \<rparr>"

definition NewMsgChannelCloseInit :: "string \<Rightarrow> string \<Rightarrow> string \<Rightarrow> MsgChannelCloseInit" where
  "NewMsgChannelCloseInit portID channelID signer = \<lparr> mhc_PortId = portID, mhc_ChannelId = channelID, mhc_Signer = signer \<rparr>"

definition NewMsgChannelCloseConfirm :: "string \<Rightarrow> string \<Rightarrow> bytes \<Rightarrow> Height \<Rightarrow> string \<Rightarrow> MsgChannelCloseConfirm" where
  "NewMsgChannelCloseConfirm portID channelID proofInit proofHeight signer =
     \<lparr> mhf_PortId = portID, mhf_ChannelId = channelID, mhf_ProofInit = proofInit, mhf_ProofHeight = proofHeight, mhf_Signer = signer \<rparr>"

definition NewMsgRecvPacket :: "Packet \<Rightarrow> bytes \<Rightarrow> Height \<Rightarrow> string \<Rightarrow> MsgRecvPacket" where
  "NewMsgRecvPacket packet proofCommitment proofHeight signer =
     \<lparr> mrp_Packet = packet, mrp_ProofCommitment = proofCommitment, mrp_ProofHeight = proofHeight, mrp_Signer = signer \<rparr>"

definition NewMsgTimeout :: "Packet \<Rightarrow> u64 \<Rightarrow> bytes \<Rightarrow> Height \<Rightarrow> string \<Rightarrow> MsgTimeout" where
  "NewMsgTimeout packet nextSeqRecv proofUnreceived proofHeight signer =
     \<lparr> mto_Packet = packet, mto_ProofUnreceived = proofUnreceived, mto_ProofHeight = proofHeight,
       mto_NextSequenceRecv = nextSeqRecv, mto_Signer = signer \<rparr>"

definition NewMsgTimeoutOnClose :: "Packet \<Rightarrow> u64 \<Rightarrow> bytes \<Rightarrow> bytes \<Rightarrow> Height \<Rightarrow> string \<Rightarrow> MsgTimeoutOnClose" where
  "NewMsgTimeoutOnClose packet nextSeqRecv proofUnreceived proofClose proofHeight signer =
     \<lparr> mtc_Packet = packet, mtc_ProofUnreceived = proofUnreceived, mtc_ProofClose = proofClose, mtc_ProofHeight = proofHeight,
       mtc_NextSequenceRecv = nextSeqRecv, mtc_Signer = signer \<rparr>"

definition NewMsgAcknowledgement :: "Packet \<Rightarrow> bytes \<Rightarrow> bytes \<Rightarrow> Height \<Rightarrow> string \<Rightarrow> MsgAcknowledgement" where
  "NewMsgAcknowledgement packet ack proofAcked proofHeight signer =
     \<lparr> mak_Packet = packet, mak_Acknowledgement = ack, mak_ProofAcked = proofAcked, mak_ProofHeight = proofHeight, mak_Signer = signer \<rparr>"

lemmas msg_constructors = NewMsgRecvPacket_def NewMsgTimeout_def NewMsgTimeoutOnClose_def NewMsgAcknowledgement_def
  NewMsgChannelOpenTry_def NewMsgChannelOpenAck_def NewMsgChannelOpenConfirm_def NewMsgChannelCloseInit_def NewMsgChannelCloseConfirm_def
  NewMsgChannelOpenInit_def NewMsgConnectionOpenConfirm_def

subsection \<open>What is built is well formed\<close>

lemma packed_Inr [simp]: "packed v r = Inr x \<longleftrightarrow> is_ok r \<and> x = v"
  by (cases r) (auto simp: packed_def)

text \<open>A message with packed values carries what was packed.\<close>

lemma client_messages_carry:
  "NewMsgCreateClient E cs c signer = Inr m \<Longrightarrow> mcc_ClientState m = cs \<and> cs \<noteq> None \<and> mcc_ConsensusState m = c \<and> c \<noteq> None"
  "NewMsgUpdateClient E cid h signer = Inr m' \<Longrightarrow> muc_Header m' = h \<and> h \<noteq> None"
  "NewMsgSubmitMisbehaviour E cid mb signer = Inr m'' \<Longrightarrow> msm_Misbehaviour m'' = mb \<and> mb \<noteq> None"
  by (auto simp: NewMsgCreateClient_def NewMsgUpdateClient_def NewMsgSubmitMisbehaviour_def PackClientState_def PackConsensusState_def
      PackHeader_def PackMisbehaviour_def result_elims is_ok_iff)

text \<open>A failure of packing that the constructor ignores is caught by the validation of the message.\<close>

lemma unpacked_client_refused:
  assumes "\<not> is_ok (PackClientState E client)"
  shows "\<not> is_ok (ValidateBasic E' (ConnectionOpenTryMsg (NewMsgConnectionOpenTry E prev cid ccid cclid client pre vs d pi pc ps h ch signer)))"
    "\<not> is_ok (ValidateBasic E' (ConnectionOpenAckMsg (NewMsgConnectionOpenAck E conn ccid client pt pc ps h ch v signer)))"
  using assms
  by (auto simp: is_ok_iff NewMsgConnectionOpenTry_def NewMsgConnectionOpenAck_def packed_or_nil_def MsgConnectionOpenTry_ValidateBasic_def
      MsgConnectionOpenAck_ValidateBasic_def check_client_def result_elims split: sum.splits if_splits)

text \<open>
  C16: every packet that a chain sends can be relayed: the messages that the constructors build for it, to
  receive it, to acknowledge it and to time it out in either way, pass the stateless
  validation whenever the proofs are not empty, the height is not zero and the signer is an address, and their
  only signer is the relayer.
\<close>

theorem sent_packet_is_relayable:
  assumes sent: "SendPacket E ctx s cap p = Inr s'"
    and r: "sdk_AccAddressOk E' signer" "\<not> IsZero h" "pf \<noteq> []" "pf' \<noteq> []" "ack \<noteq> []" "n \<noteq> 0"
    and m: "m \<in> {RecvPacketMsg (NewMsgRecvPacket p pf h signer), AcknowledgementMsg (NewMsgAcknowledgement p ack pf h signer),
      TimeoutMsg (NewMsgTimeout p n pf h signer), TimeoutOnCloseMsg (NewMsgTimeoutOnClose p n pf pf' h signer)}"
  shows "ValidateBasic E' m = Inr () \<and> GetSigners E' m = Inr [signer]"
proof -
  from SendPacket_Inr [OF sent] have "Packet_ValidateBasic p = Inr ()" by blast
  with r m show ?thesis by (auto simp: msg_constructors msg_defs GetSigners_def simp del: first_error.simps)
qed

lemma demo_sends:
  "\<exists>s'. SendPacket demo_kenv demo_ctx (demo_flow b) None (NewPacket ''data'' 2 ''transfer'' ''channel-0'' ''transfer'' ''channel-7'' (Height 1 1000) 0) = Inr s'"
proof -
  have c: "tm_Status demo_ctx (clientStores (demo_flow b) (conn_ClientId demo_open_conn)) demo_tm2 = Active"
    "tm_LatestHeight demo_tm2 = Height 1 5" "ParseClientIdentifier (conn_ClientId demo_open_conn) = Inr (Tendermint, 0)"
    "\<not> GTE (Height 1 5) (Height 1 1000)" "\<not> IsZero (Height 1 1000)" "PortIdentifierValidator ''transfer'' = Inr ()"
    "ChannelIdentifierValidator ''channel-0'' = Inr ()" "ChannelIdentifierValidator ''channel-7'' = Inr ()" by code_simp+
  have "GetClientState (demo_flow b) (conn_ClientId demo_open_conn) = Some (TMClient demo_tm2)"
    by (simp add: GetClientState_def demo_flow_def demo_conn_state_def set_client_store_def demo_open_conn_def NewConnectionEnd_def)
  moreover have "GetNextSequenceSend (demo_flow b) ''transfer'' ''channel-0'' = Some 2" by (simp add: GetNextSequenceSend_def demo_flow_def)
  ultimately show ?thesis
    by (simp add: SendPacket_def NewPacket_def Packet_ValidateBasic_def demo_flow_fields chan_NewCounterparty_def c Let_def)
qed

theorem sent_packet_is_relayable_witness:
  "ValidateBasic demo_kenv (RecvPacketMsg (NewMsgRecvPacket
     (NewPacket ''data'' 2 ''transfer'' ''channel-0'' ''transfer'' ''channel-7'' (Height 1 1000) 0) ''p'' (Height 1 5) ''relayer'')) = Inr ()"
proof -
  obtain s' where s: "SendPacket demo_kenv demo_ctx (demo_flow []) None
      (NewPacket ''data'' 2 ''transfer'' ''channel-0'' ''transfer'' ''channel-7'' (Height 1 1000) 0) = Inr s'"
    using demo_sends by blast
  have "sdk_AccAddressOk demo_kenv ''relayer''" "\<not> IsZero (Height 1 5)" by code_simp+
  from sent_packet_is_relayable [OF s this _ _ _ _ insertI1, of "''p''" "''q''" "''a''" 1] show ?thesis by simp
qed

end
