(* ===== verification/CoreQueries.thy ===== *)
theory CoreQueries
  imports ClientProposals PacketFlow "HOL-Library.Multiset"
begin

text \<open>
  The gRPC queries of the core module (\<^verbatim>\<open>keeper/grpc_query.go\<close> of 02-client, 03-connection and
  04-channel), their response types (\<^verbatim>\<open>types/query.go\<close>) and the server that delegates to them
  (\<^verbatim>\<open>core/keeper/grpc_query.go\<close>). A request is \<open>None\<close> when it is nil; a request with one field
  is that field. The pagination functions of the SDK are parameters that return the entries on which the
  callback is called: \<^verbatim>\<open>Paginate\<close> calls it on the entries of a page, \<^verbatim>\<open>FilteredPaginate\<close> also on the entries
  before the page, with a flag that tells the two apart.

  The theorems show what relayers rely on: the queries for unreceived packets and
  acknowledgements return exactly the sequences whose messages are still to be
  submitted, and following the pages of a listing gives exactly the entries of the store.
\<close>

subsection \<open>Errors and pagination\<close>

datatype status_code = InvalidArgument | NotFound | Internal

text \<open>An error with a gRPC status, or any other error.\<close>

datatype query_error = GrpcStatus status_code | Plain error

type_synonym 'a query_result = "query_error + 'a"

text \<open>The page types of the SDK (\<^verbatim>\<open>types/query\<close>).\<close>

record PageRequest =
  pg_Key :: bytes
  pg_Offset :: u64
  pg_Limit :: u64
  pg_CountTotal :: bool
  pg_Reverse :: bool

record PageResponse =
  pg_NextKey :: bytes
  pg_Total :: u64

type_synonym store_kv = "bytes \<times> store_value"

record 'k query_env = "'k codec_env" +
  sdk_Paginate :: "store_kv list \<Rightarrow> PageRequest option \<Rightarrow> (store_kv list \<times> PageResponse) result"
  sdk_FilteredPaginate :: "store_kv list \<Rightarrow> PageRequest option \<Rightarrow> (store_kv \<Rightarrow> bool result) \<Rightarrow>
    ((store_kv \<times> bool) list \<times> PageResponse) result"

text \<open>\<^verbatim>\<open>prefix.NewStore\<close>: the entries under a prefix, by the rest of their keys.\<close>

definition prefix_store :: "('k, 'x) store_env_scheme \<Rightarrow> 'k ibc_state \<Rightarrow> bytes \<Rightarrow> store_kv list" where
  "prefix_store E s p = map (\<lambda>e. (drop (length p) (fst e), snd e)) (kv_PrefixIterator E s p)"

definition plain :: "'a result \<Rightarrow> 'a query_result" where
  "plain r = (case r of Inl e \<Rightarrow> Inl (Plain e) | Inr x \<Rightarrow> Inr x)"

definition with_code :: "status_code \<Rightarrow> 'a result \<Rightarrow> 'a query_result" where
  "with_code c r = (case r of Inl Panic \<Rightarrow> Inl (Plain Panic) | Inl e \<Rightarrow> Inl (GrpcStatus c) | Inr x \<Rightarrow> Inr x)"

text \<open>A page: the callback decodes an entry, appends the result, and an error ends the query.\<close>

definition paginate :: "('k, 'x) query_env_scheme \<Rightarrow> store_kv list \<Rightarrow> PageRequest option \<Rightarrow> (store_kv \<Rightarrow> 'i decoded) \<Rightarrow>
    ('i list \<times> PageResponse) query_result" where
  "paginate E store pagination dec =
     (case plain (sdk_Paginate E store pagination) of Inl e \<Rightarrow> Inl e | Inr (page, pageRes) \<Rightarrow>
     (case plain (go_iterate dec (append_item id) page []) of Inl e \<Rightarrow> Inl e | Inr l \<Rightarrow> Inr (l, pageRes)))"

subsection \<open>02-client (keeper/grpc_query.go, types/query.go)\<close>

record QueryClientStateResponse =
  csr_ClientState :: any_value
  csr_Proof :: bytes
  csr_ProofHeight :: Height

record QueryClientStatesResponse =
  cssr_ClientStates :: "IdentifiedClientState list"
  cssr_Pagination :: PageResponse

record QueryConsensusStateRequest =
  conq_ClientId :: string
  conq_RevisionNumber :: u64
  conq_RevisionHeight :: u64
  conq_LatestHeight :: bool

record QueryConsensusStateResponse =
  conr_ConsensusState :: any_value
  conr_Proof :: bytes
  conr_ProofHeight :: Height

record QueryConsensusStatesRequest =
  consq_ClientId :: string
  consq_Pagination :: "PageRequest option"

record QueryConsensusStatesResponse =
  consr_ConsensusStates :: "ConsensusStateWithHeight list"
  consr_Pagination :: PageResponse

definition NewQueryClientStateResponse :: "any_value \<Rightarrow> bytes \<Rightarrow> Height \<Rightarrow> QueryClientStateResponse" where
  "NewQueryClientStateResponse clientStateAny pf height =
     \<lparr> csr_ClientState = clientStateAny, csr_Proof = pf, csr_ProofHeight = height \<rparr>"

definition NewQueryConsensusStateResponse :: "any_value \<Rightarrow> bytes \<Rightarrow> Height \<Rightarrow> QueryConsensusStateResponse" where
  "NewQueryConsensusStateResponse consensusStateAny pf height =
     \<lparr> conr_ConsensusState = consensusStateAny, conr_Proof = pf, conr_ProofHeight = height \<rparr>"

definition query_ClientState :: "('k, 'x) query_env_scheme \<Rightarrow> ctx \<Rightarrow> 'k ibc_state \<Rightarrow> string option \<Rightarrow> QueryClientStateResponse query_result" where
  "query_ClientState E ctx s req =
     (case req of None \<Rightarrow> Inl (GrpcStatus InvalidArgument) | Some clientId \<Rightarrow>
     (case with_code InvalidArgument (ClientIdentifierValidator clientId) of Inl e \<Rightarrow> Inl e | Inr _ \<Rightarrow>
     (case GetClientState s clientId of None \<Rightarrow> Inl (GrpcStatus NotFound) | Some clientState \<Rightarrow>
     (case with_code Internal (PackClientState E (Some clientState)) of Inl e \<Rightarrow> Inl e | Inr any \<Rightarrow>
     (case plain (GetSelfHeight ctx) of Inl e \<Rightarrow> Inl e | Inr proofHeight \<Rightarrow>
      Inr \<lparr> csr_ClientState = any, csr_Proof = [], csr_ProofHeight = proofHeight \<rparr>)))))"

definition decode_client_page :: "store_kv \<Rightarrow> IdentifiedClientState decoded" where
  "decode_client_page e =
     (let keySplit = split_on (CHR ''/'') (fst e) in
      if last keySplit \<noteq> ''clientState'' then Skip
      else case snd e of
        ClientStateV clientState \<Rightarrow>
          if length keySplit < 2 then Fail Panic
          else (case ClientIdentifierValidator (keySplit ! 1) of Inl err \<Rightarrow> Fail err | Inr _ \<Rightarrow>
                Item (NewIdentifiedClientState (keySplit ! 1) clientState))
      | _ \<Rightarrow> Fail (External ''codec''))"

definition query_ClientStates :: "('k, 'x) query_env_scheme \<Rightarrow> 'k ibc_state \<Rightarrow> PageRequest option option \<Rightarrow> QueryClientStatesResponse query_result" where
  "query_ClientStates E s req =
     (case req of None \<Rightarrow> Inl (GrpcStatus InvalidArgument) | Some pagination \<Rightarrow>
     (case paginate E (prefix_store E s KeyClientStorePrefix) pagination decode_client_page of Inl e \<Rightarrow> Inl e | Inr (clientStates, pageRes) \<Rightarrow>
      Inr \<lparr> cssr_ClientStates = sort_key ics_ClientId clientStates, cssr_Pagination = pageRes \<rparr>))"

definition query_ConsensusState :: "('k, 'x) query_env_scheme \<Rightarrow> ctx \<Rightarrow> 'k ibc_state \<Rightarrow> QueryConsensusStateRequest option \<Rightarrow>
    QueryConsensusStateResponse query_result" where
  "query_ConsensusState E ctx s req =
     (case req of None \<Rightarrow> Inl (GrpcStatus InvalidArgument) | Some req \<Rightarrow>
     (case with_code InvalidArgument (ClientIdentifierValidator (conq_ClientId req)) of Inl e \<Rightarrow> Inl e | Inr _ \<Rightarrow>
      let height = NewHeight (conq_RevisionNumber req) (conq_RevisionHeight req) in
     (case (if conq_LatestHeight req then Inr (GetLatestClientConsensusState s (conq_ClientId req))
            else if conq_RevisionHeight req = 0 then Inl (GrpcStatus InvalidArgument)
            else Inr (GetClientConsensusState s (conq_ClientId req) height)) of Inl e \<Rightarrow> Inl e | Inr found \<Rightarrow>
     (case found of None \<Rightarrow> Inl (GrpcStatus NotFound) | Some consensusState \<Rightarrow>
     (case with_code Internal (PackConsensusState E (Some consensusState)) of Inl e \<Rightarrow> Inl e | Inr any \<Rightarrow>
     (case plain (GetSelfHeight ctx) of Inl e \<Rightarrow> Inl e | Inr proofHeight \<Rightarrow>
      Inr \<lparr> conr_ConsensusState = any, conr_Proof = [], conr_ProofHeight = proofHeight \<rparr>))))))"

definition decode_consensus_page :: "store_kv \<Rightarrow> ConsensusStateWithHeight decoded" where
  "decode_consensus_page e =
     (if CHR ''/'' \<in> set (fst e) then Skip
      else case ParseHeight (fst e) of Inl err \<Rightarrow> Fail err | Inr height \<Rightarrow>
     (case snd e of
        ConsensusStateV consensusState \<Rightarrow> Item (NewConsensusStateWithHeight height consensusState)
      | _ \<Rightarrow> Fail (External ''codec'')))"

definition hit :: "'i decoded \<Rightarrow> bool result" where
  "hit d = (case d of Fail err \<Rightarrow> Inl err | Item _ \<Rightarrow> Inr True | _ \<Rightarrow> Inr False)"

text \<open>The callback appends the consensus state whatever its \<^verbatim>\<open>accumulate\<close> flag is.\<close>

definition query_ConsensusStates :: "('k, 'x) query_env_scheme \<Rightarrow> 'k ibc_state \<Rightarrow> QueryConsensusStatesRequest option \<Rightarrow>
    QueryConsensusStatesResponse query_result" where
  "query_ConsensusStates E s req =
     (case req of None \<Rightarrow> Inl (GrpcStatus InvalidArgument) | Some req \<Rightarrow>
     (case with_code InvalidArgument (ClientIdentifierValidator (consq_ClientId req)) of Inl e \<Rightarrow> Inl e | Inr _ \<Rightarrow>
      let store = prefix_store E s (FullClientPath (consq_ClientId req) (KeyConsensusStatePrefix @ ''/'')) in
     (case plain (sdk_FilteredPaginate E store (consq_Pagination req) (\<lambda>e. hit (decode_consensus_page e))) of
        Inl e \<Rightarrow> Inl e | Inr (calls, pageRes) \<Rightarrow>
      Inr \<lparr> consr_ConsensusStates = items decode_consensus_page (map fst calls), consr_Pagination = pageRes \<rparr>)))"

fun Status_String :: "Status \<Rightarrow> string" where
  "Status_String Active = ''Active''"
| "Status_String Frozen = ''Frozen''"
| "Status_String Expired = ''Expired''"
| "Status_String Unknown = ''Unknown''"

definition query_ClientStatus :: "ctx \<Rightarrow> 'k ibc_state \<Rightarrow> string option \<Rightarrow> string query_result" where
  "query_ClientStatus ctx s req =
     (case req of None \<Rightarrow> Inl (GrpcStatus InvalidArgument) | Some clientId \<Rightarrow>
     (case with_code InvalidArgument (ClientIdentifierValidator clientId) of Inl e \<Rightarrow> Inl e | Inr _ \<Rightarrow>
     (case GetClientState s clientId of None \<Rightarrow> Inl (GrpcStatus NotFound) | Some clientState \<Rightarrow>
      Inr (Status_String (client_Status ctx (clientStores s clientId) clientState)))))"

definition query_ClientParams :: "'k ibc_state \<Rightarrow> string list query_result" where
  "query_ClientParams s = Inr (allowedClients s)"

record 'u upgrade_queries = "'u upgrade_keeper" +
  upg_GetUpgradedConsensusState :: "'u \<Rightarrow> int \<Rightarrow> bytes option"

definition query_UpgradedClientState :: "('k, 'x) query_env_scheme \<Rightarrow> ('u, 'y) upgrade_keeper_scheme \<Rightarrow> 'u \<Rightarrow> unit option \<Rightarrow> any_value query_result" where
  "query_UpgradedClientState E U u req =
     (case req of None \<Rightarrow> Inl (GrpcStatus InvalidArgument) | Some _ \<Rightarrow>
     (case upg_GetUpgradePlan U u of None \<Rightarrow> Inl (GrpcStatus NotFound) | Some planHeight \<Rightarrow>
     (case upg_GetUpgradedClient U u planHeight of None \<Rightarrow> Inl (GrpcStatus NotFound) | Some bz \<Rightarrow>
     (case with_code Internal (UnmarshalClientState E bz) of Inl e \<Rightarrow> Inl e | Inr clientState \<Rightarrow>
      with_code Internal (PackClientState E (Some clientState))))))"

definition query_UpgradedConsensusState :: "('k, 'x) query_env_scheme \<Rightarrow> 'u upgrade_queries \<Rightarrow> ctx \<Rightarrow> 'u \<Rightarrow> unit option \<Rightarrow> any_value query_result" where
  "query_UpgradedConsensusState E U ctx u req =
     (case req of None \<Rightarrow> Inl (GrpcStatus InvalidArgument) | Some _ \<Rightarrow>
     (case upg_GetUpgradedConsensusState U u (BlockHeight ctx) of None \<Rightarrow> Inl (GrpcStatus NotFound) | Some bz \<Rightarrow>
     (case with_code Internal (UnmarshalConsensusState E bz) of Inl e \<Rightarrow> Inl e | Inr consensusState \<Rightarrow>
      with_code Internal (PackConsensusState E (Some consensusState)))))"

subsection \<open>03-connection (keeper/grpc_query.go, types/query.go)\<close>

record QueryConnectionResponse =
  connr_Connection :: ConnectionEnd
  connr_Proof :: bytes
  connr_ProofHeight :: Height

record QueryConnectionsResponse =
  connsr_Connections :: "IdentifiedConnection list"
  connsr_Pagination :: PageResponse
  connsr_Height :: Height

record QueryClientConnectionsResponse =
  ccr_ConnectionPaths :: "string list"
  ccr_Proof :: bytes
  ccr_ProofHeight :: Height

text \<open>The responses of the connection and of the channel queries have the same fields.\<close>

record IdentifiedClientResponse =
  icr_IdentifiedClientState :: IdentifiedClientState
  icr_Proof :: bytes
  icr_ProofHeight :: Height

record ClientConsensusResponse =
  ckr_ConsensusState :: any_value
  ckr_ClientId :: string
  ckr_Proof :: bytes
  ckr_ProofHeight :: Height

record QueryConnectionConsensusStateRequest =
  ccsq_ConnectionId :: string
  ccsq_RevisionNumber :: u64
  ccsq_RevisionHeight :: u64

definition NewQueryConnectionResponse :: "ConnectionEnd \<Rightarrow> bytes \<Rightarrow> Height \<Rightarrow> QueryConnectionResponse" where
  "NewQueryConnectionResponse connection pf height =
     \<lparr> connr_Connection = connection, connr_Proof = pf, connr_ProofHeight = height \<rparr>"

definition NewQueryClientConnectionsResponse :: "string list \<Rightarrow> bytes \<Rightarrow> Height \<Rightarrow> QueryClientConnectionsResponse" where
  "NewQueryClientConnectionsResponse connectionPaths pf height =
     \<lparr> ccr_ConnectionPaths = connectionPaths, ccr_Proof = pf, ccr_ProofHeight = height \<rparr>"

definition NewQueryConnectionClientStateResponse :: "IdentifiedClientState \<Rightarrow> bytes \<Rightarrow> Height \<Rightarrow> IdentifiedClientResponse" where
  "NewQueryConnectionClientStateResponse identifiedClientState pf height =
     \<lparr> icr_IdentifiedClientState = identifiedClientState, icr_Proof = pf, icr_ProofHeight = height \<rparr>"

text \<open>The height of the consensus state is passed and not used.\<close>

definition NewQueryConnectionConsensusStateResponse :: "string \<Rightarrow> any_value \<Rightarrow> Height \<Rightarrow> bytes \<Rightarrow> Height \<Rightarrow> ClientConsensusResponse" where
  "NewQueryConnectionConsensusStateResponse clientID anyConsensusState consensusStateHeight pf height =
     \<lparr> ckr_ConsensusState = anyConsensusState, ckr_ClientId = clientID, ckr_Proof = pf, ckr_ProofHeight = height \<rparr>"

definition query_Connection :: "ctx \<Rightarrow> 'k ibc_state \<Rightarrow> string option \<Rightarrow> QueryConnectionResponse query_result" where
  "query_Connection ctx s req =
     (case req of None \<Rightarrow> Inl (GrpcStatus InvalidArgument) | Some connectionId \<Rightarrow>
     (case with_code InvalidArgument (ConnectionIdentifierValidator connectionId) of Inl e \<Rightarrow> Inl e | Inr _ \<Rightarrow>
     (case GetConnection s connectionId of None \<Rightarrow> Inl (GrpcStatus NotFound) | Some connection \<Rightarrow>
     (case plain (GetSelfHeight ctx) of Inl e \<Rightarrow> Inl e | Inr height \<Rightarrow>
      Inr \<lparr> connr_Connection = connection, connr_Proof = [], connr_ProofHeight = height \<rparr>))))"

definition decode_connection_page :: "store_kv \<Rightarrow> IdentifiedConnection decoded" where
  "decode_connection_page e =
     (case snd e of
        ConnectionV result \<Rightarrow>
         (case ParseConnectionPath (fst e) of Inl err \<Rightarrow> Fail err | Inr connectionID \<Rightarrow>
          Item (NewIdentifiedConnection connectionID result))
      | _ \<Rightarrow> Fail (External ''codec''))"

definition query_Connections :: "('k, 'x) query_env_scheme \<Rightarrow> ctx \<Rightarrow> 'k ibc_state \<Rightarrow> PageRequest option option \<Rightarrow> QueryConnectionsResponse query_result" where
  "query_Connections E ctx s req =
     (case req of None \<Rightarrow> Inl (GrpcStatus InvalidArgument) | Some pagination \<Rightarrow>
     (case paginate E (prefix_store E s KeyConnectionPrefix) pagination decode_connection_page of Inl e \<Rightarrow> Inl e | Inr (conns, pageRes) \<Rightarrow>
     (case plain (GetSelfHeight ctx) of Inl e \<Rightarrow> Inl e | Inr height \<Rightarrow>
      Inr \<lparr> connsr_Connections = conns, connsr_Pagination = pageRes, connsr_Height = height \<rparr>)))"

definition query_ClientConnections :: "ctx \<Rightarrow> 'k ibc_state \<Rightarrow> string option \<Rightarrow> QueryClientConnectionsResponse query_result" where
  "query_ClientConnections ctx s req =
     (case req of None \<Rightarrow> Inl (GrpcStatus InvalidArgument) | Some clientId \<Rightarrow>
     (case with_code InvalidArgument (ClientIdentifierValidator clientId) of Inl e \<Rightarrow> Inl e | Inr _ \<Rightarrow>
     (case GetClientConnectionPaths s clientId of None \<Rightarrow> Inl (GrpcStatus NotFound) | Some clientConnectionPaths \<Rightarrow>
     (case plain (GetSelfHeight ctx) of Inl e \<Rightarrow> Inl e | Inr height \<Rightarrow>
      Inr \<lparr> ccr_ConnectionPaths = clientConnectionPaths, ccr_Proof = [], ccr_ProofHeight = height \<rparr>))))"

definition query_ConnectionClientState :: "ctx \<Rightarrow> 'k ibc_state \<Rightarrow> string option \<Rightarrow> IdentifiedClientResponse query_result" where
  "query_ConnectionClientState ctx s req =
     (case req of None \<Rightarrow> Inl (GrpcStatus InvalidArgument) | Some connectionId \<Rightarrow>
     (case with_code InvalidArgument (ConnectionIdentifierValidator connectionId) of Inl e \<Rightarrow> Inl e | Inr _ \<Rightarrow>
     (case GetConnection s connectionId of None \<Rightarrow> Inl (GrpcStatus NotFound) | Some connection \<Rightarrow>
     (case GetClientState s (conn_ClientId connection) of None \<Rightarrow> Inl (GrpcStatus NotFound) | Some clientState \<Rightarrow>
      let identifiedClientState = NewIdentifiedClientState (conn_ClientId connection) clientState in
     (case plain (GetSelfHeight ctx) of Inl e \<Rightarrow> Inl e | Inr height \<Rightarrow>
      Inr (NewQueryConnectionClientStateResponse identifiedClientState [] height))))))"

definition query_ConnectionConsensusState :: "('k, 'x) query_env_scheme \<Rightarrow> ctx \<Rightarrow> 'k ibc_state \<Rightarrow> QueryConnectionConsensusStateRequest option \<Rightarrow>
    ClientConsensusResponse query_result" where
  "query_ConnectionConsensusState E ctx s req =
     (case req of None \<Rightarrow> Inl (GrpcStatus InvalidArgument) | Some req \<Rightarrow>
     (case with_code InvalidArgument (ConnectionIdentifierValidator (ccsq_ConnectionId req)) of Inl e \<Rightarrow> Inl e | Inr _ \<Rightarrow>
     (case GetConnection s (ccsq_ConnectionId req) of None \<Rightarrow> Inl (GrpcStatus NotFound) | Some connection \<Rightarrow>
      let height = NewHeight (ccsq_RevisionNumber req) (ccsq_RevisionHeight req) in
     (case GetClientConsensusState s (conn_ClientId connection) height of None \<Rightarrow> Inl (GrpcStatus NotFound) | Some consensusState \<Rightarrow>
     (case with_code Internal (PackConsensusState E (Some consensusState)) of Inl e \<Rightarrow> Inl e | Inr anyConsensusState \<Rightarrow>
     (case plain (GetSelfHeight ctx) of Inl e \<Rightarrow> Inl e | Inr proofHeight \<Rightarrow>
      Inr (NewQueryConnectionConsensusStateResponse (conn_ClientId connection) anyConsensusState height [] proofHeight)))))))"

subsection \<open>04-channel (keeper/grpc_query.go, types/query.go)\<close>

record ChannelRequest =
  crq_PortId :: string
  crq_ChannelId :: string

record PacketRequest = ChannelRequest +
  prq_Sequence :: u64

record PageOfChannelRequest = ChannelRequest +
  pcq_Pagination :: "PageRequest option"

record QueryPacketAcknowledgementsRequest = PageOfChannelRequest +
  paq_PacketCommitmentSequences :: "u64 list"

record SequencesRequest = ChannelRequest +
  srq_Sequences :: "u64 list"

record QueryChannelConsensusStateRequest = ChannelRequest +
  hcq_RevisionNumber :: u64
  hcq_RevisionHeight :: u64

record QueryConnectionChannelsRequest =
  qcq_Connection :: string
  qcq_Pagination :: "PageRequest option"

record QueryChannelResponse =
  chr_Channel :: Channel
  chr_Proof :: bytes
  chr_ProofHeight :: Height

record ChannelsResponse =
  chsr_Channels :: "IdentifiedChannel list"
  chsr_Pagination :: PageResponse
  chsr_Height :: Height

record 'a ProvedResponse =
  pr_Value :: 'a
  pr_Proof :: bytes
  pr_ProofHeight :: Height

record PacketStatesResponse =
  psr_States :: "PacketState list"
  psr_Pagination :: "PageResponse option"
  psr_Height :: Height

record SequencesResponse =
  sqr_Sequences :: "u64 list"
  sqr_Height :: Height

definition NewQueryChannelResponse :: "Channel \<Rightarrow> bytes \<Rightarrow> Height \<Rightarrow> QueryChannelResponse" where
  "NewQueryChannelResponse channel pf height = \<lparr> chr_Channel = channel, chr_Proof = pf, chr_ProofHeight = height \<rparr>"

definition NewQueryChannelClientStateResponse :: "IdentifiedClientState \<Rightarrow> bytes \<Rightarrow> Height \<Rightarrow> IdentifiedClientResponse" where
  "NewQueryChannelClientStateResponse identifiedClientState pf height =
     \<lparr> icr_IdentifiedClientState = identifiedClientState, icr_Proof = pf, icr_ProofHeight = height \<rparr>"

definition NewQueryChannelConsensusStateResponse :: "string \<Rightarrow> any_value \<Rightarrow> Height \<Rightarrow> bytes \<Rightarrow> Height \<Rightarrow> ClientConsensusResponse" where
  "NewQueryChannelConsensusStateResponse clientID anyConsensusState consensusStateHeight pf height =
     \<lparr> ckr_ConsensusState = anyConsensusState, ckr_ClientId = clientID, ckr_Proof = pf, ckr_ProofHeight = height \<rparr>"

definition NewQueryPacketCommitmentResponse :: "bytes \<Rightarrow> bytes \<Rightarrow> Height \<Rightarrow> bytes ProvedResponse" where
  "NewQueryPacketCommitmentResponse commitment pf height = \<lparr> pr_Value = commitment, pr_Proof = pf, pr_ProofHeight = height \<rparr>"

definition NewQueryPacketReceiptResponse :: "bool \<Rightarrow> bytes \<Rightarrow> Height \<Rightarrow> bool ProvedResponse" where
  "NewQueryPacketReceiptResponse recvd pf height = \<lparr> pr_Value = recvd, pr_Proof = pf, pr_ProofHeight = height \<rparr>"

definition NewQueryPacketAcknowledgementResponse :: "bytes \<Rightarrow> bytes \<Rightarrow> Height \<Rightarrow> bytes ProvedResponse" where
  "NewQueryPacketAcknowledgementResponse acknowledgement pf height =
     \<lparr> pr_Value = acknowledgement, pr_Proof = pf, pr_ProofHeight = height \<rparr>"

definition NewQueryNextSequenceReceiveResponse :: "u64 \<Rightarrow> bytes \<Rightarrow> Height \<Rightarrow> u64 ProvedResponse" where
  "NewQueryNextSequenceReceiveResponse sequence pf height =
     \<lparr> pr_Value = sequence, pr_Proof = pf, pr_ProofHeight = height \<rparr>"

definition validategRPCRequest :: "string \<Rightarrow> string \<Rightarrow> unit query_result" where
  "validategRPCRequest portID channelID =
     (case with_code InvalidArgument (PortIdentifierValidator portID) of Inl e \<Rightarrow> Inl e | Inr _ \<Rightarrow>
     (case with_code InvalidArgument (ChannelIdentifierValidator channelID) of Inl e \<Rightarrow> Inl e | Inr _ \<Rightarrow> Inr ()))"

definition query_Channel :: "ctx \<Rightarrow> 'k ibc_state \<Rightarrow> ChannelRequest option \<Rightarrow> QueryChannelResponse query_result" where
  "query_Channel ctx s req =
     (case req of None \<Rightarrow> Inl (GrpcStatus InvalidArgument) | Some req \<Rightarrow>
     (case validategRPCRequest (crq_PortId req) (crq_ChannelId req) of Inl e \<Rightarrow> Inl e | Inr _ \<Rightarrow>
     (case GetChannel s (crq_PortId req) (crq_ChannelId req) of None \<Rightarrow> Inl (GrpcStatus NotFound) | Some channel \<Rightarrow>
     (case plain (GetSelfHeight ctx) of Inl e \<Rightarrow> Inl e | Inr selfHeight \<Rightarrow>
      Inr (NewQueryChannelResponse channel [] selfHeight)))))"

definition decode_channel_page :: "store_kv \<Rightarrow> IdentifiedChannel decoded" where
  "decode_channel_page e =
     (case snd e of
        ChannelV result \<Rightarrow>
         (case ParseChannelPath (fst e) of Inl err \<Rightarrow> Fail err | Inr (portID, channelID) \<Rightarrow>
          Item (NewIdentifiedChannel portID channelID result))
      | _ \<Rightarrow> Fail (External ''codec''))"

definition query_Channels :: "('k, 'x) query_env_scheme \<Rightarrow> ctx \<Rightarrow> 'k ibc_state \<Rightarrow> PageRequest option option \<Rightarrow> ChannelsResponse query_result" where
  "query_Channels E ctx s req =
     (case req of None \<Rightarrow> Inl (GrpcStatus InvalidArgument) | Some pagination \<Rightarrow>
     (case paginate E (prefix_store E s KeyChannelEndPrefix) pagination decode_channel_page of Inl e \<Rightarrow> Inl e | Inr (chans, pageRes) \<Rightarrow>
     (case plain (GetSelfHeight ctx) of Inl e \<Rightarrow> Inl e | Inr selfHeight \<Rightarrow>
      Inr \<lparr> chsr_Channels = chans, chsr_Pagination = pageRes, chsr_Height = selfHeight \<rparr>)))"

text \<open>The first hop is read without looking whether there is one.\<close>

definition decode_connection_channel :: "string \<Rightarrow> store_kv \<Rightarrow> IdentifiedChannel decoded" where
  "decode_connection_channel connection e =
     (case snd e of
        ChannelV result \<Rightarrow>
         (case first_hop (chan_ConnectionHops result) of Inl err \<Rightarrow> Fail err | Inr hop \<Rightarrow>
          if hop \<noteq> connection then Skip
          else case ParseChannelPath (fst e) of Inl err \<Rightarrow> Fail err | Inr (portID, channelID) \<Rightarrow>
          Item (NewIdentifiedChannel portID channelID result))
      | _ \<Rightarrow> Fail (External ''codec''))"

definition query_ConnectionChannels :: "('k, 'x) query_env_scheme \<Rightarrow> ctx \<Rightarrow> 'k ibc_state \<Rightarrow> QueryConnectionChannelsRequest option \<Rightarrow>
    ChannelsResponse query_result" where
  "query_ConnectionChannels E ctx s req =
     (case req of None \<Rightarrow> Inl (GrpcStatus InvalidArgument) | Some req \<Rightarrow>
     (case with_code InvalidArgument (ConnectionIdentifierValidator (qcq_Connection req)) of Inl e \<Rightarrow> Inl e | Inr _ \<Rightarrow>
     (case paginate E (prefix_store E s KeyChannelEndPrefix) (qcq_Pagination req) (decode_connection_channel (qcq_Connection req)) of
        Inl e \<Rightarrow> Inl e | Inr (chans, pageRes) \<Rightarrow>
     (case plain (GetSelfHeight ctx) of Inl e \<Rightarrow> Inl e | Inr selfHeight \<Rightarrow>
      Inr \<lparr> chsr_Channels = chans, chsr_Pagination = pageRes, chsr_Height = selfHeight \<rparr>))))"

definition query_ChannelClientState :: "ctx \<Rightarrow> 'k ibc_state \<Rightarrow> ChannelRequest option \<Rightarrow> IdentifiedClientResponse query_result" where
  "query_ChannelClientState ctx s req =
     (case req of None \<Rightarrow> Inl (GrpcStatus InvalidArgument) | Some req \<Rightarrow>
     (case validategRPCRequest (crq_PortId req) (crq_ChannelId req) of Inl e \<Rightarrow> Inl e | Inr _ \<Rightarrow>
     (case with_code NotFound (GetChannelClientState s (crq_PortId req) (crq_ChannelId req)) of Inl e \<Rightarrow> Inl e | Inr (clientID, clientState) \<Rightarrow>
      let identifiedClientState = NewIdentifiedClientState clientID clientState in
     (case plain (GetSelfHeight ctx) of Inl e \<Rightarrow> Inl e | Inr selfHeight \<Rightarrow>
      Inr (NewQueryChannelClientStateResponse identifiedClientState [] selfHeight)))))"

definition query_ChannelConsensusState :: "('k, 'x) query_env_scheme \<Rightarrow> ctx \<Rightarrow> 'k ibc_state \<Rightarrow> QueryChannelConsensusStateRequest option \<Rightarrow>
    ClientConsensusResponse query_result" where
  "query_ChannelConsensusState E ctx s req =
     (case req of None \<Rightarrow> Inl (GrpcStatus InvalidArgument) | Some req \<Rightarrow>
     (case validategRPCRequest (crq_PortId req) (crq_ChannelId req) of Inl e \<Rightarrow> Inl e | Inr _ \<Rightarrow>
     (case GetChannel s (crq_PortId req) (crq_ChannelId req) of None \<Rightarrow> Inl (GrpcStatus NotFound) | Some channel \<Rightarrow>
     (case with_code NotFound (hop_connection s (chan_ConnectionHops channel)) of Inl e \<Rightarrow> Inl e | Inr connection \<Rightarrow>
      let consHeight = NewHeight (hcq_RevisionNumber req) (hcq_RevisionHeight req) in
     (case GetClientConsensusState s (conn_ClientId connection) consHeight of None \<Rightarrow> Inl (GrpcStatus NotFound) | Some consensusState \<Rightarrow>
     (case with_code Internal (PackConsensusState E (Some consensusState)) of Inl e \<Rightarrow> Inl e | Inr anyConsensusState \<Rightarrow>
     (case plain (GetSelfHeight ctx) of Inl e \<Rightarrow> Inl e | Inr selfHeight \<Rightarrow>
      Inr (NewQueryChannelConsensusStateResponse (conn_ClientId connection) anyConsensusState consHeight [] selfHeight))))))))"

definition query_PacketCommitment :: "ctx \<Rightarrow> 'k ibc_state \<Rightarrow> PacketRequest option \<Rightarrow> bytes ProvedResponse query_result" where
  "query_PacketCommitment ctx s req =
     (case req of None \<Rightarrow> Inl (GrpcStatus InvalidArgument) | Some req \<Rightarrow>
     (case validategRPCRequest (crq_PortId req) (crq_ChannelId req) of Inl e \<Rightarrow> Inl e | Inr _ \<Rightarrow>
      if prq_Sequence req = 0 then Inl (GrpcStatus InvalidArgument)
      else let commitmentBz = GetPacketCommitment s (crq_PortId req) (crq_ChannelId req) (prq_Sequence req) in
      if length commitmentBz = 0 then Inl (GrpcStatus NotFound)
      else case plain (GetSelfHeight ctx) of Inl e \<Rightarrow> Inl e | Inr selfHeight \<Rightarrow>
      Inr (NewQueryPacketCommitmentResponse commitmentBz [] selfHeight)))"

definition decode_packet_page :: "string \<Rightarrow> string \<Rightarrow> store_kv \<Rightarrow> PacketState decoded" where
  "decode_packet_page portID channelID e =
     (let keySplit = split_on (CHR ''/'') (fst e) in
      case parse_uint64 (last keySplit) of None \<Rightarrow> Fail (External ''strconv'') | Some sequence \<Rightarrow>
      with_bytes (snd e) (\<lambda>val. Item (NewPacketState portID channelID sequence (Some val))))"

definition query_PacketCommitments :: "('k, 'x) query_env_scheme \<Rightarrow> ctx \<Rightarrow> 'k ibc_state \<Rightarrow> PageOfChannelRequest option \<Rightarrow>
    PacketStatesResponse query_result" where
  "query_PacketCommitments E ctx s req =
     (case req of None \<Rightarrow> Inl (GrpcStatus InvalidArgument) | Some req \<Rightarrow>
     (case validategRPCRequest (crq_PortId req) (crq_ChannelId req) of Inl e \<Rightarrow> Inl e | Inr _ \<Rightarrow>
     (case paginate E (prefix_store E s (PacketCommitmentPrefixPath (crq_PortId req) (crq_ChannelId req))) (pcq_Pagination req)
             (decode_packet_page (crq_PortId req) (crq_ChannelId req)) of Inl e \<Rightarrow> Inl e | Inr (commitments, pageRes) \<Rightarrow>
     (case plain (GetSelfHeight ctx) of Inl e \<Rightarrow> Inl e | Inr selfHeight \<Rightarrow>
      Inr \<lparr> psr_States = commitments, psr_Pagination = Some pageRes, psr_Height = selfHeight \<rparr>))))"

definition query_PacketReceipt :: "ctx \<Rightarrow> 'k ibc_state \<Rightarrow> PacketRequest option \<Rightarrow> bool ProvedResponse query_result" where
  "query_PacketReceipt ctx s req =
     (case req of None \<Rightarrow> Inl (GrpcStatus InvalidArgument) | Some req \<Rightarrow>
     (case validategRPCRequest (crq_PortId req) (crq_ChannelId req) of Inl e \<Rightarrow> Inl e | Inr _ \<Rightarrow>
      if prq_Sequence req = 0 then Inl (GrpcStatus InvalidArgument)
      else let recvd = GetPacketReceipt s (crq_PortId req) (crq_ChannelId req) (prq_Sequence req) \<noteq> None in
      case plain (GetSelfHeight ctx) of Inl e \<Rightarrow> Inl e | Inr selfHeight \<Rightarrow>
      Inr (NewQueryPacketReceiptResponse recvd [] selfHeight)))"

text \<open>The acknowledgement of a sequence, when there is one that is not empty.\<close>

definition stored_ack :: "'k ibc_state \<Rightarrow> string \<Rightarrow> string \<Rightarrow> u64 \<Rightarrow> bytes option" where
  "stored_ack s portID channelID sequence =
     (case GetPacketAcknowledgement s portID channelID sequence of None \<Rightarrow> None | Some bz \<Rightarrow> if length bz = 0 then None else Some bz)"

definition query_PacketAcknowledgement :: "ctx \<Rightarrow> 'k ibc_state \<Rightarrow> PacketRequest option \<Rightarrow> bytes ProvedResponse query_result" where
  "query_PacketAcknowledgement ctx s req =
     (case req of None \<Rightarrow> Inl (GrpcStatus InvalidArgument) | Some req \<Rightarrow>
     (case validategRPCRequest (crq_PortId req) (crq_ChannelId req) of Inl e \<Rightarrow> Inl e | Inr _ \<Rightarrow>
      if prq_Sequence req = 0 then Inl (GrpcStatus InvalidArgument)
      else case stored_ack s (crq_PortId req) (crq_ChannelId req) (prq_Sequence req) of
        None \<Rightarrow> Inl (GrpcStatus NotFound)
      | Some acknowledgementBz \<Rightarrow>
         (case plain (GetSelfHeight ctx) of Inl e \<Rightarrow> Inl e | Inr selfHeight \<Rightarrow>
          Inr (NewQueryPacketAcknowledgementResponse acknowledgementBz [] selfHeight))))"

text \<open>With a list of sequences the acknowledgements of those are returned, without a page.\<close>

fun listed_acks :: "'k ibc_state \<Rightarrow> string \<Rightarrow> string \<Rightarrow> u64 list \<Rightarrow> PacketState list" where
  "listed_acks s portID channelID [] = []"
| "listed_acks s portID channelID (seq # seqs) =
     (case stored_ack s portID channelID seq of
        None \<Rightarrow> listed_acks s portID channelID seqs
      | Some bz \<Rightarrow> NewPacketState portID channelID seq (Some bz) # listed_acks s portID channelID seqs)"

definition query_PacketAcknowledgements :: "('k, 'x) query_env_scheme \<Rightarrow> ctx \<Rightarrow> 'k ibc_state \<Rightarrow> QueryPacketAcknowledgementsRequest option \<Rightarrow>
    PacketStatesResponse query_result" where
  "query_PacketAcknowledgements E ctx s req =
     (case req of None \<Rightarrow> Inl (GrpcStatus InvalidArgument) | Some req \<Rightarrow>
     (case validategRPCRequest (crq_PortId req) (crq_ChannelId req) of Inl e \<Rightarrow> Inl e | Inr _ \<Rightarrow>
      let acks = listed_acks s (crq_PortId req) (crq_ChannelId req) (paq_PacketCommitmentSequences req) in
      if length (paq_PacketCommitmentSequences req) > 0 then
       (case plain (GetSelfHeight ctx) of Inl e \<Rightarrow> Inl e | Inr selfHeight \<Rightarrow>
        Inr \<lparr> psr_States = acks, psr_Pagination = None, psr_Height = selfHeight \<rparr>)
      else
       (case paginate E (prefix_store E s (PacketAcknowledgementPrefixPath (crq_PortId req) (crq_ChannelId req))) (pcq_Pagination req)
               (decode_packet_page (crq_PortId req) (crq_ChannelId req)) of Inl e \<Rightarrow> Inl e | Inr (acks, pageRes) \<Rightarrow>
       (case plain (GetSelfHeight ctx) of Inl e \<Rightarrow> Inl e | Inr selfHeight \<Rightarrow>
        Inr \<lparr> psr_States = acks, psr_Pagination = Some pageRes, psr_Height = selfHeight \<rparr>))))"

text \<open>The loop of the two queries for unreceived packets and acknowledgements.\<close>

fun pending_sequences :: "(u64 \<Rightarrow> bool) \<Rightarrow> u64 list \<Rightarrow> u64 list query_result" where
  "pending_sequences pending [] = Inr []"
| "pending_sequences pending (seq # seqs) =
     (if seq = 0 then Inl (GrpcStatus InvalidArgument)
      else case pending_sequences pending seqs of Inl e \<Rightarrow> Inl e | Inr l \<Rightarrow> Inr (if pending seq then seq # l else l))"

definition query_UnreceivedPackets :: "ctx \<Rightarrow> 'k ibc_state \<Rightarrow> SequencesRequest option \<Rightarrow> SequencesResponse query_result" where
  "query_UnreceivedPackets ctx s req =
     (case req of None \<Rightarrow> Inl (GrpcStatus InvalidArgument) | Some req \<Rightarrow>
     (case validategRPCRequest (crq_PortId req) (crq_ChannelId req) of Inl e \<Rightarrow> Inl e | Inr _ \<Rightarrow>
     (case pending_sequences (\<lambda>seq. GetPacketReceipt s (crq_PortId req) (crq_ChannelId req) seq = None) (srq_Sequences req) of
        Inl e \<Rightarrow> Inl e | Inr unreceivedSequences \<Rightarrow>
     (case plain (GetSelfHeight ctx) of Inl e \<Rightarrow> Inl e | Inr selfHeight \<Rightarrow>
      Inr \<lparr> sqr_Sequences = unreceivedSequences, sqr_Height = selfHeight \<rparr>))))"

definition query_UnreceivedAcks :: "ctx \<Rightarrow> 'k ibc_state \<Rightarrow> SequencesRequest option \<Rightarrow> SequencesResponse query_result" where
  "query_UnreceivedAcks ctx s req =
     (case req of None \<Rightarrow> Inl (GrpcStatus InvalidArgument) | Some req \<Rightarrow>
     (case validategRPCRequest (crq_PortId req) (crq_ChannelId req) of Inl e \<Rightarrow> Inl e | Inr _ \<Rightarrow>
     (case pending_sequences (\<lambda>seq. length (GetPacketCommitment s (crq_PortId req) (crq_ChannelId req) seq) \<noteq> 0) (srq_Sequences req) of
        Inl e \<Rightarrow> Inl e | Inr unreceivedSequences \<Rightarrow>
     (case plain (GetSelfHeight ctx) of Inl e \<Rightarrow> Inl e | Inr selfHeight \<Rightarrow>
      Inr \<lparr> sqr_Sequences = unreceivedSequences, sqr_Height = selfHeight \<rparr>))))"

definition query_NextSequenceReceive :: "ctx \<Rightarrow> 'k ibc_state \<Rightarrow> ChannelRequest option \<Rightarrow> u64 ProvedResponse query_result" where
  "query_NextSequenceReceive ctx s req =
     (case req of None \<Rightarrow> Inl (GrpcStatus InvalidArgument) | Some req \<Rightarrow>
     (case validategRPCRequest (crq_PortId req) (crq_ChannelId req) of Inl e \<Rightarrow> Inl e | Inr _ \<Rightarrow>
     (case GetNextSequenceRecv s (crq_PortId req) (crq_ChannelId req) of None \<Rightarrow> Inl (GrpcStatus NotFound) | Some sequence \<Rightarrow>
     (case plain (GetSelfHeight ctx) of Inl e \<Rightarrow> Inl e | Inr selfHeight \<Rightarrow>
      Inr (NewQueryNextSequenceReceiveResponse sequence [] selfHeight)))))"

subsection \<open>The query server of the core module (core/keeper/grpc_query.go)\<close>

text \<open>
  The core keeper answers a query by calling the keeper it is for. It embeds the interface of the
  query server, a field that is never set, and has no method of its own for the upgraded
  consensus state: that call goes to the nil interface.
\<close>

datatype core_query =
    ClientStateQ "string option" | ClientStatesQ "PageRequest option option"
  | ConsensusStateQ "QueryConsensusStateRequest option" | ConsensusStatesQ "QueryConsensusStatesRequest option"
  | ClientStatusQ "string option" | ClientParamsQ | UpgradedClientStateQ "unit option" | UpgradedConsensusStateQ "unit option"
  | ConnectionQ "string option" | ConnectionsQ "PageRequest option option" | ClientConnectionsQ "string option"
  | ConnectionClientStateQ "string option" | ConnectionConsensusStateQ "QueryConnectionConsensusStateRequest option"
  | ChannelQ "ChannelRequest option" | ChannelsQ "PageRequest option option"
  | ConnectionChannelsQ "QueryConnectionChannelsRequest option" | ChannelClientStateQ "ChannelRequest option"
  | ChannelConsensusStateQ "QueryChannelConsensusStateRequest option"
  | PacketCommitmentQ "PacketRequest option" | PacketCommitmentsQ "PageOfChannelRequest option"
  | PacketReceiptQ "PacketRequest option" | PacketAcknowledgementQ "PacketRequest option"
  | PacketAcknowledgementsQ "QueryPacketAcknowledgementsRequest option"
  | UnreceivedPacketsQ "SequencesRequest option" | UnreceivedAcksQ "SequencesRequest option"
  | NextSequenceReceiveQ "ChannelRequest option"

datatype core_response =
    ClientStateR QueryClientStateResponse | ClientStatesR QueryClientStatesResponse
  | ConsensusStateR QueryConsensusStateResponse | ConsensusStatesR QueryConsensusStatesResponse
  | ClientStatusR string | ClientParamsR "string list" | UpgradedR any_value
  | ConnectionR QueryConnectionResponse | ConnectionsR QueryConnectionsResponse | ClientConnectionsR QueryClientConnectionsResponse
  | IdentifiedClientR IdentifiedClientResponse | ClientConsensusR ClientConsensusResponse
  | ChannelR QueryChannelResponse | ChannelsR ChannelsResponse
  | BytesR "bytes ProvedResponse" | ReceivedR "bool ProvedResponse" | SequenceR "u64 ProvedResponse"
  | PacketStatesR PacketStatesResponse | SequencesR SequencesResponse

fun core_QueryServer :: "('k, 'x) query_env_scheme \<Rightarrow> 'u upgrade_queries \<Rightarrow> ctx \<Rightarrow> 'u \<Rightarrow> 'k ibc_state \<Rightarrow> core_query \<Rightarrow>
    core_response query_result" where
  "core_QueryServer E U ctx u s (ClientStateQ req) = map_sum id ClientStateR (query_ClientState E ctx s req)"
| "core_QueryServer E U ctx u s (ClientStatesQ req) = map_sum id ClientStatesR (query_ClientStates E s req)"
| "core_QueryServer E U ctx u s (ConsensusStateQ req) = map_sum id ConsensusStateR (query_ConsensusState E ctx s req)"
| "core_QueryServer E U ctx u s (ConsensusStatesQ req) = map_sum id ConsensusStatesR (query_ConsensusStates E s req)"
| "core_QueryServer E U ctx u s (ClientStatusQ req) = map_sum id ClientStatusR (query_ClientStatus ctx s req)"
| "core_QueryServer E U ctx u s ClientParamsQ = map_sum id ClientParamsR (query_ClientParams s)"
| "core_QueryServer E U ctx u s (UpgradedClientStateQ req) = map_sum id UpgradedR (query_UpgradedClientState E U u req)"
| "core_QueryServer E U ctx u s (UpgradedConsensusStateQ req) = Inl (Plain Panic)"
| "core_QueryServer E U ctx u s (ConnectionQ req) = map_sum id ConnectionR (query_Connection ctx s req)"
| "core_QueryServer E U ctx u s (ConnectionsQ req) = map_sum id ConnectionsR (query_Connections E ctx s req)"
| "core_QueryServer E U ctx u s (ClientConnectionsQ req) = map_sum id ClientConnectionsR (query_ClientConnections ctx s req)"
| "core_QueryServer E U ctx u s (ConnectionClientStateQ req) = map_sum id IdentifiedClientR (query_ConnectionClientState ctx s req)"
| "core_QueryServer E U ctx u s (ConnectionConsensusStateQ req) = map_sum id ClientConsensusR (query_ConnectionConsensusState E ctx s req)"
| "core_QueryServer E U ctx u s (ChannelQ req) = map_sum id ChannelR (query_Channel ctx s req)"
| "core_QueryServer E U ctx u s (ChannelsQ req) = map_sum id ChannelsR (query_Channels E ctx s req)"
| "core_QueryServer E U ctx u s (ConnectionChannelsQ req) = map_sum id ChannelsR (query_ConnectionChannels E ctx s req)"
| "core_QueryServer E U ctx u s (ChannelClientStateQ req) = map_sum id IdentifiedClientR (query_ChannelClientState ctx s req)"
| "core_QueryServer E U ctx u s (ChannelConsensusStateQ req) = map_sum id ClientConsensusR (query_ChannelConsensusState E ctx s req)"
| "core_QueryServer E U ctx u s (PacketCommitmentQ req) = map_sum id BytesR (query_PacketCommitment ctx s req)"
| "core_QueryServer E U ctx u s (PacketCommitmentsQ req) = map_sum id PacketStatesR (query_PacketCommitments E ctx s req)"
| "core_QueryServer E U ctx u s (PacketReceiptQ req) = map_sum id ReceivedR (query_PacketReceipt ctx s req)"
| "core_QueryServer E U ctx u s (PacketAcknowledgementQ req) = map_sum id BytesR (query_PacketAcknowledgement ctx s req)"
| "core_QueryServer E U ctx u s (PacketAcknowledgementsQ req) = map_sum id PacketStatesR (query_PacketAcknowledgements E ctx s req)"
| "core_QueryServer E U ctx u s (UnreceivedPacketsQ req) = map_sum id SequencesR (query_UnreceivedPackets ctx s req)"
| "core_QueryServer E U ctx u s (UnreceivedAcksQ req) = map_sum id SequencesR (query_UnreceivedAcks ctx s req)"
| "core_QueryServer E U ctx u s (NextSequenceReceiveQ req) = map_sum id SequenceR (query_NextSequenceReceive ctx s req)"

subsection \<open>What relayers are told\<close>

lemma plain_Inr [simp]: "plain r = Inr x \<longleftrightarrow> r = Inr x"
  by (cases r) (simp_all add: plain_def)

lemma plain_of_Inr [simp]: "plain (Inr x) = Inr x"
  by (simp add: plain_def)

lemma with_code_Inr [simp]: "with_code c r = Inr x \<longleftrightarrow> r = Inr x"
  by (cases r) (auto simp: with_code_def split: error.splits)

lemma query_case_Inr:
  "(case q of Inl e \<Rightarrow> Inl e | Inr x \<Rightarrow> f x) = Inr (y :: 'y) \<longleftrightarrow> (\<exists>x. q = Inr x \<and> f x = (Inr y :: 'y query_result))"
  by (cases q) auto

lemma query_option_Inr:
  "(case x of None \<Rightarrow> Inl e | Some v \<Rightarrow> f v) = Inr (y :: 'y) \<longleftrightarrow> (\<exists>v. x = Some v \<and> f v = (Inr y :: 'y query_result))"
  by (cases x) auto

lemma query_guard_Inr:
  "(if b then Inl e else q) = Inr (y :: 'y) \<longleftrightarrow> \<not> b \<and> q = (Inr y :: 'y query_result)"
  by simp

lemmas query_elims = query_case_Inr query_option_Inr query_guard_Inr

lemma pending_sequences_Inr [simp]: "pending_sequences P ns = Inr l \<longleftrightarrow> 0 \<notin> set ns \<and> l = filter P ns"
  by (induction ns arbitrary: l) (auto simp: query_elims)

text \<open>
  C33: the query for unreceived packets, on an unordered channel, returns exactly the requested sequences that
  the chain has not received, in the order of the request: a packet with a sequence that is left out is refused
  whatever is submitted with it. On an ordered channel, which has no receipts, it returns every requested
  sequence, also those below the next expected one, although such a packet is refused as well.
\<close>

theorem unreceived_packets_exact:
  assumes q: "query_UnreceivedPackets ctx s (Some req) = Inr resp"
    and ch: "channels s (crq_PortId req, crq_ChannelId req) = Some channel"
    and p: "DestinationPort p = crq_PortId req" "DestinationChannel p = crq_ChannelId req" "Sequence p \<in> set (srq_Sequences req)"
  shows "sqr_Sequences resp = filter (\<lambda>n. packetReceipts s (crq_PortId req, crq_ChannelId req, n) = None) (srq_Sequences req) \<and>
    (chan_Ordering channel = UNORDERED \<longrightarrow> Sequence p \<notin> set (sqr_Sequences resp) \<longrightarrow> \<not> is_ok (RecvPacket E ctx' s cap p pf h)) \<and>
    (chan_Ordering channel = ORDERED \<longrightarrow> (\<forall>n. packetReceipts s (crq_PortId req, crq_ChannelId req, n) = None) \<longrightarrow>
       Sequence p \<in> set (sqr_Sequences resp) \<and>
       (\<forall>next. nextSequenceRecv s (crq_PortId req, crq_ChannelId req) = Some next \<longrightarrow> Sequence p < next \<longrightarrow>
          \<not> is_ok (RecvPacket E ctx' s cap p pf h)))"
proof -
  from q have r: "sqr_Sequences resp = filter (\<lambda>n. packetReceipts s (crq_PortId req, crq_ChannelId req, n) = None) (srq_Sequences req)"
    by (auto simp: query_UnreceivedPackets_def GetPacketReceipt_def query_elims)
  have "\<not> is_ok (RecvPacket E ctx' s cap p pf h)" if u: "chan_Ordering channel = UNORDERED" and n: "Sequence p \<notin> set (sqr_Sequences resp)"
  proof
    assume "is_ok (RecvPacket E ctx' s cap p pf h)"
    then obtain s' where "RecvPacket E ctx' s cap p pf h = Inr s'" by (auto simp: is_ok_iff)
    then have "packetReceipts s (dst_key p) = None" by (rule RecvPacket_Inr) (use ch p u in simp)
    with n p r show False by simp
  qed
  moreover have "\<not> is_ok (RecvPacket E ctx' s cap p pf h)"
    if o: "chan_Ordering channel = ORDERED" and n: "nextSequenceRecv s (crq_PortId req, crq_ChannelId req) = Some next" "Sequence p < next" for "next"
  proof
    assume "is_ok (RecvPacket E ctx' s cap p pf h)"
    then obtain s' where "RecvPacket E ctx' s cap p pf h = Inr s'" by (auto simp: is_ok_iff)
    then have "nextSequenceRecv s (dst_chan p) = Some (Sequence p)" by (rule RecvPacket_Inr) (use ch p o in simp)
    with n p show False by simp
  qed
  ultimately show ?thesis using r p by simp
qed

text \<open>
  The query for unreceived acknowledgements returns exactly the requested sequences for which the chain
  still has a commitment; for a sequence that is left out, neither an acknowledgement nor a timeout
  is accepted any more, whatever is submitted with it.
\<close>

theorem unreceived_acks_exact:
  assumes q: "query_UnreceivedAcks ctx s (Some req) = Inr resp"
    and p: "SourcePort p = crq_PortId req" "SourceChannel p = crq_ChannelId req" "Sequence p \<in> set (srq_Sequences req)"
  shows "(Sequence p \<in> set (sqr_Sequences resp) \<longleftrightarrow> GetPacketCommitment s (SourcePort p) (SourceChannel p) (Sequence p) \<noteq> []) \<and>
    (Sequence p \<notin> set (sqr_Sequences resp) \<longrightarrow>
       \<not> is_ok (AcknowledgePacket E ctx' s cap p ack pf h) \<and> \<not> is_ok (TimeoutPacket E ctx' s p pf h n) \<and>
       \<not> is_ok (TimeoutOnClose E ctx' s cap p pf pfc h n))"
proof -
  from q have r: "sqr_Sequences resp = filter (\<lambda>n. GetPacketCommitment s (crq_PortId req) (crq_ChannelId req) n \<noteq> []) (srq_Sequences req)"
    by (auto simp: query_UnreceivedAcks_def query_elims)
  have c: "packetCommitments s (src_key p) = Some (CommitPacket p)"
    if "is_ok (AcknowledgePacket E ctx' s cap p ack pf h) \<or> is_ok (TimeoutPacket E ctx' s p pf h n) \<or> is_ok (TimeoutOnClose E ctx' s cap p pf pfc h n)"
    using that by (auto simp: is_ok_iff elim: AcknowledgePacket_Inr TimeoutPacket_Inr TimeoutOnClose_Inr)
  have "CommitPacket p \<noteq> []" by (rule CommitPacket_ne)
  with r p c show ?thesis by (auto simp: GetPacketCommitment_def)
qed

subsection \<open>Pages\<close>

text \<open>Requests whose pages, put together, are all the entries of a store.\<close>

definition pages_cover :: "('k, 'x) query_env_scheme \<Rightarrow> store_kv list \<Rightarrow> PageRequest option list \<Rightarrow> bool" where
  "pages_cover E store reqs \<longleftrightarrow>
     (\<exists>pages. list_all2 (\<lambda>req page. \<exists>res. sdk_Paginate E store req = Inr (page, res)) reqs pages \<and> concat pages = store)"

text \<open>A decoder that never fails on the entries of a store.\<close>

definition never_fails :: "('e \<Rightarrow> 'i decoded) \<Rightarrow> 'e list \<Rightarrow> bool" where
  "never_fails dec es \<longleftrightarrow> (\<forall>e \<in> set es. dec e = Skip \<or> (\<exists>i. dec e = Item i))"

lemma never_fails_append [simp]: "never_fails dec (a @ b) \<longleftrightarrow> never_fails dec a \<and> never_fails dec b"
  by (auto simp: never_fails_def)

lemma items_append [simp]: "items dec (a @ b) = items dec a @ items dec b"
  by (induction a) (auto split: decoded.splits)

lemma items_map: "items dec (map f es) = items (\<lambda>e. dec (f e)) es"
  by (induction es) (auto split: decoded.splits)

lemma paginate_total:
  assumes "sdk_Paginate E store req = Inr (page, res)" "never_fails dec page"
  shows "paginate E store req dec = Inr (items dec page, res)"
  using assms go_iterate_fold [of page dec "append_item id" "[]"] fold_append_item [of id "items dec page" "[]"]
  by (simp add: paginate_def never_fails_def)

lemma paginate_pages:
  assumes "list_all2 (\<lambda>req page. \<exists>res. sdk_Paginate E store req = Inr (page, res)) reqs pages" "never_fails dec (concat pages)"
  shows "\<exists>rs. map (\<lambda>req. paginate E store req dec) reqs = map Inr rs \<and> concat (map fst rs) = items dec (concat pages)"
  using assms
proof (induction rule: list_all2_induct)
  case (Cons req reqs page pages)
  then obtain res rs where "paginate E store req dec = Inr (items dec page, res)"
    "map (\<lambda>req. paginate E store req dec) reqs = map Inr rs" "concat (map fst rs) = items dec (concat pages)"
    using paginate_total by fastforce
  then show ?case by (intro exI [of _ "(items dec page, res) # rs"]) simp
qed simp

lemma items_exact:
  assumes it: "prefix_iterator E s" and d: "decodes s p dec g"
  shows "never_fails dec (kv_PrefixIterator E s p) \<and> distinct (items dec (kv_PrefixIterator E s p)) \<and>
    set (items dec (kv_PrefixIterator E s p)) = {i. \<exists>e v. store_lookup s e = Some v \<and> prefix p (entry_path e) \<and> g e v = Some i}"
proof -
  let ?es = "kv_PrefixIterator E s p"
  have t: "never_fails dec ?es"
    using d by (auto simp: never_fails_def decodes_def iterator_set [OF it] split: option.splits) (metis not_None_eq)
  obtain l where l: "go_iterate dec (append_item id) ?es [] = Inr l" "distinct l"
    "set l = {i. \<exists>e v. store_lookup s e = Some v \<and> prefix p (entry_path e) \<and> g e v = Some i}"
    using loop_all [OF it d refl, of id] by auto
  moreover have "go_iterate dec (append_item id) ?es [] = Inr (items dec ?es)"
    using go_iterate_fold [of ?es dec "append_item id" "[]"] fold_append_item [of id "items dec ?es" "[]"] t
    by (simp add: never_fails_def)
  ultimately show ?thesis using t by simp
qed

text \<open>The callback of a page sees the key without the prefix.\<close>

lemma paginate_exact:
  assumes it: "prefix_iterator E s" and d: "decodes s p (\<lambda>e. dec (drop (length p) (fst e), snd e)) g"
    and c: "pages_cover E (prefix_store E s p) reqs"
    and S: "{i. \<exists>e v. store_lookup s e = Some v \<and> prefix p (entry_path e) \<and> g e v = Some i} = S"
  shows "\<exists>rs. map (\<lambda>req. paginate E (prefix_store E s p) req dec) reqs = map Inr rs \<and>
    distinct (concat (map fst rs)) \<and> set (concat (map fst rs)) = S"
proof -
  let ?dec = "\<lambda>e. dec (drop (length p) (fst e), snd e)"
  from c obtain pages where pages: "list_all2 (\<lambda>req page. \<exists>res. sdk_Paginate E (prefix_store E s p) req = Inr (page, res)) reqs pages"
    "concat pages = prefix_store E s p" unfolding pages_cover_def by blast
  from items_exact [OF it d] have "never_fails dec (prefix_store E s p)" by (auto simp: never_fails_def prefix_store_def)
  with paginate_pages [OF pages(1), of dec] pages(2) obtain rs where
    rs: "map (\<lambda>req. paginate E (prefix_store E s p) req dec) reqs = map Inr rs" "concat (map fst rs) = items dec (prefix_store E s p)"
    by auto
  have "items dec (prefix_store E s p) = items ?dec (kv_PrefixIterator E s p)" by (simp add: prefix_store_def items_map)
  with rs(2) items_exact [OF it d] S have "distinct (concat (map fst rs)) \<and> set (concat (map fst rs)) = S" by metis
  with rs(1) show ?thesis by blast
qed

lemma map_Inr_trans:
  assumes "map f xs = map Inr ys" "\<And>x y. f x = Inr y \<Longrightarrow> g x = Inr (h y)"
  shows "map g xs = map Inr (map h ys)"
  using assms(1) by (induction xs arbitrary: ys) (auto simp: map_eq_Cons_conv assms(2))

lemma page_keys:
  "drop (length KeyConnectionPrefix) (ConnectionPath c) = ''/'' @ c"
  "drop (length KeyChannelEndPrefix) (ChannelPath p c) = ''/'' @ channelPath p c"
  by (simp_all add: ConnectionPath_def channel_paths)

lemma decodes_connection_page:
  "iterable s \<Longrightarrow> decodes s KeyConnectionPrefix (\<lambda>e. decode_connection_page (drop (length KeyConnectionPrefix) (fst e), snd e)) connection_item"
  by (auto simp: decodes_def prefix_head head_kinds decode_connection_page_def page_keys ParseConnectionPath_def split_on_append
      split_on_no_sep Let_def NewIdentifiedConnection_def iterable_kinds item_iff)

lemma decodes_channel_page:
  "iterable s \<Longrightarrow> decodes s KeyChannelEndPrefix (\<lambda>e. decode_channel_page (drop (length KeyChannelEndPrefix) (fst e), snd e)) channel_item"
  by (auto simp: decodes_def prefix_head head_kinds decode_channel_page_def page_keys
      ParseChannelPath_prefixed [of "[]", simplified] NewIdentifiedChannel_def iterable_kinds item_iff)

text \<open>The pages of the commitments and acknowledgements of one channel.\<close>

fun commitment_page_item :: "store_entry \<Rightarrow> store_value \<Rightarrow> PacketState option" where
  "commitment_page_item (PacketCommitmentEntry p c n) (BytesV b) = Some (NewPacketState p c n (Some b))"
| "commitment_page_item (PacketAckEntry p c n) (BytesV b) = Some (NewPacketState p c n (Some b))"
| "commitment_page_item _ _ = None"

lemma ack_prefix:
  assumes "no_slash p" "no_slash c" "iterable s" "store_lookup s e = Some v"
  shows "prefix (PacketAcknowledgementPrefixPath p c) (entry_path e) \<longleftrightarrow> (\<exists>n. e = PacketAckEntry p c n)"
proof
  assume pre: "prefix (PacketAcknowledgementPrefixPath p c) (entry_path e)"
  then have "prefix KeyPacketAckPrefix (entry_path e)" by (auto simp: packet_paths prefix_def)
  then obtain p' c' n where e: "e = PacketAckEntry p' c' n" by (auto simp: prefix_head head_kinds)
  with assms(3,4) have ns: "no_slash p'" "no_slash c'" using iterable_ids by fastforce+
  from pre e obtain r where "channelPath p' c' @ CHR ''/'' # KeySequencePrefix @ CHR ''/'' # show_u64 n = channelPath p c @ CHR ''/'' # KeySequencePrefix @ r"
    by (auto simp: packet_paths prefix_def)
  with ns assms(1,2) have "p' = p \<and> c' = c" by (simp add: channelPath_def append_sep_inject)
  with e show "\<exists>n. e = PacketAckEntry p c n" by blast
qed (auto simp: packet_paths)

lemma packet_page_keys:
  "drop (length (PacketCommitmentPrefixPath p c)) (PacketCommitmentPath p c n) = ''/'' @ show_u64 n"
  "drop (length (PacketAcknowledgementPrefixPath p c)) (PacketAcknowledgementPath p c n) = ''/'' @ show_u64 n"
  by (simp_all add: PacketCommitmentPath_def PacketAcknowledgementPath_def)

lemma decode_packet_page_key: "decode_packet_page p c (''/'' @ show_u64 n, BytesV b) = Item (NewPacketState p c n (Some b))"
  by (simp add: decode_packet_page_def split_on_append split_on_no_sep show_u64_no_sep parse_show_u64 with_bytes_def)

lemma decodes_packet_pages:
  assumes "no_slash p" "no_slash c" "iterable s"
  shows "decodes s (PacketCommitmentPrefixPath p c)
      (\<lambda>e. decode_packet_page p c (drop (length (PacketCommitmentPrefixPath p c)) (fst e), snd e)) commitment_page_item"
    "decodes s (PacketAcknowledgementPrefixPath p c)
      (\<lambda>e. decode_packet_page p c (drop (length (PacketAcknowledgementPrefixPath p c)) (fst e), snd e)) commitment_page_item"
  unfolding decodes_def
  by (auto simp: commitment_prefix [OF assms] ack_prefix [OF assms] packet_page_keys decode_packet_page_key [simplified] NewPacketState_def)

text \<open>The pages of the client states.\<close>

fun client_page_item :: "store_entry \<Rightarrow> store_value \<Rightarrow> IdentifiedClientState option" where
  "client_page_item (ClientStateEntry c) (ClientStateV x) = Some (NewIdentifiedClientState c x)"
| "client_page_item _ _ = None"

definition client_ids_valid :: "'k ibc_state \<Rightarrow> bool" where
  "client_ids_valid s \<longleftrightarrow> (\<forall>c. GetClientState s c \<noteq> None \<longrightarrow> ClientIdentifierValidator c = Inr ())"

lemma split_client_page: "no_slash c \<Longrightarrow> split_on (CHR ''/'') (drop (length KeyClientStorePrefix) (FullClientPath c k)) = [] # c # split_on (CHR ''/'') k"
  by (simp add: FullClientPath_def split_on_append)

lemma decodes_client_page:
  assumes "iterable s" "client_ids_valid s"
  shows "decodes s KeyClientStorePrefix (\<lambda>e. decode_client_page (drop (length KeyClientStorePrefix) (fst e), snd e)) client_page_item"
  unfolding decodes_def
proof (intro conjI allI impI)
  fix e v assume l: "store_lookup s e = Some v" and p: "prefix KeyClientStorePrefix (entry_path e)"
  then obtain c k where ck: "client_key e = Some (c, k)" by (auto simp: prefix_head head_kinds)
  with client_key_path iterable_ids [OF assms(1) l] have c: "no_slash c" by blast
  from assms(1) l have i: "e = IterationEntry c h \<Longrightarrow> unat (RevisionHeight h) < 2 ^ 56" for h
    by (auto simp: iterable_def GetIterationKey_def split: if_splits)
  have valid: "e = ClientStateEntry c \<Longrightarrow> ClientIdentifierValidator c = Inr ()"
    using assms(2) l by (auto simp: client_ids_valid_def GetClientState_def)
  have key: "''clientState'' = KeyClientState" by (simp add: KeyClientState_def)
  from ck l c i valid show "decode_client_page (drop (length KeyClientStorePrefix) (fst (entry_path e, v)), snd (entry_path e, v)) =
      (case client_page_item e v of None \<Rightarrow> Skip | Some i \<Rightarrow> Item i)"
    unfolding decode_client_page_def key
    by (cases e) (auto simp: client_paths split_client_page split_lasts split_on_no_sep Let_def
        Height_String_not_key iteration_key_not_client_state, simp_all add: key_prefixes)
qed (auto elim!: client_page_item.elims simp: NewIdentifiedClientState_def)

lemma page_items:
  "{i. \<exists>e v. store_lookup s e = Some v \<and> prefix KeyConnectionPrefix (entry_path e) \<and> connection_item e v = Some i} =
     {NewIdentifiedConnection c x |c x. connections s c = Some x}"
  "{i. \<exists>e v. store_lookup s e = Some v \<and> prefix KeyChannelEndPrefix (entry_path e) \<and> channel_item e v = Some i} =
     {NewIdentifiedChannel p c x |p c x. channels s (p, c) = Some x}"
  by (force simp: prefix_head head_kinds ex_kinds)+

lemma client_page_items:
  "{i. \<exists>e v. store_lookup s e = Some v \<and> prefix KeyClientStorePrefix (entry_path e) \<and> client_page_item e v = Some i} =
     {NewIdentifiedClientState c x |c x. GetClientState s c = Some x}"
proof -
  have "\<exists>e v. store_lookup s e = Some v \<and> client_key e \<noteq> None \<and> client_page_item e v = Some (NewIdentifiedClientState c x)"
    if "GetClientState s c = Some x" for c x
    using that by (intro exI [of _ "ClientStateEntry c"] exI [of _ "ClientStateV x"]) (simp add: GetClientState_def)
  then show ?thesis by (auto simp: prefix_head head_kinds GetClientState_def elim!: client_page_item.elims) blast
qed

lemma packet_page_items:
  assumes "no_slash p" "no_slash c" "iterable s"
  shows "{i. \<exists>e v. store_lookup s e = Some v \<and> prefix (PacketCommitmentPrefixPath p c) (entry_path e) \<and> commitment_page_item e v = Some i} =
     {NewPacketState p c n (Some b) |n b. packetCommitments s (p, c, n) = Some b}"
    "{i. \<exists>e v. store_lookup s e = Some v \<and> prefix (PacketAcknowledgementPrefixPath p c) (entry_path e) \<and> commitment_page_item e v = Some i} =
     {NewPacketState p c n (Some b) |n b. packetAcks s (p, c, n) = Some b}"
proof -
  have "store_lookup s e = Some v \<and> prefix (PacketCommitmentPrefixPath p c) (entry_path e) \<and> commitment_page_item e v = Some i \<longleftrightarrow>
      (\<exists>n b. e = PacketCommitmentEntry p c n \<and> v = BytesV b \<and> packetCommitments s (p, c, n) = Some b \<and> i = NewPacketState p c n (Some b))" for e v i
    using commitment_prefix [OF assms, of e v] by auto
  then show "{i. \<exists>e v. store_lookup s e = Some v \<and> prefix (PacketCommitmentPrefixPath p c) (entry_path e) \<and> commitment_page_item e v = Some i} =
     {NewPacketState p c n (Some b) |n b. packetCommitments s (p, c, n) = Some b}" by auto
  have "store_lookup s e = Some v \<and> prefix (PacketAcknowledgementPrefixPath p c) (entry_path e) \<and> commitment_page_item e v = Some i \<longleftrightarrow>
      (\<exists>n b. e = PacketAckEntry p c n \<and> v = BytesV b \<and> packetAcks s (p, c, n) = Some b \<and> i = NewPacketState p c n (Some b))" for e v i
    using ack_prefix [OF assms, of e v] by auto
  then show "{i. \<exists>e v. store_lookup s e = Some v \<and> prefix (PacketAcknowledgementPrefixPath p c) (entry_path e) \<and> commitment_page_item e v = Some i} =
     {NewPacketState p c n (Some b) |n b. packetAcks s (p, c, n) = Some b}" by auto
qed

lemma listing_pages:
  assumes "\<exists>rs. map f reqs = map Inr rs \<and> distinct (concat (map fst rs)) \<and> set (concat (map fst rs)) = S"
    and "\<And>req l res. f req = Inr (l, res) \<Longrightarrow> q req = Inr (h l res)" and "\<And>l res. sel (h l res) = l"
  shows "\<exists>rs. map q reqs = map Inr rs \<and> distinct (concat (map sel rs)) \<and> set (concat (map sel rs)) = S"
proof -
  from assms(1) obtain rs where rs: "map f reqs = map Inr rs" "distinct (concat (map fst rs))" "set (concat (map fst rs)) = S" by blast
  have "map q reqs = map Inr (map (\<lambda>(l, res). h l res) rs)"
    using rs(1) by (rule map_Inr_trans) (auto simp: assms(2))
  moreover have "map sel (map (\<lambda>(l, res). h l res) rs) = map fst rs" by (auto simp: assms(3))
  ultimately show ?thesis using rs(2,3) by metis
qed

lemma packet_pages:
  assumes it: "prefix_iterator E s" "iterable s" and self: "GetSelfHeight ctx = Inr self"
    and v: "validategRPCRequest p c = Inr ()"
    and req: "\<And>r. crq_PortId (mk r) = p \<and> crq_ChannelId (mk r) = c \<and> pcq_Pagination (mk r) = r"
    and cov: "pages_cover E (prefix_store E s (PacketCommitmentPrefixPath p c)) reqs"
  shows "\<exists>rs. map (\<lambda>r. query_PacketCommitments E ctx s (Some (mk r))) reqs = map Inr rs \<and> distinct (concat (map psr_States rs)) \<and>
    set (concat (map psr_States rs)) = {NewPacketState p c n (Some b) |n b. packetCommitments s (p, c, n) = Some b}"
proof (rule listing_pages)
  from v have ns: "no_slash p" "no_slash c"
    by (auto simp: validategRPCRequest_def query_elims identifier_no_slash)
  show "\<exists>rs. map (\<lambda>r. paginate E (prefix_store E s (PacketCommitmentPrefixPath p c)) r (decode_packet_page p c)) reqs = map Inr rs \<and>
      distinct (concat (map fst rs)) \<and> set (concat (map fst rs)) = {NewPacketState p c n (Some b) |n b. packetCommitments s (p, c, n) = Some b}"
    by (rule paginate_exact [OF it(1) decodes_packet_pages(1) [OF ns it(2)] cov packet_page_items(1) [OF ns it(2)]])
  show "query_PacketCommitments E ctx s (Some (mk r)) = Inr \<lparr> psr_States = l, psr_Pagination = Some res, psr_Height = self \<rparr>"
    if "paginate E (prefix_store E s (PacketCommitmentPrefixPath p c)) r (decode_packet_page p c) = Inr (l, res)" for r l res
    using that v self req [of r] by (simp add: query_PacketCommitments_def)
qed simp

lemma client_pages:
  assumes it: "prefix_iterator E s" "iterable s" and v: "client_ids_valid s"
    and cov: "pages_cover E (prefix_store E s KeyClientStorePrefix) reqs"
  shows "\<exists>rs. map (\<lambda>r. query_ClientStates E s (Some r)) reqs = map Inr rs \<and> distinct (concat (map cssr_ClientStates rs)) \<and>
    set (concat (map cssr_ClientStates rs)) = {NewIdentifiedClientState c x |c x. GetClientState s c = Some x}"
proof -
  let ?f = "\<lambda>r. paginate E (prefix_store E s KeyClientStorePrefix) r decode_client_page"
  let ?h = "\<lambda>(l, res). \<lparr> cssr_ClientStates = sort_key ics_ClientId l, cssr_Pagination = res \<rparr>"
  from paginate_exact [OF it(1) decodes_client_page [OF it(2) v] cov client_page_items] obtain rs where
    rs: "map ?f reqs = map Inr rs" "distinct (concat (map fst rs))"
      "set (concat (map fst rs)) = {NewIdentifiedClientState c x |c x. GetClientState s c = Some x}" by blast
  have "map (\<lambda>r. query_ClientStates E s (Some r)) reqs = map Inr (map ?h rs)"
    using rs(1) by (rule map_Inr_trans) (auto simp: query_ClientStates_def)
  moreover have m: "mset (concat (map cssr_ClientStates (map ?h rs))) = mset (concat (map fst rs))" for rs
    by (induction rs) auto
  from m [of rs] have "distinct (concat (map cssr_ClientStates (map ?h rs))) = distinct (concat (map fst rs))"
    "set (concat (map cssr_ClientStates (map ?h rs))) = set (concat (map fst rs))"
    by (rule mset_eq_imp_distinct_iff, rule mset_eq_setD)
  ultimately show ?thesis using rs(2,3) by (intro exI [of _ "map ?h rs"]) simp
qed

text \<open>
  C32: following the pages of a listing gives every entry exactly once. For requests whose pages make
  up the prefix of the store that a query walks, the queries for channels, connections, clients and the
  commitments of a channel all succeed, and their results together are the entries of the state, without
  repetition and without entries of another kind or channel.
\<close>

theorem pages_list_exactly:
  assumes it: "prefix_iterator E s" "iterable s" and self: "GetSelfHeight ctx = Inr self"
  shows "(pages_cover E (prefix_store E s KeyChannelEndPrefix) reqs \<longrightarrow>
      (\<exists>rs. map (\<lambda>r. query_Channels E ctx s (Some r)) reqs = map Inr rs \<and> distinct (concat (map chsr_Channels rs)) \<and>
         set (concat (map chsr_Channels rs)) = {NewIdentifiedChannel p c x |p c x. channels s (p, c) = Some x})) \<and>
    (pages_cover E (prefix_store E s KeyConnectionPrefix) reqs \<longrightarrow>
      (\<exists>rs. map (\<lambda>r. query_Connections E ctx s (Some r)) reqs = map Inr rs \<and> distinct (concat (map connsr_Connections rs)) \<and>
         set (concat (map connsr_Connections rs)) = {NewIdentifiedConnection c x |c x. connections s c = Some x})) \<and>
    (client_ids_valid s \<longrightarrow> pages_cover E (prefix_store E s KeyClientStorePrefix) reqs \<longrightarrow>
      (\<exists>rs. map (\<lambda>r. query_ClientStates E s (Some r)) reqs = map Inr rs \<and> distinct (concat (map cssr_ClientStates rs)) \<and>
         set (concat (map cssr_ClientStates rs)) = {NewIdentifiedClientState c x |c x. GetClientState s c = Some x})) \<and>
    (validategRPCRequest port chan = Inr () \<longrightarrow> pages_cover E (prefix_store E s (PacketCommitmentPrefixPath port chan)) reqs \<longrightarrow>
      (\<exists>rs. map (\<lambda>r. query_PacketCommitments E ctx s (Some \<lparr> crq_PortId = port, crq_ChannelId = chan, pcq_Pagination = r \<rparr>)) reqs = map Inr rs \<and>
         distinct (concat (map psr_States rs)) \<and>
         set (concat (map psr_States rs)) = {NewPacketState port chan n (Some b) |n b. packetCommitments s (port, chan, n) = Some b}))"
proof (intro conjI impI)
  assume "pages_cover E (prefix_store E s KeyChannelEndPrefix) reqs"
  from paginate_exact [OF it(1) decodes_channel_page [OF it(2)] this page_items(2)]
  show "\<exists>rs. map (\<lambda>r. query_Channels E ctx s (Some r)) reqs = map Inr rs \<and> distinct (concat (map chsr_Channels rs)) \<and>
         set (concat (map chsr_Channels rs)) = {NewIdentifiedChannel p c x |p c x. channels s (p, c) = Some x}"
    by (rule listing_pages [where h = "\<lambda>l res. \<lparr> chsr_Channels = l, chsr_Pagination = res, chsr_Height = self \<rparr>"])
      (simp_all add: query_Channels_def self)
next
  assume "pages_cover E (prefix_store E s KeyConnectionPrefix) reqs"
  from paginate_exact [OF it(1) decodes_connection_page [OF it(2)] this page_items(1)]
  show "\<exists>rs. map (\<lambda>r. query_Connections E ctx s (Some r)) reqs = map Inr rs \<and> distinct (concat (map connsr_Connections rs)) \<and>
         set (concat (map connsr_Connections rs)) = {NewIdentifiedConnection c x |c x. connections s c = Some x}"
    by (rule listing_pages [where h = "\<lambda>l res. \<lparr> connsr_Connections = l, connsr_Pagination = res, connsr_Height = self \<rparr>"])
      (simp_all add: query_Connections_def self)
next
  assume "client_ids_valid s" "pages_cover E (prefix_store E s KeyClientStorePrefix) reqs"
  then show "\<exists>rs. map (\<lambda>r. query_ClientStates E s (Some r)) reqs = map Inr rs \<and> distinct (concat (map cssr_ClientStates rs)) \<and>
         set (concat (map cssr_ClientStates rs)) = {NewIdentifiedClientState c x |c x. GetClientState s c = Some x}"
    by (rule client_pages [OF it])
next
  assume "validategRPCRequest port chan = Inr ()" "pages_cover E (prefix_store E s (PacketCommitmentPrefixPath port chan)) reqs"
  then show "\<exists>rs. map (\<lambda>r. query_PacketCommitments E ctx s (Some \<lparr> crq_PortId = port, crq_ChannelId = chan, pcq_Pagination = r \<rparr>)) reqs = map Inr rs \<and>
         distinct (concat (map psr_States rs)) \<and>
         set (concat (map psr_States rs)) = {NewPacketState port chan n (Some b) |n b. packetCommitments s (port, chan, n) = Some b}"
    by (intro packet_pages [OF it self]) simp_all
qed

text \<open>
  The list of consensus states holds every consensus state on which the callback was called, also those
  for which the pagination told it not to collect.
\<close>

lemma ConsensusStates_ignores_accumulate:
  assumes "query_ConsensusStates E s (Some req) = Inr resp"
  shows "\<exists>calls res. sdk_FilteredPaginate E (prefix_store E s (FullClientPath (consq_ClientId req) (KeyConsensusStatePrefix @ ''/'')))
      (consq_Pagination req) (\<lambda>e. hit (decode_consensus_page e)) = Inr (calls, res) \<and>
    (\<forall>e acc i. (e, acc) \<in> set calls \<longrightarrow> decode_consensus_page e = Item i \<longrightarrow> i \<in> set (consr_ConsensusStates resp))"
proof -
  from assms obtain calls res where c: "sdk_FilteredPaginate E (prefix_store E s (FullClientPath (consq_ClientId req) (KeyConsensusStatePrefix @ ''/'')))
      (consq_Pagination req) (\<lambda>e. hit (decode_consensus_page e)) = Inr (calls, res)"
    "consr_ConsensusStates resp = items decode_consensus_page (map fst calls)"
    by (auto simp: query_ConsensusStates_def query_elims Let_def)
  then show ?thesis by (force simp: set_items)
qed

end
