(* ===== verification/QueryExamples.thy ===== *)
theory QueryExamples
  imports GenesisExamples CoreQueries
begin

text \<open>
  Concrete instances for \<open>ClientProposals\<close> and \<open>CoreQueries\<close>: an environment whose pagination cuts a store into pages by
  offset and limit, and a chain with a frozen client and its substitute.
\<close>

definition cut_pages :: "store_kv list \<Rightarrow> PageRequest option \<Rightarrow> (store_kv list \<times> PageResponse) result" where
  "cut_pages store req =
     (case req of
        None \<Rightarrow> Inr (take 100 store, \<lparr> pg_NextKey = [], pg_Total = 0 \<rparr>)
      | Some r \<Rightarrow> Inr (take (unat (pg_Limit r)) (drop (unat (pg_Offset r)) store), \<lparr> pg_NextKey = [], pg_Total = 0 \<rparr>))"

definition all_hits :: "store_kv list \<Rightarrow> PageRequest option \<Rightarrow> (store_kv \<Rightarrow> bool result) \<Rightarrow> ((store_kv \<times> bool) list \<times> PageResponse) result" where
  "all_hits store req f = Inr (map (\<lambda>e. (e, True)) store, \<lparr> pg_NextKey = [], pg_Total = 0 \<rparr>)"

definition query_demo_env :: "unit query_env" where
  "query_demo_env = codec_env.extend
     (store_env.extend gen_env
       \<lparr> cdc_NewAnyWithValue = (\<lambda>_. True), cdc_MarshalHeader = (\<lambda>_. Some ''h''), cdc_UnmarshalHeader = (\<lambda>_. None),
         gov_ValidateAbstract = (\<lambda>_ _. Inr ()), upg_PlanValidateBasic = (\<lambda>_. Inr ()) \<rparr>)
     \<lparr> sdk_Paginate = cut_pages, sdk_FilteredPaginate = all_hits \<rparr>"

definition page_at :: "u64 \<Rightarrow> u64 \<Rightarrow> PageRequest option" where
  "page_at offset limit = Some \<lparr> pg_Key = [], pg_Offset = offset, pg_Limit = limit, pg_CountTotal = False, pg_Reverse = False \<rparr>"

lemma query_demo_env_fields:
  "sdk_Paginate query_demo_env = cut_pages" "kv_PrefixIterator query_demo_env = list_iterator gen_entries"
  "gov_ValidateAbstract query_demo_env = (\<lambda>_ _. Inr ())"
  by (simp_all add: query_demo_env_def codec_env.extend_def store_env.extend_def gen_env_def keeper_env.extend_def)

lemma two_pages: "length store \<le> 100 \<Longrightarrow> pages_cover query_demo_env store [page_at 0 1, page_at 1 99]"
  unfolding pages_cover_def
  by (rule exI [of _ "[take 1 store, drop 1 store]"]) (simp add: query_demo_env_fields cut_pages_def page_at_def)

lemma query_demo_iterator: "prefix_iterator query_demo_env gen_state"
  using gen_iterator by (simp add: prefix_iterator_def query_demo_env_fields gen_env_def keeper_env.extend_def)

theorem pages_list_exactly_witness:
  "\<exists>rs. map (\<lambda>r. query_Channels query_demo_env demo_ctx gen_state (Some r)) [page_at 0 1, page_at 1 99] = map Inr rs \<and>
     distinct (concat (map chsr_Channels rs)) \<and>
     set (concat (map chsr_Channels rs)) = {NewIdentifiedChannel ''transfer'' ''channel-0'' gen_chan}"
proof -
  have self: "GetSelfHeight demo_ctx = Inr (Height 1 10)" by code_simp
  have "length (prefix_store query_demo_env gen_state KeyChannelEndPrefix) \<le> 100" by code_simp
  moreover have "{NewIdentifiedChannel p c x |p c x. channels gen_state (p, c) = Some x} = {NewIdentifiedChannel ''transfer'' ''channel-0'' gen_chan}"
    by (auto simp: gen_state_def split: if_splits)
  ultimately show ?thesis
    using pages_list_exactly [OF query_demo_iterator gen_iterable self, THEN conjunct1, rule_format, OF two_pages] by simp
qed

theorem unreceived_packets_exact_witness:
  "\<exists>resp. query_UnreceivedPackets demo_ctx gen_state (Some \<lparr> crq_PortId = ''transfer'', crq_ChannelId = ''channel-0'', srq_Sequences = [4, 5] \<rparr>) = Inr resp \<and>
     sqr_Sequences resp = [4] \<and>
     \<not> is_ok (RecvPacket demo_kenv demo_ctx gen_state None (NewPacket ''data'' 5 ''transfer'' ''channel-7'' ''transfer'' ''channel-0'' (Height 1 1000) 0) ''p'' (Height 1 5))"
proof -
  let ?req = "\<lparr> crq_PortId = ''transfer'', crq_ChannelId = ''channel-0'', srq_Sequences = [4, 5 :: u64] \<rparr>"
  let ?p = "NewPacket ''data'' 5 ''transfer'' ''channel-7'' ''transfer'' ''channel-0'' (Height 1 1000) 0"
  have "is_ok (query_UnreceivedPackets demo_ctx gen_state (Some ?req))" by code_simp
  then obtain resp where q: "query_UnreceivedPackets demo_ctx gen_state (Some ?req) = Inr resp" by (auto simp: is_ok_iff)
  have c: "channels gen_state (crq_PortId ?req, crq_ChannelId ?req) = Some gen_chan" "chan_Ordering gen_chan = UNORDERED"
    by (simp_all add: gen_state_def gen_chan_def NewChannel_def)
  have p: "DestinationPort ?p = crq_PortId ?req" "DestinationChannel ?p = crq_ChannelId ?req" "Sequence ?p \<in> set (srq_Sequences ?req)" "Sequence ?p = 5"
    by (simp_all add: NewPacket_def)
  note r = unreceived_packets_exact [OF q c(1) p(1-3), of demo_kenv demo_ctx None "''p''" "Height 1 5"]
  from r have s: "sqr_Sequences resp = [4]" by (simp add: gen_state_def empty_ibc_state_def)
  with r c(2) p(4) have "\<not> is_ok (RecvPacket demo_kenv demo_ctx gen_state None ?p ''p'' (Height 1 5))" by simp
  with q s show ?thesis by blast
qed

theorem unreceived_acks_exact_witness:
  "\<exists>resp. query_UnreceivedAcks demo_ctx gen_state (Some \<lparr> crq_PortId = ''transfer'', crq_ChannelId = ''channel-0'', srq_Sequences = [1, 2] \<rparr>) = Inr resp \<and>
     1 \<notin> set (sqr_Sequences resp) \<and>
     \<not> is_ok (AcknowledgePacket demo_kenv demo_ctx gen_state None demo_out ''ack'' ''p'' (Height 1 5))"
proof -
  let ?req = "\<lparr> crq_PortId = ''transfer'', crq_ChannelId = ''channel-0'', srq_Sequences = [1, 2 :: u64] \<rparr>"
  have "is_ok (query_UnreceivedAcks demo_ctx gen_state (Some ?req))" by code_simp
  then obtain resp where q: "query_UnreceivedAcks demo_ctx gen_state (Some ?req) = Inr resp" by (auto simp: is_ok_iff)
  have p: "SourcePort demo_out = crq_PortId ?req" "SourceChannel demo_out = crq_ChannelId ?req" "Sequence demo_out \<in> set (srq_Sequences ?req)"
    by (simp_all add: demo_out_fields)
  have "GetPacketCommitment gen_state ''transfer'' ''channel-0'' 1 = []" by code_simp
  with unreceived_acks_exact [OF q p, of demo_kenv demo_ctx None "''ack''" "''p''" "Height 1 5"] q show ?thesis
    by (auto simp: demo_out_fields)
qed

subsection \<open>A frozen client and its substitute\<close>

definition frozen_tm :: tm_ClientState where
  "frozen_tm = demo_tm \<lparr> tm_LatestHeight := Height 1 4, tm_FrozenHeight := tm_FrozenHeightValue, tm_AllowUpdateAfterMisbehaviour := True \<rparr>"

definition fresh_tm :: tm_ClientState where
  "fresh_tm = demo_tm \<lparr> tm_AllowUpdateAfterMisbehaviour := True \<rparr>"

definition frozen_state :: "unit ibc_state" where
  "frozen_state = (empty_ibc_state ()) \<lparr> nextClientSequence := Some 2, clientStores := (\<lambda>_. empty_client_store)
     (''07-tendermint-0'' := empty_client_store \<lparr> st_clientState := Some (TMClient frozen_tm) \<rparr>,
      ''07-tendermint-1'' := demo_tm_store \<lparr> st_clientState := Some (TMClient fresh_tm) \<rparr>) \<rparr>"

definition rescue :: ClientUpdateContent where
  "rescue = \<lparr> cup_Title = ''t'', cup_Description = ''d'', cup_SubjectClientId = ''07-tendermint-0'', cup_SubstituteClientId = ''07-tendermint-1'' \<rparr>"

definition no_upgrades :: "unit upgrade_keeper" where
  "no_upgrades = \<lparr> upg_GetUpgradePlan = (\<lambda>_. None), upg_GetUpgradedClient = (\<lambda>_ _. None), upg_SetUpgradedClient = (\<lambda>u _ _. Inr u),
     upg_SetUpgradedConsensusState = (\<lambda>u _ _. Inr u), upg_ScheduleUpgrade = (\<lambda>u _. Inr u) \<rparr>"

lemma frozen_state_inv: "clients_inv frozen_state"
proof -
  have f: "''07-tendermint-0'' = FormatClientIdentifier Tendermint 0" "''07-tendermint-1'' = FormatClientIdentifier Tendermint 1" by code_simp+
  have "\<exists>t m. cid = FormatClientIdentifier t m \<and> m < (2 :: u64)" if "cid \<in> ids_in_use frozen_state" for cid
  proof -
    from that have "cid = ''07-tendermint-0'' \<or> cid = ''07-tendermint-1''"
      by (auto simp: ids_in_use_def frozen_state_def empty_ibc_state_def split: if_splits)
    then show ?thesis
    proof
      assume "cid = ''07-tendermint-0''"
      with f(1) show ?thesis by (intro exI [of _ Tendermint] exI [of _ "0 :: u64"]) simp
    next
      assume "cid = ''07-tendermint-1''"
      with f(2) show ?thesis by (intro exI [of _ Tendermint] exI [of _ "1 :: u64"]) simp
    qed
  qed
  moreover have "cid \<noteq> Localhost \<and> metadata_inv (clientStores frozen_state cid)" if g: "GetClientState frozen_state cid = Some (TMClient cs)" for cid cs
  proof -
    from g have "cid = ''07-tendermint-0'' \<or> cid = ''07-tendermint-1''"
      by (auto simp: GetClientState_def frozen_state_def empty_client_store_fields split: if_splits)
    then show ?thesis
      using consensus_metadata_inv [OF demo_tm_store_inv] metadata_inv_empty
      by (elim disjE) (simp_all add: frozen_state_def Localhost_def)
  qed
  moreover have "nextClientSequence frozen_state = Some 2" by (simp add: frozen_state_def)
  ultimately show ?thesis unfolding clients_inv_def by blast
qed

theorem proposal_recovers_client_witness:
  "\<exists>s' cs'. ClientProposalHandler query_demo_env no_upgrades demo_ctx ((), frozen_state) (ClientUpdateC rescue) = Inr ((), s') \<and>
     GetClientState s' ''07-tendermint-0'' = Some (TMClient cs') \<and> tm_Status demo_ctx (clientStores s' ''07-tendermint-0'') cs' = Active"
proof -
  have v: "ClientUpdateProposal_ValidateBasic query_demo_env rescue = Inr ()" by code_simp
  have ids: "cup_SubjectClientId rescue = ''07-tendermint-0''" "cup_SubstituteClientId rescue = ''07-tendermint-1''" by (simp_all add: rescue_def)
  have c: "GetClientState frozen_state ''07-tendermint-0'' = Some (TMClient frozen_tm)" "GetClientState frozen_state ''07-tendermint-1'' = Some (TMClient fresh_tm)"
    by (simp_all add: GetClientState_def frozen_state_def)
  have "tm_Status demo_ctx (clientStores frozen_state ''07-tendermint-0'') frozen_tm = Frozen" "tm_AllowUpdateAfterMisbehaviour frozen_tm"
    "tm_Status demo_ctx (clientStores frozen_state ''07-tendermint-1'') fresh_tm = Active" "tm_LatestHeight frozen_tm < tm_LatestHeight fresh_tm"
    "IsMatchingClientState frozen_tm fresh_tm" by code_simp+
  with proposal_recovers_client [OF v frozen_state_inv, unfolded ids, OF c, of demo_ctx no_upgrades "()"] show ?thesis by blast
qed

end
