(* ===== verification/StoreMigration.thy ===== *)
theory StoreMigration
  imports ClientProposals
begin

text \<open>
  The migration of the client stores of earlier versions (\<^verbatim>\<open>02-client/legacy/v100/store.go\<close>,
  \<^verbatim>\<open>genesis.go\<close>). A store to be migrated has solo machine clients in their first protobuf definition, which are kept beside
  the state of the present version (\<open>legacy_solo\<close> by client identifier), and Tendermint
  clients whose consensus states lack a processed height and an iteration key. The keys of a client's store under a
  prefix are a parameter, and so is the decoding of a client state of the present version as
  a legacy one.

  The theorems show what a migration that succeeds leaves behind, and that it fails on every chain that
  has a localhost client.
\<close>

subsection \<open>Legacy solo machines\<close>

record legacy_solo =
  ls_Sequence :: u64
  ls_FrozenSequence :: u64
  ls_ConsensusState :: "solo_ConsensusState option"
  ls_AllowUpdateAfterProposal :: bool

record 'k migration_env = "'k codec_env" +
  kv_ClientKeys :: "client_store \<Rightarrow> bytes \<Rightarrow> bytes list"
  cdc_UnmarshalLegacySolo :: "ClientState \<Rightarrow> legacy_solo option"
  json_UnmarshalGenesis :: "bytes \<Rightarrow> (core_GenesisState \<times> (nat \<rightharpoonup> legacy_solo)) option"
  json_MarshalGenesis :: "core_GenesisState \<Rightarrow> bytes option"

type_synonym 'k legacy_state = "(string \<rightharpoonup> legacy_solo) \<times> 'k ibc_state"

definition migrateSolomachine :: "legacy_solo \<Rightarrow> solo_ClientState result" where
  "migrateSolomachine clientState =
     (case ls_ConsensusState clientState of None \<Rightarrow> Inl Panic | Some c \<Rightarrow>
      Inr \<lparr> solo_Sequence = ls_Sequence clientState, solo_IsFrozen = (ls_FrozenSequence clientState \<noteq> 0),
        solo_ConsensusState = Some \<lparr> solo_PublicKey = solo_PublicKey c, solo_Diversifier = solo_Diversifier c, solo_Timestamp = solo_Timestamp c \<rparr>,
        solo_AllowUpdateAfterProposal = ls_AllowUpdateAfterProposal clientState \<rparr>)"

subsection \<open>Loops over the keys of a client's store\<close>

fun collect_keys :: "(bytes \<Rightarrow> 'i decoded) \<Rightarrow> bytes list \<Rightarrow> 'i list result" where
  "collect_keys dec [] = Inr []"
| "collect_keys dec (k # ks) =
     (case dec k of
        Item i \<Rightarrow> (case collect_keys dec ks of Inl e \<Rightarrow> Inl e | Inr l \<Rightarrow> Inr (i # l))
      | Skip \<Rightarrow> collect_keys dec ks
      | Stop \<Rightarrow> Inr []
      | Fail e \<Rightarrow> Inl e)"

definition decode_client_id :: "bytes \<Rightarrow> string decoded" where
  "decode_client_id key =
     (let keySplit = split_on (CHR ''/'') key in
      if last keySplit \<noteq> KeyClientState then Skip
      else if length keySplit < 2 then Fail Panic else Item (keySplit ! 1))"

definition decode_solo_height :: "bytes \<Rightarrow> Height decoded" where
  "decode_solo_height key =
     (let keySplit = split_on (CHR ''/'') key in
      if length keySplit \<noteq> 2 \<or> keySplit ! 0 \<noteq> KeyConsensusStatePrefix then Skip
      else case MustParseHeight (keySplit ! 1) of Inl e \<Rightarrow> Fail e | Inr height \<Rightarrow> Item height)"

definition pruneSolomachineConsensusStates :: "('k, 'x) migration_env_scheme \<Rightarrow> client_store \<Rightarrow> client_store result" where
  "pruneSolomachineConsensusStates E clientStore =
     (case collect_keys decode_solo_height (kv_ClientKeys E clientStore KeyConsensusStatePrefix) of Inl e \<Rightarrow> Inl e | Inr heights \<Rightarrow>
      Inr (foldl deleteConsensusState clientStore heights))"

definition decode_tm_height :: "bytes \<Rightarrow> Height decoded" where
  "decode_tm_height key =
     (let keySplit = split_on (CHR ''/'') key in
      if length keySplit \<noteq> 2 then Skip
      else case MustParseHeight (keySplit ! 1) of Inl e \<Rightarrow> Fail e | Inr height \<Rightarrow> Item height)"

fun add_metadata :: "ctx \<Rightarrow> client_store \<Rightarrow> Height list \<Rightarrow> client_store result" where
  "add_metadata ctx clientStore [] = Inr clientStore"
| "add_metadata ctx clientStore (height # heights) =
     (case GetSelfHeight ctx of Inl e \<Rightarrow> Inl e | Inr self \<Rightarrow>
      add_metadata ctx (SetIterationKey (SetProcessedHeight clientStore height self) height) heights)"

definition addConsensusMetadata :: "('k, 'x) migration_env_scheme \<Rightarrow> ctx \<Rightarrow> client_store \<Rightarrow> client_store result" where
  "addConsensusMetadata E ctx clientStore =
     (case collect_keys decode_tm_height (kv_ClientKeys E clientStore KeyConsensusStatePrefix) of Inl e \<Rightarrow> Inl e | Inr heights \<Rightarrow>
      add_metadata ctx clientStore heights)"

subsection \<open>MigrateStore (store.go)\<close>

text \<open>What is stored under the client state key: a legacy solo machine or a client state of this version.\<close>

definition migrate_solo :: "('k, 'x) migration_env_scheme \<Rightarrow> 'k legacy_state \<Rightarrow> string \<Rightarrow> 'k legacy_state result" where
  "migrate_solo E Ls clientID =
     (case (case fst Ls clientID of Some l \<Rightarrow> Some l
            | None \<Rightarrow> Option.bind (GetClientState (snd Ls) clientID) (cdc_UnmarshalLegacySolo E)) of
        None \<Rightarrow> Inl (External ''codec'') | Some clientState \<Rightarrow>
     (case migrateSolomachine clientState of Inl e \<Rightarrow> Inl e | Inr updatedClientState \<Rightarrow>
     (case MarshalClientState E (SoloClient updatedClientState) of Inl e \<Rightarrow> Inl e | Inr _ \<Rightarrow>
     (case pruneSolomachineConsensusStates E (clientStores (snd Ls) clientID \<lparr> st_clientState := Some (SoloClient updatedClientState) \<rparr>) of
        Inl e \<Rightarrow> Inl e | Inr store \<Rightarrow>
      Inr ((fst Ls)(clientID := None), set_client_store (snd Ls) clientID store)))))"

definition migrate_tendermint :: "('k, 'x) migration_env_scheme \<Rightarrow> ctx \<Rightarrow> 'k legacy_state \<Rightarrow> string \<Rightarrow> 'k legacy_state result" where
  "migrate_tendermint E ctx Ls clientID =
     (case (if fst Ls clientID \<noteq> None then None else GetClientState (snd Ls) clientID) of
        None \<Rightarrow> Inl (External ''codec'') | Some clientState \<Rightarrow>
     (case clientState of
        TMClient tmClientState \<Rightarrow>
         (case addConsensusMetadata E ctx (clientStores (snd Ls) clientID) of Inl e \<Rightarrow> Inl e | Inr store \<Rightarrow>
          Inr (fst Ls, set_client_store (snd Ls) clientID (PruneAllExpiredConsensusStates ctx store tmClientState)))
      | _ \<Rightarrow> Inl (ClientE ErrInvalidClient)))"

definition migrate_client :: "('k, 'x) migration_env_scheme \<Rightarrow> ctx \<Rightarrow> 'k legacy_state \<Rightarrow> string \<Rightarrow> 'k legacy_state result" where
  "migrate_client E ctx Ls clientID =
     (case ParseClientIdentifier clientID of Inl e \<Rightarrow> Inl e | Inr (clientType, _) \<Rightarrow>
      if fst Ls clientID = None \<and> GetClientState (snd Ls) clientID = None then Inl (ClientE ErrClientNotFound)
      else if clientType = Solomachine then migrate_solo E Ls clientID
      else if clientType = Tendermint then migrate_tendermint E ctx Ls clientID
      else Inr Ls)"

fun migrate_clients :: "('k, 'x) migration_env_scheme \<Rightarrow> ctx \<Rightarrow> 'k legacy_state \<Rightarrow> string list \<Rightarrow> 'k legacy_state result" where
  "migrate_clients E ctx Ls [] = Inr Ls"
| "migrate_clients E ctx Ls (clientID # clients) =
     (case migrate_client E ctx Ls clientID of Inl e \<Rightarrow> Inl e | Inr Ls' \<Rightarrow> migrate_clients E ctx Ls' clients)"

text \<open>\<open>keys\<close> are the keys of the module's store under the prefix of the clients.\<close>

definition MigrateStore :: "('k, 'x) migration_env_scheme \<Rightarrow> ctx \<Rightarrow> bytes list \<Rightarrow> 'k legacy_state \<Rightarrow> 'k legacy_state result" where
  "MigrateStore E ctx keys Ls =
     (case collect_keys decode_client_id keys of Inl e \<Rightarrow> Inl e | Inr clients \<Rightarrow> migrate_clients E ctx Ls clients)"

subsection \<open>MigrateGenesis (genesis.go)\<close>

text \<open>
  \<open>legacy i\<close> is what the bytes of the \<open>i\<close>-th client state of the genesis file decode to as a legacy solo machine.
\<close>

fun unexpired_states :: "tm_ClientState \<Rightarrow> int \<Rightarrow> ConsensusStateWithHeight list \<Rightarrow> ConsensusStateWithHeight list result" where
  "unexpired_states tmClientState genesisBlockTime [] = Inr []"
| "unexpired_states tmClientState genesisBlockTime (consState # consStates) =
     (case csh_ConsensusState consState of
        Some (TMCons tmConsState) \<Rightarrow>
          (case unexpired_states tmClientState genesisBlockTime consStates of Inl e \<Rightarrow> Inl e | Inr states \<Rightarrow>
           Inr (if \<not> IsExpired tmClientState (tm_Timestamp tmConsState) genesisBlockTime then consState # states else states))
      | _ \<Rightarrow> Inl Panic)"

definition height_metadata :: "Height \<Rightarrow> Height \<Rightarrow> GenesisMetadata \<Rightarrow> GenesisMetadata list" where
  "height_metadata selfHeight height gm =
     (if gm_Key gm = ProcessedTimeKey height
      then [NewGenesisMetadata (ProcessedHeightKey height) (Height_String selfHeight), gm,
            NewGenesisMetadata (IterationKey height) (ConsensusStatePath height)]
      else [])"

definition unexpired_metadata :: "Height \<Rightarrow> IdentifiedGenesisMetadata list \<Rightarrow> string \<Rightarrow> ConsensusStateWithHeight list \<Rightarrow> GenesisMetadata list" where
  "unexpired_metadata selfHeight clientsMetadata clientId unexpired =
     concat (map (\<lambda>consState. concat (map (\<lambda>identifiedGenMetadata.
       if igm_ClientId identifiedGenMetadata = clientId
       then concat (map (height_metadata selfHeight (csh_Height consState)) (igm_ClientMetadata identifiedGenMetadata)) else []) clientsMetadata)) unexpired)"

definition migrate_client_consensus :: "client_GenesisState \<Rightarrow> int \<Rightarrow> Height \<Rightarrow> string \<Rightarrow> IdentifiedClientState \<Rightarrow> ClientConsensusStates \<Rightarrow>
    (ClientConsensusStates list \<times> IdentifiedGenesisMetadata list) result" where
  "migrate_client_consensus G genesisBlockTime selfHeight clientType client clientConsensusStates =
     (if ccs_ClientId clientConsensusStates \<noteq> ics_ClientId client \<or> clientType \<noteq> Tendermint then Inr ([], [])
      else case ics_ClientState client of
        Some (TMClient tmClientState) \<Rightarrow>
          (case unexpired_states tmClientState genesisBlockTime (ccs_ConsensusStates clientConsensusStates) of Inl e \<Rightarrow> Inl e | Inr unexpired \<Rightarrow>
           let clientMetadata = unexpired_metadata selfHeight (ClientsMetadata G) (ics_ClientId client) unexpired in
           Inr (if length unexpired \<noteq> 0 then [\<lparr> ccs_ClientId = ics_ClientId client, ccs_ConsensusStates = unexpired \<rparr>] else [],
                if length clientMetadata \<noteq> 0 then [NewIdentifiedGenesisMetadata (ics_ClientId client) clientMetadata] else []))
      | _ \<Rightarrow> Inl (ClientE ErrInvalidClient))"

fun migrate_consensus :: "client_GenesisState \<Rightarrow> int \<Rightarrow> Height \<Rightarrow> string \<Rightarrow> IdentifiedClientState \<Rightarrow> ClientConsensusStates list \<Rightarrow>
    (ClientConsensusStates list \<times> IdentifiedGenesisMetadata list) result" where
  "migrate_consensus G genesisBlockTime selfHeight clientType client [] = Inr ([], [])"
| "migrate_consensus G genesisBlockTime selfHeight clientType client (ccs # rest) =
     (case migrate_client_consensus G genesisBlockTime selfHeight clientType client ccs of Inl e \<Rightarrow> Inl e | Inr (c1, m1) \<Rightarrow>
     (case migrate_consensus G genesisBlockTime selfHeight clientType client rest of Inl e \<Rightarrow> Inl e | Inr (c2, m2) \<Rightarrow>
      Inr (c1 @ c2, m1 @ m2)))"

definition migrate_genesis_client :: "('k, 'x) migration_env_scheme \<Rightarrow> legacy_solo option \<Rightarrow> string \<Rightarrow> IdentifiedClientState \<Rightarrow> IdentifiedClientState result" where
  "migrate_genesis_client E legacy clientType client =
     (if clientType \<noteq> Solomachine then Inr client
      else case legacy of None \<Rightarrow> Inl (External ''codec'') | Some clientState \<Rightarrow>
        (case migrateSolomachine clientState of Inl e \<Rightarrow> Inl e | Inr updatedClientState \<Rightarrow>
        (case PackClientState E (Some (SoloClient updatedClientState)) of Inl e \<Rightarrow> Inl e | Inr any \<Rightarrow>
         Inr (NewIdentifiedClientState (ics_ClientId client) (SoloClient updatedClientState)))))"

fun migrate_genesis_clients :: "('k, 'x) migration_env_scheme \<Rightarrow> client_GenesisState \<Rightarrow> int \<Rightarrow> Height \<Rightarrow> (nat \<rightharpoonup> legacy_solo) \<Rightarrow> nat \<Rightarrow>
    IdentifiedClientState list \<Rightarrow> (IdentifiedClientState list \<times> ClientConsensusStates list \<times> IdentifiedGenesisMetadata list) result" where
  "migrate_genesis_clients E G genesisBlockTime selfHeight legacy i [] = Inr ([], [], [])"
| "migrate_genesis_clients E G genesisBlockTime selfHeight legacy i (client # clients) =
     (case ParseClientIdentifier (ics_ClientId client) of Inl e \<Rightarrow> Inl e | Inr (clientType, _) \<Rightarrow>
     (case migrate_genesis_client E (legacy i) clientType client of Inl e \<Rightarrow> Inl e | Inr client' \<Rightarrow>
     (case migrate_consensus G genesisBlockTime selfHeight clientType client (ClientsConsensus G) of Inl e \<Rightarrow> Inl e | Inr (c1, m1) \<Rightarrow>
     (case migrate_genesis_clients E G genesisBlockTime selfHeight legacy (Suc i) clients of Inl e \<Rightarrow> Inl e | Inr (clients', c2, m2) \<Rightarrow>
      Inr (client' # clients', c1 @ c2, m1 @ m2)))))"

definition MigrateGenesis :: "('k, 'x) migration_env_scheme \<Rightarrow> (nat \<rightharpoonup> legacy_solo) \<Rightarrow> client_GenesisState \<Rightarrow> int \<Rightarrow> Height \<Rightarrow> client_GenesisState result" where
  "MigrateGenesis E legacy clientGenState genesisBlockTime selfHeight =
     (case migrate_genesis_clients E clientGenState genesisBlockTime selfHeight legacy 0 (Clients clientGenState) of Inl e \<Rightarrow> Inl e
      | Inr (clients', clientsConsensus, clientsMetadata) \<Rightarrow>
        Inr (clientGenState \<lparr> Clients := clients', ClientsConsensus := clientsConsensus, ClientsMetadata := clientsMetadata \<rparr>))"

text \<open>
  The migration of the genesis file of the core module (\<^verbatim>\<open>core/legacy/v100/genesis.go\<close>): the JSON codec gives the genesis state together with the
  legacy solo machines in it.
\<close>

definition host_ModuleName :: string where "host_ModuleName = ''ibc''"

definition core_MigrateGenesis :: "('k, 'x) migration_env_scheme \<Rightarrow> (string \<rightharpoonup> bytes) \<Rightarrow> int \<Rightarrow> string \<Rightarrow> int \<Rightarrow> u64 \<Rightarrow> (string \<rightharpoonup> bytes) result" where
  "core_MigrateGenesis E appState genesisTime chainID initialHeight maxTime =
     (case appState host_ModuleName of None \<Rightarrow> Inr appState | Some bz \<Rightarrow>
     (case json_UnmarshalGenesis E bz of None \<Rightarrow> Inl Panic | Some (ibcGenState, legacy) \<Rightarrow>
     (case ParseChainID chainID of Inl e \<Rightarrow> Inl e | Inr revision \<Rightarrow>
     (case MigrateGenesis E legacy (ClientGenesis ibcGenState) genesisTime (Height revision (word_of_int initialHeight)) of Inl e \<Rightarrow> Inl e
      | Inr clientGenState \<Rightarrow>
      let connectionGenesis = conn_NewGenesisState (Connections (ConnectionGenesis ibcGenState)) (ClientConnectionPaths (ConnectionGenesis ibcGenState))
            (NextConnectionSequence (ConnectionGenesis ibcGenState)) \<lparr> MaxExpectedTimePerBlock = maxTime \<rparr> in
      (case json_MarshalGenesis E (ibcGenState \<lparr> ClientGenesis := clientGenState, ConnectionGenesis := connectionGenesis \<rparr>) of None \<Rightarrow> Inl Panic | Some bz' \<Rightarrow>
       Inr (appState(host_ModuleName \<mapsto> bz')))))))"

subsection \<open>What the loops do to a client's store\<close>

definition client_store_keys :: "client_store \<Rightarrow> bytes set" where
  "client_store_keys store =
     (if st_clientState store = None then {} else {KeyClientState}) \<union> ConsensusStatePath ` dom (st_consensus store) \<union>
     ProcessedTimeKey ` dom (st_processedTime store) \<union> ProcessedHeightKey ` dom (st_processedHeight store) \<union>
     IterationKey ` set (st_iteration store) \<union> dom (st_raw store)"

text \<open>The iterator lists the keys of a store under the prefix of the consensus states, each once.\<close>

definition lists_keys :: "('k, 'x) migration_env_scheme \<Rightarrow> client_store \<Rightarrow> bool" where
  "lists_keys E store \<longleftrightarrow> st_raw store = Map.empty \<and> distinct (kv_ClientKeys E store KeyConsensusStatePrefix) \<and>
     set (kv_ClientKeys E store KeyConsensusStatePrefix) = {k \<in> client_store_keys store. prefix KeyConsensusStatePrefix k}"

lemma collect_keys_items:
  "\<forall>k \<in> set ks. dec k = Skip \<or> (\<exists>i. dec k = Item i) \<Longrightarrow> collect_keys dec ks = Inr (items dec ks)"
  by (induction ks) auto

lemma decode_heights:
  "decode_solo_height (ConsensusStatePath h) = Item h" "decode_solo_height (ProcessedTimeKey h) = Skip"
  "decode_solo_height (ProcessedHeightKey h) = Skip"
  "decode_tm_height (ConsensusStatePath h) = Item h" "decode_tm_height (ProcessedTimeKey h) = Skip"
  "decode_tm_height (ProcessedHeightKey h) = Skip"
  by (simp_all add: decode_solo_height_def decode_tm_height_def split_lasts Let_def MustParseHeight_def ParseHeight_String)

lemma consensus_prefix_keys:
  "\<not> prefix KeyConsensusStatePrefix KeyClientState" "\<not> prefix KeyConsensusStatePrefix (IterationKey h)"
  by (simp_all add: KeyConsensusStatePrefix_def KeyClientState_def IterationKey_def KeyIterateConsensusStatePrefix_def)

lemma consensus_state_path_inj: "ConsensusStatePath h = ConsensusStatePath k \<longleftrightarrow> h = k"
  by (simp add: ConsensusStatePath_def)

lemma collected_heights:
  assumes k: "lists_keys E store" and dec: "\<And>h. dec (ConsensusStatePath h) = Item h" "\<And>h. dec (ProcessedTimeKey h) = Skip" "\<And>h. dec (ProcessedHeightKey h) = Skip"
  shows "\<exists>hs. collect_keys dec (kv_ClientKeys E store KeyConsensusStatePrefix) = Inr hs \<and> distinct hs \<and> set hs = dom (st_consensus store)"
proof -
  let ?ks = "kv_ClientKeys E store KeyConsensusStatePrefix"
  have ks: "k \<in> ConsensusStatePath ` dom (st_consensus store) \<union> ProcessedTimeKey ` dom (st_processedTime store) \<union>
      ProcessedHeightKey ` dom (st_processedHeight store)" if "k \<in> set ?ks" for k
    using that assms(1) by (auto simp: lists_keys_def client_store_keys_def consensus_prefix_keys split: if_splits)
  then have c: "collect_keys dec ?ks = Inr (items dec ?ks)" by (intro collect_keys_items) (fastforce simp: dec)
  have "distinct (items dec ?ks)"
  proof (rule distinct_items)
    show "distinct ?ks" using k by (simp add: lists_keys_def)
    show "\<forall>x \<in> set ?ks. \<forall>y \<in> set ?ks. \<forall>i. dec x = Item i \<longrightarrow> dec y = Item i \<longrightarrow> x = y"
    proof (intro ballI allI impI)
      fix x y i assume "x \<in> set ?ks" "y \<in> set ?ks" and "dec x = Item i" "dec y = Item i"
      with ks [of x] ks [of y] dec show "x = y" by auto
    qed
  qed
  moreover have "ConsensusStatePath h \<in> set ?ks" if "h \<in> dom (st_consensus store)" for h
    using that k by (auto simp: lists_keys_def client_store_keys_def ConsensusStatePath_def)
  then have "dom (st_consensus store) \<subseteq> set (items dec ?ks)" unfolding set_items using dec(1) by blast
  moreover have "i \<in> dom (st_consensus store)" if "k \<in> set ?ks" "dec k = Item i" for k i
    using ks [OF that(1)] that(2) dec by auto
  then have "set (items dec ?ks) \<subseteq> dom (st_consensus store)" unfolding set_items by blast
  ultimately show ?thesis using c by blast
qed

lemma foldl_deleteConsensusState:
  "foldl deleteConsensusState store hs = store \<lparr> st_consensus := (st_consensus store) |` (- set hs) \<rparr>"
  by (induction hs arbitrary: store) (auto simp: deleteConsensusState_def restrict_map_def fun_eq_iff)

lemma prune_solo:
  assumes "lists_keys E store"
  shows "pruneSolomachineConsensusStates E store = Inr (store \<lparr> st_consensus := Map.empty \<rparr>)"
proof -
  from collected_heights [OF assms, of decode_solo_height] obtain hs where
    "collect_keys decode_solo_height (kv_ClientKeys E store KeyConsensusStatePrefix) = Inr hs" "set hs = dom (st_consensus store)"
    by (auto simp: decode_heights)
  then show ?thesis
    by (simp add: pruneSolomachineConsensusStates_def foldl_deleteConsensusState)
      (simp add: restrict_map_def fun_eq_iff domIff cong: if_cong)
qed

lemma add_metadata_eq:
  assumes "GetSelfHeight ctx = Inr self"
  shows "add_metadata ctx store hs = Inr (store \<lparr>
     st_processedHeight := (\<lambda>h. if h \<in> set hs then Some self else st_processedHeight store h),
     st_iteration := fold insort_insert hs (st_iteration store) \<rparr>)"
  by (induction hs arbitrary: store) (auto simp: assms store_ops fun_eq_iff)

lemma fold_insort_insert:
  "sorted is \<Longrightarrow> distinct is \<Longrightarrow>
     sorted (fold insort_insert hs is) \<and> distinct (fold insort_insert hs is) \<and> set (fold insort_insert hs is) = set is \<union> set hs"
  by (induction hs arbitrary: "is") (auto simp: sorted_insort_insert distinct_insort_insert set_insort_insert)

text \<open>
  A Tendermint store to be migrated: every consensus state has its processed time, processed heights and iteration keys may be missing.
\<close>

definition legacy_tm_store :: "client_store \<Rightarrow> bool" where
  "legacy_tm_store store \<longleftrightarrow> dom (st_processedTime store) = dom (st_consensus store) \<and>
     dom (st_processedHeight store) \<subseteq> dom (st_consensus store) \<and> set (st_iteration store) \<subseteq> dom (st_consensus store) \<and>
     sorted (st_iteration store) \<and> distinct (st_iteration store) \<and> (\<forall>h c. st_consensus store h = Some c \<longrightarrow> (\<exists>t. c = TMCons t))"

lemma addConsensusMetadata_store:
  assumes l: "lists_keys E store" and tm: "legacy_tm_store store" and self: "GetSelfHeight ctx = Inr self"
  shows "\<exists>store'. addConsensusMetadata E ctx store = Inr store' \<and> metadata_inv store' \<and>
     st_consensus store' = st_consensus store \<and> st_clientState store' = st_clientState store"
proof -
  from collected_heights [OF l, of decode_tm_height] obtain hs where
    hs: "collect_keys decode_tm_height (kv_ClientKeys E store KeyConsensusStatePrefix) = Inr hs" "set hs = dom (st_consensus store)"
    by (auto simp: decode_heights)
  let ?s = "store \<lparr> st_processedHeight := (\<lambda>h. if h \<in> set hs then Some self else st_processedHeight store h),
     st_iteration := fold insort_insert hs (st_iteration store) \<rparr>"
  have "dom (\<lambda>h. if h \<in> set hs then Some self else st_processedHeight store h) = set hs"
    using tm hs(2) by (auto simp: legacy_tm_store_def dom_def split: if_splits)
  with tm hs(2) fold_insort_insert [of "st_iteration store" hs] have "metadata_inv ?s"
    by (auto simp: metadata_inv_def legacy_tm_store_def)
  with hs show ?thesis by (simp add: addConsensusMetadata_def add_metadata_eq [OF self])
qed

subsection \<open>Pruning expired consensus states\<close>

definition expired_at :: "ctx \<Rightarrow> tm_ClientState \<Rightarrow> client_store \<Rightarrow> Height \<Rightarrow> bool" where
  "expired_at ctx cs store h \<longleftrightarrow>
     (case st_consensus store h of Some (TMCons c) \<Rightarrow> IsExpired cs (tm_Timestamp c) (BlockTime ctx) | _ \<Rightarrow> False)"

lemma pruned_heights:
  assumes "\<forall>h \<in> set hs. \<exists>c. st_consensus store h = Some (TMCons c)"
  shows "iterate_heights hs (\<lambda>heights height. case GetConsensusState store height of Inl _ \<Rightarrow> (heights, True)
     | Inr consState \<Rightarrow> (if IsExpired cs (tm_Timestamp consState) (BlockTime ctx) then heights @ [height] else heights, False)) acc
     = acc @ filter (expired_at ctx cs store) hs"
  using assms by (induction hs arbitrary: acc) (auto simp: GetConsensusState_def expired_at_def)

lemma foldl_deleteConsensus:
  "metadata_inv store \<Longrightarrow>
   metadata_inv (foldl (\<lambda>st height. deleteConsensusMetadata (deleteConsensusState st height) height) store hs) \<and>
   st_consensus (foldl (\<lambda>st height. deleteConsensusMetadata (deleteConsensusState st height) height) store hs) = st_consensus store |` (- set hs) \<and>
   st_clientState (foldl (\<lambda>st height. deleteConsensusMetadata (deleteConsensusState st height) height) store hs) = st_clientState store"
proof (induction hs arbitrary: store)
  case (Cons h hs)
  have "st_consensus (deleteConsensusMetadata (deleteConsensusState store h) h) = (st_consensus store)(h := None)"
    "st_clientState (deleteConsensusMetadata (deleteConsensusState store h) h) = st_clientState store"
    by (simp_all add: store_ops)
  with Cons.IH [OF metadata_inv_delete [OF Cons.prems]] show ?case by (auto simp: restrict_map_def fun_eq_iff)
qed (simp add: restrict_map_def)

lemma prune_exact:
  assumes inv: "metadata_inv store"
  shows "metadata_inv (PruneAllExpiredConsensusStates ctx store cs)"
    and "st_consensus (PruneAllExpiredConsensusStates ctx store cs) = st_consensus store |` {h. \<not> expired_at ctx cs store h}"
    and "st_clientState (PruneAllExpiredConsensusStates ctx store cs) = st_clientState store"
proof -
  have it: "\<forall>h \<in> set (st_iteration store). \<exists>c. st_consensus store h = Some (TMCons c)"
    using inv by (fastforce simp: metadata_inv_def)
  have p: "PruneAllExpiredConsensusStates ctx store cs =
      foldl (\<lambda>st height. deleteConsensusMetadata (deleteConsensusState st height) height) store (filter (expired_at ctx cs store) (st_iteration store))"
    by (simp add: PruneAllExpiredConsensusStates_def IterateConsensusStateAscending_def pruned_heights [OF it])
  note f = foldl_deleteConsensus [OF inv, of "filter (expired_at ctx cs store) (st_iteration store)"]
  show "metadata_inv (PruneAllExpiredConsensusStates ctx store cs)" "st_clientState (PruneAllExpiredConsensusStates ctx store cs) = st_clientState store"
    using f by (simp_all add: p)
  have "set (st_iteration store) = dom (st_consensus store)" using inv by (simp add: metadata_inv_def)
  then show "st_consensus (PruneAllExpiredConsensusStates ctx store cs) = st_consensus store |` {h. \<not> expired_at ctx cs store h}"
    using f by (auto simp: p restrict_map_def fun_eq_iff)
qed

subsection \<open>What a migration leaves behind\<close>

definition has_client :: "'k legacy_state \<Rightarrow> string \<Rightarrow> bool" where
  "has_client Ls cid \<longleftrightarrow> fst Ls cid \<noteq> None \<or> GetClientState (snd Ls) cid \<noteq> None"

text \<open>The keys under the prefix of the clients: those that end in \<^verbatim>\<open>clientState\<close> are the client state keys of the clients of the store.\<close>

definition lists_clients :: "'k legacy_state \<Rightarrow> bytes list \<Rightarrow> bool" where
  "lists_clients Ls ks \<longleftrightarrow> distinct ks \<and>
     (\<forall>k \<in> set ks. last (split_on (CHR ''/'') k) = KeyClientState \<longrightarrow> (\<exists>cid. has_client Ls cid \<and> k = FullClientStatePath cid)) \<and>
     (\<forall>cid. has_client Ls cid \<longrightarrow> FullClientStatePath cid \<in> set ks \<and> no_slash cid)"

text \<open>What the migration needs of a client.\<close>

definition migratable :: "('k, 'x) migration_env_scheme \<Rightarrow> 'k legacy_state \<Rightarrow> string \<Rightarrow> bool" where
  "migratable E Ls cid \<longleftrightarrow>
     (case fst Ls cid of
        Some l \<Rightarrow> (\<exists>n. ParseClientIdentifier cid = Inr (Solomachine, n)) \<and> ls_ConsensusState l \<noteq> None
      | None \<Rightarrow> (\<exists>cs n. GetClientState (snd Ls) cid = Some (TMClient cs) \<and> ParseClientIdentifier cid = Inr (Tendermint, n) \<and>
          legacy_tm_store (clientStores (snd Ls) cid)))"

text \<open>The store of a client after its migration, by what it was before.\<close>

definition migrated :: "ctx \<Rightarrow> legacy_solo option \<Rightarrow> client_store \<Rightarrow> client_store \<Rightarrow> bool" where
  "migrated ctx legacy store store' \<longleftrightarrow>
     (case legacy of
        Some l \<Rightarrow> (\<exists>cs. st_clientState store' = Some (SoloClient cs) \<and> solo_Sequence cs = ls_Sequence l \<and>
          (solo_IsFrozen cs \<longleftrightarrow> ls_FrozenSequence l \<noteq> 0) \<and> solo_ConsensusState cs = ls_ConsensusState l \<and>
          solo_AllowUpdateAfterProposal cs = ls_AllowUpdateAfterProposal l \<and> st_consensus store' = Map.empty)
      | None \<Rightarrow> (\<exists>cs. st_clientState store = Some (TMClient cs) \<and> st_clientState store' = Some (TMClient cs) \<and> metadata_inv store' \<and>
          st_consensus store' = st_consensus store |` {h. \<not> expired_at ctx cs store h}))"

lemma clientStores_set_client_store [simp]: "clientStores (set_client_store s cid store) = (clientStores s)(cid := store)"
  by (simp add: set_client_store_def)

lemma migrate_solo_client:
  assumes l: "fst Ls cid = Some l" "ls_ConsensusState l = Some c" and m: "\<forall>cs. cdc_MarshalClientState E cs \<noteq> None"
    and keys: "\<forall>c. lists_keys E (clientStores (snd Ls) cid \<lparr> st_clientState := c \<rparr>)"
  shows "\<exists>store. migrate_solo E Ls cid = Inr ((fst Ls)(cid := None), set_client_store (snd Ls) cid store) \<and>
    migrated ctx (fst Ls cid) (clientStores (snd Ls) cid) store"
proof -
  let ?u = "\<lparr> solo_Sequence = ls_Sequence l, solo_IsFrozen = (ls_FrozenSequence l \<noteq> 0), solo_ConsensusState = Some c,
    solo_AllowUpdateAfterProposal = ls_AllowUpdateAfterProposal l \<rparr>"
  have u: "migrateSolomachine l = Inr ?u" by (simp add: migrateSolomachine_def l(2))
  from m obtain bz where "cdc_MarshalClientState E (SoloClient ?u) = Some bz" by blast
  then have "migrate_solo E Ls cid = Inr ((fst Ls)(cid := None),
      set_client_store (snd Ls) cid (clientStores (snd Ls) cid \<lparr> st_clientState := Some (SoloClient ?u), st_consensus := Map.empty \<rparr>))"
    unfolding migrate_solo_def l(1) by (simp add: u MarshalClientState_def from_ext_def prune_solo [OF keys [rule_format]])
  then show ?thesis by (auto simp: migrated_def l)
qed

lemma migrate_tendermint_client:
  assumes c: "fst Ls cid = None" "GetClientState (snd Ls) cid = Some (TMClient cs)" and tm: "legacy_tm_store (clientStores (snd Ls) cid)"
    and keys: "lists_keys E (clientStores (snd Ls) cid)" and self: "GetSelfHeight ctx = Inr self"
  shows "\<exists>store. migrate_tendermint E ctx Ls cid = Inr ((fst Ls)(cid := None), set_client_store (snd Ls) cid store) \<and>
    migrated ctx (fst Ls cid) (clientStores (snd Ls) cid) store"
proof -
  from addConsensusMetadata_store [OF keys tm self] obtain store where
    s: "addConsensusMetadata E ctx (clientStores (snd Ls) cid) = Inr store" "metadata_inv store"
      "st_consensus store = st_consensus (clientStores (snd Ls) cid)" "st_clientState store = st_clientState (clientStores (snd Ls) cid)" by blast
  have "(fst Ls)(cid := None) = fst Ls" using c(1) by auto
  moreover have "expired_at ctx cs store = expired_at ctx cs (clientStores (snd Ls) cid)" by (simp add: expired_at_def s(3) fun_eq_iff)
  moreover have "st_clientState (clientStores (snd Ls) cid) = Some (TMClient cs)" using c(2) by (simp add: GetClientState_def)
  ultimately show ?thesis
    using c s prune_exact [OF s(2), of ctx cs] by (auto simp: migrate_tendermint_def migrated_def)
qed

lemma migrate_client_ok:
  assumes m: "migratable E Ls cid" and cdc: "\<forall>cs. cdc_MarshalClientState E cs \<noteq> None"
    and keys: "\<forall>c. lists_keys E (clientStores (snd Ls) cid \<lparr> st_clientState := c \<rparr>)" and self: "GetSelfHeight ctx = Inr self"
  shows "\<exists>store. migrate_client E ctx Ls cid = Inr ((fst Ls)(cid := None), set_client_store (snd Ls) cid store) \<and>
    migrated ctx (fst Ls cid) (clientStores (snd Ls) cid) store"
proof (cases "fst Ls cid")
  case None
  with m obtain cs n where c: "GetClientState (snd Ls) cid = Some (TMClient cs)" "ParseClientIdentifier cid = Inr (Tendermint, n)"
    "legacy_tm_store (clientStores (snd Ls) cid)" by (auto simp: migratable_def)
  have "Tendermint \<noteq> Solomachine" by (simp add: Tendermint_def Solomachine_def)
  moreover from keys [THEN spec, of "st_clientState (clientStores (snd Ls) cid)"] have "lists_keys E (clientStores (snd Ls) cid)" by simp
  ultimately show ?thesis using migrate_tendermint_client [OF None c(1,3) _ self] c by (simp add: migrate_client_def)
next
  case (Some l)
  with m obtain n c where c: "ParseClientIdentifier cid = Inr (Solomachine, n)" "ls_ConsensusState l = Some c" by (auto simp: migratable_def)
  from migrate_solo_client [OF Some c(2) cdc keys, of ctx] Some c(1) show ?thesis by (simp add: migrate_client_def)
qed

lemma migratable_other:
  "migratable E ((fst Ls)(c := x), set_client_store (snd Ls) c store) cid = migratable E Ls cid" if "cid \<noteq> c"
  using that by (auto simp: migratable_def GetClientState_def split: option.splits)

lemma migrate_clients_ok:
  assumes "distinct clients" "\<forall>cid \<in> set clients. migratable E Ls cid" and cdc: "\<forall>cs. cdc_MarshalClientState E cs \<noteq> None"
    and "\<forall>cid \<in> set clients. \<forall>c. lists_keys E (clientStores (snd Ls) cid \<lparr> st_clientState := c \<rparr>)" and self: "GetSelfHeight ctx = Inr self"
  shows "\<exists>Ls'. migrate_clients E ctx Ls clients = Inr Ls' \<and> snd Ls' = (snd Ls) \<lparr> clientStores := clientStores (snd Ls') \<rparr> \<and>
    (\<forall>cid. if cid \<in> set clients then fst Ls' cid = None \<and> migrated ctx (fst Ls cid) (clientStores (snd Ls) cid) (clientStores (snd Ls') cid)
      else fst Ls' cid = fst Ls cid \<and> clientStores (snd Ls') cid = clientStores (snd Ls) cid)"
  using assms(1,2,4)
proof (induction clients arbitrary: Ls)
  case (Cons c clients)
  from Cons.prems obtain store where
    st: "migrate_client E ctx Ls c = Inr ((fst Ls)(c := None), set_client_store (snd Ls) c store)" "migrated ctx (fst Ls c) (clientStores (snd Ls) c) store"
    using migrate_client_ok [OF _ cdc _ self] by (metis list.set_intros(1))
  let ?L = "((fst Ls)(c := None), set_client_store (snd Ls) c store)"
  have "\<forall>cid \<in> set clients. migratable E ?L cid" "\<forall>cid \<in> set clients. \<forall>x. lists_keys E (clientStores (snd ?L) cid \<lparr> st_clientState := x \<rparr>)"
    using Cons.prems by (auto intro!: migratable_other [THEN iffD2])
  with Cons.IH [of ?L] Cons.prems(1) obtain Ls' where
    l: "migrate_clients E ctx ?L clients = Inr Ls'" "snd Ls' = (snd ?L) \<lparr> clientStores := clientStores (snd Ls') \<rparr>"
    "\<And>cid. if cid \<in> set clients then fst Ls' cid = None \<and> migrated ctx (fst ?L cid) (clientStores (snd ?L) cid) (clientStores (snd Ls') cid)
      else fst Ls' cid = fst ?L cid \<and> clientStores (snd Ls') cid = clientStores (snd ?L) cid" by (metis distinct.simps(2))
  have "snd Ls' = (snd Ls) \<lparr> clientStores := clientStores (snd Ls') \<rparr>" using l(2) by (simp add: set_client_store_def)
  moreover have "if cid \<in> set (c # clients) then fst Ls' cid = None \<and> migrated ctx (fst Ls cid) (clientStores (snd Ls) cid) (clientStores (snd Ls') cid)
      else fst Ls' cid = fst Ls cid \<and> clientStores (snd Ls') cid = clientStores (snd Ls) cid" for cid
    using l(3) [of cid] st(2) Cons.prems(1) by (auto split: if_splits)
  ultimately show ?case using st(1) l(1) by auto
qed simp

lemma decode_client_id_path: "no_slash cid \<Longrightarrow> decode_client_id (FullClientStatePath cid) = Item cid"
  by (simp add: decode_client_id_def FullClientStatePath_def FullClientPath_def KeyClientStorePrefix_def KeyClientState_def
      split_on_append split_on_no_sep Let_def)

lemma collected_clients:
  assumes l: "lists_clients Ls ks"
  shows "\<exists>clients. collect_keys decode_client_id ks = Inr clients \<and> distinct clients \<and> set clients = {cid. has_client Ls cid}"
proof -
  have d: "decode_client_id k = Skip \<or> (\<exists>cid. has_client Ls cid \<and> k = FullClientStatePath cid \<and> decode_client_id k = Item cid)" if "k \<in> set ks" for k
    using l that decode_client_id_path by (force simp: lists_clients_def decode_client_id_def Let_def)
  then have c: "collect_keys decode_client_id ks = Inr (items decode_client_id ks)" by (intro collect_keys_items) blast
  have "distinct (items decode_client_id ks)"
  proof (rule distinct_items)
    show "distinct ks" using l by (simp add: lists_clients_def)
    show "\<forall>x \<in> set ks. \<forall>y \<in> set ks. \<forall>i. decode_client_id x = Item i \<longrightarrow> decode_client_id y = Item i \<longrightarrow> x = y"
      using d by (metis decoded.distinct(1) decoded.inject(1))
  qed
  moreover have "cid \<in> set (items decode_client_id ks)" if "has_client Ls cid" for cid
    using l that decode_client_id_path unfolding lists_clients_def set_items by blast
  moreover have "has_client Ls cid" if "cid \<in> set (items decode_client_id ks)" for cid
  proof -
    from that obtain k where "k \<in> set ks" "decode_client_id k = Item cid" by (auto simp: set_items)
    with d [of k] show ?thesis by auto
  qed
  ultimately show ?thesis using c by blast
qed

text \<open>
  C34: a store migration that has only solo machine clients of the first protobuf definition, each with a consensus state, and Tendermint
  clients, whose consensus states each have a processed time, always succeeds. It leaves no legacy client. A solo machine keeps its sequence, public key,
  diversifier, timestamp and proposal flag, is frozen exactly when its frozen sequence was not
  zero, and has no consensus states left in its store. A Tendermint client keeps its client state and exactly its unexpired
  consensus states, and every one of those has its iteration key, processed time and processed height. Identifiers without a client keep their
  stores and nothing outside the client stores changes.
\<close>

theorem migrated_store:
  assumes "lists_clients Ls ks" and "\<forall>cid. has_client Ls cid \<longrightarrow> migratable E Ls cid"
    and "\<forall>cs. cdc_MarshalClientState E cs \<noteq> None"
    and "\<forall>cid c. has_client Ls cid \<longrightarrow> lists_keys E (clientStores (snd Ls) cid \<lparr> st_clientState := c \<rparr>)"
    and "GetSelfHeight ctx = Inr self"
  shows "\<exists>Ls'. MigrateStore E ctx ks Ls = Inr Ls' \<and> fst Ls' = Map.empty \<and> snd Ls' = (snd Ls) \<lparr> clientStores := clientStores (snd Ls') \<rparr> \<and>
    (\<forall>cid. has_client Ls cid \<longrightarrow> migrated ctx (fst Ls cid) (clientStores (snd Ls) cid) (clientStores (snd Ls') cid)) \<and>
    (\<forall>cid. \<not> has_client Ls cid \<longrightarrow> clientStores (snd Ls') cid = clientStores (snd Ls) cid)"
proof -
  from collected_clients [OF assms(1)] obtain clients where
    c: "collect_keys decode_client_id ks = Inr clients" "distinct clients" "set clients = {cid. has_client Ls cid}" by blast
  from migrate_clients_ok [OF c(2) _ assms(3) _ assms(5), of Ls] assms(2,4) c(3) obtain Ls' where
    l: "migrate_clients E ctx Ls clients = Inr Ls'" "snd Ls' = (snd Ls) \<lparr> clientStores := clientStores (snd Ls') \<rparr>"
    "\<And>cid. if has_client Ls cid then fst Ls' cid = None \<and> migrated ctx (fst Ls cid) (clientStores (snd Ls) cid) (clientStores (snd Ls') cid)
      else fst Ls' cid = fst Ls cid \<and> clientStores (snd Ls') cid = clientStores (snd Ls) cid" by fastforce
  have "fst Ls' cid = None" for cid using l(3) [of cid] by (auto simp: has_client_def split: if_splits)
  with l c(1) show ?thesis by (simp add: MigrateStore_def fun_eq_iff)
qed

text \<open>
  C35: the migration never succeeds on a chain that has a localhost client: the identifier \<^verbatim>\<open>09-localhost\<close>
  has no sequence number and does not parse, so the loop returns the error when it reaches it, although localhost clients need no migration.
\<close>

theorem localhost_blocks_migration:
  assumes "lists_clients Ls ks" and "GetClientState (snd Ls) Localhost \<noteq> None"
  shows "\<exists>e. MigrateStore E ctx ks Ls = Inl e"
proof -
  have stuck: "\<exists>e. migrate_clients E ctx L clients = Inl e" if "Localhost \<in> set clients" for L clients
    using that
  proof (induction clients arbitrary: L)
    case (Cons c clients)
    have "ParseClientIdentifier Localhost = Inl (HostE ErrInvalidID)" by code_simp
    then have "migrate_client E ctx L Localhost = Inl (HostE ErrInvalidID)" by (simp add: migrate_client_def)
    with Cons show ?case by (cases "c = Localhost") (auto split: sum.split)
  qed simp
  from collected_clients [OF assms(1)] assms(2) obtain clients where
    "collect_keys decode_client_id ks = Inr clients" "Localhost \<in> set clients" by (auto simp: has_client_def)
  with stuck show ?thesis by (simp add: MigrateStore_def)
qed

subsection \<open>What a migrated genesis file holds\<close>

definition unexpired_in :: "client_GenesisState \<Rightarrow> int \<Rightarrow> IdentifiedClientState \<Rightarrow> ConsensusStateWithHeight \<Rightarrow> bool" where
  "unexpired_in G genesisBlockTime client state \<longleftrightarrow>
     (\<exists>ccs n tm c. ccs \<in> set (ClientsConsensus G) \<and> ccs_ClientId ccs = ics_ClientId client \<and> state \<in> set (ccs_ConsensusStates ccs) \<and>
        ParseClientIdentifier (ics_ClientId client) = Inr (Tendermint, n) \<and> ics_ClientState client = Some (TMClient tm) \<and>
        csh_ConsensusState state = Some (TMCons c) \<and> \<not> IsExpired tm (tm_Timestamp c) genesisBlockTime)"

definition listed_states :: "ClientConsensusStates list \<Rightarrow> (string \<times> ConsensusStateWithHeight) set" where
  "listed_states ccss = {(ccs_ClientId ccs, state) |ccs state. ccs \<in> set ccss \<and> state \<in> set (ccs_ConsensusStates ccs)}"

lemma listed_states_append: "listed_states (a @ b) = listed_states a \<union> listed_states b"
  by (auto simp: listed_states_def)

lemma unexpired_states_set:
  "unexpired_states tm t states = Inr u \<Longrightarrow>
     set u = {state \<in> set states. \<exists>c. csh_ConsensusState state = Some (TMCons c) \<and> \<not> IsExpired tm (tm_Timestamp c) t}"
  by (induction states arbitrary: u) (auto split: option.splits ConsensusState.splits sum.splits if_splits)

lemma migrate_client_consensus_states:
  assumes "migrate_client_consensus G t self ct client ccs = Inr (c, m)"
  shows "listed_states c = {(cid, state). cid = ics_ClientId client \<and> ccs_ClientId ccs = cid \<and> ct = Tendermint \<and> state \<in> set (ccs_ConsensusStates ccs) \<and>
     (\<exists>tm k. ics_ClientState client = Some (TMClient tm) \<and> csh_ConsensusState state = Some (TMCons k) \<and> \<not> IsExpired tm (tm_Timestamp k) t)}"
proof (cases "ccs_ClientId ccs = ics_ClientId client \<and> ct = Tendermint")
  case True
  with assms obtain tm u where u: "ics_ClientState client = Some (TMClient tm)" "unexpired_states tm t (ccs_ConsensusStates ccs) = Inr u"
    "c = (if length u \<noteq> 0 then [\<lparr> ccs_ClientId = ics_ClientId client, ccs_ConsensusStates = u \<rparr>] else [])"
    by (auto simp: migrate_client_consensus_def Let_def split: option.splits ClientState.splits sum.splits)
  have "listed_states c = Pair (ics_ClientId client) ` set u" by (auto simp: u(3) listed_states_def)
  then show ?thesis unfolding unexpired_states_set [OF u(2)] using True u(1) by auto
next
  case False
  with assms show ?thesis by (auto simp: migrate_client_consensus_def listed_states_def)
qed

lemma migrate_consensus_states:
  "migrate_consensus G t self ct client ccss = Inr (c, m) \<Longrightarrow>
   listed_states c = {(cid, state). cid = ics_ClientId client \<and> ct = Tendermint \<and> (\<exists>ccs \<in> set ccss. ccs_ClientId ccs = cid \<and> state \<in> set (ccs_ConsensusStates ccs)) \<and>
     (\<exists>tm k. ics_ClientState client = Some (TMClient tm) \<and> csh_ConsensusState state = Some (TMCons k) \<and> \<not> IsExpired tm (tm_Timestamp k) t)}"
proof (induction ccss arbitrary: c m)
  case (Cons ccs ccss)
  then obtain c1 m1 c2 m2 where r: "migrate_client_consensus G t self ct client ccs = Inr (c1, m1)" "migrate_consensus G t self ct client ccss = Inr (c2, m2)"
    "c = c1 @ c2" by (auto split: sum.splits)
  show ?case unfolding r(3) listed_states_append migrate_client_consensus_states [OF r(1)] Cons.IH [OF r(2)] by auto
qed (simp add: listed_states_def)

lemma migrate_genesis_clients_states:
  "migrate_genesis_clients E G t self legacy i clients = Inr (clients', c, m) \<Longrightarrow>
   listed_states c = {(ics_ClientId client, state) |client state. client \<in> set clients \<and> unexpired_in G t client state} \<and>
   list_all2 (\<lambda>client client'. ics_ClientId client' = ics_ClientId client) clients clients' \<and>
   (\<forall>j < length clients. \<forall>n. ParseClientIdentifier (ics_ClientId (clients ! j)) = Inr (Solomachine, n) \<longrightarrow>
      (\<exists>l cs. legacy (i + j) = Some l \<and> migrateSolomachine l = Inr cs \<and> ics_ClientState (clients' ! j) = Some (SoloClient cs)))"
proof (induction clients arbitrary: i clients' c m)
  case (Cons client clients)
  then obtain ct n client' c1 m1 clients1 c2 m2 where
    r: "ParseClientIdentifier (ics_ClientId client) = Inr (ct, n)" "migrate_genesis_client E (legacy i) ct client = Inr client'"
      "migrate_consensus G t self ct client (ClientsConsensus G) = Inr (c1, m1)"
      "migrate_genesis_clients E G t self legacy (Suc i) clients = Inr (clients1, c2, m2)" "clients' = client' # clients1" "c = c1 @ c2"
    by (auto split: sum.splits)
  have id: "ics_ClientId client' = ics_ClientId client" "ct = Solomachine \<Longrightarrow>
      \<exists>l cs. legacy i = Some l \<and> migrateSolomachine l = Inr cs \<and> ics_ClientState client' = Some (SoloClient cs)"
    using r(2) by (auto simp: migrate_genesis_client_def NewIdentifiedClientState_def split: if_splits option.splits sum.splits)
  have "listed_states c1 = {(ics_ClientId client, state) |state. unexpired_in G t client state}"
    unfolding migrate_consensus_states [OF r(3)] unexpired_in_def using r(1) by auto
  with Cons.IH [OF r(4)] r(6) have "listed_states c =
      {(ics_ClientId x, state) |x state. x \<in> set (client # clients) \<and> unexpired_in G t x state}"
    by (auto simp: listed_states_append)
  moreover have "\<exists>l cs. legacy (i + j) = Some l \<and> migrateSolomachine l = Inr cs \<and> ics_ClientState (clients' ! j) = Some (SoloClient cs)"
    if "j < length (client # clients)" "ParseClientIdentifier (ics_ClientId ((client # clients) ! j)) = Inr (Solomachine, k)" for j k
    using that Cons.IH [OF r(4)] r(1,5) id(2) by (cases j) auto
  ultimately show ?case using Cons.IH [OF r(4)] id(1) r(5) by simp
qed (simp add: listed_states_def)

text \<open>
  A genesis file that is migrated keeps its clients, in order and under their identifiers, its parameters, the localhost flag and the sequence counter. Its
  solo machines are the migrated legacy ones, and its consensus states are exactly those of Tendermint clients that have not expired at the
  time of the new genesis: no consensus state of a solo machine is kept.
\<close>

theorem migrated_genesis:
  assumes "MigrateGenesis E legacy G t self = Inr G'"
  shows "map ics_ClientId (Clients G') = map ics_ClientId (Clients G) \<and> client_Params G' = client_Params G \<and>
    CreateLocalhost G' = CreateLocalhost G \<and> NextClientSequence G' = NextClientSequence G \<and>
    listed_states (ClientsConsensus G') = {(ics_ClientId client, state) |client state. client \<in> set (Clients G) \<and> unexpired_in G t client state} \<and>
    (\<forall>j < length (Clients G). \<forall>n. ParseClientIdentifier (ics_ClientId (Clients G ! j)) = Inr (Solomachine, n) \<longrightarrow>
      (\<exists>l cs. legacy j = Some l \<and> migrateSolomachine l = Inr cs \<and> ics_ClientState (Clients G' ! j) = Some (SoloClient cs)))"
proof -
  from assms obtain clients' c m where r: "migrate_genesis_clients E G t self legacy 0 (Clients G) = Inr (clients', c, m)"
    "G' = G \<lparr> Clients := clients', ClientsConsensus := c, ClientsMetadata := m \<rparr>"
    by (auto simp: MigrateGenesis_def split: sum.splits)
  from migrate_genesis_clients_states [OF r(1)] have "list_all2 (\<lambda>client client'. ics_ClientId client' = ics_ClientId client) (Clients G) clients'" by blast
  then have "map ics_ClientId clients' = map ics_ClientId (Clients G)"
    by (induction rule: list_all2_induct) auto
  with migrate_genesis_clients_states [OF r(1)] show ?thesis by (simp add: r(2))
qed

end
