(* ===== verification/MigrationExamples.thy ===== *)
theory MigrationExamples
  imports StoreMigration QueryExamples
begin

text \<open>
  The theorems of \<open>StoreMigration\<close> on a store with a frozen legacy solo machine and a Tendermint client that has one expired and one
  unexpired consensus state, both without iteration keys and processed heights.
\<close>

definition old_solo :: legacy_solo where
  "old_solo = \<lparr> ls_Sequence = 7, ls_FrozenSequence = 3,
     ls_ConsensusState = Some \<lparr> solo_PublicKey = PubKeyOther, solo_Diversifier = ''d'', solo_Timestamp = 9 \<rparr>, ls_AllowUpdateAfterProposal = True \<rparr>"

definition old_solo_store :: client_store where
  "old_solo_store = empty_client_store \<lparr> st_consensus := [Height 0 1 \<mapsto> SoloCons \<lparr> solo_PublicKey = PubKeyOther, solo_Diversifier = ''d'', solo_Timestamp = 1 \<rparr>] \<rparr>"

definition old_tm_store :: client_store where
  "old_tm_store = empty_client_store \<lparr> st_clientState := Some (TMClient demo_tm),
     st_consensus := [Height 1 4 \<mapsto> TMCons (demo_cons (-5000)), Height 1 5 \<mapsto> TMCons (demo_cons 50)],
     st_processedTime := [Height 1 4 \<mapsto> 1, Height 1 5 \<mapsto> 90] \<rparr>"

definition old_state :: "unit legacy_state" where
  "old_state = ([''06-solomachine-1'' \<mapsto> old_solo],
     (empty_ibc_state ()) \<lparr> clientStores := (\<lambda>_. empty_client_store)(''06-solomachine-1'' := old_solo_store, ''07-tendermint-0'' := old_tm_store) \<rparr>)"

definition old_keys :: "client_store \<Rightarrow> bytes \<Rightarrow> bytes list" where
  "old_keys store p =
     (if p \<noteq> KeyConsensusStatePrefix then []
      else if st_consensus store (Height 0 1) \<noteq> None then [ConsensusStatePath (Height 0 1)]
      else [ConsensusStatePath (Height 1 4), ProcessedTimeKey (Height 1 4), ConsensusStatePath (Height 1 5), ProcessedTimeKey (Height 1 5)])"

definition migration_demo_env :: "unit migration_env" where
  "migration_demo_env = codec_env.extend (codec_env.truncate query_demo_env)
     \<lparr> kv_ClientKeys = old_keys, cdc_UnmarshalLegacySolo = (\<lambda>_. None), json_UnmarshalGenesis = (\<lambda>_. None), json_MarshalGenesis = (\<lambda>_. None) \<rparr>"

lemma migration_demo_fields:
  "kv_ClientKeys migration_demo_env = old_keys" "cdc_MarshalClientState migration_demo_env = (\<lambda>_. Some ''c'')"
  "cdc_NewAnyWithValue migration_demo_env = (\<lambda>_. True)"
  by (simp_all add: migration_demo_env_def codec_env.extend_def codec_env.truncate_def query_demo_env_def store_env.extend_def gen_env_def
      keeper_env.extend_def demo_kenv_def env.extend_def lax_env_def demo_env_def ics23.extend_def)

lemma old_solo_listed: "lists_keys migration_demo_env (old_solo_store \<lparr> st_clientState := c \<rparr>)"
proof -
  have "{k \<in> client_store_keys (old_solo_store \<lparr> st_clientState := c \<rparr>). prefix KeyConsensusStatePrefix k} = {ConsensusStatePath (Height 0 1)}"
    by (auto simp: client_store_keys_def old_solo_store_def empty_client_store_def consensus_prefix_keys ConsensusStatePath_def split: if_splits)
  then show ?thesis by (simp add: lists_keys_def migration_demo_fields old_keys_def old_solo_store_def empty_client_store_def)
qed

lemma old_tm_listed: "lists_keys migration_demo_env (old_tm_store \<lparr> st_clientState := c \<rparr>)"
proof -
  have "{k \<in> client_store_keys (old_tm_store \<lparr> st_clientState := c \<rparr>). prefix KeyConsensusStatePrefix k} =
      {ConsensusStatePath (Height 1 4), ProcessedTimeKey (Height 1 4), ConsensusStatePath (Height 1 5), ProcessedTimeKey (Height 1 5)}"
    by (auto simp: client_store_keys_def old_tm_store_def empty_client_store_def consensus_prefix_keys ProcessedTimeKey_def ConsensusStatePath_def split: if_splits)
  moreover have "distinct [ConsensusStatePath (Height 1 4), ProcessedTimeKey (Height 1 4), ConsensusStatePath (Height 1 5), ProcessedTimeKey (Height 1 5)]"
    by code_simp
  ultimately show ?thesis by (simp add: lists_keys_def migration_demo_fields old_keys_def old_tm_store_def empty_client_store_def)
qed

definition old_client_keys :: "bytes list" where
  "old_client_keys = [''clients/06-solomachine-1/clientState'', ''clients/06-solomachine-1/consensusStates/0-1'',
     ''clients/07-tendermint-0/clientState'', ''clients/07-tendermint-0/consensusStates/1-4'', ''clients/07-tendermint-0/consensusStates/1-4/processedTime'',
     ''clients/07-tendermint-0/consensusStates/1-5'', ''clients/07-tendermint-0/consensusStates/1-5/processedTime'']"

lemma old_has_client: "has_client old_state cid \<longleftrightarrow> cid = ''06-solomachine-1'' \<or> cid = ''07-tendermint-0''"
  by (simp add: has_client_def old_state_def GetClientState_def old_tm_store_def old_solo_store_def empty_client_store_def)

lemma old_listed: "lists_clients old_state old_client_keys"
  unfolding lists_clients_def old_has_client
proof (intro conjI)
  show "distinct old_client_keys" by code_simp
  have "list_all (\<lambda>k. last (split_on (CHR ''/'') k) = KeyClientState \<longrightarrow> k = FullClientStatePath ''06-solomachine-1'' \<or> k = FullClientStatePath ''07-tendermint-0'')
      old_client_keys" by code_simp
  then show "\<forall>k \<in> set old_client_keys. last (split_on (CHR ''/'') k) = KeyClientState \<longrightarrow>
      (\<exists>cid. (cid = ''06-solomachine-1'' \<or> cid = ''07-tendermint-0'') \<and> k = FullClientStatePath cid)"
    unfolding list_all_iff by blast
  have "List.member old_client_keys (FullClientStatePath ''06-solomachine-1'') \<and> no_slash ''06-solomachine-1''"
    "List.member old_client_keys (FullClientStatePath ''07-tendermint-0'') \<and> no_slash ''07-tendermint-0''" by code_simp+
  then show "\<forall>cid. cid = ''06-solomachine-1'' \<or> cid = ''07-tendermint-0'' \<longrightarrow> FullClientStatePath cid \<in> set old_client_keys \<and> no_slash cid"
    by auto
qed

lemma old_migratable: "has_client old_state cid \<Longrightarrow> migratable migration_demo_env old_state cid"
proof -
  have p: "ParseClientIdentifier ''06-solomachine-1'' = Inr (Solomachine, 1)" "ParseClientIdentifier ''07-tendermint-0'' = Inr (Tendermint, 0)"
    by code_simp+
  have "legacy_tm_store old_tm_store"
    by (auto simp: legacy_tm_store_def old_tm_store_def empty_client_store_def split: if_splits)
  with p show "has_client old_state cid \<Longrightarrow> migratable migration_demo_env old_state cid"
    unfolding old_has_client by (auto simp: migratable_def old_state_def old_solo_def GetClientState_def old_tm_store_def)
qed

lemma old_demo_self: "GetSelfHeight demo_ctx = Inr (Height 1 10)" by code_simp

theorem migrated_store_witness:
  "\<exists>Ls'. MigrateStore migration_demo_env demo_ctx old_client_keys old_state = Inr Ls' \<and> fst Ls' = Map.empty \<and>
     migrated demo_ctx (Some old_solo) old_solo_store (clientStores (snd Ls') ''06-solomachine-1'') \<and>
     migrated demo_ctx None old_tm_store (clientStores (snd Ls') ''07-tendermint-0'') \<and>
     \<not> expired_at demo_ctx demo_tm old_tm_store (Height 1 5) \<and> expired_at demo_ctx demo_tm old_tm_store (Height 1 4)"
proof -
  have l: "\<forall>cid c. has_client old_state cid \<longrightarrow> lists_keys migration_demo_env (clientStores (snd old_state) cid \<lparr> st_clientState := c \<rparr>)"
    unfolding old_has_client using old_solo_listed old_tm_listed by (auto simp: old_state_def)
  have e: "\<not> expired_at demo_ctx demo_tm old_tm_store (Height 1 5)" "expired_at demo_ctx demo_tm old_tm_store (Height 1 4)"
    by code_simp+
  have s: "fst old_state ''06-solomachine-1'' = Some old_solo" "fst old_state ''07-tendermint-0'' = None"
    "clientStores (snd old_state) ''06-solomachine-1'' = old_solo_store" "clientStores (snd old_state) ''07-tendermint-0'' = old_tm_store"
    by (simp_all add: old_state_def)
  from migrated_store [OF old_listed, of migration_demo_env demo_ctx "Height 1 10"] old_migratable l obtain Ls' where
    r: "MigrateStore migration_demo_env demo_ctx old_client_keys old_state = Inr Ls'" "fst Ls' = Map.empty"
    "\<forall>cid. has_client old_state cid \<longrightarrow> migrated demo_ctx (fst old_state cid) (clientStores (snd old_state) cid) (clientStores (snd Ls') cid)"
    by (auto simp: migration_demo_fields old_demo_self)
  from r(3) [rule_format, of "''06-solomachine-1''"] r(3) [rule_format, of "''07-tendermint-0''"] s e r(1,2) show ?thesis
    by (intro exI [of _ Ls']) (simp add: old_has_client)
qed

definition lh_state :: "unit legacy_state" where
  "lh_state = (Map.empty, (empty_ibc_state ()) \<lparr> clientStores := (\<lambda>_. empty_client_store)(Localhost :=
     empty_client_store \<lparr> st_clientState := Some (LHClient \<lparr> lh_ChainId = ''self-1'', lh_Height = Height 1 10 \<rparr>) \<rparr>) \<rparr>)"

theorem localhost_blocks_migration_witness:
  "GetClientState (snd lh_state) Localhost \<noteq> None \<and> (\<exists>e. MigrateStore migration_demo_env demo_ctx [FullClientStatePath Localhost] lh_state = Inl e)"
proof
  show c: "GetClientState (snd lh_state) Localhost \<noteq> None" by (simp add: lh_state_def GetClientState_def)
  have "has_client lh_state cid \<longleftrightarrow> cid = Localhost" for cid
    by (auto simp: has_client_def lh_state_def GetClientState_def empty_client_store_def)
  moreover have "no_slash Localhost" by code_simp
  ultimately have "lists_clients lh_state [FullClientStatePath Localhost]" by (simp add: lists_clients_def)
  from localhost_blocks_migration [OF this c] show "\<exists>e. MigrateStore migration_demo_env demo_ctx [FullClientStatePath Localhost] lh_state = Inl e" .
qed

definition old_genesis :: client_GenesisState where
  "old_genesis = \<lparr> Clients = [\<lparr> ics_ClientId = ''06-solomachine-1'', ics_ClientState = None \<rparr>, NewIdentifiedClientState ''07-tendermint-0'' (TMClient demo_tm)],
     ClientsConsensus = [\<lparr> ccs_ClientId = ''07-tendermint-0'', ccs_ConsensusStates =
       [NewConsensusStateWithHeight (Height 1 4) (TMCons (demo_cons (-5000))), NewConsensusStateWithHeight (Height 1 5) (TMCons (demo_cons 50))] \<rparr>],
     ClientsMetadata = [NewIdentifiedGenesisMetadata ''07-tendermint-0'' [NewGenesisMetadata (ProcessedTimeKey (Height 1 5)) ''t'']],
     client_Params = [''07-tendermint''], CreateLocalhost = False, NextClientSequence = 2 \<rparr>"

theorem migrated_genesis_witness:
  "\<exists>G'. MigrateGenesis migration_demo_env [0 \<mapsto> old_solo] old_genesis 100 (Height 1 10) = Inr G' \<and>
     map ics_ClientId (Clients G') = [''06-solomachine-1'', ''07-tendermint-0''] \<and>
     listed_states (ClientsConsensus G') = {(ics_ClientId client, state) |client state. client \<in> set (Clients old_genesis) \<and> unexpired_in old_genesis 100 client state}"
proof -
  have p: "ParseClientIdentifier ''06-solomachine-1'' = Inr (Solomachine, 1)" "ParseClientIdentifier ''07-tendermint-0'' = Inr (Tendermint, 0)"
    by code_simp+
  have n: "Tendermint \<noteq> Solomachine" by (simp add: Tendermint_def Solomachine_def)
  obtain G' where g: "MigrateGenesis migration_demo_env [0 \<mapsto> old_solo] old_genesis 100 (Height 1 10) = Inr G'"
    by (simp add: MigrateGenesis_def old_genesis_def NewIdentifiedClientState_def p n migrate_genesis_client_def old_solo_def migrateSolomachine_def
        PackClientState_def pack_any_def migration_demo_fields migrate_client_consensus_def NewConsensusStateWithHeight_def Let_def)
  from migrated_genesis [OF this] have "map ics_ClientId (Clients G') = map ics_ClientId (Clients old_genesis)"
    "listed_states (ClientsConsensus G') = {(ics_ClientId client, state) |client state. client \<in> set (Clients old_genesis) \<and> unexpired_in old_genesis 100 client state}"
    by blast+
  with g show ?thesis by (simp add: old_genesis_def NewIdentifiedClientState_def)
qed

end
