(* ===== verification/TransferGenesis.thy ===== *)
theory TransferGenesis
  imports TransferChain CoreQueries
begin

text \<open>
  The denomination traces of the transfer application as a whole (\<^verbatim>\<open>apps/transfer/keeper/keeper.go\<close>, \<^verbatim>\<open>genesis.go\<close>,
  \<^verbatim>\<open>grpc_query.go\<close>): the loop over the traces, the export of the genesis state and the queries.
  The iterator of the store and the pagination of the SDK are parameters.

  The theorems show that every chain of validated messages keeps its traces valid and
  under their hashes, so that an export always passes the genesis validation and its import
  gives the state back, and that the pages of the trace query list the traces exactly.
\<close>

subsection \<open>Traces\<close>

record ('k, 'b) trace_env = "('k, 'b) transfer_env" +
  kv_TraceIterator :: "(bytes \<rightharpoonup> DenomTrace) \<Rightarrow> (bytes \<times> DenomTrace) list"
  sdk_PaginateTraces :: "(bytes \<times> DenomTrace) list \<Rightarrow> PageRequest option \<Rightarrow> ((bytes \<times> DenomTrace) list \<times> PageResponse) result"

definition Traces_Sort :: "DenomTrace list \<Rightarrow> DenomTrace list" where
  "Traces_Sort t = sort_key GetFullDenomPath t"

fun iterate_traces :: "(bytes \<times> DenomTrace) list \<Rightarrow> ('s \<Rightarrow> DenomTrace \<Rightarrow> 's \<times> bool) \<Rightarrow> 's \<Rightarrow> 's" where
  "iterate_traces [] cb s = s"
| "iterate_traces (e # es) cb s = (case cb s (snd e) of (s', stop) \<Rightarrow> if stop then s' else iterate_traces es cb s')"

definition IterateDenomTraces :: "('k, 'b, 'x) trace_env_scheme \<Rightarrow> 'b transfer_state \<Rightarrow> ('s \<Rightarrow> DenomTrace \<Rightarrow> 's \<times> bool) \<Rightarrow> 's \<Rightarrow> 's" where
  "IterateDenomTraces E st cb s = iterate_traces (kv_TraceIterator E (tr_traces st)) cb s"

definition GetAllDenomTraces :: "('k, 'b, 'x) trace_env_scheme \<Rightarrow> 'b transfer_state \<Rightarrow> DenomTrace list" where
  "GetAllDenomTraces E st = Traces_Sort (IterateDenomTraces E st (\<lambda>traces denomTrace. (traces @ [denomTrace], False)) [])"

definition transfer_GetParams :: "'b transfer_state \<Rightarrow> transfer_Params" where
  "transfer_GetParams st = \<lparr> SendEnabled = GetSendEnabled st, ReceiveEnabled = GetReceiveEnabled st \<rparr>"

definition transfer_NewGenesisState :: "string \<Rightarrow> DenomTrace list \<Rightarrow> transfer_Params \<Rightarrow> transfer_GenesisState" where
  "transfer_NewGenesisState portID denomTraces params = \<lparr> tg_PortId = portID, tg_DenomTraces = denomTraces, tg_Params = params \<rparr>"

definition transfer_ExportGenesis :: "('k, 'b, 'x) trace_env_scheme \<Rightarrow> 'b transfer_state \<Rightarrow> transfer_GenesisState" where
  "transfer_ExportGenesis E st = \<lparr> tg_PortId = GetPort st, tg_DenomTraces = GetAllDenomTraces E st, tg_Params = transfer_GetParams st \<rparr>"

subsection \<open>Queries (grpc_query.go)\<close>

definition query_DenomTrace :: "'x env_scheme \<Rightarrow> 'b transfer_state \<Rightarrow> string option \<Rightarrow> DenomTrace query_result" where
  "query_DenomTrace E st req =
     (case req of None \<Rightarrow> Inl (GrpcStatus InvalidArgument) | Some h \<Rightarrow>
     (case ParseHexHash E h of Inl _ \<Rightarrow> Inl (GrpcStatus InvalidArgument) | Inr hash \<Rightarrow>
     (case GetDenomTrace st hash of None \<Rightarrow> Inl (GrpcStatus NotFound) | Some denomTrace \<Rightarrow> Inr denomTrace)))"

definition query_DenomTraces :: "('k, 'b, 'x) trace_env_scheme \<Rightarrow> 'b transfer_state \<Rightarrow> PageRequest option option \<Rightarrow>
    (DenomTrace list \<times> PageResponse) query_result" where
  "query_DenomTraces E st req =
     (case req of None \<Rightarrow> Inl (GrpcStatus InvalidArgument) | Some pagination \<Rightarrow>
     (case plain (sdk_PaginateTraces E (kv_TraceIterator E (tr_traces st)) pagination) of Inl e \<Rightarrow> Inl e | Inr (page, pageRes) \<Rightarrow>
      Inr (Traces_Sort (map snd page), pageRes)))"

definition query_transfer_Params :: "'b transfer_state \<Rightarrow> transfer_Params query_result" where
  "query_transfer_Params st = Inr (transfer_GetParams st)"

subsection \<open>Valid traces\<close>

definition traces_ok :: "'b transfer_state \<Rightarrow> bool" where
  "traces_ok st \<longleftrightarrow> (\<forall>h t. tr_traces st h = Some t \<longrightarrow> Hash t = h \<and> DenomTrace_Validate t = Inr ())"

lemma validated_denom:
  assumes "ValidatePrefixedDenom d = Inr ()"
  shows "\<not> all_space (last (split_on (CHR ''/'') d))"
    and "butlast (split_on (CHR ''/'') d) = [] \<or> validateTraceIdentifiers (butlast (split_on (CHR ''/'') d)) = Inr ()"
  using assms by (auto simp: ValidatePrefixedDenom_def Let_def hd_split_on split_on_no_sep split: if_splits)

lemma validate_more_identifiers:
  "PortIdentifierValidator p = Inr () \<Longrightarrow> ChannelIdentifierValidator c = Inr () \<Longrightarrow> ids = [] \<or> validateTraceIdentifiers ids = Inr () \<Longrightarrow>
   validateTraceIdentifiers (p # c # ids) = Inr ()"
  by (auto simp: validateTraceIdentifiers_def split: if_splits)

lemma received_trace_valid:
  assumes d: "ValidatePrefixedDenom d = Inr ()" and ids: "PortIdentifierValidator p = Inr ()" "ChannelIdentifierValidator c = Inr ()"
  shows "DenomTrace_Validate (ParseDenomTrace (GetDenomPrefix p c @ d)) = Inr ()"
proof -
  have sl: "CHR ''/'' \<notin> set p" "CHR ''/'' \<notin> set c" using ids identifier_no_slash by auto
  let ?ds = "split_on (CHR ''/'') d"
  have split: "split_on (CHR ''/'') (GetDenomPrefix p c @ d) = p # c # ?ds"
    by (simp add: GetDenomPrefix_def split_on_append sl)
  have "hd (split_on (CHR ''/'') (GetDenomPrefix p c @ d)) \<noteq> GetDenomPrefix p c @ d"
    by (simp add: hd_split_on GetDenomPrefix_def)
  then have t: "ParseDenomTrace (GetDenomPrefix p c @ d) =
      \<lparr> dt_Path = join_with (CHR ''/'') (p # c # butlast ?ds), dt_BaseDenom = last ?ds \<rparr>"
    by (simp add: ParseDenomTrace_def Let_def split)
  have "split_on (CHR ''/'') (join_with (CHR ''/'') (p # c # butlast ?ds)) = p # c # butlast ?ds"
    by (rule split_join) (use sl split_on_pieces in \<open>auto dest: in_set_butlastD\<close>)
  moreover from validated_denom(2) [OF d] have "validateTraceIdentifiers (p # c # butlast ?ds) = Inr ()"
    by (rule validate_more_identifiers [OF ids])
  moreover have "join_with (CHR ''/'') (p # c # butlast ?ds) \<noteq> ''''" by (cases "butlast ?ds") auto
  ultimately show ?thesis using validated_denom(1) [OF d] by (simp add: t DenomTrace_Validate_def)
qed

lemma SetDenomTrace_ok: "traces_ok st \<Longrightarrow> DenomTrace_Validate t = Inr () \<Longrightarrow> traces_ok (SetDenomTrace st t)"
  by (simp add: traces_ok_def SetDenomTrace_def)

lemma bank_moves_keep:
  "unescrow E st p c r d n = (e, st') \<Longrightarrow> tr_traces st' = tr_traces st \<and> tr_port st' = tr_port st \<and> tr_params st' = tr_params st"
  "mint_to E st r d n = (e, st') \<Longrightarrow> tr_traces st' = tr_traces st \<and> tr_port st' = tr_port st \<and> tr_params st' = tr_params st"
  by (auto simp: unescrow_def mint_to_def Let_def split: option.splits prod.splits if_splits)

lemma OnRecvPacket_traces:
  assumes r: "transfer_OnRecvPacket E st p data = (e, st')" and ok: "traces_ok st"
    and ids: "PortIdentifierValidator (DestinationPort p) = Inr ()" "ChannelIdentifierValidator (DestinationChannel p) = Inr ()"
  shows "traces_ok st' \<and> tr_port st' = tr_port st \<and> tr_params st' = tr_params st"
proof (cases "ftpd_ValidateBasic E data")
  case (Inr u)
  then have "ValidatePrefixedDenom (ftpd_Denom data) = Inr ()" by (auto simp: ftpd_ValidateBasic_def result_elims)
  let ?t = "ParseDenomTrace (GetDenomPrefix (DestinationPort p) (DestinationChannel p) @ ftpd_Denom data)"
  from SetDenomTrace_ok [OF ok received_trace_valid [OF \<open>ValidatePrefixedDenom (ftpd_Denom data) = Inr ()\<close> ids]]
  have t: "traces_ok (SetDenomTrace st ?t)" .
  have "\<exists>st1. (st1 = st \<or> st1 = SetDenomTrace st ?t) \<and> tr_traces st' = tr_traces st1 \<and> tr_port st' = tr_port st1 \<and> tr_params st' = tr_params st1"
  proof (cases "st' = st")
    case False
    with r Inr obtain rc n where c: "sdk_AccAddressFromBech32 E (ftpd_Receiver data) = Some rc" "sdk_NewIntFromString E (ftpd_Amount data) = Some n"
      "GetReceiveEnabled st" by (cases "GetReceiveEnabled st"; cases "sdk_AccAddressFromBech32 E (ftpd_Receiver data)";
        cases "sdk_NewIntFromString E (ftpd_Amount data)") (simp_all add: transfer_OnRecvPacket_def)
    show ?thesis
    proof (cases "ReceiverChainIsSource (SourcePort p) (SourceChannel p) (ftpd_Denom data)")
      case True
      with r Inr c show ?thesis by (simp add: transfer_OnRecvPacket_def Let_def) (blast dest: bank_moves_keep)
    next
      case False
      let ?st = "if \<not> HasDenomTrace st (Hash ?t) then SetDenomTrace st ?t else st"
      from False r Inr c have "mint_to E ?st rc (IBCDenom ?t) n = (e, st')" by (simp add: transfer_OnRecvPacket_def Let_def)
      from bank_moves_keep(2) [OF this] show ?thesis by (intro exI [of _ ?st]) simp
    qed
  qed blast
  then obtain st1 where st1: "st1 = st \<or> st1 = SetDenomTrace st ?t"
    and k: "tr_traces st' = tr_traces st1" "tr_port st' = tr_port st1" "tr_params st' = tr_params st1" by blast
  from st1 ok t have "traces_ok st1" by blast
  then have "traces_ok st'" unfolding traces_ok_def k(1) .
  moreover from st1 have "tr_port st1 = tr_port st \<and> tr_params st1 = tr_params st" by (rule disjE) (simp_all add: SetDenomTrace_def)
  ultimately show ?thesis using k by simp
qed (use r ok in \<open>simp add: transfer_OnRecvPacket_def\<close>)

text \<open>Runs of messages that have passed their stateless validation, as every message in a block has.\<close>

inductive checked_step :: "('k, 'b, 'x) transfer_env_scheme \<Rightarrow> ('k, 'b) transfer_world \<Rightarrow> ('k, 'b) transfer_world \<Rightarrow> bool" for E where
  core: "ValidateBasic E m = Inr () \<Longrightarrow> handle_msg E (transfer_router E) ctx w m = Inr w' \<Longrightarrow> checked_step E w w'"
| transfer: "MsgTransfer_ValidateBasic E msg = Inr () \<Longrightarrow> Transfer E ctx w msg = Inr w' \<Longrightarrow> checked_step E w w'"

lemma other_msg_app:
  assumes "handle_msg E (transfer_router E) ctx w m = Inr w'" and "\<And>r. m \<noteq> RecvPacketMsg r"
  shows "refund_effect E (w_app w) (w_app w')"
proof -
  have same: "w_app w' = w_app w \<Longrightarrow> ?thesis" by (simp add: refund_effect.no_refund)
  show ?thesis using assms by (cases m) (auto intro: same client_msg_app conn_msg_app chan_msg_app packet_msg_app)
qed

lemma core_step_traces:
  assumes m: "handle_msg E (transfer_router E) ctx w m = Inr w'" and v: "ValidateBasic E m = Inr ()" and ok: "traces_ok (w_app w)"
  shows "traces_ok (w_app w') \<and> tr_port (w_app w') = tr_port (w_app w) \<and> tr_params (w_app w') = tr_params (w_app w)"
proof -
  show ?thesis
  proof (cases "\<exists>r. m = RecvPacketMsg r")
    case True
    then obtain r where RecvPacketMsg: "m = RecvPacketMsg r" by blast
    from v RecvPacketMsg have ids: "PortIdentifierValidator (DestinationPort (mrp_Packet r)) = Inr ()" "ChannelIdentifierValidator (DestinationChannel (mrp_Packet r)) = Inr ()"
      by (auto simp: msg_defs Packet_ValidateBasic_def result_elims simp del: first_error.simps)
    from m have "msg_RecvPacket E (transfer_router E) ctx w r = Inr w'" by (simp add: RecvPacketMsg)
    from recv_msg_transfer [OF this] show ?thesis using ok OnRecvPacket_traces [OF _ ok ids] by auto
  next
    case False
    from refund_keeps_traces [OF other_msg_app [OF m]] False ok show ?thesis by (auto simp: traces_ok_def)
  qed
qed

lemma checked_run_traces:
  assumes "(checked_step E)\<^sup>*\<^sup>* w w'" "traces_ok (w_app w)"
  shows "traces_ok (w_app w') \<and> tr_port (w_app w') = tr_port (w_app w) \<and> tr_params (w_app w') = tr_params (w_app w)"
  using assms
proof (induction rule: rtranclp_induct)
  case (step y z)
  then have IH: "traces_ok (w_app y)" "tr_port (w_app y) = tr_port (w_app w)" "tr_params (w_app y) = tr_params (w_app w)" by simp_all
  from \<open>checked_step E y z\<close> show ?case
  proof cases
    case (core m ctx)
    from core_step_traces [OF core(2,1) IH(1)] IH(2,3) show ?thesis by simp
  next
    case (transfer msg ctx)
    then obtain sender where "SendTransfer E ctx y (mtr_SourcePort msg) (mtr_SourceChannel msg) (mtr_Token msg) sender (mtr_Receiver msg)
        (mtr_TimeoutHeight msg) (mtr_TimeoutTimestamp msg) = Inr z" by (auto simp: Transfer_def result_elims)
    then have z: "w_app z = w_app y \<lparr> tr_bank := tr_bank (w_app z) \<rparr>" by (rule SendTransfer_Inr)
    have "tr_traces (w_app z) = tr_traces (w_app y)" "tr_port (w_app z) = tr_port (w_app y)" "tr_params (w_app z) = tr_params (w_app y)"
      by (subst z, simp)+
    with IH show ?thesis by (simp add: traces_ok_def)
  qed
qed simp

subsection \<open>Export and import\<close>

text \<open>The iterator of the store lists the traces, each under its hash and once.\<close>

definition lists_traces :: "('k, 'b, 'x) trace_env_scheme \<Rightarrow> (bytes \<rightharpoonup> DenomTrace) \<Rightarrow> bool" where
  "lists_traces E m \<longleftrightarrow> distinct (map fst (kv_TraceIterator E m)) \<and> set (kv_TraceIterator E m) = {(h, t). m h = Some t}"

lemma iterate_traces_all: "iterate_traces es (\<lambda>traces denomTrace. (traces @ [denomTrace], False)) acc = acc @ map snd es"
  by (induction es arbitrary: acc) auto

lemma GetAllDenomTraces_eq: "GetAllDenomTraces E st = Traces_Sort (map snd (kv_TraceIterator E (tr_traces st)))"
  by (simp add: GetAllDenomTraces_def IterateDenomTraces_def iterate_traces_all)

lemma distinct_map_sort: "distinct (map f xs) \<Longrightarrow> distinct (map f (sort_key k xs))"
  by (simp add: distinct_map)

lemma exported_traces:
  assumes l: "lists_traces E (tr_traces st)" and ok: "traces_ok st"
  shows "set (GetAllDenomTraces E st) = ran (tr_traces st)" and "distinct (map Hash (GetAllDenomTraces E st))"
proof -
  let ?l = "kv_TraceIterator E (tr_traces st)"
  have h: "Hash t = h" if "(h, t) \<in> set ?l" for h t using that l ok by (auto simp: lists_traces_def traces_ok_def)
  then have m: "map Hash (map snd ?l) = map fst ?l" by (auto simp: case_prod_beta)
  have "distinct (map fst ?l)" using l by (simp add: lists_traces_def)
  then have "distinct (map Hash (map snd ?l))" unfolding m .
  then show "distinct (map Hash (GetAllDenomTraces E st))"
    unfolding GetAllDenomTraces_eq Traces_Sort_def by (rule distinct_map_sort)
  show "set (GetAllDenomTraces E st) = ran (tr_traces st)"
    using l by (force simp: GetAllDenomTraces_eq Traces_Sort_def lists_traces_def ran_def)
qed

lemma hex_string_inj: "hex_string a = hex_string b \<longleftrightarrow> a = b"
  using hex_decode_string by (metis option.inject)

lemma validate_traces_ok:
  "distinct (map Hash ts) \<Longrightarrow> \<forall>t \<in> set ts. DenomTrace_Validate t = Inr () \<and> hex_string (Hash t) \<notin> set seen \<Longrightarrow> validate_traces seen ts = Inr ()"
proof (induction ts arbitrary: seen)
  case (Cons t ts)
  from Cons.prems have "\<forall>u \<in> set ts. DenomTrace_Validate u = Inr () \<and> hex_string (Hash u) \<notin> set (hex_string (Hash t) # seen)"
    by (auto simp: hex_string_inj) (metis image_eqI)
  with Cons.IH [of "hex_string (Hash t) # seen"] Cons.prems show ?case by (simp add: Let_def)
qed simp

lemma foldl_SetDenomTrace:
  "distinct (map Hash ts) \<Longrightarrow> tr_traces (foldl SetDenomTrace st ts) = (\<lambda>h. if h \<in> Hash ` set ts then find (\<lambda>t. Hash t = h) ts else tr_traces st h)"
  by (induction ts arbitrary: st) (auto simp: SetDenomTrace_def fun_eq_iff)

lemma foldl_SetDenomTrace_rest [simp]:
  "tr_port (foldl SetDenomTrace st ts) = tr_port st" "tr_params (foldl SetDenomTrace st ts) = tr_params st"
  "tr_bank (foldl SetDenomTrace st ts) = tr_bank st"
  by (induction ts arbitrary: st) (simp_all add: SetDenomTrace_def)

lemma imported_traces:
  assumes l: "lists_traces E (tr_traces st)" and ok: "traces_ok st" and e: "tr_traces st0 = Map.empty"
  shows "tr_traces (foldl SetDenomTrace st0 (GetAllDenomTraces E st)) = tr_traces st"
proof
  fix h
  let ?ts = "GetAllDenomTraces E st"
  note x = exported_traces [OF l ok]
  show "tr_traces (foldl SetDenomTrace st0 ?ts) h = tr_traces st h"
  proof (cases "tr_traces st h")
    case None
    then have "h \<notin> Hash ` set ?ts" using ok unfolding x(1) ran_def traces_ok_def by auto
    with None e show ?thesis by (simp add: foldl_SetDenomTrace [OF x(2)])
  next
    case (Some t)
    then have t: "t \<in> set ?ts" "Hash t = h" using ok unfolding x(1) ran_def traces_ok_def by auto
    then obtain t' where f: "find (\<lambda>t. Hash t = h) ?ts = Some t'" by (metis (mono_tags, lifting) find_None_iff option.exhaust)
    then have "t' \<in> set ?ts" "Hash t' = h" by (auto simp: find_Some_iff)
    with t x(2) have "t' = t" by (metis distinct_map inj_onD)
    with Some t f show ?thesis by (auto simp: foldl_SetDenomTrace [OF x(2)])
  qed
qed


text \<open>The pages of the query for traces, which are sorted page by page.\<close>

lemma trace_pages_exact:
  assumes l: "lists_traces E (tr_traces st)" and ok: "traces_ok st"
    and p: "map (sdk_PaginateTraces E (kv_TraceIterator E (tr_traces st))) reqs = map Inr rs" "concat (map fst rs) = kv_TraceIterator E (tr_traces st)"
  shows "\<exists>out. map (\<lambda>r. query_DenomTraces E st (Some r)) reqs = map Inr out \<and> distinct (concat (map fst out)) \<and>
    set (concat (map fst out)) = ran (tr_traces st)"
proof -
  let ?f = "\<lambda>r. (Traces_Sort (map snd (fst r)), snd r)"
  have q: "query_DenomTraces E st (Some r) = Inr (?f x)" if "sdk_PaginateTraces E (kv_TraceIterator E (tr_traces st)) r = Inr x" for r x
    using that by (simp add: query_DenomTraces_def plain_def split: prod.split)
  have "map (\<lambda>r. query_DenomTraces E st (Some r)) reqs = map Inr (map ?f rs)"
    using p(1) by (induction reqs rs rule: list_induct2') (auto simp: q)
  moreover have "mset (concat (map fst (map ?f xs))) = mset (map snd (concat (map fst xs)))" for xs
    by (induction xs) (simp_all add: Traces_Sort_def)
  then have m: "mset (concat (map fst (map ?f rs))) = mset (GetAllDenomTraces E st)"
    unfolding GetAllDenomTraces_eq Traces_Sort_def mset_sort p(2) [symmetric] .
  from exported_traces [OF l ok] have "distinct (GetAllDenomTraces E st)" "set (GetAllDenomTraces E st) = ran (tr_traces st)"
    by (auto simp: distinct_map)
  with mset_eq_imp_distinct_iff [OF m] mset_eq_setD [OF m] have "distinct (concat (map fst (map ?f rs)))" "set (concat (map fst (map ?f rs))) = ran (tr_traces st)"
    by simp_all
  ultimately show ?thesis by (intro exI [of _ "map ?f rs"]) blast
qed

text \<open>
  C36: whatever a chain has received, its transfer state can be exported and imported again. After every run of validated messages from a state with
  valid traces, the exported genesis state passes its validation, and importing it into a chain
  without traces whose module account is set and whose port is bound succeeds and gives that chain
  the same port, parameters and traces, each under its hash, with its bank and its core state unchanged.
\<close>

theorem transfer_genesis_roundtrip:
  assumes run: "(checked_step E0)\<^sup>*\<^sup>* w0 w" and ok: "traces_ok (w_app w0)" "PortIdentifierValidator (tr_port (w_app w0)) = Inr ()"
    and l: "lists_traces E (tr_traces (w_app w))"
    and fresh: "tr_traces (w_app v) = Map.empty" "transfer_IsBound E v (tr_port (w_app w0))" "auth_ModuleAccountSet E"
  shows "transfer_GenesisState_Validate (transfer_ExportGenesis E (w_app w)) = Inr () \<and>
    (\<exists>v'. transfer_InitGenesis E v (transfer_ExportGenesis E (w_app w)) = Inr v' \<and> w_ibc v' = w_ibc v \<and>
      w_app v' = w_app w \<lparr> tr_bank := tr_bank (w_app v) \<rparr>)"
proof -
  from checked_run_traces [OF run ok(1)] have w: "traces_ok (w_app w)" "tr_port (w_app w) = tr_port (w_app w0)" by simp_all
  note x = exported_traces [OF l w(1)]
  have "Traces_Validate (GetAllDenomTraces E (w_app w)) = Inr ()"
    unfolding Traces_Validate_def by (rule validate_traces_ok [OF x(2)]) (use w(1) in \<open>auto simp: x(1) ran_def traces_ok_def\<close>)
  then have "transfer_GenesisState_Validate (transfer_ExportGenesis E (w_app w)) = Inr ()"
    using ok(2) w(2) by (simp add: transfer_GenesisState_Validate_def transfer_ExportGenesis_def GetPort_def)
  moreover have "transfer_GetParams (w_app w) = tr_params (w_app w)"
    by (simp add: transfer_GetParams_def GetSendEnabled_def GetReceiveEnabled_def)
  then have "\<exists>v'. transfer_InitGenesis E v (transfer_ExportGenesis E (w_app w)) = Inr v' \<and> w_ibc v' = w_ibc v \<and>
      w_app v' = w_app w \<lparr> tr_bank := tr_bank (w_app v) \<rparr>"
    using fresh w(2) imported_traces [OF l w(1), of "SetPort (w_app v) (tr_port (w_app w))"]
    by (auto simp: transfer_InitGenesis_def transfer_ExportGenesis_def transfer_IsBound_def GetPort_def SetPort_def Let_def intro!: transfer_state.equality)
  ultimately show ?thesis by blast
qed

end
