(* ===== verification/TransferGenesisExamples.thy ===== *)
theory TransferGenesisExamples
  imports TransferExamples TransferGenesis
begin

text \<open>
  The genesis round trip of \<open>TransferGenesis\<close> on the chain of \<open>TransferExamples\<close> after it has received a voucher.
\<close>

definition in_trace :: DenomTrace where
  "in_trace = ParseDenomTrace (GetDenomPrefix ''transfer'' ''channel-0'' @ ''atom'')"

definition trace_demo_env :: "(unit, toy_bank) trace_env" where
  "trace_demo_env = transfer_env.extend demo_tenv
     \<lparr> kv_TraceIterator = (\<lambda>m. case m (Hash in_trace) of None \<Rightarrow> [] | Some t \<Rightarrow> [(Hash in_trace, t)]),
       sdk_PaginateTraces = (\<lambda>l _. Inr (l, \<lparr> pg_NextKey = [], pg_Total = 1 \<rparr>)) \<rparr>"

lemma trace_demo_fields:
  "kv_TraceIterator trace_demo_env = (\<lambda>m. case m (Hash in_trace) of None \<Rightarrow> [] | Some t \<Rightarrow> [(Hash in_trace, t)])"
  "tsk_Get trace_demo_env = (\<lambda>_ _. Some 0)" "auth_ModuleAccountSet trace_demo_env"
  by (simp_all add: trace_demo_env_def transfer_env.extend_def demo_tenv_def keeper_env.extend_def)

lemma recv_msg_valid: "ValidateBasic demo_tenv (RecvPacketMsg recv_msg) = Inr ()"
proof -
  have "PortIdentifierValidator ''transfer'' = Inr ()" "ChannelIdentifierValidator ''channel-0'' = Inr ()" "ChannelIdentifierValidator ''channel-7'' = Inr ()"
    "\<not> IsZero (Height 1 5)" "\<not> IsZero (Height 1 1000)" by code_simp+
  then show ?thesis by (simp add: msg_defs recv_msg_def demo_in_def NewPacket_def Packet_ValidateBasic_def check_proof_def check_height_def check_signer_def require_def demo_tenv_fields)
qed

theorem transfer_genesis_roundtrip_witness:
  "\<exists>w v'. handle_msg demo_tenv demo_routes demo_ctx chain_a (RecvPacketMsg recv_msg) = Inr w \<and> tr_traces (w_app w) = [Hash in_trace \<mapsto> in_trace] \<and>
     transfer_GenesisState_Validate (transfer_ExportGenesis trace_demo_env (w_app w)) = Inr () \<and>
     transfer_InitGenesis trace_demo_env chain_b (transfer_ExportGenesis trace_demo_env (w_app w)) = Inr v' \<and>
     tr_traces (w_app v') = [Hash in_trace \<mapsto> in_trace]"
proof -
  from demo_msg_recv obtain w where w: "handle_msg demo_tenv demo_routes demo_ctx chain_a (RecvPacketMsg recv_msg) = Inr w"
    "transfer_OnRecvPacket demo_tenv (w_app chain_a) demo_in data_out = (None, w_app w)" by blast
  have s: "\<not> ReceiverChainIsSource (SourcePort demo_in) (SourceChannel demo_in) (ftpd_Denom data_out)"
    unfolding demo_in_def NewPacket_def data_fields Packet.simps by code_simp
  have n: "sdk_NewIntFromString demo_tenv (ftpd_Amount data_out) = Some 5" "sdk_AccAddressFromBech32 demo_tenv (ftpd_Receiver data_out) = Some ''bob''"
    by (simp_all add: data_fields demo_tenv_fields)
  from receive_new [OF toy_bank_ok w(2) s n, of "[]"] have t: "tr_traces (w_app w) = [Hash in_trace \<mapsto> in_trace]"
    by (simp add: demo_in_def NewPacket_def data_fields in_trace_def demo_world_def)
  have "checked_step demo_tenv chain_a w" by (rule checked_step.core [OF recv_msg_valid w(1)])
  then have run: "(checked_step demo_tenv)\<^sup>*\<^sup>* chain_a w" by (rule r_into_rtranclp)
  have l: "lists_traces trace_demo_env (tr_traces (w_app w))" by (auto simp: lists_traces_def t trace_demo_fields split: if_splits)
  have p: "PortIdentifierValidator ''transfer'' = Inr ()" by code_simp
  from transfer_genesis_roundtrip [OF run _ _ l, of chain_b] t w(1) p show ?thesis
    by (force simp: traces_ok_def demo_world_def transfer_IsBound_def trace_demo_fields)
qed

end
