(* ===== verification/ClientQueries.thy ===== *)
theory ClientQueries
  imports CoreQueries
begin

text \<open>
  The queries that a relayer or the command line makes of a node (\<^verbatim>\<open>core/client/query.go\<close>, \<^verbatim>\<open>core/*/client/utils\<close>,
  \<^verbatim>\<open>core/23-commitment/types/utils.go\<close>). Without a proof they go to the gRPC server of the node, which
  answers from its state as \<open>CoreQueries\<close> has it. With a proof they read the raw value
  at a path of the node's store through the ABCI interface and decode it themselves. The ABCI
  interface, the node's Tendermint interface, the file system and the codecs are parameters.

  The theorem shows that both ways give the same answer when the node's store holds its state.
\<close>

subsection \<open>The client context and the node\<close>

record client_Context =
  cc_Height :: int
  cc_ChainID :: string

record abci_response =
  abci_Value :: "bytes option"
  abci_ProofOps :: "bytes list option"
  abci_Height :: int

text \<open>
  \<open>cdc_MarshalClientPaths\<close> is the protobuf encoding that \<^verbatim>\<open>SetClientConnectionPaths\<close> writes to the store, and
  \<open>amino_UnmarshalPaths\<close> the amino decoder that \<^verbatim>\<open>queryClientConnectionsABCI\<close> reads these bytes with.
  \<open>node_Commit\<close> gives the signed header of a height, \<open>node_Validators\<close> a page of the validators, \<open>tm_NewValidatorSet\<close> the
  protobuf encoding of a set of them, and \<open>tm_ValidatorsHash\<close> its hash.
\<close>

record 'k node_env = "'k query_env" +
  abci_Query :: "string \<Rightarrow> int \<Rightarrow> bytes \<Rightarrow> abci_response result"
  cdc_UnmarshalCommitmentProof :: "bytes \<Rightarrow> CommitmentProof option"
  cdc_MarshalMerkleProof :: "MerkleProof \<Rightarrow> bytes option"
  cdc_MarshalClientPaths :: "string list \<Rightarrow> bytes option"
  amino_UnmarshalPaths :: "bytes \<Rightarrow> string list option"
  node_LastBlockHeight :: "int result"
  node_Commit :: "int \<Rightarrow> (tm_SignedHeader \<times> tm_BlockHeader) result"
  node_Validators :: "int \<Rightarrow> nat \<Rightarrow> nat \<Rightarrow> bytes list result"
  tm_NewValidatorSet :: "bytes list \<Rightarrow> bytes option"
  tm_ValidatorsHash :: "bytes list \<Rightarrow> bytes"
  amino_ClientStateJSON :: "string \<Rightarrow> ClientState option"
  amino_PrefixJSON :: "string \<Rightarrow> MerklePrefix option"
  amino_MerkleProofJSON :: "string \<Rightarrow> MerkleProof option"
  amino_MarshalMerkleProof :: "MerkleProof \<Rightarrow> bytes option"
  os_ReadFile :: "string \<Rightarrow> string option"

subsection \<open>Proofs (core/23-commitment/types/utils.go, core/client/query.go)\<close>

text \<open>An operation that does not decode, or decodes to a proof that is not set, is an error.\<close>

fun convert_ops :: "('k, 'x) node_env_scheme \<Rightarrow> bytes list \<Rightarrow> CommitmentProof list result" where
  "convert_ops E [] = Inr []"
| "convert_ops E (op # ops) =
     (case cdc_UnmarshalCommitmentProof E op of None \<Rightarrow> Inl (CommitmentE ErrInvalidMerkleProof) | Some p \<Rightarrow>
     (case convert_ops E ops of Inl e \<Rightarrow> Inl e | Inr ps \<Rightarrow> Inr (p # ps)))"

definition ConvertProofs :: "('k, 'x) node_env_scheme \<Rightarrow> bytes list option \<Rightarrow> MerkleProof result" where
  "ConvertProofs E tmProof =
     (case tmProof of None \<Rightarrow> Inl (CommitmentE ErrInvalidMerkleProof) | Some ops \<Rightarrow>
     (case convert_ops E ops of Inl e \<Rightarrow> Inl e | Inr proofs \<Rightarrow> Inr (MerkleProof proofs)))"

definition QueryTendermintProof :: "('k, 'x) node_env_scheme \<Rightarrow> client_Context \<Rightarrow> bytes \<Rightarrow> (bytes option \<times> bytes \<times> Height) query_result" where
  "QueryTendermintProof E clientCtx key =
     (let height = cc_Height clientCtx in
      if height \<noteq> 0 \<and> height \<le> 2 then Inl (Plain (External ''fmt''))
      else
        let height = (if height \<noteq> 0 then height - 1 else height) in
       (case plain (abci_Query E ''store/ibc/key'' height key) of Inl e \<Rightarrow> Inl e | Inr res \<Rightarrow>
       (case plain (ConvertProofs E (abci_ProofOps res)) of Inl e \<Rightarrow> Inl e | Inr merkleProof \<Rightarrow>
       (case plain (from_ext ''codec'' (cdc_MarshalMerkleProof E merkleProof)) of Inl e \<Rightarrow> Inl e | Inr proofBz \<Rightarrow>
       (case plain (ParseChainID (cc_ChainID clientCtx)) of Inl e \<Rightarrow> Inl e | Inr revision \<Rightarrow>
        Inr (abci_Value res, proofBz, NewHeight revision (word_of_int (abci_Height res) + 1)))))))"

text \<open>\<open>len(value) == 0\<close> holds for a nil slice as well.\<close>

definition value_len0 :: "bytes option \<Rightarrow> bool" where
  "value_len0 v = (case v of None \<Rightarrow> True | Some bz \<Rightarrow> bz = [])"

definition decode_value :: "(bytes \<Rightarrow> 'a option) \<Rightarrow> bytes option \<Rightarrow> 'a query_result" where
  "decode_value dec v = plain (from_ext ''codec'' (Option.bind v dec))"

subsection \<open>02-client (client/utils/utils.go)\<close>

type_synonym 'k node = "ctx \<times> 'k ibc_state"

definition QueryClientStateABCI :: "('k, 'x) node_env_scheme \<Rightarrow> client_Context \<Rightarrow> string \<Rightarrow> QueryClientStateResponse query_result" where
  "QueryClientStateABCI E clientCtx clientID =
     (case QueryTendermintProof E clientCtx (FullClientStatePath clientID) of Inl e \<Rightarrow> Inl e | Inr (val, proofBz, proofHeight) \<Rightarrow>
      if value_len0 val then Inl (Plain (ClientE ErrClientNotFound))
      else (case decode_value (cdc_UnmarshalClientState E) val of Inl e \<Rightarrow> Inl e | Inr clientState \<Rightarrow>
     (case plain (PackClientState E (Some clientState)) of Inl e \<Rightarrow> Inl e | Inr anyClientState \<Rightarrow>
      Inr (NewQueryClientStateResponse anyClientState proofBz proofHeight))))"

definition QueryClientState :: "('k, 'x) node_env_scheme \<Rightarrow> client_Context \<Rightarrow> 'k node \<Rightarrow> string \<Rightarrow> bool \<Rightarrow> QueryClientStateResponse query_result" where
  "QueryClientState E clientCtx N clientID prove =
     (if prove then QueryClientStateABCI E clientCtx clientID else query_ClientState E (fst N) (snd N) (Some clientID))"

definition QueryConsensusStateABCI :: "('k, 'x) node_env_scheme \<Rightarrow> client_Context \<Rightarrow> string \<Rightarrow> Height \<Rightarrow> QueryConsensusStateResponse query_result" where
  "QueryConsensusStateABCI E clientCtx clientID height =
     (case QueryTendermintProof E clientCtx (FullConsensusStatePath clientID height) of Inl e \<Rightarrow> Inl e | Inr (val, proofBz, proofHeight) \<Rightarrow>
      if value_len0 val then Inl (Plain (ClientE ErrConsensusStateNotFound))
      else (case decode_value (cdc_UnmarshalConsensusState E) val of Inl e \<Rightarrow> Inl e | Inr cs \<Rightarrow>
     (case plain (PackConsensusState E (Some cs)) of Inl e \<Rightarrow> Inl e | Inr anyConsensusState \<Rightarrow>
      Inr (NewQueryConsensusStateResponse anyConsensusState proofBz proofHeight))))"

definition QueryConsensusState :: "('k, 'x) node_env_scheme \<Rightarrow> client_Context \<Rightarrow> 'k node \<Rightarrow> string \<Rightarrow> Height \<Rightarrow> bool \<Rightarrow> bool \<Rightarrow>
    QueryConsensusStateResponse query_result" where
  "QueryConsensusState E clientCtx N clientID height prove latestHeight =
     (if prove then QueryConsensusStateABCI E clientCtx clientID height
      else query_ConsensusState E (fst N) (snd N) (Some \<lparr> conq_ClientId = clientID, conq_RevisionNumber = RevisionNumber height,
             conq_RevisionHeight = RevisionHeight height, conq_LatestHeight = latestHeight \<rparr>))"

text \<open>The height that is asked for, or the last one when none is given.\<close>

definition query_height :: "('k, 'x) node_env_scheme \<Rightarrow> client_Context \<Rightarrow> int result" where
  "query_height E clientCtx =
     (case node_LastBlockHeight E of Inl e \<Rightarrow> Inl e | Inr lastHeight \<Rightarrow> Inr (if cc_Height clientCtx \<noteq> 0 then cc_Height clientCtx else lastHeight))"

definition QueryTendermintHeader :: "('k, 'x) node_env_scheme \<Rightarrow> client_Context \<Rightarrow> (tm_Header \<times> int) result" where
  "QueryTendermintHeader E clientCtx =
     (case query_height E clientCtx of Inl e \<Rightarrow> Inl e | Inr height \<Rightarrow>
     (case node_Commit E height of Inl e \<Rightarrow> Inl e | Inr (signedHeader, _) \<Rightarrow>
     (case node_Validators E height 1 10000 of Inl e \<Rightarrow> Inl e | Inr validators \<Rightarrow>
     (case from_ext ''tendermint'' (tm_NewValidatorSet E validators) of Inl e \<Rightarrow> Inl e | Inr protoValset \<Rightarrow>
      Inr (\<lparr> th_SignedHeader = Some signedHeader, th_ValidatorSet = Some protoValset, th_TrustedHeight = ZeroHeight, th_TrustedValidators = None \<rparr>, height)))))"

definition QuerySelfConsensusState :: "('k, 'x) node_env_scheme \<Rightarrow> client_Context \<Rightarrow> (tm_ConsensusState \<times> int) result" where
  "QuerySelfConsensusState E clientCtx =
     (case query_height E clientCtx of Inl e \<Rightarrow> Inl e | Inr height \<Rightarrow>
     (case node_Commit E height of Inl e \<Rightarrow> Inl e | Inr (_, header) \<Rightarrow>
     (case node_Validators E (height + 1) 1 10000 of Inl e \<Rightarrow> Inl e | Inr nextVals \<Rightarrow>
      Inr (tm_NewConsensusState (hdr_Time header) (hdr_AppHash header) (tm_ValidatorsHash E nextVals), height))))"

subsection \<open>03-connection (client/utils/utils.go)\<close>

definition queryConnectionABCI :: "('k, 'x) node_env_scheme \<Rightarrow> client_Context \<Rightarrow> string \<Rightarrow> QueryConnectionResponse query_result" where
  "queryConnectionABCI E clientCtx connectionID =
     (case QueryTendermintProof E clientCtx (ConnectionPath connectionID) of Inl e \<Rightarrow> Inl e | Inr (val, proofBz, proofHeight) \<Rightarrow>
      if value_len0 val then Inl (Plain (ConnectionE ErrConnectionNotFound))
      else (case decode_value (cdc_UnmarshalConnection E) val of Inl e \<Rightarrow> Inl e | Inr connection \<Rightarrow>
      Inr (NewQueryConnectionResponse connection proofBz proofHeight)))"

definition QueryConnection :: "('k, 'x) node_env_scheme \<Rightarrow> client_Context \<Rightarrow> 'k node \<Rightarrow> string \<Rightarrow> bool \<Rightarrow> QueryConnectionResponse query_result" where
  "QueryConnection E clientCtx N connectionID prove =
     (if prove then queryConnectionABCI E clientCtx connectionID else query_Connection (fst N) (snd N) (Some connectionID))"

definition queryClientConnectionsABCI :: "('k, 'x) node_env_scheme \<Rightarrow> client_Context \<Rightarrow> string \<Rightarrow> QueryClientConnectionsResponse query_result" where
  "queryClientConnectionsABCI E clientCtx clientID =
     (case QueryTendermintProof E clientCtx (ClientConnectionsPath clientID) of Inl e \<Rightarrow> Inl e | Inr (val, proofBz, proofHeight) \<Rightarrow>
      if value_len0 val then Inl (Plain (ConnectionE ErrClientConnectionPathsNotFound))
      else (case decode_value (amino_UnmarshalPaths E) val of Inl e \<Rightarrow> Inl e | Inr paths \<Rightarrow>
      Inr (NewQueryClientConnectionsResponse paths proofBz proofHeight)))"

definition QueryClientConnections :: "('k, 'x) node_env_scheme \<Rightarrow> client_Context \<Rightarrow> 'k node \<Rightarrow> string \<Rightarrow> bool \<Rightarrow> QueryClientConnectionsResponse query_result" where
  "QueryClientConnections E clientCtx N clientID prove =
     (if prove then queryClientConnectionsABCI E clientCtx clientID else query_ClientConnections (fst N) (snd N) (Some clientID))"

text \<open>The two queries that first ask the gRPC server and then, for a proof, read the state again.\<close>

definition any_client :: "any_value \<Rightarrow> ClientState option" where
  "any_client any = (case any of AnyClientState clientState \<Rightarrow> Some clientState | _ \<Rightarrow> None)"

definition prove_client :: "('k, 'x) node_env_scheme \<Rightarrow> client_Context \<Rightarrow> bool \<Rightarrow>
    (IdentifiedClientState \<Rightarrow> bytes \<Rightarrow> Height \<Rightarrow> IdentifiedClientResponse) \<Rightarrow> IdentifiedClientResponse query_result \<Rightarrow> IdentifiedClientResponse query_result" where
  "prove_client E clientCtx prove new r =
     (case r of Inl e \<Rightarrow> Inl e | Inr res \<Rightarrow>
      if \<not> prove then Inr res
      else (case QueryClientStateABCI E clientCtx (ics_ClientId (icr_IdentifiedClientState res)) of Inl e \<Rightarrow> Inl e | Inr clientStateRes \<Rightarrow>
        Inr (new \<lparr> ics_ClientId = ics_ClientId (icr_IdentifiedClientState res), ics_ClientState = any_client (csr_ClientState clientStateRes) \<rparr>
          (csr_Proof clientStateRes) (csr_ProofHeight clientStateRes))))"

definition prove_consensus :: "('k, 'x) node_env_scheme \<Rightarrow> client_Context \<Rightarrow> bool \<Rightarrow> Height \<Rightarrow>
    (string \<Rightarrow> any_value \<Rightarrow> Height \<Rightarrow> bytes \<Rightarrow> Height \<Rightarrow> ClientConsensusResponse) \<Rightarrow> ClientConsensusResponse query_result \<Rightarrow> ClientConsensusResponse query_result" where
  "prove_consensus E clientCtx prove height new r =
     (case r of Inl e \<Rightarrow> Inl e | Inr res \<Rightarrow>
      if \<not> prove then Inr res
      else (case QueryConsensusStateABCI E clientCtx (ckr_ClientId res) height of Inl e \<Rightarrow> Inl e | Inr consensusStateRes \<Rightarrow>
        Inr (new (ckr_ClientId res) (conr_ConsensusState consensusStateRes) height (conr_Proof consensusStateRes) (conr_ProofHeight consensusStateRes))))"

definition QueryConnectionClientState :: "('k, 'x) node_env_scheme \<Rightarrow> client_Context \<Rightarrow> 'k node \<Rightarrow> string \<Rightarrow> bool \<Rightarrow> IdentifiedClientResponse query_result" where
  "QueryConnectionClientState E clientCtx N connectionID prove =
     prove_client E clientCtx prove NewQueryConnectionClientStateResponse (query_ConnectionClientState (fst N) (snd N) (Some connectionID))"

definition QueryConnectionConsensusState :: "('k, 'x) node_env_scheme \<Rightarrow> client_Context \<Rightarrow> 'k node \<Rightarrow> string \<Rightarrow> Height \<Rightarrow> bool \<Rightarrow>
    ClientConsensusResponse query_result" where
  "QueryConnectionConsensusState E clientCtx N connectionID height prove =
     prove_consensus E clientCtx prove height NewQueryConnectionConsensusStateResponse
       (query_ConnectionConsensusState E (fst N) (snd N)
         (Some \<lparr> ccsq_ConnectionId = connectionID, ccsq_RevisionNumber = RevisionNumber height, ccsq_RevisionHeight = RevisionHeight height \<rparr>))"

text \<open>An argument of the command line is JSON or the path of a file with JSON.\<close>

definition json_or_file :: "('k, 'x) node_env_scheme \<Rightarrow> (string \<Rightarrow> 'a option) \<Rightarrow> string \<Rightarrow> 'a result" where
  "json_or_file E dec arg =
     (case dec arg of Some v \<Rightarrow> Inr v | None \<Rightarrow>
     (case os_ReadFile E arg of None \<Rightarrow> Inl (External ''errors'') | Some contents \<Rightarrow> from_ext ''amino'' (dec contents)))"

definition ParseClientState :: "('k, 'x) node_env_scheme \<Rightarrow> string \<Rightarrow> ClientState result" where
  "ParseClientState E arg = json_or_file E (amino_ClientStateJSON E) arg"

definition ParsePrefix :: "('k, 'x) node_env_scheme \<Rightarrow> string \<Rightarrow> MerklePrefix result" where
  "ParsePrefix E arg = json_or_file E (amino_PrefixJSON E) arg"

definition ParseProof :: "('k, 'x) node_env_scheme \<Rightarrow> string \<Rightarrow> bytes result" where
  "ParseProof E arg =
     (case json_or_file E (amino_MerkleProofJSON E) arg of Inl e \<Rightarrow> Inl e | Inr merkleProof \<Rightarrow> from_ext ''amino'' (amino_MarshalMerkleProof E merkleProof))"

subsection \<open>04-channel (client/utils/utils.go)\<close>

definition queryChannelABCI :: "('k, 'x) node_env_scheme \<Rightarrow> client_Context \<Rightarrow> string \<Rightarrow> string \<Rightarrow> QueryChannelResponse query_result" where
  "queryChannelABCI E clientCtx portID channelID =
     (case QueryTendermintProof E clientCtx (ChannelPath portID channelID) of Inl e \<Rightarrow> Inl e | Inr (val, proofBz, proofHeight) \<Rightarrow>
      if value_len0 val then Inl (Plain (ChannelE ErrChannelNotFound))
      else (case decode_value (cdc_UnmarshalChannel E) val of Inl e \<Rightarrow> Inl e | Inr channel \<Rightarrow>
      Inr (NewQueryChannelResponse channel proofBz proofHeight)))"

definition QueryChannel :: "('k, 'x) node_env_scheme \<Rightarrow> client_Context \<Rightarrow> 'k node \<Rightarrow> string \<Rightarrow> string \<Rightarrow> bool \<Rightarrow> QueryChannelResponse query_result" where
  "QueryChannel E clientCtx N portID channelID prove =
     (if prove then queryChannelABCI E clientCtx portID channelID
      else query_Channel (fst N) (snd N) (Some \<lparr> crq_PortId = portID, crq_ChannelId = channelID \<rparr>))"

definition QueryChannelClientState :: "('k, 'x) node_env_scheme \<Rightarrow> client_Context \<Rightarrow> 'k node \<Rightarrow> string \<Rightarrow> string \<Rightarrow> bool \<Rightarrow> IdentifiedClientResponse query_result" where
  "QueryChannelClientState E clientCtx N portID channelID prove =
     prove_client E clientCtx prove NewQueryChannelClientStateResponse
       (query_ChannelClientState (fst N) (snd N) (Some \<lparr> crq_PortId = portID, crq_ChannelId = channelID \<rparr>))"

definition QueryChannelConsensusState :: "('k, 'x) node_env_scheme \<Rightarrow> client_Context \<Rightarrow> 'k node \<Rightarrow> string \<Rightarrow> string \<Rightarrow> Height \<Rightarrow> bool \<Rightarrow>
    ClientConsensusResponse query_result" where
  "QueryChannelConsensusState E clientCtx N portID channelID height prove =
     prove_consensus E clientCtx prove height NewQueryChannelConsensusStateResponse
       (query_ChannelConsensusState E (fst N) (snd N)
         (Some \<lparr> crq_PortId = portID, crq_ChannelId = channelID, hcq_RevisionNumber = RevisionNumber height, hcq_RevisionHeight = RevisionHeight height \<rparr>))"

definition QueryLatestConsensusState :: "('k, 'x) node_env_scheme \<Rightarrow> client_Context \<Rightarrow> 'k node \<Rightarrow> string \<Rightarrow> string \<Rightarrow>
    (ConsensusState \<times> Height \<times> Height) query_result" where
  "QueryLatestConsensusState E clientCtx N portID channelID =
     (case QueryChannelClientState E clientCtx N portID channelID False of Inl e \<Rightarrow> Inl e | Inr clientRes \<Rightarrow>
     (case plain (from_ext ''codec'' (ics_ClientState (icr_IdentifiedClientState clientRes))) of Inl e \<Rightarrow> Inl e | Inr clientState \<Rightarrow>
      let clientHeight = GetLatestHeight clientState in
     (case QueryChannelConsensusState E clientCtx N portID channelID clientHeight False of Inl e \<Rightarrow> Inl e | Inr res \<Rightarrow>
     (case plain (UnpackConsensusState (Some (ckr_ConsensusState res))) of Inl e \<Rightarrow> Inl e | Inr consensusState \<Rightarrow>
      Inr (consensusState, clientHeight, ckr_ProofHeight res)))))"

text \<open>\<^verbatim>\<open>binary.BigEndian.Uint64\<close> panics on fewer than eight bytes.\<close>

definition queryNextSequenceRecvABCI :: "('k, 'x) node_env_scheme \<Rightarrow> client_Context \<Rightarrow> string \<Rightarrow> string \<Rightarrow> u64 ProvedResponse query_result" where
  "queryNextSequenceRecvABCI E clientCtx portID channelID =
     (case QueryTendermintProof E clientCtx (NextSequenceRecvPath portID channelID) of Inl e \<Rightarrow> Inl e | Inr (val, proofBz, proofHeight) \<Rightarrow>
      if value_len0 val then Inl (Plain (ChannelE ErrChannelNotFound))
      else if length (the val) < 8 then Inl (Plain Panic)
      else Inr (NewQueryNextSequenceReceiveResponse (be_u64 (take 8 (the val))) proofBz proofHeight))"

definition QueryNextSequenceReceive :: "('k, 'x) node_env_scheme \<Rightarrow> client_Context \<Rightarrow> 'k node \<Rightarrow> string \<Rightarrow> string \<Rightarrow> bool \<Rightarrow> u64 ProvedResponse query_result" where
  "QueryNextSequenceReceive E clientCtx N portID channelID prove =
     (if prove then queryNextSequenceRecvABCI E clientCtx portID channelID
      else query_NextSequenceReceive (fst N) (snd N) (Some \<lparr> crq_PortId = portID, crq_ChannelId = channelID \<rparr>))"

definition queryPacketCommitmentABCI :: "('k, 'x) node_env_scheme \<Rightarrow> client_Context \<Rightarrow> string \<Rightarrow> string \<Rightarrow> u64 \<Rightarrow> bytes ProvedResponse query_result" where
  "queryPacketCommitmentABCI E clientCtx portID channelID sequence =
     (case QueryTendermintProof E clientCtx (PacketCommitmentPath portID channelID sequence) of Inl e \<Rightarrow> Inl e | Inr (val, proofBz, proofHeight) \<Rightarrow>
      if value_len0 val then Inl (Plain (ChannelE ErrPacketCommitmentNotFound))
      else Inr (NewQueryPacketCommitmentResponse (the val) proofBz proofHeight))"

definition QueryPacketCommitment :: "('k, 'x) node_env_scheme \<Rightarrow> client_Context \<Rightarrow> 'k node \<Rightarrow> string \<Rightarrow> string \<Rightarrow> u64 \<Rightarrow> bool \<Rightarrow> bytes ProvedResponse query_result" where
  "QueryPacketCommitment E clientCtx N portID channelID sequence prove =
     (if prove then queryPacketCommitmentABCI E clientCtx portID channelID sequence
      else query_PacketCommitment (fst N) (snd N) (Some \<lparr> crq_PortId = portID, crq_ChannelId = channelID, prq_Sequence = sequence \<rparr>))"

definition queryPacketReceiptABCI :: "('k, 'x) node_env_scheme \<Rightarrow> client_Context \<Rightarrow> string \<Rightarrow> string \<Rightarrow> u64 \<Rightarrow> bool ProvedResponse query_result" where
  "queryPacketReceiptABCI E clientCtx portID channelID sequence =
     (case QueryTendermintProof E clientCtx (PacketReceiptPath portID channelID sequence) of Inl e \<Rightarrow> Inl e | Inr (val, proofBz, proofHeight) \<Rightarrow>
      Inr (NewQueryPacketReceiptResponse (val \<noteq> None) proofBz proofHeight))"

definition QueryPacketReceipt :: "('k, 'x) node_env_scheme \<Rightarrow> client_Context \<Rightarrow> 'k node \<Rightarrow> string \<Rightarrow> string \<Rightarrow> u64 \<Rightarrow> bool \<Rightarrow> bool ProvedResponse query_result" where
  "QueryPacketReceipt E clientCtx N portID channelID sequence prove =
     (if prove then queryPacketReceiptABCI E clientCtx portID channelID sequence
      else query_PacketReceipt (fst N) (snd N) (Some \<lparr> crq_PortId = portID, crq_ChannelId = channelID, prq_Sequence = sequence \<rparr>))"

definition queryPacketAcknowledgementABCI :: "('k, 'x) node_env_scheme \<Rightarrow> client_Context \<Rightarrow> string \<Rightarrow> string \<Rightarrow> u64 \<Rightarrow> bytes ProvedResponse query_result" where
  "queryPacketAcknowledgementABCI E clientCtx portID channelID sequence =
     (case QueryTendermintProof E clientCtx (PacketAcknowledgementPath portID channelID sequence) of Inl e \<Rightarrow> Inl e | Inr (val, proofBz, proofHeight) \<Rightarrow>
      if value_len0 val then Inl (Plain (ChannelE ErrInvalidAcknowledgement))
      else Inr (NewQueryPacketAcknowledgementResponse (the val) proofBz proofHeight))"

definition QueryPacketAcknowledgement :: "('k, 'x) node_env_scheme \<Rightarrow> client_Context \<Rightarrow> 'k node \<Rightarrow> string \<Rightarrow> string \<Rightarrow> u64 \<Rightarrow> bool \<Rightarrow> bytes ProvedResponse query_result" where
  "QueryPacketAcknowledgement E clientCtx N portID channelID sequence prove =
     (if prove then queryPacketAcknowledgementABCI E clientCtx portID channelID sequence
      else query_PacketAcknowledgement (fst N) (snd N) (Some \<lparr> crq_PortId = portID, crq_ChannelId = channelID, prq_Sequence = sequence \<rparr>))"

subsection \<open>A node that serves its state\<close>

text \<open>The bytes under a path of the store.\<close>

definition store_bytes :: "('k, 'x) node_env_scheme \<Rightarrow> store_value \<Rightarrow> bytes option" where
  "store_bytes E v =
     (case v of ClientStateV c \<Rightarrow> cdc_MarshalClientState E c | ConsensusStateV c \<Rightarrow> cdc_MarshalConsensusState E c
      | ConnectionV c \<Rightarrow> cdc_MarshalConnection E c | ChannelV c \<Rightarrow> cdc_MarshalChannel E c | BytesV b \<Rightarrow> Some b
      | PathsV ps \<Rightarrow> cdc_MarshalClientPaths E ps)"

text \<open>
  The codec reads back what it wrote, and never writes the empty message. The connections of a client are written by the
  protobuf codec and read by the amino codec, whose encodings of a list of strings are the same. \<^verbatim>\<open>addConnectionToClient\<close> only stores a list
  it has appended to, so the list is not empty unless a genesis state set an empty one.
\<close>

definition reads_back :: "('k, 'x) node_env_scheme \<Rightarrow> store_value \<Rightarrow> bool" where
  "reads_back E v \<longleftrightarrow>
     (case v of ClientStateV c \<Rightarrow> (\<exists>b. b \<noteq> [] \<and> cdc_MarshalClientState E c = Some b \<and> cdc_UnmarshalClientState E b = Some c)
      | ConsensusStateV c \<Rightarrow> (\<exists>b. b \<noteq> [] \<and> cdc_MarshalConsensusState E c = Some b \<and> cdc_UnmarshalConsensusState E b = Some c)
      | ConnectionV c \<Rightarrow> (\<exists>b. b \<noteq> [] \<and> cdc_MarshalConnection E c = Some b \<and> cdc_UnmarshalConnection E b = Some c)
      | ChannelV c \<Rightarrow> (\<exists>b. b \<noteq> [] \<and> cdc_MarshalChannel E c = Some b \<and> cdc_UnmarshalChannel E b = Some c)
      | PathsV ps \<Rightarrow> (\<exists>b. b \<noteq> [] \<and> cdc_MarshalClientPaths E ps = Some b \<and> amino_UnmarshalPaths E b = Some ps)
      | BytesV _ \<Rightarrow> True)"

definition asked_height :: "client_Context \<Rightarrow> int" where
  "asked_height clientCtx = (if cc_Height clientCtx \<noteq> 0 then cc_Height clientCtx - 1 else 0)"

definition serves :: "('k, 'x) node_env_scheme \<Rightarrow> client_Context \<Rightarrow> 'k ibc_state \<Rightarrow> bool" where
  "serves E clientCtx s \<longleftrightarrow> (cc_Height clientCtx = 0 \<or> 2 < cc_Height clientCtx) \<and> is_ok (ParseChainID (cc_ChainID clientCtx)) \<and>
     (\<forall>p. cdc_MarshalMerkleProof E p \<noteq> None) \<and> (\<forall>e v. store_lookup s e = Some v \<longrightarrow> reads_back E v) \<and>
     (\<forall>e. (\<forall>x \<in> entry_identifiers e. no_slash x) \<longrightarrow>
       (\<exists>ops h. abci_Query E ''store/ibc/key'' (asked_height clientCtx) (entry_path e) =
          Inr \<lparr> abci_Value = Option.bind (store_lookup s e) (store_bytes E), abci_ProofOps = Some ops, abci_Height = h \<rparr> \<and> is_ok (convert_ops E ops)))"

lemma proof_query:
  assumes "serves E cc s" "\<forall>x \<in> entry_identifiers e. no_slash x"
  shows "\<exists>pf h. QueryTendermintProof E cc (entry_path e) = Inr (Option.bind (store_lookup s e) (store_bytes E), pf, h)"
proof -
  from assms obtain ops h where a: "abci_Query E ''store/ibc/key'' (asked_height cc) (entry_path e) =
      Inr \<lparr> abci_Value = Option.bind (store_lookup s e) (store_bytes E), abci_ProofOps = Some ops, abci_Height = h \<rparr>" "is_ok (convert_ops E ops)"
    unfolding serves_def by blast
  from assms(1) obtain r ps where r: "ParseChainID (cc_ChainID cc) = Inr r" "cc_Height cc = 0 \<or> 2 < cc_Height cc" "convert_ops E ops = Inr ps"
    using a(2) by (auto simp: serves_def is_ok_iff)
  from assms(1) have "cdc_MarshalMerkleProof E (MerkleProof ps) \<noteq> None" unfolding serves_def by blast
  then obtain pf where "cdc_MarshalMerkleProof E (MerkleProof ps) = Some pf" by blast
  with a(1) r show ?thesis
    by (auto simp: QueryTendermintProof_def Let_def asked_height_def plain_def from_ext_def ConvertProofs_def)
qed

definition answer :: "('a \<Rightarrow> 'b) \<Rightarrow> 'a query_result \<Rightarrow> 'b option" where
  "answer f r = (case r of Inl _ \<Rightarrow> None | Inr x \<Rightarrow> Some (f x))"

lemma answer_simps [simp]: "answer f (Inl e) = None" "answer f (Inr x) = Some (f x)"
  by (simp_all add: answer_def)

lemma plain_of_Inl [simp]: "plain (Inl e) = Inl (Plain e)"
  by (simp add: plain_def)

lemma stored_value:
  assumes "serves E cc s" "store_lookup s e = Some v"
  shows "reads_back E v"
  using assms by (auto simp: serves_def)

lemma with_code_of_Inr: "with_code c (Inr x) = Inr x"
  by (simp add: with_code_def)

lemma client_query_agrees:
  assumes s: "serves E cc (snd N)" and self: "GetSelfHeight (fst N) = Inr self" and c: "ClientIdentifierValidator c = Inr ()"
  shows "answer csr_ClientState (QueryClientState E cc N c True) = answer csr_ClientState (QueryClientState E cc N c False)"
proof -
  have sl: "no_slash c" using c by (rule identifier_no_slash)
  then obtain pf h where q: "QueryTendermintProof E cc (FullClientStatePath c) = Inr (Option.bind (store_lookup (snd N) (ClientStateEntry c)) (store_bytes E), pf, h)"
    using proof_query [OF s, of "ClientStateEntry c"] by auto
  show ?thesis
  proof (cases "GetClientState (snd N) c")
    case None
    with q show ?thesis
      by (simp add: QueryClientState_def QueryClientStateABCI_def query_ClientState_def c with_code_of_Inr value_len0_def GetClientState_def)
  next
    case (Some cs)
    with stored_value [OF s, of "ClientStateEntry c"] obtain b where
      "b \<noteq> []" "cdc_MarshalClientState E cs = Some b" "cdc_UnmarshalClientState E b = Some cs"
      by (auto simp: reads_back_def GetClientState_def)
    with q Some self show ?thesis
      by (auto simp: QueryClientState_def QueryClientStateABCI_def query_ClientState_def c with_code_def value_len0_def GetClientState_def store_bytes_def
          decode_value_def from_ext_def NewQueryClientStateResponse_def plain_def split: sum.splits error.splits)
  qed
qed

lemma consensus_query_agrees:
  assumes s: "serves E cc (snd N)" and self: "GetSelfHeight (fst N) = Inr self" and c: "ClientIdentifierValidator c = Inr ()" and h: "RevisionHeight h \<noteq> 0"
  shows "answer conr_ConsensusState (QueryConsensusState E cc N c h True False) = answer conr_ConsensusState (QueryConsensusState E cc N c h False False)"
proof -
  have sl: "no_slash c" using c by (rule identifier_no_slash)
  then obtain pf ph where q: "QueryTendermintProof E cc (FullConsensusStatePath c h) =
      Inr (Option.bind (store_lookup (snd N) (ConsensusStateEntry c h)) (store_bytes E), pf, ph)"
    using proof_query [OF s, of "ConsensusStateEntry c h"] by auto
  have nh: "NewHeight (RevisionNumber h) (RevisionHeight h) = h" by (cases h) (simp add: NewHeight_def)
  show ?thesis
  proof (cases "GetClientConsensusState (snd N) c h")
    case None
    with q show ?thesis
      by (simp add: QueryConsensusState_def QueryConsensusStateABCI_def query_ConsensusState_def c h nh with_code_of_Inr value_len0_def
          GetClientConsensusState_def)
  next
    case (Some cs)
    with stored_value [OF s, of "ConsensusStateEntry c h"] obtain b where
      "b \<noteq> []" "cdc_MarshalConsensusState E cs = Some b" "cdc_UnmarshalConsensusState E b = Some cs"
      by (auto simp: reads_back_def GetClientConsensusState_def)
    with q Some self h nh show ?thesis
      by (auto simp: QueryConsensusState_def QueryConsensusStateABCI_def query_ConsensusState_def c with_code_def value_len0_def
          GetClientConsensusState_def store_bytes_def decode_value_def from_ext_def NewQueryConsensusStateResponse_def plain_def split: sum.splits error.splits)
  qed
qed

lemma connection_query_agrees:
  assumes s: "serves E cc (snd N)" and self: "GetSelfHeight (fst N) = Inr self" and c: "ConnectionIdentifierValidator c = Inr ()"
  shows "answer connr_Connection (QueryConnection E cc N c True) = answer connr_Connection (QueryConnection E cc N c False)"
proof -
  have sl: "no_slash c" using c by (rule identifier_no_slash)
  then obtain pf h where q: "QueryTendermintProof E cc (ConnectionPath c) = Inr (Option.bind (store_lookup (snd N) (ConnectionEntry c)) (store_bytes E), pf, h)"
    using proof_query [OF s, of "ConnectionEntry c"] by auto
  show ?thesis
  proof (cases "connections (snd N) c")
    case None
    with q show ?thesis
      by (simp add: QueryConnection_def queryConnectionABCI_def query_Connection_def c with_code_of_Inr value_len0_def GetConnection_def)
  next
    case (Some x)
    with stored_value [OF s, of "ConnectionEntry c"] obtain b where
      "b \<noteq> []" "cdc_MarshalConnection E x = Some b" "cdc_UnmarshalConnection E b = Some x"
      by (auto simp: reads_back_def)
    with q Some self show ?thesis
      by (simp add: QueryConnection_def queryConnectionABCI_def query_Connection_def c with_code_of_Inr value_len0_def GetConnection_def store_bytes_def
          decode_value_def from_ext_def NewQueryConnectionResponse_def)
  qed
qed

lemma client_connections_query_agrees:
  assumes s: "serves E cc (snd N)" and self: "GetSelfHeight (fst N) = Inr self" and c: "ClientIdentifierValidator c = Inr ()"
  shows "answer ccr_ConnectionPaths (QueryClientConnections E cc N c True) = answer ccr_ConnectionPaths (QueryClientConnections E cc N c False)"
proof -
  have sl: "no_slash c" using c by (rule identifier_no_slash)
  then obtain pf h where q: "QueryTendermintProof E cc (ClientConnectionsPath c) =
      Inr (Option.bind (store_lookup (snd N) (ClientConnectionsEntry c)) (store_bytes E), pf, h)"
    using proof_query [OF s, of "ClientConnectionsEntry c"] by auto
  show ?thesis
  proof (cases "clientConnections (snd N) c")
    case None
    with q show ?thesis
      by (simp add: QueryClientConnections_def queryClientConnectionsABCI_def query_ClientConnections_def c with_code_of_Inr value_len0_def
          GetClientConnectionPaths_def)
  next
    case (Some ps)
    with stored_value [OF s, of "ClientConnectionsEntry c"] obtain b where
      "b \<noteq> []" "cdc_MarshalClientPaths E ps = Some b" "amino_UnmarshalPaths E b = Some ps"
      by (auto simp: reads_back_def)
    with q Some self show ?thesis
      by (simp add: QueryClientConnections_def queryClientConnectionsABCI_def query_ClientConnections_def c with_code_of_Inr value_len0_def
          GetClientConnectionPaths_def store_bytes_def decode_value_def from_ext_def NewQueryClientConnectionsResponse_def)
  qed
qed

lemma channel_query_agrees:
  assumes s: "serves E cc (snd N)" and self: "GetSelfHeight (fst N) = Inr self" and v: "validategRPCRequest p c = Inr ()" and sl: "no_slash p" "no_slash c"
  shows "answer chr_Channel (QueryChannel E cc N p c True) = answer chr_Channel (QueryChannel E cc N p c False)"
proof -
  obtain pf h where q: "QueryTendermintProof E cc (ChannelPath p c) = Inr (Option.bind (store_lookup (snd N) (ChannelEntry p c)) (store_bytes E), pf, h)"
    using proof_query [OF s, of "ChannelEntry p c"] sl by auto
  show ?thesis
  proof (cases "channels (snd N) (p, c)")
    case None
    with q show ?thesis by (simp add: QueryChannel_def queryChannelABCI_def query_Channel_def v value_len0_def GetChannel_def)
  next
    case (Some x)
    with stored_value [OF s, of "ChannelEntry p c"] obtain b where
      "b \<noteq> []" "cdc_MarshalChannel E x = Some b" "cdc_UnmarshalChannel E b = Some x"
      by (auto simp: reads_back_def)
    with q Some self show ?thesis
      by (simp add: QueryChannel_def queryChannelABCI_def query_Channel_def v value_len0_def GetChannel_def store_bytes_def
          decode_value_def from_ext_def NewQueryChannelResponse_def)
  qed
qed

lemma packet_queries_agree:
  assumes s: "serves E cc (snd N)" and self: "GetSelfHeight (fst N) = Inr self" and v: "validategRPCRequest p c = Inr ()" and sl: "no_slash p" "no_slash c"
    and n: "n \<noteq> 0"
  shows "answer pr_Value (QueryPacketCommitment E cc N p c n True) = answer pr_Value (QueryPacketCommitment E cc N p c n False)"
    and "answer pr_Value (QueryPacketReceipt E cc N p c n True) = answer pr_Value (QueryPacketReceipt E cc N p c n False)"
    and "answer pr_Value (QueryPacketAcknowledgement E cc N p c n True) = answer pr_Value (QueryPacketAcknowledgement E cc N p c n False)"
    and "answer pr_Value (QueryNextSequenceReceive E cc N p c True) = answer pr_Value (QueryNextSequenceReceive E cc N p c False)"
proof -
  from proof_query [OF s, of "PacketCommitmentEntry p c n"] proof_query [OF s, of "PacketReceiptEntry p c n"]
    proof_query [OF s, of "PacketAckEntry p c n"] proof_query [OF s, of "NextSequenceRecvEntry p c"] sl
  obtain f1 f2 f3 f4 h1 h2 h3 h4 where q:
    "QueryTendermintProof E cc (PacketCommitmentPath p c n) = Inr (packetCommitments (snd N) (p, c, n), f1, h1)"
    "QueryTendermintProof E cc (PacketReceiptPath p c n) = Inr (packetReceipts (snd N) (p, c, n), f2, h2)"
    "QueryTendermintProof E cc (PacketAcknowledgementPath p c n) = Inr (packetAcks (snd N) (p, c, n), f3, h3)"
    "QueryTendermintProof E cc (NextSequenceRecvPath p c) = Inr (map_option u64_be (nextSequenceRecv (snd N) (p, c)), f4, h4)"
    by (auto simp: store_bytes_def Option.bind_map_option comp_def map_conv_bind_option)
  show "answer pr_Value (QueryPacketCommitment E cc N p c n True) = answer pr_Value (QueryPacketCommitment E cc N p c n False)"
    using q(1) self by (auto simp: QueryPacketCommitment_def queryPacketCommitmentABCI_def query_PacketCommitment_def v n value_len0_def GetPacketCommitment_def
        Let_def NewQueryPacketCommitmentResponse_def split: option.splits)
  show "answer pr_Value (QueryPacketReceipt E cc N p c n True) = answer pr_Value (QueryPacketReceipt E cc N p c n False)"
    using q(2) self by (simp add: QueryPacketReceipt_def queryPacketReceiptABCI_def query_PacketReceipt_def v n GetPacketReceipt_def
        Let_def NewQueryPacketReceiptResponse_def)
  show "answer pr_Value (QueryPacketAcknowledgement E cc N p c n True) = answer pr_Value (QueryPacketAcknowledgement E cc N p c n False)"
    using q(3) self by (auto simp: QueryPacketAcknowledgement_def queryPacketAcknowledgementABCI_def query_PacketAcknowledgement_def v n value_len0_def
        stored_ack_def GetPacketAcknowledgement_def NewQueryPacketAcknowledgementResponse_def split: option.splits)
  show "answer pr_Value (QueryNextSequenceReceive E cc N p c True) = answer pr_Value (QueryNextSequenceReceive E cc N p c False)"
    using q(4) self by (auto simp: QueryNextSequenceReceive_def queryNextSequenceRecvABCI_def query_NextSequenceReceive_def v value_len0_def
        GetNextSequenceRecv_def NewQueryNextSequenceReceiveResponse_def be_u64_u64_be split: option.splits simp flip: length_0_conv)
qed

lemma proved_client:
  assumes s: "serves E cc s" "iterable s" and c: "GetClientState s c = Some cs" and pk: "\<forall>v. cdc_NewAnyWithValue E v"
  shows "\<exists>pf h. QueryClientStateABCI E cc c = Inr (NewQueryClientStateResponse (AnyClientState cs) pf h)"
proof -
  from c have l: "store_lookup s (ClientStateEntry c) = Some (ClientStateV cs)" by (simp add: GetClientState_def)
  from iterable_ids [OF s(2) l, of c] have "no_slash c" by simp
  then obtain pf h where q: "QueryTendermintProof E cc (FullClientStatePath c) = Inr (store_bytes E (ClientStateV cs), pf, h)"
    using proof_query [OF s(1), of "ClientStateEntry c"] l by auto
  from stored_value [OF s(1) l] q pk show ?thesis
    by (intro exI [of _ pf] exI [of _ h]) (auto simp: reads_back_def QueryClientStateABCI_def value_len0_def decode_value_def store_bytes_def from_ext_def PackClientState_def pack_any_def)
qed

lemma proved_consensus:
  assumes s: "serves E cc s" "iterable s" and c: "GetClientConsensusState s c height = Some cs" and pk: "\<forall>v. cdc_NewAnyWithValue E v"
  shows "\<exists>pf h. QueryConsensusStateABCI E cc c height = Inr (NewQueryConsensusStateResponse (AnyConsensusState cs) pf h)"
proof -
  from c have l: "store_lookup s (ConsensusStateEntry c height) = Some (ConsensusStateV cs)" by (simp add: GetClientConsensusState_def)
  from iterable_ids [OF s(2) l, of c] have "no_slash c" by simp
  then obtain pf h where q: "QueryTendermintProof E cc (FullConsensusStatePath c height) = Inr (store_bytes E (ConsensusStateV cs), pf, h)"
    using proof_query [OF s(1), of "ConsensusStateEntry c height"] l by auto
  from stored_value [OF s(1) l] q pk show ?thesis
    by (intro exI [of _ pf] exI [of _ h]) (auto simp: reads_back_def QueryConsensusStateABCI_def value_len0_def decode_value_def store_bytes_def from_ext_def PackConsensusState_def pack_any_def)
qed

text \<open>The queries for the client of a connection or a channel, whose proof is of the client that the gRPC server names.\<close>

lemma prove_client_agrees:
  assumes s: "serves E cc s" "iterable s" and pk: "\<forall>v. cdc_NewAnyWithValue E v"
    and new: "\<And>ics pf h. icr_IdentifiedClientState (new ics pf h) = ics"
    and r: "\<And>res. r = Inr res \<Longrightarrow> \<exists>c cs. icr_IdentifiedClientState res = NewIdentifiedClientState c cs \<and> GetClientState s c = Some cs"
  shows "answer icr_IdentifiedClientState (prove_client E cc True new r) = answer icr_IdentifiedClientState (prove_client E cc False new r)"
proof (cases r)
  case (Inr res)
  from r [OF this] obtain c cs where c: "icr_IdentifiedClientState res = NewIdentifiedClientState c cs" "GetClientState s c = Some cs" by blast
  from proved_client [OF s c(2) pk] obtain pf h where "QueryClientStateABCI E cc c = Inr (NewQueryClientStateResponse (AnyClientState cs) pf h)" by blast
  then show ?thesis by (simp add: prove_client_def Inr c(1) new NewIdentifiedClientState_def NewQueryClientStateResponse_def any_client_def)
qed (simp add: prove_client_def)

lemma prove_consensus_agrees:
  assumes s: "serves E cc s" "iterable s" and pk: "\<forall>v. cdc_NewAnyWithValue E v"
    and new: "\<And>c a h pf ph. ckr_ConsensusState (new c a h pf ph) = a"
    and r: "\<And>res. r = Inr res \<Longrightarrow> \<exists>cs. ckr_ConsensusState res = AnyConsensusState cs \<and> GetClientConsensusState s (ckr_ClientId res) height = Some cs"
  shows "answer ckr_ConsensusState (prove_consensus E cc True height new r) = answer ckr_ConsensusState (prove_consensus E cc False height new r)"
proof (cases r)
  case (Inr res)
  from r [OF this] obtain cs where c: "ckr_ConsensusState res = AnyConsensusState cs" "GetClientConsensusState s (ckr_ClientId res) height = Some cs" by blast
  from proved_consensus [OF s c(2) pk] obtain pf h where
    "QueryConsensusStateABCI E cc (ckr_ClientId res) height = Inr (NewQueryConsensusStateResponse (AnyConsensusState cs) pf h)" by blast
  then show ?thesis by (simp add: prove_consensus_def Inr c(1) new NewQueryConsensusStateResponse_def)
qed (simp add: prove_consensus_def)

lemma connection_client_queries_agree:
  assumes s: "serves E cc (snd N)" "iterable (snd N)" and pk: "\<forall>v. cdc_NewAnyWithValue E v"
  shows "answer icr_IdentifiedClientState (QueryConnectionClientState E cc N c True) = answer icr_IdentifiedClientState (QueryConnectionClientState E cc N c False)"
    and "answer ckr_ConsensusState (QueryConnectionConsensusState E cc N c h True) = answer ckr_ConsensusState (QueryConnectionConsensusState E cc N c h False)"
proof -
  show "answer icr_IdentifiedClientState (QueryConnectionClientState E cc N c True) = answer icr_IdentifiedClientState (QueryConnectionClientState E cc N c False)"
    unfolding QueryConnectionClientState_def
    by (rule prove_client_agrees [OF s pk]) (auto simp: NewQueryConnectionClientStateResponse_def query_ConnectionClientState_def query_elims Let_def, blast)
  have nh: "NewHeight (RevisionNumber h) (RevisionHeight h) = h" by (cases h) (simp add: NewHeight_def)
  show "answer ckr_ConsensusState (QueryConnectionConsensusState E cc N c h True) = answer ckr_ConsensusState (QueryConnectionConsensusState E cc N c h False)"
    unfolding QueryConnectionConsensusState_def
    by (rule prove_consensus_agrees [OF s pk])
      (auto simp: NewQueryConnectionConsensusStateResponse_def query_ConnectionConsensusState_def query_elims Let_def nh PackConsensusState_def pack_any_def pk
        with_code_def split: sum.splits)
qed


lemma channel_client_queries_agree:
  assumes s: "serves E cc (snd N)" "iterable (snd N)" and pk: "\<forall>v. cdc_NewAnyWithValue E v"
  shows "answer icr_IdentifiedClientState (QueryChannelClientState E cc N p c True) = answer icr_IdentifiedClientState (QueryChannelClientState E cc N p c False)"
    and "answer ckr_ConsensusState (QueryChannelConsensusState E cc N p c h True) = answer ckr_ConsensusState (QueryChannelConsensusState E cc N p c h False)"
proof -
  show "answer icr_IdentifiedClientState (QueryChannelClientState E cc N p c True) = answer icr_IdentifiedClientState (QueryChannelClientState E cc N p c False)"
    unfolding QueryChannelClientState_def
    by (rule prove_client_agrees [OF s pk])
      (auto simp: NewQueryChannelClientStateResponse_def query_ChannelClientState_def GetChannelClientState_def query_elims result_elims Let_def, blast)
  have nh: "NewHeight (RevisionNumber h) (RevisionHeight h) = h" by (cases h) (simp add: NewHeight_def)
  show "answer ckr_ConsensusState (QueryChannelConsensusState E cc N p c h True) = answer ckr_ConsensusState (QueryChannelConsensusState E cc N p c h False)"
    unfolding QueryChannelConsensusState_def
    by (rule prove_consensus_agrees [OF s pk])
      (auto simp: NewQueryChannelConsensusStateResponse_def query_ChannelConsensusState_def query_elims Let_def nh PackConsensusState_def pack_any_def pk)
qed

text \<open>
  With a proof, the flag for the latest consensus state has no effect: the height that is passed is looked up, which for the
  command line is the zero height.
\<close>

lemma proof_ignores_latest: "QueryConsensusState E cc N c h True latest = QueryConsensusStateABCI E cc c h"
  by (simp add: QueryConsensusState_def)


end
