(* ===== verification/CommandLine.thy ===== *)
theory CommandLine
  imports ClientQueries TransferGenesis MsgConstructors IcaHost IcaController
begin

text \<open>
  The commands of the command line (\<^verbatim>\<open>client/cli\<close> of the core submodules, of transfer and of interchain accounts). A
  command is its \<^verbatim>\<open>RunE\<close> function on the positional arguments, after the check of their number; the values of its flags
  and the contexts that the SDK makes of them are in the record \<open>command\<close>. A query command returns the context that prints
  and the response to print; a transaction command returns the context and the message, which the SDK then signs and
  broadcasts. The JSON codec, the file system, the clock and the governance messages are parameters.

  The theorems show that a transfer made with relative timeouts has not timed out on the chain that answered the command's
  queries, and which arguments may be given as files.
\<close>

subsection \<open>Commands, flags and arguments\<close>

record tx_Context = client_Context +
  cc_FromAddress :: string

record command =
  cmd_QueryContext :: "client_Context result"
  cmd_TxContext :: "tx_Context result"
  flag_Prove :: bool
  flag_Page :: "PageRequest option result"
  flag_LatestHeight :: bool
  flag_Sequences :: "int list"
  flag_PacketTimeoutHeight :: string
  flag_PacketTimeoutTimestamp :: u64
  flag_AbsoluteTimeouts :: bool
  flag_Title :: string
  flag_Description :: string
  flag_Deposit :: string

record GovMsg =
  gov_Content :: Content
  gov_InitialDeposit :: "Coin list"
  gov_Proposer :: string

text \<open>
  \<open>UnmarshalInterfaceJSON\<close> fails (\<open>None\<close>) or fills the variable, which may stay nil. \<open>cdc_NilTargetJSON\<close> tells whether it
  returns without an error when it gets a nil interface in place of a pointer to a variable.
\<close>

record 'k cli_env = "'k node_env" +
  cdc_ClientStateJSON :: "string \<Rightarrow> ClientState option option"
  cdc_ConsensusStateJSON :: "string \<Rightarrow> ConsensusState option option"
  cdc_HeaderJSON :: "string \<Rightarrow> Header option option"
  cdc_MisbehaviourJSON :: "string \<Rightarrow> Misbehaviour option option"
  cdc_NilTargetJSON :: "string \<Rightarrow> bool"
  sdk_ParseCoinNormalized :: "string \<Rightarrow> Coin option"
  sdk_ParseCoinsNormalized :: "string \<Rightarrow> Coin list option"
  gov_PackContent :: "Content \<Rightarrow> unit result"
  gov_MsgValidateBasic :: "GovMsg \<Rightarrow> unit result"
  time_Now :: int

type_synonym 'a printed = "(client_Context \<times> 'a) query_result"
type_synonym 'm submitted = "(tx_Context \<times> 'm) query_result"

definition usage :: "'a query_result" where
  "usage = Inl (Plain (External ''cobra''))"

definition query_cmd :: "command \<Rightarrow> (client_Context \<Rightarrow> 'a query_result) \<Rightarrow> 'a printed" where
  "query_cmd cmd run =
     (case plain (cmd_QueryContext cmd) of Inl e \<Rightarrow> Inl e | Inr clientCtx \<Rightarrow>
     (case run clientCtx of Inl e \<Rightarrow> Inl e | Inr res \<Rightarrow> Inr (clientCtx, res)))"

definition paged_cmd :: "command \<Rightarrow> (PageRequest option \<Rightarrow> 'a query_result) \<Rightarrow> 'a printed" where
  "paged_cmd cmd run = query_cmd cmd (\<lambda>_. case plain (flag_Page cmd) of Inl e \<Rightarrow> Inl e | Inr pageReq \<Rightarrow> run pageReq)"

text \<open>\<^verbatim>\<open>clientCtx.WithHeight(int64(h))\<close> before printing.\<close>

definition at_proof_height :: "('a \<Rightarrow> Height) \<Rightarrow> 'a printed \<Rightarrow> 'a printed" where
  "at_proof_height ph r = (case r of Inl e \<Rightarrow> Inl e | Inr (clientCtx, res) \<Rightarrow> Inr (clientCtx \<lparr> cc_Height := sint (RevisionHeight (ph res)) \<rparr>, res))"

definition tx_cmd :: "command \<Rightarrow> (tx_Context \<Rightarrow> 'm query_result) \<Rightarrow> 'm submitted" where
  "tx_cmd cmd run =
     (case plain (cmd_TxContext cmd) of Inl e \<Rightarrow> Inl e | Inr clientCtx \<Rightarrow>
     (case run clientCtx of Inl e \<Rightarrow> Inl e | Inr msg \<Rightarrow> Inr (clientCtx, msg)))"

definition content_or_file :: "('k, 'x) cli_env_scheme \<Rightarrow> (string \<Rightarrow> 'a option) \<Rightarrow> string \<Rightarrow> 'a query_result" where
  "content_or_file E dec arg =
     (case dec arg of Some v \<Rightarrow> Inr v | None \<Rightarrow>
     (case plain (from_ext ''os'' (os_ReadFile E arg)) of Inl e \<Rightarrow> Inl e | Inr contents \<Rightarrow> plain (from_ext ''codec'' (dec contents))))"

text \<open>\<^verbatim>\<open>strconv.ParseInt(s, 10, 64)\<close>\<close>

definition parse_int64 :: "string \<Rightarrow> int option" where
  "parse_int64 s =
     (let neg = (s \<noteq> [] \<and> hd s = CHR ''-''); digits = (if s \<noteq> [] \<and> hd s \<in> {CHR ''-'', CHR ''+''} then tl s else s) in
      if digits = [] \<or> \<not> list_all is_digit digits then None
      else let v = read_int digits in
        if neg then (if v \<le> 2 ^ 63 then Some (- v) else None) else if v < 2 ^ 63 then Some v else None)"

subsection \<open>02-client queries (core/02-client/client/cli/query.go)\<close>

definition GetCmdQueryClientStates :: "('k, 'x) cli_env_scheme \<Rightarrow> command \<Rightarrow> 'k node \<Rightarrow> string list \<Rightarrow> QueryClientStatesResponse printed" where
  "GetCmdQueryClientStates E cmd N args =
     (case args of [] \<Rightarrow> paged_cmd cmd (\<lambda>pageReq. query_ClientStates E (snd N) (Some pageReq)) | _ \<Rightarrow> usage)"

definition GetCmdQueryClientState :: "('k, 'x) cli_env_scheme \<Rightarrow> command \<Rightarrow> 'k node \<Rightarrow> string list \<Rightarrow> QueryClientStateResponse printed" where
  "GetCmdQueryClientState E cmd N args =
     (case args of [clientID] \<Rightarrow> query_cmd cmd (\<lambda>clientCtx. QueryClientState E clientCtx N clientID (flag_Prove cmd)) | _ \<Rightarrow> usage)"

definition GetCmdQueryClientStatus :: "command \<Rightarrow> 'k node \<Rightarrow> string list \<Rightarrow> string printed" where
  "GetCmdQueryClientStatus cmd N args =
     (case args of [clientID] \<Rightarrow> query_cmd cmd (\<lambda>_. query_ClientStatus (fst N) (snd N) (Some clientID)) | _ \<Rightarrow> usage)"

definition GetCmdQueryConsensusStates :: "('k, 'x) cli_env_scheme \<Rightarrow> command \<Rightarrow> 'k node \<Rightarrow> string list \<Rightarrow> QueryConsensusStatesResponse printed" where
  "GetCmdQueryConsensusStates E cmd N args =
     (case args of
        [clientID] \<Rightarrow> paged_cmd cmd (\<lambda>pageReq. query_ConsensusStates E (snd N) (Some \<lparr> consq_ClientId = clientID, consq_Pagination = pageReq \<rparr>))
      | _ \<Rightarrow> usage)"

text \<open>The height argument is read only without the flag for the latest height; with it, the height stays zero.\<close>

definition consensus_height :: "command \<Rightarrow> string list \<Rightarrow> Height result" where
  "consensus_height cmd rest =
     (if flag_LatestHeight cmd then Inr ZeroHeight
      else case rest of [h] \<Rightarrow> ParseHeight h | _ \<Rightarrow> Inl (External ''errors''))"

definition GetCmdQueryConsensusState :: "('k, 'x) cli_env_scheme \<Rightarrow> command \<Rightarrow> 'k node \<Rightarrow> string list \<Rightarrow> QueryConsensusStateResponse printed" where
  "GetCmdQueryConsensusState E cmd N args =
     (if length args \<notin> {1, 2} then usage
      else query_cmd cmd (\<lambda>clientCtx.
        case plain (consensus_height cmd (tl args)) of Inl e \<Rightarrow> Inl e | Inr height \<Rightarrow>
        QueryConsensusState E clientCtx N (hd args) height (flag_Prove cmd) (flag_LatestHeight cmd)))"

definition GetCmdQueryHeader :: "('k, 'x) cli_env_scheme \<Rightarrow> command \<Rightarrow> string list \<Rightarrow> tm_Header printed" where
  "GetCmdQueryHeader E cmd args =
     (case args of [] \<Rightarrow> query_cmd cmd (\<lambda>clientCtx. plain (case QueryTendermintHeader E clientCtx of Inl e \<Rightarrow> Inl e | Inr (header, _) \<Rightarrow> Inr header))
      | _ \<Rightarrow> usage)"

definition GetCmdSelfConsensusState :: "('k, 'x) cli_env_scheme \<Rightarrow> command \<Rightarrow> string list \<Rightarrow> tm_ConsensusState printed" where
  "GetCmdSelfConsensusState E cmd args =
     (case args of [] \<Rightarrow> query_cmd cmd (\<lambda>clientCtx. plain (case QuerySelfConsensusState E clientCtx of Inl e \<Rightarrow> Inl e | Inr (state, _) \<Rightarrow> Inr state))
      | _ \<Rightarrow> usage)"

text \<open>The error of the query is dropped and its nil response dereferenced.\<close>

definition client_GetCmdParams :: "command \<Rightarrow> 'k node \<Rightarrow> string list \<Rightarrow> string list printed" where
  "client_GetCmdParams cmd N args =
     (case args of [] \<Rightarrow> query_cmd cmd (\<lambda>_. case query_ClientParams (snd N) of Inl _ \<Rightarrow> Inl (Plain Panic) | Inr params \<Rightarrow> Inr params) | _ \<Rightarrow> usage)"

subsection \<open>03-connection queries (core/03-connection/client/cli/query.go)\<close>

definition GetCmdQueryConnections :: "('k, 'x) cli_env_scheme \<Rightarrow> command \<Rightarrow> 'k node \<Rightarrow> string list \<Rightarrow> QueryConnectionsResponse printed" where
  "GetCmdQueryConnections E cmd N args =
     (case args of [] \<Rightarrow> paged_cmd cmd (\<lambda>pageReq. query_Connections E (fst N) (snd N) (Some pageReq)) | _ \<Rightarrow> usage)"

definition GetCmdQueryConnection :: "('k, 'x) cli_env_scheme \<Rightarrow> command \<Rightarrow> 'k node \<Rightarrow> string list \<Rightarrow> QueryConnectionResponse printed" where
  "GetCmdQueryConnection E cmd N args =
     (case args of
        [connectionID] \<Rightarrow> at_proof_height connr_ProofHeight (query_cmd cmd (\<lambda>clientCtx. QueryConnection E clientCtx N connectionID (flag_Prove cmd)))
      | _ \<Rightarrow> usage)"

definition GetCmdQueryClientConnections :: "('k, 'x) cli_env_scheme \<Rightarrow> command \<Rightarrow> 'k node \<Rightarrow> string list \<Rightarrow> QueryClientConnectionsResponse printed" where
  "GetCmdQueryClientConnections E cmd N args =
     (case args of
        [clientID] \<Rightarrow> at_proof_height ccr_ProofHeight (query_cmd cmd (\<lambda>clientCtx. QueryClientConnections E clientCtx N clientID (flag_Prove cmd)))
      | _ \<Rightarrow> usage)"

subsection \<open>04-channel queries (core/04-channel/client/cli/query.go)\<close>

definition GetCmdQueryChannels :: "('k, 'x) cli_env_scheme \<Rightarrow> command \<Rightarrow> 'k node \<Rightarrow> string list \<Rightarrow> ChannelsResponse printed" where
  "GetCmdQueryChannels E cmd N args =
     (case args of [] \<Rightarrow> paged_cmd cmd (\<lambda>pageReq. query_Channels E (fst N) (snd N) (Some pageReq)) | _ \<Rightarrow> usage)"

definition GetCmdQueryChannel :: "('k, 'x) cli_env_scheme \<Rightarrow> command \<Rightarrow> 'k node \<Rightarrow> string list \<Rightarrow> QueryChannelResponse printed" where
  "GetCmdQueryChannel E cmd N args =
     (case args of [portID, channelID] \<Rightarrow> query_cmd cmd (\<lambda>clientCtx. QueryChannel E clientCtx N portID channelID (flag_Prove cmd)) | _ \<Rightarrow> usage)"

definition GetCmdQueryConnectionChannels :: "('k, 'x) cli_env_scheme \<Rightarrow> command \<Rightarrow> 'k node \<Rightarrow> string list \<Rightarrow> ChannelsResponse printed" where
  "GetCmdQueryConnectionChannels E cmd N args =
     (case args of
        [connection] \<Rightarrow> paged_cmd cmd (\<lambda>pageReq. query_ConnectionChannels E (fst N) (snd N)
          (Some \<lparr> qcq_Connection = connection, qcq_Pagination = pageReq \<rparr>))
      | _ \<Rightarrow> usage)"

definition GetCmdQueryChannelClientState :: "('k, 'x) cli_env_scheme \<Rightarrow> command \<Rightarrow> 'k node \<Rightarrow> string list \<Rightarrow> IdentifiedClientState printed" where
  "GetCmdQueryChannelClientState E cmd N args =
     (case args of
        [portID, channelID] \<Rightarrow> query_cmd cmd (\<lambda>clientCtx.
          case QueryChannelClientState E clientCtx N portID channelID False of Inl e \<Rightarrow> Inl e | Inr res \<Rightarrow> Inr (icr_IdentifiedClientState res))
      | _ \<Rightarrow> usage)"

definition GetCmdQueryPacketCommitments :: "('k, 'x) cli_env_scheme \<Rightarrow> command \<Rightarrow> 'k node \<Rightarrow> string list \<Rightarrow> PacketStatesResponse printed" where
  "GetCmdQueryPacketCommitments E cmd N args =
     (case args of
        [portID, channelID] \<Rightarrow> paged_cmd cmd (\<lambda>pageReq. query_PacketCommitments E (fst N) (snd N)
          (Some \<lparr> crq_PortId = portID, crq_ChannelId = channelID, pcq_Pagination = pageReq \<rparr>))
      | _ \<Rightarrow> usage)"

text \<open>The three queries of one packet parse its sequence in the same way.\<close>

definition packet_cmd :: "command \<Rightarrow> (client_Context \<Rightarrow> string \<Rightarrow> string \<Rightarrow> u64 \<Rightarrow> bool \<Rightarrow> 'a query_result) \<Rightarrow> string list \<Rightarrow> 'a printed" where
  "packet_cmd cmd run args =
     (case args of
        [portID, channelID, seqArg] \<Rightarrow> query_cmd cmd (\<lambda>clientCtx.
          case plain (from_ext ''strconv'' (parse_uint64 seqArg)) of Inl e \<Rightarrow> Inl e | Inr seq \<Rightarrow> run clientCtx portID channelID seq (flag_Prove cmd))
      | _ \<Rightarrow> usage)"

definition GetCmdQueryPacketCommitment :: "('k, 'x) cli_env_scheme \<Rightarrow> command \<Rightarrow> 'k node \<Rightarrow> string list \<Rightarrow> bytes ProvedResponse printed" where
  "GetCmdQueryPacketCommitment E cmd N args = packet_cmd cmd (\<lambda>clientCtx. QueryPacketCommitment E clientCtx N) args"

definition GetCmdQueryPacketReceipt :: "('k, 'x) cli_env_scheme \<Rightarrow> command \<Rightarrow> 'k node \<Rightarrow> string list \<Rightarrow> bool ProvedResponse printed" where
  "GetCmdQueryPacketReceipt E cmd N args = packet_cmd cmd (\<lambda>clientCtx. QueryPacketReceipt E clientCtx N) args"

definition GetCmdQueryPacketAcknowledgement :: "('k, 'x) cli_env_scheme \<Rightarrow> command \<Rightarrow> 'k node \<Rightarrow> string list \<Rightarrow> bytes ProvedResponse printed" where
  "GetCmdQueryPacketAcknowledgement E cmd N args = packet_cmd cmd (\<lambda>clientCtx. QueryPacketAcknowledgement E clientCtx N) args"

text \<open>The sequences are flags of type \<^verbatim>\<open>int64\<close> that are converted to \<^verbatim>\<open>uint64\<close>.\<close>

definition sequences_cmd :: "command \<Rightarrow> (SequencesRequest option \<Rightarrow> 'a query_result) \<Rightarrow> string list \<Rightarrow> 'a printed" where
  "sequences_cmd cmd run args =
     (case args of
        [portID, channelID] \<Rightarrow> query_cmd cmd (\<lambda>_. run (Some \<lparr> crq_PortId = portID, crq_ChannelId = channelID,
          srq_Sequences = map word_of_int (flag_Sequences cmd) \<rparr>))
      | _ \<Rightarrow> usage)"

definition GetCmdQueryUnreceivedPackets :: "command \<Rightarrow> 'k node \<Rightarrow> string list \<Rightarrow> SequencesResponse printed" where
  "GetCmdQueryUnreceivedPackets cmd N args = sequences_cmd cmd (query_UnreceivedPackets (fst N) (snd N)) args"

definition GetCmdQueryUnreceivedAcks :: "command \<Rightarrow> 'k node \<Rightarrow> string list \<Rightarrow> SequencesResponse printed" where
  "GetCmdQueryUnreceivedAcks cmd N args = sequences_cmd cmd (query_UnreceivedAcks (fst N) (snd N)) args"

definition GetCmdQueryNextSequenceReceive :: "('k, 'x) cli_env_scheme \<Rightarrow> command \<Rightarrow> 'k node \<Rightarrow> string list \<Rightarrow> u64 ProvedResponse printed" where
  "GetCmdQueryNextSequenceReceive E cmd N args =
     (case args of
        [portID, channelID] \<Rightarrow> at_proof_height pr_ProofHeight (query_cmd cmd (\<lambda>clientCtx. QueryNextSequenceReceive E clientCtx N portID channelID (flag_Prove cmd)))
      | _ \<Rightarrow> usage)"

subsection \<open>02-client transactions (core/02-client/client/cli/tx.go)\<close>

definition NewCreateClientCmd :: "('k, 'x) cli_env_scheme \<Rightarrow> command \<Rightarrow> string list \<Rightarrow> MsgCreateClient submitted" where
  "NewCreateClientCmd E cmd args =
     (case args of
        [clientArg, consensusArg] \<Rightarrow> tx_cmd cmd (\<lambda>clientCtx.
          case content_or_file E (cdc_ClientStateJSON E) clientArg of Inl e \<Rightarrow> Inl e | Inr clientState \<Rightarrow>
         (case content_or_file E (cdc_ConsensusStateJSON E) consensusArg of Inl e \<Rightarrow> Inl e | Inr consensusState \<Rightarrow>
          plain (NewMsgCreateClient E clientState consensusState (cc_FromAddress clientCtx))))
      | _ \<Rightarrow> usage)"

definition NewUpdateClientCmd :: "('k, 'x) cli_env_scheme \<Rightarrow> command \<Rightarrow> string list \<Rightarrow> MsgUpdateClient submitted" where
  "NewUpdateClientCmd E cmd args =
     (case args of
        [clientID, headerArg] \<Rightarrow> tx_cmd cmd (\<lambda>clientCtx.
          case content_or_file E (cdc_HeaderJSON E) headerArg of Inl e \<Rightarrow> Inl e | Inr header \<Rightarrow>
          plain (NewMsgUpdateClient E clientID header (cc_FromAddress clientCtx)))
      | _ \<Rightarrow> usage)"

text \<open>The contents of a file are decoded into the nil variable itself and not through a pointer to it, which leaves it nil.\<close>

definition misbehaviour_argument :: "('k, 'x) cli_env_scheme \<Rightarrow> string \<Rightarrow> Misbehaviour option query_result" where
  "misbehaviour_argument E arg =
     (case cdc_MisbehaviourJSON E arg of Some misbehaviour \<Rightarrow> Inr misbehaviour | None \<Rightarrow>
     (case plain (from_ext ''os'' (os_ReadFile E arg)) of Inl e \<Rightarrow> Inl e | Inr contents \<Rightarrow>
      if cdc_NilTargetJSON E contents then Inr None else Inl (Plain (External ''codec''))))"

definition NewSubmitMisbehaviourCmd :: "('k, 'x) cli_env_scheme \<Rightarrow> command \<Rightarrow> string list \<Rightarrow> MsgSubmitMisbehaviour submitted" where
  "NewSubmitMisbehaviourCmd E cmd args =
     (case args of
        [misbehaviourArg] \<Rightarrow> tx_cmd cmd (\<lambda>clientCtx.
          case misbehaviour_argument E misbehaviourArg of Inl e \<Rightarrow> Inl e | Inr misbehaviour \<Rightarrow>
         (case misbehaviour of None \<Rightarrow> Inl (Plain Panic) | Some m \<Rightarrow>
          plain (NewMsgSubmitMisbehaviour E (misbehaviour_GetClientID m) (Some m) (cc_FromAddress clientCtx))))
      | _ \<Rightarrow> usage)"

definition NewUpgradeClientCmd :: "('k, 'x) cli_env_scheme \<Rightarrow> command \<Rightarrow> string list \<Rightarrow> MsgUpgradeClient submitted" where
  "NewUpgradeClientCmd E cmd args =
     (case args of
        [clientID, clientArg, consensusArg, proofUpgradeClient, proofUpgradeConsensus] \<Rightarrow> tx_cmd cmd (\<lambda>clientCtx.
          case content_or_file E (cdc_ClientStateJSON E) clientArg of Inl e \<Rightarrow> Inl e | Inr clientState \<Rightarrow>
         (case content_or_file E (cdc_ConsensusStateJSON E) consensusArg of Inl e \<Rightarrow> Inl e | Inr consensusState \<Rightarrow>
          plain (NewMsgUpgradeClient E clientID clientState consensusState proofUpgradeClient proofUpgradeConsensus (cc_FromAddress clientCtx))))
      | _ \<Rightarrow> usage)"

text \<open>The tail of both proposal commands: the deposit, the governance message and its validation.\<close>

definition submit_proposal :: "('k, 'x) cli_env_scheme \<Rightarrow> command \<Rightarrow> tx_Context \<Rightarrow> Content \<Rightarrow> GovMsg query_result" where
  "submit_proposal E cmd clientCtx content =
     (case plain (from_ext ''sdk'' (sdk_ParseCoinsNormalized E (flag_Deposit cmd))) of Inl e \<Rightarrow> Inl e | Inr deposit \<Rightarrow>
     (case plain (gov_PackContent E content) of Inl e \<Rightarrow> Inl e | Inr _ \<Rightarrow>
      let msg = \<lparr> gov_Content = content, gov_InitialDeposit = deposit, gov_Proposer = cc_FromAddress clientCtx \<rparr> in
     (case plain (gov_MsgValidateBasic E msg) of Inl e \<Rightarrow> Inl e | Inr _ \<Rightarrow> Inr msg)))"

definition NewCmdSubmitUpdateClientProposal :: "('k, 'x) cli_env_scheme \<Rightarrow> command \<Rightarrow> string list \<Rightarrow> GovMsg submitted" where
  "NewCmdSubmitUpdateClientProposal E cmd args =
     (case args of
        [subjectClientID, substituteClientID] \<Rightarrow> tx_cmd cmd (\<lambda>clientCtx.
          submit_proposal E cmd clientCtx (NewClientUpdateProposal (flag_Title cmd) (flag_Description cmd) subjectClientID substituteClientID))
      | _ \<Rightarrow> usage)"

text \<open>Of the plan, the model has the height.\<close>

definition NewCmdSubmitUpgradeProposal :: "('k, 'x) cli_env_scheme \<Rightarrow> command \<Rightarrow> string list \<Rightarrow> GovMsg submitted" where
  "NewCmdSubmitUpgradeProposal E cmd args =
     (case args of
        [name, heightArg, clientArg] \<Rightarrow> tx_cmd cmd (\<lambda>clientCtx.
          case plain (from_ext ''strconv'' (parse_int64 heightArg)) of Inl e \<Rightarrow> Inl e | Inr height \<Rightarrow>
         (case content_or_file E (cdc_ClientStateJSON E) clientArg of Inl e \<Rightarrow> Inl e | Inr clientState \<Rightarrow>
         (case plain (NewUpgradeProposal E (flag_Title cmd) (flag_Description cmd) height clientState) of Inl e \<Rightarrow> Inl e | Inr content \<Rightarrow>
          submit_proposal E cmd clientCtx content)))
      | _ \<Rightarrow> usage)"

subsection \<open>Transfer (apps/transfer/client/cli)\<close>

definition DefaultRelativePacketTimeoutHeight :: string where
  "DefaultRelativePacketTimeoutHeight = ''0-1000''"

definition DefaultRelativePacketTimeoutTimestamp :: u64 where
  "DefaultRelativePacketTimeoutTimestamp = 600000000000"

definition NewMsgTransfer :: "string \<Rightarrow> string \<Rightarrow> Coin \<Rightarrow> string \<Rightarrow> string \<Rightarrow> Height \<Rightarrow> u64 \<Rightarrow> MsgTransfer" where
  "NewMsgTransfer sourcePort sourceChannel token sender receiver timeoutHeight timeoutTimestamp =
     \<lparr> mtr_SourcePort = sourcePort, mtr_SourceChannel = sourceChannel, mtr_Token = token, mtr_Sender = sender, mtr_Receiver = receiver,
       mtr_TimeoutHeight = timeoutHeight, mtr_TimeoutTimestamp = timeoutTimestamp \<rparr>"

text \<open>Relative timeouts count from the latest consensus state of the counterparty, or from the local clock when that is later.\<close>

definition absolute_height :: "Height \<Rightarrow> Height \<Rightarrow> Height" where
  "absolute_height height timeoutHeight =
     (if \<not> IsZero timeoutHeight
      then NewHeight (RevisionNumber height + RevisionNumber timeoutHeight) (RevisionHeight height + RevisionHeight timeoutHeight)
      else timeoutHeight)"

definition absolute_timestamp :: "('k, 'x) cli_env_scheme \<Rightarrow> u64 \<Rightarrow> u64 \<Rightarrow> u64 query_result" where
  "absolute_timestamp E consensusStateTimestamp timeoutTimestamp =
     (if timeoutTimestamp = 0 then Inr timeoutTimestamp
      else if time_Now E > 0 then
        let now = word_of_int (time_Now E) in
        Inr (if now > consensusStateTimestamp then now + timeoutTimestamp else consensusStateTimestamp + timeoutTimestamp)
      else Inl (Plain (External ''errors'')))"

definition transfer_timeouts :: "('k, 'x) cli_env_scheme \<Rightarrow> command \<Rightarrow> client_Context \<Rightarrow> 'k node \<Rightarrow> string \<Rightarrow> string \<Rightarrow> Height \<Rightarrow> (Height \<times> u64) query_result" where
  "transfer_timeouts E cmd clientCtx N srcPort srcChannel timeoutHeight =
     (if flag_AbsoluteTimeouts cmd then Inr (timeoutHeight, flag_PacketTimeoutTimestamp cmd)
      else case QueryLatestConsensusState E clientCtx N srcPort srcChannel of Inl e \<Rightarrow> Inl e | Inr (consensusState, height, _) \<Rightarrow>
     (case absolute_timestamp E (consensus_GetTimestamp consensusState) (flag_PacketTimeoutTimestamp cmd) of Inl e \<Rightarrow> Inl e | Inr timeoutTimestamp \<Rightarrow>
      Inr (absolute_height height timeoutHeight, timeoutTimestamp)))"

definition NewTransferTxCmd :: "('k, 'x) cli_env_scheme \<Rightarrow> command \<Rightarrow> 'k node \<Rightarrow> string list \<Rightarrow> MsgTransfer submitted" where
  "NewTransferTxCmd E cmd N args =
     (case args of
        [srcPort, srcChannel, receiver, amount] \<Rightarrow> tx_cmd cmd (\<lambda>clientCtx.
          case plain (from_ext ''sdk'' (sdk_ParseCoinNormalized E amount)) of Inl e \<Rightarrow> Inl e | Inr coin \<Rightarrow>
          let coin = (if \<not> prefix ''ibc/'' (coin_Denom coin) then coin \<lparr> coin_Denom := IBCDenom (ParseDenomTrace (coin_Denom coin)) \<rparr> else coin) in
         (case plain (ParseHeight (flag_PacketTimeoutHeight cmd)) of Inl e \<Rightarrow> Inl e | Inr timeoutHeight \<Rightarrow>
         (case transfer_timeouts E cmd (client_Context.truncate clientCtx) N srcPort srcChannel timeoutHeight of Inl e \<Rightarrow> Inl e | Inr (timeoutHeight, timeoutTimestamp) \<Rightarrow>
          Inr (NewMsgTransfer srcPort srcChannel coin (cc_FromAddress clientCtx) receiver timeoutHeight timeoutTimestamp))))
      | _ \<Rightarrow> usage)"

definition GetCmdQueryDenomTrace :: "'x env_scheme \<Rightarrow> command \<Rightarrow> 'b transfer_state \<Rightarrow> string list \<Rightarrow> DenomTrace printed" where
  "GetCmdQueryDenomTrace E cmd st args = (case args of [hash] \<Rightarrow> query_cmd cmd (\<lambda>_. query_DenomTrace E st (Some hash)) | _ \<Rightarrow> usage)"

definition GetCmdQueryDenomTraces :: "('k, 'b, 'x) trace_env_scheme \<Rightarrow> command \<Rightarrow> 'b transfer_state \<Rightarrow> string list \<Rightarrow>
    (DenomTrace list \<times> PageResponse) printed" where
  "GetCmdQueryDenomTraces E cmd st args =
     (case args of [] \<Rightarrow> paged_cmd cmd (\<lambda>pageReq. query_DenomTraces E st (Some pageReq)) | _ \<Rightarrow> usage)"

definition transfer_GetCmdParams :: "command \<Rightarrow> 'b transfer_state \<Rightarrow> string list \<Rightarrow> transfer_Params printed" where
  "transfer_GetCmdParams cmd st args = (case args of [] \<Rightarrow> query_cmd cmd (\<lambda>_. query_transfer_Params st) | _ \<Rightarrow> usage)"

definition GetCmdQueryEscrowAddress :: "('k, 'b, 'x) transfer_env_scheme \<Rightarrow> command \<Rightarrow> string list \<Rightarrow> string printed" where
  "GetCmdQueryEscrowAddress E cmd args =
     (case args of [port, channel] \<Rightarrow> query_cmd cmd (\<lambda>_. Inr (sdk_AccAddressString E (GetEscrowAddress port channel) @ [CHR 0x0A])) | _ \<Rightarrow> usage)"

subsection \<open>Interchain accounts (apps/27-interchain-accounts/*/client/cli/query.go)\<close>

definition host_GetCmdParams :: "command \<Rightarrow> (host_Params, 'c) ica_state \<Rightarrow> string list \<Rightarrow> host_Params printed" where
  "host_GetCmdParams cmd st args = (case args of [] \<Rightarrow> query_cmd cmd (\<lambda>_. plain (query_host_Params st)) | _ \<Rightarrow> usage)"

definition controller_GetCmdParams :: "command \<Rightarrow> (controller_Params, 'c) ica_state \<Rightarrow> string list \<Rightarrow> controller_Params printed" where
  "controller_GetCmdParams cmd st args = (case args of [] \<Rightarrow> query_cmd cmd (\<lambda>_. plain (query_controller_Params st)) | _ \<Rightarrow> usage)"

subsection \<open>Relative timeouts\<close>

lemma latest_consensus_state:
  assumes "QueryLatestConsensusState E cc N p c = Inr (cons, h, ph)"
  obtains channel conn cs where "GetChannel (snd N) p c = Some channel" "hop_connection (snd N) (chan_ConnectionHops channel) = Inr conn"
    "GetClientState (snd N) (conn_ClientId conn) = Some cs" "h = GetLatestHeight cs" "GetClientConsensusState (snd N) (conn_ClientId conn) h = Some cons"
  using assms
  by (auto simp: QueryLatestConsensusState_def QueryChannelClientState_def QueryChannelConsensusState_def prove_client_def prove_consensus_def
      query_ChannelClientState_def query_ChannelConsensusState_def GetChannelClientState_def NewIdentifiedClientState_def
      NewQueryChannelClientStateResponse_def NewQueryChannelConsensusStateResponse_def PackConsensusState_def pack_any_def UnpackConsensusState_def
      Let_def result_elims NewHeight_def)

lemma unat_sum: "unat (a :: u64) + unat b < 2 ^ 64 \<Longrightarrow> unat (a + b) = unat a + unat b"
  by (simp add: unat_word_ariths)

lemma absolute_height_later:
  assumes "\<not> IsZero r" "unat (RevisionNumber h) + unat (RevisionNumber r) < 2 ^ 64" "unat (RevisionHeight h) + unat (RevisionHeight r) < 2 ^ 64"
  shows "\<not> GTE h (absolute_height h r)"
proof -
  have "h < absolute_height h r"
  proof (cases "RevisionNumber r = 0")
    case True
    with assms(1) have "unat (RevisionHeight r) > 0" by (simp add: IsZero_def unat_gt_0)
    with True assms show ?thesis by (simp add: less_Height_iff absolute_height_def NewHeight_def unat_sum)
  next
    case False
    then have "unat (RevisionNumber r) > 0" by (simp add: unat_gt_0)
    with assms show ?thesis by (simp add: less_Height_iff absolute_height_def NewHeight_def unat_sum)
  qed
  then show ?thesis by (simp add: height_comparisons)
qed

lemma absolute_timestamp_later:
  assumes "absolute_timestamp E cts ts = Inr t" "ts \<noteq> 0" "unat (max (word_of_int (time_Now E)) cts) + unat ts < 2 ^ 64"
  shows "cts < t"
proof -
  let ?m = "max (word_of_int (time_Now E)) cts"
  from assms(1,2) have "t = ?m + ts" by (auto simp: absolute_timestamp_def Let_def max_def split: if_splits)
  with assms(2,3) have "unat ?m < unat t" by (simp add: unat_sum unat_gt_0)
  moreover have "cts \<le> ?m" by simp
  ultimately show ?thesis by (simp add: word_less_nat_alt word_le_nat_alt)
qed

lemma SendPacket_in_time:
  assumes "GetChannel s (SourcePort pk) (SourceChannel pk) = Some channel" "hop_connection s (chan_ConnectionHops channel) = Inr conn"
    "GetClientState s (conn_ClientId conn) = Some cs" "GetClientConsensusState s (conn_ClientId conn) (GetLatestHeight cs) = Some cons"
    and "\<not> IsZero (TimeoutHeight pk) \<longrightarrow> \<not> GTE (GetLatestHeight cs) (TimeoutHeight pk)"
    and "TimeoutTimestamp pk \<noteq> 0 \<longrightarrow> consensus_GetTimestamp cons < TimeoutTimestamp pk"
  shows "SendPacket E ctx s cap pk \<noteq> Inl (ChannelE ErrPacketTimeout)"
proof -
  have "Packet_ValidateBasic pk \<noteq> Inl (ChannelE ErrPacketTimeout)"
    by (auto simp: Packet_ValidateBasic_def identifier_validators defaultIdentifierValidator_def split: sum.splits)
  moreover have "ParseClientIdentifier i \<noteq> Inl (ChannelE ErrPacketTimeout)" for i
    by (auto simp: ParseClientIdentifier_def Let_def split: option.splits)
  ultimately show ?thesis using assms
    by (auto simp: SendPacket_def GetTimestampAtHeight_def Let_def not_le split: sum.splits option.splits)
qed

lemma NewTransferTxCmd_timeouts:
  assumes "NewTransferTxCmd E cmd N [p, c, rcv, amt] = Inr (cc, msg)" "\<not> flag_AbsoluteTimeouts cmd"
  obtains cons h ph rel where "QueryLatestConsensusState E (client_Context.truncate cc) N p c = Inr (cons, h, ph)"
    "ParseHeight (flag_PacketTimeoutHeight cmd) = Inr rel" "mtr_TimeoutHeight msg = absolute_height h rel"
    "absolute_timestamp E (consensus_GetTimestamp cons) (flag_PacketTimeoutTimestamp cmd) = Inr (mtr_TimeoutTimestamp msg)"
    "mtr_SourcePort msg = p" "mtr_SourceChannel msg = c"
  using assms by (auto simp: NewTransferTxCmd_def tx_cmd_def transfer_timeouts_def NewMsgTransfer_def Let_def result_elims)

text \<open>
  C39: A transfer that the command line builds with relative timeouts is not refused as timed out by the chain whose node answered
  the command's queries: whatever the packet carries, sending it with the timeouts of the message never fails with
  \<open>ErrPacketTimeout\<close> in the state of that node, as long as the sums of heights and of times stay below \<open>2 ^ 64\<close>.
\<close>

theorem transfer_command_in_time:
  assumes msg: "NewTransferTxCmd E cmd N [p, c, rcv, amt] = Inr (cc, msg)" and rel: "\<not> flag_AbsoluteTimeouts cmd"
    and fits: "\<And>cons h ph r. QueryLatestConsensusState E (client_Context.truncate cc) N p c = Inr (cons, h, ph) \<Longrightarrow>
        ParseHeight (flag_PacketTimeoutHeight cmd) = Inr r \<Longrightarrow>
        unat (RevisionNumber h) + unat (RevisionNumber r) < 2 ^ 64 \<and> unat (RevisionHeight h) + unat (RevisionHeight r) < 2 ^ 64 \<and>
        unat (max (word_of_int (time_Now E)) (consensus_GetTimestamp cons)) + unat (flag_PacketTimeoutTimestamp cmd) < 2 ^ 64"
  shows "SendPacket E' ctx (snd N) cap
           (NewPacket data seq (mtr_SourcePort msg) (mtr_SourceChannel msg) dp dc (mtr_TimeoutHeight msg) (mtr_TimeoutTimestamp msg))
         \<noteq> Inl (ChannelE ErrPacketTimeout)"
proof -
  from msg rel obtain cons h ph r where q: "QueryLatestConsensusState E (client_Context.truncate cc) N p c = Inr (cons, h, ph)"
    and r: "ParseHeight (flag_PacketTimeoutHeight cmd) = Inr r" "mtr_TimeoutHeight msg = absolute_height h r"
    and t: "absolute_timestamp E (consensus_GetTimestamp cons) (flag_PacketTimeoutTimestamp cmd) = Inr (mtr_TimeoutTimestamp msg)"
    and src: "mtr_SourcePort msg = p" "mtr_SourceChannel msg = c" by (rule NewTransferTxCmd_timeouts)
  from q obtain channel conn cs where c: "GetChannel (snd N) p c = Some channel" "hop_connection (snd N) (chan_ConnectionHops channel) = Inr conn"
    "GetClientState (snd N) (conn_ClientId conn) = Some cs" and h: "h = GetLatestHeight cs"
    and cons: "GetClientConsensusState (snd N) (conn_ClientId conn) h = Some cons" by (rule latest_consensus_state)
  note f = fits [OF q r(1)]
  have "\<not> IsZero (mtr_TimeoutHeight msg) \<longrightarrow> \<not> GTE h (mtr_TimeoutHeight msg)"
    using absolute_height_later [of r h] f r(2) by (cases "IsZero r") (auto simp: absolute_height_def)
  moreover have "mtr_TimeoutTimestamp msg \<noteq> 0 \<longrightarrow> consensus_GetTimestamp cons < mtr_TimeoutTimestamp msg"
  proof (cases "flag_PacketTimeoutTimestamp cmd = 0")
    case False
    with t f show ?thesis using absolute_timestamp_later by blast
  qed (use t in \<open>simp add: absolute_timestamp_def\<close>)
  ultimately show ?thesis using c cons src h by (intro SendPacket_in_time [where cons = cons]) (auto simp: NewPacket_def)
qed

subsection \<open>Arguments given as files\<close>

lemma content_or_file_contents:
  "dec arg = None \<Longrightarrow> os_ReadFile E arg = Some contents \<Longrightarrow> dec contents = Some v \<Longrightarrow> content_or_file E dec arg = content_or_file E dec contents"
  by (simp add: content_or_file_def from_ext_def)

text \<open>
  C40: A file with the JSON of a client state, a consensus state or a header stands for that JSON in the commands that create and update
  a client. A file with a misbehaviour never does: the command that submits misbehaviour fails for every argument that is not
  itself JSON, whatever the file contains.
\<close>

theorem misbehaviour_file_is_refused:
  assumes "cdc_ClientStateJSON E a = None" "os_ReadFile E a = Some aj" "cdc_ClientStateJSON E aj = Some client"
    and "cdc_ConsensusStateJSON E b = None" "os_ReadFile E b = Some bj" "cdc_ConsensusStateJSON E bj = Some cons"
    and "cdc_HeaderJSON E h = None" "os_ReadFile E h = Some hj" "cdc_HeaderJSON E hj = Some header"
    and "cdc_MisbehaviourJSON E m = None"
  shows "NewCreateClientCmd E cmd [a, b] = NewCreateClientCmd E cmd [aj, bj] \<and>
    NewUpdateClientCmd E cmd [cid, h] = NewUpdateClientCmd E cmd [cid, hj] \<and>
    NewSubmitMisbehaviourCmd E cmd [m] \<noteq> Inr r"
proof (intro conjI)
  show "NewCreateClientCmd E cmd [a, b] = NewCreateClientCmd E cmd [aj, bj]"
    using content_or_file_contents [OF assms(1-3)] content_or_file_contents [OF assms(4-6)] by (simp add: NewCreateClientCmd_def cong: sum.case_cong)
  show "NewUpdateClientCmd E cmd [cid, h] = NewUpdateClientCmd E cmd [cid, hj]"
    using content_or_file_contents [OF assms(7-9)] by (simp add: NewUpdateClientCmd_def)
  show "NewSubmitMisbehaviourCmd E cmd [m] \<noteq> Inr r"
    using assms(10) by (auto simp: NewSubmitMisbehaviourCmd_def tx_cmd_def misbehaviour_argument_def result_elims)
qed

text \<open>With a proof, which is the default, the flag for the latest height makes the command look for the consensus state of height zero.\<close>

lemma latest_flag_asks_for_zero:
  assumes "flag_LatestHeight cmd" "flag_Prove cmd"
  shows "GetCmdQueryConsensusState E cmd N [clientID] = query_cmd cmd (\<lambda>clientCtx. QueryConsensusStateABCI E clientCtx clientID ZeroHeight)"
  using assms by (simp add: GetCmdQueryConsensusState_def consensus_height_def QueryConsensusState_def)

end
