(* ===== verification/ClientQueryExamples.thy ===== *)
theory ClientQueryExamples
  imports ClientQueries QueryExamples
begin

text \<open>
  The agreement of proved and unproved queries on a node whose store holds an entry of every kind: a client with its consensus
  state and connections, a connection, a channel, the sequence counters, and a commitment, a receipt and an acknowledgement.
\<close>

subsection \<open>A node that answers raw queries from a list of entries\<close>

definition abci_of :: "(store_value \<Rightarrow> bytes option) \<Rightarrow> store_entry list \<Rightarrow> 'k ibc_state \<Rightarrow> string \<Rightarrow> int \<Rightarrow> bytes \<Rightarrow> abci_response result" where
  "abci_of enc es s path height key =
     Inr \<lparr> abci_Value = Option.bind (find (\<lambda>e. entry_path e = key) es) (\<lambda>e. Option.bind (store_lookup s e) enc),
           abci_ProofOps = Some [], abci_Height = 9 \<rparr>"

lemma find_entry:
  assumes ns: "\<forall>x \<in> entry_identifiers e. no_slash x" and es: "\<forall>e \<in> set es. \<forall>x \<in> entry_identifiers e. no_slash x"
  shows "find (\<lambda>e'. entry_path e' = entry_path e) es = (if e \<in> set es then Some e else None)"
  using es
proof (induction es)
  case (Cons a es)
  have "entry_path a = entry_path e \<longleftrightarrow> a = e" using entry_path_eqD [of a e] ns Cons.prems by auto
  with Cons show ?case by auto
qed simp

lemma abci_of_entry:
  assumes "\<forall>x \<in> entry_identifiers e. no_slash x" "\<forall>e \<in> set es. \<forall>x \<in> entry_identifiers e. no_slash x"
    and "\<And>e v. store_lookup s e = Some v \<Longrightarrow> e \<in> set es"
  shows "abci_of enc es s path height (entry_path e) =
    Inr \<lparr> abci_Value = Option.bind (store_lookup s e) enc, abci_ProofOps = Some [], abci_Height = 9 \<rparr>"
  using assms(3) [of e] by (cases "store_lookup s e") (auto simp: abci_of_def find_entry [OF assms(1,2)])

subsection \<open>The demonstration node\<close>

definition demo_encode :: "store_value \<Rightarrow> bytes option" where
  "demo_encode v = (case v of ClientStateV _ \<Rightarrow> Some ''c'' | ConsensusStateV _ \<Rightarrow> Some ''s'' | ConnectionV _ \<Rightarrow> Some ''n''
     | ChannelV _ \<Rightarrow> Some ''h'' | BytesV b \<Rightarrow> Some b | PathsV _ \<Rightarrow> Some ''p'')"

definition node_demo_env :: "unit node_env" where
  "node_demo_env = query_env.extend
     (query_demo_env \<lparr> cdc_UnmarshalClientState := (\<lambda>_. Some (TMClient demo_tm)), cdc_UnmarshalConsensusState := (\<lambda>_. Some (TMCons (demo_cons 50))),
        cdc_UnmarshalConnection := (\<lambda>_. Some gen_conn), cdc_UnmarshalChannel := (\<lambda>_. Some gen_chan) \<rparr>)
     \<lparr> abci_Query = abci_of demo_encode gen_entries gen_state, cdc_UnmarshalCommitmentProof = (\<lambda>_. None), cdc_MarshalMerkleProof = (\<lambda>_. Some ''p''),
       cdc_MarshalClientPaths = (\<lambda>_. Some ''p''), amino_UnmarshalPaths = (\<lambda>_. Some [''connection-0'']),
       node_LastBlockHeight = Inr 10, node_Commit = (\<lambda>_. Inl (External ''node'')), node_Validators = (\<lambda>_ _ _. Inl (External ''node'')),
       tm_NewValidatorSet = (\<lambda>_. None), tm_ValidatorsHash = concat, amino_ClientStateJSON = (\<lambda>_. None), amino_PrefixJSON = (\<lambda>_. None),
       amino_MerkleProofJSON = (\<lambda>_. None), amino_MarshalMerkleProof = (\<lambda>_. None), os_ReadFile = (\<lambda>_. None) \<rparr>"

lemmas node_demo_defs = node_demo_env_def query_env.extend_def query_demo_env_def codec_env.extend_def store_env.extend_def gen_env_def
  keeper_env.extend_def demo_kenv_def env.extend_def lax_env_def demo_env_def ics23.extend_def

lemma node_demo_fields:
  "abci_Query node_demo_env = abci_of demo_encode gen_entries gen_state" "cdc_MarshalMerkleProof node_demo_env = (\<lambda>_. Some ''p'')"
  "cdc_NewAnyWithValue node_demo_env = (\<lambda>_. True)"
  by (simp_all add: node_demo_defs)

lemma node_demo_codec:
  "cdc_MarshalClientState node_demo_env = (\<lambda>_. Some ''c'')" "cdc_UnmarshalClientState node_demo_env = (\<lambda>_. Some (TMClient demo_tm))"
  "cdc_MarshalConsensusState node_demo_env = (\<lambda>_. Some ''s'')" "cdc_UnmarshalConsensusState node_demo_env = (\<lambda>_. Some (TMCons (demo_cons 50)))"
  "cdc_MarshalConnection node_demo_env = (\<lambda>_. Some ''n'')" "cdc_UnmarshalConnection node_demo_env = (\<lambda>_. Some gen_conn)"
  "cdc_MarshalChannel node_demo_env = (\<lambda>_. Some ''h'')" "cdc_UnmarshalChannel node_demo_env = (\<lambda>_. Some gen_chan)"
  "cdc_MarshalClientPaths node_demo_env = (\<lambda>_. Some ''p'')" "amino_UnmarshalPaths node_demo_env = (\<lambda>_. Some [''connection-0''])"
  by (simp_all add: node_demo_defs)

lemma node_demo_encode: "store_bytes node_demo_env = demo_encode"
  by (rule ext) (simp add: store_bytes_def demo_encode_def node_demo_codec split: store_value.split)

lemma gen_reads_back: "store_lookup gen_state e = Some v \<Longrightarrow> reads_back node_demo_env v"
  by (cases e) (auto simp: gen_state_def empty_ibc_state_def demo_tm_store_fields empty_client_store_fields reads_back_def node_demo_codec
      split: if_splits)

definition node_cc :: client_Context where
  "node_cc = \<lparr> cc_Height = 10, cc_ChainID = ''self-1'' \<rparr>"

lemma gen_serves: "serves node_demo_env node_cc gen_state"
proof -
  have es: "\<forall>e \<in> set gen_entries. \<forall>x \<in> entry_identifiers e. no_slash x" by (auto simp: gen_entries_def)
  have "is_ok (ParseChainID ''self-1'')" by code_simp
  with gen_reads_back show ?thesis
    by (auto simp: serves_def node_cc_def node_demo_fields node_demo_encode abci_of_entry [OF _ es gen_lookup] is_ok_iff)
qed


end
