(* ===== verification/CommandLineExamples.thy ===== *)
theory CommandLineExamples
  imports CommandLine ClientQueryExamples
begin

text \<open>
  The transfer command with its default timeouts against the demonstration chain, and the commands that read a file.
\<close>

definition cli_demo_env :: "unit cli_env" where
  "cli_demo_env = node_env.extend (node_demo_env \<lparr> os_ReadFile := (\<lambda>f. if f = ''file'' then Some ''json'' else None) \<rparr>)
     \<lparr> cdc_ClientStateJSON = (\<lambda>t. if t = ''json'' then Some (Some (TMClient demo_tm2)) else None),
       cdc_ConsensusStateJSON = (\<lambda>t. if t = ''json'' then Some None else None), cdc_HeaderJSON = (\<lambda>t. if t = ''json'' then Some None else None),
       cdc_MisbehaviourJSON = (\<lambda>_. None), cdc_NilTargetJSON = (\<lambda>_. False),
       sdk_ParseCoinNormalized = (\<lambda>_. Some \<lparr> coin_Denom = ''atom'', coin_Amount = 5 \<rparr>), sdk_ParseCoinsNormalized = (\<lambda>_. Some []),
       gov_PackContent = (\<lambda>_. Inr ()), gov_MsgValidateBasic = (\<lambda>_. Inr ()), time_Now = 1 \<rparr>"

definition cli_demo_ctx :: tx_Context where
  "cli_demo_ctx = \<lparr> cc_Height = 0, cc_ChainID = ''self-1'', cc_FromAddress = ''alice'' \<rparr>"

definition cli_demo_cmd :: command where
  "cli_demo_cmd = \<lparr> cmd_QueryContext = Inr node_cc, cmd_TxContext = Inr cli_demo_ctx, flag_Prove = True, flag_Page = Inr None,
     flag_LatestHeight = False, flag_Sequences = [], flag_PacketTimeoutHeight = DefaultRelativePacketTimeoutHeight,
     flag_PacketTimeoutTimestamp = DefaultRelativePacketTimeoutTimestamp, flag_AbsoluteTimeouts = False,
     flag_Title = [], flag_Description = [], flag_Deposit = [] \<rparr>"

lemma cli_demo_fields:
  "cdc_NewAnyWithValue cli_demo_env = (\<lambda>_. True)" "time_Now cli_demo_env = 1"
  "sdk_ParseCoinNormalized cli_demo_env = (\<lambda>_. Some \<lparr> coin_Denom = ''atom'', coin_Amount = 5 \<rparr>)"
  "os_ReadFile cli_demo_env = (\<lambda>f. if f = ''file'' then Some ''json'' else None)"
  using node_demo_fields(3) by (simp_all add: cli_demo_env_def node_env.extend_def node_demo_env_def query_env.extend_def)

lemma cli_demo_decoders:
  "cdc_ClientStateJSON cli_demo_env = (\<lambda>t. if t = ''json'' then Some (Some (TMClient demo_tm2)) else None)"
  "cdc_ConsensusStateJSON cli_demo_env = (\<lambda>t. if t = ''json'' then Some None else None)"
  "cdc_HeaderJSON cli_demo_env = (\<lambda>t. if t = ''json'' then Some None else None)" "cdc_MisbehaviourJSON cli_demo_env = (\<lambda>_. None)"
  by (simp_all add: cli_demo_env_def node_env.extend_def)

lemma demo_latest_consensus:
  obtains cons where "\<And>cc. QueryLatestConsensusState cli_demo_env cc (demo_ctx, demo_flow b) ''transfer'' ''channel-0'' = Inr (cons, Height 1 5, Height 1 10)"
    "consensus_GetTimestamp cons = 50"
proof -
  from demo_flow_fields(10) [of b] obtain cons where cons: "GetClientConsensusState (demo_flow b) (conn_ClientId demo_open_conn) (Height 1 5) = Some cons"
    "consensus_GetTimestamp cons = 50" by (auto simp: GetTimestampAtHeight_def split: option.splits)
  have cl: "GetClientState (demo_flow b) (conn_ClientId demo_open_conn) = Some (TMClient demo_tm2)"
    by (simp add: GetClientState_def demo_flow_def demo_conn_state_def set_client_store_def demo_open_conn_def NewConnectionEnd_def)
  have v: "tm_LatestHeight demo_tm2 = Height 1 5" "PortIdentifierValidator ''transfer'' = Inr ()" "ChannelIdentifierValidator ''channel-0'' = Inr ()"
    by code_simp+
  have "QueryLatestConsensusState cli_demo_env cc (demo_ctx, demo_flow b) ''transfer'' ''channel-0'' = Inr (cons, Height 1 5, Height 1 10)" for cc
    by (simp add: QueryLatestConsensusState_def QueryChannelClientState_def QueryChannelConsensusState_def prove_client_def prove_consensus_def
      query_ChannelClientState_def query_ChannelConsensusState_def GetChannelClientState_def NewIdentifiedClientState_def validategRPCRequest_def
      NewQueryChannelClientStateResponse_def NewQueryChannelConsensusStateResponse_def PackConsensusState_def pack_any_def UnpackConsensusState_def
      Let_def NewHeight_def v cl cons demo_flow_fields with_code_of_Inr from_ext_def cli_demo_fields)
  with cons(2) show ?thesis using that by blast
qed

lemma demo_transfer_command:
  "\<exists>coin. NewTransferTxCmd cli_demo_env cli_demo_cmd (demo_ctx, demo_flow b) [''transfer'', ''channel-0'', ''bob'', ''5atom''] =
     Inr (cli_demo_ctx, NewMsgTransfer ''transfer'' ''channel-0'' coin ''alice'' ''bob'' (Height 1 1005) 600000000050)"
proof -
  obtain cons where "\<And>cc. QueryLatestConsensusState cli_demo_env cc (demo_ctx, demo_flow b) ''transfer'' ''channel-0'' = Inr (cons, Height 1 5, Height 1 10)"
    "consensus_GetTimestamp cons = 50" using demo_latest_consensus by blast
  moreover have "ParseHeight ''0-1000'' = Inr (Height 0 1000)" by code_simp
  ultimately show ?thesis
    by (simp add: NewTransferTxCmd_def tx_cmd_def transfer_timeouts_def absolute_height_def absolute_timestamp_def cli_demo_cmd_def cli_demo_ctx_def
      DefaultRelativePacketTimeoutHeight_def DefaultRelativePacketTimeoutTimestamp_def cli_demo_fields IsZero_def NewHeight_def Let_def from_ext_def
      NewMsgTransfer_def)
qed

theorem transfer_command_in_time_witness:
  "\<exists>msg. NewTransferTxCmd cli_demo_env cli_demo_cmd (demo_ctx, demo_flow []) [''transfer'', ''channel-0'', ''bob'', ''5atom''] = Inr (cli_demo_ctx, msg) \<and>
     mtr_TimeoutHeight msg = Height 1 1005 \<and> mtr_TimeoutTimestamp msg = 600000000050 \<and>
     SendPacket demo_kenv demo_ctx (demo_flow []) None
       (NewPacket ''data'' 2 ''transfer'' ''channel-0'' ''transfer'' ''channel-7'' (Height 1 1005) 600000000050) \<noteq> Inl (ChannelE ErrPacketTimeout)"
proof -
  obtain coin where m: "NewTransferTxCmd cli_demo_env cli_demo_cmd (demo_ctx, demo_flow []) [''transfer'', ''channel-0'', ''bob'', ''5atom''] =
     Inr (cli_demo_ctx, NewMsgTransfer ''transfer'' ''channel-0'' coin ''alice'' ''bob'' (Height 1 1005) 600000000050)"
    using demo_transfer_command by blast
  obtain cons where q: "\<And>cc. QueryLatestConsensusState cli_demo_env cc (demo_ctx, demo_flow []) ''transfer'' ''channel-0'' = Inr (cons, Height 1 5, Height 1 10)"
    "consensus_GetTimestamp cons = 50" using demo_latest_consensus by blast
  have "ParseHeight ''0-1000'' = Inr (Height 0 1000)" by code_simp
  then have "SendPacket demo_kenv demo_ctx (snd (demo_ctx, demo_flow [])) None
      (NewPacket ''data'' 2 (mtr_SourcePort (NewMsgTransfer ''transfer'' ''channel-0'' coin ''alice'' ''bob'' (Height 1 1005) 600000000050))
        (mtr_SourceChannel (NewMsgTransfer ''transfer'' ''channel-0'' coin ''alice'' ''bob'' (Height 1 1005) 600000000050)) ''transfer'' ''channel-7''
        (mtr_TimeoutHeight (NewMsgTransfer ''transfer'' ''channel-0'' coin ''alice'' ''bob'' (Height 1 1005) 600000000050))
        (mtr_TimeoutTimestamp (NewMsgTransfer ''transfer'' ''channel-0'' coin ''alice'' ''bob'' (Height 1 1005) 600000000050)))
      \<noteq> Inl (ChannelE ErrPacketTimeout)"
    by (intro transfer_command_in_time [OF m])
      (auto simp: q cli_demo_cmd_def DefaultRelativePacketTimeoutHeight_def DefaultRelativePacketTimeoutTimestamp_def cli_demo_fields)
  with m show ?thesis by (auto simp: NewMsgTransfer_def)
qed

theorem misbehaviour_file_is_refused_witness:
  "NewCreateClientCmd cli_demo_env cli_demo_cmd [''file'', ''file''] = NewCreateClientCmd cli_demo_env cli_demo_cmd [''json'', ''json''] \<and>
   NewSubmitMisbehaviourCmd cli_demo_env cli_demo_cmd [''file''] \<noteq> Inr (cli_demo_ctx, \<lparr> msm_ClientId = [], msm_Misbehaviour = None, msm_Signer = [] \<rparr>)"
proof -
  have "cdc_ClientStateJSON cli_demo_env ''file'' = None" "os_ReadFile cli_demo_env ''file'' = Some ''json''"
    "cdc_ClientStateJSON cli_demo_env ''json'' = Some (Some (TMClient demo_tm2))" "cdc_ConsensusStateJSON cli_demo_env ''file'' = None"
    "cdc_ConsensusStateJSON cli_demo_env ''json'' = Some None" "cdc_HeaderJSON cli_demo_env ''file'' = None"
    "cdc_HeaderJSON cli_demo_env ''json'' = Some None" "cdc_MisbehaviourJSON cli_demo_env ''file'' = None"
    by (simp_all add: cli_demo_decoders cli_demo_fields)
  from misbehaviour_file_is_refused [OF this(1,2,3,4,2,5,6,2,7,8)] show ?thesis by blast
qed

end
