(* ===== verification/PacketEvents.thy ===== *)
theory PacketEvents
  imports MsgConstructors TransferTypes
begin

text \<open>
  The events that the channel keeper emits for packets (\<^verbatim>\<open>core/04-channel/keeper/events.go\<close>, \<^verbatim>\<open>types/events.go\<close>). Relayers see packets only
  through these events: the store holds a hash of a packet, and the packet itself is in no block.

  The theorems show that the events of a packet that was sent, and of an acknowledgement that was
  written, carry the packet and the acknowledgement completely.
\<close>

subsection \<open>Attributes and event types (types/events.go)\<close>

record Attribute =
  attr_Key :: string
  attr_Value :: string

record Event =
  ev_Type :: string
  ev_Attributes :: "Attribute list"

definition NewAttribute :: "string \<Rightarrow> string \<Rightarrow> Attribute" where
  "NewAttribute k v = \<lparr> attr_Key = k, attr_Value = v \<rparr>"

definition NewEvent :: "string \<Rightarrow> Attribute list \<Rightarrow> Event" where
  "NewEvent ty attrs = \<lparr> ev_Type = ty, ev_Attributes = attrs \<rparr>"

definition EventTypeSendPacket :: string where "EventTypeSendPacket = ''send_packet''"
definition EventTypeRecvPacket :: string where "EventTypeRecvPacket = ''recv_packet''"
definition EventTypeWriteAck :: string where "EventTypeWriteAck = ''write_acknowledgement''"
definition EventTypeAcknowledgePacket :: string where "EventTypeAcknowledgePacket = ''acknowledge_packet''"
definition EventTypeTimeoutPacket :: string where "EventTypeTimeoutPacket = ''timeout_packet''"

definition AttributeKeyData :: string where "AttributeKeyData = ''packet_data''"
definition AttributeKeyAck :: string where "AttributeKeyAck = ''packet_ack''"
definition AttributeKeyDataHex :: string where "AttributeKeyDataHex = ''packet_data_hex''"
definition AttributeKeyAckHex :: string where "AttributeKeyAckHex = ''packet_ack_hex''"
definition AttributeKeyTimeoutHeight :: string where "AttributeKeyTimeoutHeight = ''packet_timeout_height''"
definition AttributeKeyTimeoutTimestamp :: string where "AttributeKeyTimeoutTimestamp = ''packet_timeout_timestamp''"
definition AttributeKeySequence :: string where "AttributeKeySequence = ''packet_sequence''"
definition AttributeKeySrcPort :: string where "AttributeKeySrcPort = ''packet_src_port''"
definition AttributeKeySrcChannel :: string where "AttributeKeySrcChannel = ''packet_src_channel''"
definition AttributeKeyDstPort :: string where "AttributeKeyDstPort = ''packet_dst_port''"
definition AttributeKeyDstChannel :: string where "AttributeKeyDstChannel = ''packet_dst_channel''"
definition AttributeKeyChannelOrdering :: string where "AttributeKeyChannelOrdering = ''packet_channel_ordering''"
definition AttributeKeyConnection :: string where "AttributeKeyConnection = ''packet_connection''"
definition AttributeValueCategory :: string where "AttributeValueCategory = ''ibc_channel''"

lemmas attribute_keys = AttributeKeyData_def AttributeKeyAck_def AttributeKeyDataHex_def AttributeKeyAckHex_def AttributeKeyTimeoutHeight_def
  AttributeKeyTimeoutTimestamp_def AttributeKeySequence_def AttributeKeySrcPort_def AttributeKeySrcChannel_def AttributeKeyDstPort_def
  AttributeKeyDstChannel_def AttributeKeyChannelOrdering_def AttributeKeyConnection_def

text \<open>\<^verbatim>\<open>hex.EncodeToString\<close> writes lower-case digits.\<close>

definition hex_lower_digit :: "nat \<Rightarrow> char" where
  "hex_lower_digit n = char_of (if n < 10 then 48 + n else 87 + n)"

definition EncodeToString :: "bytes \<Rightarrow> string" where
  "EncodeToString bs = concat (map (\<lambda>c. [hex_lower_digit (of_char c div 16), hex_lower_digit (of_char c mod 16)]) bs)"

subsection \<open>Events (keeper/events.go)\<close>

definition message_event :: Event where
  "message_event = NewEvent ''message'' [NewAttribute ''module'' AttributeValueCategory]"

text \<open>The attributes from the timeout to the destination channel, which all five events share.\<close>

definition route_attributes :: "Packet \<Rightarrow> Height \<Rightarrow> Attribute list" where
  "route_attributes packet timeoutHeight =
     [NewAttribute AttributeKeyTimeoutHeight (Height_String timeoutHeight),
      NewAttribute AttributeKeyTimeoutTimestamp (show_u64 (TimeoutTimestamp packet)),
      NewAttribute AttributeKeySequence (show_u64 (Sequence packet)),
      NewAttribute AttributeKeySrcPort (SourcePort packet),
      NewAttribute AttributeKeySrcChannel (SourceChannel packet),
      NewAttribute AttributeKeyDstPort (DestinationPort packet),
      NewAttribute AttributeKeyDstChannel (DestinationChannel packet)]"

definition data_attributes :: "Packet \<Rightarrow> Attribute list" where
  "data_attributes packet = [NewAttribute AttributeKeyData (Data packet), NewAttribute AttributeKeyDataHex (EncodeToString (Data packet))]"

text \<open>The first hop of the channel is read without looking whether there is one.\<close>

definition hop_attribute :: "Channel \<Rightarrow> Attribute list result" where
  "hop_attribute channel = (case chan_ConnectionHops channel of [] \<Rightarrow> Inl Panic | hop # _ \<Rightarrow> Inr [NewAttribute AttributeKeyConnection hop])"

definition EmitSendPacketEvent :: "Packet \<Rightarrow> Channel \<Rightarrow> Height \<Rightarrow> Event list result" where
  "EmitSendPacketEvent packet channel timeoutHeight =
     (case hop_attribute channel of Inl e \<Rightarrow> Inl e | Inr hop \<Rightarrow>
      Inr [NewEvent EventTypeSendPacket (data_attributes packet @ route_attributes packet timeoutHeight @
             [NewAttribute AttributeKeyChannelOrdering (Order_String (chan_Ordering channel))] @ hop), message_event])"

definition EmitRecvPacketEvent :: "Packet \<Rightarrow> Channel \<Rightarrow> Event list result" where
  "EmitRecvPacketEvent packet channel =
     (case hop_attribute channel of Inl e \<Rightarrow> Inl e | Inr hop \<Rightarrow>
      Inr [NewEvent EventTypeRecvPacket (data_attributes packet @ route_attributes packet (TimeoutHeight packet) @
             [NewAttribute AttributeKeyChannelOrdering (Order_String (chan_Ordering channel))] @ hop), message_event])"

definition EmitWriteAcknowledgementEvent :: "Packet \<Rightarrow> Channel \<Rightarrow> bytes \<Rightarrow> Event list result" where
  "EmitWriteAcknowledgementEvent packet channel acknowledgement =
     (case hop_attribute channel of Inl e \<Rightarrow> Inl e | Inr hop \<Rightarrow>
      Inr [NewEvent EventTypeWriteAck (data_attributes packet @ route_attributes packet (TimeoutHeight packet) @
             [NewAttribute AttributeKeyAck acknowledgement, NewAttribute AttributeKeyAckHex (EncodeToString acknowledgement)] @ hop), message_event])"

definition EmitAcknowledgePacketEvent :: "Packet \<Rightarrow> Channel \<Rightarrow> Event list result" where
  "EmitAcknowledgePacketEvent packet channel =
     (case hop_attribute channel of Inl e \<Rightarrow> Inl e | Inr hop \<Rightarrow>
      Inr [NewEvent EventTypeAcknowledgePacket (route_attributes packet (TimeoutHeight packet) @
             [NewAttribute AttributeKeyChannelOrdering (Order_String (chan_Ordering channel))] @ hop), message_event])"

definition EmitTimeoutPacketEvent :: "Packet \<Rightarrow> Channel \<Rightarrow> Event list" where
  "EmitTimeoutPacketEvent packet channel =
     [NewEvent EventTypeTimeoutPacket (route_attributes packet (TimeoutHeight packet) @
        [NewAttribute AttributeKeyChannelOrdering (Order_String (chan_Ordering channel))]), message_event]"

subsection \<open>What a relayer reads\<close>

text \<open>The value of the first attribute with a key, and the packet that an event describes, by the attributes that are not deprecated.\<close>

definition attribute_of :: "Event \<Rightarrow> string \<Rightarrow> string option" where
  "attribute_of ev k = map_option attr_Value (find (\<lambda>a. attr_Key a = k) (ev_Attributes ev))"

definition read_packet :: "Event \<Rightarrow> Packet option" where
  "read_packet ev =
     Option.bind (Option.bind (attribute_of ev AttributeKeyDataHex) hex_decode) (\<lambda>data.
     Option.bind (Option.bind (attribute_of ev AttributeKeySequence) parse_uint64) (\<lambda>sequence.
     Option.bind (attribute_of ev AttributeKeySrcPort) (\<lambda>sourcePort.
     Option.bind (attribute_of ev AttributeKeySrcChannel) (\<lambda>sourceChannel.
     Option.bind (attribute_of ev AttributeKeyDstPort) (\<lambda>destinationPort.
     Option.bind (attribute_of ev AttributeKeyDstChannel) (\<lambda>destinationChannel.
     Option.bind (Option.bind (attribute_of ev AttributeKeyTimeoutHeight) (\<lambda>t. case ParseHeight t of Inl _ \<Rightarrow> None | Inr h \<Rightarrow> Some h)) (\<lambda>timeoutHeight.
     Option.bind (Option.bind (attribute_of ev AttributeKeyTimeoutTimestamp) parse_uint64) (\<lambda>timeoutTimestamp.
     Some (NewPacket data sequence sourcePort sourceChannel destinationPort destinationChannel timeoutHeight timeoutTimestamp)))))))))"

definition read_ack :: "Event \<Rightarrow> bytes option" where
  "read_ack ev = Option.bind (attribute_of ev AttributeKeyAckHex) hex_decode"

lemma hex_lower_digit_unhex: "n < 16 \<Longrightarrow> is_hex (hex_lower_digit n) \<and> unhex (hex_lower_digit n) = n"
  by (auto simp: hex_lower_digit_def is_hex_def unhex_def Let_def)

lemma hex_decode_EncodeToString: "hex_decode (EncodeToString bs) = Some bs"
proof (induction bs)
  case (Cons c bs)
  have "(of_char c :: nat) < 256" by (rule nat_of_char_less_256)
  then have "of_char c div 16 < (16 :: nat)" "of_char c mod 16 < (16 :: nat)" by (auto simp: less_mult_imp_div_less)
  from this [THEN hex_lower_digit_unhex] Cons show ?case by (simp add: EncodeToString_def)
qed (simp add: EncodeToString_def)

lemma read_event_packet:
  "read_packet (NewEvent ty (data_attributes p @ route_attributes p (TimeoutHeight p) @ rest)) = Some p"
  by (cases p) (simp add: read_packet_def attribute_of_def NewEvent_def data_attributes_def route_attributes_def NewAttribute_def attribute_keys
      hex_decode_EncodeToString parse_show_u64 ParseHeight_String NewPacket_def)

lemma read_ack_event:
  "read_ack (NewEvent ty (data_attributes p @ route_attributes p h @
     NewAttribute AttributeKeyAck ack # NewAttribute AttributeKeyAckHex (EncodeToString ack) # rest)) = Some ack"
  by (simp add: read_ack_def attribute_of_def NewEvent_def data_attributes_def route_attributes_def NewAttribute_def attribute_keys
      hex_decode_EncodeToString)

lemma hop_of_event:
  "attribute_of (NewEvent ty (data_attributes p @ route_attributes p h @ [NewAttribute AttributeKeyChannelOrdering ord, NewAttribute AttributeKeyConnection hop]))
     AttributeKeyConnection = Some hop"
  by (simp add: attribute_of_def NewEvent_def data_attributes_def route_attributes_def NewAttribute_def attribute_keys)

lemma hop_connection_hop: "hop_connection s hops = Inr c \<Longrightarrow> \<exists>hop rest. hops = hop # rest \<and> connections s hop = Some c"
  by (cases hops) (auto simp: hop_connection_def first_hop_def GetConnection_def split: option.splits)

lemma SendPacket_channel:
  assumes "SendPacket E ctx s cap p = Inr s'"
  obtains channel hop rest where "GetChannel s (SourcePort p) (SourceChannel p) = Some channel" "chan_ConnectionHops channel = hop # rest"
    "connections s hop \<noteq> None"
  using assms by (auto simp: SendPacket_def Let_def result_elims dest!: hop_connection_hop)

lemma RecvPacket_channel:
  assumes "RecvPacket E ctx s cap p pf h = Inr s'"
  obtains channel hop rest where "GetChannel s (DestinationPort p) (DestinationChannel p) = Some channel" "chan_ConnectionHops channel = hop # rest"
    "connections s hop \<noteq> None"
  using assms by (auto simp: RecvPacket_def open_connection_def Let_def result_elims dest!: hop_connection_hop)

text \<open>
  C38: When a packet is sent, and when one is received, the channel has a first hop, so that the events can be built, and the first event
  carries the packet completely: a relayer that decodes the hexadecimal data and parses the sequence and the timeout gets back the very
  packet that was committed, with the connection it belongs to. The event of the acknowledgement that the receiver then writes carries
  the packet and the acknowledgement.
\<close>

theorem events_carry_the_packet:
  assumes "SendPacket E ctx s cap p = Inr s'" and "RecvPacket E' ctx' r cap' q pf h = Inr r'"
  shows "(\<exists>channel hop ev rest. GetChannel s (SourcePort p) (SourceChannel p) = Some channel \<and> connections s hop \<noteq> None \<and>
           EmitSendPacketEvent p channel (TimeoutHeight p) = Inr (ev # rest) \<and>
           read_packet ev = Some p \<and> attribute_of ev AttributeKeyConnection = Some hop) \<and>
         (\<exists>channel hop ev rest ackEv rest'. GetChannel r (DestinationPort q) (DestinationChannel q) = Some channel \<and> connections r hop \<noteq> None \<and>
           EmitRecvPacketEvent q channel = Inr (ev # rest) \<and>
           read_packet ev = Some q \<and> attribute_of ev AttributeKeyConnection = Some hop \<and>
           EmitWriteAcknowledgementEvent q channel ack = Inr (ackEv # rest') \<and>
           read_packet ackEv = Some q \<and> read_ack ackEv = Some ack)"
proof (intro conjI)
  from assms(1) obtain channel hop rest where "GetChannel s (SourcePort p) (SourceChannel p) = Some channel"
    "chan_ConnectionHops channel = hop # rest" "connections s hop \<noteq> None" by (rule SendPacket_channel)
  then show "\<exists>channel hop ev rest. GetChannel s (SourcePort p) (SourceChannel p) = Some channel \<and> connections s hop \<noteq> None \<and>
      EmitSendPacketEvent p channel (TimeoutHeight p) = Inr (ev # rest) \<and> read_packet ev = Some p \<and>
      attribute_of ev AttributeKeyConnection = Some hop"
    by (intro exI [of _ channel] exI [of _ hop]) (simp add: EmitSendPacketEvent_def hop_attribute_def read_event_packet hop_of_event)
  from assms(2) obtain channel hop rest where "GetChannel r (DestinationPort q) (DestinationChannel q) = Some channel"
    "chan_ConnectionHops channel = hop # rest" "connections r hop \<noteq> None" by (rule RecvPacket_channel)
  then show "\<exists>channel hop ev rest ackEv rest'. GetChannel r (DestinationPort q) (DestinationChannel q) = Some channel \<and> connections r hop \<noteq> None \<and>
      EmitRecvPacketEvent q channel = Inr (ev # rest) \<and> read_packet ev = Some q \<and> attribute_of ev AttributeKeyConnection = Some hop \<and>
      EmitWriteAcknowledgementEvent q channel ack = Inr (ackEv # rest') \<and> read_packet ackEv = Some q \<and> read_ack ackEv = Some ack"
    by (intro exI [of _ channel] exI [of _ hop])
      (simp add: EmitRecvPacketEvent_def EmitWriteAcknowledgementEvent_def hop_attribute_def read_event_packet hop_of_event read_ack_event)
qed

text \<open>The demonstration chain sends its next packet and receives one from the other end.\<close>

theorem events_carry_the_packet_witness:
  "\<exists>channel ev rest ackEv rest'. GetChannel (demo_flow []) ''transfer'' ''channel-0'' = Some channel \<and>
     EmitSendPacketEvent (NewPacket ''data'' 2 ''transfer'' ''channel-0'' ''transfer'' ''channel-7'' (Height 1 1000) 0) channel (Height 1 1000) = Inr (ev # rest) \<and>
     read_packet ev = Some (NewPacket ''data'' 2 ''transfer'' ''channel-0'' ''transfer'' ''channel-7'' (Height 1 1000) 0) \<and>
     EmitWriteAcknowledgementEvent demo_in channel ''ok'' = Inr (ackEv # rest') \<and> read_ack ackEv = Some ''ok''"
proof -
  obtain s' where s: "SendPacket demo_kenv demo_ctx (demo_flow []) None
      (NewPacket ''data'' 2 ''transfer'' ''channel-0'' ''transfer'' ''channel-7'' (Height 1 1000) 0) = Inr s'"
    using demo_sends by blast
  obtain r' where r: "RecvPacket demo_kenv demo_ctx (demo_flow []) None demo_in ''p'' (Height 1 5) = Inr r'"
    using demo_recv by blast
  have "DestinationPort demo_in = ''transfer''" "DestinationChannel demo_in = ''channel-0''" by (simp_all add: demo_in_def NewPacket_def)
  with events_carry_the_packet [OF s r, where ack = "''ok''"] show ?thesis by (auto simp: NewPacket_def)
qed

end
