(* ===== verification/ModuleGenesis.thy ===== *)
theory ModuleGenesis
  imports TransferGenesis StoreMigration IcaHost IcaController
begin

text \<open>
  What the SDK calls of the modules (\<^verbatim>\<open>module.go\<close> of the core module, of transfer and of interchain accounts, \<^verbatim>\<open>core/keeper/keeper.go\<close>,
  \<^verbatim>\<open>core/02-client/keeper/migrations.go\<close>): the genesis functions on raw JSON, the begin blocker, the migration and the router.
  The JSON codec of each genesis state is a parameter. The registration functions of \<^verbatim>\<open>module.go\<close> and its functions without a body are
  left out.

  The lemmas show that the default genesis state of each module passes its own validation, that a router is set once, and that
  the genesis state of an interchain accounts module without one of its keepers has the default in that place.
\<close>

record 'g json_codec =
  js_Marshal :: "'g \<Rightarrow> bytes option"
  js_Unmarshal :: "bytes \<Rightarrow> 'g option"

definition MustMarshalJSON :: "'g json_codec \<Rightarrow> 'g \<Rightarrow> bytes result" where
  "MustMarshalJSON J gs = (case js_Marshal J gs of None \<Rightarrow> Inl Panic | Some bz \<Rightarrow> Inr bz)"

definition MustUnmarshalJSON :: "'g json_codec \<Rightarrow> bytes \<Rightarrow> 'g result" where
  "MustUnmarshalJSON J bz = (case js_Unmarshal J bz of None \<Rightarrow> Inl Panic | Some gs \<Rightarrow> Inr gs)"

definition validate_json :: "'g json_codec \<Rightarrow> ('g \<Rightarrow> unit result) \<Rightarrow> bytes \<Rightarrow> unit result" where
  "validate_json J validate bz = (case from_ext ''json'' (js_Unmarshal J bz) of Inl e \<Rightarrow> Inl e | Inr gs \<Rightarrow> validate gs)"

subsection \<open>The core module (core/module.go, core/keeper/keeper.go)\<close>

definition core_module_DefaultGenesis :: "core_GenesisState json_codec \<Rightarrow> bytes result" where
  "core_module_DefaultGenesis J = MustMarshalJSON J core_DefaultGenesisState"

definition core_module_ValidateGenesis :: "'x env_scheme \<Rightarrow> core_GenesisState json_codec \<Rightarrow> bytes \<Rightarrow> unit result" where
  "core_module_ValidateGenesis E J bz = validate_json J (core_GenesisState_Validate E) bz"

definition core_module_InitGenesis :: "('k, 'x) store_env_scheme \<Rightarrow> core_GenesisState json_codec \<Rightarrow> 'k ibc_state \<Rightarrow> bytes \<Rightarrow> 'k ibc_state result" where
  "core_module_InitGenesis E J s bz = (case MustUnmarshalJSON J bz of Inl e \<Rightarrow> Inl e | Inr gs \<Rightarrow> core_InitGenesis E s gs)"

definition core_module_ExportGenesis :: "('k, 'x) store_env_scheme \<Rightarrow> core_GenesisState json_codec \<Rightarrow> 'k ibc_state \<Rightarrow> bytes result" where
  "core_module_ExportGenesis E J s = (case core_ExportGenesis E s of Inl e \<Rightarrow> Inl e | Inr gs \<Rightarrow> MustMarshalJSON J gs)"

definition Migrate1to2 :: "('k, 'x) migration_env_scheme \<Rightarrow> ctx \<Rightarrow> bytes list \<Rightarrow> 'k legacy_state \<Rightarrow> 'k legacy_state result" where
  "Migrate1to2 E ctx keys s = MigrateStore E ctx keys s"

definition core_module_BeginBlock :: "'x env_scheme \<Rightarrow> 'u upgrade_keeper \<Rightarrow> ctx \<Rightarrow> 'u \<Rightarrow> 'k ibc_state \<Rightarrow> ('u \<times> 'k ibc_state) result" where
  "core_module_BeginBlock E U ctx u s = client_BeginBlocker E U ctx u s"

text \<open>The router of the keeper, which is nil at first; \<^verbatim>\<open>Seal\<close> panics on a router that is sealed already.\<close>

definition SetRouter :: "('k, 'a) Router option \<Rightarrow> ('k, 'a) Router \<Rightarrow> ('k, 'a) Router option result" where
  "SetRouter router rtr =
     (if (case router of None \<Rightarrow> False | Some r \<Rightarrow> sealed r) then Inl Panic
      else case Seal rtr of Inl e \<Rightarrow> Inl e | Inr rtr \<Rightarrow> Inr (Some rtr))"

subsection \<open>Transfer (apps/transfer/module.go)\<close>

definition transfer_module_DefaultGenesis :: "transfer_GenesisState json_codec \<Rightarrow> bytes result" where
  "transfer_module_DefaultGenesis J = MustMarshalJSON J transfer_DefaultGenesisState"

definition transfer_module_ValidateGenesis :: "transfer_GenesisState json_codec \<Rightarrow> bytes \<Rightarrow> unit result" where
  "transfer_module_ValidateGenesis J bz = validate_json J transfer_GenesisState_Validate bz"

definition transfer_module_InitGenesis :: "('k, 'b, 'x) transfer_env_scheme \<Rightarrow> transfer_GenesisState json_codec \<Rightarrow> ('k, 'b) transfer_world \<Rightarrow> bytes \<Rightarrow>
    ('k, 'b) transfer_world result" where
  "transfer_module_InitGenesis E J w bz = (case MustUnmarshalJSON J bz of Inl e \<Rightarrow> Inl e | Inr gs \<Rightarrow> transfer_InitGenesis E w gs)"

definition transfer_module_ExportGenesis :: "('k, 'b, 'x) trace_env_scheme \<Rightarrow> transfer_GenesisState json_codec \<Rightarrow> ('k, 'b) transfer_world \<Rightarrow> bytes result" where
  "transfer_module_ExportGenesis E J w = MustMarshalJSON J (transfer_ExportGenesis E (w_app w))"

subsection \<open>Interchain accounts (apps/27-interchain-accounts/module.go)\<close>

text \<open>A chain may run only one of the submodules: the state of the other is then absent. Each submodule has its own scoped capability keeper.\<close>

definition ica_module_DefaultGenesis :: "ica_GenesisState json_codec \<Rightarrow> bytes result" where
  "ica_module_DefaultGenesis J = MustMarshalJSON J ica_DefaultGenesis"

definition ica_module_ValidateGenesis :: "ica_GenesisState json_codec \<Rightarrow> bytes \<Rightarrow> unit result" where
  "ica_module_ValidateGenesis J bz = validate_json J ica_GenesisState_Validate bz"

definition init_submodule :: "(('k, 'a) world \<Rightarrow> 'g \<Rightarrow> ('k, 'a) world result) \<Rightarrow> 'k ibc_state \<Rightarrow> 'a option \<Rightarrow> 'g \<Rightarrow> ('k ibc_state \<times> 'a option) result" where
  "init_submodule initGenesis s keeper gs =
     (case keeper of None \<Rightarrow> Inr (s, None) | Some st \<Rightarrow>
     (case initGenesis \<lparr> w_ibc = s, w_app = st \<rparr> gs of Inl e \<Rightarrow> Inl e | Inr w \<Rightarrow> Inr (w_ibc w, Some (w_app w))))"

definition ica_module_InitGenesis :: "('k, 'm, 'c, 'x) ica_env_scheme \<Rightarrow> ('k, 'm, 'c, 'x) ica_env_scheme \<Rightarrow> ica_GenesisState json_codec \<Rightarrow> 'k ibc_state \<Rightarrow>
    (controller_Params, 'c) ica_state option \<Rightarrow> (host_Params, 'c) ica_state option \<Rightarrow> bytes \<Rightarrow>
    ('k ibc_state \<times> (controller_Params, 'c) ica_state option \<times> (host_Params, 'c) ica_state option) result" where
  "ica_module_InitGenesis Ec Eh J s controllerKeeper hostKeeper bz =
     (case MustUnmarshalJSON J bz of Inl e \<Rightarrow> Inl e | Inr gs \<Rightarrow>
     (case init_submodule (controller_InitGenesis Ec) s controllerKeeper (igs_Controller gs) of Inl e \<Rightarrow> Inl e | Inr (s, controllerKeeper) \<Rightarrow>
     (case init_submodule (host_InitGenesis Eh) s hostKeeper (igs_Host gs) of Inl e \<Rightarrow> Inl e | Inr (s, hostKeeper) \<Rightarrow>
      Inr (s, controllerKeeper, hostKeeper))))"

definition ica_module_ExportGenesis :: "('k, 'm, 'c, 'x) ica_env_scheme \<Rightarrow> ica_GenesisState json_codec \<Rightarrow>
    (controller_Params, 'c) ica_state option \<Rightarrow> (host_Params, 'c) ica_state option \<Rightarrow> bytes result" where
  "ica_module_ExportGenesis E J controllerKeeper hostKeeper =
     (case (case controllerKeeper of None \<Rightarrow> Inr DefaultControllerGenesis | Some st \<Rightarrow> controller_ExportGenesis E st) of Inl e \<Rightarrow> Inl e | Inr controllerGenesisState \<Rightarrow>
     (case (case hostKeeper of None \<Rightarrow> Inr DefaultHostGenesis | Some st \<Rightarrow> host_ExportGenesis E st) of Inl e \<Rightarrow> Inl e | Inr hostGenesisState \<Rightarrow>
      MustMarshalJSON J \<lparr> igs_Controller = controllerGenesisState, igs_Host = hostGenesisState \<rparr>))"

subsection \<open>Default states and a single router\<close>

lemma validate_json_marshalled:
  "MustMarshalJSON J gs = Inr bz \<Longrightarrow> js_Unmarshal J bz = Some gs \<Longrightarrow> validate_json J v bz = v gs"
  by (simp add: validate_json_def from_ext_def)

lemma core_default_valid: "core_GenesisState_Validate E core_DefaultGenesisState = Inr ()"
proof -
  have "validateClients DefaultAllowedClients = Inr ()" "conn_GenesisState_Validate conn_DefaultGenesisState = Inr ()"
    "chan_GenesisState_Validate chan_DefaultGenesisState = Inr ()" by code_simp+
  moreover from this(1) have "client_GenesisState_Validate E client_DefaultGenesisState = Inr ()"
    by (simp add: client_GenesisState_Validate_def client_DefaultGenesisState_def require_def)
  ultimately show ?thesis by (simp add: core_GenesisState_Validate_def core_DefaultGenesisState_def)
qed

lemma transfer_default_valid: "transfer_GenesisState_Validate transfer_DefaultGenesisState = Inr ()"
  by code_simp

lemma ica_default_valid: "ica_GenesisState_Validate ica_DefaultGenesis = Inr ()"
  by code_simp

lemma default_genesis_accepted:
  "core_module_DefaultGenesis Jc = Inr bz \<Longrightarrow> js_Unmarshal Jc bz = Some core_DefaultGenesisState \<Longrightarrow> core_module_ValidateGenesis E Jc bz = Inr ()"
  "transfer_module_DefaultGenesis Jt = Inr bz \<Longrightarrow> js_Unmarshal Jt bz = Some transfer_DefaultGenesisState \<Longrightarrow> transfer_module_ValidateGenesis Jt bz = Inr ()"
  "ica_module_DefaultGenesis Ji = Inr bz \<Longrightarrow> js_Unmarshal Ji bz = Some ica_DefaultGenesis \<Longrightarrow> ica_module_ValidateGenesis Ji bz = Inr ()"
  by (simp_all add: core_module_DefaultGenesis_def core_module_ValidateGenesis_def transfer_module_DefaultGenesis_def transfer_module_ValidateGenesis_def
      ica_module_DefaultGenesis_def ica_module_ValidateGenesis_def validate_json_marshalled core_default_valid transfer_default_valid ica_default_valid)

lemma SetRouter_once:
  assumes "SetRouter router rtr = Inr router'"
  shows "SetRouter router' other = Inl Panic"
  using assms by (auto simp: SetRouter_def Seal_def split: if_splits)

lemma absent_submodules_export_defaults:
  assumes "ica_module_ExportGenesis E J None None = Inr bz" "js_Unmarshal J bz = Some gs" "\<And>g b. js_Marshal J g = Some b \<Longrightarrow> js_Unmarshal J b = Some g"
  shows "gs = ica_DefaultGenesis" "ica_module_ValidateGenesis J bz = Inr ()"
proof -
  from assms have "Some gs = Some ica_DefaultGenesis"
    by (auto simp: ica_module_ExportGenesis_def MustMarshalJSON_def ica_DefaultGenesis_def split: option.splits)
  then show "gs = ica_DefaultGenesis" by simp
  with assms(2) show "ica_module_ValidateGenesis J bz = Inr ()"
    by (simp add: ica_module_ValidateGenesis_def validate_json_def from_ext_def ica_default_valid)
qed

end
