(* ===== verification/Spec2Isabelle.thy ===== *)
theory Spec2Isabelle
  imports TransferExamples IcaExamples GenesisExamples PacketLiveness MsgConstructors QueryExamples MigrationExamples
    TransferGenesisExamples CommandLineExamples PacketEvents
    ModuleGenesis
begin

text \<open>
  Verification of ibc-go, the Go implementation of the Inter-Blockchain Communication protocol
  for the Cosmos SDK.

  \<^bold>\<open>The program and its parts.\<close> A chain that speaks IBC keeps, in one key-value store, light
  clients of other chains, connections over those clients, channels over those connections and
  the packets on those channels. Relayers submit messages with Merkle proofs of what the other
  chain has stored; the core module checks the proof with the light client and changes its
  own store accordingly. Applications (token transfer, interchain accounts) own ports, are called
  back by the core module at every step of a channel and of a packet, and send packets
  themselves. All paths below are under \<^verbatim>\<open>src/modules\<close>.

  \<^bold>\<open>Conventions.\<close> A Go string or byte slice is a list of \<^typ>\<open>char\<close>. A nil slice and an empty one are the same
  list, as they are after a pass through the protobuf codec; so a check such as \<^verbatim>\<open>proof == nil\<close> is a check for the empty list, and a genesis
  state has no nil packet data and no nil \<^verbatim>\<open>Any\<close>. A \<^verbatim>\<open>uint64\<close> is a 64-bit
  word, so sums wrap as they do in Go; \<^verbatim>\<open>sdk.Int\<close> is an integer. A function that returns an
  error is a function into a sum with the error on the left, and a panic is an error of its own
  (\<open>Panic\<close>), which aborts a transaction like any other error. A keeper is a function from
  the state of the module to a new state and a result. The store is the record \<open>ibc_state\<close> with a
  field per kind of entry; \<open>StoreLayout\<close> shows that the paths under which the code keeps those
  entries never coincide, so that a field per kind is what the store is. What the sources only
  call (the protobuf codec, Tendermint's \<^verbatim>\<open>light.Verify\<close>, the ics23 library, signature
  schemes, the bank, account, staking, upgrade and capability keepers, the message router and the
  iterators of the store) is a field of an environment record, and a theorem that relies on it
  names what it relies on as a hypothesis. What is taken of the SDK's account and capability keepers is stated in
  \<open>IcaSafety\<close> and holds there for the concrete keepers of \<open>IcaExamples\<close>.

  \<^bold>\<open>Theories, in the order of their imports.\<close>
  \<^item> \<open>IBC_Prelude\<close>: results, guards, decimal and hexadecimal text, string functions of Go's
    library, and the rewrite and split collections that carry the later proofs.
    \<open>IBC_Errors\<close>: the sentinel errors of every \<^verbatim>\<open>errors.go\<close>.
  \<^item> \<open>Host\<close>: \<^verbatim>\<open>core/24-host\<close>. Identifier validation, every path builder, the parsers. The parsers
    invert the builders.
  \<^item> \<open>Height\<close>: \<^verbatim>\<open>core/02-client/types/height.go\<close>. The order of heights, revision numbers of chain
    identifiers. \<open>Sha256\<close>, \<open>Float64\<close>: the parts of Go's library that the results depend on,
    FIPS 180-4 and IEEE 754 doubles.
  \<^item> \<open>Commitment\<close>: \<^verbatim>\<open>core/23-commitment\<close>. Chained proof verification accepts exactly the chains
    of existence proofs, and accepted proofs bind the value.
  \<^item> \<open>ConnectionTypes\<close>, \<open>ChannelTypes\<close>: \<^verbatim>\<open>core/03-connection/types\<close> and
    \<^verbatim>\<open>core/04-channel/types\<close>. Version negotiation, packet commitments.
  \<^item> \<open>LightClientTypes\<close>, \<open>Solomachine\<close>, \<open>Tendermint\<close>, \<open>LocalhostClient\<close>: \<^verbatim>\<open>light-clients\<close>. The three
    client types, with the interface of \<^verbatim>\<open>core/exported\<close> as a datatype over them. Headers,
    misbehaviour, upgrades, substitution, delay periods, pruning.
  \<^item> \<open>IbcState\<close>, \<open>ClientKeeper\<close>, \<open>ConnectionKeeper\<close>, \<open>ChannelKeeper\<close>, \<open>PacketFlow\<close>: the keepers of
    \<^verbatim>\<open>core/02-client\<close>, \<^verbatim>\<open>core/03-connection\<close>, \<^verbatim>\<open>core/05-port\<close> and \<^verbatim>\<open>core/04-channel\<close>. Each has its
    invariant, what an accepted step proves of the counterparty, and the abstract state
    machine that its handshake refines.
  \<^item> \<open>Msgs\<close>, \<open>MsgServer\<close>: the messages with their stateless validation, and \<^verbatim>\<open>core/keeper/msg_server.go\<close>
    with the router and the application callbacks; the ante decorator of \<^verbatim>\<open>core/ante\<close>.
  \<^item> \<open>CoreInvariant\<close>, \<open>MsgRuns\<close>: the invariant of the whole core module over every run of messages,
    proposals, begin blockers and application actions; exactly-once delivery and completion.
    Applications enter through a locale that says what a callback may do to the core state.
  \<^item> \<open>StoreLayout\<close>, \<open>StoreIteration\<close>, \<open>CoreGenesis\<close>, \<open>GenesisExamples\<close>: the layout of the store, the loops
    over it, and the genesis state with its validation, import and export.
  \<^item> \<open>PacketLiveness\<close>, \<open>MsgConstructors\<close>: a packet in flight can always be received or timed out, and
    the relayer's messages for it, built by the constructors of \<^verbatim>\<open>types/msgs.go\<close>, pass validation.
    \<open>PacketEvents\<close>: the events of \<^verbatim>\<open>core/04-channel/keeper/events.go\<close>, from which a relayer reads back the whole packet.
  \<^item> \<open>ClientProposals\<close>: the packing of interfaces into \<^verbatim>\<open>Any\<close> values, the codec functions and the governance proposals of
    \<^verbatim>\<open>core/02-client/types\<close> with their handler. A valid proposal recovers a frozen or expired client.
  \<^item> \<open>CoreQueries\<close>, \<open>QueryExamples\<close>: the gRPC queries of \<^verbatim>\<open>core/*/keeper/grpc_query.go\<close>. Pages together list the
    state exactly, and what the queries for unreceived packets and acknowledgements mean.
    \<open>ClientQueries\<close>, \<open>ClientQueryExamples\<close>: the queries of \<^verbatim>\<open>core/client/query.go\<close> and \<^verbatim>\<open>core/*/client/utils\<close>. With a Merkle proof
    they return what they return without one.
  \<^item> \<open>StoreMigration\<close>, \<open>MigrationExamples\<close>: \<^verbatim>\<open>core/02-client/legacy/v100\<close> and \<^verbatim>\<open>core/legacy/v100\<close>. What the
    migration of client stores and genesis files leaves behind, and when it cannot succeed.
  \<^item> \<open>TransferTypes\<close>, \<open>TransferKeeper\<close>, \<open>TransferSafety\<close>, \<open>TransferChain\<close>, \<open>TransferExamples\<close>:
    \<^verbatim>\<open>apps/transfer\<close>. What moves between accounts, refunds, vouchers, and the
    application on a chain with the core module. \<open>TransferGenesis\<close>, \<open>TransferGenesisExamples\<close>: the denomination traces as a
    whole, in the genesis state and in the queries.
  \<^item> \<open>IcaTypes\<close>, \<open>IcaHost\<close>, \<open>IcaController\<close>, \<open>IcaSafety\<close>, \<open>IcaExamples\<close>:
    \<^verbatim>\<open>apps/27-interchain-accounts\<close>. Which transactions the host executes, the agreement of
    the two chains on accounts and transactions, what becomes of a port whose account exists already over every
    run of the host chain, and the genesis state of the controller.
  \<^item> \<open>CommandLine\<close>, \<open>CommandLineExamples\<close>: the commands of \<^verbatim>\<open>client/cli\<close>. The timeouts that the transfer command
    computes, and which arguments may be files.
  \<^item> \<open>ModuleGenesis\<close>: what the SDK calls of \<^verbatim>\<open>module.go\<close>. Default genesis states are valid, and a router is set once.

  \<^bold>\<open>Bounds and side conditions.\<close> No definition uses fuel: loops are recursions over lists or
  have a termination proof. The identifier counters and the packet sequences are 64-bit and wrap;
  theorems about fresh identifiers and sequences assume that the counter is not the largest word. The sequence of a solo
  machine wraps too, so that its signatures are shown to be spent for runs of fewer than \<open>2 ^ 64 - 1\<close> steps.
  The loops over the clients look for paths that end in \<^verbatim>\<open>clientState\<close>; the sixteen height bytes
  that end an iteration key of the Tendermint client could spell that for revision heights from
  \<open>2 ^ 56\<close> on, so the theorems on listing the store assume smaller iteration heights, and
  identifiers without slashes, which validation guarantees.

  \<^bold>\<open>Not modelled.\<close> Telemetry, logging and the events other than those of packets, which change no state (the
  channel events read the first connection hop, which validated messages have). The trees of commands
  (\<^verbatim>\<open>cli.go\<close>) and the registration of codecs, routes and services with the SDK (\<^verbatim>\<open>module.go\<close>), which only call
  other code. The generated protobuf and gateway code (\<^verbatim>\<open>*.pb.go\<close>, \<^verbatim>\<open>*.pb.gw.go\<close>): the
  records and datatypes of the model follow the message types, the wire encoding is a parameter.
  The simulation, the test chains of \<^verbatim>\<open>src/testing\<close> and the documentation. The mock methods of the legacy
  solo machine types, which all panic.
\<close>

end
